(* ===== verification/Prelude.thy ===== *)
theory Prelude imports Main begin

text \<open>
  Shared ground of the development: the collections of rewrite rules the component theories
  extend, the parts of the JavaScript runtime the modelled sources use (\<open>String(n)\<close>,
  \<open>Array.join\<close>, string truthiness, \<open>Date\<close> values with their NaN case), results of code that may
  throw, and generic lemmas on lists.

  Conventions.  A TypeScript interface is a \<open>record\<close> whose field names carry a short prefix
  (the same field name occurs in many interfaces); a string union is a \<open>datatype\<close>; a thrown
  error is \<open>Inl\<close> and a returned value \<open>Inr\<close>; \<open>T | null\<close> is \<open>'a option\<close>.  Clock readings and
  generated identifiers (\<open>Date.now()\<close>, \<open>crypto.randomUUID()\<close>) are arguments.
\<close>

section \<open>Rule collections\<close>

named_theorems fsm_tables \<open>transition tables and the functions that read them\<close>
named_theorems js_simps \<open>evaluation rules for the modelled JavaScript runtime\<close>
named_theorems factory_defs \<open>functions of the sources that build a record\<close>

type_synonym millis = int
type_synonym 'a result = "string + 'a"

section \<open>Truthiness and decimal printing\<close>

text \<open>A JavaScript string is truthy exactly when it is not empty.\<close>

abbreviation truthy :: "string \<Rightarrow> bool" where
  "truthy s \<equiv> s \<noteq> []"

text \<open>
  A string is the sequence of its UTF-8 bytes; on ASCII text these are the character codes.
  \<open>quoted\<close> is what a template puts between double quotes.
\<close>

definition quoted :: "string \<Rightarrow> string" where
  "quoted s = CHR 0x22 # s @ [CHR 0x22]"

definition em_dash :: string where
  "em_dash = [CHR 0xE2, CHR 0x80, CHR 0x94]"

definition right_arrow :: string where
  "right_arrow = [CHR 0xE2, CHR 0x86, CHR 0x92]"

text \<open>\<open>a ?? d\<close>: the default replaces \<open>null\<close> only.\<close>

definition nullish :: "'a option \<Rightarrow> 'a \<Rightarrow> 'a" where
  "nullish v d = (case v of None \<Rightarrow> d | Some x \<Rightarrow> x)"

lemma nullish_simps [simp, js_simps]:
  "nullish None d = d" "nullish (Some x) d = x"
  by (simp_all add: nullish_def)

text \<open>\<open>String(n)\<close> for an integer-valued number below the exponent notation threshold.\<close>

definition digit_char :: "nat \<Rightarrow> char" where
  "digit_char d = char_of (48 + d)"

fun show_nat :: "nat \<Rightarrow> string" where
  "show_nat n = (if n < 10 then [digit_char n] else show_nat (n div 10) @ [digit_char (n mod 10)])"

declare show_nat.simps [simp del]

definition show_int :: "int \<Rightarrow> string" where
  "show_int i = (if i < 0 then ''-'' @ show_nat (nat (- i)) else show_nat (nat i))"

definition read_nat :: "string \<Rightarrow> nat" where
  "read_nat s = foldl (\<lambda>a c. a * 10 + (of_char c - 48)) 0 s"

lemma of_char_digit_char [simp]: "d < 10 \<Longrightarrow> of_char (digit_char d) = (48 + d :: nat)"
  by (simp add: digit_char_def)

lemma read_nat_snoc: "read_nat (s @ [c]) = read_nat s * 10 + (of_char c - 48)"
  by (simp add: read_nat_def)

lemma read_show_nat [simp]: "read_nat (show_nat n) = n"
proof (induction n rule: show_nat.induct)
  case (1 n)
  show ?case
  proof (cases "n < 10")
    case True
    then show ?thesis by (simp add: show_nat.simps [of n] read_nat_def)
  next
    case False
    with 1 have "read_nat (show_nat (n div 10)) = n div 10" by blast
    with False show ?thesis by (simp add: show_nat.simps [of n] read_nat_snoc)
  qed
qed

lemma show_nat_inject [simp]: "show_nat m = show_nat n \<longleftrightarrow> m = n"
  by (metis read_show_nat)

definition is_digit :: "char \<Rightarrow> bool" where
  "is_digit c \<longleftrightarrow> 48 \<le> (of_char c :: nat) \<and> (of_char c :: nat) < 58"

lemma show_nat_digits: "c \<in> set (show_nat n) \<Longrightarrow> is_digit c"
proof (induction n rule: show_nat.induct)
  case (1 n)
  show ?case
  proof (cases "n < 10")
    case True
    with 1 show ?thesis by (auto simp: show_nat.simps [of n] is_digit_def)
  next
    case False
    with 1 show ?thesis by (auto simp: show_nat.simps [of n] is_digit_def)
  qed
qed

lemma minus_not_digit [simp]: "\<not> is_digit (CHR ''-'')" "\<not> is_digit (CHR ''|'')" "\<not> is_digit (CHR '':'')"
  by (simp_all add: is_digit_def)

lemma minus_not_in_show_nat [simp]: "CHR ''-'' \<notin> set (show_nat n)"
  using show_nat_digits by fastforce

lemma show_nat_neq_minus [simp]: "show_nat n \<noteq> CHR ''-'' # s" "CHR ''-'' # s \<noteq> show_nat n"
  by (metis list.set_intros(1) minus_not_in_show_nat)+

lemma show_int_inject [simp]: "show_int i = show_int j \<longleftrightarrow> i = j"
  by (auto simp: show_int_def)

lemma show_int_chars: "c \<in> set (show_int i) \<Longrightarrow> is_digit c \<or> c = CHR ''-''"
  by (auto simp: show_int_def dest: show_nat_digits split: if_splits)

lemma sep_not_in_show_int [simp]: "CHR ''|'' \<notin> set (show_int i)" "CHR '':'' \<notin> set (show_int i)"
  using show_int_chars by fastforce+

section \<open>\<open>Array.join\<close>\<close>

fun js_join :: "'a list \<Rightarrow> 'a list list \<Rightarrow> 'a list" where
  "js_join sep [] = []"
| "js_join sep [x] = x"
| "js_join sep (x # y # zs) = x @ sep @ js_join sep (y # zs)"

fun split_on :: "'a \<Rightarrow> 'a list \<Rightarrow> 'a list list" where
  "split_on c [] = [[]]"
| "split_on c (x # xs) =
     (if x = c then [] # split_on c xs
      else (case split_on c xs of [] \<Rightarrow> [[x]] | w # ws \<Rightarrow> (x # w) # ws))"

lemma js_join_Cons: "js_join sep (x # xs) = x @ (if xs = [] then [] else sep @ js_join sep xs)"
  by (cases xs) simp_all

lemma split_on_not_Nil [simp]: "split_on c s \<noteq> []"
  by (induction s) (auto split: list.splits)

lemma split_on_no_sep: "c \<notin> set x \<Longrightarrow> split_on c x = [x]"
  by (induction x) auto

lemma split_on_append: "c \<notin> set x \<Longrightarrow> split_on c (x @ c # s) = x # split_on c s"
  by (induction x) auto

lemma split_js_join:
  assumes "xs \<noteq> []" and "\<forall>x\<in>set xs. c \<notin> set x"
  shows "split_on c (js_join [c] xs) = xs"
  using assms
proof (induction "[c]" xs rule: js_join.induct)
  case (2 x)
  then show ?case by (simp add: split_on_no_sep)
next
  case (3 x y zs)
  then show ?case by (simp add: split_on_append)
qed simp

text \<open>Joining with a separator none of the parts contains loses nothing.\<close>

lemma js_join_inject:
  assumes "\<forall>x\<in>set xs. c \<notin> set x" and "\<forall>y\<in>set ys. c \<notin> set y"
    and "xs \<noteq> []" and "ys \<noteq> []"
  shows "js_join [c] xs = js_join [c] ys \<longleftrightarrow> xs = ys"
  using assms by (metis split_js_join)

text \<open>
  The sources build digests over fields joined with a bar.  Where no field contains the bar and the
  digest function does not collide on the two joined strings, equal digests mean equal fields.
\<close>

definition bar_free :: "string list \<Rightarrow> bool" where
  "bar_free xs \<longleftrightarrow> (\<forall>x\<in>set xs. CHR ''|'' \<notin> set x)"

lemma joined_inject:
  assumes "bar_free xs" "bar_free ys" "xs \<noteq> []" "ys \<noteq> []"
    and "inj_on h {js_join ''|'' xs, js_join ''|'' ys}"
  shows "h (js_join ''|'' xs) = h (js_join ''|'' ys) \<longleftrightarrow> xs = ys"
  using assms by (auto simp: bar_free_def inj_on_def js_join_inject)

section \<open>\<open>Date\<close> values\<close>

text \<open>
  A timestamp field is a string.  \<open>Iso t\<close> is a string \<open>Date.parse\<close> reads as the instant \<open>t\<close> (in
  particular what \<open>toISOString\<close> prints for \<open>t\<close>), \<open>Unparsed s\<close> a string it reads as NaN, among
  them the empty string.  Every comparison with NaN is false.
\<close>

datatype timestamp = Iso millis | Unparsed string

fun date_value :: "timestamp \<Rightarrow> millis option" where
  "date_value (Iso t) = Some t"
| "date_value (Unparsed s) = None"

definition ts_truthy :: "timestamp \<Rightarrow> bool" where
  "ts_truthy ts \<longleftrightarrow> ts \<noteq> Unparsed []"

lemma ts_truthy_simps [simp, js_simps]:
  "ts_truthy (Iso t)" "ts_truthy (Unparsed s) = (s \<noteq> [])"
  by (simp_all add: ts_truthy_def)

text \<open>\<open>now > date\<close>, \<open>now < date\<close> and \<open>date <= now\<close> on numbers, one of which may be NaN.\<close>

definition now_gt :: "millis \<Rightarrow> timestamp \<Rightarrow> bool" where
  "now_gt now ts = (case date_value ts of None \<Rightarrow> False | Some t \<Rightarrow> now > t)"

definition now_lt :: "millis \<Rightarrow> timestamp \<Rightarrow> bool" where
  "now_lt now ts = (case date_value ts of None \<Rightarrow> False | Some t \<Rightarrow> now < t)"

definition date_le_now :: "timestamp \<Rightarrow> millis \<Rightarrow> bool" where
  "date_le_now ts now = (case date_value ts of None \<Rightarrow> False | Some t \<Rightarrow> t \<le> now)"

lemma date_comparisons [simp, js_simps]:
  "now_gt n (Iso t) = (t < n)" "now_gt n (Unparsed s) = False"
  "now_lt n (Iso t) = (n < t)" "now_lt n (Unparsed s) = False"
  "date_le_now (Iso t) n = (t \<le> n)" "date_le_now (Unparsed s) n = False"
  by (simp_all add: now_gt_def now_lt_def date_le_now_def)

section \<open>Chains of guards\<close>

text \<open>
  Many checks of the sources are a chain of early returns.  \<open>first_failure\<close> is their common
  specification: the tag of the first condition that does not hold.
\<close>

fun first_failure :: "(bool \<times> 'e) list \<Rightarrow> 'e option" where
  "first_failure [] = None"
| "first_failure ((ok, e) # cs) = (if ok then first_failure cs else Some e)"

lemma first_failure_None [simp]: "first_failure cs = None \<longleftrightarrow> (\<forall>(ok, e)\<in>set cs. ok)"
  by (induction cs rule: first_failure.induct) auto

lemma first_failure_Some:
  "first_failure cs = Some e \<longleftrightarrow>
     (\<exists>pre post. cs = pre @ (False, e) # post \<and> (\<forall>(ok, e')\<in>set pre. ok))"
proof (induction cs rule: first_failure.induct)
  case 1
  then show ?case by simp
next
  case (2 ok f cs)
  show ?case
  proof (cases ok)
    case True
    have "(\<exists>pre post. (True, f) # cs = pre @ (False, e) # post \<and> (\<forall>(ok, e')\<in>set pre. ok))
        \<longleftrightarrow> (\<exists>pre post. cs = pre @ (False, e) # post \<and> (\<forall>(ok, e')\<in>set pre. ok))"
      (is "?L \<longleftrightarrow> ?R")
    proof
      assume ?L
      then obtain pre post where *: "(True, f) # cs = pre @ (False, e) # post"
        "\<forall>(ok, e')\<in>set pre. ok" by blast
      then obtain pre' where "pre = (True, f) # pre'" by (cases pre) auto
      with * show ?R by auto
    next
      assume ?R
      then obtain pre post where "cs = pre @ (False, e) # post" "\<forall>(ok, e')\<in>set pre. ok" by blast
      then have "(True, f) # cs = ((True, f) # pre) @ (False, e) # post \<and>
          (\<forall>(ok, e')\<in>set ((True, f) # pre). ok)" by simp
      then show ?L by blast
    qed
    with True 2 show ?thesis by simp
  next
    case False
    have "(\<exists>pre post. (False, f) # cs = pre @ (False, e) # post \<and> (\<forall>(ok, e')\<in>set pre. ok))
        \<longleftrightarrow> f = e" by (auto simp: Cons_eq_append_conv)
    with False show ?thesis by simp
  qed
qed

section \<open>Folds that keep the best element\<close>

text \<open>
  \<open>xs.reduce((best, cur) => better(cur, best) ? cur : best)\<close> on a non-empty array.
\<close>

fun reduce_best :: "('a \<Rightarrow> 'a \<Rightarrow> bool) \<Rightarrow> 'a \<Rightarrow> 'a list \<Rightarrow> 'a" where
  "reduce_best better best [] = best"
| "reduce_best better best (x # xs) = reduce_best better (if better x best then x else best) xs"

lemma reduce_best_in: "reduce_best better b xs \<in> insert b (set xs)"
proof (induction xs arbitrary: b)
  case (Cons x xs)
  from Cons.IH [of x] Cons.IH [of b] show ?case by auto
qed simp

text \<open>With a strict comparison of keys, the result is the first of the elements of least key.\<close>

lemma reduce_best_least:
  fixes key :: "'a \<Rightarrow> 'k::linorder"
  assumes "y \<in> insert b (set xs)"
  shows "key (reduce_best (\<lambda>x z. key x < key z) b xs) \<le> key y"
  using assms
proof (induction xs arbitrary: b y)
  case (Cons x xs)
  let ?b = "if key x < key b then x else b"
  have "key (reduce_best (\<lambda>x z. key x < key z) ?b xs) \<le> key ?b" by (rule Cons.IH [OF insertI1])
  moreover have "key ?b \<le> key x" "key ?b \<le> key b" by auto
  moreover have "y \<in> set xs \<Longrightarrow> key (reduce_best (\<lambda>x z. key x < key z) ?b xs) \<le> key y"
    by (rule Cons.IH [OF insertI2])
  ultimately show ?case using Cons.prems by (auto intro: order_trans simp del: if_split)
qed simp

lemma reduce_best_first:
  fixes key :: "'a \<Rightarrow> 'k::linorder"
  assumes "reduce_best (\<lambda>x z. key x < key z) b xs \<noteq> b"
  shows "\<exists>pre post. xs = pre @ reduce_best (\<lambda>x z. key x < key z) b xs # post \<and>
    (\<forall>y\<in>insert b (set pre). key (reduce_best (\<lambda>x z. key x < key z) b xs) < key y)"
  using assms
proof (induction xs arbitrary: b)
  case (Cons x xs)
  let ?c = "if key x < key b then x else b"
  let ?r = "reduce_best (\<lambda>x z. key x < key z) ?c xs"
  show ?case
  proof (cases "?r = ?c")
    case True
    with Cons.prems have "key x < key b" "?r = x" by (auto split: if_splits)
    then have "x # xs = [] @ ?r # xs \<and> (\<forall>y\<in>insert b (set []). key ?r < key y)" by simp
    then show ?thesis unfolding reduce_best.simps by blast
  next
    case False
    from Cons.IH [OF this] obtain pre post where *: "xs = pre @ ?r # post"
      "\<forall>y\<in>insert ?c (set pre). key ?r < key y" by blast
    have "key ?c \<le> key x" "key ?c \<le> key b" by auto
    with * have "\<forall>y\<in>insert b (set (x # pre)). key ?r < key y" by fastforce
    with * show ?thesis by (intro exI [of _ "x # pre"] exI [of _ post]) simp
  qed
qed simp

section \<open>The last occurrence of a separator\<close>

lemma first_occurrence:
  "x @ c # a = y @ c # b \<Longrightarrow> c \<notin> set x \<Longrightarrow> c \<notin> set y \<Longrightarrow> x = y \<and> a = b"
proof (induction x arbitrary: y)
  case Nil
  then show ?case by (cases y) auto
next
  case (Cons d x)
  then show ?case by (cases y) auto
qed

lemma last_occurrence:
  assumes "a @ c # x = b @ c # y" "c \<notin> set x" "c \<notin> set y"
  shows "a = b \<and> x = y"
proof -
  from arg_cong [OF assms(1), of rev] have "rev x @ c # rev a = rev y @ c # rev b" by simp
  from first_occurrence [OF this] assms(2,3) show ?thesis by simp
qed

lemmas last_colon = last_occurrence [where c = "CHR '':''"]

end
