(* ===== verification/Handoff_Types.thy ===== *)
theory Handoff_Types imports Prelude begin

text \<open>
  The data of the KV handoff protocol (\<open>prism/serving/kv_handoff/handoff-types.ts\<close>): string unions
  as datatypes, interfaces as records with the fields in the order of the source.
\<close>

section \<open>Unions\<close>

datatype HandoffMode = simulation_only | future_transport_required

datatype SourceRetentionPolicy =
    retain_until_destination_commit | retain_until_decode_completion
  | release_after_destination_commit | invalidate_after_destination_commit

datatype HandoffCoLocationPolicy =
    HC_same_worker_required | HC_simulated_handoff_required
  | HC_future_transport_required | HC_not_supported

datatype HandoffState =
    HS_draft | HS_requested | HS_source_validating | HS_destination_validating
  | HS_export_preparing | HS_exported | HS_transferring | HS_importing
  | HS_destination_validated | HS_committed | HS_source_disposition_pending | HS_completed
  | HS_rejected | HS_cancelled | HS_timeout | HS_expired | HS_failed | HS_rolled_back
  | HS_degraded_completed | HS_rollback_required

datatype HandoffAction =
    HA_request | HA_validate_source | HA_validate_destination
  | HA_prepare_export | HA_export | HA_transfer | HA_import
  | HA_validate_destination_import | HA_commit | HA_dispose_source | HA_complete
  | HA_reject | HA_cancel | HA_expire | HA_timeout | HA_fail | HA_rollback

datatype CompatibilityMode = CM_strict | CM_family | CM_evaluation

datatype ImportState =
    IS_created | IS_payload_received | IS_integrity_validated | IS_compatibility_validated
  | IS_namespace_materialized | IS_activated | IS_acknowledged | IS_failed | IS_rolled_back

datatype SourceDispositionState = SD_retained | SD_released | SD_invalidated | SD_pending

datatype HandoffFailureClass =
    handoff_authorization_failed | source_export_failed
  | destination_validation_failed | manifest_invalid
  | payload_corrupted | payload_truncated | payload_digest_mismatch
  | transfer_timeout | transfer_cancelled
  | destination_import_failed | destination_activation_failed
  | destination_ack_lost | source_disposition_failed
  | source_restart | destination_restart
  | HF_lease_revoked | HF_request_cancelled | handoff_expired
  | duplicate_delivery | replay_detected

datatype SourceRejectionClass =
    source_worker_unavailable | source_instance_mismatch
  | source_execution_pin_invalid | source_namespace_missing
  | source_namespace_not_exportable | prefill_not_completed
  | source_namespace_invalidated | SR_request_cancelled
  | SR_lease_revoked | artifact_mismatch | tokenizer_mismatch
  | source_capacity_exceeded | handoff_export_not_supported

datatype DestinationRejectionClass =
    destination_worker_unavailable | destination_instance_mismatch
  | destination_decode_unsupported | destination_import_not_supported
  | destination_artifact_mismatch | destination_tokenizer_mismatch
  | destination_layout_incompatible | destination_compute_image_incompatible
  | destination_capacity_exceeded | destination_kv_capacity_exceeded
  | destination_draining | DR_request_cancelled | DR_lease_revoked

section \<open>Interfaces\<close>

record PrismKvHandoffRequest =
  rq_handoffId :: string
  rq_routeId :: string
  rq_requestId :: string
  rq_executionId :: string
  rq_sessionId :: "string option"
  rq_dharmaLeaseId :: "string option"
  rq_sourceWorkerId :: string
  rq_sourceWorkerInstanceId :: string
  rq_destinationWorkerId :: string
  rq_destinationWorkerInstanceId :: string
  rq_sourceKvNamespaceId :: string
  rq_modelArtifactDigest :: string
  rq_tokenizerDigest :: string
  rq_sourceComputeImageDigest :: string
  rq_destinationComputeImageDigest :: string
  rq_handoffMode :: HandoffMode
  rq_sourceRetentionPolicy :: SourceRetentionPolicy
  rq_requestedDeadlineAt :: timestamp
  rq_requestedBy :: string
  rq_authorizationDigest :: string
  rq_createdAt :: timestamp
  rq_signature :: "string option"

record PrismKvCompatibilityDescriptor =
  cd_compatibilityVersion :: int
  cd_modelArtifactDigest :: string
  cd_tokenizerDigest :: string
  cd_architectureDigest :: string
  cd_attentionLayoutDigest :: string
  cd_ropeConfigurationDigest :: string
  cd_kvQuantizationDigest :: string
  cd_kvPrecisionMode :: string
  cd_kvPageShape :: string
  cd_kvHeadLayout :: string
  cd_kvLayerCount :: int
  cd_kvHiddenDimension :: int
  cd_kvSequenceLength :: int
  cd_sourceComputeImageClass :: string
  cd_destinationComputeImageClass :: string
  cd_transferRepresentation :: string
  cd_targetEndianness :: "string option"
  cd_targetAlignmentClass :: "string option"

record PrismKvExportManifest =
  mf_manifestId :: string
  mf_handoffId :: string
  mf_sourceWorkerId :: string
  mf_sourceWorkerInstanceId :: string
  mf_sourceKvNamespaceId :: string
  mf_modelArtifactDigest :: string
  mf_tokenizerDigest :: string
  mf_compatibilityDescriptorDigest :: string
  mf_transferRepresentation :: string
  mf_sequenceLength :: int
  mf_pageCount :: int
  mf_byteLength :: int
  mf_deterministicContentDigest :: string
  mf_exportGeneration :: int
  mf_exportedAt :: timestamp
  mf_expiresAt :: timestamp
  mf_sourceSignature :: string

record PrismKvSimulationPayload =
  pl_payloadId :: string
  pl_handoffId :: string
  pl_sourceKvNamespaceId :: string
  pl_modelArtifactDigest :: string
  pl_tokenizerDigest :: string
  pl_compatibilityDescriptorDigest :: string
  pl_sequenceLength :: int
  pl_layerCount :: int
  pl_pageCount :: int
  pl_byteLength :: int
  pl_deterministicContentDigest :: string
  pl_fixtureSeed :: string
  pl_payloadVersion :: int

record PrismKvImportRecord =
  im_importId :: string
  im_handoffId :: string
  im_destinationWorkerId :: string
  im_destinationWorkerInstanceId :: string
  im_destinationKvNamespaceId :: "string option"
  im_manifestDigest :: string
  im_compatibilityDescriptorDigest :: string
  im_payloadDigest :: string
  im_importGeneration :: int
  im_state :: ImportState
  im_importedAt :: "timestamp option"
  im_validatedAt :: "timestamp option"
  im_activatedAt :: "timestamp option"
  im_failureClass :: "string option"

record SourceDispositionRecord =
  sd_handoffId :: string
  sd_sourceWorkerId :: string
  sd_sourceWorkerInstanceId :: string
  sd_sourceKvNamespaceId :: string
  sd_policy :: SourceRetentionPolicy
  sd_state :: SourceDispositionState
  sd_deadlineAt :: "timestamp option"
  sd_resolvedAt :: "timestamp option"

record PrismKvHandoffReceipt =
  rc_receiptId :: string
  rc_handoffId :: string
  rc_routeId :: string
  rc_requestId :: string
  rc_dharmaLeaseId :: "string option"
  rc_sessionId :: "string option"
  rc_sourceWorkerId :: string
  rc_sourceWorkerInstanceId :: string
  rc_destinationWorkerId :: string
  rc_destinationWorkerInstanceId :: string
  rc_sourceKvNamespaceDigest :: string
  rc_destinationKvNamespaceDigest :: "string option"
  rc_modelArtifactDigest :: string
  rc_tokenizerDigest :: string
  rc_compatibilityDescriptorDigest :: string
  rc_sourceComputeImageDigest :: string
  rc_destinationComputeImageDigest :: string
  rc_transferRepresentation :: string
  rc_handoffMode :: HandoffMode
  rc_manifestDigest :: string
  rc_payloadDigest :: string
  rc_byteLength :: int
  rc_sequenceLength :: int
  rc_pageCount :: int
  rc_sourceExportDurationMs :: "int option"
  rc_transferDurationMs :: "int option"
  rc_destinationImportDurationMs :: "int option"
  rc_totalDurationMs :: int
  rc_sourceDisposition :: string
  rc_finalState :: HandoffState
  rc_failureClass :: "string option"
  rc_emittedAt :: timestamp
  rc_sourceSignature :: string
  rc_destinationSignature :: "string option"
  rc_coordinatorSignature :: string

record PrismDisaggregatedRoutePlan =
  dr_routeId :: string
  dr_requestId :: string
  dr_prefillWorkerId :: string
  dr_decodeWorkerId :: string
  dr_executionPinningPolicy :: HandoffCoLocationPolicy
  dr_handoffRequired :: bool
  dr_handoffId :: "string option"
  dr_handoffMode :: "HandoffMode option"
  dr_compatibilityResult :: "string option"
  dr_sourceRetentionPolicy :: SourceRetentionPolicy
  dr_handoffDeadlineAt :: "timestamp option"
  dr_prefillSelectionReason :: string
  dr_decodeSelectionReason :: string
  dr_handoffSelectionReason :: "string option"
  dr_routeState :: string

record DharmaPrismHandoffPolicy =
  hp_allowSimulatedHandoff :: bool
  hp_allowFutureTransportHandoff :: bool
  hp_allowedSourceWorkers :: "string list"
  hp_allowedDestinationWorkers :: "string list"
  hp_requiredArtifactParityMode :: string
  hp_requiredTransferRepresentation :: "string option"
  hp_maximumHandoffBytes :: int
  hp_maximumHandoffDurationMs :: int
  hp_sourceRetentionPolicy :: SourceRetentionPolicy
  hp_requireHandoffReceipt :: bool
  hp_requireDestinationSignature :: bool

section \<open>Printed names\<close>

text \<open>The string each state is, where a source prints or hashes it.\<close>

fun HandoffState_str :: "HandoffState \<Rightarrow> string" where
  "HandoffState_str HS_draft = ''draft''"
| "HandoffState_str HS_requested = ''requested''"
| "HandoffState_str HS_source_validating = ''source_validating''"
| "HandoffState_str HS_destination_validating = ''destination_validating''"
| "HandoffState_str HS_export_preparing = ''export_preparing''"
| "HandoffState_str HS_exported = ''exported''"
| "HandoffState_str HS_transferring = ''transferring''"
| "HandoffState_str HS_importing = ''importing''"
| "HandoffState_str HS_destination_validated = ''destination_validated''"
| "HandoffState_str HS_committed = ''committed''"
| "HandoffState_str HS_source_disposition_pending = ''source_disposition_pending''"
| "HandoffState_str HS_completed = ''completed''"
| "HandoffState_str HS_rejected = ''rejected''"
| "HandoffState_str HS_cancelled = ''cancelled''"
| "HandoffState_str HS_timeout = ''timeout''"
| "HandoffState_str HS_expired = ''expired''"
| "HandoffState_str HS_failed = ''failed''"
| "HandoffState_str HS_rolled_back = ''rolled_back''"
| "HandoffState_str HS_degraded_completed = ''degraded_completed''"
| "HandoffState_str HS_rollback_required = ''rollback_required''"

fun HandoffMode_str :: "HandoffMode \<Rightarrow> string" where
  "HandoffMode_str simulation_only = ''simulation_only''"
| "HandoffMode_str future_transport_required = ''future_transport_required''"

fun SourceRetentionPolicy_str :: "SourceRetentionPolicy \<Rightarrow> string" where
  "SourceRetentionPolicy_str retain_until_destination_commit = ''retain_until_destination_commit''"
| "SourceRetentionPolicy_str retain_until_decode_completion = ''retain_until_decode_completion''"
| "SourceRetentionPolicy_str release_after_destination_commit = ''release_after_destination_commit''"
| "SourceRetentionPolicy_str invalidate_after_destination_commit =
     ''invalidate_after_destination_commit''"

lemma HandoffState_str_no_bar: "CHR ''|'' \<notin> set (HandoffState_str s)"
  by (cases s) simp_all

end
