(* ===== verification/Transition_Systems.thy ===== *)
theory Transition_Systems imports Prelude begin

text \<open>
  The interface every state machine of the sources has: a table \<open>VALID_..._TRANSITIONS\<close> from a
  state to its successors, and a function that applies a named action to a state and throws when
  the table does not allow the result.  The locales state what such a pair promises; their lemmas
  (bounded runs, absorbing terminal states, agreement of action runs with the table) are proved
  once and interpreted for each machine of the development.
\<close>

section \<open>Tables, paths and action runs\<close>

definition terminal_in :: "('s \<Rightarrow> 's list) \<Rightarrow> 's \<Rightarrow> bool" where
  "terminal_in succs s \<longleftrightarrow> succs s = []"

fun path_in :: "('s \<Rightarrow> 's list) \<Rightarrow> 's \<Rightarrow> 's list \<Rightarrow> bool" where
  "path_in succs s [] = True"
| "path_in succs s (t # ts) = (t \<in> set (succs s) \<and> path_in succs t ts)"

fun run_actions :: "('s \<Rightarrow> 'a \<Rightarrow> 'e + 's) \<Rightarrow> 's \<Rightarrow> 'a list \<Rightarrow> 'e + 's" where
  "run_actions app s [] = Inr s"
| "run_actions app s (a # as) = (case app s a of Inl e \<Rightarrow> Inl e | Inr t \<Rightarrow> run_actions app t as)"

text \<open>The states an action run goes through, as far as it gets.\<close>

fun states_of_run :: "('s \<Rightarrow> 'a \<Rightarrow> 'e + 's) \<Rightarrow> 's \<Rightarrow> 'a list \<Rightarrow> 's list" where
  "states_of_run app s [] = []"
| "states_of_run app s (a # as) =
     (case app s a of Inl e \<Rightarrow> [] | Inr t \<Rightarrow> t # states_of_run app t as)"

lemma run_actions_append:
  "run_actions app s (as @ bs) =
     (case run_actions app s as of Inl e \<Rightarrow> Inl e | Inr t \<Rightarrow> run_actions app t bs)"
  by (induction as arbitrary: s) (auto split: sum.splits)

lemma run_snoc:
  "run_actions app s (as @ [a]) = Inr t \<longleftrightarrow>
     (\<exists>u. run_actions app s as = Inr u \<and> app u a = Inr t)"
  by (auto simp: run_actions_append split: sum.splits)

text \<open>A machine that carries more data runs like its projection.\<close>

lemma run_project:
  assumes "\<And>s a t. app s a = Inr t \<Longrightarrow> app' (f s) (g a) = Inr (f t)"
    and "run_actions app s as = Inr t"
  shows "run_actions app' (f s) (List.map g as) = Inr (f t)"
  using assms(2)
proof (induction as arbitrary: s)
  case (Cons a as)
  then obtain u where "app s a = Inr u" "run_actions app u as = Inr t" by (auto split: sum.splits)
  with Cons.IH [of u] assms(1) [of s a u] show ?case by simp
qed simp

lemma path_in_append:
  "path_in succs s (ts @ us) \<longleftrightarrow> path_in succs s ts \<and> path_in succs (last (s # ts)) us"
  by (induction ts arbitrary: s) auto

lemma last_states_of_run:
  "run_actions app s as = Inr t \<Longrightarrow> last (s # states_of_run app s as) = t"
proof (induction as arbitrary: s)
  case (Cons a as)
  then obtain u where u: "app s a = Inr u" "run_actions app u as = Inr t"
    by (auto split: sum.splits)
  then have "last (u # states_of_run app u as) = t" by (intro Cons.IH)
  with u show ?case by simp
qed simp

lemma length_states_of_run:
  "run_actions app s as = Inr t \<Longrightarrow> length (states_of_run app s as) = length as"
  by (induction as arbitrary: s) (auto split: sum.splits)

text \<open>A set of states that contains the start and is closed under the table contains every path.\<close>

lemma path_closed:
  assumes "s \<in> A" and closed: "\<And>u v. u \<in> A \<Longrightarrow> v \<in> set (succs u) \<Longrightarrow> v \<in> A"
    and "path_in succs s ts"
  shows "set (s # ts) \<subseteq> A"
  using assms(1,3) by (induction ts arbitrary: s) (auto dest: closed)

section \<open>Acyclic tables\<close>

locale ranked_table =
  fixes succs :: "'s \<Rightarrow> 's list"
    and rank :: "'s \<Rightarrow> nat"
  assumes rank_decreases: "t \<in> set (succs s) \<Longrightarrow> rank t < rank s"
begin

lemma path_rank: "path_in succs s ts \<Longrightarrow> length ts + rank (last (s # ts)) \<le> rank s"
proof (induction ts arbitrary: s)
  case (Cons t ts)
  then have "length ts + rank (last (t # ts)) \<le> rank t" and "rank t < rank s"
    by (simp_all add: rank_decreases)
  then show ?case by (cases ts) auto
qed simp

lemma path_bounded: "path_in succs s ts \<Longrightarrow> length ts \<le> rank s"
  using path_rank by fastforce

lemma path_lower: "path_in succs s ts \<Longrightarrow> t \<in> set ts \<Longrightarrow> rank t < rank s"
proof (induction ts arbitrary: s)
  case (Cons u ts)
  from Cons.prems have "rank u < rank s" by (simp add: rank_decreases)
  with Cons show ?case by fastforce
qed simp

lemma path_distinct: "path_in succs s ts \<Longrightarrow> distinct (s # ts)"
proof (induction ts arbitrary: s)
  case (Cons t ts)
  then have "distinct (t # ts)" by (intro Cons.IH) simp
  moreover have "s \<notin> set (t # ts)" using path_lower [OF Cons.prems] by blast
  ultimately show ?case by simp
qed simp

lemma terminal_path: "terminal_in succs s \<Longrightarrow> path_in succs s ts \<Longrightarrow> ts = []"
  by (cases ts) (auto simp: terminal_in_def)

lemma reaches_terminal: "\<exists>ts. path_in succs s ts \<and> terminal_in succs (last (s # ts))"
proof (induction "rank s" arbitrary: s rule: less_induct)
  case less
  show ?case
  proof (cases "succs s")
    case Nil
    then have "path_in succs s [] \<and> terminal_in succs (last [s])" by (simp add: terminal_in_def)
    then show ?thesis by blast
  next
    case (Cons t us)
    then have t: "t \<in> set (succs s)" by simp
    with less obtain ts where "path_in succs t ts" "terminal_in succs (last (t # ts))"
      using rank_decreases by blast
    with t have "path_in succs s (t # ts) \<and> terminal_in succs (last (s # t # ts))" by simp
    then show ?thesis by blast
  qed
qed

end

section \<open>Machines driven by actions\<close>

locale action_machine =
  fixes succs :: "'s \<Rightarrow> 's list"
    and app :: "'s \<Rightarrow> 'a \<Rightarrow> 'e + 's"
  assumes app_sound: "app s a = Inr t \<Longrightarrow> t \<in> set (succs s)"
begin

lemma run_is_path: "path_in succs s (states_of_run app s as)"
  by (induction as arbitrary: s) (auto split: sum.splits dest: app_sound)

lemma terminal_rejects: "terminal_in succs s \<Longrightarrow> \<exists>e. app s a = Inl e"
  by (cases "app s a") (auto simp: terminal_in_def dest: app_sound)

lemma terminal_run: "terminal_in succs s \<Longrightarrow> run_actions app s as = Inr t \<Longrightarrow> as = [] \<and> t = s"
  by (cases as) (auto dest: terminal_rejects [where a = "hd as"])

lemma run_invariant:
  assumes "P s" and "run_actions app s as = Inr t"
    and step: "\<And>u a v. P u \<Longrightarrow> app u a = Inr v \<Longrightarrow> P v"
  shows "P t"
  using assms(1,2)
  by (induction as arbitrary: s) (auto split: sum.splits intro: step)

end

text \<open>
  A machine whose actions realise every entry of the table: what the table allows and what the
  actions do are then the same runs.
\<close>

locale matched_machine = action_machine succs app
  for succs :: "'s \<Rightarrow> 's list" and app :: "'s \<Rightarrow> 'a \<Rightarrow> 'e + 's" +
  assumes app_complete: "t \<in> set (succs s) \<Longrightarrow> \<exists>a. app s a = Inr t"
begin

lemma edge_iff: "t \<in> set (succs s) \<longleftrightarrow> (\<exists>a. app s a = Inr t)"
  using app_sound app_complete by blast

lemma path_realised:
  "path_in succs s ts \<Longrightarrow>
     \<exists>as. run_actions app s as = Inr (last (s # ts)) \<and> states_of_run app s as = ts"
proof (induction ts arbitrary: s)
  case Nil
  have "run_actions app s [] = Inr (last [s]) \<and> states_of_run app s [] = []" by simp
  then show ?case by blast
next
  case (Cons t ts)
  then obtain a as where "app s a = Inr t" "run_actions app t as = Inr (last (t # ts))"
    "states_of_run app t as = ts" using app_complete by force
  then have "run_actions app s (a # as) = Inr (last (s # t # ts)) \<and> states_of_run app s (a # as) = t # ts"
    by simp
  then show ?case by blast
qed

lemma reachable_iff:
  "(\<exists>as. run_actions app s as = Inr t) \<longleftrightarrow> (\<exists>ts. path_in succs s ts \<and> last (s # ts) = t)"
  using path_realised run_is_path last_states_of_run by metis

end

text \<open>
  Several machines are given twice in the sources: as a table and as an object that maps the actions
  of a state to the next state.  They agree when the values of the object are the table's entries.
\<close>

lemma action_object_matches:
  assumes agree: "\<And>s. distinct (List.map fst (obj s)) \<and> snd ` set (obj s) = set (succs s)"
    and app: "\<And>s a. app s a = (case map_of (obj s) a of None \<Rightarrow> Inl (err s a) | Some t \<Rightarrow> Inr t)"
  shows "matched_machine succs app"
proof
  fix s a t assume "app s a = Inr t"
  then have "map_of (obj s) a = Some t" by (simp add: app split: option.splits)
  then have "(a, t) \<in> set (obj s)" by (rule map_of_SomeD)
  with agree [of s] show "t \<in> set (succs s)" by force
next
  fix s t assume "t \<in> set (succs s)"
  with agree [of s] obtain a where "(a, t) \<in> set (obj s)" by force
  with agree [of s] have "map_of (obj s) a = Some t" by simp
  then have "app s a = Inr t" by (simp add: app)
  then show "\<exists>a. app s a = Inr t" ..
qed

locale ranked_machine = ranked_table succs rank + action_machine succs app
  for succs :: "'s \<Rightarrow> 's list" and rank :: "'s \<Rightarrow> nat" and app :: "'s \<Rightarrow> 'a \<Rightarrow> 'e + 's"
begin

text \<open>A sequence of accepted actions is no longer than the rank of the state it starts in.\<close>

lemma run_bounded: "run_actions app s as = Inr t \<Longrightarrow> length as + rank t \<le> rank s"
  using path_rank [OF run_is_path] last_states_of_run length_states_of_run by metis

lemma run_never_repeats:
  "run_actions app s as = Inr t \<Longrightarrow> distinct (s # states_of_run app s as)"
  by (rule path_distinct [OF run_is_path])

end

end
