(* ===== verification/Handoff_Machine.thy ===== *)
theory Handoff_Machine imports Handoff_Types Transition_Systems begin

text \<open>
  The handoff state machine (\<open>kv_handoff/handoff-state-machine.ts\<close>) with the pure functions that
  decide about cancellation and rollback from a state (\<open>handoff-cancellation.ts\<close>,
  \<open>handoff-rollback.ts\<close>).  The machine is an interpretation of \<open>ranked_machine\<close>.
\<close>

section \<open>The table and its actions\<close>

fun VALID_HANDOFF_TRANSITIONS :: "HandoffState \<Rightarrow> HandoffState list" where
  "VALID_HANDOFF_TRANSITIONS HS_draft = [HS_requested]"
| "VALID_HANDOFF_TRANSITIONS HS_requested = [HS_source_validating, HS_rejected, HS_failed]"
| "VALID_HANDOFF_TRANSITIONS HS_source_validating =
     [HS_destination_validating, HS_rejected, HS_failed]"
| "VALID_HANDOFF_TRANSITIONS HS_destination_validating =
     [HS_export_preparing, HS_rejected, HS_failed]"
| "VALID_HANDOFF_TRANSITIONS HS_export_preparing = [HS_exported, HS_cancelled, HS_failed]"
| "VALID_HANDOFF_TRANSITIONS HS_exported =
     [HS_transferring, HS_cancelled, HS_expired, HS_failed]"
| "VALID_HANDOFF_TRANSITIONS HS_transferring =
     [HS_importing, HS_cancelled, HS_timeout, HS_failed]"
| "VALID_HANDOFF_TRANSITIONS HS_importing =
     [HS_destination_validated, HS_cancelled, HS_timeout, HS_failed]"
| "VALID_HANDOFF_TRANSITIONS HS_destination_validated = [HS_committed, HS_rollback_required]"
| "VALID_HANDOFF_TRANSITIONS HS_committed = [HS_source_disposition_pending, HS_failed]"
| "VALID_HANDOFF_TRANSITIONS HS_source_disposition_pending =
     [HS_completed, HS_degraded_completed]"
| "VALID_HANDOFF_TRANSITIONS HS_rollback_required =
     [HS_rolled_back, HS_cancelled, HS_failed]"
| "VALID_HANDOFF_TRANSITIONS HS_completed = []"
| "VALID_HANDOFF_TRANSITIONS HS_degraded_completed = []"
| "VALID_HANDOFF_TRANSITIONS HS_rejected = []"
| "VALID_HANDOFF_TRANSITIONS HS_cancelled = []"
| "VALID_HANDOFF_TRANSITIONS HS_timeout = []"
| "VALID_HANDOFF_TRANSITIONS HS_expired = []"
| "VALID_HANDOFF_TRANSITIONS HS_failed = []"
| "VALID_HANDOFF_TRANSITIONS HS_rolled_back = []"

fun HAPPY_PATH :: "HandoffAction \<Rightarrow> HandoffState option" where
  "HAPPY_PATH HA_request = Some HS_requested"
| "HAPPY_PATH HA_validate_source = Some HS_source_validating"
| "HAPPY_PATH HA_validate_destination = Some HS_destination_validating"
| "HAPPY_PATH HA_prepare_export = Some HS_export_preparing"
| "HAPPY_PATH HA_export = Some HS_exported"
| "HAPPY_PATH HA_transfer = Some HS_transferring"
| "HAPPY_PATH HA_import = Some HS_importing"
| "HAPPY_PATH HA_validate_destination_import = Some HS_destination_validated"
| "HAPPY_PATH HA_commit = Some HS_committed"
| "HAPPY_PATH HA_dispose_source = Some HS_source_disposition_pending"
| "HAPPY_PATH HA_complete = Some HS_completed"
| "HAPPY_PATH _ = None"

fun branchingActionMap :: "HandoffState \<Rightarrow> HandoffAction \<Rightarrow> HandoffState option" where
  "branchingActionMap current HA_reject = Some HS_rejected"
| "branchingActionMap current HA_cancel = Some HS_cancelled"
| "branchingActionMap current HA_expire = Some HS_expired"
| "branchingActionMap current HA_timeout = Some HS_timeout"
| "branchingActionMap current HA_fail = Some HS_failed"
| "branchingActionMap current HA_rollback =
     Some (if current = HS_rollback_required then HS_rolled_back else HS_rollback_required)"
| "branchingActionMap current _ = None"

text \<open>The message of the thrown error names the action and the state.\<close>

datatype HandoffTransitionError = Invalid_transition HandoffAction HandoffState

definition applyHandoffAction ::
  "HandoffState \<Rightarrow> HandoffAction \<Rightarrow> HandoffTransitionError + HandoffState" where
  "applyHandoffAction current action =
     (let branching =
        (case branchingActionMap current action of
           Some nxt \<Rightarrow>
             if nxt \<in> set (VALID_HANDOFF_TRANSITIONS current) then Inr nxt
             else Inl (Invalid_transition action current)
         | None \<Rightarrow> Inl (Invalid_transition action current))
      in (case HAPPY_PATH action of
            Some nxt \<Rightarrow>
              if nxt \<in> set (VALID_HANDOFF_TRANSITIONS current) then Inr nxt else branching
          | None \<Rightarrow> branching))"

definition isTerminalHandoffState :: "HandoffState \<Rightarrow> bool" where
  "isTerminalHandoffState state \<longleftrightarrow> length (VALID_HANDOFF_TRANSITIONS state) = 0"

definition isFailedState :: "HandoffState \<Rightarrow> bool" where
  "isFailedState state \<longleftrightarrow>
     (if \<not> isTerminalHandoffState state then False
      else state \<noteq> HS_completed \<and> state \<noteq> HS_degraded_completed)"

definition canCancel :: "HandoffState \<Rightarrow> bool" where
  "canCancel state \<longleftrightarrow> HS_cancelled \<in> set (VALID_HANDOFF_TRANSITIONS state)"

section \<open>Cancellation\<close>

definition canCancelRequest :: "HandoffState \<Rightarrow> bool" where
  "canCancelRequest state = canCancel state"

record CancellationEffect =
  ce_sourceNamespaceAction :: string
  ce_destinationAction :: string
  ce_abortTransfer :: bool

definition getCancellationEffect :: "HandoffState \<Rightarrow> CancellationEffect" where
  "getCancellationEffect state = (case state of
     HS_export_preparing \<Rightarrow>
       \<lparr>ce_sourceNamespaceAction = ''retain'', ce_destinationAction = ''noop'',
        ce_abortTransfer = False\<rparr>
   | HS_exported \<Rightarrow>
       \<lparr>ce_sourceNamespaceAction = ''retain'', ce_destinationAction = ''discard_manifest'',
        ce_abortTransfer = False\<rparr>
   | HS_transferring \<Rightarrow>
       \<lparr>ce_sourceNamespaceAction = ''retain'', ce_destinationAction = ''discard_manifest'',
        ce_abortTransfer = True\<rparr>
   | HS_importing \<Rightarrow>
       \<lparr>ce_sourceNamespaceAction = ''retain'', ce_destinationAction = ''discard_import'',
        ce_abortTransfer = False\<rparr>
   | HS_rollback_required \<Rightarrow>
       \<lparr>ce_sourceNamespaceAction = ''release'', ce_destinationAction = ''rollback_destination'',
        ce_abortTransfer = False\<rparr>
   | _ \<Rightarrow>
       \<lparr>ce_sourceNamespaceAction = ''retain'', ce_destinationAction = ''noop'',
        ce_abortTransfer = False\<rparr>)"

definition classifyCancellation :: "HandoffState \<Rightarrow> HandoffFailureClass" where
  "classifyCancellation state = (case state of
     HS_export_preparing \<Rightarrow> source_export_failed
   | HS_exported \<Rightarrow> transfer_cancelled
   | HS_transferring \<Rightarrow> transfer_cancelled
   | HS_importing \<Rightarrow> transfer_cancelled
   | HS_destination_validated \<Rightarrow> destination_import_failed
   | HS_committed \<Rightarrow> destination_import_failed
   | HS_rollback_required \<Rightarrow> destination_activation_failed
   | _ \<Rightarrow> HF_request_cancelled)"

section \<open>Rollback\<close>

definition TERMINAL_FAILURE_STATES :: "HandoffState \<Rightarrow> bool" where
  "TERMINAL_FAILURE_STATES s \<longleftrightarrow> s \<in> {HS_failed, HS_rejected, HS_cancelled, HS_timeout}"

definition ALREADY_ROLLED_BACK :: "HandoffState \<Rightarrow> bool" where
  "ALREADY_ROLLED_BACK s \<longleftrightarrow> s \<in> {HS_rolled_back, HS_completed, HS_degraded_completed}"

definition getRollbackState :: "HandoffState \<Rightarrow> HandoffState" where
  "getRollbackState current =
     (if ALREADY_ROLLED_BACK current then HS_rolled_back else HS_rolled_back)"

definition shouldRollback :: "HandoffState \<Rightarrow> bool" where
  "shouldRollback state =
     (if ALREADY_ROLLED_BACK state then False
      else if TERMINAL_FAILURE_STATES state then True
      else state \<in> set [HS_export_preparing, HS_exported, HS_transferring, HS_importing,
                        HS_source_disposition_pending])"

definition classifyRollbackReason :: "HandoffState \<Rightarrow> string" where
  "classifyRollbackReason state = (case state of
     HS_failed \<Rightarrow> ''handoff failed '' @ em_dash @ '' unrecoverable error during processing''
   | HS_rejected \<Rightarrow>
       ''handoff rejected '' @ em_dash @ '' eligibility or compatibility check failed''
   | HS_cancelled \<Rightarrow> ''handoff cancelled '' @ em_dash @ '' request withdrawn or lease revoked''
   | HS_timeout \<Rightarrow> ''handoff timed out '' @ em_dash @ '' deadline exceeded before completion''
   | HS_export_preparing \<Rightarrow>
       ''source export failed '' @ em_dash @ '' rolling back export preparation''
   | HS_exported \<Rightarrow> ''source export failed '' @ em_dash @ '' rolling back export preparation''
   | HS_transferring \<Rightarrow> ''transfer interrupted '' @ em_dash @ '' payload not fully delivered''
   | HS_importing \<Rightarrow>
       ''destination import failed '' @ em_dash @ '' rolling back partial import''
   | HS_source_disposition_pending \<Rightarrow>
       ''source disposition unresolvable '' @ em_dash @ '' rolling back''
   | HS_rolled_back \<Rightarrow> ''no rollback needed '' @ em_dash @ '' handoff already terminated''
   | HS_completed \<Rightarrow> ''no rollback needed '' @ em_dash @ '' handoff already terminated''
   | HS_degraded_completed \<Rightarrow> ''no rollback needed '' @ em_dash @ '' handoff already terminated''
   | _ \<Rightarrow> ''unknown state '' @ quoted (HandoffState_str state) @ '' mapped to rollback'')"

section \<open>The machine as an interpretation\<close>

lemmas [fsm_tables] = applyHandoffAction_def Let_def isTerminalHandoffState_def isFailedState_def
  canCancel_def shouldRollback_def ALREADY_ROLLED_BACK_def TERMINAL_FAILURE_STATES_def

fun handoff_rank :: "HandoffState \<Rightarrow> nat" where
  "handoff_rank HS_draft = 11"
| "handoff_rank HS_requested = 10"
| "handoff_rank HS_source_validating = 9"
| "handoff_rank HS_destination_validating = 8"
| "handoff_rank HS_export_preparing = 7"
| "handoff_rank HS_exported = 6"
| "handoff_rank HS_transferring = 5"
| "handoff_rank HS_importing = 4"
| "handoff_rank HS_destination_validated = 3"
| "handoff_rank HS_committed = 2"
| "handoff_rank HS_source_disposition_pending = 1"
| "handoff_rank HS_rollback_required = 1"
| "handoff_rank _ = 0"

interpretation handoff: ranked_machine VALID_HANDOFF_TRANSITIONS handoff_rank applyHandoffAction
proof unfold_locales
  fix s t
  assume "t \<in> set (VALID_HANDOFF_TRANSITIONS s)"
  then show "handoff_rank t < handoff_rank s" by (cases s) auto
next
  fix s a t
  assume "applyHandoffAction s a = Inr t"
  then show "t \<in> set (VALID_HANDOFF_TRANSITIONS s)"
    by (auto simp: applyHandoffAction_def Let_def split: option.splits if_splits)
qed

lemma terminal_handoff: "isTerminalHandoffState s \<longleftrightarrow> terminal_in VALID_HANDOFF_TRANSITIONS s"
  by (simp add: isTerminalHandoffState_def terminal_in_def)

text \<open>The states of a handoff that goes well, and the action that enters each of them.\<close>

definition happy_actions :: "HandoffAction list" where
  "happy_actions =
     [HA_request, HA_validate_source, HA_validate_destination, HA_prepare_export, HA_export,
      HA_transfer, HA_import, HA_validate_destination_import, HA_commit, HA_dispose_source,
      HA_complete]"

definition happy_states :: "HandoffState list" where
  "happy_states = HS_draft # List.map_filter HAPPY_PATH happy_actions"

lemma happy_states_eq:
  "happy_states =
     [HS_draft, HS_requested, HS_source_validating, HS_destination_validating,
      HS_export_preparing, HS_exported, HS_transferring, HS_importing, HS_destination_validated,
      HS_committed, HS_source_disposition_pending, HS_completed]"
  by (simp add: happy_states_def happy_actions_def List.map_filter_simps)

text \<open>Each of them has exactly one way in: the previous state and its own action.\<close>

lemma happy_predecessor:
  "applyHandoffAction u a = Inr HS_draft \<longleftrightarrow> False"
  "applyHandoffAction u a = Inr HS_requested \<longleftrightarrow> u = HS_draft \<and> a = HA_request"
  "applyHandoffAction u a = Inr HS_source_validating \<longleftrightarrow> u = HS_requested \<and> a = HA_validate_source"
  "applyHandoffAction u a = Inr HS_destination_validating \<longleftrightarrow>
     u = HS_source_validating \<and> a = HA_validate_destination"
  "applyHandoffAction u a = Inr HS_export_preparing \<longleftrightarrow>
     u = HS_destination_validating \<and> a = HA_prepare_export"
  "applyHandoffAction u a = Inr HS_exported \<longleftrightarrow> u = HS_export_preparing \<and> a = HA_export"
  "applyHandoffAction u a = Inr HS_transferring \<longleftrightarrow> u = HS_exported \<and> a = HA_transfer"
  "applyHandoffAction u a = Inr HS_importing \<longleftrightarrow> u = HS_transferring \<and> a = HA_import"
  "applyHandoffAction u a = Inr HS_destination_validated \<longleftrightarrow>
     u = HS_importing \<and> a = HA_validate_destination_import"
  "applyHandoffAction u a = Inr HS_committed \<longleftrightarrow> u = HS_destination_validated \<and> a = HA_commit"
  "applyHandoffAction u a = Inr HS_source_disposition_pending \<longleftrightarrow>
     u = HS_committed \<and> a = HA_dispose_source"
  "applyHandoffAction u a = Inr HS_completed \<longleftrightarrow>
     u = HS_source_disposition_pending \<and> a = HA_complete"
  "applyHandoffAction u a = Inr HS_degraded_completed \<longleftrightarrow> False"
  "applyHandoffAction u a = Inr HS_rollback_required \<longleftrightarrow>
     u = HS_destination_validated \<and> a = HA_rollback"
  by (cases a; cases u; simp add: fsm_tables)+

lemma happy_step:
  "n < 11 \<Longrightarrow> applyHandoffAction u a = Inr (happy_states ! Suc n) \<longleftrightarrow>
     u = happy_states ! n \<and> a = happy_actions ! n"
  by (auto simp: less_Suc_eq numeral_eq_Suc happy_states_eq happy_actions_def happy_predecessor)

lemma length_happy_actions [simp]: "length happy_actions = 11"
  by (simp add: happy_actions_def)

lemma happy_states_ne: "n < 11 \<Longrightarrow> HS_draft \<noteq> happy_states ! Suc n"
  by (auto simp: less_Suc_eq numeral_eq_Suc happy_states_eq)

inductive handoff_reachable :: "HandoffState \<Rightarrow> bool" where
  start: "handoff_reachable HS_draft"
| step: "handoff_reachable s \<Longrightarrow> applyHandoffAction s a = Inr t \<Longrightarrow> handoff_reachable t"

lemma reachable_run: "run_actions applyHandoffAction HS_draft as = Inr s \<Longrightarrow> handoff_reachable s"
  by (rule handoff.run_invariant [where P = handoff_reachable, OF handoff_reachable.start])
    (auto intro: handoff_reachable.step)

text \<open>A sequence of actions that leads to each state.\<close>

fun actions_to :: "HandoffState \<Rightarrow> HandoffAction list" where
  "actions_to HS_rejected = take 1 happy_actions @ [HA_reject]"
| "actions_to HS_cancelled = take 4 happy_actions @ [HA_cancel]"
| "actions_to HS_timeout = take 6 happy_actions @ [HA_timeout]"
| "actions_to HS_expired = take 5 happy_actions @ [HA_expire]"
| "actions_to HS_failed = take 1 happy_actions @ [HA_fail]"
| "actions_to HS_rollback_required = take 8 happy_actions @ [HA_rollback]"
| "actions_to HS_rolled_back = take 8 happy_actions @ [HA_rollback, HA_rollback]"
| "actions_to s = take (11 - handoff_rank s) happy_actions"

lemma actions_to_run:
  "s \<noteq> HS_degraded_completed \<Longrightarrow> run_actions applyHandoffAction HS_draft (actions_to s) = Inr s"
  by (cases s) (simp_all add: happy_actions_def fsm_tables)

section \<open>Properties\<close>

text \<open>
  C18: every sequence of actions the machine accepts from \<open>draft\<close> has at most eleven actions, its
  length and the rank of the state it ends in never exceed that bound, and no state occurs twice on
  the way: a handoff always terminates.
\<close>

theorem handoff_runs_terminate:
  assumes "run_actions applyHandoffAction HS_draft as = Inr t"
  shows "length as + handoff_rank t \<le> 11 \<and>
    distinct (HS_draft # states_of_run applyHandoffAction HS_draft as)"
  using handoff.run_bounded [OF assms] handoff.run_never_repeats [OF assms] by simp_all

theorem handoff_runs_terminate_witness:
  "length [HA_request, HA_reject] + handoff_rank HS_rejected \<le> 11 \<and>
   distinct (HS_draft # states_of_run applyHandoffAction HS_draft [HA_request, HA_reject])"
  by (rule handoff_runs_terminate) (simp add: fsm_tables)

text \<open>
  The n-th state of the success path is entered by exactly one sequence of actions, the first
  n actions of that path.  In particular a handoff is \<open>committed\<close> only after source validation,
  destination validation, export, transfer, import and import validation, in this order, and
  \<open>completed\<close> only after the commit and the source disposition.
\<close>

theorem happy_path_unique:
  assumes "n \<le> 11"
  shows "run_actions applyHandoffAction HS_draft as = Inr (happy_states ! n) \<longleftrightarrow>
           as = take n happy_actions"
  using assms
proof (induction n arbitrary: as)
  case 0
  show ?case
    by (cases as rule: rev_cases) (simp_all add: happy_states_eq happy_predecessor run_snoc)
next
  case (Suc n)
  then have n: "n < 11" by simp
  have "run_actions applyHandoffAction HS_draft as = Inr (happy_states ! Suc n) \<longleftrightarrow>
      (\<exists>bs. as = bs @ [happy_actions ! n] \<and>
            run_actions applyHandoffAction HS_draft bs = Inr (happy_states ! n))"
    using n by (cases as rule: rev_cases) (auto simp: run_snoc happy_step happy_states_ne)
  also have "\<dots> \<longleftrightarrow> as = take (Suc n) happy_actions"
    using n Suc.IH by (simp add: take_Suc_conv_app_nth)
  finally show ?case .
qed

theorem happy_path_unique_witness:
  "run_actions applyHandoffAction HS_draft (take 9 happy_actions) = Inr (happy_states ! 9)"
  using happy_path_unique [of 9 "take 9 happy_actions"] by simp

text \<open>
  The states a handoff can be in are all states but \<open>degraded_completed\<close>; the table lists that
  state as a successor of \<open>source_disposition_pending\<close>, and no action leads there.
\<close>

theorem reachable_handoff_states: "handoff_reachable s \<longleftrightarrow> s \<noteq> HS_degraded_completed"
proof
  assume "handoff_reachable s"
  then show "s \<noteq> HS_degraded_completed" by cases (auto simp: happy_predecessor)
next
  assume "s \<noteq> HS_degraded_completed"
  then show "handoff_reachable s" by (rule reachable_run [OF actions_to_run])
qed

text \<open>
  \<open>isTerminalHandoffState\<close> holds exactly where the machine rejects every action, the error of
  a rejected action names that action and the state it was applied to, and every state reaches a
  terminal one along the table.
\<close>

theorem terminal_iff_stuck:
  "(isTerminalHandoffState s \<longleftrightarrow>
      (\<forall>a. applyHandoffAction s a = Inl (Invalid_transition a s))) \<and>
   (\<exists>ts. path_in VALID_HANDOFF_TRANSITIONS s ts \<and> isTerminalHandoffState (last (s # ts)))"
proof
  have err: "applyHandoffAction s a = Inl e \<Longrightarrow> e = Invalid_transition a s" for a e
    by (auto simp: applyHandoffAction_def Let_def split: option.splits if_splits)
  have step: "isTerminalHandoffState s \<or> (\<exists>a t. applyHandoffAction s a = Inr t)"
    by (cases s) (auto simp: fsm_tables split: option.splits
      intro: exI [of _ HA_request] exI [of _ HA_validate_source] exI [of _ HA_validate_destination]
        exI [of _ HA_prepare_export] exI [of _ HA_fail] exI [of _ HA_commit] exI [of _ HA_complete])
  show "isTerminalHandoffState s \<longleftrightarrow>
      (\<forall>a. applyHandoffAction s a = Inl (Invalid_transition a s))"
  proof
    assume "isTerminalHandoffState s"
    then have "\<exists>e. applyHandoffAction s a = Inl e" for a
      using handoff.terminal_rejects terminal_handoff by blast
    with err show "\<forall>a. applyHandoffAction s a = Inl (Invalid_transition a s)" by metis
  qed (use step in auto)
  show "\<exists>ts. path_in VALID_HANDOFF_TRANSITIONS s ts \<and> isTerminalHandoffState (last (s # ts))"
    unfolding terminal_handoff by (rule handoff.reaches_terminal)
qed

text \<open>
  The cancellation guard agrees with the machine: \<open>canCancelRequest\<close> holds exactly where the
  \<open>cancel\<close> action leads to \<open>cancelled\<close>.  An effect other than the default is only prescribed for
  such states, the transfer is aborted only while transferring, and the source namespace is
  released only when a rollback is pending.
\<close>

theorem cancellation_agrees:
  "(canCancelRequest s \<longleftrightarrow> applyHandoffAction s HA_cancel = Inr HS_cancelled) \<and>
   (getCancellationEffect s \<noteq> getCancellationEffect HS_draft \<longrightarrow> canCancelRequest s) \<and>
   (ce_abortTransfer (getCancellationEffect s) \<longleftrightarrow> s = HS_transferring) \<and>
   (ce_sourceNamespaceAction (getCancellationEffect s) = ''release'' \<longleftrightarrow> s = HS_rollback_required)"
  by (cases s) (simp_all add: canCancelRequest_def getCancellationEffect_def fsm_tables)

theorem cancellation_agrees_witness:
  "getCancellationEffect HS_importing \<noteq> getCancellationEffect HS_draft \<and>
   canCancelRequest HS_importing"
proof
  show *: "getCancellationEffect HS_importing \<noteq> getCancellationEffect HS_draft"
    by (simp add: getCancellationEffect_def)
  then show "canCancelRequest HS_importing" using cancellation_agrees [of HS_importing] by blast
qed

text \<open>
  \<open>shouldRollback\<close> and the machine disagree everywhere: a state that accepts the \<open>rollback\<close>
  action (among them \<open>rollback_required\<close>) is one for which \<open>shouldRollback\<close> answers no, so it
  answers yes only where the action is rejected; \<open>expired\<close> is the one failed terminal state for
  which it answers no although the handoff was not rolled back.
\<close>

theorem rollback_guard_disjoint:
  "{s. \<exists>t. applyHandoffAction s HA_rollback = Inr t} = {HS_destination_validated, HS_rollback_required} \<and>
   {s. \<exists>t. applyHandoffAction s HA_rollback = Inr t} \<inter> {s. shouldRollback s} = {} \<and>
   {s. isFailedState s \<and> s \<noteq> HS_rolled_back \<and> \<not> shouldRollback s} = {HS_expired}"
proof -
  have "(\<exists>t. applyHandoffAction s HA_rollback = Inr t) \<longleftrightarrow>
      s \<in> {HS_destination_validated, HS_rollback_required}" for s
    by (cases s) (simp_all add: fsm_tables)
  moreover have "isFailedState s \<and> s \<noteq> HS_rolled_back \<and> \<not> shouldRollback s \<longleftrightarrow> s = HS_expired" for s
    by (cases s) (simp_all add: fsm_tables)
  ultimately show ?thesis by (auto simp: fsm_tables)
qed

end
