(* ===== verification/Handoff_Import.thy ===== *)
theory Handoff_Import imports Handoff_Types Transition_Systems begin

text \<open>
  The two ends of a handoff: the import record of the destination worker
  (\<open>kv_handoff/destination-import.ts\<close>) and the disposition record of the source worker
  (\<open>kv_handoff/source-disposition.ts\<close>).  \<open>now\<close> stands for the clock reading of a call.
\<close>

section \<open>Import records\<close>

text \<open>The table is a dictionary from action names, kept as strings as in the source.\<close>

fun VALID_IMPORT_TRANSITIONS :: "ImportState \<Rightarrow> (string \<times> ImportState) list" where
  "VALID_IMPORT_TRANSITIONS IS_created =
     [(''receive_payload'', IS_payload_received), (''fail'', IS_failed),
      (''rollback'', IS_rolled_back)]"
| "VALID_IMPORT_TRANSITIONS IS_payload_received =
     [(''validate_integrity'', IS_integrity_validated), (''fail'', IS_failed),
      (''rollback'', IS_rolled_back)]"
| "VALID_IMPORT_TRANSITIONS IS_integrity_validated =
     [(''validate_compatibility'', IS_compatibility_validated), (''fail'', IS_failed),
      (''rollback'', IS_rolled_back)]"
| "VALID_IMPORT_TRANSITIONS IS_compatibility_validated =
     [(''materialize_namespace'', IS_namespace_materialized), (''fail'', IS_failed),
      (''rollback'', IS_rolled_back)]"
| "VALID_IMPORT_TRANSITIONS IS_namespace_materialized =
     [(''activate'', IS_activated), (''fail'', IS_failed), (''rollback'', IS_rolled_back)]"
| "VALID_IMPORT_TRANSITIONS IS_activated =
     [(''acknowledge'', IS_acknowledged), (''fail'', IS_failed), (''rollback'', IS_rolled_back)]"
| "VALID_IMPORT_TRANSITIONS IS_acknowledged =
     [(''fail'', IS_failed), (''rollback'', IS_rolled_back)]"
| "VALID_IMPORT_TRANSITIONS IS_failed = [(''rollback'', IS_rolled_back)]"
| "VALID_IMPORT_TRANSITIONS IS_rolled_back = []"

definition createImportRecord :: "string \<Rightarrow> string \<Rightarrow> string \<Rightarrow> PrismKvImportRecord" where
  "createImportRecord handoffId destWorkerId destInstanceId =
     \<lparr>im_importId = ''import_'' @ handoffId,
      im_handoffId = handoffId,
      im_destinationWorkerId = destWorkerId,
      im_destinationWorkerInstanceId = destInstanceId,
      im_destinationKvNamespaceId = None,
      im_manifestDigest = [],
      im_compatibilityDescriptorDigest = [],
      im_payloadDigest = [],
      im_importGeneration = 0,
      im_state = IS_created,
      im_importedAt = None,
      im_validatedAt = None,
      im_activatedAt = None,
      im_failureClass = None\<rparr>"

text \<open>The error of a refused transition, with the state and the action of its message.\<close>

datatype ImportTransitionError = Invalid_import_transition ImportState string

definition transitionImport ::
  "millis \<Rightarrow> PrismKvImportRecord \<Rightarrow> string \<Rightarrow> ImportTransitionError + PrismKvImportRecord" where
  "transitionImport now record1 action =
     (case map_of (VALID_IMPORT_TRANSITIONS (im_state record1)) action of
        None \<Rightarrow> Inl (Invalid_import_transition (im_state record1) action)
      | Some nextState \<Rightarrow>
          let r0 = record1\<lparr>im_state := nextState\<rparr>;
              r1 = (if action = ''receive_payload'' \<or> action = ''materialize_namespace''
                    then r0\<lparr>im_importedAt := Some (Iso now)\<rparr> else r0);
              r2 = (if action = ''validate_integrity'' \<or> action = ''validate_compatibility''
                    then r1\<lparr>im_validatedAt := Some (Iso now)\<rparr> else r1);
              r3 = (if action = ''activate'' then r2\<lparr>im_activatedAt := Some (Iso now)\<rparr> else r2);
              r4 = (if action = ''fail''
                    then r3\<lparr>im_failureClass := Some ''destination_import_failed''\<rparr> else r3)
          in Inr r4)"

definition isImportComplete :: "PrismKvImportRecord \<Rightarrow> bool" where
  "isImportComplete record1 \<longleftrightarrow>
     im_state record1 = IS_activated \<or> im_state record1 = IS_acknowledged"

definition isImportFailed :: "PrismKvImportRecord \<Rightarrow> bool" where
  "isImportFailed record1 \<longleftrightarrow>
     im_state record1 = IS_failed \<or> im_state record1 = IS_rolled_back"

subsection \<open>The machine underneath\<close>

definition import_succs :: "ImportState \<Rightarrow> ImportState list" where
  "import_succs s = List.map snd (VALID_IMPORT_TRANSITIONS s)"

definition import_step :: "ImportState \<Rightarrow> string \<Rightarrow> string + ImportState" where
  "import_step s a = (case map_of (VALID_IMPORT_TRANSITIONS s) a of None \<Rightarrow> Inl a | Some t \<Rightarrow> Inr t)"

fun import_rank :: "ImportState \<Rightarrow> nat" where
  "import_rank IS_created = 8"
| "import_rank IS_payload_received = 7"
| "import_rank IS_integrity_validated = 6"
| "import_rank IS_compatibility_validated = 5"
| "import_rank IS_namespace_materialized = 4"
| "import_rank IS_activated = 3"
| "import_rank IS_acknowledged = 2"
| "import_rank IS_failed = 1"
| "import_rank IS_rolled_back = 0"

interpretation import_fsm: ranked_machine import_succs import_rank import_step
proof unfold_locales
  fix s t
  assume "t \<in> set (import_succs s)"
  then show "import_rank t < import_rank s" by (cases s) (auto simp: import_succs_def)
next
  fix s a t
  assume "import_step s a = Inr t"
  then show "t \<in> set (import_succs s)"
    by (force simp: import_step_def import_succs_def split: option.splits dest: map_of_SomeD)
qed

text \<open>A call sequence: at instant \<open>fst c\<close>, action \<open>snd c\<close>.\<close>

abbreviation transition_call ::
  "PrismKvImportRecord \<Rightarrow> millis \<times> string \<Rightarrow> ImportTransitionError + PrismKvImportRecord" where
  "transition_call r c \<equiv> transitionImport (fst c) r (snd c)"

lemma transitionImport_step:
  "transition_call r c = Inr r' \<Longrightarrow> import_step (im_state r) (snd c) = Inr (im_state r')"
  by (auto simp: transitionImport_def import_step_def Let_def split: option.splits)

lemma import_run_states:
  "run_actions transition_call r cs = Inr r' \<Longrightarrow>
     run_actions import_step (im_state r) (List.map snd cs) = Inr (im_state r')"
  by (rule run_project [where f = im_state]) (rule transitionImport_step)

definition import_actions :: "string list" where
  "import_actions =
     [''receive_payload'', ''validate_integrity'', ''validate_compatibility'',
      ''materialize_namespace'', ''activate'', ''acknowledge'']"

lemma import_predecessor:
  "import_step u a = Inr IS_created \<longleftrightarrow> False"
  "import_step u a = Inr IS_payload_received \<longleftrightarrow> u = IS_created \<and> a = ''receive_payload''"
  "import_step u a = Inr IS_integrity_validated \<longleftrightarrow>
     u = IS_payload_received \<and> a = ''validate_integrity''"
  "import_step u a = Inr IS_compatibility_validated \<longleftrightarrow>
     u = IS_integrity_validated \<and> a = ''validate_compatibility''"
  "import_step u a = Inr IS_namespace_materialized \<longleftrightarrow>
     u = IS_compatibility_validated \<and> a = ''materialize_namespace''"
  "import_step u a = Inr IS_activated \<longleftrightarrow> u = IS_namespace_materialized \<and> a = ''activate''"
  "import_step u a = Inr IS_acknowledged \<longleftrightarrow> u = IS_activated \<and> a = ''acknowledge''"
  by (cases u; auto simp: import_step_def split: if_splits)+

lemma import_runs:
  "run_actions import_step IS_created as = Inr IS_created \<longleftrightarrow> as = take 0 import_actions"
  "run_actions import_step IS_created as = Inr IS_payload_received \<longleftrightarrow> as = take 1 import_actions"
  "run_actions import_step IS_created as = Inr IS_integrity_validated \<longleftrightarrow>
     as = take 2 import_actions"
  "run_actions import_step IS_created as = Inr IS_compatibility_validated \<longleftrightarrow>
     as = take 3 import_actions"
  "run_actions import_step IS_created as = Inr IS_namespace_materialized \<longleftrightarrow>
     as = take 4 import_actions"
  "run_actions import_step IS_created as = Inr IS_activated \<longleftrightarrow> as = take 5 import_actions"
  "run_actions import_step IS_created as = Inr IS_acknowledged \<longleftrightarrow> as = take 6 import_actions"
proof -
  show 0: "run_actions import_step IS_created as = Inr IS_created \<longleftrightarrow> as = take 0 import_actions"
    for as by (cases as rule: rev_cases) (auto simp: run_snoc import_predecessor)
  show 1: "run_actions import_step IS_created as = Inr IS_payload_received \<longleftrightarrow>
      as = take 1 import_actions" for as
    by (cases as rule: rev_cases) (auto simp: run_snoc import_predecessor import_actions_def 0)
  show 2: "run_actions import_step IS_created as = Inr IS_integrity_validated \<longleftrightarrow>
      as = take 2 import_actions" for as
    by (cases as rule: rev_cases) (auto simp: run_snoc import_predecessor import_actions_def 1)
  show 3: "run_actions import_step IS_created as = Inr IS_compatibility_validated \<longleftrightarrow>
      as = take 3 import_actions" for as
    by (cases as rule: rev_cases) (auto simp: run_snoc import_predecessor import_actions_def 2)
  show 4: "run_actions import_step IS_created as = Inr IS_namespace_materialized \<longleftrightarrow>
      as = take 4 import_actions" for as
    by (cases as rule: rev_cases) (auto simp: run_snoc import_predecessor import_actions_def 3)
  show 5: "run_actions import_step IS_created as = Inr IS_activated \<longleftrightarrow>
      as = take 5 import_actions" for as
    by (cases as rule: rev_cases) (auto simp: run_snoc import_predecessor import_actions_def 4)
  show "run_actions import_step IS_created as = Inr IS_acknowledged \<longleftrightarrow>
      as = take 6 import_actions"
    by (cases as rule: rev_cases) (auto simp: run_snoc import_predecessor import_actions_def 5)
qed

text \<open>What the fields of a record say in each state.\<close>

definition import_wf :: "PrismKvImportRecord \<Rightarrow> bool" where
  "import_wf r \<longleftrightarrow>
     (case im_state r of
        IS_created \<Rightarrow> im_importedAt r = None \<and> im_validatedAt r = None \<and> im_activatedAt r = None
      | IS_payload_received \<Rightarrow>
          im_importedAt r \<noteq> None \<and> im_validatedAt r = None \<and> im_activatedAt r = None
      | IS_integrity_validated \<Rightarrow>
          im_importedAt r \<noteq> None \<and> im_validatedAt r \<noteq> None \<and> im_activatedAt r = None
      | IS_compatibility_validated \<Rightarrow>
          im_importedAt r \<noteq> None \<and> im_validatedAt r \<noteq> None \<and> im_activatedAt r = None
      | IS_namespace_materialized \<Rightarrow>
          im_importedAt r \<noteq> None \<and> im_validatedAt r \<noteq> None \<and> im_activatedAt r = None
      | IS_activated \<Rightarrow>
          im_importedAt r \<noteq> None \<and> im_validatedAt r \<noteq> None \<and> im_activatedAt r \<noteq> None
      | IS_acknowledged \<Rightarrow>
          im_importedAt r \<noteq> None \<and> im_validatedAt r \<noteq> None \<and> im_activatedAt r \<noteq> None
      | IS_failed \<Rightarrow> im_failureClass r = Some ''destination_import_failed''
      | IS_rolled_back \<Rightarrow> True) \<and>
     (im_failureClass r \<noteq> None \<longrightarrow> isImportFailed r) \<and>
     (im_validatedAt r \<noteq> None \<longrightarrow> im_importedAt r \<noteq> None) \<and>
     (im_activatedAt r \<noteq> None \<longrightarrow> im_validatedAt r \<noteq> None)"

lemma import_wf_create: "import_wf (createImportRecord h w i)"
  by (simp add: import_wf_def createImportRecord_def)

lemma allowed_action:
  assumes "map_of (VALID_IMPORT_TRANSITIONS s) a = Some t"
  obtains "s = IS_created" "a = ''receive_payload''" "t = IS_payload_received"
  | "s = IS_payload_received" "a = ''validate_integrity''" "t = IS_integrity_validated"
  | "s = IS_integrity_validated" "a = ''validate_compatibility''" "t = IS_compatibility_validated"
  | "s = IS_compatibility_validated" "a = ''materialize_namespace''" "t = IS_namespace_materialized"
  | "s = IS_namespace_materialized" "a = ''activate''" "t = IS_activated"
  | "s = IS_activated" "a = ''acknowledge''" "t = IS_acknowledged"
  | "s \<noteq> IS_failed" "s \<noteq> IS_rolled_back" "a = ''fail''" "t = IS_failed"
  | "s \<noteq> IS_rolled_back" "a = ''rollback''" "t = IS_rolled_back"
  using assms by (cases s) (simp_all split: if_splits)

lemma transitionImport_cases:
  assumes "transitionImport now r a = Inr r'"
  obtains "im_state r = IS_created" "a = ''receive_payload''"
      "r' = r\<lparr>im_state := IS_payload_received, im_importedAt := Some (Iso now)\<rparr>"
  | "im_state r = IS_payload_received" "a = ''validate_integrity''"
      "r' = r\<lparr>im_state := IS_integrity_validated, im_validatedAt := Some (Iso now)\<rparr>"
  | "im_state r = IS_integrity_validated" "a = ''validate_compatibility''"
      "r' = r\<lparr>im_state := IS_compatibility_validated, im_validatedAt := Some (Iso now)\<rparr>"
  | "im_state r = IS_compatibility_validated" "a = ''materialize_namespace''"
      "r' = r\<lparr>im_state := IS_namespace_materialized, im_importedAt := Some (Iso now)\<rparr>"
  | "im_state r = IS_namespace_materialized" "a = ''activate''"
      "r' = r\<lparr>im_state := IS_activated, im_activatedAt := Some (Iso now)\<rparr>"
  | "im_state r = IS_activated" "a = ''acknowledge''" "r' = r\<lparr>im_state := IS_acknowledged\<rparr>"
  | "im_state r \<noteq> IS_failed" "im_state r \<noteq> IS_rolled_back" "a = ''fail''"
      "r' = r\<lparr>im_state := IS_failed, im_failureClass := Some ''destination_import_failed''\<rparr>"
  | "im_state r \<noteq> IS_rolled_back" "a = ''rollback''" "r' = r\<lparr>im_state := IS_rolled_back\<rparr>"
proof -
  from assms obtain t where t: "map_of (VALID_IMPORT_TRANSITIONS (im_state r)) a = Some t"
    by (auto simp: transitionImport_def split: option.splits)
  then have eq: "transitionImport now r a = Inr r' \<Longrightarrow> thesis"
    by (rule allowed_action; simp add: transitionImport_def that)
  from assms show thesis by (rule eq)
qed

lemma import_wf_transition:
  assumes "import_wf r" and "transitionImport now r a = Inr r'"
  shows "import_wf r'"
  using assms(2)
proof (cases rule: transitionImport_cases)
  case 7
  with assms(1) show ?thesis by (auto simp: import_wf_def isImportFailed_def)
next
  case 8
  with assms(1) show ?thesis by (auto simp: import_wf_def isImportFailed_def)
qed (use assms(1) in \<open>simp_all add: import_wf_def isImportFailed_def\<close>)

lemma import_wf_run: "import_wf r \<Longrightarrow> run_actions transition_call r cs = Inr r' \<Longrightarrow> import_wf r'"
  by (induction cs arbitrary: r) (auto split: sum.splits intro: import_wf_transition)

lemma import_identity:
  assumes "transitionImport now r a = Inr r'"
  shows "im_importId r' = im_importId r" "im_handoffId r' = im_handoffId r"
    "im_destinationWorkerId r' = im_destinationWorkerId r"
  using assms by (cases rule: transitionImport_cases, simp_all)+

lemma import_identity_run:
  "run_actions transition_call r cs = Inr r' \<Longrightarrow>
     im_importId r' = im_importId r \<and> im_handoffId r' = im_handoffId r \<and>
     im_destinationWorkerId r' = im_destinationWorkerId r"
  by (induction cs arbitrary: r) (auto simp: import_identity split: sum.splits)

lemma transitionImport_steps:
  "im_state r = IS_created \<Longrightarrow> transitionImport now r ''receive_payload'' =
     Inr (r\<lparr>im_state := IS_payload_received, im_importedAt := Some (Iso now)\<rparr>)"
  "im_state r = IS_payload_received \<Longrightarrow> transitionImport now r ''validate_integrity'' =
     Inr (r\<lparr>im_state := IS_integrity_validated, im_validatedAt := Some (Iso now)\<rparr>)"
  "im_state r = IS_integrity_validated \<Longrightarrow> transitionImport now r ''validate_compatibility'' =
     Inr (r\<lparr>im_state := IS_compatibility_validated, im_validatedAt := Some (Iso now)\<rparr>)"
  "im_state r = IS_compatibility_validated \<Longrightarrow> transitionImport now r ''materialize_namespace'' =
     Inr (r\<lparr>im_state := IS_namespace_materialized, im_importedAt := Some (Iso now)\<rparr>)"
  "im_state r = IS_namespace_materialized \<Longrightarrow> transitionImport now r ''activate'' =
     Inr (r\<lparr>im_state := IS_activated, im_activatedAt := Some (Iso now)\<rparr>)"
  "im_state r = IS_activated \<Longrightarrow>
     transitionImport now r ''acknowledge'' = Inr (r\<lparr>im_state := IS_acknowledged\<rparr>)"
  by (simp_all add: transitionImport_def)

section \<open>Source disposition\<close>

definition createDispositionRecord ::
  "millis \<Rightarrow> string \<Rightarrow> string \<Rightarrow> string \<Rightarrow> SourceRetentionPolicy \<Rightarrow> SourceDispositionRecord" where
  "createDispositionRecord now handoffId sourceWorkerId nsId policy =
     \<lparr>sd_handoffId = handoffId,
      sd_sourceWorkerId = sourceWorkerId,
      sd_sourceWorkerInstanceId = [],
      sd_sourceKvNamespaceId = nsId,
      sd_policy = policy,
      sd_state = SD_pending,
      sd_deadlineAt =
        (if take 7 (SourceRetentionPolicy_str policy) = ''retain_''
         then Some (Iso (now + 60 * 60 * 1000)) else None),
      sd_resolvedAt = None\<rparr>"

definition resolveDisposition ::
  "millis \<Rightarrow> SourceDispositionRecord \<Rightarrow> bool \<Rightarrow> bool \<Rightarrow> SourceDispositionRecord" where
  "resolveDisposition now record1 commitSuccess decodeComplete =
     (if sd_state record1 \<noteq> SD_pending then record1
      else
        let newState = (case sd_policy record1 of
              retain_until_destination_commit \<Rightarrow> if commitSuccess then SD_retained else SD_pending
            | retain_until_decode_completion \<Rightarrow> if decodeComplete then SD_retained else SD_pending
            | release_after_destination_commit \<Rightarrow> if commitSuccess then SD_released else SD_pending
            | invalidate_after_destination_commit \<Rightarrow>
                if commitSuccess then SD_invalidated else SD_pending)
        in record1\<lparr>sd_state := newState,
                   sd_resolvedAt := (if newState \<noteq> SD_pending then Some (Iso now) else None)\<rparr>)"

definition isDispositionResolved :: "SourceDispositionRecord \<Rightarrow> bool" where
  "isDispositionResolved record1 \<longleftrightarrow> sd_state record1 \<noteq> SD_pending"

text \<open>What a retention policy waits for, and what it then does with the source namespace.\<close>

fun policy_trigger :: "SourceRetentionPolicy \<Rightarrow> bool \<Rightarrow> bool \<Rightarrow> bool" where
  "policy_trigger retain_until_decode_completion commitSuccess decodeComplete = decodeComplete"
| "policy_trigger _ commitSuccess decodeComplete = commitSuccess"

fun policy_outcome :: "SourceRetentionPolicy \<Rightarrow> SourceDispositionState" where
  "policy_outcome release_after_destination_commit = SD_released"
| "policy_outcome invalidate_after_destination_commit = SD_invalidated"
| "policy_outcome _ = SD_retained"

lemma policy_outcome_not_pending [simp]: "policy_outcome p \<noteq> SD_pending"
  by (cases p) simp_all

lemma resolveDisposition_pending:
  "sd_state r = SD_pending \<Longrightarrow> resolveDisposition now r c d =
     (if policy_trigger (sd_policy r) c d
      then r\<lparr>sd_state := policy_outcome (sd_policy r), sd_resolvedAt := Some (Iso now)\<rparr>
      else r\<lparr>sd_resolvedAt := None\<rparr>)"
  by (cases "sd_policy r") (simp_all add: resolveDisposition_def)

fun resolve_all ::
  "SourceDispositionRecord \<Rightarrow> (millis \<times> bool \<times> bool) list \<Rightarrow> SourceDispositionRecord" where
  "resolve_all r [] = r"
| "resolve_all r ((now, c, d) # es) = resolve_all (resolveDisposition now r c d) es"

lemma resolve_all_resolved: "sd_state r \<noteq> SD_pending \<Longrightarrow> resolve_all r es = r"
  by (induction r es rule: resolve_all.induct) (auto simp: resolveDisposition_def)

lemma resolve_all_pending:
  assumes "sd_state r = SD_pending" and "sd_resolvedAt r = None"
  shows "resolve_all r es =
    (case List.find (\<lambda>(now, c, d). policy_trigger (sd_policy r) c d) es of
       None \<Rightarrow> r
     | Some (now, c, d) \<Rightarrow>
         r\<lparr>sd_state := policy_outcome (sd_policy r), sd_resolvedAt := Some (Iso now)\<rparr>)"
  using assms
proof (induction r es rule: resolve_all.induct)
  case (2 r now c d es)
  from 2(3) have [simp]: "r\<lparr>sd_resolvedAt := None\<rparr> = r" by (cases r) simp
  show ?case
  proof (cases "policy_trigger (sd_policy r) c d")
    case True
    with 2(2) show ?thesis by (simp add: resolveDisposition_pending resolve_all_resolved)
  next
    case False
    with 2(2) have "resolveDisposition now r c d = r" by (simp add: resolveDisposition_pending)
    from 2(1) [unfolded this, OF 2(2,3)] this False show ?thesis by simp
  qed
qed simp

section \<open>Properties\<close>

text \<open>
  An import that starts from a fresh record is complete only after the payload was received,
  its integrity and then its compatibility validated, the namespace materialised and activated, by
  exactly these calls in this order, with at most one further call that acknowledges it; the record
  then carries the instants of the materialisation, of the compatibility check and of the
  activation, and no failure class.
\<close>

theorem import_complete_history:
  assumes "run_actions transition_call (createImportRecord h w i) cs = Inr r"
    and "isImportComplete r"
  shows "\<exists>t1 t2 t3 t4 t5 rest.
     cs = [(t1, ''receive_payload''), (t2, ''validate_integrity''), (t3, ''validate_compatibility''),
           (t4, ''materialize_namespace''), (t5, ''activate'')] @ rest \<and>
     List.map snd rest \<in> {[], [''acknowledge'']} \<and>
     im_importedAt r = Some (Iso t4) \<and> im_validatedAt r = Some (Iso t3) \<and>
     im_activatedAt r = Some (Iso t5) \<and> im_failureClass r = None"
proof -
  have "run_actions import_step IS_created (List.map snd cs) = Inr (im_state r)"
    using import_run_states [OF assms(1)] by (simp add: createImportRecord_def)
  with assms(2) have "List.map snd cs = take 5 import_actions \<or> List.map snd cs = take 6 import_actions"
    by (auto simp: isImportComplete_def import_runs)
  then obtain t1 t2 t3 t4 t5 rest where
    cs: "cs = [(t1, ''receive_payload''), (t2, ''validate_integrity''),
        (t3, ''validate_compatibility''), (t4, ''materialize_namespace''), (t5, ''activate'')] @ rest"
    and rest: "List.map snd rest \<in> {[], [''acknowledge'']}"
    by (auto simp: import_actions_def map_eq_Cons_conv)
  from rest consider "rest = []" | t6 where "rest = [(t6, ''acknowledge'')]"
    by (auto simp: map_eq_Cons_conv)
  then have "im_importedAt r = Some (Iso t4) \<and> im_validatedAt r = Some (Iso t3) \<and>
     im_activatedAt r = Some (Iso t5) \<and> im_failureClass r = None"
    using assms(1) unfolding cs
    by cases (auto simp: transitionImport_steps createImportRecord_def)
  note f = this
  show ?thesis by (intro exI conjI, rule cs, rule rest) (simp_all add: f)
qed

theorem import_complete_history_witness:
  "\<exists>t1 t2 t3 t4 t5 rest.
     [(10, ''receive_payload''), (20, ''validate_integrity''), (30, ''validate_compatibility''),
      (40, ''materialize_namespace''), (50, ''activate'')]
     = [(t1, ''receive_payload''), (t2, ''validate_integrity''), (t3, ''validate_compatibility''),
           (t4, ''materialize_namespace''), (t5, ''activate'')] @ rest \<and>
     List.map snd rest \<in> {[], [''acknowledge'']} \<and>
     Some (Iso 40) = Some (Iso t4) \<and> Some (Iso 30) = Some (Iso t3) \<and>
     Some (Iso 50) = Some (Iso t5) \<and> (None :: string option) = None"
proof -
  let ?r = "(createImportRecord ''h'' ''w'' ''i'')\<lparr>im_state := IS_activated,
    im_importedAt := Some (Iso 40), im_validatedAt := Some (Iso 30), im_activatedAt := Some (Iso 50)\<rparr>"
  have "run_actions transition_call (createImportRecord ''h'' ''w'' ''i'')
     [(10, ''receive_payload''), (20, ''validate_integrity''), (30, ''validate_compatibility''),
      (40, ''materialize_namespace''), (50, ''activate'')] = Inr ?r"
    by (simp add: transitionImport_steps createImportRecord_def)
  from import_complete_history [OF this] show ?thesis
    by (simp add: isImportComplete_def createImportRecord_def)
qed

text \<open>
  Whatever calls are made on a fresh import record, in every record that results the
  timestamps and the failure class fit the state (\<open>import_wf\<close>), the identifiers are those of the
  creation, and at most eight calls have been accepted.
\<close>

theorem import_record_invariant:
  assumes "run_actions transition_call (createImportRecord h w i) cs = Inr r"
  shows "import_wf r \<and> im_importId r = ''import_'' @ h \<and> im_handoffId r = h \<and>
    im_destinationWorkerId r = w \<and> length cs \<le> 8"
proof -
  from import_run_states [OF assms] import_fsm.run_bounded have "length cs \<le> 8"
    by (fastforce simp: createImportRecord_def)
  with import_wf_run [OF import_wf_create assms] import_identity_run [OF assms] show ?thesis
    by (simp add: createImportRecord_def)
qed

theorem import_record_invariant_witness:
  "\<exists>r. run_actions transition_call (createImportRecord ''h'' ''w'' ''i'')
         [(1, ''receive_payload''), (2, ''fail''), (3, ''rollback'')] = Inr r \<and> import_wf r"
proof -
  have "\<exists>r. run_actions transition_call (createImportRecord ''h'' ''w'' ''i'')
         [(1, ''receive_payload''), (2, ''fail''), (3, ''rollback'')] = Inr r"
    by (simp add: transitionImport_def createImportRecord_def)
  then show ?thesis using import_record_invariant by blast
qed

text \<open>
  Calling \<open>resolveDisposition\<close> any number of times on a fresh disposition record leaves it
  pending as long as no call reports the event its policy waits for (the commit, or the end of
  decoding for \<open>retain_until_decode_completion\<close>); the first call that reports it fixes the outcome
  of the policy and the instant of that call, and no later call changes the record.
\<close>

theorem disposition_resolved_once:
  "resolve_all (createDispositionRecord t h w ns p) es =
     (case List.find (\<lambda>(now, c, d). policy_trigger p c d) es of
        None \<Rightarrow> createDispositionRecord t h w ns p
      | Some (now, c, d) \<Rightarrow> (createDispositionRecord t h w ns p)
          \<lparr>sd_state := policy_outcome p, sd_resolvedAt := Some (Iso now)\<rparr>)"
proof -
  have *: "sd_state (createDispositionRecord t h w ns p) = SD_pending"
    "sd_resolvedAt (createDispositionRecord t h w ns p) = None"
    "sd_policy (createDispositionRecord t h w ns p) = p"
    by (simp_all add: createDispositionRecord_def)
  show ?thesis using resolve_all_pending [OF *(1,2), of es] unfolding *(3) .
qed

end
