(* ===== verification/Handoff_Checks.thy ===== *)
theory Handoff_Checks imports Handoff_Types begin

text \<open>
  The pure checks of the handoff protocol: requests (\<open>handoff-request.ts\<close>), authorisation
  (\<open>handoff-authorization.ts\<close>), the Dharma policy (\<open>handoff-dharma-policy.ts\<close>), export and import
  eligibility, export manifests, simulation payloads, compatibility descriptors with their
  validator, and disaggregated route plans.  \<open>sha256\<close> is the hexadecimal digest function of the
  platform and \<open>now\<close> the clock reading of a call.
\<close>

section \<open>Verdicts\<close>

text \<open>
  The object \<open>{authorized | valid | satisfied, reason}\<close> the checks return.
\<close>

record Verdict =
  vd_ok :: bool
  vd_reason :: "string option"

abbreviation accept :: Verdict where
  "accept \<equiv> \<lparr>vd_ok = True, vd_reason = None\<rparr>"

abbreviation refuse :: "string \<Rightarrow> Verdict" where
  "refuse r \<equiv> \<lparr>vd_ok = False, vd_reason = Some r\<rparr>"

section \<open>Requests\<close>

record HandoffRequestConfig =
  cf_routeId :: string
  cf_requestId :: string
  cf_executionId :: string
  cf_sourceWorkerId :: string
  cf_sourceInstanceId :: string
  cf_destWorkerId :: string
  cf_destInstanceId :: string
  cf_sourceNsId :: string
  cf_modelDigest :: string
  cf_tokenizerDigest :: string

definition DEFAULT_DEADLINE_MS :: int where
  "DEFAULT_DEADLINE_MS = 300000"

definition createHandoffRequest ::
  "millis \<Rightarrow> string \<Rightarrow> HandoffRequestConfig \<Rightarrow> PrismKvHandoffRequest" where
  "createHandoffRequest now uuid config =
     \<lparr>rq_handoffId = uuid,
      rq_routeId = cf_routeId config,
      rq_requestId = cf_requestId config,
      rq_executionId = cf_executionId config,
      rq_sessionId = None,
      rq_dharmaLeaseId = None,
      rq_sourceWorkerId = cf_sourceWorkerId config,
      rq_sourceWorkerInstanceId = cf_sourceInstanceId config,
      rq_destinationWorkerId = cf_destWorkerId config,
      rq_destinationWorkerInstanceId = cf_destInstanceId config,
      rq_sourceKvNamespaceId = cf_sourceNsId config,
      rq_modelArtifactDigest = cf_modelDigest config,
      rq_tokenizerDigest = cf_tokenizerDigest config,
      rq_sourceComputeImageDigest = [],
      rq_destinationComputeImageDigest = [],
      rq_handoffMode = simulation_only,
      rq_sourceRetentionPolicy = retain_until_destination_commit,
      rq_requestedDeadlineAt = Iso (now + DEFAULT_DEADLINE_MS),
      rq_requestedBy = cf_sourceWorkerId config,
      rq_authorizationDigest = [],
      rq_createdAt = Iso now,
      rq_signature = None\<rparr>"

definition isRequestExpired :: "millis \<Rightarrow> PrismKvHandoffRequest \<Rightarrow> bool" where
  "isRequestExpired now req = now_gt now (rq_requestedDeadlineAt req)"

definition getDeadline :: "PrismKvHandoffRequest \<Rightarrow> timestamp" where
  "getDeadline req = rq_requestedDeadlineAt req"

section \<open>Authorisation\<close>

definition authorizeHandoff :: "PrismKvHandoffRequest \<Rightarrow> string list \<Rightarrow> Verdict" where
  "authorizeHandoff req allowedRequesters =
     (if rq_requestedBy req \<in> set allowedRequesters then accept
      else refuse (''Requester '' @ quoted (rq_requestedBy req) @ '' is not in the allowed list''))"

definition validateHandoffMode :: "HandoffMode \<Rightarrow> bool \<Rightarrow> Verdict" where
  "validateHandoffMode mode simulationEnabled =
     (if mode = simulation_only then
        (if simulationEnabled then accept else refuse ''Simulation is not enabled'')
      else refuse (''Mode '' @ quoted (HandoffMode_str mode) @
             '' requires real transport which is not available in simulation''))"

definition checkLeaseAllowsHandoff :: "bool \<Rightarrow> HandoffMode \<Rightarrow> bool" where
  "checkLeaseAllowsHandoff leaseAllows mode = (if leaseAllows then True else mode = simulation_only)"

section \<open>Dharma policy\<close>

definition createDefaultDharmaHandoffPolicy :: DharmaPrismHandoffPolicy where
  "createDefaultDharmaHandoffPolicy =
     \<lparr>hp_allowSimulatedHandoff = False,
      hp_allowFutureTransportHandoff = True,
      hp_allowedSourceWorkers = [],
      hp_allowedDestinationWorkers = [],
      hp_requiredArtifactParityMode = ''strict'',
      hp_requiredTransferRepresentation = None,
      hp_maximumHandoffBytes = 10 * 1024 * 1024 * 1024,
      hp_maximumHandoffDurationMs = 60000,
      hp_sourceRetentionPolicy = retain_until_destination_commit,
      hp_requireHandoffReceipt = True,
      hp_requireDestinationSignature = False\<rparr>"

definition createSimulationDharmaHandoffPolicy :: DharmaPrismHandoffPolicy where
  "createSimulationDharmaHandoffPolicy = createDefaultDharmaHandoffPolicy
     \<lparr>hp_allowSimulatedHandoff := True, hp_requiredArtifactParityMode := ''evaluation''\<rparr>"

definition isHandoffPolicySatisfied ::
  "DharmaPrismHandoffPolicy \<Rightarrow> PrismKvHandoffRequest \<Rightarrow> Verdict" where
  "isHandoffPolicySatisfied policy request =
     (if rq_handoffMode request = simulation_only \<and> \<not> hp_allowSimulatedHandoff policy
      then refuse ''simulated_handoff_not_permitted_by_policy''
      else if rq_handoffMode request = future_transport_required \<and>
              \<not> hp_allowFutureTransportHandoff policy
      then refuse ''future_transport_handoff_not_permitted_by_policy''
      else if length (hp_allowedSourceWorkers policy) > 0 \<and>
              rq_sourceWorkerId request \<notin> set (hp_allowedSourceWorkers policy)
      then refuse (''source_worker_not_allowed: '' @ rq_sourceWorkerId request)
      else if length (hp_allowedDestinationWorkers policy) > 0 \<and>
              rq_destinationWorkerId request \<notin> set (hp_allowedDestinationWorkers policy)
      then refuse (''destination_worker_not_allowed: '' @ rq_destinationWorkerId request)
      else if hp_requiredArtifactParityMode policy = ''strict'' \<and>
              rq_sourceComputeImageDigest request \<noteq> rq_destinationComputeImageDigest request
      then refuse ''artifact_parity_mismatch: source and destination compute images differ''
      else accept)"

definition isHandoffPermittedByLease :: "DharmaPrismHandoffPolicy \<Rightarrow> string \<Rightarrow> bool" where
  "isHandoffPermittedByLease policy mode =
     (if mode = ''simulation_only'' then hp_allowSimulatedHandoff policy
      else if mode = ''future_transport_required'' then hp_allowFutureTransportHandoff policy
      else False)"

section \<open>Eligibility\<close>

record 'c EligibilityResult =
  el_eligible :: bool
  el_rejectionClass :: "'c option"
  el_reason :: "string option"

abbreviation not_eligible :: "'c \<Rightarrow> string \<Rightarrow> 'c EligibilityResult" where
  "not_eligible c r \<equiv> \<lparr>el_eligible = False, el_rejectionClass = Some c, el_reason = Some r\<rparr>"

definition checkSourceExportEligibility ::
  "PrismKvHandoffRequest \<Rightarrow> bool \<Rightarrow> bool \<Rightarrow> bool \<Rightarrow> bool \<Rightarrow> bool \<Rightarrow> bool \<Rightarrow> bool \<Rightarrow> bool \<Rightarrow> bool \<Rightarrow> bool \<Rightarrow>
   bool \<Rightarrow> bool \<Rightarrow> bool \<Rightarrow> SourceRejectionClass EligibilityResult" where
  "checkSourceExportEligibility request active instanceMatch pinValid nsExists nsExportable
     prefillComplete nsNotInvalidated notCancelled notRevoked artifactMatch tokenizerMatch
     capacityOk exportSupported =
   (if \<not> active then not_eligible source_worker_unavailable ''Source worker is not active''
    else if \<not> instanceMatch then not_eligible source_instance_mismatch
      ''Source worker instance ID does not match the handoff request''
    else if \<not> pinValid then not_eligible source_execution_pin_invalid
      ''Source execution pin is invalid or misaligned with the current deployment''
    else if \<not> nsExists then not_eligible source_namespace_missing
      ''Source KV namespace does not exist on the worker''
    else if \<not> nsExportable then not_eligible source_namespace_not_exportable
      ''Source KV namespace is not marked exportable''
    else if \<not> prefillComplete then not_eligible prefill_not_completed
      ''Prefill phase has not completed for the source KV namespace''
    else if \<not> nsNotInvalidated then not_eligible source_namespace_invalidated
      ''Source KV namespace has been invalidated and cannot be exported''
    else if \<not> notCancelled then not_eligible SR_request_cancelled
      ''Handoff request has been cancelled''
    else if \<not> notRevoked then not_eligible SR_lease_revoked ''Handoff lease has been revoked''
    else if \<not> artifactMatch then not_eligible artifact_mismatch
      ''Model artifact digest does not match between request and source worker''
    else if \<not> tokenizerMatch then not_eligible tokenizer_mismatch
      ''Tokenizer digest does not match between request and source worker''
    else if \<not> capacityOk then not_eligible source_capacity_exceeded
      ''Source worker capacity is insufficient for the export''
    else if \<not> exportSupported then not_eligible handoff_export_not_supported
      ''This worker does not support handoff export for the given configuration''
    else \<lparr>el_eligible = True, el_rejectionClass = None, el_reason = None\<rparr>)"

definition checkDestinationImportEligibility ::
  "PrismKvHandoffRequest \<Rightarrow> bool \<Rightarrow> bool \<Rightarrow> bool \<Rightarrow> bool \<Rightarrow> bool \<Rightarrow> bool \<Rightarrow> bool \<Rightarrow> bool \<Rightarrow> bool \<Rightarrow> bool \<Rightarrow>
   bool \<Rightarrow> bool \<Rightarrow> bool \<Rightarrow> DestinationRejectionClass EligibilityResult" where
  "checkDestinationImportEligibility request active instanceMatch decodeSupported importSupported
     artifactMatch tokenizerMatch layoutCompatible computeImageCompatible capacityOk kvCapacityOk
     notDraining notCancelled notRevoked =
   (if \<not> active then not_eligible destination_worker_unavailable
      ''Destination worker is not active''
    else if \<not> instanceMatch then not_eligible destination_instance_mismatch
      ''Destination worker instance ID does not match the handoff request''
    else if \<not> decodeSupported then not_eligible destination_decode_unsupported
      ''Destination worker does not support the required KV cache decode format''
    else if \<not> importSupported then not_eligible destination_import_not_supported
      ''Destination worker does not support KV cache import operations''
    else if \<not> artifactMatch then not_eligible destination_artifact_mismatch
      ''Model artifact digest does not match between request and destination worker''
    else if \<not> tokenizerMatch then not_eligible destination_tokenizer_mismatch
      ''Tokenizer digest does not match between request and destination worker''
    else if \<not> layoutCompatible then not_eligible destination_layout_incompatible
      ''KV cache head layout is incompatible with the destination worker''
    else if \<not> computeImageCompatible then not_eligible destination_compute_image_incompatible
      ''Compute image is incompatible between source and destination''
    else if \<not> capacityOk then not_eligible destination_capacity_exceeded
      ''Destination worker capacity is insufficient for the import''
    else if \<not> kvCapacityOk then not_eligible destination_kv_capacity_exceeded
      ''Destination worker KV cache capacity is insufficient''
    else if \<not> notDraining then not_eligible destination_draining
      ''Destination worker is currently draining and cannot accept imports''
    else if \<not> notCancelled then not_eligible DR_request_cancelled
      ''Handoff request has been cancelled''
    else if \<not> notRevoked then not_eligible DR_lease_revoked ''Handoff lease has been revoked''
    else \<lparr>el_eligible = True, el_rejectionClass = None, el_reason = None\<rparr>)"

section \<open>Export manifests\<close>

definition createExportManifest ::
  "millis \<Rightarrow> string \<Rightarrow> string \<Rightarrow> string \<Rightarrow> string \<Rightarrow> string \<Rightarrow> int \<Rightarrow> int \<Rightarrow> int \<Rightarrow> string \<Rightarrow>
   PrismKvExportManifest" where
  "createExportManifest now handoffId sourceWorkerId sourceInstanceId nsId descDigest seqLen pages
     bytes contentDigest =
     \<lparr>mf_manifestId = ''manifest-'' @ handoffId,
      mf_handoffId = handoffId,
      mf_sourceWorkerId = sourceWorkerId,
      mf_sourceWorkerInstanceId = sourceInstanceId,
      mf_sourceKvNamespaceId = nsId,
      mf_modelArtifactDigest = [],
      mf_tokenizerDigest = [],
      mf_compatibilityDescriptorDigest = descDigest,
      mf_transferRepresentation = ''simulation'',
      mf_sequenceLength = seqLen,
      mf_pageCount = pages,
      mf_byteLength = bytes,
      mf_deterministicContentDigest = contentDigest,
      mf_exportGeneration = 1,
      mf_exportedAt = Iso now,
      mf_expiresAt = Iso (now + 300000),
      mf_sourceSignature = []\<rparr>"

definition validateManifest :: "PrismKvExportManifest \<Rightarrow> string \<Rightarrow> Verdict" where
  "validateManifest manifest expectedHandoffId =
     (if mf_handoffId manifest \<noteq> expectedHandoffId then
        refuse (''Manifest handoffId '' @ quoted (mf_handoffId manifest) @
                '' does not match expected '' @ quoted expectedHandoffId)
      else if \<not> truthy (mf_manifestId manifest) then refuse ''Manifest manifestId is missing''
      else if \<not> truthy (mf_sourceWorkerId manifest) then
        refuse ''Manifest sourceWorkerId is missing''
      else if \<not> truthy (mf_sourceKvNamespaceId manifest) then
        refuse ''Manifest sourceKvNamespaceId is missing''
      else if \<not> truthy (mf_compatibilityDescriptorDigest manifest) then
        refuse ''Manifest compatibilityDescriptorDigest is missing''
      else if mf_sequenceLength manifest \<le> 0 then
        refuse ''Manifest sequenceLength must be positive''
      else if mf_pageCount manifest \<le> 0 then refuse ''Manifest pageCount must be positive''
      else if mf_byteLength manifest \<le> 0 then refuse ''Manifest byteLength must be positive''
      else if mf_exportGeneration manifest \<le> 0 then
        refuse ''Manifest exportGeneration must be positive''
      else if \<not> ts_truthy (mf_exportedAt manifest) then refuse ''Manifest exportedAt is missing''
      else if \<not> ts_truthy (mf_expiresAt manifest) then refuse ''Manifest expiresAt is missing''
      else accept)"

definition isManifestExpired :: "millis \<Rightarrow> PrismKvExportManifest \<Rightarrow> bool" where
  "isManifestExpired now manifest =
     (if \<not> ts_truthy (mf_expiresAt manifest) then True
      else (case date_value (mf_expiresAt manifest) of
              None \<Rightarrow> True
            | Some expiry \<Rightarrow> now > expiry))"

section \<open>Simulation payloads\<close>

definition SUPPORTED_PAYLOAD_VERSIONS :: "int list" where
  "SUPPORTED_PAYLOAD_VERSIONS = [1]"

definition createSimulationPayload ::
  "(string \<Rightarrow> string) \<Rightarrow> string \<Rightarrow> string \<Rightarrow> string \<Rightarrow> int \<Rightarrow> int \<Rightarrow> int \<Rightarrow> PrismKvSimulationPayload" where
  "createSimulationPayload sha256 handoffId nsId seed seqLen layers pages =
     (let bytesPerPosition = layers * 2 * 2;
          byteLength = seqLen * bytesPerPosition * pages;
          fixtureCombined = handoffId @ ''|'' @ nsId @ ''|'' @ seed;
          contentDigest = sha256 fixtureCombined
      in \<lparr>pl_payloadId = ''payload-'' @ handoffId,
          pl_handoffId = handoffId,
          pl_sourceKvNamespaceId = nsId,
          pl_modelArtifactDigest = [],
          pl_tokenizerDigest = [],
          pl_compatibilityDescriptorDigest = [],
          pl_sequenceLength = seqLen,
          pl_layerCount = layers,
          pl_pageCount = pages,
          pl_byteLength = byteLength,
          pl_deterministicContentDigest = contentDigest,
          pl_fixtureSeed = seed,
          pl_payloadVersion = 1\<rparr>)"

definition payload_fields :: "PrismKvSimulationPayload \<Rightarrow> string list" where
  "payload_fields payload =
     [pl_handoffId payload, pl_sourceKvNamespaceId payload, pl_fixtureSeed payload,
      show_int (pl_sequenceLength payload), show_int (pl_layerCount payload),
      show_int (pl_pageCount payload), show_int (pl_byteLength payload),
      show_int (pl_payloadVersion payload)]"

definition computePayloadDigest :: "(string \<Rightarrow> string) \<Rightarrow> PrismKvSimulationPayload \<Rightarrow> string" where
  "computePayloadDigest sha256 payload = sha256 (js_join ''|'' (payload_fields payload))"

definition verifyPayloadIntegrity ::
  "(string \<Rightarrow> string) \<Rightarrow> PrismKvSimulationPayload \<Rightarrow> string \<Rightarrow> bool" where
  "verifyPayloadIntegrity sha256 payload expectedDigest \<longleftrightarrow>
     computePayloadDigest sha256 payload = expectedDigest"

definition isPayloadVersionSupported :: "int \<Rightarrow> bool" where
  "isPayloadVersionSupported version \<longleftrightarrow> version \<in> set SUPPORTED_PAYLOAD_VERSIONS"

section \<open>Compatibility descriptors\<close>

definition createCompatibilityDescriptor ::
  "string \<Rightarrow> string \<Rightarrow> string \<Rightarrow> string \<Rightarrow> string \<Rightarrow> string \<Rightarrow> string \<Rightarrow> string \<Rightarrow> string \<Rightarrow> int \<Rightarrow> int \<Rightarrow> int \<Rightarrow>
   string \<Rightarrow> string \<Rightarrow> string \<Rightarrow> PrismKvCompatibilityDescriptor" where
  "createCompatibilityDescriptor modelDigest tokenizerDigest archDigest attnDigest ropeDigest
     kvQuantDigest kvPrecision pageShape headLayout layers hiddenDim seqLen sourceClass destClass
     transferRep =
     \<lparr>cd_compatibilityVersion = 1,
      cd_modelArtifactDigest = modelDigest,
      cd_tokenizerDigest = tokenizerDigest,
      cd_architectureDigest = archDigest,
      cd_attentionLayoutDigest = attnDigest,
      cd_ropeConfigurationDigest = ropeDigest,
      cd_kvQuantizationDigest = kvQuantDigest,
      cd_kvPrecisionMode = kvPrecision,
      cd_kvPageShape = pageShape,
      cd_kvHeadLayout = headLayout,
      cd_kvLayerCount = layers,
      cd_kvHiddenDimension = hiddenDim,
      cd_kvSequenceLength = seqLen,
      cd_sourceComputeImageClass = sourceClass,
      cd_destinationComputeImageClass = destClass,
      cd_transferRepresentation = transferRep,
      cd_targetEndianness = None,
      cd_targetAlignmentClass = None\<rparr>"

definition descriptor_fields :: "PrismKvCompatibilityDescriptor \<Rightarrow> string list" where
  "descriptor_fields desc =
     [show_int (cd_compatibilityVersion desc), cd_modelArtifactDigest desc,
      cd_tokenizerDigest desc, cd_architectureDigest desc, cd_attentionLayoutDigest desc,
      cd_ropeConfigurationDigest desc, cd_kvQuantizationDigest desc, cd_kvPrecisionMode desc,
      cd_kvPageShape desc, cd_kvHeadLayout desc, show_int (cd_kvLayerCount desc),
      show_int (cd_kvHiddenDimension desc), show_int (cd_kvSequenceLength desc),
      cd_sourceComputeImageClass desc, cd_destinationComputeImageClass desc,
      cd_transferRepresentation desc, nullish (cd_targetEndianness desc) [],
      nullish (cd_targetAlignmentClass desc) []]"

definition getDescriptorDigest ::
  "(string \<Rightarrow> string) \<Rightarrow> PrismKvCompatibilityDescriptor \<Rightarrow> string" where
  "getDescriptorDigest sha256 desc = sha256 (js_join ''|'' (descriptor_fields desc))"

definition COMPARISON_FIELDS :: "string list" where
  "COMPARISON_FIELDS =
     [''modelArtifactDigest'', ''tokenizerDigest'', ''architectureDigest'',
      ''attentionLayoutDigest'', ''ropeConfigurationDigest'', ''kvQuantizationDigest'',
      ''kvPrecisionMode'', ''kvPageShape'', ''kvHeadLayout'', ''kvLayerCount'',
      ''kvHiddenDimension'', ''kvSequenceLength'', ''transferRepresentation'',
      ''sourceComputeImageClass'', ''destinationComputeImageClass'']"

definition STRICT_FIELDS :: "string list" where
  "STRICT_FIELDS = COMPARISON_FIELDS"

text \<open>\<open>String(desc[field] ?? "")\<close> for the field names the validator uses.\<close>

definition descriptor_table :: "PrismKvCompatibilityDescriptor \<Rightarrow> (string \<times> string) list" where
  "descriptor_table desc =
     [(''modelArtifactDigest'', cd_modelArtifactDigest desc),
      (''tokenizerDigest'', cd_tokenizerDigest desc),
      (''architectureDigest'', cd_architectureDigest desc),
      (''attentionLayoutDigest'', cd_attentionLayoutDigest desc),
      (''ropeConfigurationDigest'', cd_ropeConfigurationDigest desc),
      (''kvQuantizationDigest'', cd_kvQuantizationDigest desc),
      (''kvPrecisionMode'', cd_kvPrecisionMode desc),
      (''kvPageShape'', cd_kvPageShape desc),
      (''kvHeadLayout'', cd_kvHeadLayout desc),
      (''kvLayerCount'', show_int (cd_kvLayerCount desc)),
      (''kvHiddenDimension'', show_int (cd_kvHiddenDimension desc)),
      (''kvSequenceLength'', show_int (cd_kvSequenceLength desc)),
      (''transferRepresentation'', cd_transferRepresentation desc),
      (''sourceComputeImageClass'', cd_sourceComputeImageClass desc),
      (''destinationComputeImageClass'', cd_destinationComputeImageClass desc)]"

definition descriptor_field :: "PrismKvCompatibilityDescriptor \<Rightarrow> string \<Rightarrow> string" where
  "descriptor_field desc field = nullish (map_of (descriptor_table desc) field) []"

record CompatibilityVerdict =
  cv_compatible :: bool
  cv_mismatchedFields :: "string list"
  cv_reason :: "string option"

fun CompatibilityMode_str :: "CompatibilityMode \<Rightarrow> string" where
  "CompatibilityMode_str CM_strict = ''strict''"
| "CompatibilityMode_str CM_family = ''family''"
| "CompatibilityMode_str CM_evaluation = ''evaluation''"

definition fieldsToCheck :: "CompatibilityMode \<Rightarrow> string list" where
  "fieldsToCheck mode = (case mode of
     CM_strict \<Rightarrow> STRICT_FIELDS
   | CM_family \<Rightarrow> List.filter (\<lambda>f. f \<noteq> ''sourceComputeImageClass'' \<and>
        f \<noteq> ''destinationComputeImageClass'' \<and> f \<noteq> ''transferRepresentation'') STRICT_FIELDS
   | CM_evaluation \<Rightarrow> [''modelArtifactDigest'', ''tokenizerDigest''])"

text \<open>The loop of the validator: push every field whose printed values differ.\<close>

fun collect_mismatches ::
  "PrismKvCompatibilityDescriptor \<Rightarrow> PrismKvCompatibilityDescriptor \<Rightarrow> string list \<Rightarrow> string list \<Rightarrow>
   string list" where
  "collect_mismatches source dest acc [] = acc"
| "collect_mismatches source dest acc (field # rest) =
     collect_mismatches source dest
       (if descriptor_field source field \<noteq> descriptor_field dest field then acc @ [field] else acc)
       rest"

definition validateCompatibility ::
  "PrismKvCompatibilityDescriptor \<Rightarrow> PrismKvCompatibilityDescriptor \<Rightarrow> CompatibilityMode \<Rightarrow>
   CompatibilityVerdict" where
  "validateCompatibility source dest mode =
     (let mismatchedFields = collect_mismatches source dest [] (fieldsToCheck mode)
      in if length mismatchedFields > 0
         then \<lparr>cv_compatible = False, cv_mismatchedFields = mismatchedFields,
               cv_reason = Some (''Mismatched fields in '' @ CompatibilityMode_str mode @
                 '' mode: '' @ js_join '', '' mismatchedFields)\<rparr>
         else \<lparr>cv_compatible = True, cv_mismatchedFields = [], cv_reason = None\<rparr>)"

fun strict_loop ::
  "PrismKvCompatibilityDescriptor \<Rightarrow> PrismKvCompatibilityDescriptor \<Rightarrow> string list \<Rightarrow> bool" where
  "strict_loop source dest [] = True"
| "strict_loop source dest (field # rest) =
     (if descriptor_field source field \<noteq> descriptor_field dest field then False
      else strict_loop source dest rest)"

definition isStrictlyCompatible ::
  "PrismKvCompatibilityDescriptor \<Rightarrow> PrismKvCompatibilityDescriptor \<Rightarrow> bool" where
  "isStrictlyCompatible source dest = strict_loop source dest STRICT_FIELDS"

definition getMismatchedFields ::
  "PrismKvCompatibilityDescriptor \<Rightarrow> PrismKvCompatibilityDescriptor \<Rightarrow> string list" where
  "getMismatchedFields source dest = collect_mismatches source dest [] COMPARISON_FIELDS"

section \<open>Disaggregated route plans\<close>

definition createSameWorkerRoutePlan :: "string \<Rightarrow> string \<Rightarrow> PrismDisaggregatedRoutePlan" where
  "createSameWorkerRoutePlan requestId workerId =
     \<lparr>dr_routeId = ''route-'' @ workerId @ ''-'' @ requestId,
      dr_requestId = requestId,
      dr_prefillWorkerId = workerId,
      dr_decodeWorkerId = workerId,
      dr_executionPinningPolicy = HC_same_worker_required,
      dr_handoffRequired = False,
      dr_handoffId = None,
      dr_handoffMode = None,
      dr_compatibilityResult = Some ''compatible_same_worker'',
      dr_sourceRetentionPolicy = retain_until_destination_commit,
      dr_handoffDeadlineAt = None,
      dr_prefillSelectionReason = ''single_worker_optimization'',
      dr_decodeSelectionReason = ''single_worker_optimization'',
      dr_handoffSelectionReason = None,
      dr_routeState = ''same_worker_pinned''\<rparr>"

definition createSimulatedHandoffRoutePlan ::
  "millis \<Rightarrow> string \<Rightarrow> string \<Rightarrow> string \<Rightarrow> string \<Rightarrow> PrismDisaggregatedRoutePlan" where
  "createSimulatedHandoffRoutePlan now requestId prefillWorkerId decodeWorkerId handoffId =
     \<lparr>dr_routeId = ''route-dag-'' @ prefillWorkerId @ ''-'' @ decodeWorkerId,
      dr_requestId = requestId,
      dr_prefillWorkerId = prefillWorkerId,
      dr_decodeWorkerId = decodeWorkerId,
      dr_executionPinningPolicy = HC_simulated_handoff_required,
      dr_handoffRequired = True,
      dr_handoffId = Some handoffId,
      dr_handoffMode = Some simulation_only,
      dr_compatibilityResult = Some ''compatible_simulation'',
      dr_sourceRetentionPolicy = retain_until_destination_commit,
      dr_handoffDeadlineAt = Some (Iso (now + 30000)),
      dr_prefillSelectionReason = ''simulated_handoff_prefill_worker'',
      dr_decodeSelectionReason = ''simulated_handoff_decode_worker'',
      dr_handoffSelectionReason = Some ''simulation_mode_eligible'',
      dr_routeState = ''handoff_required''\<rparr>"

definition isRoutePlanDisaggregated :: "PrismDisaggregatedRoutePlan \<Rightarrow> bool" where
  "isRoutePlanDisaggregated plan \<longleftrightarrow> dr_prefillWorkerId plan \<noteq> dr_decodeWorkerId plan"

definition canRouteToHandoff :: "PrismDisaggregatedRoutePlan \<Rightarrow> bool" where
  "canRouteToHandoff plan \<longleftrightarrow>
     dr_handoffRequired plan = True \<and> dr_handoffId plan \<noteq> None \<and>
     dr_executionPinningPolicy plan \<noteq> HC_not_supported"

section \<open>Lemmas\<close>

lemma collect_mismatches_filter:
  "collect_mismatches a b acc fs =
     acc @ List.filter (\<lambda>f. descriptor_field a f \<noteq> descriptor_field b f) fs"
  by (induction fs arbitrary: acc) auto

lemma strict_loop_all:
  "strict_loop a b fs \<longleftrightarrow> (\<forall>f\<in>set fs. descriptor_field a f = descriptor_field b f)"
  by (induction fs) auto

lemma compatible_iff:
  "cv_compatible (validateCompatibility a b m) \<longleftrightarrow>
     (\<forall>f\<in>set (fieldsToCheck m). descriptor_field a f = descriptor_field b f)"
  by (auto simp: validateCompatibility_def collect_mismatches_filter filter_empty_conv Let_def)

lemma family_fields_strict: "set (fieldsToCheck CM_family) \<subseteq> set (fieldsToCheck CM_strict)"
  by (auto simp: fieldsToCheck_def)

lemma evaluation_fields_family: "set (fieldsToCheck CM_evaluation) \<subseteq> set (fieldsToCheck CM_family)"
  by (simp add: fieldsToCheck_def STRICT_FIELDS_def COMPARISON_FIELDS_def)

lemma strict_fields_eq:
  "(\<forall>f\<in>set STRICT_FIELDS. descriptor_field a f = descriptor_field b f) \<longleftrightarrow>
     List.map snd (descriptor_table a) = List.map snd (descriptor_table b)"
  by (simp add: STRICT_FIELDS_def COMPARISON_FIELDS_def descriptor_field_def descriptor_table_def)

lemma descriptor_fields_table:
  "descriptor_fields a = descriptor_fields b \<Longrightarrow>
     List.map snd (descriptor_table a) = List.map snd (descriptor_table b)"
  by (simp add: descriptor_fields_def descriptor_table_def)

section \<open>Properties\<close>

text \<open>
  Source export is eligible exactly when all thirteen conditions hold, and otherwise the
  rejection class is that of the first condition, in the documented order, that does not hold.
\<close>

theorem source_eligibility_first_rejection:
  "el_rejectionClass (checkSourceExportEligibility req active instanceMatch pinValid nsExists
      nsExportable prefillComplete nsNotInvalidated notCancelled notRevoked artifactMatch
      tokenizerMatch capacityOk exportSupported) =
   first_failure
     [(active, source_worker_unavailable), (instanceMatch, source_instance_mismatch),
      (pinValid, source_execution_pin_invalid), (nsExists, source_namespace_missing),
      (nsExportable, source_namespace_not_exportable), (prefillComplete, prefill_not_completed),
      (nsNotInvalidated, source_namespace_invalidated), (notCancelled, SR_request_cancelled),
      (notRevoked, SR_lease_revoked), (artifactMatch, artifact_mismatch),
      (tokenizerMatch, tokenizer_mismatch), (capacityOk, source_capacity_exceeded),
      (exportSupported, handoff_export_not_supported)] \<and>
   (el_eligible (checkSourceExportEligibility req active instanceMatch pinValid nsExists
      nsExportable prefillComplete nsNotInvalidated notCancelled notRevoked artifactMatch
      tokenizerMatch capacityOk exportSupported) \<longleftrightarrow>
    active \<and> instanceMatch \<and> pinValid \<and> nsExists \<and> nsExportable \<and> prefillComplete \<and>
    nsNotInvalidated \<and> notCancelled \<and> notRevoked \<and> artifactMatch \<and> tokenizerMatch \<and> capacityOk \<and>
    exportSupported)"
  by (simp add: checkSourceExportEligibility_def del: first_failure_None)

text \<open>
  Destination import is eligible exactly when all thirteen conditions hold, and otherwise the
  rejection class is that of the first condition, in the documented order, that does not hold.
\<close>

theorem destination_eligibility_first_rejection:
  "el_rejectionClass (checkDestinationImportEligibility req active instanceMatch decodeSupported
      importSupported artifactMatch tokenizerMatch layoutCompatible computeImageCompatible
      capacityOk kvCapacityOk notDraining notCancelled notRevoked) =
   first_failure
     [(active, destination_worker_unavailable), (instanceMatch, destination_instance_mismatch),
      (decodeSupported, destination_decode_unsupported),
      (importSupported, destination_import_not_supported),
      (artifactMatch, destination_artifact_mismatch),
      (tokenizerMatch, destination_tokenizer_mismatch),
      (layoutCompatible, destination_layout_incompatible),
      (computeImageCompatible, destination_compute_image_incompatible),
      (capacityOk, destination_capacity_exceeded),
      (kvCapacityOk, destination_kv_capacity_exceeded), (notDraining, destination_draining),
      (notCancelled, DR_request_cancelled), (notRevoked, DR_lease_revoked)] \<and>
   (el_eligible (checkDestinationImportEligibility req active instanceMatch decodeSupported
      importSupported artifactMatch tokenizerMatch layoutCompatible computeImageCompatible
      capacityOk kvCapacityOk notDraining notCancelled notRevoked) \<longleftrightarrow>
    active \<and> instanceMatch \<and> decodeSupported \<and> importSupported \<and> artifactMatch \<and> tokenizerMatch \<and>
    layoutCompatible \<and> computeImageCompatible \<and> capacityOk \<and> kvCapacityOk \<and> notDraining \<and>
    notCancelled \<and> notRevoked)"
  by (simp add: checkDestinationImportEligibility_def del: first_failure_None)

text \<open>
  Two descriptors are strictly compatible exactly when they agree on the fifteen compared
  fields as values, \<open>isStrictlyCompatible\<close> and \<open>getMismatchedFields\<close> give the same answer as the
  strict mode of \<open>validateCompatibility\<close>, strict compatibility implies family compatibility and
  that implies evaluation compatibility.
\<close>

theorem compatibility_modes_ordered:
  "(cv_compatible (validateCompatibility a b CM_strict) \<longleftrightarrow>
      b\<lparr>cd_compatibilityVersion := cd_compatibilityVersion a,
        cd_targetEndianness := cd_targetEndianness a,
        cd_targetAlignmentClass := cd_targetAlignmentClass a\<rparr> = a) \<and>
   (isStrictlyCompatible a b \<longleftrightarrow> cv_compatible (validateCompatibility a b CM_strict)) \<and>
   getMismatchedFields a b = cv_mismatchedFields (validateCompatibility a b CM_strict) \<and>
   (cv_compatible (validateCompatibility a b CM_strict) \<longrightarrow>
      cv_compatible (validateCompatibility a b CM_family)) \<and>
   (cv_compatible (validateCompatibility a b CM_family) \<longrightarrow>
      cv_compatible (validateCompatibility a b CM_evaluation))"
proof (intro conjI)
  have "cv_compatible (validateCompatibility a b CM_strict) \<longleftrightarrow>
      List.map snd (descriptor_table a) = List.map snd (descriptor_table b)"
    unfolding compatible_iff strict_fields_eq [symmetric] by (simp add: fieldsToCheck_def)
  then show "cv_compatible (validateCompatibility a b CM_strict) \<longleftrightarrow>
      b\<lparr>cd_compatibilityVersion := cd_compatibilityVersion a,
        cd_targetEndianness := cd_targetEndianness a,
        cd_targetAlignmentClass := cd_targetAlignmentClass a\<rparr> = a"
    by (cases a; cases b) (auto simp: descriptor_table_def)
  show "isStrictlyCompatible a b \<longleftrightarrow> cv_compatible (validateCompatibility a b CM_strict)"
    by (simp add: isStrictlyCompatible_def strict_loop_all compatible_iff fieldsToCheck_def)
  show "getMismatchedFields a b = cv_mismatchedFields (validateCompatibility a b CM_strict)"
    by (simp add: getMismatchedFields_def validateCompatibility_def fieldsToCheck_def
        STRICT_FIELDS_def Let_def)
qed (use family_fields_strict evaluation_fields_family in \<open>unfold compatible_iff, blast+\<close>)

definition sample_descriptor :: PrismKvCompatibilityDescriptor where
  "sample_descriptor = createCompatibilityDescriptor ''m'' ''t'' ''a'' ''l'' ''r'' ''q'' ''fp16''
     ''16x64'' ''gqa'' 2 64 8 ''gpu'' ''gpu'' ''raw''"

theorem compatibility_modes_ordered_witness:
  "cv_compatible (validateCompatibility sample_descriptor
     (sample_descriptor\<lparr>cd_targetEndianness := Some ''big''\<rparr>) CM_strict) \<and>
   cv_compatible (validateCompatibility sample_descriptor
     (sample_descriptor\<lparr>cd_targetEndianness := Some ''big''\<rparr>) CM_evaluation)"
  using compatibility_modes_ordered [of sample_descriptor
      "sample_descriptor\<lparr>cd_targetEndianness := Some ''big''\<rparr>"]
  by (simp add: sample_descriptor_def createCompatibilityDescriptor_def)

text \<open>
  As long as the digest function does not collide on the two canonical strings and no field
  contains the separator, two descriptors have the same digest exactly when their fields agree
  (an absent target field counting as the empty string), and descriptors with the same digest are
  compatible in the strict mode.
\<close>

theorem descriptor_digest_faithful:
  assumes "bar_free (descriptor_fields a)" and "bar_free (descriptor_fields b)"
    and "inj_on sha256 {js_join ''|'' (descriptor_fields a), js_join ''|'' (descriptor_fields b)}"
  shows "(getDescriptorDigest sha256 a = getDescriptorDigest sha256 b \<longleftrightarrow>
      descriptor_fields a = descriptor_fields b) \<and>
    (getDescriptorDigest sha256 a = getDescriptorDigest sha256 b \<longrightarrow>
      cv_compatible (validateCompatibility a b CM_strict))"
proof -
  have *: "getDescriptorDigest sha256 a = getDescriptorDigest sha256 b \<longleftrightarrow>
      descriptor_fields a = descriptor_fields b"
    unfolding getDescriptorDigest_def
    by (rule joined_inject [OF assms(1,2) _ _ assms(3)]) (simp_all add: descriptor_fields_def)
  have "cv_compatible (validateCompatibility a b CM_strict)"
    if "descriptor_fields a = descriptor_fields b"
    unfolding compatible_iff using descriptor_fields_table [OF that] strict_fields_eq [of a b]
    by (simp add: fieldsToCheck_def)
  with * show ?thesis by blast
qed

theorem descriptor_digest_faithful_witness:
  "getDescriptorDigest rev sample_descriptor \<noteq>
     getDescriptorDigest rev (sample_descriptor\<lparr>cd_kvLayerCount := 3\<rparr>)"
proof -
  have bar: "bar_free (descriptor_fields sample_descriptor)"
    "bar_free (descriptor_fields (sample_descriptor\<lparr>cd_kvLayerCount := 3\<rparr>))"
    by (simp_all add: bar_free_def descriptor_fields_def sample_descriptor_def
        createCompatibilityDescriptor_def)
  have ne: "descriptor_fields sample_descriptor \<noteq>
      descriptor_fields (sample_descriptor\<lparr>cd_kvLayerCount := 3\<rparr>)"
    by (simp add: descriptor_fields_def sample_descriptor_def createCompatibilityDescriptor_def)
  from descriptor_digest_faithful [OF bar, of rev] ne show ?thesis by (simp add: inj_on_def)
qed

text \<open>
  The payload digest detects any change of the fields it covers: with no collision on the two
  canonical strings and no separator in the identifiers, a payload passes
  \<open>verifyPayloadIntegrity\<close> against the digest of another one exactly when handoff, namespace, seed,
  sequence length, layer count, page count, byte length and version agree.
\<close>

theorem payload_tampering_detected:
  assumes "bar_free (payload_fields p)" and "bar_free (payload_fields q)"
    and "inj_on sha256 {js_join ''|'' (payload_fields q), js_join ''|'' (payload_fields p)}"
  shows "verifyPayloadIntegrity sha256 q (computePayloadDigest sha256 p) \<longleftrightarrow>
    pl_handoffId q = pl_handoffId p \<and> pl_sourceKvNamespaceId q = pl_sourceKvNamespaceId p \<and>
    pl_fixtureSeed q = pl_fixtureSeed p \<and> pl_sequenceLength q = pl_sequenceLength p \<and>
    pl_layerCount q = pl_layerCount p \<and> pl_pageCount q = pl_pageCount p \<and>
    pl_byteLength q = pl_byteLength p \<and> pl_payloadVersion q = pl_payloadVersion p"
proof -
  have "verifyPayloadIntegrity sha256 q (computePayloadDigest sha256 p) \<longleftrightarrow>
      payload_fields q = payload_fields p"
    unfolding verifyPayloadIntegrity_def computePayloadDigest_def
    by (rule joined_inject [OF assms(2,1) _ _ assms(3)]) (simp_all add: payload_fields_def)
  then show ?thesis by (simp add: payload_fields_def)
qed

theorem payload_tampering_detected_witness:
  "\<not> verifyPayloadIntegrity rev ((createSimulationPayload rev ''h'' ''n'' ''s'' 2 3 4)\<lparr>pl_byteLength := 95\<rparr>)
       (computePayloadDigest rev (createSimulationPayload rev ''h'' ''n'' ''s'' 2 3 4))"
  using payload_tampering_detected [of "createSimulationPayload rev ''h'' ''n'' ''s'' 2 3 4"
      "(createSimulationPayload rev ''h'' ''n'' ''s'' 2 3 4)\<lparr>pl_byteLength := 95\<rparr>" rev]
  by (simp add: bar_free_def payload_fields_def createSimulationPayload_def inj_on_def)

text \<open>
  The request factory and the policies fit: a request of \<open>createHandoffRequest\<close> is always
  refused by the default Dharma policy (it asks for the simulation mode), accepted by the
  simulation policy, valid in a simulation environment only, authorised exactly when its source
  worker is an allowed requester, and it expires five minutes after its creation.
\<close>

theorem created_request_policy:
  "\<not> vd_ok (isHandoffPolicySatisfied createDefaultDharmaHandoffPolicy
       (createHandoffRequest now uuid config)) \<and>
   vd_ok (isHandoffPolicySatisfied createSimulationDharmaHandoffPolicy
       (createHandoffRequest now uuid config)) \<and>
   vd_ok (validateHandoffMode (rq_handoffMode (createHandoffRequest now uuid config)) enabled) = enabled \<and>
   vd_ok (authorizeHandoff (createHandoffRequest now uuid config) allowed) =
     (cf_sourceWorkerId config \<in> set allowed) \<and>
   (isRequestExpired later (createHandoffRequest now uuid config) \<longleftrightarrow> now + 300000 < later)"
  by (simp add: isHandoffPolicySatisfied_def createDefaultDharmaHandoffPolicy_def
      createSimulationDharmaHandoffPolicy_def createHandoffRequest_def validateHandoffMode_def
      authorizeHandoff_def isRequestExpired_def DEFAULT_DEADLINE_MS_def)

text \<open>
  A manifest of \<open>createExportManifest\<close> validates against a handoff exactly when it was made for
  it, its worker, namespace and descriptor digest are present and its three sizes are positive; it
  expires exactly when more than five minutes have passed.
\<close>

theorem created_manifest_valid:
  "vd_ok (validateManifest (createExportManifest now h w i ns desc len pages bytes digest) h') =
     (h = h' \<and> w \<noteq> [] \<and> ns \<noteq> [] \<and> desc \<noteq> [] \<and> len > 0 \<and> pages > 0 \<and> bytes > 0) \<and>
   isManifestExpired later (createExportManifest now h w i ns desc len pages bytes digest) =
     (now + 300000 < later)"
  by (simp add: validateManifest_def createExportManifest_def isManifestExpired_def)

end
