(* ===== verification/Js_Runtime.thy ===== *)
theory Js_Runtime imports Prelude "HOL-Library.Word" begin

text \<open>
  Three pieces of JavaScript the sources print and hash with: the 32-bit string hash
  \<open>hash = ((hash << 5) - hash + c) | 0\<close> that several modules carry a copy of, the hexadecimal form
  \<open>(hash >>> 0).toString(16).padStart(8, "0")\<close>, and \<open>Date.prototype.toISOString\<close>.
\<close>

section \<open>The string hash\<close>

text \<open>
  \<open><<\<close> and \<open>| 0\<close> work on 32-bit integers, so the loop is arithmetic on \<open>32 word\<close>; the subtraction
  and addition in between are exact on numbers and reduced by the final \<open>| 0\<close>.
\<close>

definition hash_step :: "32 word \<Rightarrow> char \<Rightarrow> 32 word" where
  "hash_step hash c = push_bit 5 hash - hash + of_nat (of_char c)"

definition string_hash :: "string \<Rightarrow> 32 word" where
  "string_hash input = foldl hash_step 0 input"

fun hex_char :: "nat \<Rightarrow> char" where
  "hex_char d = (if d < 10 then char_of (48 + d) else char_of (87 + d))"

declare hex_char.simps [simp del]

fun show_hex :: "nat \<Rightarrow> string" where
  "show_hex n = (if n < 16 then [hex_char n] else show_hex (n div 16) @ [hex_char (n mod 16)])"

declare show_hex.simps [simp del]

definition padStart :: "nat \<Rightarrow> char \<Rightarrow> string \<Rightarrow> string" where
  "padStart n c s = replicate (n - length s) c @ s"

definition hexDigest :: "string \<Rightarrow> string" where
  "hexDigest input = padStart 8 (CHR ''0'') (show_hex (unat (string_hash input)))"

subsection \<open>The hash as a polynomial\<close>

fun poly_hash :: "nat \<Rightarrow> string \<Rightarrow> nat" where
  "poly_hash a [] = a"
| "poly_hash a (c # cs) = poly_hash (a * 31 + of_char c) cs"

lemma hash_step_mult: "hash_step h c = h * 31 + of_nat (of_char c)"
proof -
  have "push_bit 5 h = h * 32" by (simp add: push_bit_eq_mult)
  then show ?thesis by (simp add: hash_step_def)
qed

lemma foldl_hash_step: "foldl hash_step (of_nat a) s = of_nat (poly_hash a s)"
proof (induction s arbitrary: a)
  case (Cons c s)
  have "hash_step (of_nat a) c = of_nat (a * 31 + of_char c)" by (simp add: hash_step_mult)
  with Cons show ?case by (simp only: foldl_Cons poly_hash.simps)
qed simp

lemma string_hash_poly: "string_hash s = of_nat (poly_hash 0 s)"
  using foldl_hash_step [of 0 s] by (simp add: string_hash_def)

lemma poly_hash_sum:
  "poly_hash a s = a * 31 ^ length s + (\<Sum>i<length s. of_char (s ! i) * 31 ^ (length s - 1 - i))"
proof (induction s arbitrary: a)
  case (Cons c s)
  have "(\<Sum>i<length (c # s). of_char ((c # s) ! i) * 31 ^ (length (c # s) - 1 - i)) =
      of_char c * 31 ^ length s + (\<Sum>i<length s. of_char (s ! i) * 31 ^ (length s - 1 - i) :: nat)"
    by (simp add: sum.lessThan_Suc_shift del: sum.lessThan_Suc)
  with Cons show ?case by (simp add: algebra_simps)
qed simp

subsection \<open>Hexadecimal digests have eight digits\<close>

lemma length_show_hex: "n < 16 ^ k \<Longrightarrow> 0 < k \<Longrightarrow> length (show_hex n) \<le> k"
proof (induction n arbitrary: k rule: show_hex.induct)
  case (1 n)
  show ?case
  proof (cases "n < 16")
    case True
    with 1 show ?thesis by (simp add: show_hex.simps [of n])
  next
    case False
    with 1(2,3) obtain j where j: "k = Suc j" "0 < j" by (cases k; cases "k - 1") auto
    from 1(2) j have "n div 16 < 16 ^ j" by (simp add: less_mult_imp_div_less)
    with 1(1) False j show ?thesis by (simp add: show_hex.simps [of n])
  qed
qed

lemma length_hexDigest [simp]: "length (hexDigest s) = 8"
proof -
  have "unat (string_hash s) < 16 ^ 8" using unsigned_less [of "string_hash s"] by simp
  then have "length (show_hex (unat (string_hash s))) \<le> 8" by (rule length_show_hex) simp
  then show ?thesis by (simp add: hexDigest_def padStart_def)
qed

section \<open>\<open>toISOString\<close>\<close>

text \<open>
  The proleptic Gregorian date of a day number since 1970-01-01, by counting from the first of
  March of the year 0 in eras of 400 years; the printed form is that of the years 0 to 9999.
\<close>

definition civil_date :: "int \<Rightarrow> int \<times> int \<times> int" where
  "civil_date day =
     (let z = day + 719468;
          era = z div 146097;
          doe = z mod 146097;
          yoe = (doe - doe div 1460 + doe div 36524 - doe div 146096) div 365;
          doy = doe - (365 * yoe + yoe div 4 - yoe div 100);
          mp = (5 * doy + 2) div 153;
          d = doy - (153 * mp + 2) div 5 + 1;
          m = (if mp < 10 then mp + 3 else mp - 9);
          y = yoe + era * 400 + (if m \<le> 2 then 1 else 0)
      in (y, m, d))"

definition pad_int :: "nat \<Rightarrow> int \<Rightarrow> string" where
  "pad_int n i = padStart n (CHR ''0'') (show_int i)"

definition toISOString :: "millis \<Rightarrow> string" where
  "toISOString t =
     (let day = t div 86400000;
          ms = t mod 86400000;
          (y, m, d) = civil_date day
      in pad_int 4 y @ ''-'' @ pad_int 2 m @ ''-'' @ pad_int 2 d @ ''T'' @
         pad_int 2 (ms div 3600000) @ '':'' @ pad_int 2 (ms div 60000 mod 60) @ '':'' @
         pad_int 2 (ms div 1000 mod 60) @ ''.'' @ pad_int 3 (ms mod 1000) @ ''Z'')"

fun timestamp_str :: "timestamp \<Rightarrow> string" where
  "timestamp_str (Iso t) = toISOString t"
| "timestamp_str (Unparsed s) = s"

lemma pad_int_no_bar: "CHR ''|'' \<notin> set (pad_int n i)"
  by (simp add: pad_int_def padStart_def)

lemma toISOString_no_bar: "CHR ''|'' \<notin> set (toISOString t)"
  by (simp add: toISOString_def Let_def pad_int_no_bar split: prod.splits)

lemma toISOString_epoch: "toISOString 1718452800123 = ''2024-06-15T12:00:00.123Z''"
  by code_simp

section \<open>Properties\<close>

text \<open>
  The shift-and-subtract loop computes the polynomial of the character codes with base 31
  modulo \<open>2 ^ 32\<close>, and the printed digest always has eight characters.
\<close>

theorem hash_is_polynomial:
  "unat (string_hash s) =
     (\<Sum>i<length s. of_char (s ! i) * 31 ^ (length s - 1 - i)) mod 2 ^ 32 \<and>
   length (hexDigest s) = 8"
  unfolding string_hash_poly unat_of_nat using poly_hash_sum [of 0 s] by simp

end
