(* ===== verification/Handoff_Coordinator.thy ===== *)
theory Handoff_Coordinator imports Handoff_Machine Handoff_Import Handoff_Checks Js_Runtime begin

text \<open>
  Receipts (\<open>kv_handoff/handoff-receipts.ts\<close>), the transport interface with its deterministic
  fixture (\<open>fixture-transport.ts\<close>), and the coordinator that runs a handoff over a transport
  (\<open>handoff-coordinator.ts\<close>).
\<close>

section \<open>Receipts\<close>

definition receipt_parts :: "PrismKvHandoffReceipt \<Rightarrow> string list" where
  "receipt_parts receipt =
     [rc_receiptId receipt, rc_handoffId receipt, rc_sourceWorkerId receipt,
      rc_destinationWorkerId receipt, rc_manifestDigest receipt, rc_payloadDigest receipt,
      HandoffState_str (rc_finalState receipt), show_int (rc_totalDurationMs receipt),
      timestamp_str (rc_emittedAt receipt)]"

definition receiptDigest :: "PrismKvHandoffReceipt \<Rightarrow> string" where
  "receiptDigest receipt = hexDigest (js_join ''|'' (receipt_parts receipt))"

record HandoffDurations =
  du_exportMs :: "int option"
  du_transferMs :: "int option"
  du_importMs :: "int option"
  du_totalMs :: int

record HandoffSignatures =
  sg_sourceSig :: string
  sg_destSig :: "string option"
  sg_coordSig :: string

definition createHandoffReceipt ::
  "millis \<Rightarrow> string \<Rightarrow> PrismKvHandoffRequest \<Rightarrow> PrismKvExportManifest \<Rightarrow> HandoffState \<Rightarrow>
   HandoffDurations \<Rightarrow> HandoffSignatures \<Rightarrow> PrismKvHandoffReceipt" where
  "createHandoffReceipt now uuid request manifest finalState durations signatures =
     (let receipt =
        \<lparr>rc_receiptId = ''receipt-'' @ uuid,
         rc_handoffId = rq_handoffId request,
         rc_routeId = rq_routeId request,
         rc_requestId = rq_requestId request,
         rc_dharmaLeaseId = rq_dharmaLeaseId request,
         rc_sessionId = rq_sessionId request,
         rc_sourceWorkerId = rq_sourceWorkerId request,
         rc_sourceWorkerInstanceId = rq_sourceWorkerInstanceId request,
         rc_destinationWorkerId = rq_destinationWorkerId request,
         rc_destinationWorkerInstanceId = rq_destinationWorkerInstanceId request,
         rc_sourceKvNamespaceDigest = hexDigest (rq_sourceKvNamespaceId request),
         rc_destinationKvNamespaceDigest = None,
         rc_modelArtifactDigest = rq_modelArtifactDigest request,
         rc_tokenizerDigest = rq_tokenizerDigest request,
         rc_compatibilityDescriptorDigest = mf_compatibilityDescriptorDigest manifest,
         rc_sourceComputeImageDigest = rq_sourceComputeImageDigest request,
         rc_destinationComputeImageDigest = rq_destinationComputeImageDigest request,
         rc_transferRepresentation = mf_transferRepresentation manifest,
         rc_handoffMode = rq_handoffMode request,
         rc_manifestDigest =
           hexDigest (mf_manifestId manifest @ mf_deterministicContentDigest manifest),
         rc_payloadDigest = hexDigest (mf_deterministicContentDigest manifest),
         rc_byteLength = mf_byteLength manifest,
         rc_sequenceLength = mf_sequenceLength manifest,
         rc_pageCount = mf_pageCount manifest,
         rc_sourceExportDurationMs = du_exportMs durations,
         rc_transferDurationMs = du_transferMs durations,
         rc_destinationImportDurationMs = du_importMs durations,
         rc_totalDurationMs = du_totalMs durations,
         rc_sourceDisposition = ''pending'',
         rc_finalState = finalState,
         rc_failureClass = None,
         rc_emittedAt = Iso now,
         rc_sourceSignature = sg_sourceSig signatures,
         rc_destinationSignature = sg_destSig signatures,
         rc_coordinatorSignature = sg_coordSig signatures\<rparr>
      in receipt\<lparr>rc_coordinatorSignature := receiptDigest receipt\<rparr>)"

definition verifyReceiptIntegrity :: "PrismKvHandoffReceipt \<Rightarrow> bool" where
  "verifyReceiptIntegrity receipt \<longleftrightarrow> rc_coordinatorSignature receipt = receiptDigest receipt"

definition getReceiptSummary :: "PrismKvHandoffReceipt \<Rightarrow> string" where
  "getReceiptSummary receipt =
     (let base = ''Handoff['' @ take 12 (rc_handoffId receipt) @ ''] '' @
            HandoffMode_str (rc_handoffMode receipt) @ '' '' @ rc_sourceWorkerId receipt @
            right_arrow @ rc_destinationWorkerId receipt @ '': '' @
            HandoffState_str (rc_finalState receipt) @ '' ('' @
            show_int (rc_totalDurationMs receipt) @ ''ms, '' @
            show_int (rc_byteLength receipt) @ ''bytes)''
      in (case rc_failureClass receipt of
            Some f \<Rightarrow> if truthy f then base @ '' FAIL='' @ f else base
          | None \<Rightarrow> base))"

section \<open>The transport interface\<close>

record PrepareResult =
  pr_prepared :: bool
  pr_reason :: "string option"

record TransferResult =
  tr_transferred :: bool
  tr_payloadDigest :: string
  tr_bytes :: int

record TransferStatus =
  ts_state :: string
  ts_progressBytes :: int

text \<open>
  An adapter is an object: its methods read and change its own state \<open>'t\<close> and their promise is
  fulfilled (\<open>Inr\<close>) or rejected (\<open>Inl\<close>).
\<close>

record 't PrismKvTransportAdapter =
  kt_prepareTransfer :: "'t \<Rightarrow> string \<Rightarrow> PrismKvExportManifest \<Rightarrow> 't \<times> PrepareResult result"
  kt_transfer :: "'t \<Rightarrow> string \<Rightarrow> 't \<times> TransferResult result"
  kt_acknowledgeImport :: "'t \<Rightarrow> string \<Rightarrow> 't \<times> bool result"
  kt_abortTransfer :: "'t \<Rightarrow> string \<Rightarrow> 't \<times> unit result"
  kt_getTransferStatus :: "'t \<Rightarrow> string \<Rightarrow> 't \<times> TransferStatus result"

section \<open>The deterministic fixture\<close>

record Fixture =
  fx_manifest :: PrismKvExportManifest
  fx_payloadDigest :: string

record FixtureTransport =
  ft_fixtureStore :: "string \<rightharpoonup> Fixture"
  ft_injectDelayMs :: "int option"
  ft_injectCorruption :: bool
  ft_injectTimeout :: bool

text \<open>\<open>maybeDelay\<close> only waits, it changes neither the state nor a result.\<close>

definition fixture_prepareTransfer ::
  "FixtureTransport \<Rightarrow> string \<Rightarrow> PrismKvExportManifest \<Rightarrow> FixtureTransport \<times> PrepareResult result"
  where
  "fixture_prepareTransfer this handoffId manifest =
     (if ft_injectCorruption this
      then (this, Inr \<lparr>pr_prepared = False, pr_reason = Some ''simulated corruption''\<rparr>)
      else
        let this' = (case ft_fixtureStore this handoffId of
              None \<Rightarrow> this\<lparr>ft_fixtureStore := (ft_fixtureStore this)(handoffId \<mapsto>
                \<lparr>fx_manifest = manifest,
                 fx_payloadDigest = mf_deterministicContentDigest manifest\<rparr>)\<rparr>
            | Some fixture \<Rightarrow> this)
        in (this', Inr \<lparr>pr_prepared = True, pr_reason = None\<rparr>))"

definition fixture_transfer ::
  "FixtureTransport \<Rightarrow> string \<Rightarrow> FixtureTransport \<times> TransferResult result" where
  "fixture_transfer this handoffId =
     (this,
      if ft_injectTimeout this then Inl ''transfer timeout''
      else (case ft_fixtureStore this handoffId of
              None \<Rightarrow> Inr \<lparr>tr_transferred = False, tr_payloadDigest = [], tr_bytes = 0\<rparr>
            | Some fixture \<Rightarrow>
                if ft_injectCorruption this
                then Inr \<lparr>tr_transferred = True,
                          tr_payloadDigest = ''CORRUPTED_'' @ fx_payloadDigest fixture,
                          tr_bytes = mf_byteLength (fx_manifest fixture)\<rparr>
                else Inr \<lparr>tr_transferred = True, tr_payloadDigest = fx_payloadDigest fixture,
                          tr_bytes = mf_byteLength (fx_manifest fixture)\<rparr>))"

definition fixture_acknowledgeImport ::
  "FixtureTransport \<Rightarrow> string \<Rightarrow> FixtureTransport \<times> bool result" where
  "fixture_acknowledgeImport this handoffId = (this, Inr True)"

definition fixture_abortTransfer ::
  "FixtureTransport \<Rightarrow> string \<Rightarrow> FixtureTransport \<times> unit result" where
  "fixture_abortTransfer this handoffId = (this, Inr ())"

definition fixture_getTransferStatus ::
  "FixtureTransport \<Rightarrow> string \<Rightarrow> FixtureTransport \<times> TransferStatus result" where
  "fixture_getTransferStatus this handoffId =
     (this, (case ft_fixtureStore this handoffId of
        None \<Rightarrow> Inr \<lparr>ts_state = ''unknown'', ts_progressBytes = 0\<rparr>
      | Some fixture \<Rightarrow> Inr \<lparr>ts_state = ''completed'',
                              ts_progressBytes = mf_byteLength (fx_manifest fixture)\<rparr>))"

definition DeterministicFixtureKvTransportAdapter ::
  "FixtureTransport PrismKvTransportAdapter" where
  "DeterministicFixtureKvTransportAdapter =
     \<lparr>kt_prepareTransfer = fixture_prepareTransfer,
      kt_transfer = fixture_transfer,
      kt_acknowledgeImport = fixture_acknowledgeImport,
      kt_abortTransfer = fixture_abortTransfer,
      kt_getTransferStatus = fixture_getTransferStatus\<rparr>"

section \<open>The coordinator\<close>

definition buildReceipt ::
  "millis \<Rightarrow> PrismKvHandoffRequest \<Rightarrow> PrismKvExportManifest \<Rightarrow> TransferResult \<Rightarrow> HandoffState \<Rightarrow>
   PrismKvHandoffReceipt" where
  "buildReceipt now request manifest transferResult finalState =
     \<lparr>rc_receiptId = ''receipt_'' @ rq_handoffId request,
      rc_handoffId = rq_handoffId request,
      rc_routeId = rq_routeId request,
      rc_requestId = rq_requestId request,
      rc_dharmaLeaseId = rq_dharmaLeaseId request,
      rc_sessionId = rq_sessionId request,
      rc_sourceWorkerId = rq_sourceWorkerId request,
      rc_sourceWorkerInstanceId = rq_sourceWorkerInstanceId request,
      rc_destinationWorkerId = rq_destinationWorkerId request,
      rc_destinationWorkerInstanceId = rq_destinationWorkerInstanceId request,
      rc_sourceKvNamespaceDigest = ''sim_digest'',
      rc_destinationKvNamespaceDigest = Some ''sim_digest'',
      rc_modelArtifactDigest = rq_modelArtifactDigest request,
      rc_tokenizerDigest = rq_tokenizerDigest request,
      rc_compatibilityDescriptorDigest = ''sim_compat_digest'',
      rc_sourceComputeImageDigest = rq_sourceComputeImageDigest request,
      rc_destinationComputeImageDigest = rq_destinationComputeImageDigest request,
      rc_transferRepresentation = mf_transferRepresentation manifest,
      rc_handoffMode = rq_handoffMode request,
      rc_manifestDigest = mf_deterministicContentDigest manifest,
      rc_payloadDigest = tr_payloadDigest transferResult,
      rc_byteLength = tr_bytes transferResult,
      rc_sequenceLength = mf_sequenceLength manifest,
      rc_pageCount = mf_pageCount manifest,
      rc_sourceExportDurationMs = Some 100,
      rc_transferDurationMs = Some 200,
      rc_destinationImportDurationMs = Some 150,
      rc_totalDurationMs = 450,
      rc_sourceDisposition = ''retained'',
      rc_finalState = finalState,
      rc_failureClass = None,
      rc_emittedAt = Iso now,
      rc_sourceSignature = mf_sourceSignature manifest,
      rc_destinationSignature = Some ''sim_dest_sig'',
      rc_coordinatorSignature = ''sim_coordinator_sig''\<rparr>"

lemma buildReceipt_signature: "rc_coordinatorSignature (buildReceipt now q m r s) = ''sim_coordinator_sig''"
  by (simp add: buildReceipt_def)

lemma buildReceipt_fields:
  "rc_payloadDigest (buildReceipt now q m r s) = tr_payloadDigest r"
  "rc_manifestDigest (buildReceipt now q m r s) = mf_deterministicContentDigest m"
  "rc_sourceDisposition (buildReceipt now q m r s) = ''retained''"
  by (simp_all add: buildReceipt_def)

record HandoffOutcome =
  ho_receipt :: "PrismKvHandoffReceipt option"
  ho_finalState :: HandoffState

definition buildFailureResult :: "PrismKvHandoffRequest \<Rightarrow> HandoffState \<Rightarrow> HandoffOutcome" where
  "buildFailureResult request finalState = \<lparr>ho_receipt = None, ho_finalState = finalState\<rparr>"

text \<open>What a method of the coordinator may reject with.\<close>

datatype CoordinatorError = Transport_rejected string | Import_error ImportTransitionError

definition importActions :: "string list" where
  "importActions =
     [''receive_payload'', ''validate_integrity'', ''validate_compatibility'',
      ''materialize_namespace'', ''activate'', ''acknowledge'']"

text \<open>\<open>clk n\<close> is the n-th clock reading of the call.\<close>

fun run_import ::
  "(nat \<Rightarrow> millis) \<Rightarrow> nat \<Rightarrow> PrismKvImportRecord \<Rightarrow> string list \<Rightarrow>
   ImportTransitionError + PrismKvImportRecord" where
  "run_import clk n currentRecord [] = Inr currentRecord"
| "run_import clk n currentRecord (action # actions) =
     (case transitionImport (clk n) currentRecord action of
        Inl e \<Rightarrow> Inl e
      | Inr currentRecord' \<Rightarrow> run_import clk (Suc n) currentRecord' actions)"

definition executeHandoff ::
  "'t PrismKvTransportAdapter \<Rightarrow> (nat \<Rightarrow> millis) \<Rightarrow> 't \<Rightarrow> PrismKvHandoffRequest \<Rightarrow> bool \<Rightarrow> bool \<Rightarrow>
   bool \<Rightarrow> PrismKvExportManifest \<Rightarrow> 't \<times> (CoordinatorError + HandoffOutcome)" where
  "executeHandoff transport clk st request sourceEligible destEligible compatible manifest =
     (if \<not> sourceEligible then (st, Inr (buildFailureResult request HS_rejected))
      else if \<not> destEligible then (st, Inr (buildFailureResult request HS_rejected))
      else if \<not> compatible then (st, Inr (buildFailureResult request HS_rejected))
      else
        case kt_prepareTransfer transport st (rq_handoffId request) manifest of
          (st1, Inl e) \<Rightarrow> (st1, Inl (Transport_rejected e))
        | (st1, Inr prepResult) \<Rightarrow>
          if \<not> pr_prepared prepResult then (st1, Inr (buildFailureResult request HS_failed))
          else
            case kt_transfer transport st1 (rq_handoffId request) of
              (st2, Inl e) \<Rightarrow> (st2, Inr (buildFailureResult request HS_timeout))
            | (st2, Inr transferResult) \<Rightarrow>
              if \<not> tr_transferred transferResult
              then (st2, Inr (buildFailureResult request HS_failed))
              else
                case run_import clk 0
                       (createImportRecord (rq_handoffId request) (rq_destinationWorkerId request)
                          (rq_destinationWorkerInstanceId request)) importActions of
                  Inl e \<Rightarrow> (st2, Inl (Import_error e))
                | Inr currentRecord \<Rightarrow>
                  case kt_acknowledgeImport transport st2 (rq_handoffId request) of
                    (st3, Inl e) \<Rightarrow> (st3, Inl (Transport_rejected e))
                  | (st3, Inr acknowledged) \<Rightarrow>
                    if \<not> acknowledged then (st3, Inr (buildFailureResult request HS_failed))
                    else
                      let disposition = createDispositionRecord (clk 6) (rq_handoffId request)
                            (rq_sourceWorkerId request) (rq_sourceKvNamespaceId request)
                            (rq_sourceRetentionPolicy request);
                          _ = resolveDisposition (clk 7) disposition True True;
                          receipt = buildReceipt (clk 8) request manifest transferResult
                            HS_committed
                      in (st3, Inr \<lparr>ho_receipt = Some receipt, ho_finalState = HS_committed\<rparr>))"

definition rollbackHandoff ::
  "'t PrismKvTransportAdapter \<Rightarrow> millis \<Rightarrow> 't \<Rightarrow> PrismKvHandoffRequest \<Rightarrow> HandoffState \<Rightarrow> string \<Rightarrow>
   't \<times> (CoordinatorError + PrismKvHandoffReceipt \<times> HandoffState)" where
  "rollbackHandoff transport now st request state reason =
     (case kt_abortTransfer transport st (rq_handoffId request) of
        (st1, Inl e) \<Rightarrow> (st1, Inl (Transport_rejected e))
      | (st1, Inr u) \<Rightarrow>
        let finalState = getRollbackState state;
            failureClass =
              (if shouldRollback state then Some (classifyRollbackReason state) else None);
            receipt =
              \<lparr>rc_receiptId = ''rollback_'' @ rq_handoffId request,
               rc_handoffId = rq_handoffId request,
               rc_routeId = rq_routeId request,
               rc_requestId = rq_requestId request,
               rc_dharmaLeaseId = rq_dharmaLeaseId request,
               rc_sessionId = rq_sessionId request,
               rc_sourceWorkerId = rq_sourceWorkerId request,
               rc_sourceWorkerInstanceId = rq_sourceWorkerInstanceId request,
               rc_destinationWorkerId = rq_destinationWorkerId request,
               rc_destinationWorkerInstanceId = rq_destinationWorkerInstanceId request,
               rc_sourceKvNamespaceDigest = [],
               rc_destinationKvNamespaceDigest = None,
               rc_modelArtifactDigest = rq_modelArtifactDigest request,
               rc_tokenizerDigest = rq_tokenizerDigest request,
               rc_compatibilityDescriptorDigest = [],
               rc_sourceComputeImageDigest = rq_sourceComputeImageDigest request,
               rc_destinationComputeImageDigest = rq_destinationComputeImageDigest request,
               rc_transferRepresentation = [],
               rc_handoffMode = rq_handoffMode request,
               rc_manifestDigest = [],
               rc_payloadDigest = [],
               rc_byteLength = 0,
               rc_sequenceLength = 0,
               rc_pageCount = 0,
               rc_sourceExportDurationMs = None,
               rc_transferDurationMs = None,
               rc_destinationImportDurationMs = None,
               rc_totalDurationMs = 0,
               rc_sourceDisposition = ''released'',
               rc_finalState = finalState,
               rc_failureClass = failureClass,
               rc_emittedAt = Iso now,
               rc_sourceSignature = [],
               rc_destinationSignature = None,
               rc_coordinatorSignature = reason\<rparr>
        in (st1, Inr (receipt, finalState)))"

record ReconcileResult =
  rr_resolved :: bool
  rr_state :: HandoffState

definition reconcileHandoff ::
  "'t PrismKvTransportAdapter \<Rightarrow> 't \<Rightarrow> PrismKvHandoffRequest \<Rightarrow> 't \<times> ReconcileResult" where
  "reconcileHandoff transport st request =
     (case kt_getTransferStatus transport st (rq_handoffId request) of
        (st1, Inl e) \<Rightarrow> (st1, \<lparr>rr_resolved = False, rr_state = HS_timeout\<rparr>)
      | (st1, Inr status) \<Rightarrow>
          (st1, if ts_state status = ''completed''
                then \<lparr>rr_resolved = True, rr_state = HS_degraded_completed\<rparr>
                else \<lparr>rr_resolved = False, rr_state = HS_failed\<rparr>))"

section \<open>The coordinator over any transport\<close>

lemma run_import_complete:
  "\<exists>r. run_import clk 0 (createImportRecord h w i) importActions = Inr r"
  by (simp add: importActions_def transitionImport_steps createImportRecord_def)

text \<open>The calls a committed handoff consists of.\<close>

definition commit_calls ::
  "'t PrismKvTransportAdapter \<Rightarrow> 't \<Rightarrow> string \<Rightarrow> PrismKvExportManifest \<Rightarrow> 't \<Rightarrow> TransferResult \<Rightarrow> bool"
  where
  "commit_calls ad st h m st' res \<longleftrightarrow>
     (\<exists>st1 p st2. kt_prepareTransfer ad st h m = (st1, Inr p) \<and> pr_prepared p \<and>
        kt_transfer ad st1 h = (st2, Inr res) \<and> tr_transferred res \<and>
        kt_acknowledgeImport ad st2 h = (st', Inr True))"

lemma execute_ineligible:
  "\<not> (src \<and> dst \<and> cmp) \<Longrightarrow> executeHandoff ad clk st req src dst cmp m =
     (st, Inr \<lparr>ho_receipt = None, ho_finalState = HS_rejected\<rparr>)"
  by (auto simp: executeHandoff_def buildFailureResult_def)

lemma execute_eligible:
  "executeHandoff ad clk st req True True True m =
     (case kt_prepareTransfer ad st (rq_handoffId req) m of
        (st1, Inl e) \<Rightarrow> (st1, Inl (Transport_rejected e))
      | (st1, Inr p) \<Rightarrow>
        if \<not> pr_prepared p then (st1, Inr \<lparr>ho_receipt = None, ho_finalState = HS_failed\<rparr>)
        else (case kt_transfer ad st1 (rq_handoffId req) of
          (st2, Inl e) \<Rightarrow> (st2, Inr \<lparr>ho_receipt = None, ho_finalState = HS_timeout\<rparr>)
        | (st2, Inr res) \<Rightarrow>
          if \<not> tr_transferred res then (st2, Inr \<lparr>ho_receipt = None, ho_finalState = HS_failed\<rparr>)
          else (case kt_acknowledgeImport ad st2 (rq_handoffId req) of
            (st3, Inl e) \<Rightarrow> (st3, Inl (Transport_rejected e))
          | (st3, Inr a) \<Rightarrow>
            if \<not> a then (st3, Inr \<lparr>ho_receipt = None, ho_finalState = HS_failed\<rparr>)
            else (st3, Inr \<lparr>ho_receipt = Some (buildReceipt (clk 8) req m res HS_committed),
                            ho_finalState = HS_committed\<rparr>))))"
proof -
  obtain r where "run_import clk 0 (createImportRecord (rq_handoffId req)
      (rq_destinationWorkerId req) (rq_destinationWorkerInstanceId req)) importActions = Inr r"
    using run_import_complete by blast
  then show ?thesis
    unfolding executeHandoff_def buildFailureResult_def Let_def by (simp cong: if_cong)
qed

section \<open>What a transport promises\<close>

text \<open>
  \<open>registered st h\<close>: the transport holds a payload for the handoff \<open>h\<close>.  A prepared transfer is
  registered and stays so, a registered transfer is delivered or its promise is rejected, and
  acknowledging and aborting succeed.
\<close>

locale kv_transport =
  fixes ad :: "'t PrismKvTransportAdapter"
    and registered :: "'t \<Rightarrow> string \<Rightarrow> bool"
  assumes prepare_law: "\<exists>st' p. kt_prepareTransfer ad st h m = (st', Inr p) \<and>
      (pr_prepared p \<longrightarrow> registered st' h)"
    and transfer_law: "registered st h \<Longrightarrow> kt_transfer ad st h = (st', r) \<Longrightarrow>
      registered st' h \<and> (\<forall>res. r = Inr res \<longrightarrow> tr_transferred res)"
    and ack_law: "\<exists>st'. kt_acknowledgeImport ad st h = (st', Inr True) \<and>
      (registered st h \<longrightarrow> registered st' h)"
    and abort_law: "\<exists>st'. kt_abortTransfer ad st h = (st', Inr ())"
    and status_law: "registered st h \<Longrightarrow>
      \<exists>st' s. kt_getTransferStatus ad st h = (st', Inr s) \<and> ts_state s = ''completed''"
begin

lemma execute_total: "\<exists>st' out. executeHandoff ad clk st req src dst cmp m = (st', Inr out)"
proof (cases "src \<and> dst \<and> cmp")
  case True
  obtain st1 p where p: "kt_prepareTransfer ad st (rq_handoffId req) m = (st1, Inr p)"
    using prepare_law by blast
  obtain st2 r where r: "kt_transfer ad st1 (rq_handoffId req) = (st2, r)" by fastforce
  obtain st3 where a: "kt_acknowledgeImport ad st2 (rq_handoffId req) = (st3, Inr True)"
    using ack_law by blast
  from True p r a show ?thesis by (cases r) (simp_all add: execute_eligible)
qed (simp add: execute_ineligible)

lemma execute_prepared:
  assumes "kt_prepareTransfer ad st (rq_handoffId req) m = (st1, Inr p)" and "pr_prepared p"
    and "executeHandoff ad clk st req True True True m = (st', Inr out)"
  shows "ho_finalState out \<in> {HS_committed, HS_timeout} \<and> registered st' (rq_handoffId req)"
proof -
  let ?h = "rq_handoffId req"
  have reg1: "registered st1 ?h" using prepare_law [of st ?h m] assms(1,2) by auto
  obtain st2 r where r: "kt_transfer ad st1 ?h = (st2, r)" by fastforce
  from transfer_law [OF reg1 r] have reg2: "registered st2 ?h"
    and tr: "\<And>res. r = Inr res \<Longrightarrow> tr_transferred res" by auto
  from ack_law [of st2 ?h] reg2 obtain st3
    where a: "kt_acknowledgeImport ad st2 ?h = (st3, Inr True)" and reg3: "registered st3 ?h" by blast
  from assms r a tr reg2 reg3 show ?thesis by (cases r) (auto simp: execute_eligible)
qed

lemma reconcile_registered:
  assumes "registered st (rq_handoffId req)"
  shows "snd (reconcileHandoff ad st req) = \<lparr>rr_resolved = True, rr_state = HS_degraded_completed\<rparr>"
  using status_law [OF assms] by (auto simp: reconcileHandoff_def)

lemma rollback_total:
  "\<exists>st' rc. rollbackHandoff ad now st req s reason = (st', Inr (rc, HS_rolled_back)) \<and>
     rc_finalState rc = HS_rolled_back"
  using abort_law [of st "rq_handoffId req"]
  by (auto simp: rollbackHandoff_def getRollbackState_def Let_def)

end

text \<open>A payload of the fixture is registered once its store has an entry for the handoff.\<close>

definition fixture_registered :: "FixtureTransport \<Rightarrow> string \<Rightarrow> bool" where
  "fixture_registered st h \<longleftrightarrow> ft_fixtureStore st h \<noteq> None"

lemmas fixture_defs = DeterministicFixtureKvTransportAdapter_def fixture_prepareTransfer_def
  fixture_transfer_def fixture_acknowledgeImport_def fixture_abortTransfer_def
  fixture_getTransferStatus_def fixture_registered_def

interpretation fixture: kv_transport DeterministicFixtureKvTransportAdapter fixture_registered
  by unfold_locales (auto simp: fixture_defs Let_def split: option.splits if_splits)

section \<open>Properties\<close>

definition sample_request :: PrismKvHandoffRequest where
  "sample_request = createHandoffRequest 0 ''h1''
     \<lparr>cf_routeId = ''r'', cf_requestId = ''q'', cf_executionId = ''e'', cf_sourceWorkerId = ''w1'',
      cf_sourceInstanceId = ''i1'', cf_destWorkerId = ''w2'', cf_destInstanceId = ''i2'',
      cf_sourceNsId = ''ns'', cf_modelDigest = ''m'', cf_tokenizerDigest = ''t''\<rparr>"

definition sample_manifest :: PrismKvExportManifest where
  "sample_manifest = createExportManifest 0 ''h1'' ''w1'' ''i1'' ''ns'' ''d'' 8 2 64 ''cd''"

definition sample_fixture :: FixtureTransport where
  "sample_fixture = \<lparr>ft_fixtureStore = [''h1'' \<mapsto>
      \<lparr>fx_manifest = sample_manifest, fx_payloadDigest = ''other''\<rparr>],
     ft_injectDelayMs = None, ft_injectCorruption = False, ft_injectTimeout = False\<rparr>"

lemma sample_execution:
  "executeHandoff DeterministicFixtureKvTransportAdapter clk sample_fixture sample_request True True True
     sample_manifest =
   (sample_fixture, Inr \<lparr>ho_receipt = Some (buildReceipt (clk 8) sample_request sample_manifest
       \<lparr>tr_transferred = True, tr_payloadDigest = ''other'', tr_bytes = 64\<rparr> HS_committed),
     ho_finalState = HS_committed\<rparr>)"
  by (simp add: execute_eligible fixture_defs sample_fixture_def sample_request_def
      createHandoffRequest_def sample_manifest_def createExportManifest_def)

text \<open>
  C1: over any transport, a handoff the coordinator reports as committed was eligible on both sides
  and compatible, its transfer was prepared, delivered and acknowledged by the transport in this
  order, and the receipt is built from the result of that transfer.
\<close>

theorem coordinator_commit_safety:
  assumes "executeHandoff ad clk st req src dst cmp m = (st', Inr out)"
    and "ho_finalState out = HS_committed"
  shows "src \<and> dst \<and> cmp \<and>
    (\<exists>res. commit_calls ad st (rq_handoffId req) m st' res \<and>
       ho_receipt out = Some (buildReceipt (clk 8) req m res HS_committed))"
proof (cases "src \<and> dst \<and> cmp")
  case True
  with assms show ?thesis
    by (auto simp: execute_eligible commit_calls_def split: prod.splits sum.splits if_splits)
next
  case False
  with assms show ?thesis by (auto simp: execute_ineligible)
qed

theorem coordinator_commit_safety_witness:
  "\<exists>res. commit_calls DeterministicFixtureKvTransportAdapter sample_fixture (rq_handoffId sample_request)
     sample_manifest sample_fixture res"
  using coordinator_commit_safety [OF sample_execution] by auto

text \<open>
  Over any transport, a handoff ends rejected, failed, timed out or committed; it has a receipt
  exactly when it is committed; it is rejected exactly when a side is not eligible or the
  descriptors are not compatible, and then the transport was not called.
\<close>

theorem coordinator_outcomes:
  assumes "executeHandoff ad clk st req src dst cmp m = (st', Inr out)"
  shows "ho_finalState out \<in> {HS_rejected, HS_failed, HS_timeout, HS_committed} \<and>
    (ho_receipt out \<noteq> None \<longleftrightarrow> ho_finalState out = HS_committed) \<and>
    (ho_finalState out = HS_rejected \<longleftrightarrow> \<not> (src \<and> dst \<and> cmp)) \<and>
    (ho_finalState out = HS_rejected \<longrightarrow> st' = st)"
proof (cases "src \<and> dst \<and> cmp")
  case True
  with assms show ?thesis
    by (auto simp: execute_eligible split: prod.splits sum.splits if_splits)
next
  case False
  with assms show ?thesis by (auto simp: execute_ineligible)
qed

theorem coordinator_outcomes_witness:
  "\<exists>out. executeHandoff DeterministicFixtureKvTransportAdapter (\<lambda>n. int n) sample_fixture sample_request
     True False True sample_manifest = (sample_fixture, Inr out) \<and> ho_finalState out = HS_rejected"
proof -
  obtain out where *: "executeHandoff DeterministicFixtureKvTransportAdapter (\<lambda>n. int n) sample_fixture
      sample_request True False True sample_manifest = (sample_fixture, Inr out)"
    by (simp add: execute_ineligible)
  from coordinator_outcomes [OF this] have "ho_finalState out = HS_rejected" by simp
  with * show ?thesis by blast
qed

text \<open>
  Over the fixture transport every call returns: an eligible handoff fails when corruption is
  injected, times out when a timeout is injected and is committed otherwise, and whenever it was
  prepared a later reconciliation resolves it as \<open>degraded_completed\<close>.
\<close>

theorem fixture_handoff_outcome:
  assumes "executeHandoff DeterministicFixtureKvTransportAdapter clk st req True True True m =
    (st', r)"
  shows "\<exists>out. r = Inr out \<and>
    ho_finalState out = (if ft_injectCorruption st then HS_failed
                         else if ft_injectTimeout st then HS_timeout else HS_committed) \<and>
    (\<not> ft_injectCorruption st \<longrightarrow>
       snd (reconcileHandoff DeterministicFixtureKvTransportAdapter st' req) =
         \<lparr>rr_resolved = True, rr_state = HS_degraded_completed\<rparr>)"
proof -
  obtain out where out: "r = Inr out" using fixture.execute_total assms by (metis Pair_inject)
  have "ho_finalState out = (if ft_injectCorruption st then HS_failed
                         else if ft_injectTimeout st then HS_timeout else HS_committed)"
    using assms unfolding execute_eligible out
    by (auto simp: fixture_defs Let_def split: option.splits if_splits)
  moreover have "snd (reconcileHandoff DeterministicFixtureKvTransportAdapter st' req) =
         \<lparr>rr_resolved = True, rr_state = HS_degraded_completed\<rparr>" if "\<not> ft_injectCorruption st"
  proof -
    obtain st1 p where "kt_prepareTransfer DeterministicFixtureKvTransportAdapter st
        (rq_handoffId req) m = (st1, Inr p)" "pr_prepared p"
      using \<open>\<not> ft_injectCorruption st\<close> by (auto simp: fixture_defs Let_def)
    from fixture.execute_prepared [OF this] assms out
    show ?thesis using fixture.reconcile_registered by blast
  qed
  ultimately show ?thesis using out by blast
qed

theorem fixture_handoff_outcome_witness:
  "snd (reconcileHandoff DeterministicFixtureKvTransportAdapter sample_fixture sample_request) =
     \<lparr>rr_resolved = True, rr_state = HS_degraded_completed\<rparr>"
  using fixture_handoff_outcome [OF sample_execution] by (simp add: sample_fixture_def)

text \<open>
  The coordinator never compares the digest the transport reports with the manifest: over a
  fixture that holds any payload for the handoff, the handoff is committed and the receipt carries
  that payload's digest next to the manifest's, equal or not; the receipt always reports the source
  as retained, whatever the retention policy, and never passes \<open>verifyReceiptIntegrity\<close>.
\<close>

theorem commit_ignores_payload_digest:
  assumes "ft_fixtureStore st (rq_handoffId req) = Some fx"
    and "\<not> ft_injectCorruption st" and "\<not> ft_injectTimeout st"
  shows "\<exists>rc. snd (executeHandoff DeterministicFixtureKvTransportAdapter clk st req True True True m) =
      Inr \<lparr>ho_receipt = Some rc, ho_finalState = HS_committed\<rparr> \<and>
    rc_payloadDigest rc = fx_payloadDigest fx \<and>
    rc_manifestDigest rc = mf_deterministicContentDigest m \<and>
    rc_sourceDisposition rc = ''retained'' \<and> \<not> verifyReceiptIntegrity rc"
proof -
  have "verifyReceiptIntegrity (buildReceipt t req m res s) = False" for t res s
  proof -
    have "length ''sim_coordinator_sig'' \<noteq> length (receiptDigest (buildReceipt t req m res s))"
      unfolding receiptDigest_def by simp
    then show ?thesis unfolding verifyReceiptIntegrity_def
      by (metis buildReceipt_signature)
  qed
  then show ?thesis
    using assms by (simp add: execute_eligible fixture_defs buildReceipt_fields)
qed

theorem commit_ignores_payload_digest_witness:
  "\<exists>rc. snd (executeHandoff DeterministicFixtureKvTransportAdapter (\<lambda>n. int n) sample_fixture
        sample_request True True True sample_manifest) =
      Inr \<lparr>ho_receipt = Some rc, ho_finalState = HS_committed\<rparr> \<and>
    rc_payloadDigest rc \<noteq> rc_manifestDigest rc"
  using commit_ignores_payload_digest [of sample_fixture sample_request
      "\<lparr>fx_manifest = sample_manifest, fx_payloadDigest = ''other''\<rparr>" "\<lambda>n. int n" sample_manifest]
  by (auto simp: sample_fixture_def sample_request_def createHandoffRequest_def sample_manifest_def
      createExportManifest_def)

text \<open>
  A receipt of \<open>createHandoffReceipt\<close> passes \<open>verifyReceiptIntegrity\<close>, and so does every
  receipt that differs from it only in byte length, sequence length, page count, source
  disposition, failure class or namespace digest: the signature does not cover these fields.
\<close>

theorem receipt_integrity_scope:
  "verifyReceiptIntegrity (createHandoffReceipt now uuid req m s d g) \<and>
   verifyReceiptIntegrity ((createHandoffReceipt now uuid req m s d g)
     \<lparr>rc_byteLength := b, rc_sequenceLength := l, rc_pageCount := n, rc_sourceDisposition := sd,
      rc_failureClass := f, rc_sourceKvNamespaceDigest := k\<rparr>)"
  by (simp add: verifyReceiptIntegrity_def receiptDigest_def receipt_parts_def
      createHandoffReceipt_def Let_def)

text \<open>
  \<open>rollbackHandoff\<close> over the fixture always succeeds and reports \<open>rolled_back\<close>; the state machine
  agrees with that report, by its \<open>rollback\<close> action, only from \<open>rollback_required\<close>.
\<close>

theorem rollback_report_vs_machine:
  "(\<exists>st' rc. rollbackHandoff DeterministicFixtureKvTransportAdapter now st req s reason =
      (st', Inr (rc, HS_rolled_back)) \<and> rc_finalState rc = HS_rolled_back) \<and>
   (applyHandoffAction s HA_rollback = Inr HS_rolled_back \<longleftrightarrow> s = HS_rollback_required)"
  using fixture.rollback_total by (cases s) (simp_all add: fsm_tables)

end
