(* ===== verification/Transport_Segments.thy ===== *)
theory Transport_Segments imports Transition_Systems Js_Runtime begin

text \<open>
  Shared-memory segments of the local-host transport: the lifecycle machine
  (\<open>local_kv_transport/local-segment-lifecycle.ts\<close>), creation and eligibility
  (\<open>local-segment.ts\<close>), the sealing protocol (\<open>segment-sealing.ts\<close>), descriptors
  (\<open>local-segment-descriptor.ts\<close>), sizes (\<open>linux-shared-memory-segment.ts\<close>) and the recovery of
  orphans (\<open>orphan-recovery.ts\<close>).
\<close>

section \<open>Lifecycle\<close>

datatype SegmentState =
    SG_allocated | SG_writing | SG_sealed | SG_offered | SG_mapped_by_destination
  | SG_import_verified | SG_acknowledged | SG_released
  | SG_failed | SG_cancelled | SG_expired

fun SegmentState_str :: "SegmentState \<Rightarrow> string" where
  "SegmentState_str SG_allocated = ''allocated''"
| "SegmentState_str SG_writing = ''writing''"
| "SegmentState_str SG_sealed = ''sealed''"
| "SegmentState_str SG_offered = ''offered''"
| "SegmentState_str SG_mapped_by_destination = ''mapped_by_destination''"
| "SegmentState_str SG_import_verified = ''import_verified''"
| "SegmentState_str SG_acknowledged = ''acknowledged''"
| "SegmentState_str SG_released = ''released''"
| "SegmentState_str SG_failed = ''failed''"
| "SegmentState_str SG_cancelled = ''cancelled''"
| "SegmentState_str SG_expired = ''expired''"

fun VALID_SEGMENT_TRANSITIONS :: "SegmentState \<Rightarrow> SegmentState list" where
  "VALID_SEGMENT_TRANSITIONS SG_allocated = [SG_writing, SG_failed]"
| "VALID_SEGMENT_TRANSITIONS SG_writing = [SG_sealed, SG_failed, SG_cancelled]"
| "VALID_SEGMENT_TRANSITIONS SG_sealed = [SG_offered, SG_expired, SG_cancelled, SG_failed]"
| "VALID_SEGMENT_TRANSITIONS SG_offered =
     [SG_mapped_by_destination, SG_expired, SG_cancelled, SG_failed]"
| "VALID_SEGMENT_TRANSITIONS SG_mapped_by_destination =
     [SG_import_verified, SG_failed, SG_cancelled]"
| "VALID_SEGMENT_TRANSITIONS SG_import_verified = [SG_acknowledged, SG_failed, SG_cancelled]"
| "VALID_SEGMENT_TRANSITIONS SG_acknowledged = [SG_released]"
| "VALID_SEGMENT_TRANSITIONS SG_released = []"
| "VALID_SEGMENT_TRANSITIONS SG_failed = []"
| "VALID_SEGMENT_TRANSITIONS SG_cancelled = []"
| "VALID_SEGMENT_TRANSITIONS SG_expired = []"

text \<open>The action is a string, compared with the names of the allowed targets.\<close>

definition applySegmentAction :: "SegmentState \<Rightarrow> string \<Rightarrow> SegmentState" where
  "applySegmentAction current action =
     (case List.find (\<lambda>t. SegmentState_str t = action) (VALID_SEGMENT_TRANSITIONS current) of
        Some target \<Rightarrow> target
      | None \<Rightarrow> current)"

definition isSegmentTerminal :: "SegmentState \<Rightarrow> bool" where
  "isSegmentTerminal state \<longleftrightarrow> length (VALID_SEGMENT_TRANSITIONS state) = 0"

definition canReleaseSegment :: "SegmentState \<Rightarrow> bool" where
  "canReleaseSegment state \<longleftrightarrow> SG_released \<in> set (VALID_SEGMENT_TRANSITIONS state)"

section \<open>Segments\<close>

record PrismKvSharedMemorySegment =
  sm_segmentId :: string
  sm_handoffId :: string
  sm_ownerWorkerInstanceId :: string
  sm_destinationWorkerInstanceId :: string
  sm_hostInstanceId :: string
  sm_byteLength :: int
  sm_mappedByteLength :: int
  sm_alignment :: int
  sm_createdAt :: timestamp
  sm_expiresAt :: timestamp
  sm_state :: SegmentState
  sm_payloadChecksum :: string
  sm_descriptorDigest :: string

definition DEFAULT_SEGMENT_TTL_MS :: int where
  "DEFAULT_SEGMENT_TTL_MS = 60000"

definition createSegment ::
  "millis \<Rightarrow> string \<Rightarrow> string \<Rightarrow> string \<Rightarrow> string \<Rightarrow> string \<Rightarrow> int \<Rightarrow> int \<Rightarrow> PrismKvSharedMemorySegment"
  where
  "createSegment now uuid handoffId ownerInstanceId destInstanceId hostId byteLength alignment =
     \<lparr>sm_segmentId = uuid,
      sm_handoffId = handoffId,
      sm_ownerWorkerInstanceId = ownerInstanceId,
      sm_destinationWorkerInstanceId = destInstanceId,
      sm_hostInstanceId = hostId,
      sm_byteLength = byteLength,
      sm_mappedByteLength = 0,
      sm_alignment = alignment,
      sm_createdAt = Iso now,
      sm_expiresAt = Iso (now + DEFAULT_SEGMENT_TTL_MS),
      sm_state = SG_allocated,
      sm_payloadChecksum = [],
      sm_descriptorDigest = []\<rparr>"

definition isSegmentExpired :: "millis \<Rightarrow> PrismKvSharedMemorySegment \<Rightarrow> bool" where
  "isSegmentExpired now seg = date_le_now (sm_expiresAt seg) now"

definition SEGMENT_ACTIVE_STATES :: "SegmentState list" where
  "SEGMENT_ACTIVE_STATES =
     [SG_allocated, SG_writing, SG_sealed, SG_offered, SG_mapped_by_destination,
      SG_import_verified, SG_acknowledged]"

definition WRITE_ELIGIBLE_STATES :: "SegmentState list" where
  "WRITE_ELIGIBLE_STATES = [SG_allocated, SG_writing]"

definition MAP_ELIGIBLE_STATES :: "SegmentState list" where
  "MAP_ELIGIBLE_STATES = [SG_offered, SG_mapped_by_destination]"

definition isSegmentActive :: "millis \<Rightarrow> PrismKvSharedMemorySegment \<Rightarrow> bool" where
  "isSegmentActive now seg \<longleftrightarrow>
     sm_state seg \<in> set SEGMENT_ACTIVE_STATES \<and> \<not> isSegmentExpired now seg"

definition canWriteToSegment :: "millis \<Rightarrow> PrismKvSharedMemorySegment \<Rightarrow> bool" where
  "canWriteToSegment now seg \<longleftrightarrow>
     sm_state seg \<in> set WRITE_ELIGIBLE_STATES \<and> \<not> isSegmentExpired now seg"

definition canMapSegment :: "millis \<Rightarrow> PrismKvSharedMemorySegment \<Rightarrow> bool" where
  "canMapSegment now seg \<longleftrightarrow>
     sm_state seg \<in> set MAP_ELIGIBLE_STATES \<and> \<not> isSegmentExpired now seg"

subsection \<open>Sizes\<close>

definition DEFAULT_MAX_SEGMENT_BYTES :: int where
  "DEFAULT_MAX_SEGMENT_BYTES = 256 * 1024 * 1024"

definition DEFAULT_SEGMENT_ALIGNMENT :: int where
  "DEFAULT_SEGMENT_ALIGNMENT = 4096"

definition getMaxSegmentBytes :: int where
  "getMaxSegmentBytes = DEFAULT_MAX_SEGMENT_BYTES"

definition getDefaultAlignment :: int where
  "getDefaultAlignment = DEFAULT_SEGMENT_ALIGNMENT"

definition isSegmentSizeValid :: "int \<Rightarrow> int \<Rightarrow> bool" where
  "isSegmentSizeValid bytes maxBytes =
     (if bytes \<le> 0 then False
      else if bytes > maxBytes then False
      else if bytes mod DEFAULT_SEGMENT_ALIGNMENT \<noteq> 0 then False
      else True)"

section \<open>Sealing\<close>

definition sealSegment :: "PrismKvSharedMemorySegment \<Rightarrow> PrismKvSharedMemorySegment" where
  "sealSegment seg =
     (let nxt = applySegmentAction (sm_state seg) ''sealed''
      in if nxt = sm_state seg then seg
         else seg\<lparr>sm_state := nxt,
                  sm_descriptorDigest := ''dd:'' @ sm_handoffId seg @ '':'' @ sm_segmentId seg\<rparr>)"

definition markMapped :: "PrismKvSharedMemorySegment \<Rightarrow> PrismKvSharedMemorySegment" where
  "markMapped seg =
     (let nxt = applySegmentAction (sm_state seg) ''mapped_by_destination''
      in if nxt = sm_state seg then seg
         else seg\<lparr>sm_state := nxt, sm_mappedByteLength := sm_byteLength seg\<rparr>)"

definition markVerified :: "PrismKvSharedMemorySegment \<Rightarrow> PrismKvSharedMemorySegment" where
  "markVerified seg =
     (let nxt = applySegmentAction (sm_state seg) ''import_verified''
      in if nxt = sm_state seg then seg else seg\<lparr>sm_state := nxt\<rparr>)"

definition markAcknowledged :: "PrismKvSharedMemorySegment \<Rightarrow> PrismKvSharedMemorySegment" where
  "markAcknowledged seg =
     (let nxt = applySegmentAction (sm_state seg) ''acknowledged''
      in if nxt = sm_state seg then seg else seg\<lparr>sm_state := nxt\<rparr>)"

definition releaseSegment :: "PrismKvSharedMemorySegment \<Rightarrow> PrismKvSharedMemorySegment" where
  "releaseSegment seg =
     (let nxt = applySegmentAction (sm_state seg) ''released''
      in if nxt = sm_state seg then seg else seg\<lparr>sm_state := nxt\<rparr>)"

definition isSegmentSealable :: "PrismKvSharedMemorySegment \<Rightarrow> bool" where
  "isSegmentSealable seg \<longleftrightarrow> sm_state seg = SG_writing"

section \<open>Descriptors\<close>

record PrismKvSegmentDescriptor =
  de_handoffId :: string
  de_segmentId :: string
  de_byteLength :: int
  de_alignment :: int
  de_envelopeDigest :: string
  de_payloadChecksum :: string
  de_expiresAt :: timestamp
  de_transportSessionId :: string
  de_descriptorNonce :: string
  de_descriptorSignature :: string

definition DEFAULT_DESCRIPTOR_TTL_MS :: int where
  "DEFAULT_DESCRIPTOR_TTL_MS = 60000"

definition createSegmentDescriptor ::
  "millis \<Rightarrow> string \<Rightarrow> string \<Rightarrow> string \<Rightarrow> int \<Rightarrow> string \<Rightarrow> string \<Rightarrow> string \<Rightarrow> PrismKvSegmentDescriptor"
  where
  "createSegmentDescriptor now nonce handoffId segmentId byteLength envelopeDigest checksum
     sessionId =
     (let descriptorPayload = js_join '':'' [handoffId, segmentId, show_int byteLength,
            envelopeDigest, checksum, sessionId, nonce];
          descriptorSignature = ''sig-'' @ descriptorPayload
      in \<lparr>de_handoffId = handoffId,
          de_segmentId = segmentId,
          de_byteLength = byteLength,
          de_alignment = 1,
          de_envelopeDigest = envelopeDigest,
          de_payloadChecksum = checksum,
          de_expiresAt = Iso (now + DEFAULT_DESCRIPTOR_TTL_MS),
          de_transportSessionId = sessionId,
          de_descriptorNonce = nonce,
          de_descriptorSignature = descriptorSignature\<rparr>)"

record BindingVerdict =
  bv_valid :: bool
  bv_reason :: "string option"

definition validateDescriptorBinding ::
  "PrismKvSegmentDescriptor \<Rightarrow> string \<Rightarrow> string \<Rightarrow> BindingVerdict" where
  "validateDescriptorBinding desc expectedHandoffId expectedSegmentId =
     (if de_handoffId desc \<noteq> expectedHandoffId then
        \<lparr>bv_valid = False, bv_reason = Some (''handoffId mismatch: expected '' @
           quoted expectedHandoffId @ '', got '' @ quoted (de_handoffId desc))\<rparr>
      else if de_segmentId desc \<noteq> expectedSegmentId then
        \<lparr>bv_valid = False, bv_reason = Some (''segmentId mismatch: expected '' @
           quoted expectedSegmentId @ '', got '' @ quoted (de_segmentId desc))\<rparr>
      else \<lparr>bv_valid = True, bv_reason = None\<rparr>)"

definition isDescriptorExpired :: "millis \<Rightarrow> PrismKvSegmentDescriptor \<Rightarrow> bool" where
  "isDescriptorExpired now desc = date_le_now (de_expiresAt desc) now"

section \<open>Orphans\<close>

definition ORPHAN_ACTIVE_STATES :: "string list" where
  "ORPHAN_ACTIVE_STATES = [''allocated'', ''writing'', ''sealed'', ''offered'',
     ''mapped_by_destination'', ''import_verified'']"

definition RECLAIMABLE_STATES :: "string list" where
  "RECLAIMABLE_STATES = [''released'', ''failed'', ''cancelled'', ''expired'']"

definition scanExpiredSegments ::
  "millis \<Rightarrow> PrismKvSharedMemorySegment list \<Rightarrow> PrismKvSharedMemorySegment list" where
  "scanExpiredSegments now segments =
     List.filter (\<lambda>seg.
       if sm_expiresAt seg = Unparsed [] then False
       else (case date_value (sm_expiresAt seg) of
               None \<Rightarrow> False
             | Some expiresAt \<Rightarrow>
                 if now < expiresAt then False
                 else SegmentState_str (sm_state seg) \<notin> set ORPHAN_ACTIVE_STATES)) segments"

record ReclaimResult =
  rl_reclaimed :: bool
  rl_reason :: "string option"

definition reclaimSegment :: "PrismKvSharedMemorySegment \<Rightarrow> ReclaimResult" where
  "reclaimSegment seg =
     (if SegmentState_str (sm_state seg) \<in> set RECLAIMABLE_STATES
      then \<lparr>rl_reclaimed = True, rl_reason = None\<rparr>
      else \<lparr>rl_reclaimed = False, rl_reason = Some (''segment in state '' @ [CHR 0x27] @
              SegmentState_str (sm_state seg) @ [CHR 0x27] @ '' is not reclaimable'')\<rparr>)"

definition quarantineSegment :: "PrismKvSharedMemorySegment \<Rightarrow> PrismKvSharedMemorySegment" where
  "quarantineSegment seg = seg\<lparr>sm_state := SG_expired\<rparr>"

record OrphanSegmentRecord =
  or_segmentId :: string
  or_handoffId :: string
  or_ownerInstanceId :: string
  or_byteLength :: int
  or_state :: string
  or_expiredAt :: timestamp
  or_reclaimedAt :: "timestamp option"
  or_quarantined :: bool

definition createOrphanRecord :: "PrismKvSharedMemorySegment \<Rightarrow> OrphanSegmentRecord" where
  "createOrphanRecord seg =
     \<lparr>or_segmentId = sm_segmentId seg,
      or_handoffId = sm_handoffId seg,
      or_ownerInstanceId = sm_ownerWorkerInstanceId seg,
      or_byteLength = sm_byteLength seg,
      or_state = SegmentState_str (sm_state seg),
      or_expiredAt = sm_expiresAt seg,
      or_reclaimedAt = None,
      or_quarantined = False\<rparr>"

definition isOrphanReclaimable :: "OrphanSegmentRecord \<Rightarrow> bool" where
  "isOrphanReclaimable record1 =
     (if or_reclaimedAt record1 \<noteq> None then False
      else if or_quarantined record1 then False
      else or_state record1 \<in> set RECLAIMABLE_STATES)"

section \<open>The lifecycle as an interpretation\<close>

text \<open>
  The callers treat an unchanged state as a refusal (\<open>if (next === seg.state)\<close>), so the machine
  underneath is the function that reports this refusal.
\<close>

definition segment_try :: "SegmentState \<Rightarrow> string \<Rightarrow> string + SegmentState" where
  "segment_try s a = (if applySegmentAction s a = s then Inl a else Inr (applySegmentAction s a))"

fun segment_rank :: "SegmentState \<Rightarrow> nat" where
  "segment_rank SG_allocated = 7"
| "segment_rank SG_writing = 6"
| "segment_rank SG_sealed = 5"
| "segment_rank SG_offered = 4"
| "segment_rank SG_mapped_by_destination = 3"
| "segment_rank SG_import_verified = 2"
| "segment_rank SG_acknowledged = 1"
| "segment_rank _ = 0"

lemma applySegmentAction_cases:
  "applySegmentAction s a = s \<or> applySegmentAction s a \<in> set (VALID_SEGMENT_TRANSITIONS s)"
  by (auto simp: applySegmentAction_def find_Some_iff split: option.splits)

interpretation segment: ranked_machine VALID_SEGMENT_TRANSITIONS segment_rank segment_try
proof unfold_locales
  fix s t
  assume "t \<in> set (VALID_SEGMENT_TRANSITIONS s)"
  then show "segment_rank t < segment_rank s" by (cases s) auto
next
  fix s a t
  assume "segment_try s a = Inr t"
  then show "t \<in> set (VALID_SEGMENT_TRANSITIONS s)"
    using applySegmentAction_cases [of s a] by (auto simp: segment_try_def split: if_splits)
qed

lemma seal_eq: "sealSegment seg = (if sm_state seg = SG_writing
    then seg\<lparr>sm_state := SG_sealed,
             sm_descriptorDigest := ''dd:'' @ sm_handoffId seg @ '':'' @ sm_segmentId seg\<rparr> else seg)"
  by (cases "sm_state seg") (simp_all add: sealSegment_def applySegmentAction_def)

lemma mapped_eq: "markMapped seg = (if sm_state seg = SG_offered
    then seg\<lparr>sm_state := SG_mapped_by_destination, sm_mappedByteLength := sm_byteLength seg\<rparr>
    else seg)"
  by (cases "sm_state seg") (simp_all add: markMapped_def applySegmentAction_def)

lemma verified_eq: "markVerified seg = (if sm_state seg = SG_mapped_by_destination
    then seg\<lparr>sm_state := SG_import_verified\<rparr> else seg)"
  by (cases "sm_state seg") (simp_all add: markVerified_def applySegmentAction_def)

lemma acknowledged_eq: "markAcknowledged seg = (if sm_state seg = SG_import_verified
    then seg\<lparr>sm_state := SG_acknowledged\<rparr> else seg)"
  by (cases "sm_state seg") (simp_all add: markAcknowledged_def applySegmentAction_def)

lemma release_eq: "releaseSegment seg = (if sm_state seg = SG_acknowledged
    then seg\<lparr>sm_state := SG_released\<rparr> else seg)"
  by (cases "sm_state seg") (simp_all add: releaseSegment_def applySegmentAction_def)

lemmas sealing_eqs = seal_eq mapped_eq verified_eq acknowledged_eq release_eq

subsection \<open>Steps of a segment\<close>

text \<open>
  The sealing functions, and the transitions the sources leave to the owner of the segment (to
  \<open>writing\<close> and \<open>offered\<close>, and the three ways to give up), which go through
  \<open>applySegmentAction\<close> as well.
\<close>

inductive segment_step :: "PrismKvSharedMemorySegment \<Rightarrow> PrismKvSharedMemorySegment \<Rightarrow> bool" where
  seal: "segment_step seg (sealSegment seg)"
| map: "segment_step seg (markMapped seg)"
| verify: "segment_step seg (markVerified seg)"
| acknowledge: "segment_step seg (markAcknowledged seg)"
| release: "segment_step seg (releaseSegment seg)"
| advance: "action \<in> {''writing'', ''offered'', ''failed'', ''cancelled'', ''expired''} \<Longrightarrow>
    segment_step seg (seg\<lparr>sm_state := applySegmentAction (sm_state seg) action\<rparr>)"

inductive_cases segment_stepE: "segment_step seg seg'"

text \<open>What the fields say in each state, for a segment with the given identity and size.\<close>

definition segment_wf :: "PrismKvSharedMemorySegment \<Rightarrow> bool" where
  "segment_wf seg \<longleftrightarrow>
     (sm_state seg \<in> {SG_allocated, SG_writing} \<longrightarrow> sm_descriptorDigest seg = []) \<and>
     (sm_state seg \<in> {SG_sealed, SG_offered, SG_mapped_by_destination, SG_import_verified,
                      SG_acknowledged, SG_released} \<longrightarrow>
        sm_descriptorDigest seg = ''dd:'' @ sm_handoffId seg @ '':'' @ sm_segmentId seg) \<and>
     (sm_state seg \<in> {SG_allocated, SG_writing, SG_sealed, SG_offered} \<longrightarrow>
        sm_mappedByteLength seg = 0) \<and>
     (sm_state seg \<in> {SG_mapped_by_destination, SG_import_verified, SG_acknowledged,
                      SG_released} \<longrightarrow> sm_mappedByteLength seg = sm_byteLength seg)"

lemma advance_cases:
  assumes "action \<in> {''writing'', ''offered'', ''failed'', ''cancelled'', ''expired''}"
  shows "applySegmentAction s action = s \<or> (s, applySegmentAction s action) \<in>
    {(SG_allocated, SG_writing), (SG_sealed, SG_offered)} \<or>
    applySegmentAction s action \<in> {SG_failed, SG_cancelled, SG_expired}"
  using assms by (cases s) (auto simp: applySegmentAction_def)

lemma segment_wf_step: "segment_step seg seg' \<Longrightarrow> segment_wf seg \<Longrightarrow> segment_wf seg'"
proof (induction rule: segment_step.induct)
  case (advance action seg)
  let ?t = "applySegmentAction (sm_state seg) action"
  from advance_cases [OF advance.hyps]
  consider "?t = sm_state seg" | "sm_state seg = SG_allocated" "?t = SG_writing"
    | "sm_state seg = SG_sealed" "?t = SG_offered" | "?t \<in> {SG_failed, SG_cancelled, SG_expired}"
    by blast
  then show ?case
  proof cases
    case 4
    then show ?thesis by (auto simp: segment_wf_def)
  qed (use advance.prems in \<open>simp_all add: segment_wf_def\<close>)
qed (simp_all add: segment_wf_def sealing_eqs)

lemma segment_identity_step:
  "segment_step seg seg' \<Longrightarrow> sm_segmentId seg' = sm_segmentId seg \<and>
     sm_byteLength seg' = sm_byteLength seg \<and> sm_expiresAt seg' = sm_expiresAt seg"
  by (induction rule: segment_step.induct) (auto simp: sealing_eqs)

lemma segment_step_path:
  "segment_step seg seg' \<Longrightarrow>
     sm_state seg' = sm_state seg \<or> sm_state seg' \<in> set (VALID_SEGMENT_TRANSITIONS (sm_state seg))"
proof (induction rule: segment_step.induct)
  case (advance action seg)
  then show ?case using applySegmentAction_cases by simp
qed (auto simp: sealing_eqs)

section \<open>Properties\<close>

text \<open>
  Along every sequence of segment operations from a fresh segment the invariant \<open>segment_wf\<close>
  holds; so a released segment was sealed (its descriptor digest names its handoff and its own
  identifier) and mapped in full, and its identifier, size and expiry are those of its creation.
\<close>

theorem released_segment_history:
  assumes "segment_step\<^sup>*\<^sup>* (createSegment now uuid h o1 d host bytes align) seg"
  shows "segment_wf seg \<and> sm_segmentId seg = uuid \<and> sm_byteLength seg = bytes \<and>
    sm_expiresAt seg = Iso (now + 60000)"
  using assms
proof (induction rule: rtranclp_induct)
  case base
  show ?case by (simp add: segment_wf_def createSegment_def DEFAULT_SEGMENT_TTL_MS_def)
next
  case (step y z)
  then show ?case using segment_wf_step segment_identity_step by metis
qed

theorem released_segment_history_witness:
  "\<exists>seg. segment_step\<^sup>*\<^sup>* (createSegment 0 ''u'' ''h'' ''o'' ''d'' ''x'' 4096 64) seg \<and>
     sm_state seg = SG_released \<and> segment_wf seg \<and> sm_expiresAt seg = Iso 60000"
proof -
  define c where "c = createSegment 0 ''u'' ''h'' ''o'' ''d'' ''x'' 4096 64"
  define w where "w = c\<lparr>sm_state := applySegmentAction (sm_state c) ''writing''\<rparr>"
  define s where "s = sealSegment w"
  define p where "p = s\<lparr>sm_state := applySegmentAction (sm_state s) ''offered''\<rparr>"
  have "segment_step c w" "segment_step s p" unfolding w_def p_def by (intro segment_step.advance; simp)+
  moreover have "segment_step w s" unfolding s_def by (rule segment_step.seal)
  ultimately have "segment_step\<^sup>*\<^sup>* c p"
    by (meson converse_rtranclp_into_rtranclp rtranclp.rtrancl_refl)
  then have run: "segment_step\<^sup>*\<^sup>* c (releaseSegment (markAcknowledged (markVerified (markMapped p))))"
    by (intro rtranclp.rtrancl_into_rtrancl [where r = segment_step, OF _ segment_step.release]
        rtranclp.rtrancl_into_rtrancl [where r = segment_step, OF _ segment_step.acknowledge]
        rtranclp.rtrancl_into_rtrancl [where r = segment_step, OF _ segment_step.verify]
        rtranclp.rtrancl_into_rtrancl [where r = segment_step, OF _ segment_step.map])
  have "sm_state p = SG_offered"
    by (simp add: p_def s_def w_def c_def seal_eq createSegment_def applySegmentAction_def)
  then have "sm_state (releaseSegment (markAcknowledged (markVerified (markMapped p)))) = SG_released"
    by (simp add: sealing_eqs)
  with run released_segment_history [OF run [unfolded c_def]] show ?thesis unfolding c_def by auto
qed

text \<open>
  A segment machine makes at most seven effective transitions, none of them out of a terminal
  state; a refused action leaves the state as it is, and only an acknowledged segment can be
  released.
\<close>

theorem segment_lifecycle_bounded:
  "(run_actions segment_try s as = Inr t \<longrightarrow> length as + segment_rank t \<le> 7) \<and>
   (isSegmentTerminal s \<longrightarrow> applySegmentAction s a = s) \<and>
   (canReleaseSegment s \<longleftrightarrow> s = SG_acknowledged) \<and>
   (applySegmentAction s ''released'' = SG_released \<longleftrightarrow> s = SG_acknowledged \<or> s = SG_released)"
proof (intro conjI impI)
  assume "run_actions segment_try s as = Inr t"
  then have "length as + segment_rank t \<le> segment_rank s" by (rule segment.run_bounded)
  moreover have "segment_rank s \<le> 7" by (cases s) simp_all
  ultimately show "length as + segment_rank t \<le> 7" by simp
next
  assume "isSegmentTerminal s"
  then show "applySegmentAction s a = s" by (simp add: isSegmentTerminal_def applySegmentAction_def)
next
  show "canReleaseSegment s \<longleftrightarrow> s = SG_acknowledged"
    by (cases s) (simp_all add: canReleaseSegment_def)
  show "applySegmentAction s ''released'' = SG_released \<longleftrightarrow> s = SG_acknowledged \<or> s = SG_released"
    by (cases s) (simp_all add: applySegmentAction_def)
qed

theorem segment_lifecycle_bounded_witness:
  "length [''writing'', ''sealed'', ''offered''] + segment_rank SG_offered \<le> 7"
proof -
  have "run_actions segment_try SG_allocated [''writing'', ''sealed'', ''offered''] = Inr SG_offered"
    by (simp add: segment_try_def applySegmentAction_def)
  then show ?thesis
    using segment_lifecycle_bounded [of SG_allocated "[''writing'', ''sealed'', ''offered'']" SG_offered]
    by blast
qed

text \<open>
  The orphan scan returns, in order, exactly the given segments that have expired and are
  acknowledged, released, failed, cancelled or expired, so never one that is still active; of the
  scanned segments exactly those in the state \<open>acknowledged\<close> are refused by \<open>reclaimSegment\<close>, and a
  quarantined segment is reclaimable at once, as is its orphan record.
\<close>

theorem orphan_scan_exact:
  "(seg \<in> set (scanExpiredSegments now segs) \<longleftrightarrow>
      seg \<in> set segs \<and> isSegmentExpired now seg \<and>
      sm_state seg \<in> {SG_acknowledged, SG_released, SG_failed, SG_cancelled, SG_expired}) \<and>
   \<not> (seg \<in> set (scanExpiredSegments now segs) \<and> isSegmentActive now seg) \<and>
   (seg \<in> set (scanExpiredSegments now segs) \<and> \<not> rl_reclaimed (reclaimSegment seg) \<longleftrightarrow>
      seg \<in> set segs \<and> isSegmentExpired now seg \<and> sm_state seg = SG_acknowledged) \<and>
   rl_reclaimed (reclaimSegment (quarantineSegment seg)) \<and>
   isOrphanReclaimable (createOrphanRecord (quarantineSegment seg))"
proof -
  have 1: "seg \<in> set (scanExpiredSegments now segs) \<longleftrightarrow>
      seg \<in> set segs \<and> isSegmentExpired now seg \<and>
      sm_state seg \<in> {SG_acknowledged, SG_released, SG_failed, SG_cancelled, SG_expired}"
    by (cases "sm_expiresAt seg"; cases "sm_state seg")
      (auto simp: scanExpiredSegments_def isSegmentExpired_def ORPHAN_ACTIVE_STATES_def)
  have 2: "rl_reclaimed (reclaimSegment s) \<longleftrightarrow>
      sm_state s \<in> {SG_released, SG_failed, SG_cancelled, SG_expired}" for s
    by (cases "sm_state s") (simp_all add: reclaimSegment_def RECLAIMABLE_STATES_def)
  have 3: "isOrphanReclaimable (createOrphanRecord (quarantineSegment seg))"
    by (simp add: isOrphanReclaimable_def createOrphanRecord_def quarantineSegment_def
        RECLAIMABLE_STATES_def)
  show ?thesis
    unfolding 1 2 using 3 by (auto simp: isSegmentActive_def quarantineSegment_def)
qed

end
