(* ===== verification/Js_Text.thy ===== *)
theory Js_Text imports Prelude "HOL-Library.Char_ord" "HOL-Library.List_Lexorder" begin

text \<open>
  String and array functions of the JavaScript runtime beyond those of \<open>Prelude\<close>: prefixes,
  suffixes and substrings, \<open>toLowerCase\<close>, regular expressions as prefix matchers, the order of
  strings (\<open><\<close> compares character codes from the left) and \<open>Array.sort\<close> with and without a
  comparison function.  A JavaScript sort is stable, so the result of a consistent comparison is
  unique; \<open>js_sort\<close> is insertion sort.
\<close>

section \<open>Prefixes and substrings\<close>

fun starts_with :: "'a list \<Rightarrow> 'a list \<Rightarrow> bool" where
  "starts_with [] s = True"
| "starts_with (c # cs) [] = False"
| "starts_with (c # cs) (d # ds) = (c = d \<and> starts_with cs ds)"

fun search :: "('a list \<Rightarrow> bool) \<Rightarrow> 'a list \<Rightarrow> bool" where
  "search p [] = p []"
| "search p (c # cs) = (p (c # cs) \<or> search p cs)"

definition js_includes :: "'a list \<Rightarrow> 'a list \<Rightarrow> bool" where
  "js_includes s sub = search (starts_with sub) s"

definition ends_with :: "'a list \<Rightarrow> 'a list \<Rightarrow> bool" where
  "ends_with suf s = starts_with (rev suf) (rev s)"

definition toLowerCase :: "string \<Rightarrow> string" where
  "toLowerCase s =
     List.map (\<lambda>c. if 65 \<le> (of_char c :: nat) \<and> (of_char c :: nat) \<le> 90
                  then char_of (of_char c + (32 :: nat)) else c) s"

text \<open>\<open>.\<close> of a regular expression matches every character but the line terminators.\<close>

definition not_newline :: "char \<Rightarrow> bool" where
  "not_newline c \<longleftrightarrow> (of_char c :: nat) \<noteq> 10 \<and> (of_char c :: nat) \<noteq> 13"

lemma starts_with_iff: "starts_with p s \<longleftrightarrow> (\<exists>r. s = p @ r)"
  by (induction p s rule: starts_with.induct) auto

lemma starts_with_append [simp]: "starts_with p (p @ r)"
  by (auto simp: starts_with_iff)

lemma starts_with_trans: "starts_with p q \<Longrightarrow> starts_with q s \<Longrightarrow> starts_with p s"
  by (auto simp: starts_with_iff)

lemma ends_with_iff: "ends_with suf s \<longleftrightarrow> (\<exists>r. s = r @ suf)"
  by (auto simp: ends_with_def starts_with_iff) (metis rev_append rev_rev_ident)+

lemma search_iff: "search p s \<longleftrightarrow> (\<exists>a b. s = a @ b \<and> p b)"
proof (induction s)
  case (Cons c s)
  have "(\<exists>a b. c # s = a @ b \<and> p b) \<longleftrightarrow> p (c # s) \<or> (\<exists>a b. s = a @ b \<and> p b)"
    by (auto simp: Cons_eq_append_conv)
  with Cons show ?case by simp
qed simp

lemma js_includes_iff: "js_includes s sub \<longleftrightarrow> (\<exists>a b. s = a @ sub @ b)"
  by (auto simp: js_includes_def search_iff starts_with_iff)

section \<open>Sorting\<close>

fun js_insert :: "('a \<Rightarrow> 'a \<Rightarrow> int) \<Rightarrow> 'a \<Rightarrow> 'a list \<Rightarrow> 'a list" where
  "js_insert cmp x [] = [x]"
| "js_insert cmp x (y # ys) = (if cmp x y \<le> 0 then x # y # ys else y # js_insert cmp x ys)"

definition js_sort :: "('a \<Rightarrow> 'a \<Rightarrow> int) \<Rightarrow> 'a list \<Rightarrow> 'a list" where
  "js_sort cmp xs = foldr (js_insert cmp) xs []"

text \<open>\<open>xs.sort()\<close> on an array of strings.\<close>

abbreviation sort_strings :: "string list \<Rightarrow> string list" where
  "sort_strings xs \<equiv> sort xs"

lemma set_js_insert [simp]: "set (js_insert cmp x xs) = insert x (set xs)"
  by (induction xs) auto

lemma set_js_sort [simp]: "set (js_sort cmp xs) = set xs"
  by (induction xs) (auto simp: js_sort_def)

lemma length_js_insert [simp]: "length (js_insert cmp x xs) = Suc (length xs)"
  by (induction xs) auto

lemma length_js_sort [simp]: "length (js_sort cmp xs) = length xs"
  by (induction xs) (auto simp: js_sort_def)

lemma js_sort_Cons: "js_sort cmp (x # xs) = js_insert cmp x (js_sort cmp xs)"
  by (simp add: js_sort_def)

text \<open>
  A comparison is consistent when it is the difference of two keys of a linear order; sorting is
  then the library's \<open>sort_key\<close>.
\<close>

definition compares_by :: "('a \<Rightarrow> 'a \<Rightarrow> int) \<Rightarrow> ('a \<Rightarrow> 'k::linorder) \<Rightarrow> bool" where
  "compares_by cmp key \<longleftrightarrow> (\<forall>x y. (cmp x y \<le> 0) = (key x \<le> key y))"

lemma js_insert_insort: "compares_by cmp key \<Longrightarrow> js_insert cmp x xs = insort_key key x xs"
  by (induction xs) (simp_all add: compares_by_def)

lemma js_sort_sort_key: "compares_by cmp key \<Longrightarrow> js_sort cmp xs = sort_key key xs"
  by (simp add: js_sort_def sort_key_def js_insert_insort cong: foldr_cong)

section \<open>Sets in insertion order\<close>

text \<open>\<open>[...new Set(xs)]\<close> keeps the first occurrence of every element.\<close>

fun set_add_all :: "'a list \<Rightarrow> 'a list \<Rightarrow> 'a list" where
  "set_add_all acc [] = acc"
| "set_add_all acc (x # xs) = set_add_all (if x \<in> set acc then acc else acc @ [x]) xs"

definition js_unique :: "'a list \<Rightarrow> 'a list" where
  "js_unique xs = set_add_all [] xs"

lemma set_add_all_props:
  "set (set_add_all acc xs) = set acc \<union> set xs"
  "distinct acc \<Longrightarrow> distinct (set_add_all acc xs)"
  by (induction xs arbitrary: acc) auto

lemma set_js_unique [simp]: "set (js_unique xs) = set xs"
  by (simp add: js_unique_def set_add_all_props)

lemma distinct_js_unique [simp]: "distinct (js_unique xs)"
  by (simp add: js_unique_def set_add_all_props)

lemma length_js_unique: "length (js_unique xs) = card (set xs)"
  by (metis distinct_card distinct_js_unique set_js_unique)

end
