(* ===== verification/Transport_Envelope.thy ===== *)
theory Transport_Envelope imports Js_Runtime Js_Text begin

text \<open>
  Transfer envelopes and trailers of the local-host transport (\<open>kv-transfer-envelope.ts\<close>,
  \<open>kv-transfer-trailer.ts\<close>) with the serialiser and deserialiser checks around them
  (\<open>kv-serializer.ts\<close>, \<open>kv-deserializer.ts\<close>).  \<open>sha256\<close> is the platform's hexadecimal digest
  of a UTF-8 string.
\<close>

section \<open>Envelopes\<close>

record PrismKvTransferEnvelope =
  en_envelopeVersion :: int
  en_handoffId :: string
  en_sourceKvNamespaceId :: string
  en_modelArtifactDigest :: string
  en_tokenizerDigest :: string
  en_compatibilityDescriptorDigest :: string
  en_transferRepresentation :: string
  en_sequenceLength :: int
  en_layerCount :: int
  en_pageCount :: int
  en_payloadByteLength :: int
  en_payloadAlignment :: int
  en_payloadChecksum :: string
  en_createdAt :: timestamp

definition envelope_fields :: "PrismKvTransferEnvelope \<Rightarrow> string list" where
  "envelope_fields envelope =
     [show_int (en_envelopeVersion envelope), en_handoffId envelope,
      en_sourceKvNamespaceId envelope, en_modelArtifactDigest envelope,
      en_tokenizerDigest envelope, en_compatibilityDescriptorDigest envelope,
      en_transferRepresentation envelope, show_int (en_sequenceLength envelope),
      show_int (en_layerCount envelope), show_int (en_pageCount envelope),
      show_int (en_payloadByteLength envelope), show_int (en_payloadAlignment envelope),
      en_payloadChecksum envelope, timestamp_str (en_createdAt envelope)]"

definition computeEnvelopeDigest :: "(string \<Rightarrow> string) \<Rightarrow> PrismKvTransferEnvelope \<Rightarrow> string" where
  "computeEnvelopeDigest sha256 envelope = sha256 (js_join ''|'' (envelope_fields envelope))"

definition createTransferEnvelope ::
  "millis \<Rightarrow> string \<Rightarrow> string \<Rightarrow> string \<Rightarrow> string \<Rightarrow> string \<Rightarrow> string \<Rightarrow> int \<Rightarrow> int \<Rightarrow> int \<Rightarrow> int \<Rightarrow> int \<Rightarrow>
   string \<Rightarrow> PrismKvTransferEnvelope" where
  "createTransferEnvelope now handoffId nsId modelDigest tokenizerDigest compatDigest rep seqLen
     layers pages bytes align checksum =
     \<lparr>en_envelopeVersion = 1,
      en_handoffId = handoffId,
      en_sourceKvNamespaceId = nsId,
      en_modelArtifactDigest = modelDigest,
      en_tokenizerDigest = tokenizerDigest,
      en_compatibilityDescriptorDigest = compatDigest,
      en_transferRepresentation = rep,
      en_sequenceLength = seqLen,
      en_layerCount = layers,
      en_pageCount = pages,
      en_payloadByteLength = bytes,
      en_payloadAlignment = align,
      en_payloadChecksum = checksum,
      en_createdAt = Iso now\<rparr>"

record ValidationResult =
  va_valid :: bool
  va_reason :: "string option"

abbreviation invalid :: "string \<Rightarrow> ValidationResult" where
  "invalid r \<equiv> \<lparr>va_valid = False, va_reason = Some r\<rparr>"

definition validateEnvelope :: "PrismKvTransferEnvelope \<Rightarrow> string \<Rightarrow> ValidationResult" where
  "validateEnvelope envelope expectedHandoffId =
     (if en_envelopeVersion envelope < 1 then
        invalid (''invalid envelope version: '' @ show_int (en_envelopeVersion envelope))
      else if \<not> truthy (en_handoffId envelope) then invalid ''envelope handoffId is empty''
      else if en_handoffId envelope \<noteq> expectedHandoffId then
        invalid (''handoffId mismatch: expected '' @ quoted expectedHandoffId @ '', got '' @
                 quoted (en_handoffId envelope))
      else if \<not> truthy (en_sourceKvNamespaceId envelope) then
        invalid ''envelope sourceKvNamespaceId is empty''
      else if en_sequenceLength envelope \<le> 0 then
        invalid (''invalid sequenceLength: '' @ show_int (en_sequenceLength envelope))
      else if en_layerCount envelope \<le> 0 then
        invalid (''invalid layerCount: '' @ show_int (en_layerCount envelope))
      else if en_pageCount envelope \<le> 0 then
        invalid (''invalid pageCount: '' @ show_int (en_pageCount envelope))
      else if en_payloadByteLength envelope \<le> 0 then
        invalid (''invalid payloadByteLength: '' @ show_int (en_payloadByteLength envelope))
      else if en_payloadAlignment envelope \<le> 0 then
        invalid (''invalid payloadAlignment: '' @ show_int (en_payloadAlignment envelope))
      else if \<not> truthy (en_payloadChecksum envelope) then
        invalid ''envelope payloadChecksum is empty''
      else if \<not> ts_truthy (en_createdAt envelope) then invalid ''envelope createdAt is empty''
      else \<lparr>va_valid = True, va_reason = None\<rparr>)"

section \<open>Trailers\<close>

record PrismKvTransferTrailer =
  tl_envelopeDigest :: string
  tl_payloadChecksum :: string
  tl_payloadByteLength :: int
  tl_serializationGeneration :: int
  tl_completedAt :: timestamp

definition createTransferTrailer ::
  "millis \<Rightarrow> string \<Rightarrow> string \<Rightarrow> int \<Rightarrow> PrismKvTransferTrailer" where
  "createTransferTrailer now envelopeDigest checksum bytes =
     \<lparr>tl_envelopeDigest = envelopeDigest,
      tl_payloadChecksum = checksum,
      tl_payloadByteLength = bytes,
      tl_serializationGeneration = 1,
      tl_completedAt = Iso now\<rparr>"

definition buildTrailerFromEnvelope ::
  "(string \<Rightarrow> string) \<Rightarrow> millis \<Rightarrow> PrismKvTransferEnvelope \<Rightarrow> PrismKvTransferTrailer" where
  "buildTrailerFromEnvelope sha256 now envelope =
     createTransferTrailer now (computeEnvelopeDigest sha256 envelope)
       (en_payloadChecksum envelope) (en_payloadByteLength envelope)"

definition validateTrailer ::
  "PrismKvTransferTrailer \<Rightarrow> string \<Rightarrow> string \<Rightarrow> int \<Rightarrow> ValidationResult" where
  "validateTrailer trailer expectedEnvelopeDigest expectedChecksum expectedBytes =
     (if \<not> truthy (tl_envelopeDigest trailer) then invalid ''trailer envelopeDigest is empty''
      else if tl_envelopeDigest trailer \<noteq> expectedEnvelopeDigest then
        invalid (''envelopeDigest mismatch: expected '' @ quoted expectedEnvelopeDigest @
                 '', got '' @ quoted (tl_envelopeDigest trailer))
      else if \<not> truthy (tl_payloadChecksum trailer) then
        invalid ''trailer payloadChecksum is empty''
      else if tl_payloadChecksum trailer \<noteq> expectedChecksum then
        invalid (''payloadChecksum mismatch: expected '' @ quoted expectedChecksum @
                 '', got '' @ quoted (tl_payloadChecksum trailer))
      else if tl_payloadByteLength trailer \<noteq> expectedBytes then
        invalid (''payloadByteLength mismatch: expected '' @ show_int expectedBytes @
                 '', got '' @ show_int (tl_payloadByteLength trailer))
      else if tl_serializationGeneration trailer < 1 then
        invalid (''invalid serializationGeneration: '' @
                 show_int (tl_serializationGeneration trailer))
      else if \<not> ts_truthy (tl_completedAt trailer) then invalid ''trailer completedAt is empty''
      else \<lparr>va_valid = True, va_reason = None\<rparr>)"

section \<open>Serialiser and deserialiser\<close>

definition canSerialize :: "string \<Rightarrow> string list \<Rightarrow> bool" where
  "canSerialize representation supportedReps =
     (if \<not> truthy representation then False else representation \<in> set supportedReps)"

definition estimateSerializedBytes :: "int \<Rightarrow> int \<Rightarrow> int \<Rightarrow> int \<Rightarrow> int" where
  "estimateSerializedBytes seqLen layers pages bytesPerPage =
     (let estimated = seqLen * layers * pages * bytesPerPage
      in if estimated \<le> 0 then 0 else estimated)"

definition computeChecksum :: "(string \<Rightarrow> string) \<Rightarrow> string \<Rightarrow> string" where
  "computeChecksum sha256 data = sha256 data"

definition buildEnvelope ::
  "(string \<Rightarrow> string) \<Rightarrow> millis \<Rightarrow> string \<Rightarrow> string \<Rightarrow> string \<Rightarrow> string \<Rightarrow> int \<Rightarrow> int \<Rightarrow> int \<Rightarrow> int \<Rightarrow>
   PrismKvTransferEnvelope" where
  "buildEnvelope sha256 now handoffId nsId modelDigest compatDigest seqLen layers pages bytes =
     (let canonical = js_join '':'' [handoffId, nsId, modelDigest, show_int seqLen,
            show_int layers, show_int pages, show_int bytes];
          checksum = computeChecksum sha256 canonical
      in createTransferEnvelope now handoffId nsId modelDigest [] compatDigest ''flat_buffer''
           seqLen layers pages bytes 64 checksum)"

definition buildTrailer ::
  "(string \<Rightarrow> string) \<Rightarrow> millis \<Rightarrow> PrismKvTransferEnvelope \<Rightarrow> PrismKvTransferTrailer" where
  "buildTrailer sha256 now envelope =
     (let envDigest = computeEnvelopeDigest sha256 envelope
      in createTransferTrailer now envDigest (en_payloadChecksum envelope)
           (en_payloadByteLength envelope))"

definition validateChecksum :: "string \<Rightarrow> string \<Rightarrow> bool" where
  "validateChecksum expected actual =
     (if \<not> truthy expected \<or> \<not> truthy actual then False
      else toLowerCase expected = toLowerCase actual)"

definition validateByteLength :: "int \<Rightarrow> int \<Rightarrow> bool" where
  "validateByteLength expected actual =
     (if expected \<le> 0 \<or> actual \<le> 0 then False else expected = actual)"

definition canDeserialize :: "string \<Rightarrow> string list \<Rightarrow> bool" where
  "canDeserialize rep supportedReps =
     (if \<not> truthy rep then False
      else if length supportedReps = 0 then False
      else rep \<in> set supportedReps)"

section \<open>Lemmas\<close>

lemma buildTrailer_eq: "buildTrailer sha256 now e = buildTrailerFromEnvelope sha256 now e"
  by (simp add: buildTrailer_def buildTrailerFromEnvelope_def Let_def)

lemma validateTrailer_built:
  "va_valid (validateTrailer (buildTrailer sha256 now e) d c n) \<longleftrightarrow>
     computeEnvelopeDigest sha256 e = d \<and> d \<noteq> [] \<and> en_payloadChecksum e = c \<and> c \<noteq> [] \<and>
     en_payloadByteLength e = n"
  by (auto simp: validateTrailer_def buildTrailer_def createTransferTrailer_def Let_def)

lemma envelope_digest_inject:
  assumes "bar_free (envelope_fields a)" and "bar_free (envelope_fields b)"
    and "inj_on sha256 {js_join ''|'' (envelope_fields a), js_join ''|'' (envelope_fields b)}"
  shows "computeEnvelopeDigest sha256 a = computeEnvelopeDigest sha256 b \<longleftrightarrow>
    envelope_fields a = envelope_fields b"
  unfolding computeEnvelopeDigest_def
  by (rule joined_inject [OF assms(1,2) _ _ assms(3)]) (simp_all add: envelope_fields_def)

section \<open>Properties\<close>

text \<open>
  Tampering with an envelope after its trailer was built is detected: with no separator in the
  fields and no collision on the two canonical strings, the trailer of the sent envelope validates
  against the received envelope exactly when all fourteen fields of the two agree (as printed) and
  digest and checksum are not empty.
\<close>

theorem trailer_detects_tampering:
  assumes "bar_free (envelope_fields sent)"
    and "bar_free (envelope_fields recv)"
    and "inj_on sha256 {js_join ''|'' (envelope_fields sent), js_join ''|'' (envelope_fields recv)}"
  shows "va_valid (validateTrailer (buildTrailer sha256 now sent) (computeEnvelopeDigest sha256 recv)
      (en_payloadChecksum recv) (en_payloadByteLength recv)) \<longleftrightarrow>
    envelope_fields sent = envelope_fields recv \<and> computeEnvelopeDigest sha256 recv \<noteq> [] \<and>
    en_payloadChecksum recv \<noteq> []"
  using envelope_digest_inject [OF assms] by (auto simp: validateTrailer_built envelope_fields_def)

definition sample_envelope :: PrismKvTransferEnvelope where
  "sample_envelope = createTransferEnvelope 0 ''h'' ''n'' ''m'' ''t'' ''c'' ''flat_buffer'' 8 2 1 64 64 ''ck''"

theorem trailer_detects_tampering_witness:
  "\<not> va_valid (validateTrailer (buildTrailer rev 5 sample_envelope)
      (computeEnvelopeDigest rev (sample_envelope\<lparr>en_layerCount := 3\<rparr>)) ''ck'' 64)"
proof -
  have f: "envelope_fields sample_envelope \<noteq> envelope_fields (sample_envelope\<lparr>en_layerCount := 3\<rparr>)"
    "en_payloadChecksum (sample_envelope\<lparr>en_layerCount := 3\<rparr>) = ''ck''"
    "en_payloadByteLength (sample_envelope\<lparr>en_layerCount := 3\<rparr>) = 64"
    by (simp_all add: envelope_fields_def sample_envelope_def createTransferEnvelope_def)
  have b: "bar_free (envelope_fields sample_envelope)"
    "bar_free (envelope_fields (sample_envelope\<lparr>en_layerCount := 3\<rparr>))"
    by (simp_all add: bar_free_def envelope_fields_def sample_envelope_def
        createTransferEnvelope_def toISOString_no_bar)
  from trailer_detects_tampering [OF b, of rev 5] f show ?thesis by (simp add: inj_on_def)
qed

text \<open>
  An envelope of \<open>buildEnvelope\<close> validates for its handoff exactly when handoff and namespace are
  present, the four sizes are positive and the checksum is not empty, and its trailer then
  validates against it; both builders of a trailer agree, and the representation it uses can be
  deserialised wherever it can be serialised.
\<close>

theorem envelope_trailer_roundtrip:
  assumes "\<And>s. sha256 s \<noteq> []"
  shows "(va_valid (validateEnvelope (buildEnvelope sha256 now h ns m c len layers pages bytes) h) \<longleftrightarrow>
      h \<noteq> [] \<and> ns \<noteq> [] \<and> len > 0 \<and> layers > 0 \<and> pages > 0 \<and> bytes > 0) \<and>
    va_valid (validateTrailer
      (buildTrailer sha256 later (buildEnvelope sha256 now h ns m c len layers pages bytes))
      (computeEnvelopeDigest sha256 (buildEnvelope sha256 now h ns m c len layers pages bytes))
      (en_payloadChecksum (buildEnvelope sha256 now h ns m c len layers pages bytes)) bytes) \<and>
    buildTrailer sha256 later e = buildTrailerFromEnvelope sha256 later e \<and>
    canDeserialize rep reps = canSerialize rep reps"
proof (intro conjI)
  show "va_valid (validateEnvelope (buildEnvelope sha256 now h ns m c len layers pages bytes) h) \<longleftrightarrow>
      h \<noteq> [] \<and> ns \<noteq> [] \<and> len > 0 \<and> layers > 0 \<and> pages > 0 \<and> bytes > 0"
    using assms by (simp add: validateEnvelope_def buildEnvelope_def createTransferEnvelope_def
        computeChecksum_def Let_def)
  show "va_valid (validateTrailer
      (buildTrailer sha256 later (buildEnvelope sha256 now h ns m c len layers pages bytes))
      (computeEnvelopeDigest sha256 (buildEnvelope sha256 now h ns m c len layers pages bytes))
      (en_payloadChecksum (buildEnvelope sha256 now h ns m c len layers pages bytes)) bytes)"
    unfolding validateTrailer_built using assms
    by (simp add: computeEnvelopeDigest_def buildEnvelope_def createTransferEnvelope_def
        computeChecksum_def Let_def)
  show "canDeserialize rep reps = canSerialize rep reps"
    by (auto simp: canDeserialize_def canSerialize_def)
qed (rule buildTrailer_eq)

theorem envelope_trailer_roundtrip_witness:
  "va_valid (validateEnvelope (buildEnvelope (\<lambda>s. ''f'') 0 ''h'' ''n'' ''m'' ''c'' 8 2 1 64) ''h'')"
  using envelope_trailer_roundtrip [of "\<lambda>s. ''f''" 0 "''h''" "''n''" "''m''" "''c''" 8 2 1 64] by simp

end
