(* ===== verification/Transport_Session.thy ===== *)
theory Transport_Session
  imports Js_Runtime "HOL-Library.List_Lexorder" "HOL-Library.Char_ord"
begin

text \<open>
  Sessions of the local-host transport: capabilities (\<open>local-transport-capability.ts\<close>,
  \<open>linux-unix-socket-transport.ts\<close>) and the choice of a backend
  (\<open>transport-coordinator-bridge.ts\<close>), handshakes (\<open>local-transport-handshake.ts\<close>), control
  messages (\<open>local-control-protocol.ts\<close>), the Dharma policy
  (\<open>dharma-local-transport-policy.ts\<close>), cancellation, timeouts and the deployment defaults.
  Nonces and message identifiers, which the sources draw from the clock and \<open>Math.random\<close>, are
  arguments; a message payload is given by its JSON text.
\<close>

section \<open>Structural signatures\<close>

text \<open>\<open>Math.abs(hash).toString(16).padStart(8, "0")\<close> of the signed 32-bit hash.\<close>

definition abs_hash_hex :: "string \<Rightarrow> string" where
  "abs_hash_hex raw = padStart 8 (CHR ''0'') (show_hex (nat \<bar>sint (string_hash raw)\<bar>))"

section \<open>Capabilities\<close>

datatype LocalTransportBackendKind =
  linux_unix_socket_shared_memory | macos_future_transport | test_fixture_transport

fun LocalTransportBackendKind_str :: "LocalTransportBackendKind \<Rightarrow> string" where
  "LocalTransportBackendKind_str linux_unix_socket_shared_memory = ''linux_unix_socket_shared_memory''"
| "LocalTransportBackendKind_str macos_future_transport = ''macos_future_transport''"
| "LocalTransportBackendKind_str test_fixture_transport = ''test_fixture_transport''"

record PrismLocalHostKvTransportCapability =
  cp_backendKind :: LocalTransportBackendKind
  cp_supported :: bool
  cp_protocolVersion :: int
  cp_maximumSegmentBytes :: int
  cp_maximumConcurrentSegments :: int
  cp_supportedTransferRepresentations :: "string list"
  cp_supportsReadOnlyDestinationMapping :: bool
  cp_supportsFdPassing :: bool
  cp_supportsIntegrityTrailer :: bool
  cp_supportsCancellation :: bool
  cp_supportsOrphanRecovery :: bool
  cp_platformCapabilityDigest :: string

record LocalHostAuthorityDomain =
  ad_hostInstanceId :: string
  ad_operatingSystemFamily :: string
  ad_localTransportBackend :: LocalTransportBackendKind
  ad_runtimeUserScope :: string
  ad_transportNamespaceDigest :: string

definition computePlatformDigest :: "string \<Rightarrow> int \<Rightarrow> int \<Rightarrow> string list \<Rightarrow> string" where
  "computePlatformDigest family maxBytes maxSegments reps =
     (let parts = [family, show_int maxBytes, show_int maxSegments] @ sort reps
      in ''digest:'' @ js_join ''|'' parts)"

definition createLinuxCapability ::
  "int \<Rightarrow> int \<Rightarrow> string list \<Rightarrow> PrismLocalHostKvTransportCapability" where
  "createLinuxCapability maxBytes maxSegments reps =
     \<lparr>cp_backendKind = linux_unix_socket_shared_memory,
      cp_supported = True,
      cp_protocolVersion = 1,
      cp_maximumSegmentBytes = maxBytes,
      cp_maximumConcurrentSegments = maxSegments,
      cp_supportedTransferRepresentations = reps,
      cp_supportsReadOnlyDestinationMapping = True,
      cp_supportsFdPassing = True,
      cp_supportsIntegrityTrailer = True,
      cp_supportsCancellation = True,
      cp_supportsOrphanRecovery = True,
      cp_platformCapabilityDigest = computePlatformDigest ''linux'' maxBytes maxSegments reps\<rparr>"

definition createMacOSUnsupportedCapability :: PrismLocalHostKvTransportCapability where
  "createMacOSUnsupportedCapability =
     \<lparr>cp_backendKind = macos_future_transport,
      cp_supported = False,
      cp_protocolVersion = 1,
      cp_maximumSegmentBytes = 0,
      cp_maximumConcurrentSegments = 0,
      cp_supportedTransferRepresentations = [],
      cp_supportsReadOnlyDestinationMapping = False,
      cp_supportsFdPassing = False,
      cp_supportsIntegrityTrailer = True,
      cp_supportsCancellation = False,
      cp_supportsOrphanRecovery = False,
      cp_platformCapabilityDigest = ''macos-unsupported-v1''\<rparr>"

definition LINUX_PLATFORM_DIGEST :: string where
  "LINUX_PLATFORM_DIGEST = ''sha256:'' @ replicate 63 (CHR ''0'') @ ''1''"

definition createLinuxTransportCapability :: PrismLocalHostKvTransportCapability where
  "createLinuxTransportCapability =
     \<lparr>cp_backendKind = linux_unix_socket_shared_memory,
      cp_supported = True,
      cp_protocolVersion = 1,
      cp_maximumSegmentBytes = 256 * 1024 * 1024,
      cp_maximumConcurrentSegments = 4,
      cp_supportedTransferRepresentations = [''flat_buffer'', ''tensor_page_array''],
      cp_supportsReadOnlyDestinationMapping = True,
      cp_supportsFdPassing = True,
      cp_supportsIntegrityTrailer = True,
      cp_supportsCancellation = True,
      cp_supportsOrphanRecovery = True,
      cp_platformCapabilityDigest = LINUX_PLATFORM_DIGEST\<rparr>"

definition isBackendSupported :: "PrismLocalHostKvTransportCapability \<Rightarrow> bool" where
  "isBackendSupported cap \<longleftrightarrow>
     cp_backendKind cap = linux_unix_socket_shared_memory \<and> cp_supported cap = True"

record HostAuthorityResult =
  ha_sameHost :: bool
  ha_reason :: "string option"

definition checkSameHostAuthority ::
  "LocalHostAuthorityDomain \<Rightarrow> LocalHostAuthorityDomain \<Rightarrow> HostAuthorityResult" where
  "checkSameHostAuthority sourceDomain destDomain =
     (if ad_hostInstanceId sourceDomain \<noteq> ad_hostInstanceId destDomain then
        \<lparr>ha_sameHost = False, ha_reason = Some (''Host instance mismatch: '' @
           ad_hostInstanceId sourceDomain @ '' !== '' @ ad_hostInstanceId destDomain)\<rparr>
      else if ad_runtimeUserScope sourceDomain \<noteq> ad_runtimeUserScope destDomain then
        \<lparr>ha_sameHost = False, ha_reason = Some (''Runtime user scope mismatch: '' @
           ad_runtimeUserScope sourceDomain @ '' !== '' @ ad_runtimeUserScope destDomain)\<rparr>
      else if ad_transportNamespaceDigest sourceDomain \<noteq> ad_transportNamespaceDigest destDomain then
        \<lparr>ha_sameHost = False, ha_reason = Some (''Transport namespace digest mismatch: '' @
           ad_transportNamespaceDigest sourceDomain @ '' !== '' @
           ad_transportNamespaceDigest destDomain)\<rparr>
      else \<lparr>ha_sameHost = True, ha_reason = None\<rparr>)"

definition areCapabilitiesCompatible ::
  "PrismLocalHostKvTransportCapability \<Rightarrow> PrismLocalHostKvTransportCapability \<Rightarrow> bool" where
  "areCapabilitiesCompatible source dest =
     (if cp_backendKind source \<noteq> cp_backendKind dest then False
      else if \<not> cp_supported source \<or> \<not> cp_supported dest then False
      else if cp_protocolVersion source \<noteq> cp_protocolVersion dest then False
      else True)"

subsection \<open>Choice of a backend\<close>

record BackendSelection =
  bs_backend :: "string option"
  bs_reason :: "string option"

definition selectTransportBackend ::
  "PrismLocalHostKvTransportCapability \<Rightarrow> PrismLocalHostKvTransportCapability \<Rightarrow> bool \<Rightarrow>
   BackendSelection" where
  "selectTransportBackend capSource capDest leaseAllows =
     (if \<not> cp_supported capSource \<or> \<not> cp_supported capDest then
        \<lparr>bs_backend = None,
         bs_reason = Some ''source or destination does not support local-host transport''\<rparr>
      else if cp_backendKind capSource \<noteq> cp_backendKind capDest then
        \<lparr>bs_backend = None,
         bs_reason = Some ''source and destination backend kinds do not match''\<rparr>
      else if \<not> leaseAllows then
        \<lparr>bs_backend = None, bs_reason = Some ''lease does not permit real transport''\<rparr>
      else if cp_protocolVersion capSource \<noteq> cp_protocolVersion capDest then
        \<lparr>bs_backend = None,
         bs_reason = Some ''protocol version mismatch between source and destination''\<rparr>
      else \<lparr>bs_backend = Some (LocalTransportBackendKind_str (cp_backendKind capSource)),
            bs_reason = None\<rparr>)"

definition canProceedWithRealTransport :: "bool \<Rightarrow> bool \<Rightarrow> bool \<Rightarrow> bool \<Rightarrow> bool" where
  "canProceedWithRealTransport sourceCap destCap sameHost leaseAllows \<longleftrightarrow>
     sourceCap \<and> destCap \<and> sameHost \<and> leaseAllows"

section \<open>Handshakes\<close>

record LocalKvTransportHandshake =
  hk_protocolVersion :: int
  hk_workerId :: string
  hk_workerInstanceId :: string
  hk_hostInstanceId :: string
  hk_transportCapabilityDigest :: string
  hk_ephemeralTransportPublicKey :: string
  hk_nonce :: string
  hk_timestamp :: timestamp
  hk_signature :: string

record LocalKvTransportHandshakeAcceptance =
  hx_protocolVersion :: int
  hx_workerId :: string
  hx_workerInstanceId :: string
  hx_hostInstanceId :: string
  hx_transportCapabilityDigest :: string
  hx_ephemeralTransportPublicKey :: string
  hx_nonceEcho :: string
  hx_nonce :: string
  hx_timestamp :: timestamp
  hx_signature :: string

datatype HandshakeRejection =
    unknown_worker | worker_instance_mismatch | host_authority_mismatch
  | transport_capability_mismatch | protocol_version_mismatch
  | invalid_signature | expired_handshake | replayed_nonce | transport_session_expired

definition computeSignature :: "string \<Rightarrow> string \<Rightarrow> string \<Rightarrow> string \<Rightarrow> string \<Rightarrow> string" where
  "computeSignature workerId instanceId hostId nonce timestamp =
     ''sig:'' @ abs_hash_hex (js_join '':'' [workerId, instanceId, hostId, nonce, timestamp])"

definition createHandshake ::
  "millis \<Rightarrow> string \<Rightarrow> string \<Rightarrow> string \<Rightarrow> string \<Rightarrow> string \<Rightarrow> string \<Rightarrow> LocalKvTransportHandshake" where
  "createHandshake now nonce workerId instanceId hostId capDigest pubKey =
     \<lparr>hk_protocolVersion = 1,
      hk_workerId = workerId,
      hk_workerInstanceId = instanceId,
      hk_hostInstanceId = hostId,
      hk_transportCapabilityDigest = capDigest,
      hk_ephemeralTransportPublicKey = pubKey,
      hk_nonce = nonce,
      hk_timestamp = Iso now,
      hk_signature = computeSignature workerId instanceId hostId nonce (toISOString now)\<rparr>"

definition createHandshakeAcceptance ::
  "millis \<Rightarrow> string \<Rightarrow> LocalKvTransportHandshake \<Rightarrow> string \<Rightarrow> string \<Rightarrow> string \<Rightarrow> string \<Rightarrow> string \<Rightarrow>
   LocalKvTransportHandshakeAcceptance" where
  "createHandshakeAcceptance now nonce handshake workerId instanceId hostId capDigest pubKey =
     \<lparr>hx_protocolVersion = 1,
      hx_workerId = workerId,
      hx_workerInstanceId = instanceId,
      hx_hostInstanceId = hostId,
      hx_transportCapabilityDigest = capDigest,
      hx_ephemeralTransportPublicKey = pubKey,
      hx_nonceEcho = hk_nonce handshake,
      hx_nonce = nonce,
      hx_timestamp = Iso now,
      hx_signature = computeSignature workerId instanceId hostId nonce (toISOString now)\<rparr>"

record HandshakeVerdict =
  hv_valid :: bool
  hv_rejection :: "HandshakeRejection option"
  hv_reason :: "string option"

abbreviation handshake_rejected :: "HandshakeRejection \<Rightarrow> string \<Rightarrow> HandshakeVerdict" where
  "handshake_rejected c r \<equiv> \<lparr>hv_valid = False, hv_rejection = Some c, hv_reason = Some r\<rparr>"

definition verifyHandshake ::
  "LocalKvTransportHandshake \<Rightarrow> LocalKvTransportHandshakeAcceptance \<Rightarrow> HandshakeVerdict" where
  "verifyHandshake handshake acceptance =
     (if hk_protocolVersion handshake \<noteq> hx_protocolVersion acceptance then
        handshake_rejected protocol_version_mismatch (''Protocol version mismatch: '' @
          show_int (hk_protocolVersion handshake) @ '' !== '' @
          show_int (hx_protocolVersion acceptance))
      else if hx_nonceEcho acceptance \<noteq> hk_nonce handshake then
        handshake_rejected replayed_nonce (''Nonce echo mismatch: '' @
          hx_nonceEcho acceptance @ '' !== '' @ hk_nonce handshake)
      else if hk_workerId handshake \<noteq> hx_workerId acceptance then
        handshake_rejected unknown_worker (''Worker ID mismatch: '' @
          hk_workerId handshake @ '' !== '' @ hx_workerId acceptance)
      else if hk_hostInstanceId handshake \<noteq> hx_hostInstanceId acceptance then
        handshake_rejected host_authority_mismatch (''Host instance mismatch: '' @
          hk_hostInstanceId handshake @ '' !== '' @ hx_hostInstanceId acceptance)
      else if hk_workerInstanceId handshake \<noteq> hx_workerInstanceId acceptance then
        handshake_rejected worker_instance_mismatch (''Worker instance mismatch: '' @
          hk_workerInstanceId handshake @ '' !== '' @ hx_workerInstanceId acceptance)
      else if hk_transportCapabilityDigest handshake \<noteq> hx_transportCapabilityDigest acceptance then
        handshake_rejected transport_capability_mismatch (''Capability digest mismatch: '' @
          hk_transportCapabilityDigest handshake @ '' !== '' @
          hx_transportCapabilityDigest acceptance)
      else if \<not> truthy (hk_signature handshake) \<or> \<not> truthy (hx_signature acceptance) then
        handshake_rejected invalid_signature ''Empty or missing signature''
      else \<lparr>hv_valid = True, hv_rejection = None, hv_reason = None\<rparr>)"

definition isNonceReplayed :: "string \<Rightarrow> string set \<Rightarrow> bool" where
  "isNonceReplayed nonce seenNonces \<longleftrightarrow> nonce \<in> seenNonces"

definition isHandshakeExpired :: "millis \<Rightarrow> LocalKvTransportHandshake \<Rightarrow> int \<Rightarrow> bool" where
  "isHandshakeExpired now handshake ttlMs =
     (case date_value (hk_timestamp handshake) of
        None \<Rightarrow> True
      | Some timestamp \<Rightarrow> now - timestamp > ttlMs)"

section \<open>Control messages\<close>

datatype LocalKvControlMessageKind =
    CK_handshake | CK_handshake_accept | CK_handoff_offer | CK_handoff_accept | CK_handoff_reject
  | CK_export_ready | CK_segment_descriptor | CK_import_started | CK_import_verified
  | CK_import_activated | CK_import_acknowledged | CK_commit | CK_rollback | CK_cancel
  | CK_source_disposition_request | CK_source_disposition_complete | CK_heartbeat | CK_error

fun LocalKvControlMessageKind_str :: "LocalKvControlMessageKind \<Rightarrow> string" where
  "LocalKvControlMessageKind_str CK_handshake = ''handshake''"
| "LocalKvControlMessageKind_str CK_handshake_accept = ''handshake_accept''"
| "LocalKvControlMessageKind_str CK_handoff_offer = ''handoff_offer''"
| "LocalKvControlMessageKind_str CK_handoff_accept = ''handoff_accept''"
| "LocalKvControlMessageKind_str CK_handoff_reject = ''handoff_reject''"
| "LocalKvControlMessageKind_str CK_export_ready = ''export_ready''"
| "LocalKvControlMessageKind_str CK_segment_descriptor = ''segment_descriptor''"
| "LocalKvControlMessageKind_str CK_import_started = ''import_started''"
| "LocalKvControlMessageKind_str CK_import_verified = ''import_verified''"
| "LocalKvControlMessageKind_str CK_import_activated = ''import_activated''"
| "LocalKvControlMessageKind_str CK_import_acknowledged = ''import_acknowledged''"
| "LocalKvControlMessageKind_str CK_commit = ''commit''"
| "LocalKvControlMessageKind_str CK_rollback = ''rollback''"
| "LocalKvControlMessageKind_str CK_cancel = ''cancel''"
| "LocalKvControlMessageKind_str CK_source_disposition_request = ''source_disposition_request''"
| "LocalKvControlMessageKind_str CK_source_disposition_complete = ''source_disposition_complete''"
| "LocalKvControlMessageKind_str CK_heartbeat = ''heartbeat''"
| "LocalKvControlMessageKind_str CK_error = ''error''"

record LocalKvControlMessage =
  cm_protocolVersion :: int
  cm_messageId :: string
  cm_sequenceNumber :: int
  cm_handoffId :: string
  cm_routeId :: string
  cm_requestId :: string
  cm_sourceWorkerInstanceId :: string
  cm_destinationWorkerInstanceId :: string
  cm_kind :: LocalKvControlMessageKind
  cm_payloadDigest :: string
  cm_payload :: "string option"
  cm_sentAt :: timestamp
  cm_signature :: string

definition computeControlPayloadDigest :: "string option \<Rightarrow> string" where
  "computeControlPayloadDigest payload =
     (case payload of None \<Rightarrow> ''null'' | Some json \<Rightarrow> ''pd:'' @ abs_hash_hex json)"

definition computeControlSignature :: "string \<Rightarrow> string" where
  "computeControlSignature raw = ''cs:'' @ abs_hash_hex raw"

definition createControlMessage ::
  "millis \<Rightarrow> string \<Rightarrow> string \<Rightarrow> LocalKvControlMessageKind \<Rightarrow> string option \<Rightarrow> string \<Rightarrow> string \<Rightarrow>
   LocalKvControlMessage" where
  "createControlMessage now messageId handoffId kind payload sourceInstanceId destInstanceId =
     (let payloadDigest = computeControlPayloadDigest payload;
          rawForSig = js_join '':'' [handoffId, LocalKvControlMessageKind_str kind,
            sourceInstanceId, destInstanceId, toISOString now, payloadDigest];
          signature = computeControlSignature rawForSig
      in \<lparr>cm_protocolVersion = 1,
          cm_messageId = messageId,
          cm_sequenceNumber = 1,
          cm_handoffId = handoffId,
          cm_routeId = sourceInstanceId @ ''->'' @ destInstanceId,
          cm_requestId = messageId,
          cm_sourceWorkerInstanceId = sourceInstanceId,
          cm_destinationWorkerInstanceId = destInstanceId,
          cm_kind = kind,
          cm_payloadDigest = payloadDigest,
          cm_payload = payload,
          cm_sentAt = Iso now,
          cm_signature = signature\<rparr>)"

record ControlVerdict =
  ct_valid :: bool
  ct_reason :: "string option"

abbreviation control_invalid :: "string \<Rightarrow> ControlVerdict" where
  "control_invalid r \<equiv> \<lparr>ct_valid = False, ct_reason = Some r\<rparr>"

definition validateControlMessage ::
  "LocalKvControlMessage \<Rightarrow> string \<Rightarrow> string \<Rightarrow> string \<Rightarrow> ControlVerdict" where
  "validateControlMessage msg expectedHandoffId expectedSource expectedDest =
     (if cm_handoffId msg \<noteq> expectedHandoffId then
        control_invalid (''Handoff ID mismatch: '' @ cm_handoffId msg @ '' !== '' @ expectedHandoffId)
      else if cm_sourceWorkerInstanceId msg \<noteq> expectedSource then
        control_invalid (''Source instance mismatch: '' @ cm_sourceWorkerInstanceId msg @
          '' !== '' @ expectedSource)
      else if cm_destinationWorkerInstanceId msg \<noteq> expectedDest then
        control_invalid (''Destination instance mismatch: '' @ cm_destinationWorkerInstanceId msg @
          '' !== '' @ expectedDest)
      else if \<not> truthy (cm_messageId msg) then control_invalid ''Missing messageId''
      else if \<not> ts_truthy (cm_sentAt msg) then control_invalid ''Missing sentAt timestamp''
      else if \<not> truthy (cm_signature msg) then control_invalid ''Missing signature''
      else \<lparr>ct_valid = True, ct_reason = None\<rparr>)"

definition isSequential :: "int \<Rightarrow> int \<Rightarrow> bool" where
  "isSequential currentSeq lastSeq \<longleftrightarrow> currentSeq = lastSeq + 1"

definition getExpectedControlFlow :: "LocalKvControlMessageKind \<Rightarrow> string list" where
  "getExpectedControlFlow kind = (case kind of
     CK_handshake \<Rightarrow> [''handshake'', ''handshake_accept'']
   | CK_handshake_accept \<Rightarrow> [''handshake_accept'']
   | CK_handoff_offer \<Rightarrow> [''handoff_offer'', ''handoff_accept'', ''handoff_reject'']
   | CK_handoff_accept \<Rightarrow> [''handoff_accept'']
   | CK_handoff_reject \<Rightarrow> [''handoff_reject'']
   | CK_export_ready \<Rightarrow> [''export_ready'', ''segment_descriptor'']
   | CK_segment_descriptor \<Rightarrow> [''segment_descriptor'']
   | CK_import_started \<Rightarrow> [''import_started'', ''import_verified'']
   | CK_import_verified \<Rightarrow> [''import_verified'', ''import_activated'']
   | CK_import_activated \<Rightarrow> [''import_activated'', ''import_acknowledged'']
   | CK_import_acknowledged \<Rightarrow> [''import_acknowledged'']
   | CK_commit \<Rightarrow> [''commit'']
   | CK_rollback \<Rightarrow> [''rollback'']
   | CK_cancel \<Rightarrow> [''cancel'']
   | CK_source_disposition_request \<Rightarrow>
       [''source_disposition_request'', ''source_disposition_complete'']
   | CK_source_disposition_complete \<Rightarrow> [''source_disposition_complete'']
   | CK_heartbeat \<Rightarrow> [''heartbeat'']
   | CK_error \<Rightarrow> [''error''])"

section \<open>Policy\<close>

record DharmaLocalTransportPolicy =
  lp_allowSimulatedHandoff :: bool
  lp_allowLocalHostRealTransport :: bool
  lp_allowFutureNetworkTransport :: bool
  lp_allowedTransportBackends :: "string list"
  lp_maximumHandoffBytes :: int
  lp_maximumHandoffDurationMs :: int
  lp_maximumConcurrentHandoffs :: int
  lp_requireSameHostAuthorityDomain :: bool
  lp_requireStrictRepresentationCompatibility :: bool
  lp_requireDestinationSignature :: bool
  lp_requireSourceCleanupReceipt :: bool

definition createDefaultLocalTransportPolicy :: DharmaLocalTransportPolicy where
  "createDefaultLocalTransportPolicy =
     \<lparr>lp_allowSimulatedHandoff = True,
      lp_allowLocalHostRealTransport = False,
      lp_allowFutureNetworkTransport = False,
      lp_allowedTransportBackends = [],
      lp_maximumHandoffBytes = 0,
      lp_maximumHandoffDurationMs = 0,
      lp_maximumConcurrentHandoffs = 0,
      lp_requireSameHostAuthorityDomain = True,
      lp_requireStrictRepresentationCompatibility = True,
      lp_requireDestinationSignature = True,
      lp_requireSourceCleanupReceipt = True\<rparr>"

definition createPermissiveLocalTransportPolicy :: DharmaLocalTransportPolicy where
  "createPermissiveLocalTransportPolicy =
     \<lparr>lp_allowSimulatedHandoff = True,
      lp_allowLocalHostRealTransport = True,
      lp_allowFutureNetworkTransport = False,
      lp_allowedTransportBackends = [''linux_unix_socket_shared_memory''],
      lp_maximumHandoffBytes = 512 * 1024 * 1024,
      lp_maximumHandoffDurationMs = 60000,
      lp_maximumConcurrentHandoffs = 8,
      lp_requireSameHostAuthorityDomain = True,
      lp_requireStrictRepresentationCompatibility = True,
      lp_requireDestinationSignature = True,
      lp_requireSourceCleanupReceipt = True\<rparr>"

definition isRealTransportPermitted :: "DharmaLocalTransportPolicy \<Rightarrow> bool" where
  "isRealTransportPermitted policy \<longleftrightarrow>
     lp_allowLocalHostRealTransport policy \<and> length (lp_allowedTransportBackends policy) > 0"

record PolicyVerdict =
  py_allowed :: bool
  py_reason :: "string option"

definition isHandoffWithinPolicy ::
  "DharmaLocalTransportPolicy \<Rightarrow> int \<Rightarrow> int \<Rightarrow> int \<Rightarrow> PolicyVerdict" where
  "isHandoffWithinPolicy policy bytes durationMs concurrent =
     (if bytes > lp_maximumHandoffBytes policy then
        \<lparr>py_allowed = False, py_reason = Some (''handoff bytes ('' @ show_int bytes @
           '') exceed policy maximum ('' @ show_int (lp_maximumHandoffBytes policy) @ '')'')\<rparr>
      else if durationMs > lp_maximumHandoffDurationMs policy then
        \<lparr>py_allowed = False, py_reason = Some (''handoff duration ('' @ show_int durationMs @
           ''ms) exceeds policy maximum ('' @ show_int (lp_maximumHandoffDurationMs policy) @ ''ms)'')\<rparr>
      else if concurrent > lp_maximumConcurrentHandoffs policy then
        \<lparr>py_allowed = False, py_reason = Some (''concurrent handoffs ('' @ show_int concurrent @
           '') exceed policy maximum ('' @ show_int (lp_maximumConcurrentHandoffs policy) @ '')'')\<rparr>
      else \<lparr>py_allowed = True, py_reason = None\<rparr>)"

section \<open>Cancellation and timeouts\<close>

datatype LocalTransportCancellationStage =
    CS_pre_handshake | CS_handshake | CS_handoff_offer | CS_export_ready | CS_segment_descriptor
  | CS_import_started | CS_import_verified | CS_import_activated | CS_import_acknowledged
  | CS_post_commit | CS_source_cleanup

record TransportCancellationEffect =
  tc_releaseSegment :: bool
  tc_invalidateDest :: bool
  tc_retainSource :: bool
  tc_needsRollback :: bool

definition cancellation_effect :: "bool \<Rightarrow> bool \<Rightarrow> bool \<Rightarrow> bool \<Rightarrow> TransportCancellationEffect" where
  "cancellation_effect rel ivd ret roll =
     \<lparr>tc_releaseSegment = rel, tc_invalidateDest = ivd, tc_retainSource = ret,
      tc_needsRollback = roll\<rparr>"

definition getTransportCancellationEffect ::
  "LocalTransportCancellationStage \<Rightarrow> TransportCancellationEffect" where
  "getTransportCancellationEffect stage = (case stage of
     CS_pre_handshake \<Rightarrow> cancellation_effect False False True False
   | CS_handshake \<Rightarrow> cancellation_effect False False True False
   | CS_handoff_offer \<Rightarrow> cancellation_effect False False True False
   | CS_export_ready \<Rightarrow> cancellation_effect True False True True
   | CS_segment_descriptor \<Rightarrow> cancellation_effect True True True True
   | CS_import_started \<Rightarrow> cancellation_effect True True False True
   | CS_import_verified \<Rightarrow> cancellation_effect True True False True
   | CS_import_activated \<Rightarrow> cancellation_effect True True False True
   | CS_import_acknowledged \<Rightarrow> cancellation_effect False False False False
   | CS_post_commit \<Rightarrow> cancellation_effect False False False False
   | CS_source_cleanup \<Rightarrow> cancellation_effect False False False False)"

definition classifyCancelState :: "LocalTransportCancellationStage \<Rightarrow> string" where
  "classifyCancelState stage = (case stage of
     CS_pre_handshake \<Rightarrow> ''harmless''
   | CS_handshake \<Rightarrow> ''harmless''
   | CS_handoff_offer \<Rightarrow> ''harmless''
   | CS_export_ready \<Rightarrow> ''mid_handoff''
   | CS_segment_descriptor \<Rightarrow> ''mid_handoff''
   | CS_import_started \<Rightarrow> ''deep_import''
   | CS_import_verified \<Rightarrow> ''deep_import''
   | CS_import_activated \<Rightarrow> ''deep_import''
   | CS_import_acknowledged \<Rightarrow> ''late''
   | CS_post_commit \<Rightarrow> ''late''
   | CS_source_cleanup \<Rightarrow> ''late'')"

definition isTimeoutElapsed :: "millis \<Rightarrow> timestamp \<Rightarrow> int \<Rightarrow> bool" where
  "isTimeoutElapsed now startedAt timeoutMs =
     (case date_value startedAt of None \<Rightarrow> True | Some start \<Rightarrow> now - start \<ge> timeoutMs)"

definition getTimeoutDeadline :: "timestamp \<Rightarrow> int \<Rightarrow> timestamp" where
  "getTimeoutDeadline startedAt timeoutMs =
     (case date_value startedAt of None \<Rightarrow> startedAt | Some start \<Rightarrow> Iso (start + timeoutMs))"

datatype TransportTimeoutClass =
    serialization_timeout | descriptor_delivery_timeout | destination_map_timeout
  | integrity_validation_timeout | deserialization_timeout
  | acknowledgement_timeout | source_cleanup_timeout | transport_session_timeout

definition classifyTimeout :: "TransportTimeoutClass \<Rightarrow> string" where
  "classifyTimeout cls = (case cls of
     serialization_timeout \<Rightarrow> ''source serialization did not complete within the budget''
   | descriptor_delivery_timeout \<Rightarrow>
       ''segment descriptor was not delivered to the destination within the budget''
   | destination_map_timeout \<Rightarrow>
       ''destination did not map the shared-memory segment within the budget''
   | integrity_validation_timeout \<Rightarrow>
       ''integrity validation on the destination side did not complete within the budget''
   | deserialization_timeout \<Rightarrow>
       ''destination deserialisation did not complete within the budget''
   | acknowledgement_timeout \<Rightarrow>
       ''destination did not acknowledge the import within the budget''
   | source_cleanup_timeout \<Rightarrow> ''source-side cleanup did not complete within the budget''
   | transport_session_timeout \<Rightarrow>
       ''the overall transport session exceeded its time budget'')"

section \<open>Deployment defaults\<close>

record LocalTransportDeploymentConfig =
  lc_enabled :: bool
  lc_backend :: LocalTransportBackendKind
  lc_socketDirectory :: string
  lc_maxSegmentBytes :: int
  lc_maxConcurrentSegments :: int
  lc_segmentTtlMs :: int
  lc_handshakeTtlMs :: int
  lc_requireSameHost :: bool
  lc_requireStrictCompatibility :: bool

definition createDefaultLinuxDeploymentConfig :: "string \<Rightarrow> LocalTransportDeploymentConfig" where
  "createDefaultLinuxDeploymentConfig socketDir =
     \<lparr>lc_enabled = True,
      lc_backend = linux_unix_socket_shared_memory,
      lc_socketDirectory = socketDir,
      lc_maxSegmentBytes = 256 * 1024 * 1024,
      lc_maxConcurrentSegments = 16,
      lc_segmentTtlMs = 120000,
      lc_handshakeTtlMs = 10000,
      lc_requireSameHost = True,
      lc_requireStrictCompatibility = True\<rparr>"

section \<open>Properties\<close>

text \<open>
  An acceptance made for a handshake verifies against it exactly when the accepting side has
  the worker identifier, instance, host and capability digest of the initiating side itself; two
  different workers never complete a handshake, and a nonce echoed from another handshake is
  rejected as replayed.
\<close>

theorem handshake_only_with_itself:
  "(hv_valid (verifyHandshake (createHandshake t n w i h c k)
        (createHandshakeAcceptance t' n' (createHandshake t n w i h c k) w' i' h' c' k')) \<longleftrightarrow>
      w' = w \<and> i' = i \<and> h' = h \<and> c' = c) \<and>
   (n2 \<noteq> n \<longrightarrow> hv_rejection (verifyHandshake (createHandshake t n w i h c k)
        (createHandshakeAcceptance t' n' (createHandshake t2 n2 w i h c k) w' i' h' c' k')) =
      Some replayed_nonce)"
  by (auto simp: verifyHandshake_def createHandshake_def createHandshakeAcceptance_def
      computeSignature_def)

theorem handshake_only_with_itself_witness:
  "hv_rejection (verifyHandshake (createHandshake 0 ''n1'' ''w'' ''i'' ''h'' ''c'' ''k'')
      (createHandshakeAcceptance 1 ''n3'' (createHandshake 0 ''n2'' ''w'' ''i'' ''h'' ''c'' ''k'')
         ''w'' ''i'' ''h'' ''c'' ''k'')) = Some replayed_nonce"
  by (rule handshake_only_with_itself [THEN conjunct2, THEN mp]) simp

text \<open>
  A control message validates for the handoff and the two instances it was created for, as long
  as it has an identifier; its sequence number is always 1, so no created message is ever
  sequential to another one.
\<close>

theorem control_messages_never_sequential:
  "(ct_valid (validateControlMessage (createControlMessage t m h kind p src dst) h' src' dst') \<longleftrightarrow>
      h' = h \<and> src' = src \<and> dst' = dst \<and> m \<noteq> []) \<and>
   \<not> isSequential (cm_sequenceNumber (createControlMessage t m h kind p src dst))
       (cm_sequenceNumber (createControlMessage t2 m2 h2 kind2 p2 src2 dst2))"
  by (auto simp: validateControlMessage_def createControlMessage_def isSequential_def
      computeControlSignature_def Let_def)

text \<open>
  A backend is selected exactly when the capabilities are compatible and the lease allows real
  transport, and it is then the common backend; two Linux capabilities are always compatible, and
  no capability is compatible with the unsupported macOS one.
\<close>

theorem backend_selection_exact:
  "(bs_backend (selectTransportBackend a b lease) =
      (if areCapabilitiesCompatible a b \<and> lease
       then Some (LocalTransportBackendKind_str (cp_backendKind b)) else None)) \<and>
   (bs_reason (selectTransportBackend a b lease) = None \<longleftrightarrow>
      areCapabilitiesCompatible a b \<and> lease) \<and>
   areCapabilitiesCompatible (createLinuxCapability m s r) createLinuxTransportCapability \<and>
   \<not> areCapabilitiesCompatible a createMacOSUnsupportedCapability"
  by (simp add: selectTransportBackend_def areCapabilitiesCompatible_def createLinuxCapability_def
      createLinuxTransportCapability_def createMacOSUnsupportedCapability_def)

text \<open>
  A handoff is within the policy exactly when its bytes, duration and concurrency are at most
  the three maxima, so a smaller handoff is allowed whenever a larger one is; the default policy
  permits no real transport and no handoff with a positive size.
\<close>

theorem policy_budget_monotone:
  "(py_allowed (isHandoffWithinPolicy p b d c) \<longleftrightarrow>
      b \<le> lp_maximumHandoffBytes p \<and> d \<le> lp_maximumHandoffDurationMs p \<and>
      c \<le> lp_maximumConcurrentHandoffs p) \<and>
   (py_allowed (isHandoffWithinPolicy p b d c) \<and> b' \<le> b \<and> d' \<le> d \<and> c' \<le> c \<longrightarrow>
      py_allowed (isHandoffWithinPolicy p b' d' c')) \<and>
   \<not> isRealTransportPermitted createDefaultLocalTransportPolicy \<and>
   (b > 0 \<longrightarrow> \<not> py_allowed (isHandoffWithinPolicy createDefaultLocalTransportPolicy b d c))"
  by (auto simp: isHandoffWithinPolicy_def isRealTransportPermitted_def
      createDefaultLocalTransportPolicy_def)

theorem policy_budget_monotone_witness:
  "py_allowed (isHandoffWithinPolicy createPermissiveLocalTransportPolicy 4096 100 1)"
proof -
  have "py_allowed (isHandoffWithinPolicy createPermissiveLocalTransportPolicy 8192 200 8)"
    by (simp add: isHandoffWithinPolicy_def createPermissiveLocalTransportPolicy_def)
  then show ?thesis
    using policy_budget_monotone [of createPermissiveLocalTransportPolicy 8192 200 8 4096 100 1]
    by simp
qed

text \<open>
  The effects of a cancellation fit its class: the segment is released and a rollback needed
  exactly in the classes \<open>mid_handoff\<close> and \<open>deep_import\<close>, the destination is invalidated only where
  the segment is released, and the source gives up its copy exactly from the start of the import.
\<close>

theorem cancellation_effects_by_class:
  "(tc_needsRollback (getTransportCancellationEffect s) \<longleftrightarrow>
      classifyCancelState s \<in> {''mid_handoff'', ''deep_import''}) \<and>
   (tc_releaseSegment (getTransportCancellationEffect s) \<longleftrightarrow>
      tc_needsRollback (getTransportCancellationEffect s)) \<and>
   (tc_invalidateDest (getTransportCancellationEffect s) \<longleftrightarrow>
      tc_releaseSegment (getTransportCancellationEffect s) \<and> s \<noteq> CS_export_ready) \<and>
   (tc_retainSource (getTransportCancellationEffect s) \<longleftrightarrow>
      classifyCancelState s \<in> {''harmless'', ''mid_handoff''})"
  by (cases s) (simp_all add: getTransportCancellationEffect_def cancellation_effect_def
      classifyCancelState_def)

text \<open>
  A timeout has elapsed exactly when the computed deadline has been reached, and a start that
  cannot be parsed counts as elapsed although its deadline never is.
\<close>

theorem timeout_deadline_agree:
  "isTimeoutElapsed now (Iso s) ms = date_le_now (getTimeoutDeadline (Iso s) ms) now \<and>
   isTimeoutElapsed now (Unparsed x) ms \<and> \<not> date_le_now (getTimeoutDeadline (Unparsed x) ms) now"
  by (auto simp: isTimeoutElapsed_def getTimeoutDeadline_def)

end
