(* ===== verification/Js_Map.thy ===== *)
theory Js_Map imports Prelude begin

text \<open>
  JavaScript's \<open>Map\<close>: a dictionary that remembers the order in which its keys were first inserted.
  The state is the list of its entries; \<open>set\<close> on a key that is present changes the value in place.
  \<open>keyed_store\<close> states what the stores of the serving layer (worker registry, request store, model
  registry, device registry) promise to their clients.
\<close>

section \<open>The operations of \<open>Map\<close>\<close>

fun map_set :: "'k \<Rightarrow> 'v \<Rightarrow> ('k \<times> 'v) list \<Rightarrow> ('k \<times> 'v) list" where
  "map_set k v [] = [(k, v)]"
| "map_set k v (e # es) = (if fst e = k then (k, v) # es else e # map_set k v es)"

definition map_get :: "('k \<times> 'v) list \<Rightarrow> 'k \<Rightarrow> 'v option" where
  "map_get m k = map_of m k"

definition map_delete :: "'k \<Rightarrow> ('k \<times> 'v) list \<Rightarrow> ('k \<times> 'v) list" where
  "map_delete k m = List.filter (\<lambda>e. fst e \<noteq> k) m"

definition map_values :: "('k \<times> 'v) list \<Rightarrow> 'v list" where
  "map_values m = List.map snd m"

abbreviation map_inv :: "('k \<times> 'v) list \<Rightarrow> bool" where
  "map_inv m \<equiv> distinct (List.map fst m)"

lemma keys_map_set: "fst ` set (map_set k v m) = insert k (fst ` set m)"
  by (induction m) auto

lemma map_inv_set [simp]: "map_inv m \<Longrightarrow> map_inv (map_set k v m)"
proof (induction m)
  case (Cons e es)
  then show ?case using keys_map_set [of k v es] by auto
qed simp

lemma map_get_set [simp]: "map_get (map_set k v m) k' = (if k' = k then Some v else map_get m k')"
  by (induction m) (auto simp: map_get_def)

lemma map_inv_delete [simp]: "map_inv m \<Longrightarrow> map_inv (map_delete k m)"
  by (induction m) (auto simp: map_delete_def)

lemma map_get_delete [simp]: "map_get (map_delete k m) k' = (if k' = k then None else map_get m k')"
  by (induction m) (auto simp: map_get_def map_delete_def)

lemma map_get_Nil [simp]: "map_get [] k = None"
  by (simp add: map_get_def)

lemma map_get_iff: "map_inv m \<Longrightarrow> map_get m k = Some v \<longleftrightarrow> (k, v) \<in> set m"
  by (simp add: map_get_def)

lemma map_values_iff: "map_inv m \<Longrightarrow> v \<in> set (map_values m) \<longleftrightarrow> (\<exists>k. map_get m k = Some v)"
  by (force simp: map_values_def map_get_iff)

text \<open>The number of entries grows by one exactly when the key is new.\<close>

lemma map_set_unknown: "k \<notin> fst ` set m \<Longrightarrow> map_set k v m = m @ [(k, v)]"
  by (induction m) auto

lemma map_set_keys: "k \<in> fst ` set m \<Longrightarrow> List.map fst (map_set k v m) = List.map fst m"
  by (induction m) auto

lemma length_map_set:
  "length (map_set k v m) = (if k \<in> fst ` set m then length m else Suc (length m))"
  using map_set_keys [of k m v] map_set_unknown [of k m v] by (metis length_append_singleton length_map)

section \<open>Keyed stores\<close>

locale keyed_store =
  fixes empty_store :: 's
    and lookup :: "'s \<Rightarrow> 'k \<Rightarrow> 'v option"
    and put :: "'k \<Rightarrow> 'v \<Rightarrow> 's \<Rightarrow> 's"
    and remove :: "'k \<Rightarrow> 's \<Rightarrow> 's"
    and inv :: "'s \<Rightarrow> bool"
  assumes empty_inv: "inv empty_store"
    and empty_lookup: "lookup empty_store k = None"
    and put_inv: "inv s \<Longrightarrow> inv (put k v s)"
    and put_lookup: "inv s \<Longrightarrow> lookup (put k v s) k' = (if k' = k then Some v else lookup s k')"
    and remove_inv: "inv s \<Longrightarrow> inv (remove k s)"
    and remove_lookup: "inv s \<Longrightarrow> lookup (remove k s) k' = (if k' = k then None else lookup s k')"
begin

text \<open>Storing a sequence of values, each under its own key.\<close>

fun put_all :: "('v \<Rightarrow> 'k) \<Rightarrow> 'v list \<Rightarrow> 's \<Rightarrow> 's" where
  "put_all key [] s = s"
| "put_all key (v # vs) s = put_all key vs (put (key v) v s)"

lemma put_all_inv: "inv s \<Longrightarrow> inv (put_all key vs s)"
  by (induction vs arbitrary: s) (simp_all add: put_inv)

text \<open>The last value stored under a key wins.\<close>

lemma put_all_lookup:
  "inv s \<Longrightarrow> lookup (put_all key vs s) k =
     (case List.find (\<lambda>v. key v = k) (rev vs) of Some v \<Rightarrow> Some v | None \<Rightarrow> lookup s k)"
proof (induction vs arbitrary: s)
  case (Cons v vs)
  have "List.find (\<lambda>v. key v = k) (xs @ [v]) =
      (case List.find (\<lambda>v. key v = k) xs of Some w \<Rightarrow> Some w
       | None \<Rightarrow> if key v = k then Some v else None)" for xs
    by (induction xs) auto
  with Cons show ?case by (auto simp: put_inv put_lookup split: option.splits)
qed simp

text \<open>Stores that return what was put are determined by their lookups.\<close>

lemma update_commutes:
  assumes "inv s" and "k \<noteq> k'"
  shows "lookup (put k v (put k' v' s)) = lookup (put k' v' (put k v s))"
  using assms by (auto simp: put_inv put_lookup fun_eq_iff)

lemma remove_put: "inv s \<Longrightarrow> lookup s k = None \<Longrightarrow> lookup (remove k (put k v s)) = lookup s"
  by (auto simp: put_inv put_lookup remove_lookup fun_eq_iff)

end

interpretation js_map: keyed_store "[]" map_get map_set map_delete map_inv
  by unfold_locales simp_all

section \<open>Maps of arrays\<close>

text \<open>\<open>map.set(k, [...(map.get(k) ?? []), x])\<close>.\<close>

definition push_at :: "string \<Rightarrow> 'a \<Rightarrow> (string \<times> 'a list) list \<Rightarrow> (string \<times> 'a list) list" where
  "push_at k x m = map_set k (nullish (map_get m k) [] @ [x]) m"

text \<open>
  Loops of the services over the arrays of a map.  \<open>update_first_in\<close> replaces the first element with
  the given identifier in the first array that has one, and stops; \<open>update_each\<close> does so in every array.
\<close>

fun update_first :: "('a \<Rightarrow> bool) \<Rightarrow> ('a \<Rightarrow> 'a) \<Rightarrow> 'a list \<Rightarrow> 'a list" where
  "update_first p f [] = []"
| "update_first p f (x # xs) = (if p x then f x # xs else x # update_first p f xs)"

fun update_first_in :: "('a \<Rightarrow> bool) \<Rightarrow> ('a \<Rightarrow> 'a) \<Rightarrow> (string \<times> 'a list) list \<Rightarrow> (string \<times> 'a list) list" where
  "update_first_in p f [] = []"
| "update_first_in p f ((k, xs) # es) =
     (if (\<exists>x\<in>set xs. p x) then (k, update_first p f xs) # es else (k, xs) # update_first_in p f es)"

definition update_each :: "('a \<Rightarrow> bool) \<Rightarrow> ('a \<Rightarrow> 'a) \<Rightarrow> (string \<times> 'a list) list \<Rightarrow> (string \<times> 'a list) list" where
  "update_each p f m = List.map (\<lambda>(k, xs). (k, update_first p f xs)) m"

fun find_in :: "('a \<Rightarrow> bool) \<Rightarrow> (string \<times> 'a list) list \<Rightarrow> 'a option" where
  "find_in p [] = None"
| "find_in p ((k, xs) # es) = (case List.find p xs of Some x \<Rightarrow> Some x | None \<Rightarrow> find_in p es)"

text \<open>Properties of the elements of all lists of a map, and how pushing keeps them.\<close>

lemma find_SomeD: "List.find P xs = Some x \<Longrightarrow> P x \<and> x \<in> set xs"
  by (induction xs) (auto split: if_splits)

definition all_lists :: "('a \<Rightarrow> bool) \<Rightarrow> (string \<times> 'a list) list \<Rightarrow> bool" where
  "all_lists P m \<longleftrightarrow> (\<forall>(k, xs)\<in>set m. \<forall>x\<in>set xs. P x)"

lemma set_map_set: "set (map_set k v m) \<subseteq> insert (k, v) (set m)"
  by (induction m) auto

lemma all_lists_nullish: "all_lists P m \<Longrightarrow> x \<in> set (nullish (map_get m k) []) \<Longrightarrow> P x"
  by (cases "map_get m k") (auto simp: all_lists_def map_get_def dest!: map_of_SomeD)

lemma all_lists_set: "all_lists P m \<Longrightarrow> \<forall>x\<in>set xs. P x \<Longrightarrow> all_lists P (map_set k xs m)"
  using set_map_set [of k xs m] by (fastforce simp: all_lists_def)

lemma all_lists_push: "all_lists P m \<Longrightarrow> P x \<Longrightarrow> all_lists P (push_at k x m)"
  unfolding push_at_def by (rule all_lists_set) (auto dest: all_lists_nullish)

lemma all_lists_empty [simp]: "all_lists P []"
  by (simp add: all_lists_def)

lemma set_update_first: "set (update_first p f xs) \<subseteq> set xs \<union> f ` {x \<in> set xs. p x}"
  by (induction xs) auto

lemma all_lists_update:
  "all_lists P m \<Longrightarrow> (\<And>x. P x \<Longrightarrow> p x \<Longrightarrow> P (f x)) \<Longrightarrow> all_lists P (update_first_in p f m)"
proof (induction p f m rule: update_first_in.induct)
  case (2 p f k xs es)
  then have xs: "\<forall>x\<in>set xs. P x" and es: "all_lists P es" by (auto simp: all_lists_def)
  have "\<forall>x\<in>set (update_first p f xs). P x" using set_update_first [of p f xs] xs 2(3) by fastforce
  moreover have "all_lists P (update_first_in p f es)" if "\<not> (\<exists>x\<in>set xs. p x)"
    using 2(1) [OF that es 2(3)] .
  ultimately show ?case using xs es by (auto simp: all_lists_def)
qed simp

lemma find_in_SomeD: "find_in p m = Some x \<Longrightarrow> p x \<and> (\<exists>(k, xs)\<in>set m. x \<in> set xs)"
proof (induction p m rule: find_in.induct)
  case (2 p k xs es)
  then show ?case by (cases "List.find p xs") (auto dest!: find_SomeD)
qed simp

lemma all_lists_find: "all_lists P m \<Longrightarrow> find_in p m = Some x \<Longrightarrow> P x"
  by (auto simp: all_lists_def dest!: find_in_SomeD)

lemma all_lists_each: "all_lists P m \<Longrightarrow> (\<And>x. P x \<Longrightarrow> p x \<Longrightarrow> P (f x)) \<Longrightarrow> all_lists P (update_each p f m)"
  using set_update_first [of p f] by (fastforce simp: all_lists_def update_each_def)

end
