(* ===== verification/Router_Registry.thy ===== *)
theory Router_Registry imports Js_Map begin

text \<open>
  The workers a multi-worker router knows: their state and compatibility envelopes
  (\<open>multi_worker/router-types.ts\<close>, \<open>worker-compatibility.ts\<close>), discovery
  (\<open>worker-discovery.ts\<close>), the registry (\<open>worker-registry.ts\<close>), the drain manager
  (\<open>worker-drain-manager.ts\<close>), the candidate filter (\<open>candidate-filter.ts\<close>) and the lease checks
  (\<open>dharma-route-correlation.ts\<close>).
\<close>

section \<open>Workers\<close>

record PrismWorkerCompatibilityEnvelope =
  we_workerId :: string
  we_workerInstanceId :: string
  we_modelArtifactDigest :: string
  we_tokenizerDigest :: string
  we_modelFamily :: string
  we_workloadClasses :: "string list"
  we_targetCapabilitySignature :: string
  we_computeImageDigest :: string
  we_precisionMode :: string
  we_maximumContextLength :: int
  we_maximumOutputTokens :: int
  we_maximumConcurrentRequests :: int
  we_kvEventVersion :: int
  we_kvLocalityMode :: string
  we_supportsStreaming :: bool
  we_supportsCancellation :: bool
  we_supportsDrain :: bool
  we_supportsDharmaCorrelation :: bool
  we_lifecycleState :: string

record RouterWorkerState =
  rw_workerId :: string
  rw_instanceId :: string
  rw_compatibility :: "PrismWorkerCompatibilityEnvelope option"
  rw_healthy :: bool
  rw_ready :: bool
  rw_draining :: bool
  rw_activeRequests :: int
  rw_maxConcurrentRequests :: int
  rw_lastHealthCheck :: "timestamp option"
  rw_lastError :: "string option"
  rw_lastKvEventSequence :: int
  rw_kvEventFreshness :: "string option"

definition createCompatibilityEnvelope ::
  "string \<Rightarrow> string \<Rightarrow> string \<Rightarrow> string \<Rightarrow> string \<Rightarrow> PrismWorkerCompatibilityEnvelope" where
  "createCompatibilityEnvelope workerId instanceId modelDigest tokenizerDigest targetSig =
     \<lparr>we_workerId = workerId,
      we_workerInstanceId = instanceId,
      we_modelArtifactDigest = modelDigest,
      we_tokenizerDigest = tokenizerDigest,
      we_modelFamily = hd (split_on (CHR ''/'') targetSig),
      we_workloadClasses = [''chat_completion'', ''completion''],
      we_targetCapabilitySignature = targetSig,
      we_computeImageDigest = [],
      we_precisionMode = ''fp16'',
      we_maximumContextLength = 8192,
      we_maximumOutputTokens = 2048,
      we_maximumConcurrentRequests = 4,
      we_kvEventVersion = 1,
      we_kvLocalityMode = ''device_local'',
      we_supportsStreaming = True,
      we_supportsCancellation = True,
      we_supportsDrain = True,
      we_supportsDharmaCorrelation = False,
      we_lifecycleState = ''ready''\<rparr>"

definition isArtifactParityCompatible :: "PrismWorkerCompatibilityEnvelope \<Rightarrow> string \<Rightarrow> bool" where
  "isArtifactParityCompatible env requiredDigest \<longleftrightarrow> we_modelArtifactDigest env = requiredDigest"

definition isWorkloadSupported :: "PrismWorkerCompatibilityEnvelope \<Rightarrow> string \<Rightarrow> bool" where
  "isWorkloadSupported env workloadClass \<longleftrightarrow> workloadClass \<in> set (we_workloadClasses env)"

definition isStreamingSupported :: "PrismWorkerCompatibilityEnvelope \<Rightarrow> bool \<Rightarrow> bool" where
  "isStreamingSupported env required \<longleftrightarrow> \<not> required \<or> we_supportsStreaming env"

definition isContextBudgetSufficient :: "PrismWorkerCompatibilityEnvelope \<Rightarrow> int \<Rightarrow> bool" where
  "isContextBudgetSufficient env requiredTokens \<longleftrightarrow> we_maximumContextLength env \<ge> requiredTokens"

definition isDharmaCorrelationSupported :: "PrismWorkerCompatibilityEnvelope \<Rightarrow> bool" where
  "isDharmaCorrelationSupported env = we_supportsDharmaCorrelation env"

definition show_bool :: "bool \<Rightarrow> string" where
  "show_bool b = (if b then ''true'' else ''false'')"

definition getCompatibilitySummary :: "PrismWorkerCompatibilityEnvelope \<Rightarrow> string" where
  "getCompatibilitySummary env =
     js_join '' '' [''worker='' @ we_workerId env, ''model='' @ we_modelFamily env,
       ''artifact='' @ take 12 (we_modelArtifactDigest env),
       ''ctx='' @ show_int (we_maximumContextLength env),
       ''stream='' @ show_bool (we_supportsStreaming env),
       ''dharma='' @ show_bool (we_supportsDharmaCorrelation env)]"

section \<open>Discovery\<close>

definition discoverWorker ::
  "string \<Rightarrow> string \<Rightarrow> PrismWorkerCompatibilityEnvelope \<Rightarrow> RouterWorkerState result" where
  "discoverWorker workerId instanceId env =
     (if workerId \<noteq> we_workerId env then
        Inl (''Worker ID mismatch: envelope has '' @ quoted (we_workerId env) @
             '' but discovery call used '' @ quoted workerId)
      else Inr
        \<lparr>rw_workerId = workerId,
         rw_instanceId = instanceId,
         rw_compatibility = Some env,
         rw_healthy = True,
         rw_ready = True,
         rw_draining = False,
         rw_activeRequests = 0,
         rw_maxConcurrentRequests = we_maximumConcurrentRequests env,
         rw_lastHealthCheck = None,
         rw_lastError = None,
         rw_lastKvEventSequence = 0,
         rw_kvEventFreshness = None\<rparr>)"

definition discovery_removeWorker ::
  "RouterWorkerState list \<Rightarrow> string \<Rightarrow> RouterWorkerState list" where
  "discovery_removeWorker workers workerId = List.filter (\<lambda>w. rw_workerId w \<noteq> workerId) workers"

definition reconcileWorkerState ::
  "millis \<Rightarrow> RouterWorkerState \<Rightarrow> bool \<Rightarrow> bool \<Rightarrow> int \<Rightarrow> RouterWorkerState" where
  "reconcileWorkerState now worker health ready inflight =
     worker\<lparr>rw_healthy := health,
            rw_ready := ready \<and> \<not> rw_draining worker,
            rw_activeRequests := inflight,
            rw_lastHealthCheck := Some (Iso now),
            rw_lastError := None\<rparr>"

section \<open>The registry\<close>

type_synonym registry = "(string \<times> RouterWorkerState) list"

definition registerWorker :: "RouterWorkerState \<Rightarrow> registry \<Rightarrow> registry" where
  "registerWorker state workers = map_set (rw_workerId state) state workers"

definition removeWorker :: "string \<Rightarrow> registry \<Rightarrow> registry" where
  "removeWorker workerId workers = map_delete workerId workers"

definition getWorker :: "registry \<Rightarrow> string \<Rightarrow> RouterWorkerState option" where
  "getWorker workers workerId = map_get workers workerId"

definition listWorkers :: "registry \<Rightarrow> RouterWorkerState list" where
  "listWorkers workers = map_values workers"

definition getEligibleWorkers :: "registry \<Rightarrow> RouterWorkerState list" where
  "getEligibleWorkers workers =
     List.filter (\<lambda>w. rw_healthy w \<and> \<not> rw_draining w \<and> rw_ready w) (listWorkers workers)"

definition getWorkersByArtifact :: "registry \<Rightarrow> string \<Rightarrow> RouterWorkerState list" where
  "getWorkersByArtifact workers artifactDigest =
     List.filter (\<lambda>w. case rw_compatibility w of
        None \<Rightarrow> False
      | Some env \<Rightarrow> we_modelArtifactDigest env = artifactDigest) (listWorkers workers)"

definition updateWorkerHealth :: "string \<Rightarrow> bool \<Rightarrow> registry \<Rightarrow> registry" where
  "updateWorkerHealth workerId healthy workers =
     (case map_get workers workerId of
        None \<Rightarrow> workers
      | Some existing \<Rightarrow> map_set workerId
          (existing\<lparr>rw_healthy := healthy,
                    rw_lastError := (if healthy then None else rw_lastError existing)\<rparr>) workers)"

text \<open>The partial update is the function that overwrites the fields it gives.\<close>

definition updateWorkerState ::
  "string \<Rightarrow> (RouterWorkerState \<Rightarrow> RouterWorkerState) \<Rightarrow> registry \<Rightarrow> registry" where
  "updateWorkerState workerId updates workers =
     (case map_get workers workerId of
        None \<Rightarrow> workers
      | Some existing \<Rightarrow> map_set workerId (updates existing) workers)"

definition getWorkerCount :: "registry \<Rightarrow> nat" where
  "getWorkerCount workers = length workers"

fun reconcile_loop :: "registry \<Rightarrow> RouterWorkerState list \<Rightarrow> registry" where
  "reconcile_loop nxt [] = nxt"
| "reconcile_loop nxt (w # ws) = reconcile_loop (map_set (rw_workerId w) w nxt) ws"

definition reconcileAll :: "RouterWorkerState list \<Rightarrow> registry \<Rightarrow> registry" where
  "reconcileAll workers old = reconcile_loop [] workers"

section \<open>Drain\<close>

fun requestDrain :: "string \<Rightarrow> RouterWorkerState list \<Rightarrow> RouterWorkerState list result" where
  "requestDrain workerId [] = Inr []"
| "requestDrain workerId (w # ws) =
     (if rw_workerId w \<noteq> workerId then
        (case requestDrain workerId ws of Inl e \<Rightarrow> Inl e | Inr ws' \<Rightarrow> Inr (w # ws'))
      else if rw_draining w then Inl (''Worker '' @ workerId @ '' is already draining'')
      else if \<not> rw_healthy w then
        Inl (''Worker '' @ workerId @ '' is unhealthy and cannot be drained gracefully'')
      else if \<not> rw_ready w then
        Inl (''Worker '' @ workerId @ '' is not ready and cannot be drained'')
      else (case requestDrain workerId ws of
              Inl e \<Rightarrow> Inl e
            | Inr ws' \<Rightarrow> Inr (w\<lparr>rw_draining := True\<rparr> # ws')))"

text \<open>
  The two other operations map over the workers, remember whether the worker was found and throw
  when it was not; \<open>drain_map\<close> is their common loop with the message and the update of each.
\<close>

fun drain_map ::
  "string \<Rightarrow> string \<Rightarrow> (RouterWorkerState \<Rightarrow> RouterWorkerState) \<Rightarrow> bool \<Rightarrow>
   RouterWorkerState list \<Rightarrow> (bool \<times> RouterWorkerState list) result" where
  "drain_map workerId msg upd found [] = Inr (found, [])"
| "drain_map workerId msg upd found (w # ws) =
     (if rw_workerId w \<noteq> workerId then
        (case drain_map workerId msg upd found ws of
           Inl e \<Rightarrow> Inl e | Inr (f, ws') \<Rightarrow> Inr (f, w # ws'))
      else if \<not> rw_draining w then Inl (''Worker '' @ workerId @ msg)
      else (case drain_map workerId msg upd True ws of
              Inl e \<Rightarrow> Inl e | Inr (f, ws') \<Rightarrow> Inr (f, upd w # ws')))"

definition completeDrain :: "string \<Rightarrow> RouterWorkerState list \<Rightarrow> RouterWorkerState list result" where
  "completeDrain workerId workers =
     (case drain_map workerId '' is not currently draining''
             (\<lambda>w. w\<lparr>rw_draining := False, rw_ready := False, rw_healthy := False\<rparr>) False workers of
        Inl e \<Rightarrow> Inl e
      | Inr (found, updated) \<Rightarrow>
          if \<not> found then Inl (''Worker '' @ workerId @ '' not found'') else Inr updated)"

definition resumeWorker :: "string \<Rightarrow> RouterWorkerState list \<Rightarrow> RouterWorkerState list result" where
  "resumeWorker workerId workers =
     (case drain_map workerId '' is not draining and cannot be resumed''
             (\<lambda>w. w\<lparr>rw_draining := False\<rparr>) False workers of
        Inl e \<Rightarrow> Inl e
      | Inr (found, updated) \<Rightarrow>
          if \<not> found then Inl (''Worker '' @ workerId @ '' not found'') else Inr updated)"

definition isWorkerDraining :: "RouterWorkerState \<Rightarrow> bool" where
  "isWorkerDraining worker = rw_draining worker"

definition getDrainingWorkers :: "RouterWorkerState list \<Rightarrow> RouterWorkerState list" where
  "getDrainingWorkers workers = List.filter rw_draining workers"

section \<open>The candidate filter\<close>

text \<open>Lease constraints only matter by being present; they are given by their JSON text.\<close>

record CandidateFilterConfig =
  fc_requiredArtifactDigest :: string
  fc_requiredWorkloadClass :: string
  fc_requiredStreaming :: bool
  fc_requiredTokens :: int
  fc_dharmaLeaseConstraints :: "string option"

definition checkWorkerHealth :: "RouterWorkerState \<Rightarrow> bool" where
  "checkWorkerHealth worker \<longleftrightarrow> rw_healthy worker \<and> rw_ready worker"

definition checkWorkerCapacity :: "RouterWorkerState \<Rightarrow> bool" where
  "checkWorkerCapacity worker \<longleftrightarrow> rw_activeRequests worker < rw_maxConcurrentRequests worker"

definition checkWorkerDrain :: "RouterWorkerState \<Rightarrow> bool" where
  "checkWorkerDrain worker \<longleftrightarrow> \<not> rw_draining worker"

definition eligible_worker ::
  "CandidateFilterConfig \<Rightarrow> (string \<rightharpoonup> PrismWorkerCompatibilityEnvelope) \<Rightarrow> RouterWorkerState \<Rightarrow> bool"
  where
  "eligible_worker config envelopes w =
     (if \<not> checkWorkerHealth w then False
      else if \<not> checkWorkerCapacity w then False
      else if \<not> checkWorkerDrain w then False
      else (case envelopes (rw_workerId w) of
              None \<Rightarrow> False
            | Some env \<Rightarrow>
                if we_modelArtifactDigest env \<noteq> fc_requiredArtifactDigest config then False
                else if fc_requiredWorkloadClass config \<notin> set (we_workloadClasses env) then False
                else if fc_requiredStreaming config \<and> \<not> we_supportsStreaming env then False
                else if fc_requiredTokens config > we_maximumOutputTokens env then False
                else if fc_dharmaLeaseConstraints config \<noteq> None \<and>
                        \<not> we_supportsDharmaCorrelation env then False
                else True))"

definition filterEligibleWorkers ::
  "RouterWorkerState list \<Rightarrow> CandidateFilterConfig \<Rightarrow>
   (string \<rightharpoonup> PrismWorkerCompatibilityEnvelope) \<Rightarrow> RouterWorkerState list" where
  "filterEligibleWorkers workers config envelopes =
     List.filter (eligible_worker config envelopes) workers"

section \<open>Leases\<close>

record LeaseConstraints =
  ls_artifactDigest :: string
  ls_maxTokens :: int
  ls_maxRuntime :: int

record LeaseVerdict =
  lv_compatible :: bool
  lv_reason :: "string option"

definition getLeaseConstrainedWorkers ::
  "string \<Rightarrow> RouterWorkerState list \<Rightarrow> (string \<rightharpoonup> PrismWorkerCompatibilityEnvelope) \<Rightarrow>
   RouterWorkerState list" where
  "getLeaseConstrainedWorkers leaseId workers envelopes =
     List.filter (\<lambda>w. case envelopes (rw_workerId w) of
        None \<Rightarrow> False
      | Some env \<Rightarrow> if \<not> we_supportsDharmaCorrelation env then False else True) workers"

definition isLeaseCompatible ::
  "PrismWorkerCompatibilityEnvelope \<Rightarrow> LeaseConstraints \<Rightarrow> LeaseVerdict" where
  "isLeaseCompatible env leaseConstraints =
     (if we_modelArtifactDigest env \<noteq> ls_artifactDigest leaseConstraints then
        \<lparr>lv_compatible = False, lv_reason = Some (''Artifact digest mismatch: env='' @
           we_modelArtifactDigest env @ '', lease='' @ ls_artifactDigest leaseConstraints)\<rparr>
      else if we_maximumOutputTokens env < ls_maxTokens leaseConstraints then
        \<lparr>lv_compatible = False, lv_reason = Some (''Insufficient max output tokens: env='' @
           show_int (we_maximumOutputTokens env) @ '', required='' @
           show_int (ls_maxTokens leaseConstraints))\<rparr>
      else if we_maximumContextLength env < ls_maxTokens leaseConstraints then
        \<lparr>lv_compatible = False, lv_reason = Some (''Insufficient context length: env='' @
           show_int (we_maximumContextLength env) @ '', required='' @
           show_int (ls_maxTokens leaseConstraints))\<rparr>
      else \<lparr>lv_compatible = True, lv_reason = None\<rparr>)"

section \<open>The registry refines a map\<close>

text \<open>Every entry of a registry stands under the identifier of its worker.\<close>

definition registry_inv :: "registry \<Rightarrow> bool" where
  "registry_inv m \<longleftrightarrow> map_inv m \<and> (\<forall>k w. map_get m k = Some w \<longrightarrow> rw_workerId w = k)"

lemma registry_inv_put:
  "registry_inv m \<Longrightarrow> rw_workerId w = k \<Longrightarrow> registry_inv (map_set k w m)"
  by (simp add: registry_inv_def)

lemma getWorker_known_id: "registry_inv m \<Longrightarrow> map_get m k = Some w \<Longrightarrow> rw_workerId w = k"
  by (simp add: registry_inv_def)

lemma reconcile_loop_put_all: "reconcile_loop m ws = js_map.put_all rw_workerId ws m"
  by (induction ws arbitrary: m) simp_all

lemma registry_inv_reconcile: "registry_inv m \<Longrightarrow> registry_inv (reconcile_loop m ws)"
  by (induction ws arbitrary: m) (simp_all add: registry_inv_put)

section \<open>Properties\<close>

text \<open>
  The registry implements a map from worker identifiers: registering stores the state under its
  own identifier, removing forgets it, the targeted updates change the named worker only and ignore
  unknown ones, and after \<open>reconcileAll\<close> the last state given for an identifier is the one found.
\<close>

theorem registry_refines_map:
  assumes "registry_inv m"
  shows "getWorker (registerWorker w m) = (getWorker m)(rw_workerId w \<mapsto> w)
    \<and> getWorker (removeWorker k m) = (getWorker m)(k := None)
    \<and> getWorker (updateWorkerState k f m) = (getWorker m)(k := map_option f (getWorker m k))
    \<and> getWorker (updateWorkerHealth k h m) =
        (getWorker m)(k := map_option (\<lambda>w. w\<lparr>rw_healthy := h,
           rw_lastError := (if h then None else rw_lastError w)\<rparr>) (getWorker m k))
    \<and> getWorker (reconcileAll ws m) k = List.find (\<lambda>w. rw_workerId w = k) (rev ws)"
proof (intro conjI)
  show "getWorker (reconcileAll ws m) k = List.find (\<lambda>w. rw_workerId w = k) (rev ws)"
    using js_map.put_all_lookup [of "[]" rw_workerId ws k]
    by (simp add: reconcileAll_def getWorker_def reconcile_loop_put_all split: option.splits)
qed (auto simp: registerWorker_def removeWorker_def updateWorkerState_def updateWorkerHealth_def
  getWorker_def fun_eq_iff split: option.splits)

definition sample_worker :: RouterWorkerState where
  "sample_worker = \<lparr>rw_workerId = ''w1'', rw_instanceId = ''i1'', rw_compatibility = None,
     rw_healthy = True, rw_ready = True, rw_draining = False, rw_activeRequests = 1,
     rw_maxConcurrentRequests = 4, rw_lastHealthCheck = None, rw_lastError = None,
     rw_lastKvEventSequence = 0, rw_kvEventFreshness = None\<rparr>"

theorem registry_refines_map_witness:
  "getWorker (removeWorker ''w1'' (registerWorker sample_worker [])) ''w1'' = None"
proof -
  have "registry_inv (registerWorker sample_worker [])"
    by (simp add: registry_inv_def registerWorker_def map_get_def sample_worker_def)
  from registry_refines_map [OF this, of _ "''w1''"] show ?thesis by simp
qed

text \<open>
  Every operation of the registry keeps its invariant (distinct keys, each worker under its own
  identifier), a partial update under the condition that it does not change the identifier; the
  eligible workers are then exactly the registered ones that are healthy, ready and not draining.
\<close>

theorem registry_invariant_kept:
  assumes "registry_inv m"
  shows "registry_inv (registerWorker w m) \<and> registry_inv (removeWorker k m)
    \<and> registry_inv (updateWorkerHealth k h m) \<and> registry_inv (reconcileAll ws m)
    \<and> ((\<forall>w. rw_workerId (f w) = rw_workerId w) \<longrightarrow> registry_inv (updateWorkerState k f m))
    \<and> (w \<in> set (getEligibleWorkers m) \<longleftrightarrow>
        getWorker m (rw_workerId w) = Some w \<and> rw_healthy w \<and> rw_ready w \<and> \<not> rw_draining w)"
proof (intro conjI impI)
  show "registry_inv (registerWorker w m)"
    using assms by (simp add: registerWorker_def registry_inv_put)
  show "registry_inv (removeWorker k m)"
    using assms by (simp add: removeWorker_def registry_inv_def)
  show "registry_inv (updateWorkerHealth k h m)"
    using assms getWorker_known_id [OF assms]
    by (auto simp: updateWorkerHealth_def intro: registry_inv_put split: option.splits)
  show "registry_inv (reconcileAll ws m)"
    unfolding reconcileAll_def by (rule registry_inv_reconcile) (simp add: registry_inv_def)
  show "registry_inv (updateWorkerState k f m)" if "\<forall>w. rw_workerId (f w) = rw_workerId w"
    using assms that getWorker_known_id [OF assms]
    by (auto simp: updateWorkerState_def intro: registry_inv_put split: option.splits)
  show "w \<in> set (getEligibleWorkers m) \<longleftrightarrow>
      getWorker m (rw_workerId w) = Some w \<and> rw_healthy w \<and> rw_ready w \<and> \<not> rw_draining w"
    using assms map_values_iff [of m w] getWorker_known_id [OF assms]
    by (auto simp: getEligibleWorkers_def listWorkers_def getWorker_def registry_inv_def)
qed

theorem registry_invariant_kept_witness:
  "registry_inv (updateWorkerState ''w1'' (\<lambda>w. w\<lparr>rw_ready := False\<rparr>) (registerWorker sample_worker []))"
proof -
  have "registry_inv (registerWorker sample_worker [])"
    by (simp add: registry_inv_def registerWorker_def map_get_def sample_worker_def)
  from registry_invariant_kept [OF this] show ?thesis by simp
qed

subsection \<open>Drain\<close>

lemma requestDrain_ok:
  "requestDrain k ws = Inr ws' \<Longrightarrow>
     ws' = List.map (\<lambda>w. if rw_workerId w = k then w\<lparr>rw_draining := True\<rparr> else w) ws \<and>
     (\<forall>w\<in>set ws. rw_workerId w = k \<longrightarrow> rw_healthy w \<and> rw_ready w \<and> \<not> rw_draining w)"
  by (induction ws arbitrary: ws') (auto split: if_splits sum.splits)

lemma drain_map_all_draining:
  "\<forall>w\<in>set ws. rw_workerId w = k \<longrightarrow> rw_draining w \<Longrightarrow>
     drain_map k msg upd found ws =
       Inr (found \<or> k \<in> rw_workerId ` set ws,
            List.map (\<lambda>w. if rw_workerId w = k then upd w else w) ws)"
  by (induction ws arbitrary: found) auto

lemma drain_map_not_draining:
  "\<exists>w\<in>set ws. rw_workerId w = k \<and> \<not> rw_draining w \<Longrightarrow>
     drain_map k msg upd found ws = Inl (''Worker '' @ k @ msg)"
proof (induction ws arbitrary: found)
  case (Cons w ws)
  show ?case
  proof (cases "rw_workerId w = k \<and> \<not> rw_draining w")
    case False
    with Cons.prems have "\<exists>w\<in>set ws. rw_workerId w = k \<and> \<not> rw_draining w" by auto
    with Cons.IH False show ?thesis by auto
  qed simp
qed simp

lemma requestDrain_refused:
  "requestDrain k ws = Inl e \<Longrightarrow> \<exists>w\<in>set ws. rw_workerId w = k \<and> (rw_draining w \<or> \<not> rw_healthy w \<or> \<not> rw_ready w)"
  by (induction ws arbitrary: e) (auto split: if_splits sum.splits)

lemma drained_entries:
  assumes "requestDrain k ws = Inr ws'"
  shows "rw_workerId ` set ws' = rw_workerId ` set ws" "\<forall>w\<in>set ws'. rw_workerId w = k \<longrightarrow> rw_draining w"
    "List.map (\<lambda>w. if rw_workerId w = k then w\<lparr>rw_draining := False\<rparr> else w) ws' = ws"
    "k \<notin> rw_workerId ` set ws \<Longrightarrow> ws' = ws"
proof -
  note ok = requestDrain_ok [OF assms]
  then have ws': "ws' = List.map (\<lambda>w. if rw_workerId w = k then w\<lparr>rw_draining := True\<rparr> else w) ws"
    by blast
  show "rw_workerId ` set ws' = rw_workerId ` set ws" unfolding ws' set_map image_image by (rule image_cong) simp_all
  show "\<forall>w\<in>set ws'. rw_workerId w = k \<longrightarrow> rw_draining w" unfolding ws' set_map ball_simps by simp
  have "w\<lparr>rw_draining := False\<rparr> = w" if "w \<in> set ws" "rw_workerId w = k" for w
    using ok that by (cases w) auto
  then show "List.map (\<lambda>w. if rw_workerId w = k then w\<lparr>rw_draining := False\<rparr> else w) ws' = ws"
    unfolding ws' by (auto intro!: map_idI)
  show "k \<notin> rw_workerId ` set ws \<Longrightarrow> ws' = ws" unfolding ws' by (auto intro!: map_idI)
qed

text \<open>
  C30: what a drain request does.  It is refused only when an entry with the identifier is draining, unhealthy or not ready.
  An accepted one sets the draining flag of exactly the entries with that identifier, all of which were healthy, ready and not
  draining, so that the candidate filter admits none of them whatever the request and the envelopes.  Resuming then restores the list of workers as it was, and
  completing the drain leaves the worker neither ready nor healthy, with the flag cleared; when no entry has the identifier the request is
  accepted without effect, while resuming or completing is an error.
\<close>

theorem drain_request_exact:
  "case requestDrain k ws of
     Inl e \<Rightarrow> \<exists>w\<in>set ws. rw_workerId w = k \<and> (rw_draining w \<or> \<not> rw_healthy w \<or> \<not> rw_ready w)
   | Inr ws' \<Rightarrow>
       (\<forall>w\<in>set ws. rw_workerId w = k \<longrightarrow> rw_healthy w \<and> rw_ready w \<and> \<not> rw_draining w) \<and>
       ws' = List.map (\<lambda>w. if rw_workerId w = k then w\<lparr>rw_draining := True\<rparr> else w) ws \<and>
       k \<notin> rw_workerId ` set (filterEligibleWorkers ws' config envelopes) \<and>
       (if k \<in> rw_workerId ` set ws
        then resumeWorker k ws' = Inr ws \<and>
          completeDrain k ws' = Inr (List.map (\<lambda>w. if rw_workerId w = k
            then w\<lparr>rw_draining := False, rw_ready := False, rw_healthy := False\<rparr> else w) ws)
        else ws' = ws \<and> resumeWorker k ws' = Inl (''Worker '' @ k @ '' not found'') \<and>
          completeDrain k ws' = Inl (''Worker '' @ k @ '' not found''))"
proof (cases "requestDrain k ws")
  case (Inl e)
  then show ?thesis using requestDrain_refused by simp
next
  case (Inr ws')
  note ok = requestDrain_ok [OF Inr] and ids = drained_entries(1) [OF Inr] and dr = drained_entries(2) [OF Inr]
    and undo = drained_entries(3) [OF Inr]
  have complete: "List.map (\<lambda>w. if rw_workerId w = k
      then w\<lparr>rw_draining := False, rw_ready := False, rw_healthy := False\<rparr> else w) ws' =
    List.map (\<lambda>w. if rw_workerId w = k then w\<lparr>rw_draining := False, rw_ready := False, rw_healthy := False\<rparr> else w) ws"
    using ok by auto
  have "k \<notin> rw_workerId ` set (filterEligibleWorkers ws' config envelopes)"
    using dr by (auto simp: filterEligibleWorkers_def eligible_worker_def checkWorkerDrain_def)
  moreover have "k \<notin> rw_workerId ` set ws \<Longrightarrow> ws' = ws" by (rule drained_entries(4) [OF Inr])
  moreover have "resumeWorker k ws' = (if k \<in> rw_workerId ` set ws then Inr ws else Inl (''Worker '' @ k @ '' not found''))"
    unfolding resumeWorker_def drain_map_all_draining [OF dr] by (simp add: ids undo)
  moreover have "completeDrain k ws' = (if k \<in> rw_workerId ` set ws then Inr (List.map (\<lambda>w. if rw_workerId w = k
      then w\<lparr>rw_draining := False, rw_ready := False, rw_healthy := False\<rparr> else w) ws)
    else Inl (''Worker '' @ k @ '' not found''))"
    unfolding completeDrain_def drain_map_all_draining [OF dr] by (simp add: ids complete)
  ultimately show ?thesis using ok unfolding Inr sum.case by (cases "k \<in> rw_workerId ` set ws") simp_all
qed

theorem drain_request_exact_witness:
  "\<exists>ws. requestDrain ''w1'' [sample_worker] = Inr ws \<and> resumeWorker ''w1'' ws = Inr [sample_worker]"
proof -
  obtain ws where ws: "requestDrain ''w1'' [sample_worker] = Inr ws"
    by (simp add: sample_worker_def)
  from drain_request_exact [where k = "''w1''" and ws = "[sample_worker]" and envelopes = "\<lambda>w. None" and config =
      "\<lparr>fc_requiredArtifactDigest = ''d'', fc_requiredWorkloadClass = ''c'', fc_requiredStreaming = False, fc_requiredTokens = 1,
        fc_dharmaLeaseConstraints = None\<rparr>"] have "resumeWorker ''w1'' ws = Inr [sample_worker]"
    unfolding ws sum.case by (auto simp: sample_worker_def)
  with ws show ?thesis by blast
qed

lemma eligible_worker_iff:
  "eligible_worker cfg envs w \<longleftrightarrow>
     rw_healthy w \<and> rw_ready w \<and> \<not> rw_draining w \<and>
     rw_activeRequests w < rw_maxConcurrentRequests w \<and>
     (\<exists>env. envs (rw_workerId w) = Some env \<and>
        isArtifactParityCompatible env (fc_requiredArtifactDigest cfg) \<and>
        isWorkloadSupported env (fc_requiredWorkloadClass cfg) \<and>
        isStreamingSupported env (fc_requiredStreaming cfg) \<and>
        fc_requiredTokens cfg \<le> we_maximumOutputTokens env \<and>
        (fc_dharmaLeaseConstraints cfg = None \<or> isDharmaCorrelationSupported env))"
proof (cases "envs (rw_workerId w)")
  case None
  then show ?thesis by (simp add: eligible_worker_def)
next
  case (Some env)
  then show ?thesis
    unfolding eligible_worker_def checkWorkerHealth_def checkWorkerCapacity_def
      checkWorkerDrain_def isArtifactParityCompatible_def isWorkloadSupported_def
      isStreamingSupported_def isDharmaCorrelationSupported_def by (simp add: not_less) blast
qed

text \<open>
  The candidate filter keeps, in order, exactly the workers that are healthy, ready, below
  their capacity, not draining and whose envelope meets every requirement of the request; a worker
  discovered with a fitting envelope passes it, and the filter agrees with the separate envelope
  predicates.
\<close>

theorem candidate_filter_exact:
  "(w \<in> set (filterEligibleWorkers ws cfg envs) \<longleftrightarrow>
      w \<in> set ws \<and> rw_healthy w \<and> rw_ready w \<and> \<not> rw_draining w \<and>
      rw_activeRequests w < rw_maxConcurrentRequests w \<and>
      (\<exists>env. envs (rw_workerId w) = Some env \<and>
         isArtifactParityCompatible env (fc_requiredArtifactDigest cfg) \<and>
         isWorkloadSupported env (fc_requiredWorkloadClass cfg) \<and>
         isStreamingSupported env (fc_requiredStreaming cfg) \<and>
         fc_requiredTokens cfg \<le> we_maximumOutputTokens env \<and>
         (fc_dharmaLeaseConstraints cfg = None \<or> isDharmaCorrelationSupported env)))
   \<and> set (filterEligibleWorkers ws cfg envs) \<subseteq> set ws
   \<and> filterEligibleWorkers (filterEligibleWorkers ws cfg envs) cfg envs =
      filterEligibleWorkers ws cfg envs"
  using eligible_worker_iff [of cfg envs w] by (auto simp: filterEligibleWorkers_def)

end
