(* ===== verification/Js_Number.thy ===== *)
theory Js_Number imports Prelude Complex_Main begin

text \<open>
  JavaScript numbers where the sources compute scores with fractions: a number is the rational it
  denotes, and every operation rounds its exact result to the nearest binary floating-point number
  with 53 significant bits, ties to even.  Overflow and subnormal numbers are not modelled (the
  exponent is unbounded): the scores stay between \<open>2 ^ (-60)\<close> and \<open>2 ^ 60\<close>, zero or negative of
  these.  Integer-valued numbers elsewhere in the development are \<open>int\<close>, exact below \<open>2 ^ 53\<close>.
\<close>

section \<open>Rounding\<close>

text \<open>Nearest integer, ties to even.\<close>

definition round_even :: "rat \<Rightarrow> int" where
  "round_even m =
     (let f = \<lfloor>m\<rfloor>; d = m - of_int f
      in if d < 1 / 2 then f else if d > 1 / 2 then f + 1 else if even f then f else f + 1)"

lemma round_even_int [simp]: "round_even (of_int i) = i"
  by (simp add: round_even_def)

lemma round_even_bounds: "\<lfloor>m\<rfloor> \<le> round_even m" "round_even m \<le> \<lfloor>m\<rfloor> + 1"
  by (simp_all add: round_even_def Let_def)

lemma round_even_mono:
  assumes "a \<le> b"
  shows "round_even a \<le> round_even b"
proof (cases "\<lfloor>a\<rfloor> = \<lfloor>b\<rfloor>")
  case True
  with assms show ?thesis by (simp add: round_even_def Let_def)
next
  case False
  with floor_mono [OF assms] have "\<lfloor>a\<rfloor> + 1 \<le> \<lfloor>b\<rfloor>" by simp
  with round_even_bounds(2) [of a] round_even_bounds(1) [of b] show ?thesis by linarith
qed

text \<open>Number of binary digits, and the exponent of a positive rational.\<close>

fun bits :: "nat \<Rightarrow> nat" where
  "bits n = (if n = 0 then 0 else Suc (bits (n div 2)))"

declare bits.simps [simp del]

lemma bits_bounds: "0 < n \<Longrightarrow> 0 < bits n \<and> 2 ^ (bits n - 1) \<le> n \<and> n < 2 ^ bits n"
proof (induction n rule: bits.induct)
  case (1 n)
  show ?case
  proof (cases "n div 2 = 0")
    case True
    with 1(2) have "n = 1" by (cases n) (auto simp: div_eq_0_iff)
    moreover have "bits (Suc 0) = Suc 0" by (subst bits.simps) (simp add: bits.simps [of 0])
    ultimately show ?thesis by simp
  next
    case False
    with 1 have ih: "0 < bits (n div 2)" "2 ^ (bits (n div 2) - 1) \<le> n div 2"
      "n div 2 < 2 ^ bits (n div 2)" by auto
    from 1(2) have b: "bits n = Suc (bits (n div 2))" by (simp add: bits.simps [of n])
    from ih(1) obtain k where k: "bits (n div 2) = Suc k" by (cases "bits (n div 2)") auto
    from ih(2) k have lo: "2 ^ bits (n div 2) \<le> n" by simp
    from ih(3) have "n < 2 * 2 ^ bits (n div 2)" by (simp add: less_mult_imp_div_less div_less_iff_less_mult)
    with lo b show ?thesis by simp
  qed
qed

definition exponent :: "rat \<Rightarrow> int" where
  "exponent x =
     (let (p, q) = quotient_of x;
          k = int (bits (nat p)) - int (bits (nat q))
      in if 2 powi k \<le> x then k else k - 1)"

lemma exponent_bounds:
  assumes "0 < x"
  shows "2 powi exponent x \<le> x" and "x < 2 powi (exponent x + 1)"
proof -
  obtain p q where pq: "quotient_of x = (p, q)" by (cases "quotient_of x")
  then have q: "0 < q" by (rule quotient_of_denom_pos)
  have x: "x = of_int p / of_int q" using pq by (rule quotient_of_div)
  with assms q have p: "0 < p" by (simp add: zero_less_divide_iff)
  define a where "a = bits (nat p)"
  define b where "b = bits (nat q)"
  have a: "0 < a" "2 ^ (a - 1) \<le> nat p" "nat p < 2 ^ a"
    using bits_bounds [of "nat p"] p by (auto simp: a_def)
  have b: "0 < b" "2 ^ (b - 1) \<le> nat q" "nat q < 2 ^ b"
    using bits_bounds [of "nat q"] q by (auto simp: b_def)
  have ra: "2 ^ (a - 1) \<le> (of_int p :: rat)" "(of_int p :: rat) < 2 ^ a"
  proof -
    have "(of_nat (2 ^ (a - 1)) :: rat) \<le> of_nat (nat p)" using a(2) by (simp only: of_nat_le_iff)
    then show "2 ^ (a - 1) \<le> (of_int p :: rat)" using p by simp
    have "(of_nat (nat p) :: rat) < of_nat (2 ^ a)" using a(3) by (simp only: of_nat_less_iff)
    then show "(of_int p :: rat) < 2 ^ a" using p by simp
  qed
  have rb: "2 ^ (b - 1) \<le> (of_int q :: rat)" "(of_int q :: rat) < 2 ^ b"
  proof -
    have "(of_nat (2 ^ (b - 1)) :: rat) \<le> of_nat (nat q)" using b(2) by (simp only: of_nat_le_iff)
    then show "2 ^ (b - 1) \<le> (of_int q :: rat)" using q by simp
    have "(of_nat (nat q) :: rat) < of_nat (2 ^ b)" using b(3) by (simp only: of_nat_less_iff)
    then show "(of_int q :: rat) < 2 ^ b" using q by simp
  qed
  have q0: "(0 :: rat) < of_int q" using q by simp
  have lo: "2 powi (int a - int b - 1) \<le> x"
  proof -
    have "int a - int b - 1 = int (a - 1) - int b" using a(1) by simp
    moreover have "(2 :: rat) powi (int (a - 1) - int b) = 2 powi (int (a - 1)) / 2 powi (int b)"
      by (rule power_int_diff) simp
    ultimately have "2 powi (int a - int b - 1) = (2 :: rat) powi (int (a - 1)) / 2 powi (int b)"
      by (simp only:)
    also have "\<dots> = 2 ^ (a - 1) / 2 ^ b" by simp
    also have "\<dots> \<le> of_int p / of_int q" using ra(1) rb(2) q0 p by (intro frac_le) auto
    finally show ?thesis using x by simp
  qed
  have hi: "x < 2 powi (int a - int b + 1)"
  proof -
    have "of_int p / of_int q < (2 ^ a / 2 ^ (b - 1) :: rat)"
      using ra(2) rb(1) p by (intro frac_less) auto
    also have "\<dots> = (2 :: rat) powi (int a) / 2 powi (int (b - 1))" by simp
    also have "\<dots> = 2 powi (int a - int (b - 1))" by (rule power_int_diff [symmetric]) simp
    also have "int a - int (b - 1) = int a - int b + 1" using b(1) by simp
    finally show ?thesis using x by simp
  qed
  have e: "exponent x = (if 2 powi (int a - int b) \<le> x then int a - int b else int a - int b - 1)"
    by (simp add: exponent_def pq a_def b_def Let_def)
  show "2 powi exponent x \<le> x" using e lo by simp
  show "x < 2 powi (exponent x + 1)" using e hi by (simp split: if_splits)
qed

definition fl_pos :: "rat \<Rightarrow> rat" where
  "fl_pos x = (let u = 2 powi (exponent x - 52) in of_int (round_even (x / u)) * u)"

definition fl :: "rat \<Rightarrow> rat" where
  "fl x = (if x = 0 then 0 else if x < 0 then - fl_pos (- x) else fl_pos x)"

text \<open>The four operations on numbers.\<close>

definition num_add :: "rat \<Rightarrow> rat \<Rightarrow> rat" where
  "num_add a b = fl (a + b)"

definition num_sub :: "rat \<Rightarrow> rat \<Rightarrow> rat" where
  "num_sub a b = fl (a - b)"

definition num_mul :: "rat \<Rightarrow> rat \<Rightarrow> rat" where
  "num_mul a b = fl (a * b)"

definition num_div :: "rat \<Rightarrow> rat \<Rightarrow> rat" where
  "num_div a b = fl (a / b)"

section \<open>Rounding is monotone\<close>

lemma fl_pos_range:
  assumes "0 < x"
  shows "2 powi exponent x \<le> fl_pos x" and "fl_pos x \<le> 2 powi (exponent x + 1)"
proof -
  define e where "e = exponent x"
  define u :: rat where "u = 2 powi (e - 52)"
  have u: "0 < u" by (simp add: u_def)
  have 52: "2 powi e = 2 ^ 52 * u"
    by (simp add: u_def power_int_diff)
  have 53: "2 powi (e + 1) = 2 ^ 53 * u"
    by (simp add: u_def power_int_diff power_int_add)
  have b: "2 ^ 52 * u \<le> x" "x < 2 ^ 53 * u"
    using exponent_bounds [OF assms] 52 53 by (simp_all add: e_def)
  have "of_int (2 ^ 52) \<le> x / u" using b(1) u by (simp add: pos_le_divide_eq)
  from round_even_mono [OF this] have lo: "2 ^ 52 \<le> round_even (x / u)"
    unfolding round_even_int .
  have "x / u \<le> of_int (2 ^ 53)" using b(2) u by (simp add: pos_divide_le_eq)
  from round_even_mono [OF this] have hi: "round_even (x / u) \<le> 2 ^ 53"
    unfolding round_even_int .
  have f: "fl_pos x = of_int (round_even (x / u)) * u"
    by (simp add: fl_pos_def u_def e_def Let_def)
  have "of_int (2 ^ 52) \<le> (of_int (round_even (x / u)) :: rat)" using lo by (simp only: of_int_le_iff)
  then have "2 ^ 52 * u \<le> of_int (round_even (x / u)) * u"
    using u by (intro mult_right_mono) simp_all
  then show "2 powi exponent x \<le> fl_pos x" using f 52 by (simp add: e_def)
  have "(of_int (round_even (x / u)) :: rat) \<le> of_int (2 ^ 53)" using hi by (simp only: of_int_le_iff)
  then have "of_int (round_even (x / u)) * u \<le> 2 ^ 53 * u"
    using u by (intro mult_right_mono) simp_all
  then show "fl_pos x \<le> 2 powi (exponent x + 1)" using f 53 by (simp add: e_def)
qed

lemma fl_pos_mono:
  assumes "0 < x" and "x \<le> y"
  shows "fl_pos x \<le> fl_pos y"
proof (cases "exponent x = exponent y")
  case True
  have u: "(0 :: rat) < 2 powi (exponent y - 52)" by simp
  with assms(2) have "x / 2 powi (exponent y - 52) \<le> y / 2 powi (exponent y - 52)"
    by (intro divide_right_mono) simp_all
  from round_even_mono [OF this]
  have "(of_int (round_even (x / 2 powi (exponent y - 52))) :: rat) \<le>
      of_int (round_even (y / 2 powi (exponent y - 52)))" by (simp only: of_int_le_iff)
  with u True show ?thesis
    unfolding fl_pos_def Let_def True by (intro mult_right_mono) simp_all
next
  case False
  have y: "0 < y" using assms by simp
  have "exponent x < exponent y"
  proof (rule ccontr)
    assume "\<not> exponent x < exponent y"
    with False have "exponent y + 1 \<le> exponent x" by simp
    then have "(2 :: rat) powi (exponent y + 1) \<le> 2 powi exponent x"
      by (intro power_int_increasing) simp_all
    with exponent_bounds(1) [OF assms(1)] exponent_bounds(2) [OF y] assms(2) show False by linarith
  qed
  then have "(2 :: rat) powi (exponent x + 1) \<le> 2 powi exponent y"
    by (intro power_int_increasing) simp_all
  with fl_pos_range(2) [OF assms(1)] fl_pos_range(1) [OF y] show ?thesis by linarith
qed

lemma fl_pos_positive: "0 < x \<Longrightarrow> 0 < fl_pos x"
  using fl_pos_range(1) [of x] by (metis less_le_trans zero_less_numeral zero_less_power_int)

lemma fl_0 [simp]: "fl 0 = 0"
  by (simp add: fl_def)

lemma fl_minus: "fl (- x) = - fl x"
  by (simp add: fl_def)

lemma fl_mono:
  assumes "x \<le> y"
  shows "fl x \<le> fl y"
proof -
  consider "0 < x" | "x \<le> 0" "0 \<le> y" | "y < 0" by linarith
  then show ?thesis
  proof cases
    case 1
    with assms show ?thesis by (simp add: fl_def fl_pos_mono)
  next
    case 2
    then have "fl x \<le> 0" by (auto simp: fl_def less_imp_le [OF fl_pos_positive])
    moreover have "0 \<le> fl y" using 2 by (auto simp: fl_def less_imp_le [OF fl_pos_positive])
    ultimately show ?thesis by linarith
  next
    case 3
    with assms show ?thesis using fl_pos_mono [of "- y" "- x"] by (simp add: fl_def)
  qed
qed

lemma fl_1 [simp]: "fl 1 = 1"
  by code_simp

lemma fl_nonneg: "0 \<le> x \<Longrightarrow> 0 \<le> fl x"
  using fl_mono [of 0 x] by simp

lemma fl_le_1: "x \<le> 1 \<Longrightarrow> fl x \<le> 1"
  using fl_mono [of x 1] by simp

lemma num_div_unit: "0 \<le> a \<Longrightarrow> a \<le> b \<Longrightarrow> 0 < b \<Longrightarrow> 0 \<le> num_div a b \<and> num_div a b \<le> 1"
  by (simp add: num_div_def fl_nonneg fl_le_1)

lemma num_div_mono: "a \<le> a' \<Longrightarrow> 0 < b \<Longrightarrow> num_div a b \<le> num_div a' b"
  by (simp add: num_div_def fl_mono divide_right_mono)

text \<open>The double next to one tenth, as a check of the definition.\<close>

lemma fl_tenth: "fl (1 / 10) = 3602879701896397 / 36028797018963968"
  by code_simp


section \<open>Numbers that need no rounding\<close>

lemma fl_dyadic:
  assumes "0 < m" and "m < 2 ^ 53"
  shows "fl (of_int m * 2 powi k) = of_int m * 2 powi k"
proof -
  define x where "x = (of_int m * 2 powi k :: rat)"
  have p: "(0 :: rat) < 2 powi k" by simp
  with assms(1) have x0: "0 < x" by (simp add: x_def)
  have "(of_int m :: rat) < 2 ^ 53"
    using assms(2) by (metis of_int_less_iff of_int_numeral of_int_power)
  with p have "x < 2 ^ 53 * 2 powi k" by (simp add: x_def)
  also have "\<dots> = 2 powi (k + 53)" by (simp add: power_int_add)
  finally have hi: "x < 2 powi (k + 53)" .
  have "exponent x < k + 53"
  proof (rule ccontr)
    assume "\<not> exponent x < k + 53"
    then have "(2 :: rat) powi (k + 53) \<le> 2 powi exponent x" by (intro power_int_increasing) simp_all
    with hi exponent_bounds(1) [OF x0] show False by linarith
  qed
  then obtain j where j: "k = exponent x - 52 + int j"
    using zle_iff_zadd [of "exponent x - 52" k] by auto
  have u: "(2 :: rat) powi (exponent x - 52) \<noteq> 0" by simp
  have pk: "(2 :: rat) powi k = 2 ^ j * 2 powi (exponent x - 52)"
    by (subst j, subst power_int_add) simp_all
  have "x = of_int m * (2 powi k)" by (simp add: x_def)
  also have "\<dots> = of_int m * 2 ^ j * 2 powi (exponent x - 52)" by (simp add: pk)
  finally have "x = of_int m * 2 ^ j * 2 powi (exponent x - 52)" .
  then have "x / 2 powi (exponent x - 52) = of_int (m * 2 ^ j)"
    using u by (metis nonzero_mult_div_cancel_right of_int_mult of_int_numeral of_int_power)
  then have "fl_pos x = of_int (m * 2 ^ j) * 2 powi (exponent x - 52)"
    unfolding fl_pos_def Let_def by (simp only: round_even_int)
  also have "\<dots> = x" using \<open>x / 2 powi (exponent x - 52) = of_int (m * 2 ^ j)\<close> u
    by (metis nonzero_eq_divide_eq)
  finally show ?thesis using x0 by (simp add: fl_def x_def [symmetric])
qed

lemma fl_of_nat: "n < 2 ^ 53 \<Longrightarrow> fl (of_nat n) = of_nat n"
  using fl_dyadic [of "int n" 0] by (cases "n = 0") (simp_all add: of_nat_less_numeral_power_cancel_iff)

text \<open>
  A count against eighty per cent of a total: the product with the double next to 0.8 is rounded,
  and the comparison is nevertheless the exact one.
\<close>

lemma fl_four_fifths: "fl (4 / 5) = 3602879701896397 / 4503599627370496"
  by code_simp

lemma eighty_percent_exact:
  assumes "n < 2 ^ 50"
  shows "of_nat c > num_mul (of_nat n) (fl (4 / 5)) \<longleftrightarrow> 5 * c > 4 * n"
proof (cases "c \<le> n")
  case True
  define v where "v = (of_nat n * fl (4 / 5) :: rat)"
  have n: "(of_nat n :: rat) < 2 ^ 50"
    using assms by (metis of_nat_less_iff of_nat_numeral of_nat_power)
  have lo: "4 / 5 * of_nat n \<le> v" unfolding v_def fl_four_fifths by simp
  have hi: "v \<le> 4 / 5 * of_nat n + 1 / 16"
  proof -
    have "v - 4 / 5 * of_nat n = of_nat n * (1 / 22517998136852480)"
      unfolding v_def fl_four_fifths by (simp add: field_simps)
    also have "\<dots> \<le> 2 ^ 50 * (1 / 22517998136852480)" using n by (intro mult_right_mono) simp_all
    also have "\<dots> \<le> 1 / 16" by simp
    finally show ?thesis by simp
  qed
  show ?thesis
  proof
    assume gt: "of_nat c > num_mul (of_nat n) (fl (4 / 5))"
    show "5 * c > 4 * n"
    proof (rule ccontr)
      assume "\<not> 5 * c > 4 * n"
      then have "(5 * of_nat c :: rat) \<le> 4 * of_nat n"
        by (metis not_less of_nat_le_iff of_nat_mult of_nat_numeral)
      with lo have "of_nat c \<le> v" by linarith
      then have "fl (of_nat c) \<le> fl v" by (rule fl_mono)
      with gt fl_of_nat [of c] True assms show False by (simp add: num_mul_def v_def)
    qed
  next
    assume gt: "5 * c > 4 * n"
    then have "(4 * of_nat n + 1 :: rat) \<le> 5 * of_nat c"
      by (metis Suc_leI of_nat_Suc of_nat_le_iff of_nat_mult of_nat_numeral add.commute)
    with hi have v: "v \<le> of_nat c - 1 / 8" by simp
    have c0: "0 < c" using gt by simp
    have "fl (of_nat c - 1 / 8) = of_nat c - 1 / 8"
    proof -
      have "of_nat c - 1 / 8 = (of_int (8 * int c - 1) * 2 powi (- 3) :: rat)"
        by (simp add: power_int_minus field_simps)
      moreover have "8 * int c - 1 < 2 ^ 53" using True assms by simp
      moreover have "0 < 8 * int c - 1" using c0 by simp
      ultimately show ?thesis using fl_dyadic [of "8 * int c - 1" "- 3"] by metis
    qed
    with fl_mono [OF v] have "fl v \<le> of_nat c - 1 / 8" by simp
    then show "of_nat c > num_mul (of_nat n) (fl (4 / 5))" by (simp add: num_mul_def v_def)
  qed
next
  case False
  then have gt: "5 * c > 4 * n" by simp
  have "num_mul (of_nat n) (fl (4 / 5)) \<le> fl (of_nat n)"
    unfolding num_mul_def by (rule fl_mono) (simp add: fl_four_fifths)
  also have "\<dots> = of_nat n" using fl_of_nat assms by simp
  also have "\<dots> < of_nat c" using False by simp
  finally show ?thesis using gt by simp
qed

end
