(* ===== verification/Router_Selection.thy ===== *)
theory Router_Selection imports Router_Registry Js_Number Js_Runtime begin

text \<open>
  How the router picks a worker: load scores (\<open>multi_worker/load-scorer.ts\<close>), prefix affinity
  (\<open>prefix-affinity.ts\<close>), the selector (\<open>worker-selector.ts\<close>), failover
  (\<open>worker-failover.ts\<close>) and retries (\<open>route-retry.ts\<close>, \<open>route-store.ts\<close>).  Scores are numbers
  of \<open>Js_Number\<close>, rounded after every operation as in the sources.
\<close>

section \<open>Load scores\<close>

definition scoreLoad :: "RouterWorkerState \<Rightarrow> rat" where
  "scoreLoad worker =
     (if rw_maxConcurrentRequests worker \<le> 0 then 1
      else num_div (of_int (rw_activeRequests worker)) (of_int (rw_maxConcurrentRequests worker)))"

definition getLoadHeadroom :: "RouterWorkerState \<Rightarrow> rat" where
  "getLoadHeadroom worker =
     (if rw_maxConcurrentRequests worker \<le> 0 then 0
      else max 0 (num_div (of_int (rw_maxConcurrentRequests worker - rw_activeRequests worker))
             (of_int (rw_maxConcurrentRequests worker))))"

definition scoreHealth :: "RouterWorkerState \<Rightarrow> rat" where
  "scoreHealth worker =
     (if \<not> rw_healthy worker then 1
      else if \<not> rw_ready worker then 1 / 2
      else if rw_lastError worker \<noteq> None then fl (3 / 10)
      else 0)"

definition scoreErrors :: "RouterWorkerState \<Rightarrow> rat" where
  "scoreErrors worker =
     (case rw_lastError worker of
        None \<Rightarrow> 0
      | Some e \<Rightarrow> if length e > 0 then min 1 (num_div (of_nat (length e)) 200) else 0)"

definition scoreDrain :: "RouterWorkerState \<Rightarrow> rat" where
  "scoreDrain worker = (if rw_draining worker then 1 / 2 else 0)"

section \<open>Prefix affinity\<close>

record RouterKvIndexEntry =
  ix_workerId :: string
  ix_prefixDigest :: string
  ix_sequenceNumber :: int
  ix_state :: string
  ix_timestamp :: timestamp

record PrefixAffinityResult =
  pa_workerId :: string
  pa_matchedPrefixTokens :: int
  pa_matchedPrefixBlocks :: int
  pa_longestConsecutivePrefixBlocks :: int
  pa_residencyWeight :: rat
  pa_affinityScore :: rat
  pa_eventFreshness :: "string option"

record SelectionWeights =
  sw_cacheAffinityWeight :: rat
  sw_loadWeight :: rat
  sw_healthWeight :: rat
  sw_errorWeight :: rat
  sw_drainWeight :: rat

definition DEFAULT_SELECTION_WEIGHTS :: SelectionWeights where
  "DEFAULT_SELECTION_WEIGHTS =
     \<lparr>sw_cacheAffinityWeight = 1 / 2,
      sw_loadWeight = fl (1 / 5),
      sw_healthWeight = fl (1 / 5),
      sw_errorWeight = fl (1 / 20),
      sw_drainWeight = fl (1 / 20)\<rparr>"

definition DEFAULT_TOKEN_BLOCK_SIZE :: int where
  "DEFAULT_TOKEN_BLOCK_SIZE = 256"

text \<open>The loop over the sorted sequence numbers, with the previous one as an argument.\<close>

fun run_loop :: "int \<Rightarrow> int \<Rightarrow> int \<Rightarrow> int list \<Rightarrow> int" where
  "run_loop prev currentRun longestRun [] = longestRun"
| "run_loop prev currentRun longestRun (s # ss) =
     (if s = prev + 1 then
        run_loop s (currentRun + 1)
          (if currentRun + 1 > longestRun then currentRun + 1 else longestRun) ss
      else if s \<noteq> prev then run_loop s 1 longestRun ss
      else run_loop s currentRun longestRun ss)"

definition longestRun_of :: "int list \<Rightarrow> int" where
  "longestRun_of seqs = (case seqs of [] \<Rightarrow> 1 | s # ss \<Rightarrow> run_loop s 1 1 ss)"

definition stateWeights :: "(string \<times> rat) list" where
  "stateWeights =
     [(''reused'', 1), (''stored'', fl (8 / 10)), (''touched'', fl (6 / 10)),
      (''evicted'', fl (1 / 10)), (''invalidated'', 0), (''released'', 0)]"

text \<open>\<open>a > b\<close> on strings: lexicographic by code unit.\<close>

fun js_string_gt :: "string \<Rightarrow> string \<Rightarrow> bool" where
  "js_string_gt [] ys = False"
| "js_string_gt (x # xs) [] = True"
| "js_string_gt (x # xs) (y # ys) =
     (if x = y then js_string_gt xs ys else (of_char y :: nat) < of_char x)"

definition affinity_formula :: "SelectionWeights \<Rightarrow> int \<Rightarrow> int \<Rightarrow> rat \<Rightarrow> rat" where
  "affinity_formula weights totalBlocks longestRun residencyWeight =
     (let coverageFactor = min 1 (num_div (of_int totalBlocks) 10);
          consecutiveBonus = min 1 (num_div (of_int longestRun) 5);
          w = sw_cacheAffinityWeight weights
      in num_add (num_add (num_mul w coverageFactor)
                          (num_mul (num_mul w (1 / 2)) consecutiveBonus))
                 (num_mul (num_mul w (fl (3 / 10))) residencyWeight))"

definition computePrefixAffinity ::
  "string \<Rightarrow> string \<Rightarrow> RouterKvIndexEntry list \<Rightarrow> SelectionWeights \<Rightarrow> PrefixAffinityResult result" where
  "computePrefixAffinity workerId prefixDigest kvIndex weights =
     (let entries = List.filter
            (\<lambda>e. ix_workerId e = workerId \<and> ix_prefixDigest e = prefixDigest) kvIndex
      in if length entries = 0 then
           Inl (''No KV index entries for worker '' @ workerId @ '' with prefix '' @ prefixDigest)
         else
           let totalTokens = int (length entries) * DEFAULT_TOKEN_BLOCK_SIZE;
               totalBlocks = int (length entries);
               longestRun = longestRun_of (List.map ix_sequenceNumber
                 (sort_key ix_sequenceNumber entries));
               totalResidencyWeight = foldl (\<lambda>sum e.
                 num_add sum (nullish (map_of stateWeights (ix_state e)) (fl (2 / 10)))) 0 entries;
               residencyWeight = num_div totalResidencyWeight (of_int totalBlocks);
               timestamps = List.filter truthy
                 (List.map (\<lambda>e. timestamp_str (ix_timestamp e)) entries);
               eventFreshness = (case timestamps of
                   [] \<Rightarrow> None
                 | t # ts \<Rightarrow> Some (reduce_best js_string_gt t ts))
           in Inr \<lparr>pa_workerId = workerId,
                   pa_matchedPrefixTokens = totalTokens,
                   pa_matchedPrefixBlocks = totalBlocks,
                   pa_longestConsecutivePrefixBlocks = longestRun,
                   pa_residencyWeight = residencyWeight,
                   pa_affinityScore =
                     affinity_formula weights totalBlocks longestRun residencyWeight,
                   pa_eventFreshness = eventFreshness\<rparr>)"

text \<open>\<open>[...new Set(xs)]\<close>: first occurrences in order.\<close>

fun dedup :: "'a list \<Rightarrow> 'a list \<Rightarrow> 'a list" where
  "dedup seen [] = rev seen"
| "dedup seen (x # xs) = (if x \<in> set seen then dedup seen xs else dedup (x # seen) xs)"

definition getBestAffinity ::
  "string \<Rightarrow> RouterKvIndexEntry list \<Rightarrow> string list \<Rightarrow> SelectionWeights \<Rightarrow> PrefixAffinityResult option"
  where
  "getBestAffinity prefixDigest kvIndex eligibleWorkers weights =
     (let candidateEntries = List.filter
            (\<lambda>e. ix_prefixDigest e = prefixDigest \<and> ix_workerId e \<in> set eligibleWorkers) kvIndex
      in if length candidateEntries = 0 then None
         else
           let workerIds = dedup [] (List.map ix_workerId candidateEntries);
               results = List.concat (List.map (\<lambda>wid.
                 case computePrefixAffinity wid prefixDigest kvIndex weights of
                   Inl e \<Rightarrow> [] | Inr r \<Rightarrow> [r]) workerIds)
           in (case results of
                 [] \<Rightarrow> None
               | r # rs \<Rightarrow> Some (reduce_best
                   (\<lambda>cur best. pa_affinityScore cur > pa_affinityScore best) r rs)))"

definition computeAffinityScore :: "PrefixAffinityResult \<Rightarrow> SelectionWeights \<Rightarrow> rat" where
  "computeAffinityScore result weights =
     affinity_formula weights (pa_matchedPrefixBlocks result)
       (pa_longestConsecutivePrefixBlocks result) (pa_residencyWeight result)"

section \<open>The selector\<close>

record SelectionInput =
  si_eligibleWorkers :: "RouterWorkerState list"
  si_prefixDigest :: "string option"
  si_kvIndex :: "RouterKvIndexEntry list"
  si_envelopes :: "string \<rightharpoonup> PrismWorkerCompatibilityEnvelope"
  si_weights :: "SelectionWeights option"
  si_dharmaLeaseId :: "string option"

record SelectionOutput =
  so_workerId :: string
  so_reason :: string
  so_affinity :: "PrefixAffinityResult option"
  so_loadScore :: rat

datatype SelectionError = NoEligibleWorkerError

definition base_score :: "SelectionWeights \<Rightarrow> RouterWorkerState \<Rightarrow> rat" where
  "base_score weights worker =
     num_sub (num_sub (num_sub (- num_mul (sw_loadWeight weights) (scoreLoad worker))
                               (num_mul (sw_healthWeight weights) (scoreHealth worker)))
                      (num_mul (sw_errorWeight weights) (scoreErrors worker)))
             (num_mul (sw_drainWeight weights) (scoreDrain worker))"

text \<open>The loop keeps the best score, \<open>None\<close> standing for \<open>-Infinity\<close> with no worker.\<close>

fun select_loop ::
  "SelectionWeights \<Rightarrow> PrefixAffinityResult option \<Rightarrow>
   (rat \<times> RouterWorkerState \<times> PrefixAffinityResult option \<times> rat) option \<Rightarrow>
   RouterWorkerState list \<Rightarrow>
   (rat \<times> RouterWorkerState \<times> PrefixAffinityResult option \<times> rat) option" where
  "select_loop weights bestAffinity best [] = best"
| "select_loop weights bestAffinity best (worker # ws) =
     (let load = scoreLoad worker;
          workerAffinity = (case bestAffinity of
              None \<Rightarrow> None
            | Some a \<Rightarrow> if pa_workerId a = rw_workerId worker then Some a else None);
          affinityBonus = (case workerAffinity of None \<Rightarrow> 0 | Some a \<Rightarrow> pa_affinityScore a);
          composite = num_add (base_score weights worker) affinityBonus;
          better = (case best of None \<Rightarrow> True | Some (bestScore, _) \<Rightarrow> composite > bestScore)
      in select_loop weights bestAffinity
           (if better then Some (composite, worker, workerAffinity, load) else best) ws)"

definition selectWorker :: "SelectionInput \<Rightarrow> SelectionError + SelectionOutput" where
  "selectWorker input =
     (let weights = nullish (si_weights input) DEFAULT_SELECTION_WEIGHTS;
          eligibleWorkers = si_eligibleWorkers input
      in if length eligibleWorkers = 0 then Inl NoEligibleWorkerError
         else if \<not> list_ex (\<lambda>w. si_envelopes input (rw_workerId w) \<noteq> None) eligibleWorkers
         then Inl NoEligibleWorkerError
         else
           let bestAffinity = (case si_prefixDigest input of
                   None \<Rightarrow> None
                 | Some d \<Rightarrow> getBestAffinity d (si_kvIndex input)
                     (List.map rw_workerId eligibleWorkers) weights)
           in (case select_loop weights bestAffinity None eligibleWorkers of
                 None \<Rightarrow> Inl NoEligibleWorkerError
               | Some (bestScore, bestWorker, bestAffinityResult, bestLoadScore) \<Rightarrow>
                   Inr \<lparr>so_workerId = rw_workerId bestWorker,
                        so_reason = (case bestAffinityResult of
                            Some a \<Rightarrow> ''affinity_'' @ pa_workerId a
                          | None \<Rightarrow> ''lowest_load''),
                        so_affinity = bestAffinityResult,
                        so_loadScore = bestLoadScore\<rparr>))"

definition scoreWorker ::
  "RouterWorkerState \<Rightarrow> PrefixAffinityResult option \<Rightarrow> SelectionWeights \<Rightarrow> rat" where
  "scoreWorker worker affinity weights =
     (let affinityBonus = (case affinity of
            None \<Rightarrow> 0 | Some a \<Rightarrow> computeAffinityScore a weights)
      in num_add (base_score weights worker) affinityBonus)"

section \<open>Failover\<close>

datatype FailoverPolicy = fail_after_first_output | retry_before_output | retry_idempotent

definition detectWorkerFailure :: "RouterWorkerState \<Rightarrow> bool" where
  "detectWorkerFailure worker =
     (if \<not> rw_healthy worker then True
      else if \<not> rw_ready worker then True
      else if rw_lastError worker \<noteq> None then True
      else False)"

definition failover_load :: "RouterWorkerState \<Rightarrow> rat" where
  "failover_load w =
     num_div (of_int (rw_activeRequests w)) (of_int (max (rw_maxConcurrentRequests w) 1))"

definition failover_candidates ::
  "string \<Rightarrow> RouterWorkerState list \<Rightarrow> RouterWorkerState list" where
  "failover_candidates failedWorkerId eligibleWorkers =
     List.filter (\<lambda>w. rw_workerId w \<noteq> failedWorkerId \<and> \<not> rw_draining w \<and> rw_healthy w \<and> rw_ready w \<and>
       rw_activeRequests w < rw_maxConcurrentRequests w) eligibleWorkers"

definition selectFailoverWorker ::
  "string \<Rightarrow> RouterWorkerState list \<Rightarrow> RouterWorkerState option" where
  "selectFailoverWorker failedWorkerId eligibleWorkers =
     (case failover_candidates failedWorkerId eligibleWorkers of
        [] \<Rightarrow> None
      | c # cs \<Rightarrow> Some (reduce_best
          (\<lambda>candidate best. failover_load candidate < failover_load best) c cs))"

section \<open>Routes and retries\<close>

datatype RouteOutcome = RO_completed | RO_failed | RO_retried | RO_cancelled

record RouteRecord =
  rt_routeId :: string
  rt_requestId :: string
  rt_selectedWorkerId :: string
  rt_candidateWorkerIds :: "string list"
  rt_selectionReason :: string
  rt_prefixAffinitySummary :: string
  rt_loadSummary :: string
  rt_retryCount :: int
  rt_traceContext :: "string option"
  rt_createdAt :: timestamp
  rt_completedAt :: "timestamp option"
  rt_outcome :: RouteOutcome

text \<open>The module counter is part of the state the constructor reads and advances.\<close>

definition createRouteRecord ::
  "millis \<Rightarrow> string \<Rightarrow> string \<Rightarrow> string list \<Rightarrow> int \<Rightarrow> int \<times> RouteRecord" where
  "createRouteRecord now requestId selectedWorkerId candidates routeIdCounter =
     (let routeIdCounter' = routeIdCounter + 1
      in (routeIdCounter',
          \<lparr>rt_routeId = ''route_'' @ show_int routeIdCounter',
           rt_requestId = requestId,
           rt_selectedWorkerId = selectedWorkerId,
           rt_candidateWorkerIds = candidates,
           rt_selectionReason = [],
           rt_prefixAffinitySummary = [],
           rt_loadSummary = [],
           rt_retryCount = 0,
           rt_traceContext = None,
           rt_createdAt = Iso now,
           rt_completedAt = None,
           rt_outcome = RO_retried\<rparr>))"

definition completeRouteRecord :: "millis \<Rightarrow> RouteRecord \<Rightarrow> RouteOutcome \<Rightarrow> RouteRecord" where
  "completeRouteRecord now record1 outcome =
     record1\<lparr>rt_outcome := outcome, rt_completedAt := Some (Iso now)\<rparr>"

definition addRetry :: "RouteRecord \<Rightarrow> RouteRecord" where
  "addRetry record1 =
     record1\<lparr>rt_retryCount := rt_retryCount record1 + 1, rt_outcome := RO_retried,
             rt_completedAt := None\<rparr>"

definition count_outcome :: "RouteOutcome \<Rightarrow> RouteRecord list \<Rightarrow> int" where
  "count_outcome oc records = int (length (List.filter (\<lambda>r. rt_outcome r = oc) records))"

definition getRouteSummary :: "RouteRecord list \<Rightarrow> string" where
  "getRouteSummary records =
     (let totalRetries = foldl (\<lambda>sum r. sum + rt_retryCount r) 0 records
      in ''routes='' @ show_int (int (length records)) @
         '' completed='' @ show_int (count_outcome RO_completed records) @
         '' failed='' @ show_int (count_outcome RO_failed records) @
         '' retried='' @ show_int (count_outcome RO_retried records) @
         '' cancelled='' @ show_int (count_outcome RO_cancelled records) @
         '' total_retries='' @ show_int totalRetries)"

definition createRetryRecord :: "millis \<Rightarrow> RouteRecord \<Rightarrow> string \<Rightarrow> RouteRecord" where
  "createRetryRecord now original newWorkerId =
     original\<lparr>rt_routeId := rt_routeId original @ ''-retry-'' @ show_int (rt_retryCount original + 1),
              rt_selectedWorkerId := newWorkerId,
              rt_retryCount := rt_retryCount original + 1,
              rt_outcome := RO_retried,
              rt_createdAt := Iso now,
              rt_completedAt := None\<rparr>"

definition isRetryAllowed :: "RouteRecord \<Rightarrow> int \<Rightarrow> bool" where
  "isRetryAllowed record1 maxRetries \<longleftrightarrow> rt_retryCount record1 < maxRetries"

datatype RetryAction = RA_retry | RA_fail | RA_redirect

record RetryDecision =
  rd_action :: RetryAction
  rd_reason :: string

definition getRetryDecision :: "RouteRecord \<Rightarrow> int \<Rightarrow> bool \<Rightarrow> bool \<Rightarrow> RetryDecision" where
  "getRetryDecision record1 maxRetries outputEmitted idempotent =
     (if \<not> isRetryAllowed record1 maxRetries then
        \<lparr>rd_action = RA_fail, rd_reason = ''Retry budget exhausted (retried '' @
           show_int (rt_retryCount record1) @ ''/'' @ show_int maxRetries @ '' times)''\<rparr>
      else if outputEmitted \<and> \<not> idempotent then
        \<lparr>rd_action = RA_fail, rd_reason =
           ''Output already emitted and request is non-idempotent; cannot retry safely''\<rparr>
      else if outputEmitted \<and> idempotent then
        \<lparr>rd_action = RA_retry, rd_reason =
           ''Output emitted but request is idempotent; safe to retry''\<rparr>
      else if rt_retryCount record1 = 0 then
        \<lparr>rd_action = RA_redirect, rd_reason =
           ''First attempt failed before output; redirect to another worker''\<rparr>
      else \<lparr>rd_action = RA_retry, rd_reason = ''Retry within budget and no output emitted''\<rparr>)"

definition canRetryRequest :: "RouteRecord \<Rightarrow> FailoverPolicy \<Rightarrow> bool \<Rightarrow> bool" where
  "canRetryRequest record1 policy outputEmitted = (case policy of
     fail_after_first_output \<Rightarrow> \<not> outputEmitted
   | retry_before_output \<Rightarrow> \<not> outputEmitted
   | retry_idempotent \<Rightarrow> True)"

definition shouldFailVisibly :: "FailoverPolicy \<Rightarrow> bool \<Rightarrow> bool" where
  "shouldFailVisibly policy outputEmitted =
     (if \<not> outputEmitted then False
      else if policy = fail_after_first_output then True
      else if policy = retry_before_output then False
      else if policy = retry_idempotent then False
      else True)"

section \<open>Lemmas\<close>

subsection \<open>Consecutive runs\<close>

definition is_run :: "int set \<Rightarrow> int \<Rightarrow> bool" where
  "is_run A k \<longleftrightarrow> 0 \<le> k \<and> (\<exists>s. {s..<s + k} \<subseteq> A)"

text \<open>The state of the loop after the numbers \<open>A\<close>, the last of which was \<open>prev\<close>.\<close>

definition run_state :: "int set \<Rightarrow> int \<Rightarrow> int \<Rightarrow> int \<Rightarrow> bool" where
  "run_state A prev cur longest \<longleftrightarrow>
     prev \<in> A \<and> (\<forall>a\<in>A. a \<le> prev) \<and> 1 \<le> cur \<and> {prev - cur + 1..prev} \<subseteq> A \<and> prev - cur \<notin> A \<and>
     cur \<le> longest \<and> is_run A longest \<and> (\<forall>k. is_run A k \<longrightarrow> k \<le> longest)"

text \<open>A run in \<open>insert s A\<close>, with \<open>s\<close> above \<open>A\<close>, lies in \<open>A\<close> or ends at \<open>s\<close>.\<close>

lemma run_insert_cases:
  assumes "\<forall>a\<in>A. a < s" and "is_run (insert s A) k"
  shows "is_run A k \<or> {s - k + 1..s - 1} \<subseteq> A \<and> 1 \<le> k"
proof -
  from assms(2) obtain b where k: "0 \<le> k" and b: "{b..<b + k} \<subseteq> insert s A"
    by (auto simp: is_run_def)
  show ?thesis
  proof (cases "s \<in> {b..<b + k}")
    case False
    with b have "{b..<b + k} \<subseteq> A" by blast
    with k show ?thesis unfolding is_run_def by blast
  next
    case True
    have "b + k - 1 \<le> s"
    proof -
      from True have "b + k - 1 \<in> {b..<b + k}" by auto
      with b have "b + k - 1 \<in> insert s A" by blast
      with assms(1) show ?thesis by fastforce
    qed
    with True have "b = s - k + 1" by simp
    with b have "{s - k + 1..s - 1} \<subseteq> A" by force
    with True show ?thesis by simp
  qed
qed

lemma run_state_next:
  assumes "run_state A prev cur longest" and "s = prev + 1"
  shows "run_state (insert s A) s (cur + 1) (if cur + 1 > longest then cur + 1 else longest)"
proof -
  from assms have A: "\<forall>a\<in>A. a < s" by (fastforce simp: run_state_def)
  have end_run: "k \<le> cur + 1" if "{s - k + 1..s - 1} \<subseteq> A" for k
  proof (rule ccontr)
    assume "\<not> k \<le> cur + 1"
    then have "prev - cur \<in> {s - k + 1..s - 1}" using assms by (auto simp: run_state_def)
    with that assms(1) show False by (auto simp: run_state_def)
  qed
  have "{s - (cur + 1) + 1..s} = insert s {prev - cur + 1..prev}"
    using assms by (auto simp: run_state_def)
  then have "{s - (cur + 1) + 1..s} \<subseteq> insert s A" using assms(1) by (auto simp: run_state_def)
  then have new: "is_run (insert s A) (cur + 1)"
    using assms(1) unfolding is_run_def run_state_def
    by (intro conjI exI [of _ "s - cur"]) (auto simp: subset_iff)
  have "is_run (insert s A) longest" using assms(1) unfolding is_run_def run_state_def by blast
  with new have isr: "is_run (insert s A) (if cur + 1 > longest then cur + 1 else longest)" by simp
  have "k \<le> (if cur + 1 > longest then cur + 1 else longest)" if "is_run (insert s A) k" for k
    using run_insert_cases [OF A that]
  proof
    assume "is_run A k"
    with assms(1) have "k \<le> longest" by (simp add: run_state_def)
    then show ?thesis by simp
  next
    assume "{s - k + 1..s - 1} \<subseteq> A \<and> 1 \<le> k"
    with end_run have "k \<le> cur + 1" by blast
    then show ?thesis by simp
  qed
  moreover have "\<forall>a\<in>insert s A. a \<le> s" using A by fastforce
  moreover have "s - (cur + 1) \<notin> insert s A" "1 \<le> cur + 1"
    using assms by (auto simp: run_state_def)
  ultimately show ?thesis
    using isr \<open>{s - (cur + 1) + 1..s} \<subseteq> insert s A\<close> unfolding run_state_def by simp
qed

lemma run_state_jump:
  assumes "run_state A prev cur longest" and "prev + 1 < s"
  shows "run_state (insert s A) s 1 longest"
proof -
  from assms have A: "\<forall>a\<in>A. a < s - 1" by (fastforce simp: run_state_def)
  have "k \<le> longest" if "is_run (insert s A) k" for k
  proof -
    from A have "\<forall>a\<in>A. a < s" by fastforce
    from run_insert_cases [OF this that] consider "is_run A k" | "{s - k + 1..s - 1} \<subseteq> A" "1 \<le> k"
      by blast
    then show ?thesis
    proof cases
      case 1
      with assms(1) show ?thesis by (simp add: run_state_def)
    next
      case 2
      have "k \<le> 1"
      proof (rule ccontr)
        assume "\<not> k \<le> 1"
        then have "s - 1 \<in> {s - k + 1..s - 1}" by simp
        with 2 A show False by blast
      qed
      with assms(1) show ?thesis by (simp add: run_state_def)
    qed
  qed
  moreover have "is_run (insert s A) longest"
    using assms(1) unfolding is_run_def run_state_def by blast
  moreover have "s - 1 \<notin> insert s A" using A by fastforce
  ultimately show ?thesis using assms A by (fastforce simp: run_state_def)
qed

lemma run_loop_correct:
  assumes "run_state A prev cur longest" and "sorted (prev # ss)"
  shows "is_run (A \<union> set ss) (run_loop prev cur longest ss) \<and>
    (\<forall>k. is_run (A \<union> set ss) k \<longrightarrow> k \<le> run_loop prev cur longest ss)"
  using assms
proof (induction ss arbitrary: A prev cur longest)
  case Nil
  then show ?case by (simp add: run_state_def)
next
  case (Cons s ss)
  from Cons.prems(2) have s: "prev \<le> s" "sorted (s # ss)" by simp_all
  have un: "A \<union> set (s # ss) = insert s A \<union> set ss" by simp
  consider "s = prev + 1" | "s = prev" | "prev + 1 < s" using s(1) by linarith
  then show ?case
  proof cases
    case 1
    from Cons.IH [OF run_state_next [OF Cons.prems(1) 1] s(2)] 1 show ?thesis
      unfolding un by simp
  next
    case 2
    with Cons.prems(1) have "insert s A = A" by (auto simp: run_state_def)
    with Cons.IH [of A s cur longest] Cons.prems(1) 2 s(2) show ?thesis unfolding un by simp
  next
    case 3
    from Cons.IH [OF run_state_jump [OF Cons.prems(1) 3] s(2)] 3 show ?thesis
      unfolding un by simp
  qed
qed

lemma run_state_single: "run_state {s} s 1 1"
proof -
  have "k \<le> 1" if "is_run {s} k" for k
  proof (rule ccontr)
    assume "\<not> k \<le> 1"
    from that obtain b where "{b..<b + k} \<subseteq> {s}" by (auto simp: is_run_def)
    moreover from \<open>\<not> k \<le> 1\<close> have "b \<in> {b..<b + k}" "b + 1 \<in> {b..<b + k}" by auto
    ultimately have "b = s" "b + 1 = s" by blast+
    then show False by simp
  qed
  moreover have "is_run {s} 1" unfolding is_run_def by (intro conjI exI [of _ s]) auto
  ultimately show ?thesis by (simp add: run_state_def)
qed

subsection \<open>The selector as a fold\<close>

definition worker_affinity ::
  "PrefixAffinityResult option \<Rightarrow> RouterWorkerState \<Rightarrow> PrefixAffinityResult option" where
  "worker_affinity best w = (case best of
     None \<Rightarrow> None | Some a \<Rightarrow> if pa_workerId a = rw_workerId w then Some a else None)"

definition composite ::
  "SelectionWeights \<Rightarrow> PrefixAffinityResult option \<Rightarrow> RouterWorkerState \<Rightarrow> rat" where
  "composite weights best w = num_add (base_score weights w)
     (case worker_affinity best w of None \<Rightarrow> 0 | Some a \<Rightarrow> pa_affinityScore a)"

definition choice ::
  "SelectionWeights \<Rightarrow> PrefixAffinityResult option \<Rightarrow> RouterWorkerState \<Rightarrow>
   rat \<times> RouterWorkerState \<times> PrefixAffinityResult option \<times> rat" where
  "choice weights best w = (composite weights best w, w, worker_affinity best w, scoreLoad w)"

lemma select_loop_fold:
  "select_loop weights best (Some (choice weights best w)) ws =
     Some (choice weights best
       (reduce_best (\<lambda>x z. - composite weights best x < - composite weights best z) w ws))"
proof (induction ws arbitrary: w)
  case (Cons v ws)
  have "select_loop weights best (Some (choice weights best w)) (v # ws) =
      select_loop weights best (Some (choice weights best
        (if - composite weights best v < - composite weights best w then v else w))) ws"
    by (simp add: choice_def composite_def worker_affinity_def Let_def)
  also have "\<dots> = Some (choice weights best
       (reduce_best (\<lambda>x z. - composite weights best x < - composite weights best z) w (v # ws)))"
    unfolding Cons.IH by simp
  finally show ?case .
qed simp

lemma select_loop_first:
  "select_loop weights best None (w # ws) = select_loop weights best (Some (choice weights best w)) ws"
  by (simp add: choice_def composite_def worker_affinity_def Let_def)

text \<open>The affinity the selector uses for a given input.\<close>

definition input_weights :: "SelectionInput \<Rightarrow> SelectionWeights" where
  "input_weights i = nullish (si_weights i) DEFAULT_SELECTION_WEIGHTS"

definition input_affinity :: "SelectionInput \<Rightarrow> PrefixAffinityResult option" where
  "input_affinity i = (case si_prefixDigest i of
     None \<Rightarrow> None
   | Some d \<Rightarrow> getBestAffinity d (si_kvIndex i) (List.map rw_workerId (si_eligibleWorkers i))
       (input_weights i))"

lemma reduce_best_split:
  fixes key :: "'a \<Rightarrow> 'k::linorder"
  shows "\<exists>pre post. b # xs = pre @ reduce_best (\<lambda>x z. key x < key z) b xs # post \<and>
    (\<forall>y\<in>set pre. key (reduce_best (\<lambda>x z. key x < key z) b xs) < key y) \<and>
    (\<forall>y\<in>set (b # xs). key (reduce_best (\<lambda>x z. key x < key z) b xs) \<le> key y)"
proof (cases "reduce_best (\<lambda>x z. key x < key z) b xs = b")
  case True
  have "\<forall>y\<in>set (b # xs). key (reduce_best (\<lambda>x z. key x < key z) b xs) \<le> key y"
    using reduce_best_least [where key = key] by simp
  with True show ?thesis by (intro exI [of _ "[]"] exI [of _ xs]) simp
next
  case False
  from reduce_best_first [OF this] obtain pre post where
    "xs = pre @ reduce_best (\<lambda>x z. key x < key z) b xs # post"
    "\<forall>y\<in>insert b (set pre). key (reduce_best (\<lambda>x z. key x < key z) b xs) < key y" by blast
  moreover have "\<forall>y\<in>set (b # xs). key (reduce_best (\<lambda>x z. key x < key z) b xs) \<le> key y"
    using reduce_best_least [where key = key] by simp
  ultimately show ?thesis by (intro exI [of _ "b # pre"] exI [of _ post]) simp
qed

section \<open>Properties\<close>

text \<open>
  C25: the selector fails exactly when there is no eligible worker or none of them has an envelope;
  otherwise it returns the first of the eligible workers whose composite score (rounded as in the
  code) is greatest: no worker scores higher and every earlier one scores lower.
\<close>

theorem selectWorker_optimal:
  "(selectWorker i = Inl NoEligibleWorkerError \<longleftrightarrow>
      (\<forall>w\<in>set (si_eligibleWorkers i). si_envelopes i (rw_workerId w) = None)) \<and>
   (\<forall>out. selectWorker i = Inr out \<longrightarrow>
      (\<exists>pre w post. si_eligibleWorkers i = pre @ w # post \<and> so_workerId out = rw_workerId w \<and>
         so_affinity out = worker_affinity (input_affinity i) w \<and> so_loadScore out = scoreLoad w \<and>
         (\<forall>v\<in>set pre. composite (input_weights i) (input_affinity i) v <
                       composite (input_weights i) (input_affinity i) w) \<and>
         (\<forall>v\<in>set (si_eligibleWorkers i). composite (input_weights i) (input_affinity i) v \<le>
                       composite (input_weights i) (input_affinity i) w)))"
proof (cases "si_eligibleWorkers i")
  case Nil
  then show ?thesis by (simp add: selectWorker_def Let_def)
next
  case (Cons b ws)
  let ?c = "composite (input_weights i) (input_affinity i)"
  let ?w = "reduce_best (\<lambda>x z. - ?c x < - ?c z) b ws"
  have loop: "select_loop (input_weights i) (input_affinity i) None (si_eligibleWorkers i) =
      Some (choice (input_weights i) (input_affinity i) ?w)"
    unfolding Cons select_loop_first select_loop_fold ..
  have sel: "selectWorker i =
      (if \<not> list_ex (\<lambda>w. si_envelopes i (rw_workerId w) \<noteq> None) (si_eligibleWorkers i)
       then Inl NoEligibleWorkerError
       else Inr \<lparr>so_workerId = rw_workerId ?w,
                 so_reason = (case worker_affinity (input_affinity i) ?w of
                    Some a \<Rightarrow> ''affinity_'' @ pa_workerId a | None \<Rightarrow> ''lowest_load''),
                 so_affinity = worker_affinity (input_affinity i) ?w,
                 so_loadScore = scoreLoad ?w\<rparr>)"
    using loop unfolding selectWorker_def Let_def input_weights_def [symmetric]
      input_affinity_def [symmetric] choice_def by (simp add: Cons)
  obtain pre post where "b # ws = pre @ ?w # post" "\<forall>y\<in>set pre. - ?c ?w < - ?c y"
    "\<forall>y\<in>set (b # ws). - ?c ?w \<le> - ?c y"
    using reduce_best_split [of b ws "\<lambda>w. - ?c w"] by blast
  then have best: "si_eligibleWorkers i = pre @ ?w # post" "\<forall>y\<in>set pre. ?c y < ?c ?w"
    "\<forall>y\<in>set (si_eligibleWorkers i). ?c y \<le> ?c ?w"
    unfolding Cons by simp_all
  show ?thesis
  proof (intro conjI allI impI)
    show "selectWorker i = Inl NoEligibleWorkerError \<longleftrightarrow>
      (\<forall>w\<in>set (si_eligibleWorkers i). si_envelopes i (rw_workerId w) = None)"
      unfolding sel by (simp add: list_ex_iff)
    fix out
    assume "selectWorker i = Inr out"
    then have out: "so_workerId out = rw_workerId ?w"
      "so_affinity out = worker_affinity (input_affinity i) ?w" "so_loadScore out = scoreLoad ?w"
      unfolding sel by (auto split: if_splits)
    show "\<exists>pre w post. si_eligibleWorkers i = pre @ w # post \<and> so_workerId out = rw_workerId w \<and>
         so_affinity out = worker_affinity (input_affinity i) w \<and> so_loadScore out = scoreLoad w \<and>
         (\<forall>v\<in>set pre. ?c v < ?c w) \<and> (\<forall>v\<in>set (si_eligibleWorkers i). ?c v \<le> ?c w)"
      using out best by (intro exI [of _ pre] exI [of _ ?w] exI [of _ post]) simp
  qed
qed

definition sample_input :: SelectionInput where
  "sample_input = \<lparr>si_eligibleWorkers = [sample_worker], si_prefixDigest = None, si_kvIndex = [],
     si_envelopes = [''w1'' \<mapsto> createCompatibilityEnvelope ''w1'' ''i1'' ''m'' ''t'' ''llama/8b''],
     si_weights = None, si_dharmaLeaseId = None\<rparr>"

theorem selectWorker_optimal_witness:
  "\<exists>out. selectWorker sample_input = Inr out \<and> so_workerId out = ''w1''"
proof -
  have "selectWorker sample_input \<noteq> Inl NoEligibleWorkerError"
    using selectWorker_optimal [of sample_input] by (simp add: sample_input_def sample_worker_def)
  then obtain out where out: "selectWorker sample_input = Inr out"
    by (metis SelectionError.exhaust sum.exhaust)
  with selectWorker_optimal [of sample_input] obtain pre w post where
    "si_eligibleWorkers sample_input = pre @ w # post" "so_workerId out = rw_workerId w" by blast
  then have "so_workerId out = ''w1''"
    by (auto simp: sample_input_def sample_worker_def Cons_eq_append_conv)
  with out show ?thesis by blast
qed

text \<open>
  The consecutive-run loop computes the length of the longest block of consecutive sequence
  numbers: such a block of that length is present and no longer one is, duplicates not counted
  twice.
\<close>

theorem longest_run_correct:
  assumes "xs \<noteq> []"
  shows "is_run (set xs) (longestRun_of (sort xs)) \<and>
    (\<forall>k. is_run (set xs) k \<longrightarrow> k \<le> longestRun_of (sort xs))"
proof -
  from assms have "sort xs \<noteq> []" by (metis length_0_conv length_sort)
  then obtain s ss where s: "sort xs = s # ss" by (cases "sort xs") auto
  then have "sorted (s # ss)" by (metis sorted_sort)
  from run_loop_correct [OF run_state_single this]
  have "is_run ({s} \<union> set ss) (run_loop s 1 1 ss) \<and>
      (\<forall>k. is_run ({s} \<union> set ss) k \<longrightarrow> k \<le> run_loop s 1 1 ss)" .
  moreover have "{s} \<union> set ss = set xs" using s by (metis insert_is_Un list.simps(15) set_sort)
  ultimately show ?thesis by (simp add: longestRun_of_def s)
qed

theorem longest_run_correct_witness:
  "is_run (set [7, 3, 4, 4, 9, 5]) (longestRun_of (sort [7, 3, 4, 4, 9, 5])) \<and>
   longestRun_of (sort [7, 3, 4, 4, 9, 5]) = 3"
  using longest_run_correct [of "[7, 3, 4, 4, 9, 5]"] by (simp add: longestRun_of_def)

text \<open>
  The scores of a worker lie between 0 and 1 when its active requests lie between 0 and its
  maximum, an idle worker has load 0, and the load score never decreases when requests are added.
\<close>

theorem scores_in_unit_interval:
  assumes "0 \<le> rw_activeRequests w" and "rw_activeRequests w \<le> rw_maxConcurrentRequests w"
  shows "0 \<le> scoreLoad w \<and> scoreLoad w \<le> 1 \<and> 0 \<le> getLoadHeadroom w \<and> getLoadHeadroom w \<le> 1 \<and>
    0 \<le> scoreHealth w \<and> scoreHealth w \<le> 1 \<and> 0 \<le> scoreErrors w \<and> scoreErrors w \<le> 1 \<and>
    0 \<le> scoreDrain w \<and> scoreDrain w \<le> 1 \<and>
    (rw_activeRequests w \<le> n \<longrightarrow> scoreLoad w \<le> scoreLoad (w\<lparr>rw_activeRequests := n\<rparr>)) \<and>
    (0 < rw_maxConcurrentRequests w \<longrightarrow> scoreLoad (w\<lparr>rw_activeRequests := 0\<rparr>) = 0)"
proof (intro conjI)
  have "0 \<le> fl (3 / 10)" "fl (3 / 10) \<le> 1" by (simp_all add: fl_nonneg fl_le_1)
  then show "0 \<le> scoreHealth w" "scoreHealth w \<le> 1" by (simp_all add: scoreHealth_def)
  show "0 \<le> scoreErrors w" "scoreErrors w \<le> 1"
    by (simp_all add: scoreErrors_def num_div_def fl_nonneg split: option.splits)
  show "0 \<le> scoreDrain w" "scoreDrain w \<le> 1" by (simp_all add: scoreDrain_def)
  show "0 \<le> scoreLoad w" "scoreLoad w \<le> 1"
    using assms num_div_unit [of "of_int (rw_activeRequests w)" "of_int (rw_maxConcurrentRequests w)"]
    by (simp_all add: scoreLoad_def)
  show "0 \<le> getLoadHeadroom w" by (simp add: getLoadHeadroom_def)
  show "getLoadHeadroom w \<le> 1"
    using assms num_div_unit [of "of_int (rw_maxConcurrentRequests w - rw_activeRequests w)"
        "of_int (rw_maxConcurrentRequests w)"]
    by (simp add: getLoadHeadroom_def)
  show "rw_activeRequests w \<le> n \<longrightarrow> scoreLoad w \<le> scoreLoad (w\<lparr>rw_activeRequests := n\<rparr>)"
    by (simp add: scoreLoad_def num_div_mono)
  show "0 < rw_maxConcurrentRequests w \<longrightarrow> scoreLoad (w\<lparr>rw_activeRequests := 0\<rparr>) = 0"
    by (simp add: scoreLoad_def num_div_def)
qed

theorem scores_in_unit_interval_witness: "0 \<le> scoreLoad sample_worker \<and> scoreLoad sample_worker \<le> 1"
  using scores_in_unit_interval [of sample_worker] by (simp add: sample_worker_def)

text \<open>
  \<open>computeAffinityScore\<close> recomputes the score a prefix affinity already carries, and
  \<open>scoreWorker\<close> gives a worker the same composite score as the selector does.
\<close>

theorem affinity_scores_agree:
  assumes "computePrefixAffinity wid d index weights = Inr a"
  shows "computeAffinityScore a weights = pa_affinityScore a \<and> pa_workerId a = wid \<and>
    scoreWorker w (worker_affinity (Some a) w) weights = composite weights (Some a) w"
proof -
  have *: "computeAffinityScore a weights = pa_affinityScore a" "pa_workerId a = wid"
    using assms by (auto simp: computePrefixAffinity_def computeAffinityScore_def Let_def
        split: if_splits)
  then show ?thesis by (simp add: scoreWorker_def composite_def worker_affinity_def)
qed

theorem affinity_scores_agree_witness:
  "\<exists>a. computePrefixAffinity ''w1'' ''p''
      [\<lparr>ix_workerId = ''w1'', ix_prefixDigest = ''p'', ix_sequenceNumber = 5, ix_state = ''stored'',
        ix_timestamp = Unparsed []\<rparr>] DEFAULT_SELECTION_WEIGHTS = Inr a \<and>
     computeAffinityScore a DEFAULT_SELECTION_WEIGHTS = pa_affinityScore a"
proof -
  obtain a where a: "computePrefixAffinity ''w1'' ''p''
      [\<lparr>ix_workerId = ''w1'', ix_prefixDigest = ''p'', ix_sequenceNumber = 5, ix_state = ''stored'',
        ix_timestamp = Unparsed []\<rparr>] DEFAULT_SELECTION_WEIGHTS = Inr a"
    by (simp add: computePrefixAffinity_def Let_def)
  with affinity_scores_agree [OF a] show ?thesis by blast
qed

text \<open>
  Failover picks, among the candidates other than the failed worker that are healthy, ready,
  not draining and below capacity, the first one of least load ratio, and finds none exactly when
  there is no such candidate.
\<close>

theorem failover_least_loaded:
  "(selectFailoverWorker k ws = None \<longleftrightarrow> failover_candidates k ws = []) \<and>
   (\<forall>w. selectFailoverWorker k ws = Some w \<longrightarrow>
      w \<in> set ws \<and> rw_workerId w \<noteq> k \<and> rw_healthy w \<and> rw_ready w \<and> \<not> rw_draining w \<and>
      rw_activeRequests w < rw_maxConcurrentRequests w \<and>
      (\<forall>v\<in>set (failover_candidates k ws). failover_load w \<le> failover_load v))"
proof (cases "failover_candidates k ws")
  case Nil
  then show ?thesis by (simp add: selectFailoverWorker_def)
next
  case (Cons c cs)
  let ?w = "reduce_best (\<lambda>x z. failover_load x < failover_load z) c cs"
  have w: "selectFailoverWorker k ws = Some ?w" by (simp add: selectFailoverWorker_def Cons)
  have "?w \<in> set (failover_candidates k ws)" unfolding Cons using reduce_best_in by simp
  then have "?w \<in> set ws \<and> rw_workerId ?w \<noteq> k \<and> rw_healthy ?w \<and> rw_ready ?w \<and> \<not> rw_draining ?w \<and>
      rw_activeRequests ?w < rw_maxConcurrentRequests ?w"
    by (simp add: failover_candidates_def)
  moreover have "\<forall>v\<in>set (failover_candidates k ws). failover_load ?w \<le> failover_load v"
    unfolding Cons using reduce_best_least [where key = failover_load] by simp
  ultimately show ?thesis using w Cons by auto
qed

theorem failover_least_loaded_witness:
  "\<exists>w. selectFailoverWorker ''w2'' [sample_worker] = Some w \<and> rw_workerId w \<noteq> ''w2''"
proof -
  have "selectFailoverWorker ''w2'' [sample_worker] = Some sample_worker"
    by (simp add: selectFailoverWorker_def failover_candidates_def sample_worker_def)
  with failover_least_loaded [of "''w2''" "[sample_worker]"] show ?thesis by blast
qed

text \<open>
  A request is retried or redirected only within its budget and never after output unless it is
  idempotent, and following retries consumes the budget; the failover policy leaves one case open,
  in which the request is neither retried nor failed visibly: \<open>retry_before_output\<close> after output.
\<close>

theorem retry_decisions_sound:
  "(rd_action (getRetryDecision r m emitted idem) \<noteq> RA_fail \<longleftrightarrow>
      rt_retryCount r < m \<and> (\<not> emitted \<or> idem)) \<and>
   (rd_action (getRetryDecision r m emitted idem) = RA_redirect \<longleftrightarrow>
      rt_retryCount r < m \<and> \<not> emitted \<and> rt_retryCount r = 0) \<and>
   rt_retryCount (createRetryRecord now r w) = rt_retryCount r + 1 \<and>
   rt_retryCount (addRetry r) = rt_retryCount r + 1 \<and>
   {(p, e). \<not> canRetryRequest r p e \<and> \<not> shouldFailVisibly p e} = {(retry_before_output, True)}"
proof -
  have "\<not> canRetryRequest r p e \<and> \<not> shouldFailVisibly p e \<longleftrightarrow> p = retry_before_output \<and> e" for p e
    by (cases p) (auto simp: canRetryRequest_def shouldFailVisibly_def)
  then show ?thesis
    by (auto simp: getRetryDecision_def isRetryAllowed_def createRetryRecord_def addRetry_def)
qed

theorem retry_decisions_sound_witness:
  "rd_action (getRetryDecision (snd (createRouteRecord 0 ''q'' ''w'' [] 0)) 2 False False) = RA_redirect"
  using retry_decisions_sound [of "snd (createRouteRecord 0 ''q'' ''w'' [] 0)" 2 False False]
  by (simp add: createRouteRecord_def Let_def)

end
