(* ===== verification/Kv_Replay.thy ===== *)
theory Kv_Replay imports Router_Selection begin

text \<open>
  Ordered, bounded logs of KV events: events and batches of a worker (\<open>serving/kv-events.ts\<close>), its
  replay buffer (\<open>kv-event-replay.ts\<close>), and the index of the router with its replay functions
  (\<open>multi_worker/kv-index.ts\<close>, \<open>kv-index-replay.ts\<close>).  Both logs append an entry and then shift
  while they are too long; \<open>bounded_log\<close> states what such a log promises.
\<close>

section \<open>The shift loop\<close>

text \<open>
  \<open>while (next.length > maxSize) next.shift()\<close>.  Shifting an empty array leaves it empty, so the loop
  does not end for a negative bound: \<open>None\<close>.
\<close>

partial_function (option) shift_loop :: "int \<Rightarrow> 'a list \<Rightarrow> 'a list option" where
  "shift_loop maxSize xs =
     (if int (length xs) > maxSize then shift_loop maxSize (tl xs) else Some xs)"

declare shift_loop.simps [code]

lemma shift_loop_returns:
  "0 \<le> maxSize \<Longrightarrow> shift_loop maxSize xs = Some (drop (length xs - nat maxSize) xs)"
proof (induction xs)
  case Nil
  then show ?case by (simp add: shift_loop.simps)
next
  case (Cons x xs)
  show ?case
  proof (cases "int (length (x # xs)) > maxSize")
    case True
    then have "length (x # xs) - nat maxSize = Suc (length xs - nat maxSize)" using Cons.prems by auto
    with True Cons show ?thesis by (simp add: shift_loop.simps [of maxSize "x # xs"])
  next
    case False
    then show ?thesis by (simp add: shift_loop.simps [of maxSize "x # xs"])
  qed
qed

lemma shift_loop_diverges:
  assumes "maxSize < 0"
  shows "shift_loop maxSize xs = None"
proof (cases "shift_loop maxSize xs")
  case (Some ys)
  then have "\<not> maxSize < 0"
    by (rule shift_loop.raw_induct [rotated]) (fastforce split: if_splits)
  with assms show ?thesis by contradiction
qed

section \<open>Bounded logs\<close>

locale bounded_log =
  fixes add :: "'b list \<Rightarrow> 'e \<Rightarrow> int \<Rightarrow> 'b list option"
    and stamp :: "'b list \<Rightarrow> 'e \<Rightarrow> 'b"
  assumes add_law: "0 \<le> m \<Longrightarrow>
      add buf e m = Some (drop (Suc (length buf) - nat m) (buf @ [stamp buf e]))"
    and add_diverges: "m < 0 \<Longrightarrow> add buf e m = None"
begin

lemma add_total: "(\<exists>buf'. add buf e m = Some buf') \<longleftrightarrow> 0 \<le> m"
  using add_law [of m buf e] add_diverges [of m buf e] by (cases "0 \<le> m") auto

lemma add_bounded: "add buf e m = Some buf' \<Longrightarrow> int (length buf') \<le> m"
  using add_law [of m buf e] add_diverges [of m buf e] by (cases "0 \<le> m") auto

lemma add_keeps_newest: "0 < m \<Longrightarrow> add buf e m = Some buf' \<Longrightarrow> buf' \<noteq> [] \<and> last buf' = stamp buf e"
proof -
  assume m: "0 < m" and a: "add buf e m = Some buf'"
  then have "Suc (length buf) - nat m \<le> length buf" by simp
  with add_law [of m buf e] m a show ?thesis by simp
qed

lemma add_suffix: "add buf e m = Some buf' \<Longrightarrow> \<exists>dropped. buf @ [stamp buf e] = dropped @ buf'"
proof -
  assume a: "add buf e m = Some buf'"
  then have "0 \<le> m" using add_total by blast
  from add_law [OF this, of buf e] a
  have "buf @ [stamp buf e] = take (Suc (length buf) - nat m) (buf @ [stamp buf e]) @ buf'"
    by (metis append_take_drop_id option.inject)
  then show ?thesis by blast
qed

text \<open>Adding one entry after another.\<close>

fun add_all :: "'b list \<Rightarrow> 'e list \<Rightarrow> int \<Rightarrow> 'b list option" where
  "add_all buf [] m = Some buf"
| "add_all buf (e # es) m = (case add buf e m of None \<Rightarrow> None | Some buf' \<Rightarrow> add_all buf' es m)"

lemma add_all_snoc:
  "add_all buf (es @ [e]) m = (case add_all buf es m of None \<Rightarrow> None | Some buf' \<Rightarrow> add buf' e m)"
  by (induction es arbitrary: buf) (auto split: option.splits)

end

section \<open>Events and batches\<close>

datatype KvEventState =
  KE_stored | KE_touched | KE_reused | KE_evicted | KE_invalidated | KE_released

datatype ResidencyLocation = device_local | unified_memory | host_memory | durable_local_cache

record PrismKvEvent =
  ke_eventId :: string
  ke_eventVersion :: int
  ke_workerId :: string
  ke_workerInstanceId :: string
  ke_modelArtifactDigest :: string
  ke_tokenizerDigest :: string
  ke_requestNamespace :: string
  ke_prefixDigest :: string
  ke_kvNamespaceId :: string
  ke_localityKey :: string
  ke_residencyLocation :: ResidencyLocation
  ke_residencyTier :: string
  ke_byteCount :: int
  ke_tokenCount :: "int option"
  ke_state :: KvEventState
  ke_emittedAt :: timestamp

record PrismKvEventBatch =
  kb_workerId :: string
  kb_sequenceNumber :: int
  kb_emittedAt :: timestamp
  kb_events :: "PrismKvEvent list"

record CreateKvEventConfig =
  kc_workerId :: string
  kc_instanceId :: string
  kc_modelDigest :: string
  kc_tokenizerDigest :: string
  kc_prefixDigest :: string
  kc_namespaceId :: string
  kc_location :: ResidencyLocation
  kc_tier :: string
  kc_bytes :: int
  kc_tokens :: "int option"
  kc_state :: KvEventState

definition createKvEvent :: "millis \<Rightarrow> string \<Rightarrow> CreateKvEventConfig \<Rightarrow> PrismKvEvent" where
  "createKvEvent now uuid config =
     \<lparr>ke_eventId = uuid,
      ke_eventVersion = 1,
      ke_workerId = kc_workerId config,
      ke_workerInstanceId = kc_instanceId config,
      ke_modelArtifactDigest = kc_modelDigest config,
      ke_tokenizerDigest = kc_tokenizerDigest config,
      ke_requestNamespace = kc_namespaceId config,
      ke_prefixDigest = kc_prefixDigest config,
      ke_kvNamespaceId = kc_namespaceId config @ ''::'' @ kc_prefixDigest config,
      ke_localityKey = kc_workerId config @ '':'' @ kc_instanceId config @ '':'' @ kc_prefixDigest config,
      ke_residencyLocation = kc_location config,
      ke_residencyTier = kc_tier config,
      ke_byteCount = kc_bytes config,
      ke_tokenCount = kc_tokens config,
      ke_state = kc_state config,
      ke_emittedAt = Iso now\<rparr>"

definition createKvEventBatch :: "millis \<Rightarrow> string \<Rightarrow> PrismKvEvent list \<Rightarrow> PrismKvEventBatch" where
  "createKvEventBatch now workerId events =
     \<lparr>kb_workerId = workerId, kb_sequenceNumber = 0, kb_emittedAt = Iso now, kb_events = events\<rparr>"

text \<open>
  The tests of the types, of the state and of the location hold of every value of the declared
  types; what remains are the tests of the contents.
\<close>

definition isKvEventValid :: "PrismKvEvent \<Rightarrow> bool" where
  "isKvEventValid event =
     (if \<not> truthy (ke_eventId event) then False
      else if ke_eventVersion event < 1 then False
      else if \<not> truthy (ke_workerId event) then False
      else if \<not> truthy (ke_workerInstanceId event) then False
      else if \<not> truthy (ke_modelArtifactDigest event) then False
      else if \<not> truthy (ke_tokenizerDigest event) then False
      else if \<not> truthy (ke_requestNamespace event) then False
      else if \<not> truthy (ke_prefixDigest event) then False
      else if \<not> truthy (ke_kvNamespaceId event) then False
      else if \<not> truthy (ke_localityKey event) then False
      else if \<not> truthy (ke_residencyTier event) then False
      else if ke_byteCount event < 0 then False
      else if (case ke_tokenCount event of None \<Rightarrow> False | Some n \<Rightarrow> n < 0) then False
      else if \<not> ts_truthy (ke_emittedAt event) then False
      else True)"

section \<open>The replay buffer\<close>

definition next_sequence :: "PrismKvEventBatch list \<Rightarrow> int" where
  "next_sequence buffer =
     (if length buffer > 0 then kb_sequenceNumber (last buffer) + 1 else 1)"

definition addToReplayBuffer ::
  "PrismKvEventBatch list \<Rightarrow> PrismKvEventBatch \<Rightarrow> int \<Rightarrow> PrismKvEventBatch list option" where
  "addToReplayBuffer buffer batch maxSize =
     (let nextSeq = next_sequence buffer;
          stamped = batch\<lparr>kb_sequenceNumber := nextSeq\<rparr>;
          nxt = buffer @ [stamped]
      in shift_loop maxSize nxt)"

definition getEventsAfter :: "PrismKvEventBatch list \<Rightarrow> int \<Rightarrow> PrismKvEventBatch list" where
  "getEventsAfter buffer sequence = List.filter (\<lambda>b. kb_sequenceNumber b > sequence) buffer"

definition getLatestSequence :: "PrismKvEventBatch list \<Rightarrow> int" where
  "getLatestSequence buffer = (if length buffer = 0 then 0 else kb_sequenceNumber (last buffer))"

record GapResult =
  gr_hasGap :: bool
  gr_missingSequences :: "int list"

definition detectGap :: "PrismKvEventBatch list \<Rightarrow> int \<Rightarrow> GapResult" where
  "detectGap buffer expectedSequence =
     (if length buffer = 0 then
        \<lparr>gr_hasGap = True, gr_missingSequences = [expectedSequence]\<rparr>
      else
        let ordered = sort_key kb_sequenceNumber buffer;
            firstSeq = kb_sequenceNumber (hd ordered);
            lastSeq = kb_sequenceNumber (last ordered)
        in if expectedSequence < firstSeq then
             \<lparr>gr_hasGap = True, gr_missingSequences = [expectedSequence..firstSeq - 1]\<rparr>
           else if expectedSequence > lastSeq then
             \<lparr>gr_hasGap = True, gr_missingSequences = [expectedSequence]\<rparr>
           else
             let present = kb_sequenceNumber ` set ordered;
                 missing = List.filter (\<lambda>s. s \<notin> present) [expectedSequence..lastSeq]
             in \<lparr>gr_hasGap = length missing > 0, gr_missingSequences = missing\<rparr>)"

section \<open>The index of the router\<close>

definition createKvIndexEntry ::
  "millis \<Rightarrow> string \<Rightarrow> string \<Rightarrow> string \<Rightarrow> RouterKvIndexEntry" where
  "createKvIndexEntry now workerId prefixDigest state =
     \<lparr>ix_workerId = workerId, ix_prefixDigest = prefixDigest, ix_sequenceNumber = now,
      ix_state = state, ix_timestamp = Iso now\<rparr>"

definition addToIndex ::
  "RouterKvIndexEntry list \<Rightarrow> RouterKvIndexEntry \<Rightarrow> int \<Rightarrow> RouterKvIndexEntry list option" where
  "addToIndex index entry maxSize = shift_loop maxSize (index @ [entry])"

definition getEntriesForWorker :: "RouterKvIndexEntry list \<Rightarrow> string \<Rightarrow> RouterKvIndexEntry list" where
  "getEntriesForWorker index workerId = List.filter (\<lambda>e. ix_workerId e = workerId) index"

definition getLatestEntryForWorker ::
  "RouterKvIndexEntry list \<Rightarrow> string \<Rightarrow> RouterKvIndexEntry option" where
  "getLatestEntryForWorker index workerId =
     (case getEntriesForWorker index workerId of
        [] \<Rightarrow> None
      | e # es \<Rightarrow> Some (reduce_best
          (\<lambda>current latest. ix_sequenceNumber current > ix_sequenceNumber latest) e es))"

definition invalidateWorkerEntries ::
  "RouterKvIndexEntry list \<Rightarrow> string \<Rightarrow> RouterKvIndexEntry list" where
  "invalidateWorkerEntries index workerId =
     List.map (\<lambda>e. if ix_workerId e = workerId then e\<lparr>ix_state := ''evicted''\<rparr> else e) index"

definition getEntriesSince :: "RouterKvIndexEntry list \<Rightarrow> int \<Rightarrow> RouterKvIndexEntry list" where
  "getEntriesSince index sequence = List.filter (\<lambda>e. ix_sequenceNumber e > sequence) index"

fun missing_loop :: "int set \<Rightarrow> int list \<Rightarrow> int list \<Rightarrow> int list" where
  "missing_loop present missing [] = missing"
| "missing_loop present missing (seq # seqs) =
     missing_loop present (if seq \<notin> present then missing @ [seq] else missing) seqs"

definition detectIndexGap :: "RouterKvIndexEntry list \<Rightarrow> int list \<Rightarrow> GapResult" where
  "detectIndexGap index expectedSequences =
     (let missing = missing_loop (ix_sequenceNumber ` set index) [] expectedSequences
      in \<lparr>gr_hasGap = length missing > 0, gr_missingSequences = missing\<rparr>)"

record ReplayStatus =
  rs_total :: int
  rs_latestSequence :: int
  rs_oldestTimestamp :: "timestamp option"

definition getReplayStatus :: "RouterKvIndexEntry list \<Rightarrow> ReplayStatus" where
  "getReplayStatus index =
     (if length index = 0 then
        \<lparr>rs_total = 0, rs_latestSequence = 0, rs_oldestTimestamp = None\<rparr>
      else
        let ordered = sort_key ix_sequenceNumber index
        in \<lparr>rs_total = int (length index),
            rs_latestSequence = ix_sequenceNumber (last ordered),
            rs_oldestTimestamp = Some (ix_timestamp (hd ordered))\<rparr>)"

section \<open>Both are bounded logs\<close>

interpretation replay: bounded_log addToReplayBuffer
  "\<lambda>buf b. b\<lparr>kb_sequenceNumber := next_sequence buf\<rparr>"
  by unfold_locales (simp_all add: addToReplayBuffer_def shift_loop_returns shift_loop_diverges)

interpretation index_log: bounded_log addToIndex "\<lambda>buf e. e"
  by unfold_locales (simp_all add: addToIndex_def shift_loop_returns shift_loop_diverges)

text \<open>The numbers of a buffer after \<open>n\<close> batches: the last ones up to \<open>n\<close>.\<close>

definition contiguous :: "PrismKvEventBatch list \<Rightarrow> int \<Rightarrow> bool" where
  "contiguous buf n \<longleftrightarrow> List.map kb_sequenceNumber buf = [n - int (length buf) + 1..n]"

lemma contiguous_next: "contiguous buf n \<Longrightarrow> buf \<noteq> [] \<or> n = 0 \<Longrightarrow> next_sequence buf = n + 1"
proof (cases buf rule: rev_cases)
  case (snoc ys y)
  assume "contiguous buf n"
  then have "last (List.map kb_sequenceNumber buf) = last [n - int (length buf) + 1..n]"
    by (simp only: contiguous_def)
  with snoc show ?thesis by (simp add: next_sequence_def upto_rec2)
qed (simp add: next_sequence_def)

lemma drop_upto: "drop k [a..b] = [a + int k..b]"
proof (induction k arbitrary: a)
  case (Suc k)
  show ?case
  proof (cases "a \<le> b")
    case True
    then show ?thesis by (simp add: upto.simps [of a b] Suc add.assoc)
  qed simp
qed simp

lemma contiguous_add:
  assumes "contiguous buf n" and "buf \<noteq> [] \<or> n = 0" and "0 < m"
    and "addToReplayBuffer buf b m = Some buf'"
  shows "contiguous buf' (n + 1) \<and> buf' \<noteq> []"
proof -
  let ?b = "b\<lparr>kb_sequenceNumber := next_sequence buf\<rparr>"
  have b': "buf' = drop (Suc (length buf) - nat m) (buf @ [?b])"
    using replay.add_law [of m buf b] assms(3,4) by simp
  have "List.map kb_sequenceNumber (buf @ [?b]) = [n - int (length buf) + 1..n + 1]"
    using assms(1) contiguous_next [OF assms(1,2)]
    by (simp add: contiguous_def upto_rec2)
  then have "List.map kb_sequenceNumber buf' =
      [n - int (length buf) + 1 + int (Suc (length buf) - nat m)..n + 1]"
    unfolding b' by (simp only: drop_map [symmetric] drop_upto)
  moreover have "length buf' = Suc (length buf) - (Suc (length buf) - nat m)" unfolding b' by simp
  ultimately have "contiguous buf' (n + 1)" by (simp add: contiguous_def of_nat_diff algebra_simps)
  then show ?thesis using replay.add_keeps_newest [OF assms(3,4)] by blast
qed

lemma contiguous_sorted: "contiguous buf n \<Longrightarrow> sort_key kb_sequenceNumber buf = buf"
  by (rule sort_key_id_if_sorted) (simp add: contiguous_def)

lemma missing_loop_filter: "missing_loop A acc es = acc @ List.filter (\<lambda>s. s \<notin> A) es"
  by (induction es arbitrary: acc) auto

lemma replay_contiguous:
  "0 < m \<Longrightarrow> replay.add_all [] bs m = Some buf \<Longrightarrow>
     contiguous buf (int (length bs)) \<and> (buf \<noteq> [] \<or> bs = [])"
proof (induction bs arbitrary: buf rule: rev_induct)
  case Nil
  then show ?case by (simp add: contiguous_def)
next
  case (snoc b bs)
  then obtain buf0 where "replay.add_all [] bs m = Some buf0" "addToReplayBuffer buf0 b m = Some buf"
    by (auto simp: replay.add_all_snoc split: option.splits)
  with snoc contiguous_add [of buf0 "int (length bs)" m b buf] show ?case by (auto simp: algebra_simps)
qed

section \<open>Properties\<close>

text \<open>
  Both logs are bounded: adding returns exactly for a bound that is not negative (and runs
  forever otherwise), the result has at most that many entries, it is a suffix of the old log with
  the new entry, and for a positive bound the newest entry is kept.
\<close>

theorem logs_bounded:
  "((\<exists>buf'. addToReplayBuffer buf b m = Some buf') \<longleftrightarrow> 0 \<le> m) \<and>
   ((\<exists>ix'. addToIndex ix e m = Some ix') \<longleftrightarrow> 0 \<le> m) \<and>
   (\<forall>buf'. addToReplayBuffer buf b m = Some buf' \<longrightarrow> int (length buf') \<le> m \<and>
      (0 < m \<longrightarrow> last buf' = b\<lparr>kb_sequenceNumber := next_sequence buf\<rparr>)) \<and>
   (\<forall>ix'. addToIndex ix e m = Some ix' \<longrightarrow> int (length ix') \<le> m \<and>
      (\<exists>dropped. ix @ [e] = dropped @ ix') \<and> (0 < m \<longrightarrow> last ix' = e))"
  using replay.add_total [of buf b m] index_log.add_total [of ix e m]
    replay.add_bounded [of buf b m] index_log.add_bounded [of ix e m]
    replay.add_keeps_newest [of m buf b] index_log.add_keeps_newest [of m ix e]
    index_log.add_suffix [of ix e m]
  by blast

theorem logs_bounded_witness:
  "\<exists>ix'. addToIndex [] (createKvIndexEntry 7 ''w'' ''p'' ''stored'') 3 = Some ix' \<and>
     int (length ix') \<le> 3 \<and> last ix' = createKvIndexEntry 7 ''w'' ''p'' ''stored''"
proof -
  obtain ix' where ix': "addToIndex [] (createKvIndexEntry 7 ''w'' ''p'' ''stored'') 3 = Some ix'"
    by (simp add: addToIndex_def shift_loop_returns)
  with logs_bounded [where ix = "[]" and e = "createKvIndexEntry 7 ''w'' ''p'' ''stored''" and m = 3]
  show ?thesis by auto
qed

text \<open>
  A replay buffer with a positive bound that starts empty holds, after any number of batches,
  the consecutive sequence numbers up to that number; the latest sequence is the number of batches
  ever added, \<open>getEventsAfter\<close> returns exactly the batches after the given number, and
  \<open>detectGap\<close> reports for a number up to the latest exactly the numbers from there on that the
  buffer no longer holds.
\<close>

theorem replay_buffer_exact:
  assumes "0 < m" and "replay.add_all [] bs m = Some buf" and "bs \<noteq> []"
  shows "List.map kb_sequenceNumber buf =
      [int (length bs) - int (length buf) + 1..int (length bs)] \<and>
    getLatestSequence buf = int (length bs) \<and>
    List.map kb_sequenceNumber (getEventsAfter buf s) =
      List.filter (\<lambda>x. x > s) [int (length bs) - int (length buf) + 1..int (length bs)] \<and>
    (k \<le> int (length bs) \<longrightarrow> gr_missingSequences (detectGap buf k) =
      [k..int (length bs) - int (length buf)] \<and>
      (gr_hasGap (detectGap buf k) \<longleftrightarrow> k \<le> int (length bs) - int (length buf)))"
proof -
  let ?n = "int (length bs)"
  from replay_contiguous [OF assms(1,2)] assms(3) have c: "contiguous buf ?n" and ne: "buf \<noteq> []"
    by auto
  then have seqs: "List.map kb_sequenceNumber buf = [?n - int (length buf) + 1..?n]"
    by (simp add: contiguous_def)
  have latest: "getLatestSequence buf = ?n"
    using contiguous_next [OF c] ne by (simp add: next_sequence_def getLatestSequence_def)
  have after: "List.map kb_sequenceNumber (getEventsAfter buf s) =
      List.filter (\<lambda>x. x > s) [?n - int (length buf) + 1..?n]"
    unfolding getEventsAfter_def seqs [symmetric] filter_map by (simp add: comp_def)
  have hd: "kb_sequenceNumber (hd buf) = ?n - int (length buf) + 1"
  proof -
    have "hd (List.map kb_sequenceNumber buf) = hd [?n - int (length buf) + 1..?n]" using seqs by simp
    moreover have "?n - int (length buf) + 1 \<le> ?n" using ne by (cases buf) auto
    ultimately show ?thesis using ne by (simp add: hd_map upto_rec1)
  qed
  have img: "kb_sequenceNumber ` set buf = {?n - int (length buf) + 1..?n}"
    using seqs by (metis set_map set_upto)
  have last: "kb_sequenceNumber (last buf) = ?n"
    using latest ne by (simp add: getLatestSequence_def)
  have gap: "gr_missingSequences (detectGap buf k) = [k..?n - int (length buf)] \<and>
      (gr_hasGap (detectGap buf k) \<longleftrightarrow> k \<le> ?n - int (length buf))" if "k \<le> ?n"
  proof (cases "k < ?n - int (length buf) + 1")
    case True
    with ne show ?thesis
      by (simp add: detectGap_def contiguous_sorted [OF c] hd last Let_def)
  next
    case False
    then have "List.filter (\<lambda>s. s \<notin> {?n - int (length buf) + 1..?n}) [k..?n] = []"
      by (auto simp: filter_empty_conv)
    with False that ne show ?thesis
      by (simp add: detectGap_def contiguous_sorted [OF c] hd last img Let_def)
  qed
  show ?thesis using seqs latest after gap by blast
qed

theorem replay_buffer_exact_witness:
  "\<exists>buf. replay.add_all [] (replicate 5 (createKvEventBatch 0 ''w'' [])) 2 = Some buf \<and>
     List.map kb_sequenceNumber buf = [4..5] \<and> gr_missingSequences (detectGap buf 2) = [2..3]"
proof -
  let ?bs = "replicate 5 (createKvEventBatch 0 ''w'' [])"
  obtain buf where buf: "replay.add_all [] ?bs 2 = Some buf"
    by (simp add: numeral_eq_Suc addToReplayBuffer_def shift_loop_returns Let_def)
  moreover have "length buf = 2"
    using buf by (simp add: numeral_eq_Suc addToReplayBuffer_def shift_loop_returns Let_def) auto
  ultimately show ?thesis using replay_buffer_exact [OF _ buf, where k = 2] by auto
qed

text \<open>
  With a bound of zero the replay buffer stays empty and every batch would be numbered 1; the
  index functions report exactly the expected numbers that are absent, the entry of greatest number
  as the latest one, and invalidation marks the entries of one worker only.
\<close>

theorem index_queries_exact:
  "addToReplayBuffer [] b 0 = Some [] \<and>
   gr_missingSequences (detectIndexGap ix es) =
     List.filter (\<lambda>s. s \<notin> ix_sequenceNumber ` set ix) es \<and>
   (getLatestEntryForWorker ix w = None \<longleftrightarrow> w \<notin> ix_workerId ` set ix) \<and>
   (\<forall>e. getLatestEntryForWorker ix w = Some e \<longrightarrow> e \<in> set ix \<and> ix_workerId e = w \<and>
      (\<forall>e'\<in>set ix. ix_workerId e' = w \<longrightarrow> ix_sequenceNumber e' \<le> ix_sequenceNumber e)) \<and>
   getEntriesForWorker (invalidateWorkerEntries ix w) v =
     (if v = w then List.map (\<lambda>e. e\<lparr>ix_state := ''evicted''\<rparr>) (getEntriesForWorker ix w)
      else getEntriesForWorker ix v)"
proof (intro conjI)
  show "addToReplayBuffer [] b 0 = Some []"
    by (simp add: addToReplayBuffer_def shift_loop_returns Let_def)
  show "gr_missingSequences (detectIndexGap ix es) =
     List.filter (\<lambda>s. s \<notin> ix_sequenceNumber ` set ix) es"
    by (simp add: detectIndexGap_def missing_loop_filter Let_def)
  show "getLatestEntryForWorker ix w = None \<longleftrightarrow> w \<notin> ix_workerId ` set ix"
  proof -
    have "getLatestEntryForWorker ix w = None \<longleftrightarrow> getEntriesForWorker ix w = []"
      by (cases "getEntriesForWorker ix w") (simp_all add: getLatestEntryForWorker_def)
    also have "\<dots> \<longleftrightarrow> w \<notin> ix_workerId ` set ix"
      by (auto simp: getEntriesForWorker_def filter_empty_conv)
    finally show ?thesis .
  qed
  show "getEntriesForWorker (invalidateWorkerEntries ix w) v =
     (if v = w then List.map (\<lambda>e. e\<lparr>ix_state := ''evicted''\<rparr>) (getEntriesForWorker ix w)
      else getEntriesForWorker ix v)"
    by (induction ix) (auto simp: getEntriesForWorker_def invalidateWorkerEntries_def)
  show "\<forall>e. getLatestEntryForWorker ix w = Some e \<longrightarrow> e \<in> set ix \<and> ix_workerId e = w \<and>
      (\<forall>e'\<in>set ix. ix_workerId e' = w \<longrightarrow> ix_sequenceNumber e' \<le> ix_sequenceNumber e)"
  proof (cases "getEntriesForWorker ix w")
    case Nil
    then show ?thesis by (simp add: getLatestEntryForWorker_def)
  next
    case (Cons c cs)
    let ?e = "reduce_best (\<lambda>x z. - ix_sequenceNumber x < - ix_sequenceNumber z) c cs"
    have e: "getLatestEntryForWorker ix w = Some ?e" by (simp add: getLatestEntryForWorker_def Cons)
    have "?e \<in> set (getEntriesForWorker ix w)" unfolding Cons using reduce_best_in by simp
    moreover have "\<forall>e'\<in>set (getEntriesForWorker ix w). - ix_sequenceNumber ?e \<le> - ix_sequenceNumber e'"
      unfolding Cons by (intro ballI reduce_best_least [where key = "\<lambda>x. - ix_sequenceNumber x"]) simp
    ultimately show ?thesis using e by (auto simp: getEntriesForWorker_def)
  qed
qed

theorem index_queries_exact_witness:
  "\<exists>e. getLatestEntryForWorker [createKvIndexEntry 7 ''w'' ''p'' ''stored''] ''w'' = Some e \<and>
     ix_workerId e = ''w''"
proof -
  obtain e where e: "getLatestEntryForWorker [createKvIndexEntry 7 ''w'' ''p'' ''stored''] ''w'' = Some e"
    by (simp add: getLatestEntryForWorker_def getEntriesForWorker_def createKvIndexEntry_def)
  with index_queries_exact [where w = "''w''" and ix = "[createKvIndexEntry 7 ''w'' ''p'' ''stored'']"]
  show ?thesis by blast
qed

end
