(* ===== verification/Worker_Lifecycle.thy ===== *)
theory Worker_Lifecycle imports Transition_Systems begin

text \<open>
  The serving worker: its lifecycle and the state of its models (\<open>serving/worker-lifecycle.ts\<close>),
  the model registry (\<open>worker-model-registry.ts\<close>), health and readiness (\<open>worker-health.ts\<close>).
  Lifecycle and model states are machines with a table and an action function that are written
  separately in the source; both are instances of \<open>action_machine\<close>.
\<close>

section \<open>Types\<close>

datatype WorkerLifecycleState =
  WL_starting | WL_initializing | WL_loading_model | WL_ready | WL_serving | WL_degraded |
  WL_draining | WL_stopped | WL_failed

datatype WorkerAction =
  WA_initialize | WA_load | WA_become_ready | WA_serve | WA_degrade | WA_recover | WA_drain |
  WA_stop | WA_fail

datatype WorkerHealthState = WH_healthy | WH_degraded | WH_unhealthy | WH_draining

datatype ModelState =
  MS_unavailable | MS_admitted | MS_loading | MS_loaded | MS_draining | MS_unloading | MS_failed |
  MS_revoked

datatype ModelAction =
  MA_admit | MA_load | MA_load_complete | MA_drain | MA_unload | MA_revoke | MA_fail | MA_retry

record PrismModelWorker =
  mw_workerId :: string
  mw_workerInstanceId :: string
  mw_workerVersion :: string
  mw_protocolVersion :: int
  mw_lifecycleState :: WorkerLifecycleState
  mw_advertisedModels :: "string list"
  mw_targetCapabilitySignature :: string
  mw_containmentProfileDigest :: "string option"
  mw_deploymentClass :: string
  mw_startedAt :: timestamp

record PrismWorkerModel =
  md_modelId :: string
  md_artifactDigest :: string
  md_tokenizerDigest :: string
  md_modelFamily :: string
  md_quantizationScheme :: string
  md_artifactAdmissionState :: string
  md_computeImageDigest :: string
  md_targetCapabilitySignature :: string
  md_modelState :: ModelState
  md_loadedAt :: "timestamp option"
  md_lastUsedAt :: "timestamp option"

section \<open>The lifecycle of a worker\<close>

fun VALID_WORKER_TRANSITIONS :: "WorkerLifecycleState \<Rightarrow> WorkerLifecycleState list" where
  "VALID_WORKER_TRANSITIONS WL_starting = [WL_initializing, WL_failed]"
| "VALID_WORKER_TRANSITIONS WL_initializing = [WL_loading_model, WL_failed]"
| "VALID_WORKER_TRANSITIONS WL_loading_model = [WL_ready, WL_failed]"
| "VALID_WORKER_TRANSITIONS WL_ready = [WL_serving, WL_draining]"
| "VALID_WORKER_TRANSITIONS WL_serving = [WL_degraded, WL_draining]"
| "VALID_WORKER_TRANSITIONS WL_degraded = [WL_serving, WL_draining]"
| "VALID_WORKER_TRANSITIONS WL_draining = [WL_stopped]"
| "VALID_WORKER_TRANSITIONS WL_stopped = []"
| "VALID_WORKER_TRANSITIONS WL_failed = []"

datatype WorkerTransitionError = Invalid_worker_transition WorkerLifecycleState WorkerAction

fun worker_action_map :: "WorkerLifecycleState \<Rightarrow> WorkerAction \<Rightarrow> WorkerLifecycleState option" where
  "worker_action_map WL_starting WA_initialize = Some WL_initializing"
| "worker_action_map WL_starting WA_fail = Some WL_failed"
| "worker_action_map WL_initializing WA_load = Some WL_loading_model"
| "worker_action_map WL_initializing WA_fail = Some WL_failed"
| "worker_action_map WL_loading_model WA_become_ready = Some WL_ready"
| "worker_action_map WL_loading_model WA_fail = Some WL_failed"
| "worker_action_map WL_ready WA_serve = Some WL_serving"
| "worker_action_map WL_ready WA_recover = Some WL_serving"
| "worker_action_map WL_ready WA_drain = Some WL_draining"
| "worker_action_map WL_serving WA_degrade = Some WL_degraded"
| "worker_action_map WL_serving WA_drain = Some WL_draining"
| "worker_action_map WL_degraded WA_recover = Some WL_serving"
| "worker_action_map WL_degraded WA_drain = Some WL_draining"
| "worker_action_map WL_draining WA_stop = Some WL_stopped"
| "worker_action_map _ _ = None"

definition applyWorkerAction ::
  "WorkerLifecycleState \<Rightarrow> WorkerAction \<Rightarrow> WorkerTransitionError + WorkerLifecycleState" where
  "applyWorkerAction current action =
     (case worker_action_map current action of
        None \<Rightarrow> Inl (Invalid_worker_transition current action)
      | Some nxt \<Rightarrow> Inr nxt)"

definition canAcceptRequests :: "WorkerLifecycleState \<Rightarrow> bool" where
  "canAcceptRequests state \<longleftrightarrow> state = WL_ready \<or> state = WL_serving \<or> state = WL_degraded"

section \<open>The state of a model\<close>

fun VALID_MODEL_TRANSITIONS :: "ModelState \<Rightarrow> ModelState list" where
  "VALID_MODEL_TRANSITIONS MS_unavailable = [MS_admitted]"
| "VALID_MODEL_TRANSITIONS MS_admitted = [MS_loading, MS_revoked]"
| "VALID_MODEL_TRANSITIONS MS_loading = [MS_loaded, MS_failed]"
| "VALID_MODEL_TRANSITIONS MS_loaded = [MS_draining, MS_failed]"
| "VALID_MODEL_TRANSITIONS MS_draining = [MS_unloading, MS_failed]"
| "VALID_MODEL_TRANSITIONS MS_unloading = [MS_unavailable]"
| "VALID_MODEL_TRANSITIONS MS_failed = [MS_admitted]"
| "VALID_MODEL_TRANSITIONS MS_revoked = []"

datatype ModelTransitionError = Invalid_model_transition ModelState ModelAction

fun model_action_map :: "ModelState \<Rightarrow> ModelAction \<Rightarrow> ModelState option" where
  "model_action_map MS_unavailable MA_admit = Some MS_admitted"
| "model_action_map MS_admitted MA_load = Some MS_loading"
| "model_action_map MS_admitted MA_revoke = Some MS_revoked"
| "model_action_map MS_loading MA_load_complete = Some MS_loaded"
| "model_action_map MS_loading MA_fail = Some MS_failed"
| "model_action_map MS_loaded MA_drain = Some MS_draining"
| "model_action_map MS_loaded MA_fail = Some MS_failed"
| "model_action_map MS_draining MA_unload = Some MS_unloading"
| "model_action_map MS_draining MA_fail = Some MS_failed"
| "model_action_map MS_unloading MA_unload = Some MS_unavailable"
| "model_action_map MS_failed MA_retry = Some MS_admitted"
| "model_action_map _ _ = None"

definition applyModelAction :: "ModelState \<Rightarrow> ModelAction \<Rightarrow> ModelTransitionError + ModelState" where
  "applyModelAction current action =
     (case model_action_map current action of
        None \<Rightarrow> Inl (Invalid_model_transition current action)
      | Some nxt \<Rightarrow> Inr nxt)"

fun VALID_HEALTH_TRANSITIONS :: "WorkerHealthState \<Rightarrow> WorkerHealthState list" where
  "VALID_HEALTH_TRANSITIONS WH_healthy = [WH_degraded, WH_draining, WH_unhealthy]"
| "VALID_HEALTH_TRANSITIONS WH_degraded = [WH_healthy, WH_draining, WH_unhealthy]"
| "VALID_HEALTH_TRANSITIONS WH_unhealthy = [WH_healthy, WH_draining]"
| "VALID_HEALTH_TRANSITIONS WH_draining = [WH_unhealthy, WH_healthy]"

section \<open>The model registry\<close>

definition createModelEntry :: "string \<Rightarrow> string \<Rightarrow> string \<Rightarrow> PrismWorkerModel" where
  "createModelEntry artifactDigest modelFamily tokenizerDigest =
     \<lparr>md_modelId = ''model-'' @ take 12 artifactDigest,
      md_artifactDigest = artifactDigest,
      md_tokenizerDigest = tokenizerDigest,
      md_modelFamily = modelFamily,
      md_quantizationScheme = ''unknown'',
      md_artifactAdmissionState = ''admitted'',
      md_computeImageDigest = [],
      md_targetCapabilitySignature = [],
      md_modelState = MS_admitted,
      md_loadedAt = None,
      md_lastUsedAt = None\<rparr>"

definition loadModel :: "PrismWorkerModel \<Rightarrow> ModelTransitionError + PrismWorkerModel" where
  "loadModel model =
     (case applyModelAction (md_modelState model) MA_load of
        Inl e \<Rightarrow> Inl e
      | Inr nextState \<Rightarrow> Inr (model\<lparr>md_modelState := nextState\<rparr>))"

definition completeLoad ::
  "millis \<Rightarrow> PrismWorkerModel \<Rightarrow> string \<Rightarrow> string \<Rightarrow> ModelTransitionError + PrismWorkerModel" where
  "completeLoad now model computeDigest targetSig =
     (case applyModelAction (md_modelState model) MA_load_complete of
        Inl e \<Rightarrow> Inl e
      | Inr nextState \<Rightarrow>
          Inr (model\<lparr>md_modelState := nextState,
                     md_computeImageDigest := computeDigest,
                     md_targetCapabilitySignature := targetSig,
                     md_loadedAt := Some (Iso now),
                     md_lastUsedAt := Some (Iso now)\<rparr>))"

definition failModel :: "PrismWorkerModel \<Rightarrow> ModelTransitionError + PrismWorkerModel" where
  "failModel model =
     (case applyModelAction (md_modelState model) MA_fail of
        Inl e \<Rightarrow> Inl e
      | Inr nextState \<Rightarrow> Inr (model\<lparr>md_modelState := nextState\<rparr>))"

definition unloadModel :: "PrismWorkerModel \<Rightarrow> ModelTransitionError + PrismWorkerModel" where
  "unloadModel model =
     (if md_modelState model = MS_loaded then
        (case applyModelAction (md_modelState model) MA_drain of
           Inl e \<Rightarrow> Inl e
         | Inr drained \<Rightarrow> Inr (model\<lparr>md_modelState := drained\<rparr>))
      else if md_modelState model = MS_draining then
        (case applyModelAction (md_modelState model) MA_unload of
           Inl e \<Rightarrow> Inl e
         | Inr unloaded \<Rightarrow> Inr (model\<lparr>md_modelState := unloaded\<rparr>))
      else
        (case applyModelAction (md_modelState model) MA_unload of
           Inl e \<Rightarrow> Inl e
         | Inr nextState \<Rightarrow> Inr (model\<lparr>md_modelState := nextState\<rparr>)))"

definition revokeModel :: "PrismWorkerModel \<Rightarrow> ModelTransitionError + PrismWorkerModel" where
  "revokeModel model =
     (case applyModelAction (md_modelState model) MA_revoke of
        Inl e \<Rightarrow> Inl e
      | Inr nextState \<Rightarrow> Inr (model\<lparr>md_modelState := nextState\<rparr>))"

definition isModelReady :: "PrismWorkerModel \<Rightarrow> bool" where
  "isModelReady model \<longleftrightarrow> md_modelState model = MS_loaded"

section \<open>Health and readiness\<close>

definition assessHealth ::
  "PrismModelWorker \<Rightarrow> PrismWorkerModel list \<Rightarrow> int \<Rightarrow> WorkerHealthState" where
  "assessHealth worker models inflight =
     (if mw_lifecycleState worker = WL_draining then WH_draining
      else if mw_lifecycleState worker = WL_failed \<or> mw_lifecycleState worker = WL_stopped
      then WH_unhealthy
      else
        let loadedModels = List.filter (\<lambda>m. md_modelState m = MS_loaded) models
        in if length loadedModels = 0 then WH_unhealthy
           else if inflight \<ge> 64 then WH_degraded
           else WH_healthy)"

definition isReady :: "PrismModelWorker \<Rightarrow> PrismWorkerModel list \<Rightarrow> bool" where
  "isReady worker models =
     (if mw_lifecycleState worker \<notin> {WL_ready, WL_serving, WL_degraded} then False
      else list_ex (\<lambda>m. md_modelState m = MS_loaded) models)"

section \<open>Both machines follow their tables\<close>

lemma ex_WorkerAction:
  "(\<exists>a. P a) \<longleftrightarrow> P WA_initialize \<or> P WA_load \<or> P WA_become_ready \<or> P WA_serve \<or> P WA_degrade \<or>
     P WA_recover \<or> P WA_drain \<or> P WA_stop \<or> P WA_fail"
  by (metis WorkerAction.exhaust)

lemma ex_ModelAction:
  "(\<exists>a. P a) \<longleftrightarrow> P MA_admit \<or> P MA_load \<or> P MA_load_complete \<or> P MA_drain \<or> P MA_unload \<or>
     P MA_revoke \<or> P MA_fail \<or> P MA_retry"
  by (metis ModelAction.exhaust)

lemma applyWorkerAction_Inr [simp]:
  "applyWorkerAction s a = Inr t \<longleftrightarrow> worker_action_map s a = Some t"
  by (simp add: applyWorkerAction_def split: option.splits)

lemma applyModelAction_Inr [simp]:
  "applyModelAction s a = Inr t \<longleftrightarrow> model_action_map s a = Some t"
  by (simp add: applyModelAction_def split: option.splits)

lemma worker_map_exact: "t \<in> set (VALID_WORKER_TRANSITIONS s) \<longleftrightarrow> (\<exists>a. worker_action_map s a = Some t)"
  unfolding ex_WorkerAction by (cases s) auto

lemma model_map_exact: "t \<in> set (VALID_MODEL_TRANSITIONS s) \<longleftrightarrow> (\<exists>a. model_action_map s a = Some t)"
  unfolding ex_ModelAction by (cases s) auto

interpretation worker: action_machine VALID_WORKER_TRANSITIONS applyWorkerAction
  by unfold_locales (auto simp: worker_map_exact)

interpretation model: action_machine VALID_MODEL_TRANSITIONS applyModelAction
  by unfold_locales (auto simp: model_map_exact)

text \<open>
  For the worker lifecycle and for the model state, the transition table and the action function
  agree exactly: a state is listed after another one if and only if some action leads there.
\<close>

theorem worker_tables_exact:
  "(t \<in> set (VALID_WORKER_TRANSITIONS s) \<longleftrightarrow> (\<exists>a. applyWorkerAction s a = Inr t)) \<and>
   (t' \<in> set (VALID_MODEL_TRANSITIONS s') \<longleftrightarrow> (\<exists>a. applyModelAction s' a = Inr t'))"
  by (simp add: worker_map_exact model_map_exact)

section \<open>Histories of a worker\<close>

abbreviation retired :: "WorkerLifecycleState set" where
  "retired \<equiv> {WL_draining, WL_stopped, WL_failed}"

lemma retired_step: "s \<in> retired \<Longrightarrow> worker_action_map s a = Some t \<Longrightarrow> s = WL_draining \<and> t = WL_stopped"
  by (cases s; cases a) auto

lemma retired_run:
  assumes "run_actions applyWorkerAction s as = Inr t" and "s \<in> retired"
  shows "t \<in> retired \<and> length as \<le> 1"
proof (cases as)
  case Nil
  with assms show ?thesis by auto
next
  case (Cons a bs)
  with assms obtain u where u: "worker_action_map s a = Some u" "run_actions applyWorkerAction u bs = Inr t"
    by (auto split: sum.splits)
  with retired_step [OF assms(2)] have "u = WL_stopped" by blast
  with u(2) have "bs = [] \<and> t = WL_stopped" by (intro worker.terminal_run) (simp_all add: terminal_in_def)
  with Cons show ?thesis by simp
qed

lemma accepting_step:
  "canAcceptRequests s \<Longrightarrow> worker_action_map s a = Some t \<Longrightarrow>
   canAcceptRequests t \<and> a \<in> {WA_serve, WA_degrade, WA_recover} \<or> t \<in> retired"
  by (cases s; cases a) (auto simp: canAcceptRequests_def)

lemma retired_not_accepting [simp]: "t \<in> retired \<Longrightarrow> \<not> canAcceptRequests t"
  by (auto simp: canAcceptRequests_def)

lemma accepting_run:
  "run_actions applyWorkerAction s as = Inr t \<Longrightarrow> canAcceptRequests s \<Longrightarrow> canAcceptRequests t \<Longrightarrow>
   set as \<subseteq> {WA_serve, WA_degrade, WA_recover}"
proof (induction as arbitrary: s)
  case (Cons a as)
  then obtain u where u: "worker_action_map s a = Some u" "run_actions applyWorkerAction u as = Inr t"
    by (auto split: sum.splits)
  with retired_run [OF u(2)] Cons.prems(3) have "u \<notin> retired" using retired_not_accepting by blast
  with accepting_step [OF Cons.prems(2) u(1)] Cons.IH [OF u(2) _ Cons.prems(3)] show ?case by auto
qed simp

lemma worker_first_steps:
  "worker_action_map WL_starting a = Some t \<longleftrightarrow>
     a = WA_initialize \<and> t = WL_initializing \<or> a = WA_fail \<and> t = WL_failed"
  "worker_action_map WL_initializing a = Some t \<longleftrightarrow>
     a = WA_load \<and> t = WL_loading_model \<or> a = WA_fail \<and> t = WL_failed"
  "worker_action_map WL_loading_model a = Some t \<longleftrightarrow>
     a = WA_become_ready \<and> t = WL_ready \<or> a = WA_fail \<and> t = WL_failed"
  by (cases a; auto)+

text \<open>One step towards readiness: the run fails for good or takes the one successful action.\<close>

lemma start_step:
  assumes "run_actions applyWorkerAction s as = Inr t" and "canAcceptRequests t"
    and "\<not> canAcceptRequests s"
    and only: "\<And>a u. worker_action_map s a = Some u \<longleftrightarrow> a = b \<and> u = v \<or> a = WA_fail \<and> u = WL_failed"
  shows "\<exists>bs. as = b # bs \<and> run_actions applyWorkerAction v bs = Inr t"
proof (cases as)
  case Nil
  with assms show ?thesis by simp
next
  case (Cons a bs)
  with assms(1) obtain u where u: "worker_action_map s a = Some u" "run_actions applyWorkerAction u bs = Inr t"
    by (auto split: sum.splits)
  have "u \<noteq> WL_failed" using retired_run [OF u(2)] assms(2) retired_not_accepting by blast
  with u Cons only show ?thesis by auto
qed

text \<open>
  A worker that accepts requests has been initialised, has loaded its model and become ready, in
  this order, and since then has only served, degraded and recovered; a worker that drains, has
  stopped or has failed takes at most one more action and never accepts requests again, whatever its
  models and its load, and its health is then draining or unhealthy.
\<close>

theorem worker_history:
  assumes "run_actions applyWorkerAction s as = Inr t"
  shows "(s = WL_starting \<and> canAcceptRequests t \<longrightarrow>
      (\<exists>bs. as = [WA_initialize, WA_load, WA_become_ready] @ bs \<and>
         set bs \<subseteq> {WA_serve, WA_degrade, WA_recover})) \<and>
    (s \<in> {WL_draining, WL_stopped, WL_failed} \<longrightarrow> length as \<le> 1 \<and> \<not> canAcceptRequests t \<and>
      \<not> isReady (w\<lparr>mw_lifecycleState := t\<rparr>) ms \<and>
      assessHealth (w\<lparr>mw_lifecycleState := t\<rparr>) ms n \<in> {WH_draining, WH_unhealthy})"
proof (intro conjI impI)
  assume a: "s = WL_starting \<and> canAcceptRequests t"
  have r0: "run_actions applyWorkerAction WL_starting as = Inr t" using assms a by simp
  obtain b1 where 1: "as = WA_initialize # b1" "run_actions applyWorkerAction WL_initializing b1 = Inr t"
    using start_step [OF r0 _ _ worker_first_steps(1)] a by (auto simp: canAcceptRequests_def)
  obtain b2 where 2: "b1 = WA_load # b2" "run_actions applyWorkerAction WL_loading_model b2 = Inr t"
    using start_step [OF 1(2) _ _ worker_first_steps(2)] a by (auto simp: canAcceptRequests_def)
  obtain b3 where 3: "b2 = WA_become_ready # b3" "run_actions applyWorkerAction WL_ready b3 = Inr t"
    using start_step [OF 2(2) _ _ worker_first_steps(3)] a by (auto simp: canAcceptRequests_def)
  have "set b3 \<subseteq> {WA_serve, WA_degrade, WA_recover}"
    by (rule accepting_run [OF 3(2)]) (use a in \<open>simp_all add: canAcceptRequests_def\<close>)
  with 1 2 3 show "\<exists>bs. as = [WA_initialize, WA_load, WA_become_ready] @ bs \<and>
      set bs \<subseteq> {WA_serve, WA_degrade, WA_recover}" by auto
next
  assume s: "s \<in> {WL_draining, WL_stopped, WL_failed}"
  from retired_run [OF assms this] have t: "t \<in> retired" "length as \<le> 1" by blast+
  then show "length as \<le> 1" "\<not> canAcceptRequests t" by auto
  show "\<not> isReady (w\<lparr>mw_lifecycleState := t\<rparr>) ms" using t by (auto simp: isReady_def)
  show "assessHealth (w\<lparr>mw_lifecycleState := t\<rparr>) ms n \<in> {WH_draining, WH_unhealthy}"
    using t by (auto simp: assessHealth_def)
qed

theorem worker_history_witness:
  "\<exists>bs. [WA_initialize, WA_load, WA_become_ready, WA_serve, WA_degrade] =
     [WA_initialize, WA_load, WA_become_ready] @ bs \<and> set bs \<subseteq> {WA_serve, WA_degrade, WA_recover}"
proof -
  have "run_actions applyWorkerAction WL_starting
      [WA_initialize, WA_load, WA_become_ready, WA_serve, WA_degrade] = Inr WL_degraded"
    by (simp add: applyWorkerAction_def)
  from worker_history [OF this] show ?thesis by (simp add: canAcceptRequests_def)
qed

section \<open>Histories of a model\<close>

text \<open>The operations of the model registry, as one step function.\<close>

datatype ModelOp =
  Op_load | Op_completeLoad millis string string | Op_fail | Op_unload | Op_revoke

fun model_step :: "PrismWorkerModel \<Rightarrow> ModelOp \<Rightarrow> ModelTransitionError + PrismWorkerModel" where
  "model_step m Op_load = loadModel m"
| "model_step m (Op_completeLoad now computeDigest targetSig) = completeLoad now m computeDigest targetSig"
| "model_step m Op_fail = failModel m"
| "model_step m Op_unload = unloadModel m"
| "model_step m Op_revoke = revokeModel m"

lemmas registry_defs = loadModel_def completeLoad_def failModel_def unloadModel_def revokeModel_def

lemma model_step_shape:
  assumes "model_step m op = Inr m'"
  shows "md_modelState m = MS_admitted \<and> op = Op_load \<and> m' = m\<lparr>md_modelState := MS_loading\<rparr> \<or>
    md_modelState m = MS_admitted \<and> op = Op_revoke \<and> m' = m\<lparr>md_modelState := MS_revoked\<rparr> \<or>
    md_modelState m = MS_loading \<and> (\<exists>now c s. op = Op_completeLoad now c s \<and>
      m' = m\<lparr>md_modelState := MS_loaded, md_computeImageDigest := c,
             md_targetCapabilitySignature := s, md_loadedAt := Some (Iso now),
             md_lastUsedAt := Some (Iso now)\<rparr>) \<or>
    md_modelState m \<in> {MS_loading, MS_loaded, MS_draining} \<and> op = Op_fail \<and>
      m' = m\<lparr>md_modelState := MS_failed\<rparr> \<or>
    op = Op_unload \<and> (\<exists>t. (md_modelState m, t) \<in> {(MS_loaded, MS_draining), (MS_draining, MS_unloading),
      (MS_unloading, MS_unavailable)} \<and> m' = m\<lparr>md_modelState := t\<rparr>)"
proof (cases op)
  case Op_unload
  with assms show ?thesis
    by (cases "md_modelState m") (simp_all add: unloadModel_def applyModelAction_def)
qed (use assms in \<open>cases "md_modelState m"; simp add: registry_defs applyModelAction_def\<close>)+

text \<open>What the operations so far must have been, by the state they lead to.\<close>

fun model_history :: "ModelState \<Rightarrow> ModelOp list \<Rightarrow> PrismWorkerModel \<Rightarrow> bool" where
  "model_history MS_admitted ops m = (ops = [])"
| "model_history MS_loading ops m = (ops = [Op_load])"
| "model_history MS_loaded ops m = (\<exists>now. md_loadedAt m = Some (Iso now) \<and>
     ops = [Op_load, Op_completeLoad now (md_computeImageDigest m) (md_targetCapabilitySignature m)])"
| "model_history MS_draining ops m = (\<exists>now. md_loadedAt m = Some (Iso now) \<and>
     ops = [Op_load, Op_completeLoad now (md_computeImageDigest m) (md_targetCapabilitySignature m),
            Op_unload])"
| "model_history MS_unloading ops m = (\<exists>now. md_loadedAt m = Some (Iso now) \<and>
     ops = [Op_load, Op_completeLoad now (md_computeImageDigest m) (md_targetCapabilitySignature m),
            Op_unload, Op_unload])"
| "model_history MS_unavailable ops m = (\<exists>now. md_loadedAt m = Some (Iso now) \<and>
     ops = [Op_load, Op_completeLoad now (md_computeImageDigest m) (md_targetCapabilitySignature m),
            Op_unload, Op_unload, Op_unload])"
| "model_history MS_failed ops m = (length ops \<in> {2, 3, 4} \<and> last ops = Op_fail)"
| "model_history MS_revoked ops m = (ops = [Op_revoke])"

lemma model_history_step:
  assumes "model_history (md_modelState m) ops m" and "model_step m op = Inr m'"
  shows "model_history (md_modelState m') (ops @ [op]) m'"
  using model_step_shape [OF assms(2)] assms(1) by (elim disjE conjE exE) auto

lemma model_identity_step:
  "model_step m op = Inr m' \<Longrightarrow> md_artifactDigest m' = md_artifactDigest m \<and> md_modelId m' = md_modelId m"
  by (drule model_step_shape) auto

text \<open>
  The operations of the model registry keep a model's identity and determine its history: a
  created entry is loaded exactly after a load and its completion, with the compute image, the target
  signature and the time of that completion; it is unavailable again exactly after three further
  unload calls; it fails at the second to fourth operation; and no sequence of accepted operations is
  longer than five.
\<close>

theorem model_registry_history:
  assumes "run_actions model_step (createModelEntry d f k) ops = Inr m"
  shows "md_artifactDigest m = d \<and> model_history (md_modelState m) ops m \<and> length ops \<le> 5"
proof -
  have "md_artifactDigest m = d \<and> model_history (md_modelState m) ops m"
    using assms
  proof (induction ops arbitrary: m rule: rev_induct)
    case Nil
    then show ?case by (auto simp: createModelEntry_def)
  next
    case (snoc op ops)
    then obtain u where "run_actions model_step (createModelEntry d f k) ops = Inr u"
      "model_step u op = Inr m" by (auto simp: run_snoc)
    with snoc.IH show ?case using model_history_step model_identity_step by metis
  qed
  moreover from this have "length ops \<le> 5" by (cases "md_modelState m") auto
  ultimately show ?thesis by blast
qed

theorem model_registry_history_witness:
  "\<exists>m. run_actions model_step (createModelEntry ''d'' ''f'' ''k'')
      [Op_load, Op_completeLoad 5 ''c'' ''s'', Op_unload, Op_unload, Op_unload] = Inr m \<and>
    md_artifactDigest m = ''d''"
proof -
  obtain m where m: "run_actions model_step (createModelEntry ''d'' ''f'' ''k'')
      [Op_load, Op_completeLoad 5 ''c'' ''s'', Op_unload, Op_unload, Op_unload] = Inr m"
    by (simp add: registry_defs createModelEntry_def applyModelAction_def)
  with model_registry_history [OF m] show ?thesis by blast
qed

end
