(* ===== verification/Worker_Requests.thy ===== *)
theory Worker_Requests imports Worker_Lifecycle begin

text \<open>
  Requests of a serving worker: admission (\<open>serving/worker-admission.ts\<close>), the execution store
  (\<open>worker-request-store.ts\<close>), cancellation (\<open>worker-cancellation.ts\<close>), draining
  (\<open>worker-drain.ts\<close>) and the correlation with a lease (\<open>dharma-correlation.ts\<close>).
\<close>

section \<open>Requests and executions\<close>

datatype RequestWorkloadClass = RW_chat_completion | RW_completion | RW_embedding

record PrismWorkerRequest =
  wr_requestId :: string
  wr_requestNamespace :: string
  wr_modelId :: string
  wr_modelArtifactDigest :: string
  wr_workloadClass :: RequestWorkloadClass
  wr_inputDigest :: string
  wr_promptReference :: string
  wr_maxInputTokens :: int
  wr_maxOutputTokens :: int
  wr_samplingPolicy :: string
  wr_stream :: bool
  wr_deadlineAt :: "timestamp option"
  wr_dharmaLeaseId :: "string option"
  wr_sessionId :: "string option"
  wr_traceContext :: "string option"

datatype PrefillState = PF_pending | PF_running | PF_completed | PF_failed | PF_cancelled

datatype DecodeState =
  DC_pending | DC_running | DC_streaming | DC_completed | DC_failed | DC_cancelled

record PrismRequestExecution =
  ex_executionId :: string
  ex_requestId :: string
  ex_modelArtifactDigest :: string
  ex_computeImageDigest :: string
  ex_targetCapabilitySignature :: string
  ex_prefillState :: PrefillState
  ex_decodeState :: DecodeState
  ex_kvNamespaceId :: "string option"
  ex_admissionTime :: timestamp
  ex_startedAt :: timestamp
  ex_completedAt :: "timestamp option"

datatype WorkerErrorCode =
  WE_model_not_loaded | WE_artifact_not_admitted | WE_worker_draining | WE_worker_overloaded |
  WE_request_cancelled | WE_request_timeout | WE_input_too_large | WE_output_budget_exceeded |
  WE_compute_image_unavailable | WE_backend_execution_failed

section \<open>Admission\<close>

record AdmissionResult =
  ad_admitted :: bool
  ad_errorCode :: "WorkerErrorCode option"
  ad_reason :: "string option"

definition checkWorkerState :: "PrismModelWorker \<Rightarrow> bool" where
  "checkWorkerState worker = canAcceptRequests (mw_lifecycleState worker)"

definition checkModelLoaded ::
  "PrismWorkerRequest \<Rightarrow> PrismWorkerModel list \<Rightarrow> bool \<times> WorkerErrorCode option" where
  "checkModelLoaded request models =
     (case List.find (\<lambda>m. md_modelId m = wr_modelId request \<or>
                          md_artifactDigest m = wr_modelArtifactDigest request) models of
        None \<Rightarrow> (False, Some WE_model_not_loaded)
      | Some model \<Rightarrow>
          if md_modelState model \<noteq> MS_loaded then (False, Some WE_model_not_loaded)
          else (True, None))"

text \<open>A token limit is a number or, by default, \<open>Infinity\<close> (\<open>None\<close>).\<close>

definition exceeds :: "int \<Rightarrow> int option \<Rightarrow> bool" where
  "exceeds n limit = (case limit of None \<Rightarrow> False | Some k \<Rightarrow> n > k)"

definition checkTokenBudget ::
  "PrismWorkerRequest \<Rightarrow> int option \<Rightarrow> int option \<Rightarrow> bool \<times> WorkerErrorCode option" where
  "checkTokenBudget request maxInput maxOutput =
     (if wr_maxInputTokens request > 0 \<and> exceeds (wr_maxInputTokens request) maxInput
      then (False, Some WE_input_too_large)
      else if wr_maxOutputTokens request > 0 \<and> exceeds (wr_maxOutputTokens request) maxOutput
      then (False, Some WE_output_budget_exceeded)
      else (True, None))"

definition checkConcurrency :: "int \<Rightarrow> int \<Rightarrow> bool \<times> WorkerErrorCode option" where
  "checkConcurrency inflight maxConcurrent =
     (if inflight \<ge> maxConcurrent then (False, Some WE_worker_overloaded) else (True, None))"

definition checkDeadline :: "millis \<Rightarrow> PrismWorkerRequest \<Rightarrow> bool" where
  "checkDeadline now request =
     (case wr_deadlineAt request of
        None \<Rightarrow> True
      | Some d \<Rightarrow> if \<not> ts_truthy d then True else now_lt now d)"

definition evaluateAdmission ::
  "millis \<Rightarrow> PrismWorkerRequest \<Rightarrow> PrismModelWorker \<Rightarrow> PrismWorkerModel list \<Rightarrow> int \<Rightarrow> int \<Rightarrow>
   int option \<Rightarrow> int option \<Rightarrow> AdmissionResult" where
  "evaluateAdmission now request worker models inflight maxConcurrent maxInput maxOutput =
     (if \<not> checkWorkerState worker then
        \<lparr>ad_admitted = False, ad_errorCode = Some WE_worker_draining,
         ad_reason = Some ''Worker is not accepting requests (draining/stopped)''\<rparr>
      else
        let modelCheck = checkModelLoaded request models
        in if \<not> fst modelCheck then
             \<lparr>ad_admitted = False, ad_errorCode = snd modelCheck,
              ad_reason = Some (''Model '' @ wr_modelId request @ '' is not in loaded state'')\<rparr>
           else
             let budgetCheck = checkTokenBudget request maxInput maxOutput
             in if \<not> fst budgetCheck then
                  \<lparr>ad_admitted = False, ad_errorCode = snd budgetCheck,
                   ad_reason = Some (''Request exceeds token budget (input: '' @
                     show_int (wr_maxInputTokens request) @ '', output: '' @
                     show_int (wr_maxOutputTokens request) @ '')'')\<rparr>
                else
                  let concurrencyCheck = checkConcurrency inflight maxConcurrent
                  in if \<not> fst concurrencyCheck then
                       \<lparr>ad_admitted = False, ad_errorCode = snd concurrencyCheck,
                        ad_reason = Some (''Worker at capacity ('' @ show_int inflight @ ''/'' @
                          show_int maxConcurrent @ '' in-flight)'')\<rparr>
                     else if \<not> checkDeadline now request then
                       \<lparr>ad_admitted = False, ad_errorCode = Some WE_request_timeout,
                        ad_reason = Some ''Request deadline has already passed''\<rparr>
                     else \<lparr>ad_admitted = True, ad_errorCode = None, ad_reason = None\<rparr>)"

section \<open>The execution store\<close>

definition createExecution ::
  "millis \<Rightarrow> string \<Rightarrow> string \<Rightarrow> string \<Rightarrow> PrismRequestExecution" where
  "createExecution now executionId requestId modelDigest =
     \<lparr>ex_executionId = executionId,
      ex_requestId = requestId,
      ex_modelArtifactDigest = modelDigest,
      ex_computeImageDigest = [],
      ex_targetCapabilitySignature = [],
      ex_prefillState = PF_pending,
      ex_decodeState = DC_pending,
      ex_kvNamespaceId = None,
      ex_admissionTime = Iso now,
      ex_startedAt = Iso now,
      ex_completedAt = None\<rparr>"

definition startExecution :: "millis \<Rightarrow> PrismRequestExecution \<Rightarrow> PrismRequestExecution" where
  "startExecution now exec =
     exec\<lparr>ex_prefillState := PF_running, ex_decodeState := DC_pending, ex_startedAt := Iso now\<rparr>"

definition completeExecution :: "millis \<Rightarrow> PrismRequestExecution \<Rightarrow> PrismRequestExecution" where
  "completeExecution now exec =
     exec\<lparr>ex_prefillState := PF_completed, ex_decodeState := DC_completed,
          ex_completedAt := Some (Iso now)\<rparr>"

definition failExecution :: "millis \<Rightarrow> PrismRequestExecution \<Rightarrow> PrismRequestExecution" where
  "failExecution now exec =
     exec\<lparr>ex_prefillState :=
            (if ex_prefillState exec = PF_completed then ex_prefillState exec else PF_failed),
          ex_decodeState := DC_failed, ex_completedAt := Some (Iso now)\<rparr>"

definition cancelExecution :: "millis \<Rightarrow> PrismRequestExecution \<Rightarrow> PrismRequestExecution" where
  "cancelExecution now exec =
     exec\<lparr>ex_prefillState := PF_cancelled, ex_decodeState := DC_cancelled,
          ex_completedAt := Some (Iso now)\<rparr>"

definition execution_active :: "PrismRequestExecution \<Rightarrow> bool" where
  "execution_active e \<longleftrightarrow>
     ex_decodeState e \<noteq> DC_completed \<and> ex_decodeState e \<noteq> DC_failed \<and> ex_decodeState e \<noteq> DC_cancelled"

definition getActiveExecutionCount :: "PrismRequestExecution list \<Rightarrow> nat" where
  "getActiveExecutionCount executions = length (List.filter execution_active executions)"

definition getExecutionsForRequest ::
  "string \<Rightarrow> PrismRequestExecution list \<Rightarrow> PrismRequestExecution list" where
  "getExecutionsForRequest requestId executions =
     List.filter (\<lambda>e. ex_requestId e = requestId) executions"

section \<open>Cancellation, draining and correlation\<close>

definition prefill_terminal :: "PrefillState \<Rightarrow> bool" where
  "prefill_terminal s \<longleftrightarrow> s = PF_completed \<or> s = PF_failed \<or> s = PF_cancelled"

definition decode_terminal :: "DecodeState \<Rightarrow> bool" where
  "decode_terminal s \<longleftrightarrow> s = DC_completed \<or> s = DC_failed \<or> s = DC_cancelled"

definition worker_cancelRequest :: "millis \<Rightarrow> PrismRequestExecution \<Rightarrow> PrismRequestExecution" where
  "worker_cancelRequest now execution =
     (let nextPrefill = (if prefill_terminal (ex_prefillState execution)
                         then ex_prefillState execution else PF_cancelled);
          nextDecode = (if decode_terminal (ex_decodeState execution)
                        then ex_decodeState execution else DC_cancelled)
      in execution\<lparr>ex_prefillState := nextPrefill, ex_decodeState := nextDecode,
                   ex_completedAt := Some (Iso now)\<rparr>)"

definition isCancellationIdempotent :: "PrismRequestExecution \<Rightarrow> bool" where
  "isCancellationIdempotent execution \<longleftrightarrow>
     ex_prefillState execution = PF_cancelled \<or> ex_prefillState execution = PF_completed \<or>
     ex_prefillState execution = PF_failed \<or> ex_decodeState execution = DC_cancelled \<or>
     ex_decodeState execution = DC_completed \<or> ex_decodeState execution = DC_failed"

definition beginDrain :: "bool \<times> int" where
  "beginDrain = (True, 0)"

definition isDrained :: "int \<Rightarrow> bool" where
  "isDrained inflightCount \<longleftrightarrow> inflightCount \<le> 0"

datatype DrainDeadlineError = Invalid_startedAt timestamp | Deadline_not_positive int

definition getDrainDeadline :: "timestamp \<Rightarrow> int \<Rightarrow> DrainDeadlineError + timestamp" where
  "getDrainDeadline startedAt deadlineMs =
     (case date_value startedAt of
        None \<Rightarrow> Inl (Invalid_startedAt startedAt)
      | Some start \<Rightarrow>
          if deadlineMs \<le> 0 then Inl (Deadline_not_positive deadlineMs)
          else Inr (Iso (start + deadlineMs)))"

record DharmaWorkerCorrelation =
  dw_dharmaLeaseId :: string
  dw_sessionId :: string
  dw_requesterIdentityDigest :: string
  dw_disclosureClass :: string
  dw_resultBundleId :: "string option"

definition createCorrelation ::
  "string \<Rightarrow> string \<Rightarrow> string \<Rightarrow> string \<Rightarrow> DharmaWorkerCorrelation" where
  "createCorrelation leaseId sessionId requesterDigest disclosureClass =
     \<lparr>dw_dharmaLeaseId = leaseId, dw_sessionId = sessionId,
      dw_requesterIdentityDigest = requesterDigest, dw_disclosureClass = disclosureClass,
      dw_resultBundleId = None\<rparr>"

definition validateCorrelation ::
  "DharmaWorkerCorrelation \<Rightarrow> string \<Rightarrow> string \<Rightarrow> bool \<times> string option" where
  "validateCorrelation corr expectedLeaseId expectedSessionId =
     (if dw_dharmaLeaseId corr \<noteq> expectedLeaseId then
        (False, Some (''lease id mismatch: expected '' @ expectedLeaseId @ '', got '' @
                      dw_dharmaLeaseId corr))
      else if dw_sessionId corr \<noteq> expectedSessionId then
        (False, Some (''session id mismatch: expected '' @ expectedSessionId @ '', got '' @
                      dw_sessionId corr))
      else if \<not> truthy (dw_requesterIdentityDigest corr) then
        (False, Some ''missing requester identity digest'')
      else if \<not> truthy (dw_disclosureClass corr) then
        (False, Some ''missing disclosure class'')
      else (True, None))"

section \<open>What admission decides\<close>

definition requested_model :: "PrismWorkerRequest \<Rightarrow> PrismWorkerModel list \<Rightarrow> PrismWorkerModel option" where
  "requested_model request models =
     List.find (\<lambda>m. md_modelId m = wr_modelId request \<or>
                    md_artifactDigest m = wr_modelArtifactDigest request) models"

definition model_available :: "PrismWorkerRequest \<Rightarrow> PrismWorkerModel list \<Rightarrow> bool" where
  "model_available request models =
     (case requested_model request models of None \<Rightarrow> False | Some m \<Rightarrow> isModelReady m)"

definition admission_gates ::
  "millis \<Rightarrow> PrismWorkerRequest \<Rightarrow> PrismModelWorker \<Rightarrow> PrismWorkerModel list \<Rightarrow> int \<Rightarrow> int \<Rightarrow>
   int option \<Rightarrow> int option \<Rightarrow> (bool \<times> WorkerErrorCode) list" where
  "admission_gates now r w ms inflight maxConcurrent maxInput maxOutput =
     [(canAcceptRequests (mw_lifecycleState w), WE_worker_draining),
      (model_available r ms, WE_model_not_loaded),
      (\<not> (0 < wr_maxInputTokens r \<and> exceeds (wr_maxInputTokens r) maxInput), WE_input_too_large),
      (\<not> (0 < wr_maxOutputTokens r \<and> exceeds (wr_maxOutputTokens r) maxOutput),
       WE_output_budget_exceeded),
      (inflight < maxConcurrent, WE_worker_overloaded),
      (checkDeadline now r, WE_request_timeout)]"

lemma checkModelLoaded_eq:
  "checkModelLoaded r ms =
     (if model_available r ms then (True, None) else (False, Some WE_model_not_loaded))"
  by (simp add: checkModelLoaded_def requested_model_def model_available_def isModelReady_def
      split: option.splits)

lemma admission_first_failure:
  "ad_errorCode (evaluateAdmission now r w ms n k mi mo) =
     first_failure (admission_gates now r w ms n k mi mo)"
  by (simp add: evaluateAdmission_def admission_gates_def checkWorkerState_def checkModelLoaded_eq
      checkTokenBudget_def checkConcurrency_def Let_def) blast

lemma admitted_iff:
  "ad_admitted (evaluateAdmission now r w ms n k mi mo) \<longleftrightarrow>
     first_failure (admission_gates now r w ms n k mi mo) = None"
  by (simp add: evaluateAdmission_def admission_gates_def checkWorkerState_def checkModelLoaded_eq
      checkTokenBudget_def checkConcurrency_def Let_def del: first_failure_None) blast

lemma requested_model_in: "requested_model r ms = Some m \<Longrightarrow> m \<in> set ms"
  by (auto simp: requested_model_def find_Some_iff)

text \<open>
  C40: the error code of an admission is that of the first gate that fails, in the order worker state,
  model, input budget, output budget, concurrency, deadline, and the request is admitted exactly when
  none fails; an admitted request runs on a ready worker below its limit whose health is healthy, or
  degraded from 64 requests in flight on, and the first model entry that matches it is loaded.
\<close>

theorem admission_exact:
  "ad_errorCode (evaluateAdmission now r w ms n k mi mo) =
     first_failure (admission_gates now r w ms n k mi mo) \<and>
   (ad_admitted (evaluateAdmission now r w ms n k mi mo) \<longleftrightarrow>
     ad_errorCode (evaluateAdmission now r w ms n k mi mo) = None) \<and>
   (ad_admitted (evaluateAdmission now r w ms n k mi mo) \<longrightarrow>
     isReady w ms \<and> n < k \<and>
     assessHealth w ms n = (if n < 64 then WH_healthy else WH_degraded) \<and>
     (\<exists>m\<in>set ms. requested_model r ms = Some m \<and> isModelReady m))"
proof (intro conjI impI)
  assume "ad_admitted (evaluateAdmission now r w ms n k mi mo)"
  then have gates: "canAcceptRequests (mw_lifecycleState w)" "n < k"
    and av: "model_available r ms"
    by (simp_all add: admitted_iff admission_gates_def del: first_failure.simps)
  then obtain m where m: "requested_model r ms = Some m" "isModelReady m" "m \<in> set ms"
    using requested_model_in [of r ms] av by (auto simp: model_available_def split: option.splits)
  have loaded: "List.filter (\<lambda>m. md_modelState m = MS_loaded) ms \<noteq> []"
    using m by (auto simp: filter_empty_conv isModelReady_def)
  show "isReady w ms" using gates m
    by (auto simp: isReady_def canAcceptRequests_def list_ex_iff isModelReady_def)
  show "n < k" by (fact gates)
  show "assessHealth w ms n = (if n < 64 then WH_healthy else WH_degraded)"
    using gates loaded by (auto simp: assessHealth_def canAcceptRequests_def Let_def)
  show "\<exists>m\<in>set ms. requested_model r ms = Some m \<and> isModelReady m" using m by blast
qed (simp_all only: admission_first_failure admitted_iff)

definition sample_worker :: PrismModelWorker where
  "sample_worker =
     \<lparr>mw_workerId = ''w'', mw_workerInstanceId = ''i'', mw_workerVersion = ''1'', mw_protocolVersion = 1,
      mw_lifecycleState = WL_serving, mw_advertisedModels = [], mw_targetCapabilitySignature = [],
      mw_containmentProfileDigest = None, mw_deploymentClass = [], mw_startedAt = Iso 0\<rparr>"

definition sample_worker_request :: PrismWorkerRequest where
  "sample_worker_request =
     \<lparr>wr_requestId = ''r'', wr_requestNamespace = ''ns'', wr_modelId = ''m'',
      wr_modelArtifactDigest = ''d'', wr_workloadClass = RW_completion, wr_inputDigest = [],
      wr_promptReference = [], wr_maxInputTokens = 10, wr_maxOutputTokens = 10,
      wr_samplingPolicy = [], wr_stream = False, wr_deadlineAt = Some (Iso 100),
      wr_dharmaLeaseId = None, wr_sessionId = None, wr_traceContext = None\<rparr>"

theorem admission_exact_witness:
  "isReady sample_worker [(createModelEntry ''d'' ''f'' ''t'')\<lparr>md_modelState := MS_loaded\<rparr>]"
proof -
  have "ad_admitted (evaluateAdmission 50 sample_worker_request sample_worker
      [(createModelEntry ''d'' ''f'' ''t'')\<lparr>md_modelState := MS_loaded\<rparr>] 3 4 None (Some 20))"
    by (simp add: evaluateAdmission_def sample_worker_request_def sample_worker_def createModelEntry_def
        checkWorkerState_def canAcceptRequests_def checkModelLoaded_def checkTokenBudget_def
        exceeds_def checkConcurrency_def checkDeadline_def)
  with admission_exact [of 50 sample_worker_request sample_worker _ 3 4 None "Some 20"]
  show ?thesis by blast
qed

section \<open>How executions end\<close>

datatype ExecutionOp = EO_complete | EO_fail | EO_cancel | EO_cancelRequest

fun execution_step :: "millis \<Rightarrow> PrismRequestExecution \<Rightarrow> ExecutionOp \<Rightarrow> PrismRequestExecution" where
  "execution_step now e EO_complete = completeExecution now e"
| "execution_step now e EO_fail = failExecution now e"
| "execution_step now e EO_cancel = cancelExecution now e"
| "execution_step now e EO_cancelRequest = worker_cancelRequest now e"

lemmas execution_defs = completeExecution_def failExecution_def cancelExecution_def
  worker_cancelRequest_def execution_active_def decode_terminal_def prefill_terminal_def

lemma active_iff: "execution_active e \<longleftrightarrow> \<not> decode_terminal (ex_decodeState e)"
  by (auto simp: execution_defs)

lemma execution_step_ends:
  "\<not> execution_active (execution_step now e op) \<and>
   ex_completedAt (execution_step now e op) = Some (Iso now) \<and>
   ex_executionId (execution_step now e op) = ex_executionId e \<and>
   ex_requestId (execution_step now e op) = ex_requestId e"
  by (cases op) (auto simp: execution_defs)

text \<open>
  Every way to end an execution makes it inactive and stamps its completion; cancelling a request
  twice gives the states of cancelling it once and keeps a state that is already terminal, so that it
  changes no state exactly when both phases are terminal, whereas \<open>isCancellationIdempotent\<close> already
  holds when one of them is; completing overrides a cancellation, and \<open>cancelExecution\<close> overrides a
  completion.
\<close>

theorem execution_endings:
  "\<not> execution_active (execution_step now e op) \<and>
   ex_completedAt (execution_step now e op) = Some (Iso now) \<and>
   worker_cancelRequest t2 (worker_cancelRequest t1 e) =
     (worker_cancelRequest t1 e)\<lparr>ex_completedAt := Some (Iso t2)\<rparr> \<and>
   (worker_cancelRequest t1 e = e\<lparr>ex_completedAt := Some (Iso t1)\<rparr> \<longleftrightarrow>
     prefill_terminal (ex_prefillState e) \<and> decode_terminal (ex_decodeState e)) \<and>
   (isCancellationIdempotent e \<longleftrightarrow>
     prefill_terminal (ex_prefillState e) \<or> decode_terminal (ex_decodeState e)) \<and>
   completeExecution t2 (worker_cancelRequest t1 e) = completeExecution t2 e \<and>
   cancelExecution t2 (completeExecution t1 e) = cancelExecution t2 e"
proof (intro conjI)
  show "worker_cancelRequest t1 e = e\<lparr>ex_completedAt := Some (Iso t1)\<rparr> \<longleftrightarrow>
      prefill_terminal (ex_prefillState e) \<and> decode_terminal (ex_decodeState e)"
    by (cases e) (auto simp: execution_defs)
  show "isCancellationIdempotent e \<longleftrightarrow>
      prefill_terminal (ex_prefillState e) \<or> decode_terminal (ex_decodeState e)"
    by (auto simp: isCancellationIdempotent_def execution_defs)
qed (use execution_step_ends in \<open>simp_all add: execution_defs Let_def\<close>)

end
