(* ===== verification/Worker_Engine.thy ===== *)
theory Worker_Engine imports Worker_Requests Js_Map Js_Number begin

text \<open>
  Running requests: usage receipts (\<open>serving/worker-receipts.ts\<close>), the in-memory metrics collector
  (\<open>worker-metrics.ts\<close>) and the adapter over the native inference server (\<open>engine-adapter.ts\<close>),
  whose session table is a JavaScript \<open>Map\<close> keyed by request.  The native server is a parameter:
  a record of its methods on a state of its own, any of which may throw.
\<close>

section \<open>Usage receipts\<close>

record PrismWorkerUsageReceipt =
  ur_receiptId :: string
  ur_requestId :: string
  ur_dharmaLeaseId :: "string option"
  ur_sessionId :: "string option"
  ur_workerId :: string
  ur_workerInstanceId :: string
  ur_modelArtifactDigest :: string
  ur_tokenizerDigest :: string
  ur_computeImageDigest :: string
  ur_targetCapabilitySignature :: string
  ur_workloadClass :: RequestWorkloadClass
  ur_inputDigest :: string
  ur_outputDigest :: "string option"
  ur_inputTokenCount :: "int option"
  ur_outputTokenCount :: "int option"
  ur_prefillDurationMs :: "int option"
  ur_decodeDurationMs :: "int option"
  ur_totalDurationMs :: int
  ur_peakMemoryBytes :: "int option"
  ur_kvCacheStatus :: "string option"
  ur_executionState :: string
  ur_failureClass :: "string option"
  ur_emittedAt :: timestamp
  ur_workerSignature :: string

text \<open>
  The worker of a receipt is given by the two fields the function reads; the engine adapter passes
  an object with only these.
\<close>

record CreateWorkerReceiptConfig =
  wc_request :: PrismWorkerRequest
  wc_workerId :: string
  wc_workerInstanceId :: string
  wc_execution :: PrismRequestExecution
  wc_inputTokens :: "int option"
  wc_outputTokens :: "int option"
  wc_prefillMs :: "int option"
  wc_decodeMs :: "int option"
  wc_totalMs :: int
  wc_peakMemoryBytes :: "int option"
  wc_kvStatus :: "string option"
  wc_executionState :: string
  wc_failureClass :: "string option"

definition createWorkerReceipt ::
  "(string \<Rightarrow> string) \<Rightarrow> millis \<Rightarrow> string \<Rightarrow> CreateWorkerReceiptConfig \<Rightarrow> PrismWorkerUsageReceipt" where
  "createWorkerReceipt sha256 now uuid config =
     (let request = wc_request config;
          execution = wc_execution config;
          digestPayload = wc_workerId config @ '':'' @ wc_workerInstanceId config @ '':'' @
            show_int (wc_totalMs config);
          workerSignature = sha256 digestPayload
      in \<lparr>ur_receiptId = uuid,
          ur_requestId = wr_requestId request,
          ur_dharmaLeaseId = wr_dharmaLeaseId request,
          ur_sessionId = wr_sessionId request,
          ur_workerId = wc_workerId config,
          ur_workerInstanceId = wc_workerInstanceId config,
          ur_modelArtifactDigest = wr_modelArtifactDigest request,
          ur_tokenizerDigest = [],
          ur_computeImageDigest = ex_computeImageDigest execution,
          ur_targetCapabilitySignature = ex_targetCapabilitySignature execution,
          ur_workloadClass = wr_workloadClass request,
          ur_inputDigest = wr_inputDigest request,
          ur_outputDigest = None,
          ur_inputTokenCount = wc_inputTokens config,
          ur_outputTokenCount = wc_outputTokens config,
          ur_prefillDurationMs = wc_prefillMs config,
          ur_decodeDurationMs = wc_decodeMs config,
          ur_totalDurationMs = wc_totalMs config,
          ur_peakMemoryBytes = wc_peakMemoryBytes config,
          ur_kvCacheStatus = wc_kvStatus config,
          ur_executionState = wc_executionState config,
          ur_failureClass = wc_failureClass config,
          ur_emittedAt = Iso now,
          ur_workerSignature = workerSignature\<rparr>)"

definition VALID_EXECUTION_STATES :: "string set" where
  "VALID_EXECUTION_STATES = {''completed'', ''failed'', ''cancelled'', ''timeout''}"

definition negative_count :: "int option \<Rightarrow> bool" where
  "negative_count v = (case v of None \<Rightarrow> False | Some n \<Rightarrow> n < 0)"

definition isReceiptValid :: "PrismWorkerUsageReceipt \<Rightarrow> bool" where
  "isReceiptValid receipt =
     (if \<not> truthy (ur_receiptId receipt) then False
      else if \<not> truthy (ur_requestId receipt) then False
      else if \<not> truthy (ur_workerId receipt) then False
      else if \<not> truthy (ur_workerInstanceId receipt) then False
      else if \<not> truthy (ur_modelArtifactDigest receipt) then False
      else if ur_totalDurationMs receipt < 0 then False
      else if \<not> truthy (ur_executionState receipt) then False
      else if ur_executionState receipt \<notin> VALID_EXECUTION_STATES then False
      else if \<not> ts_truthy (ur_emittedAt receipt) then False
      else if \<not> truthy (ur_workerSignature receipt) then False
      else if negative_count (ur_inputTokenCount receipt) then False
      else if negative_count (ur_outputTokenCount receipt) then False
      else if negative_count (ur_prefillDurationMs receipt) then False
      else if negative_count (ur_decodeDurationMs receipt) then False
      else if negative_count (ur_peakMemoryBytes receipt) then False
      else True)"

section \<open>The native server and the adapter\<close>

text \<open>
  \<open>'n\<close> is the state of the native server, \<open>'g\<close> a generation result, \<open>'c\<close> a cancellation receipt.
  Of the native capabilities only \<open>supportsGpu\<close> is read.
\<close>

record ('n, 'g, 'c) PrismInferenceServer =
  ns_capabilities :: "'n \<Rightarrow> 'n \<times> bool result"
  ns_createSession :: "'n \<Rightarrow> string \<Rightarrow> 'n \<times> string result"
  ns_closeSession :: "'n \<Rightarrow> string \<Rightarrow> 'n \<times> unit result"
  ns_generate :: "'n \<Rightarrow> string \<Rightarrow> int list \<Rightarrow> int \<Rightarrow> 'n \<times> 'g result"
  ns_cancel :: "'n \<Rightarrow> string \<Rightarrow> 'n \<times> 'c result"

record EngineAdapterConfig =
  ec_modelStorePath :: string
  ec_maxConcurrentSessions :: int
  ec_maxInputTokens :: int
  ec_maxOutputTokens :: int

definition DEFAULT_ENGINE_CONFIG :: EngineAdapterConfig where
  "DEFAULT_ENGINE_CONFIG =
     \<lparr>ec_modelStorePath = [], ec_maxConcurrentSessions = 4, ec_maxInputTokens = 4096,
      ec_maxOutputTokens = 2048\<rparr>"

record EngineSession =
  es_execution :: PrismRequestExecution
  es_request :: PrismWorkerRequest
  es_startedAt :: timestamp

record 'n PrismEngineAdapter =
  en_server :: 'n
  en_config :: EngineAdapterConfig
  en_sessions :: "(string \<times> EngineSession) list"

text \<open>The constructor; the partial configuration is the function that overwrites what it gives.\<close>

definition createEngineAdapter ::
  "(EngineAdapterConfig \<Rightarrow> 'n) \<Rightarrow> (EngineAdapterConfig \<Rightarrow> EngineAdapterConfig) \<Rightarrow>
   'n PrismEngineAdapter" where
  "createEngineAdapter newServer config =
     (let cfg = config DEFAULT_ENGINE_CONFIG
      in \<lparr>en_server = newServer cfg, en_config = cfg, en_sessions = []\<rparr>)"

record PrismWorkerCapabilities =
  cp_protocolVersion :: int
  cp_supportedWorkloadClasses :: "string list"
  cp_supportedStreamModes :: "string list"
  cp_supportedArtifactFormats :: "string list"
  cp_supportedComputeTargets :: "string list"
  cp_maximumConcurrentRequests :: int
  cp_maximumInputTokens :: int
  cp_maximumOutputTokens :: int
  cp_supportsCancellation :: bool
  cp_supportsStreaming :: bool
  cp_supportsKvEvents :: bool
  cp_supportsDrain :: bool
  cp_supportsDharmaLeaseCorrelation :: bool

definition engine_capabilities ::
  "('n, 'g, 'c) PrismInferenceServer \<Rightarrow> 'n PrismEngineAdapter \<Rightarrow>
   'n PrismEngineAdapter \<times> PrismWorkerCapabilities result" where
  "engine_capabilities ns en =
     (case ns_capabilities ns (en_server en) of
        (n, Inl e) \<Rightarrow> (en\<lparr>en_server := n\<rparr>, Inl e)
      | (n, Inr gpu) \<Rightarrow>
          (en\<lparr>en_server := n\<rparr>,
           Inr \<lparr>cp_protocolVersion = 1,
                cp_supportedWorkloadClasses = [''chat_completion'', ''completion''],
                cp_supportedStreamModes = [''sse''],
                cp_supportedArtifactFormats = [''gguf''],
                cp_supportedComputeTargets = (if gpu then [''metal'', ''cpu''] else [''cpu'']),
                cp_maximumConcurrentRequests = ec_maxConcurrentSessions (en_config en),
                cp_maximumInputTokens = ec_maxInputTokens (en_config en),
                cp_maximumOutputTokens = ec_maxOutputTokens (en_config en),
                cp_supportsCancellation = True,
                cp_supportsStreaming = True,
                cp_supportsKvEvents = True,
                cp_supportsDrain = True,
                cp_supportsDharmaLeaseCorrelation = True\<rparr>))"

definition engine_createSession ::
  "('n, 'g, 'c) PrismInferenceServer \<Rightarrow> 'n PrismEngineAdapter \<Rightarrow> string \<Rightarrow>
   'n PrismEngineAdapter \<times> string result" where
  "engine_createSession ns en modelDigest =
     (case ns_createSession ns (en_server en) modelDigest of
        (n, r) \<Rightarrow> (en\<lparr>en_server := n\<rparr>, r))"

definition engine_closeSession ::
  "('n, 'g, 'c) PrismInferenceServer \<Rightarrow> 'n PrismEngineAdapter \<Rightarrow> string \<Rightarrow>
   'n PrismEngineAdapter \<times> unit result" where
  "engine_closeSession ns en sessionId =
     (case ns_closeSession ns (en_server en) sessionId of
        (n, Inl e) \<Rightarrow> (en\<lparr>en_server := n\<rparr>, Inl e)
      | (n, Inr u) \<Rightarrow>
          (en\<lparr>en_server := n, en_sessions := map_delete sessionId (en_sessions en)\<rparr>, Inr ()))"

definition admitAndExecute ::
  "(nat \<Rightarrow> millis) \<Rightarrow> 'n PrismEngineAdapter \<Rightarrow> PrismWorkerRequest \<Rightarrow> string \<Rightarrow>
   'n PrismEngineAdapter \<times> PrismRequestExecution" where
  "admitAndExecute clk en request sessionId =
     (let execution = createExecution (clk 0) (''exec-'' @ wr_requestId request)
            (wr_requestId request) (wr_modelArtifactDigest request);
          started = startExecution (clk 1) execution
      in (en\<lparr>en_sessions := map_set (wr_requestId request)
               \<lparr>es_execution = started, es_request = request, es_startedAt = Iso (clk 2)\<rparr>
               (en_sessions en)\<rparr>,
          started))"

definition engine_generate ::
  "('n, 'g, 'c) PrismInferenceServer \<Rightarrow> millis \<Rightarrow> 'n PrismEngineAdapter \<Rightarrow> string \<Rightarrow> string \<Rightarrow>
   int list \<Rightarrow> int \<Rightarrow> 'n PrismEngineAdapter \<times> 'g result" where
  "engine_generate ns now en sessionId requestId inputIds maxTokens =
     (case map_get (en_sessions en) requestId of
        None \<Rightarrow> (en, Inl (''no session for request '' @ requestId))
      | Some session \<Rightarrow>
          (case ns_generate ns (en_server en) sessionId inputIds maxTokens of
             (n, Inl e) \<Rightarrow> (en\<lparr>en_server := n\<rparr>, Inl e)
           | (n, Inr result) \<Rightarrow>
               (en\<lparr>en_server := n,
                   en_sessions := map_set requestId
                     (session\<lparr>es_execution := completeExecution now (es_execution session)\<rparr>)
                     (en_sessions en)\<rparr>,
                Inr result)))"

definition engine_cancelRequest ::
  "('n, 'g, 'c) PrismInferenceServer \<Rightarrow> millis \<Rightarrow> 'n PrismEngineAdapter \<Rightarrow> string \<Rightarrow> string \<Rightarrow>
   'n PrismEngineAdapter \<times> 'c option result" where
  "engine_cancelRequest ns now en requestId sessionId =
     (case map_get (en_sessions en) requestId of
        None \<Rightarrow> (en, Inr None)
      | Some session \<Rightarrow>
          (case ns_cancel ns (en_server en) sessionId of
             (n, Inl e) \<Rightarrow> (en\<lparr>en_server := n\<rparr>, Inl e)
           | (n, Inr receipt) \<Rightarrow>
               (en\<lparr>en_server := n,
                   en_sessions := map_set requestId
                     (session\<lparr>es_execution := cancelExecution now (es_execution session)\<rparr>)
                     (en_sessions en)\<rparr>,
                Inr (Some receipt))))"

definition engine_buildReceipt ::
  "(string \<Rightarrow> string) \<Rightarrow> millis \<Rightarrow> string \<Rightarrow> PrismWorkerRequest \<Rightarrow> int \<Rightarrow> PrismRequestExecution \<Rightarrow> string \<Rightarrow>
   string \<Rightarrow> int \<Rightarrow> int \<Rightarrow> PrismWorkerUsageReceipt" where
  "engine_buildReceipt sha256 now uuid request tokenCount execution workerId instanceId prefillMs decodeMs =
     createWorkerReceipt sha256 now uuid
       \<lparr>wc_request = request, wc_workerId = workerId, wc_workerInstanceId = instanceId,
        wc_execution = execution,
        wc_inputTokens = Some (wr_maxInputTokens request),
        wc_outputTokens = Some tokenCount,
        wc_prefillMs = Some prefillMs, wc_decodeMs = Some decodeMs,
        wc_totalMs = prefillMs + decodeMs, wc_peakMemoryBytes = None, wc_kvStatus = None,
        wc_executionState = ''completed'', wc_failureClass = None\<rparr>"

definition getSession :: "'n PrismEngineAdapter \<Rightarrow> string \<Rightarrow> EngineSession option" where
  "getSession en requestId = map_get (en_sessions en) requestId"

definition engine_isHealthy ::
  "('n, 'g, 'c) PrismInferenceServer \<Rightarrow> 'n PrismEngineAdapter \<Rightarrow> 'n PrismEngineAdapter \<times> bool" where
  "engine_isHealthy ns en =
     (case ns_capabilities ns (en_server en) of
        (n, Inl e) \<Rightarrow> (en\<lparr>en_server := n\<rparr>, False)
      | (n, Inr gpu) \<Rightarrow> (en\<lparr>en_server := n\<rparr>, True))"

definition engine_shutdown :: "'n PrismEngineAdapter \<Rightarrow> 'n PrismEngineAdapter" where
  "engine_shutdown en = en\<lparr>en_sessions := []\<rparr>"

section \<open>The metrics collector\<close>

text \<open>
  The counters of \<open>createMetricsCollector\<close>; durations are accumulated as binary64 numbers, the other
  counters are whole.
\<close>

record CounterState =
  ct_requests :: "string \<rightharpoonup> int"
  ct_failures :: "string \<rightharpoonup> int"
  ct_cancellations :: "string \<rightharpoonup> int"
  ct_prefillDurationMs :: rat
  ct_decodeDurationMs :: rat
  ct_inputTokens :: int
  ct_outputTokens :: int
  ct_kvEvents :: int
  ct_kvHits :: int
  ct_kvMisses :: int
  ct_kvBytes :: int
  ct_modelLoadDurationMs :: rat
  ct_computeImageLoadDurationMs :: rat
  ct_usageReceipts :: int
  ct_inflight :: int

definition createMetricsCollector :: CounterState where
  "createMetricsCollector =
     \<lparr>ct_requests = (\<lambda>k. None), ct_failures = (\<lambda>k. None), ct_cancellations = (\<lambda>k. None),
      ct_prefillDurationMs = 0, ct_decodeDurationMs = 0, ct_inputTokens = 0, ct_outputTokens = 0,
      ct_kvEvents = 0, ct_kvHits = 0, ct_kvMisses = 0, ct_kvBytes = 0, ct_modelLoadDurationMs = 0,
      ct_computeImageLoadDurationMs = 0, ct_usageReceipts = 0, ct_inflight = 0\<rparr>"

definition bump :: "string \<Rightarrow> (string \<rightharpoonup> int) \<Rightarrow> string \<rightharpoonup> int" where
  "bump key m = m(key \<mapsto> nullish (m key) 0 + 1)"

definition recordRequest :: "string \<Rightarrow> CounterState \<Rightarrow> CounterState" where
  "recordRequest modelId st =
     st\<lparr>ct_requests := bump modelId (ct_requests st), ct_inflight := ct_inflight st + 1\<rparr>"

definition recordFailure :: "string \<Rightarrow> string \<Rightarrow> CounterState \<Rightarrow> CounterState" where
  "recordFailure modelId errorCode st =
     st\<lparr>ct_failures := bump (modelId @ '':'' @ errorCode) (ct_failures st)\<rparr>"

definition recordCancellation :: "string \<Rightarrow> CounterState \<Rightarrow> CounterState" where
  "recordCancellation modelId st = st\<lparr>ct_cancellations := bump modelId (ct_cancellations st)\<rparr>"

definition recordPrefillDuration :: "rat \<Rightarrow> CounterState \<Rightarrow> CounterState" where
  "recordPrefillDuration ms st =
     st\<lparr>ct_prefillDurationMs := num_add (ct_prefillDurationMs st) ms\<rparr>"

definition recordDecodeDuration :: "rat \<Rightarrow> CounterState \<Rightarrow> CounterState" where
  "recordDecodeDuration ms st = st\<lparr>ct_decodeDurationMs := num_add (ct_decodeDurationMs st) ms\<rparr>"

definition recordTokens :: "int \<Rightarrow> int \<Rightarrow> CounterState \<Rightarrow> CounterState" where
  "recordTokens inp outp st =
     st\<lparr>ct_inputTokens := ct_inputTokens st + inp, ct_outputTokens := ct_outputTokens st + outp\<rparr>"

definition recordKvEvent :: "int \<Rightarrow> bool \<Rightarrow> CounterState \<Rightarrow> CounterState" where
  "recordKvEvent bytes hit st =
     (let st1 = st\<lparr>ct_kvEvents := ct_kvEvents st + 1, ct_kvBytes := ct_kvBytes st + bytes\<rparr>
      in if hit then st1\<lparr>ct_kvHits := ct_kvHits st1 + 1\<rparr>
         else st1\<lparr>ct_kvMisses := ct_kvMisses st1 + 1\<rparr>)"

definition recordModelLoadDuration :: "rat \<Rightarrow> CounterState \<Rightarrow> CounterState" where
  "recordModelLoadDuration ms st =
     st\<lparr>ct_modelLoadDurationMs := num_add (ct_modelLoadDurationMs st) ms\<rparr>"

definition recordComputeImageLoadDuration :: "rat \<Rightarrow> CounterState \<Rightarrow> CounterState" where
  "recordComputeImageLoadDuration ms st =
     st\<lparr>ct_computeImageLoadDurationMs := num_add (ct_computeImageLoadDurationMs st) ms\<rparr>"

definition recordUsageReceipt :: "CounterState \<Rightarrow> CounterState" where
  "recordUsageReceipt st = st\<lparr>ct_usageReceipts := ct_usageReceipts st + 1\<rparr>"

definition getInflight :: "CounterState \<Rightarrow> int" where
  "getInflight st = ct_inflight st"

text \<open>\<open>Object.fromEntries(Object.entries(m).map(([k]) => [prefix + k, m[k]]))\<close> as a map.\<close>

definition prefixed :: "string \<Rightarrow> (string \<rightharpoonup> int) \<Rightarrow> string \<rightharpoonup> rat" where
  "prefixed pre m key =
     (if take (length pre) key = pre then map_option of_int (m (drop (length pre) key)) else None)"

definition getSnapshot :: "CounterState \<Rightarrow> string \<rightharpoonup> rat" where
  "getSnapshot st =
     prefixed [] (ct_requests st) ++ prefixed ''failure:'' (ct_failures st) ++
     prefixed ''cancellation:'' (ct_cancellations st) ++
     map_of
       [(''prefillDurationMs'', ct_prefillDurationMs st),
        (''decodeDurationMs'', ct_decodeDurationMs st),
        (''inputTokens'', of_int (ct_inputTokens st)),
        (''outputTokens'', of_int (ct_outputTokens st)),
        (''kvEvents'', of_int (ct_kvEvents st)),
        (''kvHits'', of_int (ct_kvHits st)),
        (''kvMisses'', of_int (ct_kvMisses st)),
        (''kvBytes'', of_int (ct_kvBytes st)),
        (''modelLoadDurationMs'', ct_modelLoadDurationMs st),
        (''computeImageLoadDurationMs'', ct_computeImageLoadDurationMs st),
        (''usageReceipts'', of_int (ct_usageReceipts st)),
        (''inflight'', of_int (ct_inflight st))]"

section \<open>What the counters count\<close>

datatype MetricsOp =
  MO_request string | MO_failure string string | MO_cancellation string | MO_prefill rat |
  MO_decode rat | MO_tokens int int | MO_kv int bool | MO_modelLoad rat | MO_imageLoad rat | MO_receipt

fun metrics_step :: "CounterState \<Rightarrow> MetricsOp \<Rightarrow> CounterState" where
  "metrics_step st (MO_request m) = recordRequest m st"
| "metrics_step st (MO_failure m c) = recordFailure m c st"
| "metrics_step st (MO_cancellation m) = recordCancellation m st"
| "metrics_step st (MO_prefill ms) = recordPrefillDuration ms st"
| "metrics_step st (MO_decode ms) = recordDecodeDuration ms st"
| "metrics_step st (MO_tokens i k) = recordTokens i k st"
| "metrics_step st (MO_kv b h) = recordKvEvent b h st"
| "metrics_step st (MO_modelLoad ms) = recordModelLoadDuration ms st"
| "metrics_step st (MO_imageLoad ms) = recordComputeImageLoadDuration ms st"
| "metrics_step st MO_receipt = recordUsageReceipt st"

definition count_ops :: "(MetricsOp \<Rightarrow> bool) \<Rightarrow> MetricsOp list \<Rightarrow> int" where
  "count_ops p ops = int (length (List.filter p ops))"

lemma count_ops_snoc [simp]: "count_ops p (ops @ [q]) = count_ops p ops + (if p q then 1 else 0)"
  by (simp add: count_ops_def)

lemma count_ops_Nil [simp]: "count_ops p [] = 0"
  by (simp add: count_ops_def)

lemmas metrics_defs = recordRequest_def recordFailure_def recordCancellation_def
  recordPrefillDuration_def recordDecodeDuration_def recordTokens_def recordKvEvent_def
  recordModelLoadDuration_def recordComputeImageLoadDuration_def recordUsageReceipt_def

fun is_request :: "MetricsOp \<Rightarrow> bool" where
  "is_request (MO_request m) = True"
| "is_request _ = False"

fun is_kv :: "bool \<Rightarrow> MetricsOp \<Rightarrow> bool" where
  "is_kv h (MO_kv b h') = (h = h')"
| "is_kv h _ = False"

lemma nullish_bump: "nullish (bump k m k') 0 = nullish (m k') 0 + (if k' = k then 1 else 0)"
  by (simp add: bump_def)

text \<open>
  After any sequence of records, the request counter of a model is the number of its requests,
  the KV hits and misses are the numbers of such events and add up to all KV events, and the in-flight
  counter is the number of all requests ever recorded: no failure, cancellation or receipt lowers it.
\<close>

theorem metrics_counters_exact:
  "let st = foldl metrics_step createMetricsCollector ops
   in nullish (ct_requests st m) 0 = count_ops (\<lambda>q. q = MO_request m) ops \<and>
     ct_kvHits st = count_ops (is_kv True) ops \<and> ct_kvMisses st = count_ops (is_kv False) ops \<and>
     ct_kvEvents st = ct_kvHits st + ct_kvMisses st \<and>
     getInflight st = count_ops is_request ops"
  unfolding Let_def
proof (induction ops rule: rev_induct)
  case Nil
  then show ?case by (simp add: createMetricsCollector_def getInflight_def)
next
  case (snoc q ops)
  then show ?case
    by (cases q) (simp_all add: metrics_defs getInflight_def nullish_bump Let_def)
qed

section \<open>The session table of the adapter\<close>

datatype EngineOp =
  EN_capabilities | EN_create string | EN_close string | EN_admit PrismWorkerRequest string |
  EN_generate string string "int list" int | EN_cancel string string | EN_shutdown

text \<open>One call with its clock readings; results and errors of the native server are dropped here.\<close>

fun engine_step ::
  "('n, 'g, 'c) PrismInferenceServer \<Rightarrow> 'n PrismEngineAdapter \<Rightarrow> EngineOp \<times> (nat \<Rightarrow> millis) \<Rightarrow>
   'n PrismEngineAdapter" where
  "engine_step ns en (EN_capabilities, clk) = fst (engine_capabilities ns en)"
| "engine_step ns en (EN_create d, clk) = fst (engine_createSession ns en d)"
| "engine_step ns en (EN_close sid, clk) = fst (engine_closeSession ns en sid)"
| "engine_step ns en (EN_admit r sid, clk) = fst (admitAndExecute clk en r sid)"
| "engine_step ns en (EN_generate sid rid ids n, clk) = fst (engine_generate ns (clk 0) en sid rid ids n)"
| "engine_step ns en (EN_cancel rid sid, clk) = fst (engine_cancelRequest ns (clk 0) en rid sid)"
| "engine_step ns en (EN_shutdown, clk) = engine_shutdown en"

lemmas engine_defs = engine_capabilities_def engine_createSession_def engine_closeSession_def
  admitAndExecute_def engine_generate_def engine_cancelRequest_def engine_shutdown_def getSession_def

definition session_ok :: "string \<Rightarrow> EngineSession \<Rightarrow> bool" where
  "session_ok rid s \<longleftrightarrow>
     wr_requestId (es_request s) = rid \<and> ex_requestId (es_execution s) = rid \<and>
     ex_executionId (es_execution s) = ''exec-'' @ rid \<and>
     (execution_active (es_execution s) \<longleftrightarrow> ex_completedAt (es_execution s) = None)"

lemma session_ok_ended [simp]:
  "session_ok rid s \<Longrightarrow> session_ok rid (s\<lparr>es_execution := completeExecution now (es_execution s)\<rparr>)"
  "session_ok rid s \<Longrightarrow> session_ok rid (s\<lparr>es_execution := cancelExecution now (es_execution s)\<rparr>)"
  by (simp_all add: session_ok_def execution_defs)

lemma session_ok_started [simp]:
  "xid = ''exec-'' @ wr_requestId r \<Longrightarrow> session_ok (wr_requestId r)
     \<lparr>es_execution = startExecution t1 (createExecution t0 xid (wr_requestId r) d),
      es_request = r, es_startedAt = ts\<rparr>"
  by (simp add: session_ok_def startExecution_def createExecution_def execution_active_def)

definition engine_inv :: "'n PrismEngineAdapter \<Rightarrow> bool" where
  "engine_inv en \<longleftrightarrow> map_inv (en_sessions en) \<and> (\<forall>rid s. getSession en rid = Some s \<longrightarrow> session_ok rid s)"

lemma engine_inv_step: "engine_inv en \<Longrightarrow> engine_inv (engine_step ns en op)"
  by (induction ns en op rule: engine_step.induct)
    (auto simp: engine_inv_def engine_defs Let_def split: prod.splits sum.splits option.splits if_splits)

text \<open>Which requests the table holds after a call.\<close>

lemma engine_dom_step:
  "dom (getSession (engine_step ns en (op, clk))) =
     (case op of
        EN_admit r sid \<Rightarrow> insert (wr_requestId r) (dom (getSession en))
      | EN_close sid \<Rightarrow> (case snd (ns_closeSession ns (en_server en) sid) of
            Inl e \<Rightarrow> dom (getSession en) | Inr u \<Rightarrow> dom (getSession en) - {sid})
      | EN_shutdown \<Rightarrow> {}
      | _ \<Rightarrow> dom (getSession en))"
  by (cases op)
    (auto simp: engine_defs Let_def dom_def split: prod.splits sum.splits option.splits if_splits)

text \<open>
  Over any native server, after any sequence of calls on a new adapter, every entry of the session
  table is stored under its own request, with the execution of that request, which is active exactly
  as long as it has no completion time.
\<close>

theorem engine_table_invariant:
  assumes "getSession (foldl (engine_step ns) (createEngineAdapter new cfg) ops) rid = Some s"
  shows "wr_requestId (es_request s) = rid \<and> ex_requestId (es_execution s) = rid \<and>
    ex_executionId (es_execution s) = ''exec-'' @ rid \<and>
    (execution_active (es_execution s) \<longleftrightarrow> ex_completedAt (es_execution s) = None)"
proof -
  have "engine_inv (foldl (engine_step ns) (createEngineAdapter new cfg) ops)"
  proof (induction ops rule: rev_induct)
    case Nil
    then show ?case by (simp add: engine_inv_def createEngineAdapter_def getSession_def Let_def)
  next
    case (snoc op ops)
    then show ?case by (simp add: engine_inv_step)
  qed
  with assms show ?thesis by (simp add: engine_inv_def session_ok_def)
qed

text \<open>A native server that accepts everything; its state counts the sessions it has created.\<close>

definition sample_native :: "(nat, int list, unit) PrismInferenceServer" where
  "sample_native =
     \<lparr>ns_capabilities = (\<lambda>n. (n, Inr False)),
      ns_createSession = (\<lambda>n d. (n + 1, Inr (''s'' @ show_nat n))),
      ns_closeSession = (\<lambda>n sid. (n, Inr ())),
      ns_generate = (\<lambda>n sid ids k. (n, Inr ids)),
      ns_cancel = (\<lambda>n sid. (n, Inr ()))\<rparr>"

theorem engine_table_invariant_witness:
  "\<exists>s. getSession (foldl (engine_step sample_native) (createEngineAdapter (\<lambda>c. 0) (\<lambda>c. c))
      [(EN_admit sample_worker_request ''s0'', int), (EN_generate ''s0'' ''r'' [1] 5, int)]) ''r'' = Some s \<and>
    ex_executionId (es_execution s) = ''exec-r'' \<and> \<not> execution_active (es_execution s)"
proof -
  obtain s where s: "getSession (foldl (engine_step sample_native) (createEngineAdapter (\<lambda>c. 0) (\<lambda>c. c))
      [(EN_admit sample_worker_request ''s0'', int), (EN_generate ''s0'' ''r'' [1] 5, int)]) ''r'' = Some s"
    and fin: "ex_completedAt (es_execution s) \<noteq> None"
    by (simp add: engine_defs createEngineAdapter_def sample_worker_request_def sample_native_def
        completeExecution_def Let_def map_get_def)
  from engine_table_invariant [OF s] fin have "ex_executionId (es_execution s) = ''exec-r''"
    "\<not> execution_active (es_execution s)" by simp_all
  with s show ?thesis by blast
qed

definition admitted_requests :: "(EngineOp \<times> (nat \<Rightarrow> millis)) list \<Rightarrow> string set" where
  "admitted_requests ops = {wr_requestId r | r sid clk. (EN_admit r sid, clk) \<in> set ops}"

lemma admitted_requests_snoc [simp]:
  "admitted_requests (ops @ [(op, clk)]) =
     (case op of EN_admit r sid \<Rightarrow> insert (wr_requestId r) (admitted_requests ops)
      | _ \<Rightarrow> admitted_requests ops)"
  by (cases op) (auto simp: admitted_requests_def)

text \<open>
  The table is keyed by request, but \<open>closeSession\<close> deletes by session: as long as no session that
  is closed has the identifier of a request, and until a shutdown, the table keeps every request ever
  admitted, completed and cancelled ones included, over any native server.
\<close>

theorem engine_close_leaks:
  assumes "\<forall>(op, clk)\<in>set ops. op \<noteq> EN_shutdown \<and> (\<forall>sid. op = EN_close sid \<longrightarrow> sid \<notin> admitted_requests ops)"
  shows "dom (getSession (foldl (engine_step ns) (createEngineAdapter new cfg) ops)) = admitted_requests ops"
  using assms
proof (induction ops rule: rev_induct)
  case Nil
  then show ?case
    by (auto simp: createEngineAdapter_def getSession_def admitted_requests_def Let_def)
next
  case (snoc q ops)
  obtain op clk where q: "q = (op, clk)" by (cases q)
  have sub: "admitted_requests ops \<subseteq> admitted_requests (ops @ [q])"
    by (auto simp: admitted_requests_def)
  with snoc.prems have "\<forall>(op, clk)\<in>set ops. op \<noteq> EN_shutdown \<and>
      (\<forall>sid. op = EN_close sid \<longrightarrow> sid \<notin> admitted_requests ops)" by fastforce
  note IH = snoc.IH [OF this]
  from snoc.prems q have "op \<noteq> EN_shutdown" "\<And>sid. op = EN_close sid \<Longrightarrow> sid \<notin> admitted_requests ops"
    using sub by auto
  then show ?case
    unfolding q foldl_append foldl.simps engine_dom_step IH admitted_requests_snoc
    by (cases op) (auto split: sum.splits)
qed

theorem engine_close_leaks_witness:
  "dom (getSession (foldl (engine_step sample_native) (createEngineAdapter (\<lambda>c. 0) (\<lambda>c. c))
      [(EN_create ''d'', int), (EN_admit sample_worker_request ''s0'', int),
       (EN_generate ''s0'' ''r'' [1] 5, int), (EN_close ''s0'', int)])) =
   admitted_requests [(EN_create ''d'', int), (EN_admit sample_worker_request ''s0'', int),
       (EN_generate ''s0'' ''r'' [1] 5, int), (EN_close ''s0'', int)]"
  by (rule engine_close_leaks) (auto simp: admitted_requests_def sample_worker_request_def)

text \<open>
  A receipt of the engine is valid exactly when it has its identifiers and a signature and no
  negative duration or token count; it reports the requested input limit as the number of input
  tokens, and its signature depends on the worker, the instance and the total duration alone: with
  the same worker and duration, another request, result or model has the same signature.
\<close>

theorem engine_receipt_scope:
  "(isReceiptValid (engine_buildReceipt h now u r n e w i p d) \<longleftrightarrow>
     u \<noteq> [] \<and> wr_requestId r \<noteq> [] \<and> w \<noteq> [] \<and> i \<noteq> [] \<and> wr_modelArtifactDigest r \<noteq> [] \<and>
     0 \<le> p \<and> 0 \<le> d \<and> 0 \<le> n \<and> 0 \<le> wr_maxInputTokens r \<and>
     h (w @ '':'' @ i @ '':'' @ show_int (p + d)) \<noteq> []) \<and>
   ur_inputTokenCount (engine_buildReceipt h now u r n e w i p d) = Some (wr_maxInputTokens r) \<and>
   ur_workerSignature (engine_buildReceipt h now u r n e w i p d) =
     ur_workerSignature (engine_buildReceipt h now' u' r' n' e' w i d p)"
  by (auto simp: isReceiptValid_def engine_buildReceipt_def createWorkerReceipt_def negative_count_def
      VALID_EXECUTION_STATES_def Let_def add.commute)

end
