(* ===== verification/Phase_Roles.thy ===== *)
theory Phase_Roles imports Router_Selection begin

text \<open>
  Prefill and decode roles of a worker (\<open>serving/phase_roles/\<close>): types (\<open>phase-role-types.ts\<close>),
  capabilities and envelopes (\<open>phase-capability.ts\<close>), profiles (\<open>prefill-profile.ts\<close>,
  \<open>decode-profile.ts\<close>, \<open>deployment-profiles.ts\<close>), requirements of a request
  (\<open>phase-request-requirements.ts\<close>), capacity and readiness (\<open>phase-capacity.ts\<close>,
  \<open>phase-readiness.ts\<close>), and the budgets of a lease (\<open>dharma-phase-budget.ts\<close>).
\<close>

section \<open>Types\<close>

datatype PrismWorkerRole =
  PR_unified | PR_prefill_preferred | PR_decode_preferred | PR_prefill_only | PR_decode_only

fun PrismWorkerRole_str :: "PrismWorkerRole \<Rightarrow> string" where
  "PrismWorkerRole_str PR_unified = ''unified''"
| "PrismWorkerRole_str PR_prefill_preferred = ''prefill_preferred''"
| "PrismWorkerRole_str PR_decode_preferred = ''decode_preferred''"
| "PrismWorkerRole_str PR_prefill_only = ''prefill_only''"
| "PrismWorkerRole_str PR_decode_only = ''decode_only''"

datatype PhaseCoLocationPolicy =
  PC_same_worker_required | PC_future_transfer_capable | PC_not_supported

datatype PromptLengthBand = PB_short | PB_medium | PB_long | PB_very_long

datatype GenerationLengthBand = GB_short | GB_medium | GB_long

datatype LatencyClass = LC_interactive | LC_balanced | LC_throughput | LC_batch

record PrismPhaseCapability =
  pc_supported :: bool
  pc_enabled :: bool
  pc_admissionState :: string
  pc_maximumConcurrentOperations :: int
  pc_maximumInputTokens :: int
  pc_maximumOutputTokens :: "int option"
  pc_maximumRuntimeMs :: int
  pc_maximumMemoryBytes :: int
  pc_preferredBatchSize :: "int option"
  pc_targetProfileDigest :: string
  pc_computeImageProfileDigest :: string

record PrismPrefillProfile =
  pp_profileDigest :: string
  pp_maximumContextTokens :: int
  pp_maximumPrefillBatchSize :: int
  pp_maximumPrefillConcurrency :: int
  pp_maximumPrefillMemoryBytes :: int
  pp_preferredPromptLengthBand :: PromptLengthBand
  pp_estimatedPrefillTokensPerSecond :: rat
  pp_supportsPrefixReuse :: bool
  pp_supportsPromptBatching :: bool
  pp_targetCapabilitySignature :: string
  pp_computeImageDigest :: string

record PrismDecodeProfile =
  dp_profileDigest :: string
  dp_maximumDecodeConcurrency :: int
  dp_maximumActiveKvNamespaces :: int
  dp_maximumOutputTokens :: int
  dp_preferredGenerationLengthBand :: GenerationLengthBand
  dp_estimatedDecodeTokensPerSecond :: rat
  dp_supportsStreaming :: bool
  dp_supportsCancellation :: bool
  dp_supportsKvReuse :: bool
  dp_latencyClass :: LatencyClass
  dp_targetCapabilitySignature :: string
  dp_computeImageDigest :: string

record PrismWorkerCompatibilityEnvelopeV2 =
  v2_workerId :: string
  v2_workerInstanceId :: string
  v2_modelArtifactDigest :: string
  v2_tokenizerDigest :: string
  v2_modelFamily :: string
  v2_workloadClasses :: "string list"
  v2_targetCapabilitySignature :: string
  v2_computeImageDigest :: string
  v2_precisionMode :: string
  v2_maximumContextLength :: int
  v2_maximumOutputTokens :: int
  v2_maximumConcurrentRequests :: int
  v2_kvEventVersion :: int
  v2_kvLocalityMode :: string
  v2_lifecycleState :: string
  v2_workerRoles :: "PrismWorkerRole list"
  v2_prefillCapability :: PrismPhaseCapability
  v2_decodeCapability :: PrismPhaseCapability
  v2_prefillProfile :: PrismPrefillProfile
  v2_decodeProfile :: PrismDecodeProfile
  v2_phaseCoLocationPolicy :: PhaseCoLocationPolicy
  v2_prefillCapacity :: int
  v2_decodeCapacity :: int
  v2_supportsPhaseMetrics :: bool
  v2_supportsPhaseReceipts :: bool

record PrismPhaseRequirements =
  rp_requiredPrefill :: bool
  rp_requiredDecode :: bool
  rp_inputTokenCount :: int
  rp_requestedOutputTokens :: int
  rp_stream :: bool
  rp_promptLengthClass :: PromptLengthBand
  rp_generationLengthClass :: GenerationLengthBand
  rp_latencyPreference :: LatencyClass
  rp_batchEligibility :: bool
  rp_deadlineAt :: "timestamp option"

record PrismPhaseCapacitySnapshot =
  ps_workerId :: string
  ps_observedAt :: timestamp
  ps_prefillActiveOperations :: int
  ps_prefillMaximumOperations :: int
  ps_prefillPendingOperations :: int
  ps_prefillMemoryBytesInUse :: int
  ps_prefillMemoryBytesLimit :: int
  ps_decodeActiveOperations :: int
  ps_decodeMaximumOperations :: int
  ps_decodePendingOperations :: int
  ps_decodeActiveKvNamespaces :: int
  ps_decodeMaximumKvNamespaces :: int
  ps_decodeMemoryBytesInUse :: int
  ps_decodeMemoryBytesLimit :: int

record PrismWorkerReadiness =
  pw_workerId :: string
  pw_overallReady :: bool
  pw_prefillReady :: bool
  pw_decodeReady :: bool
  pw_admittedModelCount :: int
  pw_prefillCapacityAvailable :: bool
  pw_decodeCapacityAvailable :: bool
  pw_drainState :: string
  pw_observedAt :: timestamp

record DharmaPrismPhaseBudget =
  db_maximumPrefillRuntimeMs :: int
  db_maximumDecodeRuntimeMs :: int
  db_maximumPrefillMemoryBytes :: int
  db_maximumDecodeMemoryBytes :: int
  db_maximumInputTokens :: int
  db_maximumOutputTokens :: int
  db_requireSameWorkerExecution :: bool
  db_allowedWorkerRoles :: "PrismWorkerRole list"
  db_requiredLatencyClass :: "LatencyClass option"

record PrismWorkerDeploymentProfile =
  pf_profileName :: string
  pf_roles :: "PrismWorkerRole list"
  pf_prefillEnabled :: bool
  pf_decodeEnabled :: bool
  pf_phaseCoLocationPolicy :: PhaseCoLocationPolicy
  pf_routableForEndToEndRequests :: bool

definition DEPLOYMENT_PROFILES :: "(string \<times> PrismWorkerDeploymentProfile) list" where
  "DEPLOYMENT_PROFILES =
     [(''unified'',
       \<lparr>pf_profileName = ''unified'', pf_roles = [PR_unified], pf_prefillEnabled = True,
        pf_decodeEnabled = True, pf_phaseCoLocationPolicy = PC_same_worker_required,
        pf_routableForEndToEndRequests = True\<rparr>),
      (''prefill_optimized_unified'',
       \<lparr>pf_profileName = ''prefill_optimized_unified'', pf_roles = [PR_prefill_preferred, PR_unified],
        pf_prefillEnabled = True, pf_decodeEnabled = True,
        pf_phaseCoLocationPolicy = PC_same_worker_required, pf_routableForEndToEndRequests = True\<rparr>),
      (''decode_optimized_unified'',
       \<lparr>pf_profileName = ''decode_optimized_unified'', pf_roles = [PR_decode_preferred, PR_unified],
        pf_prefillEnabled = True, pf_decodeEnabled = True,
        pf_phaseCoLocationPolicy = PC_same_worker_required, pf_routableForEndToEndRequests = True\<rparr>),
      (''future_prefill_only'',
       \<lparr>pf_profileName = ''future_prefill_only'', pf_roles = [PR_prefill_only],
        pf_prefillEnabled = True, pf_decodeEnabled = False,
        pf_phaseCoLocationPolicy = PC_future_transfer_capable,
        pf_routableForEndToEndRequests = False\<rparr>),
      (''future_decode_only'',
       \<lparr>pf_profileName = ''future_decode_only'', pf_roles = [PR_decode_only],
        pf_prefillEnabled = False, pf_decodeEnabled = True,
        pf_phaseCoLocationPolicy = PC_future_transfer_capable,
        pf_routableForEndToEndRequests = False\<rparr>)]"

definition getDeploymentProfile :: "string \<Rightarrow> PrismWorkerDeploymentProfile option" where
  "getDeploymentProfile name = map_of DEPLOYMENT_PROFILES name"

definition isProfileRoutable :: "PrismWorkerDeploymentProfile \<Rightarrow> bool" where
  "isProfileRoutable profile = pf_routableForEndToEndRequests profile"

definition getRoutableProfiles :: "PrismWorkerDeploymentProfile list" where
  "getRoutableProfiles =
     List.filter pf_routableForEndToEndRequests (List.map snd DEPLOYMENT_PROFILES)"

section \<open>Capabilities and envelopes\<close>

definition createPhaseCapability :: "bool \<Rightarrow> bool \<Rightarrow> int \<Rightarrow> int \<Rightarrow> int \<Rightarrow> PrismPhaseCapability" where
  "createPhaseCapability supported enabled maxOps maxTokens maxMemory =
     \<lparr>pc_supported = supported,
      pc_enabled = enabled,
      pc_admissionState = (if enabled then ''open'' else ''closed''),
      pc_maximumConcurrentOperations = maxOps,
      pc_maximumInputTokens = maxTokens,
      pc_maximumOutputTokens = None,
      pc_maximumRuntimeMs = 300000,
      pc_maximumMemoryBytes = maxMemory,
      pc_preferredBatchSize = None,
      pc_targetProfileDigest = [],
      pc_computeImageProfileDigest = []\<rparr>"

definition createCompatibilityEnvelopeV2 ::
  "string \<Rightarrow> string \<Rightarrow> PrismWorkerRole list \<Rightarrow> PrismPhaseCapability \<Rightarrow> PrismPhaseCapability \<Rightarrow>
   PhaseCoLocationPolicy \<Rightarrow> PrismWorkerCompatibilityEnvelopeV2" where
  "createCompatibilityEnvelopeV2 workerId instanceId roles prefillCap decodeCap coLocation =
     \<lparr>v2_workerId = workerId,
      v2_workerInstanceId = instanceId,
      v2_modelArtifactDigest = [],
      v2_tokenizerDigest = [],
      v2_modelFamily = [],
      v2_workloadClasses = [],
      v2_targetCapabilitySignature = [],
      v2_computeImageDigest = [],
      v2_precisionMode = ''fp16'',
      v2_maximumContextLength = pc_maximumInputTokens prefillCap,
      v2_maximumOutputTokens = nullish (pc_maximumOutputTokens decodeCap) 0,
      v2_maximumConcurrentRequests =
        max (pc_maximumConcurrentOperations prefillCap) (pc_maximumConcurrentOperations decodeCap),
      v2_kvEventVersion = 1,
      v2_kvLocalityMode = ''local'',
      v2_lifecycleState = ''active'',
      v2_workerRoles = roles,
      v2_prefillCapability = prefillCap,
      v2_decodeCapability = decodeCap,
      v2_prefillProfile =
        \<lparr>pp_profileDigest = ''default'',
         pp_maximumContextTokens = pc_maximumInputTokens prefillCap,
         pp_maximumPrefillBatchSize = 0,
         pp_maximumPrefillConcurrency = 0,
         pp_maximumPrefillMemoryBytes = pc_maximumMemoryBytes prefillCap,
         pp_preferredPromptLengthBand = PB_short,
         pp_estimatedPrefillTokensPerSecond = 0,
         pp_supportsPrefixReuse = False,
         pp_supportsPromptBatching = False,
         pp_targetCapabilitySignature = [],
         pp_computeImageDigest = []\<rparr>,
      v2_decodeProfile =
        \<lparr>dp_profileDigest = ''default'',
         dp_maximumDecodeConcurrency = 0,
         dp_maximumActiveKvNamespaces = 0,
         dp_maximumOutputTokens = nullish (pc_maximumOutputTokens decodeCap) 0,
         dp_preferredGenerationLengthBand = GB_short,
         dp_estimatedDecodeTokensPerSecond = 0,
         dp_supportsStreaming = False,
         dp_supportsCancellation = False,
         dp_supportsKvReuse = False,
         dp_latencyClass = LC_interactive,
         dp_targetCapabilitySignature = [],
         dp_computeImageDigest = []\<rparr>,
      v2_phaseCoLocationPolicy = coLocation,
      v2_prefillCapacity = (if pc_enabled prefillCap \<and> pc_supported prefillCap then 1 else 0),
      v2_decodeCapacity = (if pc_enabled decodeCap \<and> pc_supported decodeCap then 1 else 0),
      v2_supportsPhaseMetrics = True,
      v2_supportsPhaseReceipts = True\<rparr>"

fun PREFILL_ROLES :: "PrismWorkerRole \<Rightarrow> bool" where
  "PREFILL_ROLES PR_unified = True"
| "PREFILL_ROLES PR_prefill_preferred = True"
| "PREFILL_ROLES PR_prefill_only = True"
| "PREFILL_ROLES PR_decode_preferred = False"
| "PREFILL_ROLES PR_decode_only = False"

fun DECODE_ROLES :: "PrismWorkerRole \<Rightarrow> bool" where
  "DECODE_ROLES PR_unified = True"
| "DECODE_ROLES PR_decode_preferred = True"
| "DECODE_ROLES PR_decode_only = True"
| "DECODE_ROLES PR_prefill_preferred = False"
| "DECODE_ROLES PR_prefill_only = False"

fun END_TO_END_ROLES :: "PrismWorkerRole \<Rightarrow> bool" where
  "END_TO_END_ROLES PR_unified = True"
| "END_TO_END_ROLES PR_prefill_preferred = True"
| "END_TO_END_ROLES PR_decode_preferred = True"
| "END_TO_END_ROLES PR_prefill_only = False"
| "END_TO_END_ROLES PR_decode_only = False"

text \<open>The results \<open>{ eligible | passed | satisfied | valid, reason }\<close> of the checks.\<close>

record PhaseCheck =
  pk_ok :: bool
  pk_reason :: "string option"

definition phase_pass :: PhaseCheck where
  "phase_pass = \<lparr>pk_ok = True, pk_reason = None\<rparr>"

definition phase_refuse :: "string \<Rightarrow> PhaseCheck" where
  "phase_refuse r = \<lparr>pk_ok = False, pk_reason = Some r\<rparr>"

lemma phase_check_simps [simp]:
  "pk_ok phase_pass" "pk_reason phase_pass = None"
  "\<not> pk_ok (phase_refuse r)" "pk_reason (phase_refuse r) = Some r"
  by (simp_all add: phase_pass_def phase_refuse_def)

definition isWorkerEligibleForRequest ::
  "PrismWorkerCompatibilityEnvelopeV2 \<Rightarrow> bool \<Rightarrow> bool \<Rightarrow> PhaseCheck" where
  "isWorkerEligibleForRequest env requiresPrefill requiresDecode =
     (let roles = v2_workerRoles env
      in if requiresPrefill \<and> \<not> list_ex PREFILL_ROLES roles
         then phase_refuse ''Worker lacks a prefill-capable role''
         else if requiresDecode \<and> \<not> list_ex DECODE_ROLES roles
         then phase_refuse ''Worker lacks a decode-capable role''
         else if requiresPrefill \<and> \<not> pc_enabled (v2_prefillCapability env)
         then phase_refuse ''Worker prefill capability is not enabled''
         else if requiresDecode \<and> \<not> pc_enabled (v2_decodeCapability env)
         then phase_refuse ''Worker decode capability is not enabled''
         else phase_pass)"

definition isRoleRoutableForEndToEnd :: "PrismWorkerRole \<Rightarrow> bool" where
  "isRoleRoutableForEndToEnd role = END_TO_END_ROLES role"

definition canWorkerServeEndToEnd :: "PrismWorkerCompatibilityEnvelopeV2 \<Rightarrow> bool" where
  "canWorkerServeEndToEnd env = list_ex isRoleRoutableForEndToEnd (v2_workerRoles env)"

section \<open>Profiles\<close>

definition createPrefillProfile ::
  "int \<Rightarrow> int \<Rightarrow> int \<Rightarrow> int \<Rightarrow> PromptLengthBand \<Rightarrow> rat \<Rightarrow> PrismPrefillProfile" where
  "createPrefillProfile contextTokens batchSize concurrency memory promptBand tokPerSec =
     \<lparr>pp_profileDigest = ''default'',
      pp_maximumContextTokens = contextTokens,
      pp_maximumPrefillBatchSize = batchSize,
      pp_maximumPrefillConcurrency = concurrency,
      pp_maximumPrefillMemoryBytes = memory,
      pp_preferredPromptLengthBand = promptBand,
      pp_estimatedPrefillTokensPerSecond = tokPerSec,
      pp_supportsPrefixReuse = False,
      pp_supportsPromptBatching = False,
      pp_targetCapabilitySignature = [],
      pp_computeImageDigest = []\<rparr>"

definition isPrefillBudgetSufficient :: "PrismPrefillProfile \<Rightarrow> int \<Rightarrow> int \<Rightarrow> bool" where
  "isPrefillBudgetSufficient profile requiredTokens requiredMemory \<longleftrightarrow>
     pp_maximumContextTokens profile \<ge> requiredTokens \<and>
     pp_maximumPrefillMemoryBytes profile \<ge> requiredMemory"

definition getPromptLengthBand :: "int \<Rightarrow> PromptLengthBand" where
  "getPromptLengthBand tokenCount =
     (if tokenCount < 1024 then PB_short
      else if tokenCount < 4096 then PB_medium
      else if tokenCount < 16384 then PB_long
      else PB_very_long)"

definition createDecodeProfile ::
  "int \<Rightarrow> int \<Rightarrow> int \<Rightarrow> GenerationLengthBand \<Rightarrow> rat \<Rightarrow> LatencyClass \<Rightarrow> PrismDecodeProfile" where
  "createDecodeProfile concurrency maxKv outputTokens genBand tokPerSec latencyClass =
     \<lparr>dp_profileDigest = ''default'',
      dp_maximumDecodeConcurrency = concurrency,
      dp_maximumActiveKvNamespaces = maxKv,
      dp_maximumOutputTokens = outputTokens,
      dp_preferredGenerationLengthBand = genBand,
      dp_estimatedDecodeTokensPerSecond = tokPerSec,
      dp_supportsStreaming = False,
      dp_supportsCancellation = False,
      dp_supportsKvReuse = False,
      dp_latencyClass = latencyClass,
      dp_targetCapabilitySignature = [],
      dp_computeImageDigest = []\<rparr>"

definition isDecodeBudgetSufficient :: "PrismDecodeProfile \<Rightarrow> int \<Rightarrow> int \<Rightarrow> bool" where
  "isDecodeBudgetSufficient profile requiredTokens requiredKvNamespaces \<longleftrightarrow>
     dp_maximumOutputTokens profile \<ge> requiredTokens \<and>
     dp_maximumActiveKvNamespaces profile \<ge> requiredKvNamespaces"

definition getGenerationLengthBand :: "int \<Rightarrow> GenerationLengthBand" where
  "getGenerationLengthBand tokenCount =
     (if tokenCount < 256 then GB_short
      else if tokenCount < 1024 then GB_medium
      else GB_long)"

section \<open>Requirements of a request\<close>

text \<open>A threshold \<open>None\<close> is \<open>Infinity\<close>.\<close>

definition PROMPT_LENGTH_BANDS :: "(int option \<times> PromptLengthBand) list" where
  "PROMPT_LENGTH_BANDS =
     [(Some 1024, PB_short), (Some 8192, PB_medium), (Some 32768, PB_long), (None, PB_very_long)]"

definition GENERATION_LENGTH_BANDS :: "(int option \<times> GenerationLengthBand) list" where
  "GENERATION_LENGTH_BANDS = [(Some 256, GB_short), (Some 2048, GB_medium), (None, GB_long)]"

fun band_loop :: "int \<Rightarrow> 'b \<Rightarrow> (int option \<times> 'b) list \<Rightarrow> 'b" where
  "band_loop tokenCount last_band [] = last_band"
| "band_loop tokenCount last_band ((threshold, band) # bands) =
     (if (case threshold of None \<Rightarrow> True | Some k \<Rightarrow> tokenCount \<le> k) then band
      else band_loop tokenCount last_band bands)"

definition getPromptLengthClass :: "int \<Rightarrow> PromptLengthBand" where
  "getPromptLengthClass tokenCount = band_loop tokenCount PB_very_long PROMPT_LENGTH_BANDS"

definition getGenerationLengthClass :: "int \<Rightarrow> GenerationLengthBand" where
  "getGenerationLengthClass tokenCount = band_loop tokenCount GB_long GENERATION_LENGTH_BANDS"

definition createPhaseRequirements :: "int \<Rightarrow> int \<Rightarrow> bool \<Rightarrow> PrismPhaseRequirements" where
  "createPhaseRequirements inputTokens outputTokens stream =
     \<lparr>rp_requiredPrefill = True,
      rp_requiredDecode = (outputTokens > 0 \<or> stream),
      rp_inputTokenCount = inputTokens,
      rp_requestedOutputTokens = outputTokens,
      rp_stream = stream,
      rp_promptLengthClass = getPromptLengthClass inputTokens,
      rp_generationLengthClass = getGenerationLengthClass outputTokens,
      rp_latencyPreference = (if stream then LC_interactive else LC_balanced),
      rp_batchEligibility = (\<not> stream),
      rp_deadlineAt = None\<rparr>"

definition isPhaseRequirementsSatisfied ::
  "PrismPhaseRequirements \<Rightarrow> PrismWorkerCompatibilityEnvelopeV2 \<Rightarrow> PhaseCheck" where
  "isPhaseRequirementsSatisfied req env =
     (if rp_requiredPrefill req \<and> \<not> pc_supported (v2_prefillCapability env)
      then phase_refuse ''Worker does not support prefill''
      else if rp_requiredPrefill req \<and> \<not> pc_enabled (v2_prefillCapability env)
      then phase_refuse ''Worker prefill is not enabled''
      else if rp_requiredPrefill req \<and> rp_inputTokenCount req > v2_maximumContextLength env
      then phase_refuse (''Input tokens '' @ show_int (rp_inputTokenCount req) @
             '' exceeds maximum context length '' @ show_int (v2_maximumContextLength env))
      else if rp_requiredPrefill req \<and>
              rp_inputTokenCount req > pc_maximumInputTokens (v2_prefillCapability env)
      then phase_refuse (''Input tokens '' @ show_int (rp_inputTokenCount req) @
             '' exceeds prefill max input '' @
             show_int (pc_maximumInputTokens (v2_prefillCapability env)))
      else if rp_requiredDecode req \<and> \<not> pc_supported (v2_decodeCapability env)
      then phase_refuse ''Worker does not support decode''
      else if rp_requiredDecode req \<and> \<not> pc_enabled (v2_decodeCapability env)
      then phase_refuse ''Worker decode is not enabled''
      else if rp_requiredDecode req \<and> rp_requestedOutputTokens req > v2_maximumOutputTokens env
      then phase_refuse (''Requested output tokens '' @ show_int (rp_requestedOutputTokens req) @
             '' exceeds maximum '' @ show_int (v2_maximumOutputTokens env))
      else if rp_requiredDecode req \<and> rp_stream req \<and>
              \<not> dp_supportsStreaming (v2_decodeProfile env)
      then phase_refuse ''Worker does not support streaming''
      else phase_pass)"

section \<open>Capacity and readiness\<close>

definition createPhaseCapacitySnapshot ::
  "millis \<Rightarrow> string \<Rightarrow> int \<Rightarrow> int \<Rightarrow> int \<Rightarrow> int \<Rightarrow> int \<Rightarrow> int \<Rightarrow> PrismPhaseCapacitySnapshot" where
  "createPhaseCapacitySnapshot now workerId prefillActive prefillMax decodeActive decodeMax decodeKv
       decodeKvMax =
     \<lparr>ps_workerId = workerId,
      ps_observedAt = Iso now,
      ps_prefillActiveOperations = prefillActive,
      ps_prefillMaximumOperations = prefillMax,
      ps_prefillPendingOperations = 0,
      ps_prefillMemoryBytesInUse = 0,
      ps_prefillMemoryBytesLimit = 0,
      ps_decodeActiveOperations = decodeActive,
      ps_decodeMaximumOperations = decodeMax,
      ps_decodePendingOperations = 0,
      ps_decodeActiveKvNamespaces = decodeKv,
      ps_decodeMaximumKvNamespaces = decodeKvMax,
      ps_decodeMemoryBytesInUse = 0,
      ps_decodeMemoryBytesLimit = 0\<rparr>"

definition getPrefillHeadroom :: "PrismPhaseCapacitySnapshot \<Rightarrow> int" where
  "getPrefillHeadroom snapshot =
     ps_prefillMaximumOperations snapshot - ps_prefillActiveOperations snapshot"

definition getDecodeHeadroom :: "PrismPhaseCapacitySnapshot \<Rightarrow> int" where
  "getDecodeHeadroom snapshot =
     ps_decodeMaximumOperations snapshot - ps_decodeActiveOperations snapshot"

definition getCombinedHeadroom :: "PrismPhaseCapacitySnapshot \<Rightarrow> int" where
  "getCombinedHeadroom snapshot = min (getPrefillHeadroom snapshot) (getDecodeHeadroom snapshot)"

definition canAdmitPrefill :: "PrismPhaseCapacitySnapshot \<Rightarrow> int \<Rightarrow> bool" where
  "canAdmitPrefill snapshot requiredOps \<longleftrightarrow> getPrefillHeadroom snapshot \<ge> requiredOps"

definition canAdmitDecode :: "PrismPhaseCapacitySnapshot \<Rightarrow> int \<Rightarrow> bool" where
  "canAdmitDecode snapshot requiredNs \<longleftrightarrow> getDecodeHeadroom snapshot \<ge> requiredNs"

definition isWorkerEligibleByCapacity ::
  "PrismPhaseCapacitySnapshot \<Rightarrow> bool \<Rightarrow> bool \<Rightarrow> PhaseCheck" where
  "isWorkerEligibleByCapacity snapshot requiresPrefill requiresDecode =
     (if requiresPrefill \<and> getPrefillHeadroom snapshot \<le> 0 then
        phase_refuse (''Prefill capacity exhausted: '' @
          show_int (ps_prefillActiveOperations snapshot) @ ''/'' @
          show_int (ps_prefillMaximumOperations snapshot) @ '' active'')
      else if requiresDecode \<and> getDecodeHeadroom snapshot \<le> 0 then
        phase_refuse (''Decode capacity exhausted: '' @
          show_int (ps_decodeActiveOperations snapshot) @ ''/'' @
          show_int (ps_decodeMaximumOperations snapshot) @ '' active'')
      else phase_pass)"

definition assessPhaseReadiness ::
  "millis \<Rightarrow> bool \<Rightarrow> bool \<Rightarrow> bool \<Rightarrow> bool \<Rightarrow> PrismWorkerReadiness" where
  "assessPhaseReadiness now prefillReady decodeReady prefillCap decodeCap =
     (let prefillOk = prefillReady \<and> prefillCap;
          decodeOk = decodeReady \<and> decodeCap
      in \<lparr>pw_workerId = [],
          pw_overallReady = (prefillOk \<and> decodeOk),
          pw_prefillReady = prefillOk,
          pw_decodeReady = decodeOk,
          pw_admittedModelCount = 0,
          pw_prefillCapacityAvailable = prefillCap,
          pw_decodeCapacityAvailable = decodeCap,
          pw_drainState = ''none'',
          pw_observedAt = Iso now\<rparr>)"

definition isWorkerPhaseReady :: "PrismWorkerReadiness \<Rightarrow> bool \<Rightarrow> bool \<Rightarrow> bool" where
  "isWorkerPhaseReady readiness requiresPrefill requiresDecode =
     (if requiresPrefill \<and> \<not> pw_prefillReady readiness then False
      else if requiresDecode \<and> \<not> pw_decodeReady readiness then False
      else True)"

section \<open>Budgets of a lease\<close>

definition DEFAULT_PREFILL_NS_PER_TOKEN :: int where
  "DEFAULT_PREFILL_NS_PER_TOKEN = 250000"

definition DEFAULT_DECODE_NS_PER_TOKEN :: int where
  "DEFAULT_DECODE_NS_PER_TOKEN = 5000000"

definition DEFAULT_PREFILL_MEM_PER_TOKEN :: int where
  "DEFAULT_PREFILL_MEM_PER_TOKEN = 512"

definition DEFAULT_DECODE_MEM_PER_TOKEN :: int where
  "DEFAULT_DECODE_MEM_PER_TOKEN = 256"

text \<open>The products are whole and exact below \<open>2 ^ 53\<close>; the quotient is rounded.\<close>

definition createDharmaPhaseBudget :: "int \<Rightarrow> int \<Rightarrow> DharmaPrismPhaseBudget" where
  "createDharmaPhaseBudget inputTokens outputTokens =
     \<lparr>db_maximumPrefillRuntimeMs =
        \<lceil>num_div (of_int (inputTokens * DEFAULT_PREFILL_NS_PER_TOKEN)) 1000000\<rceil>,
      db_maximumDecodeRuntimeMs =
        \<lceil>num_div (of_int (outputTokens * DEFAULT_DECODE_NS_PER_TOKEN)) 1000000\<rceil>,
      db_maximumPrefillMemoryBytes = inputTokens * DEFAULT_PREFILL_MEM_PER_TOKEN,
      db_maximumDecodeMemoryBytes = outputTokens * DEFAULT_DECODE_MEM_PER_TOKEN,
      db_maximumInputTokens = inputTokens,
      db_maximumOutputTokens = outputTokens,
      db_requireSameWorkerExecution = True,
      db_allowedWorkerRoles = [PR_unified, PR_prefill_preferred, PR_decode_preferred],
      db_requiredLatencyClass = None\<rparr>"

definition isLeaseCompatibleWithPhase ::
  "DharmaPrismPhaseBudget \<Rightarrow> PrismWorkerCompatibilityEnvelopeV2 \<Rightarrow> PhaseCheck" where
  "isLeaseCompatibleWithPhase budget env =
     (if \<not> list_ex (\<lambda>r. r \<in> set (v2_workerRoles env)) (db_allowedWorkerRoles budget) then
        phase_refuse (''Worker roles '' @
          js_join '','' (List.map PrismWorkerRole_str (v2_workerRoles env)) @
          '' do not overlap with budget roles '' @
          js_join '','' (List.map PrismWorkerRole_str (db_allowedWorkerRoles budget)))
      else if db_maximumInputTokens budget > v2_maximumContextLength env then
        phase_refuse (''Budget input tokens '' @ show_int (db_maximumInputTokens budget) @
          '' exceed worker max context '' @ show_int (v2_maximumContextLength env))
      else if db_maximumOutputTokens budget > v2_maximumOutputTokens env then
        phase_refuse (''Budget output tokens '' @ show_int (db_maximumOutputTokens budget) @
          '' exceed worker max output '' @ show_int (v2_maximumOutputTokens env))
      else if db_maximumPrefillRuntimeMs budget > pc_maximumRuntimeMs (v2_prefillCapability env) then
        phase_refuse (''Budget prefill runtime '' @ show_int (db_maximumPrefillRuntimeMs budget) @
          ''ms exceeds worker max '' @ show_int (pc_maximumRuntimeMs (v2_prefillCapability env)) @
          ''ms'')
      else if db_maximumPrefillMemoryBytes budget > pc_maximumMemoryBytes (v2_prefillCapability env)
      then
        phase_refuse (''Budget prefill memory '' @ show_int (db_maximumPrefillMemoryBytes budget) @
          '' exceeds worker max '' @ show_int (pc_maximumMemoryBytes (v2_prefillCapability env)))
      else phase_pass)"

definition isPhaseBudgetSufficient ::
  "DharmaPrismPhaseBudget \<Rightarrow> PrismPhaseRequirements \<Rightarrow> PhaseCheck" where
  "isPhaseBudgetSufficient budget requirements =
     (if db_maximumInputTokens budget < rp_inputTokenCount requirements then
        phase_refuse (''Budget input tokens '' @ show_int (db_maximumInputTokens budget) @
          '' < required '' @ show_int (rp_inputTokenCount requirements))
      else if db_maximumOutputTokens budget < rp_requestedOutputTokens requirements then
        phase_refuse (''Budget output tokens '' @ show_int (db_maximumOutputTokens budget) @
          '' < required '' @ show_int (rp_requestedOutputTokens requirements))
      else phase_pass)"

definition isSameWorkerRequired :: "DharmaPrismPhaseBudget \<Rightarrow> bool" where
  "isSameWorkerRequired budget = db_requireSameWorkerExecution budget"

section \<open>Properties\<close>

lemma requirements_satisfied_iff:
  "pk_ok (isPhaseRequirementsSatisfied req env) \<longleftrightarrow>
     (rp_requiredPrefill req \<longrightarrow>
        pc_supported (v2_prefillCapability env) \<and> pc_enabled (v2_prefillCapability env) \<and>
        rp_inputTokenCount req \<le> v2_maximumContextLength env \<and>
        rp_inputTokenCount req \<le> pc_maximumInputTokens (v2_prefillCapability env)) \<and>
     (rp_requiredDecode req \<longrightarrow>
        pc_supported (v2_decodeCapability env) \<and> pc_enabled (v2_decodeCapability env) \<and>
        rp_requestedOutputTokens req \<le> v2_maximumOutputTokens env \<and>
        (rp_stream req \<longrightarrow> dp_supportsStreaming (v2_decodeProfile env)))"
  unfolding isPhaseRequirementsSatisfied_def by (simp add: not_less)

text \<open>
  An envelope that the factory builds from capabilities of the capability factory satisfies a
  request of the requirement factory exactly when prefill is supported, enabled and large enough and
  the request asks for no output tokens and no stream: no such worker satisfies a request that
  decodes, although its roles and capabilities may make it eligible for decoding and its budget is
  sufficient.
\<close>

theorem factory_envelope_never_decodes:
  "(pk_ok (isPhaseRequirementsSatisfied (createPhaseRequirements i k st)
      (createCompatibilityEnvelopeV2 w n roles (createPhaseCapability s e m t b)
         (createPhaseCapability s' e' m' t' b') pol)) \<longleftrightarrow> s \<and> e \<and> i \<le> t \<and> k \<le> 0 \<and> \<not> st) \<and>
   pk_ok (isWorkerEligibleForRequest (createCompatibilityEnvelopeV2 w n [PR_unified]
      (createPhaseCapability s True m t b) (createPhaseCapability s' True m' t' b') pol) True True) \<and>
   pk_ok (isPhaseBudgetSufficient (createDharmaPhaseBudget i k) (createPhaseRequirements i k st))"
  unfolding requirements_satisfied_iff
  by (auto simp: createPhaseRequirements_def createCompatibilityEnvelopeV2_def
      createPhaseCapability_def isWorkerEligibleForRequest_def isPhaseBudgetSufficient_def
      createDharmaPhaseBudget_def)

text \<open>
  A worker is eligible for both phases exactly when it has a prefill role, a decode role and both
  capabilities enabled; a worker whose only roles are preferences for one phase counts as able to
  serve end to end, but is not eligible for both phases.
\<close>

theorem end_to_end_roles_gap:
  "(pk_ok (isWorkerEligibleForRequest env True True) \<longleftrightarrow>
      list_ex PREFILL_ROLES (v2_workerRoles env) \<and> list_ex DECODE_ROLES (v2_workerRoles env) \<and>
      pc_enabled (v2_prefillCapability env) \<and> pc_enabled (v2_decodeCapability env)) \<and>
   (\<forall>r. set (v2_workerRoles env) = {r} \<longrightarrow>
      (canWorkerServeEndToEnd env \<and> \<not> pk_ok (isWorkerEligibleForRequest env True True) \<longleftrightarrow>
         r \<in> {PR_prefill_preferred, PR_decode_preferred} \<or>
         r = PR_unified \<and>
           \<not> (pc_enabled (v2_prefillCapability env) \<and> pc_enabled (v2_decodeCapability env))))"
proof (intro conjI allI impI)
  show elig: "pk_ok (isWorkerEligibleForRequest env True True) \<longleftrightarrow>
      list_ex PREFILL_ROLES (v2_workerRoles env) \<and> list_ex DECODE_ROLES (v2_workerRoles env) \<and>
      pc_enabled (v2_prefillCapability env) \<and> pc_enabled (v2_decodeCapability env)"
    by (simp add: isWorkerEligibleForRequest_def Let_def)
  fix r
  assume r: "set (v2_workerRoles env) = {r}"
  show "canWorkerServeEndToEnd env \<and> \<not> pk_ok (isWorkerEligibleForRequest env True True) \<longleftrightarrow>
         r \<in> {PR_prefill_preferred, PR_decode_preferred} \<or>
         r = PR_unified \<and>
           \<not> (pc_enabled (v2_prefillCapability env) \<and> pc_enabled (v2_decodeCapability env))"
    unfolding elig canWorkerServeEndToEnd_def list_ex_iff r isRoleRoutableForEndToEnd_def
    by (cases r) auto
qed

theorem end_to_end_roles_gap_witness:
  "canWorkerServeEndToEnd (createCompatibilityEnvelopeV2 ''w'' ''i'' [PR_prefill_preferred]
      (createPhaseCapability True True 1 1 1) (createPhaseCapability True True 1 1 1)
      PC_same_worker_required) \<and>
   \<not> pk_ok (isWorkerEligibleForRequest (createCompatibilityEnvelopeV2 ''w'' ''i'' [PR_prefill_preferred]
      (createPhaseCapability True True 1 1 1) (createPhaseCapability True True 1 1 1)
      PC_same_worker_required) True True)"
  using end_to_end_roles_gap [where env = "createCompatibilityEnvelopeV2 ''w'' ''i'' [PR_prefill_preferred]
      (createPhaseCapability True True 1 1 1) (createPhaseCapability True True 1 1 1)
      PC_same_worker_required", THEN conjunct2, THEN spec, of PR_prefill_preferred]
  by (simp add: createCompatibilityEnvelopeV2_def)

text \<open>
  The two classifications of prompts agree exactly outside 1024, 4096 to 8192 and 16384 to 32768
  tokens, and the two classifications of generations exactly outside 256 and 1024 to 2048.
\<close>

theorem length_bands_agree:
  "(getPromptLengthBand n = getPromptLengthClass n \<longleftrightarrow>
      \<not> (n = 1024 \<or> 4096 \<le> n \<and> n \<le> 8192 \<or> 16384 \<le> n \<and> n \<le> 32768)) \<and>
   (getGenerationLengthBand n = getGenerationLengthClass n \<longleftrightarrow>
      \<not> (n = 256 \<or> 1024 \<le> n \<and> n \<le> 2048))"
  by (auto simp: getPromptLengthBand_def getPromptLengthClass_def PROMPT_LENGTH_BANDS_def
      getGenerationLengthBand_def getGenerationLengthClass_def GENERATION_LENGTH_BANDS_def)

end
