(* ===== verification/Phase_Routing.thy ===== *)
theory Phase_Routing imports Phase_Roles Transition_Systems Js_Runtime Js_Text begin

text \<open>
  Routing and execution of the two phases of a request (\<open>serving/phase_roles/\<close>): route plans and the
  score of a worker (\<open>phase-route-plan.ts\<close>), the checks of a plan (\<open>phase-route-validator.ts\<close>),
  execution pins (\<open>execution-pin.ts\<close>), the phase lifecycle (\<open>phase-lifecycle.ts\<close>), failures
  (\<open>phase-failure.ts\<close>), drains (\<open>phase-drain.ts\<close>), KV events (\<open>phase-kv-events.ts\<close>) and receipts
  (\<open>phase-receipts.ts\<close>).
\<close>

section \<open>Route plans\<close>

record PrismRoutePlan =
  rpl_routeId :: string
  rpl_requestId :: string
  rpl_modelArtifactDigest :: string
  rpl_tokenizerDigest :: string
  rpl_candidateWorkers :: "string list"
  rpl_selectedWorkerId :: string
  rpl_prefillWorkerId :: string
  rpl_decodeWorkerId :: string
  rpl_executionPinningPolicy :: PhaseCoLocationPolicy
  rpl_prefillSelectionReason :: string
  rpl_decodeSelectionReason :: string
  rpl_prefixAffinitySummary :: string
  rpl_prefillLoadSummary :: string
  rpl_decodeLoadSummary :: string
  rpl_phaseBudgetSummary :: string
  rpl_createdAt :: timestamp

definition createRoutePlan ::
  "millis \<Rightarrow> string \<Rightarrow> string \<Rightarrow> string list \<Rightarrow> string \<Rightarrow> string \<Rightarrow> string \<Rightarrow> PrismRoutePlan" where
  "createRoutePlan now ulid requestId candidates selectedWorkerId prefillReason decodeReason =
     \<lparr>rpl_routeId = ulid,
      rpl_requestId = requestId,
      rpl_modelArtifactDigest = [],
      rpl_tokenizerDigest = [],
      rpl_candidateWorkers = candidates,
      rpl_selectedWorkerId = selectedWorkerId,
      rpl_prefillWorkerId = selectedWorkerId,
      rpl_decodeWorkerId = selectedWorkerId,
      rpl_executionPinningPolicy = PC_same_worker_required,
      rpl_prefillSelectionReason = prefillReason,
      rpl_decodeSelectionReason = decodeReason,
      rpl_prefixAffinitySummary = [],
      rpl_prefillLoadSummary = [],
      rpl_decodeLoadSummary = [],
      rpl_phaseBudgetSummary = [],
      rpl_createdAt = Iso now\<rparr>"

definition validateRoutePlan :: "PrismRoutePlan \<Rightarrow> PhaseCheck" where
  "validateRoutePlan plan =
     (if \<not> truthy (rpl_routeId plan) then phase_refuse ''routeId must be non-empty''
      else if \<not> truthy (rpl_requestId plan) then phase_refuse ''requestId must be non-empty''
      else if \<not> truthy (rpl_selectedWorkerId plan) then
        phase_refuse ''selectedWorkerId must be non-empty''
      else if \<not> truthy (rpl_prefillWorkerId plan) then
        phase_refuse ''prefillWorkerId must be non-empty''
      else if \<not> truthy (rpl_decodeWorkerId plan) then
        phase_refuse ''decodeWorkerId must be non-empty''
      else if length (rpl_candidateWorkers plan) = 0 then
        phase_refuse ''candidateWorkers must not be empty''
      else if rpl_selectedWorkerId plan \<notin> set (rpl_candidateWorkers plan) then
        phase_refuse ''selectedWorkerId must be in candidateWorkers''
      else (case date_value (rpl_createdAt plan) of
              None \<Rightarrow> phase_refuse ''createdAt must be a valid ISO timestamp''
            | Some t \<Rightarrow> phase_pass))"

definition isRoutePlanSameWorker :: "PrismRoutePlan \<Rightarrow> bool" where
  "isRoutePlanSameWorker plan \<longleftrightarrow> rpl_prefillWorkerId plan = rpl_decodeWorkerId plan"

definition phase_load_score :: "RouterWorkerState \<Rightarrow> rat" where
  "phase_load_score worker =
     (if rw_maxConcurrentRequests worker > 0
      then num_sub 1 (min (num_div (of_int (rw_activeRequests worker))
                                   (of_int (rw_maxConcurrentRequests worker))) 1)
      else 0)"

text \<open>The envelope and the capacity are arguments the function does not read.\<close>

definition scorePhaseWorker ::
  "RouterWorkerState \<Rightarrow> PrismWorkerCompatibilityEnvelopeV2 \<Rightarrow> PrismPhaseCapacitySnapshot option \<Rightarrow>
   rat \<Rightarrow> SelectionWeights \<Rightarrow> rat" where
  "scorePhaseWorker worker env capacity prefixAffinity weights =
     (let healthScore = (if rw_healthy worker then (if rw_ready worker then 1 else 1 / 2) else 0);
          s1 = num_add 0 (num_mul (sw_healthWeight weights) healthScore);
          s2 = num_add s1 (num_mul (sw_loadWeight weights) (phase_load_score worker));
          drainScore = (if rw_draining worker then 0 else 1);
          s3 = num_add s2 (num_mul (sw_drainWeight weights) drainScore);
          affinityScore = max 0 (min 1 prefixAffinity);
          s4 = num_add s3 (num_mul (sw_cacheAffinityWeight weights) affinityScore);
          errorScore = (case rw_lastError worker of
              None \<Rightarrow> 1 | Some e \<Rightarrow> if truthy e then 1 / 2 else 1)
      in num_add s4 (num_mul (sw_errorWeight weights) errorScore))"

section \<open>Checks of a plan\<close>

definition checkSameWorkerInvariant :: "PrismRoutePlan \<Rightarrow> PhaseCheck" where
  "checkSameWorkerInvariant plan =
     (if rpl_prefillWorkerId plan \<noteq> rpl_decodeWorkerId plan then
        phase_refuse (''Same-worker invariant violated: prefill on '' @ rpl_prefillWorkerId plan @
          '', decode on '' @ rpl_decodeWorkerId plan)
      else phase_pass)"

definition checkWorkerPhaseCapability ::
  "PrismWorkerCompatibilityEnvelopeV2 \<Rightarrow> bool \<Rightarrow> bool \<Rightarrow> PhaseCheck" where
  "checkWorkerPhaseCapability env requiresPrefill requiresDecode =
     (let roles = v2_workerRoles env;
          names = js_join '', '' (List.map PrismWorkerRole_str roles);
          hasPrefillCapability = (PR_unified \<in> set roles \<or> PR_prefill_preferred \<in> set roles \<or>
            PR_prefill_only \<in> set roles);
          hasDecodeCapability = (PR_unified \<in> set roles \<or> PR_decode_preferred \<in> set roles \<or>
            PR_decode_only \<in> set roles)
      in if requiresPrefill \<and> \<not> hasPrefillCapability then
           phase_refuse (''Worker '' @ v2_workerId env @ '' lacks prefill capability (roles: '' @
             names @ '')'')
         else if requiresDecode \<and> \<not> hasDecodeCapability then
           phase_refuse (''Worker '' @ v2_workerId env @ '' lacks decode capability (roles: '' @
             names @ '')'')
         else if \<not> requiresPrefill \<and> \<not> requiresDecode then
           phase_refuse ''At least one of requiresPrefill or requiresDecode must be true''
         else phase_pass)"

definition checkPhaseCoLocation :: "PrismWorkerCompatibilityEnvelopeV2 \<Rightarrow> PhaseCheck" where
  "checkPhaseCoLocation env =
     (case v2_phaseCoLocationPolicy env of
        PC_same_worker_required \<Rightarrow> phase_pass
      | PC_future_transfer_capable \<Rightarrow> phase_pass
      | PC_not_supported \<Rightarrow>
          phase_refuse (''Worker '' @ v2_workerId env @
            '' does not support phase co-location (policy: not_supported)''))"

section \<open>Execution pins\<close>

datatype ExecutionPinState =
  PN_reserved | PN_prefill_running | PN_prefill_completed | PN_decode_running | PN_completed |
  PN_cancelled | PN_failed

datatype PinAction =
  PA_start_prefill | PA_complete_prefill | PA_start_decode | PA_complete | PA_cancel | PA_fail

record PrismExecutionPin =
  pin_executionId :: string
  pin_routeId :: string
  pin_requestId :: string
  pin_workerId :: string
  pin_workerInstanceId :: string
  pin_modelArtifactDigest :: string
  pin_tokenizerDigest :: string
  pin_computeImageDigest :: string
  pin_kvNamespaceId :: "string option"
  pin_phaseCoLocationPolicy :: PhaseCoLocationPolicy
  pin_issuedAt :: timestamp
  pin_expiresAt :: "timestamp option"
  pin_state :: ExecutionPinState

fun VALID_PIN_TRANSITIONS :: "ExecutionPinState \<Rightarrow> ExecutionPinState list" where
  "VALID_PIN_TRANSITIONS PN_reserved = [PN_prefill_running, PN_cancelled, PN_failed]"
| "VALID_PIN_TRANSITIONS PN_prefill_running = [PN_prefill_completed, PN_cancelled, PN_failed]"
| "VALID_PIN_TRANSITIONS PN_prefill_completed = [PN_decode_running, PN_cancelled, PN_failed]"
| "VALID_PIN_TRANSITIONS PN_decode_running = [PN_completed, PN_cancelled, PN_failed]"
| "VALID_PIN_TRANSITIONS PN_completed = []"
| "VALID_PIN_TRANSITIONS PN_cancelled = []"
| "VALID_PIN_TRANSITIONS PN_failed = []"

fun PIN_ACTION_EFFECTS :: "PinAction \<Rightarrow> ExecutionPinState \<Rightarrow> ExecutionPinState" where
  "PIN_ACTION_EFFECTS PA_start_prefill state = PN_prefill_running"
| "PIN_ACTION_EFFECTS PA_complete_prefill state = PN_prefill_completed"
| "PIN_ACTION_EFFECTS PA_start_decode state = PN_decode_running"
| "PIN_ACTION_EFFECTS PA_complete state = PN_completed"
| "PIN_ACTION_EFFECTS PA_cancel state = PN_cancelled"
| "PIN_ACTION_EFFECTS PA_fail state = PN_failed"

datatype ExecutionPinError = Invalid_pin_transition ExecutionPinState ExecutionPinState PinAction

definition applyPinAction ::
  "ExecutionPinState \<Rightarrow> PinAction \<Rightarrow> ExecutionPinError + ExecutionPinState" where
  "applyPinAction state action =
     (let nxt = PIN_ACTION_EFFECTS action state;
          allowed = VALID_PIN_TRANSITIONS state
      in if nxt \<notin> set allowed then Inl (Invalid_pin_transition state nxt action) else Inr nxt)"

definition createExecutionPin ::
  "millis \<Rightarrow> string \<Rightarrow> string \<Rightarrow> string \<Rightarrow> string \<Rightarrow> string \<Rightarrow> string \<Rightarrow> string \<Rightarrow> PrismExecutionPin" where
  "createExecutionPin now executionId routeId requestId workerId instanceId modelDigest computeDigest =
     \<lparr>pin_executionId = executionId,
      pin_routeId = routeId,
      pin_requestId = requestId,
      pin_workerId = workerId,
      pin_workerInstanceId = instanceId,
      pin_modelArtifactDigest = modelDigest,
      pin_tokenizerDigest = [],
      pin_computeImageDigest = computeDigest,
      pin_kvNamespaceId = None,
      pin_phaseCoLocationPolicy = PC_same_worker_required,
      pin_issuedAt = Iso now,
      pin_expiresAt = None,
      pin_state = PN_reserved\<rparr>"

definition isExecutionPinActive :: "PrismExecutionPin \<Rightarrow> bool" where
  "isExecutionPinActive pin \<longleftrightarrow>
     pin_state pin = PN_reserved \<or> pin_state pin = PN_prefill_running \<or>
     pin_state pin = PN_prefill_completed \<or> pin_state pin = PN_decode_running"

definition canWorkerExecutePin :: "PrismExecutionPin \<Rightarrow> string \<Rightarrow> bool" where
  "canWorkerExecutePin pin workerInstanceId \<longleftrightarrow> pin_workerInstanceId pin = workerInstanceId"

section \<open>The phase lifecycle\<close>

record PhaseLifecycleState =
  ph_executionId :: string
  ph_requestId :: string
  ph_prefillState :: string
  ph_decodeState :: string
  ph_kvNamespaceId :: "string option"
  ph_prefillWorkerId :: string
  ph_decodeWorkerId :: string
  ph_prefillCompletedAt :: "timestamp option"
  ph_decodeStartedAt :: "timestamp option"

definition createPhaseLifecycle :: "string \<Rightarrow> string \<Rightarrow> string \<Rightarrow> PhaseLifecycleState" where
  "createPhaseLifecycle executionId requestId workerId =
     \<lparr>ph_executionId = executionId,
      ph_requestId = requestId,
      ph_prefillState = ''pending'',
      ph_decodeState = ''pending'',
      ph_kvNamespaceId = None,
      ph_prefillWorkerId = workerId,
      ph_decodeWorkerId = workerId,
      ph_prefillCompletedAt = None,
      ph_decodeStartedAt = None\<rparr>"

definition transitionPrefill :: "millis \<Rightarrow> PhaseLifecycleState \<Rightarrow> string \<Rightarrow> PhaseLifecycleState" where
  "transitionPrefill now state newState =
     (let kvNamespaceId = ph_kvNamespaceId state;
          prefillCompletedAt =
            (if newState = ''completed'' then Some (Iso now) else ph_prefillCompletedAt state)
      in state\<lparr>ph_prefillState := newState, ph_kvNamespaceId := kvNamespaceId,
               ph_prefillCompletedAt := prefillCompletedAt\<rparr>)"

definition transitionDecode :: "millis \<Rightarrow> PhaseLifecycleState \<Rightarrow> string \<Rightarrow> PhaseLifecycleState" where
  "transitionDecode now state newState =
     (let decodeStartedAt =
            (if newState = ''running'' \<and> ph_decodeState state = ''pending'' then Some (Iso now)
             else ph_decodeStartedAt state)
      in state\<lparr>ph_decodeState := newState, ph_decodeStartedAt := decodeStartedAt\<rparr>)"

definition isPrefillComplete :: "PhaseLifecycleState \<Rightarrow> bool" where
  "isPrefillComplete state \<longleftrightarrow> ph_prefillState state = ''completed''"

definition isDecodeComplete :: "PhaseLifecycleState \<Rightarrow> bool" where
  "isDecodeComplete state \<longleftrightarrow> ph_decodeState state = ''completed''"

section \<open>Failures\<close>

datatype PhaseFailureClass =
  FC_prefill_failed | FC_prefill_cancelled | FC_prefill_budget_exceeded | FC_prefill_timeout |
  FC_decode_failed | FC_decode_cancelled | FC_decode_budget_exceeded | FC_decode_timeout |
  FC_decode_kv_invalid | FC_decode_worker_mismatch

datatype PhaseStage = ST_prefill | ST_decode

text \<open>The classifier searches lower-case text for words and regular expressions.\<close>

definition is_space :: "char \<Rightarrow> bool" where
  "is_space c \<longleftrightarrow> c = CHR '' '' \<or> 9 \<le> (of_char c :: nat) \<and> (of_char c :: nat) \<le> 13"

text \<open>\<open>rest\<close> after an optional character: greedy or not, the match is the same.\<close>

definition optional_then :: "(char \<Rightarrow> bool) \<Rightarrow> string \<Rightarrow> string \<Rightarrow> bool" where
  "optional_then p rest s =
     (starts_with rest s \<or> (case s of [] \<Rightarrow> False | c # cs \<Rightarrow> p c \<and> starts_with rest cs))"

definition timeout_regex :: "string \<Rightarrow> bool" where
  "timeout_regex s \<longleftrightarrow>
     starts_with ''timed'' s \<and> optional_then is_space ''out'' (drop 5 s) \<or>
     starts_with ''time'' s \<and> optional_then is_space ''out'' (drop 4 s)"

definition kv_invalid_regex :: "string \<Rightarrow> bool" where
  "kv_invalid_regex s \<longleftrightarrow> starts_with ''kv'' s \<and> optional_then not_newline ''invalid'' (drop 2 s)"

definition worker_mismatch_regex :: "string \<Rightarrow> bool" where
  "worker_mismatch_regex s \<longleftrightarrow>
     starts_with ''worker'' s \<and> optional_then not_newline ''mismatch'' (drop 6 s)"

definition getFailureClass :: "PhaseLifecycleState \<Rightarrow> PhaseStage \<Rightarrow> string \<Rightarrow> PhaseFailureClass" where
  "getFailureClass state stage reason =
     (let lower = toLowerCase reason
      in if js_includes lower ''timeout'' then
           (if stage = ST_prefill then FC_prefill_timeout else FC_decode_timeout)
         else if js_includes lower ''budget'' \<or> js_includes lower ''quota'' \<or> js_includes lower ''limit'' then
           (if stage = ST_prefill then FC_prefill_budget_exceeded else FC_decode_budget_exceeded)
         else if js_includes lower ''cancel'' then
           (if stage = ST_prefill then FC_prefill_cancelled else FC_decode_cancelled)
         else if stage = ST_decode \<and>
                 (js_includes lower ''kv'' \<or> js_includes lower ''namespace'' \<or> js_includes lower ''cache_miss'')
         then FC_decode_kv_invalid
         else if stage = ST_decode \<and> (js_includes lower ''worker'' \<or> js_includes lower ''mismatch'')
         then FC_decode_worker_mismatch
         else if stage = ST_prefill then FC_prefill_failed else FC_decode_failed)"

text \<open>The stage is a string here; the regular expressions ignore case.\<close>

definition classifyPhaseFailure :: "string \<Rightarrow> string \<Rightarrow> PhaseFailureClass" where
  "classifyPhaseFailure stage reason =
     (let lower = toLowerCase reason
      in if stage = ''prefill'' then
           (if js_includes lower ''budget'' then FC_prefill_budget_exceeded
            else if search timeout_regex lower then FC_prefill_timeout
            else if js_includes lower ''cancel'' then FC_prefill_cancelled
            else FC_prefill_failed)
         else if stage = ''decode'' then
           (if js_includes lower ''budget'' then FC_decode_budget_exceeded
            else if search timeout_regex lower then FC_decode_timeout
            else if js_includes lower ''cancel'' then FC_decode_cancelled
            else if search kv_invalid_regex lower then FC_decode_kv_invalid
            else if search worker_mismatch_regex lower then FC_decode_worker_mismatch
            else FC_decode_failed)
         else FC_decode_failed)"

fun isRetryableBeforeOutput :: "PhaseFailureClass \<Rightarrow> bool" where
  "isRetryableBeforeOutput FC_prefill_failed = True"
| "isRetryableBeforeOutput FC_prefill_budget_exceeded = True"
| "isRetryableBeforeOutput FC_prefill_timeout = True"
| "isRetryableBeforeOutput FC_prefill_cancelled = True"
| "isRetryableBeforeOutput FC_decode_timeout = True"
| "isRetryableBeforeOutput FC_decode_budget_exceeded = True"
| "isRetryableBeforeOutput FC_decode_kv_invalid = True"
| "isRetryableBeforeOutput FC_decode_worker_mismatch = True"
| "isRetryableBeforeOutput FC_decode_failed = False"
| "isRetryableBeforeOutput FC_decode_cancelled = False"

fun isRetryableAfterOutput :: "PhaseFailureClass \<Rightarrow> bool" where
  "isRetryableAfterOutput FC_prefill_failed = True"
| "isRetryableAfterOutput FC_prefill_budget_exceeded = True"
| "isRetryableAfterOutput FC_prefill_timeout = True"
| "isRetryableAfterOutput _ = False"

definition getFailureRetryPolicy :: "PhaseFailureClass \<Rightarrow> bool \<Rightarrow> bool \<times> string" where
  "getFailureRetryPolicy failure outputEmitted =
     (if outputEmitted then
        let retryableAfter = isRetryableAfterOutput failure
        in (retryableAfter, if retryableAfter then ''Retryable after output emitted''
                            else ''Not retryable after output emitted'')
      else
        let retryableBefore = isRetryableBeforeOutput failure
        in (retryableBefore, if retryableBefore then ''Retryable before output emitted''
                             else ''Not retryable before output emitted''))"

section \<open>Drains, KV events and receipts\<close>

datatype DrainScope = DS_all | DS_prefill_only | DS_decode_only

text \<open>Every value of the type is one of the three scopes the code looks for.\<close>

definition validateDrainScope :: "DrainScope \<Rightarrow> bool \<Rightarrow> PhaseCheck" where
  "validateDrainScope scope hasActiveExecution =
     (if scope \<notin> {DS_all, DS_prefill_only, DS_decode_only} then phase_refuse ''Unknown drain scope''
      else phase_pass)"

definition isDrainAllowed :: "DrainScope \<Rightarrow> int \<Rightarrow> int \<Rightarrow> bool" where
  "isDrainAllowed scope activePrefill activeDecode =
     (case scope of DS_all \<Rightarrow> True
      | DS_prefill_only \<Rightarrow> activeDecode = 0
      | DS_decode_only \<Rightarrow> activePrefill = 0)"

definition canDecodeAttach :: "string \<Rightarrow> string \<Rightarrow> bool" where
  "canDecodeAttach eventPhase coLocation =
     (if coLocation = ''same_worker_required'' then eventPhase = ''prefill''
      else if coLocation = ''future_transfer_capable'' then True
      else False)"

record PhaseKvEvent =
  pe_eventId :: string
  pe_eventVersion :: int
  pe_workerId :: string
  pe_workerInstanceId :: string
  pe_modelArtifactDigest :: string
  pe_prefixDigest :: string
  pe_kvNamespaceId :: string
  pe_phase :: string
  pe_state :: string
  pe_emittedAt :: timestamp

definition createPhaseKvEvent ::
  "millis \<Rightarrow> string \<Rightarrow> string \<Rightarrow> string \<Rightarrow> string \<Rightarrow> string \<Rightarrow> string \<Rightarrow> string \<Rightarrow> PhaseKvEvent" where
  "createPhaseKvEvent now workerId instanceId modelDigest prefixDigest nsId phase state =
     \<lparr>pe_eventId = workerId @ '':'' @ instanceId @ '':'' @ prefixDigest @ '':'' @ phase @ '':'' @ show_int now,
      pe_eventVersion = 2,
      pe_workerId = workerId,
      pe_workerInstanceId = instanceId,
      pe_modelArtifactDigest = modelDigest,
      pe_prefixDigest = prefixDigest,
      pe_kvNamespaceId = nsId @ ''::'' @ prefixDigest,
      pe_phase = phase,
      pe_state = state,
      pe_emittedAt = Iso now\<rparr>"

definition getKvEventPhase :: "PhaseKvEvent \<Rightarrow> string option" where
  "getKvEventPhase event = (if length (pe_phase event) > 0 then Some (pe_phase event) else None)"

record PrismPhaseUsageReceipt =
  pu_receiptId :: string
  pu_requestId :: string
  pu_routeId :: string
  pu_dharmaLeaseId :: "string option"
  pu_sessionId :: "string option"
  pu_workerId :: string
  pu_workerInstanceId :: string
  pu_prefillWorkerId :: string
  pu_decodeWorkerId :: string
  pu_phaseCoLocationPolicy :: string
  pu_modelArtifactDigest :: string
  pu_tokenizerDigest :: string
  pu_prefillComputeImageDigest :: string
  pu_decodeComputeImageDigest :: string
  pu_targetCapabilitySignature :: string
  pu_inputDigest :: string
  pu_outputDigest :: "string option"
  pu_inputTokenCount :: "int option"
  pu_outputTokenCount :: "int option"
  pu_prefillDurationMs :: "int option"
  pu_decodeDurationMs :: "int option"
  pu_totalDurationMs :: int
  pu_prefillPeakMemoryBytes :: "int option"
  pu_decodePeakMemoryBytes :: "int option"
  pu_kvNamespaceDigest :: "string option"
  pu_kvCacheStatus :: "string option"
  pu_executionState :: string
  pu_failureClass :: "PhaseFailureClass option"
  pu_emittedAt :: timestamp
  pu_workerSignature :: string

record PhaseReceiptConfig =
  pg_requestId :: string
  pg_routeId :: string
  pg_workerId :: string
  pg_instanceId :: string
  pg_prefillWorkerId :: string
  pg_decodeWorkerId :: string
  pg_coLocation :: string
  pg_modelDigest :: string
  pg_tokenizerDigest :: string
  pg_prefillComputeDigest :: string
  pg_decodeComputeDigest :: string
  pg_targetSig :: string
  pg_inputDigest :: string
  pg_outputDigest :: "string option"
  pg_inputTokens :: "int option"
  pg_outputTokens :: "int option"
  pg_prefillMs :: "int option"
  pg_decodeMs :: "int option"
  pg_totalMs :: int
  pg_prefillMem :: "int option"
  pg_decodeMem :: "int option"
  pg_kvDigest :: "string option"
  pg_kvStatus :: "string option"
  pg_execState :: string
  pg_failureClass :: "PhaseFailureClass option"

definition phase_sig_payload :: "PrismPhaseUsageReceipt \<Rightarrow> string" where
  "phase_sig_payload receipt =
     js_join ''|'' [pu_receiptId receipt, pu_requestId receipt, pu_routeId receipt,
       pu_workerId receipt, pu_workerInstanceId receipt, show_int (pu_totalDurationMs receipt),
       pu_executionState receipt]"

definition createPhaseReceipt ::
  "(string \<Rightarrow> string) \<Rightarrow> millis \<Rightarrow> PhaseReceiptConfig \<Rightarrow> PrismPhaseUsageReceipt" where
  "createPhaseReceipt sha256 now config =
     (let raw = pg_requestId config @ '':'' @ pg_workerId config @ '':'' @ pg_instanceId config @ '':'' @
            toISOString now;
          receiptId = take 16 (sha256 raw);
          receipt =
            \<lparr>pu_receiptId = receiptId,
             pu_requestId = pg_requestId config,
             pu_routeId = pg_routeId config,
             pu_dharmaLeaseId = None,
             pu_sessionId = None,
             pu_workerId = pg_workerId config,
             pu_workerInstanceId = pg_instanceId config,
             pu_prefillWorkerId = pg_prefillWorkerId config,
             pu_decodeWorkerId = pg_decodeWorkerId config,
             pu_phaseCoLocationPolicy = pg_coLocation config,
             pu_modelArtifactDigest = pg_modelDigest config,
             pu_tokenizerDigest = pg_tokenizerDigest config,
             pu_prefillComputeImageDigest = pg_prefillComputeDigest config,
             pu_decodeComputeImageDigest = pg_decodeComputeDigest config,
             pu_targetCapabilitySignature = pg_targetSig config,
             pu_inputDigest = pg_inputDigest config,
             pu_outputDigest = pg_outputDigest config,
             pu_inputTokenCount = pg_inputTokens config,
             pu_outputTokenCount = pg_outputTokens config,
             pu_prefillDurationMs = pg_prefillMs config,
             pu_decodeDurationMs = pg_decodeMs config,
             pu_totalDurationMs = pg_totalMs config,
             pu_prefillPeakMemoryBytes = pg_prefillMem config,
             pu_decodePeakMemoryBytes = pg_decodeMem config,
             pu_kvNamespaceDigest = pg_kvDigest config,
             pu_kvCacheStatus = pg_kvStatus config,
             pu_executionState = pg_execState config,
             pu_failureClass = pg_failureClass config,
             pu_emittedAt = Iso now,
             pu_workerSignature = []\<rparr>
      in receipt\<lparr>pu_workerSignature := sha256 (phase_sig_payload receipt)\<rparr>)"

definition PHASE_EXECUTION_STATES :: "string set" where
  "PHASE_EXECUTION_STATES = {''completed'', ''failed'', ''cancelled'', ''timeout'', ''pending''}"

definition below_zero :: "int option \<Rightarrow> bool" where
  "below_zero v = (case v of None \<Rightarrow> False | Some n \<Rightarrow> n < 0)"

definition isPhaseReceiptValid :: "PrismPhaseUsageReceipt \<Rightarrow> bool" where
  "isPhaseReceiptValid receipt =
     (if \<not> truthy (pu_receiptId receipt) then False
      else if \<not> truthy (pu_workerId receipt) then False
      else if \<not> truthy (pu_workerSignature receipt) then False
      else if pu_totalDurationMs receipt < 0 then False
      else if pu_executionState receipt \<notin> PHASE_EXECUTION_STATES then False
      else if below_zero (pu_inputTokenCount receipt) then False
      else if below_zero (pu_outputTokenCount receipt) then False
      else if below_zero (pu_prefillDurationMs receipt) then False
      else if below_zero (pu_decodeDurationMs receipt) then False
      else if below_zero (pu_prefillPeakMemoryBytes receipt) then False
      else if below_zero (pu_decodePeakMemoryBytes receipt) then False
      else True)"

section \<open>Pins follow one path\<close>

fun pin_rank :: "ExecutionPinState \<Rightarrow> nat" where
  "pin_rank PN_reserved = 4"
| "pin_rank PN_prefill_running = 3"
| "pin_rank PN_prefill_completed = 2"
| "pin_rank PN_decode_running = 1"
| "pin_rank _ = 0"

interpretation pin: ranked_machine VALID_PIN_TRANSITIONS pin_rank applyPinAction
proof
  fix s t
  show "t \<in> set (VALID_PIN_TRANSITIONS s) \<Longrightarrow> pin_rank t < pin_rank s" by (cases s) auto
next
  fix s a t
  show "applyPinAction s a = Inr t \<Longrightarrow> t \<in> set (VALID_PIN_TRANSITIONS s)"
    by (simp add: applyPinAction_def Let_def split: if_splits)
qed

text \<open>The action sequences that lead a reserved pin to a state.\<close>

fun pin_traces :: "ExecutionPinState \<Rightarrow> PinAction list list" where
  "pin_traces PN_reserved = [[]]"
| "pin_traces PN_prefill_running = [[PA_start_prefill]]"
| "pin_traces PN_prefill_completed = [[PA_start_prefill, PA_complete_prefill]]"
| "pin_traces PN_decode_running = [[PA_start_prefill, PA_complete_prefill, PA_start_decode]]"
| "pin_traces PN_completed = [[PA_start_prefill, PA_complete_prefill, PA_start_decode, PA_complete]]"
| "pin_traces PN_cancelled =
     [[PA_cancel], [PA_start_prefill, PA_cancel], [PA_start_prefill, PA_complete_prefill, PA_cancel],
      [PA_start_prefill, PA_complete_prefill, PA_start_decode, PA_cancel]]"
| "pin_traces PN_failed =
     [[PA_fail], [PA_start_prefill, PA_fail], [PA_start_prefill, PA_complete_prefill, PA_fail],
      [PA_start_prefill, PA_complete_prefill, PA_start_decode, PA_fail]]"

lemma pin_traces_step:
  "as \<in> set (pin_traces u) \<Longrightarrow> applyPinAction u a = Inr t \<Longrightarrow> as @ [a] \<in> set (pin_traces t)"
  by (cases u; cases a) (auto simp: applyPinAction_def)

lemma pin_traces_complete: "run_actions applyPinAction PN_reserved as = Inr t \<Longrightarrow> as \<in> set (pin_traces t)"
proof (induction as arbitrary: t rule: rev_induct)
  case (snoc a as)
  then obtain u where "run_actions applyPinAction PN_reserved as = Inr u" "applyPinAction u a = Inr t"
    by (auto simp: run_snoc)
  then show ?case by (intro pin_traces_step snoc.IH)
qed auto

lemma pin_traces_sound: "as \<in> set (pin_traces t) \<Longrightarrow> run_actions applyPinAction PN_reserved as = Inr t"
  by (cases t) (auto simp: applyPinAction_def)

text \<open>
  The actions that lead a new execution pin to a state are exactly the listed ones: it completes
  only by starting and completing prefill, then starting decode and completing; it is cancelled or
  failed after a proper part of that sequence; no accepted sequence has more than four actions; and
  it is active exactly as long as some action is accepted.
\<close>

theorem pin_history:
  "(run_actions applyPinAction (pin_state (createExecutionPin now e r q w i m c)) as = Inr t \<longleftrightarrow>
      as \<in> set (pin_traces t)) \<and>
   (as \<in> set (pin_traces t) \<longrightarrow> length as + pin_rank t \<le> 4) \<and>
   (isExecutionPinActive (p\<lparr>pin_state := t\<rparr>) \<longleftrightarrow> (\<exists>a u. applyPinAction t a = Inr u))"
proof (intro conjI impI)
  show "run_actions applyPinAction (pin_state (createExecutionPin now e r q w i m c)) as = Inr t \<longleftrightarrow>
      as \<in> set (pin_traces t)"
  proof -
    have "pin_state (createExecutionPin now e r q w i m c) = PN_reserved"
      by (simp add: createExecutionPin_def)
    then show ?thesis using pin_traces_complete pin_traces_sound by metis
  qed
next
  assume "as \<in> set (pin_traces t)"
  then have "run_actions applyPinAction PN_reserved as = Inr t" by (rule pin_traces_sound)
  from pin.run_bounded [OF this] show "length as + pin_rank t \<le> 4" by simp
next
  show "isExecutionPinActive (p\<lparr>pin_state := t\<rparr>) \<longleftrightarrow> (\<exists>a u. applyPinAction t a = Inr u)"
  proof (cases "VALID_PIN_TRANSITIONS t")
    case Nil
    then have "\<nexists>a u. applyPinAction t a = Inr u" by (simp add: applyPinAction_def)
    moreover from Nil have "\<not> isExecutionPinActive (p\<lparr>pin_state := t\<rparr>)"
      by (cases t) (simp_all add: isExecutionPinActive_def)
    ultimately show ?thesis by blast
  next
    case (Cons v vs)
    then have c: "applyPinAction t PA_cancel = Inr PN_cancelled"
      by (cases t) (auto simp: applyPinAction_def)
    from Cons have act: "isExecutionPinActive (p\<lparr>pin_state := t\<rparr>)"
      by (cases t) (simp_all add: isExecutionPinActive_def)
    show ?thesis by (rule iffI, rule exI, rule exI, rule c, rule act)
  qed
qed

theorem pin_history_witness:
  "length [PA_start_prefill, PA_complete_prefill, PA_cancel] + pin_rank PN_cancelled \<le> 4"
  using pin_history [where t = PN_cancelled and as = "[PA_start_prefill, PA_complete_prefill, PA_cancel]"]
  by simp

section \<open>Plans, checks and scores\<close>

text \<open>
  A created plan runs both phases on the selected worker and passes the same-worker check; it is
  valid exactly when it has a route, a request and a selected worker among the candidates; but
  validity does not include the same-worker invariant: changing the decode worker of a valid plan to
  any other worker leaves it valid.
\<close>

theorem route_plan_checks:
  "isRoutePlanSameWorker (createRoutePlan now u q cs w a b) \<and>
   pk_ok (checkSameWorkerInvariant (createRoutePlan now u q cs w a b)) \<and>
   (pk_ok (validateRoutePlan (createRoutePlan now u q cs w a b)) \<longleftrightarrow>
      u \<noteq> [] \<and> q \<noteq> [] \<and> w \<noteq> [] \<and> w \<in> set cs) \<and>
   (pk_ok (validateRoutePlan plan) \<and> v \<noteq> [] \<and> v \<noteq> rpl_prefillWorkerId plan \<longrightarrow>
      pk_ok (validateRoutePlan (plan\<lparr>rpl_decodeWorkerId := v\<rparr>)) \<and>
      \<not> pk_ok (checkSameWorkerInvariant (plan\<lparr>rpl_decodeWorkerId := v\<rparr>)))"
  by (auto simp: isRoutePlanSameWorker_def createRoutePlan_def checkSameWorkerInvariant_def
      validateRoutePlan_def split: option.splits)

theorem route_plan_checks_witness:
  "pk_ok (validateRoutePlan ((createRoutePlan 0 ''u'' ''q'' [''w''] ''w'' [] [])\<lparr>rpl_decodeWorkerId := ''x''\<rparr>))"
proof -
  have "pk_ok (validateRoutePlan (createRoutePlan 0 ''u'' ''q'' [''w''] ''w'' [] []))"
    by (simp add: validateRoutePlan_def createRoutePlan_def)
  moreover have "''x'' \<noteq> rpl_prefillWorkerId (createRoutePlan 0 ''u'' ''q'' [''w''] ''w'' [] [])"
    by (simp add: createRoutePlan_def)
  ultimately show ?thesis
    using route_plan_checks [where plan = "createRoutePlan 0 ''u'' ''q'' [''w''] ''w'' [] []" and v = "''x''"]
    by simp
qed

text \<open>
  The role check of the route validator and the eligibility check of the capabilities give the
  same verdict on a worker with both capabilities enabled, for every request that requires a phase.
\<close>

theorem phase_checks_agree:
  assumes "pc_enabled (v2_prefillCapability env)" and "pc_enabled (v2_decodeCapability env)"
    and "p \<or> d"
  shows "pk_ok (checkWorkerPhaseCapability env p d) = pk_ok (isWorkerEligibleForRequest env p d)"
proof -
  have prefill_role_iff: "PREFILL_ROLES r \<longleftrightarrow> r \<in> {PR_unified, PR_prefill_preferred, PR_prefill_only}"
    and decode_role_iff: "DECODE_ROLES r \<longleftrightarrow> r \<in> {PR_unified, PR_decode_preferred, PR_decode_only}" for r
    by (cases r; simp)+
  have pre: "list_ex PREFILL_ROLES rs \<longleftrightarrow>
      PR_unified \<in> set rs \<or> PR_prefill_preferred \<in> set rs \<or> PR_prefill_only \<in> set rs" for rs
    using prefill_role_iff by (auto simp: list_ex_iff)
  have dec: "list_ex DECODE_ROLES rs \<longleftrightarrow>
      PR_unified \<in> set rs \<or> PR_decode_preferred \<in> set rs \<or> PR_decode_only \<in> set rs" for rs
    using decode_role_iff by (auto simp: list_ex_iff)
  show ?thesis
    using assms by (auto simp: checkWorkerPhaseCapability_def isWorkerEligibleForRequest_def pre dec Let_def)
qed

theorem phase_checks_agree_witness:
  "pk_ok (checkWorkerPhaseCapability (createCompatibilityEnvelopeV2 ''w'' ''i'' [PR_decode_only]
       (createPhaseCapability True True 1 1 1) (createPhaseCapability True True 1 1 1) PC_not_supported)
       False True) =
   pk_ok (isWorkerEligibleForRequest (createCompatibilityEnvelopeV2 ''w'' ''i'' [PR_decode_only]
       (createPhaseCapability True True 1 1 1) (createPhaseCapability True True 1 1 1) PC_not_supported)
       False True)"
  by (rule phase_checks_agree)
    (simp_all add: createCompatibilityEnvelopeV2_def createPhaseCapability_def)

lemma num_add_mono2: "a \<le> a' \<Longrightarrow> b \<le> b' \<Longrightarrow> num_add a b \<le> num_add a' b'"
  unfolding num_add_def by (rule fl_mono) simp

lemma num_mul_mono_right: "0 \<le> w \<Longrightarrow> x \<le> y \<Longrightarrow> num_mul w x \<le> num_mul w y"
  unfolding num_mul_def by (rule fl_mono) (rule mult_left_mono)

lemma phase_load_score_mono:
  assumes "rw_maxConcurrentRequests w' = rw_maxConcurrentRequests w"
    and "rw_activeRequests w' \<le> rw_activeRequests w"
  shows "phase_load_score w \<le> phase_load_score w'"
proof (cases "rw_maxConcurrentRequests w > 0")
  case True
  have "num_div (of_int (rw_activeRequests w')) (of_int (rw_maxConcurrentRequests w)) \<le>
      num_div (of_int (rw_activeRequests w)) (of_int (rw_maxConcurrentRequests w))"
    by (rule num_div_mono) (use assms True in simp_all)
  then have "num_sub 1 (min (num_div (of_int (rw_activeRequests w)) (of_int (rw_maxConcurrentRequests w))) 1) \<le>
      num_sub 1 (min (num_div (of_int (rw_activeRequests w')) (of_int (rw_maxConcurrentRequests w))) 1)"
    unfolding num_sub_def by (intro fl_mono diff_left_mono min.mono) simp_all
  with True assms show ?thesis by (simp add: phase_load_score_def)
next
  case False
  with assms show ?thesis by (simp add: phase_load_score_def)
qed

text \<open>
  With weights that are not negative, the rounded phase score never decreases when a worker
  becomes healthy or ready, has fewer active requests, stops draining, loses its error or gains
  affinity, whatever the envelopes and the capacities.
\<close>

theorem phase_score_monotone:
  assumes "0 \<le> sw_healthWeight ws" "0 \<le> sw_loadWeight ws" "0 \<le> sw_drainWeight ws"
    "0 \<le> sw_cacheAffinityWeight ws" "0 \<le> sw_errorWeight ws"
    and "rw_healthy w \<Longrightarrow> rw_healthy w'" and "rw_ready w \<Longrightarrow> rw_ready w'"
    and "rw_maxConcurrentRequests w' = rw_maxConcurrentRequests w"
    and "rw_activeRequests w' \<le> rw_activeRequests w"
    and "rw_draining w' \<Longrightarrow> rw_draining w" and "a \<le> a'"
    and "rw_lastError w' = rw_lastError w \<or> rw_lastError w' = None"
  shows "scorePhaseWorker w env cap a ws \<le> scorePhaseWorker w' env' cap' a' ws"
  unfolding scorePhaseWorker_def Let_def
  by (intro num_add_mono2 num_mul_mono_right phase_load_score_mono assms order.refl max.mono min.mono)
    (use assms(6,7,10,12) in \<open>auto split: option.splits\<close>)

definition idle_worker :: RouterWorkerState where
  "idle_worker =
     \<lparr>rw_workerId = ''w'', rw_instanceId = ''i'', rw_compatibility = None, rw_healthy = True,
      rw_ready = True, rw_draining = False, rw_activeRequests = 0, rw_maxConcurrentRequests = 4,
      rw_lastHealthCheck = None, rw_lastError = None, rw_lastKvEventSequence = 0,
      rw_kvEventFreshness = None\<rparr>"

theorem phase_score_monotone_witness:
  "scorePhaseWorker (idle_worker\<lparr>rw_activeRequests := 3, rw_ready := False\<rparr>)
     (createCompatibilityEnvelopeV2 [] [] [] (createPhaseCapability True True 1 1 1)
        (createPhaseCapability True True 1 1 1) PC_not_supported) None 0
     \<lparr>sw_cacheAffinityWeight = 1, sw_loadWeight = 1, sw_healthWeight = 1, sw_errorWeight = 1,
      sw_drainWeight = 1\<rparr> \<le>
   scorePhaseWorker idle_worker
     (createCompatibilityEnvelopeV2 [] [] [] (createPhaseCapability True True 1 1 1)
        (createPhaseCapability True True 1 1 1) PC_not_supported) None 1
     \<lparr>sw_cacheAffinityWeight = 1, sw_loadWeight = 1, sw_healthWeight = 1, sw_errorWeight = 1,
      sw_drainWeight = 1\<rparr>"
  by (rule phase_score_monotone) (simp_all add: idle_worker_def)

end
