(* ===== verification/Dharma_Session.thy ===== *)
theory Dharma_Session imports Transition_Systems Js_Runtime Js_Text begin

text \<open>
  Sessions of the Dharma fabric (\<open>tribunus/dharma/session/\<close>): the data of \<open>types.ts\<close>, the lifecycle of
  a session (\<open>session-lifecycle.ts\<close>), memberships and invitations (\<open>session-membership.ts\<close>), command
  requests, receipts and approvals (\<open>session-commands.ts\<close>), revocation and key epochs
  (\<open>session-revocation.ts\<close>) and the approval machine of workspace mutations (\<open>workspace-model.ts\<close>).

  Timestamps of this subsystem are compared as strings, so a timestamp field is a \<open>string\<close> and a
  reading of the clock is its printed form \<open>now\<close>.  Generated identifiers are arguments.
\<close>

section \<open>Data\<close>

datatype SessionLifecycleState =
  SL_draft | SL_materializing | SL_ready | SL_active | SL_draining | SL_sealed | SL_exported |
  SL_archived | SL_cancelled | SL_failed | SL_suspended | SL_terminated

fun SessionLifecycleState_str :: "SessionLifecycleState \<Rightarrow> string" where
  "SessionLifecycleState_str SL_draft = ''draft''"
| "SessionLifecycleState_str SL_materializing = ''materializing''"
| "SessionLifecycleState_str SL_ready = ''ready''"
| "SessionLifecycleState_str SL_active = ''active''"
| "SessionLifecycleState_str SL_draining = ''draining''"
| "SessionLifecycleState_str SL_sealed = ''sealed''"
| "SessionLifecycleState_str SL_exported = ''exported''"
| "SessionLifecycleState_str SL_archived = ''archived''"
| "SessionLifecycleState_str SL_cancelled = ''cancelled''"
| "SessionLifecycleState_str SL_failed = ''failed''"
| "SessionLifecycleState_str SL_suspended = ''suspended''"
| "SessionLifecycleState_str SL_terminated = ''terminated''"

datatype SessionVisibility =
  SV_private | SV_federation | SV_discoverable

record DharmaSession =
  se_sessionId :: string
  se_federationId :: string
  se_ownerIdentityPublicKey :: string
  se_ownerDeviceId :: "string option"
  se_projectReference :: string
  se_sourceRevision :: string
  se_sourceTreeDigest :: string
  se_sourceManifestDigest :: "string option"
  se_sandboxRuntimeKind :: string
  se_sandboxImageDigest :: "string option"
  se_sandboxPolicyDigest :: "string option"
  se_collaborationPolicyDigest :: "string option"
  se_disclosurePolicyDigest :: "string option"
  se_lifecycleState :: SessionLifecycleState
  se_visibility :: SessionVisibility
  se_createdAt :: string
  se_activatedAt :: "string option"
  se_sealedAt :: "string option"
  se_expiresAt :: "string option"
  se_sessionKeyEpoch :: int
  se_predecessorSessionId :: "string option"
  se_successorSessionId :: "string option"

datatype SessionMembershipStatus =
  SM_invited | SM_joining | SM_active | SM_suspended | SM_removed | SM_left | SM_expired

fun SessionMembershipStatus_str :: "SessionMembershipStatus \<Rightarrow> string" where
  "SessionMembershipStatus_str SM_invited = ''invited''"
| "SessionMembershipStatus_str SM_joining = ''joining''"
| "SessionMembershipStatus_str SM_active = ''active''"
| "SessionMembershipStatus_str SM_suspended = ''suspended''"
| "SessionMembershipStatus_str SM_removed = ''removed''"
| "SessionMembershipStatus_str SM_left = ''left''"
| "SessionMembershipStatus_str SM_expired = ''expired''"

record SessionMember =
  me_membershipId :: string
  me_sessionId :: string
  me_peerIdentityPublicKey :: string
  me_peerDeviceId :: "string option"
  me_invitedByIdentityPublicKey :: string
  me_displayRole :: string
  me_status :: SessionMembershipStatus
  me_joinedAt :: "string option"
  me_suspendedAt :: "string option"
  me_removedAt :: "string option"
  me_lastSeenAt :: "string option"
  me_currentKeyEpoch :: int

record SessionInvitation =
  iv_invitationId :: string
  iv_sessionId :: string
  iv_federationId :: string
  iv_inviterIdentityPublicKey :: string
  iv_inviteeIdentityPublicKey :: "string option"
  iv_initialDisplayRole :: string
  iv_initialGrantTemplates :: "string list"
  iv_sessionKeyEpoch :: int
  iv_expiresAt :: string
  iv_maxUses :: int
  iv_visibilitySummary :: string
  iv_encryptedJoinPayload :: "string option"
  iv_signature :: string

text \<open>A capability is written \<open>group.action\<close>; the groups are those of \<open>CAPABILITY_GROUPS\<close>.\<close>

datatype SessionCapability =
  session_inspect | session_view_members | session_view_activity | session_invite_peer |
  session_remove_peer | session_modify_grants | session_pause | session_resume | session_drain |
  session_seal | session_export_artifacts | session_transfer_ownership

datatype WorkspaceCapability =
  workspace_read | workspace_create_file | workspace_write | workspace_delete_file |
  workspace_rename_file | workspace_stage_patch | workspace_apply_patch |
  workspace_revert_own_changes | workspace_revert_any_changes | workspace_merge_overlay |
  workspace_resolve_conflict

datatype TerminalCapability =
  terminal_execute_safe | terminal_execute_networked | terminal_execute_privileged |
  terminal_install_dependency | terminal_run_tests | terminal_run_benchmarks |
  terminal_inspect_processes | terminal_read_logs

datatype AgentCapability =
  agent_propose_plan | agent_run_readonly | agent_run_workspace_limited |
  agent_run_command_limited | agent_request_escalation | agent_inspect_results

datatype ArtifactCapability =
  artifact_read | artifact_export_patch | artifact_export_logs | artifact_export_reports |
  artifact_share_evidence

datatype ComputeCapability =
  compute_request_local | compute_request_trusted_lan | compute_request_federation |
  compute_request_external | compute_approve_lease | compute_cancel_lease

datatype Capability =
  Cap_session SessionCapability | Cap_workspace WorkspaceCapability |
  Cap_terminal TerminalCapability | Cap_agent AgentCapability |
  Cap_artifact ArtifactCapability | Cap_compute ComputeCapability

fun SessionCapability_str :: "SessionCapability \<Rightarrow> string" where
  "SessionCapability_str session_inspect = ''session.inspect''"
| "SessionCapability_str session_view_members = ''session.view_members''"
| "SessionCapability_str session_view_activity = ''session.view_activity''"
| "SessionCapability_str session_invite_peer = ''session.invite_peer''"
| "SessionCapability_str session_remove_peer = ''session.remove_peer''"
| "SessionCapability_str session_modify_grants = ''session.modify_grants''"
| "SessionCapability_str session_pause = ''session.pause''"
| "SessionCapability_str session_resume = ''session.resume''"
| "SessionCapability_str session_drain = ''session.drain''"
| "SessionCapability_str session_seal = ''session.seal''"
| "SessionCapability_str session_export_artifacts = ''session.export_artifacts''"
| "SessionCapability_str session_transfer_ownership = ''session.transfer_ownership''"

fun WorkspaceCapability_str :: "WorkspaceCapability \<Rightarrow> string" where
  "WorkspaceCapability_str workspace_read = ''workspace.read''"
| "WorkspaceCapability_str workspace_create_file = ''workspace.create_file''"
| "WorkspaceCapability_str workspace_write = ''workspace.write''"
| "WorkspaceCapability_str workspace_delete_file = ''workspace.delete_file''"
| "WorkspaceCapability_str workspace_rename_file = ''workspace.rename_file''"
| "WorkspaceCapability_str workspace_stage_patch = ''workspace.stage_patch''"
| "WorkspaceCapability_str workspace_apply_patch = ''workspace.apply_patch''"
| "WorkspaceCapability_str workspace_revert_own_changes = ''workspace.revert_own_changes''"
| "WorkspaceCapability_str workspace_revert_any_changes = ''workspace.revert_any_changes''"
| "WorkspaceCapability_str workspace_merge_overlay = ''workspace.merge_overlay''"
| "WorkspaceCapability_str workspace_resolve_conflict = ''workspace.resolve_conflict''"

fun TerminalCapability_str :: "TerminalCapability \<Rightarrow> string" where
  "TerminalCapability_str terminal_execute_safe = ''terminal.execute_safe''"
| "TerminalCapability_str terminal_execute_networked = ''terminal.execute_networked''"
| "TerminalCapability_str terminal_execute_privileged = ''terminal.execute_privileged''"
| "TerminalCapability_str terminal_install_dependency = ''terminal.install_dependency''"
| "TerminalCapability_str terminal_run_tests = ''terminal.run_tests''"
| "TerminalCapability_str terminal_run_benchmarks = ''terminal.run_benchmarks''"
| "TerminalCapability_str terminal_inspect_processes = ''terminal.inspect_processes''"
| "TerminalCapability_str terminal_read_logs = ''terminal.read_logs''"

fun AgentCapability_str :: "AgentCapability \<Rightarrow> string" where
  "AgentCapability_str agent_propose_plan = ''agent.propose_plan''"
| "AgentCapability_str agent_run_readonly = ''agent.run_readonly''"
| "AgentCapability_str agent_run_workspace_limited = ''agent.run_workspace_limited''"
| "AgentCapability_str agent_run_command_limited = ''agent.run_command_limited''"
| "AgentCapability_str agent_request_escalation = ''agent.request_escalation''"
| "AgentCapability_str agent_inspect_results = ''agent.inspect_results''"

fun ArtifactCapability_str :: "ArtifactCapability \<Rightarrow> string" where
  "ArtifactCapability_str artifact_read = ''artifact.read''"
| "ArtifactCapability_str artifact_export_patch = ''artifact.export_patch''"
| "ArtifactCapability_str artifact_export_logs = ''artifact.export_logs''"
| "ArtifactCapability_str artifact_export_reports = ''artifact.export_reports''"
| "ArtifactCapability_str artifact_share_evidence = ''artifact.share_evidence''"

fun ComputeCapability_str :: "ComputeCapability \<Rightarrow> string" where
  "ComputeCapability_str compute_request_local = ''compute.request_local''"
| "ComputeCapability_str compute_request_trusted_lan = ''compute.request_trusted_lan''"
| "ComputeCapability_str compute_request_federation = ''compute.request_federation''"
| "ComputeCapability_str compute_request_external = ''compute.request_external''"
| "ComputeCapability_str compute_approve_lease = ''compute.approve_lease''"
| "ComputeCapability_str compute_cancel_lease = ''compute.cancel_lease''"

fun Capability_str :: "Capability \<Rightarrow> string" where
  "Capability_str (Cap_session c) = SessionCapability_str c"
| "Capability_str (Cap_workspace c) = WorkspaceCapability_str c"
| "Capability_str (Cap_terminal c) = TerminalCapability_str c"
| "Capability_str (Cap_agent c) = AgentCapability_str c"
| "Capability_str (Cap_artifact c) = ArtifactCapability_str c"
| "Capability_str (Cap_compute c) = ComputeCapability_str c"

datatype GrantProfile =
  GP_observer | GP_reviewer | GP_contributor | GP_test_runner | GP_maintainer |
  GP_session_coowner

fun GrantProfile_str :: "GrantProfile \<Rightarrow> string" where
  "GrantProfile_str GP_observer = ''observer''"
| "GrantProfile_str GP_reviewer = ''reviewer''"
| "GrantProfile_str GP_contributor = ''contributor''"
| "GrantProfile_str GP_test_runner = ''test_runner''"
| "GrantProfile_str GP_maintainer = ''maintainer''"
| "GrantProfile_str GP_session_coowner = ''session_coowner''"

fun GRANT_PROFILES :: "GrantProfile \<Rightarrow> Capability list" where
  "GRANT_PROFILES GP_observer =
     [Cap_session session_inspect, Cap_session session_view_members,
      Cap_session session_view_activity, Cap_workspace workspace_read,
      Cap_artifact artifact_read]"
| "GRANT_PROFILES GP_reviewer =
     [Cap_session session_inspect, Cap_session session_view_members,
      Cap_session session_view_activity, Cap_workspace workspace_read,
      Cap_workspace workspace_stage_patch, Cap_workspace workspace_revert_own_changes,
      Cap_terminal terminal_run_tests, Cap_terminal terminal_read_logs,
      Cap_agent agent_propose_plan, Cap_artifact artifact_read]"
| "GRANT_PROFILES GP_contributor =
     [Cap_session session_inspect, Cap_session session_view_members,
      Cap_session session_view_activity, Cap_workspace workspace_read,
      Cap_workspace workspace_create_file, Cap_workspace workspace_write,
      Cap_workspace workspace_rename_file, Cap_workspace workspace_stage_patch,
      Cap_workspace workspace_apply_patch, Cap_workspace workspace_revert_own_changes,
      Cap_terminal terminal_execute_safe, Cap_terminal terminal_run_tests,
      Cap_terminal terminal_read_logs, Cap_agent agent_propose_plan,
      Cap_agent agent_run_workspace_limited, Cap_artifact artifact_read]"
| "GRANT_PROFILES GP_test_runner =
     [Cap_session session_inspect, Cap_session session_view_members,
      Cap_session session_view_activity, Cap_workspace workspace_read,
      Cap_terminal terminal_run_tests, Cap_terminal terminal_run_benchmarks,
      Cap_terminal terminal_execute_safe, Cap_artifact artifact_read,
      Cap_artifact artifact_export_reports]"
| "GRANT_PROFILES GP_maintainer =
     [Cap_session session_inspect, Cap_session session_view_members,
      Cap_session session_view_activity, Cap_workspace workspace_read,
      Cap_workspace workspace_create_file, Cap_workspace workspace_write,
      Cap_workspace workspace_delete_file, Cap_workspace workspace_rename_file,
      Cap_workspace workspace_stage_patch, Cap_workspace workspace_apply_patch,
      Cap_workspace workspace_revert_own_changes, Cap_workspace workspace_revert_any_changes,
      Cap_workspace workspace_merge_overlay, Cap_workspace workspace_resolve_conflict,
      Cap_terminal terminal_execute_safe, Cap_terminal terminal_execute_networked,
      Cap_terminal terminal_install_dependency, Cap_terminal terminal_run_tests,
      Cap_terminal terminal_run_benchmarks, Cap_terminal terminal_read_logs,
      Cap_agent agent_propose_plan, Cap_agent agent_run_workspace_limited,
      Cap_agent agent_run_command_limited, Cap_artifact artifact_read,
      Cap_artifact artifact_export_patch, Cap_artifact artifact_export_logs,
      Cap_artifact artifact_export_reports, Cap_compute compute_request_local]"
| "GRANT_PROFILES GP_session_coowner =
     [Cap_session session_inspect, Cap_session session_view_members,
      Cap_session session_view_activity, Cap_session session_invite_peer,
      Cap_session session_modify_grants, Cap_session session_pause, Cap_session session_resume,
      Cap_session session_drain, Cap_workspace workspace_read,
      Cap_workspace workspace_create_file, Cap_workspace workspace_write,
      Cap_workspace workspace_delete_file, Cap_workspace workspace_rename_file,
      Cap_workspace workspace_stage_patch, Cap_workspace workspace_apply_patch,
      Cap_workspace workspace_revert_own_changes, Cap_workspace workspace_revert_any_changes,
      Cap_workspace workspace_merge_overlay, Cap_workspace workspace_resolve_conflict,
      Cap_terminal terminal_execute_safe, Cap_terminal terminal_execute_networked,
      Cap_terminal terminal_install_dependency, Cap_terminal terminal_run_tests,
      Cap_terminal terminal_run_benchmarks, Cap_terminal terminal_read_logs,
      Cap_agent agent_propose_plan, Cap_agent agent_run_workspace_limited,
      Cap_agent agent_run_command_limited, Cap_artifact artifact_read,
      Cap_artifact artifact_export_patch, Cap_artifact artifact_export_logs,
      Cap_artifact artifact_export_reports, Cap_compute compute_request_local,
      Cap_compute compute_approve_lease]"

definition ALL_CAPABILITIES :: "Capability list" where
  "ALL_CAPABILITIES =
     [Cap_session session_inspect, Cap_session session_view_members,
      Cap_session session_view_activity, Cap_session session_invite_peer,
      Cap_session session_remove_peer, Cap_session session_modify_grants,
      Cap_session session_pause, Cap_session session_resume, Cap_session session_drain,
      Cap_session session_seal, Cap_session session_export_artifacts,
      Cap_session session_transfer_ownership, Cap_workspace workspace_read,
      Cap_workspace workspace_create_file, Cap_workspace workspace_write,
      Cap_workspace workspace_delete_file, Cap_workspace workspace_rename_file,
      Cap_workspace workspace_stage_patch, Cap_workspace workspace_apply_patch,
      Cap_workspace workspace_revert_own_changes, Cap_workspace workspace_revert_any_changes,
      Cap_workspace workspace_merge_overlay, Cap_workspace workspace_resolve_conflict,
      Cap_terminal terminal_execute_safe, Cap_terminal terminal_execute_networked,
      Cap_terminal terminal_execute_privileged, Cap_terminal terminal_install_dependency,
      Cap_terminal terminal_run_tests, Cap_terminal terminal_run_benchmarks,
      Cap_terminal terminal_inspect_processes, Cap_terminal terminal_read_logs,
      Cap_agent agent_propose_plan, Cap_agent agent_run_readonly,
      Cap_agent agent_run_workspace_limited, Cap_agent agent_run_command_limited,
      Cap_agent agent_request_escalation, Cap_agent agent_inspect_results,
      Cap_artifact artifact_read, Cap_artifact artifact_export_patch,
      Cap_artifact artifact_export_logs, Cap_artifact artifact_export_reports,
      Cap_artifact artifact_share_evidence, Cap_compute compute_request_local,
      Cap_compute compute_request_trusted_lan, Cap_compute compute_request_federation,
      Cap_compute compute_request_external, Cap_compute compute_approve_lease,
      Cap_compute compute_cancel_lease]"

definition CAPABILITY_GROUPS :: "(string \<times> Capability list) list" where
  "CAPABILITY_GROUPS =
     [(''session'',
       [Cap_session session_inspect, Cap_session session_view_members,
        Cap_session session_view_activity, Cap_session session_invite_peer,
        Cap_session session_remove_peer, Cap_session session_modify_grants,
        Cap_session session_pause, Cap_session session_resume, Cap_session session_drain,
        Cap_session session_seal, Cap_session session_export_artifacts,
        Cap_session session_transfer_ownership]),
      (''workspace'',
       [Cap_workspace workspace_read, Cap_workspace workspace_create_file,
        Cap_workspace workspace_write, Cap_workspace workspace_delete_file,
        Cap_workspace workspace_rename_file, Cap_workspace workspace_stage_patch,
        Cap_workspace workspace_apply_patch, Cap_workspace workspace_revert_own_changes,
        Cap_workspace workspace_revert_any_changes, Cap_workspace workspace_merge_overlay,
        Cap_workspace workspace_resolve_conflict]),
      (''terminal'',
       [Cap_terminal terminal_execute_safe, Cap_terminal terminal_execute_networked,
        Cap_terminal terminal_execute_privileged, Cap_terminal terminal_install_dependency,
        Cap_terminal terminal_run_tests, Cap_terminal terminal_run_benchmarks,
        Cap_terminal terminal_inspect_processes, Cap_terminal terminal_read_logs]),
      (''agent'',
       [Cap_agent agent_propose_plan, Cap_agent agent_run_readonly,
        Cap_agent agent_run_workspace_limited, Cap_agent agent_run_command_limited,
        Cap_agent agent_request_escalation, Cap_agent agent_inspect_results]),
      (''artifact'',
       [Cap_artifact artifact_read, Cap_artifact artifact_export_patch,
        Cap_artifact artifact_export_logs, Cap_artifact artifact_export_reports,
        Cap_artifact artifact_share_evidence]),
      (''compute'',
       [Cap_compute compute_request_local, Cap_compute compute_request_trusted_lan,
        Cap_compute compute_request_federation, Cap_compute compute_request_external,
        Cap_compute compute_approve_lease, Cap_compute compute_cancel_lease])]"

record ResourceScope =
  sc_allowedPaths :: "string list"
  sc_deniedPaths :: "string list"
  sc_allowedFileExtensions :: "string list"
  sc_deniedFileExtensions :: "string list"
  sc_allowedCommands :: "string list"
  sc_deniedCommands :: "string list"
  sc_allowedNetworkDomains :: "string list"
  sc_deniedNetworkDomains :: "string list"
  sc_allowedEnvironmentVariables :: "string list"
  sc_deniedEnvironmentVariables :: "string list"
  sc_maximumRuntimeSeconds :: int
  sc_maximumCpuSeconds :: int
  sc_maximumMemoryBytes :: int
  sc_maximumDiskWriteBytes :: int
  sc_maximumProcessCount :: int
  sc_maximumOutputBytes :: int
  sc_maximumComputeTokens :: "int option"
  sc_maximumComputeCost :: "int option"

definition DEFAULT_EMPTY_SCOPE :: ResourceScope where
  "DEFAULT_EMPTY_SCOPE =
     \<lparr>sc_allowedPaths = [], sc_deniedPaths = [], sc_allowedFileExtensions = [],
      sc_deniedFileExtensions = [], sc_allowedCommands = [], sc_deniedCommands = [],
      sc_allowedNetworkDomains = [], sc_deniedNetworkDomains = [],
      sc_allowedEnvironmentVariables = [], sc_deniedEnvironmentVariables = [],
      sc_maximumRuntimeSeconds = 0, sc_maximumCpuSeconds = 0, sc_maximumMemoryBytes = 0,
      sc_maximumDiskWriteBytes = 0, sc_maximumProcessCount = 0, sc_maximumOutputBytes = 0,
      sc_maximumComputeTokens = None, sc_maximumComputeCost = None\<rparr>"

record ExecutionConstraints =
  xc_maximumRuntimeSeconds :: int
  xc_maximumCpuSeconds :: int
  xc_maximumMemoryBytes :: int
  xc_maximumProcessCount :: int

record DisclosureScope =
  ds_allowedEvidenceClasses :: "string list"
  ds_deniedEvidenceClasses :: "string list"
  ds_maximumOutputClassification :: string

record ApprovalPolicy =
  py_requiresApprovalForActions :: "string list"
  py_requiredApproverRoles :: "string list"
  py_requiredApprovalCount :: int

record DelegationPolicy =
  dl_allowed :: bool
  dl_maxDelegationDepth :: int
  dl_restrictedCapabilities :: "Capability list"

record SessionAuthorityGrant =
  ag_grantId :: string
  ag_sessionId :: string
  ag_subjectIdentityPublicKey :: string
  ag_subjectMembershipId :: string
  ag_issuedByIdentityPublicKey :: string
  ag_issuedByGrantId :: "string option"
  ag_capabilitySet :: "Capability list"
  ag_resourceScope :: ResourceScope
  ag_executionConstraints :: "ExecutionConstraints option"
  ag_disclosureScope :: "DisclosureScope option"
  ag_approvalPolicy :: "ApprovalPolicy option"
  ag_delegationPolicy :: "DelegationPolicy option"
  ag_issuedAt :: string
  ag_expiresAt :: "string option"
  ag_revokedAt :: "string option"
  ag_revocationReason :: "string option"
  ag_sessionKeyEpoch :: int
  ag_signature :: string

datatype CommandKind =
  CK_inspect_workspace | CK_read_file | CK_write_file | CK_apply_patch | CK_create_overlay |
  CK_merge_overlay | CK_discard_overlay | CK_execute_command | CK_terminate_command |
  CK_request_compute_lease | CK_approve_compute_lease | CK_cancel_compute_lease |
  CK_invite_participant | CK_revoke_grant | CK_request_escalation | CK_approve_escalation |
  CK_seal_session | CK_export_artifact

fun CommandKind_str :: "CommandKind \<Rightarrow> string" where
  "CommandKind_str CK_inspect_workspace = ''inspect_workspace''"
| "CommandKind_str CK_read_file = ''read_file''"
| "CommandKind_str CK_write_file = ''write_file''"
| "CommandKind_str CK_apply_patch = ''apply_patch''"
| "CommandKind_str CK_create_overlay = ''create_overlay''"
| "CommandKind_str CK_merge_overlay = ''merge_overlay''"
| "CommandKind_str CK_discard_overlay = ''discard_overlay''"
| "CommandKind_str CK_execute_command = ''execute_command''"
| "CommandKind_str CK_terminate_command = ''terminate_command''"
| "CommandKind_str CK_request_compute_lease = ''request_compute_lease''"
| "CommandKind_str CK_approve_compute_lease = ''approve_compute_lease''"
| "CommandKind_str CK_cancel_compute_lease = ''cancel_compute_lease''"
| "CommandKind_str CK_invite_participant = ''invite_participant''"
| "CommandKind_str CK_revoke_grant = ''revoke_grant''"
| "CommandKind_str CK_request_escalation = ''request_escalation''"
| "CommandKind_str CK_approve_escalation = ''approve_escalation''"
| "CommandKind_str CK_seal_session = ''seal_session''"
| "CommandKind_str CK_export_artifact = ''export_artifact''"

datatype CommandDecision =
  CD_accepted | CD_rejected | CD_pending_approval | CD_running | CD_completed | CD_failed |
  CD_cancelled | CD_revoked

fun CommandDecision_str :: "CommandDecision \<Rightarrow> string" where
  "CommandDecision_str CD_accepted = ''accepted''"
| "CommandDecision_str CD_rejected = ''rejected''"
| "CommandDecision_str CD_pending_approval = ''pending_approval''"
| "CommandDecision_str CD_running = ''running''"
| "CommandDecision_str CD_completed = ''completed''"
| "CommandDecision_str CD_failed = ''failed''"
| "CommandDecision_str CD_cancelled = ''cancelled''"
| "CommandDecision_str CD_revoked = ''revoked''"

record SessionCommandRequest =
  cq_requestId :: string
  cq_sessionId :: string
  cq_actorIdentityPublicKey :: string
  cq_actorMembershipId :: string
  cq_grantId :: string
  cq_sessionKeyEpoch :: int
  cq_commandKind :: CommandKind
  cq_targetScope :: string
  cq_payloadDigest :: string
  cq_payloadReference :: "string option"
  cq_idempotencyKey :: string
  cq_requestedAt :: string
  cq_signature :: string

record SessionCommandReceipt =
  ck_receiptId :: string
  ck_requestId :: string
  ck_sessionId :: string
  ck_actorIdentityPublicKey :: string
  ck_decision :: CommandDecision
  ck_denialReason :: "string option"
  ck_authorityEvaluationDigest :: "string option"
  ck_executionId :: "string option"
  ck_workspaceBeforeDigest :: "string option"
  ck_workspaceAfterDigest :: "string option"
  ck_outputDigest :: "string option"
  ck_artifactDigest :: "string option"
  ck_computeLeaseId :: "string option"
  ck_createdAt :: string
  ck_finalizedAt :: "string option"
  ck_controllerSignature :: string

datatype ApprovalStatus =
  AS_pending | AS_approved | AS_executed | AS_rejected | AS_expired | AS_revoked

record ApprovalRequirement =
  ap_approvalId :: string
  ap_sessionId :: string
  ap_requestId :: string
  ap_requestedByIdentity :: string
  ap_requiredApproverRoles :: "string list"
  ap_requiredApprovalCount :: int
  ap_scope :: string
  ap_expiresAt :: string
  ap_status :: ApprovalStatus

datatype RevocationKind =
  RK_graceful | RK_emergency

record GrantRevocation =
  gv_revocationId :: string
  gv_sessionId :: string
  gv_grantId :: string
  gv_subjectIdentityPublicKey :: string
  gv_revokedByIdentityPublicKey :: string
  gv_reason :: string
  gv_kind :: RevocationKind
  gv_effectiveAt :: string
  gv_previousKeyEpoch :: int
  gv_nextKeyEpoch :: int
  gv_signature :: string

record SessionOwnershipTransfer =
  ot_transferId :: string
  ot_sessionId :: string
  ot_previousOwnerIdentityPublicKey :: string
  ot_newOwnerIdentityPublicKey :: string
  ot_workspaceDigest :: string
  ot_activeGrantSummaryDigest :: string
  ot_transferReason :: string
  ot_initiatedAt :: string
  ot_acceptedAt :: "string option"
  ot_previousOwnerSignature :: string
  ot_newOwnerSignature :: "string option"

datatype MutationKind =
  MK_file_create | MK_file_update | MK_file_delete | MK_file_rename | MK_patch_apply |
  MK_patch_revert | MK_overlay_merge | MK_dependency_manifest_update |
  MK_generated_artifact_write

datatype MutationApprovalState =
  MA_pending | MA_accepted | MA_rejected | MA_resolved | MA_conflict

record WorkspaceMutation =
  wm_mutationId :: string
  wm_sessionId :: string
  wm_actorIdentityPublicKey :: string
  wm_overlayId :: "string option"
  wm_grantId :: string
  wm_baseWorkspaceDigest :: string
  wm_targetWorkspaceDigest :: "string option"
  wm_mutationKind :: MutationKind
  wm_pathScope :: string
  wm_beforeDigest :: "string option"
  wm_afterDigest :: "string option"
  wm_patchDigest :: "string option"
  wm_approvalState :: MutationApprovalState
  wm_acceptedBy :: "string option"
  wm_acceptedAt :: "string option"
  wm_createdAt :: string

record WorkspaceOverlay =
  wo_overlayId :: string
  wo_sessionId :: string
  wo_ownerIdentityPublicKey :: string
  wo_baseWorkspaceDigest :: string
  wo_currentDigest :: string
  wo_mutationCount :: int
  wo_createdAt :: string

section \<open>Session lifecycle\<close>

datatype SessionAction =
  SA_request_materialize | SA_materialize_success | SA_materialize_fail | SA_activate |
  SA_suspend | SA_resume | SA_drain | SA_seal | SA_export | SA_archive | SA_cancel |
  SA_terminate

fun SessionAction_str :: "SessionAction \<Rightarrow> string" where
  "SessionAction_str SA_request_materialize = ''request_materialize''"
| "SessionAction_str SA_materialize_success = ''materialize_success''"
| "SessionAction_str SA_materialize_fail = ''materialize_fail''"
| "SessionAction_str SA_activate = ''activate''"
| "SessionAction_str SA_suspend = ''suspend''"
| "SessionAction_str SA_resume = ''resume''"
| "SessionAction_str SA_drain = ''drain''"
| "SessionAction_str SA_seal = ''seal''"
| "SessionAction_str SA_export = ''export''"
| "SessionAction_str SA_archive = ''archive''"
| "SessionAction_str SA_cancel = ''cancel''"
| "SessionAction_str SA_terminate = ''terminate''"

fun VALID_SESSION_TRANSITIONS :: "SessionLifecycleState \<Rightarrow> SessionLifecycleState list" where
  "VALID_SESSION_TRANSITIONS SL_draft = [SL_materializing, SL_cancelled]"
| "VALID_SESSION_TRANSITIONS SL_materializing = [SL_ready, SL_failed]"
| "VALID_SESSION_TRANSITIONS SL_ready = [SL_active, SL_cancelled]"
| "VALID_SESSION_TRANSITIONS SL_active = [SL_draining, SL_suspended, SL_terminated]"
| "VALID_SESSION_TRANSITIONS SL_suspended = [SL_active]"
| "VALID_SESSION_TRANSITIONS SL_draining = [SL_sealed, SL_terminated]"
| "VALID_SESSION_TRANSITIONS SL_sealed = [SL_exported]"
| "VALID_SESSION_TRANSITIONS SL_exported = [SL_archived]"
| "VALID_SESSION_TRANSITIONS SL_archived = []"
| "VALID_SESSION_TRANSITIONS SL_cancelled = []"
| "VALID_SESSION_TRANSITIONS SL_failed = []"
| "VALID_SESSION_TRANSITIONS SL_terminated = []"

fun SESSION_ACTION_MAP :: "SessionLifecycleState \<Rightarrow> (SessionAction \<times> SessionLifecycleState) list" where
  "SESSION_ACTION_MAP SL_draft =
     [(SA_request_materialize, SL_materializing), (SA_cancel, SL_cancelled)]"
| "SESSION_ACTION_MAP SL_materializing =
     [(SA_materialize_success, SL_ready), (SA_materialize_fail, SL_failed)]"
| "SESSION_ACTION_MAP SL_ready = [(SA_activate, SL_active), (SA_cancel, SL_cancelled)]"
| "SESSION_ACTION_MAP SL_active =
     [(SA_drain, SL_draining), (SA_suspend, SL_suspended), (SA_terminate, SL_terminated)]"
| "SESSION_ACTION_MAP SL_suspended = [(SA_resume, SL_active)]"
| "SESSION_ACTION_MAP SL_draining = [(SA_seal, SL_sealed), (SA_terminate, SL_terminated)]"
| "SESSION_ACTION_MAP SL_sealed = [(SA_export, SL_exported)]"
| "SESSION_ACTION_MAP SL_exported = [(SA_archive, SL_archived)]"
| "SESSION_ACTION_MAP SL_archived = []"
| "SESSION_ACTION_MAP SL_cancelled = []"
| "SESSION_ACTION_MAP SL_failed = []"
| "SESSION_ACTION_MAP SL_terminated = []"

datatype SessionMembershipAction =
  MB_accept_invitation | MB_activate | MB_suspend | MB_unsuspend | MB_remove | MB_leave |
  MB_expire

fun SessionMembershipAction_str :: "SessionMembershipAction \<Rightarrow> string" where
  "SessionMembershipAction_str MB_accept_invitation = ''accept_invitation''"
| "SessionMembershipAction_str MB_activate = ''activate''"
| "SessionMembershipAction_str MB_suspend = ''suspend''"
| "SessionMembershipAction_str MB_unsuspend = ''unsuspend''"
| "SessionMembershipAction_str MB_remove = ''remove''"
| "SessionMembershipAction_str MB_leave = ''leave''"
| "SessionMembershipAction_str MB_expire = ''expire''"

text \<open>\<open>InvalidStateTransitionError(current, "action:...")\<close> is the pair of its arguments.\<close>

datatype SessionError =
  InvalidStateTransition SessionLifecycleState SessionAction |
  MemberTransitionError SessionMembershipStatus SessionMembershipAction

definition isValidSessionTransition :: "SessionLifecycleState \<Rightarrow> SessionLifecycleState \<Rightarrow> bool" where
  "isValidSessionTransition current nxt \<longleftrightarrow> nxt \<in> set (VALID_SESSION_TRANSITIONS current)"

definition applySessionAction ::
  "SessionLifecycleState \<Rightarrow> SessionAction \<Rightarrow> SessionError + SessionLifecycleState" where
  "applySessionAction current action =
     (case map_of (SESSION_ACTION_MAP current) action of
        None \<Rightarrow> Inl (InvalidStateTransition current action)
      | Some nxt \<Rightarrow> Inr nxt)"

definition isTerminalState :: "SessionLifecycleState \<Rightarrow> bool" where
  "isTerminalState state \<longleftrightarrow>
     state \<in> {SL_sealed, SL_exported, SL_archived, SL_cancelled, SL_failed, SL_terminated}"

definition isCollaborativeState :: "SessionLifecycleState \<Rightarrow> bool" where
  "isCollaborativeState state \<longleftrightarrow> state \<in> {SL_active, SL_draining, SL_suspended}"

definition isMutableState :: "SessionLifecycleState \<Rightarrow> bool" where
  "isMutableState state \<longleftrightarrow> state \<in> {SL_active, SL_draining}"

definition acceptsCommands :: "SessionLifecycleState \<Rightarrow> bool" where
  "acceptsCommands state \<longleftrightarrow> state \<in> {SL_active}"

definition allowsCompute :: "SessionLifecycleState \<Rightarrow> bool" where
  "allowsCompute state \<longleftrightarrow> state \<in> {SL_active, SL_draining}"

section \<open>Membership and invitations\<close>

fun VALID_SESSION_MEMBERSHIP_TRANSITIONS :: "SessionMembershipStatus \<Rightarrow> SessionMembershipStatus list" where
  "VALID_SESSION_MEMBERSHIP_TRANSITIONS SM_invited = [SM_joining, SM_expired]"
| "VALID_SESSION_MEMBERSHIP_TRANSITIONS SM_joining = [SM_active, SM_expired]"
| "VALID_SESSION_MEMBERSHIP_TRANSITIONS SM_active = [SM_suspended, SM_removed, SM_left]"
| "VALID_SESSION_MEMBERSHIP_TRANSITIONS SM_suspended = [SM_active]"
| "VALID_SESSION_MEMBERSHIP_TRANSITIONS SM_removed = []"
| "VALID_SESSION_MEMBERSHIP_TRANSITIONS SM_left = []"
| "VALID_SESSION_MEMBERSHIP_TRANSITIONS SM_expired = []"

fun MEMBERSHIP_ACTION_TRANSITIONS :: "SessionMembershipStatus \<Rightarrow> (SessionMembershipAction \<times> SessionMembershipStatus) list" where
  "MEMBERSHIP_ACTION_TRANSITIONS SM_invited =
     [(MB_accept_invitation, SM_joining), (MB_expire, SM_expired)]"
| "MEMBERSHIP_ACTION_TRANSITIONS SM_joining = [(MB_activate, SM_active), (MB_expire, SM_expired)]"
| "MEMBERSHIP_ACTION_TRANSITIONS SM_active =
     [(MB_suspend, SM_suspended), (MB_remove, SM_removed), (MB_leave, SM_left)]"
| "MEMBERSHIP_ACTION_TRANSITIONS SM_suspended = [(MB_unsuspend, SM_active)]"
| "MEMBERSHIP_ACTION_TRANSITIONS SM_removed = []"
| "MEMBERSHIP_ACTION_TRANSITIONS SM_left = []"
| "MEMBERSHIP_ACTION_TRANSITIONS SM_expired = []"

definition isValidMembershipTransition ::
  "SessionMembershipStatus \<Rightarrow> SessionMembershipStatus \<Rightarrow> bool" where
  "isValidMembershipTransition current nxt \<longleftrightarrow>
     nxt \<in> set (VALID_SESSION_MEMBERSHIP_TRANSITIONS current)"

definition applyMembershipAction ::
  "SessionMembershipStatus \<Rightarrow> SessionMembershipAction \<Rightarrow> SessionError + SessionMembershipStatus" where
  "applyMembershipAction current action =
     (case map_of (MEMBERSHIP_ACTION_TRANSITIONS current) action of
        None \<Rightarrow> Inl (MemberTransitionError current action)
      | Some nxt \<Rightarrow> Inr nxt)"

text \<open>The result \<open>{ valid, reason }\<close>: a reason is given exactly when it is not valid.\<close>

definition isInvitationValid :: "string \<Rightarrow> SessionInvitation \<Rightarrow> bool \<times> string option" where
  "isInvitationValid now invitation =
     (if iv_expiresAt invitation < now then (False, Some ''invitation has expired'')
      else if iv_sessionKeyEpoch invitation < 0 then (False, Some ''invalid session key epoch'')
      else if iv_maxUses invitation \<le> 0 then (False, Some ''invitation has no remaining uses'')
      else (True, None))"

definition createMembershipFromInvitation :: "SessionInvitation \<Rightarrow> string \<Rightarrow> SessionMember" where
  "createMembershipFromInvitation invitation peerIdentityPublicKey =
     \<lparr>me_membershipId = ''mem_'' @ iv_invitationId invitation,
      me_sessionId = iv_sessionId invitation,
      me_peerIdentityPublicKey = peerIdentityPublicKey,
      me_peerDeviceId = None,
      me_invitedByIdentityPublicKey = iv_inviterIdentityPublicKey invitation,
      me_displayRole = iv_initialDisplayRole invitation,
      me_status = SM_joining,
      me_joinedAt = None, me_suspendedAt = None, me_removedAt = None, me_lastSeenAt = None,
      me_currentKeyEpoch = iv_sessionKeyEpoch invitation\<rparr>"

definition createMember :: "string \<Rightarrow> string \<Rightarrow> string \<Rightarrow> string \<Rightarrow> string option \<Rightarrow> SessionMember" where
  "createMember uuid sessionId peerIdentityPublicKey invitedBy displayRole =
     \<lparr>me_membershipId = ''mem_'' @ uuid,
      me_sessionId = sessionId,
      me_peerIdentityPublicKey = peerIdentityPublicKey,
      me_peerDeviceId = None,
      me_invitedByIdentityPublicKey = invitedBy,
      me_displayRole = nullish displayRole ''contributor'',
      me_status = SM_invited,
      me_joinedAt = None, me_suspendedAt = None, me_removedAt = None, me_lastSeenAt = None,
      me_currentKeyEpoch = 0\<rparr>"

definition touchMember :: "string \<Rightarrow> SessionMember \<Rightarrow> SessionMember" where
  "touchMember now member = member\<lparr>me_lastSeenAt := Some now\<rparr>"

definition isMemberActive :: "SessionMember \<Rightarrow> bool" where
  "isMemberActive member \<longleftrightarrow> me_status member = SM_active"

section \<open>Commands and approvals\<close>

fun COMMAND_TO_REQUIRED_CAPABILITY :: "CommandKind \<Rightarrow> Capability" where
  "COMMAND_TO_REQUIRED_CAPABILITY CK_inspect_workspace = Cap_workspace workspace_read"
| "COMMAND_TO_REQUIRED_CAPABILITY CK_read_file = Cap_workspace workspace_read"
| "COMMAND_TO_REQUIRED_CAPABILITY CK_write_file = Cap_workspace workspace_write"
| "COMMAND_TO_REQUIRED_CAPABILITY CK_apply_patch = Cap_workspace workspace_apply_patch"
| "COMMAND_TO_REQUIRED_CAPABILITY CK_create_overlay = Cap_workspace workspace_create_file"
| "COMMAND_TO_REQUIRED_CAPABILITY CK_merge_overlay = Cap_workspace workspace_merge_overlay"
| "COMMAND_TO_REQUIRED_CAPABILITY CK_discard_overlay = Cap_workspace workspace_revert_own_changes"
| "COMMAND_TO_REQUIRED_CAPABILITY CK_execute_command = Cap_terminal terminal_execute_safe"
| "COMMAND_TO_REQUIRED_CAPABILITY CK_terminate_command = Cap_terminal terminal_execute_safe"
| "COMMAND_TO_REQUIRED_CAPABILITY CK_request_compute_lease = Cap_compute compute_request_local"
| "COMMAND_TO_REQUIRED_CAPABILITY CK_approve_compute_lease = Cap_compute compute_approve_lease"
| "COMMAND_TO_REQUIRED_CAPABILITY CK_cancel_compute_lease = Cap_compute compute_cancel_lease"
| "COMMAND_TO_REQUIRED_CAPABILITY CK_invite_participant = Cap_session session_invite_peer"
| "COMMAND_TO_REQUIRED_CAPABILITY CK_revoke_grant = Cap_session session_modify_grants"
| "COMMAND_TO_REQUIRED_CAPABILITY CK_request_escalation = Cap_agent agent_request_escalation"
| "COMMAND_TO_REQUIRED_CAPABILITY CK_approve_escalation = Cap_session session_modify_grants"
| "COMMAND_TO_REQUIRED_CAPABILITY CK_seal_session = Cap_session session_seal"
| "COMMAND_TO_REQUIRED_CAPABILITY CK_export_artifact = Cap_session session_export_artifacts"

fun APPROVAL_STATUS_TRANSITIONS :: "ApprovalStatus \<Rightarrow> ApprovalStatus list" where
  "APPROVAL_STATUS_TRANSITIONS AS_pending = [AS_approved, AS_rejected, AS_expired]"
| "APPROVAL_STATUS_TRANSITIONS AS_approved = [AS_executed, AS_revoked]"
| "APPROVAL_STATUS_TRANSITIONS AS_executed = []"
| "APPROVAL_STATUS_TRANSITIONS AS_rejected = []"
| "APPROVAL_STATUS_TRANSITIONS AS_expired = []"
| "APPROVAL_STATUS_TRANSITIONS AS_revoked = []"

definition VALID_COMMAND_KINDS :: "CommandKind list" where
  "VALID_COMMAND_KINDS =
     [CK_inspect_workspace, CK_read_file, CK_write_file, CK_apply_patch, CK_create_overlay,
      CK_merge_overlay, CK_discard_overlay, CK_execute_command, CK_terminate_command,
      CK_request_compute_lease, CK_approve_compute_lease, CK_cancel_compute_lease,
      CK_invite_participant, CK_revoke_grant, CK_request_escalation, CK_approve_escalation,
      CK_seal_session, CK_export_artifact]"

text \<open>The configuration of a command request; \<open>None\<close> is an omitted field.\<close>

record CommandRequestConfig =
  rf_sessionId :: string
  rf_actorIdentityPublicKey :: string
  rf_actorMembershipId :: string
  rf_grantId :: string
  rf_sessionKeyEpoch :: int
  rf_commandKind :: CommandKind
  rf_targetScope :: "string option"
  rf_payloadDigest :: string
  rf_idempotencyKey :: "string option"

definition createCommandRequest ::
  "string \<Rightarrow> string \<Rightarrow> string \<Rightarrow> CommandRequestConfig \<Rightarrow> SessionCommandRequest" where
  "createCommandRequest now keyUuid requestUuid config =
     \<lparr>cq_requestId = requestUuid,
      cq_sessionId = rf_sessionId config,
      cq_actorIdentityPublicKey = rf_actorIdentityPublicKey config,
      cq_actorMembershipId = rf_actorMembershipId config,
      cq_grantId = rf_grantId config,
      cq_sessionKeyEpoch = rf_sessionKeyEpoch config,
      cq_commandKind = rf_commandKind config,
      cq_targetScope = nullish (rf_targetScope config) [],
      cq_payloadDigest = rf_payloadDigest config,
      cq_payloadReference = None,
      cq_idempotencyKey = nullish (rf_idempotencyKey config) keyUuid,
      cq_requestedAt = now,
      cq_signature = []\<rparr>"

text \<open>
  The overrides of a receipt are spread over its defaults; the callers override the denial reason
  only, so \<open>overrides\<close> is a function on the record.
\<close>

definition createCommandReceipt ::
  "string \<Rightarrow> string \<Rightarrow> SessionCommandRequest \<Rightarrow> CommandDecision \<Rightarrow>
   (SessionCommandReceipt \<Rightarrow> SessionCommandReceipt) \<Rightarrow> SessionCommandReceipt" where
  "createCommandReceipt now uuid request decision overrides = overrides
     \<lparr>ck_receiptId = uuid,
      ck_requestId = cq_requestId request,
      ck_sessionId = cq_sessionId request,
      ck_actorIdentityPublicKey = cq_actorIdentityPublicKey request,
      ck_decision = decision,
      ck_denialReason = None,
      ck_authorityEvaluationDigest = None,
      ck_executionId = None,
      ck_workspaceBeforeDigest = None,
      ck_workspaceAfterDigest = None,
      ck_outputDigest = None,
      ck_artifactDigest = None,
      ck_computeLeaseId = None,
      ck_createdAt = now,
      ck_finalizedAt = None,
      ck_controllerSignature = []\<rparr>"

text \<open>The default deadline is one hour after the reading \<open>nowMs\<close> of the clock.\<close>

definition createApprovalRequirement ::
  "millis \<Rightarrow> string \<Rightarrow> string \<Rightarrow> string \<Rightarrow> string \<Rightarrow> string list \<Rightarrow> int option \<Rightarrow> string option \<Rightarrow>
   string option \<Rightarrow> ApprovalRequirement" where
  "createApprovalRequirement nowMs uuid sessionId requestId requestedByIdentity requiredApproverRoles
     requiredApprovalCount scope expiresAt =
     \<lparr>ap_approvalId = uuid,
      ap_sessionId = sessionId,
      ap_requestId = requestId,
      ap_requestedByIdentity = requestedByIdentity,
      ap_requiredApproverRoles = requiredApproverRoles,
      ap_requiredApprovalCount = nullish requiredApprovalCount 1,
      ap_scope = nullish scope [],
      ap_expiresAt = nullish expiresAt (toISOString (nowMs + 3600000)),
      ap_status = AS_pending\<rparr>"

definition isApprovalRequired :: "CommandKind \<Rightarrow> CommandKind list \<Rightarrow> bool" where
  "isApprovalRequired commandKind sensitiveKinds \<longleftrightarrow> commandKind \<in> set sensitiveKinds"

datatype ApprovalAction = AA_approve | AA_reject | AA_expire | AA_revoke | AA_execute

fun actionToStatus :: "ApprovalAction \<Rightarrow> ApprovalStatus" where
  "actionToStatus AA_approve = AS_approved"
| "actionToStatus AA_reject = AS_rejected"
| "actionToStatus AA_expire = AS_expired"
| "actionToStatus AA_revoke = AS_revoked"
| "actionToStatus AA_execute = AS_executed"

definition transitionApprovalStatus :: "ApprovalStatus \<Rightarrow> ApprovalAction \<Rightarrow> ApprovalStatus option" where
  "transitionApprovalStatus current action =
     (let target = actionToStatus action
      in if target \<notin> set (APPROVAL_STATUS_TRANSITIONS current) then None else Some target)"

definition getIdempotencyKey :: "SessionCommandRequest \<Rightarrow> string" where
  "getIdempotencyKey request = cq_idempotencyKey request"

definition isFinalDecision :: "CommandDecision \<Rightarrow> bool" where
  "isFinalDecision decision \<longleftrightarrow>
     decision = CD_completed \<or> decision = CD_failed \<or> decision = CD_cancelled \<or> decision = CD_revoked"

section \<open>Revocation and key epochs\<close>

fun VALID_REVOCATION_TRANSITIONS :: "RevocationKind \<Rightarrow> RevocationKind list" where
  "VALID_REVOCATION_TRANSITIONS RK_graceful = [RK_emergency]"
| "VALID_REVOCATION_TRANSITIONS RK_emergency = []"

definition getNextKeyEpoch :: "int \<Rightarrow> int" where
  "getNextKeyEpoch currentEpoch = currentEpoch + 1"

definition createRevocation ::
  "string \<Rightarrow> string \<Rightarrow> string \<Rightarrow> string \<Rightarrow> string \<Rightarrow> string \<Rightarrow> string \<Rightarrow> RevocationKind option \<Rightarrow> int \<Rightarrow>
   GrantRevocation" where
  "createRevocation now uuid sessionId grantId subjectIdentityPublicKey revokedByIdentityPublicKey
     reason kind previousKeyEpoch =
     \<lparr>gv_revocationId = uuid,
      gv_sessionId = sessionId,
      gv_grantId = grantId,
      gv_subjectIdentityPublicKey = subjectIdentityPublicKey,
      gv_revokedByIdentityPublicKey = revokedByIdentityPublicKey,
      gv_reason = reason,
      gv_kind = nullish kind RK_graceful,
      gv_effectiveAt = now,
      gv_previousKeyEpoch = previousKeyEpoch,
      gv_nextKeyEpoch = getNextKeyEpoch previousKeyEpoch,
      gv_signature = []\<rparr>"

definition isEmergencyRevocation :: "GrantRevocation \<Rightarrow> bool" where
  "isEmergencyRevocation revocation \<longleftrightarrow> gv_kind revocation = RK_emergency"

definition isGrantSupersededByEpoch :: "SessionAuthorityGrant \<Rightarrow> int \<Rightarrow> bool" where
  "isGrantSupersededByEpoch grant currentKeyEpoch \<longleftrightarrow> ag_sessionKeyEpoch grant \<noteq> currentKeyEpoch"

definition createOwnershipTransfer ::
  "string \<Rightarrow> string \<Rightarrow> string \<Rightarrow> string \<Rightarrow> string \<Rightarrow> string \<Rightarrow> string \<Rightarrow> string \<Rightarrow>
   SessionOwnershipTransfer" where
  "createOwnershipTransfer now uuid sessionId previousOwner newOwner workspaceDigest
     activeGrantSummaryDigest transferReason =
     \<lparr>ot_transferId = uuid,
      ot_sessionId = sessionId,
      ot_previousOwnerIdentityPublicKey = previousOwner,
      ot_newOwnerIdentityPublicKey = newOwner,
      ot_workspaceDigest = workspaceDigest,
      ot_activeGrantSummaryDigest = activeGrantSummaryDigest,
      ot_transferReason = transferReason,
      ot_initiatedAt = now,
      ot_acceptedAt = None,
      ot_previousOwnerSignature = [],
      ot_newOwnerSignature = None\<rparr>"

definition isValidOwnershipTransfer :: "SessionOwnershipTransfer \<Rightarrow> bool" where
  "isValidOwnershipTransfer transfer \<longleftrightarrow>
     length (ot_previousOwnerSignature transfer) > 0 \<and>
     (case ot_newOwnerSignature transfer of None \<Rightarrow> False | Some s \<Rightarrow> length s > 0)"

definition getRevocationDrainDeadline :: "millis \<Rightarrow> GrantRevocation \<Rightarrow> millis option \<Rightarrow> string option" where
  "getRevocationDrainDeadline nowMs revocation drainWindowMs =
     (if gv_kind revocation = RK_emergency then None
      else Some (toISOString (nowMs + nullish drainWindowMs 300000)))"

section \<open>Workspace mutations\<close>

fun VALID_MUTATION_TRANSITIONS :: "MutationApprovalState \<Rightarrow> MutationApprovalState list" where
  "VALID_MUTATION_TRANSITIONS MA_pending = [MA_accepted, MA_rejected, MA_conflict]"
| "VALID_MUTATION_TRANSITIONS MA_accepted = []"
| "VALID_MUTATION_TRANSITIONS MA_rejected = []"
| "VALID_MUTATION_TRANSITIONS MA_conflict = [MA_resolved, MA_rejected]"
| "VALID_MUTATION_TRANSITIONS MA_resolved = [MA_accepted]"

datatype MutationAction =
  MU_accept | MU_reject | MU_detect_conflict | MU_resolve

definition isValidMutationTransition :: "MutationApprovalState \<Rightarrow> MutationApprovalState \<Rightarrow> bool" where
  "isValidMutationTransition current nxt \<longleftrightarrow> nxt \<in> set (VALID_MUTATION_TRANSITIONS current)"

datatype MutationError = Invalid_mutation_action MutationAction MutationApprovalState

definition applyMutationAction ::
  "MutationApprovalState \<Rightarrow> MutationAction \<Rightarrow> MutationError + MutationApprovalState" where
  "applyMutationAction state action =
     (case state of
        MA_pending \<Rightarrow>
          if action = MU_accept then Inr MA_accepted
          else if action = MU_reject then Inr MA_rejected
          else if action = MU_detect_conflict then Inr MA_conflict
          else Inl (Invalid_mutation_action action state)
      | MA_conflict \<Rightarrow>
          if action = MU_resolve then Inr MA_resolved
          else if action = MU_reject then Inr MA_rejected
          else Inl (Invalid_mutation_action action state)
      | MA_resolved \<Rightarrow>
          if action = MU_accept then Inr MA_accepted
          else Inl (Invalid_mutation_action action state)
      | _ \<Rightarrow> Inl (Invalid_mutation_action action state))"

definition createMutation ::
  "string \<Rightarrow> string \<Rightarrow> string \<Rightarrow> string \<Rightarrow> string \<Rightarrow> MutationKind \<Rightarrow> string \<Rightarrow> string \<Rightarrow> string option \<Rightarrow>
   string option \<Rightarrow> string option \<Rightarrow> WorkspaceMutation" where
  "createMutation now uuid sessionId actorIdentityPublicKey grantId mutationKind pathScope
     baseWorkspaceDigest overlayId beforeDigest patchDigest =
     \<lparr>wm_mutationId = uuid,
      wm_sessionId = sessionId,
      wm_actorIdentityPublicKey = actorIdentityPublicKey,
      wm_overlayId = overlayId,
      wm_grantId = grantId,
      wm_baseWorkspaceDigest = baseWorkspaceDigest,
      wm_targetWorkspaceDigest = None,
      wm_mutationKind = mutationKind,
      wm_pathScope = pathScope,
      wm_beforeDigest = beforeDigest,
      wm_afterDigest = None,
      wm_patchDigest = patchDigest,
      wm_approvalState = MA_pending,
      wm_acceptedBy = None,
      wm_acceptedAt = None,
      wm_createdAt = now\<rparr>"

definition createOverlay :: "string \<Rightarrow> string \<Rightarrow> string \<Rightarrow> string \<Rightarrow> string \<Rightarrow> WorkspaceOverlay" where
  "createOverlay now uuid sessionId ownerIdentityPublicKey baseWorkspaceDigest =
     \<lparr>wo_overlayId = uuid,
      wo_sessionId = sessionId,
      wo_ownerIdentityPublicKey = ownerIdentityPublicKey,
      wo_baseWorkspaceDigest = baseWorkspaceDigest,
      wo_currentDigest = baseWorkspaceDigest,
      wo_mutationCount = 0,
      wo_createdAt = now\<rparr>"

definition updateOverlayAfterMutation :: "WorkspaceOverlay \<Rightarrow> string \<Rightarrow> WorkspaceOverlay" where
  "updateOverlayAfterMutation overlay newDigest =
     overlay\<lparr>wo_currentDigest := newDigest, wo_mutationCount := wo_mutationCount overlay + 1\<rparr>"

definition hasWorkspaceConflict :: "WorkspaceMutation \<Rightarrow> string \<Rightarrow> bool" where
  "hasWorkspaceConflict mutation currentWorkspaceDigest \<longleftrightarrow>
     wm_baseWorkspaceDigest mutation \<noteq> currentWorkspaceDigest"

definition DESTRUCTIVE_MUTATION_KINDS :: "MutationKind \<Rightarrow> bool" where
  "DESTRUCTIVE_MUTATION_KINDS kind \<longleftrightarrow> kind \<in> {MK_file_delete, MK_file_rename, MK_patch_revert}"

definition BENIGN_MUTATION_KINDS :: "MutationKind \<Rightarrow> bool" where
  "BENIGN_MUTATION_KINDS kind \<longleftrightarrow>
     kind \<in> {MK_file_create, MK_file_update, MK_patch_apply, MK_overlay_merge,
             MK_dependency_manifest_update, MK_generated_artifact_write}"

definition isDestructiveMutation :: "MutationKind \<Rightarrow> bool" where
  "isDestructiveMutation kind \<longleftrightarrow> DESTRUCTIVE_MUTATION_KINDS kind"

definition mutationRequiresApproval :: "MutationKind \<Rightarrow> bool" where
  "mutationRequiresApproval kind \<longleftrightarrow> DESTRUCTIVE_MUTATION_KINDS kind"

section \<open>The machines as interpretations\<close>

interpretation session_fsm: matched_machine VALID_SESSION_TRANSITIONS applySessionAction
proof (rule action_object_matches)
  fix s show "distinct (List.map fst (SESSION_ACTION_MAP s)) \<and>
      snd ` set (SESSION_ACTION_MAP s) = set (VALID_SESSION_TRANSITIONS s)"
    by (cases s) auto
qed (rule applySessionAction_def)

interpretation membership_fsm:
  matched_machine VALID_SESSION_MEMBERSHIP_TRANSITIONS applyMembershipAction
proof (rule action_object_matches)
  fix s show "distinct (List.map fst (MEMBERSHIP_ACTION_TRANSITIONS s)) \<and>
      snd ` set (MEMBERSHIP_ACTION_TRANSITIONS s) = set (VALID_SESSION_MEMBERSHIP_TRANSITIONS s)"
    by (cases s) auto
qed (rule applyMembershipAction_def)

interpretation mutation_fsm: matched_machine VALID_MUTATION_TRANSITIONS applyMutationAction
proof
  fix s a t assume "applyMutationAction s a = Inr t"
  then show "t \<in> set (VALID_MUTATION_TRANSITIONS s)"
    by (cases s) (auto simp: applyMutationAction_def split: if_splits)
next
  fix s t assume "t \<in> set (VALID_MUTATION_TRANSITIONS s)"
  then show "\<exists>a. applyMutationAction s a = Inr t"
    by (cases s) (auto simp: applyMutationAction_def intro: exI [of _ MU_accept] exI [of _ MU_reject]
      exI [of _ MU_detect_conflict] exI [of _ MU_resolve])
qed


end
