(* ===== verification/Dharma_Grants.thy ===== *)
theory Dharma_Grants imports Dharma_Session begin

text \<open>
  Authority grants (\<open>dharma/session/session-grants.ts\<close>): capabilities of a grant, resource scopes for
  paths, commands, network domains, environment variables and file extensions, validity, grant
  profiles, merging of scopes and budgets.  A path pattern is turned into the text of a regular
  expression by string replacement, as the code does; the text is read back as a list of items and
  matched.  The section on patterns proves that this pipeline computes the glob matching it means.
\<close>

section \<open>Path patterns\<close>

definition regex_special :: "char \<Rightarrow> bool" where
  "regex_special c \<longleftrightarrow> c \<in> set (''.+^${}()|[]'' @ [CHR 0x5C])"

text \<open>\<open>replaceAll\<close> with a literal pattern: leftmost matches that do not overlap.\<close>

fun replace_all :: "string \<Rightarrow> string \<Rightarrow> string \<Rightarrow> string" where
  "replace_all pat rep [] = []"
| "replace_all pat rep (c # cs) =
     (if pat \<noteq> [] \<and> starts_with pat (c # cs)
      then rep @ replace_all pat rep (drop (length pat - 1) cs)
      else c # replace_all pat rep cs)"

definition GLOBSTAR :: string where
  "GLOBSTAR = ''__GLOBSTAR__''"

definition globToRegex :: "string \<Rightarrow> string" where
  "globToRegex pattern =
     (let escaped = concat (List.map (\<lambda>c. if regex_special c then [CHR 0x5C, c] else [c]) pattern)
      in replace_all GLOBSTAR ''.*''
           (replace_all ''?'' ''[^/]''
             (replace_all ''*'' ''[^/]*''
               (replace_all ''**'' GLOBSTAR escaped))))"

text \<open>
  The fragment of regular expressions such a text is in: an escaped character, \<open>[^/]*\<close>, \<open>[^/]\<close>,
  \<open>.*\<close>, or a character that stands for itself.  The anchors \<open>^\<close> and \<open>$\<close> make the match total.
\<close>

datatype rx_item = Rx_char char | Rx_seg | Rx_seg_star | Rx_any_star

fun rx_parse :: "string \<Rightarrow> rx_item list" where
  "rx_parse [] = []"
| "rx_parse (c # cs) =
     (if c = CHR 0x5C then
        (case cs of [] \<Rightarrow> [Rx_char c] | d # ds \<Rightarrow> Rx_char d # rx_parse ds)
      else if starts_with ''[^/]*'' (c # cs) then Rx_seg_star # rx_parse (drop 4 cs)
      else if starts_with ''[^/]'' (c # cs) then Rx_seg # rx_parse (drop 3 cs)
      else if starts_with ''.*'' (c # cs) then Rx_any_star # rx_parse (drop 1 cs)
      else Rx_char c # rx_parse cs)"

fun rx_match :: "rx_item list \<Rightarrow> string \<Rightarrow> bool" where
  "rx_match [] s = (s = [])"
| "rx_match (Rx_char c # r) s = (case s of [] \<Rightarrow> False | d # ds \<Rightarrow> c = d \<and> rx_match r ds)"
| "rx_match (Rx_seg # r) s = (case s of [] \<Rightarrow> False | d # ds \<Rightarrow> d \<noteq> CHR ''/'' \<and> rx_match r ds)"
| "rx_match (Rx_seg_star # r) s =
     (rx_match r s \<or>
      (case s of [] \<Rightarrow> False | d # ds \<Rightarrow> d \<noteq> CHR ''/'' \<and> rx_match (Rx_seg_star # r) ds))"
| "rx_match (Rx_any_star # r) s =
     (rx_match r s \<or>
      (case s of [] \<Rightarrow> False | d # ds \<Rightarrow> not_newline d \<and> rx_match (Rx_any_star # r) ds))"

definition glob_test :: "string \<Rightarrow> string \<Rightarrow> bool" where
  "glob_test pattern path = rx_match (rx_parse (globToRegex pattern)) path"

section \<open>Capabilities and scopes\<close>

definition hasCapability :: "SessionAuthorityGrant \<Rightarrow> Capability \<Rightarrow> bool" where
  "hasCapability grant capability \<longleftrightarrow> capability \<in> set (ag_capabilitySet grant)"

definition hasAllCapabilities :: "SessionAuthorityGrant \<Rightarrow> Capability list \<Rightarrow> bool" where
  "hasAllCapabilities grant capabilities \<longleftrightarrow>
     list_all (\<lambda>c. c \<in> set (ag_capabilitySet grant)) capabilities"

text \<open>
  The four scope checks have one shape: a loop over the denied patterns that returns \<open>false\<close>, a test
  for an empty list of allowed ones, and a loop over these that returns \<open>true\<close>.
\<close>

fun any_loop :: "('p \<Rightarrow> bool) \<Rightarrow> 'p list \<Rightarrow> bool" where
  "any_loop test [] = False"
| "any_loop test (p # ps) = (if test p then True else any_loop test ps)"

definition deny_then_allow :: "('p \<Rightarrow> bool) \<Rightarrow> ('p \<Rightarrow> bool) \<Rightarrow> 'p list \<Rightarrow> 'p list \<Rightarrow> bool" where
  "deny_then_allow denies allows denied allowed =
     (if any_loop denies denied then False
      else if length allowed = 0 then False
      else any_loop allows allowed)"

definition isPathAllowed :: "ResourceScope \<Rightarrow> string \<Rightarrow> bool" where
  "isPathAllowed scope path =
     deny_then_allow (\<lambda>p. glob_test p path) (\<lambda>p. glob_test p path)
       (sc_deniedPaths scope) (sc_allowedPaths scope)"

definition isCommandAllowed :: "ResourceScope \<Rightarrow> string \<Rightarrow> bool" where
  "isCommandAllowed scope command =
     deny_then_allow (\<lambda>p. starts_with p command) (\<lambda>p. starts_with p command)
       (sc_deniedCommands scope) (sc_allowedCommands scope)"

definition strip_dots :: "string \<Rightarrow> string" where
  "strip_dots s = rev (dropWhile (\<lambda>c. c = CHR ''.'') (rev (dropWhile (\<lambda>c. c = CHR ''.'') s)))"

definition matchesDomain :: "string \<Rightarrow> string \<Rightarrow> bool" where
  "matchesDomain target pattern =
     (let t = strip_dots (toLowerCase target); p = strip_dots (toLowerCase pattern)
      in t = p \<or> ends_with (''.'' @ p) t)"

definition isNetworkDomainAllowed :: "ResourceScope \<Rightarrow> string \<Rightarrow> bool" where
  "isNetworkDomainAllowed scope domain =
     deny_then_allow (matchesDomain domain) (matchesDomain domain)
       (sc_deniedNetworkDomains scope) (sc_allowedNetworkDomains scope)"

definition env_matches :: "string \<Rightarrow> string \<Rightarrow> bool" where
  "env_matches name p \<longleftrightarrow>
     starts_with p name \<or> ends_with ''*'' p \<and> starts_with (butlast p) name"

definition isEnvironmentVariableAllowed :: "ResourceScope \<Rightarrow> string \<Rightarrow> bool" where
  "isEnvironmentVariableAllowed scope name =
     deny_then_allow (env_matches name) (env_matches name)
       (sc_deniedEnvironmentVariables scope) (sc_allowedEnvironmentVariables scope)"

definition plain_extension :: "string \<Rightarrow> string" where
  "plain_extension e = (if starts_with ''.'' e then toLowerCase (drop 1 e) else toLowerCase e)"

definition isFileExtensionAllowed :: "ResourceScope \<Rightarrow> string \<Rightarrow> bool" where
  "isFileExtensionAllowed scope extension =
     (let ext = plain_extension extension
      in deny_then_allow (\<lambda>p. ext = plain_extension p) (\<lambda>p. ext = plain_extension p)
           (sc_deniedFileExtensions scope) (sc_allowedFileExtensions scope))"

section \<open>Validity, profiles and budgets\<close>

definition isGrantValid :: "string \<Rightarrow> SessionAuthorityGrant \<Rightarrow> int \<Rightarrow> bool" where
  "isGrantValid now grant currentKeyEpoch =
     (if ag_revokedAt grant \<noteq> None then False
      else if (case ag_expiresAt grant of None \<Rightarrow> False | Some e \<Rightarrow> e < now) then False
      else if ag_sessionKeyEpoch grant \<noteq> currentKeyEpoch then False
      else True)"

definition getProfileCapabilities :: "GrantProfile \<Rightarrow> Capability list" where
  "getProfileCapabilities profile = GRANT_PROFILES profile"

text \<open>A partial scope; \<open>None\<close> is an omitted field or \<open>null\<close>, which \<open>??\<close> treats alike.\<close>

record PartialScope =
  qs_allowedPaths :: "string list option"
  qs_deniedPaths :: "string list option"
  qs_allowedFileExtensions :: "string list option"
  qs_deniedFileExtensions :: "string list option"
  qs_allowedCommands :: "string list option"
  qs_deniedCommands :: "string list option"
  qs_allowedNetworkDomains :: "string list option"
  qs_deniedNetworkDomains :: "string list option"
  qs_allowedEnvironmentVariables :: "string list option"
  qs_deniedEnvironmentVariables :: "string list option"
  qs_maximumRuntimeSeconds :: "int option"
  qs_maximumCpuSeconds :: "int option"
  qs_maximumMemoryBytes :: "int option"
  qs_maximumDiskWriteBytes :: "int option"
  qs_maximumProcessCount :: "int option"
  qs_maximumOutputBytes :: "int option"
  qs_maximumComputeTokens :: "int option"
  qs_maximumComputeCost :: "int option"

definition mergeScope :: "ResourceScope \<Rightarrow> PartialScope \<Rightarrow> ResourceScope" where
  "mergeScope base partial =
     \<lparr>sc_allowedPaths = nullish (qs_allowedPaths partial) (sc_allowedPaths base),
      sc_deniedPaths = nullish (qs_deniedPaths partial) (sc_deniedPaths base),
      sc_allowedFileExtensions =
        nullish (qs_allowedFileExtensions partial) (sc_allowedFileExtensions base),
      sc_deniedFileExtensions =
        nullish (qs_deniedFileExtensions partial) (sc_deniedFileExtensions base),
      sc_allowedCommands = nullish (qs_allowedCommands partial) (sc_allowedCommands base),
      sc_deniedCommands = nullish (qs_deniedCommands partial) (sc_deniedCommands base),
      sc_allowedNetworkDomains =
        nullish (qs_allowedNetworkDomains partial) (sc_allowedNetworkDomains base),
      sc_deniedNetworkDomains =
        nullish (qs_deniedNetworkDomains partial) (sc_deniedNetworkDomains base),
      sc_allowedEnvironmentVariables =
        nullish (qs_allowedEnvironmentVariables partial) (sc_allowedEnvironmentVariables base),
      sc_deniedEnvironmentVariables =
        nullish (qs_deniedEnvironmentVariables partial) (sc_deniedEnvironmentVariables base),
      sc_maximumRuntimeSeconds =
        nullish (qs_maximumRuntimeSeconds partial) (sc_maximumRuntimeSeconds base),
      sc_maximumCpuSeconds = nullish (qs_maximumCpuSeconds partial) (sc_maximumCpuSeconds base),
      sc_maximumMemoryBytes = nullish (qs_maximumMemoryBytes partial) (sc_maximumMemoryBytes base),
      sc_maximumDiskWriteBytes =
        nullish (qs_maximumDiskWriteBytes partial) (sc_maximumDiskWriteBytes base),
      sc_maximumProcessCount =
        nullish (qs_maximumProcessCount partial) (sc_maximumProcessCount base),
      sc_maximumOutputBytes = nullish (qs_maximumOutputBytes partial) (sc_maximumOutputBytes base),
      sc_maximumComputeTokens =
        (case qs_maximumComputeTokens partial of Some n \<Rightarrow> Some n | None \<Rightarrow> sc_maximumComputeTokens base),
      sc_maximumComputeCost =
        (case qs_maximumComputeCost partial of Some n \<Rightarrow> Some n | None \<Rightarrow> sc_maximumComputeCost base)\<rparr>"

record GrantConfig =
  gc_grantId :: string
  gc_sessionId :: string
  gc_subjectIdentityPublicKey :: string
  gc_subjectMembershipId :: string
  gc_issuedByIdentityPublicKey :: string
  gc_profile :: GrantProfile
  gc_resourceScope :: "PartialScope option"
  gc_sessionKeyEpoch :: "int option"
  gc_expiresAt :: "string option"

definition createGrantFromProfile :: "string \<Rightarrow> GrantConfig \<Rightarrow> SessionAuthorityGrant" where
  "createGrantFromProfile now config =
     \<lparr>ag_grantId = gc_grantId config,
      ag_sessionId = gc_sessionId config,
      ag_subjectIdentityPublicKey = gc_subjectIdentityPublicKey config,
      ag_subjectMembershipId = gc_subjectMembershipId config,
      ag_issuedByIdentityPublicKey = gc_issuedByIdentityPublicKey config,
      ag_issuedByGrantId = None,
      ag_capabilitySet = getProfileCapabilities (gc_profile config),
      ag_resourceScope =
        (case gc_resourceScope config of
           Some p \<Rightarrow> mergeScope DEFAULT_EMPTY_SCOPE p
         | None \<Rightarrow> DEFAULT_EMPTY_SCOPE),
      ag_executionConstraints = None,
      ag_disclosureScope = None,
      ag_approvalPolicy = None,
      ag_delegationPolicy = None,
      ag_issuedAt = now,
      ag_expiresAt = gc_expiresAt config,
      ag_revokedAt = None,
      ag_revocationReason = None,
      ag_sessionKeyEpoch = nullish (gc_sessionKeyEpoch config) 0,
      ag_signature = []\<rparr>"

record ScopeUsage =
  uz_runtimeMs :: "int option"
  uz_cpuMs :: "int option"
  uz_memoryBytes :: "int option"
  uz_diskBytes :: "int option"
  uz_processCount :: "int option"
  uz_outputBytes :: "int option"

fun budget_loop :: "(int option \<times> int) list \<Rightarrow> bool" where
  "budget_loop [] = True"
| "budget_loop ((used, limit) # checks) =
     (case used of
        None \<Rightarrow> budget_loop checks
      | Some u \<Rightarrow> if limit \<noteq> 0 \<and> u > limit then False else budget_loop checks)"

definition isWithinBudget :: "ResourceScope \<Rightarrow> ScopeUsage \<Rightarrow> bool" where
  "isWithinBudget scope usage = budget_loop
     [(uz_runtimeMs usage, sc_maximumRuntimeSeconds scope * 1000),
      (uz_cpuMs usage, sc_maximumCpuSeconds scope * 1000),
      (uz_memoryBytes usage, sc_maximumMemoryBytes scope),
      (uz_diskBytes usage, sc_maximumDiskWriteBytes scope),
      (uz_processCount usage, sc_maximumProcessCount scope),
      (uz_outputBytes usage, sc_maximumOutputBytes scope)]"

lemma any_loop_iff [simp]: "any_loop test ps \<longleftrightarrow> (\<exists>p\<in>set ps. test p)"
  by (induction ps) auto

lemma deny_then_allow_iff:
  "deny_then_allow denies allows denied allowed \<longleftrightarrow>
     \<not> (\<exists>p\<in>set denied. denies p) \<and> (\<exists>p\<in>set allowed. allows p)"
  by (auto simp: deny_then_allow_def)

lemma budget_loop_iff:
  "budget_loop cs \<longleftrightarrow> (\<forall>(used, limit)\<in>set cs. \<forall>u. used = Some u \<longrightarrow> limit = 0 \<or> u \<le> limit)"
  by (induction cs rule: budget_loop.induct) (auto split: option.splits)


section \<open>Patterns mean what they say\<close>

text \<open>The items a pattern stands for, read off the pattern itself.\<close>

fun glob_items :: "string \<Rightarrow> rx_item list" where
  "glob_items [] = []"
| "glob_items [c] =
     [if c = CHR ''*'' then Rx_seg_star else if c = CHR ''?'' then Rx_seg else Rx_char c]"
| "glob_items (c # d # cs) =
     (if c = CHR ''*'' \<and> d = CHR ''*'' then Rx_any_star # glob_items cs
      else (if c = CHR ''*'' then Rx_seg_star else if c = CHR ''?'' then Rx_seg else Rx_char c) #
           glob_items (d # cs))"

definition esc :: "char \<Rightarrow> string" where
  "esc c = (if regex_special c then [CHR 0x5C, c] else [c])"

text \<open>How an item is written after the replacement of \<open>**\<close>, of \<open>*\<close>, of \<open>?\<close> and of the placeholder.\<close>

fun item_text :: "string \<Rightarrow> string \<Rightarrow> string \<Rightarrow> rx_item \<Rightarrow> string" where
  "item_text g s q (Rx_char c) = esc c"
| "item_text g s q Rx_seg = q"
| "item_text g s q Rx_seg_star = s"
| "item_text g s q Rx_any_star = g"

definition items_text :: "string \<Rightarrow> string \<Rightarrow> string \<Rightarrow> rx_item list \<Rightarrow> string" where
  "items_text g s q is = concat (List.map (item_text g s q) is)"

lemma items_text_simps [simp]:
  "items_text g s q [] = []"
  "items_text g s q (i # is) = item_text g s q i @ items_text g s q is"
  by (simp_all add: items_text_def)

lemma esc_plain: "\<not> regex_special c \<Longrightarrow> esc c = [c]"
  by (simp add: esc_def)

lemma special_facts [simp]:
  "\<not> regex_special (CHR ''*'')" "\<not> regex_special (CHR ''?'')" "\<not> regex_special (CHR ''_'')"
  "regex_special (CHR 0x5C)" "regex_special (CHR ''['')" "regex_special (CHR ''.'')"
  by (simp_all add: regex_special_def)

lemma replace_all_char:
  "replace_all [a] rep s = concat (List.map (\<lambda>c. if c = a then rep else [c]) s)"
  by (induction s) auto

lemma replace_all_skip: "\<not> starts_with pat (c # cs) \<Longrightarrow> replace_all pat rep (c # cs) = c # replace_all pat rep cs"
  by simp

text \<open>Step 1: after escaping, every pair of stars becomes the placeholder.\<close>

lemma replace_stars_esc:
  assumes "c \<noteq> CHR ''*''"
  shows "replace_all ''**'' G (esc c @ s) = esc c @ replace_all ''**'' G s"
  using assms by (auto simp: esc_def)

lemma not_star_pair:
  "c \<noteq> CHR ''*'' \<or> d \<noteq> CHR ''*'' \<Longrightarrow> c = CHR ''*'' \<Longrightarrow>
     replace_all ''**'' G (CHR ''*'' # esc d @ s) = CHR ''*'' # replace_all ''**'' G (esc d @ s)"
  by (auto simp: esc_def)

lemma glob_step_stars:
  "replace_all ''**'' G (concat (List.map esc p)) = items_text G ''*'' ''?'' (glob_items p)"
proof (induction p rule: glob_items.induct)
  case (2 c)
  show ?case
    using replace_stars_esc [of c G "[]"] by (cases "c = CHR ''*''") (auto simp: esc_plain)
next
  case (3 c d cs)
  show ?case
  proof (cases "c = CHR ''*'' \<and> d = CHR ''*''")
    case True
    with 3 show ?thesis by (simp add: esc_plain)
  next
    case False
    with 3(2) have IH: "replace_all ''**'' G (esc d @ concat (List.map esc cs)) =
        items_text G ''*'' ''?'' (glob_items (d # cs))" by simp
    show ?thesis
    proof (cases "c = CHR ''*''")
      case True
      with False have "replace_all ''**'' G (CHR ''*'' # esc d @ concat (List.map esc cs)) =
          CHR ''*'' # replace_all ''**'' G (esc d @ concat (List.map esc cs))"
        by (intro not_star_pair [where c = c]) auto
      with True False IH show ?thesis by (simp add: esc_plain del: replace_all.simps)
    next
      case False
      have "replace_all ''**'' G (esc c @ esc d @ concat (List.map esc cs)) =
          esc c @ replace_all ''**'' G (esc d @ concat (List.map esc cs))"
        by (rule replace_stars_esc [OF False])
      with False IH show ?thesis by (cases "c = CHR ''?''") (simp_all add: esc_plain del: replace_all.simps)
    qed
  qed
qed simp

text \<open>Steps 2 and 3: the remaining stars and question marks.\<close>

lemma glob_chars: "Rx_char c \<in> set (glob_items p) \<Longrightarrow> c \<noteq> CHR ''*'' \<and> c \<noteq> CHR ''?'' \<and> c \<in> set p"
  by (induction p rule: glob_items.induct) (auto split: if_splits)

lemma concat_map_items:
  assumes "\<And>c. Rx_char c \<in> set is \<Longrightarrow> concat (List.map f (esc c)) = esc c"
  shows "concat (List.map f (items_text g s q is)) =
     items_text (concat (List.map f g)) (concat (List.map f s)) (concat (List.map f q)) is"
  using assms
proof (induction "is")
  case (Cons i "is")
  then show ?case by (cases i) simp_all
qed simp

lemma esc_unchanged:
  assumes "c \<noteq> a" and "a \<noteq> CHR 0x5C"
  shows "concat (List.map (\<lambda>c. if c = a then rep else [c]) (esc c)) = esc c"
  using assms by (simp add: esc_def)

lemma glob_steps_chars:
  "replace_all ''?'' ''[^/]'' (replace_all ''*'' ''[^/]*'' (items_text GLOBSTAR ''*'' ''?'' (glob_items p))) =
     items_text GLOBSTAR ''[^/]*'' ''[^/]'' (glob_items p)"
proof -
  have "replace_all ''*'' ''[^/]*'' (items_text GLOBSTAR ''*'' ''?'' (glob_items p)) =
      items_text GLOBSTAR ''[^/]*'' ''?'' (glob_items p)"
    unfolding replace_all_char
    by (subst concat_map_items) (auto simp: GLOBSTAR_def esc_unchanged dest: glob_chars)
  moreover have "replace_all ''?'' ''[^/]'' (items_text GLOBSTAR ''[^/]*'' ''?'' (glob_items p)) =
      items_text GLOBSTAR ''[^/]*'' ''[^/]'' (glob_items p)"
    unfolding replace_all_char
    by (subst concat_map_items) (auto simp: GLOBSTAR_def esc_unchanged dest: glob_chars)
  ultimately show ?thesis by simp
qed

text \<open>
  Step 4: the placeholder is found exactly where it was put, unless the pattern itself contains the
  word.  A literal underscore can only begin a match when the letters of the word follow literally.
\<close>

abbreviation placeholder_text :: "rx_item list \<Rightarrow> string" where
  "placeholder_text \<equiv> items_text GLOBSTAR ''[^/]*'' ''[^/]''"

abbreviation regex_text :: "rx_item list \<Rightarrow> string" where
  "regex_text \<equiv> items_text ''.*'' ''[^/]*'' ''[^/]''"

lemma starts_with_letter:
  assumes "starts_with (c # w) (placeholder_text is)" and "c \<notin> {CHR ''_'', CHR ''['', CHR 0x5C}"
  shows "\<exists>is'. is = Rx_char c # is' \<and> starts_with w (placeholder_text is')"
proof (cases "is")
  case (Cons i is')
  with assms show ?thesis by (cases i) (auto simp: esc_def GLOBSTAR_def split: if_splits)
qed (use assms in simp)

lemma starts_with_letters:
  assumes "starts_with w (placeholder_text is)"
    and "set w \<inter> {CHR ''_'', CHR ''['', CHR 0x5C} = {}"
  shows "\<exists>is'. is = List.map Rx_char w @ is'"
  using assms
proof (induction w arbitrary: "is")
  case (Cons c w)
  then obtain is' where *: "is = Rx_char c # is'" "starts_with w (placeholder_text is')"
    using starts_with_letter [of c w "is"] by auto
  moreover obtain rest where "is' = List.map Rx_char w @ rest"
    using Cons.IH [OF *(2)] Cons.prems(2) by auto
  ultimately show ?case by simp
qed simp

lemma glob_items_Cons:
  assumes "glob_items p = i # r"
  shows "\<exists>a p'. p = a @ p' \<and> a \<noteq> [] \<and> glob_items p' = r \<and> (\<forall>c. i = Rx_char c \<longrightarrow> a = [c])"
proof (cases p rule: glob_items.cases)
  case (2 c)
  with assms show ?thesis by (intro exI [of _ "[c]"] exI [of _ "[]"]) (auto split: if_splits)
next
  case (3 c d cs)
  show ?thesis
  proof (cases "c = CHR ''*'' \<and> d = CHR ''*''")
    case True
    with 3 assms show ?thesis by (intro exI [of _ "''**''"] exI [of _ cs]) auto
  next
    case False
    with 3 assms show ?thesis by (intro exI [of _ "[c]"] exI [of _ "d # cs"]) (auto split: if_splits)
  qed
qed (use assms in simp)

lemma glob_items_letters:
  "glob_items p = List.map Rx_char w @ is \<Longrightarrow> starts_with w p"
proof (induction w arbitrary: p)
  case (Cons c w)
  then obtain p' where "p = c # p'" "glob_items p' = List.map Rx_char w @ is"
    using glob_items_Cons [of p "Rx_char c"] by auto
  with Cons.IH show ?case by simp
qed simp

lemma js_includes_suffix: "\<not> js_includes (a @ p) w \<Longrightarrow> \<not> js_includes p w"
  unfolding js_includes_iff by (metis append.assoc)

lemma underscore_no_match:
  assumes "glob_items p = Rx_char (CHR ''_'') # r" and "\<not> js_includes p ''GLOBSTAR''"
  shows "\<not> starts_with GLOBSTAR (CHR ''_'' # placeholder_text r)"
proof
  assume "starts_with GLOBSTAR (CHR ''_'' # placeholder_text r)"
  then have m: "starts_with ''_GLOBSTAR__'' (placeholder_text r)" by (simp add: GLOBSTAR_def)
  obtain p' where p': "p = CHR ''_'' # p'" "glob_items p' = r"
    using glob_items_Cons [OF assms(1)] by auto
  show False
  proof (cases r)
    case Nil
    with m show False by simp
  next
    case (Cons i r')
    show False
    proof (cases i)
      case (Rx_char c)
      with m Cons have c: "c = CHR ''_''" and w: "starts_with ''GLOBSTAR__'' (placeholder_text r')"
        by (auto simp: esc_def split: if_splits)
      from w have "starts_with ''GLOBSTAR'' (placeholder_text r')"
        by (rule starts_with_trans [rotated]) simp
      then obtain is' where "r' = List.map Rx_char ''GLOBSTAR'' @ is'"
        using starts_with_letters [of "''GLOBSTAR''" r'] by auto
      moreover obtain p'' where "p' = c # p''" "glob_items p'' = r'"
        using glob_items_Cons [of p' i r'] p'(2) Cons Rx_char by auto
      ultimately have "starts_with ''GLOBSTAR'' p''"
        using glob_items_letters [of p'' "''GLOBSTAR''" is'] by simp
      then have "js_includes p ''GLOBSTAR''"
        unfolding js_includes_iff starts_with_iff p'(1) \<open>p' = c # p''\<close>
        by (metis append_Cons append_Nil)
      with assms(2) show False ..
    qed (use m Cons in \<open>simp_all add: GLOBSTAR_def\<close>)
  qed
qed

lemma replace_placeholder_skip:
  "CHR ''_'' \<notin> set w \<Longrightarrow> replace_all GLOBSTAR r (w @ s) = w @ replace_all GLOBSTAR r s"
  by (induction w) (simp_all add: GLOBSTAR_def)

lemma replace_placeholder_hit:
  "replace_all GLOBSTAR r (GLOBSTAR @ s) = r @ replace_all GLOBSTAR r s"
  by (simp add: GLOBSTAR_def)

lemma glob_step_placeholder:
  assumes "\<not> js_includes p ''GLOBSTAR''"
  shows "replace_all GLOBSTAR ''.*'' (placeholder_text (glob_items p)) = regex_text (glob_items p)"
  using assms
proof (induction "length p" arbitrary: p rule: less_induct)
  case less
  show ?case
  proof (cases "glob_items p")
    case (Cons i r)
    obtain a p' where p': "p = a @ p'" "a \<noteq> []" "glob_items p' = r"
      using glob_items_Cons [OF Cons] by blast
    then have IH: "replace_all GLOBSTAR ''.*'' (placeholder_text r) = regex_text r"
      using less js_includes_suffix [of a p'] by auto
    show ?thesis
    proof (cases i)
      case (Rx_char c)
      show ?thesis
      proof (cases "c = CHR ''_''")
        case True
        then have "replace_all GLOBSTAR ''.*'' (CHR ''_'' # placeholder_text r) =
            CHR ''_'' # replace_all GLOBSTAR ''.*'' (placeholder_text r)"
          using underscore_no_match [of p r] Cons Rx_char less.prems
          by (intro replace_all_skip) (simp only: simp_thms)
        with True Rx_char Cons IH show ?thesis by (simp add: esc_plain del: replace_all.simps)
      next
        case False
        then have "CHR ''_'' \<notin> set (esc c)" by (simp add: esc_def)
        from replace_placeholder_skip [OF this] Rx_char Cons IH show ?thesis by simp
      qed
    next
      case Rx_seg
      then show ?thesis
        using replace_placeholder_skip [of "''[^/]''"] Cons IH by (simp del: replace_all.simps)
    next
      case Rx_seg_star
      then show ?thesis
        using replace_placeholder_skip [of "''[^/]*''"] Cons IH by (simp del: replace_all.simps)
    next
      case Rx_any_star
      then show ?thesis using Cons IH by (simp add: replace_placeholder_hit del: replace_all.simps)
    qed
  qed simp
qed

text \<open>Step 5: the text reads back as the items.\<close>

lemma regex_text_not_star:
  assumes "Rx_char (CHR ''*'') \<notin> set is"
  shows "\<not> starts_with ''*'' (regex_text is)"
proof (cases "is")
  case (Cons i is')
  with assms show ?thesis by (cases i) (auto simp: esc_def)
qed simp

lemma rx_parse_seg: "\<not> starts_with ''*'' s \<Longrightarrow> rx_parse (''[^/]'' @ s) = Rx_seg # rx_parse s"
  by (cases s) auto

lemma rx_parse_items:
  assumes "Rx_char (CHR ''*'') \<notin> set is"
  shows "rx_parse (regex_text is) = is"
  using assms
proof (induction "is")
  case (Cons i "is")
  then have IH: "rx_parse (regex_text is) = is" and ns: "\<not> starts_with ''*'' (regex_text is)"
    using regex_text_not_star [of "is"] by auto
  show ?case
  proof (cases i)
    case (Rx_char c)
    show ?thesis
    proof (cases "regex_special c")
      case True
      with Rx_char IH show ?thesis by (simp add: esc_def)
    next
      case False
      then have "c \<noteq> CHR 0x5C" "c \<noteq> CHR ''[''" "c \<noteq> CHR ''.''" by auto
      with False Rx_char IH show ?thesis by (simp add: esc_def)
    qed
  next
    case Rx_seg
    with rx_parse_seg [OF ns] IH show ?thesis by simp
  qed (use IH in simp_all)
qed simp

lemma glob_pipeline:
  assumes "\<not> js_includes p ''GLOBSTAR''"
  shows "rx_parse (globToRegex p) = glob_items p"
proof -
  have "(\<lambda>c. if regex_special c then [CHR 0x5C, c] else [c]) = esc" by (simp add: esc_def fun_eq_iff)
  then have "globToRegex p = replace_all GLOBSTAR ''.*'' (placeholder_text (glob_items p))"
    by (simp only: globToRegex_def Let_def glob_step_stars glob_steps_chars)
  also have "\<dots> = regex_text (glob_items p)" by (rule glob_step_placeholder [OF assms])
  finally show ?thesis using rx_parse_items [of "glob_items p"] glob_chars [of _ p] by auto
qed

text \<open>A match is a division of the path into one piece per item.\<close>

fun piece_ok :: "rx_item \<Rightarrow> string \<Rightarrow> bool" where
  "piece_ok (Rx_char c) w \<longleftrightarrow> w = [c]"
| "piece_ok Rx_seg w \<longleftrightarrow> (\<exists>d. w = [d] \<and> d \<noteq> CHR ''/'')"
| "piece_ok Rx_seg_star w \<longleftrightarrow> CHR ''/'' \<notin> set w"
| "piece_ok Rx_any_star w \<longleftrightarrow> (\<forall>c\<in>set w. not_newline c)"

lemma rx_match_star:
  assumes step: "\<And>s. rx_match (i # r) s \<longleftrightarrow>
      rx_match r s \<or> (case s of [] \<Rightarrow> False | d # ds \<Rightarrow> P d \<and> rx_match (i # r) ds)"
    and ok: "\<And>w. piece_ok i w \<longleftrightarrow> (\<forall>c\<in>set w. P c)"
  shows "rx_match (i # r) s \<longleftrightarrow> (\<exists>w t. s = w @ t \<and> piece_ok i w \<and> rx_match r t)"
proof (induction s)
  case Nil
  show ?case unfolding step [of "[]"] ok by simp
next
  case (Cons d ds)
  have "(\<exists>w t. d # ds = w @ t \<and> piece_ok i w \<and> rx_match r t) \<longleftrightarrow>
      rx_match r (d # ds) \<or> P d \<and> (\<exists>w t. ds = w @ t \<and> piece_ok i w \<and> rx_match r t)"
    (is "?L \<longleftrightarrow> ?R")
  proof
    assume ?L
    then obtain w t where "d # ds = w @ t" "piece_ok i w" "rx_match r t" by blast
    then show ?R unfolding ok by (cases w) auto
  next
    assume ?R
    then show ?L
    proof
      assume "rx_match r (d # ds)"
      then show ?L by (intro exI [of _ "[]"] exI [of _ "d # ds"]) (simp add: ok)
    next
      assume "P d \<and> (\<exists>w t. ds = w @ t \<and> piece_ok i w \<and> rx_match r t)"
      then obtain w t where "P d" "ds = w @ t" "piece_ok i w" "rx_match r t" by blast
      then show ?L by (intro exI [of _ "d # w"] exI [of _ t]) (simp add: ok)
    qed
  qed
  with Cons step [of "d # ds"] show ?case by simp
qed

lemma rx_match_Cons:
  "rx_match (i # r) s \<longleftrightarrow> (\<exists>w t. s = w @ t \<and> piece_ok i w \<and> rx_match r t)"
proof (cases i)
  case (Rx_char c)
  then show ?thesis by (cases s) auto
next
  case Rx_seg
  then show ?thesis by (cases s) (auto, metis append_Cons append_Nil)
next
  case Rx_seg_star
  show ?thesis unfolding Rx_seg_star
    by (rule rx_match_star [where P = "\<lambda>d. d \<noteq> CHR ''/''"]) auto
next
  case Rx_any_star
  show ?thesis unfolding Rx_any_star by (rule rx_match_star [where P = not_newline]) auto
qed

lemma rx_match_pieces:
  "rx_match is s \<longleftrightarrow> (\<exists>ws. concat ws = s \<and> list_all2 piece_ok is ws)"
proof (induction "is" arbitrary: s)
  case Nil
  show ?case by auto
next
  case (Cons i "is")
  show ?case
  proof
    assume "rx_match (i # is) s"
    then obtain w t where "s = w @ t" "piece_ok i w" "rx_match is t" using rx_match_Cons by blast
    with Cons obtain ws where "concat ws = t" "list_all2 piece_ok is ws" by blast
    with \<open>s = w @ t\<close> \<open>piece_ok i w\<close> have "concat (w # ws) = s \<and> list_all2 piece_ok (i # is) (w # ws)" by simp
    then show "\<exists>ws. concat ws = s \<and> list_all2 piece_ok (i # is) ws" by blast
  next
    assume "\<exists>ws. concat ws = s \<and> list_all2 piece_ok (i # is) ws"
    then obtain w ws where "s = w @ concat ws" "piece_ok i w" "list_all2 piece_ok is ws"
      by (auto simp: list_all2_Cons1)
    with Cons show "rx_match (i # is) s" using rx_match_Cons by blast
  qed
qed

section \<open>Properties\<close>

text \<open>
  The regular expression built by four string replacements matches a path exactly when the path
  divides into pieces that fit the pattern read directly: a literal character, \<open>?\<close> for one character
  other than the slash, \<open>*\<close> for a run of such characters, \<open>**\<close> for any run without a line break.
  The one exception is a pattern that contains the word of the internal placeholder.
\<close>

theorem glob_matching_exact:
  assumes "\<not> js_includes pattern ''GLOBSTAR''"
  shows "glob_test pattern path \<longleftrightarrow>
    (\<exists>ws. concat ws = path \<and> list_all2 piece_ok (glob_items pattern) ws)"
  unfolding glob_test_def glob_pipeline [OF assms] by (rule rx_match_pieces)

theorem glob_matching_exact_witness:
  "\<not> js_includes ''a/*.ts'' ''GLOBSTAR'' \<and> glob_test ''a/*.ts'' ''a/b.ts'' \<and>
   (\<exists>ws. concat ws = ''a/b.ts'' \<and> list_all2 piece_ok (glob_items ''a/*.ts'') ws)"
proof -
  have 1: "\<not> js_includes ''a/*.ts'' ''GLOBSTAR''" by code_simp
  have 2: "glob_test ''a/*.ts'' ''a/b.ts''" by code_simp
  from 1 2 glob_matching_exact [OF 1, of "''a/b.ts''"] show ?thesis by blast
qed

text \<open>A directory name followed by \<open>/**\<close>.\<close>

definition plain_name :: "string \<Rightarrow> bool" where
  "plain_name d \<longleftrightarrow> CHR ''*'' \<notin> set d \<and> CHR ''?'' \<notin> set d"

lemma glob_items_plain:
  "plain_name d \<Longrightarrow> glob_items (d @ ''/**'') = List.map Rx_char (d @ ''/'') @ [Rx_any_star]"
proof (induction d)
  case Nil
  show ?case by simp
next
  case (Cons c d)
  then have IH: "glob_items (d @ ''/**'') = List.map Rx_char (d @ ''/'') @ [Rx_any_star]"
    and c: "c \<noteq> CHR ''*''" "c \<noteq> CHR ''?''" by (auto simp: plain_name_def)
  obtain e es where e: "d @ ''/**'' = e # es" by (cases "d @ ''/**''") auto
  from c IH show ?case by (simp add: e)
qed

lemma rx_match_literal:
  "rx_match (List.map Rx_char w @ r) s \<longleftrightarrow> (\<exists>t. s = w @ t \<and> rx_match r t)"
proof (induction w arbitrary: s)
  case (Cons c w)
  show ?case by (cases s) (auto simp: Cons)
qed simp

lemma rx_match_any: "rx_match [Rx_any_star] t \<longleftrightarrow> (\<forall>c\<in>set t. not_newline c)"
  unfolding rx_match_Cons by auto

text \<open>
  A grant for the subtree of a directory, written \<open>dir/**\<close>, allows exactly the paths that begin
  with \<open>dir/\<close> and have no line break after it, whatever segments follow, \<open>..\<close> among them; a path that
  a denied pattern matches is refused although it is in the subtree.
\<close>

theorem subtree_grant_exact:
  assumes "plain_name dir" and "\<not> js_includes (dir @ ''/**'') ''GLOBSTAR''"
    and "sc_allowedPaths scope = [dir @ ''/**'']"
  shows "isPathAllowed scope path \<longleftrightarrow>
    (\<exists>rest. path = dir @ ''/'' @ rest \<and> (\<forall>c\<in>set rest. not_newline c)) \<and>
    (\<forall>p\<in>set (sc_deniedPaths scope). \<not> glob_test p path)"
proof -
  have "glob_test (dir @ ''/**'') path \<longleftrightarrow>
      (\<exists>rest. path = dir @ ''/'' @ rest \<and> (\<forall>c\<in>set rest. not_newline c))"
    unfolding glob_test_def glob_pipeline [OF assms(2)] glob_items_plain [OF assms(1)]
      rx_match_literal rx_match_any by simp
  then show ?thesis by (auto simp: isPathAllowed_def deny_then_allow_iff assms(3))
qed

definition src_scope :: ResourceScope where
  "src_scope = DEFAULT_EMPTY_SCOPE\<lparr>sc_allowedPaths := [''src/**''], sc_deniedPaths := [''src/keys/*'']\<rparr>"

theorem subtree_grant_exact_witness:
  "isPathAllowed src_scope ''src/../../etc/passwd'' \<and> \<not> isPathAllowed src_scope ''src/keys/id'' \<and>
   \<not> isPathAllowed src_scope ''lib/a''"
proof -
  have s: "sc_allowedPaths src_scope = [''src'' @ ''/**'']" "sc_deniedPaths src_scope = [''src/keys/*'']"
    by (simp_all add: src_scope_def)
  have 1: "plain_name ''src''" by (simp add: plain_name_def)
  have 2: "\<not> js_includes (''src'' @ ''/**'') ''GLOBSTAR''" by code_simp
  note ex = subtree_grant_exact [OF 1 2 s(1), unfolded s(2)]
  have 3: "\<not> glob_test ''src/keys/*'' ''src/../../etc/passwd''" "glob_test ''src/keys/*'' ''src/keys/id''"
    by code_simp+
  have "isPathAllowed src_scope ''src/../../etc/passwd''"
    unfolding ex using 3(1) by (auto simp: not_newline_def)
  moreover have "\<not> isPathAllowed src_scope ''src/keys/id''" unfolding ex using 3(2) by auto
  moreover have "\<not> isPathAllowed src_scope ''lib/a''" unfolding ex by auto
  ultimately show ?thesis by blast
qed

lemma profile_capability_cases:
  "(\<exists>pr. c \<in> set (GRANT_PROFILES pr)) \<longleftrightarrow> c \<in> set (GRANT_PROFILES GP_session_coowner)"
proof
  assume "\<exists>pr. c \<in> set (GRANT_PROFILES pr)"
  then obtain pr where "c \<in> set (GRANT_PROFILES pr)" ..
  then show "c \<in> set (GRANT_PROFILES GP_session_coowner)" by (cases pr) auto
qed blast

text \<open>
  The grant profiles form a hierarchy (every profile contains the observer, every profile but the
  co-owner is contained in the maintainer, and the maintainer in the co-owner), and exactly four
  command kinds need a capability that no profile grants: cancelling a compute lease, requesting an
  escalation, sealing the session and exporting an artifact.
\<close>

theorem profiles_and_commands:
  "set (GRANT_PROFILES GP_observer) \<subseteq> set (GRANT_PROFILES pr) \<and>
   set (GRANT_PROFILES GP_maintainer) \<subset> set (GRANT_PROFILES GP_session_coowner) \<and>
   (set (GRANT_PROFILES pr) \<subseteq> set (GRANT_PROFILES GP_maintainer) \<longleftrightarrow> pr \<noteq> GP_session_coowner) \<and>
   ((\<exists>q. COMMAND_TO_REQUIRED_CAPABILITY k \<in> set (GRANT_PROFILES q)) \<longleftrightarrow>
      k \<notin> {CK_cancel_compute_lease, CK_request_escalation, CK_seal_session, CK_export_artifact})"
proof (intro conjI)
  show "set (GRANT_PROFILES GP_observer) \<subseteq> set (GRANT_PROFILES pr)" by (cases pr) auto
  show "set (GRANT_PROFILES GP_maintainer) \<subset> set (GRANT_PROFILES GP_session_coowner)" by auto
  show "(set (GRANT_PROFILES pr) \<subseteq> set (GRANT_PROFILES GP_maintainer)) = (pr \<noteq> GP_session_coowner)"
    by (cases pr) auto
  show "(\<exists>q. COMMAND_TO_REQUIRED_CAPABILITY k \<in> set (GRANT_PROFILES q)) \<longleftrightarrow>
      k \<notin> {CK_cancel_compute_lease, CK_request_escalation, CK_seal_session, CK_export_artifact}"
    unfolding profile_capability_cases by (cases k) simp_all
qed

end
