(* ===== verification/Dharma_Contribution.thy ===== *)
theory Dharma_Contribution imports Dharma_Session Js_Map Js_Number begin

text \<open>
  Contribution accounting (\<open>dharma/contribution/\<close> and the hooks of \<open>dharma/session/\<close>): contribution
  records and their store (\<open>contribution-store.ts\<close>), eligibility and abuse checks
  (\<open>contribution-policy.ts\<close>), records made from commands (\<open>contribution-hooks.ts\<close>) and the grant
  profile a contributor earns (\<open>contribution-grants.ts\<close>).  The store is a \<open>Map\<close>, so its laws are
  those of \<open>keyed_store\<close>.  A JavaScript object used as a table of counts is an association list; the
  keys are assumed not to be names of \<open>Object.prototype\<close>.
\<close>

section \<open>Records\<close>

datatype ContributionClass =
  CC_work_product | CC_review_evidence | CC_reproduction_evidence | CC_compute_lease |
  CC_artifact_contribution | CC_documentation_contribution | CC_moderation_action |
  CC_research_evidence | CC_session_stewardship

fun ContributionClass_str :: "ContributionClass \<Rightarrow> string" where
  "ContributionClass_str CC_work_product = ''work_product''"
| "ContributionClass_str CC_review_evidence = ''review_evidence''"
| "ContributionClass_str CC_reproduction_evidence = ''reproduction_evidence''"
| "ContributionClass_str CC_compute_lease = ''compute_lease''"
| "ContributionClass_str CC_artifact_contribution = ''artifact_contribution''"
| "ContributionClass_str CC_documentation_contribution = ''documentation_contribution''"
| "ContributionClass_str CC_moderation_action = ''moderation_action''"
| "ContributionClass_str CC_research_evidence = ''research_evidence''"
| "ContributionClass_str CC_session_stewardship = ''session_stewardship''"

datatype EvidenceQuality = EQ_high | EQ_medium | EQ_low

fun EvidenceQuality_str :: "EvidenceQuality \<Rightarrow> string" where
  "EvidenceQuality_str EQ_high = ''high''"
| "EvidenceQuality_str EQ_medium = ''medium''"
| "EvidenceQuality_str EQ_low = ''low''"

datatype VisibilityClass = VC_session | VC_contributor | VC_public

record ResourceCost =
  rk_computeMs :: "int option"
  rk_tokenCount :: "int option"
  rk_storageBytes :: "int option"

text \<open>The creation time is the one timestamp the code parses.\<close>

record DharmaContributionRecord =
  dc_contributionId :: string
  dc_sessionId :: string
  dc_contributorIdentityDigest :: string
  dc_contributionClass :: ContributionClass
  dc_description :: string
  dc_receiptDigests :: "string list"
  dc_acceptedBy :: "string option"
  dc_acceptedAt :: "string option"
  dc_evidenceQuality :: EvidenceQuality
  dc_resourceCostSummary :: "ResourceCost option"
  dc_outcomeRelation :: string
  dc_codexEligibility :: bool
  dc_visibilityClass :: VisibilityClass
  dc_createdAt :: timestamp

section \<open>The store\<close>

type_synonym ContributionStore = "(string \<times> DharmaContributionRecord) list"

definition createContributionStore :: ContributionStore where
  "createContributionStore = []"

definition addContribution :: "ContributionStore \<Rightarrow> DharmaContributionRecord \<Rightarrow> ContributionStore" where
  "addContribution store record = map_set (dc_contributionId record) record store"

definition getContribution :: "ContributionStore \<Rightarrow> string \<Rightarrow> DharmaContributionRecord option" where
  "getContribution store contributionId = map_get store contributionId"

definition getContributionsBySession ::
  "ContributionStore \<Rightarrow> string \<Rightarrow> DharmaContributionRecord list" where
  "getContributionsBySession store sessionId =
     List.filter (\<lambda>r. dc_sessionId r = sessionId) (map_values store)"

definition getContributionsByContributor ::
  "ContributionStore \<Rightarrow> string \<Rightarrow> DharmaContributionRecord list" where
  "getContributionsByContributor store contributorId =
     List.filter (\<lambda>r. dc_contributorIdentityDigest r = contributorId) (map_values store)"

text \<open>Both functions return the changed record only; the store is not touched.\<close>

definition acceptContribution ::
  "string \<Rightarrow> ContributionStore \<Rightarrow> string \<Rightarrow> string \<Rightarrow> DharmaContributionRecord option" where
  "acceptContribution now store contributionId acceptedBy =
     (case map_get store contributionId of
        None \<Rightarrow> None
      | Some record \<Rightarrow> Some (record\<lparr>dc_acceptedBy := Some acceptedBy, dc_acceptedAt := Some now\<rparr>))"

definition revokeContribution ::
  "ContributionStore \<Rightarrow> string \<Rightarrow> DharmaContributionRecord option" where
  "revokeContribution store contributionId =
     (case map_get store contributionId of
        None \<Rightarrow> None
      | Some record \<Rightarrow>
          Some (record\<lparr>dc_acceptedBy := None, dc_acceptedAt := None, dc_codexEligibility := False\<rparr>))"

record ContributionSummary =
  su_sessionId :: string
  su_contributorCount :: nat
  su_acceptedCount :: nat
  su_pendingCount :: nat
  su_byClass :: "(ContributionClass \<times> nat) list"
  su_computeMsTotal :: int
  su_codexEligibleCount :: nat

text \<open>\<open>counts[k] = (counts[k] ?? 0) + 1\<close>.\<close>

definition count_up :: "'k \<Rightarrow> ('k \<times> nat) list \<Rightarrow> ('k \<times> nat) list" where
  "count_up k counts = map_set k (nullish (map_get counts k) 0 + 1) counts"

record summary_loop =
  lp_contributors :: "string list"
  lp_accepted :: nat
  lp_pending :: nat
  lp_byClass :: "(ContributionClass \<times> nat) list"
  lp_computeMs :: int
  lp_codex :: nat

text \<open>A zero or missing \<open>computeMs\<close> is falsy and skipped.\<close>

definition summary_step :: "summary_loop \<Rightarrow> DharmaContributionRecord \<Rightarrow> summary_loop" where
  "summary_step l r =
     \<lparr>lp_contributors = (if dc_contributorIdentityDigest r \<in> set (lp_contributors l)
        then lp_contributors l else lp_contributors l @ [dc_contributorIdentityDigest r]),
      lp_accepted = (if dc_acceptedBy r \<noteq> None then lp_accepted l + 1 else lp_accepted l),
      lp_pending = (if dc_acceptedBy r \<noteq> None then lp_pending l else lp_pending l + 1),
      lp_byClass = count_up (dc_contributionClass r) (lp_byClass l),
      lp_computeMs = lp_computeMs l +
        (case dc_resourceCostSummary r of None \<Rightarrow> 0 | Some c \<Rightarrow> nullish (rk_computeMs c) 0),
      lp_codex = (if dc_codexEligibility r then lp_codex l + 1 else lp_codex l)\<rparr>"

definition getSessionSummary :: "ContributionStore \<Rightarrow> string \<Rightarrow> ContributionSummary" where
  "getSessionSummary store sessionId =
     (let l = foldl summary_step
        \<lparr>lp_contributors = [], lp_accepted = 0, lp_pending = 0, lp_byClass = [], lp_computeMs = 0,
         lp_codex = 0\<rparr> (getContributionsBySession store sessionId)
      in \<lparr>su_sessionId = sessionId,
          su_contributorCount = length (lp_contributors l),
          su_acceptedCount = lp_accepted l,
          su_pendingCount = lp_pending l,
          su_byClass = lp_byClass l,
          su_computeMsTotal = lp_computeMs l,
          su_codexEligibleCount = lp_codex l\<rparr>)"

section \<open>Policy\<close>

record ContributionPolicy =
  cy_enabledClasses :: "ContributionClass list"
  cy_maxContributionAgeDays :: int
  cy_requireAcceptedForCodexEligibility :: bool
  cy_minEvidenceQuality :: string
  cy_allowSelfApproval :: bool
  cy_maxPendingPerSession :: int

definition createDefaultContributionPolicy :: ContributionPolicy where
  "createDefaultContributionPolicy =
     \<lparr>cy_enabledClasses =
        [CC_work_product, CC_review_evidence, CC_reproduction_evidence, CC_compute_lease,
         CC_artifact_contribution, CC_documentation_contribution, CC_moderation_action,
         CC_research_evidence, CC_session_stewardship],
      cy_maxContributionAgeDays = 90,
      cy_requireAcceptedForCodexEligibility = True,
      cy_minEvidenceQuality = ''low'',
      cy_allowSelfApproval = False,
      cy_maxPendingPerSession = 50\<rparr>"

definition createRestrictivePolicy :: ContributionPolicy where
  "createRestrictivePolicy =
     \<lparr>cy_enabledClasses =
        [CC_work_product, CC_review_evidence, CC_reproduction_evidence, CC_artifact_contribution],
      cy_maxContributionAgeDays = 30,
      cy_requireAcceptedForCodexEligibility = True,
      cy_minEvidenceQuality = ''medium'',
      cy_allowSelfApproval = False,
      cy_maxPendingPerSession = 10\<rparr>"

definition isClassEnabled :: "ContributionPolicy \<Rightarrow> ContributionClass \<Rightarrow> bool" where
  "isClassEnabled policy cls \<longleftrightarrow> cls \<in> set (cy_enabledClasses policy)"

definition quality_index :: "string \<Rightarrow> int" where
  "quality_index q =
     (if q = ''low'' then 0 else if q = ''medium'' then 1 else if q = ''high'' then 2 else -1)"

text \<open>
  A creation time that does not parse gives the age NaN, and the comparison with the limit is false.
\<close>

definition isContributionEligible ::
  "millis \<Rightarrow> DharmaContributionRecord \<Rightarrow> ContributionPolicy \<Rightarrow> bool" where
  "isContributionEligible nowMs record policy =
     (if \<not> isClassEnabled policy (dc_contributionClass record) then False
      else if quality_index (EvidenceQuality_str (dc_evidenceQuality record))
                < quality_index (cy_minEvidenceQuality policy) then False
      else if (case date_value (dc_createdAt record) of None \<Rightarrow> False
               | Some t \<Rightarrow> nowMs - t > cy_maxContributionAgeDays policy * 86400000) then False
      else if cy_requireAcceptedForCodexEligibility policy \<and> dc_acceptedBy record = None then False
      else True)"

definition isCodexEligible ::
  "millis \<Rightarrow> DharmaContributionRecord \<Rightarrow> ContributionPolicy \<Rightarrow> bool" where
  "isCodexEligible nowMs record policy =
     (if \<not> dc_codexEligibility record then False else isContributionEligible nowMs record policy)"

record AbuseCheck =
  ak_checkName :: string
  ak_passed :: bool
  ak_reason :: "string option"

definition abuse_pass :: "string \<Rightarrow> AbuseCheck" where
  "abuse_pass name = \<lparr>ak_checkName = name, ak_passed = True, ak_reason = None\<rparr>"

definition abuse_fail :: "string \<Rightarrow> string \<Rightarrow> AbuseCheck" where
  "abuse_fail name reason = \<lparr>ak_checkName = name, ak_passed = False, ak_reason = Some reason\<rparr>"

definition checkNoSelfDealing :: "DharmaContributionRecord \<Rightarrow> string \<Rightarrow> AbuseCheck" where
  "checkNoSelfDealing record reviewerId =
     (if dc_contributorIdentityDigest record = reviewerId
      then abuse_fail ''no_self_dealing'' ''Reviewer and contributor are the same identity''
      else abuse_pass ''no_self_dealing'')"

definition checkNoFabricatedWork :: "DharmaContributionRecord \<Rightarrow> AbuseCheck" where
  "checkNoFabricatedWork record =
     (if length (dc_receiptDigests record) = 0 \<and> dc_evidenceQuality record \<noteq> EQ_low
      then abuse_fail ''no_fabricated_work''
        ''Contribution claims medium/high quality with zero evidence receipts''
      else abuse_pass ''no_fabricated_work'')"

text \<open>The inner loop over the existing records, and the outer one over the digests.\<close>

fun duplicate_in :: "string \<Rightarrow> string \<Rightarrow> DharmaContributionRecord list \<Rightarrow> string option" where
  "duplicate_in own digest [] = None"
| "duplicate_in own digest (e # es) =
     (if dc_contributionId e = own then duplicate_in own digest es
      else if digest \<in> set (dc_receiptDigests e) then Some (dc_contributionId e)
      else duplicate_in own digest es)"

fun duplicate_loop ::
  "string \<Rightarrow> string list \<Rightarrow> DharmaContributionRecord list \<Rightarrow> (string \<times> string) option" where
  "duplicate_loop own [] es = None"
| "duplicate_loop own (d # ds) es =
     (case duplicate_in own d es of Some i \<Rightarrow> Some (d, i) | None \<Rightarrow> duplicate_loop own ds es)"

definition checkNoDuplicateReceipt ::
  "DharmaContributionRecord \<Rightarrow> DharmaContributionRecord list \<Rightarrow> AbuseCheck" where
  "checkNoDuplicateReceipt record existing =
     (case duplicate_loop (dc_contributionId record) (dc_receiptDigests record) existing of
        Some (digest, other) \<Rightarrow>
          abuse_fail ''no_duplicate_receipt''
            (''Receipt digest '' @ quoted digest @ '' already used by contribution '' @ quoted other)
      | None \<Rightarrow> abuse_pass ''no_duplicate_receipt'')"

definition contributor_counts :: "DharmaContributionRecord list \<Rightarrow> (string \<times> nat) list" where
  "contributor_counts records =
     foldl (\<lambda>counts r. count_up (dc_contributorIdentityDigest r) counts) [] records"

definition checkNoComputeDominance :: "DharmaContributionRecord list \<Rightarrow> AbuseCheck" where
  "checkNoComputeDominance records =
     (if length records = 0 then abuse_pass ''no_compute_dominance''
      else let counts = contributor_counts records;
               threshold = num_mul (of_nat (length records)) (fl (4 / 5))
           in (case List.find (\<lambda>(contributor, count). of_nat count > threshold) counts of
                 Some (contributor, count) \<Rightarrow>
                   abuse_fail ''no_compute_dominance''
                     (''Contributor '' @ quoted contributor @ '' accounts for '' @ show_nat count @
                      ''/'' @ show_nat (length records) @ '' contributions (>80%)'')
               | None \<Rightarrow> abuse_pass ''no_compute_dominance''))"

definition runAbuseChecks ::
  "DharmaContributionRecord \<Rightarrow> DharmaContributionRecord list \<Rightarrow> string \<Rightarrow> AbuseCheck list" where
  "runAbuseChecks record existing reviewerId =
     [checkNoSelfDealing record reviewerId,
      checkNoFabricatedWork record,
      checkNoDuplicateReceipt record existing,
      checkNoComputeDominance existing]"

section \<open>Session hooks\<close>

definition commandKindToContributionClass :: "CommandKind \<Rightarrow> ContributionClass" where
  "commandKindToContributionClass kind =
     (case kind of
        CK_write_file \<Rightarrow> CC_work_product
      | CK_apply_patch \<Rightarrow> CC_work_product
      | CK_create_overlay \<Rightarrow> CC_work_product
      | CK_merge_overlay \<Rightarrow> CC_work_product
      | CK_execute_command \<Rightarrow> CC_compute_lease
      | CK_request_compute_lease \<Rightarrow> CC_compute_lease
      | CK_cancel_compute_lease \<Rightarrow> CC_compute_lease
      | CK_approve_compute_lease \<Rightarrow> CC_moderation_action
      | CK_approve_escalation \<Rightarrow> CC_moderation_action
      | CK_inspect_workspace \<Rightarrow> CC_reproduction_evidence
      | CK_read_file \<Rightarrow> CC_reproduction_evidence
      | CK_export_artifact \<Rightarrow> CC_artifact_contribution
      | CK_invite_participant \<Rightarrow> CC_session_stewardship
      | _ \<Rightarrow> CC_work_product)"

record ContributionHookContext =
  hc_sessionId :: string
  hc_contributorIdentityDigest :: string
  hc_store :: ContributionStore

definition createContributionHookContext :: "string \<Rightarrow> string \<Rightarrow> ContributionHookContext" where
  "createContributionHookContext sessionId contributorDigest =
     \<lparr>hc_sessionId = sessionId, hc_contributorIdentityDigest = contributorDigest,
      hc_store = createContributionStore\<rparr>"

definition command_contribution ::
  "millis \<Rightarrow> ContributionHookContext \<Rightarrow> SessionCommandRequest \<Rightarrow> SessionCommandReceipt \<Rightarrow>
   DharmaContributionRecord" where
  "command_contribution nowMs context request receipt =
     \<lparr>dc_contributionId = ''contrib-'' @ cq_requestId request,
      dc_sessionId = hc_sessionId context,
      dc_contributorIdentityDigest = hc_contributorIdentityDigest context,
      dc_contributionClass = commandKindToContributionClass (cq_commandKind request),
      dc_description = CommandKind_str (cq_commandKind request) @ '' command completed'',
      dc_receiptDigests = [ck_receiptId receipt],
      dc_acceptedBy = None,
      dc_acceptedAt = None,
      dc_evidenceQuality = EQ_medium,
      dc_resourceCostSummary = None,
      dc_outcomeRelation = cq_requestId request,
      dc_codexEligibility = False,
      dc_visibilityClass = VC_session,
      dc_createdAt = Iso nowMs\<rparr>"

definition recordContributionFromCommand ::
  "millis \<Rightarrow> ContributionHookContext \<Rightarrow> SessionCommandRequest \<Rightarrow> SessionCommandReceipt \<Rightarrow>
   ContributionHookContext \<times> DharmaContributionRecord" where
  "recordContributionFromCommand nowMs context request receipt =
     (let record = command_contribution nowMs context request receipt;
          newStore = addContribution (hc_store context) record
      in (context\<lparr>hc_store := newStore\<rparr>, record))"

definition acceptContributionRecord ::
  "string \<Rightarrow> ContributionHookContext \<Rightarrow> string \<Rightarrow> string \<Rightarrow> ContributionHookContext" where
  "acceptContributionRecord now context contributionId acceptedBy =
     (case acceptContribution now (hc_store context) contributionId acceptedBy of
        None \<Rightarrow> context
      | Some updated \<Rightarrow> context\<lparr>hc_store := addContribution (hc_store context) updated\<rparr>)"

section \<open>Earned profiles\<close>

definition CONTRIBUTION_THRESHOLDS :: "(GrantProfile \<times> nat \<times> ContributionClass list) list" where
  "CONTRIBUTION_THRESHOLDS =
     [(GP_observer, 0, []),
      (GP_reviewer, 3, [CC_review_evidence]),
      (GP_contributor, 5, [CC_work_product]),
      (GP_test_runner, 3, [CC_reproduction_evidence]),
      (GP_maintainer, 10, [CC_work_product, CC_review_evidence]),
      (GP_session_coowner, 20, [CC_work_product, CC_review_evidence, CC_session_stewardship])]"

definition getEarnedProfile :: "DharmaContributionRecord list \<Rightarrow> GrantProfile" where
  "getEarnedProfile records =
     (let acceptedRecords = List.filter (\<lambda>r. dc_acceptedAt r \<noteq> None) records;
          byClass = foldl (\<lambda>counts r. count_up (dc_contributionClass r) counts) [] acceptedRecords;
          total = length acceptedRecords;
          profiles = rev CONTRIBUTION_THRESHOLDS
      in (case List.find (\<lambda>(profile, minContributions, requiredClasses).
                 total \<ge> minContributions \<and>
                 list_all (\<lambda>c. nullish (map_get byClass c) 0 > 0) requiredClasses) profiles of
            Some (profile, _, _) \<Rightarrow> profile
          | None \<Rightarrow> GP_observer))"

definition getRequiredContributionsForProfile :: "GrantProfile \<Rightarrow> nat option" where
  "getRequiredContributionsForProfile profile = map_option fst (map_of CONTRIBUTION_THRESHOLDS profile)"

section \<open>Counting tables\<close>

lemma count_table_inv:
  "map_inv c \<Longrightarrow> map_inv (foldl (\<lambda>counts r. count_up (f r) counts) c rs)"
  by (induction rs arbitrary: c) (simp_all add: count_up_def)

lemma count_table_get:
  "nullish (map_get (foldl (\<lambda>counts r. count_up (f r) counts) c rs) k) 0 =
     nullish (map_get c k) 0 + length (List.filter (\<lambda>r. f r = k) rs)"
proof (induction rs arbitrary: c)
  case (Cons r rs)
  have "nullish (map_get (count_up (f r) c) k) 0 =
      nullish (map_get c k) 0 + (if f r = k then 1 else 0)" by (simp add: count_up_def)
  with Cons [of "count_up (f r) c"] show ?case by simp
qed simp

lemma count_table_keys:
  "fst ` set (foldl (\<lambda>counts r. count_up (f r) counts) c rs) = fst ` set c \<union> f ` set rs"
  by (induction rs arbitrary: c) (auto simp: count_up_def keys_map_set)

lemma count_table_exact:
  "map_of (foldl (\<lambda>counts r. count_up (f r) counts) [] rs) k =
     (if k \<in> f ` set rs then Some (length (List.filter (\<lambda>r. f r = k) rs)) else None)"
proof -
  let ?c = "foldl (\<lambda>counts r. count_up (f r) counts) [] rs"
  have g: "nullish (map_get ?c k) 0 = length (List.filter (\<lambda>r. f r = k) rs)"
    using count_table_get [of f "[]" rs k] by simp
  have k: "map_get ?c k = None \<longleftrightarrow> k \<notin> f ` set rs"
    using count_table_keys [of f "[]" rs] by (auto simp: map_get_def map_of_eq_None_iff)
  show ?thesis
  proof (cases "map_get ?c k")
    case None
    with k show ?thesis by (simp add: map_get_def)
  next
    case (Some n)
    with k have "k \<in> f ` set rs" by (metis option.distinct(1))
    with Some g show ?thesis by (simp add: map_get_def)
  qed
qed

section \<open>Properties\<close>

subsection \<open>Summaries\<close>

definition summary_of :: "DharmaContributionRecord list \<Rightarrow> summary_loop" where
  "summary_of rs =
     \<lparr>lp_contributors = js_unique (List.map dc_contributorIdentityDigest rs),
      lp_accepted = length (List.filter (\<lambda>r. dc_acceptedBy r \<noteq> None) rs),
      lp_pending = length (List.filter (\<lambda>r. dc_acceptedBy r = None) rs),
      lp_byClass = foldl (\<lambda>counts r. count_up (dc_contributionClass r) counts) [] rs,
      lp_computeMs = sum_list (List.map (\<lambda>r. case dc_resourceCostSummary r of None \<Rightarrow> 0
         | Some c \<Rightarrow> nullish (rk_computeMs c) 0) rs),
      lp_codex = length (List.filter dc_codexEligibility rs)\<rparr>"

lemma set_add_all_snoc:
  "set_add_all acc (xs @ [x]) = (let ys = set_add_all acc xs in if x \<in> set ys then ys else ys @ [x])"
  by (induction xs arbitrary: acc) (simp_all add: Let_def)

lemma summary_step_of: "summary_step (summary_of rs) r = summary_of (rs @ [r])"
proof -
  have "js_unique (List.map dc_contributorIdentityDigest (rs @ [r])) =
      (let ys = js_unique (List.map dc_contributorIdentityDigest rs)
       in if dc_contributorIdentityDigest r \<in> set ys then ys else ys @ [dc_contributorIdentityDigest r])"
    by (simp add: js_unique_def set_add_all_snoc)
  then show ?thesis by (simp add: summary_step_def summary_of_def Let_def del: set_js_unique)
qed

lemma summary_loop_exact: "foldl summary_step (summary_of []) rs = summary_of rs"
proof (induction rs rule: rev_induct)
  case (snoc r rs)
  then show ?case by (simp add: summary_step_of)
qed simp

text \<open>
  The summary of a session counts what the store holds for it: the distinct contributors, the
  accepted and the pending records (which together are all of them), the records of each class that
  occurs, the compute time and the records marked for the Codex.
\<close>

theorem session_summary_exact:
  fixes store sessionId
  defines "rs \<equiv> getContributionsBySession store sessionId" and "s \<equiv> getSessionSummary store sessionId"
  shows "su_contributorCount s = card (dc_contributorIdentityDigest ` set rs) \<and>
    su_acceptedCount s + su_pendingCount s = length rs \<and>
    su_pendingCount s = length (List.filter (\<lambda>r. dc_acceptedBy r = None) rs) \<and>
    map_of (su_byClass s) c = (if c \<in> dc_contributionClass ` set rs
      then Some (length (List.filter (\<lambda>r. dc_contributionClass r = c) rs)) else None) \<and>
    su_codexEligibleCount s = length (List.filter dc_codexEligibility rs)"
proof -
  have loop: "foldl summary_step \<lparr>lp_contributors = [], lp_accepted = 0, lp_pending = 0,
      lp_byClass = [], lp_computeMs = 0, lp_codex = 0\<rparr> rs = summary_of rs"
    using summary_loop_exact [of rs] by (simp add: summary_of_def js_unique_def)
  have "s = (let l = summary_of rs in \<lparr>su_sessionId = sessionId,
      su_contributorCount = length (lp_contributors l), su_acceptedCount = lp_accepted l,
      su_pendingCount = lp_pending l, su_byClass = lp_byClass l,
      su_computeMsTotal = lp_computeMs l, su_codexEligibleCount = lp_codex l\<rparr>)"
    unfolding s_def getSessionSummary_def by (simp add: loop rs_def [symmetric])
  moreover have "length (List.filter (\<lambda>r. dc_acceptedBy r \<noteq> None) rs) +
      length (List.filter (\<lambda>r. dc_acceptedBy r = None) rs) = length rs"
    using sum_length_filter_compl [of "\<lambda>r. dc_acceptedBy r \<noteq> None" rs] by simp
  ultimately show ?thesis
    by (simp add: Let_def summary_of_def length_js_unique count_table_exact)
qed

subsection \<open>Abuse checks\<close>

lemma contributor_counts_exact:
  "map_of (contributor_counts rs) k =
     (if k \<in> dc_contributorIdentityDigest ` set rs
      then Some (length (List.filter (\<lambda>r. dc_contributorIdentityDigest r = k) rs)) else None)"
  unfolding contributor_counts_def by (rule count_table_exact)

lemma contributor_counts_set:
  "(k, n) \<in> set (contributor_counts rs) \<longleftrightarrow>
     k \<in> dc_contributorIdentityDigest ` set rs \<and>
     n = length (List.filter (\<lambda>r. dc_contributorIdentityDigest r = k) rs)"
proof -
  have "map_inv (contributor_counts rs)" unfolding contributor_counts_def by (rule count_table_inv) simp
  then have "(k, n) \<in> set (contributor_counts rs) \<longleftrightarrow> map_of (contributor_counts rs) k = Some n" by simp
  then show ?thesis unfolding contributor_counts_exact by auto
qed

text \<open>
  The dominance check fails exactly when some contributor made more than eighty per cent of the
  given records, although the limit is a rounded product with the double next to 0.8, and then that
  contributor is the only one, so it does not matter in which order an object lists its keys.
\<close>

lemma dominance_exact:
  assumes "length rs < 2 ^ 50"
  shows "(\<not> ak_passed (checkNoComputeDominance rs) \<longleftrightarrow>
      (\<exists>k. 5 * length (List.filter (\<lambda>r. dc_contributorIdentityDigest r = k) rs) > 4 * length rs)) \<and>
    (\<forall>k k'. 5 * length (List.filter (\<lambda>r. dc_contributorIdentityDigest r = k) rs) > 4 * length rs \<and>
       5 * length (List.filter (\<lambda>r. dc_contributorIdentityDigest r = k') rs) > 4 * length rs \<longrightarrow> k = k')"
proof (intro conjI allI impI)
  let ?n = "\<lambda>k. length (List.filter (\<lambda>r. dc_contributorIdentityDigest r = k) rs)"
  let ?big = "\<lambda>(k :: string, n). (of_nat n :: rat) > num_mul (of_nat (length rs)) (fl (4 / 5))"
  show "\<not> ak_passed (checkNoComputeDominance rs) \<longleftrightarrow> (\<exists>k. 5 * ?n k > 4 * length rs)"
  proof (cases "rs = []")
    case False
    have mem: "?n k > 0 \<Longrightarrow> k \<in> dc_contributorIdentityDigest ` set rs" for k
      by (auto simp: filter_empty_conv)
    have "\<not> ak_passed (checkNoComputeDominance rs) \<longleftrightarrow> List.find ?big (contributor_counts rs) \<noteq> None"
      using False by (auto simp: checkNoComputeDominance_def abuse_pass_def abuse_fail_def Let_def split: option.splits)
    also have "\<dots> \<longleftrightarrow> (\<exists>e\<in>set (contributor_counts rs). ?big e)" by (auto simp: find_None_iff)
    also have "\<dots> \<longleftrightarrow> (\<exists>k. k \<in> dc_contributorIdentityDigest ` set rs \<and> 5 * ?n k > 4 * length rs)"
      unfolding eighty_percent_exact [OF assms] by (fastforce simp: contributor_counts_set)
    also have "\<dots> \<longleftrightarrow> (\<exists>k. 5 * ?n k > 4 * length rs)"
      using mem by (metis less_nat_zero_code mult_0_right not_gr_zero)
    finally show ?thesis .
  qed (simp add: checkNoComputeDominance_def abuse_pass_def)
  fix k k' assume big: "5 * ?n k > 4 * length rs \<and> 5 * ?n k' > 4 * length rs"
  show "k = k'"
  proof (rule ccontr)
    assume "k \<noteq> k'"
    then have "?n k + ?n k' \<le> length rs" by (induction rs) auto
    with big show False by linarith
  qed
qed

definition sample_contribution :: "string \<Rightarrow> string \<Rightarrow> ContributionClass \<Rightarrow> DharmaContributionRecord" where
  "sample_contribution i who cls =
     \<lparr>dc_contributionId = i, dc_sessionId = ''s'', dc_contributorIdentityDigest = who,
      dc_contributionClass = cls, dc_description = [], dc_receiptDigests = [''r'' @ i],
      dc_acceptedBy = Some ''owner'', dc_acceptedAt = Some ''2026'', dc_evidenceQuality = EQ_medium,
      dc_resourceCostSummary = None, dc_outcomeRelation = [], dc_codexEligibility = False,
      dc_visibilityClass = VC_session, dc_createdAt = Iso 0\<rparr>"

lemma duplicate_in_None:
  "duplicate_in own d es = None \<longleftrightarrow>
     (\<forall>e\<in>set es. dc_contributionId e \<noteq> own \<longrightarrow> d \<notin> set (dc_receiptDigests e))"
  by (induction es) auto

lemma duplicate_loop_None:
  "duplicate_loop own ds es = None \<longleftrightarrow>
     (\<forall>d\<in>set ds. \<forall>e\<in>set es. dc_contributionId e \<noteq> own \<longrightarrow> d \<notin> set (dc_receiptDigests e))"
proof (induction ds)
  case (Cons d ds)
  show ?case
  proof (cases "duplicate_in own d es")
    case None
    with Cons show ?thesis using duplicate_in_None [of own d es] by simp
  next
    case (Some i)
    then have "\<not> (\<forall>e\<in>set es. dc_contributionId e \<noteq> own \<longrightarrow> d \<notin> set (dc_receiptDigests e))"
      using duplicate_in_None [of own d es] by simp
    with Some show ?thesis by auto
  qed
qed simp

text \<open>
  The four abuse checks all pass exactly when the reviewer is not the contributor, a claim of
  medium or high quality has a receipt, none of the receipts is used by another contribution, and no
  contributor made more than eighty per cent of the existing records.
\<close>

theorem abuse_checks_exact:
  assumes "length existing < 2 ^ 50"
  shows "list_all ak_passed (runAbuseChecks record existing reviewerId) \<longleftrightarrow>
    dc_contributorIdentityDigest record \<noteq> reviewerId \<and>
    (dc_receiptDigests record \<noteq> [] \<or> dc_evidenceQuality record = EQ_low) \<and>
    (\<forall>d\<in>set (dc_receiptDigests record). \<forall>e\<in>set existing.
       dc_contributionId e = dc_contributionId record \<or> d \<notin> set (dc_receiptDigests e)) \<and>
    \<not> (\<exists>k. 5 * length (List.filter (\<lambda>r. dc_contributorIdentityDigest r = k) existing) > 4 * length existing)"
proof -
  have all: "list_all ak_passed (runAbuseChecks record existing reviewerId) \<longleftrightarrow>
      ak_passed (checkNoSelfDealing record reviewerId) \<and> ak_passed (checkNoFabricatedWork record) \<and>
      ak_passed (checkNoDuplicateReceipt record existing) \<and> ak_passed (checkNoComputeDominance existing)"
    by (simp add: runAbuseChecks_def)
  have dup: "ak_passed (checkNoDuplicateReceipt record existing) \<longleftrightarrow>
      duplicate_loop (dc_contributionId record) (dc_receiptDigests record) existing = None"
    by (auto simp: checkNoDuplicateReceipt_def abuse_pass_def abuse_fail_def split: option.splits)
  have self: "ak_passed (checkNoSelfDealing record reviewerId) \<longleftrightarrow>
      dc_contributorIdentityDigest record \<noteq> reviewerId"
    by (simp add: checkNoSelfDealing_def abuse_pass_def abuse_fail_def)
  have fab: "ak_passed (checkNoFabricatedWork record) \<longleftrightarrow>
      dc_receiptDigests record \<noteq> [] \<or> dc_evidenceQuality record = EQ_low"
    by (simp add: checkNoFabricatedWork_def abuse_pass_def abuse_fail_def)
  have dom: "ak_passed (checkNoComputeDominance existing) \<longleftrightarrow>
      \<not> (\<exists>k. 5 * length (List.filter (\<lambda>r. dc_contributorIdentityDigest r = k) existing) > 4 * length existing)"
    using conjunct1 [OF dominance_exact [OF assms]] by blast
  show ?thesis unfolding all self fab dup dom duplicate_loop_None by (simp only: imp_conv_disj not_not)
qed

theorem abuse_checks_exact_witness:
  "list_all ak_passed (runAbuseChecks (sample_contribution ''2'' ''b'' CC_work_product)
      [sample_contribution ''1'' ''a'' CC_work_product, sample_contribution ''3'' ''c'' CC_work_product] ''o'')"
proof -
  let ?es = "[sample_contribution ''1'' ''a'' CC_work_product, sample_contribution ''3'' ''c'' CC_work_product]"
  have "length ?es < 2 ^ 50" by simp
  moreover have "\<not> 5 * length (List.filter (\<lambda>r. dc_contributorIdentityDigest r = k) ?es) > 4 * length ?es" for k
    by (auto simp: sample_contribution_def)
  ultimately show ?thesis
    using abuse_checks_exact [of ?es "sample_contribution ''2'' ''b'' CC_work_product" "''o''"]
    by (auto simp: sample_contribution_def)
qed

subsection \<open>Earned profiles\<close>

definition accepted_of :: "ContributionClass \<Rightarrow> DharmaContributionRecord list \<Rightarrow> bool" where
  "accepted_of c rs \<longleftrightarrow> (\<exists>r\<in>set rs. dc_acceptedAt r \<noteq> None \<and> dc_contributionClass r = c)"

definition accepted_number :: "DharmaContributionRecord list \<Rightarrow> nat" where
  "accepted_number rs = length (List.filter (\<lambda>r. dc_acceptedAt r \<noteq> None) rs)"

text \<open>
  The profile a contributor earns from the accepted records is the first of co-owner, maintainer,
  test runner, contributor, reviewer whose count and classes are reached,
  and observer if none is.
\<close>

lemma earned_profile_exact:
  "getEarnedProfile rs =
     (let n = accepted_number rs; has = (\<lambda>c. accepted_of c rs)
      in if n \<ge> 20 \<and> has CC_work_product \<and> has CC_review_evidence \<and> has CC_session_stewardship
           then GP_session_coowner
         else if n \<ge> 10 \<and> has CC_work_product \<and> has CC_review_evidence then GP_maintainer
         else if n \<ge> 3 \<and> has CC_reproduction_evidence then GP_test_runner
         else if n \<ge> 5 \<and> has CC_work_product then GP_contributor
         else if n \<ge> 3 \<and> has CC_review_evidence then GP_reviewer
         else GP_observer)"
proof -
  let ?acc = "List.filter (\<lambda>r. dc_acceptedAt r \<noteq> None) rs"
  have has: "nullish (map_get (foldl (\<lambda>counts r. count_up (dc_contributionClass r) counts) [] ?acc) c) 0 > 0
      \<longleftrightarrow> accepted_of c rs" for c
    using count_table_get [of dc_contributionClass "[]" ?acc c]
    by (auto simp: accepted_of_def filter_empty_conv)
  show ?thesis
    unfolding getEarnedProfile_def CONTRIBUTION_THRESHOLDS_def Let_def accepted_number_def has
    by simp
qed

text \<open>
  Earning more can take rights away.  A contributor with fewer than nine accepted records who has
  the contributor profile and gets a reproduction accepted has the test runner profile afterwards,
  and with it no longer the capability to write to the workspace.
\<close>

theorem reproduction_demotes_contributor:
  assumes "getEarnedProfile rs = GP_contributor" and "accepted_number rs < 9"
    and "dc_acceptedAt r \<noteq> None" and "dc_contributionClass r = CC_reproduction_evidence"
  shows "getEarnedProfile (rs @ [r]) = GP_test_runner \<and>
    Cap_workspace workspace_write \<in> set (GRANT_PROFILES GP_contributor) \<and>
    Cap_workspace workspace_write \<notin> set (GRANT_PROFILES GP_test_runner)"
proof -
  have n: "accepted_number (rs @ [r]) = Suc (accepted_number rs)"
    using assms(3) by (simp add: accepted_number_def)
  have "accepted_number rs \<ge> 5"
    using assms(1) unfolding earned_profile_exact Let_def by (auto split: if_splits)
  moreover have "accepted_of CC_reproduction_evidence (rs @ [r])" using assms(3,4) by (simp add: accepted_of_def)
  ultimately have "getEarnedProfile (rs @ [r]) = GP_test_runner"
    using assms(2) n unfolding earned_profile_exact Let_def by simp
  then show ?thesis by simp
qed

theorem reproduction_demotes_contributor_witness:
  "getEarnedProfile (replicate 5 (sample_contribution ''1'' ''a'' CC_work_product) @
     [sample_contribution ''2'' ''a'' CC_reproduction_evidence]) = GP_test_runner"
proof -
  let ?rs = "replicate 5 (sample_contribution ''1'' ''a'' CC_work_product)"
  have "getEarnedProfile ?rs = GP_contributor"
    unfolding earned_profile_exact
    by (simp add: accepted_number_def accepted_of_def sample_contribution_def Let_def)
  moreover have "accepted_number ?rs < 9" by (simp add: accepted_number_def sample_contribution_def)
  ultimately show ?thesis
    using reproduction_demotes_contributor [of ?rs "sample_contribution ''2'' ''a'' CC_reproduction_evidence"]
    by (simp add: sample_contribution_def)
qed

subsection \<open>Contexts of the hooks\<close>

text \<open>The contexts a session builds up: commands are recorded and contributions accepted.\<close>

inductive hook_context :: "string \<Rightarrow> string \<Rightarrow> ContributionHookContext \<Rightarrow> bool" for sessionId who where
  fresh: "hook_context sessionId who (createContributionHookContext sessionId who)"
| recorded: "hook_context sessionId who ctx \<Longrightarrow>
    hook_context sessionId who (fst (recordContributionFromCommand nowMs ctx request receipt))"
| approved: "hook_context sessionId who ctx \<Longrightarrow>
    hook_context sessionId who (acceptContributionRecord now ctx i approver)"

lemmas hook_defs = createContributionHookContext_def createContributionStore_def Let_def
  recordContributionFromCommand_def acceptContributionRecord_def addContribution_def
  command_contribution_def acceptContribution_def

definition hook_ok :: "string \<Rightarrow> string \<Rightarrow> string \<Rightarrow> DharmaContributionRecord \<Rightarrow> bool" where
  "hook_ok sessionId who k r \<longleftrightarrow> dc_contributionId r = k \<and> dc_sessionId r = sessionId \<and>
     dc_contributorIdentityDigest r = who \<and> \<not> dc_codexEligibility r"

lemma hook_invariant:
  "hook_context sessionId who ctx \<Longrightarrow> hc_sessionId ctx = sessionId \<and>
     hc_contributorIdentityDigest ctx = who \<and> map_inv (hc_store ctx) \<and>
     (\<forall>k r. map_get (hc_store ctx) k = Some r \<longrightarrow> hook_ok sessionId who k r)"
proof (induction rule: hook_context.induct)
  case fresh
  show ?case by (simp add: hook_defs)
next
  case (recorded ctx nowMs request receipt)
  then show ?case by (auto simp: hook_defs hook_ok_def)
next
  case (approved ctx now i approver)
  then show ?case by (auto simp: hook_defs hook_ok_def split: option.splits)
qed

text \<open>
  In every context the hooks can build, each record is stored under its own identifier and
  belongs to the session and the contributor of the context, and none of them is ever eligible for
  the Codex, whatever is accepted and whatever the policy: no operation sets the flag.
\<close>

theorem hooks_never_codex_eligible:
  assumes "hook_context sessionId who ctx"
  shows "(\<forall>k r. getContribution (hc_store ctx) k = Some r \<longrightarrow>
      dc_contributionId r = k \<and> dc_sessionId r = sessionId \<and> dc_contributorIdentityDigest r = who \<and>
      \<not> isCodexEligible nowMs r policy) \<and>
    su_codexEligibleCount (getSessionSummary (hc_store ctx) s) = 0"
proof
  note inv = hook_invariant [OF assms]
  then show "\<forall>k r. getContribution (hc_store ctx) k = Some r \<longrightarrow>
      dc_contributionId r = k \<and> dc_sessionId r = sessionId \<and> dc_contributorIdentityDigest r = who \<and>
      \<not> isCodexEligible nowMs r policy"
    by (auto simp: getContribution_def hook_ok_def isCodexEligible_def)
  have "\<not> dc_codexEligibility r" if "r \<in> set (getContributionsBySession (hc_store ctx) s)" for r
    using that inv map_values_iff [of "hc_store ctx" r]
    by (auto simp: getContributionsBySession_def hook_ok_def)
  then have "List.filter dc_codexEligibility (getContributionsBySession (hc_store ctx) s) = []"
    by (simp add: filter_empty_conv)
  moreover have "foldl summary_step \<lparr>lp_contributors = [], lp_accepted = 0, lp_pending = 0,
      lp_byClass = [], lp_computeMs = 0, lp_codex = 0\<rparr> rs = summary_of rs" for rs
    using summary_loop_exact [of rs] by (simp add: summary_of_def js_unique_def)
  ultimately show "su_codexEligibleCount (getSessionSummary (hc_store ctx) s) = 0"
    by (simp add: getSessionSummary_def summary_of_def Let_def)
qed

theorem hooks_never_codex_eligible_witness:
  "su_codexEligibleCount (getSessionSummary
     (hc_store (acceptContributionRecord ''t'' (createContributionHookContext ''s'' ''w'') ''x'' ''o'')) ''s'') = 0"
  using hooks_never_codex_eligible [OF hook_context.approved [OF hook_context.fresh]] by blast

text \<open>
  Accepting a contribution through the hooks stores the record with the approver and the time,
  changes no other record and adds none; an unknown identifier changes nothing.
\<close>

theorem accept_contribution_effect:
  assumes "map_inv (hc_store ctx)"
    and "\<forall>k r. getContribution (hc_store ctx) k = Some r \<longrightarrow> dc_contributionId r = k"
  shows "getContribution (hc_store (acceptContributionRecord now ctx i approver)) k =
    (case getContribution (hc_store ctx) k of
       None \<Rightarrow> None
     | Some r \<Rightarrow> Some (if k = i then r\<lparr>dc_acceptedBy := Some approver, dc_acceptedAt := Some now\<rparr> else r))"
  using assms by (auto simp: getContribution_def hook_defs split: option.splits)

theorem accept_contribution_effect_witness:
  "getContribution (hc_store (acceptContributionRecord ''t''
      \<lparr>hc_sessionId = ''s'', hc_contributorIdentityDigest = ''w'',
       hc_store = [(''1'', sample_contribution ''1'' ''w'' CC_work_product)]\<rparr> ''1'' ''o'')) ''1'' =
   Some (sample_contribution ''1'' ''w'' CC_work_product\<lparr>dc_acceptedBy := Some ''o'', dc_acceptedAt := Some ''t''\<rparr>)"
proof -
  let ?ctx = "\<lparr>hc_sessionId = ''s'', hc_contributorIdentityDigest = ''w'',
       hc_store = [(''1'', sample_contribution ''1'' ''w'' CC_work_product)]\<rparr>"
  have "map_inv (hc_store ?ctx)" by simp
  moreover have "\<forall>k r. getContribution (hc_store ?ctx) k = Some r \<longrightarrow> dc_contributionId r = k"
    by (auto simp: getContribution_def map_get_def sample_contribution_def)
  ultimately show ?thesis
    using accept_contribution_effect [of ?ctx "''t''" "''1''" "''o''" "''1''"]
    by (simp add: getContribution_def map_get_def)
qed

end
