(* ===== verification/Dharma_Authority.thy ===== *)
theory Dharma_Authority imports Dharma_Grants Dharma_Contribution begin

text \<open>
  Who may do what in a session: the command controller (\<open>dharma/session/session-controller.ts\<close>),
  which decides about a request from the session, its members and its grants, and the service that
  keeps them (\<open>SessionApiImpl\<close> of \<open>session-api.ts\<close>).  The service is a state of maps; every operation
  that changes it is a definition, and \<open>api_step\<close> is the relation of all of them.
\<close>

section \<open>The command controller\<close>

record SessionContext =
  sx_session :: DharmaSession
  sx_members :: "SessionMember list"
  sx_grants :: "SessionAuthorityGrant list"
  sx_currentKeyEpoch :: int

datatype ScopeKind = SK_path | SK_command | SK_network | SK_env | SK_budget | SK_none

definition getScopeKind :: "CommandKind \<Rightarrow> ScopeKind" where
  "getScopeKind commandKind =
     (case commandKind of
        CK_inspect_workspace \<Rightarrow> SK_path
      | CK_read_file \<Rightarrow> SK_path
      | CK_write_file \<Rightarrow> SK_path
      | CK_apply_patch \<Rightarrow> SK_path
      | CK_create_overlay \<Rightarrow> SK_path
      | CK_merge_overlay \<Rightarrow> SK_path
      | CK_discard_overlay \<Rightarrow> SK_path
      | CK_execute_command \<Rightarrow> SK_command
      | CK_terminate_command \<Rightarrow> SK_command
      | CK_request_compute_lease \<Rightarrow> SK_budget
      | CK_approve_compute_lease \<Rightarrow> SK_budget
      | CK_cancel_compute_lease \<Rightarrow> SK_budget
      | _ \<Rightarrow> SK_none)"

text \<open>The results \<open>{ allowed, reason }\<close>, \<open>{ active, reason }\<close> and \<open>{ matches, reason }\<close>.\<close>

type_synonym check_result = "bool \<times> string option"

definition checkSessionState :: "SessionContext \<Rightarrow> SessionCommandRequest \<Rightarrow> check_result" where
  "checkSessionState context request =
     (let state = se_lifecycleState (sx_session context)
      in if isTerminalState state
         then (False, Some (''Session is in terminal state: '' @ SessionLifecycleState_str state))
         else if \<not> acceptsCommands state
         then (False, Some (''Session state does not accept commands: '' @ SessionLifecycleState_str state))
         else (True, None))"

definition checkGrant ::
  "string \<Rightarrow> SessionContext \<Rightarrow> SessionCommandRequest \<Rightarrow> SessionAuthorityGrant option \<times> string option" where
  "checkGrant now context request =
     (case List.find (\<lambda>g. ag_grantId g = cq_grantId request) (sx_grants context) of
        None \<Rightarrow> (None, Some (''Grant not found: '' @ cq_grantId request))
      | Some grant \<Rightarrow>
          if \<not> isGrantValid now grant (sx_currentKeyEpoch context)
          then (None, Some ''Grant is not valid (expired, revoked, or wrong epoch)'')
          else (Some grant, None))"

definition checkMembership :: "SessionContext \<Rightarrow> SessionCommandRequest \<Rightarrow> check_result" where
  "checkMembership context request =
     (case List.find (\<lambda>m. me_membershipId m = cq_actorMembershipId request) (sx_members context) of
        None \<Rightarrow> (False, Some (''Member not found: '' @ cq_actorMembershipId request))
      | Some member \<Rightarrow>
          if \<not> isMemberActive member
          then (False, Some (''Member is not active: '' @ SessionMembershipStatus_str (me_status member)))
          else (True, None))"

definition checkKeyEpoch :: "SessionContext \<Rightarrow> SessionCommandRequest \<Rightarrow> check_result" where
  "checkKeyEpoch context request =
     (if cq_sessionKeyEpoch request \<noteq> sx_currentKeyEpoch context
      then (False, Some (''Key epoch mismatch: request='' @ show_int (cq_sessionKeyEpoch request) @
                         '', current='' @ show_int (sx_currentKeyEpoch context)))
      else (True, None))"

definition no_usage :: ScopeUsage where
  "no_usage = \<lparr>uz_runtimeMs = None, uz_cpuMs = None, uz_memoryBytes = None, uz_diskBytes = None,
     uz_processCount = None, uz_outputBytes = None\<rparr>"

definition checkScope :: "SessionAuthorityGrant \<Rightarrow> SessionCommandRequest \<Rightarrow> check_result" where
  "checkScope grant request =
     (let scope = ag_resourceScope grant; target = cq_targetScope request
      in case getScopeKind (cq_commandKind request) of
           SK_path \<Rightarrow>
             if \<not> isPathAllowed scope target
             then (False, Some (''Path not allowed by grant scope: '' @ target)) else (True, None)
         | SK_command \<Rightarrow>
             if \<not> isCommandAllowed scope target
             then (False, Some (''Command not allowed by grant scope: '' @ target)) else (True, None)
         | SK_network \<Rightarrow>
             if \<not> isNetworkDomainAllowed scope target
             then (False, Some (''Network domain not allowed by grant scope: '' @ target)) else (True, None)
         | SK_env \<Rightarrow>
             if \<not> isEnvironmentVariableAllowed scope target
             then (False, Some (''Environment variable not allowed by grant scope: '' @ target))
             else (True, None)
         | SK_budget \<Rightarrow>
             if \<not> isWithinBudget scope no_usage
             then (False, Some ''Request exceeds grant budget constraints'') else (True, None)
         | SK_none \<Rightarrow> (True, None))"

definition computeDigest :: "string list \<Rightarrow> string" where
  "computeDigest parts = hexDigest (js_join ''|'' parts)"

definition createRejectionReceipt ::
  "string \<Rightarrow> string \<Rightarrow> SessionCommandRequest \<Rightarrow> string \<Rightarrow> SessionCommandReceipt" where
  "createRejectionReceipt now uuid request reason =
     createCommandReceipt now uuid request CD_rejected (\<lambda>r. r\<lparr>ck_denialReason := Some reason\<rparr>)"

definition createAcceptanceReceipt :: "string \<Rightarrow> string \<Rightarrow> SessionCommandRequest \<Rightarrow> SessionCommandReceipt" where
  "createAcceptanceReceipt now uuid request = createCommandReceipt now uuid request CD_accepted (\<lambda>r. r)"

record AuthorityEvaluation =
  va_decision :: CommandDecision
  va_reason :: "string option"
  va_evaluationDigest :: string
  va_contributionRecord :: "DharmaContributionRecord option"

definition reject_with :: "string option \<Rightarrow> string \<Rightarrow> string \<Rightarrow> AuthorityEvaluation" where
  "reject_with reason tag fallback =
     \<lparr>va_decision = CD_rejected, va_reason = reason,
      va_evaluationDigest = computeDigest [tag, nullish reason fallback],
      va_contributionRecord = None\<rparr>"

text \<open>
  The clock is read for the validity of the grant, for the receipt and for the contribution; the
  model uses one reading \<open>nowMs\<close>.  The table of required capabilities has an entry for every command
  kind, so the branch for an unknown kind cannot be taken.
\<close>

definition evaluateCommandAuthority ::
  "millis \<Rightarrow> string \<Rightarrow> SessionContext \<Rightarrow> SessionCommandRequest \<Rightarrow> ContributionHookContext option \<Rightarrow>
   AuthorityEvaluation" where
  "evaluateCommandAuthority nowMs uuid context request contributionCtx =
     (let stateCheck = checkSessionState context request
      in if \<not> fst stateCheck then reject_with (snd stateCheck) ''state'' ''denied''
      else let membershipCheck = checkMembership context request
      in if \<not> fst membershipCheck then reject_with (snd membershipCheck) ''membership'' ''denied''
      else let epochCheck = checkKeyEpoch context request
      in if \<not> fst epochCheck then reject_with (snd epochCheck) ''keyEpoch'' ''mismatch''
      else let grantCheck = checkGrant (toISOString nowMs) context request
      in case fst grantCheck of
           None \<Rightarrow> reject_with (snd grantCheck) ''grant'' ''notFound''
         | Some grant \<Rightarrow>
             let requiredCapability = COMMAND_TO_REQUIRED_CAPABILITY (cq_commandKind request)
             in if \<not> hasCapability grant requiredCapability
                then \<lparr>va_decision = CD_rejected,
                      va_reason = Some (''Grant lacks required capability: '' @ Capability_str requiredCapability),
                      va_evaluationDigest =
                        computeDigest [''capability'', ''missing:'' @ Capability_str requiredCapability],
                      va_contributionRecord = None\<rparr>
                else let scopeCheck = checkScope grant request
                in if \<not> fst scopeCheck then reject_with (snd scopeCheck) ''scope'' ''denied''
                else \<lparr>va_decision = CD_accepted, va_reason = None,
                      va_evaluationDigest = computeDigest
                        [''accepted'', cq_requestId request, CommandKind_str (cq_commandKind request)],
                      va_contributionRecord = map_option (\<lambda>ctx. snd (recordContributionFromCommand nowMs ctx
                        request (createAcceptanceReceipt (toISOString nowMs) uuid request))) contributionCtx\<rparr>)"

definition computeAuthorityDigest :: "SessionContext \<Rightarrow> string" where
  "computeAuthorityDigest context = computeDigest
     ([se_sessionId (sx_session context),
       SessionLifecycleState_str (se_lifecycleState (sx_session context)),
       show_int (sx_currentKeyEpoch context)] @
      sort_strings (List.map (\<lambda>g. ag_grantId g @ '':'' @ show_int (ag_sessionKeyEpoch g)) (sx_grants context)) @
      sort_strings (List.map me_membershipId
        (List.filter (\<lambda>m. me_status m = SM_active) (sx_members context))))"

definition getEffectiveGrantsForMember ::
  "string \<Rightarrow> SessionContext \<Rightarrow> string \<Rightarrow> SessionAuthorityGrant list" where
  "getEffectiveGrantsForMember now context memberIdentity =
     List.filter (\<lambda>g. if ag_subjectIdentityPublicKey g \<noteq> memberIdentity then False
                    else isGrantValid now g (sx_currentKeyEpoch context)) (sx_grants context)"

section \<open>The session service\<close>

datatype BackendKind =
  BK_prism_local | BK_prism_lan | BK_prism_federated | BK_exo | BK_petals_experimental |
  BK_llmd_prism | BK_llmd_external | BK_vllm_external

datatype SessionLeaseStatus =
  LS_pending | LS_active | LS_completed | LS_failed | LS_cancelled | LS_draining

record ComputeLease =
  cl_leaseId :: string
  cl_sessionId :: string
  cl_requesterIdentityPublicKey :: string
  cl_requesterMembershipId :: string
  cl_providerIdentityPublicKey :: "string option"
  cl_backendKind :: BackendKind
  cl_trustTier :: int
  cl_modelArtifactDigest :: string
  cl_workloadClass :: string
  cl_inputDisclosureClass :: string
  cl_inputDigest :: string
  cl_outputDisclosureClass :: string
  cl_maximumTokens :: "int option"
  cl_maximumRuntimeSeconds :: int
  cl_maximumMemoryBytes :: int
  cl_maximumCost :: "int option"
  cl_dharmaCreditAmount :: "int option"
  cl_routingPolicy :: string
  cl_issuedAt :: string
  cl_expiresAt :: string
  cl_revocationEpoch :: int
  cl_status :: SessionLeaseStatus
  cl_signatureChain :: string

record DharmaSessionAggregate =
  sg_aggregateId :: string
  sg_sessionId :: string
  sg_federationId :: string
  sg_ownerIdentityPublicKey :: string
  sg_sourceRevisionDigest :: string
  sg_environmentDigest :: "string option"
  sg_taskTaxonomy :: string
  sg_taskSummaryDigest :: string
  sg_authorityTopologyDigest :: string
  sg_participantRoleSummary :: string
  sg_collaborationTimelineSummary :: string
  sg_approvedActionSummaries :: string
  sg_verificationResults :: string
  sg_acceptedPatchDigests :: "string list"
  sg_executionReceiptDigests :: "string list"
  sg_computeUsageSummary :: string
  sg_outcomeClassification :: string
  sg_contributionReceiptIds :: "string list"
  sg_disclosurePolicy :: string
  sg_redactionManifestDigest :: "string option"
  sg_provenanceChainDigest :: string
  sg_emittedAt :: string
  sg_signatureChain :: "string list"

text \<open>The maps of the service; \<open>aggregates\<close> and \<open>approvals\<close> are never written.\<close>

record SessionApiImpl =
  pi_sessions :: "(string \<times> DharmaSession) list"
  pi_members :: "(string \<times> SessionMember list) list"
  pi_grants :: "(string \<times> SessionAuthorityGrant list) list"
  pi_invitations :: "(string \<times> SessionInvitation list) list"
  pi_commands :: "(string \<times> SessionCommandReceipt list) list"
  pi_approvals :: "(string \<times> string list) list"
  pi_overlays :: "(string \<times> WorkspaceOverlay list) list"
  pi_mutations :: "(string \<times> WorkspaceMutation list) list"
  pi_leases :: "(string \<times> ComputeLease list) list"
  pi_aggregates :: "(string \<times> DharmaSessionAggregate) list"

definition empty_api :: SessionApiImpl where
  "empty_api = \<lparr>pi_sessions = [], pi_members = [], pi_grants = [], pi_invitations = [], pi_commands = [],
     pi_approvals = [], pi_overlays = [], pi_mutations = [], pi_leases = [], pi_aggregates = []\<rparr>"

record SessionCreateConfig =
  zc_federationId :: string
  zc_ownerIdentityPublicKey :: string
  zc_projectReference :: string
  zc_sourceRevision :: string
  zc_sandboxRuntimeKind :: "string option"
  zc_visibility :: "SessionVisibility option"

definition createSession ::
  "string \<Rightarrow> string \<Rightarrow> SessionCreateConfig \<Rightarrow> SessionApiImpl \<Rightarrow> SessionApiImpl \<times> DharmaSession" where
  "createSession now uuid config api =
     (let session =
        \<lparr>se_sessionId = uuid,
         se_federationId = zc_federationId config,
         se_ownerIdentityPublicKey = zc_ownerIdentityPublicKey config,
         se_ownerDeviceId = None,
         se_projectReference = zc_projectReference config,
         se_sourceRevision = zc_sourceRevision config,
         se_sourceTreeDigest = [],
         se_sourceManifestDigest = None,
         se_sandboxRuntimeKind = nullish (zc_sandboxRuntimeKind config) ''local'',
         se_sandboxImageDigest = None,
         se_sandboxPolicyDigest = None,
         se_collaborationPolicyDigest = None,
         se_disclosurePolicyDigest = None,
         se_lifecycleState = SL_draft,
         se_visibility = nullish (zc_visibility config) SV_private,
         se_createdAt = now,
         se_activatedAt = None,
         se_sealedAt = None,
         se_expiresAt = None,
         se_sessionKeyEpoch = 0,
         se_predecessorSessionId = None,
         se_successorSessionId = None\<rparr>
      in (api\<lparr>pi_sessions := map_set uuid session (pi_sessions api)\<rparr>, session))"

definition getSessionApi :: "SessionApiImpl \<Rightarrow> string \<Rightarrow> DharmaSession option" where
  "getSessionApi api sessionId = map_get (pi_sessions api) sessionId"

definition listSessions :: "SessionApiImpl \<Rightarrow> string option \<Rightarrow> DharmaSession list" where
  "listSessions api federationId =
     (case federationId of
        Some f \<Rightarrow> if truthy f then List.filter (\<lambda>s. se_federationId s = f) (map_values (pi_sessions api))
                  else map_values (pi_sessions api)
      | None \<Rightarrow> map_values (pi_sessions api))"

datatype ApiError =
  Session_not_found string | Invitation_invalid "string option" | Transition_refused SessionError

definition updateState ::
  "string \<Rightarrow> string \<Rightarrow> SessionAction \<Rightarrow> SessionApiImpl \<Rightarrow> ApiError + SessionApiImpl \<times> DharmaSession" where
  "updateState now sessionId action api =
     (case map_get (pi_sessions api) sessionId of
        None \<Rightarrow> Inl (Session_not_found sessionId)
      | Some session \<Rightarrow>
          (case applySessionAction (se_lifecycleState session) action of
             Inl e \<Rightarrow> Inl (Transition_refused e)
           | Inr nextState \<Rightarrow>
               let updated = session\<lparr>se_lifecycleState := nextState\<rparr>;
                   updated = (if nextState = SL_active then updated\<lparr>se_activatedAt := Some now\<rparr> else updated);
                   updated = (if nextState = SL_sealed then updated\<lparr>se_sealedAt := Some now\<rparr> else updated)
               in Inr (api\<lparr>pi_sessions := map_set sessionId updated (pi_sessions api)\<rparr>, updated)))"

definition invitePeer ::
  "millis \<Rightarrow> string \<Rightarrow> string \<Rightarrow> string \<Rightarrow> string option \<Rightarrow> SessionApiImpl \<Rightarrow>
   ApiError + SessionApiImpl \<times> SessionInvitation" where
  "invitePeer nowMs uuid sessionId peerPublicKey role api =
     (case map_get (pi_sessions api) sessionId of
        None \<Rightarrow> Inl (Session_not_found sessionId)
      | Some session \<Rightarrow>
          let invitation =
            \<lparr>iv_invitationId = uuid,
             iv_sessionId = sessionId,
             iv_federationId = se_federationId session,
             iv_inviterIdentityPublicKey = se_ownerIdentityPublicKey session,
             iv_inviteeIdentityPublicKey = Some peerPublicKey,
             iv_initialDisplayRole = nullish role ''contributor'',
             iv_initialGrantTemplates = [],
             iv_sessionKeyEpoch = se_sessionKeyEpoch session,
             iv_expiresAt = toISOString (nowMs + 7 * 24 * 60 * 60 * 1000),
             iv_maxUses = 1,
             iv_visibilitySummary = [],
             iv_encryptedJoinPayload = None,
             iv_signature = []\<rparr>
          in Inr (api\<lparr>pi_invitations := push_at sessionId invitation (pi_invitations api)\<rparr>, invitation))"

definition acceptInvitation ::
  "string \<Rightarrow> SessionInvitation \<Rightarrow> string \<Rightarrow> SessionApiImpl \<Rightarrow> ApiError + SessionApiImpl \<times> SessionMember" where
  "acceptInvitation now invitation peerIdentityPublicKey api =
     (let val = isInvitationValid now invitation
      in if \<not> fst val then Inl (Invitation_invalid (snd val))
         else let member = createMembershipFromInvitation invitation peerIdentityPublicKey
              in Inr (api\<lparr>pi_members := push_at (iv_sessionId invitation) member (pi_members api)\<rparr>, member))"

definition removePeer :: "string \<Rightarrow> string \<Rightarrow> SessionApiImpl \<Rightarrow> SessionApiImpl" where
  "removePeer sessionId peerIdentityPublicKey api =
     api\<lparr>pi_members := map_set sessionId
       (List.map (\<lambda>m. if me_peerIdentityPublicKey m = peerIdentityPublicKey then m\<lparr>me_status := SM_removed\<rparr> else m)
         (nullish (map_get (pi_members api) sessionId) [])) (pi_members api)\<rparr>"

definition listMembers :: "SessionApiImpl \<Rightarrow> string \<Rightarrow> SessionMember list" where
  "listMembers api sessionId = nullish (map_get (pi_members api) sessionId) []"

text \<open>The grant takes the key epoch of its session; the other fields are the caller's.\<close>

definition issueGrant ::
  "string \<Rightarrow> string \<Rightarrow> GrantConfig \<Rightarrow> SessionApiImpl \<Rightarrow> ApiError + SessionApiImpl \<times> SessionAuthorityGrant" where
  "issueGrant now uuid config api =
     (case map_get (pi_sessions api) (gc_sessionId config) of
        None \<Rightarrow> Inl (Session_not_found (gc_sessionId config))
      | Some session \<Rightarrow>
          let grant = createGrantFromProfile now
                (config\<lparr>gc_grantId := uuid, gc_sessionKeyEpoch := Some (se_sessionKeyEpoch session)\<rparr>)
          in Inr (api\<lparr>pi_grants := push_at (gc_sessionId config) grant (pi_grants api)\<rparr>, grant))"

definition revokeGrant ::
  "string \<Rightarrow> string \<Rightarrow> string \<Rightarrow> string \<Rightarrow> string \<Rightarrow> RevocationKind option \<Rightarrow> SessionApiImpl \<Rightarrow>
   SessionApiImpl \<times> GrantRevocation" where
  "revokeGrant now uuid grantId revokedBy reason kind api =
     (api, createRevocation now uuid [] grantId revokedBy revokedBy reason (Some (nullish kind RK_graceful)) 0)"

definition listGrants :: "SessionApiImpl \<Rightarrow> string \<Rightarrow> SessionAuthorityGrant list" where
  "listGrants api sessionId = nullish (map_get (pi_grants api) sessionId) []"

definition explainAuthority :: "SessionApiImpl \<Rightarrow> string \<Rightarrow> string \<Rightarrow> Capability list" where
  "explainAuthority api sessionId memberIdentity =
     js_unique (concat (List.map ag_capabilitySet
       (List.filter (\<lambda>g. ag_subjectIdentityPublicKey g = memberIdentity)
         (nullish (map_get (pi_grants api) sessionId) []))))"

definition createOverlayApi ::
  "string \<Rightarrow> string \<Rightarrow> string \<Rightarrow> string \<Rightarrow> SessionApiImpl \<Rightarrow> SessionApiImpl \<times> WorkspaceOverlay" where
  "createOverlayApi now uuid sessionId ownerIdentity api =
     (let overlay = createOverlay now uuid sessionId ownerIdentity []
      in (api\<lparr>pi_overlays := push_at sessionId overlay (pi_overlays api)\<rparr>, overlay))"

definition proposeMutation ::
  "string \<Rightarrow> string \<Rightarrow> string \<Rightarrow> string \<Rightarrow> string \<Rightarrow> MutationKind \<Rightarrow> string \<Rightarrow> string \<Rightarrow> string option \<Rightarrow>
   SessionApiImpl \<Rightarrow> SessionApiImpl \<times> WorkspaceMutation" where
  "proposeMutation now uuid sessionId actorIdentityPublicKey grantId mutationKind pathScope
     baseWorkspaceDigest overlayId api =
     (let mutation = createMutation now uuid sessionId actorIdentityPublicKey grantId mutationKind
            pathScope baseWorkspaceDigest overlayId None None
      in (api\<lparr>pi_mutations := push_at sessionId mutation (pi_mutations api)\<rparr>, mutation))"

definition acceptMutation :: "string \<Rightarrow> string \<Rightarrow> string \<Rightarrow> SessionApiImpl \<Rightarrow> SessionApiImpl" where
  "acceptMutation now mutationId acceptedBy api =
     api\<lparr>pi_mutations := update_first_in (\<lambda>m. wm_mutationId m = mutationId)
       (\<lambda>m. m\<lparr>wm_approvalState := MA_accepted, wm_acceptedBy := Some acceptedBy, wm_acceptedAt := Some now\<rparr>)
       (pi_mutations api)\<rparr>"

definition rejectMutation :: "string \<Rightarrow> SessionApiImpl \<Rightarrow> SessionApiImpl" where
  "rejectMutation mutationId api =
     api\<lparr>pi_mutations := update_first_in (\<lambda>m. wm_mutationId m = mutationId)
       (\<lambda>m. m\<lparr>wm_approvalState := MA_rejected\<rparr>) (pi_mutations api)\<rparr>"

definition getWorkspaceState :: "SessionApiImpl \<Rightarrow> string \<Rightarrow> string \<times> nat" where
  "getWorkspaceState api sessionId = ([], length (nullish (map_get (pi_overlays api) sessionId) []))"

text \<open>
  The declared configuration of \<open>requestCommand\<close> has no target scope and no idempotency key; the
  object is passed on as it is.  \<open>keyUuid\<close>, \<open>requestUuid\<close> and \<open>receiptUuid\<close> are the identifiers it draws.
\<close>

definition requestCommand ::
  "millis \<Rightarrow> string \<Rightarrow> string \<Rightarrow> string \<Rightarrow> CommandRequestConfig \<Rightarrow> SessionApiImpl \<Rightarrow>
   ApiError + SessionApiImpl \<times> SessionCommandReceipt" where
  "requestCommand nowMs keyUuid requestUuid receiptUuid config api =
     (case map_get (pi_sessions api) (rf_sessionId config) of
        None \<Rightarrow> Inl (Session_not_found (rf_sessionId config))
      | Some session \<Rightarrow>
          let request = createCommandRequest (toISOString nowMs) keyUuid requestUuid config;
              context = \<lparr>sx_session = session,
                 sx_members = nullish (map_get (pi_members api) (rf_sessionId config)) [],
                 sx_grants = nullish (map_get (pi_grants api) (rf_sessionId config)) [],
                 sx_currentKeyEpoch = se_sessionKeyEpoch session\<rparr>;
              evaluation = evaluateCommandAuthority nowMs receiptUuid context request None;
              receipt = createCommandReceipt (toISOString nowMs) receiptUuid request (va_decision evaluation)
                (\<lambda>r. r\<lparr>ck_denialReason := va_reason evaluation\<rparr>)
          in Inr (api\<lparr>pi_commands := push_at (rf_sessionId config) receipt (pi_commands api)\<rparr>, receipt))"

definition approveCommand :: "string \<Rightarrow> SessionApiImpl \<Rightarrow> SessionApiImpl" where
  "approveCommand requestId api = api"

definition cancelCommand :: "string \<Rightarrow> SessionApiImpl \<Rightarrow> SessionApiImpl" where
  "cancelCommand requestId api = api"

definition getCommandReceipt :: "SessionApiImpl \<Rightarrow> string \<Rightarrow> SessionCommandReceipt option" where
  "getCommandReceipt api requestId = find_in (\<lambda>r. ck_requestId r = requestId) (pi_commands api)"

definition requestLease ::
  "millis \<Rightarrow> string \<Rightarrow> string \<Rightarrow> string \<Rightarrow> string \<Rightarrow> BackendKind \<Rightarrow> string \<Rightarrow> string \<Rightarrow> int \<Rightarrow> SessionApiImpl \<Rightarrow>
   SessionApiImpl \<times> ComputeLease" where
  "requestLease nowMs uuid sessionId requesterIdentityPublicKey requesterMembershipId backendKind
     modelArtifactDigest workloadClass maximumRuntimeSeconds api =
     (let lease =
        \<lparr>cl_leaseId = uuid,
         cl_sessionId = sessionId,
         cl_requesterIdentityPublicKey = requesterIdentityPublicKey,
         cl_requesterMembershipId = requesterMembershipId,
         cl_providerIdentityPublicKey = None,
         cl_backendKind = backendKind,
         cl_trustTier = 0,
         cl_modelArtifactDigest = modelArtifactDigest,
         cl_workloadClass = workloadClass,
         cl_inputDisclosureClass = ''session'',
         cl_inputDigest = [],
         cl_outputDisclosureClass = ''session'',
         cl_maximumTokens = None,
         cl_maximumRuntimeSeconds = maximumRuntimeSeconds,
         cl_maximumMemoryBytes = 0,
         cl_maximumCost = None,
         cl_dharmaCreditAmount = None,
         cl_routingPolicy = ''local'',
         cl_issuedAt = toISOString nowMs,
         cl_expiresAt = toISOString (nowMs + 3600 * 1000),
         cl_revocationEpoch = 0,
         cl_status = LS_pending,
         cl_signatureChain = []\<rparr>
      in (api\<lparr>pi_leases := push_at sessionId lease (pi_leases api)\<rparr>, lease))"

definition approveLease :: "string \<Rightarrow> SessionApiImpl \<Rightarrow> SessionApiImpl" where
  "approveLease leaseId api =
     api\<lparr>pi_leases := update_first_in (\<lambda>l. cl_leaseId l = leaseId) (\<lambda>l. l\<lparr>cl_status := LS_active\<rparr>)
       (pi_leases api)\<rparr>"

definition cancelLease :: "string \<Rightarrow> SessionApiImpl \<Rightarrow> SessionApiImpl" where
  "cancelLease leaseId api =
     api\<lparr>pi_leases := update_first_in (\<lambda>l. cl_leaseId l = leaseId) (\<lambda>l. l\<lparr>cl_status := LS_cancelled\<rparr>)
       (pi_leases api)\<rparr>"

definition getLeaseStatus :: "SessionApiImpl \<Rightarrow> string \<Rightarrow> SessionLeaseStatus option" where
  "getLeaseStatus api leaseId = map_option cl_status (find_in (\<lambda>l. cl_leaseId l = leaseId) (pi_leases api))"

definition exportArtifactBundle :: "SessionApiImpl \<Rightarrow> string \<Rightarrow> string option" where
  "exportArtifactBundle api sessionId = None"

definition getAggregateProjection :: "SessionApiImpl \<Rightarrow> string \<Rightarrow> DharmaSessionAggregate option" where
  "getAggregateProjection api sessionId = map_get (pi_aggregates api) sessionId"

section \<open>What the controller decides\<close>

definition found_member :: "SessionContext \<Rightarrow> SessionCommandRequest \<Rightarrow> SessionMember option" where
  "found_member ctx req =
     List.find (\<lambda>m. me_membershipId m = cq_actorMembershipId req) (sx_members ctx)"

definition found_grant :: "SessionContext \<Rightarrow> SessionCommandRequest \<Rightarrow> SessionAuthorityGrant option" where
  "found_grant ctx req = List.find (\<lambda>g. ag_grantId g = cq_grantId req) (sx_grants ctx)"

definition holds_for :: "('a \<Rightarrow> bool) \<Rightarrow> 'a option \<Rightarrow> bool" where
  "holds_for P v = (case v of None \<Rightarrow> False | Some x \<Rightarrow> P x)"

lemma holds_for_simps [simp]: "\<not> holds_for P None" "holds_for P (Some x) = P x"
  by (simp_all add: holds_for_def)

text \<open>The nine conditions in the order of the code, each with the reason given when it fails.\<close>

definition authority_checks ::
  "string \<Rightarrow> SessionContext \<Rightarrow> SessionCommandRequest \<Rightarrow> (bool \<times> string) list" where
  "authority_checks now ctx req =
     (let state = se_lifecycleState (sx_session ctx);
          cap = COMMAND_TO_REQUIRED_CAPABILITY (cq_commandKind req)
      in [(\<not> isTerminalState state,
           ''Session is in terminal state: '' @ SessionLifecycleState_str state),
          (state = SL_active,
           ''Session state does not accept commands: '' @ SessionLifecycleState_str state),
          (found_member ctx req \<noteq> None, ''Member not found: '' @ cq_actorMembershipId req),
          (holds_for isMemberActive (found_member ctx req),
           ''Member is not active: '' @
             (case found_member ctx req of None \<Rightarrow> [] | Some m \<Rightarrow> SessionMembershipStatus_str (me_status m))),
          (cq_sessionKeyEpoch req = sx_currentKeyEpoch ctx,
           ''Key epoch mismatch: request='' @ show_int (cq_sessionKeyEpoch req) @
             '', current='' @ show_int (sx_currentKeyEpoch ctx)),
          (found_grant ctx req \<noteq> None, ''Grant not found: '' @ cq_grantId req),
          (holds_for (\<lambda>g. isGrantValid now g (sx_currentKeyEpoch ctx)) (found_grant ctx req),
           ''Grant is not valid (expired, revoked, or wrong epoch)''),
          (holds_for (\<lambda>g. hasCapability g cap) (found_grant ctx req),
           ''Grant lacks required capability: '' @ Capability_str cap),
          (holds_for (\<lambda>g. fst (checkScope g req)) (found_grant ctx req),
           (case found_grant ctx req of None \<Rightarrow> [] | Some g \<Rightarrow> nullish (snd (checkScope g req)) []))])"

lemma checkScope_reason: "\<not> fst (checkScope g req) \<Longrightarrow> snd (checkScope g req) = Some (nullish (snd (checkScope g req)) [])"
  by (cases "getScopeKind (cq_commandKind req)") (auto simp: checkScope_def Let_def)

lemma checkSessionState_iff:
  "fst (checkSessionState ctx req) \<longleftrightarrow> se_lifecycleState (sx_session ctx) = SL_active"
  by (auto simp: checkSessionState_def Let_def isTerminalState_def acceptsCommands_def)

lemma checkMembership_iff: "fst (checkMembership ctx req) \<longleftrightarrow> holds_for isMemberActive (found_member ctx req)"
  by (simp add: checkMembership_def found_member_def split: option.splits)

lemma checkGrant_iff:
  "fst (checkGrant now ctx req) = Some g \<longleftrightarrow>
     found_grant ctx req = Some g \<and> isGrantValid now g (sx_currentKeyEpoch ctx)"
  by (auto simp: checkGrant_def found_grant_def split: option.splits if_splits)

lemma authority_accepts_iff:
  "va_decision (evaluateCommandAuthority nowMs uuid ctx req c) = CD_accepted \<longleftrightarrow>
     se_lifecycleState (sx_session ctx) = SL_active \<and>
     holds_for isMemberActive (found_member ctx req) \<and>
     cq_sessionKeyEpoch req = sx_currentKeyEpoch ctx \<and>
     holds_for (\<lambda>g. isGrantValid (toISOString nowMs) g (sx_currentKeyEpoch ctx) \<and>
       hasCapability g (COMMAND_TO_REQUIRED_CAPABILITY (cq_commandKind req)) \<and>
       fst (checkScope g req)) (found_grant ctx req)"
proof -
  have e: "fst (checkKeyEpoch ctx req) \<longleftrightarrow> cq_sessionKeyEpoch req = sx_currentKeyEpoch ctx"
    by (simp add: checkKeyEpoch_def)
  show ?thesis
  proof (cases "fst (checkGrant (toISOString nowMs) ctx req)")
    case None
    then have "\<not> holds_for (\<lambda>g. isGrantValid (toISOString nowMs) g (sx_currentKeyEpoch ctx) \<and>
        hasCapability g (COMMAND_TO_REQUIRED_CAPABILITY (cq_commandKind req)) \<and>
        fst (checkScope g req)) (found_grant ctx req)"
      using checkGrant_iff [of "toISOString nowMs" ctx req] by (cases "found_grant ctx req") auto
    with None show ?thesis by (simp add: evaluateCommandAuthority_def Let_def reject_with_def)
  next
    case (Some g)
    with checkGrant_iff [of "toISOString nowMs" ctx req g] e show ?thesis
      by (simp add: evaluateCommandAuthority_def Let_def reject_with_def checkSessionState_iff checkMembership_iff)
  qed
qed

lemma authority_decision_cases:
  "va_decision (evaluateCommandAuthority nowMs uuid ctx req c) \<in> {CD_accepted, CD_rejected}"
  by (simp add: evaluateCommandAuthority_def Let_def reject_with_def split: option.splits)

text \<open>
  C5: the controller gives the reason of the first of nine conditions that fails: the session is not
  over and is active, the member is known and active, the key epoch is current, the grant is known
  and valid, it has the capability of the command and its scope covers the target.  The command is
  accepted, without a reason, exactly when all hold, and rejected otherwise.
\<close>

theorem authority_first_failure:
  "va_reason (evaluateCommandAuthority nowMs uuid ctx req c) =
     first_failure (authority_checks (toISOString nowMs) ctx req) \<and>
   va_decision (evaluateCommandAuthority nowMs uuid ctx req c) =
     (if first_failure (authority_checks (toISOString nowMs) ctx req) = None then CD_accepted else CD_rejected)"
proof -
  let ?E = "evaluateCommandAuthority nowMs uuid ctx req c"
  have "va_decision ?E = CD_accepted \<longleftrightarrow> first_failure (authority_checks (toISOString nowMs) ctx req) = None"
    unfolding authority_accepts_iff first_failure_None authority_checks_def Let_def
    by (cases "found_member ctx req"; cases "found_grant ctx req") (auto simp: isTerminalState_def)
  moreover have "va_reason ?E = first_failure (authority_checks (toISOString nowMs) ctx req)"
  proof (cases "se_lifecycleState (sx_session ctx) = SL_active")
    case False
    then show ?thesis
      by (auto simp: evaluateCommandAuthority_def Let_def reject_with_def authority_checks_def
        checkSessionState_def acceptsCommands_def)
  next
    case active: True
    show ?thesis
    proof (cases "found_member ctx req")
      case None
      with active show ?thesis
        by (simp add: evaluateCommandAuthority_def Let_def reject_with_def authority_checks_def
          checkSessionState_def acceptsCommands_def isTerminalState_def checkMembership_def found_member_def)
    next
      case (Some m)
      note member = this
      show ?thesis
      proof (cases "isMemberActive m")
        case False
        with active member show ?thesis
          by (simp add: evaluateCommandAuthority_def Let_def reject_with_def authority_checks_def
            checkSessionState_def acceptsCommands_def isTerminalState_def checkMembership_def found_member_def)
      next
        case True
        have ok: "checkSessionState ctx req = (True, None)" "checkMembership ctx req = (True, None)"
          using active member True
          by (simp_all add: checkSessionState_def acceptsCommands_def isTerminalState_def Let_def
            checkMembership_def found_member_def)
        show ?thesis
          unfolding evaluateCommandAuthority_def Let_def ok authority_checks_def member
          using active True checkScope_reason [of _ req]
          by (auto simp: checkKeyEpoch_def checkGrant_def reject_with_def isTerminalState_def
            found_grant_def holds_for_def split: option.splits)
      qed
    qed
  qed
  moreover note authority_decision_cases [of nowMs uuid ctx req c]
  ultimately show ?thesis by auto
qed


lemma checkScope_cong:
  "cq_commandKind r = cq_commandKind r' \<Longrightarrow> cq_targetScope r = cq_targetScope r' \<Longrightarrow>
     checkScope g r = checkScope g r'"
  by (simp add: checkScope_def)

text \<open>
  The controller never compares the actor of a request with the subject of the grant it names.
  Whatever command one member may run with a grant, every other active member of the session may run
  with the same grant, under any claimed identity.
\<close>

theorem grant_works_for_every_member:
  assumes "va_decision (evaluateCommandAuthority nowMs uuid ctx req c) = CD_accepted"
    and "List.find (\<lambda>m. me_membershipId m = other) (sx_members ctx) = Some m" and "me_status m = SM_active"
  shows "va_decision (evaluateCommandAuthority nowMs uuid ctx
     (req\<lparr>cq_actorMembershipId := other, cq_actorIdentityPublicKey := who\<rparr>) c) = CD_accepted"
proof -
  let ?r = "req\<lparr>cq_actorMembershipId := other, cq_actorIdentityPublicKey := who\<rparr>"
  have "found_member ctx ?r = Some m" "found_grant ctx ?r = found_grant ctx req"
    using assms(2) by (simp_all add: found_member_def found_grant_def)
  moreover have "checkScope g ?r = checkScope g req" for g by (rule checkScope_cong) simp_all
  ultimately show ?thesis
    using assms(1,3) unfolding authority_accepts_iff by (simp add: isMemberActive_def)
qed

definition sample_session :: DharmaSession where
  "sample_session = snd (createSession ''t'' ''s1''
     \<lparr>zc_federationId = ''f'', zc_ownerIdentityPublicKey = ''owner'', zc_projectReference = ''p'',
      zc_sourceRevision = ''r'', zc_sandboxRuntimeKind = None, zc_visibility = None\<rparr> empty_api)"

definition sample_grant :: SessionAuthorityGrant where
  "sample_grant = createGrantFromProfile ''t''
     \<lparr>gc_grantId = ''g1'', gc_sessionId = ''s1'', gc_subjectIdentityPublicKey = ''alice'',
      gc_subjectMembershipId = ''mem_a'', gc_issuedByIdentityPublicKey = ''owner'',
      gc_profile = GP_session_coowner, gc_resourceScope = None, gc_sessionKeyEpoch = None,
      gc_expiresAt = None\<rparr>"

definition sample_member :: "string \<Rightarrow> string \<Rightarrow> SessionMember" where
  "sample_member i who = (createMember i ''s1'' who ''owner'' None)\<lparr>me_status := SM_active\<rparr>"

definition sample_context :: SessionContext where
  "sample_context = \<lparr>sx_session = sample_session\<lparr>se_lifecycleState := SL_active\<rparr>,
     sx_members = [sample_member ''a'' ''alice'', sample_member ''b'' ''bob''],
     sx_grants = [sample_grant], sx_currentKeyEpoch = 0\<rparr>"

definition sample_command :: SessionCommandRequest where
  "sample_command = createCommandRequest ''t'' ''k'' ''q1''
     \<lparr>rf_sessionId = ''s1'', rf_actorIdentityPublicKey = ''alice'', rf_actorMembershipId = ''mem_a'',
      rf_grantId = ''g1'', rf_sessionKeyEpoch = 0, rf_commandKind = CK_revoke_grant,
      rf_targetScope = None, rf_payloadDigest = [], rf_idempotencyKey = None\<rparr>"

lemmas sample_defs = sample_session_def sample_grant_def sample_member_def sample_context_def
  sample_command_def createSession_def createGrantFromProfile_def createMember_def
  createCommandRequest_def Let_def

lemma sample_accepted: "va_decision (evaluateCommandAuthority 0 ''u'' sample_context sample_command None) = CD_accepted"
  unfolding authority_accepts_iff
  by (simp add: sample_defs found_member_def found_grant_def isMemberActive_def isGrantValid_def
    hasCapability_def getProfileCapabilities_def checkScope_def getScopeKind_def)

theorem grant_works_for_every_member_witness:
  "ag_subjectIdentityPublicKey sample_grant = ''alice'' \<and>
   va_decision (evaluateCommandAuthority 0 ''u'' sample_context
     (sample_command\<lparr>cq_actorMembershipId := ''mem_b'', cq_actorIdentityPublicKey := ''bob''\<rparr>) None) = CD_accepted"
proof
  show "ag_subjectIdentityPublicKey sample_grant = ''alice''" by (simp add: sample_defs)
  have "List.find (\<lambda>m. me_membershipId m = ''mem_b'') (sx_members sample_context) = Some (sample_member ''b'' ''bob'')"
    and "me_status (sample_member ''b'' ''bob'') = SM_active" by (simp_all add: sample_defs)
  from grant_works_for_every_member [OF sample_accepted this]
  show "va_decision (evaluateCommandAuthority 0 ''u'' sample_context
     (sample_command\<lparr>cq_actorMembershipId := ''mem_b'', cq_actorIdentityPublicKey := ''bob''\<rparr>) None) = CD_accepted" .
qed

section \<open>What the service can reach\<close>

inductive api_step :: "SessionApiImpl \<Rightarrow> SessionApiImpl \<Rightarrow> bool" where
  step_create: "api_step api (fst (createSession now uuid cfg api))"
| step_updateState: "updateState now sid action api = Inr (api', s) \<Longrightarrow> api_step api api'"
| step_invitePeer: "invitePeer nowMs uuid sid peer role api = Inr (api', i) \<Longrightarrow> api_step api api'"
| step_acceptInvitation: "acceptInvitation now invitation peer api = Inr (api', m) \<Longrightarrow> api_step api api'"
| step_removePeer: "api_step api (removePeer sid peer api)"
| step_issueGrant: "issueGrant now uuid gcfg api = Inr (api', g) \<Longrightarrow> api_step api api'"
| step_revokeGrant: "api_step api (fst (revokeGrant now uuid gid by_whom reason kind api))"
| step_createOverlay: "api_step api (fst (createOverlayApi now uuid sid who api))"
| step_proposeMutation: "api_step api (fst (proposeMutation now uuid sid who gid mk path base ov api))"
| step_acceptMutation: "api_step api (acceptMutation now mid by_whom api)"
| step_rejectMutation: "api_step api (rejectMutation mid api)"
| step_requestCommand: "requestCommand nowMs k1 k2 k3 rcfg api = Inr (api', r) \<Longrightarrow> api_step api api'"
| step_approveCommand: "api_step api (approveCommand rid api)"
| step_cancelCommand: "api_step api (cancelCommand rid api)"
| step_requestLease: "api_step api (fst (requestLease nowMs uuid sid who mem bk digest wl secs api))"
| step_approveLease: "api_step api (approveLease lid api)"
| step_cancelLease: "api_step api (cancelLease lid api)"

abbreviation api_reach :: "SessionApiImpl \<Rightarrow> bool" where
  "api_reach \<equiv> api_step\<^sup>*\<^sup>* empty_api"

lemmas api_ops = createSession_def updateState_def invitePeer_def acceptInvitation_def removePeer_def
  issueGrant_def revokeGrant_def createOverlayApi_def proposeMutation_def acceptMutation_def
  rejectMutation_def requestCommand_def approveCommand_def cancelCommand_def requestLease_def
  approveLease_def cancelLease_def

subsection \<open>Nobody is ever active\<close>

definition waiting_or_removed :: "SessionMember \<Rightarrow> bool" where
  "waiting_or_removed m \<longleftrightarrow> me_status m = SM_joining \<or> me_status m = SM_removed"

lemma inactive_rejected:
  assumes "\<forall>m\<in>set (sx_members ctx). waiting_or_removed m"
  shows "va_decision (evaluateCommandAuthority nowMs uuid ctx req c) = CD_rejected"
proof -
  have "\<not> holds_for isMemberActive (found_member ctx req)"
    using assms by (cases "found_member ctx req")
      (force simp: found_member_def isMemberActive_def waiting_or_removed_def dest: find_SomeD)+
  then have "va_decision (evaluateCommandAuthority nowMs uuid ctx req c) \<noteq> CD_accepted"
    unfolding authority_accepts_iff by blast
  with authority_decision_cases [of nowMs uuid ctx req c] show ?thesis by blast
qed

definition api_quiet :: "SessionApiImpl \<Rightarrow> bool" where
  "api_quiet api \<longleftrightarrow> all_lists waiting_or_removed (pi_members api) \<and>
     all_lists (\<lambda>r. ck_decision r = CD_rejected) (pi_commands api)"

lemma requestCommand_rejected:
  assumes "api_quiet api" and "requestCommand nowMs k1 k2 k3 cfg api = Inr (api', r)"
  shows "ck_decision r = CD_rejected"
proof -
  from assms(2) obtain session where s: "map_get (pi_sessions api) (rf_sessionId cfg) = Some session"
    by (auto simp: requestCommand_def split: option.splits)
  define ctx where "ctx = \<lparr>sx_session = session,
      sx_members = nullish (map_get (pi_members api) (rf_sessionId cfg)) [],
      sx_grants = nullish (map_get (pi_grants api) (rf_sessionId cfg)) [],
      sx_currentKeyEpoch = se_sessionKeyEpoch session\<rparr>"
  have "\<forall>m\<in>set (sx_members ctx). waiting_or_removed m"
    using assms(1) all_lists_nullish by (force simp: ctx_def api_quiet_def)
  from inactive_rejected [OF this] assms(2) s show ?thesis
    by (auto simp: requestCommand_def Let_def createCommandReceipt_def ctx_def [symmetric])
qed

lemma requestCommand_effect:
  assumes "requestCommand nowMs k1 k2 k3 cfg api = Inr (api', r)"
  shows "api' = api\<lparr>pi_commands := push_at (rf_sessionId cfg) r (pi_commands api)\<rparr>"
  using assms by (auto simp: requestCommand_def Let_def split: option.splits)

lemma api_quiet_step: "api_step api api' \<Longrightarrow> api_quiet api \<Longrightarrow> api_quiet api'"
proof (induction rule: api_step.induct)
  case (step_requestCommand nowMs k1 k2 k3 rcfg api api' r)
  then show ?case
    using requestCommand_rejected requestCommand_effect [OF step_requestCommand(1)]
    by (auto simp: api_quiet_def intro!: all_lists_push)
next
  case (step_acceptInvitation now invitation peer api api' m)
  then show ?case
    by (auto simp: api_quiet_def acceptInvitation_def Let_def waiting_or_removed_def
      createMembershipFromInvitation_def intro!: all_lists_push split: if_splits)
next
  case (step_removePeer api sid peer)
  then show ?case
    by (auto simp: api_quiet_def removePeer_def intro!: all_lists_set)
      (auto dest: all_lists_nullish simp: waiting_or_removed_def)
qed (auto simp: api_quiet_def api_ops Let_def split: option.splits sum.splits if_splits)

lemma api_quiet_reach: "api_reach api \<Longrightarrow> api_quiet api"
proof (induction rule: rtranclp_induct)
  case base
  show ?case by (simp add: api_quiet_def empty_api_def)
qed (rule api_quiet_step)

text \<open>
  Through the operations of the service no member ever becomes active: an accepted invitation
  leaves the member joining, and nothing but removal changes the status.  So in every reachable state
  every command request is rejected, and every receipt the service has stored is a rejection.
\<close>

theorem service_rejects_every_command:
  assumes "api_reach api"
  shows "(requestCommand nowMs k1 k2 k3 cfg api = Inr (api', r) \<longrightarrow> ck_decision r = CD_rejected) \<and>
    (\<forall>rid r'. getCommandReceipt api rid = Some r' \<longrightarrow> ck_decision r' = CD_rejected) \<and>
    (\<forall>sid. \<forall>m\<in>set (listMembers api sid). me_status m \<noteq> SM_active)"
proof (intro conjI allI impI ballI)
  note q = api_quiet_reach [OF assms]
  show "ck_decision r = CD_rejected" if "requestCommand nowMs k1 k2 k3 cfg api = Inr (api', r)"
    using requestCommand_rejected [OF q that] .
  show "me_status m \<noteq> SM_active" if "m \<in> set (listMembers api sid)" for sid m
    using that q all_lists_nullish [of waiting_or_removed "pi_members api" m sid]
    by (auto simp: listMembers_def api_quiet_def waiting_or_removed_def)
  fix rid r' assume "getCommandReceipt api rid = Some r'"
  then show "ck_decision r' = CD_rejected"
    using q all_lists_find by (force simp: getCommandReceipt_def api_quiet_def)
qed

definition one_session :: SessionApiImpl where
  "one_session = fst (createSession ''t'' ''s1''
     \<lparr>zc_federationId = ''f'', zc_ownerIdentityPublicKey = ''o'', zc_projectReference = ''p'',
      zc_sourceRevision = ''r'', zc_sandboxRuntimeKind = None, zc_visibility = None\<rparr> empty_api)"

theorem service_rejects_every_command_witness:
  "\<forall>sid. \<forall>m\<in>set (listMembers one_session sid). me_status m \<noteq> SM_active"
proof -
  have "api_reach one_session" unfolding one_session_def by (rule r_into_rtranclp) (rule step_create)
  from service_rejects_every_command [OF this] show ?thesis by blast
qed

subsection \<open>Sessions, grants and their history\<close>

text \<open>
  What the stored sessions satisfy: each is stored under its identifier with key epoch 0, and its
  timestamps say where in the lifecycle it has been.
\<close>

definition dharma_session_ok :: "string \<Rightarrow> DharmaSession \<Rightarrow> bool" where
  "dharma_session_ok k s \<longleftrightarrow> se_sessionId s = k \<and> se_sessionKeyEpoch s = 0 \<and>
     (se_activatedAt s \<noteq> None \<longleftrightarrow> se_lifecycleState s \<in> {SL_active, SL_suspended, SL_draining, SL_sealed,
        SL_exported, SL_archived, SL_terminated}) \<and>
     (se_sealedAt s \<noteq> None \<longleftrightarrow> se_lifecycleState s \<in> {SL_sealed, SL_exported, SL_archived})"

definition grant_ok :: "SessionAuthorityGrant \<Rightarrow> bool" where
  "grant_ok g \<longleftrightarrow> ag_revokedAt g = None \<and> ag_sessionKeyEpoch g = 0 \<and>
     (\<exists>pr. ag_capabilitySet g = GRANT_PROFILES pr)"

definition api_sound :: "SessionApiImpl \<Rightarrow> bool" where
  "api_sound api \<longleftrightarrow> map_inv (pi_sessions api) \<and>
     (\<forall>k s. map_get (pi_sessions api) k = Some s \<longrightarrow> dharma_session_ok k s) \<and> all_lists grant_ok (pi_grants api)"

lemma session_action_ok:
  assumes "dharma_session_ok k s" and "applySessionAction (se_lifecycleState s) a = Inr n"
  shows "dharma_session_ok k (let u = s\<lparr>se_lifecycleState := n\<rparr>;
      u = (if n = SL_active then u\<lparr>se_activatedAt := Some now\<rparr> else u)
    in if n = SL_sealed then u\<lparr>se_sealedAt := Some now\<rparr> else u)"
proof -
  have "n \<in> set (VALID_SESSION_TRANSITIONS (se_lifecycleState s))" by (rule session_fsm.app_sound [OF assms(2)])
  with assms(1) show ?thesis by (cases "se_lifecycleState s") (auto simp: dharma_session_ok_def Let_def)
qed

lemma updateState_effect:
  assumes "updateState now sid action api = Inr (api', u)"
  obtains s n where "map_get (pi_sessions api) sid = Some s"
    and "applySessionAction (se_lifecycleState s) action = Inr n"
    and "u = (let u = s\<lparr>se_lifecycleState := n\<rparr>;
        u = (if n = SL_active then u\<lparr>se_activatedAt := Some now\<rparr> else u)
      in if n = SL_sealed then u\<lparr>se_sealedAt := Some now\<rparr> else u)"
    and "api' = api\<lparr>pi_sessions := map_set sid u (pi_sessions api)\<rparr>"
  using assms that by (auto simp: updateState_def Let_def split: option.splits sum.splits)

lemma api_sound_step: "api_step api api' \<Longrightarrow> api_sound api \<Longrightarrow> api_sound api'"
proof (induction rule: api_step.induct)
  case (step_create api now uuid cfg)
  then show ?case by (auto simp: api_sound_def createSession_def Let_def dharma_session_ok_def)
next
  case (step_updateState now sid action api api' u)
  from step_updateState(1) obtain s n where *: "map_get (pi_sessions api) sid = Some s"
    "applySessionAction (se_lifecycleState s) action = Inr n"
    "u = (let u = s\<lparr>se_lifecycleState := n\<rparr>;
        u = (if n = SL_active then u\<lparr>se_activatedAt := Some now\<rparr> else u)
      in if n = SL_sealed then u\<lparr>se_sealedAt := Some now\<rparr> else u)"
    "api' = api\<lparr>pi_sessions := map_set sid u (pi_sessions api)\<rparr>" by (rule updateState_effect)
  with step_updateState(2) have "dharma_session_ok sid u" using session_action_ok [of sid s action n now]
    by (simp add: api_sound_def)
  with * step_updateState(2) show ?case by (auto simp: api_sound_def)
next
  case (step_issueGrant now uuid gcfg api api' g)
  from step_issueGrant(1) obtain s where s: "map_get (pi_sessions api) (gc_sessionId gcfg) = Some s"
    "g = createGrantFromProfile now (gcfg\<lparr>gc_grantId := uuid, gc_sessionKeyEpoch := Some (se_sessionKeyEpoch s)\<rparr>)"
    "api' = api\<lparr>pi_grants := push_at (gc_sessionId gcfg) g (pi_grants api)\<rparr>"
    by (auto simp: issueGrant_def Let_def split: option.splits)
  have "grant_ok g" using s step_issueGrant(2)
    by (auto simp: grant_ok_def createGrantFromProfile_def getProfileCapabilities_def api_sound_def dharma_session_ok_def)
  with s(3) step_issueGrant(2) show ?case by (auto simp: api_sound_def intro!: all_lists_push)
qed (auto simp: api_sound_def api_ops Let_def split: option.splits sum.splits if_splits)

lemma api_sound_reach: "api_reach api \<Longrightarrow> api_sound api"
proof (induction rule: rtranclp_induct)
  case base
  show ?case by (simp add: api_sound_def empty_api_def)
qed (rule api_sound_step)

text \<open>
  C39: in every reachable state of the service each session is stored once, under its identifier and
  with key epoch 0; it has an activation time exactly when it is or has been active, and a sealing
  time exactly when it is sealed, exported or archived.
\<close>

theorem service_sessions_sound:
  assumes "api_reach api"
  shows "map_inv (pi_sessions api) \<and> (\<forall>k s. getSessionApi api k = Some s \<longrightarrow>
    se_sessionId s = k \<and> se_sessionKeyEpoch s = 0 \<and>
    (se_activatedAt s \<noteq> None \<longleftrightarrow> se_lifecycleState s \<notin>
       {SL_draft, SL_materializing, SL_ready, SL_cancelled, SL_failed}) \<and>
    (se_sealedAt s \<noteq> None \<longleftrightarrow> se_lifecycleState s \<in> {SL_sealed, SL_exported, SL_archived}))"
proof (intro conjI allI impI)
  note snd = api_sound_reach [OF assms]
  show "map_inv (pi_sessions api)" using snd by (simp add: api_sound_def)
  fix k s assume "getSessionApi api k = Some s"
  with snd have ok: "dharma_session_ok k s" by (auto simp: api_sound_def getSessionApi_def)
  then show "se_sessionId s = k" "se_sessionKeyEpoch s = 0"
    "se_sealedAt s \<noteq> None \<longleftrightarrow> se_lifecycleState s \<in> {SL_sealed, SL_exported, SL_archived}"
    by (simp_all add: dharma_session_ok_def)
  from ok show "se_activatedAt s \<noteq> None \<longleftrightarrow> se_lifecycleState s \<notin>
       {SL_draft, SL_materializing, SL_ready, SL_cancelled, SL_failed}"
    unfolding dharma_session_ok_def by (cases "se_lifecycleState s") auto
qed

theorem service_sessions_sound_witness:
  "map_inv (pi_sessions one_session)"
proof -
  have "api_reach one_session" unfolding one_session_def by (rule r_into_rtranclp) (rule step_create)
  from service_sessions_sound [OF this] show ?thesis by blast
qed

text \<open>Grants are only ever added.\<close>

lemma grants_grow_step: "api_step api api' \<Longrightarrow> set (listGrants api sid) \<subseteq> set (listGrants api' sid)"
proof (induction rule: api_step.induct)
  case (step_issueGrant now uuid gcfg api api' g)
  then show ?case by (auto simp: issueGrant_def Let_def listGrants_def push_at_def split: option.splits)
qed (auto simp: listGrants_def api_ops Let_def split: option.splits sum.splits if_splits)

lemma grants_grow: "api_step\<^sup>*\<^sup>* api api' \<Longrightarrow> set (listGrants api sid) \<subseteq> set (listGrants api' sid)"
  by (induction rule: rtranclp_induct) (use grants_grow_step in blast)+

text \<open>
  Revoking does not revoke.  A grant the service has issued stays in the list of its session
  through any further operations, \<open>revokeGrant\<close> included, and is valid at every later time before
  its expiry, for ever when it has none; only the lack of an active member keeps it from being used.
\<close>

theorem issued_grants_stay_valid:
  assumes "api_reach api" and "g \<in> set (listGrants api sid)" and "api_step\<^sup>*\<^sup>* api api'"
    and "ag_expiresAt g = None \<or> (\<exists>e. ag_expiresAt g = Some e \<and> now \<le> e)"
  shows "g \<in> set (listGrants api' sid) \<and> isGrantValid now g 0"
proof
  show "g \<in> set (listGrants api' sid)" using grants_grow [OF assms(3)] assms(2) by blast
  have "grant_ok g"
    using api_sound_reach [OF assms(1)] assms(2) all_lists_nullish
    by (force simp: api_sound_def listGrants_def)
  with assms(4) show "isGrantValid now g 0" by (auto simp: isGrantValid_def grant_ok_def)
qed

definition granted :: SessionApiImpl where
  "granted = one_session\<lparr>pi_grants := [(''s1'', [sample_grant])]\<rparr>"

theorem issued_grants_stay_valid_witness:
  "isGrantValid ''2026'' sample_grant 0 \<and>
   sample_grant \<in> set (listGrants (fst (revokeGrant ''t'' ''u'' ''g1'' ''owner'' ''leaked'' None granted)) ''s1'')"
proof -
  have 1: "api_reach one_session" unfolding one_session_def by (rule r_into_rtranclp) (rule step_create)
  have i: "issueGrant ''t'' ''g1''
      \<lparr>gc_grantId = ''g1'', gc_sessionId = ''s1'', gc_subjectIdentityPublicKey = ''alice'',
       gc_subjectMembershipId = ''mem_a'', gc_issuedByIdentityPublicKey = ''owner'',
       gc_profile = GP_session_coowner, gc_resourceScope = None, gc_sessionKeyEpoch = None,
       gc_expiresAt = None\<rparr> one_session = Inr (granted, sample_grant)"
    by (simp add: issueGrant_def one_session_def granted_def createSession_def empty_api_def Let_def
      map_get_def push_at_def sample_grant_def createGrantFromProfile_def)
  have 2: "api_reach granted" using 1 step_issueGrant [OF i] by (rule rtranclp.rtrancl_into_rtrancl)
  have g: "sample_grant \<in> set (listGrants granted ''s1'')"
    by (simp add: listGrants_def granted_def map_get_def)
  have 3: "api_step\<^sup>*\<^sup>* granted (fst (revokeGrant ''t'' ''u'' ''g1'' ''owner'' ''leaked'' None granted))"
    by (rule r_into_rtranclp) (rule step_revokeGrant)
  have 4: "ag_expiresAt sample_grant = None" by (simp add: sample_defs)
  from issued_grants_stay_valid [OF 2 g 3 disjI1 [OF 4], of "''2026''"] show ?thesis by blast
qed

end
