(* ===== verification/Js_Json.thy ===== *)
theory Js_Json imports Js_Text Js_Runtime Js_Map "HOL-Library.Multiset" begin

text \<open>
  Canonical JSON, as \<open>canonicalJson\<close> of \<open>dharma/types.ts\<close> prints it for content addresses and
  signatures, and the proof that the printed text determines the value up to what the printer
  forgets: the order of the keys of an object, the difference between \<open>undefined\<close> and \<open>null\<close>, and
  the difference between a byte array and the text of its base64url form.  Numbers are integers
  (below \<open>10 ^ 21\<close>, where \<open>String\<close> prints plain decimals); characters are code units below 256.
\<close>

section \<open>Values and the printer\<close>

datatype json =
    J_undefined | J_null | J_bool bool | J_num int | J_str string | J_bytes string
  | J_arr "json list" | J_obj "(string \<times> json) list"

text \<open>The escapes of \<open>JSON.stringify\<close>.\<close>

definition json_escape :: "char \<Rightarrow> string" where
  "json_escape c =
     (let n = of_char c :: nat; bs = CHR 0x5C
      in if n = 34 then [bs, c]
         else if n = 92 then [bs, c]
         else if n = 8 then [bs, CHR ''b'']
         else if n = 9 then [bs, CHR ''t'']
         else if n = 10 then [bs, CHR ''n'']
         else if n = 12 then [bs, CHR ''f'']
         else if n = 13 then [bs, CHR ''r'']
         else if n < 32 then [bs, CHR ''u'', CHR ''0'', CHR ''0'', hex_char (n div 16), hex_char (n mod 16)]
         else [c])"

definition json_quote :: "string \<Rightarrow> string" where
  "json_quote s = quoted (concat (List.map json_escape s))"

text \<open>\<open>Buffer.toString("base64url")\<close>: six bits per character, no padding.\<close>

definition base64url_char :: "nat \<Rightarrow> char" where
  "base64url_char d =
     (if d < 26 then char_of (65 + d)
      else if d < 52 then char_of (71 + d)
      else if d < 62 then char_of (d - 4)
      else if d = 62 then CHR ''-'' else CHR ''_'')"

fun base64url :: "string \<Rightarrow> string" where
  "base64url [] = []"
| "base64url [a] =
     (let a = of_char a in [base64url_char (a div 4), base64url_char (a mod 4 * 16)])"
| "base64url [a, b] =
     (let a = of_char a; b = of_char b
      in [base64url_char (a div 4), base64url_char (a mod 4 * 16 + b div 16), base64url_char (b mod 16 * 4)])"
| "base64url (a # b # c # r) =
     (let a = of_char a; b = of_char b; c = of_char c
      in [base64url_char (a div 4), base64url_char (a mod 4 * 16 + b div 16),
          base64url_char (b mod 16 * 4 + c div 64), base64url_char (c mod 64)]) @ base64url r"

text \<open>
  The keys are sorted by code unit and each is printed with the text of its value.
\<close>

fun canonicalJson :: "json \<Rightarrow> string" where
  "canonicalJson J_undefined = ''null''"
| "canonicalJson J_null = ''null''"
| "canonicalJson (J_bool b) = (if b then ''true'' else ''false'')"
| "canonicalJson (J_num n) = show_int n"
| "canonicalJson (J_str s) = json_quote s"
| "canonicalJson (J_bytes b) = quoted (base64url b)"
| "canonicalJson (J_arr vs) = ''['' @ js_join '','' (List.map canonicalJson vs) @ '']''"
| "canonicalJson (J_obj kvs) =
     ''{'' @ js_join '',''
       (List.map (\<lambda>(k, t). json_quote k @ '':'' @ t)
         (sort_key fst (List.map (\<lambda>(k, v). (k, canonicalJson v)) kvs))) @ ''}''"

text \<open>\<open>JSON.stringify\<close> of the standard library: keys in the order of the object, fields that are
  \<open>undefined\<close> left out, a byte array as an object of its indices.\<close>

fun json_stringify :: "json \<Rightarrow> string" where
  "json_stringify J_undefined = ''null''"
| "json_stringify J_null = ''null''"
| "json_stringify (J_bool b) = (if b then ''true'' else ''false'')"
| "json_stringify (J_num n) = show_int n"
| "json_stringify (J_str s) = json_quote s"
| "json_stringify (J_bytes b) =
     ''{'' @ js_join '','' (List.map (\<lambda>(i, c). json_quote (show_nat i) @ '':'' @ show_nat (of_char c))
       (zip [0..<length b] b)) @ ''}''"
| "json_stringify (J_arr vs) = ''['' @ js_join '','' (List.map json_stringify vs) @ '']''"
| "json_stringify (J_obj kvs) =
     ''{'' @ js_join '',''
       (concat (List.map (\<lambda>(k, v). if v = J_undefined then [] else [json_quote k @ '':'' @ json_stringify v]) kvs))
     @ ''}''"

section \<open>What the printer forgets\<close>

datatype canon =
    C_null | C_bool bool | C_num int | C_str string | C_arr "canon list" | C_obj "(string \<times> canon) list"

fun canonical :: "json \<Rightarrow> canon" where
  "canonical J_undefined = C_null"
| "canonical J_null = C_null"
| "canonical (J_bool b) = C_bool b"
| "canonical (J_num n) = C_num n"
| "canonical (J_str s) = C_str s"
| "canonical (J_bytes b) = C_str (base64url b)"
| "canonical (J_arr vs) = C_arr (List.map canonical vs)"
| "canonical (J_obj kvs) = C_obj (sort_key fst (List.map (\<lambda>(k, v). (k, canonical v)) kvs))"

fun render :: "canon \<Rightarrow> string" where
  "render C_null = ''null''"
| "render (C_bool b) = (if b then ''true'' else ''false'')"
| "render (C_num n) = show_int n"
| "render (C_str s) = json_quote s"
| "render (C_arr vs) = ''['' @ js_join '','' (List.map render vs) @ '']''"
| "render (C_obj kvs) =
     ''{'' @ js_join '','' (List.map (\<lambda>(k, v). json_quote k @ '':'' @ render v) kvs) @ ''}''"

lemma escape_plain:
  "32 \<le> (of_char c :: nat) \<Longrightarrow> of_char c \<noteq> (34 :: nat) \<Longrightarrow> of_char c \<noteq> (92 :: nat) \<Longrightarrow> json_escape c = [c]"
  by (simp add: json_escape_def Let_def)

lemma base64url_char_plain: "json_escape (base64url_char d) = [base64url_char d]" if d: "d < 64"
proof (rule escape_plain)
  consider "d < 26" | "26 \<le> d" "d < 52" | "52 \<le> d" "d < 62" | "d = 62" | "d = 63"
    using d by force
  then have "45 \<le> (of_char (base64url_char d) :: nat) \<and> of_char (base64url_char d) \<noteq> (92 :: nat)"
    by cases (auto simp: base64url_char_def)
  then show "32 \<le> (of_char (base64url_char d) :: nat)" "of_char (base64url_char d) \<noteq> (34 :: nat)"
    "of_char (base64url_char d) \<noteq> (92 :: nat)" by auto
qed

lemma byte_parts:
  "of_char a div 4 < (64::nat)" "of_char a div 16 < (16::nat)" "of_char a div 64 < (4::nat)"
  by (simp_all add: div_less_iff_less_mult)

lemma base64url_plain: "concat (List.map json_escape (base64url b)) = base64url b"
proof (induction b rule: base64url.induct)
  case (2 a)
  show ?case using byte_parts by (simp add: Let_def base64url_char_plain)
next
  case (3 a b)
  have "of_char a mod 4 * 16 + of_char b div 16 < (64::nat)" "of_char b mod 16 * 4 < (64::nat)"
    using byte_parts(2) [of b] mod_less_divisor [of 4 "of_char a :: nat"]
      mod_less_divisor [of 16 "of_char b :: nat"] by linarith+
  then show ?case using byte_parts(1) by (simp add: Let_def base64url_char_plain)
next
  case (4 a b c r)
  have "of_char a mod 4 * 16 + of_char b div 16 < (64::nat)"
    "of_char b mod 16 * 4 + of_char c div 64 < (64::nat)"
    using byte_parts(2) [of b] byte_parts(3) [of c] mod_less_divisor [of 4 "of_char a :: nat"]
      mod_less_divisor [of 16 "of_char b :: nat"] by linarith+
  then show ?case using 4 byte_parts(1) by (simp add: Let_def base64url_char_plain)
qed simp

lemma insort_key_map: "insort_key fst (f x) (List.map f xs) = List.map f (insort_key fst x xs)"
  if "\<And>x. fst (f x) = fst x"
  by (induction xs) (simp_all add: that)

lemma sort_key_map: "sort_key fst (List.map f xs) = List.map f (sort_key fst xs)"
  if "\<And>x. fst (f x) = fst x"
  by (induction xs) (simp_all add: insort_key_map that)

lemma canonicalJson_render: "canonicalJson v = render (canonical v)"
proof (induction v rule: canonicalJson.induct)
  case (8 kvs)
  have "List.map (\<lambda>(k, v). (k, canonicalJson v)) kvs =
        List.map (\<lambda>(k, t). (k, render t)) (List.map (\<lambda>(k, v). (k, canonical v)) kvs)"
    using 8 by (auto split: prod.splits)
  then show ?case
    by (simp add: sort_key_map split_def comp_def del: List.map_map)
       (simp add: split_def comp_def)
qed (auto simp: json_quote_def base64url_plain comp_def cong: list.map_cong)

section \<open>The text determines the value\<close>

subsection \<open>Strings\<close>

definition hex_value :: "char \<Rightarrow> nat" where
  "hex_value c = (let n = of_char c in if n < 58 then n - 48 else n - 87)"

text \<open>Reads one character of a quoted string back.\<close>

fun unescape :: "string \<Rightarrow> (char \<times> string) option" where
  "unescape [] = None"
| "unescape (c # r) =
     (if c \<noteq> CHR 0x5C then Some (c, r)
      else case r of [] \<Rightarrow> None
      | d # r' \<Rightarrow>
        if d = CHR ''b'' then Some (char_of (8::nat), r')
        else if d = CHR ''t'' then Some (char_of (9::nat), r')
        else if d = CHR ''n'' then Some (char_of (10::nat), r')
        else if d = CHR ''f'' then Some (char_of (12::nat), r')
        else if d = CHR ''r'' then Some (char_of (13::nat), r')
        else if d = CHR ''u'' then
          (case r' of _ # _ # h # l # r'' \<Rightarrow> Some (char_of (16 * hex_value h + hex_value l), r'') | _ \<Rightarrow> None)
        else Some (d, r'))"

lemma hex_value_char [simp]: "d < 16 \<Longrightarrow> hex_value (hex_char d) = d"
  by (simp add: hex_value_def Let_def hex_char.simps)

lemma char_eqI: "of_char c = n \<Longrightarrow> c = char_of (n::nat)"
  by auto

lemma unescape_escape: "unescape (json_escape c @ r) = Some (c, r)"
proof -
  define n where "n = (of_char c :: nat)"
  have c: "c = char_of n" by (simp add: n_def)
  have c34: "char_of (34::nat) = CHR 0x22" and c92: "char_of (92::nat) = CHR 0x5C" by code_simp+
  consider "n = 34" | "n = 92" | "n = 8" | "n = 9" | "n = 10" | "n = 12" | "n = 13"
    | "n < 32" "n \<notin> {8, 9, 10, 12, 13}" | "32 \<le> n" "n \<noteq> 34" "n \<noteq> 92" by fastforce
  then show ?thesis
  proof cases
    case 8
    then have "json_escape c = [CHR 0x5C, CHR ''u'', CHR ''0'', CHR ''0'', hex_char (n div 16), hex_char (n mod 16)]"
      by (simp add: json_escape_def Let_def flip: n_def)
    moreover have "n div 16 < 16" using 8(1) by simp
    ultimately show ?thesis by (simp add: c)
  next
    case 9
    moreover have "c \<noteq> CHR 0x5C" using 9(3) by (auto simp: n_def)
    ultimately show ?thesis using escape_plain [of c] by (simp add: n_def)
  qed (simp_all add: json_escape_def Let_def c c34 c92)
qed

lemma escape_hd: "json_escape c = x # xs \<Longrightarrow> x \<noteq> CHR 0x22"
  by (auto simp: json_escape_def Let_def split: if_splits)

lemma escape_not_Nil [simp]: "json_escape c \<noteq> []"
  by (simp add: json_escape_def Let_def)

lemma escape_inject: "json_escape c @ r = json_escape d @ s \<longleftrightarrow> c = d \<and> r = s"
  by (metis unescape_escape option.inject prod.inject)

lemma escaped_inject:
  "concat (List.map json_escape s) @ CHR 0x22 # r = concat (List.map json_escape t) @ CHR 0x22 # r' \<Longrightarrow>
     s = t \<and> r = r'"
proof (induction s arbitrary: t)
  case Nil
  then show ?case
  proof (cases t)
    case (Cons d ds)
    with Nil obtain xs where "json_escape d = CHR 0x22 # xs" by (cases "json_escape d") auto
    then show ?thesis using escape_hd by blast
  qed simp
next
  case (Cons c cs)
  show ?case
  proof (cases t)
    case Nil
    with Cons(2) obtain xs where "json_escape c = CHR 0x22 # xs" by (cases "json_escape c") auto
    then show ?thesis using escape_hd by blast
  next
    case (Cons d ds)
    with Cons.prems Cons.IH [of ds] show ?thesis by (simp add: escape_inject)
  qed
qed

lemma json_quote_inject: "json_quote s @ r = json_quote t @ r' \<Longrightarrow> s = t \<and> r = r'"
  by (auto simp: json_quote_def quoted_def dest: escaped_inject)

subsection \<open>Numbers\<close>

text \<open>What may follow a value inside a JSON text.\<close>

definition ends_value :: "string \<Rightarrow> bool" where
  "ends_value r \<longleftrightarrow> r = [] \<or> hd r = CHR '','' \<or> hd r = CHR '']'' \<or> hd r = CHR ''}''"

lemma ends_value_simps [simp]:
  "ends_value []" "ends_value (CHR '','' # r)" "ends_value (CHR '']'' # r)" "ends_value (CHR ''}'' # r)"
  by (simp_all add: ends_value_def)

definition num_char :: "char \<Rightarrow> bool" where
  "num_char c \<longleftrightarrow> is_digit c \<or> c = CHR ''-''"

lemma takeWhile_show_int: "ends_value r \<Longrightarrow> takeWhile num_char (show_int i @ r) = show_int i"
proof -
  assume r: "ends_value r"
  have "\<forall>c\<in>set (show_int i). num_char c" using show_int_chars by (auto simp: num_char_def)
  moreover have "takeWhile num_char r = []"
    using r by (cases r) (auto simp: ends_value_def num_char_def is_digit_def)
  ultimately show ?thesis by (simp add: takeWhile_append2)
qed

lemma show_int_prefix:
  assumes "show_int i @ r = show_int j @ s" "ends_value r" "ends_value s"
  shows "i = j \<and> r = s"
proof -
  have "show_int i = show_int j"
    using takeWhile_show_int [OF assms(2), of i] takeWhile_show_int [OF assms(3), of j] assms(1) by simp
  then show ?thesis using assms(1) by simp
qed

lemma show_nat_hd: "\<exists>c cs. show_nat n = c # cs \<and> is_digit c"
proof -
  have "show_nat n \<noteq> []" by (subst show_nat.simps) simp
  then show ?thesis using show_nat_digits [of _ n] by (cases "show_nat n") auto
qed

lemma show_int_hd: "\<exists>c cs. show_int i = c # cs \<and> num_char c"
  using show_nat_hd [of "nat i"] by (auto simp: show_int_def num_char_def)

subsection \<open>Values\<close>

text \<open>The first character tells the kind of the value.\<close>

datatype json_kind = K_null | K_true | K_false | K_num | K_str | K_arr | K_obj

definition kind_of_char :: "char \<Rightarrow> json_kind option" where
  "kind_of_char c =
     (if num_char c then Some K_num
      else map_of [(CHR ''n'', K_null), (CHR ''t'', K_true), (CHR ''f'', K_false), (CHR 0x22, K_str),
                   (CHR ''['', K_arr), (CHR ''{'', K_obj)] c)"

fun kind_of :: "canon \<Rightarrow> json_kind" where
  "kind_of C_null = K_null"
| "kind_of (C_bool b) = (if b then K_true else K_false)"
| "kind_of (C_num n) = K_num"
| "kind_of (C_str s) = K_str"
| "kind_of (C_arr vs) = K_arr"
| "kind_of (C_obj kvs) = K_obj"

lemma render_hd: "\<exists>c cs. render v = c # cs \<and> kind_of_char c = Some (kind_of v)"
proof (cases v)
  case (C_num n)
  moreover obtain c cs where "show_int n = c # cs" "num_char c" using show_int_hd by blast
  ultimately show ?thesis by (simp add: kind_of_char_def)
qed (auto simp: kind_of_char_def num_char_def is_digit_def json_quote_def quoted_def)

lemma render_kind: "render v @ r = render w @ s \<Longrightarrow> kind_of v = kind_of w"
  using render_hd [of v] render_hd [of w] by auto

lemma render_not_close: "render v @ r \<noteq> CHR '']'' # s"
  using render_hd [of v] by (auto simp: kind_of_char_def num_char_def is_digit_def)

text \<open>
  A list of printed items between brackets, for any printer whose items can be told apart when the
  text ends with a character that may follow a value.
\<close>

lemma joined_items_inject:
  assumes item: "\<And>x y r s. x \<in> set xs \<Longrightarrow> f x @ r = f y @ s \<Longrightarrow> ends_value r \<Longrightarrow> ends_value s \<Longrightarrow> x = y \<and> r = s"
    and close: "ends_value (c # r)" "ends_value (c # s)" "c \<noteq> CHR '',''"
    and noclose: "\<And>x r s. f x @ r \<noteq> c # s"
    and eq: "js_join '','' (List.map f xs) @ c # r = js_join '','' (List.map f ys) @ c # s"
  shows "xs = ys \<and> r = s"
  using item eq
proof (induction xs arbitrary: ys)
  case Nil
  then show ?case
  proof (cases ys)
    case (Cons y ys')
    with Nil(2) show ?thesis using noclose [of y] by (metis append_assoc append_Nil js_join_Cons list.simps(9) js_join.simps(1) list.map(1))
  qed simp
next
  case (Cons x xs)
  show ?case
  proof (cases ys)
    case Nil
    with Cons.prems(2) show ?thesis using noclose [of x] by (auto simp: js_join_Cons)
  next
    case ys: (Cons y ys')
    define rx where "rx = (if xs = [] then [] else '','' @ js_join '','' (List.map f xs)) @ c # r"
    define sy where "sy = (if ys' = [] then [] else '','' @ js_join '','' (List.map f ys')) @ c # s"
    have "f x @ rx = f y @ sy" using Cons.prems(2) ys by (simp add: js_join_Cons rx_def sy_def)
    moreover have "ends_value rx" "ends_value sy" using close by (auto simp: rx_def sy_def)
    ultimately have xy: "x = y" "rx = sy" using Cons.prems(1) [of x rx y sy] by auto
    have "(xs = []) = (ys' = [])" using xy(2) close(3) by (auto simp: rx_def sy_def split: if_splits)
    then have "js_join '','' (List.map f xs) @ c # r = js_join '','' (List.map f ys') @ c # s"
      using xy(2) by (auto simp: rx_def sy_def split: if_splits)
    then show ?thesis using Cons.IH [of ys'] Cons.prems(1) xy(1) ys by auto
  qed
qed

lemma render_prefix:
  "render v @ r = render w @ s \<Longrightarrow> ends_value r \<Longrightarrow> ends_value s \<Longrightarrow> v = w \<and> r = s"
proof (induction v arbitrary: w r s)
  case (C_arr vs)
  have "kind_of w = K_arr" using render_kind [OF C_arr.prems(1)] by simp
  then obtain ws where w: "w = C_arr ws" by (rule kind_of.elims) (auto split: if_splits)
  with C_arr.prems(1) have eq: "js_join '','' (List.map render vs) @ CHR '']'' # r =
      js_join '','' (List.map render ws) @ CHR '']'' # s" by simp
  show ?case using joined_items_inject [OF _ _ _ _ _ eq] C_arr.IH render_not_close w by auto
next
  case (C_obj kvs)
  define f where "f = (\<lambda>(k, v). json_quote k @ '':'' @ render v)"
  have "kind_of w = K_obj" using render_kind [OF C_obj.prems(1)] by simp
  then obtain ws where w: "w = C_obj ws" by (rule kind_of.elims) (auto split: if_splits)
  with C_obj.prems(1) have eq: "js_join '','' (List.map f kvs) @ CHR ''}'' # r =
      js_join '','' (List.map f ws) @ CHR ''}'' # s" by (simp add: f_def)
  have item: "x = y \<and> r = s" if x: "x \<in> set kvs" and e: "f x @ r = f y @ s" "ends_value r" "ends_value s"
    for x y r s
  proof -
    obtain k v l u where [simp]: "x = (k, v)" "y = (l, u)" by fastforce
    from e(1) have "json_quote k @ (CHR '':'' # render v @ r) = json_quote l @ (CHR '':'' # render u @ s)"
      by (simp add: f_def)
    then have "k = l" "render v @ r = render u @ s" by (auto dest!: json_quote_inject)
    moreover have "v = u \<and> r = s" by (rule C_obj.IH [OF x]) (use calculation(2) e in simp_all)
    ultimately show ?thesis by simp
  qed
  have noclose: "f x @ r \<noteq> CHR ''}'' # s" for x r s
    by (cases x) (simp add: f_def json_quote_def quoted_def)
  show ?case using joined_items_inject [OF item _ _ _ noclose eq] w by simp
next
  case C_null
  then show ?case using render_kind [OF C_null(1)] by (cases w) (auto split: if_splits)
next
  case (C_bool b)
  then show ?case using render_kind [OF C_bool(1)] by (cases w) (auto split: if_splits)
next
  case (C_num n)
  then show ?case using render_kind [OF C_num(1)] by (cases w) (auto split: if_splits dest: show_int_prefix)
next
  case (C_str x)
  then show ?case using render_kind [OF C_str(1)] by (cases w) (auto split: if_splits dest: json_quote_inject)
qed

lemma render_inject: "render v = render w \<longleftrightarrow> v = w"
  using render_prefix [of v "[]" w "[]"] by auto

theorem canonicalJson_exact: "canonicalJson v = canonicalJson w \<longleftrightarrow> canonical v = canonical w"
  by (simp add: canonicalJson_render render_inject)

text \<open>The order in which an object was built is forgotten.\<close>

lemma canonical_obj_perm:
  assumes "distinct (List.map fst kvs)" "mset kvs = mset lws"
  shows "canonical (J_obj kvs) = canonical (J_obj lws)"
proof -
  define f where "f = (\<lambda>(k, v). (k :: string, canonical v))"
  have "distinct (List.map fst (List.map f kvs))" using assms(1) by (simp add: f_def split_def comp_def)
  then have "inj_on fst (set (List.map f kvs))" by (simp only: distinct_map)
  then have "sort_key fst (List.map f kvs) = sort_key fst (List.map f lws)"
    using assms(2) by (intro sort_key_eq_sort_key) simp_all
  then show ?thesis by (simp add: f_def)
qed

text \<open>Two objects with the same keys print alike exactly when their values do, key by key.\<close>

lemma canonical_obj_same_keys:
  assumes "distinct (List.map fst kvs)" "List.map fst kvs = List.map fst lws"
  shows "canonical (J_obj kvs) = canonical (J_obj lws) \<longleftrightarrow>
         List.map (\<lambda>e. canonical (snd e)) kvs = List.map (\<lambda>e. canonical (snd e)) lws" (is "?l = ?r")
proof -
  define f where "f = (\<lambda>(k, v). (k :: string, canonical v))"
  define vals where "vals = List.map (\<lambda>e :: string \<times> json. canonical (snd e))"
  have zipped: "List.map f xs = zip (List.map fst xs) (vals xs)" for xs
    by (induction xs) (simp_all add: f_def vals_def split_def)
  have len: "length (vals kvs) = length (List.map fst kvs)" "length (vals lws) = length (List.map fst kvs)"
    using arg_cong [OF assms(2), of length] by (simp_all add: vals_def)
  have d: "distinct (List.map fst (List.map f kvs))" "distinct (List.map fst (List.map f lws))"
    using assms by (simp_all add: f_def split_def comp_def)
  have obj: "canonical (J_obj xs) = C_obj (sort_key fst (List.map f xs))" for xs by (simp add: f_def)
  have "vals kvs = vals lws" if "canonical (J_obj kvs) = canonical (J_obj lws)"
  proof -
    from that have "sort_key fst (List.map f kvs) = sort_key fst (List.map f lws)" by (simp only: obj canon.inject)
    then have "set (List.map f kvs) = set (List.map f lws)" by (metis set_sort)
    then have "map_of (List.map f kvs) = map_of (List.map f lws)" using map_of_inject_set [OF d] by simp
    then show ?thesis using map_of_zip_inject [OF len assms(1)] by (simp add: zipped assms(2))
  qed
  moreover have "canonical (J_obj kvs) = canonical (J_obj lws)" if "vals kvs = vals lws"
    unfolding obj zipped using that assms(2) by simp
  ultimately show ?thesis unfolding vals_def by blast
qed

end
