(* ===== verification/Dharma_Events.thy ===== *)
theory Dharma_Events imports Js_Json begin

text \<open>
  The signed event log of the Dharma federation: \<open>dharma/types.ts\<close> (event types, content addresses),
  \<open>dharma/event-codec.ts\<close> and \<open>dharma/event-validator.ts\<close>.  SHA-256 and Ed25519 come from
  \<open>node:crypto\<close> and are parameters: \<open>sha\<close> maps bytes to the hexadecimal digest, \<open>sig priv data\<close> is
  the signature (\<open>None\<close> where \<open>createPrivateKey\<close> rejects the key) and \<open>ver pub data s\<close> the check
  (false where it throws).  Bytes and texts are both character lists; \<open>utf8\<close> is \<open>TextEncoder\<close>.
  Event types are texts, as the validator receives them; timestamps are the texts of the sources.
\<close>

section \<open>Encodings\<close>

definition utf8_char :: "char \<Rightarrow> string" where
  "utf8_char c =
     (let n = of_char c :: nat
      in if n < 128 then [c] else [char_of (192 + n div 64), char_of (128 + n mod 64)])"

definition utf8 :: "string \<Rightarrow> string" where
  "utf8 s = concat (List.map utf8_char s)"

text \<open>\<open>Buffer.toString("hex")\<close>, and \<open>Buffer.from(s, "hex")\<close>, which stops at the first pair that is
  not hexadecimal.\<close>

definition hex_encode :: "string \<Rightarrow> string" where
  "hex_encode b = concat (List.map (\<lambda>c. [hex_char (of_char c div 16), hex_char (of_char c mod 16)]) b)"

definition hex_digit :: "char \<Rightarrow> nat option" where
  "hex_digit c =
     (let n = of_char c
      in if 48 \<le> n \<and> n < 58 then Some (n - 48)
         else if 97 \<le> n \<and> n < 103 then Some (n - 87)
         else if 65 \<le> n \<and> n < 71 then Some (n - 55) else None)"

fun hex_decode :: "string \<Rightarrow> string" where
  "hex_decode (a # b # r) =
     (case (hex_digit a, hex_digit b) of
        (Some x, Some y) \<Rightarrow> char_of (16 * x + y) # hex_decode r
      | _ \<Rightarrow> [])"
| "hex_decode _ = []"

section \<open>Event types and envelopes\<close>

definition DHARMA_EVENT_SCHEMA_VERSION :: int where
  "DHARMA_EVENT_SCHEMA_VERSION = 1"

definition EVENT_TYPES :: "string list" where
  "EVENT_TYPES =
     [''federation.genesis'', ''federation.policy_proposed'', ''federation.policy_accepted'',
      ''federation.member_invited'', ''federation.member_joined'', ''federation.member_left'',
      ''federation.role_granted'', ''federation.role_revoked'', ''identity.rotate'',
      ''identity.profile_updated'', ''work.offer_created'', ''work.offer_updated'',
      ''work.offer_cancelled'', ''work.claim_created'', ''work.claim_released'',
      ''work.claim_expired'', ''work.completion_attested'', ''receipt.issued'',
      ''receipt.accepted'', ''receipt.rejected'', ''receipt.voided'', ''trust.attested'',
      ''trust.revoked'', ''moderation.flagged'', ''moderation.decision'',
      ''moderation.appeal_created'', ''moderation.appeal_decided'', ''replication.checkpoint'']"

definition GOVERNANCE_EVENT_TYPES :: "string list" where
  "GOVERNANCE_EVENT_TYPES =
     [''federation.genesis'', ''federation.policy_proposed'', ''federation.policy_accepted'',
      ''federation.member_invited'', ''federation.member_joined'', ''federation.member_left'',
      ''federation.role_granted'', ''federation.role_revoked'', ''moderation.decision'',
      ''moderation.appeal_decided'']"

definition MUTABLE_ENTITY_EVENT_TYPES :: "string list" where
  "MUTABLE_ENTITY_EVENT_TYPES =
     [''identity.rotate'', ''identity.profile_updated'', ''work.offer_updated'',
      ''work.offer_cancelled'', ''work.claim_released'', ''replication.checkpoint'']"

record DharmaEventEnvelope =
  ev_eventId :: string
  ev_federationId :: string
  ev_eventType :: string
  ev_schemaVersion :: int
  ev_actorPublicKey :: string
  ev_actorDeviceId :: "string option"
  ev_createdAt :: string
  ev_logicalClock :: int
  ev_causalParents :: "string list"
  ev_payloadHash :: string
  ev_payload :: json
  ev_signature :: string

datatype EventValidationState =
  VS_received | VS_schema_verified | VS_signature_verified | VS_dependency_verified |
  VS_policy_evaluated | VS_accepted | VS_pending_dependencies | VS_quarantined | VS_rejected |
  VS_superseded

record EventValidation =
  vd_eventId :: string
  vd_validationState :: EventValidationState
  vd_validationReason :: "string option"
  vd_validatedAt :: string
  vd_policyDigest :: "string option"
  vd_validatorVersion :: int

record UnsignedEvent =
  un_federationId :: string
  un_eventType :: string
  un_schemaVersion :: int
  un_actorPublicKey :: string
  un_actorDeviceId :: "string option"
  un_createdAt :: string
  un_logicalClock :: int
  un_causalParents :: "string list"
  un_payload :: json

record EventValidationResult =
  vr_state :: EventValidationState
  vr_reason :: "string option"

section \<open>Content addresses and signatures\<close>

text \<open>\<open>sha256Hex\<close> of a text: its UTF-8 bytes are hashed.\<close>

definition sha256Hex :: "(string \<Rightarrow> string) \<Rightarrow> string \<Rightarrow> string" where
  "sha256Hex sha data = sha (utf8 data)"

definition event_seed ::
    "string \<Rightarrow> string \<Rightarrow> string \<Rightarrow> int \<Rightarrow> string list \<Rightarrow> string \<Rightarrow> string \<Rightarrow> json" where
  "event_seed federationId eventType actorPublicKey logicalClock causalParents createdAt payloadHash =
     J_obj [(''federationId'', J_str federationId), (''eventType'', J_str eventType),
       (''actorPublicKey'', J_str actorPublicKey), (''logicalClock'', J_num logicalClock),
       (''causalParents'', J_arr (List.map J_str (sort_strings causalParents))),
       (''createdAt'', J_str createdAt), (''payloadHash'', J_str payloadHash)]"

definition deriveEventId ::
    "(string \<Rightarrow> string) \<Rightarrow> string \<Rightarrow> string \<Rightarrow> string \<Rightarrow> int \<Rightarrow> string list \<Rightarrow> string \<Rightarrow> string \<Rightarrow> string" where
  "deriveEventId sha federationId eventType actorPublicKey logicalClock causalParents createdAt payloadHash =
     sha256Hex sha (canonicalJson
       (event_seed federationId eventType actorPublicKey logicalClock causalParents createdAt payloadHash))"

definition computePayloadHash :: "(string \<Rightarrow> string) \<Rightarrow> json \<Rightarrow> string" where
  "computePayloadHash sha payload = sha256Hex sha (canonicalJson payload)"

definition json_of_device :: "string option \<Rightarrow> json" where
  "json_of_device d = (case d of None \<Rightarrow> J_null | Some s \<Rightarrow> J_str s)"

definition signing_object :: "UnsignedEvent \<Rightarrow> string \<Rightarrow> json" where
  "signing_object u payloadHash =
     J_obj [(''federationId'', J_str (un_federationId u)), (''eventType'', J_str (un_eventType u)),
       (''schemaVersion'', J_num (un_schemaVersion u)), (''actorPublicKey'', J_str (un_actorPublicKey u)),
       (''actorDeviceId'', json_of_device (un_actorDeviceId u)), (''createdAt'', J_str (un_createdAt u)),
       (''logicalClock'', J_num (un_logicalClock u)),
       (''causalParents'', J_arr (List.map J_str (sort_strings (un_causalParents u)))),
       (''payloadHash'', J_str payloadHash)]"

definition buildSigningPayload :: "UnsignedEvent \<Rightarrow> string \<Rightarrow> string" where
  "buildSigningPayload u payloadHash = utf8 (canonicalJson (signing_object u payloadHash))"

definition createSignedEvent ::
    "(string \<Rightarrow> string) \<Rightarrow> (string \<Rightarrow> string \<Rightarrow> string option) \<Rightarrow> UnsignedEvent \<Rightarrow> string \<Rightarrow>
     DharmaEventEnvelope option" where
  "createSignedEvent sha sig u privateKey =
     (let payloadHash = computePayloadHash sha (un_payload u)
      in case sig privateKey (buildSigningPayload u payloadHash) of
           None \<Rightarrow> None
         | Some s \<Rightarrow>
             Some \<lparr>ev_eventId = deriveEventId sha (un_federationId u) (un_eventType u) (un_actorPublicKey u)
                 (un_logicalClock u) (un_causalParents u) (un_createdAt u) payloadHash,
               ev_federationId = un_federationId u, ev_eventType = un_eventType u,
               ev_schemaVersion = un_schemaVersion u, ev_actorPublicKey = un_actorPublicKey u,
               ev_actorDeviceId = un_actorDeviceId u, ev_createdAt = un_createdAt u,
               ev_logicalClock = un_logicalClock u, ev_causalParents = sort_strings (un_causalParents u),
               ev_payloadHash = payloadHash, ev_payload = un_payload u, ev_signature = hex_encode s\<rparr>)"

definition unsigned_of :: "DharmaEventEnvelope \<Rightarrow> UnsignedEvent" where
  "unsigned_of e =
     \<lparr>un_federationId = ev_federationId e, un_eventType = ev_eventType e,
      un_schemaVersion = ev_schemaVersion e, un_actorPublicKey = ev_actorPublicKey e,
      un_actorDeviceId = ev_actorDeviceId e, un_createdAt = ev_createdAt e,
      un_logicalClock = ev_logicalClock e, un_causalParents = ev_causalParents e, un_payload = ev_payload e\<rparr>"

definition verifyEventSignature :: "(string \<Rightarrow> string \<Rightarrow> string \<Rightarrow> bool) \<Rightarrow> DharmaEventEnvelope \<Rightarrow> bool" where
  "verifyEventSignature ver e =
     ver (hex_decode (ev_actorPublicKey e)) (buildSigningPayload (unsigned_of e) (ev_payloadHash e))
       (hex_decode (ev_signature e))"

definition envelope_json :: "DharmaEventEnvelope \<Rightarrow> json" where
  "envelope_json e =
     J_obj [(''eventId'', J_str (ev_eventId e)), (''federationId'', J_str (ev_federationId e)),
       (''eventType'', J_str (ev_eventType e)), (''schemaVersion'', J_num (ev_schemaVersion e)),
       (''actorPublicKey'', J_str (ev_actorPublicKey e)), (''actorDeviceId'', json_of_device (ev_actorDeviceId e)),
       (''createdAt'', J_str (ev_createdAt e)), (''logicalClock'', J_num (ev_logicalClock e)),
       (''causalParents'', J_arr (List.map J_str (ev_causalParents e))),
       (''payloadHash'', J_str (ev_payloadHash e)), (''payload'', ev_payload e),
       (''signature'', J_str (ev_signature e))]"

definition serializeEvent :: "DharmaEventEnvelope \<Rightarrow> string" where
  "serializeEvent e = utf8 (canonicalJson (envelope_json e))"

section \<open>Validation\<close>

abbreviation accepted_result :: EventValidationResult where
  "accepted_result \<equiv> \<lparr>vr_state = VS_accepted, vr_reason = None\<rparr>"

definition validateEventType :: "string \<Rightarrow> EventValidationResult" where
  "validateEventType eventType =
     (if List.member EVENT_TYPES eventType then accepted_result
      else \<lparr>vr_state = VS_rejected, vr_reason = Some (''Unknown event type: '' @ eventType)\<rparr>)"

definition validateSchemaVersion :: "int \<Rightarrow> EventValidationResult" where
  "validateSchemaVersion version =
     (if version = DHARMA_EVENT_SCHEMA_VERSION then accepted_result
      else \<lparr>vr_state = VS_rejected, vr_reason = Some (''Unsupported schema version: '' @ show_int version @
        '', expected: '' @ show_int DHARMA_EVENT_SCHEMA_VERSION)\<rparr>)"

definition validateSignature :: "(string \<Rightarrow> string \<Rightarrow> string \<Rightarrow> bool) \<Rightarrow> DharmaEventEnvelope \<Rightarrow> EventValidationResult" where
  "validateSignature ver e =
     (if verifyEventSignature ver e then accepted_result
      else \<lparr>vr_state = VS_rejected, vr_reason = Some ''Event signature verification failed''\<rparr>)"

definition validateCausalParents :: "DharmaEventEnvelope \<Rightarrow> EventValidationResult" where
  "validateCausalParents e =
     (if List.member GOVERNANCE_EVENT_TYPES (ev_eventType e) \<and> length (ev_causalParents e) = 0
      then \<lparr>vr_state = VS_quarantined, vr_reason = Some (''Governance event '' @ ev_eventType e @
        '' requires at least one causal parent'')\<rparr>
      else accepted_result)"

definition validateEvent :: "(string \<Rightarrow> string \<Rightarrow> string \<Rightarrow> bool) \<Rightarrow> DharmaEventEnvelope \<Rightarrow> EventValidationResult" where
  "validateEvent ver e =
     (let versionResult = validateSchemaVersion (ev_schemaVersion e)
      in if vr_state versionResult \<noteq> VS_accepted then versionResult
      else let typeResult = validateEventType (ev_eventType e)
      in if vr_state typeResult \<noteq> VS_accepted then typeResult
      else let sigResult = validateSignature ver e
      in if vr_state sigResult \<noteq> VS_accepted then sigResult
      else let parentResult = validateCausalParents e
      in if vr_state parentResult \<noteq> VS_accepted then parentResult
      else accepted_result)"

definition createValidationRecord :: "string \<Rightarrow> string \<Rightarrow> EventValidationResult \<Rightarrow> string option \<Rightarrow> EventValidation" where
  "createValidationRecord now eventId result policyDigest =
     \<lparr>vd_eventId = eventId, vd_validationState = vr_state result, vd_validationReason = vr_reason result,
      vd_validatedAt = now, vd_policyDigest = policyDigest,
      vd_validatorVersion = DHARMA_EVENT_SCHEMA_VERSION\<rparr>"

section \<open>The encodings lose nothing\<close>

fun utf8_read :: "string \<Rightarrow> (char \<times> string) option" where
  "utf8_read [] = None"
| "utf8_read (c # r) =
     (if (of_char c :: nat) < 128 then Some (c, r)
      else case r of [] \<Rightarrow> None
      | d # r' \<Rightarrow> Some (char_of ((of_char c - 192) * 64 + (of_char d - 128) :: nat), r'))"

lemma utf8_read_char: "utf8_read (utf8_char c @ r) = Some (c, r)"
proof -
  define n where "n = (of_char c :: nat)"
  have c: "c = char_of n" and n: "n div 64 < 4" "n mod 64 < 64"
    by (simp_all add: n_def div_less_iff_less_mult)
  from n have "192 + n div 64 < 256" "128 + n mod 64 < 256" by linarith+
  then have lead: "of_char (char_of (192 + n div 64) :: char) = 192 + n div 64"
    and trail: "of_char (char_of (128 + n mod 64) :: char) = 128 + n mod 64"
    by (metis mod_less of_char_of)+
  have "n div 64 * 64 + n mod 64 = n" by simp
  then show ?thesis using c lead trail by (simp add: utf8_char_def Let_def flip: n_def)
qed

lemma utf8_char_not_Nil [simp]: "utf8_char c \<noteq> []"
  by (simp add: utf8_char_def Let_def)

lemma utf8_inject [simp]: "utf8 s = utf8 t \<longleftrightarrow> s = t"
proof (induction s arbitrary: t)
  case Nil
  show ?case by (cases t) (simp_all add: utf8_def)
next
  case (Cons c cs)
  show ?case
  proof (cases t)
    case Nil
    then show ?thesis by (simp add: utf8_def)
  next
    case (Cons d ds)
    have "utf8_char c @ utf8 cs = utf8_char d @ utf8 ds \<longleftrightarrow> c = d \<and> utf8 cs = utf8 ds"
      by (metis utf8_read_char option.inject prod.inject)
    with Cons.IH [of ds] Cons show ?thesis by (simp add: utf8_def)
  qed
qed

lemma hex_digit_char: "d < 16 \<Longrightarrow> hex_digit (hex_char d) = Some d"
  by (simp add: hex_digit_def hex_char.simps Let_def)

lemma hex_decode_encode [simp]: "hex_decode (hex_encode b) = b"
  by (induction b) (simp_all add: hex_encode_def hex_digit_char div_less_iff_less_mult)

section \<open>What an event identifier and a signature fix\<close>

lemma sorted_parents_iff: "sort_strings ps = sort_strings qs \<longleftrightarrow> mset ps = mset qs"
  by (metis mset_sort sort_key_eq_sort_key inj_on_id2)

lemma canonical_texts: "List.map (canonical \<circ> J_str) ps = List.map (canonical \<circ> J_str) qs \<longleftrightarrow> ps = qs"
  by (rule inj_map_eq_map) (simp add: inj_def)

lemma canonical_device: "canonical (json_of_device d) = canonical (json_of_device d') \<longleftrightarrow> d = d'"
  by (auto simp: json_of_device_def split: option.splits)

lemma event_seed_exact:
  "canonicalJson (event_seed f t a l ps c h) = canonicalJson (event_seed f' t' a' l' ps' c' h') \<longleftrightarrow>
     f = f' \<and> t = t' \<and> a = a' \<and> l = l' \<and> mset ps = mset ps' \<and> c = c' \<and> h = h'"
  unfolding canonicalJson_exact event_seed_def
  by (subst canonical_obj_same_keys) (simp_all add: canonical_texts sorted_parents_iff)

lemma signing_payload_exact:
  "buildSigningPayload u h = buildSigningPayload w k \<longleftrightarrow>
     un_federationId u = un_federationId w \<and> un_eventType u = un_eventType w \<and>
     un_schemaVersion u = un_schemaVersion w \<and> un_actorPublicKey u = un_actorPublicKey w \<and>
     un_actorDeviceId u = un_actorDeviceId w \<and> un_createdAt u = un_createdAt w \<and>
     un_logicalClock u = un_logicalClock w \<and> mset (un_causalParents u) = mset (un_causalParents w) \<and> h = k"
  unfolding buildSigningPayload_def utf8_inject canonicalJson_exact signing_object_def
  by (subst canonical_obj_same_keys) (simp_all add: canonical_texts sorted_parents_iff canonical_device)

text \<open>
  An event identifier is an exact content address.  Two events get the same identifier precisely
  when they agree on federation, type, author, logical clock, creation time and payload hash and on
  their causal parents as a multiset, unless the two byte strings that were hashed are a collision of
  SHA-256.  The order of the parents and of the keys of the payload do not matter; the author's device
  and the schema version, which the signature does cover, are not part of the address.
\<close>

theorem event_id_exact:
  "deriveEventId sha f t a l ps c h = deriveEventId sha f' t' a' l' ps' c' h' \<longleftrightarrow>
     (f = f' \<and> t = t' \<and> a = a' \<and> l = l' \<and> mset ps = mset ps' \<and> c = c' \<and> h = h') \<or>
     (\<exists>x y. x = utf8 (canonicalJson (event_seed f t a l ps c h)) \<and>
            y = utf8 (canonicalJson (event_seed f' t' a' l' ps' c' h')) \<and> x \<noteq> y \<and> sha x = sha y)"
  unfolding deriveEventId_def sha256Hex_def event_seed_exact [symmetric] by auto

text \<open>The text of an event on the wire fixes all of it but the order of keys inside its payload.\<close>

lemma serializeEvent_exact:
  "serializeEvent e = serializeEvent e' \<longleftrightarrow>
     e\<lparr>ev_payload := J_null\<rparr> = e'\<lparr>ev_payload := J_null\<rparr> \<and> canonical (ev_payload e) = canonical (ev_payload e')"
  unfolding serializeEvent_def utf8_inject canonicalJson_exact envelope_json_def
  by (cases e, cases e', subst canonical_obj_same_keys) (simp_all add: canonical_texts canonical_device, blast)

section \<open>The validator\<close>

lemmas validation_defs =
  validateEvent_def validateSchemaVersion_def validateEventType_def validateSignature_def
  validateCausalParents_def DHARMA_EVENT_SCHEMA_VERSION_def Let_def

text \<open>A private key belongs to a public key when the second verifies what the first signs.\<close>

definition key_pair_of ::
    "(string \<Rightarrow> string \<Rightarrow> string option) \<Rightarrow> (string \<Rightarrow> string \<Rightarrow> string \<Rightarrow> bool) \<Rightarrow> string \<Rightarrow> string \<Rightarrow> bool" where
  "key_pair_of sig ver priv pub \<longleftrightarrow> (\<forall>d. \<exists>s. sig priv d = Some s \<and> ver pub d s)"

lemma sort_sort_strings [simp]: "sort_strings (sort_strings ps) = sort_strings ps"
  by (rule sort_key_eq_sort_key) simp_all

lemma sort_strings_Nil [simp]: "sort_strings ps = [] \<longleftrightarrow> ps = []"
  by (metis length_0_conv length_sort)

lemma deriveEventId_sorted [simp]:
  "deriveEventId sha f t a l (sort_strings ps) c h = deriveEventId sha f t a l ps c h"
  by (simp add: deriveEventId_def event_seed_def)

lemma created_event_verifies:
  assumes "key_pair_of sig ver priv pub" "un_actorPublicKey u = hex_encode pub"
    "createSignedEvent sha sig u priv = Some e"
  shows "verifyEventSignature ver e"
proof -
  define h where "h = computePayloadHash sha (un_payload u)"
  from assms(1) obtain s where s: "sig priv (buildSigningPayload u h) = Some s" "ver pub (buildSigningPayload u h) s"
    by (auto simp: key_pair_of_def)
  have "buildSigningPayload (unsigned_of e) (ev_payloadHash e) = buildSigningPayload u h"
    and "ev_actorPublicKey e = hex_encode pub" "ev_signature e = hex_encode s"
    using assms(2,3) s unfolding signing_payload_exact
    by (auto simp: createSignedEvent_def unsigned_of_def Let_def h_def [symmetric])
  with s(2) show ?thesis by (simp add: verifyEventSignature_def)
qed

text \<open>
  C17: signing and validating round-trip.  With a key pair whose public half is the author's key, an
  event of the current schema version and of a known type is signed without an error, carries the
  content address and the payload hash of its payload, and is accepted by the validator; only a
  governance event without causal parents is quarantined instead.
\<close>

theorem signed_event_validates:
  assumes "key_pair_of sig ver priv pub" and "un_actorPublicKey u = hex_encode pub"
    and "un_schemaVersion u = 1" and "List.member EVENT_TYPES (un_eventType u)"
  shows "\<exists>e. createSignedEvent sha sig u priv = Some e \<and>
     ev_payloadHash e = computePayloadHash sha (ev_payload e) \<and>
     ev_eventId e = deriveEventId sha (ev_federationId e) (ev_eventType e) (ev_actorPublicKey e)
       (ev_logicalClock e) (ev_causalParents e) (ev_createdAt e) (ev_payloadHash e) \<and>
     vr_state (validateEvent ver e) =
       (if List.member GOVERNANCE_EVENT_TYPES (un_eventType u) \<and> un_causalParents u = []
        then VS_quarantined else VS_accepted)"
proof -
  from assms(1) obtain e where e: "createSignedEvent sha sig u priv = Some e"
    by (auto simp: key_pair_of_def createSignedEvent_def Let_def) (metis option.simps(5))
  have v: "verifyEventSignature ver e" by (rule created_event_verifies [OF assms(1,2) e])
  have f: "ev_schemaVersion e = 1" "ev_eventType e = un_eventType u" "(ev_causalParents e = []) = (un_causalParents u = [])"
    "ev_payloadHash e = computePayloadHash sha (ev_payload e)"
    "ev_eventId e = deriveEventId sha (ev_federationId e) (ev_eventType e) (ev_actorPublicKey e)
       (ev_logicalClock e) (ev_causalParents e) (ev_createdAt e) (ev_payloadHash e)"
    using e assms(3) by (auto simp: createSignedEvent_def Let_def split: option.splits)
  have "vr_state (validateEvent ver e) =
       (if List.member GOVERNANCE_EVENT_TYPES (un_eventType u) \<and> un_causalParents u = []
        then VS_quarantined else VS_accepted)"
    using v f(1-3) assms(4)
    by (simp add: validation_defs)
  with e f(4,5) show ?thesis by blast
qed

definition sample_genesis :: UnsignedEvent where
  "sample_genesis =
     \<lparr>un_federationId = ''fed'', un_eventType = ''federation.genesis'', un_schemaVersion = 1,
      un_actorPublicKey = hex_encode ''k'', un_actorDeviceId = None, un_createdAt = ''2024-06-15T12:00:00.000Z'',
      un_logicalClock = 1, un_causalParents = [], un_payload = J_obj [(''name'', J_str ''f'')]\<rparr>"

theorem signed_event_validates_witness:
  "\<exists>e. createSignedEvent (\<lambda>d. d) (\<lambda>k d. Some (k @ d)) sample_genesis ''k'' = Some e \<and>
     vr_state (validateEvent (\<lambda>k d s. s = k @ d) e) = VS_quarantined"
proof -
  have "key_pair_of (\<lambda>k d. Some (k @ d)) (\<lambda>k d s. s = k @ d) ''k'' ''k''" by (simp add: key_pair_of_def)
  from signed_event_validates [OF this, of sample_genesis "\<lambda>d. d"] show ?thesis
    by (auto simp: sample_genesis_def EVENT_TYPES_def GOVERNANCE_EVENT_TYPES_def)
qed

text \<open>
  The verdict of the validator.  An event is accepted when its schema version is 1, its type is
  known, its signature verifies and it is not a governance event without parents; it is quarantined
  when only the last condition fails and rejected when one of the first three does.  The verdict
  depends neither on the payload nor on the event identifier: an accepted event stays accepted when
  its payload is replaced by any other, because the payload is never compared with the payload hash
  that is signed, nor the identifier with the content address.
\<close>

theorem validator_exact:
  "vr_state (validateEvent ver e) =
     (if ev_schemaVersion e = 1 \<and> List.member EVENT_TYPES (ev_eventType e) \<and> verifyEventSignature ver e
      then if List.member GOVERNANCE_EVENT_TYPES (ev_eventType e) \<and> ev_causalParents e = []
           then VS_quarantined else VS_accepted
      else VS_rejected) \<and>
   validateEvent ver (e\<lparr>ev_payload := p, ev_eventId := i\<rparr>) = validateEvent ver e"
proof -
  have sig: "verifyEventSignature ver (e\<lparr>ev_payload := p, ev_eventId := i\<rparr>) = verifyEventSignature ver e"
    by (simp add: verifyEventSignature_def unsigned_of_def buildSigningPayload_def signing_object_def)
  show ?thesis
    by (simp add: validation_defs sig)
qed

text \<open>Every governance type is a known type, and so is every type that changes an entity.\<close>

lemma event_type_classes:
  "set GOVERNANCE_EVENT_TYPES \<subseteq> set EVENT_TYPES" "set MUTABLE_ENTITY_EVENT_TYPES \<subseteq> set EVENT_TYPES"
  "distinct EVENT_TYPES"
  unfolding GOVERNANCE_EVENT_TYPES_def EVENT_TYPES_def MUTABLE_ENTITY_EVENT_TYPES_def by simp_all

end
