(* ===== verification/Dharma_Ledger.thy ===== *)
theory Dharma_Ledger imports Dharma_Events Transition_Systems Js_Number begin

text \<open>
  The Dharma ledger beside its event log: federations and memberships (\<open>dharma/federation.ts\<close>), work
  offers and claims (\<open>dharma/work.ts\<close>), contribution receipts (\<open>dharma/receipt.ts\<close>), balances
  (\<open>dharma/balance.ts\<close>), the identity vault (\<open>dharma/identity.ts\<close>) and the local service that puts
  them together (\<open>DharmaApiImpl\<close> of \<open>dharma/api.ts\<close>).  The clock and the random identifiers are
  arguments (\<open>now\<close> is the text of the current time), SHA-256 and Ed25519 are parameters as in
  \<open>Dharma_Events\<close>, and so is the sealing of private keys (PBKDF2 and AES-256-GCM).  Amounts are
  integers.  The \<open>DharmaMutationContext\<close> that every operation takes is read by none of them.
\<close>

section \<open>Data\<close>

datatype IdentityStatus =
  ID_active | ID_rotated | ID_revoked | ID_compromised

datatype FederationVisibility =
  FV_private | FV_invite_only | FV_discoverable

datatype FederationStatus =
  FS_unaware | FS_discovered | FS_invited | FS_joining | FS_active | FS_limited | FS_suspended |
  FS_left | FS_revoked

fun FederationStatus_str :: "FederationStatus \<Rightarrow> string" where
  "FederationStatus_str FS_unaware = ''unaware''"
| "FederationStatus_str FS_discovered = ''discovered''"
| "FederationStatus_str FS_invited = ''invited''"
| "FederationStatus_str FS_joining = ''joining''"
| "FederationStatus_str FS_active = ''active''"
| "FederationStatus_str FS_limited = ''limited''"
| "FederationStatus_str FS_suspended = ''suspended''"
| "FederationStatus_str FS_left = ''left''"
| "FederationStatus_str FS_revoked = ''revoked''"

datatype FederationMembershipStatus =
  FM_pending | FM_active | FM_suspended | FM_left | FM_revoked

fun FederationMembershipStatus_str :: "FederationMembershipStatus \<Rightarrow> string" where
  "FederationMembershipStatus_str FM_pending = ''pending''"
| "FederationMembershipStatus_str FM_active = ''active''"
| "FederationMembershipStatus_str FM_suspended = ''suspended''"
| "FederationMembershipStatus_str FM_left = ''left''"
| "FederationMembershipStatus_str FM_revoked = ''revoked''"

datatype FederationRole =
  FR_member | FR_contributor | FR_reviewer | FR_moderator | FR_steward | FR_observer

datatype WorkOfferVisibility =
  WV_federation_only | WV_public_summary

datatype WorkOfferStatus =
  WO_draft | WO_published | WO_claimed | WO_in_progress | WO_completion_attested |
  WO_receipt_issued | WO_settled | WO_cancelled | WO_expired | WO_released

datatype CapabilityClass =
  KC_analysis | KC_code_review | KC_benchmark_reproduction | KC_documentation |
  KC_controlled_patch_preparation | KC_research | KC_triage

datatype EffortBand =
  EB_xs | EB_s | EB_m | EB_l | EB_xl

datatype WorkClaimStatus =
  WC_active | WC_released | WC_expired | WC_completed

datatype ReceiptContributionClass =
  RC_implementation | RC_review | RC_triage | RC_documentation | RC_benchmark | RC_research |
  RC_moderation | RC_infrastructure | RC_mentorship | RC_community_support

datatype DisclosureLevel =
  DL_private | DL_federation_only | DL_public_summary | DL_public_evidence

datatype ReceiptStatus =
  RS_draft | RS_locally_durable | RS_exported | RS_replicated | RS_recipient_pending |
  RS_accepted | RS_rejected | RS_confirmed | RS_disputed | RS_voided

datatype BalanceCategory =
  BC_provisional | BC_confirmed | BC_disputed | BC_decayed | BC_voided

datatype TrustScope =
  TS_receipt_issuer | TS_work_reviewer | TS_moderator | TS_steward | TS_replication_peer |
  TS_general_member

datatype ModerationSeverity =
  MV_minor | MV_moderate | MV_severe | MV_critical

datatype ModerationStatus =
  MT_open | MT_under_review | MT_decided | MT_appealed | MT_resolved

datatype ModerationDecisionType =
  MD_allowed | MD_limited | MD_hidden | MD_quarantined | MD_rejected | MD_revoked

record DharmaIdentity =
  di_identityId :: string
  di_publicKey :: string
  di_encryptedPrivateKey :: string
  di_displayName :: string
  di_profileVersion :: int
  di_createdAt :: string
  di_status :: IdentityStatus
  di_recoveryPolicy :: "string option"

record Federation =
  fe_federationId :: string
  fe_genesisEventHash :: string
  fe_name :: string
  fe_description :: string
  fe_visibility :: FederationVisibility
  fe_createdAt :: string
  fe_policyVersion :: int
  fe_status :: FederationStatus

record FederationMembership =
  fm_federationId :: string
  fm_identityId :: string
  fm_role :: FederationRole
  fm_joinedAt :: string
  fm_expiresAt :: "string option"
  fm_status :: FederationMembershipStatus

record WorkOffer =
  wf_offerId :: string
  wf_federationId :: string
  wf_creatorIdentity :: string
  wf_title :: string
  wf_summary :: string
  wf_category :: string
  wf_requestedOutcome :: string
  wf_artifactScope :: string
  wf_maxEffortBand :: EffortBand
  wf_dharmaOfferAmount :: int
  wf_visibility :: WorkOfferVisibility
  wf_requiredRoles :: "FederationRole list"
  wf_capabilityClass :: CapabilityClass
  wf_expiresAt :: string
  wf_cancellationPolicy :: string
  wf_status :: WorkOfferStatus
  wf_revision :: int
  wf_priorEventId :: "string option"

record WorkClaim =
  wk_claimId :: string
  wk_offerId :: string
  wk_federationId :: string
  wk_claimantIdentity :: string
  wk_claimedAt :: string
  wk_status :: WorkClaimStatus
  wk_releasedAt :: "string option"
  wk_expiresAt :: "string option"

record ContributionReceipt =
  cr_receiptId :: string
  cr_federationId :: string
  cr_issuerPublicKey :: string
  cr_beneficiaryPublicKey :: string
  cr_workOfferId :: "string option"
  cr_localReceiptHash :: string
  cr_contributionClass :: ReceiptContributionClass
  cr_dharmaAmount :: int
  cr_evidenceDigest :: string
  cr_issuedAt :: string
  cr_expirationAt :: "string option"
  cr_revocationPolicy :: string
  cr_disclosureLevel :: DisclosureLevel
  cr_status :: ReceiptStatus

record DharmaBalance =
  bl_identityId :: string
  bl_federationId :: string
  bl_provisionalDharma :: int
  bl_confirmedDharma :: int
  bl_disputedDharma :: int
  bl_lastUpdated :: string

record BalanceEntry =
  be_entryId :: string
  be_identityId :: string
  be_federationId :: string
  be_receiptId :: string
  be_amount :: int
  be_category :: BalanceCategory
  be_recordedAt :: string

record TrustAttestation =
  ta_attestationId :: string
  ta_issuerPublicKey :: string
  ta_subjectPublicKey :: string
  ta_trustScope :: TrustScope
  ta_confidence :: rat
  ta_expiresAt :: "string option"
  ta_reasonDigest :: "string option"
  ta_createdAt :: string
  ta_revokedAt :: "string option"

record ModerationFlag =
  fg_flagId :: string
  fg_federationId :: string
  fg_targetEventId :: string
  fg_category :: string
  fg_severity :: ModerationSeverity
  fg_evidenceDigest :: "string option"
  fg_reporterPublicKey :: string
  fg_createdAt :: string
  fg_status :: ModerationStatus

record ModerationDecision =
  mo_decisionId :: string
  mo_flagId :: string
  mo_federationId :: string
  mo_moderatorPublicKey :: string
  mo_decision :: ModerationDecisionType
  mo_scope :: string
  mo_reason :: "string option"
  mo_expiresAt :: "string option"
  mo_supersedesDecisionId :: "string option"
  mo_createdAt :: string

record ReplicationStatus =
  rz_federationId :: string
  rz_isConnected :: bool
  rz_connectedPeers :: int
  rz_eventsReplicated :: int
  rz_bytesTransferred :: int
  rz_lastSyncAt :: "string option"
  rz_outboxSize :: int

record AuditEvent =
  au_auditId :: string
  au_eventType :: string
  au_federationId :: "string option"
  au_identityId :: "string option"
  au_targetHash :: "string option"
  au_metadata :: "json option"
  au_occurredAt :: string

section \<open>Federations\<close>

datatype FederationAction =
  FA_discover | FA_invite | FA_join | FA_approve | FA_activate | FA_suspend |
  FA_lift_suspension | FA_leave | FA_revoke | FA_limit

fun FederationAction_str :: "FederationAction \<Rightarrow> string" where
  "FederationAction_str FA_discover = ''discover''"
| "FederationAction_str FA_invite = ''invite''"
| "FederationAction_str FA_join = ''join''"
| "FederationAction_str FA_approve = ''approve''"
| "FederationAction_str FA_activate = ''activate''"
| "FederationAction_str FA_suspend = ''suspend''"
| "FederationAction_str FA_lift_suspension = ''lift_suspension''"
| "FederationAction_str FA_leave = ''leave''"
| "FederationAction_str FA_revoke = ''revoke''"
| "FederationAction_str FA_limit = ''limit''"

fun VALID_FEDERATION_TRANSITIONS :: "FederationStatus \<Rightarrow> FederationStatus list" where
  "VALID_FEDERATION_TRANSITIONS FS_unaware = [FS_discovered]"
| "VALID_FEDERATION_TRANSITIONS FS_discovered = [FS_invited]"
| "VALID_FEDERATION_TRANSITIONS FS_invited = [FS_joining]"
| "VALID_FEDERATION_TRANSITIONS FS_joining = [FS_active]"
| "VALID_FEDERATION_TRANSITIONS FS_active = [FS_limited, FS_suspended, FS_left, FS_revoked]"
| "VALID_FEDERATION_TRANSITIONS FS_limited = [FS_active, FS_suspended, FS_left, FS_revoked]"
| "VALID_FEDERATION_TRANSITIONS FS_suspended = [FS_active, FS_left, FS_revoked]"
| "VALID_FEDERATION_TRANSITIONS FS_left = []"
| "VALID_FEDERATION_TRANSITIONS FS_revoked = []"

fun FEDERATION_ACTION_MAP :: "FederationStatus \<Rightarrow> (FederationAction \<times> FederationStatus) list" where
  "FEDERATION_ACTION_MAP FS_unaware = [(FA_discover, FS_discovered)]"
| "FEDERATION_ACTION_MAP FS_discovered = [(FA_invite, FS_invited)]"
| "FEDERATION_ACTION_MAP FS_invited = [(FA_join, FS_joining)]"
| "FEDERATION_ACTION_MAP FS_joining = [(FA_approve, FS_active)]"
| "FEDERATION_ACTION_MAP FS_active =
     [(FA_suspend, FS_suspended), (FA_limit, FS_limited), (FA_leave, FS_left),
      (FA_revoke, FS_revoked)]"
| "FEDERATION_ACTION_MAP FS_limited =
     [(FA_activate, FS_active), (FA_suspend, FS_suspended), (FA_leave, FS_left),
      (FA_revoke, FS_revoked)]"
| "FEDERATION_ACTION_MAP FS_suspended =
     [(FA_lift_suspension, FS_active), (FA_leave, FS_left), (FA_revoke, FS_revoked)]"
| "FEDERATION_ACTION_MAP FS_left = []"
| "FEDERATION_ACTION_MAP FS_revoked = []"

definition isValidFederationTransition :: "FederationStatus \<Rightarrow> FederationStatus \<Rightarrow> bool" where
  "isValidFederationTransition current next = List.member (VALID_FEDERATION_TRANSITIONS current) next"

definition keys_or_none :: "string list \<Rightarrow> string" where
  "keys_or_none ks = (let j = js_join '', '' ks in if truthy j then j else ''none'')"

definition getNextStatus :: "FederationStatus \<Rightarrow> FederationAction \<Rightarrow> FederationStatus result" where
  "getNextStatus current action =
     (let targets = FEDERATION_ACTION_MAP current
      in case map_of targets action of
           None \<Rightarrow> Inl (''Action '' @ quoted (FederationAction_str action) @ '' is not allowed from status '' @
             quoted (FederationStatus_str current) @ ''; allowed: '' @
             keys_or_none (List.map (\<lambda>e. FederationAction_str (fst e)) targets))
         | Some next \<Rightarrow> Inr next)"

definition createFederationConfig ::
    "(string \<Rightarrow> string) \<Rightarrow> string \<Rightarrow> string \<Rightarrow> string \<Rightarrow> string option \<Rightarrow> FederationVisibility option \<Rightarrow> Federation" where
  "createFederationConfig sha now uuid name description visibility =
     (let federationId = sha256Hex sha (''federation-genesis:'' @ name @ '':'' @ now @ '':'' @ uuid);
          genesisEventHash = sha256Hex sha (''genesis:'' @ federationId @ '':'' @ now)
      in \<lparr>fe_federationId = federationId, fe_genesisEventHash = genesisEventHash, fe_name = name,
          fe_description = nullish description [], fe_visibility = nullish visibility FV_discoverable,
          fe_createdAt = now, fe_policyVersion = 1, fe_status = FS_unaware\<rparr>)"

definition FEDERATION_ROLES :: "string list" where
  "FEDERATION_ROLES = [''member'', ''contributor'', ''reviewer'', ''moderator'', ''steward'', ''observer'']"

definition isValidRole :: "string \<Rightarrow> bool" where
  "isValidRole role = List.member FEDERATION_ROLES role"

section \<open>Memberships\<close>

datatype FederationMembershipAction =
  FB_invite | FB_join | FB_activate | FB_suspend | FB_lift_suspension | FB_leave | FB_revoke

fun FederationMembershipAction_str :: "FederationMembershipAction \<Rightarrow> string" where
  "FederationMembershipAction_str FB_invite = ''invite''"
| "FederationMembershipAction_str FB_join = ''join''"
| "FederationMembershipAction_str FB_activate = ''activate''"
| "FederationMembershipAction_str FB_suspend = ''suspend''"
| "FederationMembershipAction_str FB_lift_suspension = ''lift_suspension''"
| "FederationMembershipAction_str FB_leave = ''leave''"
| "FederationMembershipAction_str FB_revoke = ''revoke''"

fun VALID_MEMBERSHIP_TRANSITIONS :: "FederationMembershipStatus \<Rightarrow> FederationMembershipStatus list" where
  "VALID_MEMBERSHIP_TRANSITIONS FM_pending = [FM_active]"
| "VALID_MEMBERSHIP_TRANSITIONS FM_active = [FM_suspended, FM_left, FM_revoked]"
| "VALID_MEMBERSHIP_TRANSITIONS FM_suspended = [FM_active, FM_left, FM_revoked]"
| "VALID_MEMBERSHIP_TRANSITIONS FM_left = []"
| "VALID_MEMBERSHIP_TRANSITIONS FM_revoked = []"

definition getInitialMembershipStatus :: "FederationVisibility \<Rightarrow> FederationMembershipStatus" where
  "getInitialMembershipStatus visibility = (if visibility = FV_invite_only then FM_pending else FM_active)"

definition createMembership :: "string \<Rightarrow> string \<Rightarrow> string \<Rightarrow> FederationRole option \<Rightarrow> FederationMembership" where
  "createMembership now federationId identityId role =
     \<lparr>fm_federationId = federationId, fm_identityId = identityId, fm_role = nullish role FR_member,
      fm_joinedAt = now, fm_expiresAt = None, fm_status = FM_pending\<rparr>"

fun MEMBERSHIP_ACTION_TABLE ::
    "FederationMembershipStatus \<Rightarrow> (FederationMembershipAction \<times> FederationMembershipStatus) list" where
  "MEMBERSHIP_ACTION_TABLE FM_pending = [(FB_invite, FM_pending), (FB_join, FM_active)]"
| "MEMBERSHIP_ACTION_TABLE FM_active =
     [(FB_activate, FM_active), (FB_suspend, FM_suspended), (FB_leave, FM_left), (FB_revoke, FM_revoked)]"
| "MEMBERSHIP_ACTION_TABLE FM_suspended =
     [(FB_lift_suspension, FM_active), (FB_leave, FM_left), (FB_revoke, FM_revoked)]"
| "MEMBERSHIP_ACTION_TABLE FM_left = []"
| "MEMBERSHIP_ACTION_TABLE FM_revoked = []"

definition getNextMembershipStatus ::
    "FederationMembershipStatus \<Rightarrow> FederationMembershipAction \<Rightarrow> FederationMembershipStatus result" where
  "getNextMembershipStatus current action =
     (let targets = MEMBERSHIP_ACTION_TABLE current
      in case map_of targets action of
           None \<Rightarrow> Inl (''Action '' @ quoted (FederationMembershipAction_str action) @
             '' is not allowed from membership status '' @ quoted (FederationMembershipStatus_str current) @
             ''; allowed: '' @ keys_or_none (List.map (\<lambda>e. FederationMembershipAction_str (fst e)) targets))
         | Some next \<Rightarrow> Inr next)"

section \<open>Work\<close>

fun VALID_WORK_OFFER_TRANSITIONS :: "WorkOfferStatus \<Rightarrow> WorkOfferStatus list" where
  "VALID_WORK_OFFER_TRANSITIONS WO_draft = [WO_published]"
| "VALID_WORK_OFFER_TRANSITIONS WO_published = [WO_claimed, WO_cancelled]"
| "VALID_WORK_OFFER_TRANSITIONS WO_claimed = [WO_in_progress, WO_released, WO_expired]"
| "VALID_WORK_OFFER_TRANSITIONS WO_in_progress = [WO_completion_attested]"
| "VALID_WORK_OFFER_TRANSITIONS WO_completion_attested = [WO_receipt_issued]"
| "VALID_WORK_OFFER_TRANSITIONS WO_receipt_issued = [WO_settled]"
| "VALID_WORK_OFFER_TRANSITIONS WO_settled = []"
| "VALID_WORK_OFFER_TRANSITIONS WO_cancelled = []"
| "VALID_WORK_OFFER_TRANSITIONS WO_expired = []"
| "VALID_WORK_OFFER_TRANSITIONS WO_released = []"

fun VALID_WORK_CLAIM_TRANSITIONS :: "WorkClaimStatus \<Rightarrow> WorkClaimStatus list" where
  "VALID_WORK_CLAIM_TRANSITIONS WC_active = [WC_released, WC_expired, WC_completed]"
| "VALID_WORK_CLAIM_TRANSITIONS WC_released = []"
| "VALID_WORK_CLAIM_TRANSITIONS WC_expired = []"
| "VALID_WORK_CLAIM_TRANSITIONS WC_completed = []"

definition isValidWorkOfferTransition :: "WorkOfferStatus \<Rightarrow> WorkOfferStatus \<Rightarrow> bool" where
  "isValidWorkOfferTransition current next = List.member (VALID_WORK_OFFER_TRANSITIONS current) next"

definition isValidWorkClaimTransition :: "WorkClaimStatus \<Rightarrow> WorkClaimStatus \<Rightarrow> bool" where
  "isValidWorkClaimTransition current next = List.member (VALID_WORK_CLAIM_TRANSITIONS current) next"

record WorkOfferConfig =
  wg_federationId :: string
  wg_creatorIdentity :: string
  wg_title :: string
  wg_summary :: string
  wg_category :: string
  wg_requestedOutcome :: string
  wg_artifactScope :: string
  wg_maxEffortBand :: EffortBand
  wg_dharmaOfferAmount :: int
  wg_visibility :: "WorkOfferVisibility option"
  wg_requiredRoles :: "FederationRole list option"
  wg_capabilityClass :: "CapabilityClass option"
  wg_expiresAt :: string

definition createWorkOffer :: "(string \<Rightarrow> string) \<Rightarrow> string \<Rightarrow> string \<Rightarrow> WorkOfferConfig \<Rightarrow> WorkOffer" where
  "createWorkOffer sha now uuid config =
     \<lparr>wf_offerId = sha256Hex sha (''work-offer:'' @ wg_federationId config @ '':'' @ wg_creatorIdentity config @
        '':'' @ now @ '':'' @ uuid),
      wf_federationId = wg_federationId config, wf_creatorIdentity = wg_creatorIdentity config,
      wf_title = wg_title config, wf_summary = wg_summary config, wf_category = wg_category config,
      wf_requestedOutcome = wg_requestedOutcome config, wf_artifactScope = wg_artifactScope config,
      wf_maxEffortBand = wg_maxEffortBand config, wf_dharmaOfferAmount = wg_dharmaOfferAmount config,
      wf_visibility = nullish (wg_visibility config) WV_federation_only,
      wf_requiredRoles = nullish (wg_requiredRoles config) [],
      wf_capabilityClass = nullish (wg_capabilityClass config) KC_analysis,
      wf_expiresAt = wg_expiresAt config, wf_cancellationPolicy = [], wf_status = WO_draft,
      wf_revision = 1, wf_priorEventId = None\<rparr>"

definition createWorkClaim ::
    "(string \<Rightarrow> string) \<Rightarrow> string \<Rightarrow> string \<Rightarrow> string \<Rightarrow> string \<Rightarrow> string \<Rightarrow> string option \<Rightarrow> WorkClaim" where
  "createWorkClaim sha now uuid offerId federationId claimantIdentity expiresAt =
     \<lparr>wk_claimId = sha256Hex sha (''work-claim:'' @ offerId @ '':'' @ claimantIdentity @ '':'' @ now @ '':'' @ uuid),
      wk_offerId = offerId, wk_federationId = federationId, wk_claimantIdentity = claimantIdentity,
      wk_claimedAt = now, wk_status = WC_active, wk_releasedAt = None, wk_expiresAt = expiresAt\<rparr>"

section \<open>Receipts\<close>

fun VALID_RECEIPT_TRANSITIONS :: "ReceiptStatus \<Rightarrow> ReceiptStatus list" where
  "VALID_RECEIPT_TRANSITIONS RS_draft = [RS_locally_durable]"
| "VALID_RECEIPT_TRANSITIONS RS_locally_durable = [RS_exported]"
| "VALID_RECEIPT_TRANSITIONS RS_exported = [RS_replicated]"
| "VALID_RECEIPT_TRANSITIONS RS_replicated = [RS_recipient_pending]"
| "VALID_RECEIPT_TRANSITIONS RS_recipient_pending = [RS_accepted, RS_rejected]"
| "VALID_RECEIPT_TRANSITIONS RS_accepted = [RS_confirmed, RS_disputed, RS_voided]"
| "VALID_RECEIPT_TRANSITIONS RS_rejected = []"
| "VALID_RECEIPT_TRANSITIONS RS_confirmed = []"
| "VALID_RECEIPT_TRANSITIONS RS_disputed = [RS_confirmed]"
| "VALID_RECEIPT_TRANSITIONS RS_voided = []"

definition isValidReceiptTransition :: "ReceiptStatus \<Rightarrow> ReceiptStatus \<Rightarrow> bool" where
  "isValidReceiptTransition current next = List.member (VALID_RECEIPT_TRANSITIONS current) next"

definition getDefaultDisclosureLevel :: DisclosureLevel where
  "getDefaultDisclosureLevel = DL_federation_only"

record ReceiptConfig =
  rj_federationId :: string
  rj_issuerPublicKey :: string
  rj_beneficiaryPublicKey :: string
  rj_workOfferId :: "string option"
  rj_localReceiptHash :: string
  rj_contributionClass :: ReceiptContributionClass
  rj_dharmaAmount :: int
  rj_evidenceDigest :: string
  rj_disclosureLevel :: "DisclosureLevel option"
  rj_expirationAt :: "string option"
  rj_revocationPolicy :: "string option"

definition createReceipt :: "(string \<Rightarrow> string) \<Rightarrow> string \<Rightarrow> string \<Rightarrow> ReceiptConfig \<Rightarrow> ContributionReceipt" where
  "createReceipt sha now uuid config =
     \<lparr>cr_receiptId = sha256Hex sha (''receipt:'' @ rj_federationId config @ '':'' @ rj_issuerPublicKey config @
        '':'' @ rj_beneficiaryPublicKey config @ '':'' @ now @ '':'' @ uuid),
      cr_federationId = rj_federationId config, cr_issuerPublicKey = rj_issuerPublicKey config,
      cr_beneficiaryPublicKey = rj_beneficiaryPublicKey config, cr_workOfferId = rj_workOfferId config,
      cr_localReceiptHash = rj_localReceiptHash config, cr_contributionClass = rj_contributionClass config,
      cr_dharmaAmount = rj_dharmaAmount config, cr_evidenceDigest = rj_evidenceDigest config,
      cr_issuedAt = now, cr_expirationAt = rj_expirationAt config,
      cr_revocationPolicy = nullish (rj_revocationPolicy config) [],
      cr_disclosureLevel = nullish (rj_disclosureLevel config) DL_federation_only, cr_status = RS_draft\<rparr>"

section \<open>Balances\<close>

text \<open>The loop of \<open>computeBalance\<close> carries the confirmed and the disputed sum.\<close>

fun balance_loop :: "string set \<Rightarrow> string set \<Rightarrow> int \<Rightarrow> int \<Rightarrow> ContributionReceipt list \<Rightarrow> int \<times> int" where
  "balance_loop disputedIds voidedIds confirmed disputed [] = (confirmed, disputed)"
| "balance_loop disputedIds voidedIds confirmed disputed (r # rs) =
     (if cr_receiptId r \<in> voidedIds
      then balance_loop disputedIds voidedIds (confirmed - cr_dharmaAmount r) disputed rs
      else if cr_receiptId r \<in> disputedIds
      then balance_loop disputedIds voidedIds confirmed (disputed + cr_dharmaAmount r) rs
      else balance_loop disputedIds voidedIds (confirmed + cr_dharmaAmount r) disputed rs)"

definition computeBalance ::
    "string \<Rightarrow> string \<Rightarrow> string \<Rightarrow> ContributionReceipt list \<Rightarrow> string set \<Rightarrow> string set \<Rightarrow> DharmaBalance" where
  "computeBalance now identityId federationId acceptedReceipts disputedReceiptIds voidedReceiptIds =
     (let (confirmedDharma, disputedDharma) = balance_loop disputedReceiptIds voidedReceiptIds 0 0 acceptedReceipts
      in \<lparr>bl_identityId = identityId, bl_federationId = federationId, bl_provisionalDharma = 0,
          bl_confirmedDharma = max 0 confirmedDharma, bl_disputedDharma = disputedDharma, bl_lastUpdated = now\<rparr>)"

definition createEmptyBalance :: "string \<Rightarrow> string \<Rightarrow> string \<Rightarrow> DharmaBalance" where
  "createEmptyBalance now identityId federationId =
     \<lparr>bl_identityId = identityId, bl_federationId = federationId, bl_provisionalDharma = 0,
      bl_confirmedDharma = 0, bl_disputedDharma = 0, bl_lastUpdated = now\<rparr>"

definition applyReceiptToBalance :: "string \<Rightarrow> DharmaBalance \<Rightarrow> ContributionReceipt \<Rightarrow> DharmaBalance" where
  "applyReceiptToBalance now balance receipt =
     (let amount = cr_dharmaAmount receipt;
          (confirmed, disputed) =
            (case cr_status receipt of
               RS_accepted \<Rightarrow> (bl_confirmedDharma balance + amount, bl_disputedDharma balance)
             | RS_confirmed \<Rightarrow> (bl_confirmedDharma balance + amount, bl_disputedDharma balance)
             | RS_disputed \<Rightarrow> (bl_confirmedDharma balance, bl_disputedDharma balance + amount)
             | RS_voided \<Rightarrow> (max 0 (bl_confirmedDharma balance - amount), bl_disputedDharma balance)
             | _ \<Rightarrow> (bl_confirmedDharma balance, bl_disputedDharma balance))
      in balance\<lparr>bl_confirmedDharma := confirmed, bl_disputedDharma := disputed, bl_lastUpdated := now\<rparr>)"

definition createBalanceEntry ::
    "(string \<Rightarrow> string) \<Rightarrow> string \<Rightarrow> string \<Rightarrow> string \<Rightarrow> string \<Rightarrow> ContributionReceipt \<Rightarrow> BalanceCategory \<Rightarrow> BalanceEntry" where
  "createBalanceEntry sha now uuid identityId federationId receipt category =
     \<lparr>be_entryId = sha256Hex sha (''balance-entry:'' @ federationId @ '':'' @ identityId @ '':'' @
        cr_receiptId receipt @ '':'' @ now @ '':'' @ uuid),
      be_identityId = identityId, be_federationId = federationId, be_receiptId = cr_receiptId receipt,
      be_amount = cr_dharmaAmount receipt, be_category = category, be_recordedAt = now\<rparr>"

section \<open>The identity vault\<close>

record IdentityVault =
  vt_identities :: "(string \<times> DharmaIdentity) list"
  vt_passphrase :: string

definition DEFAULT_PASSPHRASE :: string where
  "DEFAULT_PASSPHRASE = ''dharma-default''"

definition new_vault :: "string option \<Rightarrow> IdentityVault" where
  "new_vault passphrase = \<lparr>vt_identities = [], vt_passphrase = nullish passphrase DEFAULT_PASSPHRASE\<rparr>"

text \<open>\<open>keys\<close> is the generated pair (public, private); \<open>seal\<close> stands for \<open>encryptPrivateKey\<close> and the
  serialisation of its bundle.\<close>

definition createIdentity ::
    "(string \<Rightarrow> string) \<Rightarrow> (string \<Rightarrow> string \<Rightarrow> string) \<Rightarrow> string \<Rightarrow> string \<times> string \<Rightarrow> string \<Rightarrow> IdentityVault \<Rightarrow>
     IdentityVault \<times> DharmaIdentity" where
  "createIdentity sha seal now keys displayName vault =
     (let identityId = sha (fst keys);
          identity = \<lparr>di_identityId = identityId, di_publicKey = fst keys,
            di_encryptedPrivateKey = seal (snd keys) (vt_passphrase vault),
            di_displayName = (if length displayName = 0 then ''Unnamed'' else displayName),
            di_profileVersion = 1, di_createdAt = now, di_status = ID_active, di_recoveryPolicy = None\<rparr>
      in (vault\<lparr>vt_identities := map_set identityId identity (vt_identities vault)\<rparr>, identity))"

definition getIdentity :: "IdentityVault \<Rightarrow> string \<Rightarrow> DharmaIdentity option" where
  "getIdentity vault identityId = map_get (vt_identities vault) identityId"

definition listIdentities :: "IdentityVault \<Rightarrow> DharmaIdentity list" where
  "listIdentities vault = map_values (vt_identities vault)"

definition getActiveIdentity :: "IdentityVault \<Rightarrow> DharmaIdentity option" where
  "getActiveIdentity vault = List.find (\<lambda>i. di_status i = ID_active) (listIdentities vault)"

text \<open>\<open>unseal\<close> stands for reading the bundle and \<open>decryptPrivateKey\<close>; it throws on a wrong passphrase.\<close>

definition signWithIdentity ::
    "(string \<Rightarrow> string \<Rightarrow> string option) \<Rightarrow> (string \<Rightarrow> string \<Rightarrow> string option) \<Rightarrow> IdentityVault \<Rightarrow> string \<Rightarrow>
     string \<Rightarrow> string result" where
  "signWithIdentity unseal sig vault identityId data =
     (case map_get (vt_identities vault) identityId of
        None \<Rightarrow> Inl (''Identity not found: '' @ identityId)
      | Some identity \<Rightarrow>
          (case unseal (di_encryptedPrivateKey identity) (vt_passphrase vault) of
             None \<Rightarrow> Inl ''decryption failed''
           | Some privateKey \<Rightarrow>
               (case sig privateKey data of None \<Rightarrow> Inl ''invalid private key'' | Some s \<Rightarrow> Inr s)))"

definition verifyIdentity ::
    "(string \<Rightarrow> string \<Rightarrow> string \<Rightarrow> bool) \<Rightarrow> IdentityVault \<Rightarrow> string \<Rightarrow> string \<Rightarrow> string \<Rightarrow> bool" where
  "verifyIdentity ver vault identityId data signature =
     (case map_get (vt_identities vault) identityId of
        None \<Rightarrow> False
      | Some identity \<Rightarrow> ver (di_publicKey identity) data signature)"

definition rotateIdentity ::
    "(string \<Rightarrow> string) \<Rightarrow> (string \<Rightarrow> string \<Rightarrow> string) \<Rightarrow> string \<Rightarrow> string \<times> string \<Rightarrow> string \<Rightarrow> string option \<Rightarrow>
     IdentityVault \<Rightarrow> (IdentityVault \<times> DharmaIdentity) result" where
  "rotateIdentity sha seal now keys identityId newDisplayName vault =
     (case map_get (vt_identities vault) identityId of
        None \<Rightarrow> Inl (''Identity not found: '' @ identityId)
      | Some identity \<Rightarrow>
          if di_status identity = ID_rotated then Inl (''Identity already rotated: '' @ identityId)
          else Inr (createIdentity sha seal now keys (nullish newDisplayName (di_displayName identity))
            (vault\<lparr>vt_identities := map_set identityId (identity\<lparr>di_status := ID_rotated\<rparr>) (vt_identities vault)\<rparr>)))"

definition setStatus :: "string \<Rightarrow> IdentityStatus \<Rightarrow> IdentityVault \<Rightarrow> IdentityVault result" where
  "setStatus identityId status vault =
     (case map_get (vt_identities vault) identityId of
        None \<Rightarrow> Inl (''Identity not found: '' @ identityId)
      | Some identity \<Rightarrow>
          Inr (vault\<lparr>vt_identities := map_set identityId (identity\<lparr>di_status := status\<rparr>) (vt_identities vault)\<rparr>))"

section \<open>The machines as interpretations\<close>

interpretation federation_fsm: matched_machine VALID_FEDERATION_TRANSITIONS getNextStatus
proof (rule action_object_matches [where obj = FEDERATION_ACTION_MAP])
  show "distinct (List.map fst (FEDERATION_ACTION_MAP s)) \<and>
        snd ` set (FEDERATION_ACTION_MAP s) = set (VALID_FEDERATION_TRANSITIONS s)" for s
    by (cases s) auto
  show "getNextStatus s a = (case map_of (FEDERATION_ACTION_MAP s) a of None \<Rightarrow> Inl (projl (getNextStatus s a))
      | Some t \<Rightarrow> Inr t)" for s a
    by (simp add: getNextStatus_def Let_def split: option.splits)
qed

fun receipt_rank :: "ReceiptStatus \<Rightarrow> nat" where
  "receipt_rank RS_draft = 7"
| "receipt_rank RS_locally_durable = 6"
| "receipt_rank RS_exported = 5"
| "receipt_rank RS_replicated = 4"
| "receipt_rank RS_recipient_pending = 3"
| "receipt_rank RS_accepted = 2"
| "receipt_rank RS_disputed = 1"
| "receipt_rank _ = 0"

interpretation receipt_table: ranked_table VALID_RECEIPT_TRANSITIONS receipt_rank
proof
  show "receipt_rank t < receipt_rank s" if "t \<in> set (VALID_RECEIPT_TRANSITIONS s)" for s t
    using that by (cases s) auto
qed

fun offer_rank :: "WorkOfferStatus \<Rightarrow> nat" where
  "offer_rank WO_draft = 6"
| "offer_rank WO_published = 5"
| "offer_rank WO_claimed = 4"
| "offer_rank WO_in_progress = 3"
| "offer_rank WO_completion_attested = 2"
| "offer_rank WO_receipt_issued = 1"
| "offer_rank _ = 0"

interpretation offer_table: ranked_table VALID_WORK_OFFER_TRANSITIONS offer_rank
proof
  show "offer_rank t < offer_rank s" if "t \<in> set (VALID_WORK_OFFER_TRANSITIONS s)" for s t
    using that by (cases s) auto
qed

text \<open>
  The two descriptions of the federation machine agree.  A status can be reached from another by a
  sequence of actions exactly when the transition table has a path between them, each entry of the
  table being one action; a federation that was left or revoked takes no further action; and, against
  the comment that any status may go to left or revoked, a federation reaches either only through
  active.
\<close>

theorem federation_machine_exact:
  "((\<exists>as. run_actions getNextStatus s as = Inr t) \<longleftrightarrow>
      (\<exists>ts. path_in VALID_FEDERATION_TRANSITIONS s ts \<and> last (s # ts) = t)) \<and>
   (isValidFederationTransition s t \<longleftrightarrow> (\<exists>a. getNextStatus s a = Inr t)) \<and>
   (\<exists>e. getNextStatus FS_left a = Inl e) \<and> (\<exists>e. getNextStatus FS_revoked a = Inl e) \<and>
   {u. \<exists>ts. path_in VALID_FEDERATION_TRANSITIONS FS_unaware ts \<and> FS_active \<notin> set ts \<and> last (FS_unaware # ts) = u} =
     {FS_unaware, FS_discovered, FS_invited, FS_joining}" (is "?a \<and> ?b \<and> ?c \<and> ?d \<and> ?l = ?r")
proof (intro conjI)
  show ?a by (rule federation_fsm.reachable_iff)
  show ?b by (simp add: isValidFederationTransition_def federation_fsm.edge_iff)
  show ?c ?d by (rule federation_fsm.terminal_rejects, simp add: terminal_in_def)+
  show "?l = ?r"
  proof
    have "path_in VALID_FEDERATION_TRANSITIONS u ts \<Longrightarrow> u \<in> ?r \<Longrightarrow> FS_active \<notin> set ts \<Longrightarrow> last (u # ts) \<in> ?r" for u ts
      by (induction ts arbitrary: u) auto
    then show "?l \<subseteq> ?r" by blast
    have "\<exists>ts. path_in VALID_FEDERATION_TRANSITIONS FS_unaware ts \<and> FS_active \<notin> set ts \<and> last (FS_unaware # ts) = u"
      if "u \<in> ?r" for u
      using that by (elim insertE emptyE)
        (rule exI [of _ "[]"] exI [of _ "[FS_discovered]"] exI [of _ "[FS_discovered, FS_invited]"]
          exI [of _ "[FS_discovered, FS_invited, FS_joining]"], simp)+
    then show "?r \<subseteq> ?l" by blast
  qed
qed

section \<open>Balances\<close>

definition amount_of :: "(ContributionReceipt \<Rightarrow> bool) \<Rightarrow> ContributionReceipt list \<Rightarrow> int" where
  "amount_of p rs = sum_list (List.map cr_dharmaAmount (List.filter p rs))"

lemma balance_loop_sums:
  "balance_loop D V c d rs =
     (c + amount_of (\<lambda>r. cr_receiptId r \<notin> V \<and> cr_receiptId r \<notin> D) rs - amount_of (\<lambda>r. cr_receiptId r \<in> V) rs,
      d + amount_of (\<lambda>r. cr_receiptId r \<notin> V \<and> cr_receiptId r \<in> D) rs)"
  by (induction D V c d rs rule: balance_loop.induct) (auto simp: amount_of_def)

text \<open>The balance after the receipts of a history, one status change after the other.\<close>

definition apply_all :: "string \<Rightarrow> DharmaBalance \<Rightarrow> ContributionReceipt list \<Rightarrow> DharmaBalance" where
  "apply_all now b rs = foldl (applyReceiptToBalance now) b rs"

lemma apply_all_accepted:
  "bl_confirmedDharma (apply_all now b (List.map (cr_status_update (\<lambda>_. RS_accepted)) rs)) =
     bl_confirmedDharma b + amount_of (\<lambda>_. True) rs"
  by (induction rs arbitrary: b) (simp_all add: apply_all_def applyReceiptToBalance_def amount_of_def)

lemma amount_of_nonneg: "\<forall>r\<in>set rs. 0 \<le> cr_dharmaAmount r \<Longrightarrow> 0 \<le> amount_of p rs"
  by (auto simp: amount_of_def intro!: sum_list_nonneg)

lemma apply_all_voided:
  "\<forall>r\<in>set rs. 0 \<le> cr_dharmaAmount r \<Longrightarrow> amount_of (\<lambda>_. True) rs \<le> bl_confirmedDharma b \<Longrightarrow>
     bl_confirmedDharma (apply_all now b (List.map (cr_status_update (\<lambda>_. RS_voided)) rs)) =
     bl_confirmedDharma b - amount_of (\<lambda>_. True) rs"
proof (induction rs arbitrary: b)
  case (Cons r rs)
  define b' where "b' = applyReceiptToBalance now b (r\<lparr>cr_status := RS_voided\<rparr>)"
  have "0 \<le> amount_of (\<lambda>_. True) rs" using Cons.prems(1) by (intro amount_of_nonneg) simp
  moreover have "amount_of (\<lambda>_. True) (r # rs) = cr_dharmaAmount r + amount_of (\<lambda>_. True) rs"
    by (simp add: amount_of_def)
  ultimately have "bl_confirmedDharma b' = bl_confirmedDharma b - cr_dharmaAmount r"
    "amount_of (\<lambda>_. True) rs \<le> bl_confirmedDharma b'" and a: "amount_of (\<lambda>_. True) (r # rs) = cr_dharmaAmount r + amount_of (\<lambda>_. True) rs"
    using Cons.prems by (simp_all add: b'_def applyReceiptToBalance_def)
  with Cons.IH [of b'] Cons.prems(1) a show ?case by (simp add: apply_all_def b'_def)
qed (simp add: apply_all_def amount_of_def)

lemma amount_of_split:
  "amount_of (\<lambda>_. True) rs = amount_of (\<lambda>r. \<not> p r) rs + amount_of p rs"
  by (induction rs) (auto simp: amount_of_def)

text \<open>Receipts that are all accepted, and then those of a set voided.\<close>

definition void_history :: "string set \<Rightarrow> ContributionReceipt list \<Rightarrow> ContributionReceipt list" where
  "void_history V rs = List.map (cr_status_update (\<lambda>_. RS_accepted)) rs @
     List.map (cr_status_update (\<lambda>_. RS_voided)) (List.filter (\<lambda>r. cr_receiptId r \<in> V) rs)"

lemma apply_all_append: "apply_all now b (rs @ ss) = apply_all now (apply_all now b rs) ss"
  by (simp add: apply_all_def)

text \<open>
  The two ways to compute a balance.  Recomputing from the accepted receipts counts the voided ones
  with a minus sign although they were not counted before, clamped at zero; applying the history
  receipt by receipt, first accepted and then voided, takes back exactly what was given.  With no
  disputes the recomputed balance falls short of the applied one by the voided amount, or is zero.
\<close>

theorem balance_recompute_vs_apply:
  assumes "\<forall>r\<in>set rs. 0 \<le> cr_dharmaAmount r"
  shows "bl_confirmedDharma (apply_all now (createEmptyBalance now i f) (void_history V rs)) =
      amount_of (\<lambda>r. cr_receiptId r \<notin> V) rs \<and>
    bl_confirmedDharma (computeBalance now i f rs {} V) =
      max 0 (amount_of (\<lambda>r. cr_receiptId r \<notin> V) rs - amount_of (\<lambda>r. cr_receiptId r \<in> V) rs) \<and>
    bl_disputedDharma (computeBalance now i f rs D {}) = amount_of (\<lambda>r. cr_receiptId r \<in> D) rs"
proof (intro conjI)
  define vs where "vs = List.filter (\<lambda>r. cr_receiptId r \<in> V) rs"
  define b where "b = apply_all now (createEmptyBalance now i f) (List.map (cr_status_update (\<lambda>_. RS_accepted)) rs)"
  have v: "amount_of (\<lambda>_. True) vs = amount_of (\<lambda>r. cr_receiptId r \<in> V) rs" by (simp add: amount_of_def vs_def)
  have b: "bl_confirmedDharma b = amount_of (\<lambda>r. cr_receiptId r \<notin> V) rs + amount_of (\<lambda>r. cr_receiptId r \<in> V) rs"
    unfolding b_def apply_all_accepted using amount_of_split [of rs "\<lambda>r. cr_receiptId r \<in> V"]
    by (simp add: createEmptyBalance_def)
  have "0 \<le> amount_of (\<lambda>r. cr_receiptId r \<notin> V) rs" using assms by (rule amount_of_nonneg)
  then have "bl_confirmedDharma (apply_all now b (List.map (cr_status_update (\<lambda>_. RS_voided)) vs)) =
      amount_of (\<lambda>r. cr_receiptId r \<notin> V) rs"
    using assms b v by (subst apply_all_voided) (auto simp: vs_def)
  then show "bl_confirmedDharma (apply_all now (createEmptyBalance now i f) (void_history V rs)) =
      amount_of (\<lambda>r. cr_receiptId r \<notin> V) rs"
    by (simp add: void_history_def apply_all_append b_def vs_def)
qed (simp_all add: computeBalance_def balance_loop_sums)

definition sample_receipt :: "string \<Rightarrow> int \<Rightarrow> ContributionReceipt" where
  "sample_receipt i a = (createReceipt (\<lambda>d. d) ''t'' ''u'' \<lparr>rj_federationId = ''f'', rj_issuerPublicKey = ''p'',
     rj_beneficiaryPublicKey = ''q'', rj_workOfferId = None, rj_localReceiptHash = ''h'',
     rj_contributionClass = RC_review, rj_dharmaAmount = a, rj_evidenceDigest = ''e'',
     rj_disclosureLevel = None, rj_expirationAt = None, rj_revocationPolicy = None\<rparr>)\<lparr>cr_receiptId := i\<rparr>"

theorem balance_recompute_vs_apply_witness:
  "bl_confirmedDharma (apply_all ''t'' (createEmptyBalance ''t'' ''i'' ''f'')
      (void_history {''b''} [sample_receipt ''a'' 10, sample_receipt ''b'' 4])) = 10 \<and>
   bl_confirmedDharma (computeBalance ''t'' ''i'' ''f'' [sample_receipt ''a'' 10, sample_receipt ''b'' 4] {} {''b''}) = 6"
  using balance_recompute_vs_apply [of "[sample_receipt ''a'' 10, sample_receipt ''b'' 4]" "''t''" "''i''" "''f''" "{''b''}" "{}"]
  by (simp add: sample_receipt_def createReceipt_def amount_of_def)

section \<open>The vault\<close>

text \<open>What the vault relies on: sealing a key with a passphrase can be undone with that passphrase.\<close>

definition seals :: "(string \<Rightarrow> string \<Rightarrow> string) \<Rightarrow> (string \<Rightarrow> string \<Rightarrow> string option) \<Rightarrow> bool" where
  "seals seal unseal \<longleftrightarrow> (\<forall>k p. unseal (seal k p) p = Some k)"

text \<open>
  The operations on a vault, each on a pair of keys that belong together.
\<close>

inductive vault_step ::
    "(string \<Rightarrow> string) \<Rightarrow> (string \<Rightarrow> string \<Rightarrow> string) \<Rightarrow> (string \<Rightarrow> string \<Rightarrow> string option) \<Rightarrow>
     (string \<Rightarrow> string \<Rightarrow> string \<Rightarrow> bool) \<Rightarrow> IdentityVault \<Rightarrow> IdentityVault \<Rightarrow> bool"
  for sha seal sig ver where
  vault_create: "key_pair_of sig ver (snd keys) (fst keys) \<Longrightarrow>
     vault_step sha seal sig ver v (fst (createIdentity sha seal now keys name v))"
| vault_rotate: "key_pair_of sig ver (snd keys) (fst keys) \<Longrightarrow>
     rotateIdentity sha seal now keys i name v = Inr (v', identity) \<Longrightarrow> vault_step sha seal sig ver v v'"
| vault_status: "setStatus i status v = Inr v' \<Longrightarrow> vault_step sha seal sig ver v v'"

definition identity_ok ::
    "(string \<Rightarrow> string) \<Rightarrow> (string \<Rightarrow> string \<Rightarrow> string) \<Rightarrow> (string \<Rightarrow> string \<Rightarrow> string option) \<Rightarrow>
     (string \<Rightarrow> string \<Rightarrow> string \<Rightarrow> bool) \<Rightarrow> string \<Rightarrow> string \<Rightarrow> DharmaIdentity \<Rightarrow> bool" where
  "identity_ok sha seal sig ver pass i d \<longleftrightarrow>
     di_identityId d = i \<and> i = sha (di_publicKey d) \<and>
     (\<exists>priv. di_encryptedPrivateKey d = seal priv pass \<and> key_pair_of sig ver priv (di_publicKey d))"

definition vault_ok where
  "vault_ok sha seal sig ver v \<longleftrightarrow> map_inv (vt_identities v) \<and>
     (\<forall>i d. map_get (vt_identities v) i = Some d \<longrightarrow> identity_ok sha seal sig ver (vt_passphrase v) i d)"

lemma vault_ok_create:
  "vault_ok sha seal sig ver v \<Longrightarrow> key_pair_of sig ver (snd keys) (fst keys) \<Longrightarrow>
     vault_ok sha seal sig ver (fst (createIdentity sha seal now keys name v))"
  by (auto simp: vault_ok_def identity_ok_def createIdentity_def Let_def)

lemma vault_ok_status:
  "vault_ok sha seal sig ver v \<Longrightarrow> map_get (vt_identities v) i = Some d \<Longrightarrow>
     vault_ok sha seal sig ver (v\<lparr>vt_identities := map_set i (d\<lparr>di_status := st\<rparr>) (vt_identities v)\<rparr>)"
  by (auto simp: vault_ok_def identity_ok_def)

lemma vault_ok_step: "vault_step sha seal sig ver v v' \<Longrightarrow> vault_ok sha seal sig ver v \<Longrightarrow> vault_ok sha seal sig ver v'"
proof (induction rule: vault_step.induct)
  case (vault_rotate keys now i name v v' identity)
  then obtain d where d: "map_get (vt_identities v) i = Some d"
    "v' = fst (createIdentity sha seal now keys (nullish name (di_displayName d))
       (v\<lparr>vt_identities := map_set i (d\<lparr>di_status := ID_rotated\<rparr>) (vt_identities v)\<rparr>))"
    by (auto simp: rotateIdentity_def split: option.splits if_splits dest!: arg_cong [where f = fst])
  show ?case unfolding d(2)
    by (intro vault_ok_create vault_ok_status vault_rotate.prems vault_rotate.hyps(1) d(1))
next
  case (vault_status i status v v')
  then show ?case by (auto simp: setStatus_def split: option.splits intro: vault_ok_status)
qed (rule vault_ok_create)

text \<open>
  Every identity of a vault can sign and is verified.  After any sequence of creations, rotations
  and status changes on a new vault, each stored identity is filed under the hash of its public key
  and signs any data with a signature that \<open>verifyIdentity\<close> accepts.  That holds whatever its status:
  a rotated, revoked or compromised identity signs and verifies like an active one.
\<close>

theorem vault_signs_whatever_the_status:
  assumes "seals seal unseal" and "(vault_step sha seal sig ver)\<^sup>*\<^sup>* (new_vault p) v"
    and "getIdentity v i = Some d"
  shows "i = sha (di_publicKey d) \<and>
    (\<exists>s. signWithIdentity unseal sig v i data = Inr s \<and> verifyIdentity ver v i data s)"
proof -
  have "vault_ok sha seal sig ver v" using assms(2)
  proof (induction rule: rtranclp_induct)
    case base
    show ?case by (simp add: vault_ok_def new_vault_def)
  qed (rule vault_ok_step)
  with assms(3) obtain priv where "i = sha (di_publicKey d)"
    "di_encryptedPrivateKey d = seal priv (vt_passphrase v)" "key_pair_of sig ver priv (di_publicKey d)"
    by (auto simp: vault_ok_def identity_ok_def getIdentity_def)
  moreover from this(3) obtain s where "sig priv data = Some s" "ver (di_publicKey d) data s"
    by (auto simp: key_pair_of_def)
  ultimately show ?thesis using assms(1,3)
    by (simp add: seals_def signWithIdentity_def verifyIdentity_def getIdentity_def)
qed

definition sample_vault :: IdentityVault where
  "sample_vault = fst (createIdentity (\<lambda>d. d) (\<lambda>k p. k) ''t'' (''k'', ''k'') ''Ada'' (new_vault None))"

definition revoked_vault :: IdentityVault where
  "revoked_vault = projr (setStatus ''k'' ID_revoked sample_vault)"

theorem vault_signs_whatever_the_status_witness:
  "(\<exists>d. getIdentity revoked_vault ''k'' = Some d \<and> di_status d = ID_revoked) \<and>
   (\<exists>s. signWithIdentity (\<lambda>s p. Some s) (\<lambda>k d. Some (k @ d)) revoked_vault ''k'' ''data'' = Inr s \<and>
        verifyIdentity (\<lambda>k d s. s = k @ d) revoked_vault ''k'' ''data'' s)"
proof -
  have seals: "seals (\<lambda>k p. k) (\<lambda>s p. Some s)" by (simp add: seals_def)
  have keys: "key_pair_of (\<lambda>k d. Some (k @ d)) (\<lambda>k d s. s = k @ d) ''k'' ''k''" by (simp add: key_pair_of_def)
  have set: "setStatus ''k'' ID_revoked sample_vault = Inr revoked_vault"
    by (simp add: setStatus_def revoked_vault_def sample_vault_def createIdentity_def new_vault_def Let_def map_get_def)
  have "vault_step (\<lambda>d. d) (\<lambda>k p. k) (\<lambda>k d. Some (k @ d)) (\<lambda>k d s. s = k @ d) (new_vault None) sample_vault"
    using keys unfolding sample_vault_def by (intro vault_create) simp
  moreover have "vault_step (\<lambda>d. d) (\<lambda>k p. k) (\<lambda>k d. Some (k @ d)) (\<lambda>k d s. s = k @ d) sample_vault revoked_vault"
    using set by (rule vault_status)
  ultimately have steps: "(vault_step (\<lambda>d. d) (\<lambda>k p. k) (\<lambda>k d. Some (k @ d)) (\<lambda>k d s. s = k @ d))\<^sup>*\<^sup>*
      (new_vault None) revoked_vault" by (rule converse_rtranclp_into_rtranclp [OF _ r_into_rtranclp])
  have "\<exists>d. getIdentity revoked_vault ''k'' = Some d \<and> di_status d = ID_revoked"
    by (simp add: getIdentity_def revoked_vault_def setStatus_def sample_vault_def createIdentity_def new_vault_def
        Let_def map_get_def)
  then obtain d where d: "getIdentity revoked_vault ''k'' = Some d" "di_status d = ID_revoked" by blast
  from vault_signs_whatever_the_status [OF seals steps d(1), of "''data''"] show ?thesis using d by blast
qed

end
