(* ===== verification/Dharma_Service.thy ===== *)
theory Dharma_Service imports Dharma_Ledger begin

text \<open>
  The local service of the ledger: \<open>DharmaApiImpl\<close> of \<open>dharma/api.ts\<close>, whose maps are the state, whose
  methods are one definition each and whose runs are the reachable states of a step relation.
\<close>

section \<open>State\<close>

record DharmaApiImpl =
  da_vault :: IdentityVault
  da_federations :: "(string \<times> Federation) list"
  da_memberships :: "(string \<times> FederationMembership list) list"
  da_offers :: "(string \<times> WorkOffer list) list"
  da_claims :: "(string \<times> WorkClaim list) list"
  da_receipts :: "(string \<times> ContributionReceipt list) list"
  da_trustAttestations :: "(string \<times> TrustAttestation list) list"
  da_moderationFlags :: "(string \<times> ModerationFlag list) list"
  da_balances :: "(string \<times> DharmaBalance) list"
  da_pendingEvents :: "DharmaEventEnvelope list"
  da_auditEvents :: "AuditEvent list"

definition new_service :: DharmaApiImpl where
  "new_service = \<lparr>da_vault = new_vault None, da_federations = [], da_memberships = [], da_offers = [],
     da_claims = [], da_receipts = [], da_trustAttestations = [], da_moderationFlags = [], da_balances = [],
     da_pendingEvents = [], da_auditEvents = []\<rparr>"

section \<open>Identities\<close>

definition identity_create ::
    "(string \<Rightarrow> string) \<Rightarrow> (string \<Rightarrow> string \<Rightarrow> string) \<Rightarrow> string \<Rightarrow> string \<times> string \<Rightarrow> string \<Rightarrow> DharmaApiImpl \<Rightarrow>
     DharmaApiImpl \<times> DharmaIdentity" where
  "identity_create sha seal now keys displayName api =
     (let (v, d) = createIdentity sha seal now keys displayName (da_vault api) in (api\<lparr>da_vault := v\<rparr>, d))"

definition identity_rotate ::
    "(string \<Rightarrow> string) \<Rightarrow> (string \<Rightarrow> string \<Rightarrow> string) \<Rightarrow> string \<Rightarrow> string \<times> string \<Rightarrow> string \<Rightarrow> DharmaApiImpl \<Rightarrow>
     (DharmaApiImpl \<times> DharmaIdentity) result" where
  "identity_rotate sha seal now keys identityId api =
     (case rotateIdentity sha seal now keys identityId None (da_vault api) of
        Inl e \<Rightarrow> Inl e
      | Inr (v, d) \<Rightarrow> Inr (api\<lparr>da_vault := v\<rparr>, d))"

definition identity_getActive :: "DharmaApiImpl \<Rightarrow> DharmaIdentity option" where
  "identity_getActive api =
     (let all = listIdentities (da_vault api) in if length all > 0 then Some (last all) else None)"

definition identity_list :: "DharmaApiImpl \<Rightarrow> DharmaIdentity list" where
  "identity_list api = listIdentities (da_vault api)"

definition unsigned_json :: "UnsignedEvent \<Rightarrow> json" where
  "unsigned_json u =
     J_obj [(''federationId'', J_str (un_federationId u)), (''eventType'', J_str (un_eventType u)),
       (''schemaVersion'', J_num (un_schemaVersion u)), (''actorPublicKey'', J_str (un_actorPublicKey u)),
       (''actorDeviceId'', json_of_device (un_actorDeviceId u)), (''createdAt'', J_str (un_createdAt u)),
       (''logicalClock'', J_num (un_logicalClock u)),
       (''causalParents'', J_arr (List.map J_str (un_causalParents u))), (''payload'', un_payload u)]"

definition identity_signEvent ::
    "(string \<Rightarrow> string) \<Rightarrow> (string \<Rightarrow> string \<Rightarrow> string option) \<Rightarrow> (string \<Rightarrow> string \<Rightarrow> string option) \<Rightarrow>
     string \<Rightarrow> UnsignedEvent \<Rightarrow> DharmaApiImpl \<Rightarrow> DharmaEventEnvelope result" where
  "identity_signEvent sha unseal sig identityId u api =
     (case getIdentity (da_vault api) identityId of
        None \<Rightarrow> Inl (''Identity not found: '' @ identityId)
      | Some identity \<Rightarrow>
          (case signWithIdentity unseal sig (da_vault api) identityId (utf8 (json_stringify (unsigned_json u))) of
             Inl e \<Rightarrow> Inl e
           | Inr s \<Rightarrow>
               (case createSignedEvent sha sig u s of
                  None \<Rightarrow> Inl ''invalid private key''
                | Some e \<Rightarrow> Inr e)))"

section \<open>Federations\<close>

definition federation_create ::
    "(string \<Rightarrow> string) \<Rightarrow> string \<Rightarrow> string \<Rightarrow> string \<Rightarrow> string \<Rightarrow> DharmaApiImpl \<Rightarrow> DharmaApiImpl \<times> Federation" where
  "federation_create sha now uuid name description api =
     (let config = createFederationConfig sha now uuid name (Some description) None
      in (api\<lparr>da_federations := map_set (fe_federationId config) config (da_federations api)\<rparr>, config))"

definition federation_join ::
    "string \<Rightarrow> string \<Rightarrow> string \<Rightarrow> DharmaApiImpl \<Rightarrow> (DharmaApiImpl \<times> FederationMembership) result" where
  "federation_join now federationId identityId api =
     (case map_get (da_federations api) federationId of
        None \<Rightarrow> Inl (''Federation not found: '' @ federationId)
      | Some fed \<Rightarrow>
          let membership = createMembership now federationId identityId None
          in Inr (api\<lparr>da_memberships := push_at federationId membership (da_memberships api)\<rparr>, membership))"

definition federation_leave :: "string \<Rightarrow> string \<Rightarrow> DharmaApiImpl \<Rightarrow> DharmaApiImpl" where
  "federation_leave federationId identityId api =
     (let members = nullish (map_get (da_memberships api) federationId) []
      in api\<lparr>da_memberships := map_set federationId
           (List.map (\<lambda>m. if fm_identityId m = identityId then m\<lparr>fm_status := FM_left\<rparr> else m) members)
           (da_memberships api)\<rparr>)"

definition federation_list :: "DharmaApiImpl \<Rightarrow> Federation list" where
  "federation_list api = map_values (da_federations api)"

definition federation_getStatus :: "DharmaApiImpl \<Rightarrow> string \<Rightarrow> FederationStatus option" where
  "federation_getStatus api federationId = map_option fe_status (map_get (da_federations api) federationId)"

definition federation_getMembers :: "DharmaApiImpl \<Rightarrow> string \<Rightarrow> FederationMembership list" where
  "federation_getMembers api federationId = nullish (map_get (da_memberships api) federationId) []"

definition federation_transitionStatus ::
    "string \<Rightarrow> FederationAction \<Rightarrow> DharmaApiImpl \<Rightarrow> (DharmaApiImpl \<times> Federation) result" where
  "federation_transitionStatus federationId action api =
     (case map_get (da_federations api) federationId of
        None \<Rightarrow> Inl (''Federation not found: '' @ federationId)
      | Some fed \<Rightarrow>
          (case getNextStatus (fe_status fed) action of
             Inl e \<Rightarrow> Inl e
           | Inr nextStatus \<Rightarrow>
               let updated = fed\<lparr>fe_status := nextStatus\<rparr>
               in Inr (api\<lparr>da_federations := map_set federationId updated (da_federations api)\<rparr>, updated)))"

section \<open>Work\<close>

text \<open>\<open>inAWeek\<close> is the time a week from now, the default expiry.\<close>

definition work_createOffer ::
    "(string \<Rightarrow> string) \<Rightarrow> string \<Rightarrow> string \<Rightarrow> string \<Rightarrow> WorkOfferConfig \<Rightarrow> string option \<Rightarrow> DharmaApiImpl \<Rightarrow>
     DharmaApiImpl \<times> WorkOffer" where
  "work_createOffer sha now inAWeek uuid config expiresAt api =
     (let offer = createWorkOffer sha now uuid (config\<lparr>wg_expiresAt := nullish expiresAt inAWeek\<rparr>)
      in (api\<lparr>da_offers := push_at (wg_federationId config) offer (da_offers api)\<rparr>, offer))"

definition work_listOffers :: "DharmaApiImpl \<Rightarrow> string \<Rightarrow> WorkOffer list" where
  "work_listOffers api fedId = nullish (map_get (da_offers api) fedId) []"

text \<open>The federation whose list holds the offer, as the loop of \<open>claimOffer\<close> finds it.\<close>

fun offer_home :: "string \<Rightarrow> (string \<times> WorkOffer list) list \<Rightarrow> string option" where
  "offer_home offerId [] = None"
| "offer_home offerId ((fedId, offers) # es) =
     (if \<exists>x\<in>set offers. wf_offerId x = offerId then Some fedId else offer_home offerId es)"

definition work_claimOffer ::
    "(string \<Rightarrow> string) \<Rightarrow> string \<Rightarrow> string \<Rightarrow> string \<Rightarrow> string \<Rightarrow> DharmaApiImpl \<Rightarrow> DharmaApiImpl \<times> WorkClaim" where
  "work_claimOffer sha now uuid offerId identityId api =
     (let claim = createWorkClaim sha now uuid offerId [] identityId None;
          claim = (case offer_home offerId (da_offers api) of
            None \<Rightarrow> claim | Some fedId \<Rightarrow> claim\<lparr>wk_federationId := fedId\<rparr>);
          api = api\<lparr>da_offers := update_first_in (\<lambda>x. wf_offerId x = offerId)
            (\<lambda>x. x\<lparr>wf_status := WO_claimed\<rparr>) (da_offers api)\<rparr>
      in (api\<lparr>da_claims := push_at (wk_claimId claim) claim (da_claims api)\<rparr>, claim))"

definition work_releaseClaim :: "string \<Rightarrow> string \<Rightarrow> DharmaApiImpl \<Rightarrow> DharmaApiImpl" where
  "work_releaseClaim now claimId api =
     api\<lparr>da_claims := update_each (\<lambda>c. wk_claimId c = claimId)
       (\<lambda>c. c\<lparr>wk_status := WC_released, wk_releasedAt := Some now\<rparr>) (da_claims api)\<rparr>"

definition work_cancelOffer :: "string \<Rightarrow> DharmaApiImpl \<Rightarrow> DharmaApiImpl" where
  "work_cancelOffer offerId api =
     api\<lparr>da_offers := update_each (\<lambda>x. wf_offerId x = offerId) (\<lambda>x. x\<lparr>wf_status := WO_cancelled\<rparr>) (da_offers api)\<rparr>"

section \<open>Receipts\<close>

definition receipt_issue ::
    "(string \<Rightarrow> string) \<Rightarrow> string \<Rightarrow> string \<Rightarrow> ReceiptConfig \<Rightarrow> string option \<Rightarrow> string option \<Rightarrow> DharmaApiImpl \<Rightarrow>
     DharmaApiImpl \<times> ContributionReceipt" where
  "receipt_issue sha now uuid config localReceiptHash evidenceDigest api =
     (let receipt = createReceipt sha now uuid (config\<lparr>rj_localReceiptHash := nullish localReceiptHash ''pending'',
            rj_evidenceDigest := nullish evidenceDigest ''pending''\<rparr>)
      in (api\<lparr>da_receipts := push_at (cr_federationId receipt) receipt (da_receipts api)\<rparr>, receipt))"

definition receipt_accept :: "string \<Rightarrow> DharmaApiImpl \<Rightarrow> DharmaApiImpl" where
  "receipt_accept receiptId api =
     api\<lparr>da_receipts := update_each (\<lambda>r. cr_receiptId r = receiptId) (\<lambda>r. r\<lparr>cr_status := RS_accepted\<rparr>) (da_receipts api)\<rparr>"

definition receipt_reject :: "string \<Rightarrow> DharmaApiImpl \<Rightarrow> DharmaApiImpl" where
  "receipt_reject receiptId api =
     api\<lparr>da_receipts := update_each (\<lambda>r. cr_receiptId r = receiptId) (\<lambda>r. r\<lparr>cr_status := RS_rejected\<rparr>) (da_receipts api)\<rparr>"

definition receipt_list :: "DharmaApiImpl \<Rightarrow> string option \<Rightarrow> ContributionReceipt list" where
  "receipt_list api fedId =
     (case fedId of
        Some f \<Rightarrow> if truthy f then nullish (map_get (da_receipts api) f) [] else concat (map_values (da_receipts api))
      | None \<Rightarrow> concat (map_values (da_receipts api)))"

section \<open>Trust, moderation, balances, replication, events\<close>

definition trust_attest ::
    "string \<Rightarrow> string \<Rightarrow> string \<Rightarrow> string \<Rightarrow> TrustScope \<Rightarrow> rat \<Rightarrow> DharmaApiImpl \<Rightarrow> DharmaApiImpl \<times> TrustAttestation" where
  "trust_attest now uuid issuerKey subjectKey scope confidence api =
     (let attestation = \<lparr>ta_attestationId = uuid, ta_issuerPublicKey = issuerKey, ta_subjectPublicKey = subjectKey,
            ta_trustScope = scope, ta_confidence = max 0 (min 1 confidence), ta_expiresAt = None,
            ta_reasonDigest = None, ta_createdAt = now, ta_revokedAt = None\<rparr>
      in (api\<lparr>da_trustAttestations := push_at issuerKey attestation (da_trustAttestations api)\<rparr>, attestation))"

definition trust_revoke :: "string \<Rightarrow> string \<Rightarrow> DharmaApiImpl \<Rightarrow> DharmaApiImpl" where
  "trust_revoke now attestationId api =
     api\<lparr>da_trustAttestations := update_each (\<lambda>a. ta_attestationId a = attestationId)
       (\<lambda>a. a\<lparr>ta_revokedAt := Some now\<rparr>) (da_trustAttestations api)\<rparr>"

definition moderation_flag ::
    "string \<Rightarrow> string \<Rightarrow> string \<Rightarrow> string \<Rightarrow> ModerationSeverity \<Rightarrow> DharmaApiImpl \<Rightarrow> DharmaApiImpl \<times> ModerationFlag" where
  "moderation_flag now uuid targetEventId category severity api =
     (let flag = \<lparr>fg_flagId = uuid, fg_federationId = [], fg_targetEventId = targetEventId, fg_category = category,
            fg_severity = severity, fg_evidenceDigest = None, fg_reporterPublicKey = [], fg_createdAt = now,
            fg_status = MT_open\<rparr>
      in (api\<lparr>da_moderationFlags := push_at targetEventId flag (da_moderationFlags api)\<rparr>, flag))"

definition moderation_decide :: "string \<Rightarrow> string \<Rightarrow> string \<Rightarrow> ModerationDecisionType \<Rightarrow> ModerationDecision" where
  "moderation_decide now uuid flagId decision =
     \<lparr>mo_decisionId = uuid, mo_flagId = flagId, mo_federationId = [], mo_moderatorPublicKey = [],
      mo_decision = decision, mo_scope = [], mo_reason = None, mo_expiresAt = None,
      mo_supersedesDecisionId = None, mo_createdAt = now\<rparr>"

definition moderation_listFlags :: "DharmaApiImpl \<Rightarrow> ModerationFlag list" where
  "moderation_listFlags api = concat (map_values (da_moderationFlags api))"

definition balance_get :: "DharmaApiImpl \<Rightarrow> string \<Rightarrow> string \<Rightarrow> DharmaBalance option" where
  "balance_get api identityId federationId = map_get (da_balances api) (identityId @ '':'' @ federationId)"

definition replication_getStatus :: "DharmaApiImpl \<Rightarrow> ReplicationStatus" where
  "replication_getStatus api = \<lparr>rz_federationId = [], rz_isConnected = False, rz_connectedPeers = 0,
     rz_eventsReplicated = int (length (da_pendingEvents api)), rz_bytesTransferred = 0, rz_lastSyncAt = None,
     rz_outboxSize = 0\<rparr>"

definition event_validate ::
    "(string \<Rightarrow> string \<Rightarrow> string \<Rightarrow> bool) \<Rightarrow> string \<Rightarrow> DharmaEventEnvelope \<Rightarrow> EventValidation" where
  "event_validate ver now envelope =
     (let result = validateEvent ver envelope
      in \<lparr>vd_eventId = ev_eventId envelope, vd_validationState = vr_state result, vd_validationReason = vr_reason result,
          vd_validatedAt = now, vd_policyDigest = None, vd_validatorVersion = 1\<rparr>)"

definition event_store :: "DharmaEventEnvelope \<Rightarrow> DharmaApiImpl \<Rightarrow> DharmaApiImpl" where
  "event_store envelope api = api\<lparr>da_pendingEvents := da_pendingEvents api @ [envelope]\<rparr>"

definition event_get :: "DharmaApiImpl \<Rightarrow> string \<Rightarrow> DharmaEventEnvelope option" where
  "event_get api eventId = List.find (\<lambda>e. ev_eventId e = eventId) (da_pendingEvents api)"

section \<open>Runs\<close>

inductive service_step :: "(string \<Rightarrow> string) \<Rightarrow> (string \<Rightarrow> string \<Rightarrow> string) \<Rightarrow> DharmaApiImpl \<Rightarrow> DharmaApiImpl \<Rightarrow> bool"
  for sha seal where
  svc_identity: "service_step sha seal api (fst (identity_create sha seal now keys name api))"
| svc_rotate: "identity_rotate sha seal now keys i api = Inr (api', d) \<Longrightarrow> service_step sha seal api api'"
| svc_federation: "service_step sha seal api (fst (federation_create sha now uuid name desc api))"
| svc_join: "federation_join now f i api = Inr (api', m) \<Longrightarrow> service_step sha seal api api'"
| svc_leave: "service_step sha seal api (federation_leave f i api)"
| svc_transition: "federation_transitionStatus f a api = Inr (api', fed) \<Longrightarrow> service_step sha seal api api'"
| svc_offer: "service_step sha seal api (fst (work_createOffer sha now week uuid wcfg x api))"
| svc_claim: "service_step sha seal api (fst (work_claimOffer sha now uuid ofr i api))"
| svc_release: "service_step sha seal api (work_releaseClaim now c api)"
| svc_cancel: "service_step sha seal api (work_cancelOffer ofr api)"
| svc_issue: "service_step sha seal api (fst (receipt_issue sha now uuid rcfg lh ed api))"
| svc_accept: "service_step sha seal api (receipt_accept r api)"
| svc_reject: "service_step sha seal api (receipt_reject r api)"
| svc_attest: "service_step sha seal api (fst (trust_attest now uuid ik sk scope conf api))"
| svc_revoke: "service_step sha seal api (trust_revoke now att api)"
| svc_flag: "service_step sha seal api (fst (moderation_flag now uuid ev cat sev api))"
| svc_store: "service_step sha seal api (event_store e api)"

abbreviation service_reach where
  "service_reach sha seal \<equiv> (service_step sha seal)\<^sup>*\<^sup>* new_service"

lemmas service_ops = identity_create_def identity_rotate_def federation_create_def federation_join_def
  federation_leave_def federation_transitionStatus_def work_createOffer_def work_claimOffer_def
  work_releaseClaim_def work_cancelOffer_def receipt_issue_def receipt_accept_def receipt_reject_def
  trust_attest_def trust_revoke_def moderation_flag_def event_store_def

section \<open>What every run keeps\<close>

definition offer_ok :: "WorkOffer \<Rightarrow> bool" where
  "offer_ok x \<longleftrightarrow> wf_status x \<in> {WO_draft, WO_claimed, WO_cancelled}"

definition claim_ok :: "WorkClaim \<Rightarrow> bool" where
  "claim_ok c \<longleftrightarrow> wk_status c = WC_active \<and> wk_releasedAt c = None \<or> wk_status c = WC_released \<and> wk_releasedAt c \<noteq> None"

definition receipt_ok :: "ContributionReceipt \<Rightarrow> bool" where
  "receipt_ok r \<longleftrightarrow> cr_status r \<in> {RS_draft, RS_accepted, RS_rejected}"

definition member_ok :: "FederationMembership \<Rightarrow> bool" where
  "member_ok m \<longleftrightarrow> fm_status m = FM_pending \<or> fm_status m = FM_left"

definition attestation_ok :: "TrustAttestation \<Rightarrow> bool" where
  "attestation_ok a \<longleftrightarrow> 0 \<le> ta_confidence a \<and> ta_confidence a \<le> 1"

definition federation_ok :: "string \<Rightarrow> Federation \<Rightarrow> bool" where
  "federation_ok f d \<longleftrightarrow> fe_federationId d = f \<and> (\<exists>as. run_actions getNextStatus FS_unaware as = Inr (fe_status d))"

definition service_ok :: "DharmaApiImpl \<Rightarrow> bool" where
  "service_ok api \<longleftrightarrow>
     all_lists member_ok (da_memberships api) \<and> all_lists offer_ok (da_offers api) \<and>
     all_lists claim_ok (da_claims api) \<and> all_lists receipt_ok (da_receipts api) \<and>
     all_lists attestation_ok (da_trustAttestations api) \<and> da_balances api = [] \<and> da_auditEvents api = [] \<and>
     (\<forall>f d. map_get (da_federations api) f = Some d \<longrightarrow> federation_ok f d)"

lemma service_ok_new: "service_ok new_service"
  by (simp add: service_ok_def new_service_def)

lemma federation_step_ok:
  assumes "federation_ok f d" "getNextStatus (fe_status d) a = Inr n"
  shows "federation_ok f (d\<lparr>fe_status := n\<rparr>)"
proof -
  from assms(1) obtain as where "run_actions getNextStatus FS_unaware as = Inr (fe_status d)"
    by (auto simp: federation_ok_def)
  with assms(2) have "run_actions getNextStatus FS_unaware (as @ [a]) = Inr n" by (auto simp: run_snoc)
  with assms(1) show ?thesis by (auto simp: federation_ok_def)
qed

lemma service_ok_step: "service_step sha seal api api' \<Longrightarrow> service_ok api \<Longrightarrow> service_ok api'"
proof (induction rule: service_step.induct)
  case (svc_federation api now uuid name desc)
  have "run_actions getNextStatus FS_unaware [] = Inr FS_unaware" by simp
  then have "\<exists>as. run_actions getNextStatus FS_unaware as = Inr FS_unaware" by blast
  with svc_federation show ?case
    by (simp add: service_ok_def federation_create_def federation_ok_def createFederationConfig_def Let_def)
next
  case (svc_transition f a api api' fed)
  then obtain d n where d: "map_get (da_federations api) f = Some d" "getNextStatus (fe_status d) a = Inr n"
    "api' = api\<lparr>da_federations := map_set f (d\<lparr>fe_status := n\<rparr>) (da_federations api)\<rparr>"
    by (auto simp: federation_transitionStatus_def Let_def split: option.splits sum.splits)
  have "federation_ok f (d\<lparr>fe_status := n\<rparr>)"
    using svc_transition.prems d(1,2) by (intro federation_step_ok) (auto simp: service_ok_def)
  with svc_transition.prems d(3) show ?case by (simp add: service_ok_def)
next
  case (svc_leave api f i)
  define ms where "ms = nullish (map_get (da_memberships api) f) []"
  have "\<forall>m\<in>set ms. member_ok m" using svc_leave all_lists_nullish by (auto simp: service_ok_def ms_def)
  then have "all_lists member_ok (map_set f (List.map (\<lambda>m. if fm_identityId m = i then m\<lparr>fm_status := FM_left\<rparr> else m) ms)
      (da_memberships api))"
    using svc_leave by (intro all_lists_set) (auto simp: service_ok_def member_ok_def)
  with svc_leave show ?case by (simp add: service_ok_def federation_leave_def ms_def Let_def)
qed (auto simp: service_ok_def service_ops Let_def createMembership_def member_ok_def createWorkOffer_def offer_ok_def
      createWorkClaim_def claim_ok_def createReceipt_def receipt_ok_def attestation_ok_def
      intro!: all_lists_push all_lists_each all_lists_update split: option.splits sum.splits prod.splits)

lemma service_ok_reach: "service_reach sha seal api \<Longrightarrow> service_ok api"
  by (induction rule: rtranclp_induct) (auto intro: service_ok_new service_ok_step)

lemma all_lists_concat: "all_lists P m \<Longrightarrow> x \<in> set (concat (map_values m)) \<Longrightarrow> P x"
  by (auto simp: all_lists_def map_values_def)

text \<open>
  What a user of the ledger service can ever observe.  In every state a run of the service reaches,
  no member of any federation is active (joining leaves a membership pending and nothing activates it);
  every listed receipt is a draft, accepted or rejected, so the statuses between never occur; no
  balance exists, whatever receipts were accepted; and the status of every federation is the result of
  a sequence of actions that the federation machine allows.
\<close>

theorem ledger_service_observations:
  assumes "service_reach sha seal api"
  shows "(\<forall>m\<in>set (federation_getMembers api f). fm_status m = FM_pending \<or> fm_status m = FM_left) \<and>
    (\<forall>r\<in>set (receipt_list api g). cr_status r = RS_draft \<or> cr_status r = RS_accepted \<or> cr_status r = RS_rejected) \<and>
    balance_get api i h = None \<and>
    (case federation_getStatus api f of None \<Rightarrow> True
     | Some s \<Rightarrow> \<exists>as. run_actions getNextStatus FS_unaware as = Inr s)"
proof -
  note ok = service_ok_reach [OF assms, unfolded service_ok_def]
  have receipts: "receipt_ok r" if "r \<in> set (receipt_list api g)" for r
    using that ok all_lists_nullish [of receipt_ok "da_receipts api" r] all_lists_concat [of receipt_ok "da_receipts api" r]
    by (auto simp: receipt_list_def split: option.splits if_splits)
  show ?thesis
  proof (intro conjI ballI)
    show "fm_status m = FM_pending \<or> fm_status m = FM_left" if "m \<in> set (federation_getMembers api f)" for m
      using that ok all_lists_nullish [of member_ok] by (auto simp: federation_getMembers_def member_ok_def)
    show "cr_status r = RS_draft \<or> cr_status r = RS_accepted \<or> cr_status r = RS_rejected"
      if "r \<in> set (receipt_list api g)" for r
      using receipts [OF that] by (auto simp: receipt_ok_def)
    show "balance_get api i h = None" using ok by (simp add: balance_get_def)
    show "case federation_getStatus api f of None \<Rightarrow> True
       | Some s \<Rightarrow> \<exists>as. run_actions getNextStatus FS_unaware as = Inr s"
      using ok by (auto simp: federation_getStatus_def federation_ok_def split: option.splits)
  qed
qed

theorem ledger_service_observations_witness:
  "(\<exists>api m. service_reach (\<lambda>d. d) (\<lambda>k p. k) api \<and> federation_getMembers api
      (sha256Hex (\<lambda>d. d) (''federation-genesis:'' @ ''n'' @ '':'' @ ''t'' @ '':'' @ ''u'')) = [m] \<and>
      (fm_status m = FM_pending \<or> fm_status m = FM_left))"
proof -
  define api where "api = fst (federation_create (\<lambda>d. d) ''t'' ''u'' ''n'' ''d'' new_service)"
  define f where "f = sha256Hex (\<lambda>d. d) (''federation-genesis:'' @ ''n'' @ '':'' @ ''t'' @ '':'' @ ''u'')"
  define m where "m = createMembership ''t'' f ''i'' None"
  have "map_get (da_federations api) f \<noteq> None"
    by (simp add: api_def f_def federation_create_def createFederationConfig_def Let_def)
  then have j: "federation_join ''t'' f ''i'' api = Inr (api\<lparr>da_memberships := push_at f m (da_memberships api)\<rparr>, m)"
    by (auto simp: federation_join_def m_def Let_def)
  define api' where "api' = api\<lparr>da_memberships := push_at f m (da_memberships api)\<rparr>"
  have "service_reach (\<lambda>d. d) (\<lambda>k p. k) api" unfolding api_def by (rule r_into_rtranclp) (rule svc_federation)
  moreover have "service_step (\<lambda>d. d) (\<lambda>k p. k) api api'" using j unfolding api'_def by (rule svc_join)
  ultimately have reach: "service_reach (\<lambda>d. d) (\<lambda>k p. k) api'" by (rule rtranclp.rtrancl_into_rtrancl)
  have "federation_getMembers api' f = [m]"
    by (simp add: federation_getMembers_def api'_def api_def push_at_def federation_create_def new_service_def Let_def map_get_def)
  with reach ledger_service_observations [OF reach, of f] show ?thesis unfolding f_def by auto
qed

text \<open>
  A signature of Ed25519 has 64 bytes, and a private key is the 48 bytes of its PKCS 8 encoding; any
  other key is refused.
\<close>

definition ed25519_sizes :: "(string \<Rightarrow> string \<Rightarrow> string option) \<Rightarrow> bool" where
  "ed25519_sizes sig \<longleftrightarrow>
     (\<forall>k d. (length k \<noteq> 48 \<longrightarrow> sig k d = None) \<and> (\<forall>s. sig k d = Some s \<longrightarrow> length s = 64))"

text \<open>
  The service never signs an event.  \<open>identity.signEvent\<close> signs the text of the event with the
  identity's key and then hands that signature to \<open>createSignedEvent\<close> in the place of the private key,
  so with Ed25519's sizes every call ends with an error, also for an identity the vault holds; while
  the codec called with the identity's own private key does produce the event.
\<close>

theorem service_never_signs:
  assumes "ed25519_sizes sig"
  shows "(\<exists>e. identity_signEvent sha unseal sig i u api = Inl e) \<and>
    (\<forall>k. (createSignedEvent sha sig u k = None) = (sig k (buildSigningPayload u (computePayloadHash sha (un_payload u))) = None))"
proof -
  have "createSignedEvent sha sig u s = None" if "signWithIdentity unseal sig v i d = Inr s" for s v d
  proof -
    from that obtain k where "sig k d = Some s"
      by (auto simp: signWithIdentity_def split: option.splits)
    with assms have "length s = 64" unfolding ed25519_sizes_def by blast
    then have "length s \<noteq> 48" by simp
    with assms have "sig s d' = None" for d' unfolding ed25519_sizes_def by blast
    then show ?thesis by (simp add: createSignedEvent_def)
  qed
  then have "\<exists>e. identity_signEvent sha unseal sig i u api = Inl e"
    by (auto simp: identity_signEvent_def split: option.splits sum.splits)
  then show ?thesis by (simp add: createSignedEvent_def Let_def split: option.splits)
qed

theorem service_never_signs_witness:
  "(\<exists>e. identity_signEvent (\<lambda>d. d) (\<lambda>s p. Some s)
      (\<lambda>k d. if length k = 48 then Some (replicate 64 (CHR ''s'')) else None) (replicate 48 (CHR ''k'')) sample_genesis
      (fst (identity_create (\<lambda>d. d) (\<lambda>k p. k) ''t'' (replicate 48 (CHR ''k''), replicate 48 (CHR ''k'')) ''Ada'' new_service))
    = Inl e)"
proof -
  have "ed25519_sizes (\<lambda>k d. if length k = 48 then Some (replicate 64 (CHR ''s'')) else None)"
    unfolding ed25519_sizes_def by (metis length_replicate option.inject option.simps(3))
  from service_never_signs [OF this] show ?thesis by blast
qed

end
