(* ===== verification/Dharma_Compute.thy ===== *)
theory Dharma_Compute imports Transition_Systems Js_Runtime begin

text \<open>
  Compute leases on the local Prism runtime: \<open>dharma/compute/compute-types.ts\<close>, the lease machine
  (\<open>compute-lease.ts\<close>), budgets (\<open>compute-budget.ts\<close>), artifact admission (\<open>compute-artifact.ts\<close>),
  execution stages (\<open>compute-execution.ts\<close>), KV namespaces (\<open>compute-kv.ts\<close>) and usage receipts
  (\<open>compute-receipt.ts\<close>).  The clock and the random identifiers are arguments; numbers are integers.
\<close>

section \<open>Data\<close>

datatype PrismBackendKind =
  BX_prism_local

datatype ComputeWorkloadClass =
  CW_chat_completion | CW_code_completion | CW_tool_planning | CW_embedding | CW_reranking |
  CW_classification | CW_summarization | CW_agent_analysis | CW_structured_extraction |
  CW_benchmark_inference

fun ComputeWorkloadClass_str :: "ComputeWorkloadClass \<Rightarrow> string" where
  "ComputeWorkloadClass_str CW_chat_completion = ''chat_completion''"
| "ComputeWorkloadClass_str CW_code_completion = ''code_completion''"
| "ComputeWorkloadClass_str CW_tool_planning = ''tool_planning''"
| "ComputeWorkloadClass_str CW_embedding = ''embedding''"
| "ComputeWorkloadClass_str CW_reranking = ''reranking''"
| "ComputeWorkloadClass_str CW_classification = ''classification''"
| "ComputeWorkloadClass_str CW_summarization = ''summarization''"
| "ComputeWorkloadClass_str CW_agent_analysis = ''agent_analysis''"
| "ComputeWorkloadClass_str CW_structured_extraction = ''structured_extraction''"
| "ComputeWorkloadClass_str CW_benchmark_inference = ''benchmark_inference''"

datatype PrismLeaseStatus =
  CL_draft | CL_requested | CL_pending_approval | CL_approved | CL_admitted | CL_running |
  CL_streaming | CL_completed | CL_rejected | CL_expired | CL_failed | CL_cancelled | CL_revoked

fun PrismLeaseStatus_str :: "PrismLeaseStatus \<Rightarrow> string" where
  "PrismLeaseStatus_str CL_draft = ''draft''"
| "PrismLeaseStatus_str CL_requested = ''requested''"
| "PrismLeaseStatus_str CL_pending_approval = ''pending_approval''"
| "PrismLeaseStatus_str CL_approved = ''approved''"
| "PrismLeaseStatus_str CL_admitted = ''admitted''"
| "PrismLeaseStatus_str CL_running = ''running''"
| "PrismLeaseStatus_str CL_streaming = ''streaming''"
| "PrismLeaseStatus_str CL_completed = ''completed''"
| "PrismLeaseStatus_str CL_rejected = ''rejected''"
| "PrismLeaseStatus_str CL_expired = ''expired''"
| "PrismLeaseStatus_str CL_failed = ''failed''"
| "PrismLeaseStatus_str CL_cancelled = ''cancelled''"
| "PrismLeaseStatus_str CL_revoked = ''revoked''"

datatype InputDisclosureClass =
  DI_local_private | DI_session_scoped | DI_sanitized_session | DI_public

datatype OutputDisclosureClass =
  DO_local_private | DO_task_visible | DO_owner_reviewable | DO_federation_summary

record LocalPrismComputeLease =
  lz_leaseId :: string
  lz_sessionId :: string
  lz_taskId :: "string option"
  lz_requesterIdentityPublicKey :: string
  lz_requesterMembershipId :: string
  lz_approvingIdentityPublicKey :: "string option"
  lz_grantId :: string
  lz_sessionKeyEpoch :: int
  lz_backendKind :: PrismBackendKind
  lz_workloadClass :: ComputeWorkloadClass
  lz_modelArtifactDigest :: string
  lz_computeImagePolicyDigest :: string
  lz_inputDisclosureClass :: InputDisclosureClass
  lz_inputDigest :: string
  lz_inputReference :: "string option"
  lz_outputDisclosureClass :: OutputDisclosureClass
  lz_requestedMaxTokens :: "int option"
  lz_requestedMaxRuntimeSeconds :: int
  lz_requestedMaxMemoryBytes :: int
  lz_requestedMaxOutputBytes :: int
  lz_requestedMaxGpuTimeMs :: "int option"
  lz_requiredContainmentLevel :: string
  lz_approvalPolicy :: string
  lz_status :: PrismLeaseStatus
  lz_issuedAt :: string
  lz_expiresAt :: "string option"
  lz_revokedAt :: "string option"
  lz_cancellationReason :: "string option"
  lz_signatureChain :: string

datatype ArtifactAdmissionState =
  AD_unknown | AD_pending_validation | AD_admitted | AD_deprecated | AD_revoked | AD_unavailable

fun ArtifactAdmissionState_str :: "ArtifactAdmissionState \<Rightarrow> string" where
  "ArtifactAdmissionState_str AD_unknown = ''unknown''"
| "ArtifactAdmissionState_str AD_pending_validation = ''pending_validation''"
| "ArtifactAdmissionState_str AD_admitted = ''admitted''"
| "ArtifactAdmissionState_str AD_deprecated = ''deprecated''"
| "ArtifactAdmissionState_str AD_revoked = ''revoked''"
| "ArtifactAdmissionState_str AD_unavailable = ''unavailable''"

datatype WeightFormat =
  WF_fp32 | WF_fp16 | WF_bf16 | WF_int8 | WF_int4 | WF_q4_k_m | WF_q8_0

datatype QuantizationScheme =
  QZ_none | QZ_awq | QZ_gptq | QZ_squeezellm | QZ_gguf

record PrismArtifactAdmission =
  af_artifactDigest :: string
  af_artifactName :: string
  af_modelFamily :: string
  af_modelVersion :: string
  af_tokenizerDigest :: string
  af_weightFormat :: WeightFormat
  af_quantizationScheme :: QuantizationScheme
  af_supportedWorkloadClasses :: "ComputeWorkloadClass list"
  af_supportedComputeTargets :: "string list"
  af_requiredMemoryBytes :: int
  af_artifactProvenance :: string
  af_signatureStatus :: string
  af_localAvailability :: string
  af_admissionState :: ArtifactAdmissionState
  af_admittedAt :: string
  af_revokedAt :: "string option"

record ComputeImagePolicy =
  cg_policyDigest :: string
  cg_allowedTargets :: "string list"
  cg_requiredDeterminismClass :: string
  cg_allowedPrecisionModes :: "string list"
  cg_allowedMemoryTiers :: "string list"
  cg_maxCompileTimeMs :: int
  cg_maxModelLoadTimeMs :: int
  cg_allowCacheReuse :: bool
  cg_allowCompiledArtifactReuse :: bool
  cg_requireArtifactSealing :: bool
  cg_requireExecutionReceipts :: bool

record ComputeBudget =
  bu_maximumRuntimeSeconds :: int
  bu_maximumPrefillMs :: int
  bu_maximumDecodeMs :: int
  bu_maximumTokens :: int
  bu_maximumInputTokens :: int
  bu_maximumOutputTokens :: int
  bu_maximumMemoryBytes :: int
  bu_maximumGpuTimeMs :: "int option"
  bu_maximumCpuTimeMs :: "int option"
  bu_maximumOutputBytes :: int
  bu_maximumCompileTimeMs :: int

record PrismExecutionDescriptor =
  ed_executionId :: string
  ed_leaseId :: string
  ed_modelArtifactDigest :: string
  ed_tokenizerDigest :: string
  ed_computeImageDigest :: string
  ed_targetCapabilitySignature :: string
  ed_workloadClass :: ComputeWorkloadClass
  ed_inputReference :: string
  ed_maxTokens :: int
  ed_samplingPolicy :: string
  ed_outputSchema :: "string option"
  ed_executionBudget :: ComputeBudget
  ed_containmentContextDigest :: string
  ed_sessionContextDigest :: string

datatype KvNamespaceState =
  KN_allocated | KN_primed | KN_decoding | KN_synchronized | KN_invalidated | KN_released

fun KvNamespaceState_str :: "KvNamespaceState \<Rightarrow> string" where
  "KvNamespaceState_str KN_allocated = ''allocated''"
| "KvNamespaceState_str KN_primed = ''primed''"
| "KvNamespaceState_str KN_decoding = ''decoding''"
| "KvNamespaceState_str KN_synchronized = ''synchronized''"
| "KvNamespaceState_str KN_invalidated = ''invalidated''"
| "KvNamespaceState_str KN_released = ''released''"

record LocalKvNamespace =
  kn_namespaceId :: string
  kn_sessionId :: string
  kn_leaseId :: string
  kn_modelArtifactDigest :: string
  kn_ownerIdentityPublicKey :: string
  kn_prefixDigest :: string
  kn_residencyTier :: string
  kn_createdAt :: string
  kn_expiresAt :: "string option"
  kn_state :: KvNamespaceState

datatype FailureClass =
  XF_artifact_unavailable | XF_artifact_revoked | XF_tokenizer_mismatch |
  XF_compute_image_unavailable | XF_target_incompatible | XF_memory_budget_exceeded |
  XF_containment_unavailable | XF_lease_expired | XF_execution_cancelled |
  XF_execution_timeout | XF_backend_failure | XF_output_budget_exceeded

fun FailureClass_str :: "FailureClass \<Rightarrow> string" where
  "FailureClass_str XF_artifact_unavailable = ''artifact_unavailable''"
| "FailureClass_str XF_artifact_revoked = ''artifact_revoked''"
| "FailureClass_str XF_tokenizer_mismatch = ''tokenizer_mismatch''"
| "FailureClass_str XF_compute_image_unavailable = ''compute_image_unavailable''"
| "FailureClass_str XF_target_incompatible = ''target_incompatible''"
| "FailureClass_str XF_memory_budget_exceeded = ''memory_budget_exceeded''"
| "FailureClass_str XF_containment_unavailable = ''containment_unavailable''"
| "FailureClass_str XF_lease_expired = ''lease_expired''"
| "FailureClass_str XF_execution_cancelled = ''execution_cancelled''"
| "FailureClass_str XF_execution_timeout = ''execution_timeout''"
| "FailureClass_str XF_backend_failure = ''backend_failure''"
| "FailureClass_str XF_output_budget_exceeded = ''output_budget_exceeded''"

record PrismUsageReceipt =
  ux_receiptId :: string
  ux_leaseId :: string
  ux_sessionId :: string
  ux_taskId :: "string option"
  ux_actorIdentityPublicKey :: string
  ux_modelArtifactDigest :: string
  ux_tokenizerDigest :: string
  ux_computeImageDigest :: string
  ux_targetCapabilitySignature :: string
  ux_containmentProfileDigest :: string
  ux_workloadClass :: ComputeWorkloadClass
  ux_inputDigest :: string
  ux_outputDigest :: "string option"
  ux_inputTokenCount :: "int option"
  ux_outputTokenCount :: "int option"
  ux_prefillDurationMs :: "int option"
  ux_decodeDurationMs :: "int option"
  ux_totalDurationMs :: int
  ux_peakMemoryBytes :: "int option"
  ux_cacheHitStatus :: "string option"
  ux_kvNamespaceDigest :: "string option"
  ux_executionState :: PrismLeaseStatus
  ux_failureClass :: "FailureClass option"
  ux_emittedAt :: string
  ux_signature :: string

section \<open>Leases\<close>

datatype PrismLeaseAction =
  LA_request | LA_approve | LA_reject | LA_admit | LA_start | LA_stream | LA_complete |
  LA_fail | LA_cancel | LA_expire | LA_revoke

fun PrismLeaseAction_str :: "PrismLeaseAction \<Rightarrow> string" where
  "PrismLeaseAction_str LA_request = ''request''"
| "PrismLeaseAction_str LA_approve = ''approve''"
| "PrismLeaseAction_str LA_reject = ''reject''"
| "PrismLeaseAction_str LA_admit = ''admit''"
| "PrismLeaseAction_str LA_start = ''start''"
| "PrismLeaseAction_str LA_stream = ''stream''"
| "PrismLeaseAction_str LA_complete = ''complete''"
| "PrismLeaseAction_str LA_fail = ''fail''"
| "PrismLeaseAction_str LA_cancel = ''cancel''"
| "PrismLeaseAction_str LA_expire = ''expire''"
| "PrismLeaseAction_str LA_revoke = ''revoke''"

fun VALID_LEASE_TRANSITIONS :: "PrismLeaseStatus \<Rightarrow> PrismLeaseStatus list" where
  "VALID_LEASE_TRANSITIONS CL_draft = [CL_requested]"
| "VALID_LEASE_TRANSITIONS CL_requested = [CL_pending_approval, CL_rejected]"
| "VALID_LEASE_TRANSITIONS CL_pending_approval = [CL_approved, CL_rejected]"
| "VALID_LEASE_TRANSITIONS CL_approved = [CL_admitted, CL_expired]"
| "VALID_LEASE_TRANSITIONS CL_admitted = [CL_running, CL_failed]"
| "VALID_LEASE_TRANSITIONS CL_running = [CL_streaming, CL_completed, CL_cancelled, CL_failed]"
| "VALID_LEASE_TRANSITIONS CL_streaming = [CL_completed, CL_cancelled, CL_failed]"
| "VALID_LEASE_TRANSITIONS CL_completed = []"
| "VALID_LEASE_TRANSITIONS CL_rejected = []"
| "VALID_LEASE_TRANSITIONS CL_expired = []"
| "VALID_LEASE_TRANSITIONS CL_failed = []"
| "VALID_LEASE_TRANSITIONS CL_cancelled = []"
| "VALID_LEASE_TRANSITIONS CL_revoked = []"

fun ACTION_NEXT :: "PrismLeaseAction \<Rightarrow> PrismLeaseStatus" where
  "ACTION_NEXT LA_request = CL_requested"
| "ACTION_NEXT LA_approve = CL_approved"
| "ACTION_NEXT LA_reject = CL_rejected"
| "ACTION_NEXT LA_admit = CL_admitted"
| "ACTION_NEXT LA_start = CL_running"
| "ACTION_NEXT LA_stream = CL_streaming"
| "ACTION_NEXT LA_complete = CL_completed"
| "ACTION_NEXT LA_fail = CL_failed"
| "ACTION_NEXT LA_cancel = CL_cancelled"
| "ACTION_NEXT LA_expire = CL_expired"
| "ACTION_NEXT LA_revoke = CL_revoked"

fun ACTION_FROM :: "PrismLeaseAction \<Rightarrow> PrismLeaseStatus list" where
  "ACTION_FROM LA_request = [CL_draft]"
| "ACTION_FROM LA_approve = [CL_pending_approval]"
| "ACTION_FROM LA_reject = [CL_requested, CL_pending_approval]"
| "ACTION_FROM LA_admit = [CL_approved]"
| "ACTION_FROM LA_start = [CL_admitted]"
| "ACTION_FROM LA_stream = [CL_running]"
| "ACTION_FROM LA_complete = [CL_running, CL_streaming]"
| "ACTION_FROM LA_fail = [CL_admitted, CL_running, CL_streaming]"
| "ACTION_FROM LA_cancel = [CL_running, CL_streaming]"
| "ACTION_FROM LA_expire = [CL_approved]"
| "ACTION_FROM LA_revoke =
     [CL_draft, CL_requested, CL_pending_approval, CL_approved, CL_admitted, CL_running, CL_streaming]"

definition applyLeaseAction :: "PrismLeaseStatus \<Rightarrow> PrismLeaseAction \<Rightarrow> PrismLeaseStatus result" where
  "applyLeaseAction current action =
     (let allowedSources = ACTION_FROM action
      in if \<not> List.member allowedSources current
         then Inl (''Invalid lease action '' @ quoted (PrismLeaseAction_str action) @ '' from status '' @
           quoted (PrismLeaseStatus_str current) @ ''. Allowed source statuses: ['' @
           js_join '', '' (List.map PrismLeaseStatus_str allowedSources) @ '']'')
         else Inr (ACTION_NEXT action))"

definition DEFAULT_MAX_RUNTIME_SECONDS :: int where "DEFAULT_MAX_RUNTIME_SECONDS = 300"
definition DEFAULT_MAX_MEMORY_BYTES :: int where "DEFAULT_MAX_MEMORY_BYTES = 2 * 1024 * 1024 * 1024"
definition DEFAULT_MAX_OUTPUT_BYTES :: int where "DEFAULT_MAX_OUTPUT_BYTES = 1024 * 1024"

definition createLease ::
    "string \<Rightarrow> string \<Rightarrow> string \<Rightarrow> string \<Rightarrow> string \<Rightarrow> ComputeWorkloadClass \<Rightarrow> string \<Rightarrow> string \<Rightarrow> LocalPrismComputeLease" where
  "createLease now sessionId requester membershipId grantId workloadClass modelArtifactDigest inputDigest =
     \<lparr>lz_leaseId = [], lz_sessionId = sessionId, lz_taskId = None,
      lz_requesterIdentityPublicKey = requester, lz_requesterMembershipId = membershipId,
      lz_approvingIdentityPublicKey = None, lz_grantId = grantId, lz_sessionKeyEpoch = 0,
      lz_backendKind = BX_prism_local, lz_workloadClass = workloadClass,
      lz_modelArtifactDigest = modelArtifactDigest, lz_computeImagePolicyDigest = [],
      lz_inputDisclosureClass = DI_local_private, lz_inputDigest = inputDigest, lz_inputReference = None,
      lz_outputDisclosureClass = DO_local_private, lz_requestedMaxTokens = None,
      lz_requestedMaxRuntimeSeconds = DEFAULT_MAX_RUNTIME_SECONDS,
      lz_requestedMaxMemoryBytes = DEFAULT_MAX_MEMORY_BYTES,
      lz_requestedMaxOutputBytes = DEFAULT_MAX_OUTPUT_BYTES, lz_requestedMaxGpuTimeMs = None,
      lz_requiredContainmentLevel = ''standard'', lz_approvalPolicy = ''auto'', lz_status = CL_draft,
      lz_issuedAt = now, lz_expiresAt = None, lz_revokedAt = None, lz_cancellationReason = None,
      lz_signatureChain = []\<rparr>"

definition isTerminalLease :: "LocalPrismComputeLease \<Rightarrow> bool" where
  "isTerminalLease lease \<longleftrightarrow>
     lz_status lease \<in> {CL_completed, CL_rejected, CL_expired, CL_failed, CL_cancelled, CL_revoked}"

definition isActiveLease :: "LocalPrismComputeLease \<Rightarrow> bool" where
  "isActiveLease lease \<longleftrightarrow>
     lz_status lease \<in> {CL_requested, CL_pending_approval, CL_approved, CL_admitted, CL_running, CL_streaming}"

section \<open>Budgets\<close>

definition getDefaultComputeBudget :: ComputeBudget where
  "getDefaultComputeBudget =
     \<lparr>bu_maximumRuntimeSeconds = 300, bu_maximumPrefillMs = 30000, bu_maximumDecodeMs = 120000,
      bu_maximumTokens = 8192, bu_maximumInputTokens = 4096, bu_maximumOutputTokens = 4096,
      bu_maximumMemoryBytes = 2 * 1024 * 1024 * 1024, bu_maximumGpuTimeMs = None, bu_maximumCpuTimeMs = None,
      bu_maximumOutputBytes = 1 * 1024 * 1024, bu_maximumCompileTimeMs = 60000\<rparr>"

text \<open>\<open>Partial<ComputeBudget>\<close>.\<close>

record HostBudget =
  hb_maximumRuntimeSeconds :: "int option"
  hb_maximumPrefillMs :: "int option"
  hb_maximumDecodeMs :: "int option"
  hb_maximumTokens :: "int option"
  hb_maximumInputTokens :: "int option"
  hb_maximumOutputTokens :: "int option"
  hb_maximumMemoryBytes :: "int option"
  hb_maximumGpuTimeMs :: "int option"
  hb_maximumCpuTimeMs :: "int option"
  hb_maximumOutputBytes :: "int option"
  hb_maximumCompileTimeMs :: "int option"

text \<open>\<open>if (request < merged.f) merged.f = request\<close> is the smaller of the two.\<close>

definition tighten :: "int \<Rightarrow> int \<Rightarrow> int" where
  "tighten request limit = (if request < limit then request else limit)"

definition computeEffectiveBudget :: "LocalPrismComputeLease \<Rightarrow> ComputeImagePolicy \<Rightarrow> HostBudget \<Rightarrow> ComputeBudget" where
  "computeEffectiveBudget lease policy hostBudget =
     (let defaults = getDefaultComputeBudget;
          merged = \<lparr>bu_maximumRuntimeSeconds = nullish (hb_maximumRuntimeSeconds hostBudget) (bu_maximumRuntimeSeconds defaults),
            bu_maximumPrefillMs = nullish (hb_maximumPrefillMs hostBudget) (bu_maximumPrefillMs defaults),
            bu_maximumDecodeMs = nullish (hb_maximumDecodeMs hostBudget) (bu_maximumDecodeMs defaults),
            bu_maximumTokens = nullish (hb_maximumTokens hostBudget) (bu_maximumTokens defaults),
            bu_maximumInputTokens = nullish (hb_maximumInputTokens hostBudget) (bu_maximumInputTokens defaults),
            bu_maximumOutputTokens = nullish (hb_maximumOutputTokens hostBudget) (bu_maximumOutputTokens defaults),
            bu_maximumMemoryBytes = nullish (hb_maximumMemoryBytes hostBudget) (bu_maximumMemoryBytes defaults),
            bu_maximumGpuTimeMs = (case hb_maximumGpuTimeMs hostBudget of None \<Rightarrow> bu_maximumGpuTimeMs defaults | Some x \<Rightarrow> Some x),
            bu_maximumCpuTimeMs = (case hb_maximumCpuTimeMs hostBudget of None \<Rightarrow> bu_maximumCpuTimeMs defaults | Some x \<Rightarrow> Some x),
            bu_maximumOutputBytes = nullish (hb_maximumOutputBytes hostBudget) (bu_maximumOutputBytes defaults),
            bu_maximumCompileTimeMs = nullish (hb_maximumCompileTimeMs hostBudget) (bu_maximumCompileTimeMs defaults)\<rparr>
      in merged\<lparr>
           bu_maximumCompileTimeMs := tighten (cg_maxCompileTimeMs policy) (bu_maximumCompileTimeMs merged),
           bu_maximumRuntimeSeconds := tighten (lz_requestedMaxRuntimeSeconds lease) (bu_maximumRuntimeSeconds merged),
           bu_maximumMemoryBytes := tighten (lz_requestedMaxMemoryBytes lease) (bu_maximumMemoryBytes merged),
           bu_maximumOutputBytes := tighten (lz_requestedMaxOutputBytes lease) (bu_maximumOutputBytes merged),
           bu_maximumTokens := (case lz_requestedMaxTokens lease of
             None \<Rightarrow> bu_maximumTokens merged | Some r \<Rightarrow> tighten r (bu_maximumTokens merged)),
           bu_maximumGpuTimeMs := (case lz_requestedMaxGpuTimeMs lease of
             None \<Rightarrow> bu_maximumGpuTimeMs merged
           | Some r \<Rightarrow> (case bu_maximumGpuTimeMs merged of None \<Rightarrow> Some r | Some l \<Rightarrow> Some (tighten r l)))\<rparr>)"

record UsageReport =
  ug_runtimeMs :: "int option"
  ug_tokens :: "int option"
  ug_inputTokens :: "int option"
  ug_outputTokens :: "int option"
  ug_memoryBytes :: "int option"
  ug_gpuTimeMs :: "int option"
  ug_outputBytes :: "int option"

text \<open>One check of \<open>checkBudget\<close>: a measured value above a limit that exists.\<close>

definition over_limit :: "string \<Rightarrow> int option \<Rightarrow> int option \<Rightarrow> string list" where
  "over_limit label used limit =
     (case (used, limit) of
        (Some u, Some l) \<Rightarrow> if u > l then [label @ '' exceeded: '' @ show_int u @ '' > '' @ show_int l] else []
      | _ \<Rightarrow> [])"

definition checkBudget :: "ComputeBudget \<Rightarrow> UsageReport \<Rightarrow> bool \<times> string list" where
  "checkBudget budget usage =
     (let violations =
        over_limit ''runtime_ms'' (ug_runtimeMs usage) (Some (bu_maximumRuntimeSeconds budget * 1000)) @
        over_limit ''total_tokens'' (ug_tokens usage) (Some (bu_maximumTokens budget)) @
        over_limit ''input_tokens'' (ug_inputTokens usage) (Some (bu_maximumInputTokens budget)) @
        over_limit ''output_tokens'' (ug_outputTokens usage) (Some (bu_maximumOutputTokens budget)) @
        over_limit ''memory_bytes'' (ug_memoryBytes usage) (Some (bu_maximumMemoryBytes budget)) @
        over_limit ''gpu_time_ms'' (ug_gpuTimeMs usage) (bu_maximumGpuTimeMs budget) @
        over_limit ''output_bytes'' (ug_outputBytes usage) (Some (bu_maximumOutputBytes budget))
      in (length violations > 0, violations))"

section \<open>Artifacts\<close>

fun VALID_ARTIFACT_TRANSITIONS :: "ArtifactAdmissionState \<Rightarrow> ArtifactAdmissionState list" where
  "VALID_ARTIFACT_TRANSITIONS AD_unknown = [AD_pending_validation]"
| "VALID_ARTIFACT_TRANSITIONS AD_pending_validation = [AD_admitted, AD_unavailable]"
| "VALID_ARTIFACT_TRANSITIONS AD_admitted = [AD_deprecated, AD_revoked]"
| "VALID_ARTIFACT_TRANSITIONS AD_deprecated = [AD_revoked]"
| "VALID_ARTIFACT_TRANSITIONS AD_revoked = []"
| "VALID_ARTIFACT_TRANSITIONS AD_unavailable = []"

definition createArtifact :: "string \<Rightarrow> string \<Rightarrow> string \<Rightarrow> string \<Rightarrow> string \<Rightarrow> PrismArtifactAdmission" where
  "createArtifact now digest name family version =
     \<lparr>af_artifactDigest = digest, af_artifactName = name, af_modelFamily = family, af_modelVersion = version,
      af_tokenizerDigest = [], af_weightFormat = WF_fp16, af_quantizationScheme = QZ_none,
      af_supportedWorkloadClasses = [], af_supportedComputeTargets = [], af_requiredMemoryBytes = 0,
      af_artifactProvenance = [], af_signatureStatus = ''unsigned'', af_localAvailability = ''unknown'',
      af_admissionState = AD_pending_validation, af_admittedAt = now, af_revokedAt = None\<rparr>"

definition assertValidArtifactTransition ::
    "ArtifactAdmissionState \<Rightarrow> ArtifactAdmissionState \<Rightarrow> string \<Rightarrow> unit result" where
  "assertValidArtifactTransition current next actionLabel =
     (let allowed = VALID_ARTIFACT_TRANSITIONS current
      in if \<not> List.member allowed next
         then Inl (''Cannot '' @ actionLabel @ '': invalid transition from '' @ quoted (ArtifactAdmissionState_str current) @
           '' to '' @ quoted (ArtifactAdmissionState_str next) @ ''. Allowed: ['' @
           js_join '', '' (List.map ArtifactAdmissionState_str allowed) @ '']'')
         else Inr ())"

definition admitArtifact :: "PrismArtifactAdmission \<Rightarrow> PrismArtifactAdmission result" where
  "admitArtifact artifact =
     (case assertValidArtifactTransition (af_admissionState artifact) AD_admitted ''admit artifact'' of
        Inl e \<Rightarrow> Inl e
      | Inr _ \<Rightarrow> Inr (artifact\<lparr>af_admissionState := AD_admitted, af_localAvailability := ''staged''\<rparr>))"

definition revokeArtifact :: "string \<Rightarrow> PrismArtifactAdmission \<Rightarrow> PrismArtifactAdmission result" where
  "revokeArtifact now artifact =
     (case assertValidArtifactTransition (af_admissionState artifact) AD_revoked ''revoke artifact'' of
        Inl e \<Rightarrow> Inl e
      | Inr _ \<Rightarrow> Inr (artifact\<lparr>af_admissionState := AD_revoked, af_revokedAt := Some now\<rparr>))"

definition isArtifactAdmitted :: "PrismArtifactAdmission \<Rightarrow> bool" where
  "isArtifactAdmitted artifact \<longleftrightarrow> af_admissionState artifact = AD_admitted"

definition canArtifactSatisfyWorkload :: "PrismArtifactAdmission \<Rightarrow> ComputeWorkloadClass \<Rightarrow> bool" where
  "canArtifactSatisfyWorkload artifact workload = List.member (af_supportedWorkloadClasses artifact) workload"

definition isArtifactAvailableLocally :: "PrismArtifactAdmission \<Rightarrow> bool" where
  "isArtifactAvailableLocally artifact \<longleftrightarrow> af_localAvailability artifact \<noteq> ''unavailable''"

section \<open>Execution stages\<close>

datatype ExecutionStage =
  XS_pending | XS_compiling | XS_loading | XS_prefill | XS_decode | XS_streaming |
  XS_completed | XS_failed | XS_cancelled

fun ExecutionStage_str :: "ExecutionStage \<Rightarrow> string" where
  "ExecutionStage_str XS_pending = ''pending''"
| "ExecutionStage_str XS_compiling = ''compiling''"
| "ExecutionStage_str XS_loading = ''loading''"
| "ExecutionStage_str XS_prefill = ''prefill''"
| "ExecutionStage_str XS_decode = ''decode''"
| "ExecutionStage_str XS_streaming = ''streaming''"
| "ExecutionStage_str XS_completed = ''completed''"
| "ExecutionStage_str XS_failed = ''failed''"
| "ExecutionStage_str XS_cancelled = ''cancelled''"

fun STAGE_TRANSITIONS :: "ExecutionStage \<Rightarrow> ExecutionStage list" where
  "STAGE_TRANSITIONS XS_pending = [XS_compiling, XS_failed, XS_cancelled]"
| "STAGE_TRANSITIONS XS_compiling = [XS_loading, XS_failed, XS_cancelled]"
| "STAGE_TRANSITIONS XS_loading = [XS_prefill, XS_failed, XS_cancelled]"
| "STAGE_TRANSITIONS XS_prefill = [XS_decode, XS_failed, XS_cancelled]"
| "STAGE_TRANSITIONS XS_decode = [XS_streaming, XS_failed, XS_cancelled]"
| "STAGE_TRANSITIONS XS_streaming = [XS_completed, XS_failed, XS_cancelled]"
| "STAGE_TRANSITIONS XS_completed = []"
| "STAGE_TRANSITIONS XS_failed = []"
| "STAGE_TRANSITIONS XS_cancelled = []"

definition ACTION_STAGE_MAP :: "(string \<times> ExecutionStage) list" where
  "ACTION_STAGE_MAP =
     [(''compile'', XS_compiling), (''load'', XS_loading), (''prefill'', XS_prefill), (''decode'', XS_decode),
      (''stream'', XS_streaming), (''complete'', XS_completed), (''fail'', XS_failed), (''cancel'', XS_cancelled)]"

definition createExecutionDescriptor ::
    "string \<Rightarrow> LocalPrismComputeLease \<Rightarrow> string \<Rightarrow> string \<Rightarrow> ComputeBudget \<Rightarrow> PrismExecutionDescriptor" where
  "createExecutionDescriptor uuid lease computeImageDigest targetSignature budget =
     \<lparr>ed_executionId = uuid, ed_leaseId = lz_leaseId lease,
      ed_modelArtifactDigest = lz_modelArtifactDigest lease, ed_tokenizerDigest = lz_modelArtifactDigest lease,
      ed_computeImageDigest = computeImageDigest, ed_targetCapabilitySignature = targetSignature,
      ed_workloadClass = lz_workloadClass lease,
      ed_inputReference = nullish (lz_inputReference lease) (lz_inputDigest lease),
      ed_maxTokens = nullish (lz_requestedMaxTokens lease) 4096, ed_samplingPolicy = ''default'',
      ed_outputSchema = None, ed_executionBudget = budget,
      ed_containmentContextDigest = lz_requiredContainmentLevel lease,
      ed_sessionContextDigest = lz_sessionId lease\<rparr>"

definition transitionExecutionStage :: "ExecutionStage \<Rightarrow> string \<Rightarrow> ExecutionStage result" where
  "transitionExecutionStage stage action =
     (case map_of ACTION_STAGE_MAP action of
        None \<Rightarrow> Inl (''Unknown execution action: '' @ quoted action)
      | Some target \<Rightarrow>
          if \<not> List.member (STAGE_TRANSITIONS stage) target
          then Inl (''Invalid execution stage transition: '' @ ExecutionStage_str stage @ '' '' @ em_dash @
            quoted action @ right_arrow @ '' '' @ ExecutionStage_str target @ '' not allowed'')
          else Inr target)"

section \<open>KV namespaces\<close>

datatype KvAction =
  KA_prime | KA_decode | KA_sync | KA_invalidate | KA_release

fun KvAction_str :: "KvAction \<Rightarrow> string" where
  "KvAction_str KA_prime = ''prime''"
| "KvAction_str KA_decode = ''decode''"
| "KvAction_str KA_sync = ''sync''"
| "KvAction_str KA_invalidate = ''invalidate''"
| "KvAction_str KA_release = ''release''"

fun VALID_KV_TRANSITIONS :: "KvNamespaceState \<Rightarrow> KvNamespaceState list" where
  "VALID_KV_TRANSITIONS KN_allocated = [KN_primed, KN_released]"
| "VALID_KV_TRANSITIONS KN_primed = [KN_decoding, KN_invalidated, KN_released]"
| "VALID_KV_TRANSITIONS KN_decoding = [KN_synchronized, KN_invalidated, KN_released]"
| "VALID_KV_TRANSITIONS KN_synchronized = [KN_decoding, KN_invalidated, KN_released]"
| "VALID_KV_TRANSITIONS KN_invalidated = [KN_released]"
| "VALID_KV_TRANSITIONS KN_released = []"

fun KV_ACTION_TARGET :: "KvAction \<Rightarrow> KvNamespaceState" where
  "KV_ACTION_TARGET KA_prime = KN_primed"
| "KV_ACTION_TARGET KA_decode = KN_decoding"
| "KV_ACTION_TARGET KA_sync = KN_synchronized"
| "KV_ACTION_TARGET KA_invalidate = KN_invalidated"
| "KV_ACTION_TARGET KA_release = KN_released"

definition applyKvAction :: "KvNamespaceState \<Rightarrow> KvAction \<Rightarrow> KvNamespaceState result" where
  "applyKvAction state action =
     (let target = KV_ACTION_TARGET action
      in if \<not> List.member (VALID_KV_TRANSITIONS state) target
         then Inl (''Invalid KV namespace transition: '' @ KvNamespaceState_str state @ '' '' @ em_dash @
           quoted (KvAction_str action) @ right_arrow @ '' '' @ KvNamespaceState_str target @ '' not allowed'')
         else Inr target)"

definition createKvNamespace ::
    "string \<Rightarrow> string \<Rightarrow> string \<Rightarrow> string \<Rightarrow> string \<Rightarrow> string \<Rightarrow> string \<Rightarrow> LocalKvNamespace" where
  "createKvNamespace now uuid sessionId leaseId modelDigest ownerIdentity prefixDigest =
     \<lparr>kn_namespaceId = uuid, kn_sessionId = sessionId, kn_leaseId = leaseId,
      kn_modelArtifactDigest = modelDigest, kn_ownerIdentityPublicKey = ownerIdentity,
      kn_prefixDigest = prefixDigest, kn_residencyTier = ''local'', kn_createdAt = now, kn_expiresAt = None,
      kn_state = KN_allocated\<rparr>"

section \<open>Usage receipts\<close>

record UsageReceiptConfig =
  uy_lease :: LocalPrismComputeLease
  uy_computeImageDigest :: string
  uy_targetSignature :: string
  uy_containmentProfileDigest :: string
  uy_execution :: PrismExecutionDescriptor
  uy_inputDigest :: string
  uy_outputDigest :: "string option"
  uy_inputTokens :: "int option"
  uy_outputTokens :: "int option"
  uy_prefillMs :: "int option"
  uy_decodeMs :: "int option"
  uy_totalMs :: int
  uy_peakMemoryBytes :: "int option"
  uy_cacheHit :: "string option"
  uy_executionState :: PrismLeaseStatus
  uy_failureClass :: "FailureClass option"

definition opt_int_str :: "int option \<Rightarrow> string" where
  "opt_int_str n = (case n of None \<Rightarrow> [] | Some i \<Rightarrow> show_int i)"

definition receiptContent :: "UsageReceiptConfig \<Rightarrow> string list" where
  "receiptContent c =
     [ed_executionId (uy_execution c), lz_leaseId (uy_lease c), lz_sessionId (uy_lease c), uy_inputDigest c,
      nullish (uy_outputDigest c) [], opt_int_str (uy_inputTokens c), opt_int_str (uy_outputTokens c),
      opt_int_str (uy_prefillMs c), opt_int_str (uy_decodeMs c), show_int (uy_totalMs c),
      PrismLeaseStatus_str (uy_executionState c),
      (case uy_failureClass c of None \<Rightarrow> [] | Some f \<Rightarrow> FailureClass_str f)]"

text \<open>The 32-bit hash of the content, its absolute value in hexadecimal.\<close>

definition absHexDigest :: "string \<Rightarrow> string" where
  "absHexDigest s = padStart 8 (CHR ''0'') (show_hex (nat \<bar>sint (string_hash s)\<bar>))"

definition createUsageReceipt :: "string \<Rightarrow> UsageReceiptConfig \<Rightarrow> PrismUsageReceipt" where
  "createUsageReceipt now c =
     (let lease = uy_lease c; receiptDigest = absHexDigest (js_join ''|'' (receiptContent c))
      in \<lparr>ux_receiptId = receiptDigest, ux_leaseId = lz_leaseId lease, ux_sessionId = lz_sessionId lease,
          ux_taskId = lz_taskId lease, ux_actorIdentityPublicKey = lz_requesterIdentityPublicKey lease,
          ux_modelArtifactDigest = lz_modelArtifactDigest lease,
          ux_tokenizerDigest = ed_tokenizerDigest (uy_execution c),
          ux_computeImageDigest = uy_computeImageDigest c, ux_targetCapabilitySignature = uy_targetSignature c,
          ux_containmentProfileDigest = uy_containmentProfileDigest c,
          ux_workloadClass = lz_workloadClass lease, ux_inputDigest = uy_inputDigest c,
          ux_outputDigest = uy_outputDigest c, ux_inputTokenCount = uy_inputTokens c,
          ux_outputTokenCount = uy_outputTokens c, ux_prefillDurationMs = uy_prefillMs c,
          ux_decodeDurationMs = uy_decodeMs c, ux_totalDurationMs = uy_totalMs c,
          ux_peakMemoryBytes = uy_peakMemoryBytes c, ux_cacheHitStatus = uy_cacheHit c,
          ux_kvNamespaceDigest = None, ux_executionState = uy_executionState c,
          ux_failureClass = uy_failureClass c, ux_emittedAt = now, ux_signature = receiptDigest\<rparr>)"

definition isSuccessfulReceipt :: "PrismUsageReceipt \<Rightarrow> bool" where
  "isSuccessfulReceipt receipt \<longleftrightarrow> ux_executionState receipt = CL_completed"

definition getUsageReceiptSummary :: "PrismUsageReceipt \<Rightarrow> string" where
  "getUsageReceiptSummary receipt =
     (let count = \<lambda>n. (case n of None \<Rightarrow> ''?'' | Some i \<Rightarrow> show_int i);
          tokens = (if ux_inputTokenCount receipt \<noteq> None \<or> ux_outputTokenCount receipt \<noteq> None
            then '' '' @ count (ux_inputTokenCount receipt) @ ''i/'' @ count (ux_outputTokenCount receipt) @ ''o'' else []);
          duration = '' '' @ show_int (ux_totalDurationMs receipt) @ ''ms'';
          status = (if isSuccessfulReceipt receipt then ''OK''
            else case ux_failureClass receipt of
              None \<Rightarrow> PrismLeaseStatus_str (ux_executionState receipt) | Some f \<Rightarrow> FailureClass_str f)
      in ''['' @ status @ ''] '' @ ComputeWorkloadClass_str (ux_workloadClass receipt) @ '' '' @ em_dash @ '' '' @
         ux_modelArtifactDigest receipt @ tokens @ duration)"

section \<open>The machines as interpretations\<close>

text \<open>
  The actions of a lease follow its table except that every lease in progress can be revoked, which
  the table does not list.
\<close>

definition lease_edges :: "PrismLeaseStatus \<Rightarrow> PrismLeaseStatus list" where
  "lease_edges s = VALID_LEASE_TRANSITIONS s @ (if terminal_in VALID_LEASE_TRANSITIONS s then [] else [CL_revoked])"

fun lease_rank :: "PrismLeaseStatus \<Rightarrow> nat" where
  "lease_rank CL_draft = 7"
| "lease_rank CL_requested = 6"
| "lease_rank CL_pending_approval = 5"
| "lease_rank CL_approved = 4"
| "lease_rank CL_admitted = 3"
| "lease_rank CL_running = 2"
| "lease_rank CL_streaming = 1"
| "lease_rank _ = 0"

interpretation lease_fsm: ranked_machine lease_edges lease_rank applyLeaseAction
proof
  show "lease_rank t < lease_rank s" if "t \<in> set (lease_edges s)" for s t
    using that by (cases s) (auto simp: lease_edges_def terminal_in_def)
  show "t \<in> set (lease_edges s)" if "applyLeaseAction s a = Inr t" for s a t
    using that by (cases a; cases s) (auto simp: applyLeaseAction_def lease_edges_def terminal_in_def)
qed

fun stage_rank :: "ExecutionStage \<Rightarrow> nat" where
  "stage_rank XS_pending = 6"
| "stage_rank XS_compiling = 5"
| "stage_rank XS_loading = 4"
| "stage_rank XS_prefill = 3"
| "stage_rank XS_decode = 2"
| "stage_rank XS_streaming = 1"
| "stage_rank _ = 0"

lemma stage_accepts: "transitionExecutionStage s a = Inr t \<Longrightarrow> t \<in> set (STAGE_TRANSITIONS s)"
  by (auto simp: transitionExecutionStage_def split: option.splits if_splits)

interpretation stage_fsm: ranked_machine STAGE_TRANSITIONS stage_rank transitionExecutionStage
proof
  show "stage_rank t < stage_rank s" if "t \<in> set (STAGE_TRANSITIONS s)" for s t
    using that by (cases s) auto
qed (rule stage_accepts)

interpretation kv_fsm: matched_machine VALID_KV_TRANSITIONS applyKvAction
proof
  show "t \<in> set (VALID_KV_TRANSITIONS s)" if "applyKvAction s a = Inr t" for s a t
    using that by (auto simp: applyKvAction_def Let_def split: if_splits)
  show "\<exists>a. applyKvAction s a = Inr t" if t: "t \<in> set (VALID_KV_TRANSITIONS s)" for s t
  proof -
    have "t = KN_allocated \<or> (\<exists>a. KV_ACTION_TARGET a = t)"
      by (cases t) (metis KV_ACTION_TARGET.simps)+
    moreover have "t \<noteq> KN_allocated" using t by (cases s) auto
    ultimately obtain a where "KV_ACTION_TARGET a = t" by blast
    with t have "applyKvAction s a = Inr t" by (simp add: applyKvAction_def Let_def)
    then show ?thesis ..
  qed
qed

section \<open>What leases can reach\<close>

lemma lease_stuck_step:
  "s \<in> {CL_draft, CL_requested, CL_rejected, CL_revoked} \<Longrightarrow> applyLeaseAction s a = Inr t \<Longrightarrow>
     t \<in> {CL_draft, CL_requested, CL_rejected, CL_revoked}"
  by (cases a) (auto simp: applyLeaseAction_def split: if_splits)

text \<open>
  No lease can be approved.  The statuses that sequences of lease actions reach from a new lease are
  draft, requested, rejected and revoked, because no action leads to pending approval; the transition
  table on the other hand has a path from a new lease through approval to completion.  Every sequence of
  accepted actions ends after at most seven.
\<close>

theorem lease_never_approved:
  "{t. \<exists>as. run_actions applyLeaseAction (lz_status (createLease now sid req mid gid w m i)) as = Inr t} =
     {CL_draft, CL_requested, CL_rejected, CL_revoked} \<and>
   path_in VALID_LEASE_TRANSITIONS CL_draft
     [CL_requested, CL_pending_approval, CL_approved, CL_admitted, CL_running, CL_completed] \<and>
   {as. \<exists>t. run_actions applyLeaseAction s as = Inr t} \<subseteq> {as. length as \<le> 7}"
proof (intro conjI)
  have start: "lz_status (createLease now sid req mid gid w m i) = CL_draft" by (simp add: createLease_def)
  have "t \<in> {CL_draft, CL_requested, CL_rejected, CL_revoked}" if "run_actions applyLeaseAction CL_draft as = Inr t" for as t
    using lease_fsm.run_invariant [where P = "\<lambda>s. s \<in> {CL_draft, CL_requested, CL_rejected, CL_revoked}", OF _ that]
      lease_stuck_step by blast
  moreover have "\<exists>as. run_actions applyLeaseAction CL_draft as = Inr t"
    if "t \<in> {CL_draft, CL_requested, CL_rejected, CL_revoked}" for t
    using that by (elim insertE emptyE)
      (rule exI [of _ "[]"] exI [of _ "[LA_request]"] exI [of _ "[LA_request, LA_reject]"] exI [of _ "[LA_revoke]"],
       simp add: applyLeaseAction_def)+
  ultimately show "{t. \<exists>as. run_actions applyLeaseAction (lz_status (createLease now sid req mid gid w m i)) as = Inr t} =
     {CL_draft, CL_requested, CL_rejected, CL_revoked}" unfolding start by blast
  have "lease_rank s \<le> 7" by (cases s) simp_all
  then show "{as. \<exists>t. run_actions applyLeaseAction s as = Inr t} \<subseteq> {as. length as \<le> 7}"
    using lease_fsm.run_bounded by fastforce
qed simp

section \<open>Executions\<close>

text \<open>The actions left on the way to completion.\<close>

fun actions_left :: "ExecutionStage \<Rightarrow> string list" where
  "actions_left XS_pending = [''compile'', ''load'', ''prefill'', ''decode'', ''stream'', ''complete'']"
| "actions_left XS_compiling = [''load'', ''prefill'', ''decode'', ''stream'', ''complete'']"
| "actions_left XS_loading = [''prefill'', ''decode'', ''stream'', ''complete'']"
| "actions_left XS_prefill = [''decode'', ''stream'', ''complete'']"
| "actions_left XS_decode = [''stream'', ''complete'']"
| "actions_left XS_streaming = [''complete'']"
| "actions_left _ = []"

lemma stage_step_cases:
  assumes "transitionExecutionStage s a = Inr t"
  shows "t = XS_failed \<or> t = XS_cancelled \<or> actions_left s = a # actions_left t"
proof -
  from assms have m: "map_of ACTION_STAGE_MAP a = Some t" and t: "t \<in> set (STAGE_TRANSITIONS s)"
    by (auto simp: transitionExecutionStage_def split: option.splits if_splits)
  from map_of_SomeD [OF m] t show ?thesis by (cases s) (auto simp: ACTION_STAGE_MAP_def)
qed

lemma stage_completes: "run_actions transitionExecutionStage s as = Inr XS_completed \<Longrightarrow> as = actions_left s"
proof (induction as arbitrary: s)
  case (Cons a as)
  then obtain t where t: "transitionExecutionStage s a = Inr t" "run_actions transitionExecutionStage t as = Inr XS_completed"
    by (auto split: sum.splits)
  have "t \<noteq> XS_failed" "t \<noteq> XS_cancelled"
    using stage_fsm.terminal_run [OF _ t(2)] by (auto simp: terminal_in_def)
  with stage_step_cases [OF t(1)] Cons.IH [OF t(2)] show ?case by simp
qed simp

text \<open>
  An execution completes along one path only.  A run from the first stage ends completed exactly
  when its actions are compile, load, prefill, decode, stream and complete, in this order; and from
  every stage that is not final, one action ends the execution.
\<close>

theorem execution_completes_one_way:
  "(run_actions transitionExecutionStage XS_pending as = Inr XS_completed \<longleftrightarrow>
      as = [''compile'', ''load'', ''prefill'', ''decode'', ''stream'', ''complete'']) \<and>
   (if STAGE_TRANSITIONS s = [] then \<forall>a. \<exists>e. transitionExecutionStage s a = Inl e
    else transitionExecutionStage s ''cancel'' = Inr XS_cancelled)"
proof (intro conjI)
  have "run_actions transitionExecutionStage XS_pending (actions_left XS_pending) = Inr XS_completed"
    by (simp add: transitionExecutionStage_def ACTION_STAGE_MAP_def)
  then show "run_actions transitionExecutionStage XS_pending as = Inr XS_completed \<longleftrightarrow>
      as = [''compile'', ''load'', ''prefill'', ''decode'', ''stream'', ''complete'']"
    using stage_completes [of XS_pending as] by auto
  show "if STAGE_TRANSITIONS s = [] then \<forall>a. \<exists>e. transitionExecutionStage s a = Inl e
    else transitionExecutionStage s ''cancel'' = Inr XS_cancelled"
    using stage_fsm.terminal_rejects [of s]
    by (cases s) (simp_all add: terminal_in_def transitionExecutionStage_def ACTION_STAGE_MAP_def)
qed

section \<open>Budgets\<close>

definition within_limit :: "int option \<Rightarrow> int option \<Rightarrow> bool" where
  "within_limit used limit = (case (used, limit) of (Some u, Some l) \<Rightarrow> u \<le> l | _ \<Rightarrow> True)"

lemma over_limit_Nil [simp]: "over_limit label u l = [] \<longleftrightarrow> within_limit u l"
  by (auto simp: over_limit_def within_limit_def split: option.splits)

lemma tighten_min: "tighten r l = min r l"
  by (simp add: tighten_def)

text \<open>
  The effective budget of a lease is the pointwise minimum.  Every limit is the smaller of what the
  host allows (its override, or the default) and what the lease asks for, and the compile time the
  smaller of host and policy: neither a lease nor a policy can raise a limit of the host.  Usage within
  the limits has no violation, and every violated limit is reported.
\<close>

theorem effective_budget_minimum:
  "let b = computeEffectiveBudget lease policy host in
    bu_maximumRuntimeSeconds b = min (lz_requestedMaxRuntimeSeconds lease) (nullish (hb_maximumRuntimeSeconds host) 300) \<and>
    bu_maximumMemoryBytes b = min (lz_requestedMaxMemoryBytes lease) (nullish (hb_maximumMemoryBytes host) 2147483648) \<and>
    bu_maximumOutputBytes b = min (lz_requestedMaxOutputBytes lease) (nullish (hb_maximumOutputBytes host) 1048576) \<and>
    bu_maximumCompileTimeMs b = min (cg_maxCompileTimeMs policy) (nullish (hb_maximumCompileTimeMs host) 60000) \<and>
    bu_maximumTokens b = (case lz_requestedMaxTokens lease of None \<Rightarrow> nullish (hb_maximumTokens host) 8192
      | Some r \<Rightarrow> min r (nullish (hb_maximumTokens host) 8192)) \<and>
    bu_maximumGpuTimeMs b = (case (lz_requestedMaxGpuTimeMs lease, hb_maximumGpuTimeMs host) of
        (None, h) \<Rightarrow> h | (Some r, None) \<Rightarrow> Some r | (Some r, Some h) \<Rightarrow> Some (min r h)) \<and>
    fst (checkBudget b u) = (\<not> (within_limit (ug_runtimeMs u) (Some (bu_maximumRuntimeSeconds b * 1000)) \<and>
      within_limit (ug_tokens u) (Some (bu_maximumTokens b)) \<and>
      within_limit (ug_inputTokens u) (Some (bu_maximumInputTokens b)) \<and>
      within_limit (ug_outputTokens u) (Some (bu_maximumOutputTokens b)) \<and>
      within_limit (ug_memoryBytes u) (Some (bu_maximumMemoryBytes b)) \<and>
      within_limit (ug_gpuTimeMs u) (bu_maximumGpuTimeMs b) \<and>
      within_limit (ug_outputBytes u) (Some (bu_maximumOutputBytes b)))) \<and>
    fst (checkBudget b u) = (snd (checkBudget b u) \<noteq> [])"
proof -
  define b where "b = computeEffectiveBudget lease policy host"
  have gpu: "bu_maximumGpuTimeMs b = (case (lz_requestedMaxGpuTimeMs lease, hb_maximumGpuTimeMs host) of
        (None, h) \<Rightarrow> h | (Some r, None) \<Rightarrow> Some r | (Some r, Some h) \<Rightarrow> Some (min r h))"
    by (cases "lz_requestedMaxGpuTimeMs lease"; cases "hb_maximumGpuTimeMs host")
       (simp_all add: b_def computeEffectiveBudget_def getDefaultComputeBudget_def Let_def tighten_min)
  have tokens: "bu_maximumTokens b = (case lz_requestedMaxTokens lease of None \<Rightarrow> nullish (hb_maximumTokens host) 8192
      | Some r \<Rightarrow> min r (nullish (hb_maximumTokens host) 8192))"
    by (cases "lz_requestedMaxTokens lease")
       (simp_all add: b_def computeEffectiveBudget_def getDefaultComputeBudget_def Let_def tighten_min)
  have check: "fst (checkBudget b u) = (snd (checkBudget b u) \<noteq> [])" by (simp add: checkBudget_def Let_def)
  have limits: "fst (checkBudget b u) = (\<not> (within_limit (ug_runtimeMs u) (Some (bu_maximumRuntimeSeconds b * 1000)) \<and>
      within_limit (ug_tokens u) (Some (bu_maximumTokens b)) \<and>
      within_limit (ug_inputTokens u) (Some (bu_maximumInputTokens b)) \<and>
      within_limit (ug_outputTokens u) (Some (bu_maximumOutputTokens b)) \<and>
      within_limit (ug_memoryBytes u) (Some (bu_maximumMemoryBytes b)) \<and>
      within_limit (ug_gpuTimeMs u) (bu_maximumGpuTimeMs b) \<and>
      within_limit (ug_outputBytes u) (Some (bu_maximumOutputBytes b))))"
    by (simp add: checkBudget_def Let_def)
  show ?thesis
    unfolding Let_def b_def [symmetric]
    by (intro conjI gpu tokens limits check)
       (simp_all add: b_def computeEffectiveBudget_def getDefaultComputeBudget_def Let_def tighten_min)
qed

section \<open>Receipts\<close>

lemma length_absHexDigest [simp]: "length (absHexDigest s) = 8"
proof -
  have "\<bar>sint (string_hash s)\<bar> \<le> 2147483648"
    using sint_greater_eq [of "string_hash s"] sint_less [of "string_hash s"] by simp
  then have "nat \<bar>sint (string_hash s)\<bar> \<le> 2147483648" by simp
  then have "nat \<bar>sint (string_hash s)\<bar> < 16 ^ 8" by (rule le_less_trans) simp
  then have "length (show_hex (nat \<bar>sint (string_hash s)\<bar>)) \<le> 8" by (intro length_show_hex) simp_all
  then show ?thesis by (simp add: absHexDigest_def padStart_def)
qed

text \<open>
  What the signature of a usage receipt binds.  It is eight hexadecimal digits that depend only on
  the execution, the lease and session, the input and output digests, the token counts, the durations
  and the outcome; receipts that differ in the containment profile, the compute image, the target, the
  model artifact, the actor, the memory peak or the cache status carry the same signature.
\<close>

theorem receipt_signature_binds:
  "length (ux_signature (createUsageReceipt now c)) = 8 \<and>
   ux_signature (createUsageReceipt now' (c\<lparr>uy_containmentProfileDigest := p, uy_computeImageDigest := d,
      uy_targetSignature := t, uy_peakMemoryBytes := m, uy_cacheHit := h,
      uy_lease := (uy_lease c)\<lparr>lz_modelArtifactDigest := a, lz_requesterIdentityPublicKey := k\<rparr>\<rparr>)) =
   ux_signature (createUsageReceipt now c)"
  by (simp add: createUsageReceipt_def receiptContent_def Let_def)

end
