(* ===== verification/Dharma_Compute_Service.thy ===== *)
theory Dharma_Compute_Service imports Dharma_Compute Js_Map Js_Text begin

text \<open>
  The in-memory compute service, \<open>ComputeApi\<close> of \<open>dharma/compute/compute-api.ts\<close>: its maps are the
  state, its methods one definition each, its runs the reachable states of a step relation.  The
  private setters of receipts and KV summaries have no caller; the generator \<open>streamLocalPrism\<close> is the
  step up to its only yield.
\<close>

section \<open>State\<close>

record KvSummary =
  ky_namespaceCount :: int
  ky_activeNamespaces :: int
  ky_totalHits :: "int option"

record ComputeApi =
  ca_artifacts :: "(string \<times> PrismArtifactAdmission) list"
  ca_leases :: "(string \<times> LocalPrismComputeLease) list"
  ca_policies :: "(string \<times> ComputeImagePolicy) list"
  ca_executionStatuses :: "(string \<times> string) list"
  ca_usageReceipts :: "(string \<times> PrismUsageReceipt) list"
  ca_kvSummaries :: "(string \<times> KvSummary) list"

definition new_compute :: ComputeApi where
  "new_compute = \<lparr>ca_artifacts = [], ca_leases = [], ca_policies = [], ca_executionStatuses = [],
     ca_usageReceipts = [], ca_kvSummaries = []\<rparr>"

text \<open>\<open>Partial<LocalPrismComputeLease>\<close> and \<open>Partial<ComputeImagePolicy>\<close>.\<close>

record LeaseRequest =
  lx_leaseId :: "string option"
  lx_sessionId :: "string option"
  lx_taskId :: "string option"
  lx_requesterIdentityPublicKey :: "string option"
  lx_requesterMembershipId :: "string option"
  lx_approvingIdentityPublicKey :: "string option"
  lx_grantId :: "string option"
  lx_sessionKeyEpoch :: "int option"
  lx_backendKind :: "PrismBackendKind option"
  lx_workloadClass :: "ComputeWorkloadClass option"
  lx_modelArtifactDigest :: "string option"
  lx_computeImagePolicyDigest :: "string option"
  lx_inputDisclosureClass :: "InputDisclosureClass option"
  lx_inputDigest :: "string option"
  lx_inputReference :: "string option"
  lx_outputDisclosureClass :: "OutputDisclosureClass option"
  lx_requestedMaxTokens :: "int option"
  lx_requestedMaxRuntimeSeconds :: "int option"
  lx_requestedMaxMemoryBytes :: "int option"
  lx_requestedMaxOutputBytes :: "int option"
  lx_requestedMaxGpuTimeMs :: "int option"
  lx_requiredContainmentLevel :: "string option"
  lx_approvalPolicy :: "string option"
  lx_status :: "PrismLeaseStatus option"
  lx_issuedAt :: "string option"
  lx_expiresAt :: "string option"
  lx_revokedAt :: "string option"
  lx_cancellationReason :: "string option"
  lx_signatureChain :: "string option"

record PolicyPatch =
  cz_policyDigest :: "string option"
  cz_allowedTargets :: "string list option"
  cz_requiredDeterminismClass :: "string option"
  cz_allowedPrecisionModes :: "string list option"
  cz_allowedMemoryTiers :: "string list option"
  cz_maxCompileTimeMs :: "int option"
  cz_maxModelLoadTimeMs :: "int option"
  cz_allowCacheReuse :: "bool option"
  cz_allowCompiledArtifactReuse :: "bool option"
  cz_requireArtifactSealing :: "bool option"
  cz_requireExecutionReceipts :: "bool option"

section \<open>Operations\<close>

definition listLocalArtifacts :: "ComputeApi \<Rightarrow> PrismArtifactAdmission list" where
  "listLocalArtifacts api = map_values (ca_artifacts api)"

definition inspectLocalArtifact :: "ComputeApi \<Rightarrow> string \<Rightarrow> PrismArtifactAdmission option" where
  "inspectLocalArtifact api digest = map_get (ca_artifacts api) digest"

definition getLocalCapabilities :: "ComputeApi \<Rightarrow> bool \<times> string list \<times> string list" where
  "getLocalCapabilities api =
     (length (ca_artifacts api) > 0,
      js_unique (concat (List.map af_supportedComputeTargets (map_values (ca_artifacts api)))),
      js_unique (concat (List.map (\<lambda>a. List.map ComputeWorkloadClass_str (af_supportedWorkloadClasses a))
        (map_values (ca_artifacts api)))))"

definition requestLocalLease ::
    "string \<Rightarrow> string \<Rightarrow> LeaseRequest \<Rightarrow> ComputeApi \<Rightarrow> ComputeApi \<times> LocalPrismComputeLease" where
  "requestLocalLease now uuid config api =
     (let lease = \<lparr>lz_leaseId = nullish (lx_leaseId config) uuid,
            lz_sessionId = nullish (lx_sessionId config) [],
            lz_taskId = lx_taskId config,
            lz_requesterIdentityPublicKey = nullish (lx_requesterIdentityPublicKey config) [],
            lz_requesterMembershipId = nullish (lx_requesterMembershipId config) [],
            lz_approvingIdentityPublicKey = lx_approvingIdentityPublicKey config,
            lz_grantId = nullish (lx_grantId config) [],
            lz_sessionKeyEpoch = nullish (lx_sessionKeyEpoch config) 0,
            lz_backendKind = nullish (lx_backendKind config) BX_prism_local,
            lz_workloadClass = nullish (lx_workloadClass config) CW_chat_completion,
            lz_modelArtifactDigest = nullish (lx_modelArtifactDigest config) [],
            lz_computeImagePolicyDigest = nullish (lx_computeImagePolicyDigest config) [],
            lz_inputDisclosureClass = nullish (lx_inputDisclosureClass config) DI_local_private,
            lz_inputDigest = nullish (lx_inputDigest config) [],
            lz_inputReference = lx_inputReference config,
            lz_outputDisclosureClass = nullish (lx_outputDisclosureClass config) DO_local_private,
            lz_requestedMaxTokens = lx_requestedMaxTokens config,
            lz_requestedMaxRuntimeSeconds = nullish (lx_requestedMaxRuntimeSeconds config) 60,
            lz_requestedMaxMemoryBytes = nullish (lx_requestedMaxMemoryBytes config) 536870912,
            lz_requestedMaxOutputBytes = nullish (lx_requestedMaxOutputBytes config) 1048576,
            lz_requestedMaxGpuTimeMs = lx_requestedMaxGpuTimeMs config,
            lz_requiredContainmentLevel = nullish (lx_requiredContainmentLevel config) ''contained'',
            lz_approvalPolicy = nullish (lx_approvalPolicy config) [],
            lz_status = nullish (lx_status config) CL_draft,
            lz_issuedAt = nullish (lx_issuedAt config) now,
            lz_expiresAt = lx_expiresAt config,
            lz_revokedAt = lx_revokedAt config,
            lz_cancellationReason = lx_cancellationReason config,
            lz_signatureChain = nullish (lx_signatureChain config) []\<rparr>
      in (api\<lparr>ca_leases := map_set (lz_leaseId lease) lease (ca_leases api)\<rparr>, lease))"

text \<open>A \<open>LeaseError\<close> when the lease is unknown, otherwise the stored lease is replaced.\<close>

definition with_lease ::
    "string \<Rightarrow> (LocalPrismComputeLease \<Rightarrow> LocalPrismComputeLease) \<Rightarrow> ComputeApi \<Rightarrow> ComputeApi result" where
  "with_lease leaseId f api =
     (case map_get (ca_leases api) leaseId of
        None \<Rightarrow> Inl (''Lease not found: '' @ leaseId)
      | Some lease \<Rightarrow> Inr (api\<lparr>ca_leases := map_set leaseId (f lease) (ca_leases api)\<rparr>))"

definition approveLocalLease :: "string \<Rightarrow> ComputeApi \<Rightarrow> ComputeApi result" where
  "approveLocalLease leaseId = with_lease leaseId (\<lambda>l. l\<lparr>lz_status := CL_approved\<rparr>)"

definition rejectLocalLease :: "string \<Rightarrow> ComputeApi \<Rightarrow> ComputeApi result" where
  "rejectLocalLease leaseId = with_lease leaseId (\<lambda>l. l\<lparr>lz_status := CL_rejected\<rparr>)"

definition cancelLocalLease :: "string \<Rightarrow> ComputeApi \<Rightarrow> ComputeApi result" where
  "cancelLocalLease leaseId =
     with_lease leaseId (\<lambda>l. l\<lparr>lz_status := CL_cancelled, lz_cancellationReason := Some ''user_cancelled''\<rparr>)"

definition getLease :: "ComputeApi \<Rightarrow> string \<Rightarrow> LocalPrismComputeLease option" where
  "getLease api leaseId = map_get (ca_leases api) leaseId"

definition listLeases :: "ComputeApi \<Rightarrow> string option \<Rightarrow> LocalPrismComputeLease list" where
  "listLeases api sessionId =
     (let all = map_values (ca_leases api)
      in case sessionId of
           Some s \<Rightarrow> if truthy s then List.filter (\<lambda>l. lz_sessionId l = s) all else all
         | None \<Rightarrow> all)"

definition run_lease :: "string \<Rightarrow> PrismLeaseStatus \<Rightarrow> string \<Rightarrow> ComputeApi \<Rightarrow> ComputeApi result" where
  "run_lease verb status leaseId api =
     (case map_get (ca_leases api) leaseId of
        None \<Rightarrow> Inl (''Lease not found: '' @ leaseId)
      | Some lease \<Rightarrow>
          if lz_status lease \<noteq> CL_approved \<and> lz_status lease \<noteq> CL_admitted
          then Inl (''Cannot '' @ verb @ '' lease '' @ leaseId @ '' in status '' @ quoted (PrismLeaseStatus_str (lz_status lease)))
          else Inr (api\<lparr>ca_leases := map_set leaseId (lease\<lparr>lz_status := status\<rparr>) (ca_leases api),
            ca_executionStatuses := map_set leaseId (PrismLeaseStatus_str status) (ca_executionStatuses api)\<rparr>))"

definition executeLocalPrism :: "string \<Rightarrow> string \<Rightarrow> ComputeApi \<Rightarrow> (ComputeApi \<times> string) result" where
  "executeLocalPrism uuid leaseId api =
     (case run_lease ''execute'' CL_running leaseId api of Inl e \<Rightarrow> Inl e | Inr api' \<Rightarrow> Inr (api', uuid))"

definition streamLocalPrism :: "string \<Rightarrow> ComputeApi \<Rightarrow> (ComputeApi \<times> string) result" where
  "streamLocalPrism leaseId api =
     (case run_lease ''stream'' CL_streaming leaseId api of
        Inl e \<Rightarrow> Inl e
      | Inr api' \<Rightarrow> Inr (api', ''lease:'' @ leaseId @ '':stream:start''))"

definition getExecutionStatus :: "ComputeApi \<Rightarrow> string \<Rightarrow> string option" where
  "getExecutionStatus api leaseId =
     (case map_get (ca_leases api) leaseId of
        None \<Rightarrow> None
      | Some lease \<Rightarrow> Some (nullish (map_get (ca_executionStatuses api) leaseId) (PrismLeaseStatus_str (lz_status lease))))"

definition getUsageReceipt :: "ComputeApi \<Rightarrow> string \<Rightarrow> PrismUsageReceipt option" where
  "getUsageReceipt api leaseId = map_get (ca_usageReceipts api) leaseId"

definition setSessionComputePolicy :: "string \<Rightarrow> string \<Rightarrow> PolicyPatch \<Rightarrow> ComputeApi \<Rightarrow> ComputeApi" where
  "setSessionComputePolicy uuid sessionId policy api =
     (let existing = map_get (ca_policies api) sessionId;
          merged = \<lparr>cg_policyDigest = nullish (map_option cg_policyDigest existing) (nullish (cz_policyDigest policy) uuid),
            cg_allowedTargets = nullish (cz_allowedTargets policy) (nullish (map_option cg_allowedTargets existing) []),
            cg_requiredDeterminismClass = nullish (cz_requiredDeterminismClass policy) (nullish (map_option cg_requiredDeterminismClass existing) []),
            cg_allowedPrecisionModes = nullish (cz_allowedPrecisionModes policy) (nullish (map_option cg_allowedPrecisionModes existing) []),
            cg_allowedMemoryTiers = nullish (cz_allowedMemoryTiers policy) (nullish (map_option cg_allowedMemoryTiers existing) []),
            cg_maxCompileTimeMs = nullish (cz_maxCompileTimeMs policy) (nullish (map_option cg_maxCompileTimeMs existing) 30000),
            cg_maxModelLoadTimeMs = nullish (cz_maxModelLoadTimeMs policy) (nullish (map_option cg_maxModelLoadTimeMs existing) 30000),
            cg_allowCacheReuse = nullish (cz_allowCacheReuse policy) (nullish (map_option cg_allowCacheReuse existing) True),
            cg_allowCompiledArtifactReuse = nullish (cz_allowCompiledArtifactReuse policy) (nullish (map_option cg_allowCompiledArtifactReuse existing) True),
            cg_requireArtifactSealing = nullish (cz_requireArtifactSealing policy) (nullish (map_option cg_requireArtifactSealing existing) True),
            cg_requireExecutionReceipts = nullish (cz_requireExecutionReceipts policy) (nullish (map_option cg_requireExecutionReceipts existing) True)\<rparr>
      in api\<lparr>ca_policies := map_set sessionId merged (ca_policies api)\<rparr>)"

definition getSessionComputePolicy :: "ComputeApi \<Rightarrow> string \<Rightarrow> ComputeImagePolicy option" where
  "getSessionComputePolicy api sessionId = map_get (ca_policies api) sessionId"

definition getKvSummary :: "ComputeApi \<Rightarrow> string \<Rightarrow> KvSummary" where
  "getKvSummary api leaseId =
     nullish (map_get (ca_kvSummaries api) leaseId)
       \<lparr>ky_namespaceCount = 0, ky_activeNamespaces = 0, ky_totalHits = None\<rparr>"

definition invalidateLeaseKv :: "string \<Rightarrow> ComputeApi \<Rightarrow> ComputeApi" where
  "invalidateLeaseKv leaseId api = api\<lparr>ca_kvSummaries := map_delete leaseId (ca_kvSummaries api)\<rparr>"

definition recoverPendingLeases :: "ComputeApi \<Rightarrow> string list" where
  "recoverPendingLeases api =
     List.map fst (List.filter (\<lambda>(leaseId, lease). lz_status lease \<in>
       {CL_running, CL_streaming, CL_draft, CL_requested, CL_pending_approval}) (ca_leases api))"

section \<open>Runs\<close>

inductive compute_step :: "ComputeApi \<Rightarrow> ComputeApi \<Rightarrow> bool" where
  cs_request: "compute_step api (fst (requestLocalLease now uuid config api))"
| cs_approve: "approveLocalLease l api = Inr api' \<Longrightarrow> compute_step api api'"
| cs_reject: "rejectLocalLease l api = Inr api' \<Longrightarrow> compute_step api api'"
| cs_cancel: "cancelLocalLease l api = Inr api' \<Longrightarrow> compute_step api api'"
| cs_execute: "executeLocalPrism uuid l api = Inr (api', x) \<Longrightarrow> compute_step api api'"
| cs_stream: "streamLocalPrism l api = Inr (api', x) \<Longrightarrow> compute_step api api'"
| cs_policy: "compute_step api (setSessionComputePolicy uuid sid patch api)"
| cs_invalidate: "compute_step api (invalidateLeaseKv l api)"

abbreviation compute_reach :: "ComputeApi \<Rightarrow> bool" where
  "compute_reach \<equiv> compute_step\<^sup>*\<^sup>* new_compute"

lemmas compute_ops = requestLocalLease_def approveLocalLease_def rejectLocalLease_def cancelLocalLease_def
  executeLocalPrism_def streamLocalPrism_def run_lease_def with_lease_def setSessionComputePolicy_def
  invalidateLeaseKv_def

text \<open>
  Leases are filed under their identifier; artifacts, receipts and KV summaries are never recorded.
\<close>

definition compute_ok :: "ComputeApi \<Rightarrow> bool" where
  "compute_ok api \<longleftrightarrow> map_inv (ca_leases api) \<and>
     (\<forall>i l. map_get (ca_leases api) i = Some l \<longrightarrow> lz_leaseId l = i) \<and>
     ca_artifacts api = [] \<and> ca_usageReceipts api = [] \<and> ca_kvSummaries api = []"

lemma compute_ok_step: "compute_step api api' \<Longrightarrow> compute_ok api \<Longrightarrow> compute_ok api'"
proof (induction rule: compute_step.induct)
  case (cs_invalidate api l)
  then show ?case by (simp add: compute_ok_def invalidateLeaseKv_def map_delete_def)
qed (auto simp: compute_ok_def compute_ops Let_def split: option.splits if_splits sum.splits)

lemma compute_ok_reach: "compute_reach api \<Longrightarrow> compute_ok api"
proof (induction rule: rtranclp_induct)
  case base
  show ?case by (simp add: compute_ok_def new_compute_def)
qed (rule compute_ok_step)

text \<open>
  The compute service does not follow the lease machine.  In every reachable state, a lease of any
  status, also a rejected, cancelled, completed or revoked one, can be approved and then executed, after
  which it is running; cancelling it then leaves its execution status at running; and the service never
  offers an artifact, a receipt or any capability.
\<close>

theorem compute_service_revives_leases:
  assumes "compute_reach api" and "getLease api i = Some l"
  shows "(\<exists>a b c. approveLocalLease i api = Inr a \<and> executeLocalPrism u i a = Inr (b, u) \<and>
      map_option lz_status (getLease b i) = Some CL_running \<and> cancelLocalLease i b = Inr c \<and>
      map_option lz_status (getLease c i) = Some CL_cancelled \<and> getExecutionStatus c i = Some ''running'') \<and>
    getLocalCapabilities api = (False, [], []) \<and> getUsageReceipt api j = None \<and> lz_leaseId l = i"
proof -
  from compute_ok_reach [OF assms(1)] assms(2) have
    "getLocalCapabilities api = (False, [], []) \<and> getUsageReceipt api j = None \<and> lz_leaseId l = i"
    by (simp add: compute_ok_def getLocalCapabilities_def getUsageReceipt_def getLease_def map_values_def
        js_unique_def)
  moreover have "\<exists>a b c. approveLocalLease i api = Inr a \<and> executeLocalPrism u i a = Inr (b, u) \<and>
      map_option lz_status (getLease b i) = Some CL_running \<and> cancelLocalLease i b = Inr c \<and>
      map_option lz_status (getLease c i) = Some CL_cancelled \<and> getExecutionStatus c i = Some ''running''"
    using assms(2) by (simp add: getLease_def compute_ops getExecutionStatus_def)
  ultimately show ?thesis by blast
qed

definition sample_lease_request :: LeaseRequest where
  "sample_lease_request =
     \<lparr>lx_leaseId = Some ''l'',
      lx_sessionId = None,
      lx_taskId = None,
      lx_requesterIdentityPublicKey = None,
      lx_requesterMembershipId = None,
      lx_approvingIdentityPublicKey = None,
      lx_grantId = None,
      lx_sessionKeyEpoch = None,
      lx_backendKind = None,
      lx_workloadClass = None,
      lx_modelArtifactDigest = None,
      lx_computeImagePolicyDigest = None,
      lx_inputDisclosureClass = None,
      lx_inputDigest = None,
      lx_inputReference = None,
      lx_outputDisclosureClass = None,
      lx_requestedMaxTokens = None,
      lx_requestedMaxRuntimeSeconds = None,
      lx_requestedMaxMemoryBytes = None,
      lx_requestedMaxOutputBytes = None,
      lx_requestedMaxGpuTimeMs = None,
      lx_requiredContainmentLevel = None,
      lx_approvalPolicy = None,
      lx_status = Some CL_completed,
      lx_issuedAt = None,
      lx_expiresAt = None,
      lx_revokedAt = None,
      lx_cancellationReason = None,
      lx_signatureChain = None\<rparr>"

theorem compute_service_revives_leases_witness:
  "(\<exists>api l. compute_reach api \<and> getLease api ''l'' = Some l \<and> lz_status l = CL_completed \<and>
     (\<exists>a b. approveLocalLease ''l'' api = Inr a \<and> executeLocalPrism ''u'' ''l'' a = Inr (b, ''u'') \<and>
        map_option lz_status (getLease b ''l'') = Some CL_running))"
proof -
  define api where "api = fst (requestLocalLease ''t'' ''u'' sample_lease_request new_compute)"
  have r: "compute_reach api" unfolding api_def by (rule r_into_rtranclp) (rule cs_request)
  obtain l where l: "getLease api ''l'' = Some l" "lz_status l = CL_completed"
    by (simp add: api_def requestLocalLease_def sample_lease_request_def getLease_def Let_def)
  from compute_service_revives_leases [OF r l(1), of "''u''" "''j''"] r l show ?thesis by blast
qed

end
