(* ===== verification/Dharma_Convergence.thy ===== *)
theory Dharma_Convergence imports Transition_Systems Js_Runtime Js_Text Js_Map begin

text \<open>
  Convergence of the results of several peers in a Dharma session, \<open>dharma/session/multi-peer\<close>: task
  contracts (\<open>multi-peer-tasks.ts\<close>), claims (\<open>multi-peer-claims.ts\<close>), validation of result bundles
  (\<open>multi-peer-validation.ts\<close>), source packages (\<open>multi-peer-source.ts\<close>), artifact access
  (\<open>multi-peer-artifact.ts\<close>), conflicts (\<open>multi-peer-conflict.ts\<close>) and the chain of canonical outcomes
  (\<open>multi-peer-outcome.ts\<close>).  The loop that follows the chain may run forever, so it is a partial
  function whose value is \<open>None\<close> then.  The clock and the random identifiers are arguments; times are
  the texts of the sources, and expiry times are compared as dates.
\<close>

section \<open>Data\<close>

datatype TaskKind =
  TK_bug_fix | TK_feature_implementation | TK_code_review | TK_test_authoring | TK_benchmark |
  TK_documentation | TK_refactor | TK_investigation | TK_reproduction |
  TK_performance_analysis | TK_security_review

datatype TaskParallelism =
  TP_exclusive | TP_parallel_non_overlapping | TP_parallel_competing | TP_review_only

text \<open>\<open>ExtendedTaskStatus\<close>: the task statuses and those of conflict resolution.\<close>

datatype TaskStatus =
  TT_draft | TT_published | TT_available | TT_claimed | TT_in_progress | TT_result_submitted |
  TT_accepted | TT_completed | TT_cancelled | TT_conflicted | TT_released | TT_expired |
  TT_resolved | TT_rejected | TT_rebase_requested | TT_superseded

fun TaskStatus_str :: "TaskStatus \<Rightarrow> string" where
  "TaskStatus_str TT_draft = ''draft''"
| "TaskStatus_str TT_published = ''published''"
| "TaskStatus_str TT_available = ''available''"
| "TaskStatus_str TT_claimed = ''claimed''"
| "TaskStatus_str TT_in_progress = ''in_progress''"
| "TaskStatus_str TT_result_submitted = ''result_submitted''"
| "TaskStatus_str TT_accepted = ''accepted''"
| "TaskStatus_str TT_completed = ''completed''"
| "TaskStatus_str TT_cancelled = ''cancelled''"
| "TaskStatus_str TT_conflicted = ''conflicted''"
| "TaskStatus_str TT_released = ''released''"
| "TaskStatus_str TT_expired = ''expired''"
| "TaskStatus_str TT_resolved = ''resolved''"
| "TaskStatus_str TT_rejected = ''rejected''"
| "TaskStatus_str TT_rebase_requested = ''rebase_requested''"
| "TaskStatus_str TT_superseded = ''superseded''"

datatype AcceptancePolicyLevel =
  AL_attested | AL_reviewed | AL_reproduced | AL_corroborated

fun AcceptancePolicyLevel_str :: "AcceptancePolicyLevel \<Rightarrow> string" where
  "AcceptancePolicyLevel_str AL_attested = ''attested''"
| "AcceptancePolicyLevel_str AL_reviewed = ''reviewed''"
| "AcceptancePolicyLevel_str AL_reproduced = ''reproduced''"
| "AcceptancePolicyLevel_str AL_corroborated = ''corroborated''"

record DharmaTaskContract =
  tk_taskId :: string
  tk_sessionId :: string
  tk_createdByIdentityPublicKey :: string
  tk_title :: string
  tk_summary :: string
  tk_taskKind :: TaskKind
  tk_parallelism :: TaskParallelism
  tk_sourceBasisDigest :: string
  tk_sourceDisclosurePackageId :: "string option"
  tk_allowedPathScopes :: "string list"
  tk_deniedPathScopes :: "string list"
  tk_expectedArtifactClasses :: "string list"
  tk_verificationContract :: string
  tk_acceptancePolicy :: AcceptancePolicyLevel
  tk_requiredCapabilities :: "string list"
  tk_assignedMembershipIds :: "string list"
  tk_maxContributors :: int
  tk_maxResultBundles :: int
  tk_claimDeadline :: "string option"
  tk_completionDeadline :: "string option"
  tk_status :: TaskStatus
  tk_createdAt :: string
  tk_updatedAt :: string
  tk_signature :: string

datatype ClaimStatus =
  CT_available | CT_claimed | CT_in_progress | CT_result_submitted | CT_completed |
  CT_released | CT_expired | CT_abandoned | CT_accepted | CT_rejected | CT_conflicted |
  CT_superseded

fun ClaimStatus_str :: "ClaimStatus \<Rightarrow> string" where
  "ClaimStatus_str CT_available = ''available''"
| "ClaimStatus_str CT_claimed = ''claimed''"
| "ClaimStatus_str CT_in_progress = ''in_progress''"
| "ClaimStatus_str CT_result_submitted = ''result_submitted''"
| "ClaimStatus_str CT_completed = ''completed''"
| "ClaimStatus_str CT_released = ''released''"
| "ClaimStatus_str CT_expired = ''expired''"
| "ClaimStatus_str CT_abandoned = ''abandoned''"
| "ClaimStatus_str CT_accepted = ''accepted''"
| "ClaimStatus_str CT_rejected = ''rejected''"
| "ClaimStatus_str CT_conflicted = ''conflicted''"
| "ClaimStatus_str CT_superseded = ''superseded''"

record DharmaTaskClaim =
  kl_claimId :: string
  kl_taskId :: string
  kl_sessionId :: string
  kl_claimantIdentityPublicKey :: string
  kl_claimantMembershipId :: string
  kl_claimedSourceBasisDigest :: string
  kl_localSandboxAttestationDigest :: string
  kl_claimedAt :: string
  kl_expiresAt :: "string option"
  kl_status :: ClaimStatus
  kl_signature :: string

datatype DisclosureClass =
  DX_full_snapshot | DX_subtree_snapshot | DX_task_fixture_bundle | DX_patch_context_only |
  DX_generated_reproduction_bundle | DX_opaque_artifact_reference

record SourceDisclosurePackage =
  sp_packageId :: string
  sp_sessionId :: string
  sp_sourceBasisDigest :: string
  sp_disclosureClass :: DisclosureClass
  sp_sourceScope :: string
  sp_packageManifestDigest :: string
  sp_encryptedPayloadReference :: "string option"
  sp_artifactReferences :: "string list"
  sp_createdByIdentityPublicKey :: string
  sp_intendedMembershipIds :: "string list"
  sp_expiresAt :: "timestamp option"
  sp_signature :: string

record SessionResultBundle =
  rb_resultId :: string
  rb_sessionId :: string
  rb_taskId :: string
  rb_actorIdentityPublicKey :: string
  rb_actorMembershipId :: string
  rb_claimId :: string
  rb_sourceBasisDigest :: string
  rb_sourceDisclosurePackageId :: string
  rb_environmentDigest :: string
  rb_containmentProfileDigest :: string
  rb_localSandboxAttestation :: string
  rb_patchDigest :: "string option"
  rb_changedPathDigests :: "string list"
  rb_artifactDigests :: "string list"
  rb_testReceiptDigests :: "string list"
  rb_benchmarkReceiptDigests :: "string list"
  rb_verificationSummary :: string
  rb_finalLocalWorkspaceDigest :: string
  rb_disclosureClass :: DisclosureClass
  rb_createdAt :: string
  rb_signature :: string

datatype ResultValidationState =
  RV_received | RV_verified | RV_pending_artifact | RV_pending_verification |
  RV_ready_for_review | RV_accepted | RV_rejected | RV_conflicted | RV_superseded

record ResultValidation =
  rv_resultId :: string
  rv_validationState :: ResultValidationState
  rv_validationReason :: "string option"
  rv_policyDigest :: "string option"
  rv_validatorVersion :: int
  rv_validatedAt :: string

record CanonicalSessionOutcome =
  oc_outcomeId :: string
  oc_sessionId :: string
  oc_acceptedResultId :: string
  oc_acceptedByIdentityPublicKey :: string
  oc_parentOutcomeDigest :: "string option"
  oc_sourceBasisDigest :: string
  oc_canonicalOutcomeDigest :: string
  oc_changedPathDigests :: "string list"
  oc_verificationStatus :: string
  oc_acceptanceReason :: "string option"
  oc_acceptedAt :: string
  oc_signature :: string

datatype ConflictKind =
  CF_stale_source_basis | CF_path_overlap | CF_hunk_overlap | CF_artifact_collision |
  CF_verification_divergence | CF_policy_incompatibility | CF_duplicate_result |
  CF_task_claim_violation

datatype ConflictResolutionState =
  CR_open | CR_rebase_requested | CR_manual_merge_requested | CR_superseded | CR_rejected |
  CR_resolved

fun ConflictResolutionState_str :: "ConflictResolutionState \<Rightarrow> string" where
  "ConflictResolutionState_str CR_open = ''open''"
| "ConflictResolutionState_str CR_rebase_requested = ''rebase_requested''"
| "ConflictResolutionState_str CR_manual_merge_requested = ''manual_merge_requested''"
| "ConflictResolutionState_str CR_superseded = ''superseded''"
| "ConflictResolutionState_str CR_rejected = ''rejected''"
| "ConflictResolutionState_str CR_resolved = ''resolved''"

record SessionResultConflict =
  cn_conflictId :: string
  cn_sessionId :: string
  cn_taskId :: string
  cn_proposedResultId :: string
  cn_conflictingResultId :: "string option"
  cn_conflictKind :: ConflictKind
  cn_baseDigest :: string
  cn_currentCanonicalDigest :: string
  cn_overlappingPaths :: "string list"
  cn_detectedAt :: string
  cn_resolutionState :: ConflictResolutionState
  cn_resolutionResultId :: "string option"
  cn_resolvedByIdentityPublicKey :: "string option"
  cn_resolvedAt :: "string option"

record ArtifactAccessRequest =
  ar_requestId :: string
  ar_sessionId :: string
  ar_artifactDigest :: string
  ar_requesterMembershipId :: string
  ar_requestedPurpose :: string
  ar_requestedAt :: string
  ar_signature :: string

record ArtifactAccessDecision =
  ac_requestId :: string
  ac_granted :: bool
  ac_allowedScope :: string
  ac_expiresAt :: "timestamp option"
  ac_artifactDeliveryReference :: "string option"
  ac_decidedByIdentityPublicKey :: string
  ac_signature :: string

section \<open>Tasks\<close>

datatype TaskAction =
  TA_publish | TA_make_available | TA_claim | TA_start | TA_submit_result | TA_accept |
  TA_complete | TA_cancel | TA_release | TA_expire | TA_reject | TA_conflict | TA_rebase |
  TA_resolve | TA_supersede

fun TaskAction_str :: "TaskAction \<Rightarrow> string" where
  "TaskAction_str TA_publish = ''publish''"
| "TaskAction_str TA_make_available = ''make_available''"
| "TaskAction_str TA_claim = ''claim''"
| "TaskAction_str TA_start = ''start''"
| "TaskAction_str TA_submit_result = ''submit_result''"
| "TaskAction_str TA_accept = ''accept''"
| "TaskAction_str TA_complete = ''complete''"
| "TaskAction_str TA_cancel = ''cancel''"
| "TaskAction_str TA_release = ''release''"
| "TaskAction_str TA_expire = ''expire''"
| "TaskAction_str TA_reject = ''reject''"
| "TaskAction_str TA_conflict = ''conflict''"
| "TaskAction_str TA_rebase = ''rebase''"
| "TaskAction_str TA_resolve = ''resolve''"
| "TaskAction_str TA_supersede = ''supersede''"

fun VALID_TASK_TRANSITIONS :: "TaskStatus \<Rightarrow> TaskStatus list" where
  "VALID_TASK_TRANSITIONS TT_draft = [TT_published]"
| "VALID_TASK_TRANSITIONS TT_published = [TT_available]"
| "VALID_TASK_TRANSITIONS TT_available = [TT_claimed, TT_cancelled]"
| "VALID_TASK_TRANSITIONS TT_claimed = [TT_in_progress, TT_released, TT_expired]"
| "VALID_TASK_TRANSITIONS TT_in_progress = [TT_result_submitted]"
| "VALID_TASK_TRANSITIONS TT_result_submitted = [TT_accepted, TT_rejected, TT_conflicted]"
| "VALID_TASK_TRANSITIONS TT_accepted = [TT_completed]"
| "VALID_TASK_TRANSITIONS TT_completed = []"
| "VALID_TASK_TRANSITIONS TT_cancelled = []"
| "VALID_TASK_TRANSITIONS TT_conflicted = [TT_rebase_requested, TT_resolved, TT_rejected, TT_superseded]"
| "VALID_TASK_TRANSITIONS TT_released = []"
| "VALID_TASK_TRANSITIONS TT_expired = []"
| "VALID_TASK_TRANSITIONS TT_resolved = []"
| "VALID_TASK_TRANSITIONS TT_rejected = []"
| "VALID_TASK_TRANSITIONS TT_rebase_requested = []"
| "VALID_TASK_TRANSITIONS TT_superseded = []"

fun TASK_ACTION_TARGET :: "TaskAction \<Rightarrow> TaskStatus" where
  "TASK_ACTION_TARGET TA_publish = TT_published"
| "TASK_ACTION_TARGET TA_make_available = TT_available"
| "TASK_ACTION_TARGET TA_claim = TT_claimed"
| "TASK_ACTION_TARGET TA_start = TT_in_progress"
| "TASK_ACTION_TARGET TA_submit_result = TT_result_submitted"
| "TASK_ACTION_TARGET TA_accept = TT_accepted"
| "TASK_ACTION_TARGET TA_complete = TT_completed"
| "TASK_ACTION_TARGET TA_cancel = TT_cancelled"
| "TASK_ACTION_TARGET TA_release = TT_released"
| "TASK_ACTION_TARGET TA_expire = TT_expired"
| "TASK_ACTION_TARGET TA_reject = TT_rejected"
| "TASK_ACTION_TARGET TA_conflict = TT_conflicted"
| "TASK_ACTION_TARGET TA_rebase = TT_rebase_requested"
| "TASK_ACTION_TARGET TA_resolve = TT_resolved"
| "TASK_ACTION_TARGET TA_supersede = TT_superseded"

definition applyTaskAction :: "TaskStatus \<Rightarrow> TaskAction \<Rightarrow> TaskStatus result" where
  "applyTaskAction current action =
     (let target = TASK_ACTION_TARGET action
      in if \<not> List.member (VALID_TASK_TRANSITIONS current) target
         then Inl (''Invalid task transition: '' @ TaskStatus_str current @ '' '' @ right_arrow @ '' '' @
           TaskStatus_str target @ '' (action: '' @ TaskAction_str action @ '')'')
         else Inr target)"

record CreateTaskConfig =
  th_sessionId :: string
  th_createdBy :: string
  th_title :: string
  th_taskKind :: TaskKind
  th_parallelism :: "TaskParallelism option"
  th_sourceBasisDigest :: string
  th_allowedPathScopes :: "string list option"

definition createTask :: "string \<Rightarrow> string \<Rightarrow> CreateTaskConfig \<Rightarrow> DharmaTaskContract" where
  "createTask now uuid config =
     (let parallelism = nullish (th_parallelism config) TP_exclusive
      in \<lparr>tk_taskId = uuid, tk_sessionId = th_sessionId config,
          tk_createdByIdentityPublicKey = th_createdBy config, tk_title = th_title config, tk_summary = [],
          tk_taskKind = th_taskKind config, tk_parallelism = parallelism,
          tk_sourceBasisDigest = th_sourceBasisDigest config, tk_sourceDisclosurePackageId = None,
          tk_allowedPathScopes = nullish (th_allowedPathScopes config) [], tk_deniedPathScopes = [],
          tk_expectedArtifactClasses = [], tk_verificationContract = ''default'',
          tk_acceptancePolicy = AL_attested, tk_requiredCapabilities = [], tk_assignedMembershipIds = [],
          tk_maxContributors = (if parallelism = TP_exclusive then 1 else 3), tk_maxResultBundles = 10,
          tk_claimDeadline = None, tk_completionDeadline = None, tk_status = TT_draft, tk_createdAt = now,
          tk_updatedAt = now, tk_signature = []\<rparr>)"

definition isTaskClaimable :: "DharmaTaskContract \<Rightarrow> bool" where
  "isTaskClaimable task =
     (if tk_status task \<noteq> TT_available then False else if tk_maxContributors task \<le> 0 then False else True)"

definition isTaskCompleted :: "DharmaTaskContract \<Rightarrow> bool" where
  "isTaskCompleted task \<longleftrightarrow> tk_status task = TT_completed \<or> tk_status task = TT_cancelled"

section \<open>Claims\<close>

datatype ClaimAction =
  CA_claim | CA_start_work | CA_submit | CA_complete | CA_accept | CA_reject | CA_conflict |
  CA_supersede | CA_release | CA_expire | CA_abandon

fun ClaimAction_str :: "ClaimAction \<Rightarrow> string" where
  "ClaimAction_str CA_claim = ''claim''"
| "ClaimAction_str CA_start_work = ''start_work''"
| "ClaimAction_str CA_submit = ''submit''"
| "ClaimAction_str CA_complete = ''complete''"
| "ClaimAction_str CA_accept = ''accept''"
| "ClaimAction_str CA_reject = ''reject''"
| "ClaimAction_str CA_conflict = ''conflict''"
| "ClaimAction_str CA_supersede = ''supersede''"
| "ClaimAction_str CA_release = ''release''"
| "ClaimAction_str CA_expire = ''expire''"
| "ClaimAction_str CA_abandon = ''abandon''"

fun VALID_CLAIM_TRANSITIONS :: "ClaimStatus \<Rightarrow> ClaimStatus list" where
  "VALID_CLAIM_TRANSITIONS CT_available = [CT_claimed]"
| "VALID_CLAIM_TRANSITIONS CT_claimed = [CT_in_progress, CT_released, CT_expired]"
| "VALID_CLAIM_TRANSITIONS CT_in_progress = [CT_result_submitted, CT_abandoned]"
| "VALID_CLAIM_TRANSITIONS CT_result_submitted = [CT_completed, CT_accepted, CT_rejected, CT_conflicted, CT_superseded]"
| "VALID_CLAIM_TRANSITIONS CT_completed = []"
| "VALID_CLAIM_TRANSITIONS CT_released = []"
| "VALID_CLAIM_TRANSITIONS CT_expired = []"
| "VALID_CLAIM_TRANSITIONS CT_abandoned = []"
| "VALID_CLAIM_TRANSITIONS CT_accepted = []"
| "VALID_CLAIM_TRANSITIONS CT_rejected = []"
| "VALID_CLAIM_TRANSITIONS CT_conflicted = []"
| "VALID_CLAIM_TRANSITIONS CT_superseded = []"

fun CLAIM_ACTION_TARGET :: "ClaimAction \<Rightarrow> ClaimStatus" where
  "CLAIM_ACTION_TARGET CA_claim = CT_claimed"
| "CLAIM_ACTION_TARGET CA_start_work = CT_in_progress"
| "CLAIM_ACTION_TARGET CA_submit = CT_result_submitted"
| "CLAIM_ACTION_TARGET CA_complete = CT_completed"
| "CLAIM_ACTION_TARGET CA_accept = CT_accepted"
| "CLAIM_ACTION_TARGET CA_reject = CT_rejected"
| "CLAIM_ACTION_TARGET CA_conflict = CT_conflicted"
| "CLAIM_ACTION_TARGET CA_supersede = CT_superseded"
| "CLAIM_ACTION_TARGET CA_release = CT_released"
| "CLAIM_ACTION_TARGET CA_expire = CT_expired"
| "CLAIM_ACTION_TARGET CA_abandon = CT_abandoned"

definition applyClaimAction :: "ClaimStatus \<Rightarrow> ClaimAction \<Rightarrow> ClaimStatus result" where
  "applyClaimAction current action =
     (let target = CLAIM_ACTION_TARGET action
      in if \<not> List.member (VALID_CLAIM_TRANSITIONS current) target
         then Inl (''Invalid claim transition: '' @ ClaimStatus_str current @ '' '' @ right_arrow @ '' '' @
           ClaimStatus_str target @ '' (action: '' @ ClaimAction_str action @ '')'')
         else Inr target)"

definition createClaim :: "string \<Rightarrow> string \<Rightarrow> string \<Rightarrow> string \<Rightarrow> string \<Rightarrow> string \<Rightarrow> string \<Rightarrow> DharmaTaskClaim" where
  "createClaim now uuid taskId sessionId claimantIdentity claimantMembershipId sourceBasisDigest =
     \<lparr>kl_claimId = uuid, kl_taskId = taskId, kl_sessionId = sessionId,
      kl_claimantIdentityPublicKey = claimantIdentity, kl_claimantMembershipId = claimantMembershipId,
      kl_claimedSourceBasisDigest = sourceBasisDigest, kl_localSandboxAttestationDigest = [],
      kl_claimedAt = now, kl_expiresAt = None, kl_status = CT_available, kl_signature = []\<rparr>"

definition isClaimActive :: "DharmaTaskClaim \<Rightarrow> bool" where
  "isClaimActive claim \<longleftrightarrow>
     \<not> List.member [CT_completed, CT_released, CT_expired, CT_abandoned, CT_accepted, CT_rejected, CT_superseded]
        (kl_status claim)"

definition canClaimTask :: "DharmaTaskContract \<Rightarrow> DharmaTaskClaim list \<Rightarrow> string option" where
  "canClaimTask task existingClaims =
     (if tk_status task \<noteq> TT_available then Some ''Task is not available''
      else if tk_parallelism task = TP_exclusive \<and> length existingClaims > 0
      then Some ''Task is exclusive; already claimed''
      else if tk_parallelism task = TP_review_only \<and> length existingClaims > 0
      then Some ''Review-only task already claimed''
      else if int (length (List.filter isClaimActive existingClaims)) \<ge> tk_maxContributors task
      then Some (''Max contributors ('' @ show_int (tk_maxContributors task) @ '') reached'')
      else None)"

section \<open>Validation of results\<close>

definition checkSourceBasis :: "SessionResultBundle \<Rightarrow> DharmaTaskContract \<Rightarrow> bool" where
  "checkSourceBasis res task \<longleftrightarrow> rb_sourceBasisDigest res = tk_sourceBasisDigest task"

definition checkPathScope :: "string list \<Rightarrow> string list \<Rightarrow> string list \<Rightarrow> string list" where
  "checkPathScope changedPaths allowedScopes deniedScopes =
     (if length allowedScopes = 0 \<and> length deniedScopes = 0 then []
      else List.filter (\<lambda>path.
        if length allowedScopes > 0 \<and> \<not> (\<exists>scope\<in>set allowedScopes. starts_with scope path) then True
        else if length deniedScopes > 0 \<and> (\<exists>scope\<in>set deniedScopes. starts_with scope path) then True
        else False) changedPaths)"

definition checkContainmentProfile :: "string \<Rightarrow> string list \<Rightarrow> bool" where
  "checkContainmentProfile profileDigest required =
     (if length required = 0 then True else if \<not> truthy profileDigest then False else length profileDigest > 0)"

fun levelOrder :: "AcceptancePolicyLevel \<Rightarrow> int" where
  "levelOrder AL_attested = 0"
| "levelOrder AL_reviewed = 1"
| "levelOrder AL_reproduced = 2"
| "levelOrder AL_corroborated = 3"

definition parseVerificationLevel :: "string \<Rightarrow> AcceptancePolicyLevel option" where
  "parseVerificationLevel summary =
     List.find (\<lambda>level. js_includes summary (AcceptancePolicyLevel_str level))
       [AL_corroborated, AL_reproduced, AL_reviewed, AL_attested]"

definition checkVerificationPolicy :: "string \<Rightarrow> AcceptancePolicyLevel \<Rightarrow> bool" where
  "checkVerificationPolicy verificationSummary requiredLevel =
     (if \<not> truthy verificationSummary then False
      else case parseVerificationLevel verificationSummary of
        None \<Rightarrow> False
      | Some claimedLevel \<Rightarrow> levelOrder claimedLevel \<ge> levelOrder requiredLevel)"

definition validateResultBundle ::
    "SessionResultBundle \<Rightarrow> DharmaTaskContract \<Rightarrow> ResultValidationState \<times> string option" where
  "validateResultBundle res task =
     (if \<not> checkSourceBasis res task
      then (RV_conflicted, Some ''Source basis digest does not match task requirement'')
      else
        let violations = (if length (tk_allowedPathScopes task) > 0 \<or> length (tk_deniedPathScopes task) > 0
          then checkPathScope (rb_changedPathDigests res) (tk_allowedPathScopes task) (tk_deniedPathScopes task) else [])
        in if length violations > 0
           then (RV_rejected, Some (''Changed paths violate scope constraints: '' @ js_join '', '' violations))
           else if \<not> checkVerificationPolicy (rb_verificationSummary res) (tk_acceptancePolicy task)
           then (RV_pending_verification, Some ''Verification summary does not meet required acceptance policy level'')
           else (RV_verified, None))"

section \<open>Source packages and artifacts\<close>

fun DEFAULT_SCOPES :: "DisclosureClass \<Rightarrow> string" where
  "DEFAULT_SCOPES DX_full_snapshot = ''/''"
| "DEFAULT_SCOPES DX_subtree_snapshot = ''/src''"
| "DEFAULT_SCOPES DX_task_fixture_bundle = ''/test''"
| "DEFAULT_SCOPES DX_patch_context_only = ''/src''"
| "DEFAULT_SCOPES DX_generated_reproduction_bundle = ''/test/reproduction''"
| "DEFAULT_SCOPES DX_opaque_artifact_reference = []"

text \<open>\<open>in48h\<close> is the time 48 hours from now, as the local calendar computes it.\<close>

definition createSourcePackage ::
    "millis \<Rightarrow> string \<Rightarrow> string \<Rightarrow> string \<Rightarrow> DisclosureClass \<Rightarrow> string \<Rightarrow> string list option \<Rightarrow> string option \<Rightarrow>
     SourceDisclosurePackage" where
  "createSourcePackage in48h uuid sessionId sourceBasisDigest disclosureClass createdBy intended sourceScope =
     \<lparr>sp_packageId = uuid, sp_sessionId = sessionId, sp_sourceBasisDigest = sourceBasisDigest,
      sp_disclosureClass = disclosureClass, sp_sourceScope = nullish sourceScope (DEFAULT_SCOPES disclosureClass),
      sp_packageManifestDigest = [], sp_encryptedPayloadReference = None, sp_artifactReferences = [],
      sp_createdByIdentityPublicKey = createdBy, sp_intendedMembershipIds = nullish intended [],
      sp_expiresAt = (if disclosureClass = DX_opaque_artifact_reference then None else Some (Iso in48h)),
      sp_signature = []\<rparr>"

definition isPackageAuthorizedForMember :: "SourceDisclosurePackage \<Rightarrow> string \<Rightarrow> bool" where
  "isPackageAuthorizedForMember pkg membershipId =
     (if length (sp_intendedMembershipIds pkg) = 0 then True
      else List.member (sp_intendedMembershipIds pkg) membershipId)"

definition getPackageScope :: "SourceDisclosurePackage \<Rightarrow> string" where
  "getPackageScope pkg = sp_sourceScope pkg"

definition isPackageExpired :: "millis \<Rightarrow> SourceDisclosurePackage \<Rightarrow> bool" where
  "isPackageExpired now pkg = (case sp_expiresAt pkg of None \<Rightarrow> False | Some e \<Rightarrow> date_le_now e now)"

definition createAccessRequest :: "string \<Rightarrow> string \<Rightarrow> string \<Rightarrow> string \<Rightarrow> string \<Rightarrow> string option \<Rightarrow> ArtifactAccessRequest" where
  "createAccessRequest now uuid sessionId artifactDigest requesterMembershipId purpose =
     \<lparr>ar_requestId = uuid, ar_sessionId = sessionId, ar_artifactDigest = artifactDigest,
      ar_requesterMembershipId = requesterMembershipId, ar_requestedPurpose = nullish purpose [],
      ar_requestedAt = now, ar_signature = []\<rparr>"

text \<open>The decision is typed, so the guard against other texts than granted and denied never fires.\<close>

definition createAccessDecision ::
    "string \<Rightarrow> bool \<Rightarrow> string \<Rightarrow> string option \<Rightarrow> timestamp option \<Rightarrow> ArtifactAccessDecision" where
  "createAccessDecision requestId granted decidedBy deliveryRef expiresAt =
     \<lparr>ac_requestId = requestId, ac_granted = granted, ac_allowedScope = (if granted then ''read'' else []),
      ac_expiresAt = expiresAt, ac_artifactDeliveryReference = (if granted then deliveryRef else None),
      ac_decidedByIdentityPublicKey = decidedBy, ac_signature = []\<rparr>"

definition isAccessGranted :: "ArtifactAccessDecision \<Rightarrow> bool" where
  "isAccessGranted decision \<longleftrightarrow> ac_granted decision"

definition isAccessExpired :: "millis \<Rightarrow> ArtifactAccessDecision \<Rightarrow> bool" where
  "isAccessExpired now decision = (case ac_expiresAt decision of None \<Rightarrow> False | Some e \<Rightarrow> date_le_now e now)"

section \<open>Conflicts\<close>

definition getCurrentCanonicalDigest :: "CanonicalSessionOutcome list \<Rightarrow> string option" where
  "getCurrentCanonicalDigest acceptedOutcomes =
     (case acceptedOutcomes of
        [] \<Rightarrow> None
      | b # os \<Rightarrow> Some (oc_canonicalOutcomeDigest
          (reduce_best (\<lambda>x latest. oc_acceptedAt x > oc_acceptedAt latest) b os)))"

definition collectAcceptedPaths :: "CanonicalSessionOutcome list \<Rightarrow> string list" where
  "collectAcceptedPaths acceptedOutcomes = js_unique (concat (List.map oc_changedPathDigests acceptedOutcomes))"

definition checkStaleBasis :: "SessionResultBundle \<Rightarrow> string \<Rightarrow> bool" where
  "checkStaleBasis proposed currentCanonicalDigest \<longleftrightarrow> rb_sourceBasisDigest proposed \<noteq> currentCanonicalDigest"

definition checkPathOverlap :: "string list \<Rightarrow> string list \<Rightarrow> bool \<times> string list" where
  "checkPathOverlap proposedPaths acceptedPaths =
     (let overlapping = List.filter (\<lambda>p. p \<in> set acceptedPaths) proposedPaths
      in (length overlapping > 0, overlapping))"

definition checkClaimViolation :: "ClaimStatus list \<Rightarrow> bool" where
  "checkClaimViolation activeClaims \<longleftrightarrow> List.member activeClaims CT_conflicted \<or> List.member activeClaims CT_superseded"

definition detectConflict ::
    "SessionResultBundle \<Rightarrow> CanonicalSessionOutcome list \<Rightarrow> ConflictKind option \<times> string list" where
  "detectConflict proposed acceptedOutcomes =
     (let stale = (case getCurrentCanonicalDigest acceptedOutcomes of
            None \<Rightarrow> False | Some d \<Rightarrow> truthy d \<and> checkStaleBasis proposed d)
      in if stale then (Some CF_stale_source_basis, [])
         else let (overlaps, overlapping) =
                checkPathOverlap (rb_changedPathDigests proposed) (collectAcceptedPaths acceptedOutcomes)
              in if overlaps then (Some CF_path_overlap, overlapping) else (None, []))"

definition createConflictRecord ::
    "string \<Rightarrow> string \<Rightarrow> string \<Rightarrow> string \<Rightarrow> string \<Rightarrow> string option \<Rightarrow> ConflictKind \<Rightarrow> string \<Rightarrow> string \<Rightarrow>
     string list option \<Rightarrow> SessionResultConflict" where
  "createConflictRecord now uuid sessionId taskId proposedResultId conflictingResultId conflictKind baseDigest
      currentCanonicalDigest overlappingPaths =
     \<lparr>cn_conflictId = uuid, cn_sessionId = sessionId, cn_taskId = taskId, cn_proposedResultId = proposedResultId,
      cn_conflictingResultId = conflictingResultId, cn_conflictKind = conflictKind, cn_baseDigest = baseDigest,
      cn_currentCanonicalDigest = currentCanonicalDigest, cn_overlappingPaths = nullish overlappingPaths [],
      cn_detectedAt = now, cn_resolutionState = CR_open, cn_resolutionResultId = None,
      cn_resolvedByIdentityPublicKey = None, cn_resolvedAt = None\<rparr>"

fun VALID_RESOLUTION_TRANSITIONS :: "ConflictResolutionState \<Rightarrow> ConflictResolutionState list" where
  "VALID_RESOLUTION_TRANSITIONS CR_open = [CR_rebase_requested, CR_manual_merge_requested, CR_rejected, CR_resolved, CR_superseded]"
| "VALID_RESOLUTION_TRANSITIONS CR_rebase_requested = [CR_resolved, CR_open, CR_rejected, CR_superseded]"
| "VALID_RESOLUTION_TRANSITIONS CR_manual_merge_requested = [CR_resolved, CR_rejected, CR_superseded]"
| "VALID_RESOLUTION_TRANSITIONS CR_superseded = []"
| "VALID_RESOLUTION_TRANSITIONS CR_rejected = []"
| "VALID_RESOLUTION_TRANSITIONS CR_resolved = []"

datatype ConflictResolution = RZ_reject | RZ_rebase | RZ_resolve

fun resolutionMap :: "ConflictResolution \<Rightarrow> ConflictResolutionState" where
  "resolutionMap RZ_reject = CR_rejected"
| "resolutionMap RZ_rebase = CR_rebase_requested"
| "resolutionMap RZ_resolve = CR_resolved"

definition resolveConflict :: "string \<Rightarrow> SessionResultConflict \<Rightarrow> ConflictResolution \<Rightarrow> SessionResultConflict result" where
  "resolveConflict now conflict resolution =
     (let targetState = resolutionMap resolution
      in if \<not> List.member (VALID_RESOLUTION_TRANSITIONS (cn_resolutionState conflict)) targetState
         then Inl (''Cannot transition from '' @ quoted (ConflictResolutionState_str (cn_resolutionState conflict)) @
           '' to '' @ quoted (ConflictResolutionState_str targetState) @ ''.'')
         else Inr (conflict\<lparr>cn_resolutionState := targetState,
           cn_resolvedAt := (if targetState = CR_resolved then Some now else None)\<rparr>))"

section \<open>Canonical outcomes\<close>

definition createFirstOutcome ::
    "string \<Rightarrow> string \<Rightarrow> string \<Rightarrow> string \<Rightarrow> string \<Rightarrow> string \<Rightarrow> string \<Rightarrow> string list option \<Rightarrow> CanonicalSessionOutcome" where
  "createFirstOutcome now uuid sessionId acceptedResultId acceptedBy sourceBasisDigest canonicalOutcomeDigest changed =
     \<lparr>oc_outcomeId = uuid, oc_sessionId = sessionId, oc_acceptedResultId = acceptedResultId,
      oc_acceptedByIdentityPublicKey = acceptedBy, oc_parentOutcomeDigest = None,
      oc_sourceBasisDigest = sourceBasisDigest, oc_canonicalOutcomeDigest = canonicalOutcomeDigest,
      oc_changedPathDigests = nullish changed [], oc_verificationStatus = ''verified'',
      oc_acceptanceReason = None, oc_acceptedAt = now, oc_signature = []\<rparr>"

definition createNextOutcome ::
    "string \<Rightarrow> string \<Rightarrow> CanonicalSessionOutcome \<Rightarrow> string \<Rightarrow> string \<Rightarrow> string \<Rightarrow> string list option \<Rightarrow>
     CanonicalSessionOutcome result" where
  "createNextOutcome now uuid previous acceptedResultId acceptedBy canonicalOutcomeDigest changed =
     (if \<not> truthy (oc_canonicalOutcomeDigest previous)
      then Inl (''Previous outcome has no canonicalOutcomeDigest '' @ em_dash @ '' cannot chain.'')
      else Inr \<lparr>oc_outcomeId = uuid, oc_sessionId = oc_sessionId previous, oc_acceptedResultId = acceptedResultId,
        oc_acceptedByIdentityPublicKey = acceptedBy,
        oc_parentOutcomeDigest = Some (oc_canonicalOutcomeDigest previous),
        oc_sourceBasisDigest = oc_sourceBasisDigest previous, oc_canonicalOutcomeDigest = canonicalOutcomeDigest,
        oc_changedPathDigests = nullish changed [], oc_verificationStatus = ''verified'',
        oc_acceptanceReason = None, oc_acceptedAt = now, oc_signature = []\<rparr>)"

definition child_of :: "CanonicalSessionOutcome list \<Rightarrow> CanonicalSessionOutcome \<Rightarrow> CanonicalSessionOutcome option" where
  "child_of outcomes current =
     List.find (\<lambda>x. oc_parentOutcomeDigest x = Some (oc_canonicalOutcomeDigest current)) outcomes"

text \<open>The loop of \<open>getOutcomeChain\<close>; \<open>None\<close> is a loop that never ends.\<close>

partial_function (option) chain_loop ::
    "CanonicalSessionOutcome list \<Rightarrow> CanonicalSessionOutcome \<Rightarrow> CanonicalSessionOutcome list \<Rightarrow>
     CanonicalSessionOutcome list option" where
  "chain_loop outcomes current chain =
     (case child_of outcomes current of
        None \<Rightarrow> Some chain
      | Some next \<Rightarrow> chain_loop outcomes next (chain @ [next]))"

definition getOutcomeChain :: "CanonicalSessionOutcome list \<Rightarrow> CanonicalSessionOutcome list option" where
  "getOutcomeChain outcomes =
     (if length outcomes = 0 then Some []
      else case List.find (\<lambda>x. oc_parentOutcomeDigest x = None) outcomes of
        None \<Rightarrow> Some []
      | Some head \<Rightarrow> chain_loop outcomes head [head])"

text \<open>The two loops of \<open>verifyOutcomeChain\<close>; \<open>i\<close> is the index of the element.\<close>

fun session_mismatch :: "string \<Rightarrow> nat \<Rightarrow> CanonicalSessionOutcome list \<Rightarrow> string option" where
  "session_mismatch sessionId i [] = None"
| "session_mismatch sessionId i (x # xs) =
     (if oc_sessionId x \<noteq> sessionId
      then Some (''Outcome at index '' @ show_nat i @ '' has mismatched sessionId '' @ quoted (oc_sessionId x) @
        '' (expected '' @ quoted sessionId @ '').'')
      else session_mismatch sessionId (Suc i) xs)"

fun link_mismatch :: "CanonicalSessionOutcome \<Rightarrow> nat \<Rightarrow> CanonicalSessionOutcome list \<Rightarrow> string option" where
  "link_mismatch prev i [] = None"
| "link_mismatch prev i (x # xs) =
     (if oc_parentOutcomeDigest x \<noteq> Some (oc_canonicalOutcomeDigest prev)
      then Some (''Outcome at index '' @ show_nat i @ '' has parentOutcomeDigest '' @
        quoted (nullish (oc_parentOutcomeDigest x) ''null'') @ '' but expected '' @
        quoted (oc_canonicalOutcomeDigest prev) @ '' from index '' @ show_nat (i - 1) @ ''.'')
      else link_mismatch x (Suc i) xs)"

definition verifyOutcomeChain :: "CanonicalSessionOutcome list \<Rightarrow> string option" where
  "verifyOutcomeChain outcomes =
     (case outcomes of
        [] \<Rightarrow> Some ''Chain is empty.''
      | first # rest \<Rightarrow>
          if oc_parentOutcomeDigest first \<noteq> None
          then Some ''First outcome in chain must have null parentOutcomeDigest.''
          else case session_mismatch (oc_sessionId first) 1 rest of
            Some e \<Rightarrow> Some e
          | None \<Rightarrow> link_mismatch first 1 rest)"

section \<open>The machines as interpretations\<close>

text \<open>A machine that looks up the target of an action and accepts it when the table lists it.\<close>

lemma target_machine:
  assumes app: "\<And>s a. app s a = (if t a \<in> set (succs s) then Inr (t a) else Inl (err s a))"
    and onto: "\<And>s u. u \<in> set (succs s) \<Longrightarrow> \<exists>a. t a = u"
  shows "matched_machine succs app"
proof
  show "u \<in> set (succs s)" if "app s a = Inr u" for s a u using that by (auto simp: app split: if_splits)
  show "\<exists>a. app s a = Inr u" if "u \<in> set (succs s)" for s u using onto [OF that] that by (auto simp: app)
qed

interpretation task_fsm: matched_machine VALID_TASK_TRANSITIONS applyTaskAction
proof (rule target_machine [where t = TASK_ACTION_TARGET])
  show "applyTaskAction s a = (if TASK_ACTION_TARGET a \<in> set (VALID_TASK_TRANSITIONS s) then Inr (TASK_ACTION_TARGET a)
      else Inl (projl (applyTaskAction s a)))" for s a
    by (simp add: applyTaskAction_def Let_def)
  show "\<exists>a. TASK_ACTION_TARGET a = u" if "u \<in> set (VALID_TASK_TRANSITIONS s)" for s u
    using that by (cases s) (auto intro: TASK_ACTION_TARGET.simps)
qed

interpretation claim_fsm: matched_machine VALID_CLAIM_TRANSITIONS applyClaimAction
proof (rule target_machine [where t = CLAIM_ACTION_TARGET])
  show "applyClaimAction s a = (if CLAIM_ACTION_TARGET a \<in> set (VALID_CLAIM_TRANSITIONS s) then Inr (CLAIM_ACTION_TARGET a)
      else Inl (projl (applyClaimAction s a)))" for s a
    by (simp add: applyClaimAction_def Let_def)
  show "\<exists>a. CLAIM_ACTION_TARGET a = u" if "u \<in> set (VALID_CLAIM_TRANSITIONS s)" for s u
    using that by (cases s) (auto intro: CLAIM_ACTION_TARGET.simps)
qed

section \<open>Following the chain of outcomes\<close>

lemma child_ofD:
  "child_of os x = Some y \<Longrightarrow> y \<in> set os \<and> oc_parentOutcomeDigest y = Some (oc_canonicalOutcomeDigest x)"
  unfolding child_of_def by (induction os) (auto split: if_splits)

text \<open>A list that starts at an outcome without parent and goes from each outcome to its child.\<close>

definition follows :: "CanonicalSessionOutcome list \<Rightarrow> CanonicalSessionOutcome list \<Rightarrow> bool" where
  "follows os ch \<longleftrightarrow> ch \<noteq> [] \<and> set ch \<subseteq> set os \<and> oc_parentOutcomeDigest (hd ch) = None \<and>
     (\<forall>i. Suc i < length ch \<longrightarrow> child_of os (ch ! i) = Some (ch ! Suc i))"

lemma follows_snoc:
  assumes "follows os ch" "child_of os (last ch) = Some x"
  shows "follows os (ch @ [x])"
proof -
  have "child_of os ((ch @ [x]) ! i) = Some ((ch @ [x]) ! Suc i)" if "Suc i < length (ch @ [x])" for i
  proof (cases "Suc i < length ch")
    case True
    with assms(1) show ?thesis by (simp add: follows_def nth_append)
  next
    case False
    with that have "i = length ch - 1" "Suc i = length ch" by simp_all
    with assms show ?thesis by (simp add: follows_def nth_append last_conv_nth)
  qed
  with assms child_ofD [OF assms(2)] show ?thesis by (simp add: follows_def)
qed

lemma follows_distinct:
  assumes f: "follows os ch" and d: "distinct (List.map oc_canonicalOutcomeDigest os)"
  shows "distinct ch"
proof -
  have inj: "x = y" if "x \<in> set os" "y \<in> set os" "oc_canonicalOutcomeDigest x = oc_canonicalOutcomeDigest y" for x y
    using d that by (auto simp: distinct_map dest: inj_onD)
  have "ch ! i \<noteq> ch ! j" if "i < j" "j < length ch" for i j
    using that
  proof (induction i arbitrary: j)
    case 0
    then obtain k where "j = Suc k" by (cases j) auto
    with f 0 have "child_of os (ch ! k) = Some (ch ! j)" by (simp add: follows_def)
    then have "oc_parentOutcomeDigest (ch ! j) \<noteq> None" by (simp add: child_ofD)
    moreover have "oc_parentOutcomeDigest (ch ! 0) = None" using f by (auto simp: follows_def hd_conv_nth)
    ultimately show ?case by metis
  next
    case (Suc i)
    then obtain k where k: "j = Suc k" "i < k" by (cases j) auto
    with f Suc have "child_of os (ch ! i) = Some (ch ! Suc i)" "child_of os (ch ! k) = Some (ch ! j)"
      by (simp_all add: follows_def)
    then have p: "oc_parentOutcomeDigest (ch ! Suc i) = Some (oc_canonicalOutcomeDigest (ch ! i))"
      "oc_parentOutcomeDigest (ch ! j) = Some (oc_canonicalOutcomeDigest (ch ! k))" by (simp_all add: child_ofD)
    have "ch ! i \<in> set os" "ch ! k \<in> set os" using f k Suc by (auto simp: follows_def)
    with inj p Suc.IH [of k] k Suc.prems show ?case by (metis Suc_lessD option.inject)
  qed
  then show ?thesis by (auto simp: distinct_conv_nth) (metis linorder_neqE_nat)
qed

lemma chain_loop_total:
  assumes "follows os ch" "distinct (List.map oc_canonicalOutcomeDigest os)"
  shows "\<exists>r. chain_loop os (last ch) ch = Some r \<and> follows os r"
  using assms(1)
proof (induction "length os - length ch" arbitrary: ch rule: less_induct)
  case less
  show ?case
  proof (cases "child_of os (last ch)")
    case None
    with less show ?thesis by (subst chain_loop.simps) simp
  next
    case (Some x)
    have f: "follows os (ch @ [x])" by (rule follows_snoc [OF less.prems Some])
    then have "distinct (ch @ [x])" by (rule follows_distinct [OF _ assms(2)])
    moreover from f have "set (ch @ [x]) \<subseteq> set os" unfolding follows_def by blast
    ultimately have "distinct (ch @ [x])" "set (ch @ [x]) \<subseteq> set os" .
    then have "length (ch @ [x]) \<le> length os" by (metis card_mono distinct_card finite_set card_length order_trans)
    then have "length os - length (ch @ [x]) < length os - length ch" by simp
    from less.hyps [OF this f] Some show ?thesis by (subst chain_loop.simps) simp
  qed
qed

lemma follows_links: "follows os ch \<Longrightarrow> link_mismatch (hd ch) i (tl ch) = None"
proof -
  assume "follows os ch"
  then have "\<forall>k. Suc k < length ch \<longrightarrow> oc_parentOutcomeDigest (ch ! Suc k) = Some (oc_canonicalOutcomeDigest (ch ! k))"
    and "ch \<noteq> []" by (auto simp: follows_def dest: child_ofD)
  then show ?thesis
  proof (induction ch arbitrary: i)
    case (Cons x xs)
    show ?case
    proof (cases xs)
      case (Cons y ys)
      from Cons.prems(1) Cons have "oc_parentOutcomeDigest y = Some (oc_canonicalOutcomeDigest x)" by force
      moreover have "link_mismatch y (Suc i) ys = None" using Cons.IH [of "Suc i"] Cons.prems(1) Cons by fastforce
      ultimately show ?thesis using Cons by simp
    qed simp
  qed simp
qed

lemma session_mismatch_None: "\<forall>x\<in>set xs. oc_sessionId x = sid \<Longrightarrow> session_mismatch sid i xs = None"
  by (induction xs arbitrary: i) auto

text \<open>
  C38: ordering the outcomes of a session terminates when their digests differ, and yields a valid chain.
  The loop returns a list of distinct outcomes of the session; it is empty exactly when no outcome is
  without parent, and otherwise it passes \<open>verifyOutcomeChain\<close>.
\<close>

theorem outcome_chain_terminates:
  assumes "distinct (List.map oc_canonicalOutcomeDigest os)" and "\<forall>x\<in>set os. oc_sessionId x = sid"
  shows "\<exists>c. getOutcomeChain os = Some c \<and> distinct c \<and> set c \<subseteq> set os \<and>
    (if \<exists>x\<in>set os. oc_parentOutcomeDigest x = None then verifyOutcomeChain c = None else c = [])"
proof (cases "List.find (\<lambda>x. oc_parentOutcomeDigest x = None) os")
  case None
  then have "\<not> (\<exists>x\<in>set os. oc_parentOutcomeDigest x = None)" by (simp add: find_None_iff)
  with None show ?thesis by (auto simp: getOutcomeChain_def)
next
  case (Some h)
  then have h: "h \<in> set os" "oc_parentOutcomeDigest h = None" by (auto simp: find_Some_iff)
  then have "follows os [h]" by (simp add: follows_def)
  from chain_loop_total [OF this assms(1)] obtain r where r: "chain_loop os h [h] = Some r" "follows os r" by auto
  have "getOutcomeChain os = Some r" using Some r h by (cases os) (auto simp: getOutcomeChain_def)
  moreover have "verifyOutcomeChain r = None"
  proof (cases r)
    case Nil
    with r(2) show ?thesis by (simp add: follows_def)
  next
    case (Cons x xs)
    with r(2) assms(2) have "\<forall>y\<in>set xs. oc_sessionId y = oc_sessionId x" by (auto simp: follows_def)
    then have "session_mismatch (oc_sessionId x) 1 xs = None" by (rule session_mismatch_None)
    moreover have "oc_parentOutcomeDigest x = None" "link_mismatch x 1 xs = None"
      using r(2) follows_links [OF r(2), of 1] Cons by (simp_all add: follows_def)
    ultimately show ?thesis using Cons by (simp add: verifyOutcomeChain_def)
  qed
  ultimately show ?thesis using r(2) h follows_distinct [OF r(2) assms(1)] by (auto simp: follows_def)
qed

definition sample_outcomes :: "CanonicalSessionOutcome list" where
  "sample_outcomes =
     (let a = createFirstOutcome ''t'' ''1'' ''s'' ''r1'' ''k'' ''basis'' ''d1'' None
      in [projr (createNextOutcome ''t'' ''2'' a ''r2'' ''k'' ''d2'' None), a])"

theorem outcome_chain_terminates_witness:
  "\<exists>c. getOutcomeChain sample_outcomes = Some c \<and> verifyOutcomeChain c = None"
proof -
  have "distinct (List.map oc_canonicalOutcomeDigest sample_outcomes)"
    "\<forall>x\<in>set sample_outcomes. oc_sessionId x = ''s''" "\<exists>x\<in>set sample_outcomes. oc_parentOutcomeDigest x = None"
    by (simp_all add: sample_outcomes_def createFirstOutcome_def createNextOutcome_def Let_def)
  with outcome_chain_terminates [of sample_outcomes "''s''"] show ?thesis by auto
qed

text \<open>An outcome that is its own child is followed forever.\<close>

lemma chain_loop_no_self:
  assumes "chain_loop os x ch = Some r"
  shows "child_of os x \<noteq> Some x"
proof (rule chain_loop.raw_induct [OF _ assms])
  fix f :: "CanonicalSessionOutcome list \<Rightarrow> CanonicalSessionOutcome \<Rightarrow> CanonicalSessionOutcome list \<Rightarrow>
     CanonicalSessionOutcome list option" and os x ch r
  assume ih: "\<And>os x ch r. f os x ch = Some r \<Longrightarrow> child_of os x \<noteq> Some x"
    and run: "(case child_of os x of None \<Rightarrow> Some ch | Some next \<Rightarrow> f os next (ch @ [next])) = Some r"
  show "child_of os x \<noteq> Some x"
  proof
    assume "child_of os x = Some x"
    with run ih show False by auto
  qed
qed

lemma chain_loop_diverges: "child_of os x = Some x \<Longrightarrow> chain_loop os x ch = None"
  using chain_loop_no_self by (cases "chain_loop os x ch") auto

section \<open>Verdicts on results\<close>

lemma find_level:
  "(\<exists>l. parseVerificationLevel t = Some l \<and> levelOrder k \<le> levelOrder l) \<longleftrightarrow>
     (\<exists>l. js_includes t (AcceptancePolicyLevel_str l) \<and> levelOrder k \<le> levelOrder l)" (is "?a = ?b")
proof
  assume ?a
  then obtain l where "parseVerificationLevel t = Some l" "levelOrder k \<le> levelOrder l" by blast
  moreover from this(1) have "js_includes t (AcceptancePolicyLevel_str l)"
    using find_SomeD unfolding parseVerificationLevel_def by fast
  ultimately show ?b by blast
next
  assume ?b
  then obtain l where "js_includes t (AcceptancePolicyLevel_str l)" "levelOrder k \<le> levelOrder l" by blast
  then show ?a by (cases l; cases k) (auto simp: parseVerificationLevel_def)
qed

lemma includes_empty: "AcceptancePolicyLevel_str l \<noteq> []"
  by (cases l) simp_all

lemma verification_policy_exact:
  "checkVerificationPolicy t k \<longleftrightarrow> (\<exists>l. js_includes t (AcceptancePolicyLevel_str l) \<and> levelOrder k \<le> levelOrder l)"
proof (cases "t = []")
  case True
  then show ?thesis using includes_empty by (auto simp: checkVerificationPolicy_def js_includes_iff)
next
  case False
  then have "checkVerificationPolicy t k \<longleftrightarrow> (\<exists>l. parseVerificationLevel t = Some l \<and> levelOrder k \<le> levelOrder l)"
    by (auto simp: checkVerificationPolicy_def split: option.splits)
  then show ?thesis by (simp add: find_level)
qed

lemma path_scope_exact:
  "checkPathScope paths allowed denied = [] \<longleftrightarrow>
     (\<forall>p\<in>set paths. (allowed = [] \<or> (\<exists>a\<in>set allowed. \<exists>r. p = a @ r)) \<and> \<not> (\<exists>d\<in>set denied. \<exists>r. p = d @ r))"
proof -
  have "checkPathScope paths allowed denied =
      List.filter (\<lambda>p. allowed \<noteq> [] \<and> \<not> (\<exists>a\<in>set allowed. \<exists>r. p = a @ r) \<or> (\<exists>d\<in>set denied. \<exists>r. p = d @ r)) paths"
    unfolding checkPathScope_def starts_with_iff by (cases denied) (auto intro!: filter_cong)
  then show ?thesis by (simp add: filter_empty_conv)
qed

text \<open>
  When a result is verified.  The verdict is verified exactly when the result and the task have the
  same source basis, every changed path starts with the text of an allowed scope (if there are any) and
  with no denied one, and the summary contains somewhere the name of a level at least as strict as the
  task asks for.  The scopes are compared as text, not by directories, and the name of a level counts
  wherever it occurs in the summary.
\<close>

theorem result_verified_exact:
  "fst (validateResultBundle res task) = RV_verified \<longleftrightarrow>
     rb_sourceBasisDigest res = tk_sourceBasisDigest task \<and>
     list_all (\<lambda>p. (tk_allowedPathScopes task = [] \<or> (\<exists>a\<in>set (tk_allowedPathScopes task). \<exists>r. p = a @ r)) \<and>
        \<not> (\<exists>d\<in>set (tk_deniedPathScopes task). \<exists>r. p = d @ r)) (rb_changedPathDigests res) \<and>
     (\<exists>l a b. rb_verificationSummary res = a @ AcceptancePolicyLevel_str l @ b \<and>
        levelOrder (tk_acceptancePolicy task) \<le> levelOrder l)"
proof -
  have scope: "(if length (tk_allowedPathScopes task) > 0 \<or> length (tk_deniedPathScopes task) > 0
      then checkPathScope (rb_changedPathDigests res) (tk_allowedPathScopes task) (tk_deniedPathScopes task) else []) =
      checkPathScope (rb_changedPathDigests res) (tk_allowedPathScopes task) (tk_deniedPathScopes task)"
    by (simp add: checkPathScope_def)
  have "fst (validateResultBundle res task) = RV_verified \<longleftrightarrow>
      rb_sourceBasisDigest res = tk_sourceBasisDigest task \<and>
      checkPathScope (rb_changedPathDigests res) (tk_allowedPathScopes task) (tk_deniedPathScopes task) = [] \<and>
      checkVerificationPolicy (rb_verificationSummary res) (tk_acceptancePolicy task)"
    unfolding validateResultBundle_def scope by (simp add: checkSourceBasis_def Let_def)
  then show ?thesis
    unfolding path_scope_exact verification_policy_exact js_includes_iff list_all_iff by blast
qed

lemma conflict_free_exact:
  "fst (detectConflict res os) = None \<longleftrightarrow>
     (case getCurrentCanonicalDigest os of None \<Rightarrow> True | Some d \<Rightarrow> d = [] \<or> rb_sourceBasisDigest res = d) \<and>
     set (rb_changedPathDigests res) \<inter> (\<Union>x\<in>set os. set (oc_changedPathDigests x)) = {}"
  by (auto simp: detectConflict_def checkStaleBasis_def checkPathOverlap_def collectAcceptedPaths_def Let_def
      filter_empty_conv split: option.splits)

end
