(* ===== verification/Dharma_Convergence_Service.thy ===== *)
theory Dharma_Convergence_Service imports Dharma_Convergence begin

text \<open>
  The in-memory service of the multi-peer convergence, \<open>MultiPeerApi\<close> of
  \<open>session/multi-peer/multi-peer-api.ts\<close>.  Its maps are the state and its methods one definition each.
  A method that throws gives an error, one that never returns gives \<open>None\<close>; \<open>acceptResultBundle\<close> has
  already changed the task when it throws, so it returns the state with its result.
\<close>

section \<open>State\<close>

record MultiPeerApi =
  mp_tasks :: "(string \<times> DharmaTaskContract) list"
  mp_claims :: "(string \<times> DharmaTaskClaim) list"
  mp_sourcePackages :: "(string \<times> SourceDisclosurePackage) list"
  mp_resultBundles :: "(string \<times> SessionResultBundle) list"
  mp_conflicts :: "(string \<times> SessionResultConflict) list"
  mp_artifactRequests :: "(string \<times> ArtifactAccessRequest) list"
  mp_artifactDecisions :: "(string \<times> ArtifactAccessDecision) list"
  mp_canonicalOutcomes :: "(string \<times> CanonicalSessionOutcome) list"

definition new_peer_api :: MultiPeerApi where
  "new_peer_api = \<lparr>mp_tasks = [], mp_claims = [], mp_sourcePackages = [], mp_resultBundles = [],
     mp_conflicts = [], mp_artifactRequests = [], mp_artifactDecisions = [], mp_canonicalOutcomes = []\<rparr>"

text \<open>The fields of the \<open>Partial\<close> configurations that the methods read.\<close>

record TaskRequest =
  tx_sessionId :: "string option"
  tx_createdByIdentityPublicKey :: "string option"
  tx_title :: "string option"
  tx_taskKind :: "TaskKind option"
  tx_sourceBasisDigest :: "string option"
  tx_parallelism :: "TaskParallelism option"
  tx_allowedPathScopes :: "string list option"
  tx_summary :: "string option"
  tx_deniedPathScopes :: "string list option"
  tx_expectedArtifactClasses :: "string list option"
  tx_verificationContract :: "string option"
  tx_acceptancePolicy :: "AcceptancePolicyLevel option"
  tx_requiredCapabilities :: "string list option"
  tx_assignedMembershipIds :: "string list option"
  tx_maxContributors :: "int option"
  tx_maxResultBundles :: "int option"
  tx_claimDeadline :: "string option"
  tx_completionDeadline :: "string option"
  tx_status :: "TaskStatus option"
  tx_signature :: "string option"

record PackageRequest =
  sq_sessionId :: "string option"
  sq_sourceBasisDigest :: "string option"
  sq_createdByIdentityPublicKey :: "string option"
  sq_disclosureClass :: "DisclosureClass option"
  sq_sourceScope :: "string option"
  sq_intendedMembershipIds :: "string list option"
  sq_encryptedPayloadReference :: "string option"
  sq_artifactReferences :: "string list option"
  sq_expiresAt :: "timestamp option"
  sq_signature :: "string option"

record BundleRequest =
  ry_sessionId :: "string option"
  ry_taskId :: "string option"
  ry_actorIdentityPublicKey :: "string option"
  ry_actorMembershipId :: "string option"
  ry_claimId :: "string option"
  ry_sourceBasisDigest :: "string option"
  ry_sourceDisclosurePackageId :: "string option"
  ry_environmentDigest :: "string option"
  ry_containmentProfileDigest :: "string option"
  ry_localSandboxAttestation :: "string option"
  ry_patchDigest :: "string option"
  ry_changedPathDigests :: "string list option"
  ry_artifactDigests :: "string list option"
  ry_testReceiptDigests :: "string list option"
  ry_benchmarkReceiptDigests :: "string list option"
  ry_verificationSummary :: "string option"
  ry_finalLocalWorkspaceDigest :: "string option"
  ry_disclosureClass :: "DisclosureClass option"
  ry_signature :: "string option"

section \<open>Tasks\<close>

text \<open>An action the status does not allow is skipped.\<close>

definition tryAdvanceTask :: "string \<Rightarrow> DharmaTaskContract \<Rightarrow> TaskAction \<Rightarrow> DharmaTaskContract" where
  "tryAdvanceTask now task action =
     (case applyTaskAction (tk_status task) action of
        Inl _ \<Rightarrow> task
      | Inr newStatus \<Rightarrow> task\<lparr>tk_status := newStatus, tk_updatedAt := now\<rparr>)"

text \<open>The task built from a request whose required fields are present.\<close>

definition task_of_request :: "string \<Rightarrow> string \<Rightarrow> string \<Rightarrow> TaskRequest \<Rightarrow> DharmaTaskContract" where
  "task_of_request now uuid basis config =
     (let task = createTask now uuid \<lparr>th_sessionId = nullish (tx_sessionId config) [],
            th_createdBy = nullish (tx_createdByIdentityPublicKey config) [], th_title = nullish (tx_title config) [],
            th_taskKind = nullish (tx_taskKind config) TK_investigation, th_parallelism = tx_parallelism config,
            th_sourceBasisDigest = nullish (tx_sourceBasisDigest config) basis,
            th_allowedPathScopes = tx_allowedPathScopes config\<rparr>
      in task\<lparr>tk_summary := nullish (tx_summary config) (tk_summary task),
           tk_deniedPathScopes := nullish (tx_deniedPathScopes config) (tk_deniedPathScopes task),
           tk_expectedArtifactClasses := nullish (tx_expectedArtifactClasses config) (tk_expectedArtifactClasses task),
           tk_verificationContract := nullish (tx_verificationContract config) (tk_verificationContract task),
           tk_acceptancePolicy := nullish (tx_acceptancePolicy config) (tk_acceptancePolicy task),
           tk_requiredCapabilities := nullish (tx_requiredCapabilities config) (tk_requiredCapabilities task),
           tk_assignedMembershipIds := nullish (tx_assignedMembershipIds config) (tk_assignedMembershipIds task),
           tk_maxContributors := nullish (tx_maxContributors config) (tk_maxContributors task),
           tk_maxResultBundles := nullish (tx_maxResultBundles config) (tk_maxResultBundles task),
           tk_claimDeadline := (case tx_claimDeadline config of None \<Rightarrow> tk_claimDeadline task | d \<Rightarrow> d),
           tk_completionDeadline := (case tx_completionDeadline config of None \<Rightarrow> tk_completionDeadline task | d \<Rightarrow> d),
           tk_status := nullish (tx_status config) (tk_status task),
           tk_signature := nullish (tx_signature config) (tk_signature task)\<rparr>)"

definition mp_createTask ::
    "string \<Rightarrow> string \<Rightarrow> string \<Rightarrow> TaskRequest \<Rightarrow> MultiPeerApi \<Rightarrow> (MultiPeerApi \<times> DharmaTaskContract) result" where
  "mp_createTask now uuid basis config api =
     (if \<not> truthy (nullish (tx_sessionId config) []) \<or> \<not> truthy (nullish (tx_createdByIdentityPublicKey config) []) \<or>
         \<not> truthy (nullish (tx_title config) [])
      then Inl ''sessionId, createdByIdentityPublicKey, and title are required''
      else let merged = task_of_request now uuid basis config
           in Inr (api\<lparr>mp_tasks := map_set (tk_taskId merged) merged (mp_tasks api)\<rparr>, merged))"

definition publishTask :: "string \<Rightarrow> string \<Rightarrow> MultiPeerApi \<Rightarrow> MultiPeerApi result" where
  "publishTask now taskId api =
     (case map_get (mp_tasks api) taskId of
        None \<Rightarrow> Inl (''Task not found: '' @ taskId)
      | Some task \<Rightarrow>
          let updated = tryAdvanceTask now task TA_publish; updated = tryAdvanceTask now updated TA_make_available
          in Inr (api\<lparr>mp_tasks := map_set taskId updated (mp_tasks api)\<rparr>))"

definition cancelTask :: "string \<Rightarrow> string \<Rightarrow> MultiPeerApi \<Rightarrow> MultiPeerApi result" where
  "cancelTask now taskId api =
     (case map_get (mp_tasks api) taskId of
        None \<Rightarrow> Inl (''Task not found: '' @ taskId)
      | Some task \<Rightarrow> Inr (api\<lparr>mp_tasks := map_set taskId (tryAdvanceTask now task TA_cancel) (mp_tasks api)\<rparr>))"

definition session_filter :: "('a \<Rightarrow> string) \<Rightarrow> string option \<Rightarrow> 'a list \<Rightarrow> 'a list" where
  "session_filter f sessionId xs =
     (case sessionId of Some s \<Rightarrow> if truthy s then List.filter (\<lambda>x. f x = s) xs else xs | None \<Rightarrow> xs)"

definition listTasks :: "MultiPeerApi \<Rightarrow> string option \<Rightarrow> DharmaTaskContract list" where
  "listTasks api sessionId = session_filter tk_sessionId sessionId (map_values (mp_tasks api))"

definition getTask :: "MultiPeerApi \<Rightarrow> string \<Rightarrow> DharmaTaskContract option" where
  "getTask api taskId = map_get (mp_tasks api) taskId"

section \<open>Claims\<close>

definition claims_on :: "MultiPeerApi \<Rightarrow> string \<Rightarrow> DharmaTaskClaim list" where
  "claims_on api taskId = List.filter (\<lambda>c. kl_taskId c = taskId) (map_values (mp_claims api))"

definition claimTask ::
    "string \<Rightarrow> string \<Rightarrow> string \<Rightarrow> string \<Rightarrow> string \<Rightarrow> MultiPeerApi \<Rightarrow> (MultiPeerApi \<times> DharmaTaskClaim) result" where
  "claimTask now uuid taskId claimantIdentity claimantMembershipId api =
     (case map_get (mp_tasks api) taskId of
        None \<Rightarrow> Inl (''Task not found: '' @ taskId)
      | Some task \<Rightarrow>
          if \<not> isTaskClaimable task then Inl (''Task '' @ taskId @ '' is not available for claiming'')
          else case canClaimTask task (claims_on api taskId) of
            Some reason \<Rightarrow> Inl reason
          | None \<Rightarrow>
              let claim = createClaim now uuid taskId (tk_sessionId task) claimantIdentity claimantMembershipId
                    (tk_sourceBasisDigest task)
              in (case applyClaimAction (kl_status claim) CA_claim of
                    Inl e \<Rightarrow> Inl e
                  | Inr advanced \<Rightarrow>
                      let storedClaim = claim\<lparr>kl_status := advanced\<rparr>
                      in Inr (api\<lparr>mp_claims := map_set (kl_claimId storedClaim) storedClaim (mp_claims api),
                           mp_tasks := map_set taskId (tryAdvanceTask now task TA_claim) (mp_tasks api)\<rparr>, storedClaim)))"

definition releaseTaskClaim :: "string \<Rightarrow> MultiPeerApi \<Rightarrow> MultiPeerApi result" where
  "releaseTaskClaim claimId api =
     (case map_get (mp_claims api) claimId of
        None \<Rightarrow> Inl (''Claim not found: '' @ claimId)
      | Some claim \<Rightarrow>
          if \<not> isClaimActive claim then Inl (''Claim '' @ claimId @ '' is not active'')
          else case applyClaimAction (kl_status claim) CA_release of
            Inl e \<Rightarrow> Inl e
          | Inr newStatus \<Rightarrow> Inr (api\<lparr>mp_claims := map_set claimId (claim\<lparr>kl_status := newStatus\<rparr>) (mp_claims api)\<rparr>))"

definition getTaskClaim :: "MultiPeerApi \<Rightarrow> string \<Rightarrow> DharmaTaskClaim option" where
  "getTaskClaim api claimId = map_get (mp_claims api) claimId"

section \<open>Source packages\<close>

definition mp_createSourcePackage ::
    "millis \<Rightarrow> string \<Rightarrow> string \<Rightarrow> PackageRequest \<Rightarrow> MultiPeerApi \<Rightarrow> (MultiPeerApi \<times> SourceDisclosurePackage) result" where
  "mp_createSourcePackage in48h uuid basis config api =
     (let sessionId = nullish (sq_sessionId config) []; createdBy = nullish (sq_createdByIdentityPublicKey config) []
      in if \<not> truthy sessionId \<or> \<not> truthy createdBy
         then Inl ''sessionId and createdByIdentityPublicKey are required''
         else let pkg = createSourcePackage in48h uuid sessionId (nullish (sq_sourceBasisDigest config) basis)
                (nullish (sq_disclosureClass config) DX_full_snapshot) createdBy
                (Some (nullish (sq_intendedMembershipIds config) [])) (sq_sourceScope config);
              merged = pkg\<lparr>sp_encryptedPayloadReference :=
                  (case sq_encryptedPayloadReference config of None \<Rightarrow> sp_encryptedPayloadReference pkg | r \<Rightarrow> r),
                sp_artifactReferences := nullish (sq_artifactReferences config) (sp_artifactReferences pkg),
                sp_expiresAt := (case sq_expiresAt config of None \<Rightarrow> sp_expiresAt pkg | e \<Rightarrow> e),
                sp_signature := nullish (sq_signature config) (sp_signature pkg)\<rparr>
              in Inr (api\<lparr>mp_sourcePackages := map_set (sp_packageId merged) merged (mp_sourcePackages api)\<rparr>, merged))"

definition authorizeSourcePackage :: "string \<Rightarrow> string \<Rightarrow> MultiPeerApi \<Rightarrow> MultiPeerApi result" where
  "authorizeSourcePackage packageId membershipId api =
     (case map_get (mp_sourcePackages api) packageId of
        None \<Rightarrow> Inl (''Source package not found: '' @ packageId)
      | Some pkg \<Rightarrow>
          Inr (if List.member (sp_intendedMembershipIds pkg) membershipId then api
               else api\<lparr>mp_sourcePackages := map_set packageId
                 (pkg\<lparr>sp_intendedMembershipIds := sp_intendedMembershipIds pkg @ [membershipId]\<rparr>) (mp_sourcePackages api)\<rparr>))"

definition getSourcePackageManifest :: "MultiPeerApi \<Rightarrow> string \<Rightarrow> SourceDisclosurePackage option" where
  "getSourcePackageManifest api packageId = map_get (mp_sourcePackages api) packageId"

section \<open>Results\<close>

definition outcomes_of :: "MultiPeerApi \<Rightarrow> string \<Rightarrow> CanonicalSessionOutcome list" where
  "outcomes_of api sessionId = List.filter (\<lambda>x. oc_sessionId x = sessionId) (map_values (mp_canonicalOutcomes api))"

definition submitResultBundle ::
    "string \<Rightarrow> string \<Rightarrow> string \<Rightarrow> BundleRequest \<Rightarrow> MultiPeerApi \<Rightarrow> (MultiPeerApi \<times> SessionResultBundle) result" where
  "submitResultBundle now uuid conflictUuid config api =
     (let sessionId = nullish (ry_sessionId config) []; taskId = nullish (ry_taskId config) [];
          actorIdentity = nullish (ry_actorIdentityPublicKey config) []
      in if \<not> truthy sessionId \<or> \<not> truthy taskId \<or> \<not> truthy actorIdentity
         then Inl ''sessionId, taskId, and actorIdentityPublicKey are required''
         else
           let res = \<lparr>rb_resultId = uuid, rb_sessionId = sessionId, rb_taskId = taskId,
                 rb_actorIdentityPublicKey = actorIdentity,
                 rb_actorMembershipId = nullish (ry_actorMembershipId config) [],
                 rb_claimId = nullish (ry_claimId config) [],
                 rb_sourceBasisDigest = nullish (ry_sourceBasisDigest config) [],
                 rb_sourceDisclosurePackageId = nullish (ry_sourceDisclosurePackageId config) [],
                 rb_environmentDigest = nullish (ry_environmentDigest config) [],
                 rb_containmentProfileDigest = nullish (ry_containmentProfileDigest config) [],
                 rb_localSandboxAttestation = nullish (ry_localSandboxAttestation config) [],
                 rb_patchDigest = ry_patchDigest config,
                 rb_changedPathDigests = nullish (ry_changedPathDigests config) [],
                 rb_artifactDigests = nullish (ry_artifactDigests config) [],
                 rb_testReceiptDigests = nullish (ry_testReceiptDigests config) [],
                 rb_benchmarkReceiptDigests = nullish (ry_benchmarkReceiptDigests config) [],
                 rb_verificationSummary = nullish (ry_verificationSummary config) [],
                 rb_finalLocalWorkspaceDigest = nullish (ry_finalLocalWorkspaceDigest config) [],
                 rb_disclosureClass = nullish (ry_disclosureClass config) DX_full_snapshot,
                 rb_createdAt = now, rb_signature = nullish (ry_signature config) []\<rparr>;
               api = api\<lparr>mp_resultBundles := map_set (rb_resultId res) res (mp_resultBundles api)\<rparr>
           in (case map_get (mp_tasks api) taskId of
                 None \<Rightarrow> Inr (api, res)
               | Some task \<Rightarrow>
                   let updatedTask = tryAdvanceTask now (tryAdvanceTask now task TA_start) TA_submit_result;
                       api = api\<lparr>mp_tasks := map_set taskId updatedTask (mp_tasks api)\<rparr>
                   in (case detectConflict res (outcomes_of api sessionId) of
                         (None, _) \<Rightarrow> Inr (api, res)
                       | (Some kind, overlapping) \<Rightarrow>
                           let rec = createConflictRecord now conflictUuid sessionId taskId (rb_resultId res) None kind
                                 (rb_sourceBasisDigest res) [] (Some overlapping)
                           in Inr (api\<lparr>mp_conflicts := map_set (cn_conflictId rec) rec (mp_conflicts api)\<rparr>, res))))"

definition listResultBundles :: "MultiPeerApi \<Rightarrow> string option \<Rightarrow> SessionResultBundle list" where
  "listResultBundles api sessionId = session_filter rb_sessionId sessionId (map_values (mp_resultBundles api))"

definition verifyResultBundle :: "string \<Rightarrow> MultiPeerApi \<Rightarrow> string \<Rightarrow> ResultValidation result" where
  "verifyResultBundle now api resultId =
     (case map_get (mp_resultBundles api) resultId of
        None \<Rightarrow> Inl (''Result bundle not found: '' @ resultId)
      | Some bundle \<Rightarrow>
          let (state, reason) = (case map_get (mp_tasks api) (rb_taskId bundle) of
                None \<Rightarrow> (RV_pending_verification, Some ''Task not found for verification'')
              | Some task \<Rightarrow> validateResultBundle bundle task)
          in Inr \<lparr>rv_resultId = resultId, rv_validationState = state, rv_validationReason = reason,
               rv_policyDigest = None, rv_validatorVersion = 1, rv_validatedAt = now\<rparr>)"

definition advance_bundle_task :: "string \<Rightarrow> TaskAction \<Rightarrow> SessionResultBundle \<Rightarrow> MultiPeerApi \<Rightarrow> MultiPeerApi" where
  "advance_bundle_task now action bundle api =
     (case map_get (mp_tasks api) (rb_taskId bundle) of
        None \<Rightarrow> api
      | Some task \<Rightarrow> api\<lparr>mp_tasks := map_set (rb_taskId bundle) (tryAdvanceTask now task action) (mp_tasks api)\<rparr>)"

definition acceptResultBundle ::
    "string \<Rightarrow> string \<Rightarrow> string \<Rightarrow> string \<Rightarrow> MultiPeerApi \<Rightarrow> (MultiPeerApi \<times> CanonicalSessionOutcome result) option" where
  "acceptResultBundle now uuid resultId acceptedBy api =
     (case map_get (mp_resultBundles api) resultId of
        None \<Rightarrow> Some (api, Inl (''Result bundle not found: '' @ resultId))
      | Some bundle \<Rightarrow>
          let api = advance_bundle_task now TA_accept bundle api
          in (case getOutcomeChain (outcomes_of api (rb_sessionId bundle)) of
                None \<Rightarrow> None
              | Some ordered \<Rightarrow>
                  let outcome = (if length ordered > 0
                        then createNextOutcome now uuid (last ordered) resultId acceptedBy
                          (rb_finalLocalWorkspaceDigest bundle) (Some (rb_changedPathDigests bundle))
                        else Inr (createFirstOutcome now uuid (rb_sessionId bundle) resultId acceptedBy
                          (rb_sourceBasisDigest bundle) (rb_finalLocalWorkspaceDigest bundle)
                          (Some (rb_changedPathDigests bundle))))
                  in Some (case outcome of
                       Inl e \<Rightarrow> (api, Inl e)
                     | Inr x \<Rightarrow> (api\<lparr>mp_canonicalOutcomes := map_set (oc_outcomeId x) x (mp_canonicalOutcomes api)\<rparr>, Inr x))))"

definition rejectResultBundle :: "string \<Rightarrow> string \<Rightarrow> MultiPeerApi \<Rightarrow> MultiPeerApi result" where
  "rejectResultBundle now resultId api =
     (case map_get (mp_resultBundles api) resultId of
        None \<Rightarrow> Inl (''Result bundle not found: '' @ resultId)
      | Some bundle \<Rightarrow> Inr (advance_bundle_task now TA_reject bundle api))"

section \<open>Conflicts, artifacts, outcomes\<close>

definition listConflicts :: "MultiPeerApi \<Rightarrow> string option \<Rightarrow> SessionResultConflict list" where
  "listConflicts api sessionId = session_filter cn_sessionId sessionId (map_values (mp_conflicts api))"

definition mp_resolveConflict :: "string \<Rightarrow> string \<Rightarrow> ConflictResolution \<Rightarrow> MultiPeerApi \<Rightarrow> MultiPeerApi result" where
  "mp_resolveConflict now conflictId resolution api =
     (case map_get (mp_conflicts api) conflictId of
        None \<Rightarrow> Inl (''Conflict not found: '' @ conflictId)
      | Some conflict \<Rightarrow>
          (case resolveConflict now conflict resolution of
             Inl e \<Rightarrow> Inl e
           | Inr resolved \<Rightarrow> Inr (api\<lparr>mp_conflicts := map_set conflictId resolved (mp_conflicts api)\<rparr>)))"

definition requestRebase :: "string \<Rightarrow> string \<Rightarrow> MultiPeerApi \<Rightarrow> MultiPeerApi result" where
  "requestRebase now conflictId = mp_resolveConflict now conflictId RZ_rebase"

definition requestArtifactAccess ::
    "string \<Rightarrow> string \<Rightarrow> string \<Rightarrow> string \<Rightarrow> MultiPeerApi \<Rightarrow> MultiPeerApi \<times> ArtifactAccessRequest" where
  "requestArtifactAccess now uuid artifactDigest requesterMembershipId api =
     (let request = createAccessRequest now uuid [] artifactDigest requesterMembershipId (Some ''result verification'')
      in (api\<lparr>mp_artifactRequests := map_set (ar_requestId request) request (mp_artifactRequests api)\<rparr>, request))"

definition decideArtifactAccess ::
    "string \<Rightarrow> string \<Rightarrow> string \<Rightarrow> string \<Rightarrow> MultiPeerApi \<Rightarrow> (MultiPeerApi \<times> ArtifactAccessDecision) result" where
  "decideArtifactAccess uuid requestId decision decidedBy api =
     (case map_get (mp_artifactRequests api) requestId of
        None \<Rightarrow> Inl (''Access request not found: '' @ requestId)
      | Some req \<Rightarrow>
          let isGranted = (decision = ''granted'' \<or> decision = ''approved'');
              res = createAccessDecision requestId isGranted decidedBy (if isGranted then Some uuid else None) None
          in Inr (api\<lparr>mp_artifactDecisions := map_set (ac_requestId res) res (mp_artifactDecisions api)\<rparr>, res))"

definition getCanonicalOutcome :: "MultiPeerApi \<Rightarrow> string \<Rightarrow> CanonicalSessionOutcome option option" where
  "getCanonicalOutcome api sessionId =
     (case getOutcomeChain (outcomes_of api sessionId) of
        None \<Rightarrow> None
      | Some ordered \<Rightarrow> Some (if length ordered > 0 then Some (last ordered) else None))"

definition getCanonicalOutcomeHistory :: "MultiPeerApi \<Rightarrow> string \<Rightarrow> CanonicalSessionOutcome list option" where
  "getCanonicalOutcomeHistory api sessionId = getOutcomeChain (outcomes_of api sessionId)"

section \<open>Runs\<close>

text \<open>The random identifiers of new entries are fresh.\<close>

inductive peer_step :: "MultiPeerApi \<Rightarrow> MultiPeerApi \<Rightarrow> bool" where
  ps_task: "mp_createTask now uuid basis tcfg api = Inr (api', t) \<Longrightarrow> map_get (mp_tasks api) uuid = None \<Longrightarrow>
     peer_step api api'"
| ps_publish: "publishTask now tid api = Inr api' \<Longrightarrow> peer_step api api'"
| ps_cancel: "cancelTask now tid api = Inr api' \<Longrightarrow> peer_step api api'"
| ps_claim: "claimTask now uuid tid who mem api = Inr (api', c) \<Longrightarrow> map_get (mp_claims api) uuid = None \<Longrightarrow> peer_step api api'"
| ps_release: "releaseTaskClaim cid api = Inr api' \<Longrightarrow> peer_step api api'"
| ps_package: "mp_createSourcePackage in48h uuid basis scfg api = Inr (api', p) \<Longrightarrow> peer_step api api'"
| ps_authorize: "authorizeSourcePackage pid mem api = Inr api' \<Longrightarrow> peer_step api api'"
| ps_submit: "submitResultBundle now uuid cuuid bcfg api = Inr (api', r) \<Longrightarrow> peer_step api api'"
| ps_accept: "acceptResultBundle now uuid rid who api = Some (api', x) \<Longrightarrow> peer_step api api'"
| ps_reject: "rejectResultBundle now rid api = Inr api' \<Longrightarrow> peer_step api api'"
| ps_resolve: "mp_resolveConflict now cid res api = Inr api' \<Longrightarrow> peer_step api api'"
| ps_request: "peer_step api (fst (requestArtifactAccess now uuid ad mem api))"
| ps_decide: "decideArtifactAccess uuid rid d who api = Inr (api', dec) \<Longrightarrow> peer_step api api'"

abbreviation peer_reach :: "MultiPeerApi \<Rightarrow> bool" where
  "peer_reach \<equiv> peer_step\<^sup>*\<^sup>* new_peer_api"

section \<open>One claim per task\<close>

text \<open>The statuses before a claim.  No task comes back to them.\<close>

definition unclaimed :: "TaskStatus \<Rightarrow> bool" where
  "unclaimed s \<longleftrightarrow> s \<in> {TT_draft, TT_published, TT_available}"

lemma advance_unclaimed: "unclaimed (tk_status (tryAdvanceTask now t a)) \<Longrightarrow> unclaimed (tk_status t)"
proof (cases "applyTaskAction (tk_status t) a")
  case (Inr n)
  assume u: "unclaimed (tk_status (tryAdvanceTask now t a))"
  from Inr have "n \<in> set (VALID_TASK_TRANSITIONS (tk_status t))" by (rule task_fsm.app_sound)
  with u Inr show ?thesis by (cases "tk_status t") (auto simp: unclaimed_def tryAdvanceTask_def)
qed (simp add: tryAdvanceTask_def)

definition claims_ok :: "MultiPeerApi \<Rightarrow> bool" where
  "claims_ok api \<longleftrightarrow> map_inv (mp_claims api) \<and>
     (\<forall>tid. length (claims_on api tid) \<le> 1) \<and>
     (\<forall>tid t. map_get (mp_tasks api) tid = Some t \<longrightarrow> unclaimed (tk_status t) \<longrightarrow> claims_on api tid = []) \<and>
     (\<forall>c\<in>set (map_values (mp_claims api)). map_get (mp_tasks api) (kl_taskId c) \<noteq> None)"

lemma claims_on_unknown: "claims_ok api \<Longrightarrow> map_get (mp_tasks api) tid = None \<Longrightarrow> claims_on api tid = []"
  by (auto simp: claims_ok_def claims_on_def filter_empty_conv)

lemma claims_ok_task:
  assumes "claims_ok api" and "mp_claims api' = mp_claims api"
    and "mp_tasks api' = map_set tid t' (mp_tasks api)"
    and "case map_get (mp_tasks api) tid of None \<Rightarrow> True | Some t \<Rightarrow> unclaimed (tk_status t') \<longrightarrow> unclaimed (tk_status t)"
  shows "claims_ok api'"
proof -
  have on: "claims_on api' = claims_on api" using assms(2) by (simp add: claims_on_def fun_eq_iff)
  show ?thesis using assms claims_on_unknown [OF assms(1), of tid]
    by (auto simp: claims_ok_def on split: option.splits if_splits)
qed

lemma claims_ok_same: "claims_ok api \<Longrightarrow> mp_claims api' = mp_claims api \<Longrightarrow> mp_tasks api' = mp_tasks api \<Longrightarrow> claims_ok api'"
  by (simp add: claims_ok_def claims_on_def)

lemma filter_map_set:
  assumes "map_inv m" "map_get m k = Some c" "P c' = P c"
  shows "length (List.filter P (map_values (map_set k c' m))) = length (List.filter P (map_values m))"
  using assms
proof (induction m)
  case (Cons e m)
  show ?case
  proof (cases "fst e = k")
    case True
    with Cons.prems show ?thesis by (cases e) (simp add: map_values_def map_get_def)
  next
    case False
    with Cons show ?thesis by (cases e) (simp add: map_values_def map_get_def)
  qed
qed (simp add: map_get_def)

lemma map_values_new: "map_get m k = None \<Longrightarrow> map_values (map_set k v m) = map_values m @ [v]"
  by (induction m) (auto simp: map_values_def map_get_def split: if_splits)

lemma claims_ok_claim:
  assumes ok: "claims_ok api" and c: "claimTask now uuid tid who mem api = Inr (api', c)"
    and new: "map_get (mp_claims api) uuid = None"
  shows "claims_ok api'"
proof -
  from c obtain t where t: "map_get (mp_tasks api) tid = Some t" "isTaskClaimable t" "kl_taskId c = tid"
    and api': "mp_claims api' = map_set uuid c (mp_claims api)"
      "mp_tasks api' = map_set tid (tryAdvanceTask now t TA_claim) (mp_tasks api)"
    by (auto simp: claimTask_def createClaim_def Let_def split: option.splits if_splits sum.splits)
  from t(2) have avail: "tk_status t = TT_available" by (simp add: isTaskClaimable_def split: if_splits)
  then have "tk_status (tryAdvanceTask now t TA_claim) = TT_claimed" by (simp add: tryAdvanceTask_def applyTaskAction_def)
  then have claimed: "\<not> unclaimed (tk_status (tryAdvanceTask now t TA_claim))" by (simp add: unclaimed_def)
  have none: "claims_on api tid = []" using ok t(1) avail by (auto simp: claims_ok_def unclaimed_def)
  have on: "claims_on api' x = (if x = tid then [c] else claims_on api x)" for x
    using map_values_new [OF new, of c] none t(3) by (auto simp: claims_on_def api'(1))
  show ?thesis
    unfolding claims_ok_def on api' using ok claimed t map_values_new [OF new, of c]
    by (auto simp: claims_ok_def)
qed

lemma claims_ok_release:
  assumes ok: "claims_ok api" and r: "releaseTaskClaim cid api = Inr api'"
  shows "claims_ok api'"
proof -
  from r obtain c n where c: "map_get (mp_claims api) cid = Some c"
    and api': "api' = api\<lparr>mp_claims := map_set cid (c\<lparr>kl_status := n\<rparr>) (mp_claims api)\<rparr>"
    by (auto simp: releaseTaskClaim_def split: option.splits if_splits sum.splits)
  have inv: "map_inv (mp_claims api)" using ok by (simp add: claims_ok_def)
  have len: "length (claims_on api' x) = length (claims_on api x)" for x
    unfolding claims_on_def api' using filter_map_set [OF inv c, of "\<lambda>c. kl_taskId c = x" "c\<lparr>kl_status := n\<rparr>"] by simp
  have "c \<in> set (map_values (mp_claims api))" using c inv by (auto simp: map_values_iff)
  then have known: "map_get (mp_tasks api) (kl_taskId c) \<noteq> None" using ok by (simp add: claims_ok_def)
  have "map_get (mp_tasks api) (kl_taskId d) \<noteq> None" if "d \<in> set (map_values (mp_claims api'))" for d
  proof (cases "d = c\<lparr>kl_status := n\<rparr>")
    case False
    with that have "d \<in> set (map_values (mp_claims api))"
      using set_map_set [of cid "c\<lparr>kl_status := n\<rparr>" "mp_claims api"] by (auto simp: map_values_def api')
    then show ?thesis using ok by (simp add: claims_ok_def)
  qed (simp add: known del: not_None_eq)
  moreover have "claims_on api' tid = []" if "claims_on api tid = []" for tid
    using len [of tid] that by simp
  moreover have "map_inv (mp_claims api')" "mp_tasks api' = mp_tasks api" using inv by (simp_all add: api')
  ultimately show ?thesis using ok unfolding claims_ok_def by (simp add: len)
qed

lemma advance_bundle_task_claims:
  "mp_claims (advance_bundle_task now a b api) = mp_claims api"
  "mp_canonicalOutcomes (advance_bundle_task now a b api) = mp_canonicalOutcomes api"
  "mp_resultBundles (advance_bundle_task now a b api) = mp_resultBundles api"
  by (simp_all add: advance_bundle_task_def split: option.splits)

lemma claims_ok_advance: "claims_ok api \<Longrightarrow> claims_ok (advance_bundle_task now a b api)"
proof (cases "map_get (mp_tasks api) (rb_taskId b)")
  case (Some t)
  assume "claims_ok api"
  then show ?thesis
    by (rule claims_ok_task [where tid = "rb_taskId b" and t' = "tryAdvanceTask now t a"])
       (auto simp: advance_bundle_task_def Some dest!: advance_unclaimed)
qed (simp add: advance_bundle_task_def)

lemma tk_taskId_request: "tk_taskId (task_of_request now uuid basis config) = uuid"
  by (simp add: task_of_request_def createTask_def Let_def)

lemma claims_ok_step: "peer_step api api' \<Longrightarrow> claims_ok api \<Longrightarrow> claims_ok api'"
proof (induction rule: peer_step.induct)
  case (ps_task now uuid basis tcfg api api' t)
  then have "mp_claims api' = mp_claims api" "mp_tasks api' = map_set uuid t (mp_tasks api)"
    by (auto simp: mp_createTask_def tk_taskId_request Let_def split: if_splits)
  from claims_ok_task [OF ps_task.prems this] ps_task.hyps(2) show ?case by simp
next
  case (ps_publish now tid api api')
  then obtain t where t: "map_get (mp_tasks api) tid = Some t" "mp_claims api' = mp_claims api"
    "mp_tasks api' = map_set tid (tryAdvanceTask now (tryAdvanceTask now t TA_publish) TA_make_available) (mp_tasks api)"
    by (auto simp: publishTask_def Let_def split: option.splits)
  show ?case by (rule claims_ok_task [OF ps_publish.prems t(2,3)]) (auto simp: t(1) dest!: advance_unclaimed)
next
  case (ps_cancel now tid api api')
  then obtain t where t: "map_get (mp_tasks api) tid = Some t" "mp_claims api' = mp_claims api"
    "mp_tasks api' = map_set tid (tryAdvanceTask now t TA_cancel) (mp_tasks api)"
    by (auto simp: cancelTask_def Let_def split: option.splits)
  show ?case by (rule claims_ok_task [OF ps_cancel.prems t(2,3)]) (auto simp: t(1) dest!: advance_unclaimed)
next
  case (ps_claim now uuid tid who mem api api' c)
  then show ?case by (rule claims_ok_claim [rotated])
next
  case (ps_release cid api api')
  then show ?case by (rule claims_ok_release [rotated])
next
  case (ps_submit now uuid cuuid bcfg api api' r)
  show ?case
  proof (cases "map_get (mp_tasks api) (nullish (ry_taskId bcfg) [])")
    case None
    with ps_submit(1) have "mp_claims api' = mp_claims api" "mp_tasks api' = mp_tasks api"
      by (auto simp: submitResultBundle_def Let_def split: if_splits)
    then show ?thesis by (rule claims_ok_same [OF ps_submit.prems])
  next
    case (Some t)
    with ps_submit(1) have t: "mp_claims api' = mp_claims api" "mp_tasks api' = map_set (nullish (ry_taskId bcfg) [])
       (tryAdvanceTask now (tryAdvanceTask now t TA_start) TA_submit_result) (mp_tasks api)"
      by (auto simp: submitResultBundle_def Let_def split: if_splits prod.splits option.splits)
    show ?thesis by (rule claims_ok_task [OF ps_submit.prems t]) (auto simp: Some dest!: advance_unclaimed)
  qed
next
  case (ps_accept now uuid rid who api api' x)
  from ps_accept(1) consider "mp_claims api' = mp_claims api" "mp_tasks api' = mp_tasks api"
    | b where "mp_claims api' = mp_claims api" "mp_tasks api' = mp_tasks (advance_bundle_task now TA_accept b api)"
    by (cases "map_get (mp_resultBundles api) rid")
       (auto simp: acceptResultBundle_def Let_def advance_bundle_task_claims split: option.splits sum.splits)
  then show ?case
  proof cases
    case 1
    then show ?thesis by (intro claims_ok_same [OF ps_accept(2)])
  next
    case (2 b)
    show ?thesis
      by (rule claims_ok_same [OF claims_ok_advance [OF ps_accept(2)] _ 2(2)]) (simp add: 2(1) advance_bundle_task_claims)
  qed
next
  case (ps_reject now rid api api')
  then show ?case by (auto simp: rejectResultBundle_def split: option.splits intro: claims_ok_advance)
qed (auto simp: mp_createSourcePackage_def authorizeSourcePackage_def mp_resolveConflict_def requestArtifactAccess_def
    decideArtifactAccess_def Let_def split: option.splits if_splits sum.splits intro: claims_ok_same)

lemma claims_ok_reach: "peer_reach api \<Longrightarrow> claims_ok api"
proof (induction rule: rtranclp_induct)
  case base
  show ?case by (simp add: claims_ok_def claims_on_def new_peer_api_def map_values_def)
qed (rule claims_ok_step)

lemma claimed_not_claimable:
  assumes "claims_ok api" "claims_on api tid \<noteq> []"
  shows "\<exists>e. claimTask now uuid tid who mem api = Inl e"
proof (cases "map_get (mp_tasks api) tid")
  case (Some t)
  with assms have "\<not> unclaimed (tk_status t)" by (auto simp: claims_ok_def)
  then have "\<not> isTaskClaimable t" by (auto simp: isTaskClaimable_def unclaimed_def)
  with Some show ?thesis by (simp add: claimTask_def)
qed (simp add: claimTask_def)

text \<open>
  C8: no task is ever claimed twice.  In every reachable state a task has at most one claim, whatever its
  parallelism and its maximal number of contributors, and once it has one every further attempt to claim
  it is an error, also after the claim was released.
\<close>

theorem one_claim_per_task:
  assumes "peer_reach api"
  shows "length (claims_on api tid) \<le> 1 \<and>
    (claims_on api tid \<noteq> [] \<longrightarrow> (\<exists>e. claimTask now uuid tid who mem api = Inl e))"
  using claims_ok_reach [OF assms] claimed_not_claimable by (simp add: claims_ok_def)

definition sample_task :: TaskRequest where
  "sample_task =
     \<lparr>tx_sessionId = Some ''s'', tx_createdByIdentityPublicKey = Some ''k'', tx_title = Some ''t'', tx_taskKind = None,
      tx_sourceBasisDigest = Some ''b'', tx_parallelism = Some TP_parallel_competing, tx_allowedPathScopes = None,
      tx_summary = None, tx_deniedPathScopes = None, tx_expectedArtifactClasses = None,
      tx_verificationContract = None, tx_acceptancePolicy = None, tx_requiredCapabilities = None,
      tx_assignedMembershipIds = None, tx_maxContributors = None, tx_maxResultBundles = None,
      tx_claimDeadline = None, tx_completionDeadline = None, tx_status = Some TT_available, tx_signature = None\<rparr>"

theorem one_claim_per_task_witness:
  "(\<exists>api c. peer_reach api \<and> claims_on api ''t1'' = [c] \<and>
     (\<exists>e. claimTask ''now'' ''c2'' ''t1'' ''w'' ''m'' api = Inl e))"
proof -
  define t where "t = task_of_request ''now'' ''t1'' ''b'' sample_task"
  define a where "a = new_peer_api\<lparr>mp_tasks := [(''t1'', t)]\<rparr>"
  have id: "tk_taskId t = ''t1''" by (simp add: t_def tk_taskId_request)
  have avail: "tk_status t = TT_available" "tk_maxContributors t = 3" "tk_parallelism t = TP_parallel_competing"
    by (simp_all add: t_def task_of_request_def sample_task_def createTask_def Let_def)
  have "tx_sessionId sample_task = Some ''s''" "tx_createdByIdentityPublicKey sample_task = Some ''k''"
    "tx_title sample_task = Some ''t''" by (simp_all add: sample_task_def)
  then have "mp_createTask ''now'' ''t1'' ''b'' sample_task new_peer_api = Inr (a, t)"
    by (simp add: mp_createTask_def Let_def id a_def new_peer_api_def flip: t_def)
  then have s1: "peer_step new_peer_api a" by (rule ps_task) (simp add: new_peer_api_def)
  define c where "c = (createClaim ''now'' ''c1'' ''t1'' (tk_sessionId t) ''v'' ''m'' (tk_sourceBasisDigest t))\<lparr>kl_status := CT_claimed\<rparr>"
  define b where "b = a\<lparr>mp_claims := [(''c1'', c)], mp_tasks := [(''t1'', tryAdvanceTask ''now'' t TA_claim)]\<rparr>"
  have "claimTask ''now'' ''c1'' ''t1'' ''v'' ''m'' a = Inr (b, c)"
    using avail by (simp add: claimTask_def a_def b_def c_def new_peer_api_def map_get_def isTaskClaimable_def canClaimTask_def
        claims_on_def map_values_def createClaim_def applyClaimAction_def Let_def)
  then have s2: "peer_step a b" by (rule ps_claim) (simp add: a_def new_peer_api_def)
  have r: "peer_reach b" using s1 s2 by (rule converse_rtranclp_into_rtranclp [OF _ r_into_rtranclp])
  have on: "claims_on b ''t1'' = [c]" by (simp add: claims_on_def b_def map_values_def c_def createClaim_def)
  from one_claim_per_task [OF r, of "''t1''" "''now''" "''c2''" "''w''" "''m''"] r on show ?thesis by auto
qed

section \<open>Accepting twice\<close>

lemma outcomes_of_new:
  "map_get (mp_canonicalOutcomes api) u = None \<Longrightarrow>
     outcomes_of (api\<lparr>mp_canonicalOutcomes := map_set u x (mp_canonicalOutcomes api)\<rparr>) sid =
     outcomes_of api sid @ (if oc_sessionId x = sid then [x] else [])"
  using map_values_new [of "mp_canonicalOutcomes api" u x] by (simp add: outcomes_of_def)

lemma outcomes_of_advance [simp]: "outcomes_of (advance_bundle_task now a b api) sid = outcomes_of api sid"
  by (simp add: outcomes_of_def advance_bundle_task_claims)

lemma chain_single: "oc_parentOutcomeDigest x = None \<Longrightarrow> getOutcomeChain [x] = Some [x]"
  by (simp add: getOutcomeChain_def chain_loop.simps child_of_def)

lemma chain_self_loop:
  assumes "oc_parentOutcomeDigest x = None" "oc_parentOutcomeDigest y = Some d"
    "oc_canonicalOutcomeDigest x = d" "oc_canonicalOutcomeDigest y = d"
  shows "getOutcomeChain (x # y # zs) = None"
proof -
  have "child_of (x # y # zs) x = Some y" "child_of (x # y # zs) y = Some y" using assms by (simp_all add: child_of_def)
  then show ?thesis using assms chain_loop_diverges [of "x # y # zs" y]
    by (simp add: getOutcomeChain_def chain_loop.simps [of _ x])
qed

text \<open>
  Accepting a result twice hangs the service.  Take a submitted result of a session without outcomes.
  Accepting it twice succeeds; when its workspace digest is not empty, the second outcome is its own
  parent, after which the history of the session and every further acceptance in it never return.  When
  the digest is empty, the second acceptance is refused instead.
\<close>

theorem accepting_twice_hangs:
  assumes "map_get (mp_resultBundles api) rid = Some b" and "outcomes_of api (rb_sessionId b) = []"
    and "map_get (mp_canonicalOutcomes api) u = None" and "map_get (mp_canonicalOutcomes api) v = None" and "u \<noteq> v"
  shows "\<exists>a x. acceptResultBundle n u rid w api = Some (a, Inr x) \<and>
    (if rb_finalLocalWorkspaceDigest b = [] then \<exists>a' e. acceptResultBundle n' v rid w' a = Some (a', Inl e)
     else \<exists>a' y. acceptResultBundle n' v rid w' a = Some (a', Inr y) \<and>
       getCanonicalOutcomeHistory a' (rb_sessionId b) = None \<and> acceptResultBundle n'' z rid w'' a' = None)"
proof -
  define d where "d = rb_finalLocalWorkspaceDigest b"
  define x where "x = createFirstOutcome n u (rb_sessionId b) rid w (rb_sourceBasisDigest b) d (Some (rb_changedPathDigests b))"
  define a where "a = (advance_bundle_task n TA_accept b api)\<lparr>mp_canonicalOutcomes := map_set u x (mp_canonicalOutcomes api)\<rparr>"
  have x: "oc_outcomeId x = u" "oc_sessionId x = rb_sessionId b" "oc_parentOutcomeDigest x = None" "oc_canonicalOutcomeDigest x = d"
    by (simp_all add: x_def createFirstOutcome_def)
  have acc: "acceptResultBundle n u rid w api = Some (a, Inr x)"
    using assms(1,2) x(1)
    by (simp add: acceptResultBundle_def getOutcomeChain_def a_def advance_bundle_task_claims x_def [symmetric] flip: d_def)
  have a: "map_get (mp_resultBundles a) rid = Some b" "mp_canonicalOutcomes a = map_set u x (mp_canonicalOutcomes api)"
    using assms(1) by (simp_all add: a_def advance_bundle_task_claims)
  have oa: "outcomes_of a (rb_sessionId b) = [x]"
    using assms(2,3) x(2) map_values_new [of "mp_canonicalOutcomes api" u x] by (simp add: outcomes_of_def a(2))
  show ?thesis
  proof (cases "d = []")
    case True
    have "\<exists>a' e. acceptResultBundle n' v rid w' a = Some (a', Inl e)"
      using a(1) oa x True by (simp add: acceptResultBundle_def chain_single createNextOutcome_def)
    with acc True show ?thesis by (auto simp: d_def)
  next
    case False
    define y where "y = projr (createNextOutcome n' v x rid w' d (Some (rb_changedPathDigests b)))"
    define a' where "a' = (advance_bundle_task n' TA_accept b a)\<lparr>mp_canonicalOutcomes := map_set v y (mp_canonicalOutcomes a)\<rparr>"
    have nxt: "createNextOutcome n' v x rid w' d (Some (rb_changedPathDigests b)) = Inr y"
      using False x(4) by (simp add: y_def createNextOutcome_def)
    have y: "oc_outcomeId y = v" "oc_sessionId y = rb_sessionId b" "oc_parentOutcomeDigest y = Some d" "oc_canonicalOutcomeDigest y = d"
      using False x by (simp_all add: y_def createNextOutcome_def)
    have acc2: "acceptResultBundle n' v rid w' a = Some (a', Inr y)"
      using a(1) oa x(3) nxt y(1)
      by (simp add: acceptResultBundle_def chain_single a'_def advance_bundle_task_claims flip: d_def)
    have fresh: "map_get (mp_canonicalOutcomes a) v = None" using assms(4,5) by (simp add: a(2))
    have "outcomes_of a' (rb_sessionId b) = [x, y]"
      using oa y(2) map_values_new [OF fresh, of y] by (simp add: outcomes_of_def a'_def)
    then have none: "getOutcomeChain (outcomes_of a' (rb_sessionId b)) = None"
      using chain_self_loop [of x y d "[]"] x y by simp
    moreover have "map_get (mp_resultBundles a') rid = Some b" using a(1) by (simp add: a'_def advance_bundle_task_claims)
    ultimately have "getCanonicalOutcomeHistory a' (rb_sessionId b) = None \<and> acceptResultBundle n'' z rid w'' a' = None"
      by (simp add: getCanonicalOutcomeHistory_def acceptResultBundle_def)
    with acc acc2 False show ?thesis by (auto simp: d_def)
  qed
qed

definition sample_bundle :: SessionResultBundle where
  "sample_bundle =
     \<lparr>rb_resultId = ''r'', rb_sessionId = ''s'', rb_taskId = ''t'', rb_actorIdentityPublicKey = ''k'',
      rb_actorMembershipId = [], rb_claimId = [], rb_sourceBasisDigest = ''b'', rb_sourceDisclosurePackageId = [],
      rb_environmentDigest = [], rb_containmentProfileDigest = [], rb_localSandboxAttestation = [],
      rb_patchDigest = None, rb_changedPathDigests = [], rb_artifactDigests = [], rb_testReceiptDigests = [],
      rb_benchmarkReceiptDigests = [], rb_verificationSummary = ''attested'',
      rb_finalLocalWorkspaceDigest = ''d'', rb_disclosureClass = DX_full_snapshot, rb_createdAt = ''now'',
      rb_signature = []\<rparr>"

theorem accepting_twice_hangs_witness:
  "(\<exists>a x a' y. acceptResultBundle ''n'' ''u'' ''r'' ''w'' (new_peer_api\<lparr>mp_resultBundles := [(''r'', sample_bundle)]\<rparr>) =
       Some (a, Inr x) \<and> acceptResultBundle ''n'' ''v'' ''r'' ''w'' a = Some (a', Inr y) \<and>
       getCanonicalOutcomeHistory a' ''s'' = None)"
proof -
  define api where "api = new_peer_api\<lparr>mp_resultBundles := [(''r'', sample_bundle)]\<rparr>"
  have "map_get (mp_resultBundles api) ''r'' = Some sample_bundle" by (simp add: api_def map_get_def)
  moreover have "outcomes_of api (rb_sessionId sample_bundle) = []"
    by (simp add: api_def outcomes_of_def new_peer_api_def map_values_def)
  moreover have "map_get (mp_canonicalOutcomes api) u = None" for u by (simp add: api_def new_peer_api_def)
  ultimately have "\<exists>a x. acceptResultBundle ''n'' ''u'' ''r'' ''w'' api = Some (a, Inr x) \<and>
    (if rb_finalLocalWorkspaceDigest sample_bundle = [] then \<exists>a' e. acceptResultBundle ''n'' ''v'' ''r'' ''w'' a = Some (a', Inl e)
     else \<exists>a' y. acceptResultBundle ''n'' ''v'' ''r'' ''w'' a = Some (a', Inr y) \<and>
       getCanonicalOutcomeHistory a' (rb_sessionId sample_bundle) = None \<and> acceptResultBundle ''n'' ''z'' ''r'' ''w'' a' = None)"
    by (intro accepting_twice_hangs) simp_all
  moreover have "rb_finalLocalWorkspaceDigest sample_bundle \<noteq> []" "rb_sessionId sample_bundle = ''s''"
    by (simp_all add: sample_bundle_def)
  ultimately show ?thesis unfolding api_def by auto
qed

end
