(* ===== verification/Agent_Text.thy ===== *)
theory Agent_Text imports Js_Text begin

text \<open>
  Texts of the agent's tools.  A text is a list of UTF-16 code units, so that byte order marks,
  typographic quotes and no-break spaces are what the sources test for; \<open>lit\<close> turns an ASCII literal
  into a text.  The string methods are those of JavaScript: \<open>trim\<close> with its white space, \<open>split\<close> and
  \<open>join\<close> at line ends, \<open>indexOf\<close>, \<open>lastIndexOf\<close>, \<open>substring\<close> and \<open>replaceAll\<close>, whose replacement is a
  template in which a dollar sign introduces a pattern.  \<open>None\<close> is an index of -1.
\<close>

type_synonym utext = "nat list"

definition lit :: "string \<Rightarrow> utext" where
  "lit s = List.map of_char s"

lemma length_lit [simp]: "length (lit s) = length s"
  by (simp add: lit_def)

section \<open>White space and lines\<close>

definition js_space :: "nat \<Rightarrow> bool" where
  "js_space c \<longleftrightarrow> (9 \<le> c \<and> c \<le> 13) \<or> c = 32 \<or> c = 160 \<or> c = 5760 \<or> (8192 \<le> c \<and> c \<le> 8202) \<or>
     c = 8232 \<or> c = 8233 \<or> c = 8239 \<or> c = 8287 \<or> c = 12288 \<or> c = 65279"

definition trimEnd :: "utext \<Rightarrow> utext" where
  "trimEnd s = rev (dropWhile js_space (rev s))"

definition trim :: "utext \<Rightarrow> utext" where
  "trim s = trimEnd (dropWhile js_space s)"

abbreviation lines_of :: "utext \<Rightarrow> utext list" where
  "lines_of s \<equiv> split_on 10 s"

abbreviation join_lines :: "utext list \<Rightarrow> utext" where
  "join_lines ls \<equiv> js_join [10] ls"

lemma js_space_newline [simp]: "js_space 10" "js_space 32" "js_space 13" "js_space 9"
  by (simp_all add: js_space_def)

lemma trim_Nil [simp]: "trim [] = []"
  by (simp add: trim_def trimEnd_def)

lemma set_trim: "set (trim s) \<subseteq> set s"
  by (auto simp: trim_def trimEnd_def dest!: set_dropWhileD)

lemma trim_space_Cons [simp]: "js_space c \<Longrightarrow> trim (c # s) = trim s"
  by (simp add: trim_def)

lemma dropWhile_fixed: "dropWhile P s = s \<longleftrightarrow> s = [] \<or> \<not> P (hd s)"
proof (cases s)
  case (Cons c r)
  have "dropWhile P r \<noteq> c # r" using length_dropWhile_le [of P r] by (metis impossible_Cons)
  with Cons show ?thesis by simp
qed simp

lemma trimEnd_fixed: "trimEnd s = s \<longleftrightarrow> s = [] \<or> \<not> js_space (last s)"
  using dropWhile_fixed [of js_space "rev s"] by (auto simp: trimEnd_def hd_rev rev_swap)

lemma length_trimEnd: "length (trimEnd s) \<le> length s"
  by (metis trimEnd_def length_dropWhile_le length_rev)

lemma dropWhile_length_fixed: "length (dropWhile P s) = length s \<Longrightarrow> dropWhile P s = s"
  by (metis append_self_conv2 length_append length_0_conv add_cancel_left_left takeWhile_dropWhile_id)

lemma trim_fixed: "trim s = s \<longleftrightarrow> s = [] \<or> (\<not> js_space (hd s) \<and> \<not> js_space (last s))"
proof
  assume t: "trim s = s"
  have "length s \<le> length (dropWhile js_space s)"
    using length_trimEnd [of "dropWhile js_space s"] t by (simp add: trim_def)
  then have "length (dropWhile js_space s) = length s" using length_dropWhile_le [of js_space s] by simp
  then have d: "dropWhile js_space s = s" by (rule dropWhile_length_fixed)
  with t have "trimEnd s = s" by (simp add: trim_def)
  with d show "s = [] \<or> (\<not> js_space (hd s) \<and> \<not> js_space (last s))"
    unfolding dropWhile_fixed trimEnd_fixed by blast
next
  assume "s = [] \<or> (\<not> js_space (hd s) \<and> \<not> js_space (last s))"
  then have "dropWhile js_space s = s" "trimEnd s = s" by (auto simp: dropWhile_fixed trimEnd_fixed)
  then show "trim s = s" by (simp add: trim_def)
qed

lemma split_on_part: "w \<in> set (split_on c s) \<Longrightarrow> c \<notin> set w"
  by (induction c s arbitrary: w rule: split_on.induct) (auto split: if_splits list.splits)

lemma join_split: "js_join [c] (split_on c s) = s"
proof (induction s)
  case (Cons x s)
  then show ?case
  proof (cases "split_on c s")
    case (Cons w ws)
    with \<open>js_join [c] (split_on c s) = s\<close> show ?thesis by (cases ws) auto
  qed simp
qed simp

lemma split_on_join_iff: "split_on c s = ws \<longleftrightarrow> ws \<noteq> [] \<and> (\<forall>w\<in>set ws. c \<notin> set w) \<and> js_join [c] ws = s"
  using split_on_part join_split split_js_join by fastforce

lemma js_join_append:
  "xs \<noteq> [] \<Longrightarrow> ys \<noteq> [] \<Longrightarrow> js_join sep (xs @ ys) = js_join sep xs @ sep @ js_join sep ys"
  by (induction sep xs rule: js_join.induct) (auto simp: neq_Nil_conv)

text \<open>\<open>split(/\s+/)\<close>: the parts between runs of white space, empty ones at the ends included.\<close>

function split_spaces :: "utext \<Rightarrow> utext list" where
  "split_spaces s =
     (let w = takeWhile (\<lambda>c. \<not> js_space c) s; r = dropWhile (\<lambda>c. \<not> js_space c) s
      in if r = [] then [w] else w # split_spaces (dropWhile js_space r))"
  by pat_completeness auto
termination
proof (relation "measure length")
  fix s w r :: utext
  assume r: "r = dropWhile (\<lambda>c. \<not> js_space c) s" "r \<noteq> []"
  then have "js_space (hd r)" by (metis hd_dropWhile)
  with r(2) have "length (dropWhile js_space r) < length r"
    by (cases r) (simp_all add: length_dropWhile_le le_imp_less_Suc)
  also have "length r \<le> length s" using r(1) by (simp add: length_dropWhile_le)
  finally show "(dropWhile js_space r, s) \<in> measure length" by simp
qed simp

declare split_spaces.simps [simp del]

lemma split_spaces_word: "list_all (\<lambda>c. \<not> js_space c) s \<Longrightarrow> split_spaces s = [s]"
  by (subst split_spaces.simps) (simp add: list_all_iff takeWhile_eq_all_conv dropWhile_eq_Nil_conv)

section \<open>Searching\<close>

fun indexOf :: "'a list \<Rightarrow> 'a list \<Rightarrow> nat option" where
  "indexOf [] p = (if p = [] then Some 0 else None)"
| "indexOf (c # cs) p = (if starts_with p (c # cs) then Some 0 else map_option Suc (indexOf cs p))"

fun lastIndexOf :: "'a list \<Rightarrow> 'a list \<Rightarrow> nat option" where
  "lastIndexOf [] p = (if p = [] then Some 0 else None)"
| "lastIndexOf (c # cs) p =
     (case lastIndexOf cs p of Some i \<Rightarrow> Some (Suc i)
      | None \<Rightarrow> if starts_with p (c # cs) then Some 0 else None)"

definition substring :: "nat \<Rightarrow> nat \<Rightarrow> 'a list \<Rightarrow> 'a list" where
  "substring a b s = take (b - a) (drop a s)"

definition occurs_at :: "'a list \<Rightarrow> 'a list \<Rightarrow> nat \<Rightarrow> bool" where
  "occurs_at p s i \<longleftrightarrow> (\<exists>pre post. s = pre @ p @ post \<and> length pre = i)"

lemma occurs_at_Nil [simp]: "occurs_at p [] i \<longleftrightarrow> p = [] \<and> i = 0"
  by (auto simp: occurs_at_def)

lemma occurs_at_0: "occurs_at p s 0 \<longleftrightarrow> starts_with p s"
  by (auto simp: occurs_at_def starts_with_iff)

lemma occurs_at_Suc: "occurs_at p (c # s) (Suc i) \<longleftrightarrow> occurs_at p s i"
proof
  assume "occurs_at p (c # s) (Suc i)"
  then obtain pre post where "c # s = pre @ p @ post" "length pre = Suc i" by (auto simp: occurs_at_def)
  then have "s = tl pre @ p @ post" "length (tl pre) = i" by (cases pre; simp)+
  then show "occurs_at p s i" unfolding occurs_at_def by blast
next
  assume "occurs_at p s i"
  then obtain pre post where "s = pre @ p @ post" "length pre = i" by (auto simp: occurs_at_def)
  then have "c # s = (c # pre) @ p @ post" "length (c # pre) = Suc i" by simp_all
  then show "occurs_at p (c # s) (Suc i)" unfolding occurs_at_def by blast
qed

lemma indexOf_Some: "indexOf s p = Some i \<longleftrightarrow> occurs_at p s i \<and> (\<forall>k<i. \<not> occurs_at p s k)"
proof (induction s arbitrary: i)
  case (Cons c s)
  show ?case
  proof (cases "starts_with p (c # s)")
    case True
    then have "occurs_at p (c # s) 0" by (simp add: occurs_at_0)
    with True show ?thesis by (auto intro: gr0I)
  next
    case False
    then have n0: "\<not> occurs_at p (c # s) 0" by (simp add: occurs_at_0)
    show ?thesis
    proof (cases i)
      case (Suc j)
      have "(\<forall>k<Suc j. \<not> occurs_at p (c # s) k) \<longleftrightarrow> (\<forall>k<j. \<not> occurs_at p s k)"
        unfolding All_less_Suc2 using n0 by (simp add: occurs_at_Suc)
      with False Suc Cons.IH [of j] show ?thesis by (simp add: occurs_at_Suc)
    qed (use False n0 in simp)
  qed
qed auto

lemma indexOf_None: "indexOf s p = None \<longleftrightarrow> (\<forall>i. \<not> occurs_at p s i)"
proof (induction s)
  case (Cons c s)
  have "(\<forall>i. \<not> occurs_at p (c # s) i) \<longleftrightarrow> \<not> occurs_at p (c # s) 0 \<and> (\<forall>i. \<not> occurs_at p s i)"
    by (metis occurs_at_Suc not0_implies_Suc)
  with Cons show ?case by (simp add: occurs_at_0)
qed auto

lemma lastIndexOf_None: "lastIndexOf s p = None \<longleftrightarrow> (\<forall>i. \<not> occurs_at p s i)"
proof (induction s)
  case (Cons c s)
  have "(\<forall>i. \<not> occurs_at p (c # s) i) \<longleftrightarrow> \<not> occurs_at p (c # s) 0 \<and> (\<forall>i. \<not> occurs_at p s i)"
    by (metis occurs_at_Suc not0_implies_Suc)
  with Cons show ?case by (auto simp: occurs_at_0 split: option.splits)
qed auto

lemma lastIndexOf_Some: "lastIndexOf s p = Some i \<longleftrightarrow> occurs_at p s i \<and> (\<forall>k>i. \<not> occurs_at p s k)"
proof (induction s arbitrary: i)
  case (Cons c s)
  show ?case
  proof (cases "lastIndexOf s p")
    case None
    then have no: "\<not> occurs_at p (c # s) (Suc k)" for k by (simp add: lastIndexOf_None occurs_at_Suc)
    then have "occurs_at p (c # s) i \<longleftrightarrow> i = 0 \<and> starts_with p (c # s)" for i
      by (cases i) (simp_all add: occurs_at_0)
    with None show ?thesis by auto
  next
    case (Some j)
    with Cons.IH [of j] have j: "occurs_at p (c # s) (Suc j)" "\<And>k. k > Suc j \<Longrightarrow> \<not> occurs_at p (c # s) k"
      by (auto simp: occurs_at_Suc Suc_less_eq2)
    have "occurs_at p (c # s) i \<and> (\<forall>k>i. \<not> occurs_at p (c # s) k) \<longleftrightarrow> i = Suc j"
      using j by (metis linorder_neqE_nat)
    with Some show ?thesis by auto
  qed
qed auto

lemma found_once:
  "indexOf s p = Some i \<and> lastIndexOf s p = Some i \<longleftrightarrow> occurs_at p s i \<and> (\<forall>k. occurs_at p s k \<longrightarrow> k = i)"
  unfolding indexOf_Some lastIndexOf_Some by (auto dest: linorder_neqE_nat)

lemma lastIndexOf_Some_if: "indexOf s p = Some i \<Longrightarrow> \<exists>j\<ge>i. lastIndexOf s p = Some j"
proof -
  assume i: "indexOf s p = Some i"
  then obtain j where "lastIndexOf s p = Some j" using indexOf_None lastIndexOf_None by (metis not_None_eq)
  with i show ?thesis by (metis indexOf_Some lastIndexOf_Some leI)
qed

lemma occurs_at_splice:
  "occurs_at p s i \<Longrightarrow> s = take i s @ p @ drop (i + length p) s"
  by (auto simp: occurs_at_def)

section \<open>\<open>replaceAll\<close>\<close>

fun expand_template :: "utext \<Rightarrow> utext \<Rightarrow> utext \<Rightarrow> utext \<Rightarrow> utext" where
  "expand_template m before after (c # d # r) =
     (if c = 36 then
        if d = 36 then 36 # expand_template m before after r
        else if d = 38 then m @ expand_template m before after r
        else if d = 96 then before @ expand_template m before after r
        else if d = 39 then after @ expand_template m before after r
        else c # expand_template m before after (d # r)
      else c # expand_template m before after (d # r))"
| "expand_template m before after r = r"

fun replace_empty :: "utext \<Rightarrow> utext \<Rightarrow> utext \<Rightarrow> utext" where
  "replace_empty template before [] = expand_template [] before [] template"
| "replace_empty template before (c # cs) =
     expand_template [] before (c # cs) template @ c # replace_empty template (before @ [c]) cs"

function replace_matches :: "utext \<Rightarrow> utext \<Rightarrow> utext \<Rightarrow> utext \<Rightarrow> utext" where
  "replace_matches pat template before [] = []"
| "replace_matches pat template before (c # cs) =
     (if pat \<noteq> [] \<and> starts_with pat (c # cs) then
        expand_template pat before (drop (length pat) (c # cs)) template @
        replace_matches pat template (before @ pat) (drop (length pat) (c # cs))
      else c # replace_matches pat template (before @ [c]) cs)"
  by pat_completeness auto
termination
  by (relation "measure (\<lambda>(p, t, b, s). length s)") auto

definition js_replaceAll :: "utext \<Rightarrow> utext \<Rightarrow> utext \<Rightarrow> utext" where
  "js_replaceAll s pat template =
     (if pat = [] then replace_empty template [] s else replace_matches pat template [] s)"

lemma expand_plain: "36 \<notin> set t \<Longrightarrow> expand_template m b a t = t"
  by (induction m b a t rule: expand_template.induct) auto

text \<open>Replacing without dollar signs: the pieces between the matches, joined by the replacement.\<close>

inductive split_at_matches :: "utext \<Rightarrow> utext \<Rightarrow> utext list \<Rightarrow> bool" for p where
  no_match: "(\<forall>i. \<not> occurs_at p s i) \<Longrightarrow> split_at_matches p s [s]"
| first_match: "indexOf s p = Some i \<Longrightarrow> split_at_matches p (drop (i + length p) s) ws \<Longrightarrow>
     split_at_matches p s (take i s # ws)"

lemma split_at_matches_Nil: "p \<noteq> [] \<Longrightarrow> split_at_matches p [] [[]]"
  by (rule no_match) simp

lemma split_at_matches_nonempty: "split_at_matches p s ws \<Longrightarrow> ws \<noteq> []"
  by (erule split_at_matches.cases) auto

lemma split_at_matches_Cons:
  assumes "\<not> starts_with p (c # s)" "split_at_matches p s (w # ws)"
  shows "split_at_matches p (c # s) ((c # w) # ws)"
  using assms(2)
proof cases
  case no_match
  have "\<not> occurs_at p (c # s) i" for i
    using assms(1) no_match by (cases i) (simp_all add: occurs_at_0 occurs_at_Suc)
  then show ?thesis using no_match split_at_matches.no_match by auto
next
  case (first_match i)
  with assms(1) have "indexOf (c # s) p = Some (Suc i)" by simp
  from split_at_matches.first_match [OF this] first_match show ?thesis by simp
qed

lemma replace_matches_split:
  "p \<noteq> [] \<Longrightarrow> 36 \<notin> set t \<Longrightarrow> \<exists>ws. split_at_matches p s ws \<and> replace_matches p t b s = js_join t ws"
proof (induction p t b s rule: replace_matches.induct)
  case (1 p t b)
  then show ?case using split_at_matches_Nil by (metis js_join.simps(2) replace_matches.simps(1))
next
  case (2 p t b c cs)
  show ?case
  proof (cases "starts_with p (c # cs)")
    case True
    with 2 obtain ws where ws: "split_at_matches p (drop (length p) (c # cs)) ws"
      "replace_matches p t (b @ p) (drop (length p) (c # cs)) = js_join t ws" by blast
    have "split_at_matches p (c # cs) (take 0 (c # cs) # ws)"
      by (rule first_match) (use True ws(1) in simp_all)
    moreover have "replace_matches p t b (c # cs) = js_join t ([] # ws)"
      using True 2(3,4) ws split_at_matches_nonempty [OF ws(1)] by (simp add: expand_plain js_join_Cons)
    ultimately show ?thesis by auto
  next
    case False
    with 2 obtain ws where ws: "split_at_matches p cs ws" "replace_matches p t (b @ [c]) cs = js_join t ws" by auto
    obtain w ws' where w: "ws = w # ws'" using split_at_matches_nonempty [OF ws(1)] by (cases ws) auto
    from split_at_matches_Cons [OF False ws(1) [unfolded w]]
    have "split_at_matches p (c # cs) ((c # w) # ws')" .
    moreover have "replace_matches p t b (c # cs) = js_join t ((c # w) # ws')"
      using False ws(2) w by (simp add: js_join_Cons)
    ultimately show ?thesis by blast
  qed
qed

section \<open>Byte order marks\<close>

definition bom_split :: "utext \<Rightarrow> bool \<times> utext" where
  "bom_split text = (case text of [] \<Rightarrow> (False, text)
     | c # r \<Rightarrow> if c \<noteq> 65279 then (False, text) else (True, r))"

definition bom_join :: "utext \<Rightarrow> bool \<Rightarrow> utext" where
  "bom_join text bom = (let stripped = snd (bom_split text) in if \<not> bom then stripped else 65279 # stripped)"

lemma bom_join_split: "bom_join (snd (bom_split s)) (fst (bom_split s)) =
    (if starts_with [65279, 65279] s then 65279 # drop 2 s else s)"
  by (auto simp: bom_join_def bom_split_def Let_def split: list.splits if_splits)

end
