(* ===== verification/Agent_Patch.thy ===== *)
theory Agent_Patch imports Agent_Text Js_Map begin

text \<open>
  Patches (\<open>patch/index.ts\<close>): the parser of the patch format, the search for the lines of a chunk, the
  computation and application of replacements, and the application of hunks to files.  An index into
  the array of lines is modelled by the rest of the array from there on.
\<close>

section \<open>Data\<close>

record UpdateFileChunk =
  uc_old_lines :: "utext list"
  uc_new_lines :: "utext list"
  uc_change_context :: "utext option"
  uc_is_end_of_file :: bool

datatype Hunk =
    Hunk_add utext utext
  | Hunk_delete utext
  | Hunk_update utext "utext option" "UpdateFileChunk list"

datatype patch_error =
    Missing_markers
  | Context_not_found utext utext
  | Lines_not_found utext "utext list"
  | No_files_modified
  | Cannot_read utext
  | Cannot_remove utext
  | Cannot_write utext

section \<open>Parsing\<close>

definition parsePatchHeader :: "utext list \<Rightarrow> (utext \<times> utext option \<times> utext list) option" where
  "parsePatchHeader rest =
     (case rest of [] \<Rightarrow> None
      | line # after \<Rightarrow>
          if starts_with (lit ''*** Add File:'') line then
            let filePath = trim (drop (length (lit ''*** Add File:'')) line)
            in if filePath \<noteq> [] then Some (filePath, None, after) else None
          else if starts_with (lit ''*** Delete File:'') line then
            let filePath = trim (drop (length (lit ''*** Delete File:'')) line)
            in if filePath \<noteq> [] then Some (filePath, None, after) else None
          else if starts_with (lit ''*** Update File:'') line then
            let filePath = trim (drop (length (lit ''*** Update File:'')) line);
                (movePath, nextRest) =
                  (case after of [] \<Rightarrow> (None, after)
                   | second # others \<Rightarrow>
                       if starts_with (lit ''*** Move to:'') second
                       then (Some (trim (drop (length (lit ''*** Move to:'')) second)), others)
                       else (None, after))
            in if filePath \<noteq> [] then Some (filePath, movePath, nextRest) else None
          else None)"

fun change_lines :: "utext list \<Rightarrow> utext list \<times> utext list \<times> bool \<times> utext list" where
  "change_lines [] = ([], [], False, [])"
| "change_lines (changeLine # rest) =
     (if starts_with (lit ''@@'') changeLine \<or> starts_with (lit ''***'') changeLine
      then ([], [], False, changeLine # rest)
      else if changeLine = lit ''*** End of File'' then ([], [], True, rest)
      else let (oldLines, newLines, isEndOfFile, r) = change_lines rest
           in if starts_with (lit '' '') changeLine
              then (drop 1 changeLine # oldLines, drop 1 changeLine # newLines, isEndOfFile, r)
              else if starts_with (lit ''-'') changeLine then (drop 1 changeLine # oldLines, newLines, isEndOfFile, r)
              else if starts_with (lit ''+'') changeLine then (oldLines, drop 1 changeLine # newLines, isEndOfFile, r)
              else (oldLines, newLines, isEndOfFile, r))"

lemma change_lines_length: "change_lines ls = (o', n, e, r) \<Longrightarrow> length r \<le> length ls"
  by (induction ls arbitrary: o' n e r) (auto simp: Let_def split: if_splits prod.splits)

function parseUpdateFileChunks :: "utext list \<Rightarrow> UpdateFileChunk list \<times> utext list" where
  "parseUpdateFileChunks [] = ([], [])"
| "parseUpdateFileChunks (line # rest) =
     (if starts_with (lit ''***'') line then ([], line # rest)
      else if starts_with (lit ''@@'') line then
        let contextLine = trim (drop 2 line);
            (oldLines, newLines, isEndOfFile, r) = change_lines rest;
            (chunks, r') = parseUpdateFileChunks r
        in (\<lparr>uc_old_lines = oldLines, uc_new_lines = newLines,
             uc_change_context = (if contextLine = [] then None else Some contextLine),
             uc_is_end_of_file = isEndOfFile\<rparr> # chunks, r')
      else parseUpdateFileChunks rest)"
  by pat_completeness auto
termination
  by (relation "measure length") (auto simp: le_imp_less_Suc dest!: change_lines_length dest: sym)

fun add_lines :: "utext list \<Rightarrow> utext \<times> utext list" where
  "add_lines [] = ([], [])"
| "add_lines (line # rest) =
     (if starts_with (lit ''***'') line then ([], line # rest)
      else let (content, r) = add_lines rest
           in (if starts_with (lit ''+'') line then drop 1 line @ [10] @ content else content, r))"

definition parseAddFileContent :: "utext list \<Rightarrow> utext \<times> utext list" where
  "parseAddFileContent rest =
     (let (content, r) = add_lines rest
      in (if ends_with [10] content then butlast content else content, r))"

text \<open>
  The two regular expressions that unwrap a here-document.  After the opening \<open><<\<close>, an optional or a
  mandatory quote and the word, \<open>\s*\n\<close> may end at any newline of the run of white space, the last one
  first; the body is the shortest one that the word closes.
\<close>

definition word_char :: "nat \<Rightarrow> bool" where
  "word_char c \<longleftrightarrow> (48 \<le> c \<and> c \<le> 57) \<or> (65 \<le> c \<and> c \<le> 90) \<or> (97 \<le> c \<and> c \<le> 122) \<or> c = 95"

fun heredoc_body :: "(utext \<Rightarrow> bool) \<Rightarrow> utext \<Rightarrow> utext \<Rightarrow> utext option" where
  "heredoc_body closes word [] = None"
| "heredoc_body closes word (c # cs) =
     (if starts_with (10 # word) (c # cs) \<and> closes (drop (Suc (length word)) (c # cs)) then Some []
      else map_option (Cons c) (heredoc_body closes word cs))"

fun after_newlines :: "utext \<Rightarrow> utext list" where
  "after_newlines [] = []"
| "after_newlines (c # cs) =
     (if js_space c then after_newlines cs @ (if c = 10 then [cs] else []) else [])"

fun first_some :: "('a \<Rightarrow> 'b option) \<Rightarrow> 'a list \<Rightarrow> 'b option" where
  "first_some f [] = None"
| "first_some f (x # xs) = (case f x of Some y \<Rightarrow> Some y | None \<Rightarrow> first_some f xs)"

definition drop_quote :: "utext \<Rightarrow> utext" where
  "drop_quote s = (case s of c # cs \<Rightarrow> if c = 39 \<or> c = 34 then cs else s | [] \<Rightarrow> s)"

definition heredoc_from :: "bool \<Rightarrow> (utext \<Rightarrow> bool) \<Rightarrow> utext \<Rightarrow> utext option" where
  "heredoc_from quotes closes s =
     (if \<not> starts_with (lit ''<<'') s then None
      else let a = drop 2 s; b = drop_quote a; word = takeWhile word_char b; c = drop (length word) b;
               d = drop_quote c
           in if word = [] \<or> (quotes \<and> (b = a \<or> d = c)) then None
              else first_some (heredoc_body closes word) (after_newlines d))"

definition stripHeredoc :: "utext \<Rightarrow> utext" where
  "stripHeredoc input =
     (let afterCat = (if starts_with (lit ''cat'') input \<and> takeWhile js_space (drop 3 input) \<noteq> []
                      then dropWhile js_space (drop 3 input) else input)
      in case heredoc_from False (list_all js_space) afterCat of Some body \<Rightarrow> body | None \<Rightarrow> input)"

fun find_index :: "('a \<Rightarrow> bool) \<Rightarrow> 'a list \<Rightarrow> nat option" where
  "find_index p [] = None"
| "find_index p (x # xs) = (if p x then Some 0 else map_option Suc (find_index p xs))"

lemma parsePatchHeader_length: "parsePatchHeader rest = Some (f, m, r) \<Longrightarrow> length r < length rest"
  by (auto simp: parsePatchHeader_def Let_def split: list.splits if_splits prod.splits)

lemma parseAddFileContent_length: "parseAddFileContent ls = (c, r) \<Longrightarrow> length r \<le> length ls"
proof -
  have "add_lines ls = (c, r) \<Longrightarrow> length r \<le> length ls" for c
    by (induction ls arbitrary: c r) (auto simp: Let_def split: if_splits prod.splits intro: le_SucI)
  then show "parseAddFileContent ls = (c, r) \<Longrightarrow> length r \<le> length ls"
    by (auto simp: parseAddFileContent_def split: prod.splits)
qed

lemma parseUpdateFileChunks_length: "parseUpdateFileChunks ls = (c, r) \<Longrightarrow> length r \<le> length ls"
proof (induction ls arbitrary: c r rule: parseUpdateFileChunks.induct)
  case (2 line rest)
  then show ?case
    by (auto simp: Let_def split: if_splits prod.splits dest!: change_lines_length intro: le_SucI) (meson le_SucI le_trans)+
qed simp

text \<open>\<open>stop\<close> is the number of lines from the end marker on: the loop runs while the index is before it.\<close>

function parse_hunks :: "nat \<Rightarrow> utext list \<Rightarrow> Hunk list" where
  "parse_hunks stop [] = []"
| "parse_hunks stop (line # after) =
     (if length (line # after) \<le> stop then []
      else case parsePatchHeader (line # after) of
        None \<Rightarrow> parse_hunks stop after
      | Some (filePath, movePath, nextRest) \<Rightarrow>
          if starts_with (lit ''*** Add File:'') line then
            let (content, r) = parseAddFileContent nextRest in Hunk_add filePath content # parse_hunks stop r
          else if starts_with (lit ''*** Delete File:'') line then
            Hunk_delete filePath # parse_hunks stop nextRest
          else if starts_with (lit ''*** Update File:'') line then
            let (chunks, r) = parseUpdateFileChunks nextRest
            in Hunk_update filePath movePath chunks # parse_hunks stop r
          else parse_hunks stop after)"
  by pat_completeness auto
termination
  by (relation "measure (\<lambda>(stop, ls). length ls)")
     (auto dest!: parsePatchHeader_length parseAddFileContent_length [OF sym] parseUpdateFileChunks_length [OF sym])

definition parsePatch :: "utext \<Rightarrow> patch_error + Hunk list" where
  "parsePatch patchText =
     (let cleaned = stripHeredoc (trim patchText); lines = lines_of cleaned
      in case (find_index (\<lambda>l. trim l = lit ''*** Begin Patch'') lines,
               find_index (\<lambda>l. trim l = lit ''*** End Patch'') lines) of
           (Some beginIdx, Some endIdx) \<Rightarrow>
             if beginIdx \<ge> endIdx then Inl Missing_markers
             else Inr (parse_hunks (length lines - endIdx) (drop (Suc beginIdx) lines))
         | _ \<Rightarrow> Inl Missing_markers)"

datatype MaybeApplyPatch = MaybeBody utext "Hunk list" | MaybePatchParseError patch_error | MaybeNotApplyPatch

fun script_heredoc :: "utext \<Rightarrow> utext option" where
  "script_heredoc [] = None"
| "script_heredoc (c # cs) =
     (case (if starts_with (lit ''apply_patch'') (c # cs)
            then heredoc_from True (\<lambda>_. True) (dropWhile js_space (drop 11 (c # cs))) else None) of
        Some body \<Rightarrow> Some body
      | None \<Rightarrow> script_heredoc cs)"

definition parsed_body :: "utext \<Rightarrow> MaybeApplyPatch" where
  "parsed_body patch = (case parsePatch patch of Inr hunks \<Rightarrow> MaybeBody patch hunks | Inl e \<Rightarrow> MaybePatchParseError e)"

definition maybeParseApplyPatch :: "utext list \<Rightarrow> MaybeApplyPatch" where
  "maybeParseApplyPatch argv =
     (if length argv = 2 \<and> argv ! 0 \<in> {lit ''apply_patch'', lit ''applypatch''} then parsed_body (argv ! 1)
      else if length argv = 3 \<and> argv ! 0 = lit ''bash'' \<and> argv ! 1 = lit ''-lc'' then
        (case script_heredoc (argv ! 2) of
           Some patchContent \<Rightarrow> parsed_body patchContent
         | None \<Rightarrow> MaybeNotApplyPatch)
      else MaybeNotApplyPatch)"

section \<open>Finding the lines of a chunk\<close>

definition normal_unit :: "nat \<Rightarrow> utext" where
  "normal_unit c =
     (if 8216 \<le> c \<and> c \<le> 8219 then [39] else if 8220 \<le> c \<and> c \<le> 8223 then [34]
      else if 8208 \<le> c \<and> c \<le> 8213 then [45] else if c = 8230 then [46, 46, 46]
      else if c = 160 then [32] else [c])"

definition normalizeUnicode :: "utext \<Rightarrow> utext" where
  "normalizeUnicode s = concat (List.map normal_unit s)"

definition lines_match :: "(utext \<Rightarrow> utext \<Rightarrow> bool) \<Rightarrow> utext list \<Rightarrow> utext list \<Rightarrow> nat \<Rightarrow> bool" where
  "lines_match compare lines pattern i = list_all (\<lambda>j. compare (lines ! (i + j)) (pattern ! j)) [0..<length pattern]"

definition tryMatch :: "utext list \<Rightarrow> utext list \<Rightarrow> nat \<Rightarrow> (utext \<Rightarrow> utext \<Rightarrow> bool) \<Rightarrow> bool \<Rightarrow> nat option" where
  "tryMatch lines pattern startIndex compare eof =
     (let fromEnd = length lines - length pattern
      in if eof \<and> length pattern \<le> length lines \<and> fromEnd \<ge> startIndex \<and> lines_match compare lines pattern fromEnd
         then Some fromEnd
         else List.find (lines_match compare lines pattern) [startIndex..<Suc (length lines) - length pattern])"

definition seekSequence :: "utext list \<Rightarrow> utext list \<Rightarrow> nat \<Rightarrow> bool \<Rightarrow> nat option" where
  "seekSequence lines pattern startIndex eof =
     (if pattern = [] then None
      else first_some (\<lambda>f. tryMatch lines pattern startIndex (\<lambda>a b. f a = f b) eof)
             [\<lambda>s. s, trimEnd, trim, \<lambda>s. normalizeUnicode (trim s)])"

section \<open>Replacements\<close>

type_synonym replacement = "nat \<times> nat \<times> utext list"

definition drop_last_line :: "utext list \<Rightarrow> utext list" where
  "drop_last_line ls = (if ls \<noteq> [] \<and> last ls = [] then butlast ls else ls)"

definition match_chunk :: "utext list \<Rightarrow> UpdateFileChunk \<Rightarrow> nat \<Rightarrow> replacement option" where
  "match_chunk originalLines chunk lineIndex =
     (let pattern = uc_old_lines chunk; newSlice = uc_new_lines chunk
      in case seekSequence originalLines pattern lineIndex (uc_is_end_of_file chunk) of
           Some found \<Rightarrow> Some (found, length pattern, newSlice)
         | None \<Rightarrow>
             if pattern \<noteq> [] \<and> last pattern = [] then
               (case seekSequence originalLines (butlast pattern) lineIndex (uc_is_end_of_file chunk) of
                  Some found \<Rightarrow> Some (found, length (butlast pattern), drop_last_line newSlice)
                | None \<Rightarrow> None)
             else None)"

fun chunk_replacements :: "utext list \<Rightarrow> utext \<Rightarrow> nat \<Rightarrow> UpdateFileChunk list \<Rightarrow> patch_error + replacement list" where
  "chunk_replacements originalLines filePath lineIndex [] = Inr []"
| "chunk_replacements originalLines filePath lineIndex (chunk # chunks) =
     (case (case uc_change_context chunk of
              None \<Rightarrow> Inr lineIndex
            | Some ctx \<Rightarrow> (case seekSequence originalLines [ctx] lineIndex False of
                             None \<Rightarrow> Inl (Context_not_found ctx filePath)
                           | Some contextIdx \<Rightarrow> Inr (contextIdx + 1))) of
        Inl e \<Rightarrow> Inl e
      | Inr lineIndex \<Rightarrow>
          if uc_old_lines chunk = [] then
            let insertionIdx = (if originalLines \<noteq> [] \<and> last originalLines = [] then length originalLines - 1
                                else length originalLines)
            in map_sum id (Cons (insertionIdx, 0, uc_new_lines chunk))
                 (chunk_replacements originalLines filePath lineIndex chunks)
          else (case match_chunk originalLines chunk lineIndex of
                  Some (found, n, newSlice) \<Rightarrow>
                    map_sum id (Cons (found, n, newSlice))
                      (chunk_replacements originalLines filePath (found + n) chunks)
                | None \<Rightarrow> Inl (Lines_not_found filePath (uc_old_lines chunk))))"

definition computeReplacements :: "utext list \<Rightarrow> utext \<Rightarrow> UpdateFileChunk list \<Rightarrow> patch_error + replacement list" where
  "computeReplacements originalLines filePath chunks =
     map_sum id (js_sort (\<lambda>a b. int (fst a) - int (fst b))) (chunk_replacements originalLines filePath 0 chunks)"

definition splice :: "nat \<Rightarrow> nat \<Rightarrow> 'a list \<Rightarrow> 'a list \<Rightarrow> 'a list" where
  "splice start deleteCount items xs = take start xs @ items @ drop (start + deleteCount) xs"

definition apply_one :: "replacement \<Rightarrow> utext list \<Rightarrow> utext list" where
  "apply_one r xs =
     (case r of (startIdx, oldLen, newSegment) \<Rightarrow>
        foldl (\<lambda>result j. splice (startIdx + j) 0 [newSegment ! j] result) (splice startIdx oldLen [] xs)
          [0..<length newSegment])"

definition applyReplacements :: "utext list \<Rightarrow> replacement list \<Rightarrow> utext list" where
  "applyReplacements lines replacements = foldr apply_one replacements lines"

definition generateUnifiedDiff :: "utext \<Rightarrow> utext \<Rightarrow> utext" where
  "generateUnifiedDiff oldContent newContent =
     (let oldLines = lines_of oldContent; newLines = lines_of newContent;
          line = (\<lambda>ls i. if i < length ls then ls ! i else []);
          rows = List.map (\<lambda>i. (line oldLines i, line newLines i)) [0..<max (length oldLines) (length newLines)];
          diff = lit ''@@ -1 +1 @@'' @ [10] @ concat (List.map (\<lambda>(oldLine, newLine).
            if oldLine \<noteq> newLine
            then (if oldLine \<noteq> [] then lit ''-'' @ oldLine @ [10] else []) @
                 (if newLine \<noteq> [] then lit ''+'' @ newLine @ [10] else [])
            else if oldLine \<noteq> [] then lit '' '' @ oldLine @ [10] else []) rows)
      in if list_ex (\<lambda>(oldLine, newLine). oldLine \<noteq> newLine) rows then diff else [])"

record ApplyPatchFileUpdate =
  fu_unified_diff :: utext
  fu_content :: utext
  fu_bom :: bool

definition deriveNewContentsFromChunks ::
    "utext \<Rightarrow> UpdateFileChunk list \<Rightarrow> utext \<Rightarrow> patch_error + ApplyPatchFileUpdate" where
  "deriveNewContentsFromChunks filePath chunks originalText =
     (let (originalBom, originalContent) = bom_split originalText;
          originalLines = drop_last_line (lines_of originalContent)
      in case computeReplacements originalLines filePath chunks of
           Inl e \<Rightarrow> Inl e
         | Inr replacements \<Rightarrow>
             let newLines = applyReplacements originalLines replacements;
                 terminated = (if newLines = [] \<or> last newLines \<noteq> [] then newLines @ [[]] else newLines);
                 (nextBom, newContent) = bom_split (join_lines terminated)
             in Inr \<lparr>fu_unified_diff = generateUnifiedDiff originalContent newContent,
                     fu_content = newContent, fu_bom = originalBom \<or> nextBom\<rparr>)"

section \<open>Applying replacements back to front\<close>

text \<open>The same result built front to back: untouched lines, a new segment, and so on.\<close>

fun forward :: "utext list \<Rightarrow> nat \<Rightarrow> replacement list \<Rightarrow> utext list" where
  "forward lines pos [] = drop pos lines"
| "forward lines pos ((start, n, segment) # rs) =
     take (start - pos) (drop pos lines) @ segment @ forward lines (start + n) rs"

fun spaced :: "nat \<Rightarrow> nat \<Rightarrow> replacement list \<Rightarrow> bool" where
  "spaced bound pos [] = (pos \<le> bound)"
| "spaced bound pos ((start, n, segment) # rs) = (pos \<le> start \<and> start + n \<le> bound \<and> spaced bound (start + n) rs)"

lemma spaced_le: "spaced bound pos rs \<Longrightarrow> pos \<le> bound"
  by (induction bound pos rs rule: spaced.induct) auto

lemma apply_one_splice:
  assumes "start \<le> length xs"
  shows "apply_one (start, n, segment) xs = take start xs @ segment @ drop (start + n) xs"
proof -
  have "foldl (\<lambda>result j. splice (start + j) 0 [segment ! j] result) (take start xs @ ys) [0..<k] =
      take start xs @ take k segment @ ys" if "k \<le> length segment" for k ys
    using that
  proof (induction k)
    case (Suc k)
    then show ?case using assms by (simp add: splice_def take_Suc_conv_app_nth)
  qed simp
  from this [of "length segment" "drop (start + n) xs"] show ?thesis
    by (simp add: apply_one_def splice_def)
qed

lemma applyReplacements_spaced:
  "spaced (length lines) pos rs \<Longrightarrow> applyReplacements lines rs = take pos lines @ forward lines pos rs"
proof (induction rs arbitrary: pos)
  case Nil
  then show ?case by (simp add: applyReplacements_def)
next
  case (Cons r rs)
  obtain start n segment where r: "r = (start, n, segment)" by (cases r)
  with Cons.prems have s: "pos \<le> start" "start + n \<le> length lines" "spaced (length lines) (start + n) rs" by auto
  have "applyReplacements lines (r # rs) = apply_one r (take (start + n) lines @ forward lines (start + n) rs)"
    using Cons.IH [OF s(3)] by (simp add: applyReplacements_def)
  also have "\<dots> = take start lines @ segment @ forward lines (start + n) rs"
    using s by (simp add: r apply_one_splice)
  also have "take start lines = take pos lines @ take (start - pos) (drop pos lines)"
    using s(1) by (metis le_add_diff_inverse take_add)
  finally show ?case by (simp add: r)
qed

section \<open>What a search returns\<close>

lemma first_some_SomeD: "first_some f xs = Some y \<Longrightarrow> \<exists>x\<in>set xs. f x = Some y"
  by (induction xs) (auto split: option.splits)

lemma tryMatch_Some:
  assumes "tryMatch lines pattern i compare eof = Some k"
  shows "i \<le> k \<and> k + length pattern \<le> length lines \<and> lines_match compare lines pattern k"
  using assms
  by (auto simp: tryMatch_def Let_def split: if_splits dest!: find_SomeD)

text \<open>The three ways in which lines may be compared besides equality are coarser than it.\<close>

definition same_text :: "utext \<Rightarrow> utext \<Rightarrow> bool" where
  "same_text a b \<longleftrightarrow> normalizeUnicode (trim a) = normalizeUnicode (trim b)"

lemma trim_trimEnd: "trim (trimEnd s) = trim s"
proof (cases "\<forall>c\<in>set s. js_space c")
  case True
  then have d: "dropWhile js_space s = []" "dropWhile js_space (rev s) = []" by (simp_all only: dropWhile_eq_Nil_conv set_rev)
  show ?thesis unfolding trim_def trimEnd_def d by simp
next
  case False
  then have "\<exists>c\<in>set s. \<not> js_space c" by blast
  from split_list_first_prop [OF this] obtain a b c
    where s: "s = a @ b # c" "\<forall>x\<in>set a. js_space x" "\<not> js_space b" by blast
  have e: "trimEnd (u @ b # c) = u @ trimEnd (b # c)" for u
    using s(3) by (simp add: trimEnd_def dropWhile_append)
  have "trimEnd (b # c) \<noteq> [] \<and> hd (trimEnd (b # c)) = b"
    using s(3) by (cases "\<forall>x\<in>set c. js_space x") (auto simp: trimEnd_def dropWhile_append hd_append)
  then obtain d where d: "trimEnd (b # c) = b # d" by (metis list.collapse)
  have idem: "trimEnd (trimEnd t) = trimEnd t" for t by (simp add: trimEnd_def)
  have "dropWhile js_space (a @ t) = dropWhile js_space t" for t using s(2) by (simp add: dropWhile_append)
  then show ?thesis using s(3) d idem [of "b # c"] by (simp add: s(1) trim_def e)
qed

lemma seekSequence_Some:
  assumes "seekSequence lines pattern i eof = Some k"
  shows "i \<le> k \<and> k + length pattern \<le> length lines \<and> pattern \<noteq> [] \<and> lines_match same_text lines pattern k"
proof -
  from assms have ne: "pattern \<noteq> []" by (auto simp: seekSequence_def)
  from assms obtain f where f: "f \<in> {\<lambda>s. s, trimEnd, trim, \<lambda>s. normalizeUnicode (trim s)}"
    "tryMatch lines pattern i (\<lambda>a b. f a = f b) eof = Some k"
    by (auto simp: seekSequence_def split: if_splits option.splits)
  have "same_text a b" if "f a = f b" for a b
    using f(1) that trim_trimEnd by (auto simp: same_text_def) metis
  with tryMatch_Some [OF f(2)] ne show ?thesis by (auto simp: lines_match_def list_all_iff)
qed

section \<open>Replacements of chunks do not overlap\<close>

text \<open>A replacement takes lines that match the chunk, or inserts at the end.\<close>

definition chunk_done :: "utext list \<Rightarrow> UpdateFileChunk \<Rightarrow> replacement \<Rightarrow> bool" where
  "chunk_done lines chunk r =
     (case r of (start, n, segment) \<Rightarrow>
        if uc_old_lines chunk = [] then start = length lines \<and> n = 0 \<and> segment = uc_new_lines chunk
        else 0 < n \<and> start + n \<le> length lines \<and>
          (n = length (uc_old_lines chunk) \<and> segment = uc_new_lines chunk \<or>
           uc_old_lines chunk \<noteq> [] \<and> last (uc_old_lines chunk) = [] \<and> n = length (uc_old_lines chunk) - 1 \<and>
             segment = drop_last_line (uc_new_lines chunk)) \<and>
          (\<forall>j<n. same_text (lines ! (start + j)) (uc_old_lines chunk ! j)))"

lemma match_chunk_done:
  assumes "match_chunk lines chunk i = Some (start, n, segment)" "uc_old_lines chunk \<noteq> []"
  shows "i \<le> start \<and> chunk_done lines chunk (start, n, segment)"
proof (cases "seekSequence lines (uc_old_lines chunk) i (uc_is_end_of_file chunk)")
  case (Some k)
  with assms seekSequence_Some [OF Some] show ?thesis
    by (auto simp: match_chunk_def Let_def chunk_done_def lines_match_def list_all_iff)
next
  case None
  with assms obtain l: "last (uc_old_lines chunk) = []"
    and k: "seekSequence lines (butlast (uc_old_lines chunk)) i (uc_is_end_of_file chunk) = Some start"
    and n: "n = length (uc_old_lines chunk) - 1" "segment = drop_last_line (uc_new_lines chunk)"
    by (auto simp: match_chunk_def Let_def split: if_splits option.splits)
  from seekSequence_Some [OF k] have "0 < length (butlast (uc_old_lines chunk))" by blast
  with seekSequence_Some [OF k] assms(2) l n show ?thesis
    by (auto simp: chunk_done_def lines_match_def list_all_iff nth_butlast)
qed

fun spaced_from :: "utext list \<Rightarrow> nat \<Rightarrow> replacement list \<Rightarrow> bool" where
  "spaced_from lines pos [] = True"
| "spaced_from lines pos ((start, n, segment) # rs) =
     (if start = length lines \<and> n = 0 then spaced_from lines pos rs
      else pos \<le> start \<and> 0 < n \<and> start + n \<le> length lines \<and> spaced_from lines (start + n) rs)"

lemma chunk_replacements_done:
  assumes "lines = [] \<or> last lines \<noteq> []" and "chunk_replacements lines path i chunks = Inr rs"
  shows "list_all2 (chunk_done lines) chunks rs \<and> spaced_from lines i rs"
  using assms(2)
proof (induction chunks arbitrary: i rs)
  case (Cons chunk chunks)
  define step where "step i' = (if uc_old_lines chunk = [] then
            map_sum id (Cons (length lines, 0, uc_new_lines chunk)) (chunk_replacements lines path i' chunks)
          else (case match_chunk lines chunk i' of
                  Some (found, n, newSlice) \<Rightarrow>
                    map_sum id (Cons (found, n, newSlice)) (chunk_replacements lines path (found + n) chunks)
                | None \<Rightarrow> Inl (Lines_not_found path (uc_old_lines chunk))))" for i'
  have ins: "(if lines \<noteq> [] \<and> last lines = [] then length lines - 1 else length lines) = length lines"
    using assms(1) by auto
  obtain i' where i': "i \<le> i'" and rest: "step i' = Inr rs"
  proof (cases "uc_change_context chunk")
    case None
    with Cons.prems that [of i] show ?thesis by (cases "uc_old_lines chunk = []") (simp_all add: step_def ins)
  next
    case (Some ctx)
    show ?thesis
    proof (cases "seekSequence lines [ctx] i False")
      case None
      with Some Cons.prems show ?thesis by simp
    next
      case (Some k)
      from seekSequence_Some [OF Some] have "i \<le> k + 1" by simp
      with Some \<open>uc_change_context chunk = Some ctx\<close> Cons.prems that [of "k + 1"] show ?thesis
        by (cases "uc_old_lines chunk = []") (simp_all add: step_def ins)
    qed
  qed
  show ?case
  proof (cases "uc_old_lines chunk = []")
    case True
    with rest [unfolded step_def] obtain rs' where rs': "chunk_replacements lines path i' chunks = Inr rs'"
      "rs = (length lines, 0, uc_new_lines chunk) # rs'"
      by (cases "chunk_replacements lines path i' chunks") auto
    have weaken: "spaced_from lines a ts \<Longrightarrow> b \<le> a \<Longrightarrow> spaced_from lines b ts" for a b ts
      by (induction lines a ts rule: spaced_from.induct) (auto split: if_splits)
    from Cons.IH [OF rs'(1)] True rs'(2) i' weaken show ?thesis by (auto simp: chunk_done_def)
  next
    case False
    with rest [unfolded step_def] obtain found n segment where m: "match_chunk lines chunk i' = Some (found, n, segment)"
      by (auto split: option.splits)
    with rest [unfolded step_def] False obtain rs' where rs': "chunk_replacements lines path (found + n) chunks = Inr rs'"
      "rs = (found, n, segment) # rs'"
      by (cases "chunk_replacements lines path (found + n) chunks") auto
    from match_chunk_done [OF m False] Cons.IH [OF rs'(1)] rs'(2) i' False show ?thesis
      by (auto simp: chunk_done_def)
  qed
qed simp

lemma spaced_from_bounds:
  "spaced_from lines pos rs \<Longrightarrow> r \<in> set rs \<Longrightarrow> fst r \<le> length lines \<and> (fst r < length lines \<longrightarrow> pos \<le> fst r)"
  by (induction lines pos rs rule: spaced_from.induct) (auto split: if_splits)

lemma insort_key_append:
  "\<forall>a\<in>set xs. f a < f x \<Longrightarrow> insort_key f x (xs @ ys) = xs @ insort_key f x ys"
  by (induction xs) auto

text \<open>The stable sort moves the insertions behind the other replacements, which are in order.\<close>

lemma sort_spaced_from:
  "spaced_from lines pos rs \<Longrightarrow>
     sort_key fst rs = List.filter (\<lambda>r. fst r < length lines) rs @ List.filter (\<lambda>r. fst r = length lines) rs"
proof (induction lines pos rs rule: spaced_from.induct)
  case (2 lines pos start n segment rs)
  let ?A = "List.filter (\<lambda>r. fst r < length lines) rs" and ?B = "List.filter (\<lambda>r. fst r = length lines) rs"
  show ?case
  proof (cases "start = length lines \<and> n = 0")
    case True
    with 2 have "sort_key fst rs = ?A @ ?B" by simp
    with True show ?thesis by (simp add: insort_key_append insort_is_Cons)
  next
    case False
    with 2 have s: "sort_key fst rs = ?A @ ?B" "start < length lines" "spaced_from lines (start + n) rs" by auto
    have "\<forall>r\<in>set (?A @ ?B). start \<le> fst r"
      using spaced_from_bounds [OF s(3)] s(2) by fastforce
    with s show ?thesis by (simp add: insort_is_Cons)
  qed
qed simp

lemma spaced_insertions:
  "spaced_from lines pos rs \<Longrightarrow> spaced (length lines) (length lines) (List.filter (\<lambda>r. fst r = length lines) rs)"
  by (induction lines pos rs rule: spaced_from.induct) (auto split: if_splits)

lemma spaced_sorted:
  "spaced_from lines pos rs \<Longrightarrow> pos \<le> length lines \<Longrightarrow>
     spaced (length lines) pos (List.filter (\<lambda>r. fst r < length lines) rs @ List.filter (\<lambda>r. fst r = length lines) rs)"
proof -
  have app: "spaced b pos (xs @ ys)" if "spaced b pos xs" "spaced b b ys" for b pos xs ys
  proof -
    have "spaced b p ys" if "p \<le> b" for p
      using \<open>spaced b b ys\<close> that by (cases ys) auto
    then show ?thesis using that(1) by (induction b pos xs rule: spaced.induct) auto
  qed
  have "spaced_from lines pos rs \<Longrightarrow> pos \<le> length lines \<Longrightarrow> spaced (length lines) pos (List.filter (\<lambda>r. fst r < length lines) rs)"
    by (induction lines pos rs rule: spaced_from.induct) (auto split: if_splits)
  then show "spaced_from lines pos rs \<Longrightarrow> pos \<le> length lines \<Longrightarrow> ?thesis"
    by (intro app spaced_insertions)
qed

lemma compares_by_start: "compares_by (\<lambda>a b. int (fst a) - int (fst b)) (fst :: replacement \<Rightarrow> nat)"
  by (auto simp: compares_by_def)

text \<open>
  C4: a patch replaces exactly the matched lines.  When the file does not end in an empty line, the
  replacements of its chunks are found in the order of the chunks without overlap, every replaced range
  matches the old lines of its chunk up to white space and punctuation, chunks without old lines insert
  at the end, and the lines of the new file are the untouched lines and the new segments in order.
\<close>

theorem patch_replaces_matched_lines:
  assumes "chunk_replacements lines path 0 chunks = Inr rs" and "lines = [] \<or> last lines \<noteq> []"
  shows "list_all2 (chunk_done lines) chunks rs \<and>
    computeReplacements lines path chunks =
      Inr (List.filter (\<lambda>r. fst r < length lines) rs @ List.filter (\<lambda>r. fst r = length lines) rs) \<and>
    spaced (length lines) 0 (List.filter (\<lambda>r. fst r < length lines) rs @ List.filter (\<lambda>r. fst r = length lines) rs) \<and>
    applyReplacements lines (List.filter (\<lambda>r. fst r < length lines) rs @ List.filter (\<lambda>r. fst r = length lines) rs) =
      forward lines 0 (List.filter (\<lambda>r. fst r < length lines) rs @ List.filter (\<lambda>r. fst r = length lines) rs)"
proof -
  from chunk_replacements_done [OF assms(2,1)]
  have d: "list_all2 (chunk_done lines) chunks rs" "spaced_from lines 0 rs" by simp_all
  have s: "spaced (length lines) 0
      (List.filter (\<lambda>r. fst r < length lines) rs @ List.filter (\<lambda>r. fst r = length lines) rs)"
    using spaced_sorted [OF d(2)] by simp
  have "computeReplacements lines path chunks =
      Inr (List.filter (\<lambda>r. fst r < length lines) rs @ List.filter (\<lambda>r. fst r = length lines) rs)"
    using assms(1) by (simp add: computeReplacements_def js_sort_sort_key [OF compares_by_start] sort_spaced_from [OF d(2)])
  with d(1) s applyReplacements_spaced [OF s] show ?thesis by simp
qed

theorem patch_replaces_matched_lines_witness:
  "computeReplacements [[97], [98], [99]] [] [\<lparr>uc_old_lines = [[98]], uc_new_lines = [[120]], uc_change_context = None,
      uc_is_end_of_file = False\<rparr>] = Inr [(1, 1, [[120]])] \<and>
   applyReplacements [[97], [98], [99]] [(1, 1, [[120]])] = [[97], [120], [99]]"
proof -
  let ?c = "\<lparr>uc_old_lines = [[98]], uc_new_lines = [[120]], uc_change_context = None, uc_is_end_of_file = False\<rparr>"
  have "chunk_replacements [[97], [98], [99]] [] 0 [?c] = Inr [(1, 1, [[120]])]"
    by (simp add: match_chunk_def seekSequence_def tryMatch_def lines_match_def upt_rec)
  from patch_replaces_matched_lines [OF this] show ?thesis by simp
qed

text \<open>
  An empty last line breaks this: the addition is placed before that line, inside the range another
  chunk replaces, and is lost with it.
\<close>

lemma addition_lost_at_empty_line:
  "map_sum id fu_content (deriveNewContentsFromChunks [] [
      \<lparr>uc_old_lines = [[97], []], uc_new_lines = [[98]], uc_change_context = None, uc_is_end_of_file = False\<rparr>,
      \<lparr>uc_old_lines = [], uc_new_lines = [[99]], uc_change_context = None, uc_is_end_of_file = False\<rparr>]
      [97, 10, 10]) = Inr [98, 10]"
  by (simp add: deriveNewContentsFromChunks_def bom_split_def drop_last_line_def computeReplacements_def
      match_chunk_def seekSequence_def tryMatch_def lines_match_def upt_rec js_sort_def applyReplacements_def
      apply_one_def splice_def Let_def)

section \<open>Printing and parsing\<close>

definition chunk_lines :: "UpdateFileChunk \<Rightarrow> utext list" where
  "chunk_lines c =
     (lit ''@@'' @ (case uc_change_context c of None \<Rightarrow> [] | Some t \<Rightarrow> 32 # t)) #
     List.map (Cons 45) (uc_old_lines c) @ List.map (Cons 43) (uc_new_lines c)"

fun hunk_lines :: "Hunk \<Rightarrow> utext list" where
  "hunk_lines (Hunk_add p content) = (lit ''*** Add File: '' @ p) # List.map (Cons 43) (lines_of content)"
| "hunk_lines (Hunk_delete p) = [lit ''*** Delete File: '' @ p]"
| "hunk_lines (Hunk_update p m chunks) =
     (lit ''*** Update File: '' @ p) #
     (case m of None \<Rightarrow> [] | Some to \<Rightarrow> [lit ''*** Move to: '' @ to]) @ concat (List.map chunk_lines chunks)"

definition print_patch :: "Hunk list \<Rightarrow> utext" where
  "print_patch hunks =
     join_lines ([lit ''*** Begin Patch''] @ concat (List.map hunk_lines hunks) @ [lit ''*** End Patch''])"

definition path_ok :: "utext \<Rightarrow> bool" where
  "path_ok p \<longleftrightarrow> p \<noteq> [] \<and> trim p = p \<and> 10 \<notin> set p"

definition chunk_ok :: "UpdateFileChunk \<Rightarrow> bool" where
  "chunk_ok c \<longleftrightarrow> \<not> uc_is_end_of_file c \<and> list_all (\<lambda>l. 10 \<notin> set l) (uc_old_lines c @ uc_new_lines c) \<and>
     pred_option path_ok (uc_change_context c)"

fun hunk_ok :: "Hunk \<Rightarrow> bool" where
  "hunk_ok (Hunk_add p content) = path_ok p"
| "hunk_ok (Hunk_delete p) = path_ok p"
| "hunk_ok (Hunk_update p m chunks) = (path_ok p \<and> pred_option path_ok m \<and> list_all chunk_ok chunks)"

text \<open>A line that ends the lines of a chunk, and one that ends the chunks of a file.\<close>

definition stops_chunk :: "utext list \<Rightarrow> bool" where
  "stops_chunk rest \<longleftrightarrow> rest = [] \<or> starts_with (lit ''@@'') (hd rest) \<or> starts_with (lit ''***'') (hd rest)"

definition stops_hunk :: "utext list \<Rightarrow> bool" where
  "stops_hunk rest \<longleftrightarrow> rest = [] \<or> starts_with (lit ''***'') (hd rest)"

lemma change_lines_stop: "stops_chunk rest \<Longrightarrow> change_lines rest = ([], [], False, rest)"
  by (cases rest) (auto simp: stops_chunk_def)

lemma change_lines_print:
  assumes "stops_chunk rest"
  shows "change_lines (List.map (Cons 45) old @ List.map (Cons 43) new @ rest) = (old, new, False, rest)"
proof -
  have new: "change_lines (List.map (Cons 43) new @ rest) = ([], new, False, rest)" for new
    by (induction new) (simp_all add: change_lines_stop [OF assms] lit_def)
  show ?thesis by (induction old) (simp_all add: new lit_def)
qed

lemma parseUpdateFileChunks_stop: "stops_hunk rest \<Longrightarrow> parseUpdateFileChunks rest = ([], rest)"
  by (cases rest) (auto simp: stops_hunk_def)

lemma trim_after_space: "path_ok p \<Longrightarrow> trim (32 # p) = p"
  by (simp add: path_ok_def)

lemma parseUpdateFileChunks_print:
  "list_all chunk_ok chunks \<Longrightarrow> stops_hunk rest \<Longrightarrow>
     parseUpdateFileChunks (concat (List.map chunk_lines chunks) @ rest) = (chunks, rest)"
proof (induction chunks)
  case (Cons c cs)
  define r where "r = concat (List.map chunk_lines cs) @ rest"
  have "stops_chunk r"
    using Cons.prems(2) by (cases cs) (auto simp: r_def stops_chunk_def stops_hunk_def chunk_lines_def lit_def)
  note body = change_lines_print [OF this, of "uc_old_lines c" "uc_new_lines c"]
  have IH: "parseUpdateFileChunks r = (cs, rest)" using Cons by (simp add: r_def)
  have "parseUpdateFileChunks (chunk_lines c @ r) = (c # cs, rest)"
    using Cons.prems(1) body IH
    by (cases c; cases "uc_change_context c") (auto simp: chunk_lines_def lit_def chunk_ok_def trim_after_space path_ok_def)
  then show ?case by (simp add: r_def)
qed (simp add: parseUpdateFileChunks_stop)

lemma add_lines_print:
  assumes "stops_hunk rest"
  shows "add_lines (List.map (Cons 43) ls @ rest) = (concat (List.map (\<lambda>l. l @ [10]) ls), rest)"
proof (induction ls)
  case Nil
  show ?case using assms by (cases rest) (auto simp: stops_hunk_def)
qed (simp add: lit_def)

lemma terminated_join: "ls \<noteq> [] \<Longrightarrow> concat (List.map (\<lambda>l. l @ [10]) ls) = join_lines ls @ [10]"
  by (induction ls) (auto simp: js_join_Cons)

lemma parseAddFileContent_print:
  "stops_hunk rest \<Longrightarrow> parseAddFileContent (List.map (Cons 43) (lines_of content) @ rest) = (content, rest)"
  by (simp add: parseAddFileContent_def add_lines_print terminated_join join_split ends_with_def)

lemma hunk_lines_stop: "hs \<noteq> [] \<or> stops_hunk rest \<Longrightarrow> stops_hunk (concat (List.map hunk_lines hs) @ rest)"
proof (cases hs)
  case (Cons h hs')
  then show ?thesis by (cases h) (simp_all add: stops_hunk_def lit_def)
qed simp

lemma header_print:
  "path_ok p \<Longrightarrow> parsePatchHeader ((lit ''*** Add File: '' @ p) # r) = Some (p, None, r)"
  "path_ok p \<Longrightarrow> parsePatchHeader ((lit ''*** Delete File: '' @ p) # r) = Some (p, None, r)"
  "path_ok p \<Longrightarrow> path_ok to \<Longrightarrow> parsePatchHeader ((lit ''*** Update File: '' @ p) # (lit ''*** Move to: '' @ to) # r) =
     Some (p, Some to, r)"
  by (simp_all add: parsePatchHeader_def lit_def trim_after_space path_ok_def)

lemma header_print_update:
  "path_ok p \<Longrightarrow> r = [] \<or> \<not> starts_with (lit ''*** Move to:'') (hd r) \<Longrightarrow>
     parsePatchHeader ((lit ''*** Update File: '' @ p) # r) = Some (p, None, r)"
  by (cases r) (simp_all add: parsePatchHeader_def lit_def trim_after_space path_ok_def)

lemma parse_hunks_print:
  assumes "stops_hunk rest" "\<not> starts_with (lit ''*** Move to:'') (hd rest)" "rest \<noteq> []"
  shows "list_all hunk_ok hs \<Longrightarrow> parse_hunks (length rest) (concat (List.map hunk_lines hs) @ rest) = hs"
proof (induction hs)
  case Nil
  show ?case by (cases rest) simp_all
next
  case (Cons h hs)
  let ?r = "concat (List.map hunk_lines hs) @ rest"
  have stop: "stops_hunk ?r" using hunk_lines_stop assms(1) by blast
  have IH: "parse_hunks (length rest) ?r = hs" using Cons by simp
  have longer: "\<not> length (l # a @ ?r) \<le> length rest" for l a by simp
  show ?case
  proof (cases h)
    case (Hunk_add p content)
    with Cons.prems header_print(1) [of p] parseAddFileContent_print [OF stop] IH show ?thesis
      by (simp add: lit_def)
  next
    case (Hunk_delete p)
    with Cons.prems header_print(2) [of p] IH show ?thesis by (simp add: lit_def)
  next
    case (Hunk_update p m chunks)
    show ?thesis
    proof (cases m)
      case (Some to)
      with Hunk_update Cons.prems header_print(3) [of p to] parseUpdateFileChunks_print [OF _ stop, of chunks] IH
      show ?thesis by (simp add: lit_def)
    next
      case None
      have "\<not> starts_with (lit ''*** Move to:'') (hd (concat (List.map chunk_lines chunks) @ ?r))"
      proof (cases chunks)
        case Nil
        then show ?thesis
        proof (cases hs)
          case (Cons h' hs')
          with Nil show ?thesis by (cases h') (simp_all add: lit_def)
        qed (use assms Nil in simp)
      qed (simp add: chunk_lines_def lit_def)
      with None Hunk_update Cons.prems header_print_update [of p "concat (List.map chunk_lines chunks) @ ?r"]
        parseUpdateFileChunks_print [OF _ stop, of chunks] IH
      show ?thesis by (simp add: lit_def)
    qed
  qed
qed

lemma trim_Cons: "\<not> js_space c \<Longrightarrow> \<exists>r. trim (c # s) = c # r"
proof -
  assume c: "\<not> js_space c"
  then have "trim (c # s) = trimEnd (c # s)" by (simp add: trim_def)
  moreover have "hd (trimEnd (c # s)) = c \<and> trimEnd (c # s) \<noteq> []"
    using c by (cases "\<forall>x\<in>set s. js_space x") (auto simp: trimEnd_def dropWhile_append hd_append)
  ultimately show ?thesis by (metis list.collapse)
qed

lemma trim_header:
  "path_ok p \<Longrightarrow> trim (42 # s @ p) = 42 # s @ p"
  by (auto simp: path_ok_def trim_fixed js_space_def)

text \<open>No printed line is a marker.\<close>

lemma hunk_lines_no_marker:
  assumes "hunk_ok h" "l \<in> set (hunk_lines h)"
  shows "trim l \<noteq> lit ''*** Begin Patch'' \<and> trim l \<noteq> lit ''*** End Patch'' \<and> 10 \<notin> set l"
proof -
  have other: "trim (c # s) \<noteq> lit ''*** Begin Patch'' \<and> trim (c # s) \<noteq> lit ''*** End Patch''"
    if "\<not> js_space c" "c \<noteq> 42" for c s
    using trim_Cons [OF that(1), of s] that(2) by (auto simp: lit_def)
  have signs: "\<not> js_space 43" "\<not> js_space 45" "\<not> js_space 64" by (simp_all add: js_space_def)
  have chunk: "trim l \<noteq> lit ''*** Begin Patch'' \<and> trim l \<noteq> lit ''*** End Patch'' \<and> 10 \<notin> set l"
    if "chunk_ok c" "l \<in> set (chunk_lines c)" for c l
    using that other [OF signs(1)] other [OF signs(2)] other [OF signs(3)]
    by (auto simp: chunk_lines_def chunk_ok_def list_all_iff lit_def path_ok_def split: option.splits)
  have head: "trim (lit k @ p) = lit k @ p" if "path_ok p" "starts_with ''*'' k" for k p
    using that trim_header [of p "tl (lit k)"] by (cases k) (auto simp: lit_def)
  have header: "trim (lit k @ p) \<noteq> lit ''*** Begin Patch'' \<and> trim (lit k @ p) \<noteq> lit ''*** End Patch'' \<and> 10 \<notin> set (lit k @ p)"
    if "path_ok p" "k \<in> {''*** Add File: '', ''*** Delete File: '', ''*** Update File: '', ''*** Move to: ''}" for k p
    using that head [of p k] by (auto simp: lit_def path_ok_def)
  show ?thesis
  proof (cases h)
    case (Hunk_add p content)
    with assms consider "l = lit ''*** Add File: '' @ p" "path_ok p" | w where "l = 43 # w" "w \<in> set (lines_of content)"
      by auto
    then show ?thesis
    proof cases
      case 1
      with header [of p "''*** Add File: ''"] show ?thesis by simp
    next
      case 2
      with other [OF signs(1), of w] split_on_part [of w 10 content] show ?thesis by simp
    qed
  next
    case (Hunk_delete p)
    with assms header [of p "''*** Delete File: ''"] show ?thesis by simp
  next
    case (Hunk_update p m chunks)
    with assms consider "l = lit ''*** Update File: '' @ p" "path_ok p"
      | t where "l = lit ''*** Move to: '' @ t" "path_ok t" | c where "chunk_ok c" "l \<in> set (chunk_lines c)"
      by (auto simp: list_all_iff split: option.splits)
    then show ?thesis
    proof cases
      case 1
      with header [of p "''*** Update File: ''"] show ?thesis by simp
    next
      case 2
      with header [of t "''*** Move to: ''"] show ?thesis by simp
    qed (rule chunk)
  qed
qed

lemma find_index_append:
  "\<forall>x\<in>set xs. \<not> P x \<Longrightarrow> find_index P (xs @ ys) = map_option (\<lambda>i. length xs + i) (find_index P ys)"
  by (induction xs) (cases "find_index P ys"; simp)+

lemma stripHeredoc_plain: "stripHeredoc (42 # s) = 42 # s"
  by (simp add: stripHeredoc_def heredoc_from_def lit_def)

lemma parsePatch_print:
  assumes "list_all hunk_ok hunks"
  shows "parsePatch (print_patch hunks) = Inr hunks"
proof -
  let ?B = "lit ''*** Begin Patch''" and ?E = "lit ''*** End Patch''"
  define body where "body = concat (List.map hunk_lines hunks)"
  let ?ls = "[?B] @ body @ [?E]"
  have ok: "\<forall>l\<in>set body. trim l \<noteq> ?B \<and> trim l \<noteq> ?E \<and> 10 \<notin> set l"
    using assms hunk_lines_no_marker by (fastforce simp: body_def list_all_iff)
  have trims: "trim ?B = ?B" "trim ?E = ?E" "?B \<noteq> ?E" by (simp_all add: trim_fixed lit_def js_space_def)
  have pt: "print_patch hunks = ?B @ 10 # join_lines (body @ [?E])"
    by (simp add: print_patch_def body_def js_join_Cons)
  have last: "last (print_patch hunks) = 104" "print_patch hunks \<noteq> []"
    by (cases "body = []"; simp add: pt js_join_append lit_def)+
  have "hd (print_patch hunks) = 42" by (simp add: pt lit_def)
  with last have "trim (print_patch hunks) = print_patch hunks" by (simp add: trim_fixed js_space_def)
  moreover have "stripHeredoc (print_patch hunks) = print_patch hunks"
    using stripHeredoc_plain [of "tl (print_patch hunks)"] last(2) \<open>hd (print_patch hunks) = 42\<close>
    by (metis list.collapse)
  moreover have "lines_of (print_patch hunks) = ?ls"
    unfolding print_patch_def body_def [symmetric] by (rule split_js_join) (use ok in \<open>auto simp: lit_def\<close>)
  moreover have "find_index (\<lambda>l. trim l = ?B) ?ls = Some 0" by (simp add: trims)
  moreover have "find_index (\<lambda>l. trim l = ?E) ?ls = Some (Suc (length body))"
    using ok find_index_append [of body "\<lambda>l. trim l = ?E" "[?E]"] by (simp add: trims trims(3) [symmetric])
  moreover have "parse_hunks 1 (body @ [?E]) = hunks"
    using parse_hunks_print [of "[?E]" hunks] assms by (simp add: body_def stops_hunk_def lit_def)
  ultimately show ?thesis by (simp add: parsePatch_def)
qed

text \<open>
  C29: printing and parsing a patch round-trip.  Every list of hunks is read back from its printed form if its paths, destinations of moves and
  contexts are trimmed texts of one line that are not empty, its changed lines hold no line break, and no chunk is
  anchored at the end of the file (a parsed chunk never is, so such a chunk cannot be read back); the
  contents of added files are arbitrary.
\<close>

theorem print_parse_patch:
  assumes "list_all hunk_ok hunks"
  shows "parsePatch (print_patch hunks) = Inr hunks"
  using assms by (rule parsePatch_print)

theorem print_parse_patch_witness:
  "parsePatch (print_patch [Hunk_delete [97], Hunk_add [98] [120, 10, 121]]) =
     Inr [Hunk_delete [97], Hunk_add [98] [120, 10, 121]]"
  by (rule print_parse_patch) (simp add: path_ok_def trim_fixed js_space_def)

section \<open>The end-of-file marker\<close>

lemma change_lines_no_eof: "fst (snd (snd (change_lines ls))) = False"
  by (induction ls) (auto simp: Let_def lit_def split: prod.splits)

lemma chunks_no_eof: "\<forall>c\<in>set (fst (parseUpdateFileChunks ls)). \<not> uc_is_end_of_file c"
proof (induction ls rule: parseUpdateFileChunks.induct)
  case (2 line rest)
  obtain old new e r where c: "change_lines rest = (old, new, e, r)" by (cases "change_lines rest") auto
  with change_lines_no_eof [of rest] have "\<not> e" by simp
  with 2 c show ?case by (auto simp: Let_def split: prod.splits)
qed simp

lemma parse_hunks_member:
  assumes "h \<in> set (parse_hunks stop ls)"
  shows "(\<exists>ls'. length ls' < length ls \<and> h \<in> set (parse_hunks stop ls')) \<or>
    (\<exists>f mv r. h = Hunk_update f mv (fst (parseUpdateFileChunks r))) \<or> (\<exists>f c. h = Hunk_add f c) \<or> (\<exists>f. h = Hunk_delete f)"
proof (cases ls)
  case (Cons line after)
  show ?thesis
  proof (cases "parsePatchHeader (line # after)")
    case None
    with assms Cons show ?thesis by (auto split: if_splits)
  next
    case (Some res)
    obtain f mv r where res: "parsePatchHeader (line # after) = Some (f, mv, r)" using Some by (cases res) auto
    obtain content ra where a: "parseAddFileContent r = (content, ra)" by (cases "parseAddFileContent r")
    obtain chunks ru where u: "parseUpdateFileChunks r = (chunks, ru)" by (cases "parseUpdateFileChunks r")
    have len: "length r < length ls" "length ra < length ls" "length ru < length ls" "length after < length ls"
      using parsePatchHeader_length [OF res] parseAddFileContent_length [OF a] parseUpdateFileChunks_length [OF u] Cons
      by simp_all
    have "fst (parseUpdateFileChunks r) = chunks" by (simp add: u)
    moreover have "h = Hunk_add f content \<or> h \<in> set (parse_hunks stop ra) \<or> h = Hunk_delete f \<or> h \<in> set (parse_hunks stop r) \<or>
        h = Hunk_update f mv chunks \<or> h \<in> set (parse_hunks stop ru) \<or> h \<in> set (parse_hunks stop after)"
      using assms Cons by (auto simp: res a u split: if_splits)
    ultimately show ?thesis using len by metis
  qed
qed (use assms in simp)

lemma hunks_no_eof: "Hunk_update p m cs \<in> set (parse_hunks stop ls) \<Longrightarrow> \<forall>c\<in>set cs. \<not> uc_is_end_of_file c"
proof (induction "length ls" arbitrary: ls rule: less_induct)
  case less
  from parse_hunks_member [OF less.prems] less.hyps show ?case using chunks_no_eof by auto
qed

text \<open>
  The end-of-file marker is never recognised.  No chunk of a parsed patch is anchored at the end of
  the file, because the loop stops at every line that starts with three asterisks before it compares it
  with the marker; and the chunks of the file that follow the marker are dropped without an error.
\<close>

theorem end_of_file_marker_ignored:
  "(case parsePatch text of Inl e \<Rightarrow> True
    | Inr hunks \<Rightarrow> list_all (\<lambda>h. case h of Hunk_update p m cs \<Rightarrow> list_all (\<lambda>c. \<not> uc_is_end_of_file c) cs | _ \<Rightarrow> True) hunks) \<and>
   parseUpdateFileChunks ([64, 64] # List.map (Cons 45) old @ [lit ''*** End of File''] @ others) =
     ([\<lparr>uc_old_lines = old, uc_new_lines = [], uc_change_context = None, uc_is_end_of_file = False\<rparr>],
      lit ''*** End of File'' # others)"
proof
  have "\<forall>c\<in>set cs. \<not> uc_is_end_of_file c" if "parsePatch text = Inr hunks" "Hunk_update p m cs \<in> set hunks" for hunks p m cs
    using that hunks_no_eof by (auto simp: parsePatch_def Let_def split: option.splits if_splits)
  then show "case parsePatch text of Inl e \<Rightarrow> True
    | Inr hunks \<Rightarrow> list_all (\<lambda>h. case h of Hunk_update p m cs \<Rightarrow> list_all (\<lambda>c. \<not> uc_is_end_of_file c) cs | _ \<Rightarrow> True) hunks"
    by (auto simp: list_all_iff split: sum.split Hunk.split)
  have "stops_chunk (lit ''*** End of File'' # others)" by (simp add: stops_chunk_def lit_def)
  from change_lines_print [OF this, of old "[]"]
  show "parseUpdateFileChunks ([64, 64] # List.map (Cons 45) old @ [lit ''*** End of File''] @ others) =
     ([\<lparr>uc_old_lines = old, uc_new_lines = [], uc_change_context = None, uc_is_end_of_file = False\<rparr>],
      lit ''*** End of File'' # others)"
    by (simp add: lit_def)
qed

end
