(* ===== verification/Agent_Files.thy ===== *)
theory Agent_Files imports Agent_Text Js_Map begin

text \<open>
  What the tools use of the file system: \<open>writeWithDirs\<close>, \<open>readFile\<close> and \<open>remove\<close> of \<open>core/src/filesystem.ts\<close>, and
  \<open>syncFile\<close> of \<open>util/bom.ts\<close> after the formatter of \<open>format/index.ts\<close>.  Files are a map from paths to decoded texts;
  directories are told apart by a predicate and are not created explicitly.  Every access can fail: a failed write leaves the file as it was or
  with any other text, and the formatter, which runs external commands, may change any file.
\<close>

section \<open>Files and their environment\<close>

type_synonym files = "(utext \<times> utext) list"

datatype write_result = Write_ok | Write_error string "utext option"

record file_env =
  ev_directory :: "utext \<Rightarrow> bool"
  ev_read :: "files \<Rightarrow> utext \<Rightarrow> unit result"
  ev_write :: "files \<Rightarrow> utext \<Rightarrow> utext \<Rightarrow> write_result"
  ev_remove :: "files \<Rightarrow> utext \<Rightarrow> unit result"
  ev_format :: "utext \<Rightarrow> files \<Rightarrow> bool \<times> files"

definition file_read :: "'z file_env_scheme \<Rightarrow> utext \<Rightarrow> files \<Rightarrow> utext result" where
  "file_read env path fs =
     (case map_get fs path of
        None \<Rightarrow> Inl (if ev_directory env path then ''EISDIR'' else ''ENOENT'')
      | Some text \<Rightarrow> map_sum id (\<lambda>_. text) (ev_read env fs path))"

definition file_write :: "'z file_env_scheme \<Rightarrow> utext \<Rightarrow> utext \<Rightarrow> files \<Rightarrow> files \<times> unit result" where
  "file_write env path text fs =
     (case ev_write env fs path text of
        Write_ok \<Rightarrow> (map_set path text fs, Inr ())
      | Write_error e None \<Rightarrow> (fs, Inl e)
      | Write_error e (Some torn) \<Rightarrow> (map_set path torn fs, Inl e))"

definition file_remove :: "'z file_env_scheme \<Rightarrow> utext \<Rightarrow> files \<Rightarrow> files \<times> unit result" where
  "file_remove env path fs =
     (case map_get fs path of
        None \<Rightarrow> (fs, Inl ''ENOENT'')
      | Some text \<Rightarrow> (case ev_remove env fs path of Inl e \<Rightarrow> (fs, Inl e) | Inr _ \<Rightarrow> (map_delete path fs, Inr ())))"

text \<open>The byte order mark is put back, or taken away, if the formatter changed it.\<close>

definition syncFile :: "'z file_env_scheme \<Rightarrow> utext \<Rightarrow> bool \<Rightarrow> files \<Rightarrow> files \<times> utext result" where
  "syncFile env path bom fs =
     (case file_read env path fs of
        Inl e \<Rightarrow> (fs, Inl e)
      | Inr current \<Rightarrow>
          let (b, text) = bom_split current
          in if b = bom then (fs, Inr text)
             else (case file_write env path (bom_join text bom) fs of (fs', r) \<Rightarrow> (fs', map_sum id (\<lambda>_. text) r)))"

text \<open>After a write: the formatter, and if it ran the synchronisation of the mark.  \<open>None\<close>: nothing to synchronise.\<close>

definition format_synced :: "'z file_env_scheme \<Rightarrow> utext \<Rightarrow> bool \<Rightarrow> files \<Rightarrow> files \<times> utext option result" where
  "format_synced env path bom fs =
     (case ev_format env path fs of
        (False, fs') \<Rightarrow> (fs', Inr None)
      | (True, fs') \<Rightarrow> (case syncFile env path bom fs' of (fs'', r) \<Rightarrow> (fs'', map_sum id Some r)))"

section \<open>What an access changes\<close>

definition same_elsewhere :: "utext set \<Rightarrow> files \<Rightarrow> files \<Rightarrow> bool" where
  "same_elsewhere P fs fs' \<longleftrightarrow> (\<forall>q. q \<notin> P \<longrightarrow> map_get fs' q = map_get fs q)"

lemma same_elsewhere_refl [simp, intro]: "same_elsewhere P fs fs"
  by (simp add: same_elsewhere_def)

lemma same_elsewhere_trans: "same_elsewhere P fs fs' \<Longrightarrow> same_elsewhere P fs' fs'' \<Longrightarrow> same_elsewhere P fs fs''"
  by (simp add: same_elsewhere_def)

lemma same_elsewhere_mono: "same_elsewhere P fs fs' \<Longrightarrow> P \<subseteq> Q \<Longrightarrow> same_elsewhere Q fs fs'"
  by (auto simp: same_elsewhere_def)

lemma file_read_Inr: "file_read env path fs = Inr text \<Longrightarrow> map_get fs path = Some text"
  by (auto simp: file_read_def split: option.splits) (metis map_sum.simps(1) old.sum.exhaust sum.distinct(1) map_sum.simps(2) sum.inject(2))

lemma file_write_cases:
  assumes "file_write env path text fs = (fs', r)"
  shows "same_elsewhere {path} fs fs'" and "r = Inr () \<Longrightarrow> map_get fs' path = Some text"
  using assms by (auto simp: file_write_def same_elsewhere_def split: write_result.splits option.splits)

lemma file_remove_cases:
  assumes "file_remove env path fs = (fs', r)"
  shows "same_elsewhere {path} fs fs'" and "r = Inr () \<Longrightarrow> map_get fs' path = None"
  using assms by (auto simp: file_remove_def same_elsewhere_def split: option.splits sum.splits)

lemma bom_join_marked: "fst (bom_split (bom_join s True))"
  by (simp add: bom_join_def bom_split_def Let_def)

lemma syncFile_cases:
  assumes "syncFile env path bom fs = (fs', r)"
  shows "same_elsewhere {path} fs fs'"
    and "r = Inr text \<Longrightarrow> \<exists>t. map_get fs' path = Some t \<and> (bom \<longrightarrow> fst (bom_split t))"
proof -
  show "same_elsewhere {path} fs fs'"
    using assms by (auto simp: syncFile_def Let_def split: sum.splits prod.splits if_splits dest: file_write_cases(1))
  assume r: "r = Inr text"
  with assms obtain current where c: "file_read env path fs = Inr current" by (auto simp: syncFile_def split: sum.splits)
  obtain b t where bt: "bom_split current = (b, t)" by fastforce
  show "\<exists>t. map_get fs' path = Some t \<and> (bom \<longrightarrow> fst (bom_split t))"
  proof (cases "b = bom")
    case True
    with assms c bt file_read_Inr [OF c] show ?thesis by (simp add: syncFile_def)
  next
    case False
    obtain fs1 w where w: "file_write env path (bom_join t bom) fs = (fs1, w)" by fastforce
    with assms c bt False r have "fs' = fs1" "w = Inr ()" by (auto simp: syncFile_def; cases w; simp)+
    with file_write_cases(2) [OF w] bom_join_marked [of t] show ?thesis by (cases bom) simp_all
  qed
qed

lemma format_synced_cases:
  assumes "format_synced env path bom fs = (fs', r)"
  shows "same_elsewhere {path} (snd (ev_format env path fs)) fs'"
    and "r = Inr None \<Longrightarrow> fs' = snd (ev_format env path fs)"
    and "r = Inr (Some text) \<Longrightarrow> \<exists>t. map_get fs' path = Some t \<and> (bom \<longrightarrow> fst (bom_split t))"
  using assms syncFile_cases(1) [of env path bom "snd (ev_format env path fs)"]
    syncFile_cases(2) [of env path bom "snd (ev_format env path fs)"]
  by (auto simp: format_synced_def split: prod.splits bool.splits)
    (metis map_sum.simps(1) map_sum.simps(2) old.sum.exhaust sum.distinct(1) sum.inject(2) option.distinct(1) option.inject)+

lemma map_sum_id_Inr: "map_sum id f r = Inr y \<longleftrightarrow> (\<exists>x. r = Inr x \<and> y = f x)"
  by (cases r) auto

lemma format_synced_ran:
  "format_synced env path bom fs = (fs', Inr s) \<Longrightarrow> s \<noteq> None \<longleftrightarrow> fst (ev_format env path fs)"
  by (auto simp: format_synced_def map_sum_id_Inr split: prod.splits bool.splits)

text \<open>An environment in which no access fails and the formatter does nothing.\<close>

definition plain_files :: file_env where
  "plain_files = \<lparr>ev_directory = (\<lambda>_. False), ev_read = (\<lambda>_ _. Inr ()), ev_write = (\<lambda>_ _ _. Write_ok), ev_remove = (\<lambda>_ _. Inr ()),
     ev_format = (\<lambda>_ fs. (False, fs))\<rparr>"

end
