(* ===== verification/Edit_Distance.thy ===== *)
theory Edit_Distance imports Js_Text begin

text \<open>
  The Levenshtein distance of \<open>tool/edit.ts\<close>, which fills a matrix row by row, and the proof that it
  is the least number of single insertions, deletions and substitutions that turn one text into the
  other.  A matrix is a list of rows; a cell is written as the code writes it.
\<close>

section \<open>The program\<close>

definition lev_init :: "'a list \<Rightarrow> 'a list \<Rightarrow> nat list list" where
  "lev_init a b =
     List.map (\<lambda>i. List.map (\<lambda>j. if i = 0 then j else if j = 0 then i else 0) [0..<length b + 1])
       [0..<length a + 1]"

definition lev_cell :: "'a list \<Rightarrow> 'a list \<Rightarrow> nat \<Rightarrow> nat list list \<Rightarrow> nat \<Rightarrow> nat list list" where
  "lev_cell a b i matrix j =
     (let cost = (if a ! (i - 1) = b ! (j - 1) then 0 else 1)
      in matrix[i := (matrix ! i)[j :=
           min (min (matrix ! (i - 1) ! j + 1) (matrix ! i ! (j - 1) + 1)) (matrix ! (i - 1) ! (j - 1) + cost)]])"

definition lev_row :: "'a list \<Rightarrow> 'a list \<Rightarrow> nat list list \<Rightarrow> nat \<Rightarrow> nat list list" where
  "lev_row a b matrix i = foldl (lev_cell a b i) matrix [1..<length b + 1]"

definition levenshtein :: "'a list \<Rightarrow> 'a list \<Rightarrow> nat" where
  "levenshtein a b =
     (if a = [] \<or> b = [] then max (length a) (length b)
      else foldl (lev_row a b) (lev_init a b) [1..<length a + 1] ! length a ! length b)"

section \<open>Single edits\<close>

inductive edit1 :: "'a list \<Rightarrow> 'a list \<Rightarrow> bool" where
  insertion: "edit1 (p @ s) (p @ c # s)"
| deletion: "edit1 (p @ c # s) (p @ s)"
| substitution: "edit1 (p @ c # s) (p @ d # s)"

lemma edit1_Cons: "edit1 x y \<Longrightarrow> edit1 (c # x) (c # y)"
  by (induction rule: edit1.induct) (metis append_Cons edit1.intros)+

lemma edit1_rev: "edit1 x y \<Longrightarrow> edit1 (rev x) (rev y)"
proof (induction rule: edit1.induct)
  case (insertion p s c)
  from edit1.insertion [of "rev s" "rev p" c] show ?case by simp
next
  case (deletion p c s)
  from edit1.deletion [of "rev s" c "rev p"] show ?case by simp
next
  case (substitution p c s d)
  from edit1.substitution [of "rev s" c "rev p" d] show ?case by simp
qed

lemma edits_map:
  assumes "\<And>x y. edit1 x y \<Longrightarrow> edit1 (f x) (f y)"
  shows "(edit1 ^^ n) x y \<Longrightarrow> (edit1 ^^ n) (f x) (f y)"
proof (induction n arbitrary: y)
  case (Suc n)
  then obtain z where "(edit1 ^^ n) x z" "edit1 z y" by auto
  with Suc.IH assms show ?case by auto
qed simp

section \<open>The recurrence\<close>

fun ed :: "'a list \<Rightarrow> 'a list \<Rightarrow> nat" where
  "ed [] ys = length ys"
| "ed (x # xs) [] = Suc (length xs)"
| "ed (x # xs) (y # ys) =
     min (min (ed xs (y # ys) + 1) (ed (x # xs) ys + 1)) (ed xs ys + (if x = y then 0 else 1))"

lemma ed_Nil2 [simp]: "ed xs [] = length xs"
  by (cases xs) simp_all

lemma ed_insert: "ed xs ys \<le> ed (c # xs) ys + 1 \<and> ed (c # xs) ys \<le> ed xs ys + 1"
proof (induction xs ys rule: ed.induct)
  case (1 ys)
  have "length ys \<le> ed [c] ys + 1 \<and> ed [c] ys \<le> length ys + 1"
    by (induction ys) auto
  then show ?case by simp
next
  case (3 x xs y ys)
  then show ?case by (auto simp: min_def split: if_splits)
qed auto

lemma ed_lift:
  assumes "\<And>ys. ed s ys \<le> ed t ys + 1"
  shows "ed (c # s) ys \<le> ed (c # t) ys + 1"
proof (induction ys)
  case Nil
  then show ?case using assms [of "[]"] by simp
next
  case (Cons y ys)
  then show ?case using assms [of "y # ys"] assms [of ys] by (auto simp: min_def)
qed

lemma ed_substitute: "ed (c # s) ys \<le> ed (d # s) ys + 1"
proof (induction ys)
  case (Cons y ys)
  then show ?case using ed_insert [of s "y # ys" c] by (auto simp: min_def)
qed simp

lemma ed_lift_prefix: "(\<And>ys. ed s ys \<le> ed t ys + 1) \<Longrightarrow> ed (p @ s) ys \<le> ed (p @ t) ys + 1"
proof (induction p arbitrary: ys)
  case (Cons c p)
  from ed_lift [OF Cons.IH [OF Cons.prems]] show ?case by simp
qed simp

lemma ed_edit1: "edit1 x y \<Longrightarrow> ed x ys \<le> ed y ys + 1"
proof (induction rule: edit1.induct)
  case (insertion p s c)
  show ?case using ed_insert by (rule ed_lift_prefix [OF conjunct1])
next
  case (deletion p c s)
  show ?case using ed_insert by (rule ed_lift_prefix [OF conjunct2])
next
  case (substitution p c s d)
  show ?case by (rule ed_lift_prefix [OF ed_substitute])
qed

lemma ed_same [simp]: "ed xs xs = 0"
  by (induction xs) auto

lemma ed_lower: "(edit1 ^^ n) x y \<Longrightarrow> ed x y \<le> n"
proof (induction n arbitrary: x)
  case (Suc n)
  then obtain z where "edit1 x z" "(edit1 ^^ n) z y" by (metis relpowp_Suc_D2)
  with Suc.IH [of z] ed_edit1 [of x z y] show ?case by simp
qed simp

lemma edits_trans: "edit1 x y \<Longrightarrow> (edit1 ^^ n) y z \<Longrightarrow> (edit1 ^^ Suc n) x z"
  by (rule relpowp_Suc_I2)

lemma edit1_front: "edit1 xs (c # xs)" "edit1 (c # xs) xs" "edit1 (c # xs) (d # xs)"
  using insertion [of "[]"] deletion [of "[]"] substitution [of "[]"] by simp_all

lemma ed_reached: "(edit1 ^^ ed x y) x y"
proof (induction x y rule: ed.induct)
  case (1 ys)
  show ?case
  proof (induction ys)
    case (Cons y ys)
    from edits_map [of "\<lambda>z. y # z", OF edit1_Cons Cons.IH]
    have "(edit1 ^^ length ys) [y] (y # ys)" by simp
    from edits_trans [OF edit1_front(1) this] show ?case by simp
  qed simp
next
  case (2 x xs)
  have "(edit1 ^^ length zs) zs []" for zs :: "'a list"
  proof (induction zs)
    case (Cons z zs)
    from edits_trans [OF edit1_front(2) Cons.IH] show ?case by simp
  qed simp
  from this [of "x # xs"] show ?case by simp
next
  case (3 x xs y ys)
  let ?k = "ed (x # xs) (y # ys)"
  have "?k = Suc (ed xs (y # ys)) \<or> ?k = Suc (ed (x # xs) ys) \<or> (?k = ed xs ys \<and> x = y) \<or> ?k = Suc (ed xs ys)"
    by (simp add: min_def)
  then consider "?k = Suc (ed xs (y # ys))" | "?k = Suc (ed (x # xs) ys)" | "?k = ed xs ys" "x = y" | "?k = Suc (ed xs ys)"
    by blast
  then show ?case
  proof cases
    case 1
    with edits_trans [OF edit1_front(2) "3.IH"(1)] show ?thesis by simp
  next
    case 2
    from edits_trans [OF edit1_front(1) edits_map [of "\<lambda>z. y # z", OF edit1_Cons "3.IH"(2)]] 2
    show ?thesis by simp
  next
    case 3
    from edits_map [of "\<lambda>z. y # z", OF edit1_Cons "3.IH"(3)] 3 show ?thesis by simp
  next
    case 4
    from edits_trans [OF edit1_front(3) edits_map [of "\<lambda>z. y # z", OF edit1_Cons "3.IH"(3)]] 4
    show ?thesis by simp
  qed
qed

lemma ed_rev: "ed (rev x) (rev y) = ed x y"
proof (rule antisym)
  show "ed (rev x) (rev y) \<le> ed x y" by (rule ed_lower) (rule edits_map [OF edit1_rev ed_reached])
  have "ed (rev (rev x)) (rev (rev y)) \<le> ed (rev x) (rev y)"
    by (rule ed_lower) (rule edits_map [OF edit1_rev ed_reached])
  then show "ed x y \<le> ed (rev x) (rev y)" by simp
qed

lemma ed_least: "ed x y = (LEAST n. (edit1 ^^ n) x y)"
  by (rule sym, rule Least_equality) (auto intro: ed_reached ed_lower)

section \<open>The matrix holds the distances of the prefixes\<close>

definition prefix_ed :: "'a list \<Rightarrow> 'a list \<Rightarrow> nat \<Rightarrow> nat \<Rightarrow> nat" where
  "prefix_ed a b i j = ed (rev (take i a)) (rev (take j b))"

lemma prefix_ed_0:
  "j \<le> length b \<Longrightarrow> prefix_ed a b 0 j = j" "i \<le> length a \<Longrightarrow> prefix_ed a b i 0 = i"
  by (simp_all add: prefix_ed_def)

lemma prefix_ed_Suc:
  "i < length a \<Longrightarrow> j < length b \<Longrightarrow>
     prefix_ed a b (Suc i) (Suc j) =
     min (min (prefix_ed a b i (Suc j) + 1) (prefix_ed a b (Suc i) j + 1))
       (prefix_ed a b i j + (if a ! i = b ! j then 0 else 1))"
  by (simp add: prefix_ed_def take_Suc_conv_app_nth)

text \<open>Rows before \<open>i\<close> and the first \<open>j\<close> cells of row \<open>i\<close> are filled; the first column is as it was.\<close>

definition lev_filled :: "'a list \<Rightarrow> 'a list \<Rightarrow> nat \<Rightarrow> nat \<Rightarrow> nat list list \<Rightarrow> bool" where
  "lev_filled a b i j m \<longleftrightarrow>
     length m = Suc (length a) \<and> (\<forall>k\<le>length a. length (m ! k) = Suc (length b) \<and> m ! k ! 0 = k) \<and>
     (\<forall>k<i. \<forall>l\<le>length b. k \<le> length a \<longrightarrow> m ! k ! l = prefix_ed a b k l) \<and>
     (i \<le> length a \<longrightarrow> (\<forall>l<j. l \<le> length b \<longrightarrow> m ! i ! l = prefix_ed a b i l))"

lemma lev_init_nth:
  "i \<le> length a \<Longrightarrow> j \<le> length b \<Longrightarrow> lev_init a b ! i ! j = (if i = 0 then j else if j = 0 then i else 0)"
  "i \<le> length a \<Longrightarrow> length (lev_init a b ! i) = Suc (length b)"
  by (simp_all add: lev_init_def less_Suc_eq_le del: upt_Suc)

lemma lev_init_filled: "lev_filled a b 1 1 (lev_init a b)"
proof -
  have "length (lev_init a b) = Suc (length a)" by (simp add: lev_init_def)
  then show ?thesis by (simp add: lev_filled_def lev_init_nth prefix_ed_0)
qed

lemma lev_cell_filled:
  assumes "lev_filled a b (Suc i) (Suc j) m" "i < length a" "j < length b"
  shows "lev_filled a b (Suc i) (Suc (Suc j)) (lev_cell a b (Suc i) m (Suc j))"
proof -
  let ?v = "min (min (m ! i ! Suc j + 1) (m ! Suc i ! j + 1)) (m ! i ! j + (if a ! i = b ! j then 0 else 1))"
  have v: "?v = prefix_ed a b (Suc i) (Suc j)"
    using assms unfolding prefix_ed_Suc [OF assms(2,3)] by (simp add: lev_filled_def)
  have c: "lev_cell a b (Suc i) m (Suc j) = m[Suc i := (m ! Suc i)[Suc j := prefix_ed a b (Suc i) (Suc j)]]"
    unfolding v [symmetric] by (simp add: lev_cell_def)
  have m: "length m = Suc (length a)" "\<And>k. k \<le> length a \<Longrightarrow> length (m ! k) = Suc (length b) \<and> m ! k ! 0 = k"
    "\<And>k l. k \<le> i \<Longrightarrow> l \<le> length b \<Longrightarrow> m ! k ! l = prefix_ed a b k l"
    "\<And>l. l \<le> j \<Longrightarrow> m ! Suc i ! l = prefix_ed a b (Suc i) l"
    using assms by (simp_all add: lev_filled_def)
  have other: "lev_cell a b (Suc i) m (Suc j) ! k = m ! k" if "k \<noteq> Suc i" for k
    using that by (simp add: c)
  have row: "lev_cell a b (Suc i) m (Suc j) ! Suc i = (m ! Suc i)[Suc j := prefix_ed a b (Suc i) (Suc j)]"
    using m(1) assms(2) by (simp add: c)
  have "length (lev_cell a b (Suc i) m (Suc j)) = Suc (length a)" using m(1) by (simp add: c)
  moreover have "length (lev_cell a b (Suc i) m (Suc j) ! k) = Suc (length b) \<and> lev_cell a b (Suc i) m (Suc j) ! k ! 0 = k"
    if "k \<le> length a" for k
    using m(2) [OF that] by (cases "k = Suc i") (simp_all add: row other)
  moreover have "lev_cell a b (Suc i) m (Suc j) ! k ! l = prefix_ed a b k l" if "k \<le> i" "l \<le> length b" for k l
    using that by (simp add: other m(3))
  moreover have "lev_cell a b (Suc i) m (Suc j) ! Suc i ! l = prefix_ed a b (Suc i) l" if "l \<le> Suc j" for l
    using that assms m(2) [of "Suc i"] m(4) [of l] by (cases "l = Suc j") (simp_all add: row)
  ultimately show ?thesis by (simp add: lev_filled_def less_Suc_eq_le)
qed

lemma lev_row_prefix:
  "lev_filled a b (Suc i) 1 m \<Longrightarrow> i < length a \<Longrightarrow> k \<le> length b \<Longrightarrow>
     lev_filled a b (Suc i) (Suc k) (foldl (lev_cell a b (Suc i)) m [1..<k + 1])"
proof (induction k)
  case (Suc k)
  then have "lev_filled a b (Suc i) (Suc k) (foldl (lev_cell a b (Suc i)) m [1..<k + 1])" by simp
  from lev_cell_filled [OF this] Suc.prems show ?case by simp
qed simp

lemma lev_row_filled:
  assumes "lev_filled a b (Suc i) 1 m" "i < length a"
  shows "lev_filled a b (Suc (Suc i)) 1 (lev_row a b m (Suc i))"
proof -
  have "k \<le> Suc i \<longleftrightarrow> k = Suc i \<or> k \<le> i" for k by auto
  with lev_row_prefix [OF assms order_refl] assms(2) show ?thesis
    by (auto simp: lev_row_def lev_filled_def less_Suc_eq_le prefix_ed_0)
qed

lemma lev_rows_filled:
  "k \<le> length a \<Longrightarrow> lev_filled a b (Suc k) 1 (foldl (lev_row a b) (lev_init a b) [1..<k + 1])"
proof (induction k)
  case 0
  then show ?case using lev_init_filled [of a b] by simp
next
  case (Suc k)
  then show ?case using lev_row_filled [of a b k "foldl (lev_row a b) (lev_init a b) [1..<k + 1]"] by simp
qed

lemma levenshtein_ed: "levenshtein a b = ed a b"
proof (cases "a = [] \<or> b = []")
  case True
  then show ?thesis by (auto simp: levenshtein_def)
next
  case False
  with lev_rows_filled [of "length a" a b] have "levenshtein a b = prefix_ed a b (length a) (length b)"
    by (auto simp: levenshtein_def lev_filled_def)
  then show ?thesis by (simp add: prefix_ed_def ed_rev)
qed

text \<open>Bounds, and what the distance says at its extremes.\<close>

lemma ed_upper: "ed x y \<le> max (length x) (length y)"
  by (induction x y rule: ed.induct) (auto simp: min_def max_def split: if_splits)

lemma ed_length: "length x \<le> length y + ed x y" "length y \<le> length x + ed x y"
  by (induction x y rule: ed.induct) (auto simp: min_def)

lemma ed_0_iff: "ed x y = 0 \<longleftrightarrow> x = y"
proof
  assume "ed x y = 0"
  with ed_reached [of x y] show "x = y" by simp
qed simp

text \<open>
  C6: \<open>levenshtein\<close> computes the edit distance.  The number in the last cell of the matrix is the length
  of a shortest sequence of single insertions, deletions and substitutions from one text to the other;
  it is zero exactly for equal texts and never more than the length of the longer one.
\<close>

theorem levenshtein_is_edit_distance:
  "levenshtein a b = (LEAST n. (edit1 ^^ n) a b) \<and> (edit1 ^^ levenshtein a b) a b \<and>
   (levenshtein a b = 0 \<longleftrightarrow> a = b) \<and> levenshtein a b \<le> max (length a) (length b)"
  unfolding levenshtein_ed by (intro conjI ed_least ed_reached ed_0_iff ed_upper)

end
