(* ===== verification/Agent_Edit.thy ===== *)
theory Agent_Edit imports Agent_Files Edit_Distance Js_Number Js_Map begin

text \<open>
  The edit tool (\<open>tool/edit.ts\<close>): line endings, the nine replacers, the search for a unique match, the
  trimming of diffs and the handler.  A replacer is a generator of candidate texts; it is modelled by
  the list of what it yields, in order.  Only the generator of exact occurrences can be infinite.
\<close>

section \<open>Line endings\<close>

definition normalizeLineEndings :: "utext \<Rightarrow> utext" where
  "normalizeLineEndings text = js_replaceAll text [13, 10] [10]"

definition detectLineEnding :: "utext \<Rightarrow> utext" where
  "detectLineEnding text = (if js_includes text [13, 10] then [13, 10] else [10])"

definition convertToLineEnding :: "utext \<Rightarrow> utext \<Rightarrow> utext" where
  "convertToLineEnding text ending = (if ending = [10] then text else js_replaceAll text [10] [13, 10])"

section \<open>Blocks of lines\<close>

text \<open>The loops that turn line numbers into positions, shared by two replacers.\<close>

definition span_start :: "utext list \<Rightarrow> nat \<Rightarrow> nat" where
  "span_start lines i = foldl (\<lambda>acc l. acc + length l + 1) 0 (take i lines)"

fun span_end :: "nat \<Rightarrow> utext list \<Rightarrow> nat" where
  "span_end acc [] = acc"
| "span_end acc [l] = acc + length l"
| "span_end acc (l # m # r) = span_end (acc + length l + 1) (m # r)"

definition block_at :: "utext \<Rightarrow> utext list \<Rightarrow> nat \<Rightarrow> nat \<Rightarrow> utext" where
  "block_at content lines i n =
     (let matchStartIndex = span_start lines i;
          matchEndIndex = span_end matchStartIndex (take n (drop i lines))
      in substring matchStartIndex matchEndIndex content)"

definition joined_block :: "utext list \<Rightarrow> nat \<Rightarrow> nat \<Rightarrow> utext" where
  "joined_block lines n i = join_lines (take n (drop i lines))"

definition drop_last_empty :: "utext list \<Rightarrow> utext list" where
  "drop_last_empty ls = (if ls \<noteq> [] \<and> last ls = [] then butlast ls else ls)"

section \<open>Replacers\<close>

definition SimpleReplacer :: "utext \<Rightarrow> utext \<Rightarrow> utext list" where
  "SimpleReplacer content findText = [findText]"

definition LineTrimmedReplacer :: "utext \<Rightarrow> utext \<Rightarrow> utext list" where
  "LineTrimmedReplacer content findText =
     (let originalLines = lines_of content; searchLines = drop_last_empty (lines_of findText);
          n = length searchLines
      in List.map (\<lambda>i. block_at content originalLines i n)
           (List.filter (\<lambda>i. list_all (\<lambda>j. trim (originalLines ! (i + j)) = trim (searchLines ! j)) [0..<n])
             [0..<Suc (length originalLines) - n]))"

definition SINGLE_CANDIDATE_SIMILARITY_THRESHOLD :: rat where
  "SINGLE_CANDIDATE_SIMILARITY_THRESHOLD = 0"

definition MULTIPLE_CANDIDATES_SIMILARITY_THRESHOLD :: rat where
  "MULTIPLE_CANDIDATES_SIMILARITY_THRESHOLD = fl (3 / 10)"

definition anchor_candidates :: "utext list \<Rightarrow> utext \<Rightarrow> utext \<Rightarrow> (nat \<times> nat) list" where
  "anchor_candidates lines firstLine lastLine =
     concat (List.map (\<lambda>i.
         if trim (lines ! i) \<noteq> firstLine then []
         else (case List.find (\<lambda>j. trim (lines ! j) = lastLine) [i + 2..<length lines] of
                 None \<Rightarrow> [] | Some j \<Rightarrow> [(i, j)]))
       [0..<length lines])"

definition line_similarity :: "utext \<Rightarrow> utext \<Rightarrow> rat" where
  "line_similarity a b = num_sub 1 (num_div (of_nat (levenshtein a b)) (of_nat (max (length a) (length b))))"

fun single_similarity :: "utext list \<Rightarrow> utext list \<Rightarrow> nat \<Rightarrow> nat \<Rightarrow> rat \<Rightarrow> nat list \<Rightarrow> rat" where
  "single_similarity lines searchLines startLine linesToCheck similarity [] = similarity"
| "single_similarity lines searchLines startLine linesToCheck similarity (j # js) =
     (let originalLine = trim (lines ! (startLine + j)); searchLine = trim (searchLines ! j)
      in if max (length originalLine) (length searchLine) = 0
         then single_similarity lines searchLines startLine linesToCheck similarity js
         else let similarity' = num_add similarity
                    (num_div (line_similarity originalLine searchLine) (of_nat linesToCheck))
              in if similarity' \<ge> SINGLE_CANDIDATE_SIMILARITY_THRESHOLD then similarity'
                 else single_similarity lines searchLines startLine linesToCheck similarity' js)"

fun sum_similarity :: "utext list \<Rightarrow> utext list \<Rightarrow> nat \<Rightarrow> rat \<Rightarrow> nat list \<Rightarrow> rat" where
  "sum_similarity lines searchLines startLine similarity [] = similarity"
| "sum_similarity lines searchLines startLine similarity (j # js) =
     (let originalLine = trim (lines ! (startLine + j)); searchLine = trim (searchLines ! j)
      in if max (length originalLine) (length searchLine) = 0
         then sum_similarity lines searchLines startLine similarity js
         else sum_similarity lines searchLines startLine
                (num_add similarity (line_similarity originalLine searchLine)) js)"

definition average_similarity :: "utext list \<Rightarrow> utext list \<Rightarrow> nat \<times> nat \<Rightarrow> rat" where
  "average_similarity lines searchLines candidate =
     (let (startLine, endLine) = candidate; actualBlockSize = endLine - startLine + 1;
          searchBlockSize = length searchLines;
          linesToCheck = min (searchBlockSize - 2) (actualBlockSize - 2)
      in if linesToCheck > 0
         then num_div (sum_similarity lines searchLines startLine 0
                [1..<min (searchBlockSize - 1) (actualBlockSize - 1)]) (of_nat linesToCheck)
         else 1)"

fun best_candidate :: "(nat \<times> nat \<Rightarrow> rat) \<Rightarrow> (nat \<times> nat) option \<Rightarrow> rat \<Rightarrow> (nat \<times> nat) list \<Rightarrow>
    (nat \<times> nat) option \<times> rat" where
  "best_candidate sim bestMatch maxSimilarity [] = (bestMatch, maxSimilarity)"
| "best_candidate sim bestMatch maxSimilarity (c # cs) =
     (if sim c > maxSimilarity then best_candidate sim (Some c) (sim c) cs
      else best_candidate sim bestMatch maxSimilarity cs)"

definition BlockAnchorReplacer :: "utext \<Rightarrow> utext \<Rightarrow> utext list" where
  "BlockAnchorReplacer content findText =
     (let originalLines = lines_of content
      in if length (lines_of findText) < 3 then []
      else let searchLines = drop_last_empty (lines_of findText);
               searchBlockSize = length searchLines;
               candidates = anchor_candidates originalLines (trim (searchLines ! 0))
                              (trim (searchLines ! (length searchLines - 1)))
      in case candidates of
           [] \<Rightarrow> []
         | [(startLine, endLine)] \<Rightarrow>
             let actualBlockSize = endLine - startLine + 1;
                 linesToCheck = min (searchBlockSize - 2) (actualBlockSize - 2);
                 similarity = (if linesToCheck > 0
                    then single_similarity originalLines searchLines startLine linesToCheck 0
                           [1..<min (searchBlockSize - 1) (actualBlockSize - 1)]
                    else 1)
             in if similarity \<ge> SINGLE_CANDIDATE_SIMILARITY_THRESHOLD
                then [block_at content originalLines startLine actualBlockSize] else []
         | _ \<Rightarrow>
             (case best_candidate (average_similarity originalLines searchLines) None (- 1) candidates of
                (Some (startLine, endLine), maxSimilarity) \<Rightarrow>
                  if maxSimilarity \<ge> MULTIPLE_CANDIDATES_SIMILARITY_THRESHOLD
                  then [block_at content originalLines startLine (endLine - startLine + 1)] else []
              | (None, maxSimilarity) \<Rightarrow> []))"

function collapse_spaces :: "utext \<Rightarrow> utext" where
  "collapse_spaces [] = []"
| "collapse_spaces (c # cs) =
     (if js_space c then 32 # collapse_spaces (dropWhile js_space cs) else c # collapse_spaces cs)"
  by pat_completeness auto
termination
  by (relation "measure length") (auto simp: length_dropWhile_le le_imp_less_Suc)

definition normalizeWhitespace :: "utext \<Rightarrow> utext" where
  "normalizeWhitespace text = trim (collapse_spaces text)"

text \<open>
  The regular expression of the escaped words joined by \<open>\s+\<close>.  A word starts with a character that is
  not a space, so only the longest run of spaces can be followed by it.
\<close>

fun words_at :: "utext list \<Rightarrow> utext \<Rightarrow> utext option" where
  "words_at [] s = Some []"
| "words_at [w] s = (if starts_with w s then Some w else None)"
| "words_at (w # v # ws) s =
     (if starts_with w s then
        let r = drop (length w) s; sp = takeWhile js_space r
        in if sp = [] then None
           else map_option (\<lambda>m. w @ sp @ m) (words_at (v # ws) (drop (length sp) r))
      else None)"

fun match_words :: "utext list \<Rightarrow> utext \<Rightarrow> utext option" where
  "match_words ws [] = words_at ws []"
| "match_words ws (c # cs) = (case words_at ws (c # cs) of Some m \<Rightarrow> Some m | None \<Rightarrow> match_words ws cs)"

definition WhitespaceNormalizedReplacer :: "utext \<Rightarrow> utext \<Rightarrow> utext list" where
  "WhitespaceNormalizedReplacer content findText =
     (let normalizedFind = normalizeWhitespace findText; lines = lines_of content; findLines = lines_of findText
      in concat (List.map (\<lambda>line.
             if normalizeWhitespace line = normalizedFind then [line]
             else if js_includes (normalizeWhitespace line) normalizedFind
             then (case match_words (split_spaces (trim findText)) line of None \<Rightarrow> [] | Some m \<Rightarrow> [m])
             else []) lines) @
         (if length findLines > 1
          then List.filter (\<lambda>b. normalizeWhitespace b = normalizedFind)
                 (List.map (joined_block lines (length findLines)) [0..<Suc (length lines) - length findLines])
          else []))"

definition indent :: "utext \<Rightarrow> nat" where
  "indent line = length (takeWhile js_space line)"

definition removeIndentation :: "utext \<Rightarrow> utext" where
  "removeIndentation text =
     (let lines = lines_of text; nonEmptyLines = List.filter (\<lambda>l. trim l \<noteq> []) lines
      in if nonEmptyLines = [] then text
         else let minIndent = min_list (List.map indent nonEmptyLines)
              in join_lines (List.map (\<lambda>l. if trim l = [] then l else drop minIndent l) lines))"

definition IndentationFlexibleReplacer :: "utext \<Rightarrow> utext \<Rightarrow> utext list" where
  "IndentationFlexibleReplacer content findText =
     (let normalizedFind = removeIndentation findText; contentLines = lines_of content;
          n = length (lines_of findText)
      in List.filter (\<lambda>b. removeIndentation b = normalizedFind)
           (List.map (joined_block contentLines n) [0..<Suc (length contentLines) - n]))"

fun unescapeString :: "utext \<Rightarrow> utext" where
  "unescapeString (c # d # r) =
     (if c = 92 then
        if d = 110 then 10 # unescapeString r
        else if d = 116 then 9 # unescapeString r
        else if d = 114 then 13 # unescapeString r
        else if d \<in> {39, 34, 96, 92, 10, 36} then d # unescapeString r
        else c # unescapeString (d # r)
      else c # unescapeString (d # r))"
| "unescapeString s = s"

definition EscapeNormalizedReplacer :: "utext \<Rightarrow> utext \<Rightarrow> utext list" where
  "EscapeNormalizedReplacer content findText =
     (let unescapedFind = unescapeString findText; lines = lines_of content; n = length (lines_of unescapedFind)
      in (if js_includes content unescapedFind then [unescapedFind] else []) @
         List.filter (\<lambda>b. unescapeString b = unescapedFind)
           (List.map (joined_block lines n) [0..<Suc (length lines) - n]))"

definition TrimmedBoundaryReplacer :: "utext \<Rightarrow> utext \<Rightarrow> utext list" where
  "TrimmedBoundaryReplacer content findText =
     (let trimmedFind = trim findText; lines = lines_of content; n = length (lines_of findText)
      in if trimmedFind = findText then []
         else (if js_includes content trimmedFind then [trimmedFind] else []) @
              List.filter (\<lambda>b. trim b = trimmedFind)
                (List.map (joined_block lines n) [0..<Suc (length lines) - n]))"

definition context_match :: "utext list \<Rightarrow> utext list \<Rightarrow> bool" where
  "context_match blockLines findLines =
     (length blockLines = length findLines \<and>
      (let inner = [1..<length blockLines - 1];
           counted = List.filter (\<lambda>k. trim (blockLines ! k) \<noteq> [] \<or> trim (findLines ! k) \<noteq> []) inner;
           matchingLines = length (List.filter (\<lambda>k. trim (blockLines ! k) = trim (findLines ! k)) counted);
           totalNonEmptyLines = length counted
       in totalNonEmptyLines = 0 \<or> num_div (of_nat matchingLines) (of_nat totalNonEmptyLines) \<ge> 1 / 2))"

definition ContextAwareReplacer :: "utext \<Rightarrow> utext \<Rightarrow> utext list" where
  "ContextAwareReplacer content findText =
     (if length (lines_of findText) < 3 then []
      else let findLines = drop_last_empty (lines_of findText); contentLines = lines_of content
      in concat (List.map (\<lambda>(i, j).
             let blockLines = take (j + 1 - i) (drop i contentLines)
             in if context_match blockLines findLines then [join_lines blockLines] else [])
           (anchor_candidates contentLines (trim (findLines ! 0)) (trim (findLines ! (length findLines - 1))))))"

text \<open>\<open>None\<close>: the generator never ends.\<close>

partial_function (option) occurrences_from :: "utext \<Rightarrow> utext \<Rightarrow> nat \<Rightarrow> utext list option" where
  "occurrences_from content findText startIndex =
     (case indexOf (drop startIndex content) findText of
        None \<Rightarrow> Some []
      | Some k \<Rightarrow> Option.bind (occurrences_from content findText (startIndex + k + length findText))
                    (\<lambda>r. Some (findText # r)))"

definition MultiOccurrenceReplacer :: "utext \<Rightarrow> utext \<Rightarrow> utext list option" where
  "MultiOccurrenceReplacer content findText = occurrences_from content findText 0"

section \<open>Replacing\<close>

datatype attempt = Missing | Ambiguous | Done utext

definition try_search :: "utext \<Rightarrow> utext \<Rightarrow> bool \<Rightarrow> utext \<Rightarrow> attempt" where
  "try_search content newString replaceAll s =
     (case indexOf content s of
        None \<Rightarrow> Missing
      | Some index \<Rightarrow>
          if replaceAll then Done (js_replaceAll content s newString)
          else if lastIndexOf content s \<noteq> Some index then Ambiguous
          else Done (substring 0 index content @ newString @ drop (index + length s) content))"

text \<open>\<open>Inl notFound\<close> when the loop runs to its end.\<close>

fun search_loop :: "utext \<Rightarrow> utext \<Rightarrow> bool \<Rightarrow> bool \<Rightarrow> utext list \<Rightarrow> bool + utext" where
  "search_loop content newString replaceAll notFound [] = Inl notFound"
| "search_loop content newString replaceAll notFound (s # ss) =
     (case try_search content newString replaceAll s of
        Missing \<Rightarrow> search_loop content newString replaceAll notFound ss
      | Ambiguous \<Rightarrow> search_loop content newString replaceAll False ss
      | Done r \<Rightarrow> Inr r)"

definition finite_candidates :: "utext \<Rightarrow> utext \<Rightarrow> utext list" where
  "finite_candidates content oldString =
     concat [SimpleReplacer content oldString, LineTrimmedReplacer content oldString,
       BlockAnchorReplacer content oldString, WhitespaceNormalizedReplacer content oldString,
       IndentationFlexibleReplacer content oldString, EscapeNormalizedReplacer content oldString,
       TrimmedBoundaryReplacer content oldString, ContextAwareReplacer content oldString]"

definition replace_outcome :: "bool + utext \<Rightarrow> utext result" where
  "replace_outcome r =
     (case r of Inr text \<Rightarrow> Inr text
      | Inl notFound \<Rightarrow>
          if notFound
          then Inl ''Could not find oldString in the file. It must match exactly, including whitespace, indentation, and line endings.''
          else Inl ''Found multiple matches for oldString. Provide more surrounding context to make the match unique.'')"

text \<open>\<open>None\<close>: the call never returns.\<close>

definition replace :: "utext \<Rightarrow> utext \<Rightarrow> utext \<Rightarrow> bool \<Rightarrow> utext result option" where
  "replace content oldString newString replaceAll =
     (if oldString = newString
      then Some (Inl ''No changes to apply: oldString and newString are identical.'')
      else (case search_loop content newString replaceAll True (finite_candidates content oldString) of
         Inr r \<Rightarrow> Some (Inr r)
       | Inl notFound \<Rightarrow>
           (case MultiOccurrenceReplacer content oldString of
              Some ss \<Rightarrow> Some (replace_outcome (search_loop content newString replaceAll notFound ss))
            | None \<Rightarrow> (case try_search content newString replaceAll oldString of
                 Done r \<Rightarrow> Some (Inr r) | _ \<Rightarrow> None))))"

section \<open>Diffs\<close>

definition diff_line :: "utext \<Rightarrow> bool" where
  "diff_line line \<longleftrightarrow>
     (starts_with (lit ''+'') line \<or> starts_with (lit ''-'') line \<or> starts_with (lit '' '') line) \<and>
     \<not> starts_with (lit ''---'') line \<and> \<not> starts_with (lit ''+++'') line"

definition trimDiff :: "utext \<Rightarrow> utext" where
  "trimDiff diff =
     (let lines = lines_of diff; contentLines = List.filter diff_line lines;
          indents = List.map (\<lambda>l. indent (drop 1 l)) (List.filter (\<lambda>l. trim (drop 1 l) \<noteq> []) contentLines)
      in if contentLines = [] then diff
         else if indents = [] \<or> min_list indents = 0 then diff
         else join_lines (List.map (\<lambda>l. if diff_line l then take 1 l @ drop (min_list indents) (drop 1 l) else l) lines))"

section \<open>Lemmas on blocks\<close>

lemma span_start_join: "span_start ls i = (if take i ls = [] then 0 else length (join_lines (take i ls)) + 1)"
proof -
  have "foldl (\<lambda>acc l. acc + length l + 1) a ls = (if ls = [] then a else a + length (join_lines ls) + 1)" for a ls
    by (induction ls arbitrary: a) (auto simp: js_join_Cons)
  then show ?thesis by (simp add: span_start_def)
qed

lemma span_end_join: "span_end a ls = a + length (join_lines ls)"
  by (induction a ls rule: span_end.induct) auto

text \<open>A block cut out of the content by positions is the block of its lines.\<close>

lemma block_at_join:
  assumes "0 < n" "i + n \<le> length (lines_of content)"
  shows "block_at content (lines_of content) i n = joined_block (lines_of content) n i"
proof -
  define ls where "ls = lines_of content"
  define A where "A = take i ls"
  define B where "B = take n (drop i ls)"
  define C where "C = drop (i + n) ls"
  have ls: "ls = A @ B @ C" 
    by (metis A_def B_def C_def add.commute append_take_drop_id drop_drop)
  have B: "B \<noteq> []" using assms by (simp add: B_def ls_def)
  let ?b = "join_lines B"
  have content: "content = join_lines ls" by (simp add: ls_def join_split)
  obtain pre post where e: "content = pre @ ?b @ post" "length pre = span_start ls i"
  proof
    let ?pre = "if A = [] then [] else join_lines A @ [10]"
    let ?post = "if C = [] then [] else [10] @ join_lines C"
    show "content = ?pre @ ?b @ ?post"
      unfolding content ls using B by (cases "A = []"; cases "C = []") (simp_all add: js_join_append)
    show "length ?pre = span_start ls i" by (simp add: span_start_join A_def)
  qed
  have "block_at content ls i n = take (length ?b) (drop (span_start ls i) content)"
    by (simp add: block_at_def Let_def substring_def span_end_join B_def)
  also have "\<dots> = ?b" unfolding e(1) by (simp add: e(2) [symmetric])
  finally show ?thesis by (simp add: joined_block_def B_def ls_def)
qed

section \<open>The generator of exact occurrences\<close>

lemma occurs_at_bound: "occurs_at p s i \<Longrightarrow> i + length p \<le> length s"
  by (auto simp: occurs_at_def)

lemma occurrences_from_total:
  assumes "p \<noteq> []"
  shows "\<exists>n. occurrences_from s p i = Some (replicate n p)"
proof (induction "length s - i" arbitrary: i rule: less_induct)
  case less
  show ?case
  proof (cases "indexOf (drop i s) p")
    case None
    then have "occurrences_from s p i = Some (replicate 0 p)" by (simp add: occurrences_from.simps)
    then show ?thesis ..
  next
    case (Some k)
    then have "k + length p \<le> length (drop i s)" using indexOf_Some occurs_at_bound by metis
    with assms have "length s - (i + k + length p) < length s - i" by (cases p) auto
    from less [OF this] obtain n where "occurrences_from s p (i + k + length p) = Some (replicate n p)" ..
    with Some have "occurrences_from s p i = Some (replicate (Suc n) p)"
      by (subst occurrences_from.simps) simp
    then show ?thesis ..
  qed
qed

lemma indexOf_empty [simp]: "indexOf s [] = Some 0"
  by (cases s) simp_all

lemma occurrences_from_empty: "occurrences_from s [] i = None"
proof (rule ccontr)
  assume "occurrences_from s [] i \<noteq> None"
  then obtain r where r: "occurrences_from s [] i = Some r" by blast
  have "p \<noteq> []" if "occurrences_from s p i = Some r" for s p i r
  proof (rule occurrences_from.raw_induct [OF _ that])
    fix f :: "utext \<Rightarrow> utext \<Rightarrow> nat \<Rightarrow> utext list option" and s p i r
    assume IH: "\<And>s p i r. f s p i = Some r \<Longrightarrow> p \<noteq> []"
      and eq: "(case indexOf (drop i s) p of None \<Rightarrow> Some []
        | Some k \<Rightarrow> Option.bind (f s p (i + k + length p)) (\<lambda>r. Some (p # r))) = Some r"
    show "p \<noteq> []"
    proof
      assume "p = []"
      with eq IH [of s p "i + 0 + length p"] show False by (auto simp: bind_eq_Some_conv)
    qed
  qed
  from this [OF r] show False by simp
qed

lemma MultiOccurrenceReplacer_cases:
  "MultiOccurrenceReplacer s p = None \<and> p = [] \<or> (\<exists>n. MultiOccurrenceReplacer s p = Some (replicate n p) \<and> p \<noteq> [])"
  using occurrences_from_total occurrences_from_empty by (cases "p = []") (auto simp: MultiOccurrenceReplacer_def)

section \<open>The search\<close>

lemma try_search_Done:
  "try_search content new False s = Done r \<longleftrightarrow>
     (\<exists>i. occurs_at s content i \<and> (\<forall>k. occurs_at s content k \<longrightarrow> k = i) \<and>
          r = take i content @ new @ drop (i + length s) content)"
proof -
  have "try_search content new False s = Done r \<longleftrightarrow>
    (\<exists>i. (indexOf content s = Some i \<and> lastIndexOf content s = Some i) \<and>
         r = take i content @ new @ drop (i + length s) content)"
    by (auto simp: try_search_def substring_def split: option.splits)
  then show ?thesis unfolding found_once by blast
qed

lemma try_search_Missing: "try_search content new ra s = Missing \<longleftrightarrow> (\<forall>i. \<not> occurs_at s content i)"
  by (auto simp: try_search_def indexOf_None indexOf_Some split: option.splits)

lemma search_loop_Inr:
  "search_loop content new ra nf ss = Inr r \<Longrightarrow> \<exists>s\<in>set ss. try_search content new ra s = Done r"
  by (induction content new ra nf ss rule: search_loop.induct) (auto split: attempt.splits)

lemma search_loop_Inl:
  "search_loop content new ra nf ss = Inl b \<longleftrightarrow>
     (\<forall>s\<in>set ss. \<forall>r. try_search content new ra s \<noteq> Done r) \<and>
     (b \<longleftrightarrow> nf \<and> (\<forall>s\<in>set ss. try_search content new ra s = Missing))"
  by (induction content new ra nf ss arbitrary: b rule: search_loop.induct) (auto split: attempt.splits)

lemma Simple_first: "finite_candidates content old = old # tl (finite_candidates content old)"
  by (simp add: finite_candidates_def SimpleReplacer_def)

lemma old_is_candidate: "old \<in> set (finite_candidates content old)"
  by (subst Simple_first) simp

lemma replace_old_found:
  "old \<noteq> new \<Longrightarrow> try_search content new ra old = Done r \<Longrightarrow> replace content old new ra = Some (Inr r)"
  unfolding replace_def by (subst Simple_first) simp

text \<open>Whether the last generator is finite or not does not matter for what is found.\<close>

lemma replace_cases:
  assumes "old \<noteq> new"
  obtains r where "search_loop content new ra True (finite_candidates content old) = Inr r"
      "replace content old new ra = Some (Inr r)"
  | b where "search_loop content new ra True (finite_candidates content old) = Inl b"
      "replace content old new ra = (if old = [] then None else Some (replace_outcome (Inl b)))"
proof (cases "search_loop content new ra True (finite_candidates content old)")
  case (Inr r)
  with assms that(1) show ?thesis by (simp add: replace_def)
next
  case (Inl b)
  then have no: "try_search content new ra old \<noteq> Done r" for r
    using old_is_candidate by (metis search_loop_Inl)
  have b: "b \<longrightarrow> try_search content new ra old = Missing"
    using Inl old_is_candidate by (metis search_loop_Inl)
  have "replace content old new ra = (if old = [] then None else Some (replace_outcome (Inl b)))"
  proof (cases "old = []")
    case True
    with MultiOccurrenceReplacer_cases [of content old] assms Inl no show ?thesis
      by (auto simp: replace_def split: attempt.splits)
  next
    case False
    with MultiOccurrenceReplacer_cases [of content old] obtain n
      where n: "MultiOccurrenceReplacer content old = Some (replicate n old)" by blast
    have "search_loop content new ra b (replicate n old) = Inl b"
      unfolding search_loop_Inl using no b
      by (cases "try_search content new ra old") auto
    with n False assms Inl show ?thesis by (simp add: replace_def)
  qed
  with Inl that(2) show ?thesis by blast
qed

text \<open>
  C2: an edit changes one region and nothing else.  When \<open>replace\<close> returns a text without replacing
  all, the content has a stretch that occurs in it once only and that one of the replacers proposed for
  the old text, and the result is the content with just this stretch replaced by the new text.
\<close>

theorem replace_changes_one_region:
  assumes "replace content old new False = Some (Inr r)"
  shows "\<exists>pre s post. content = pre @ s @ post \<and> r = pre @ new @ post \<and>
    s \<in> set (finite_candidates content old) \<and> (\<forall>k. occurs_at s content k \<longrightarrow> k = length pre)"
proof -
  from assms have ne: "old \<noteq> new" by (auto simp: replace_def)
  from ne have "search_loop content new False True (finite_candidates content old) = Inr r"
  proof (cases rule: replace_cases [of old new content False])
    case (2 b)
    with assms show ?thesis by (cases "old = []") (simp_all add: replace_outcome_def split: if_splits)
  qed (use assms in simp)
  from search_loop_Inr [OF this] obtain s i where s: "s \<in> set (finite_candidates content old)"
    "occurs_at s content i" "\<forall>k. occurs_at s content k \<longrightarrow> k = i" "r = take i content @ new @ drop (i + length s) content"
    unfolding try_search_Done by blast
  moreover have "content = take i content @ s @ drop (i + length s) content" by (rule occurs_at_splice [OF s(2)])
  moreover have "length (take i content) = i" using occurs_at_bound [OF s(2)] by simp
  ultimately show ?thesis by metis
qed

theorem replace_changes_one_region_witness:
  "replace (lit ''x = 1'') (lit ''1'') (lit ''2'') False = Some (Inr (lit ''x = 2'')) \<and>
   (\<exists>pre s post. lit ''x = 1'' = pre @ s @ post \<and> lit ''x = 2'' = pre @ lit ''2'' @ post \<and>
     s \<in> set (finite_candidates (lit ''x = 1'') (lit ''1'')))"
proof -
  have 1: "replace (lit ''x = 1'') (lit ''1'') (lit ''2'') False = Some (Inr (lit ''x = 2''))"
    by (rule replace_old_found) (simp_all add: lit_def try_search_def substring_def)
  from replace_changes_one_region [OF 1] 1 show ?thesis by blast
qed

text \<open>
  An exact match wins.  If the old text occurs once in the content, it is replaced there, whatever
  the fuzzy replacers would find; with \<open>replaceAll\<close> and a new text without dollar signs, the pieces of
  the content between the occurrences are joined by the new text.
\<close>

theorem exact_match_wins:
  assumes "content = pre @ old @ post" and "\<forall>k. occurs_at old content k \<longrightarrow> k = length pre"
    and "old \<noteq> new" and "old \<noteq> []" and "36 \<notin> set new"
  shows "replace content old new False = Some (Inr (pre @ new @ post)) \<and>
    (\<exists>ws. split_at_matches old content ws \<and> replace content old new True = Some (Inr (js_join new ws)))"
proof
  have occ: "occurs_at old content (length pre)" using assms(1) by (auto simp: occurs_at_def)
  have "try_search content new False old = Done (pre @ new @ post)"
    unfolding try_search_Done by (intro exI [of _ "length pre"] conjI occ assms(2)) (simp add: assms(1))
  then show "replace content old new False = Some (Inr (pre @ new @ post))" by (rule replace_old_found [OF assms(3)])
  from replace_matches_split [OF assms(4,5)] obtain ws
    where ws: "split_at_matches old content ws" "replace_matches old new [] content = js_join new ws" by blast
  have "try_search content new True old = Done (js_join new ws)"
    using occ indexOf_None [of content old] assms(4) ws(2)
    by (auto simp: try_search_def js_replaceAll_def split: option.splits)
  from replace_old_found [OF assms(3) this] ws(1) show "\<exists>ws. split_at_matches old content ws \<and>
      replace content old new True = Some (Inr (js_join new ws))"
    by blast
qed

theorem exact_match_wins_witness:
  "replace (lit ''ab'') (lit ''b'') (lit ''c'') False = Some (Inr (lit ''ac'')) \<and>
   (\<exists>ws. split_at_matches (lit ''b'') (lit ''ab'') ws \<and>
     replace (lit ''ab'') (lit ''b'') (lit ''c'') True = Some (Inr (js_join (lit ''c'') ws)))"
proof -
  have "\<forall>k. occurs_at (lit ''b'') (lit ''ab'') k \<longrightarrow> k = length (lit ''a'')"
    using found_once [of "lit ''ab''" "lit ''b''" 1] by (simp add: lit_def)
  from exact_match_wins [of "lit ''ab''" "lit ''a''" "lit ''b''" "[]" "lit ''c''", OF _ this]
  show ?thesis by (simp add: lit_def)
qed

text \<open>What one proposed text needs to be replaced: to occur, and once unless all occurrences are wanted.\<close>

definition replaceable :: "utext \<Rightarrow> bool \<Rightarrow> utext \<Rightarrow> bool" where
  "replaceable content replaceAll s \<longleftrightarrow> (if replaceAll then \<exists>i. occurs_at s content i else \<exists>!i. occurs_at s content i)"

lemma try_search_replaceable: "replaceable content ra s \<longleftrightarrow> (\<exists>r. try_search content new ra s = Done r)"
proof (cases ra)
  case True
  then show ?thesis using indexOf_None [of content s] by (cases "indexOf content s") (auto simp: replaceable_def try_search_def)
qed (auto simp: replaceable_def try_search_Done)

text \<open>
  C33: when the edit ends and with which error, with and without \<open>replaceAll\<close>.  Equal texts are refused.  Otherwise a call with an old text that is not empty
  always returns; the answer is an error exactly when no proposed text can be replaced, that is, occurs in the content, and only once when not all
  occurrences are wanted; the error says that \<open>oldString\<close> was not found when none of them occurs at all,
  and that there are multiple matches when some does.  With an empty old text the call does
  not return unless some proposal can be replaced: the last generator yields the empty text forever.
\<close>

theorem replace_errors_exact:
  "if old = new
   then replace content old new ra = Some (Inl ''No changes to apply: oldString and newString are identical.'')
   else if \<exists>s\<in>set (finite_candidates content old). replaceable content ra s
   then \<exists>r. replace content old new ra = Some (Inr r)
   else if old = [] then replace content old new ra = None
   else if \<exists>s\<in>set (finite_candidates content old). \<exists>i. occurs_at s content i
   then replace content old new ra =
     Some (Inl ''Found multiple matches for oldString. Provide more surrounding context to make the match unique.'')
   else replace content old new ra =
     Some (Inl ''Could not find oldString in the file. It must match exactly, including whitespace, indentation, and line endings.'')"
proof (cases "old = new")
  case True
  then show ?thesis by (simp add: replace_def)
next
  case ne: False
  then show ?thesis
  proof (cases rule: replace_cases [of old new content ra])
    case (1 r)
    from search_loop_Inr [OF 1(1)] have "\<exists>s\<in>set (finite_candidates content old). replaceable content ra s"
      unfolding try_search_replaceable [of content ra _ new] by blast
    with ne 1(2) show ?thesis by simp
  next
    case (2 b)
    then have none: "\<not> (\<exists>s\<in>set (finite_candidates content old). replaceable content ra s)"
      unfolding try_search_replaceable [of content ra _ new] search_loop_Inl by auto
    have "b \<longleftrightarrow> \<not> (\<exists>s\<in>set (finite_candidates content old). \<exists>i. occurs_at s content i)"
      using 2(1) unfolding search_loop_Inl try_search_Missing by blast
    with ne none 2(2) show ?thesis by (auto simp: replace_outcome_def)
  qed
qed

lemmas candidate_defs = finite_candidates_def SimpleReplacer_def LineTrimmedReplacer_def BlockAnchorReplacer_def
  WhitespaceNormalizedReplacer_def IndentationFlexibleReplacer_def EscapeNormalizedReplacer_def
  TrimmedBoundaryReplacer_def ContextAwareReplacer_def Let_def drop_last_empty_def block_at_def joined_block_def
  substring_def span_start_def normalizeWhitespace_def removeIndentation_def indent_def trim_def trimEnd_def
  js_space_def split_spaces_word js_includes_def

theorem replace_errors_exact_witness:
  "replace (lit ''ab'') [] (lit ''x'') False = None \<and>
   replace (lit ''ab'') (lit ''c'') (lit ''x'') True =
     Some (Inl ''Could not find oldString in the file. It must match exactly, including whitespace, indentation, and line endings.'')"
proof -
  have 1: "finite_candidates (lit ''ab'') [] = [[], [], [], [], []]"
    by (simp add: candidate_defs lit_def)
  have "\<not> (\<exists>!i. occurs_at [] (lit ''ab'') i)"
  proof
    assume "\<exists>!i. occurs_at [] (lit ''ab'') i"
    then obtain i where i: "\<And>k. occurs_at [] (lit ''ab'') k \<Longrightarrow> k = i" by blast
    have "occurs_at [] (lit ''ab'') 0" "occurs_at [] (lit ''ab'') 1"
      by (simp_all add: occurs_at_0 lit_def occurs_at_Suc)
    from this(1) [THEN i] this(2) [THEN i] show False by simp
  qed
  then have "\<not> (\<exists>s\<in>set (finite_candidates (lit ''ab'') []). replaceable (lit ''ab'') False s)"
    by (simp add: 1 replaceable_def)
  moreover have "[] \<noteq> lit ''x''" by (simp add: lit_def)
  ultimately have a: "replace (lit ''ab'') [] (lit ''x'') False = None"
    using replace_errors_exact [of "[]" "lit ''x''" "lit ''ab''" False] by simp
  have 2: "finite_candidates (lit ''ab'') (lit ''c'') = [lit ''c'']"
    by (simp add: candidate_defs lit_def)
  have "indexOf (lit ''ab'') (lit ''c'') = None" by (simp add: lit_def)
  then have "\<forall>i. \<not> occurs_at (lit ''c'') (lit ''ab'') i" by (simp add: indexOf_None)
  moreover have "lit ''c'' \<noteq> lit ''x''" "lit ''c'' \<noteq> []" by (simp_all add: lit_def)
  ultimately show ?thesis
    using replace_errors_exact [of "lit ''c''" "lit ''x''" "lit ''ab''" True] a unfolding 2 by (simp add: replaceable_def)
qed

text \<open>With \<open>replaceAll\<close> the new text is a template: a pair of dollar signs becomes one.\<close>

lemma replace_all_dollar:
  "replace (lit ''a=1'') (lit ''1'') (lit ''$$x'') True = Some (Inr (lit ''a=$x''))"
  by (rule replace_old_found) (simp_all add: lit_def try_search_def js_replaceAll_def)

section \<open>One block between the anchors\<close>

lemma line_similarity_nonneg: "0 \<le> line_similarity a b"
proof (cases "max (length a) (length b) = 0")
  case True
  then show ?thesis by (simp add: line_similarity_def num_sub_def num_div_def)
next
  case False
  have "num_div (of_nat (levenshtein a b)) (of_nat (max (length a) (length b))) \<le> 1"
    using num_div_unit [of "of_nat (levenshtein a b)" "of_nat (max (length a) (length b))"] False
      ed_upper [of a b] by (simp add: levenshtein_ed)
  then show ?thesis by (simp add: line_similarity_def num_sub_def fl_nonneg)
qed

lemma single_similarity_nonneg: "0 \<le> sim \<Longrightarrow> 0 \<le> single_similarity ls ss st n sim js"
proof (induction ls ss st n sim js rule: single_similarity.induct)
  case (2 ls ss st n sim j js)
  have "0 \<le> num_div (line_similarity (trim (ls ! (st + j))) (trim (ss ! j))) (of_nat n)"
    using line_similarity_nonneg by (simp add: num_div_def fl_nonneg)
  with "2.prems" have "0 \<le> num_add sim (num_div (line_similarity (trim (ls ! (st + j))) (trim (ss ! j))) (of_nat n))"
    by (simp add: num_add_def fl_nonneg)
  with 2 show ?case by (simp add: Let_def)
qed simp

lemma anchor_candidates_bounds:
  "(i, j) \<in> set (anchor_candidates ls f l) \<Longrightarrow>
     i + 2 \<le> j \<and> j < length ls \<and> trim (ls ! i) = f \<and> trim (ls ! j) = l"
  by (auto simp: anchor_candidates_def split: if_splits option.splits dest!: sym [of "Some j"] find_SomeD)

text \<open>
  With one pair of anchors the block between them is replaced whatever it holds.  When exactly one
  line of the content matches the first line of the search text and a later one its last line, the
  block replacer proposes all lines from the one to the other; the lines in between, their number
  included, are without influence, since the similarity they reach is never below the threshold.
\<close>

theorem single_anchor_takes_block:
  assumes "3 \<le> length (lines_of findText)" and "searchLines = drop_last_empty (lines_of findText)"
    and "anchor_candidates (lines_of content) (trim (searchLines ! 0)) (trim (last searchLines)) = [(i, j)]"
  shows "BlockAnchorReplacer content findText = [joined_block (lines_of content) (j - i + 1) i] \<and>
    i + 2 \<le> j \<and> j < length (lines_of content)"
proof -
  have ne: "searchLines \<noteq> []" using assms(1,2)
    by (cases "lines_of findText" rule: rev_cases) (auto simp: drop_last_empty_def)
  have b: "i + 2 \<le> j" "j < length (lines_of content)"
    using anchor_candidates_bounds [of i j "lines_of content" "trim (searchLines ! 0)" "trim (last searchLines)"]
    by (simp_all add: assms(3))
  have "block_at content (lines_of content) i (j - i + 1) = joined_block (lines_of content) (j - i + 1) i"
    by (rule block_at_join) (use b in simp_all)
  moreover have "BlockAnchorReplacer content findText = [block_at content (lines_of content) i (j - i + 1)]"
    using assms single_similarity_nonneg [of 0] last_conv_nth [OF ne]
    by (simp add: BlockAnchorReplacer_def Let_def SINGLE_CANDIDATE_SIMILARITY_THRESHOLD_def)
  ultimately show ?thesis using b by simp
qed

theorem single_anchor_takes_block_witness:
  "BlockAnchorReplacer [97, 10, 98, 10, 99, 10, 100] [97, 10, 120, 10, 100] = [[97, 10, 98, 10, 99, 10, 100]]"
proof -
  have t: "trim [c] = [c]" if "\<not> js_space c" for c using that by (simp add: trim_fixed)
  have l: "lines_of [97, 10, 120, 10, 100] = [[97], [120], [100]]"
    "lines_of [97, 10, 98, 10, 99, 10, 100] = [[97], [98], [99], [100]]" by simp_all
  have a: "3 \<le> length (lines_of [97, 10, 120, 10, 100])"
    "[[97], [120], [100]] = drop_last_empty (lines_of [97, 10, 120, 10, 100])"
    unfolding l by (simp_all add: drop_last_empty_def)
  have c: "anchor_candidates (lines_of [97, 10, 98, 10, 99, 10, 100]) (trim ([[97], [120], [100]] ! 0))
      (trim (last [[97], [120], [100]])) = [(0, 3)]"
    unfolding l by (simp add: anchor_candidates_def t js_space_def)
  have "joined_block [[97], [98], [99], [100]] (3 - 0 + 1) 0 = [97, 10, 98, 10, 99, 10, 100]"
    by (simp add: joined_block_def)
  with single_anchor_takes_block [OF a c] show ?thesis unfolding l by metis
qed

section \<open>The tool\<close>

text \<open>
  The handler, over the files of \<open>Agent_Files\<close>.  The environment stands for the path
  library, the check of external directories, the reservations of the coordination layer (\<open>None\<close> also
  when the check itself fails) and the question to the user.
  The diff, the language server and the lock per file do not influence what is written.
\<close>

record EditParams =
  ep_filePath :: utext
  ep_oldString :: utext
  ep_newString :: utext
  ep_replaceAll :: bool

record edit_env = file_env +
  ee_resolve :: "utext \<Rightarrow> utext"
  ee_external :: "utext \<Rightarrow> unit result"
  ee_reserved :: "utext \<Rightarrow> utext option"
  ee_session :: utext
  ee_ask :: "utext \<Rightarrow> utext \<Rightarrow> utext \<Rightarrow> unit result"

datatype edit_event = File_edited utext | File_updated utext string

record edit_state =
  es_files :: files
  es_events :: "edit_event list"

datatype edit_error =
    Path_required | Identical_strings | External_directory string | Reserved_by utext
  | File_not_found utext | Is_directory utext | No_replacement string | Permission_refused string | File_access string

definition write_formatted :: "'z file_env_scheme \<Rightarrow> utext \<Rightarrow> utext \<Rightarrow> bool \<Rightarrow> files \<Rightarrow> files \<times> utext result" where
  "write_formatted env path contentNew desiredBom fs =
     (case file_write env path (bom_join contentNew desiredBom) fs of
        (fs1, Inl e) \<Rightarrow> (fs1, Inl e)
      | (fs1, Inr _) \<Rightarrow>
          (case format_synced env path desiredBom fs1 of (fs2, r) \<Rightarrow> (fs2, map_sum id (\<lambda>synced. nullish synced contentNew) r)))"

definition edit_store :: "edit_env \<Rightarrow> utext \<Rightarrow> utext \<Rightarrow> utext \<Rightarrow> bool \<Rightarrow> string \<Rightarrow> edit_state \<Rightarrow>
    edit_state \<times> (edit_error + utext)" where
  "edit_store env path contentOld contentNew desiredBom change st =
     (case ee_ask env path contentOld contentNew of
        Inl e \<Rightarrow> (st, Inl (Permission_refused e))
      | Inr _ \<Rightarrow>
          (case write_formatted env path contentNew desiredBom (es_files st) of
             (fs, Inl e) \<Rightarrow> (st\<lparr>es_files := fs\<rparr>, Inl (File_access e))
           | (fs, Inr text) \<Rightarrow>
               (st\<lparr>es_files := fs, es_events := es_events st @ [File_edited path, File_updated path change]\<rparr>, Inr text)))"

definition edit_file :: "edit_env \<Rightarrow> EditParams \<Rightarrow> utext \<Rightarrow> edit_state \<Rightarrow>
    (edit_state \<times> (edit_error + utext)) option" where
  "edit_file env params filePath st =
     (if ep_oldString params = [] then
        let existed = (map_get (es_files st) filePath \<noteq> None \<or> ev_directory env filePath)
        in case (if existed then map_sum id bom_split (file_read env filePath (es_files st)) else Inr (False, [])) of
             Inl e \<Rightarrow> Some (st, Inl (File_access e))
           | Inr (sourceBom, sourceText) \<Rightarrow>
               let (nextBom, nextText) = bom_split (ep_newString params)
               in Some (edit_store env filePath sourceText nextText (sourceBom \<or> nextBom)
                    (if existed then ''change'' else ''add'') st)
      else case map_get (es_files st) filePath of
        None \<Rightarrow> Some (st, Inl (if ev_directory env filePath then Is_directory filePath else File_not_found filePath))
      | Some _ \<Rightarrow>
          (case file_read env filePath (es_files st) of
             Inl e \<Rightarrow> Some (st, Inl (File_access e))
           | Inr onDisk \<Rightarrow>
               let (sourceBom, contentOld) = bom_split onDisk;
                   ending = detectLineEnding contentOld;
                   old = convertToLineEnding (normalizeLineEndings (ep_oldString params)) ending;
                   replacement = convertToLineEnding (normalizeLineEndings (ep_newString params)) ending
               in case replace contentOld old replacement (ep_replaceAll params) of
                    None \<Rightarrow> None
                  | Some (Inl e) \<Rightarrow> Some (st, Inl (No_replacement e))
                  | Some (Inr text) \<Rightarrow>
                      let (nextBom, contentNew) = bom_split text
                      in Some (edit_store env filePath contentOld contentNew (sourceBom \<or> nextBom) ''change'' st)))"

definition edit_execute :: "edit_env \<Rightarrow> EditParams \<Rightarrow> edit_state \<Rightarrow> (edit_state \<times> (edit_error + utext)) option" where
  "edit_execute env params st =
     (if ep_filePath params = [] then Some (st, Inl Path_required)
      else if ep_oldString params = ep_newString params then Some (st, Inl Identical_strings)
      else let filePath = ee_resolve env (ep_filePath params)
      in case ee_external env filePath of
           Inl e \<Rightarrow> Some (st, Inl (External_directory e))
         | Inr _ \<Rightarrow>
      (case ee_reserved env filePath of
         Some task \<Rightarrow> if task \<noteq> ee_session env then Some (st, Inl (Reserved_by task)) else edit_file env params filePath st
       | None \<Rightarrow> edit_file env params filePath st))"

text \<open>
  What a call has done that got as far as writing the text \<open>new\<close>: \<open>w\<close> are the files after the write, and nothing but the path and what the formatter did differs from them.
\<close>

definition written_by :: "edit_env \<Rightarrow> utext \<Rightarrow> utext \<Rightarrow> bool \<Rightarrow> edit_state \<Rightarrow> edit_state \<Rightarrow> edit_error + utext \<Rightarrow> bool" where
  "written_by env path new bom st st' r \<longleftrightarrow>
     (\<exists>w. same_elsewhere {path} (es_files st) w \<and>
        (case r of
           Inl e \<Rightarrow> (\<exists>m. e = File_access m) \<and> es_events st' = es_events st \<and>
             (es_files st' = w \<or> map_get w path = Some (bom_join new bom) \<and>
                same_elsewhere {path} (snd (ev_format env path w)) (es_files st'))
         | Inr text \<Rightarrow> map_get w path = Some (bom_join new bom) \<and>
             same_elsewhere {path} (snd (ev_format env path w)) (es_files st') \<and>
             (if fst (ev_format env path w)
              then \<exists>t. map_get (es_files st') path = Some t \<and> (bom \<longrightarrow> fst (bom_split t))
              else es_files st' = snd (ev_format env path w) \<and> text = new)))"

lemma edit_store_effect:
  assumes "edit_store env path old new bom change st = (st', r)"
  shows "st' = st \<and> (\<exists>e. r = Inl e) \<or>
    ee_ask env path old new = Inr () \<and> written_by env path new bom st st' r \<and>
    (\<forall>text. r = Inr text \<longrightarrow> es_events st' = es_events st @ [File_edited path, File_updated path change])"
proof (cases "ee_ask env path old new")
  case (Inl e)
  with assms show ?thesis by (auto simp: edit_store_def)
next
  case ask: (Inr u)
  obtain fs1 r1 where w: "file_write env path (bom_join new bom) (es_files st) = (fs1, r1)" by fastforce
  note wc = file_write_cases [OF w]
  show ?thesis
  proof (cases r1)
    case (Inl e)
    with assms ask w have "st' = st\<lparr>es_files := fs1\<rparr>" "r = Inl (File_access e)"
      by (simp_all add: edit_store_def write_formatted_def)
    with wc(1) have "written_by env path new bom st st' r" unfolding written_by_def by (intro exI [of _ fs1]) simp
    with ask \<open>r = Inl (File_access e)\<close> show ?thesis by simp
  next
    case (Inr u1)
    with wc(2) have stored: "map_get fs1 path = Some (bom_join new bom)" by simp
    obtain fs2 r2 where f: "format_synced env path bom fs1 = (fs2, r2)" by fastforce
    note fc = format_synced_cases [OF f]
    obtain b fs' where fmt: "ev_format env path fs1 = (b, fs')" by fastforce
    show ?thesis
    proof (cases r2)
      case (Inl e)
      with assms ask w Inr f have "st' = st\<lparr>es_files := fs2\<rparr>" "r = Inl (File_access e)"
        by (simp_all add: edit_store_def write_formatted_def)
      with wc(1) fc(1) stored have "written_by env path new bom st st' r" unfolding written_by_def by (intro exI [of _ fs1]) simp
      with ask \<open>r = Inl (File_access e)\<close> show ?thesis by simp
    next
      case synced: (Inr s)
      with assms ask w Inr f have st': "st' = st\<lparr>es_files := fs2, es_events := es_events st @ [File_edited path, File_updated path change]\<rparr>"
        "r = Inr (nullish s new)" by (simp_all add: edit_store_def write_formatted_def)
      have "b \<longleftrightarrow> s \<noteq> None" using format_synced_ran [of env path bom fs1 fs2 s] f fmt synced by simp
      with wc(1) fc stored fmt synced st' have "written_by env path new bom st st' r"
        unfolding written_by_def by (intro exI [of _ fs1]) (cases s; simp)
      with ask st' show ?thesis by simp
    qed
  qed
qed

lemma edit_file_store:
  assumes "edit_file env params path st = Some (st', r)"
  obtains "st' = st" "\<exists>e. r = Inl e" | old new bom change where "edit_store env path old new bom change st = (st', r)"
    "\<And>t. map_get (es_files st) path = Some t \<Longrightarrow> fst (bom_split t) \<Longrightarrow> bom"
proof (cases "ep_oldString params = []")
  case True
  let ?existed = "map_get (es_files st) path \<noteq> None \<or> ev_directory env path"
  obtain nb nt where n: "bom_split (ep_newString params) = (nb, nt)" by fastforce
  show thesis
  proof (cases "if ?existed then map_sum id bom_split (file_read env path (es_files st)) else Inr (False, [])")
    case (Inl e)
    with assms True show thesis by (intro that(1)) (auto simp: edit_file_def Let_def)
  next
    case (Inr s)
    obtain sb ss where s: "s = (sb, ss)" by fastforce
    have "sb" if t: "map_get (es_files st) path = Some t" "fst (bom_split t)" for t
    proof -
      from Inr s t(1) obtain u where "file_read env path (es_files st) = Inr u" "bom_split u = (sb, ss)"
        by (cases "file_read env path (es_files st)") auto
      with file_read_Inr t show ?thesis by fastforce
    qed
    then show thesis
      using assms True Inr s n by (intro that(2) [of ss nt "sb \<or> nb" "if ?existed then ''change'' else ''add''"])
        (auto simp: edit_file_def Let_def)
  qed
next
  case False
  show thesis
  proof (cases "map_get (es_files st) path")
    case None
    with assms False show thesis by (intro that(1)) (auto simp: edit_file_def)
  next
    case (Some t)
    show thesis
    proof (cases "file_read env path (es_files st)")
      case (Inl e)
      with assms False Some show thesis by (intro that(1)) (auto simp: edit_file_def)
    next
      case (Inr u)
      with file_read_Inr Some have "u = t" by fastforce
      with assms False Some Inr show thesis
        using that by (auto simp: edit_file_def Let_def split: option.splits sum.splits prod.splits)
    qed
  qed
qed

text \<open>
  C34: the edit tool writes one file, with permission, or nothing.  Either the files and the published events are as before,
  and the call failed; or the user was asked about exactly this path and allowed it.  Then the one write is to this path: apart from
  it, the files are as before or as the formatter, which may change any file, left them.  A call that fails
  that late failed in accessing the file and publishes nothing, but what it wrote stays.  A call that returns has written the very text the user was asked about, published two events that name
  the path, and kept a byte order mark that the file had, also after the formatter.
\<close>

theorem edit_tool_effect:
  assumes "edit_execute env params st = Some (st', r)" and "path = ee_resolve env (ep_filePath params)"
  shows "st' = st \<and> (\<exists>e. r = Inl e) \<or>
    (\<exists>old new bom change. ee_ask env path old new = Inr () \<and> written_by env path new bom st st' r \<and>
       (\<forall>t. map_get (es_files st) path = Some t \<longrightarrow> fst (bom_split t) \<longrightarrow> bom) \<and>
       (\<forall>text. r = Inr text \<longrightarrow> es_events st' = es_events st @ [File_edited path, File_updated path change]))"
proof -
  from assms consider "st' = st" "\<exists>e. r = Inl e" | "edit_file env params path st = Some (st', r)"
    by (auto simp: edit_execute_def Let_def split: if_splits sum.splits option.splits)
  then show ?thesis
  proof cases
    case 2
    then show ?thesis
    proof (cases rule: edit_file_store)
      case (2 old new bom change)
      from edit_store_effect [OF 2(1)] 2(2) show ?thesis by blast
    qed simp
  qed simp
qed

definition sample_env :: edit_env where
  "sample_env = file_env.extend plain_files \<lparr>ee_resolve = id, ee_external = (\<lambda>_. Inr ()), ee_reserved = (\<lambda>_. None),
     ee_session = [], ee_ask = (\<lambda>_ _ _. Inr ())\<rparr>"

lemmas sample_access = sample_env_def plain_files_def file_env.defs file_read_def file_write_def file_remove_def
  format_synced_def syncFile_def

theorem edit_tool_effect_witness:
  "\<exists>st' r. edit_execute sample_env \<lparr>ep_filePath = [102], ep_oldString = [], ep_newString = [65], ep_replaceAll = False\<rparr>
      \<lparr>es_files = [([102], [65279, 66]), ([103], [67])], es_events = []\<rparr> = Some (st', Inr r) \<and>
     map_get (es_files st') [103] = Some [67]"
proof -
  let ?s = "\<lparr>es_files = [([102], [65279, 66]), ([103], [67])], es_events = []\<rparr> :: edit_state"
  let ?a = "\<lparr>ep_filePath = [102], ep_oldString = [], ep_newString = [65], ep_replaceAll = False\<rparr> :: EditParams"
  obtain st' r where e: "edit_execute sample_env ?a ?s = Some (st', Inr r)"
    by (simp add: edit_execute_def sample_access edit_file_def edit_store_def write_formatted_def bom_split_def
        map_get_def Let_def)
  from edit_tool_effect [OF e refl] obtain new bom w where "same_elsewhere {[102]} (es_files ?s) w"
    "same_elsewhere {[102]} (snd (ev_format sample_env [102] w)) (es_files st')"
    by (auto simp: written_by_def sample_env_def file_env.defs)
  then have "map_get (es_files st') [103] = map_get (es_files ?s) [103]"
    by (simp add: sample_access same_elsewhere_def)
  with e show ?thesis by (auto simp: map_get_def)
qed

text \<open>An empty old text on a directory fails when the directory is read.\<close>

lemma edit_directory_fails:
  assumes "ep_oldString params = []" "map_get (es_files st) path = None" "ev_directory env path"
  shows "edit_file env params path st = Some (st, Inl (File_access ''EISDIR''))"
  using assms by (simp add: edit_file_def file_read_def Let_def)

end
