(* ===== verification/Agent_Patch_Tool.thy ===== *)
theory Agent_Patch_Tool imports Agent_Patch Agent_Edit begin

text \<open>
  Applying patches to files: \<open>applyHunksToFiles\<close>, \<open>applyPatch\<close> and the verified parse of \<open>patch/index.ts\<close>,
  and the handler of the patch tool (\<open>tool/apply_patch.ts\<close>), over the files of \<open>Agent_Files\<close>: every read, write
  and removal can fail, after earlier ones have succeeded.
\<close>

section \<open>Hunks on files\<close>

record AffectedPaths =
  ap_added :: "utext list"
  ap_modified :: "utext list"
  ap_deleted :: "utext list"

definition hunk_read :: "'z file_env_scheme \<Rightarrow> utext \<Rightarrow> files \<Rightarrow> patch_error + utext" where
  "hunk_read env path fs = map_sum (\<lambda>_. Cannot_read path) id (file_read env path fs)"

definition hunk_write :: "'z file_env_scheme \<Rightarrow> utext \<Rightarrow> utext \<Rightarrow> files \<Rightarrow> files \<times> (patch_error + unit)" where
  "hunk_write env path text fs = apsnd (map_sum (\<lambda>_. Cannot_write path) id) (file_write env path text fs)"

definition hunk_remove :: "'z file_env_scheme \<Rightarrow> utext \<Rightarrow> files \<Rightarrow> files \<times> (patch_error + unit)" where
  "hunk_remove env path fs = apsnd (map_sum (\<lambda>_. Cannot_remove path) id) (file_remove env path fs)"

definition apply_hunk :: "'z file_env_scheme \<Rightarrow> Hunk \<Rightarrow> files \<Rightarrow> AffectedPaths \<Rightarrow> files \<times> (patch_error + AffectedPaths)" where
  "apply_hunk env hunk fs acc =
     (case hunk of
        Hunk_add path contents \<Rightarrow>
          apsnd (map_sum id (\<lambda>_. acc\<lparr>ap_added := ap_added acc @ [path]\<rparr>)) (hunk_write env path contents fs)
      | Hunk_delete path \<Rightarrow>
          apsnd (map_sum id (\<lambda>_. acc\<lparr>ap_deleted := ap_deleted acc @ [path]\<rparr>)) (hunk_remove env path fs)
      | Hunk_update path move chunks \<Rightarrow>
          (case hunk_read env path fs of
             Inl e \<Rightarrow> (fs, Inl e)
           | Inr originalText \<Rightarrow>
               (case deriveNewContentsFromChunks path chunks originalText of
                  Inl e \<Rightarrow> (fs, Inl e)
                | Inr update \<Rightarrow>
                    let written = bom_join (fu_content update) (fu_bom update);
                        target = (case move of Some to \<Rightarrow> if to \<noteq> [] then to else path | None \<Rightarrow> path);
                        moved = (case move of Some to \<Rightarrow> to \<noteq> [] | None \<Rightarrow> False);
                        acc' = acc\<lparr>ap_modified := ap_modified acc @ [target]\<rparr>
                    in case hunk_write env target written fs of
                         (fs1, Inl e) \<Rightarrow> (fs1, Inl e)
                       | (fs1, Inr _) \<Rightarrow>
                           if moved then apsnd (map_sum id (\<lambda>_. acc')) (hunk_remove env path fs1) else (fs1, Inr acc'))))"

fun hunks_loop :: "'z file_env_scheme \<Rightarrow> Hunk list \<Rightarrow> files \<Rightarrow> AffectedPaths \<Rightarrow> files \<times> (patch_error + AffectedPaths)" where
  "hunks_loop env [] fs acc = (fs, Inr acc)"
| "hunks_loop env (hunk # hunks) fs acc =
     (case apply_hunk env hunk fs acc of (fs', Inl e) \<Rightarrow> (fs', Inl e) | (fs', Inr acc') \<Rightarrow> hunks_loop env hunks fs' acc')"

definition applyHunksToFiles :: "'z file_env_scheme \<Rightarrow> Hunk list \<Rightarrow> files \<Rightarrow> files \<times> (patch_error + AffectedPaths)" where
  "applyHunksToFiles env hunks fs =
     (if length hunks = 0 then (fs, Inl No_files_modified)
      else hunks_loop env hunks fs \<lparr>ap_added = [], ap_modified = [], ap_deleted = []\<rparr>)"

definition applyPatch :: "'z file_env_scheme \<Rightarrow> utext \<Rightarrow> files \<Rightarrow> files \<times> (patch_error + AffectedPaths)" where
  "applyPatch env patchText fs =
     (case parsePatch patchText of Inl e \<Rightarrow> (fs, Inl e) | Inr hunks \<Rightarrow> applyHunksToFiles env hunks fs)"

section \<open>Verified parsing\<close>

datatype ApplyPatchFileChange =
    Change_add utext
  | Change_delete utext
  | Change_update utext "utext option" utext

datatype MaybeApplyPatchVerified =
    VerifiedBody "(utext \<times> ApplyPatchFileChange) list" utext
  | VerifiedImplicitInvocation
  | VerifiedCorrectnessError patch_error
  | VerifiedNotApplyPatch

definition move_target :: "utext option \<Rightarrow> utext option" where
  "move_target m = (case m of Some to \<Rightarrow> if to \<noteq> [] then Some to else None | None \<Rightarrow> None)"

fun hunk_path :: "Hunk \<Rightarrow> utext" where
  "hunk_path (Hunk_add path contents) = path"
| "hunk_path (Hunk_delete path) = path"
| "hunk_path (Hunk_update path m chunks) = path"

definition hunk_target :: "Hunk \<Rightarrow> utext" where
  "hunk_target hunk =
     (case hunk of Hunk_update path m chunks \<Rightarrow> nullish (move_target m) path | _ \<Rightarrow> hunk_path hunk)"

definition verified_change :: "'z file_env_scheme \<Rightarrow> (utext \<Rightarrow> utext) \<Rightarrow> files \<Rightarrow> Hunk \<Rightarrow> patch_error + ApplyPatchFileChange" where
  "verified_change env resolve fs hunk =
     (case hunk of
        Hunk_add path contents \<Rightarrow> Inr (Change_add contents)
      | Hunk_delete path \<Rightarrow>
          map_sum id Change_delete (hunk_read env (resolve path) fs)
      | Hunk_update path m chunks \<Rightarrow>
          (case hunk_read env (resolve path) fs of
             Inl e \<Rightarrow> Inl e
           | Inr originalText \<Rightarrow>
               (case deriveNewContentsFromChunks (resolve path) chunks originalText of
                  Inl e \<Rightarrow> Inl e
                | Inr update \<Rightarrow> Inr (Change_update (fu_unified_diff update)
                    (map_option resolve (move_target m)) (fu_content update)))))"

fun verified_loop :: "'z file_env_scheme \<Rightarrow> (utext \<Rightarrow> utext) \<Rightarrow> files \<Rightarrow> Hunk list \<Rightarrow> (utext \<times> ApplyPatchFileChange) list \<Rightarrow>
    patch_error + (utext \<times> ApplyPatchFileChange) list" where
  "verified_loop env resolve fs [] changes = Inr changes"
| "verified_loop env resolve fs (hunk # hunks) changes =
     (case verified_change env resolve fs hunk of
        Inl e \<Rightarrow> Inl e
      | Inr change \<Rightarrow> verified_loop env resolve fs hunks (map_set (resolve (hunk_target hunk)) change changes))"

definition maybeParseApplyPatchVerified :: "'z file_env_scheme \<Rightarrow> (utext \<Rightarrow> utext) \<Rightarrow> files \<Rightarrow> utext list \<Rightarrow> MaybeApplyPatchVerified" where
  "maybeParseApplyPatchVerified env resolve fs argv =
     (if length argv = 1 \<and> \<not> isl (parsePatch (argv ! 0)) then VerifiedImplicitInvocation
      else (case maybeParseApplyPatch argv of
         MaybeBody patch hunks \<Rightarrow>
           (case verified_loop env resolve fs hunks [] of
              Inl e \<Rightarrow> VerifiedCorrectnessError e | Inr changes \<Rightarrow> VerifiedBody changes patch)
       | MaybePatchParseError e \<Rightarrow> VerifiedCorrectnessError e
       | MaybeNotApplyPatch \<Rightarrow> VerifiedNotApplyPatch))"

section \<open>The tool\<close>

datatype change_type = FC_add | FC_update | FC_delete | FC_move

record FileChange =
  fc_filePath :: utext
  fc_oldContent :: utext
  fc_newContent :: utext
  fc_type :: change_type
  fc_movePath :: "utext option"
  fc_bom :: bool

datatype tool_error =
    Patch_text_required | Verification_failed patch_error | Empty_patch | No_hunks
  | Outside string | Unreadable string | Refused string | Write_failed patch_error

record patch_env = edit_env +
  pe_relative :: "utext \<Rightarrow> utext"
  pe_ask :: "utext list \<Rightarrow> unit result"

definition verify_hunk :: "patch_env \<Rightarrow> files \<Rightarrow> Hunk \<Rightarrow> tool_error + FileChange" where
  "verify_hunk env fs hunk =
     (let filePath = ee_resolve env (hunk_path hunk)
      in case ee_external env filePath of
           Inl e \<Rightarrow> Inl (Outside e)
         | Inr _ \<Rightarrow>
      (case hunk of
         Hunk_add path contents \<Rightarrow>
           let newContent = (if length contents = 0 \<or> ends_with [10] contents then contents else contents @ [10]);
               (bom, text) = bom_split newContent
           in Inr \<lparr>fc_filePath = filePath, fc_oldContent = [], fc_newContent = text, fc_type = FC_add,
                   fc_movePath = None, fc_bom = bom\<rparr>
       | Hunk_update path m chunks \<Rightarrow>
           (if map_get fs filePath = None then Inl (Verification_failed (Cannot_read filePath))
            else case file_read env filePath fs of
              Inl e \<Rightarrow> Inl (Unreadable e)
            | Inr onDisk \<Rightarrow>
                let (sourceBom, oldContent) = bom_split onDisk
                in case deriveNewContentsFromChunks filePath chunks (bom_join oldContent sourceBom) of
                     Inl e \<Rightarrow> Inl (Verification_failed e)
                   | Inr update \<Rightarrow>
                       let movePath = map_option (ee_resolve env) (move_target m);
                           change = \<lparr>fc_filePath = filePath, fc_oldContent = oldContent,
                             fc_newContent = fu_content update,
                             fc_type = (if move_target m \<noteq> None then FC_move else FC_update),
                             fc_movePath = movePath, fc_bom = fu_bom update\<rparr>
                       in (case movePath of
                             None \<Rightarrow> Inr change
                           | Some to \<Rightarrow> (case ee_external env to of Inl e \<Rightarrow> Inl (Outside e) | Inr _ \<Rightarrow> Inr change)))
       | Hunk_delete path \<Rightarrow>
           (case hunk_read env filePath fs of
              Inl e \<Rightarrow> Inl (Verification_failed e)
            | Inr onDisk \<Rightarrow>
                let (bom, text) = bom_split onDisk
                in Inr \<lparr>fc_filePath = filePath, fc_oldContent = text, fc_newContent = [], fc_type = FC_delete,
                        fc_movePath = None, fc_bom = bom\<rparr>)))"

fun verify_hunks :: "patch_env \<Rightarrow> files \<Rightarrow> Hunk list \<Rightarrow> tool_error + FileChange list" where
  "verify_hunks env fs [] = Inr []"
| "verify_hunks env fs (hunk # hunks) =
     (case verify_hunk env fs hunk of
        Inl e \<Rightarrow> Inl e
      | Inr change \<Rightarrow> map_sum id (Cons change) (verify_hunks env fs hunks))"

definition write_change :: "'z file_env_scheme \<Rightarrow> FileChange \<Rightarrow> files \<Rightarrow> files \<times> (patch_error + (utext \<times> string) list)" where
  "write_change env change fs =
     (let written = bom_join (fc_newContent change) (fc_bom change); path = fc_filePath change
      in case fc_type change of
           FC_add \<Rightarrow> apsnd (map_sum id (\<lambda>_. [(path, ''add'')])) (hunk_write env path written fs)
         | FC_update \<Rightarrow> apsnd (map_sum id (\<lambda>_. [(path, ''change'')])) (hunk_write env path written fs)
         | FC_move \<Rightarrow>
             (case fc_movePath change of
                None \<Rightarrow> (fs, Inr [])
              | Some to \<Rightarrow>
                  (case hunk_write env to written fs of
                     (fs1, Inl e) \<Rightarrow> (fs1, Inl e)
                   | (fs1, Inr _) \<Rightarrow> apsnd (map_sum id (\<lambda>_. [(path, ''unlink''), (to, ''add'')])) (hunk_remove env path fs1)))
         | FC_delete \<Rightarrow> apsnd (map_sum id (\<lambda>_. [(path, ''unlink'')])) (hunk_remove env path fs))"

definition edited_path :: "FileChange \<Rightarrow> utext option" where
  "edited_path change =
     (if fc_type change = FC_delete then None else Some (nullish (fc_movePath change) (fc_filePath change)))"

text \<open>A change is written, then formatted; both can fail and leave the changes before it in place.\<close>

fun apply_changes :: "patch_env \<Rightarrow> FileChange list \<Rightarrow> (utext \<times> string) list \<Rightarrow> edit_state \<Rightarrow>
    edit_state \<times> (tool_error + (utext \<times> string) list)" where
  "apply_changes env [] updates st = (st, Inr updates)"
| "apply_changes env (change # changes) updates st =
     (case write_change env change (es_files st) of
        (fs, Inl e) \<Rightarrow> (st\<lparr>es_files := fs\<rparr>, Inl (Write_failed e))
      | (fs, Inr more_updates) \<Rightarrow>
          (case edited_path change of
             None \<Rightarrow> apply_changes env changes (updates @ more_updates) (st\<lparr>es_files := fs\<rparr>)
           | Some path \<Rightarrow>
               (case format_synced env path (fc_bom change) fs of
                  (fs', Inl e) \<Rightarrow> (st\<lparr>es_files := fs'\<rparr>, Inl (Write_failed (Cannot_write path)))
                | (fs', Inr _) \<Rightarrow> apply_changes env changes (updates @ more_updates)
                    (st\<lparr>es_files := fs', es_events := es_events st @ [File_edited path]\<rparr>))))"

definition normalizeCr :: "utext \<Rightarrow> utext" where
  "normalizeCr s = js_replaceAll (js_replaceAll s [13, 10] [10]) [13] [10]"

definition run_apply_patch :: "patch_env \<Rightarrow> utext \<Rightarrow> edit_state \<Rightarrow> edit_state \<times> (tool_error + FileChange list)" where
  "run_apply_patch env patchText st =
     (if patchText = [] then (st, Inl Patch_text_required)
      else case parsePatch patchText of
        Inl e \<Rightarrow> (st, Inl (Verification_failed e))
      | Inr hunks \<Rightarrow>
          if length hunks = 0 then
            (st, Inl (if trim (normalizeCr patchText) = lit ''*** Begin Patch'' @ [10] @ lit ''*** End Patch''
                      then Empty_patch else No_hunks))
          else case verify_hunks env (es_files st) hunks of
            Inl e \<Rightarrow> (st, Inl e)
          | Inr fileChanges \<Rightarrow>
              (case pe_ask env (List.map (\<lambda>c. pe_relative env (fc_filePath c)) fileChanges) of
                 Inl e \<Rightarrow> (st, Inl (Refused e))
               | Inr _ \<Rightarrow>
                   (case apply_changes env fileChanges [] st of
                      (st', Inl e) \<Rightarrow> (st', Inl e)
                    | (st', Inr updates) \<Rightarrow>
                        (st'\<lparr>es_events := es_events st' @ List.map (\<lambda>(f, k). File_updated f k) updates\<rparr>,
                         Inr fileChanges))))"

section \<open>What the tool touches\<close>

text \<open>Files that were reached from others by changing paths of a set, and by formatting files of the set.\<close>

inductive touched :: "'z file_env_scheme \<Rightarrow> utext set \<Rightarrow> files \<Rightarrow> files \<Rightarrow> bool" for env P where
  touched_refl [simp, intro]: "touched env P fs fs"
| touched_change: "touched env P fs fs1 \<Longrightarrow> same_elsewhere P fs1 fs2 \<Longrightarrow> touched env P fs fs2"
| touched_format: "touched env P fs fs1 \<Longrightarrow> path \<in> P \<Longrightarrow> touched env P fs (snd (ev_format env path fs1))"

lemma touched_trans: "touched env P fs2 fs3 \<Longrightarrow> touched env P fs1 fs2 \<Longrightarrow> touched env P fs1 fs3"
  by (induction rule: touched.induct) (auto intro: touched.intros)

lemma same_elsewhere_touched: "same_elsewhere Q fs fs' \<Longrightarrow> Q \<subseteq> P \<Longrightarrow> touched env P fs fs'"
  by (rule touched_change [OF touched_refl]) (rule same_elsewhere_mono)

text \<open>With a formatter that changes its file only, nothing outside the set changes.\<close>

lemma touched_same:
  assumes "touched env P fs fs'" "\<And>path fs. same_elsewhere {path} fs (snd (ev_format env path fs))"
  shows "same_elsewhere P fs fs'"
  using assms(1)
proof induction
  case (touched_change fs fs1 fs2)
  then show ?case by (blast intro: same_elsewhere_trans)
next
  case (touched_format fs fs1 path)
  have "same_elsewhere P fs1 (snd (ev_format env path fs1))" using assms(2) touched_format(2) by (blast intro: same_elsewhere_mono)
  with touched_format(3) show ?case by (rule same_elsewhere_trans)
qed simp

definition change_paths :: "FileChange \<Rightarrow> utext set" where
  "change_paths c = insert (fc_filePath c) (set_option (fc_movePath c))"

lemma hunk_write_frame: "hunk_write env path t fs = (fs', r) \<Longrightarrow> same_elsewhere {path} fs fs'"
  by (auto simp: hunk_write_def apsnd_def map_prod_def dest: file_write_cases(1) split: prod.splits)

lemma hunk_remove_frame: "hunk_remove env path fs = (fs', r) \<Longrightarrow> same_elsewhere {path} fs fs'"
  by (auto simp: hunk_remove_def apsnd_def map_prod_def dest: file_remove_cases(1) split: prod.splits)

lemma write_change_frame:
  assumes "write_change env change fs = (fs', r)" shows "same_elsewhere (change_paths change) fs fs'"
proof -
  have sub: "{fc_filePath change} \<subseteq> change_paths change" "fc_movePath change = Some to \<Longrightarrow> {to} \<subseteq> change_paths change" for to
    by (simp_all add: change_paths_def)
  have w: "same_elsewhere (change_paths change) fs fs1" if "hunk_write env p t fs = (fs1, x)" "{p} \<subseteq> change_paths change" for p t fs fs1 x
    using hunk_write_frame [OF that(1)] that(2) by (rule same_elsewhere_mono)
  have d: "same_elsewhere (change_paths change) fs fs1" if "hunk_remove env p fs = (fs1, x)" "{p} \<subseteq> change_paths change" for p fs fs1 x
    using hunk_remove_frame [OF that(1)] that(2) by (rule same_elsewhere_mono)
  show ?thesis
  proof (cases "fc_type change")
    case FC_move
    show ?thesis
    proof (cases "fc_movePath change")
      case (Some to)
      obtain fs1 x where 1: "hunk_write env to (bom_join (fc_newContent change) (fc_bom change)) fs = (fs1, x)" by fastforce
      obtain fs2 y where 2: "hunk_remove env (fc_filePath change) fs1 = (fs2, y)" by fastforce
      from assms FC_move Some 1 2 have "fs' = fs1 \<or> fs' = fs2" by (auto simp: write_change_def Let_def split: sum.splits)
      with w [OF 1 sub(2) [OF Some]] d [OF 2 sub(1)] show ?thesis by (auto intro: same_elsewhere_trans)
    qed (use assms FC_move in \<open>simp add: write_change_def\<close>)
  qed (use assms sub(1) w d in \<open>auto simp: write_change_def Let_def apsnd_def map_prod_def split: prod.splits\<close>)
qed

lemma edited_path_in: "edited_path c = Some path \<Longrightarrow> path \<in> change_paths c"
  by (auto simp: edited_path_def change_paths_def nullish_def split: if_splits option.splits)

lemma apply_changes_touched:
  "apply_changes env changes updates st = (st', r) \<Longrightarrow> \<forall>c \<in> set changes. change_paths c \<subseteq> P \<Longrightarrow>
     touched env P (es_files st) (es_files st')"
proof (induction changes arbitrary: updates st)
  case (Cons c cs)
  obtain fs w where w: "write_change env c (es_files st) = (fs, w)" by fastforce
  from Cons.prems(2) have P: "change_paths c \<subseteq> P" "\<forall>c \<in> set cs. change_paths c \<subseteq> P" by simp_all
  have 1: "touched env P (es_files st) fs" using write_change_frame [OF w] P(1) by (rule same_elsewhere_touched)
  show ?case
  proof (cases w)
    case (Inl err)
    with w Cons.prems 1 show ?thesis by auto
  next
    case (Inr ups)
    show ?thesis
    proof (cases "edited_path c")
      case None
      with w Inr Cons.prems have "apply_changes env cs (updates @ ups) (st\<lparr>es_files := fs\<rparr>) = (st', r)" by simp
      from Cons.IH [OF this P(2)] 1 show ?thesis by (auto intro: touched_trans)
    next
      case (Some path)
      obtain fs2 s where f: "format_synced env path (fc_bom c) fs = (fs2, s)" by fastforce
      have p: "path \<in> P" using edited_path_in [OF Some] P(1) by blast
      have "touched env P fs (snd (ev_format env path fs))" using touched_format [OF touched_refl p] .
      then have 2: "touched env P (es_files st) fs2"
        using touched_trans 1 touched_change same_elsewhere_mono [OF format_synced_cases(1) [OF f]] p by (meson bot.extremum insert_subset)
      show ?thesis
      proof (cases s)
        case (Inl e)
        with w Inr Some f Cons.prems(1) 2 show ?thesis by auto
      next
        case synced: (Inr u)
        with w Inr Some f Cons.prems(1) have "apply_changes env cs (updates @ ups)
            (st\<lparr>es_files := fs2, es_events := es_events st @ [File_edited path]\<rparr>) = (st', r)" by simp
        from Cons.IH [OF this P(2)] 2 show ?thesis by (auto intro: touched_trans)
      qed
    qed
  qed
qed simp

text \<open>
  A run that failed at a change: those before it were made, with one event for each file that was edited, and the failing
  one was begun in the state they left.
\<close>

definition stopped_at :: "patch_env \<Rightarrow> FileChange list \<Rightarrow> (utext \<times> string) list \<Rightarrow> edit_state \<Rightarrow> edit_state \<Rightarrow> tool_error \<Rightarrow> bool" where
  "stopped_at env changes updates st st' e \<longleftrightarrow>
     (\<exists>before c after st1 ups m. changes = before @ c # after \<and> e = Write_failed m \<and>
        apply_changes env before updates st = (st1, Inr ups) \<and> apply_changes env [c] ups st1 = (st', Inl e) \<and>
        es_events st' = es_events st @ List.map File_edited (List.map_filter edited_path before))"

lemma stopped_atI:
  "changes = before @ c # after \<Longrightarrow> e = Write_failed m \<Longrightarrow> apply_changes env before updates st = (st1, Inr ups) \<Longrightarrow>
   apply_changes env [c] ups st1 = (st', Inl e) \<Longrightarrow>
   es_events st' = es_events st @ List.map File_edited (List.map_filter edited_path before) \<Longrightarrow>
   stopped_at env changes updates st st' e"
  unfolding stopped_at_def by blast

lemma apply_changes_stops:
  "apply_changes env changes updates st = (st', r) \<Longrightarrow>
     case r of
       Inr ups \<Rightarrow> es_events st' = es_events st @ List.map File_edited (List.map_filter edited_path changes)
     | Inl e \<Rightarrow> stopped_at env changes updates st st' e"
proof (induction changes arbitrary: updates st)
  case (Cons c cs)
  obtain st1 r1 where 1: "apply_changes env [c] updates st = (st1, r1)" by fastforce
  show ?case
  proof (cases r1)
    case (Inl e)
    with 1 have m: "\<exists>m. e = Write_failed m" and ev: "es_events st1 = es_events st"
      by (auto split: prod.splits sum.splits option.splits)
    from 1 Inl Cons.prems have r: "st' = st1" "r = Inl e" by (auto split: prod.splits sum.splits option.splits)
    from m obtain m where "e = Write_failed m" ..
    then have "stopped_at env (c # cs) updates st st' e"
      by (rule stopped_atI [of _ "[]" c cs, rotated]) (use 1 Inl r ev in \<open>simp_all add: List.map_filter_simps del: apply_changes.simps(2)\<close>)
    with r show ?thesis by simp
  next
    case (Inr ups)
    from 1 Inr Cons.prems have rest: "apply_changes env cs ups st1 = (st', r)" by (auto split: prod.splits sum.splits option.splits)
    have ev: "es_events st1 = es_events st @ List.map File_edited (List.map_filter edited_path [c])"
      using 1 Inr by (auto simp: List.map_filter_simps split: prod.splits sum.splits option.splits)
    have step: "apply_changes env (c # ds) updates st = apply_changes env ds ups st1" for ds
      using 1 Inr by (auto split: prod.splits sum.splits option.splits)
    have app: "List.map_filter edited_path (c # ds) = List.map_filter edited_path [c] @ List.map_filter edited_path ds" for ds
      by (simp add: List.map_filter_simps split: option.splits)
    show ?thesis
    proof (cases r)
      case (Inl e)
      with Cons.IH [OF rest] obtain before d after st2 u m where d: "cs = before @ d # after" "e = Write_failed m"
        "apply_changes env before ups st1 = (st2, Inr u)" "apply_changes env [d] u st2 = (st', Inl e)"
        "es_events st' = es_events st1 @ List.map File_edited (List.map_filter edited_path before)"
        unfolding Inl sum.case stopped_at_def by blast
      have "stopped_at env (c # cs) updates st st' e"
        by (rule stopped_atI [of _ "c # before" d after, OF _ d(2) _ d(4)])
          (use d ev app [of before] step [of before] in \<open>simp_all del: apply_changes.simps(2)\<close>)
      with Inl show ?thesis by simp
    next
      case (Inr u)
      with Cons.IH [OF rest] ev app [of cs] show ?thesis by simp
    qed
  qed
qed (auto simp: List.map_filter_simps)

lemma verify_hunks_Inr:
  "verify_hunks env fs hunks = Inr changes \<Longrightarrow> list_all2 (\<lambda>h c. verify_hunk env fs h = Inr c) hunks changes"
proof (induction hunks arbitrary: changes)
  case (Cons h hs)
  from Cons.prems obtain c where c: "verify_hunk env fs h = Inr c" by (cases "verify_hunk env fs h") auto
  with Cons.prems obtain cs where "verify_hunks env fs hs = Inr cs" "changes = c # cs"
    by (cases "verify_hunks env fs hs") auto
  with Cons.IH c show ?case by simp
qed simp

lemma verify_hunk_paths:
  assumes "verify_hunk env fs h = Inr c"
  shows "fc_filePath c = ee_resolve env (hunk_path h) \<and>
    (Some q = fc_movePath c \<longrightarrow> q = ee_resolve env (hunk_target h))"
proof (cases h)
  case (Hunk_update p m chunks)
  with assms show ?thesis
    by (auto simp: verify_hunk_def Let_def hunk_target_def split: sum.splits option.splits prod.splits if_splits)
qed (use assms in \<open>auto simp: verify_hunk_def Let_def split: sum.splits option.splits prod.splits\<close>)

lemma verify_hunks_paths:
  assumes "verify_hunks env fs hunks = Inr changes"
  shows "List.map fc_filePath changes = List.map (\<lambda>h. ee_resolve env (hunk_path h)) hunks"
    "c \<in> set changes \<Longrightarrow> Some q = fc_movePath c \<Longrightarrow> \<exists>h\<in>set hunks. q = ee_resolve env (hunk_target h)"
proof -
  note l = verify_hunks_Inr [OF assms]
  then show "List.map fc_filePath changes = List.map (\<lambda>h. ee_resolve env (hunk_path h)) hunks"
    by (induction rule: list_all2_induct) (auto simp: verify_hunk_paths)
  assume "c \<in> set changes" "Some q = fc_movePath c"
  with l show "\<exists>h\<in>set hunks. q = ee_resolve env (hunk_target h)"
    by (induction rule: list_all2_induct) (auto dest: verify_hunk_paths [where q = q])
qed

text \<open>What precedes the first write: the patch parses, all hunks are verified against the files as they are, and the user allows the paths of the hunks.\<close>

definition approved_patch :: "patch_env \<Rightarrow> utext \<Rightarrow> files \<Rightarrow> Hunk list \<Rightarrow> FileChange list \<Rightarrow> bool" where
  "approved_patch env patchText fs hunks changes \<longleftrightarrow>
     parsePatch patchText = Inr hunks \<and> hunks \<noteq> [] \<and> list_all2 (\<lambda>h c. verify_hunk env fs h = Inr c) hunks changes \<and>
     pe_ask env (List.map (\<lambda>h. pe_relative env (ee_resolve env (hunk_path h))) hunks) = Inr ()"

lemma verify_hunks_error: "verify_hunks env fs hunks = Inl e \<Longrightarrow> e \<noteq> Write_failed m"
proof (induction hunks)
  case (Cons h hs)
  have "verify_hunk env fs h \<noteq> Inl (Write_failed m)"
    by (cases h) (auto simp: verify_hunk_def Let_def split: sum.splits option.splits prod.splits if_splits)
  with Cons show ?case by (cases "verify_hunks env fs hs") (auto split: sum.splits)
qed simp

lemma approved_paths:
  assumes "approved_patch env t fs hunks changes" "c \<in> set changes"
  shows "change_paths c \<subseteq> ee_resolve env ` (hunk_path ` set hunks \<union> hunk_target ` set hunks)"
proof -
  have l: "list_all2 (\<lambda>h c. verify_hunk env fs h = Inr c) hunks changes" using assms(1) by (simp add: approved_patch_def)
  then obtain h where h: "h \<in> set hunks" "verify_hunk env fs h = Inr c"
    using assms(2) by (induction rule: list_all2_induct) auto
  show ?thesis
  proof
    fix q assume "q \<in> change_paths c"
    then have "q = fc_filePath c \<or> Some q = fc_movePath c" by (auto simp: change_paths_def)
    with verify_hunk_paths [OF h(2), of q] h(1) show "q \<in> ee_resolve env ` (hunk_path ` set hunks \<union> hunk_target ` set hunks)" by auto
  qed
qed

lemma run_apply_patch_cases:
  assumes "run_apply_patch env patchText st = (st', r)"
  obtains (refused) e where "st' = st" "r = Inl e" "\<And>m. e \<noteq> Write_failed m"
    | (applied) hunks changes st1 r1 where "approved_patch env patchText (es_files st) hunks changes"
        "apply_changes env changes [] st = (st1, r1)"
        "r = (case r1 of Inl e \<Rightarrow> Inl e | Inr u \<Rightarrow> Inr changes)"
        "st' = (case r1 of Inl e \<Rightarrow> st1
           | Inr u \<Rightarrow> st1\<lparr>es_events := es_events st1 @ List.map (\<lambda>(f, k). File_updated f k) u\<rparr>)"
proof (cases "patchText = []")
  case True
  with assms show thesis by (intro refused) (auto simp: run_apply_patch_def)
next
  case False
  note a = assms [unfolded run_apply_patch_def if_not_P [OF False]]
  show thesis
  proof (cases "parsePatch patchText")
    case (Inl e)
    with a show thesis by (intro refused) auto
  next
    case parsed: (Inr hunks)
    show thesis
    proof (cases "hunks = []"; cases "verify_hunks env (es_files st) hunks")
      fix e assume "hunks \<noteq> []" and v: "verify_hunks env (es_files st) hunks = Inl e"
      have "e \<noteq> Write_failed m" for m using v by (rule verify_hunks_error)
      with a parsed v \<open>hunks \<noteq> []\<close> show thesis by (intro refused [of e]) simp_all
    next
      fix changes assume ok: "hunks \<noteq> []" and v: "verify_hunks env (es_files st) hunks = Inr changes"
      obtain st1 r1 where c: "apply_changes env changes [] st = (st1, r1)" by fastforce
      have paths: "List.map (\<lambda>c. pe_relative env (fc_filePath c)) changes =
          List.map (\<lambda>h. pe_relative env (ee_resolve env (hunk_path h))) hunks"
        using verify_hunks_paths(1) [OF v] by (metis (no_types, lifting) list.map_comp comp_def map_eq_conv)
      show thesis
      proof (cases "pe_ask env (List.map (\<lambda>c. pe_relative env (fc_filePath c)) changes)")
        case (Inl e)
        with a parsed ok v show thesis by (intro refused) auto
      next
        case (Inr u)
        have "approved_patch env patchText (es_files st) hunks changes"
          unfolding approved_patch_def using parsed ok verify_hunks_Inr [OF v] Inr paths by simp
        then show thesis using a parsed ok v c Inr by (intro applied [of hunks changes st1 r1]) (auto split: sum.splits)
      qed
    next
      assume "hunks = []"
      with a parsed obtain e where "st' = st" "r = Inl e" "\<And>m. e \<noteq> Write_failed m" by (auto split: if_splits)
      then show thesis by (rule refused)
    next
      assume "hunks = []"
      with a parsed obtain e where "st' = st" "r = Inl e" "\<And>m. e \<noteq> Write_failed m" by (auto split: if_splits)
      then show thesis by (rule refused)
    qed
  qed
qed

text \<open>
  C15: the patch tool checks everything before it writes anything, writes only what the patch names, and is not atomic.
  Either nothing has changed and the call failed, with an error other than one of writing; or every hunk was
  verified against the files as they were at the start and the user had allowed the paths of the hunks (not the destinations of moves).
  Then the changes are made in order until one cannot be written, removed or formatted: those before it stay, the
  failing one may have left its trace, those after it are not begun, and no update is announced to the watcher, though each file that was edited is.  When none
  fails, all are made and announced.  In every case the files that no hunk names as its
  file or its destination change only through the formatter.
\<close>

theorem patch_tool_effect:
  assumes "run_apply_patch env patchText st = (st', r)"
  shows "st' = st \<and> (\<exists>e. r = Inl e \<and> (\<forall>m. e \<noteq> Write_failed m)) \<or>
    (\<exists>hunks changes. approved_patch env patchText (es_files st) hunks changes \<and>
       touched env (ee_resolve env ` (hunk_path ` set hunks \<union> hunk_target ` set hunks)) (es_files st) (es_files st') \<and>
       (case r of
          Inr result \<Rightarrow> result = changes \<and> (\<exists>st1 ups. apply_changes env changes [] st = (st1, Inr ups) \<and> es_files st' = es_files st1 \<and>
            es_events st' = es_events st @ List.map File_edited (List.map_filter edited_path changes) @
              List.map (\<lambda>(f, k). File_updated f k) ups)
        | Inl e \<Rightarrow> stopped_at env changes [] st st' e))"
  using assms
proof (cases rule: run_apply_patch_cases)
  case (applied hunks changes st1 r1)
  have "touched env (ee_resolve env ` (hunk_path ` set hunks \<union> hunk_target ` set hunks)) (es_files st) (es_files st1)"
    using apply_changes_touched [OF applied(2)] approved_paths [OF applied(1)] by blast
  moreover have "es_files st' = es_files st1" using applied(4) by (cases r1) simp_all
  ultimately show ?thesis
    using applied apply_changes_stops [OF applied(2)] by (cases r1) (auto simp del: apply_changes.simps)
qed blast

definition sample_patch_env :: patch_env where
  "sample_patch_env = edit_env.extend sample_env \<lparr>pe_relative = id, pe_ask = (\<lambda>_. Inr ())\<rparr>"

lemmas sample_patch = sample_patch_env_def sample_access edit_env.defs hunk_read_def hunk_write_def hunk_remove_def

theorem patch_tool_effect_witness:
  "\<exists>st' c. run_apply_patch sample_patch_env (print_patch [Hunk_delete [97]])
      \<lparr>es_files = [([97], [65]), ([98], [66])], es_events = []\<rparr> = (st', Inr [c]) \<and>
     map_get (es_files st') [98] = Some [66] \<and> map_get (es_files st') [97] = None"
proof -
  let ?t = "print_patch [Hunk_delete [97]]" and ?s = "\<lparr>es_files = [([97], [65]), ([98], [66])], es_events = []\<rparr> :: edit_state"
  have t: "parsePatch ?t = Inr [Hunk_delete [97]]"
    by (rule parsePatch_print) (simp add: path_ok_def trim_fixed js_space_def)
  moreover have "?t \<noteq> []" by (simp add: print_patch_def js_join_Cons lit_def)
  ultimately obtain st' c where r: "run_apply_patch sample_patch_env ?t ?s = (st', Inr [c])"
      and "map_get (es_files st') [97] = None"
    by (simp add: run_apply_patch_def verify_hunk_def sample_patch write_change_def edited_path_def
        bom_split_def map_get_def map_delete_def Let_def)
  moreover from patch_tool_effect [OF r]
  have "touched sample_patch_env {[97]} (es_files ?s) (es_files st')"
    by (auto simp: approved_patch_def t sample_patch hunk_target_def)
  then have "same_elsewhere {[97]} (es_files ?s) (es_files st')"
    by (rule touched_same) (simp add: sample_patch)
  then have "map_get (es_files st') [98] = map_get (es_files ?s) [98]" by (simp add: same_elsewhere_def)
  ultimately show ?thesis by (auto simp: map_get_def)
qed

text \<open>A failed write leaves the changes before it in place: a file is added although the patch fails.\<close>

lemma patch_half_applied:
  assumes "ev_write env [] [97] [120, 10] = Write_ok" "ev_write env [([97], [120, 10])] [98] [121, 10] = Write_error e None"
    and "ev_format env [97] [([97], [120, 10])] = (False, [([97], [120, 10])])"
  shows "apply_changes env [\<lparr>fc_filePath = [97], fc_oldContent = [], fc_newContent = [120, 10], fc_type = FC_add, fc_movePath = None, fc_bom = False\<rparr>,
      \<lparr>fc_filePath = [98], fc_oldContent = [], fc_newContent = [121, 10], fc_type = FC_add, fc_movePath = None, fc_bom = False\<rparr>] []
      \<lparr>es_files = [], es_events = []\<rparr> =
    (\<lparr>es_files = [([97], [120, 10])], es_events = [File_edited [97]]\<rparr>, Inl (Write_failed (Cannot_write [98])))"
  using assms by (simp add: write_change_def hunk_write_def file_write_def edited_path_def format_synced_def bom_join_def bom_split_def Let_def)

end
