(* ===== verification/Agent_Wildcard.thy ===== *)
theory Agent_Wildcard imports Agent_Text "HOL-Library.Sublist" "HOL-Library.List_Lexorder" "HOL-Library.Product_Lexorder" begin

text \<open>
  Wildcard patterns (\<open>core/src/util/wildcard.ts\<close> and \<open>util/wildcard.ts\<close> of the runtime).  A pattern is
  turned into a regular expression, character by character; here that expression is a list of items
  and matching is the search of the regular expression engine.  The flag that makes matching ignore
  the case is set on Windows only and is not modelled.
\<close>

section \<open>Regular expressions of patterns\<close>

text \<open>An item: one character, \<open>.\<close>, \<open>.*\<close>, and the optional tail \<open>( .*)?\<close>.\<close>

datatype re_item = Re_char nat | Re_any | Re_star | Re_tail

fun re_match :: "re_item list \<Rightarrow> utext \<Rightarrow> bool" where
  "re_match [] s = (s = [])"
| "re_match (Re_char c # r) s = (case s of [] \<Rightarrow> False | x # s' \<Rightarrow> x = c \<and> re_match r s')"
| "re_match (Re_any # r) s = (case s of [] \<Rightarrow> False | x # s' \<Rightarrow> re_match r s')"
| "re_match (Re_star # r) s = search (re_match r) s"
| "re_match (Re_tail # r) s =
     ((case s of [] \<Rightarrow> False | x # s' \<Rightarrow> x = 32 \<and> search (re_match r) s') \<or> re_match r s)"

definition slashes :: "utext \<Rightarrow> utext" where
  "slashes s = List.map (\<lambda>c. if c = 92 then 47 else c) s"

definition re_item_of :: "nat \<Rightarrow> re_item" where
  "re_item_of c = (if c = 42 then Re_star else if c = 63 then Re_any else Re_char c)"

definition wildcard_re :: "utext \<Rightarrow> re_item list" where
  "wildcard_re pattern =
     (let escaped = List.map re_item_of (slashes pattern)
      in if ends_with [Re_char 32, Re_star] escaped then take (length escaped - 2) escaped @ [Re_tail] else escaped)"

definition wild_match :: "utext \<Rightarrow> utext \<Rightarrow> bool" where
  "wild_match input pattern = re_match (wildcard_re pattern) (slashes input)"

section \<open>What a pattern means\<close>

text \<open>
  The texts a pattern stands for: an asterisk for any text, a question mark for any character, every
  other character for itself.
\<close>

inductive glob :: "utext \<Rightarrow> utext \<Rightarrow> bool" where
  glob_Nil: "glob [] []"
| glob_char: "glob p s \<Longrightarrow> c \<noteq> 42 \<Longrightarrow> c \<noteq> 63 \<Longrightarrow> glob (c # p) (c # s)"
| glob_any: "glob p s \<Longrightarrow> glob (63 # p) (c # s)"
| glob_star: "glob p s \<Longrightarrow> glob (42 # p) (u @ s)"

inductive_cases glob_NilE: "glob [] s"
inductive_cases glob_ConsE: "glob (c # p) s"

lemma glob_Nil_iff [simp]: "glob [] s \<longleftrightarrow> s = []"
  by (auto intro: glob_Nil elim: glob_NilE)

lemma glob_Cons_iff:
  "glob (c # p) s \<longleftrightarrow>
     (if c = 42 then \<exists>u r. s = u @ r \<and> glob p r else if c = 63 then \<exists>x r. s = x # r \<and> glob p r
      else \<exists>r. s = c # r \<and> glob p r)"
  by (auto intro: glob.intros elim!: glob_ConsE)

lemma re_match_append_star: "re_match (List.map re_item_of p) s \<longleftrightarrow> glob p s"
proof (induction p arbitrary: s)
  case (Cons c p)
  then show ?case
    by (auto simp: re_item_of_def glob_Cons_iff search_iff split: list.splits)
qed simp

lemma re_match_tail:
  "re_match (List.map re_item_of p @ [Re_tail]) s \<longleftrightarrow> glob p s \<or> glob (p @ [32, 42]) s"
proof (induction p arbitrary: s)
  case Nil
  then show ?case by (auto simp: glob_Cons_iff search_iff split: list.splits)
next
  case (Cons c p)
  then show ?case
    by (auto simp: re_item_of_def glob_Cons_iff search_iff split: list.splits)
qed

lemma tail_item:
  "ends_with [Re_char 32, Re_star] (List.map re_item_of (slashes p)) \<longleftrightarrow> ends_with [32, 42] p"
proof
  assume "ends_with [Re_char 32, Re_star] (List.map re_item_of (slashes p))"
  then obtain a b c where "p = a @ [b, c]" "re_item_of (if b = 92 then 47 else b) = Re_char 32"
      "re_item_of (if c = 92 then 47 else c) = Re_star"
    by (auto simp: ends_with_iff slashes_def map_eq_append_conv)
  then show "ends_with [32, 42] p" by (auto simp: ends_with_iff re_item_of_def split: if_splits)
qed (auto simp: ends_with_iff slashes_def re_item_of_def)

lemma wildcard_re_cases:
  "wildcard_re p = (if ends_with [32, 42] p then List.map re_item_of (slashes (take (length p - 2) p)) @ [Re_tail]
     else List.map re_item_of (slashes p))"
  by (simp add: wildcard_re_def tail_item Let_def) (simp add: slashes_def take_map)

lemma slashes_append [simp]: "slashes (a @ b) = slashes a @ slashes b"
  by (simp add: slashes_def)

text \<open>
  C28: the matcher accepts exactly the texts the pattern stands for.  Backslashes count as slashes on both
  sides; an asterisk stands for any text, line breaks included, a question mark for one character, and no
  other character is special; a pattern that ends in a space and an asterisk also accepts the text before
  that space, so that \<open>ls *\<close> accepts \<open>ls\<close>.
\<close>

theorem wildcard_match_exact:
  "wild_match input pattern \<longleftrightarrow>
     glob (slashes pattern) (slashes input) \<or> (\<exists>p. pattern = p @ [32, 42] \<and> glob (slashes p) (slashes input))"
proof (cases "ends_with [32, 42] pattern")
  case True
  then obtain p where p: "pattern = p @ [32, 42]" by (auto simp: ends_with_iff)
  then have "slashes pattern = slashes p @ [32, 42]" by (simp add: slashes_def)
  with p show ?thesis by (auto simp: wild_match_def wildcard_re_cases ends_with_iff re_match_tail)
next
  case False
  then show ?thesis by (auto simp: wild_match_def wildcard_re_cases ends_with_iff re_match_append_star)
qed

lemma wild_match_star [simp]: "wild_match input [42]"
  by (simp add: wild_match_def wildcard_re_def slashes_def re_item_of_def ends_with_iff search_iff)

text \<open>Every pattern accepts itself.\<close>

lemma glob_refl: "glob p p"
  by (induction p) (auto simp: glob_Cons_iff intro: exI [of _ "[42]"])

lemma wild_match_refl [simp]: "wild_match p p"
proof (cases "ends_with [32, 42] p")
  case True
  then obtain q where p: "p = q @ [32, 42]" by (auto simp: ends_with_iff)
  then have "slashes p = slashes q @ [32, 42]" by (simp add: slashes_def)
  with p glob_refl [of "slashes p"] show ?thesis by (simp add: wild_match_def wildcard_re_cases ends_with_iff re_match_tail)
qed (simp add: wild_match_def wildcard_re_cases re_match_append_star glob_refl)

lemma glob_self: "42 \<notin> set p \<Longrightarrow> 63 \<notin> set p \<Longrightarrow> glob p s \<longleftrightarrow> s = p"
  by (induction p arbitrary: s) (auto simp: glob_Cons_iff)

section \<open>Tables of patterns\<close>

text \<open>
  \<open>Wildcard.all\<close> sorts the patterns of a table by length and then by text, and takes the value of
  the last one that matches.
\<close>

definition key_compare :: "utext \<times> 'v \<Rightarrow> utext \<times> 'v \<Rightarrow> int" where
  "key_compare a b =
     (if length (fst a) \<noteq> length (fst b) then int (length (fst a)) - int (length (fst b))
      else if fst a < fst b then -1 else if fst b < fst a then 1 else 0)"

definition sorted_patterns :: "(utext \<times> 'v) list \<Rightarrow> (utext \<times> 'v) list" where
  "sorted_patterns patterns = js_sort key_compare patterns"

definition wild_all :: "utext \<Rightarrow> (utext \<times> 'v) list \<Rightarrow> 'v option" where
  "wild_all input patterns =
     foldl (\<lambda>res (pattern, v). if wild_match input pattern then Some v else res) None (sorted_patterns patterns)"

fun matchSequence :: "utext list \<Rightarrow> utext list \<Rightarrow> bool" where
  "matchSequence items [] = True"
| "matchSequence items (pattern # rest) =
     (if pattern = [42] then matchSequence items rest
      else list_ex (\<lambda>i. wild_match (items ! i) pattern \<and> matchSequence (drop (i + 1) items) rest) [0..<length items])"

definition wild_allStructured :: "utext \<Rightarrow> utext list \<Rightarrow> (utext \<times> 'v) list \<Rightarrow> 'v option" where
  "wild_allStructured head tail patterns =
     foldl (\<lambda>res (pattern, v).
         let parts = split_spaces pattern
         in if \<not> wild_match head (parts ! 0) then res
            else if length parts = 1 \<or> matchSequence tail (drop 1 parts) then Some v else res)
       None (sorted_patterns patterns)"

section \<open>Tables: the longest pattern wins\<close>

abbreviation pattern_key :: "utext \<times> 'v \<Rightarrow> nat \<times> utext" where
  "pattern_key e \<equiv> (length (fst e), fst e)"

lemma key_compare_key: "compares_by key_compare pattern_key"
  by (auto simp: compares_by_def key_compare_def less_eq_prod_simp)

lemma foldl_last_match:
  "foldl (\<lambda>res (p, v). if P p then Some v else res) r es =
     (case List.find (P \<circ> fst) (rev es) of Some e \<Rightarrow> Some (snd e) | None \<Rightarrow> r)"
  by (induction es rule: rev_induct) (auto split: prod.splits)

lemma find_rev_sorted:
  assumes "sorted (List.map key es)" and "List.find P (rev es) = Some e"
  shows "e \<in> set es \<and> P e \<and> (\<forall>x\<in>set es. P x \<longrightarrow> key x \<le> key e)"
  using assms
proof (induction es rule: rev_induct)
  case (snoc x es)
  then show ?case by (cases "P x") (auto simp: sorted_append)
qed simp

text \<open>
  Of the patterns of a table that match, the longest decides, and of two of the same length the one
  that comes later in the order of texts.
\<close>

theorem longest_pattern_wins:
  assumes "distinct (List.map fst patterns)" and "(p, v) \<in> set patterns" and "wild_match input p"
    and "\<And>q w. (q, w) \<in> set patterns \<Longrightarrow> wild_match input q \<Longrightarrow> (length q, q) \<le> (length p, p)"
  shows "wild_all input patterns = Some v"
proof -
  have s: "sorted_patterns patterns = sort_key pattern_key patterns"
    unfolding sorted_patterns_def by (rule js_sort_sort_key [OF key_compare_key])
  let ?f = "List.find (wild_match input \<circ> fst) (rev (sorted_patterns patterns))"
  have "?f \<noteq> None" using assms(2,3) by (auto simp: find_None_iff s)
  then obtain e where e: "?f = Some e" by blast
  have "e \<in> set patterns" "wild_match input (fst e)" and le: "\<forall>x\<in>set patterns. wild_match input (fst x) \<longrightarrow> pattern_key x \<le> pattern_key e"
    using find_rev_sorted [OF _ e, of pattern_key] by (auto simp: s)
  moreover from le assms(2,3) have "(length p, p) \<le> pattern_key e" by fastforce
  ultimately have "fst e = p" using assms(4) [of "fst e" "snd e"] by (auto simp: order.antisym)
  with \<open>e \<in> set patterns\<close> assms(1,2) have "e = (p, v)" by (metis eq_key_imp_eq_value prod.collapse)
  with e show ?thesis by (simp add: wild_all_def foldl_last_match)
qed

theorem longest_pattern_wins_witness:
  "wild_all (lit ''rm x'') [(lit ''*'', True), (lit ''rm *'', False), (lit ''git *'', True)] = Some False"
  by (rule longest_pattern_wins [where p = "lit ''rm *''"])
    (auto simp: lit_def wild_match_def wildcard_re_def slashes_def re_item_of_def ends_with_iff search_iff less_eq_prod_simp)

lemma subseq_nth_drop:
  "subseq (x # xs) ys \<longleftrightarrow> (\<exists>i < length ys. ys ! i = x \<and> subseq xs (drop (i + 1) ys))"
proof
  assume "subseq (x # xs) ys"
  then obtain us vs where "ys = us @ x # vs" "subseq xs vs" by (auto dest: list_emb_ConsD)
  then show "\<exists>i < length ys. ys ! i = x \<and> subseq xs (drop (i + 1) ys)"
    by (intro exI [of _ "length us"]) auto
next
  assume "\<exists>i < length ys. ys ! i = x \<and> subseq xs (drop (i + 1) ys)"
  then obtain i where i: "i < length ys" "ys ! i = x" "subseq xs (drop (i + 1) ys)" by blast
  then have "ys = take i ys @ x # drop (i + 1) ys" by (auto simp: id_take_nth_drop)
  with i show "subseq (x # xs) ys" by (metis list_emb_append2 list_emb_Cons2 order_refl)
qed

text \<open>
  A sequence of patterns accepts the arguments of a command exactly when the patterns other than
  \<open>*\<close> match some of the arguments, in their order; arguments in between and after them do not matter,
  so a part \<open>*\<close> neither needs nor skips an argument.
\<close>

theorem matchSequence_subsequence:
  "matchSequence items patterns \<longleftrightarrow>
     (\<exists>xs. subseq xs items \<and> list_all2 wild_match xs (filter (\<lambda>p. p \<noteq> [42]) patterns))"
proof (induction items patterns rule: matchSequence.induct)
  case (2 items pattern rest)
  show ?case
  proof (cases "pattern = [42]")
    case False
    have "matchSequence items (pattern # rest) \<longleftrightarrow>
        (\<exists>i<length items. wild_match (items ! i) pattern \<and> matchSequence (drop (i + 1) items) rest)"
      using False by (auto simp: list_ex_iff)
    also have "\<dots> \<longleftrightarrow> (\<exists>i<length items. wild_match (items ! i) pattern \<and>
        (\<exists>xs. subseq xs (drop (i + 1) items) \<and> list_all2 wild_match xs (filter (\<lambda>p. p \<noteq> [42]) rest)))"
      using 2(2) False by auto
    also have "\<dots> \<longleftrightarrow> (\<exists>x xs. subseq (x # xs) items \<and> wild_match x pattern \<and>
        list_all2 wild_match xs (filter (\<lambda>p. p \<noteq> [42]) rest))"
      unfolding subseq_nth_drop by blast
    finally show ?thesis using False by (auto simp: list_all2_Cons2)
  qed (use 2(1) in simp)
qed auto

end
