(* ===== verification/Agent_Permission.thy ===== *)
theory Agent_Permission imports Agent_Wildcard Js_Map Js_Json begin

text \<open>
  Permissions of the agent: rules and their evaluation (\<open>core/src/permission.ts\<close>), rules from the
  configuration, and the service that asks the user (\<open>permission/index.ts\<close>).  A request that no rule
  settles waits on a deferred; the state holds the pending requests with the number of their deferred,
  the rules the user approved, the outcome of every deferred and the published events.  An operation
  runs as one step up to the point where it waits on a deferred: \<open>Bus.publish\<close>, the only effect inside,
  sends to sliding queues and emits to listeners without suspending (\<open>bus/index.ts\<close>).  Listeners that
  throw, and the interruption of a fiber within a step, are left out.
\<close>

section \<open>Rules\<close>

datatype Action = Allow | Deny | Ask

record Rule =
  ru_permission :: utext
  ru_pattern :: utext
  ru_action :: Action

type_synonym Ruleset = "Rule list"

definition find_last :: "('a \<Rightarrow> bool) \<Rightarrow> 'a list \<Rightarrow> 'a option" where
  "find_last p xs = List.find p (rev xs)"

definition evaluate :: "utext \<Rightarrow> utext \<Rightarrow> Ruleset list \<Rightarrow> Rule" where
  "evaluate permission pattern rulesets =
     (let flat = concat rulesets
      in case find_last (\<lambda>rule. ru_permission rule = permission \<and> wild_match pattern (ru_pattern rule)) flat of
           Some exact \<Rightarrow> exact
         | None \<Rightarrow> nullish (find_last (\<lambda>rule. wild_match permission (ru_permission rule) \<and>
               wild_match pattern (ru_pattern rule)) flat)
             \<lparr>ru_permission = permission, ru_pattern = [42], ru_action = Ask\<rparr>)"

definition merge_rules :: "Ruleset list \<Rightarrow> Ruleset" where
  "merge_rules rulesets = concat rulesets"

definition EDIT_TOOLS :: "utext list" where
  "EDIT_TOOLS = [lit ''edit'', lit ''write'', lit ''apply_patch'']"

definition disabled :: "utext list \<Rightarrow> Ruleset \<Rightarrow> utext list" where
  "disabled tools ruleset =
     js_unique (filter (\<lambda>tool.
       let permission = (if tool \<in> set EDIT_TOOLS then lit ''edit'' else tool)
       in case (case find_last (\<lambda>rule. ru_permission rule = permission) ruleset of
                  Some exact \<Rightarrow> Some exact
                | None \<Rightarrow> find_last (\<lambda>rule. wild_match permission (ru_permission rule)) ruleset) of
            None \<Rightarrow> False
          | Some rule \<Rightarrow> ru_pattern rule = [42] \<and> ru_action rule = Deny) tools)"

section \<open>Rules from the configuration\<close>

text \<open>The value of a permission in the configuration: one action, or actions by pattern.\<close>

datatype config_value = Config_action Action | Config_patterns "(utext \<times> Action) list"

definition expand_home :: "utext \<Rightarrow> utext \<Rightarrow> utext" where
  "expand_home homedir pattern =
     (if starts_with (lit ''~/'') pattern then homedir @ drop 1 pattern
      else if pattern = lit ''~'' then homedir
      else if starts_with (lit ''$HOME/'') pattern then homedir @ drop 5 pattern
      else if starts_with (lit ''$HOME'') pattern then homedir @ drop 5 pattern
      else pattern)"

definition fromConfig :: "utext \<Rightarrow> (utext \<times> config_value) list \<Rightarrow> Ruleset" where
  "fromConfig homedir permission =
     concat (List.map (\<lambda>(key, v). case v of
         Config_action a \<Rightarrow> [\<lparr>ru_permission = key, ru_pattern = [42], ru_action = a\<rparr>]
       | Config_patterns ps \<Rightarrow>
           List.map (\<lambda>(pattern, a). \<lparr>ru_permission = key, ru_pattern = expand_home homedir pattern, ru_action = a\<rparr>) ps)
       permission)"

section \<open>The service\<close>

record Request =
  rq_id :: utext
  rq_sessionID :: utext
  rq_permission :: utext
  rq_patterns :: "utext list"
  rq_metadata :: "(string \<times> json) list"
  rq_always :: "utext list"
  rq_tool :: "(utext \<times> utext) option"

record AskInput =
  ai_id :: "utext option"
  ai_sessionID :: utext
  ai_permission :: utext
  ai_patterns :: "utext list"
  ai_metadata :: "(string \<times> json) list"
  ai_always :: "utext list"
  ai_tool :: "(utext \<times> utext) option"
  ai_ruleset :: Ruleset

datatype Reply = Once | Always | Reject

record ReplyInput =
  ri_requestID :: utext
  ri_reply :: Reply
  ri_message :: "utext option"

datatype perm_failure = RejectedError | CorrectedError utext

type_synonym outcome = "perm_failure + unit"

datatype perm_event = Asked Request | Replied utext utext Reply

record perm_state =
  ps_pending :: "(utext \<times> Request \<times> nat) list"
  ps_approved :: Ruleset
  ps_deferreds :: "outcome option list"
  ps_events :: "perm_event list"

text \<open>What \<open>ask\<close> does before it waits: it fails, returns, or waits on a deferred under an identifier.\<close>

datatype ask_result = DeniedError Ruleset | Granted | Waits nat utext

fun needs_ask :: "utext \<Rightarrow> Ruleset list \<Rightarrow> utext list \<Rightarrow> bool \<Rightarrow> bool option" where
  "needs_ask permission rulesets [] needsAsk = Some needsAsk"
| "needs_ask permission rulesets (pattern # patterns) needsAsk =
     (case ru_action (evaluate permission pattern rulesets) of
        Deny \<Rightarrow> None
      | Allow \<Rightarrow> needs_ask permission rulesets patterns needsAsk
      | Ask \<Rightarrow> needs_ask permission rulesets patterns True)"

definition perm_ask :: "utext \<Rightarrow> AskInput \<Rightarrow> perm_state \<Rightarrow> perm_state \<times> ask_result" where
  "perm_ask fresh input st =
     (case needs_ask (ai_permission input) [ai_ruleset input, ps_approved st] (ai_patterns input) False of
        None \<Rightarrow> (st, DeniedError (filter (\<lambda>rule. wild_match (ai_permission input) (ru_permission rule)) (ai_ruleset input)))
      | Some False \<Rightarrow> (st, Granted)
      | Some True \<Rightarrow>
          let rid = nullish (ai_id input) fresh;
              info = \<lparr>rq_id = rid, rq_sessionID = ai_sessionID input, rq_permission = ai_permission input,
                      rq_patterns = ai_patterns input, rq_metadata = ai_metadata input, rq_always = ai_always input, rq_tool = ai_tool input\<rparr>;
              deferred = length (ps_deferreds st)
          in (st\<lparr>ps_pending := map_set rid (info, deferred) (ps_pending st),
                 ps_deferreds := ps_deferreds st @ [None],
                 ps_events := ps_events st @ [Asked info]\<rparr>, Waits deferred rid))"

text \<open>The finaliser of a waiting \<open>ask\<close>, run when its deferred is done or its fiber is interrupted.\<close>

definition ask_finalizer :: "utext \<Rightarrow> perm_state \<Rightarrow> perm_state" where
  "ask_finalizer rid st = st\<lparr>ps_pending := map_delete rid (ps_pending st)\<rparr>"

text \<open>A deferred is completed once; later completions have no effect.\<close>

definition complete :: "nat \<Rightarrow> outcome \<Rightarrow> perm_state \<Rightarrow> perm_state" where
  "complete d out st =
     (if d < length (ps_deferreds st) \<and> ps_deferreds st ! d = None
      then st\<lparr>ps_deferreds := (ps_deferreds st)[d := Some out]\<rparr> else st)"

definition settle :: "utext \<Rightarrow> Request \<Rightarrow> Reply \<Rightarrow> perm_state \<Rightarrow> perm_state" where
  "settle rid info answer st =
     st\<lparr>ps_pending := map_delete rid (ps_pending st),
        ps_events := ps_events st @ [Replied (rq_sessionID info) (rq_id info) answer]\<rparr>"

fun reject_session :: "utext \<Rightarrow> (utext \<times> Request \<times> nat) list \<Rightarrow> perm_state \<Rightarrow> perm_state" where
  "reject_session session [] st = st"
| "reject_session session ((rid, info, d) # entries) st =
     reject_session session entries
       (if rq_sessionID info \<noteq> session then st else complete d (Inl RejectedError) (settle rid info Reject st))"

definition now_allowed :: "Ruleset \<Rightarrow> Request \<Rightarrow> bool" where
  "now_allowed approved info =
     list_all (\<lambda>pattern. ru_action (evaluate (rq_permission info) pattern [approved]) = Allow) (rq_patterns info)"

fun allow_session :: "utext \<Rightarrow> (utext \<times> Request \<times> nat) list \<Rightarrow> perm_state \<Rightarrow> perm_state" where
  "allow_session session [] st = st"
| "allow_session session ((rid, info, d) # entries) st =
     allow_session session entries
       (if rq_sessionID info \<noteq> session then st
        else if \<not> now_allowed (ps_approved st) info then st
        else complete d (Inr ()) (settle rid info Always st))"

definition approvals :: "Request \<Rightarrow> Ruleset" where
  "approvals info =
     List.map (\<lambda>pattern. \<lparr>ru_permission = rq_permission info, ru_pattern = pattern, ru_action = Allow\<rparr>) (rq_always info)"

definition perm_reply :: "ReplyInput \<Rightarrow> perm_state \<Rightarrow> perm_state \<times> bool" where
  "perm_reply input st =
     (case map_get (ps_pending st) (ri_requestID input) of
        None \<Rightarrow> (st, False)
      | Some (info, d) \<Rightarrow>
          let st1 = settle (ri_requestID input) info (ri_reply input) st
          in (case ri_reply input of
                Reject \<Rightarrow>
                  let st2 = complete d (Inl (case ri_message input of
                              Some m \<Rightarrow> if m \<noteq> [] then CorrectedError m else RejectedError
                            | None \<Rightarrow> RejectedError)) st1
                  in (reject_session (rq_sessionID info) (ps_pending st2) st2, True)
              | Once \<Rightarrow> (complete d (Inr ()) st1, True)
              | Always \<Rightarrow>
                  let st2 = complete d (Inr ()) st1;
                      st3 = st2\<lparr>ps_approved := ps_approved st2 @ approvals info\<rparr>
                  in (allow_session (rq_sessionID info) (ps_pending st3) st3, True)))"

definition perm_list :: "perm_state \<Rightarrow> Request list" where
  "perm_list st = List.map (\<lambda>(rid, info, d). info) (ps_pending st)"

definition perm_state_init :: "Ruleset option \<Rightarrow> perm_state" where
  "perm_state_init row = \<lparr>ps_pending = [], ps_approved = nullish row [], ps_deferreds = [], ps_events = []\<rparr>"

definition perm_close :: "perm_state \<Rightarrow> perm_state" where
  "perm_close st =
     (foldl (\<lambda>s (rid, info, d). complete d (Inl RejectedError) s) st (ps_pending st))\<lparr>ps_pending := []\<rparr>"

section \<open>Evaluation\<close>

lemma find_last_None: "find_last p xs = None \<longleftrightarrow> (\<forall>x\<in>set xs. \<not> p x)"
  by (auto simp: find_last_def find_None_iff)

lemma find_last_filter: "find_last p xs = (if filter p xs = [] then None else Some (last (filter p xs)))"
  by (induction xs rule: rev_induct) (auto simp: find_last_def)

lemma find_last_Some: "find_last p xs = Some x \<Longrightarrow> x \<in> set xs \<and> p x"
  by (auto simp: find_last_def dest: find_SomeD)

lemma find_last_append: "find_last p (xs @ ys) = (case find_last p ys of Some y \<Rightarrow> Some y | None \<Rightarrow> find_last p xs)"
  by (simp add: find_last_filter)

text \<open>
  Rules for the permission itself decide before rules with a wildcard permission: the last of them that matches,
  otherwise the last rule whose permission and pattern both match, and without one the user is asked.
\<close>

lemma specific_rules_decide:
  "evaluate permission pattern rulesets =
     (let specific = filter (\<lambda>r. ru_permission r = permission \<and> wild_match pattern (ru_pattern r)) (concat rulesets);
          general = filter (\<lambda>r. ru_permission r \<noteq> permission \<and> wild_match permission (ru_permission r) \<and>
            wild_match pattern (ru_pattern r)) (concat rulesets)
      in if specific \<noteq> [] then last specific else if general \<noteq> [] then last general
         else \<lparr>ru_permission = permission, ru_pattern = [42], ru_action = Ask\<rparr>)"
proof (cases "filter (\<lambda>r. ru_permission r = permission \<and> wild_match pattern (ru_pattern r)) (concat rulesets) = []")
  case True
  then have "filter (\<lambda>r. wild_match permission (ru_permission r) \<and> wild_match pattern (ru_pattern r)) (concat rulesets) =
      filter (\<lambda>r. ru_permission r \<noteq> permission \<and> wild_match permission (ru_permission r) \<and>
        wild_match pattern (ru_pattern r)) (concat rulesets)"
    by (intro filter_cong) (auto simp: filter_empty_conv)
  with True show ?thesis by (simp add: evaluate_def find_last_filter Let_def)
qed (simp add: evaluate_def find_last_filter Let_def)

text \<open>
  The documentation (\<open>permissions.mdx\<close>) and two tests of the runtime (\<open>test/permission/next.test.ts\<close>) let the last rule that
  matches win, be it a wildcard or not.
\<close>

definition rules_matching :: "utext \<Rightarrow> utext \<Rightarrow> Ruleset list \<Rightarrow> Rule list" where
  "rules_matching permission pattern rulesets =
     filter (\<lambda>r. wild_match permission (ru_permission r) \<and> wild_match pattern (ru_pattern r)) (concat rulesets)"

definition documented_rule :: "utext \<Rightarrow> utext \<Rightarrow> Ruleset list \<Rightarrow> Rule" where
  "documented_rule permission pattern rulesets =
     last (\<lparr>ru_permission = permission, ru_pattern = [42], ru_action = Ask\<rparr> # rules_matching permission pattern rulesets)"

text \<open>
  C32: where the rules that decide differ from the documented ones.  The documentation says that the last matching rule wins;
  the code gives way to it exactly as long as the last rule that matches names the permission itself or no rule that
  matches does.  If one names it and a wildcard comes later, the last of those that name it decides instead:
  whenever a rule \<open>r\<close> that names the permission is followed in the merged rules by matching rules that do not
  name it, \<open>r\<close> is the answer, and it is not the documented one; in every other case the two agree.
\<close>

theorem precedence_not_documented:
  "(evaluate permission pattern rulesets \<noteq> documented_rule permission pattern rulesets \<longleftrightarrow>
     (\<exists>before r after. rules_matching permission pattern rulesets = before @ r # after \<and> after \<noteq> [] \<and>
        ru_permission r = permission \<and> (\<forall>q \<in> set after. ru_permission q \<noteq> permission))) \<and>
   (\<forall>before r after. rules_matching permission pattern rulesets = before @ r # after \<and>
        ru_permission r = permission \<and> (\<forall>q \<in> set after. ru_permission q \<noteq> permission) \<longrightarrow>
      evaluate permission pattern rulesets = r)"
proof -
  let ?m = "rules_matching permission pattern rulesets" and ?n = "\<lambda>r. ru_permission r = permission"
  let ?d = "\<lparr>ru_permission = permission, ru_pattern = [42], ru_action = Ask\<rparr>"
  have n: "filter (\<lambda>r. ru_permission r = permission \<and> wild_match pattern (ru_pattern r)) (concat rulesets) = filter ?n ?m"
    unfolding rules_matching_def filter_filter by (rule filter_cong) auto
  have e: "evaluate permission pattern rulesets = (if filter ?n ?m \<noteq> [] then last (filter ?n ?m) else last (?d # ?m))"
    using n by (auto simp: evaluate_def find_last_filter rules_matching_def Let_def)
  have split: "\<exists>before r after. xs = before @ r # after \<and> ?n r \<and> (\<forall>q \<in> set after. \<not> ?n q)" if "filter ?n xs \<noteq> []" for xs
    using split_list_last_prop [of xs ?n] that by (auto simp: filter_empty_conv)
  have at: "filter ?n ?m \<noteq> [] \<and> last (filter ?n ?m) = r \<and> (last (?d # ?m) = r \<longleftrightarrow> after = [])"
    if "?m = before @ r # after" "?n r" "\<forall>q \<in> set after. \<not> ?n q" for before r after
  proof -
    from that(3) have "filter ?n after = []" by (simp add: filter_empty_conv)
    moreover have "after \<noteq> [] \<Longrightarrow> last after \<noteq> r" using that(2,3) last_in_set by blast
    ultimately show ?thesis using that(1,2) by auto
  qed
  show ?thesis
  proof (cases "filter ?n ?m = []")
    case True
    with at have "\<not> (?m = before @ r # after \<and> ?n r \<and> (\<forall>q \<in> set after. \<not> ?n q))" for before r after by blast
    with True e show ?thesis by (auto simp: documented_rule_def)
  next
    case False
    from split [OF False] obtain before r after
      where s: "?m = before @ r # after" "?n r" "\<forall>q \<in> set after. \<not> ?n q" by blast
    have all: "evaluate permission pattern rulesets = r' \<and> (documented_rule permission pattern rulesets = r' \<longleftrightarrow> after' = [])"
      if "?m = before' @ r' # after'" "?n r'" "\<forall>q \<in> set after'. \<not> ?n q" for before' r' after'
      using at [OF that] e by (simp add: documented_rule_def)
    from all [OF s] s all show ?thesis by metis
  qed
qed

text \<open>The two tests: \<open>bash\<close> allowed first and everything denied after it is allowed by the code.\<close>

theorem precedence_not_documented_witness:
  "let rules = fromConfig [] [(lit ''bash'', Config_action Allow), ([42], Config_action Deny)]
   in ru_action (evaluate (lit ''bash'') (lit ''rm'') [rules]) = Allow \<and>
      ru_action (documented_rule (lit ''bash'') (lit ''rm'') [rules]) = Deny"
proof -
  let ?rules = "fromConfig [] [(lit ''bash'', Config_action Allow), ([42], Config_action Deny)]"
  let ?r = "\<lparr>ru_permission = lit ''bash'', ru_pattern = [42], ru_action = Allow\<rparr>"
    and ?w = "\<lparr>ru_permission = [42], ru_pattern = [42], ru_action = Deny\<rparr>"
  have m: "rules_matching (lit ''bash'') (lit ''rm'') [?rules] = [] @ ?r # [?w]"
    by (simp add: rules_matching_def fromConfig_def)
  have "[42] \<noteq> lit ''bash''" by (simp add: lit_def)
  with precedence_not_documented [of "lit ''bash''" "lit ''rm''" "[?rules]"] m
  have "evaluate (lit ''bash'') (lit ''rm'') [?rules] = ?r"
    by (metis Rule.select_convs(1) list.set(1) list.set(2) singletonD)
  then show ?thesis by (simp add: Let_def documented_rule_def m)
qed

lemma evaluate_last_set:
  assumes "r \<in> set rs" and "ru_permission r = permission" and "wild_match pattern (ru_pattern r)"
    and "\<forall>q\<in>set rs. ru_action q = Allow"
  shows "ru_action (evaluate permission pattern [ruleset, before @ rs]) = Allow"
proof -
  let ?p = "\<lambda>rule. ru_permission rule = permission \<and> wild_match pattern (ru_pattern rule)"
  obtain x where x: "find_last ?p rs = Some x"
    using assms(1-3) find_last_None [of ?p rs] by (cases "find_last ?p rs") auto
  with find_last_Some [OF x] assms(4) show ?thesis by (simp add: evaluate_def find_last_append)
qed

section \<open>Replies\<close>

text \<open>Both loops of a reply settle the pending requests that meet a condition.\<close>

fun settle_where :: "(Request \<Rightarrow> bool) \<Rightarrow> Reply \<Rightarrow> outcome \<Rightarrow> (utext \<times> Request \<times> nat) list \<Rightarrow> perm_state \<Rightarrow> perm_state" where
  "settle_where P a out [] st = st"
| "settle_where P a out ((rid, info, d) # entries) st =
     settle_where P a out entries (if P info then complete d out (settle rid info a st) else st)"

lemma settle_simps [simp]:
  "ps_pending (settle rid info a st) = map_delete rid (ps_pending st)"
  "ps_approved (settle rid info a st) = ps_approved st"
  "ps_deferreds (settle rid info a st) = ps_deferreds st"
  by (simp_all add: settle_def)

lemma complete_simps [simp]:
  "ps_pending (complete d out st) = ps_pending st"
  "ps_approved (complete d out st) = ps_approved st"
  "length (ps_deferreds (complete d out st)) = length (ps_deferreds st)"
  "e < length (ps_deferreds st) \<Longrightarrow> ps_deferreds (complete d out st) ! e =
     (if e = d \<and> ps_deferreds st ! d = None then Some out else ps_deferreds st ! e)"
  by (simp_all add: complete_def)

lemma reject_settles:
  "reject_session session entries st =
     settle_where (\<lambda>info. rq_sessionID info = session) Reject (Inl RejectedError) entries st"
  by (induction entries arbitrary: st) auto

lemma allow_settles:
  "allow_session session entries st =
     settle_where (\<lambda>info. rq_sessionID info = session \<and> now_allowed (ps_approved st) info) Always (Inr ()) entries st"
proof (induction entries arbitrary: st)
  case (Cons e es)
  obtain rid info d where e: "e = (rid, info, d)" by (cases e)
  show ?case
    using Cons [of "if rq_sessionID info = session \<and> now_allowed (ps_approved st) info
      then complete d (Inr ()) (settle rid info Always st) else st"] by (auto simp: e)
qed simp

lemma settle_where_frame:
  "ps_approved (settle_where P a out entries st) = ps_approved st"
  "length (ps_deferreds (settle_where P a out entries st)) = length (ps_deferreds st)"
  "ps_pending (settle_where P a out entries st) =
     filter (\<lambda>e. \<nexists>info d. (fst e, info, d) \<in> set entries \<and> P info) (ps_pending st)"
  by (induction P a out entries st rule: settle_where.induct)
    (auto simp: map_delete_def intro!: filter_cong)

lemma settle_where_deferreds:
  assumes "e < length (ps_deferreds st)"
  shows "ps_deferreds (settle_where P a out entries st) ! e =
     (if ps_deferreds st ! e = None \<and> (\<exists>rid info. (rid, info, e) \<in> set entries \<and> P info) then Some out
      else ps_deferreds st ! e)"
  using assms by (induction P a out entries st rule: settle_where.induct) auto

section \<open>Runs of the service\<close>

text \<open>
  A configuration is a state with the fibers that wait, as pairs of a deferred and an identifier.  A
  waiting fiber leaves when its deferred is done or when it is interrupted, and runs its finaliser.  The
  identifier of an \<open>ask\<close> can come from its caller, so a step may reuse one; \<open>perm_reachable\<close> are the
  configurations of the runs in which the fibers that wait at the same time have different identifiers,
  as those do that leave the identifier to \<open>PermissionID.ascending\<close>.
\<close>

type_synonym perm_config = "perm_state \<times> (nat \<times> utext) list"

inductive perm_step :: "perm_config \<Rightarrow> perm_config \<Rightarrow> bool" where
  step_answered: "perm_ask fresh input st = (st', r) \<Longrightarrow> r = Granted \<or> (\<exists>rs. r = DeniedError rs) \<Longrightarrow>
    perm_step (st, w) (st', w)"
| step_waits: "perm_ask fresh input st = (st', Waits d rid) \<Longrightarrow> perm_step (st, w) (st', (d, rid) # w)"
| step_reply: "perm_reply input st = (st', found) \<Longrightarrow> perm_step (st, w) (st', w)"
| step_leaves: "(d, rid) \<in> set w \<Longrightarrow> perm_step (st, w) (ask_finalizer rid st, remove1 (d, rid) w)"
| step_close: "perm_step (st, w) (perm_close st, w)"

inductive perm_reachable :: "perm_config \<Rightarrow> bool" where
  reach_init: "perm_reachable (perm_state_init row, [])"
| reach_step: "perm_reachable c \<Longrightarrow> perm_step c c' \<Longrightarrow> distinct (List.map snd (snd c')) \<Longrightarrow> perm_reachable c'"

definition perm_inv :: "perm_config \<Rightarrow> bool" where
  "perm_inv c \<longleftrightarrow> (case c of (st, w) \<Rightarrow>
     map_inv (ps_pending st) \<and> distinct (List.map fst w) \<and> distinct (List.map snd w) \<and>
     (\<forall>rid info d. (rid, info, d) \<in> set (ps_pending st) \<longrightarrow>
        rq_id info = rid \<and> (d, rid) \<in> set w \<and> ps_deferreds st ! d = None) \<and>
     (\<forall>d rid. (d, rid) \<in> set w \<longrightarrow> d < length (ps_deferreds st) \<and>
        (ps_deferreds st ! d = None \<longrightarrow> (\<exists>info. (rid, info, d) \<in> set (ps_pending st)))))"

lemma perm_invD:
  assumes "perm_inv (st, w)"
  shows "map_inv (ps_pending st)" "distinct (List.map fst w)" "distinct (List.map snd w)"
    "(rid, info, d) \<in> set (ps_pending st) \<Longrightarrow>
       rq_id info = rid \<and> (d, rid) \<in> set w \<and> d < length (ps_deferreds st) \<and> ps_deferreds st ! d = None"
    "(d, rid) \<in> set w \<Longrightarrow> d < length (ps_deferreds st) \<and>
        (ps_deferreds st ! d = None \<longrightarrow> (\<exists>info. (rid, info, d) \<in> set (ps_pending st)))"
  using assms unfolding perm_inv_def by simp_all blast+

lemma perm_ask_cases:
  assumes "perm_ask fresh input st = (st', r)"
  obtains "st' = st" "\<And>d rid. r \<noteq> Waits d rid"
    | info where "rq_id info = nullish (ai_id input) fresh" "r = Waits (length (ps_deferreds st)) (rq_id info)"
      "st' = st\<lparr>ps_pending := map_set (rq_id info) (info, length (ps_deferreds st)) (ps_pending st),
         ps_deferreds := ps_deferreds st @ [None], ps_events := ps_events st @ [Asked info]\<rparr>"
proof (cases "needs_ask (ai_permission input) [ai_ruleset input, ps_approved st] (ai_patterns input) False")
  case None
  with assms show thesis by (intro that(1)) (auto simp: perm_ask_def)
next
  case (Some b)
  show thesis
  proof (cases b)
    case True
    let ?i = "\<lparr>rq_id = nullish (ai_id input) fresh, rq_sessionID = ai_sessionID input, rq_permission = ai_permission input,
                      rq_patterns = ai_patterns input, rq_metadata = ai_metadata input, rq_always = ai_always input, rq_tool = ai_tool input\<rparr>"
    from assms Some True show thesis by (intro that(2) [of ?i]) (simp_all add: perm_ask_def Let_def)
  next
    case False
    with assms Some show thesis by (intro that(1)) (auto simp: perm_ask_def)
  qed
qed

text \<open>What a reply does to a state that satisfies the invariant: a set of requests is settled.\<close>

definition answered :: "ReplyInput \<Rightarrow> Request \<Rightarrow> Ruleset \<Rightarrow> Request \<Rightarrow> bool" where
  "answered input info approved other \<longleftrightarrow>
     rq_id other = ri_requestID input \<or>
     rq_sessionID other = rq_sessionID info \<and>
       (ri_reply input = Reject \<or> ri_reply input = Always \<and> now_allowed approved other)"

definition verdict :: "ReplyInput \<Rightarrow> Request \<Rightarrow> outcome" where
  "verdict input other =
     (if ri_reply input \<noteq> Reject then Inr ()
      else Inl (case ri_message input of
        Some m \<Rightarrow> if m \<noteq> [] \<and> rq_id other = ri_requestID input then CorrectedError m else RejectedError
      | None \<Rightarrow> RejectedError))"

lemma pending_settled:
  assumes "map_inv (ps_pending st)"
  shows "ps_pending (settle_where P a out (ps_pending st) st) = filter (\<lambda>(_, info, _). \<not> P info) (ps_pending st)"
  unfolding settle_where_frame
proof (rule filter_cong [OF refl], clarify)
  fix rid info d assume e: "(rid, info, d) \<in> set (ps_pending st)"
  have "info' = info" if "(rid, info', d') \<in> set (ps_pending st)" for info' d'
    using map_get_iff [OF assms(1), of rid "(info', d')"] map_get_iff [OF assms(1), of rid "(info, d)"] that e by simp
  with e show "(\<nexists>info' d'. (fst (rid, info, d), info', d') \<in> set (ps_pending st) \<and> P info') \<longleftrightarrow> \<not> P info"
    unfolding fst_conv by blast
qed

lemma settle_none: "settle_where (\<lambda>_. False) a out entries st = st"
  by (induction entries) auto

definition replied_state :: "ReplyInput \<Rightarrow> Request \<Rightarrow> nat \<Rightarrow> perm_state \<Rightarrow> perm_state" where
  "replied_state input info d st =
     (complete d (verdict input info) (settle (ri_requestID input) info (ri_reply input) st))
       \<lparr>ps_approved := ps_approved st @ (if ri_reply input = Always then approvals info else [])\<rparr>"

definition also_answered :: "ReplyInput \<Rightarrow> Request \<Rightarrow> Ruleset \<Rightarrow> Request \<Rightarrow> bool" where
  "also_answered input info approved other \<longleftrightarrow>
     rq_sessionID other = rq_sessionID info \<and>
       (ri_reply input = Reject \<or> ri_reply input = Always \<and> now_allowed approved other)"

lemma same_approved:
  "(complete d out (settle rid info a st))\<lparr>ps_approved := ps_approved st\<rparr> = complete d out (settle rid info a st)"
  by (rule perm_state.equality) simp_all

lemma perm_reply_uniform:
  assumes "map_get (ps_pending st) (ri_requestID input) = Some (info, d)" and "rq_id info = ri_requestID input"
  shows "perm_reply input st =
    (let st1 = replied_state input info d st
     in (settle_where (also_answered input info (ps_approved st1)) (ri_reply input)
           (if ri_reply input = Reject then Inl RejectedError else Inr ()) (ps_pending st1) st1, True))"
proof (cases "ri_reply input")
  case Once
  with assms Once show ?thesis
    by (simp add: perm_reply_def replied_state_def also_answered_def [abs_def] verdict_def settle_none
        same_approved Let_def)
next
  case Always
  with assms show ?thesis
    by (simp add: perm_reply_def replied_state_def also_answered_def [abs_def] verdict_def allow_settles Let_def)
next
  case Reject
  with assms show ?thesis
    by (simp add: perm_reply_def replied_state_def also_answered_def [abs_def] verdict_def reject_settles
        same_approved Let_def cong: option.case_cong)
qed

lemma replied_state_simps [simp]:
  "ps_pending (replied_state input info d st) = map_delete (ri_requestID input) (ps_pending st)"
  "ps_approved (replied_state input info d st) =
     ps_approved st @ (if ri_reply input = Always then approvals info else [])"
  "length (ps_deferreds (replied_state input info d st)) = length (ps_deferreds st)"
  "e < length (ps_deferreds st) \<Longrightarrow> ps_deferreds (replied_state input info d st) ! e =
     (if e = d \<and> ps_deferreds st ! d = None then Some (verdict input info) else ps_deferreds st ! e)"
  by (simp_all add: replied_state_def)

lemma reply_effect:
  assumes inv: "perm_inv (st, w)" and get: "map_get (ps_pending st) (ri_requestID input) = Some (info, d)"
    and r: "perm_reply input st = (st', found)"
  shows "found"
    and "ps_approved st' = ps_approved st @ (if ri_reply input = Always then approvals info else [])"
    and "ps_pending st' = filter (\<lambda>(_, other, _). \<not> answered input info (ps_approved st') other) (ps_pending st)"
    and "length (ps_deferreds st') = length (ps_deferreds st)"
    and "e < length (ps_deferreds st) \<Longrightarrow> \<nexists>rid other. (rid, other, e) \<in> set (ps_pending st) \<Longrightarrow>
      ps_deferreds st' ! e = ps_deferreds st ! e"
    and "(rid, other, e) \<in> set (ps_pending st) \<Longrightarrow>
      ps_deferreds st' ! e = (if answered input info (ps_approved st') other then Some (verdict input other) else None)"
proof -
  note p = perm_invD [OF inv]
  have i: "(ri_requestID input, info, d) \<in> set (ps_pending st)" using get p(1) by (simp add: map_get_iff)
  let ?a = "ps_approved st @ (if ri_reply input = Always then approvals info else [])"
  let ?s = "replied_state input info d st" and ?P = "also_answered input info ?a"
  let ?o = "if ri_reply input = Reject then Inl RejectedError else Inr ()"
  have st': "st' = settle_where ?P (ri_reply input) ?o (ps_pending ?s) ?s" and found
    using r perm_reply_uniform [OF get] p(4) [OF i] by (simp_all add: Let_def)
  then show found by simp
  show a: "ps_approved st' = ?a" by (simp add: st' settle_where_frame)
  show "length (ps_deferreds st') = length (ps_deferreds st)" by (simp add: st' settle_where_frame)
  have an: "answered input info ?a other \<longleftrightarrow> rid = ri_requestID input \<or> ?P other"
    if "(rid, other, e) \<in> set (ps_pending st)" for rid other e
    using p(4) [OF that] by (auto simp: answered_def also_answered_def)
  have "map_inv (ps_pending ?s)" using p(1) by simp
  then have "ps_pending st' = filter (\<lambda>(_, other, _). \<not> ?P other) (ps_pending ?s)" unfolding st' by (rule pending_settled)
  also have "\<dots> = filter (\<lambda>(_, other, _). \<not> answered input info ?a other) (ps_pending st)"
    unfolding replied_state_simps map_delete_def filter_filter
    by (rule filter_cong [OF refl]) (use an in \<open>force split: prod.splits\<close>)
  finally show "ps_pending st' = filter (\<lambda>(_, other, _). \<not> answered input info (ps_approved st') other) (ps_pending st)"
    by (simp add: a)
  have d: "ps_deferreds st' ! e = (if ps_deferreds ?s ! e = None \<and> (\<exists>rid other. (rid, other, e) \<in> set (ps_pending ?s) \<and> ?P other)
      then Some ?o else ps_deferreds ?s ! e)" if "e < length (ps_deferreds st)" for e
    unfolding st' by (rule settle_where_deferreds) (simp add: that)
  show "ps_deferreds st' ! e = ps_deferreds st ! e"
    if "e < length (ps_deferreds st)" "\<nexists>rid other. (rid, other, e) \<in> set (ps_pending st)"
    using that i d [OF that(1)] by (auto simp: map_delete_def)
  show "ps_deferreds st' ! e = (if answered input info (ps_approved st') other then Some (verdict input other) else None)"
    if e: "(rid, other, e) \<in> set (ps_pending st)"
  proof -
    have one: "rid' = rid \<and> other' = other" if "(rid', other', e) \<in> set (ps_pending st)" for rid' other'
    proof -
      have "(e, rid) \<in> set w" "(e, rid') \<in> set w" using p(4) [OF e] p(4) [OF that] by simp_all
      then have "rid' = rid" using p(2) by (metis eq_key_imp_eq_value)
      with e that p(1) show ?thesis by (metis Pair_inject eq_key_imp_eq_value)
    qed
    note q = p(4) [OF e] p(4) [OF i] d [of e] an [OF e]
    show ?thesis
    proof (cases "rid = ri_requestID input")
      case True
      with e i p(1) have "other = info" "e = d" by (metis Pair_inject eq_key_imp_eq_value)+
      with q True one show ?thesis by (auto simp: a map_delete_def answered_def)
    next
      case False
      with one [of "ri_requestID input" info] i have "e \<noteq> d" by auto
      then have n: "ps_deferreds ?s ! e = None" using q by simp
      have "(r, x, e) \<in> set (ps_pending ?s) \<longleftrightarrow> r = rid \<and> x = other" for r x
        using one [of r x] e False by (auto simp: map_delete_def)
      then have ex: "(\<exists>rid other. (rid, other, e) \<in> set (ps_pending ?s) \<and> ?P other) \<longleftrightarrow> ?P other" by simp
      have "verdict input other = ?o" if "?P other"
      proof -
        have "rq_id other \<noteq> ri_requestID input" using q(1) False by simp
        then show ?thesis by (simp add: verdict_def split: option.split)
      qed
      moreover have "ps_deferreds st' ! e = (if ?P other then Some ?o else None)" using d [of e] q(1) n ex by simp
      ultimately show ?thesis using an [OF e] False by (simp add: a)
    qed
  qed
qed

section \<open>No question is lost\<close>

lemma perm_inv_init: "perm_inv (perm_state_init row, [])"
  by (simp add: perm_inv_def perm_state_init_def)

lemma complete_all:
  assumes "e < length (ps_deferreds st)"
  shows "ps_deferreds (foldl (\<lambda>s (rid, info, d). complete d out s) st entries) ! e =
     (if ps_deferreds st ! e = None \<and> (\<exists>rid info. (rid, info, e) \<in> set entries) then Some out else ps_deferreds st ! e)"
  using assms
proof (induction entries arbitrary: st)
  case (Cons x entries)
  obtain rid info d where x: "x = (rid, info, d)" by (cases x)
  show ?case using Cons.prems Cons.IH [of "complete d out st"] by (cases "e = d") (auto simp: x)
qed simp

lemma complete_all_length:
  "length (ps_deferreds (foldl (\<lambda>s (rid, info, d). complete d out s) st entries)) = length (ps_deferreds st)"
  by (induction entries arbitrary: st) auto

lemma perm_invI:
  assumes "map_inv (ps_pending st)" and "distinct (List.map fst w)" and "distinct (List.map snd w)"
    and "\<And>rid info d. (rid, info, d) \<in> set (ps_pending st) \<Longrightarrow>
       rq_id info = rid \<and> (d, rid) \<in> set w \<and> ps_deferreds st ! d = None"
    and "\<And>d rid. (d, rid) \<in> set w \<Longrightarrow> d < length (ps_deferreds st)"
    and "\<And>d rid. (d, rid) \<in> set w \<Longrightarrow> ps_deferreds st ! d = None \<Longrightarrow> \<exists>info. (rid, info, d) \<in> set (ps_pending st)"
  shows "perm_inv (st, w)"
  unfolding perm_inv_def using assms by simp

lemma perm_inv_ask:
  assumes inv: "perm_inv (st, w)" and "rid \<notin> fst ` set (ps_pending st)" and "rid \<notin> snd ` set w" and "rq_id info = rid"
    and s: "ps_pending st' = map_set rid (info, length (ps_deferreds st)) (ps_pending st)"
      "ps_deferreds st' = ps_deferreds st @ [None]"
  shows "perm_inv (st', (length (ps_deferreds st), rid) # w)"
proof -
  note p = perm_invD [OF inv]
  have set: "set (ps_pending st') = insert (rid, info, length (ps_deferreds st)) (set (ps_pending st))"
    using assms(2) by (simp add: s map_set_unknown)
  have "length (ps_deferreds st) \<notin> fst ` set w" using p(5) by fastforce
  then show ?thesis
  proof (intro perm_invI)
    show "distinct (List.map snd ((length (ps_deferreds st), rid) # w))" using p(3) assms(3) by simp
    fix rid' info' d assume "(rid', info', d) \<in> set (ps_pending st')"
    then show "rq_id info' = rid' \<and> (d, rid') \<in> set ((length (ps_deferreds st), rid) # w) \<and> ps_deferreds st' ! d = None"
      using p(4) [of rid' info' d] assms(4) by (auto simp: set s(2) nth_append)
  next
    fix d rid' assume "(d, rid') \<in> set ((length (ps_deferreds st), rid) # w)"
    then show "d < length (ps_deferreds st')" using p(5) by (auto simp: s less_Suc_eq)
    assume "(d, rid') \<in> set ((length (ps_deferreds st), rid) # w)" "ps_deferreds st' ! d = None"
    then show "\<exists>info. (rid', info, d) \<in> set (ps_pending st')"
      using p(5) [of d rid'] by (auto simp: s(2) set nth_append split: if_splits)
  qed (use p(1,2) in \<open>simp_all add: s\<close>)
qed

lemma perm_inv_reply:
  assumes inv: "perm_inv (st, w)" and get: "map_get (ps_pending st) (ri_requestID input) = Some (info, d)"
    and r: "perm_reply input st = (st', found)"
  shows "perm_inv (st', w)"
proof -
  note p = perm_invD [OF inv] and e = reply_effect [OF inv get r]
  show ?thesis
  proof (rule perm_invI)
    show "map_inv (ps_pending st')" using p(1) by (simp add: e(3) distinct_map_filter)
    fix rid info' e' assume "(rid, info', e') \<in> set (ps_pending st')"
    then have "(rid, info', e') \<in> set (ps_pending st)" "\<not> answered input info (ps_approved st') info'"
      by (auto simp: e(3))
    with p(4) e(6) show "rq_id info' = rid \<and> (e', rid) \<in> set w \<and> ps_deferreds st' ! e' = None" by simp
  next
    fix e' rid assume w: "(e', rid) \<in> set w"
    with p(5) show "e' < length (ps_deferreds st')" by (simp add: e(4))
    assume n: "ps_deferreds st' ! e' = None"
    have "\<exists>rid o'. (rid, o', e') \<in> set (ps_pending st)"
      using n e(5) [of e'] p(5) [OF w] by fastforce
    then obtain rid' o' where o: "(rid', o', e') \<in> set (ps_pending st)" by blast
    then have "rid' = rid" using p(4) [OF o] w p(2) by (metis eq_key_imp_eq_value)
    moreover from e(6) [OF o] n have "\<not> answered input info (ps_approved st') o'" by (auto split: if_splits)
    ultimately show "\<exists>info. (rid, info, e') \<in> set (ps_pending st')" using o by (auto simp: e(3))
  qed (use p in simp_all)
qed

lemma perm_inv_leave:
  assumes inv: "perm_inv (st, w)" and m: "(d, rid) \<in> set w"
  shows "perm_inv (ask_finalizer rid st, remove1 (d, rid) w)"
proof -
  note p = perm_invD [OF inv]
  have dw: "distinct w" using p(2) by (simp add: distinct_map)
  have pend: "ps_pending (ask_finalizer rid st) = map_delete rid (ps_pending st)"
      "ps_deferreds (ask_finalizer rid st) = ps_deferreds st" by (simp_all add: ask_finalizer_def)
  have w: "set (remove1 (d, rid) w) = set w - {(d, rid)}" using dw by simp
  show ?thesis
  proof (rule perm_invI)
    fix rid' info e assume "(rid', info, e) \<in> set (ps_pending (ask_finalizer rid st))"
    then show "rq_id info = rid' \<and> (e, rid') \<in> set (remove1 (d, rid) w) \<and> ps_deferreds (ask_finalizer rid st) ! e = None"
      using p(4) [of rid' info e] by (auto simp: pend w map_delete_def)
  next
    fix e rid' assume e: "(e, rid') \<in> set (remove1 (d, rid) w)"
    with p(5) show "e < length (ps_deferreds (ask_finalizer rid st))" by (auto simp: pend w)
    have "rid' \<noteq> rid"
    proof
      assume "rid' = rid"
      with e m p(3) have "(e, rid) = (d, rid)" unfolding w
        by (intro inj_onD [of snd "set w"]) (simp_all add: distinct_map)
      with e \<open>rid' = rid\<close> show False unfolding w by simp
    qed
    moreover assume "ps_deferreds (ask_finalizer rid st) ! e = None"
    ultimately show "\<exists>info. (rid', info, e) \<in> set (ps_pending (ask_finalizer rid st))"
      using p(5) [of e rid'] e by (auto simp: pend w map_delete_def)
  next
    show "distinct (List.map fst (remove1 (d, rid) w))" "distinct (List.map snd (remove1 (d, rid) w))"
      using p(2,3) dw unfolding distinct_map w by (auto intro: inj_on_subset)
  qed (use p(1) in \<open>simp add: pend\<close>)
qed

lemma perm_inv_close: "perm_inv (st, w) \<Longrightarrow> perm_inv (perm_close st, w)"
proof -
  assume inv: "perm_inv (st, w)"
  note p = perm_invD [OF inv]
  have c: "ps_pending (perm_close st) = []" "length (ps_deferreds (perm_close st)) = length (ps_deferreds st)"
    by (simp_all add: perm_close_def complete_all_length)
  have "ps_deferreds (perm_close st) ! d \<noteq> None" if "(d, rid) \<in> set w" for d rid
    using p(5) [OF that] complete_all [of d st "Inl RejectedError" "ps_pending st"] by (auto simp: perm_close_def)
  then have "ps_deferreds (perm_close st) ! d = None \<Longrightarrow> (d, rid) \<notin> set w" for d rid by blast
  then show ?thesis using p(2,3,5) by (intro perm_invI) (auto simp: c)
qed

lemma perm_inv_step: "perm_step c c' \<Longrightarrow> distinct (List.map snd (snd c')) \<Longrightarrow> perm_inv c \<Longrightarrow> perm_inv c'"
proof (induction rule: perm_step.induct)
  case (step_answered fresh input st st' r w)
  then show ?case by (cases rule: perm_ask_cases [OF step_answered(1)]) auto
next
  case (step_waits fresh input st st' d rid w)
  from step_waits(1) show ?case
  proof (cases rule: perm_ask_cases)
    case (2 info)
    have "rid \<notin> snd ` set w" using step_waits(2) by simp
    moreover from this have "rid \<notin> fst ` set (ps_pending st)"
      using perm_invD(4) [OF step_waits(3)] by force
    ultimately show ?thesis using step_waits 2 perm_inv_ask [of st w rid info st'] by simp
  qed auto
next
  case (step_reply input st st' found w)
  then show ?case
    by (cases "map_get (ps_pending st) (ri_requestID input)") (auto simp: perm_inv_reply perm_reply_def)
qed (simp_all add: perm_inv_leave perm_inv_close)

lemma perm_reachable_inv: "perm_reachable c \<Longrightarrow> perm_inv c"
  by (induction rule: perm_reachable.induct) (auto intro: perm_inv_init perm_inv_step)

text \<open>Asking under the identifier of a pending request replaces its entry.\<close>

lemma question_overwritten:
  assumes inv: "perm_inv (st, w)" and a: "perm_ask fresh input st = (st', Waits d' rid)"
    and i: "(rid, info, d) \<in> set (ps_pending st)"
  shows "ps_deferreds st' ! d = None" and "(rid', info', d) \<notin> set (ps_pending st')"
proof -
  note p = perm_invD [OF inv]
  from a obtain info2 where rid: "rq_id info2 = rid"
    and st': "st' = st\<lparr>ps_pending := map_set rid (info2, length (ps_deferreds st)) (ps_pending st),
      ps_deferreds := ps_deferreds st @ [None], ps_events := ps_events st @ [Asked info2]\<rparr>"
    by (cases rule: perm_ask_cases) auto
  from p(4) [OF i] show "ps_deferreds st' ! d = None" by (simp add: st' nth_append)
  have one: "r = rid" if "(r, i', d) \<in> set (ps_pending st)" for r i'
    using p(4) [OF that] p(4) [OF i] p(2) by (metis eq_key_imp_eq_value)
  show "(rid', info', d) \<notin> set (ps_pending st')"
  proof
    assume "(rid', info', d) \<in> set (ps_pending st')"
    then have "(rid', info', d) \<in> set (ps_pending st) \<and> rid' \<noteq> rid"
      using p(1) p(4) [OF i] by (auto simp: st' simp flip: map_get_iff split: if_splits)
    with one show False by blast
  qed
qed

text \<open>
  C3: a question to the user is lost when its identifier is used twice, and only then.  As long as the fibers
  that wait at the same time have different identifiers, a fiber that waits on an open
  deferred has exactly one pending request, under its own identifier and with that deferred, and the list
  of requests shows it; and every pending request belongs to a waiting fiber.  So a reply to a listed
  request reaches the fiber that asked.  But when a caller passes \<open>ask\<close> the identifier of a fiber that still
  waits, the entry of that fiber is overwritten: its deferred stays open and no pending request has it any more.
\<close>

theorem waiting_fiber_is_listed:
  assumes "perm_reachable (st, w)" and "(d, rid) \<in> set w" and "ps_deferreds st ! d = None"
  shows "\<exists>info. map_get (ps_pending st) rid = Some (info, d) \<and> rq_id info = rid \<and> info \<in> set (perm_list st) \<and>
    (\<forall>rid' info'. (rid', info', d) \<in> set (ps_pending st) \<longrightarrow> rid' = rid \<and> info' = info) \<and>
    (\<forall>info'. info' \<in> set (perm_list st) \<longrightarrow> (\<exists>d'. (d', rq_id info') \<in> set w)) \<and>
    (\<forall>fresh input st' d'. perm_ask fresh input st = (st', Waits d' rid) \<longrightarrow>
       ps_deferreds st' ! d = None \<and> (\<forall>rid' info'. (rid', info', d) \<notin> set (ps_pending st')))"
proof -
  note p = perm_invD [OF perm_reachable_inv [OF assms(1)]]
  obtain info where i: "(rid, info, d) \<in> set (ps_pending st)" using p(5) [OF assms(2)] assms(3) by blast
  show ?thesis
  proof (rule exI [of _ info], intro conjI allI impI)
    show "map_get (ps_pending st) rid = Some (info, d)" using i p(1) by (simp add: map_get_iff)
    show "rq_id info = rid" using p(4) [OF i] by simp
    show "info \<in> set (perm_list st)" using i by (force simp: perm_list_def)
  next
    fix rid' info' assume e: "(rid', info', d) \<in> set (ps_pending st)"
    show r: "rid' = rid" using p(4) [OF e] assms(2) p(2) by (metis eq_key_imp_eq_value)
    show "info' = info" using e i p(1) unfolding r by (metis Pair_inject eq_key_imp_eq_value)
  next
    fix info' assume "info' \<in> set (perm_list st)"
    then obtain rid' d' where e: "(rid', info', d') \<in> set (ps_pending st)" by (auto simp: perm_list_def)
    then show "\<exists>d'. (d', rq_id info') \<in> set w" using p(4) [OF e] by auto
  next
    fix fresh input st' d' assume a: "perm_ask fresh input st = (st', Waits d' rid)"
    show "ps_deferreds st' ! d = None" "\<And>rid' info'. (rid', info', d) \<notin> set (ps_pending st')"
      using question_overwritten [OF perm_reachable_inv [OF assms(1)] a i] p(5) [OF assms(2)] assms(3) by blast+
  qed
qed

definition sample_ask :: "utext \<Rightarrow> AskInput" where
  "sample_ask pattern = \<lparr>ai_id = None, ai_sessionID = [115], ai_permission = lit ''bash'', ai_patterns = [pattern],
     ai_metadata = [], ai_always = [lit ''git *''], ai_tool = None, ai_ruleset = [\<lparr>ru_permission = lit ''bash'', ru_pattern = lit ''git push *'', ru_action = Deny\<rparr>]\<rparr>"

lemmas matching = wild_match_def wildcard_re_def slashes_def re_item_of_def ends_with_iff search_iff lit_def

definition sample_question :: Request where
  "sample_question = \<lparr>rq_id = [49], rq_sessionID = [115], rq_permission = lit ''bash'', rq_patterns = [lit ''git log''],
     rq_metadata = [], rq_always = [lit ''git *''], rq_tool = None\<rparr>"

definition sample_waiting :: perm_state where
  "sample_waiting = \<lparr>ps_pending = [([49], sample_question, 0)], ps_approved = [], ps_deferreds = [None],
     ps_events = [Asked sample_question]\<rparr>"

lemma sample_ask_waits: "perm_ask [49] (sample_ask (lit ''git log'')) (perm_state_init None) = (sample_waiting, Waits 0 [49])"
  by (simp add: perm_ask_def sample_ask_def perm_state_init_def evaluate_def find_last_def sample_waiting_def
      sample_question_def Let_def matching)

lemma sample_reachable: "perm_reachable (sample_waiting, [(0, [49])])"
  by (rule reach_step [OF reach_init step_waits [OF sample_ask_waits]]) (simp_all add: perm_state_init_def)

theorem waiting_fiber_is_listed_witness: "\<exists>info. map_get (ps_pending sample_waiting) [49] = Some (info, 0) \<and> rq_id info = [49]"
  using waiting_fiber_is_listed [OF sample_reachable, of 0 "[49]"] by (auto simp: sample_waiting_def)

text \<open>
  C16: what a reply settles.  A reply to a pending request removes and settles that request; a rejection
  also settles every other pending request of the same session, with an error, and \<open>always\<close> those of the
  session whose patterns the approved rules now allow, in every configuration of a run whose waiting fibers have
  different identifiers.  Every other pending request stays, unsettled; only
  the request that was answered gets the message of the user; and a reply to an unknown request changes
  nothing.
\<close>

theorem reply_settles_exactly:
  assumes "perm_reachable (st, w)" and "perm_reply input st = (st', found)"
  shows "case map_get (ps_pending st) (ri_requestID input) of
      None \<Rightarrow> \<not> found \<and> st' = st
    | Some (info, d) \<Rightarrow> found \<and>
        ps_approved st' = ps_approved st @ (if ri_reply input = Always then approvals info else []) \<and>
        ps_pending st' = filter (\<lambda>(_, other, _). \<not> answered input info (ps_approved st') other) (ps_pending st) \<and>
        list_all (\<lambda>(_, other, e). ps_deferreds st' ! e =
          (if answered input info (ps_approved st') other then Some (verdict input other) else None)) (ps_pending st)"
proof (cases "map_get (ps_pending st) (ri_requestID input)")
  case None
  with assms(2) show ?thesis by (simp add: perm_reply_def)
next
  case (Some e)
  obtain info d where e: "e = (info, d)" by (cases e)
  note r = reply_effect [OF perm_reachable_inv [OF assms(1)] Some [unfolded e] assms(2)]
  have "list_all (\<lambda>(_, other, e). ps_deferreds st' ! e =
      (if answered input info (ps_approved st') other then Some (verdict input other) else None)) (ps_pending st)"
    unfolding list_all_iff using r(6) by blast
  with Some e r(1-3) show ?thesis by simp
qed

theorem reply_settles_exactly_witness:
  "ps_pending (fst (perm_reply \<lparr>ri_requestID = [49], ri_reply = Always, ri_message = None\<rparr> sample_waiting)) = []"
proof -
  let ?i = "\<lparr>ri_requestID = [49], ri_reply = Always, ri_message = None\<rparr>"
  have g: "map_get (ps_pending sample_waiting) [49] = Some (sample_question, 0)" by (simp add: sample_waiting_def map_get_def)
  obtain st' f where r: "perm_reply ?i sample_waiting = (st', f)" by (cases "perm_reply ?i sample_waiting")
  from reply_settles_exactly [OF sample_reachable r] g r show ?thesis
    by (simp add: sample_waiting_def answered_def sample_question_def)
qed

text \<open>
  An approval outlives the configured rules.  After the answer \<open>always\<close> to a pending request, a later
  request of the same permission whose patterns the approved patterns match is granted without a question,
  whatever its own rule set says, a rule that denies it included.
\<close>

theorem approval_overrides_rules:
  assumes "perm_reachable (st, w)" and "map_get (ps_pending st) rid = Some (info, d)"
    and "perm_reply \<lparr>ri_requestID = rid, ri_reply = Always, ri_message = m\<rparr> st = (st', found)"
    and "ai_permission input = rq_permission info"
    and "\<And>pattern. pattern \<in> set (ai_patterns input) \<Longrightarrow> \<exists>a\<in>set (rq_always info). wild_match pattern a"
  shows "perm_ask fresh input st' = (st', Granted)"
proof -
  let ?i = "\<lparr>ri_requestID = rid, ri_reply = Always, ri_message = m\<rparr>"
  have a: "ps_approved st' = ps_approved st @ approvals info"
    using reply_effect(2) [OF perm_reachable_inv [OF assms(1)], of ?i info d st' found] assms(2,3) by simp
  have allow: "ru_action (evaluate (rq_permission info) pattern [ruleset, ps_approved st']) = Allow"
    if "\<exists>a\<in>set (rq_always info). wild_match pattern a" for pattern ruleset
  proof -
    from that obtain x where "x \<in> set (rq_always info)" "wild_match pattern x" by blast
    then show ?thesis
      unfolding a by (intro evaluate_last_set [of "\<lparr>ru_permission = rq_permission info, ru_pattern = x, ru_action = Allow\<rparr>"])
        (auto simp: approvals_def)
  qed
  have "needs_ask (rq_permission info) [ruleset, ps_approved st'] ps False = Some False"
    if "\<And>p. p \<in> set ps \<Longrightarrow> \<exists>a\<in>set (rq_always info). wild_match p a" for ps ruleset
    using that by (induction ps) (simp_all add: allow)
  with assms(4,5) show ?thesis by (simp add: perm_ask_def)
qed

theorem approval_overrides_rules_witness:
  "\<exists>st'. perm_reply \<lparr>ri_requestID = [49], ri_reply = Always, ri_message = None\<rparr> sample_waiting = (st', True) \<and>
     (\<exists>rs. snd (perm_ask [50] (sample_ask (lit ''git push -f'')) sample_waiting) = DeniedError rs) \<and>
     perm_ask [50] (sample_ask (lit ''git push -f'')) st' = (st', Granted)"
proof -
  let ?i = "\<lparr>ri_requestID = [49], ri_reply = Always, ri_message = None\<rparr>"
  have g: "map_get (ps_pending sample_waiting) [49] = Some (sample_question, 0)" by (simp add: sample_waiting_def map_get_def)
  obtain st' where r: "perm_reply ?i sample_waiting = (st', True)"
    using g by (cases "perm_reply ?i sample_waiting") (auto simp: perm_reply_def Let_def)
  have "perm_ask [50] (sample_ask (lit ''git push -f'')) st' = (st', Granted)"
    by (rule approval_overrides_rules [OF sample_reachable g r])
      (auto simp: sample_ask_def sample_question_def matching)
  moreover have "\<exists>rs. snd (perm_ask [50] (sample_ask (lit ''git push -f'')) sample_waiting) = DeniedError rs"
    by (simp add: perm_ask_def sample_ask_def evaluate_def find_last_def sample_waiting_def Let_def matching)
  ultimately show ?thesis using r by blast
qed

end
