(* ===== verification/Agent_Arity.thy ===== *)
theory Agent_Arity imports Agent_Text begin

text \<open>
  The command prefixes that a permanent approval of a shell command covers (\<open>permission/arity.ts\<close>): the
  longest prefix of the command found in a table says how many words name the command.  The table is an
  object, so looking a word up also finds the properties every object inherits; \<open>slice\<close> takes such a value
  as 0.
\<close>

definition ARITY :: "(string \<times> nat) list" where
  "ARITY = [
    (''cat'', 1), (''cd'', 1), (''chmod'', 1), (''chown'', 1), (''cp'', 1), (''echo'', 1), (''env'', 1),
    (''export'', 1), (''grep'', 1), (''kill'', 1), (''killall'', 1), (''ln'', 1), (''ls'', 1), (''mkdir'', 1),
    (''mv'', 1), (''ps'', 1), (''pwd'', 1), (''rm'', 1), (''rmdir'', 1), (''sleep'', 1), (''source'', 1),
    (''tail'', 1), (''touch'', 1), (''unset'', 1), (''which'', 1), (''aws'', 3), (''az'', 3), (''bazel'', 2),
    (''brew'', 2), (''bun'', 2), (''bun run'', 3), (''bun x'', 3), (''cargo'', 2), (''cargo add'', 3),
    (''cargo run'', 3), (''cdk'', 2), (''cf'', 2), (''cmake'', 2), (''composer'', 2), (''consul'', 2),
    (''consul kv'', 3), (''crictl'', 2), (''deno'', 2), (''deno task'', 3), (''doctl'', 3), (''docker'', 2),
    (''docker builder'', 3), (''docker compose'', 3), (''docker container'', 3), (''docker image'', 3),
    (''docker network'', 3), (''docker volume'', 3), (''eksctl'', 2), (''eksctl create'', 3), (''firebase'', 2),
    (''flyctl'', 2), (''gcloud'', 3), (''gh'', 3), (''git'', 2), (''git config'', 3), (''git remote'', 3),
    (''git stash'', 3), (''go'', 2), (''gradle'', 2), (''helm'', 2), (''heroku'', 2), (''hugo'', 2), (''ip'', 2),
    (''ip addr'', 3), (''ip link'', 3), (''ip netns'', 3), (''ip route'', 3), (''kind'', 2), (''kind create'', 3),
    (''kubectl'', 2), (''kubectl kustomize'', 3), (''kubectl rollout'', 3), (''kustomize'', 2), (''make'', 2),
    (''mc'', 2), (''mc admin'', 3), (''minikube'', 2), (''mongosh'', 2), (''mysql'', 2), (''mvn'', 2), (''ng'', 2),
    (''npm'', 2), (''npm exec'', 3), (''npm init'', 3), (''npm run'', 3), (''npm view'', 3), (''nvm'', 2),
    (''nx'', 2), (''openssl'', 2), (''openssl req'', 3), (''openssl x509'', 3), (''pip'', 2), (''pipenv'', 2),
    (''pnpm'', 2), (''pnpm dlx'', 3), (''pnpm exec'', 3), (''pnpm run'', 3), (''poetry'', 2), (''podman'', 2),
    (''podman container'', 3), (''podman image'', 3), (''psql'', 2), (''pulumi'', 2), (''pulumi stack'', 3),
    (''pyenv'', 2), (''python'', 2), (''rake'', 2), (''rbenv'', 2), (''redis-cli'', 2), (''rustup'', 2),
    (''serverless'', 2), (''sfdx'', 3), (''skaffold'', 2), (''sls'', 2), (''sst'', 2), (''swift'', 2),
    (''systemctl'', 2), (''terraform'', 2), (''terraform workspace'', 3), (''tmux'', 2), (''turbo'', 2),
    (''ufw'', 2), (''vault'', 2), (''vault auth'', 3), (''vault kv'', 3), (''vercel'', 2), (''volta'', 2),
    (''wp'', 2), (''yarn'', 2), (''yarn dlx'', 3), (''yarn run'', 3)]"

definition inherited_names :: "string list" where
  "inherited_names = [''constructor'', ''__proto__'', ''__defineGetter__'', ''__defineSetter__'', ''__lookupGetter__'',
     ''__lookupSetter__'', ''hasOwnProperty'', ''isPrototypeOf'', ''propertyIsEnumerable'', ''toLocaleString'',
     ''toString'', ''valueOf'']"

definition arity_lookup :: "string \<Rightarrow> nat option" where
  "arity_lookup key = (case map_of ARITY key of Some n \<Rightarrow> Some n
     | None \<Rightarrow> if key \<in> set inherited_names then Some 0 else None)"

fun arity_loop :: "string list \<Rightarrow> nat \<Rightarrow> string list" where
  "arity_loop tokens 0 = (if tokens = [] then [] else take 1 tokens)"
| "arity_loop tokens (Suc len) =
     (case arity_lookup (js_join '' '' (take (Suc len) tokens)) of
        Some arity \<Rightarrow> take arity tokens
      | None \<Rightarrow> arity_loop tokens len)"

definition arity_prefix :: "string list \<Rightarrow> string list" where
  "arity_prefix tokens = arity_loop tokens (length tokens)"

lemma arity_positive: "map_of ARITY key = Some n \<Longrightarrow> 0 < n \<and> n \<le> 3"
proof -
  have "list_all (\<lambda>(k, n). 0 < n \<and> n \<le> 3) ARITY" by (simp add: ARITY_def)
  moreover assume "map_of ARITY key = Some n"
  then have "(key, n) \<in> set ARITY" by (rule map_of_SomeD)
  ultimately show ?thesis by (auto simp: list_all_iff)
qed

lemma arity_loop_cases:
  obtains (found) k n where "0 < k" "k \<le> len" "arity_lookup (js_join '' '' (take k tokens)) = Some n"
      "\<And>j. k < j \<Longrightarrow> j \<le> len \<Longrightarrow> arity_lookup (js_join '' '' (take j tokens)) = None" "arity_loop tokens len = take n tokens"
    | (unknown) "\<And>j. 0 < j \<Longrightarrow> j \<le> len \<Longrightarrow> arity_lookup (js_join '' '' (take j tokens)) = None"
      "arity_loop tokens len = take 1 tokens"
proof (induction len arbitrary: thesis)
  case 0
  then show ?case by (cases tokens) auto
next
  case (Suc len)
  show ?case
  proof (cases "arity_lookup (js_join '' '' (take (Suc len) tokens))")
    case (Some n)
    then show ?thesis by (intro Suc.prems(1) [of "Suc len" n]) auto
  next
    case None
    note none = this
    show ?thesis
    proof (rule Suc.IH, goal_cases)
      case (1 k n)
      then show ?case using none by (intro Suc.prems(1) [of k n]) (auto simp: le_Suc_eq)
    next
      case 2
      then show ?case using none by (intro Suc.prems(2)) (auto simp: le_Suc_eq)
    qed
  qed
qed

text \<open>A part of two words or more contains a space, so only the first word can be an inherited name.\<close>

lemma space_in_join: "Suc 0 < length ws \<Longrightarrow> CHR '' '' \<in> set (js_join '' '' ws)"
  by (cases ws; cases "tl ws") auto

lemma inherited_no_space: "key \<in> set inherited_names \<Longrightarrow> CHR '' '' \<notin> set key"
  by (auto simp: inherited_names_def)

lemma arity_lookup_listed:
  assumes "hd tokens \<notin> set inherited_names" and "0 < k" and "k \<le> length tokens"
  shows "arity_lookup (js_join '' '' (take k tokens)) = map_of ARITY (js_join '' '' (take k tokens))"
proof -
  have "js_join '' '' (take k tokens) \<notin> set inherited_names"
  proof (cases "k = 1")
    case True
    with assms show ?thesis by (cases tokens) auto
  next
    case False
    with assms(2,3) have "CHR '' '' \<in> set (js_join '' '' (take k tokens))" by (intro space_in_join) simp
    then show ?thesis using inherited_no_space by blast
  qed
  then show ?thesis by (simp add: arity_lookup_def split: option.split)
qed

text \<open>
  The prefix a shell command is approved under is an initial part of one to three words, given by the
  longest initial part of the command that the table lists, or the first word when it lists none.
\<close>

lemma approved_prefix:
  assumes "tokens \<noteq> []" and "hd tokens \<notin> set inherited_names"
  shows "\<exists>n. arity_prefix tokens = take n tokens \<and> 1 \<le> n \<and> n \<le> 3 \<and>
    ((n = 1 \<and> (\<forall>j. 0 < j \<and> j \<le> length tokens \<longrightarrow> map_of ARITY (js_join '' '' (take j tokens)) = None)) \<or>
     (\<exists>k. 0 < k \<and> k \<le> length tokens \<and> map_of ARITY (js_join '' '' (take k tokens)) = Some n \<and>
        (\<forall>j. k < j \<and> j \<le> length tokens \<longrightarrow> map_of ARITY (js_join '' '' (take j tokens)) = None)))"
proof (cases rule: arity_loop_cases [of "length tokens" tokens])
  case (found k n)
  then have k: "map_of ARITY (js_join '' '' (take k tokens)) = Some n"
    by (simp add: arity_lookup_listed [OF assms(2)])
  have "map_of ARITY (js_join '' '' (take j tokens)) = None" if "k < j" "j \<le> length tokens" for j
    using found(4) [OF that] that by (simp add: arity_lookup_listed [OF assms(2)])
  with found(1,2,5) k arity_positive [OF k] show ?thesis
    by (intro exI [of _ n]) (auto simp: arity_prefix_def)
next
  case unknown
  have "map_of ARITY (js_join '' '' (take j tokens)) = None" if "0 < j" "j \<le> length tokens" for j
    using unknown(1) [OF that] that by (simp add: arity_lookup_listed [OF assms(2)])
  with unknown(2) show ?thesis by (intro exI [of _ 1]) (auto simp: arity_prefix_def)
qed

text \<open>A command named like an inherited property has an empty prefix.\<close>

lemma inherited_name_prefix: "arity_prefix [''constructor''] = []"
  by code_simp

end
