(* ===== verification/Agent_Ids.thy ===== *)
theory Agent_Ids imports Js_Text "HOL-Library.Word" "HOL-Library.Char_ord" "HOL-Library.List_Lexorder" begin

text \<open>
  Identifiers of the agent (\<open>id/id.ts\<close>): a prefix, twelve hexadecimal digits made of the time and a
  counter, and random characters.  The clock and the random characters are arguments.  The number that
  is encoded is unbounded and only its low 48 bits are kept.
\<close>

unbundle bit_operations_syntax

section \<open>Making identifiers\<close>

record id_state =
  is_lastTimestamp :: int
  is_counter :: int

definition id_state_init :: id_state where
  "id_state_init = \<lparr>is_lastTimestamp = 0, is_counter = 0\<rparr>"

definition nextCounter :: "int \<Rightarrow> id_state \<Rightarrow> int \<times> id_state" where
  "nextCounter time st =
     (if time \<noteq> is_lastTimestamp st then (1, \<lparr>is_lastTimestamp = time, is_counter = 1\<rparr>)
      else (is_counter st + 1, st\<lparr>is_counter := is_counter st + 1\<rparr>))"

definition time_hex_char :: "int \<Rightarrow> char" where
  "time_hex_char d = char_of (if d < 10 then 48 + d else 87 + d)"

definition time_bytes :: "int \<Rightarrow> int list" where
  "time_bytes now = List.map (\<lambda>i. drop_bit (40 - 8 * i) now AND 255) [0..<6]"

definition hex_bytes :: "int list \<Rightarrow> string" where
  "hex_bytes bs = concat (List.map (\<lambda>b. [time_hex_char (b div 16), time_hex_char (b mod 16)]) bs)"

definition base62 :: string where
  "base62 = ''0123456789ABCDEFGHIJKLMNOPQRSTUVWXYZabcdefghijklmnopqrstuvwxyz''"

definition randomBase62 :: "nat list \<Rightarrow> string" where
  "randomBase62 bytes = List.map (\<lambda>b. base62 ! (b mod 62)) bytes"

datatype direction = Ascending | Descending

definition create_id :: "string \<Rightarrow> direction \<Rightarrow> int \<Rightarrow> nat list \<Rightarrow> id_state \<Rightarrow> string \<times> id_state" where
  "create_id pre dir currentTimestamp bytes st =
     (let (counter, st') = nextCounter currentTimestamp st;
          now = currentTimestamp * 4096 + counter;
          now = (if dir = Descending then NOT now else now)
      in (pre @ ''_'' @ hex_bytes (time_bytes now) @ randomBase62 bytes, st'))"

definition id_prefixes :: "(string \<times> string) list" where
  "id_prefixes = [(''job'', ''job''), (''event'', ''evt''), (''session'', ''ses''), (''message'', ''msg''), (''permission'', ''per''),
     (''question'', ''que''), (''part'', ''prt''), (''pty'', ''pty''), (''tool'', ''tool''), (''workspace'', ''wrk'')]"

text \<open>With an identifier given, only its prefix is checked; \<open>Inl\<close> is the defect the program dies with.\<close>

definition generateID :: "string \<Rightarrow> direction \<Rightarrow> string option \<Rightarrow> int \<Rightarrow> nat list \<Rightarrow> id_state \<Rightarrow> (string + string) \<times> id_state" where
  "generateID kind dir given now bytes st =
     (let pre = nullish (map_of id_prefixes kind) []
      in if given = None \<or> given = Some [] then (case create_id pre dir now bytes st of (i, st') \<Rightarrow> (Inr i, st'))
         else if \<not> starts_with pre (the given)
         then (Inl (''ID '' @ the given @ '' does not start with '' @ pre), st)
         else (Inr (the given), st))"

definition hex_char_value :: "char \<Rightarrow> int" where
  "hex_char_value c = (if of_char c < (58 :: int) then of_char c - 48 else of_char c - 87)"

definition read_hex :: "string \<Rightarrow> int" where
  "read_hex s = foldl (\<lambda>n c. n * 16 + hex_char_value c) 0 s"

definition timestamp_of :: "string \<Rightarrow> int" where
  "timestamp_of id0 =
     (let pre = hd (split_on (CHR ''_'') id0);
          hex = take 12 (drop (length pre + 1) id0)
      in read_hex hex div 4096)"

section \<open>Encoding\<close>

lemma time_bytes_eq: "time_bytes now = List.map (\<lambda>i. (now div 2 ^ (40 - 8 * i)) mod 256) [0..<6]"
proof -
  have "x AND 255 = x mod 256" for x :: int
    using take_bit_eq_mask [of 8 x] by (simp add: take_bit_eq_mod mask_eq_exp_minus_1)
  then show ?thesis by (simp add: time_bytes_def drop_bit_eq_div)
qed

fun big_endian :: "nat \<Rightarrow> int \<Rightarrow> int list" where
  "big_endian 0 n = []"
| "big_endian (Suc w) n = (n div 256 ^ w) mod 256 # big_endian w n"

lemma time_bytes_big_endian: "time_bytes now = big_endian 6 now"
  by (simp add: time_bytes_eq upt_rec numeral_eq_Suc)

lemma length_big_endian [simp]: "length (big_endian w n) = w"
  by (induction w) auto

lemma big_endian_mod: "big_endian w (n mod 256 ^ w') = big_endian w n" if "w \<le> w'"
  using that
proof (induction w)
  case (Suc w)
  have "(n mod 256 ^ w') div 256 ^ w mod 256 = n div 256 ^ w mod 256"
  proof -
    obtain k where k: "w' = Suc w + k" using Suc.prems by (metis le_Suc_ex)
    have "n mod (256 ^ w * (256 * 256 ^ k)) = 256 ^ w * (n div 256 ^ w mod (256 * 256 ^ k)) + n mod 256 ^ w"
      by (rule zmod_zmult2_eq) simp
    then have "n mod 256 ^ w' div 256 ^ w = n div 256 ^ w mod (256 * 256 ^ k)"
      by (simp add: k power_add mult.assoc mult.left_commute)
    then show ?thesis by (simp add: mod_mod_cancel)
  qed
  with Suc show ?case by simp
qed simp

lemma big_endian_range: "b \<in> set (big_endian w n) \<Longrightarrow> 0 \<le> b \<and> b < 256"
  by (induction w) auto

lemma hex_char_inverse: "0 \<le> d \<Longrightarrow> d < 16 \<Longrightarrow> hex_char_value (time_hex_char d) = d"
  by (auto simp: hex_char_value_def time_hex_char_def)

lemma read_hex_bytes:
  assumes "\<And>b. b \<in> set bs \<Longrightarrow> 0 \<le> b \<and> b < 256"
  shows "foldl (\<lambda>n c. n * 16 + hex_char_value c) a (hex_bytes bs) = foldl (\<lambda>n b. n * 256 + b) a bs"
  using assms
proof (induction bs arbitrary: a)
  case (Cons b bs)
  have "0 \<le> b" "b < 256" using Cons.prems by simp_all
  then have "hex_char_value (time_hex_char (b div 16)) = b div 16" "hex_char_value (time_hex_char (b mod 16)) = b mod 16"
    by (simp_all add: hex_char_inverse)
  moreover have "(a * 16 + b div 16) * 16 + b mod 16 = a * 256 + b" by simp
  ultimately show ?case using Cons by (simp add: hex_bytes_def ac_simps)
qed (simp add: hex_bytes_def)

lemma foldl_big_endian: "foldl (\<lambda>n b. n * 256 + b) a (big_endian w n) = a * 256 ^ w + n mod 256 ^ w"
proof (induction w arbitrary: a)
  case (Suc w)
  have "n mod (256 ^ w * 256) = 256 ^ w * (n div 256 ^ w mod 256) + n mod 256 ^ w"
    by (rule zmod_zmult2_eq) simp
  with Suc show ?case by (simp add: algebra_simps)
qed simp

lemma read_hex_time: "read_hex (hex_bytes (time_bytes now)) = now mod 2 ^ 48"
  using foldl_big_endian [of 0 6 now] unfolding read_hex_def time_bytes_big_endian
  by (subst read_hex_bytes) (auto dest: big_endian_range)

lemma length_hex_bytes [simp]: "length (hex_bytes bs) = 2 * length bs"
  by (induction bs) (auto simp: hex_bytes_def)

text \<open>
  The time read back from an identifier.  The encoding keeps 48 bits, of which 12 are the counter, so
  the time that is read back is the time of creation modulo \<open>2 ^ 36\<close> milliseconds, a little more than two
  years, moved on by one for every 4096 identifiers of one millisecond; it is the time of creation exactly
  when that time is less than \<open>2 ^ 36\<close>, that is before March 1972.
\<close>

theorem timestamp_wraps:
  assumes "CHR ''_'' \<notin> set pre" and "nextCounter now st = (c, st')" and "0 \<le> now" and "0 \<le> c"
  shows "timestamp_of (fst (create_id pre Ascending now bytes st)) = (now + c div 4096) mod 2 ^ 36 \<and>
    (c < 4096 \<longrightarrow> (timestamp_of (fst (create_id pre Ascending now bytes st)) = now \<longleftrightarrow> now < 2 ^ 36))"
proof -
  let ?n = "now * 4096 + c"
  have i: "fst (create_id pre Ascending now bytes st) = pre @ CHR ''_'' # hex_bytes (time_bytes ?n) @ randomBase62 bytes"
    by (simp add: create_id_def assms(2))
  have h: "take 12 (hex_bytes (time_bytes ?n) @ r) = hex_bytes (time_bytes ?n)" for r
    by (simp add: time_bytes_big_endian)
  have "?n mod (4096 * 2 ^ 36) = 4096 * (?n div 4096 mod 2 ^ 36) + ?n mod 4096" by (rule zmod_zmult2_eq) simp
  then have "?n mod 2 ^ 48 div 4096 = ?n div 4096 mod 2 ^ 36" by simp
  also have "?n div 4096 = now + c div 4096" by simp
  finally have t: "timestamp_of (fst (create_id pre Ascending now bytes st)) = (now + c div 4096) mod 2 ^ 36"
    by (simp add: i timestamp_of_def split_on_append [OF assms(1)] h read_hex_time del: take_append)
  moreover have "c < 4096 \<Longrightarrow> c div 4096 = 0" using assms(4) by simp
  moreover have "now mod 2 ^ 36 = now \<longleftrightarrow> now < 2 ^ 36"
    using assms(3) pos_mod_bound [of "2 ^ 36" now] by (auto simp: mod_pos_pos_trivial simp del: pos_mod_bound)
  ultimately show ?thesis by simp
qed

theorem timestamp_wraps_witness:
  "timestamp_of (fst (create_id ''ses'' Ascending 1700000000000 [] id_state_init)) = 50732558336"
proof -
  have n: "nextCounter 1700000000000 id_state_init = (1, \<lparr>is_lastTimestamp = 1700000000000, is_counter = 1\<rparr>)"
    by (simp add: nextCounter_def id_state_init_def)
  have p: "CHR ''_'' \<notin> set ''ses''" by simp
  from timestamp_wraps [OF p n, of "[]"] show ?thesis by simp
qed

section \<open>Order\<close>

lemma big_endian_less: "0 \<le> m \<Longrightarrow> m < n \<Longrightarrow> n < 256 ^ w \<Longrightarrow> big_endian w m < big_endian w n"
proof (induction w arbitrary: m n)
  case (Suc w)
  have top: "k div 256 ^ w < 256" if "k < 256 ^ Suc w" for k :: int
  proof (rule ccontr)
    assume "\<not> k div 256 ^ w < 256"
    then have "256 ^ w * 256 \<le> 256 ^ w * (k div 256 ^ w)" by (intro mult_left_mono) simp_all
    also have "\<dots> \<le> k" by (metis add_le_cancel_left add.right_neutral div_mult_mod_eq mult.commute pos_mod_sign zero_less_numeral zero_less_power)
    finally show False using that by simp
  qed
  have hi: "m div 256 ^ w < 256" "n div 256 ^ w < 256" using Suc.prems by (auto intro: top)
  have lo: "0 \<le> m div 256 ^ w" "0 \<le> n div 256 ^ w" using Suc.prems by (simp_all add: pos_imp_zdiv_nonneg_iff)
  have le: "m div 256 ^ w \<le> n div 256 ^ w" using Suc.prems by (intro zdiv_mono1) simp_all
  show ?case
  proof (cases "m div 256 ^ w = n div 256 ^ w")
    case True
    have "m mod 256 ^ w = m - n div 256 ^ w * 256 ^ w" "n mod 256 ^ w = n - n div 256 ^ w * 256 ^ w"
      using minus_div_mult_eq_mod [of m "256 ^ w"] minus_div_mult_eq_mod [of n "256 ^ w"] True by simp_all
    with Suc.prems(2) have "m mod 256 ^ w < n mod 256 ^ w" by simp
    then have "big_endian w (m mod 256 ^ w) < big_endian w (n mod 256 ^ w)" by (intro Suc.IH) simp_all
    with True show ?thesis by (simp add: big_endian_mod)
  next
    case False
    with le hi lo show ?thesis by (simp add: mod_pos_pos_trivial)
  qed
qed simp

lemma hex_char_less: "0 \<le> a \<Longrightarrow> a < b \<Longrightarrow> b < 16 \<Longrightarrow> time_hex_char a < time_hex_char b"
proof -
  assume a: "0 \<le> a" "a < b" "b < 16"
  have "c < d \<longleftrightarrow> (of_char c :: int) < of_char d" for c d
    by (metis less_char_def of_nat_of_char of_nat_less_iff)
  with a show ?thesis by (auto simp: time_hex_char_def)
qed

lemma hex_bytes_less:
  assumes "length as = length bs" and "as < bs" and "\<forall>b\<in>set as \<union> set bs. 0 \<le> b \<and> b < 256"
  shows "hex_bytes as @ r < hex_bytes bs @ r'"
  using assms
proof (induction as bs rule: list_induct2)
  case (Cons a as b bs)
  have ab: "0 \<le> a" "a < 256" "0 \<le> b" "b < 256" using Cons.prems by auto
  from Cons.prems(1) consider "a < b" | "a = b" "as < bs" by auto
  then show ?case
  proof cases
    case 1
    show ?thesis
    proof (cases "a div 16 = b div 16")
      case True
      then have "a mod 16 < b mod 16"
        using 1 div_mult_mod_eq [of a 16] div_mult_mod_eq [of b 16] by linarith
      with True show ?thesis by (simp add: hex_bytes_def hex_char_less)
    next
      case False
      then have "a div 16 < b div 16" using 1 zdiv_mono1 [of a b 16] by simp
      then show ?thesis using ab by (simp add: hex_bytes_def hex_char_less)
    qed
  next
    case 2
    with Cons show ?thesis by (simp add: hex_bytes_def)
  qed
qed simp

lemma encoded_less:
  assumes "m mod 2 ^ 48 < n mod 2 ^ 48"
  shows "hex_bytes (time_bytes m) @ r < hex_bytes (time_bytes n) @ r'"
proof -
  have "big_endian 6 (m mod 256 ^ 6) < big_endian 6 (n mod 256 ^ 6)"
    by (rule big_endian_less) (use assms in simp_all)
  then have "time_bytes m < time_bytes n" unfolding big_endian_mod [OF order_refl] time_bytes_big_endian .
  then show ?thesis
    by (intro hex_bytes_less) (auto simp: time_bytes_big_endian dest: big_endian_range simp del: big_endian.simps)
qed

text \<open>The identifiers a process makes, each with its prefix, direction, time and random bytes, and the numbers they encode.\<close>

type_synonym id_call = "string \<times> direction \<times> int \<times> nat list"

definition call_time :: "id_call \<Rightarrow> int" where
  "call_time call = fst (snd (snd call))"

fun id_run :: "id_call list \<Rightarrow> id_state \<Rightarrow> string list" where
  "id_run [] st = []"
| "id_run ((pre, dir, now, bytes) # calls) st =
     (case create_id pre dir now bytes st of (i, st') \<Rightarrow> i # id_run calls st')"

fun id_numbers :: "int list \<Rightarrow> id_state \<Rightarrow> int list" where
  "id_numbers [] st = []"
| "id_numbers (now # ts) st = (case nextCounter now st of (c, st') \<Rightarrow> (now * 4096 + c) # id_numbers ts st')"

definition fits_call :: "id_call \<Rightarrow> string \<Rightarrow> int \<Rightarrow> bool" where
  "fits_call call i n \<longleftrightarrow> (\<exists>bytes. i = fst call @ ''_'' @
     hex_bytes (time_bytes (if fst (snd call) = Descending then NOT n else n)) @ randomBase62 bytes)"

lemma id_run_numbers:
  "length (id_run calls st) = length calls \<and> length (id_numbers (List.map call_time calls) st) = length calls \<and>
   (\<forall>k < length calls. fits_call (calls ! k) (id_run calls st ! k) (id_numbers (List.map call_time calls) st ! k))"
proof (induction calls arbitrary: st)
  case (Cons call calls)
  obtain pre dir now bytes where call: "call = (pre, dir, now, bytes)" by (cases call)
  obtain c st' where n: "nextCounter now st = (c, st')" by (cases "nextCounter now st")
  obtain i where i: "create_id pre dir now bytes st = (i, st')" by (simp add: create_id_def n Let_def)
  then have "fits_call call i (now * 4096 + c)" by (auto simp: call create_id_def n Let_def fits_call_def)
  moreover have "call_time call = now" by (simp add: call call_time_def)
  ultimately show ?case using Cons [of st'] by (auto simp: call n i less_Suc_eq_0_disj)
qed simp

lemma id_numbers_ascend:
  assumes "sorted ts" and "\<And>t. t \<in> set ts \<Longrightarrow> is_lastTimestamp st \<le> t" and "\<And>t. count_list ts t < 4096"
    and "0 \<le> is_counter st" and "is_counter st + int (count_list ts (is_lastTimestamp st)) < 4096"
  shows "sorted_wrt (<) (id_numbers ts st) \<and>
    (\<forall>n\<in>set (id_numbers ts st). is_lastTimestamp st * 4096 + is_counter st < n \<and> n div 4096 \<in> set ts)"
  using assms
proof (induction ts arbitrary: st)
  case (Cons t ts)
  obtain c st' where n: "nextCounter t st = (c, st')" by (cases "nextCounter t st")
  then have st': "is_lastTimestamp st' = t" "is_counter st' = c"
    by (auto simp: nextCounter_def split: if_splits)
  have le: "is_lastTimestamp st \<le> t" using Cons.prems(2) by simp
  have few: "Suc (count_list ts t) < 4096" using Cons.prems(3) [of t] by simp
  have c: "0 < c" "c + int (count_list ts t) < 4096" "is_lastTimestamp st * 4096 + is_counter st < t * 4096 + c"
    using Cons.prems(4,5) n le few by (auto simp: nextCounter_def split: if_splits)
  have "count_list ts u < 4096" for u using Cons.prems(3) [of u] by (simp split: if_splits)
  then have "sorted_wrt (<) (id_numbers ts st') \<and>
      (\<forall>n\<in>set (id_numbers ts st'). is_lastTimestamp st' * 4096 + is_counter st' < n \<and> n div 4096 \<in> set ts)"
    by (intro Cons.IH) (use Cons.prems(1) c st' in auto)
  moreover have "(t * 4096 + c) div 4096 = t" using c by simp
  ultimately show ?case using c n by (auto simp: st')
qed simp

lemma same_window_less:
  fixes m n :: int
  assumes "m < n" and "m div 2 ^ 48 = n div 2 ^ 48"
  shows "m mod 2 ^ 48 < n mod 2 ^ 48" "NOT n mod 2 ^ 48 < NOT m mod 2 ^ 48"
proof -
  have "m mod 2 ^ 48 = m - n div 2 ^ 48 * 2 ^ 48" "n mod 2 ^ 48 = n - n div 2 ^ 48 * 2 ^ 48"
    using minus_div_mult_eq_mod [of m "2 ^ 48"] minus_div_mult_eq_mod [of n "2 ^ 48"] assms(2) by simp_all
  with assms(1) show less: "m mod 2 ^ 48 < n mod 2 ^ 48" by simp
  have "NOT k mod 2 ^ 48 = 2 ^ 48 - 1 - k mod 2 ^ 48" for k :: int
    using take_bit_not_eq_mask_diff [of 48 k] by (simp add: take_bit_eq_mod mask_eq_exp_minus_1)
  with less show "NOT n mod 2 ^ 48 < NOT m mod 2 ^ 48" by simp
qed

lemma same_prefix_less: "pre @ CHR ''_'' # x < pre @ CHR ''_'' # (y :: string) \<longleftrightarrow> x < y"
  by (induction pre) auto

lemma fits_call_less:
  assumes "fits_call a i m" "fits_call b j n" "fst a = fst b" "fst (snd a) = fst (snd b)"
    "m < n" "m div 2 ^ 48 = n div 2 ^ 48"
  shows "if fst (snd a) = Ascending then i < j else j < i"
  using assms(1-4) same_window_less [OF assms(5,6)]
  by (cases "fst (snd b)") (auto simp: fits_call_def same_prefix_less encoded_less)

text \<open>
  C37: when identifiers sort by their creation.  Take the identifiers that a process makes from its start, of any prefixes and both directions,
  at times that do not decrease, with fewer than 4096 of them in each millisecond, all
  within one window of \<open>2 ^ 36\<close> milliseconds (about two years).  Then of two with the same prefix and the same direction the later one sorts after the earlier one as
  a text when the direction is ascending, and before it when it is descending, whatever their random parts.  Of
  two with different prefixes, or of which one is given by the caller, nothing is said.
\<close>

theorem ids_in_order:
  assumes "sorted (List.map call_time calls)" and "\<And>t. count_list (List.map call_time calls) t < 4096"
    and "\<And>call. call \<in> set calls \<Longrightarrow> 0 \<le> call_time call \<and> call_time call div 2 ^ 36 = window"
    and "i < j" "j < length calls" and "calls ! i = (pre, dir, now1, bytes1)" "calls ! j = (pre, dir, now2, bytes2)"
  shows "if dir = Ascending then id_run calls id_state_init ! i < id_run calls id_state_init ! j
    else id_run calls id_state_init ! j < id_run calls id_state_init ! i"
proof -
  let ?ns = "id_numbers (List.map call_time calls) id_state_init"
  note run = id_run_numbers [of calls id_state_init]
  have ns: "sorted_wrt (<) ?ns" "\<forall>n\<in>set ?ns. n div 4096 \<in> call_time ` set calls"
    using id_numbers_ascend [of "List.map call_time calls" id_state_init] assms(1-3) by (force simp: id_state_init_def)+
  have window: "?ns ! k div 2 ^ 48 = window" if "k < length calls" for k
  proof -
    have "?ns ! k div 2 ^ 48 = ?ns ! k div 4096 div 2 ^ 36" by (simp add: zdiv_zmult2_eq [symmetric])
    moreover have "?ns ! k div 4096 \<in> call_time ` set calls" using ns(2) run that by simp
    ultimately show ?thesis using assms(3) by fastforce
  qed
  have less: "?ns ! i < ?ns ! j" using ns(1) run assms(4,5) by (simp add: sorted_wrt_iff_nth_less)
  have fits: "fits_call (calls ! i) (id_run calls id_state_init ! i) (?ns ! i)"
    "fits_call (calls ! j) (id_run calls id_state_init ! j) (?ns ! j)" using run assms(4,5) by simp_all
  have "if fst (snd (calls ! i)) = Ascending then id_run calls id_state_init ! i < id_run calls id_state_init ! j
      else id_run calls id_state_init ! j < id_run calls id_state_init ! i"
    by (rule fits_call_less [OF fits _ _ less]) (use window assms(4-7) in simp_all)
  then show ?thesis using assms(6) by simp
qed

theorem ids_in_order_witness:
  "id_run [(''msg'', Ascending, 5, [61]), (''ses'', Descending, 5, [0]), (''msg'', Ascending, 5, [7])] id_state_init ! 0 <
   id_run [(''msg'', Ascending, 5, [61]), (''ses'', Descending, 5, [0]), (''msg'', Ascending, 5, [7])] id_state_init ! 2"
proof -
  let ?c = "[(''msg'', Ascending, 5, [61]), (''ses'', Descending, 5, [0]), (''msg'', Ascending, 5, [7])] :: id_call list"
  have "if Ascending = Ascending then id_run ?c id_state_init ! 0 < id_run ?c id_state_init ! 2
    else id_run ?c id_state_init ! 2 < id_run ?c id_state_init ! 0"
    by (rule ids_in_order [of ?c 0 0 2 "''msg''" Ascending 5 "[61]" 5 "[7]"])
      (auto simp: call_time_def simp del: id_run.simps)
  then show ?thesis by (simp only: simp_thms if_True)
qed

end
