(* ===== verification/Codex_Merkle.thy ===== *)
theory Codex_Merkle imports Dharma_Events begin

text \<open>
  Snapshots of the codex committed to by a Merkle tree (\<open>dharma/codex/crypto/codex-merkle.ts\<close>).  SHA-256
  and Ed25519 are parameters as in the event log; so is \<open>localeCompare\<close>, whose order depends on the locale.
  A digest is a hexadecimal text; the bytes of two digests are concatenated and hashed.
\<close>

section \<open>Commitments\<close>

record EntryCommitment =
  ec_entryId :: string
  ec_ciphertextDigest :: string
  ec_visibilityClass :: string
  ec_contentDigest :: string
  ec_logicalTime :: string

definition computeEntryCommitment ::
    "(string \<Rightarrow> string) \<Rightarrow> string \<Rightarrow> string \<Rightarrow> string \<Rightarrow> string \<Rightarrow> string \<Rightarrow> EntryCommitment" where
  "computeEntryCommitment sha entryId ciphertext visibilityClass contentDigest logicalTime =
     \<lparr>ec_entryId = entryId, ec_ciphertextDigest = sha ciphertext, ec_visibilityClass = visibilityClass,
      ec_contentDigest = contentDigest, ec_logicalTime = logicalTime\<rparr>"

definition commitment_json :: "EntryCommitment \<Rightarrow> json" where
  "commitment_json c =
     J_obj [(''entryId'', J_str (ec_entryId c)), (''ciphertextDigest'', J_str (ec_ciphertextDigest c)),
       (''visibilityClass'', J_str (ec_visibilityClass c)), (''contentDigest'', J_str (ec_contentDigest c)),
       (''logicalTime'', J_str (ec_logicalTime c))]"

definition commitmentDigest :: "(string \<Rightarrow> string) \<Rightarrow> EntryCommitment \<Rightarrow> string" where
  "commitmentDigest sha commitment = sha256Hex sha (json_stringify (commitment_json commitment))"

definition canonicalSortCommitments :: "(string \<Rightarrow> string \<Rightarrow> int) \<Rightarrow> EntryCommitment list \<Rightarrow> EntryCommitment list" where
  "canonicalSortCommitments localeCompare commitments =
     js_sort (\<lambda>a b. localeCompare (ec_entryId a) (ec_entryId b)) commitments"

section \<open>The tree\<close>

definition node_text :: "string \<Rightarrow> string \<Rightarrow> string" where
  "node_text left right = hex_decode left @ hex_decode right"

definition node_hash :: "(string \<Rightarrow> string) \<Rightarrow> string \<Rightarrow> string \<Rightarrow> string" where
  "node_hash sha left right = sha (node_text left right)"

fun next_layer :: "(string \<Rightarrow> string) \<Rightarrow> string list \<Rightarrow> string list" where
  "next_layer sha [] = []"
| "next_layer sha [left] = [node_hash sha left left]"
| "next_layer sha (left # right # rest) = node_hash sha left right # next_layer sha rest"

lemma length_next_layer [simp]: "length (next_layer sha xs) = (length xs + 1) div 2"
  by (induction sha xs rule: next_layer.induct) auto

function layers_from :: "(string \<Rightarrow> string) \<Rightarrow> string list \<Rightarrow> string list list" where
  "layers_from sha current =
     (if length current > 1 then current # layers_from sha (next_layer sha current) else [current])"
  by pat_completeness auto
termination by (relation "measure (\<lambda>(sha, current). length current)") auto

declare layers_from.simps [simp del]

record MerkleTree =
  mt_leaves :: "string list"
  mt_layers :: "string list list"
  mt_root :: string
  mt_leafCount :: nat

definition buildMerkleTree ::
    "(string \<Rightarrow> string) \<Rightarrow> (string \<Rightarrow> string \<Rightarrow> int) \<Rightarrow> EntryCommitment list \<Rightarrow> MerkleTree" where
  "buildMerkleTree sha localeCompare commitments =
     (let leaves = List.map (commitmentDigest sha) (canonicalSortCommitments localeCompare commitments)
      in if length leaves = 0 then \<lparr>mt_leaves = [], mt_layers = [], mt_root = [], mt_leafCount = 0\<rparr>
         else let layers = layers_from sha leaves
              in \<lparr>mt_leaves = leaves, mt_layers = layers, mt_root = hd (last layers), mt_leafCount = length leaves\<rparr>)"

function root_from :: "(string \<Rightarrow> string) \<Rightarrow> string list \<Rightarrow> string" where
  "root_from sha current = (if length current > 1 then root_from sha (next_layer sha current) else hd current)"
  by pat_completeness auto
termination by (relation "measure (\<lambda>(sha, current). length current)") auto

declare root_from.simps [simp del]

definition computeMerkleRoot :: "(string \<Rightarrow> string) \<Rightarrow> (string \<Rightarrow> string \<Rightarrow> int) \<Rightarrow> EntryCommitment list \<Rightarrow> string" where
  "computeMerkleRoot sha localeCompare commitments =
     (let leaves = List.map (commitmentDigest sha) (canonicalSortCommitments localeCompare commitments)
      in if length leaves = 0 then [] else root_from sha leaves)"

section \<open>Proofs of inclusion\<close>

fun proof_from :: "string list list \<Rightarrow> int \<Rightarrow> string list" where
  "proof_from (currentLayer # upper # layers) idx =
     (let siblingIdx = (if idx mod 2 = 0 then idx + 1 else idx - 1)
      in (if siblingIdx < int (length currentLayer) then currentLayer ! nat siblingIdx else currentLayer ! nat idx) #
         proof_from (upper # layers) (idx div 2))"
| "proof_from layers idx = []"

definition getMerkleProof :: "MerkleTree \<Rightarrow> int \<Rightarrow> string + string list" where
  "getMerkleProof tree leafIndex =
     (if leafIndex < 0 \<or> int (mt_leafCount tree) \<le> leafIndex
      then Inl (''leafIndex '' @ show_int leafIndex @ '' out of range [0, '' @ show_nat (mt_leafCount tree) @ '')'')
      else Inr (proof_from (mt_layers tree) leafIndex))"

fun climb :: "(string \<Rightarrow> string) \<Rightarrow> string \<Rightarrow> int \<Rightarrow> string list \<Rightarrow> string" where
  "climb sha current idx [] = current"
| "climb sha current idx (sibling # siblings) =
     climb sha (if idx mod 2 = 0 then node_hash sha current sibling else node_hash sha sibling current) (idx div 2) siblings"

definition verifyMerkleProof :: "(string \<Rightarrow> string) \<Rightarrow> string \<Rightarrow> string \<Rightarrow> string list \<Rightarrow> int \<Rightarrow> bool" where
  "verifyMerkleProof sha root leaf proof leafIndex \<longleftrightarrow> climb sha leaf leafIndex proof = root"

section \<open>Snapshots and release commitments\<close>

record DatasetSnapshot =
  dn_snapshotId :: string
  dn_merkleRoot :: string
  dn_autobaseHeads :: "string list"
  dn_entryCount :: nat
  dn_claimCount :: nat
  dn_logicalTime :: string
  dn_merkleTree :: MerkleTree

definition createDatasetSnapshot ::
    "(string \<Rightarrow> string) \<Rightarrow> (string \<Rightarrow> string \<Rightarrow> int) \<Rightarrow> EntryCommitment list \<Rightarrow> string list \<Rightarrow> string \<Rightarrow> DatasetSnapshot" where
  "createDatasetSnapshot sha localeCompare commitments autobaseHeads logicalTime =
     (let merkleTree = buildMerkleTree sha localeCompare commitments;
          claimCount = length commitments;
          idInput = mt_root merkleTree @ logicalTime @ js_join [] (sort_strings autobaseHeads)
      in \<lparr>dn_snapshotId = sha256Hex sha idInput, dn_merkleRoot = mt_root merkleTree, dn_autobaseHeads = autobaseHeads,
          dn_entryCount = claimCount, dn_claimCount = claimCount, dn_logicalTime = logicalTime, dn_merkleTree = merkleTree\<rparr>)"

text \<open>\<open>None\<close> is the exception of \<open>sign\<close> for a key it rejects.\<close>

definition signSnapshotRoot :: "(string \<Rightarrow> string \<Rightarrow> string option) \<Rightarrow> DatasetSnapshot \<Rightarrow> string \<Rightarrow> string option" where
  "signSnapshotRoot sig snapshot signingKey = map_option hex_encode (sig signingKey (hex_decode (dn_merkleRoot snapshot)))"

definition verifySnapshotSignature :: "(string \<Rightarrow> string \<Rightarrow> string \<Rightarrow> bool) \<Rightarrow> DatasetSnapshot \<Rightarrow> string \<Rightarrow> string \<Rightarrow> bool" where
  "verifySnapshotSignature ver snapshot signature publicKey \<longleftrightarrow>
     ver publicKey (hex_decode (dn_merkleRoot snapshot)) (hex_decode signature)"

record ReleaseCommitment =
  rc_snapshotId :: string
  rc_merkleRoot :: string
  rc_signatureHex :: string
  rc_signerPublicKeyHex :: string
  rc_signedAt :: string

definition createReleaseCommitment ::
    "(string \<Rightarrow> string \<Rightarrow> string option) \<Rightarrow> millis \<Rightarrow> DatasetSnapshot \<Rightarrow> string \<Rightarrow> string \<Rightarrow> ReleaseCommitment option" where
  "createReleaseCommitment sig nowMs snapshot signingKey publicKey =
     map_option (\<lambda>signatureHex. \<lparr>rc_snapshotId = dn_snapshotId snapshot, rc_merkleRoot = dn_merkleRoot snapshot,
         rc_signatureHex = signatureHex, rc_signerPublicKeyHex = hex_encode publicKey, rc_signedAt = toISOString nowMs\<rparr>)
       (signSnapshotRoot sig snapshot signingKey)"

text \<open>\<open>Buffer.from\<close> does not throw for texts, so the two \<open>catch\<close> branches are not reached.\<close>

definition verifyReleaseCommitment :: "(string \<Rightarrow> string \<Rightarrow> string \<Rightarrow> bool) \<Rightarrow> ReleaseCommitment \<Rightarrow> string \<Rightarrow> bool" where
  "verifyReleaseCommitment ver commitment expectedSnapshotId =
     (if rc_snapshotId commitment \<noteq> expectedSnapshotId then False
      else if rc_merkleRoot commitment = [] \<or> length (rc_signatureHex commitment) = 0 then False
      else if rc_signerPublicKeyHex commitment = [] then False
      else ver (hex_decode (rc_signerPublicKeyHex commitment)) (hex_decode (rc_merkleRoot commitment))
             (hex_decode (rc_signatureHex commitment)))"

definition export_commitments :: "(string \<Rightarrow> string) \<Rightarrow> string list \<Rightarrow> EntryCommitment list" where
  "export_commitments sha entries =
     List.map (\<lambda>(i, ciphertext). \<lparr>ec_entryId = show_nat i, ec_ciphertextDigest = sha ciphertext,
       ec_visibilityClass = [], ec_contentDigest = [], ec_logicalTime = []\<rparr>) (zip [0..<length entries] entries)"

definition verifyExportAgainstSnapshot ::
    "(string \<Rightarrow> string) \<Rightarrow> (string \<Rightarrow> string \<Rightarrow> int) \<Rightarrow> string list \<Rightarrow> string \<Rightarrow> bool" where
  "verifyExportAgainstSnapshot sha localeCompare entries expectedRoot \<longleftrightarrow>
     computeMerkleRoot sha localeCompare (export_commitments sha entries) = expectedRoot"

section \<open>Inclusion proofs are complete\<close>

definition sibling_of :: "string list \<Rightarrow> nat \<Rightarrow> string" where
  "sibling_of xs i = (if even i then (if i + 1 < length xs then xs ! (i + 1) else xs ! i) else xs ! (i - 1))"

text \<open>The texts that are hashed for the next layer.\<close>

fun layer_texts :: "string list \<Rightarrow> string list" where
  "layer_texts [] = []"
| "layer_texts [left] = [node_text left left]"
| "layer_texts (left # right # rest) = node_text left right # layer_texts rest"

lemma next_layer_texts: "next_layer sha xs = List.map sha (layer_texts xs)"
  by (induction sha xs rule: next_layer.induct) (auto simp: node_hash_def)

lemma length_layer_texts [simp]: "length (layer_texts xs) = (length xs + 1) div 2"
  by (induction xs rule: layer_texts.induct) auto

lemma layer_texts_nth:
  "i < length xs \<Longrightarrow> layer_texts xs ! (i div 2) =
     (if even i then node_text (xs ! i) (sibling_of xs i) else node_text (sibling_of xs i) (xs ! i))"
proof (induction xs arbitrary: i rule: layer_texts.induct)
  case (3 l r rest)
  show ?case
  proof (cases "i < 2")
    case True
    then have "i = 0 \<or> i = 1" by auto
    then show ?thesis by (auto simp: sibling_of_def)
  next
    case False
    then obtain j where j: "i = Suc (Suc j)" by (metis add_2_eq_Suc le_add_diff_inverse not_less)
    with 3(1) [of j] 3(2) show ?thesis by (cases j) (auto simp: sibling_of_def)
  qed
qed (auto simp: sibling_of_def)

lemma next_layer_nth:
  "i < length xs \<Longrightarrow> next_layer sha xs ! (i div 2) =
     (if even i then node_hash sha (xs ! i) (sibling_of xs i) else node_hash sha (sibling_of xs i) (xs ! i))"
  using layer_texts_nth [of i xs] by (simp add: next_layer_texts node_hash_def)

lemma layers_from_Cons: "\<exists>y ys. layers_from sha xs = y # ys"
  by (subst layers_from.simps) simp

lemma last_layers: "hd (last (layers_from sha xs)) = root_from sha xs"
proof (induction sha xs rule: layers_from.induct)
  case (1 sha current)
  show ?case
    using 1 layers_from_Cons [of sha "next_layer sha current"]
    by (subst layers_from.simps, subst root_from.simps) auto
qed

lemma proof_from_step:
  assumes "1 < length xs" and "i < length xs"
  shows "proof_from (layers_from sha xs) (int i) =
    sibling_of xs i # proof_from (layers_from sha (next_layer sha xs)) (int (i div 2))"
proof -
  obtain y ys where y: "layers_from sha (next_layer sha xs) = y # ys" using layers_from_Cons by blast
  have "int i mod 2 = 0 \<longleftrightarrow> even i" by presburger
  moreover have "nat (int i + 1) = i + 1" "nat (int i - 1) = i - 1" by simp_all
  ultimately show ?thesis
    using assms by (subst layers_from.simps) (auto simp: y sibling_of_def zdiv_int)
qed

lemma climb_reaches_root:
  "i < length xs \<Longrightarrow> climb sha (xs ! i) (int i) (proof_from (layers_from sha xs) (int i)) = root_from sha xs"
proof (induction sha xs arbitrary: i rule: root_from.induct)
  case (1 sha xs)
  show ?case
  proof (cases "1 < length xs")
    case True
    have p: "int i mod 2 = 0 \<longleftrightarrow> even i" by presburger
    have "i div 2 < length (next_layer sha xs)" using 1(2) by simp
    from 1(1) [OF True this] show ?thesis
      using next_layer_nth [OF 1(2), of sha] 1(2) True
      by (subst root_from.simps) (auto simp: proof_from_step p zdiv_int)
  next
    case False
    then have "proof_from (layers_from sha xs) (int i) = []" "i = 0"
      using 1(2) by (auto simp: layers_from.simps)
    with False 1(2) show ?thesis by (subst root_from.simps) (auto simp: hd_conv_nth)
  qed
qed

lemma build_root: "mt_root (buildMerkleTree sha lc cs) = computeMerkleRoot sha lc cs"
  by (simp add: buildMerkleTree_def computeMerkleRoot_def last_layers Let_def)

lemma build_fields:
  "mt_leafCount (buildMerkleTree sha lc cs) = length cs"
  "mt_leaves (buildMerkleTree sha lc cs) = List.map (commitmentDigest sha) (canonicalSortCommitments lc cs)"
proof -
  have l: "length (canonicalSortCommitments lc cs) = length cs" by (simp add: canonicalSortCommitments_def)
  then have "canonicalSortCommitments lc cs = [] \<longleftrightarrow> cs = []" by (metis length_0_conv)
  then show "mt_leafCount (buildMerkleTree sha lc cs) = length cs"
    by (simp add: buildMerkleTree_def l Let_def)
  show "mt_leaves (buildMerkleTree sha lc cs) = List.map (commitmentDigest sha) (canonicalSortCommitments lc cs)"
    using l by (auto simp: buildMerkleTree_def Let_def)
qed

section \<open>Inclusion proofs are sound\<close>

text \<open>A digest in canonical form, and the texts that are hashed in a tree and along a proof.\<close>

definition digest_ok :: "string \<Rightarrow> bool" where
  "digest_ok d \<longleftrightarrow> length (hex_decode d) = 32 \<and> hex_encode (hex_decode d) = d"

function tree_texts :: "(string \<Rightarrow> string) \<Rightarrow> string list \<Rightarrow> string list" where
  "tree_texts sha current =
     (if length current > 1 then layer_texts current @ tree_texts sha (next_layer sha current) else [])"
  by pat_completeness auto
termination by (relation "measure (\<lambda>(sha, current). length current)") auto

declare tree_texts.simps [simp del]

fun climb_texts :: "(string \<Rightarrow> string) \<Rightarrow> string \<Rightarrow> int \<Rightarrow> string list \<Rightarrow> string list" where
  "climb_texts sha current idx [] = []"
| "climb_texts sha current idx (sibling # siblings) =
     (if idx mod 2 = 0 then node_text current sibling else node_text sibling current) #
     climb_texts sha (if idx mod 2 = 0 then node_hash sha current sibling else node_hash sha sibling current) (idx div 2) siblings"

lemma node_text_inject:
  assumes "digest_ok a" "digest_ok b" "digest_ok c" "digest_ok d"
  shows "node_text a b = node_text c d \<longleftrightarrow> a = c \<and> b = d"
  using assms unfolding digest_ok_def node_text_def by (metis append_eq_append_conv)

lemma sibling_ok: "i < length xs \<Longrightarrow> list_all digest_ok xs \<Longrightarrow> digest_ok (sibling_of xs i)"
  by (auto simp: sibling_of_def list_all_length)

lemma next_layer_ok: "(\<And>x. digest_ok (sha x)) \<Longrightarrow> list_all digest_ok (next_layer sha xs)"
  by (auto simp: next_layer_texts list_all_iff)

lemma climb_sound:
  assumes "\<And>x. digest_ok (sha x)"
    and "i < length xs" and "list_all digest_ok xs" and "digest_ok leaf" and "list_all digest_ok siblings"
    and "length siblings = length (layers_from sha xs) - 1"
    and "inj_on sha (set (tree_texts sha xs) \<union> set (climb_texts sha leaf (int i) siblings))"
    and "climb sha leaf (int i) siblings = root_from sha xs"
  shows "leaf = xs ! i"
  using assms
proof (induction sha xs arbitrary: i leaf siblings rule: root_from.induct)
  case (1 sha xs)
  show ?case
  proof (cases "1 < length xs")
    case False
    with 1(3) have "i = 0" "xs \<noteq> []" by auto
    with False show ?thesis
      using 1(7,9) by (auto simp: layers_from.simps [of sha xs] root_from.simps [of sha xs] hd_conv_nth)
  next
    case True
    have p: "int i mod 2 = 0 \<longleftrightarrow> even i" by presburger
    obtain y ys where y: "layers_from sha (next_layer sha xs) = y # ys" using layers_from_Cons by blast
    with 1(7) True obtain s ss where ss: "siblings = s # ss"
      by (cases siblings) (auto simp: layers_from.simps [of sha xs])
    let ?t = "if even i then node_text leaf s else node_text s leaf"
    let ?u = "layer_texts xs ! (i div 2)"
    have "sha ?t = next_layer sha xs ! (i div 2)"
    proof (rule 1(1) [OF True 1(2)])
      show "i div 2 < length (next_layer sha xs)" using 1(3) by simp
      show "list_all digest_ok (next_layer sha xs)" by (rule next_layer_ok) (rule 1(2))
      show "digest_ok (sha ?t)" by (rule 1(2))
      show "list_all digest_ok ss" using 1(6) ss by simp
      show "length ss = length (layers_from sha (next_layer sha xs)) - 1"
        using 1(7) ss True by (simp add: layers_from.simps [of sha xs])
      show "inj_on sha (set (tree_texts sha (next_layer sha xs)) \<union> set (climb_texts sha (sha ?t) (int (i div 2)) ss))"
        using 1(8) ss True
        by (elim inj_on_subset) (auto simp: tree_texts.simps [of sha xs] p node_hash_def zdiv_int split: if_splits)
      show "climb sha (sha ?t) (int (i div 2)) ss = root_from sha (next_layer sha xs)"
        using 1(9) ss True by (simp add: root_from.simps [of sha xs] p node_hash_def zdiv_int split: if_splits)
    qed
    also have "\<dots> = sha ?u" using 1(3) by (simp add: next_layer_texts)
    finally have "sha ?t = sha ?u" .
    moreover have "?t \<in> set (climb_texts sha leaf (int i) siblings)" by (simp add: ss p)
    moreover have "?u \<in> set (tree_texts sha xs)" using True 1(3) by (simp add: tree_texts.simps [of sha xs])
    ultimately have "?t = ?u" using 1(8) by (auto dest: inj_onD)
    moreover have "digest_ok s" "digest_ok (xs ! i)" "digest_ok (sibling_of xs i)"
      using 1(3,4,6) ss sibling_ok by (auto simp: list_all_length)
    ultimately show ?thesis
      using layer_texts_nth [OF 1(3)] node_text_inject 1(5) by (auto split: if_splits)
  qed
qed

text \<open>
  C7: proofs of inclusion are complete and sound.  The proof made for a leaf of the tree verifies against
  its root.  Conversely a proof of the length of the tree that verifies at an index of the tree shows the
  leaf at that index, provided no two of the texts hashed in the tree and along the proof collide and the
  digests are in canonical form.
\<close>

theorem merkle_proofs_exact:
  assumes "\<And>x. digest_ok (sha x)" and "i < length cs"
  shows "let tree = buildMerkleTree sha lc cs
    in \<exists>path. getMerkleProof tree (int i) = Inr path \<and>
      verifyMerkleProof sha (mt_root tree) (mt_leaves tree ! i) path (int i) \<and>
      (\<forall>siblings leaf. length siblings = length path \<and> list_all digest_ok siblings \<and> digest_ok leaf \<and>
         inj_on sha (set (tree_texts sha (mt_leaves tree)) \<union> set (climb_texts sha leaf (int i) siblings)) \<and>
         verifyMerkleProof sha (mt_root tree) leaf siblings (int i) \<longrightarrow> leaf = mt_leaves tree ! i)"
proof -
  let ?ls = "List.map (commitmentDigest sha) (canonicalSortCommitments lc cs)" and ?t = "buildMerkleTree sha lc cs"
  have len: "length ?ls = length cs" by (simp add: canonicalSortCommitments_def)
  then have "?ls \<noteq> []" using assms(2) by auto
  then have tree: "mt_leaves ?t = ?ls" "mt_layers ?t = layers_from sha ?ls" "mt_root ?t = root_from sha ?ls"
    by (auto simp: buildMerkleTree_def last_layers Let_def)
  let ?path = "proof_from (layers_from sha ?ls) (int i)"
  have path: "getMerkleProof ?t (int i) = Inr ?path"
    using assms(2) by (simp add: getMerkleProof_def tree build_fields)
  have ok: "verifyMerkleProof sha (mt_root ?t) (mt_leaves ?t ! i) ?path (int i)"
    using climb_reaches_root [of i ?ls sha] assms(2) len by (simp add: verifyMerkleProof_def tree)
  have plen: "length (proof_from ls j) = length ls - 1" for ls j
    by (induction ls j rule: proof_from.induct) (simp_all add: Let_def)
  have "list_all digest_ok ?ls" using assms(1) by (auto simp: list_all_iff commitmentDigest_def sha256Hex_def)
  then have "leaf = mt_leaves ?t ! i"
    if "length siblings = length ?path" "list_all digest_ok siblings" "digest_ok leaf"
      "inj_on sha (set (tree_texts sha (mt_leaves ?t)) \<union> set (climb_texts sha leaf (int i) siblings))"
      "verifyMerkleProof sha (mt_root ?t) leaf siblings (int i)" for siblings leaf
    using climb_sound [of sha i ?ls leaf siblings] assms(1,2) len plen that
    by (simp add: verifyMerkleProof_def tree)
  with path ok show ?thesis unfolding Let_def by blast
qed

text \<open>Digests for the witnesses, and an order of identifiers.\<close>

definition sample_digest :: "nat \<Rightarrow> string" where
  "sample_digest n = hex_encode (replicate 32 (char_of n))"

lemma sample_digest_ok: "digest_ok (sample_digest n)"
  by (simp add: digest_ok_def sample_digest_def)

lemma sample_digest_decode: "hd (hex_decode (sample_digest n)) = char_of n"
  by (simp add: sample_digest_def)

definition by_code :: "string \<Rightarrow> string \<Rightarrow> int" where
  "by_code a b = (if a < b then -1 else if b < a then 1 else 0)"

definition sample_entry :: "string \<Rightarrow> EntryCommitment" where
  "sample_entry i = \<lparr>ec_entryId = i, ec_ciphertextDigest = [], ec_visibilityClass = ''public'', ec_contentDigest = [],
     ec_logicalTime = []\<rparr>"

lemma sample_sorted:
  "canonicalSortCommitments by_code [sample_entry ''a'', sample_entry ''b'', sample_entry ''c''] =
     [sample_entry ''a'', sample_entry ''b'', sample_entry ''c'']"
  "canonicalSortCommitments by_code [sample_entry ''a'', sample_entry ''b'', sample_entry ''c'', sample_entry ''c''] =
     [sample_entry ''a'', sample_entry ''b'', sample_entry ''c'', sample_entry ''c'']"
  by (simp_all add: canonicalSortCommitments_def js_sort_def by_code_def sample_entry_def)

theorem merkle_proofs_exact_witness:
  "\<exists>path. getMerkleProof (buildMerkleTree (\<lambda>_. sample_digest 7) by_code [sample_entry ''a'', sample_entry ''b'', sample_entry ''c'']) 2 = Inr path \<and>
     verifyMerkleProof (\<lambda>_. sample_digest 7)
       (mt_root (buildMerkleTree (\<lambda>_. sample_digest 7) by_code [sample_entry ''a'', sample_entry ''b'', sample_entry ''c'']))
       (sample_digest 7) path 2"
proof -
  let ?cs = "[sample_entry ''a'', sample_entry ''b'', sample_entry ''c'']"
  have "mt_leaves (buildMerkleTree (\<lambda>_. sample_digest 7) by_code ?cs) = replicate 3 (sample_digest 7)"
    by (simp add: build_fields sample_sorted commitmentDigest_def sha256Hex_def numeral_3_eq_3)
  with merkle_proofs_exact [OF sample_digest_ok, of 2 ?cs "\<lambda>_. 7" by_code] show ?thesis
    by (auto simp: Let_def)
qed

section \<open>The root binds the leaves\<close>

lemma layer_texts_inject:
  "length xs = length ys \<Longrightarrow> list_all digest_ok xs \<Longrightarrow> list_all digest_ok ys \<Longrightarrow> layer_texts xs = layer_texts ys \<Longrightarrow> xs = ys"
proof (induction xs arbitrary: ys rule: layer_texts.induct)
  case (2 l)
  then show ?case by (cases ys) (auto simp: node_text_inject)
next
  case (3 l r rest)
  then obtain l' r' rest' where ys: "ys = l' # r' # rest'" by (cases ys; cases "tl ys") auto
  with 3 show ?case by (simp add: node_text_inject)
qed simp

lemma root_binds:
  assumes "\<And>x. digest_ok (sha x)" and "length xs = length ys" and "xs \<noteq> []"
    and "list_all digest_ok xs" and "list_all digest_ok ys"
    and "inj_on sha (set (tree_texts sha xs) \<union> set (tree_texts sha ys))" and "root_from sha xs = root_from sha ys"
  shows "xs = ys"
  using assms
proof (induction sha xs arbitrary: ys rule: root_from.induct)
  case (1 sha xs)
  show ?case
  proof (cases "1 < length xs")
    case False
    with 1(4) have "length xs = 1" by (cases xs) auto
    then show ?thesis
      using 1(3,8) by (cases xs; cases ys) (auto simp: root_from.simps)
  next
    case True
    have t: "tree_texts sha xs = layer_texts xs @ tree_texts sha (next_layer sha xs)"
        "tree_texts sha ys = layer_texts ys @ tree_texts sha (next_layer sha ys)"
      using True 1(3) by (simp_all add: tree_texts.simps [of sha xs] tree_texts.simps [of sha ys])
    have "next_layer sha xs = next_layer sha ys"
    proof (rule 1(1) [OF True 1(2)])
      show "length (next_layer sha xs) = length (next_layer sha ys)" using 1(3) by simp
      show "next_layer sha xs \<noteq> []" using True by (cases "next_layer sha xs") (auto dest: arg_cong [where f = length])
      show "list_all digest_ok (next_layer sha xs)" "list_all digest_ok (next_layer sha ys)"
        by (intro next_layer_ok 1(2))+
      show "inj_on sha (set (tree_texts sha (next_layer sha xs)) \<union> set (tree_texts sha (next_layer sha ys)))"
        using 1(7) by (elim inj_on_subset) (auto simp: t)
      show "root_from sha (next_layer sha xs) = root_from sha (next_layer sha ys)"
        using 1(8) True 1(3) by (simp add: root_from.simps [of sha xs] root_from.simps [of sha ys])
    qed
    then have "List.map sha (layer_texts xs) = List.map sha (layer_texts ys)" unfolding next_layer_texts .
    moreover have "inj_on sha (set (layer_texts xs) \<union> set (layer_texts ys))"
      by (rule inj_on_subset [OF 1(7)]) (auto simp: t)
    ultimately have "layer_texts xs = layer_texts ys" by (rule map_inj_on)
    then show ?thesis by (rule layer_texts_inject [OF 1(3) 1(5) 1(6)])
  qed
qed

lemma json_quote_eq: "json_quote s = json_quote t \<longleftrightarrow> s = t"
  using json_quote_inject [of s "[]" t "[]"] by auto

lemma commitment_json_inject: "json_stringify (commitment_json c) = json_stringify (commitment_json d) \<longleftrightarrow> c = d"
proof
  assume "json_stringify (commitment_json c) = json_stringify (commitment_json d)"
  then show "c = d" by (auto simp: commitment_json_def intro!: EntryCommitment.equality simp: json_quote_eq dest!: json_quote_inject)
qed simp

definition commitment_texts :: "EntryCommitment list \<Rightarrow> string list" where
  "commitment_texts cs = List.map (\<lambda>c. utf8 (json_stringify (commitment_json c))) cs"

text \<open>All texts hashed for the root of a list of commitments.\<close>

definition hashed_texts :: "(string \<Rightarrow> string) \<Rightarrow> EntryCommitment list \<Rightarrow> string set" where
  "hashed_texts sha cs = set (commitment_texts cs) \<union> set (tree_texts sha (List.map (commitmentDigest sha) cs))"

lemma commitments_of_digests:
  assumes "List.map (commitmentDigest sha) cs = List.map (commitmentDigest sha) ds"
    and "inj_on sha (set (commitment_texts cs) \<union> set (commitment_texts ds))"
  shows "cs = ds"
proof -
  have "List.map sha (commitment_texts cs) = List.map sha (commitment_texts ds)"
    using assms(1) by (simp add: commitment_texts_def commitmentDigest_def [abs_def] sha256Hex_def comp_def)
  then have "commitment_texts cs = commitment_texts ds" using assms(2) by (rule map_inj_on)
  moreover have "inj (\<lambda>c. utf8 (json_stringify (commitment_json c)))" by (rule injI) (simp add: commitment_json_inject)
  ultimately show ?thesis unfolding commitment_texts_def by (rule map_injective)
qed

lemma computeMerkleRoot_from:
  "cs \<noteq> [] \<Longrightarrow> computeMerkleRoot sha lc cs = root_from sha (List.map (commitmentDigest sha) (canonicalSortCommitments lc cs))"
proof -
  assume "cs \<noteq> []"
  then have "canonicalSortCommitments lc cs \<noteq> []"
    using length_js_sort [of _ cs] unfolding canonicalSortCommitments_def by (metis length_0_conv)
  then show ?thesis by (simp add: computeMerkleRoot_def)
qed

lemma same_root_same_entries:
  assumes "\<And>x. digest_ok (sha x)" and "length cs = length ds" and "cs \<noteq> []"
    and "inj_on sha (hashed_texts sha (canonicalSortCommitments lc cs) \<union> hashed_texts sha (canonicalSortCommitments lc ds))"
    and "computeMerkleRoot sha lc cs = computeMerkleRoot sha lc ds"
  shows "canonicalSortCommitments lc cs = canonicalSortCommitments lc ds"
proof -
  let ?c = "canonicalSortCommitments lc cs" and ?d = "canonicalSortCommitments lc ds"
  have len: "length ?c = length ?d" "length ?c = length cs" using assms(2) by (simp_all add: canonicalSortCommitments_def)
  have "List.map (commitmentDigest sha) ?c = List.map (commitmentDigest sha) ?d"
  proof (rule root_binds [OF assms(1)])
    show "List.map (commitmentDigest sha) ?c \<noteq> []" using len(2) assms(3) by auto
    show "inj_on sha (set (tree_texts sha (List.map (commitmentDigest sha) ?c)) \<union>
        set (tree_texts sha (List.map (commitmentDigest sha) ?d)))"
      by (rule inj_on_subset [OF assms(4)]) (auto simp: hashed_texts_def)
    show "root_from sha (List.map (commitmentDigest sha) ?c) = root_from sha (List.map (commitmentDigest sha) ?d)"
      using assms(2,3,5) computeMerkleRoot_from [of cs sha lc] computeMerkleRoot_from [of ds sha lc] by force
  qed (use len assms(1) in \<open>auto simp: list_all_iff commitmentDigest_def sha256Hex_def\<close>)
  then show ?thesis
    by (rule commitments_of_digests) (rule inj_on_subset [OF assms(4)], auto simp: hashed_texts_def)
qed

text \<open>
  The root binds the entries, but the check of an export does not use it.  Two lists of equally many
  commitments with one root are the same entries, provided no two hashed texts collide.  The check of an
  export recomputes the root from commitments with blank fields and positions as identifiers; so under the
  same proviso it accepts an export of as many entries as the snapshot has only when every commitment of
  the snapshot was blank too, which no snapshot of the codex is.
\<close>

theorem export_check_needs_blank_commitments:
  assumes "\<And>x. digest_ok (sha x)" and "cs \<noteq> []" and "length entries = length cs"
    and "inj_on sha (hashed_texts sha (canonicalSortCommitments lc (export_commitments sha entries)) \<union>
      hashed_texts sha (canonicalSortCommitments lc cs))"
  shows "verifyExportAgainstSnapshot sha lc entries (dn_merkleRoot (createDatasetSnapshot sha lc cs heads t)) \<longrightarrow>
      canonicalSortCommitments lc (export_commitments sha entries) = canonicalSortCommitments lc cs \<and>
      list_all (\<lambda>c. ec_visibilityClass c = [] \<and> ec_contentDigest c = [] \<and> ec_logicalTime c = []) cs"
proof
  let ?b = "export_commitments sha entries"
  assume "verifyExportAgainstSnapshot sha lc entries (dn_merkleRoot (createDatasetSnapshot sha lc cs heads t))"
  then have "computeMerkleRoot sha lc ?b = computeMerkleRoot sha lc cs"
    by (simp add: verifyExportAgainstSnapshot_def createDatasetSnapshot_def build_root Let_def)
  moreover have "length ?b = length cs" "?b \<noteq> []"
    using assms(2,3) by (auto simp: export_commitments_def)
  ultimately have eq: "canonicalSortCommitments lc ?b = canonicalSortCommitments lc cs"
    using same_root_same_entries [OF assms(1) _ _ assms(4)] by blast
  then have "set cs = set ?b"
    by (metis canonicalSortCommitments_def set_js_sort)
  then have "c \<in> set cs \<Longrightarrow> ec_visibilityClass c = [] \<and> ec_contentDigest c = [] \<and> ec_logicalTime c = []" for c
    by (auto simp: export_commitments_def)
  with eq show "canonicalSortCommitments lc ?b = canonicalSortCommitments lc cs \<and>
      list_all (\<lambda>c. ec_visibilityClass c = [] \<and> ec_contentDigest c = [] \<and> ec_logicalTime c = []) cs"
    by (simp add: list_all_iff)
qed

theorem export_check_needs_blank_commitments_witness:
  "\<exists>sha :: string \<Rightarrow> string. \<not> verifyExportAgainstSnapshot sha by_code [''x'']
     (dn_merkleRoot (createDatasetSnapshot sha by_code [sample_entry ''a''] [] []))"
proof -
  let ?t = "utf8 (json_stringify (commitment_json (sample_entry ''a'')))"
  let ?sha = "\<lambda>x. sample_digest (if x = ?t then 1 else 2)"
  have "json_stringify (commitment_json (sample_entry ''a'')) \<noteq>
      json_stringify (commitment_json (hd (export_commitments ?sha [''x''])))"
    unfolding commitment_json_inject by (simp add: sample_entry_def export_commitments_def)
  moreover have "sample_digest 1 \<noteq> sample_digest 2"
    using sample_digest_decode [of 1] sample_digest_decode [of 2] by auto
  ultimately have "inj_on ?sha (hashed_texts ?sha (canonicalSortCommitments by_code (export_commitments ?sha [''x''])) \<union>
      hashed_texts ?sha (canonicalSortCommitments by_code [sample_entry ''a'']))"
    by (simp add: hashed_texts_def commitment_texts_def canonicalSortCommitments_def js_sort_def tree_texts.simps
        export_commitments_def)
  from export_check_needs_blank_commitments [OF sample_digest_ok _ _ this, of "[]" "[]"]
  have "\<not> verifyExportAgainstSnapshot ?sha by_code [''x'']
     (dn_merkleRoot (createDatasetSnapshot ?sha by_code [sample_entry ''a''] [] []))"
    by (simp add: sample_entry_def)
  then show ?thesis by blast
qed

text \<open>
  An odd layer repeats its last digest, so the root does not tell how many entries there are: with an
  odd number of sorted entries, more than one, a second copy of the last entry leaves the root as it is.
\<close>

theorem repeated_last_entry_same_root:
  assumes "odd (length cs)" and "1 < length cs" and "canonicalSortCommitments lc cs = cs"
    and "canonicalSortCommitments lc (cs @ [last cs]) = cs @ [last cs]"
  shows "computeMerkleRoot sha lc (cs @ [last cs]) = computeMerkleRoot sha lc cs"
proof -
  let ?ls = "List.map (commitmentDigest sha) cs"
  have same: "odd (length xs) \<Longrightarrow> next_layer sha (xs @ [last xs]) = next_layer sha xs" for xs
    by (induction sha xs rule: next_layer.induct) auto
  have "cs \<noteq> []" using assms(2) by auto
  then have "List.map (commitmentDigest sha) (cs @ [last cs]) = ?ls @ [last ?ls]" by (simp add: last_map)
  then show ?thesis
    using computeMerkleRoot_from [of cs sha lc] computeMerkleRoot_from [of "cs @ [last cs]" sha lc] same [of ?ls] assms \<open>cs \<noteq> []\<close>
    by (simp add: root_from.simps [of sha ?ls] root_from.simps [of sha "?ls @ [last ?ls]"])
qed

theorem repeated_last_entry_same_root_witness:
  "computeMerkleRoot (\<lambda>x. x) by_code [sample_entry ''a'', sample_entry ''b'', sample_entry ''c'', sample_entry ''c''] =
     computeMerkleRoot (\<lambda>x. x) by_code [sample_entry ''a'', sample_entry ''b'', sample_entry ''c'']"
  using repeated_last_entry_same_root [of "[sample_entry ''a'', sample_entry ''b'', sample_entry ''c'']" by_code "\<lambda>x. x"]
  by (simp add: sample_sorted)

end
