(* ===== verification/Codex_Audit.thy ===== *)
theory Codex_Audit imports Dharma_Events Js_Map begin

text \<open>
  Authorisation and publication of codex releases: signatures by a threshold of signers
  (\<open>dharma/codex/campaign/threshold-root.ts\<close>) and the log of published snapshots
  (\<open>dharma/codex/campaign/audit-log.ts\<close>).  SHA-256 and Ed25519 are parameters; keys, signatures and texts
  are character lists.
\<close>

section \<open>Threshold configuration\<close>

record ThresholdRootConfig =
  tc_totalSigners :: int
  tc_threshold :: int
  tc_signerPublicKeys :: "string list"

record PartialSignature =
  pg_signerIndex :: int
  pg_signatureHex :: string
  pg_signedAt :: string

record ThresholdAuthorization =
  ta_authorizationId :: string
  ta_manifestDigest :: string
  ta_partialSignatures :: "PartialSignature list"
  ta_threshold :: int
  ta_totalSigners :: int
  ta_authorizedAt :: string

fun check_keys :: "nat \<Rightarrow> string list \<Rightarrow> string option" where
  "check_keys i [] = None"
| "check_keys i (pk # pks) =
     (if length pk = 0 then Some (''public key at index '' @ show_nat i @ '' is empty or invalid'')
      else if length (hex_decode pk) < 32
      then Some (''public key at index '' @ show_nat i @ '' is not a valid Ed25519 public key (too short)'')
      else check_keys (i + 1) pks)"

definition createThresholdConfig :: "int \<Rightarrow> int \<Rightarrow> string list \<Rightarrow> string + ThresholdRootConfig" where
  "createThresholdConfig totalSigners threshold publicKeys =
     (if totalSigners < 2 then Inl ''totalSigners must be at least 2''
      else if threshold < 1 \<or> threshold > totalSigners
      then Inl (''threshold must be between 1 and '' @ show_int totalSigners @ '', got '' @ show_int threshold)
      else if int (length publicKeys) \<noteq> totalSigners
      then Inl (''expected '' @ show_int totalSigners @ '' public keys, got '' @ show_nat (length publicKeys))
      else case check_keys 0 publicKeys of
        Some e \<Rightarrow> Inl e
      | None \<Rightarrow> Inr \<lparr>tc_totalSigners = totalSigners, tc_threshold = threshold, tc_signerPublicKeys = publicKeys\<rparr>)"

section \<open>Partial signatures\<close>

text \<open>\<open>sig priv data\<close> is \<open>None\<close> where the key is rejected with an exception.\<close>

definition createPartialSignature ::
    "(string \<Rightarrow> string \<Rightarrow> string option) \<Rightarrow> millis \<Rightarrow> ThresholdRootConfig \<Rightarrow> string \<Rightarrow> int \<Rightarrow> string \<Rightarrow> string + PartialSignature" where
  "createPartialSignature sig nowMs config manifestDigest signerIndex privateKey =
     (if signerIndex < 0 \<or> tc_totalSigners config \<le> signerIndex
      then Inl (''signerIndex '' @ show_int signerIndex @ '' out of range [0, '' @ show_int (tc_totalSigners config - 1) @ '']'')
      else case sig privateKey (utf8 manifestDigest) of
        None \<Rightarrow> Inl ''invalid private key''
      | Some s \<Rightarrow> Inr \<lparr>pg_signerIndex = signerIndex, pg_signatureHex = hex_encode s, pg_signedAt = toISOString nowMs\<rparr>)"

text \<open>\<open>None\<close> is the exception of \<open>Buffer.from\<close> when there is no key at the index.\<close>

definition verifyPartialSignature ::
    "(string \<Rightarrow> string \<Rightarrow> string \<Rightarrow> bool) \<Rightarrow> ThresholdRootConfig \<Rightarrow> string \<Rightarrow> PartialSignature \<Rightarrow> bool option" where
  "verifyPartialSignature ver config manifestDigest s =
     (if pg_signerIndex s < 0 \<or> tc_totalSigners config \<le> pg_signerIndex s then Some False
      else if int (length (tc_signerPublicKeys config)) \<le> pg_signerIndex s then None
      else Some (ver (hex_decode (tc_signerPublicKeys config ! nat (pg_signerIndex s))) (utf8 manifestDigest)
             (hex_decode (pg_signatureHex s))))"

fun seen_signers :: "PartialSignature list \<Rightarrow> int list \<Rightarrow> int list option" where
  "seen_signers [] seen = Some seen"
| "seen_signers (s # ss) seen =
     (if pg_signerIndex s \<in> set seen then None else seen_signers ss (seen @ [pg_signerIndex s]))"

definition isThresholdMet :: "ThresholdAuthorization \<Rightarrow> bool" where
  "isThresholdMet auth =
     (if ta_threshold auth < 1 then False
      else if int (length (ta_partialSignatures auth)) < ta_threshold auth then False
      else case seen_signers (ta_partialSignatures auth) [] of
        None \<Rightarrow> False
      | Some seen \<Rightarrow> int (length seen) \<ge> ta_threshold auth)"

fun sign_all :: "(string \<Rightarrow> string \<Rightarrow> string option) \<Rightarrow> millis \<Rightarrow> ThresholdRootConfig \<Rightarrow> string \<Rightarrow> (int \<times> string) list \<Rightarrow>
    string + PartialSignature list" where
  "sign_all sig nowMs config manifestDigest [] = Inr []"
| "sign_all sig nowMs config manifestDigest ((i, key) # signers) =
     (case createPartialSignature sig nowMs config manifestDigest i key of
        Inl e \<Rightarrow> Inl e
      | Inr s \<Rightarrow> map_sum id (Cons s) (sign_all sig nowMs config manifestDigest signers))"

definition collectThresholdAuthorization ::
    "(string \<Rightarrow> string \<Rightarrow> string option) \<Rightarrow> millis \<Rightarrow> string \<Rightarrow> ThresholdRootConfig \<Rightarrow> string \<Rightarrow> (int \<times> string) list \<Rightarrow>
     string + ThresholdAuthorization" where
  "collectThresholdAuthorization sig nowMs uuid config manifestDigest signers =
     map_sum id (\<lambda>partialSignatures. \<lparr>ta_authorizationId = uuid, ta_manifestDigest = manifestDigest,
         ta_partialSignatures = partialSignatures, ta_threshold = tc_threshold config,
         ta_totalSigners = tc_totalSigners config, ta_authorizedAt = toISOString nowMs\<rparr>)
       (sign_all sig nowMs config manifestDigest signers)"

definition thresholdCanExport :: "ThresholdAuthorization option \<Rightarrow> ThresholdRootConfig option \<Rightarrow> bool" where
  "thresholdCanExport auth config =
     (case (auth, config) of
        (Some a, Some c) \<Rightarrow>
          if ta_threshold a \<noteq> tc_threshold c \<or> ta_totalSigners a \<noteq> tc_totalSigners c then False else isThresholdMet a
      | _ \<Rightarrow> False)"

text \<open>The key pairs that \<open>generateKeyPair\<close> returns, in order, are an argument.\<close>

definition generateThresholdKeyShares ::
    "(string \<times> string) list \<Rightarrow> int \<Rightarrow> string + (ThresholdRootConfig \<times> string list)" where
  "generateThresholdKeyShares pairs threshold =
     map_sum id (\<lambda>config. (config, List.map snd pairs))
       (createThresholdConfig (int (length pairs)) threshold (List.map (\<lambda>(pub, priv). hex_encode pub) pairs))"

text \<open>The module's key store is state.\<close>

type_synonym key_store = "(int \<times> string) list"

definition registerSignerKey :: "int \<Rightarrow> string \<Rightarrow> key_store \<Rightarrow> key_store" where
  "registerSignerKey shareIndex privateKey store = map_set shareIndex privateKey store"

definition getSignerKeyForExport :: "int \<Rightarrow> key_store \<Rightarrow> string option" where
  "getSignerKeyForExport shareIndex store = map_get store shareIndex"

definition clearSignerKeys :: "key_store \<Rightarrow> key_store" where
  "clearSignerKeys store = []"

section \<open>Published snapshots\<close>

record PublishedSnapshot =
  pn_snapshotId :: string
  pn_merkleRoot :: string
  pn_entryCount :: int
  pn_excludedCount :: int
  pn_logicalTime :: string
  pn_signatures :: "string list"
  pn_crossSignature :: string
  pn_receiptDigest :: string
  pn_publishedAt :: string

definition createPublishedSnapshot ::
    "(string \<Rightarrow> string) \<Rightarrow> millis \<Rightarrow> string \<Rightarrow> int \<Rightarrow> int \<Rightarrow> string list \<Rightarrow> PublishedSnapshot" where
  "createPublishedSnapshot sha nowMs merkleRoot entryCount excludedCount signatures =
     (let publishedAt = toISOString nowMs;
          receiptDigest = sha256Hex sha (json_stringify (J_obj [(''merkleRoot'', J_str merkleRoot),
            (''entryCount'', J_num entryCount), (''excludedCount'', J_num excludedCount),
            (''signatures'', J_arr (List.map J_str signatures))]));
          snapshotId = sha256Hex sha (''snapshot:'' @ merkleRoot @ '':'' @ receiptDigest)
      in \<lparr>pn_snapshotId = snapshotId, pn_merkleRoot = merkleRoot, pn_entryCount = entryCount,
          pn_excludedCount = excludedCount, pn_logicalTime = publishedAt, pn_signatures = signatures,
          pn_crossSignature = [], pn_receiptDigest = receiptDigest, pn_publishedAt = publishedAt\<rparr>)"

definition computeSnapshotDigest :: "(string \<Rightarrow> string) \<Rightarrow> PublishedSnapshot \<Rightarrow> string" where
  "computeSnapshotDigest sha snapshot =
     sha256Hex sha (js_join ''|'' [pn_snapshotId snapshot, pn_merkleRoot snapshot, show_int (pn_entryCount snapshot),
       show_int (pn_excludedCount snapshot), pn_logicalTime snapshot, pn_receiptDigest snapshot, pn_publishedAt snapshot])"

section \<open>Timestamps\<close>

definition TIMESTAMP_SERVICE_ID :: string where
  "TIMESTAMP_SERVICE_ID = ''codex-timestamp-v1''"

record TimestampProof =
  tp_snapshotDigest :: string
  tp_timestampServiceId :: string
  tp_timestamp :: string
  tp_signature :: string

definition createTimestampProof ::
    "(string \<Rightarrow> string \<Rightarrow> string option) \<Rightarrow> millis \<Rightarrow> string \<Rightarrow> string \<Rightarrow> TimestampProof option" where
  "createTimestampProof sig nowMs snapshotDigest timestampingKey =
     (let timestamp = toISOString nowMs;
          payload = js_join ''|'' [TIMESTAMP_SERVICE_ID, snapshotDigest, timestamp]
      in map_option (\<lambda>s. \<lparr>tp_snapshotDigest = snapshotDigest, tp_timestampServiceId = TIMESTAMP_SERVICE_ID,
           tp_timestamp = timestamp, tp_signature = hex_encode s\<rparr>) (sig timestampingKey (utf8 payload)))"

definition verifyTimestampProof :: "(string \<Rightarrow> string \<Rightarrow> string \<Rightarrow> bool) \<Rightarrow> TimestampProof \<Rightarrow> string \<Rightarrow> string \<Rightarrow> bool" where
  "verifyTimestampProof ver p expectedDigest servicePublicKey =
     (if tp_snapshotDigest p \<noteq> expectedDigest then False
      else ver servicePublicKey
             (utf8 (js_join ''|'' [tp_timestampServiceId p, tp_snapshotDigest p, tp_timestamp p])) (hex_decode (tp_signature p)))"

section \<open>The log\<close>

record LogEntry =
  le_index :: int
  le_snapshotDigest :: string
  le_publishedAt :: string

record ImmutableLog =
  il_entries :: "LogEntry list"
  il_previousEntryHash :: string

definition createImmutableLog :: ImmutableLog where
  "createImmutableLog = \<lparr>il_entries = [], il_previousEntryHash = []\<rparr>"

definition entry_payload :: "LogEntry \<Rightarrow> string \<Rightarrow> string" where
  "entry_payload e prev =
     ''append:'' @ show_int (le_index e) @ ''|'' @ le_snapshotDigest e @ ''|'' @ le_publishedAt e @ ''|'' @ prev"

definition appendToLog :: "(string \<Rightarrow> string) \<Rightarrow> millis \<Rightarrow> ImmutableLog \<Rightarrow> string \<Rightarrow> ImmutableLog" where
  "appendToLog sha nowMs log snapshotDigest =
     (let entry = \<lparr>le_index = int (length (il_entries log)), le_snapshotDigest = snapshotDigest,
                   le_publishedAt = toISOString nowMs\<rparr>
      in \<lparr>il_entries = il_entries log @ [entry],
          il_previousEntryHash = sha256Hex sha (entry_payload entry (il_previousEntryHash log))\<rparr>)"

fun integrity_loop :: "(string \<Rightarrow> string) \<Rightarrow> string \<Rightarrow> LogEntry list \<Rightarrow> string \<Rightarrow> bool" where
  "integrity_loop sha head [] runningHash = True"
| "integrity_loop sha head (e # es) runningHash =
     (let computedHash = sha256Hex sha (entry_payload e runningHash)
      in if es = [] \<and> computedHash \<noteq> head then False else integrity_loop sha head es computedHash)"

definition verifyLogIntegrity :: "(string \<Rightarrow> string) \<Rightarrow> ImmutableLog \<Rightarrow> bool" where
  "verifyLogIntegrity sha log = integrity_loop sha (il_previousEntryHash log) (il_entries log) []"

fun find_digest :: "LogEntry list \<Rightarrow> string \<Rightarrow> int option" where
  "find_digest [] d = None"
| "find_digest (e # es) d = (if le_snapshotDigest e = d then Some (le_index e) else find_digest es d)"

definition findSnapshotInLog :: "ImmutableLog \<Rightarrow> string \<Rightarrow> int option" where
  "findSnapshotInLog log snapshotDigest = find_digest (il_entries log) snapshotDigest"

definition verifySnapshotIntegrity :: "PublishedSnapshot \<Rightarrow> string \<Rightarrow> bool" where
  "verifySnapshotIntegrity snapshot merkleRoot \<longleftrightarrow> pn_merkleRoot snapshot = merkleRoot"

text \<open>\<open>parse\<close> stands for \<open>JSON.parse\<close> of a text into a proof; \<open>None\<close> is its exception.\<close>

definition verifyTimestamp ::
    "(string \<Rightarrow> string) \<Rightarrow> (string \<Rightarrow> string \<Rightarrow> string \<Rightarrow> bool) \<Rightarrow> (string \<Rightarrow> TimestampProof option) \<Rightarrow> PublishedSnapshot \<Rightarrow> string \<Rightarrow> bool option" where
  "verifyTimestamp sha ver parse snapshot key =
     (if pn_crossSignature snapshot = [] then Some False
      else map_option (\<lambda>p. verifyTimestampProof ver p (computeSnapshotDigest sha snapshot) key)
             (parse (hex_decode (pn_crossSignature snapshot))))"

definition verifySnapshotInclusion :: "ImmutableLog \<Rightarrow> string \<Rightarrow> bool" where
  "verifySnapshotInclusion log snapshotDigest \<longleftrightarrow> findSnapshotInLog log snapshotDigest \<noteq> None"

section \<open>Revocations\<close>

record RevocationCommitment =
  rv_entryId :: string
  rv_revokedAt :: string
  rv_supersededByEntryId :: "string option"
  rv_logicalTime :: string
  rv_snapshotDigest :: string

definition createRevocationCommitment ::
    "(string \<Rightarrow> string) \<Rightarrow> millis \<Rightarrow> string \<Rightarrow> string \<Rightarrow> string option \<Rightarrow> RevocationCommitment" where
  "createRevocationCommitment sha nowMs entryId revokedAt supersededBy =
     \<lparr>rv_entryId = entryId, rv_revokedAt = revokedAt, rv_supersededByEntryId = supersededBy,
      rv_logicalTime = toISOString nowMs,
      rv_snapshotDigest = sha256Hex sha (''revoke:'' @ entryId @ '':'' @ revokedAt @ '':'' @ nullish supersededBy [])\<rparr>"

definition includeRevocationInSnapshot ::
    "(string \<Rightarrow> string) \<Rightarrow> PublishedSnapshot \<Rightarrow> RevocationCommitment list \<Rightarrow> PublishedSnapshot" where
  "includeRevocationInSnapshot sha snapshot revocations =
     (let revocationDigest = sha256Hex sha (json_stringify (J_arr (List.map (\<lambda>r.
            J_obj [(''entryId'', J_str (rv_entryId r)), (''snapshotDigest'', J_str (rv_snapshotDigest r))]) revocations)))
      in snapshot\<lparr>pn_receiptDigest := sha256Hex sha (pn_receiptDigest snapshot @ ''|revocations:'' @ revocationDigest)\<rparr>)"

section \<open>What the threshold check accepts\<close>

lemma seen_signers_exact:
  "seen_signers ss seen =
     (if distinct (List.map pg_signerIndex ss) \<and> set (List.map pg_signerIndex ss) \<inter> set seen = {}
      then Some (seen @ List.map pg_signerIndex ss) else None)"
  by (induction ss arbitrary: seen) auto

text \<open>
  What the threshold check of an export accepts.  An authorisation is accepted exactly when it repeats
  the threshold and the number of signers of the configuration, the threshold is positive, and it carries
  at least that many entries with different signer numbers.  Neither the signatures nor the manifest nor
  the keys matter: entries with empty signatures and numbers no signer has are accepted too, although the
  check is documented to verify every signature.
\<close>

theorem threshold_accepts_exactly:
  "(thresholdCanExport (Some auth) (Some config) \<longleftrightarrow>
      ta_threshold auth = tc_threshold config \<and> ta_totalSigners auth = tc_totalSigners config \<and> 1 \<le> tc_threshold config \<and>
      tc_threshold config \<le> int (length (ta_partialSignatures auth)) \<and>
      distinct (List.map pg_signerIndex (ta_partialSignatures auth))) \<and>
   (createThresholdConfig n t keys = Inr config \<longrightarrow>
      thresholdCanExport (Some \<lparr>ta_authorizationId = uuid, ta_manifestDigest = digest,
         ta_partialSignatures = List.map (\<lambda>i. \<lparr>pg_signerIndex = n + int i, pg_signatureHex = [], pg_signedAt = []\<rparr>) [0..<nat t],
         ta_threshold = t, ta_totalSigners = n, ta_authorizedAt = at\<rparr>) (Some config))"
proof -
  have exact: "thresholdCanExport (Some auth) (Some config) \<longleftrightarrow>
      ta_threshold auth = tc_threshold config \<and> ta_totalSigners auth = tc_totalSigners config \<and> 1 \<le> tc_threshold config \<and>
      tc_threshold config \<le> int (length (ta_partialSignatures auth)) \<and>
      distinct (List.map pg_signerIndex (ta_partialSignatures auth))" for auth
    by (auto simp: thresholdCanExport_def isThresholdMet_def seen_signers_exact)
  have "tc_threshold config = t \<and> tc_totalSigners config = n \<and> 1 \<le> t" if "createThresholdConfig n t keys = Inr config"
    using that by (auto simp: createThresholdConfig_def split: if_splits option.splits)
  then show ?thesis by (auto simp: exact comp_def distinct_map inj_on_def)
qed

theorem threshold_accepts_exactly_witness:
  "thresholdCanExport (Some \<lparr>ta_authorizationId = [], ta_manifestDigest = ''m'',
      ta_partialSignatures = [\<lparr>pg_signerIndex = 5, pg_signatureHex = [], pg_signedAt = []\<rparr>],
      ta_threshold = 1, ta_totalSigners = 2, ta_authorizedAt = []\<rparr>)
    (Some \<lparr>tc_totalSigners = 2, tc_threshold = 1, tc_signerPublicKeys = []\<rparr>)"
  by (simp add: threshold_accepts_exactly [THEN conjunct1])

lemma sign_all_indices:
  "sign_all sig now config digest signers = Inr ss \<Longrightarrow> List.map pg_signerIndex ss = List.map fst signers"
proof (induction signers arbitrary: ss)
  case (Cons x signers)
  obtain i key where x: "x = (i, key)" by (cases x)
  obtain s where s: "createPartialSignature sig now config digest i key = Inr s"
    using Cons.prems x by (cases "createPartialSignature sig now config digest i key") auto
  then obtain ss' where "sign_all sig now config digest signers = Inr ss'" "ss = s # ss'"
    using Cons.prems x by (cases "sign_all sig now config digest signers") auto
  moreover have "pg_signerIndex s = i" using s by (auto simp: createPartialSignature_def split: if_splits option.splits)
  ultimately show ?case using Cons.IH x by simp
qed simp

text \<open>Authorisations that signers of different numbers make together are accepted once there are enough.\<close>

lemma collected_authorization_accepted:
  assumes "collectThresholdAuthorization sig now uuid config digest signers = Inr auth"
    and "1 \<le> tc_threshold config" "tc_threshold config \<le> int (length signers)" "distinct (List.map fst signers)"
  shows "thresholdCanExport (Some auth) (Some config)"
proof -
  obtain ss where ss: "sign_all sig now config digest signers = Inr ss"
    using assms(1) by (cases "sign_all sig now config digest signers") (auto simp: collectThresholdAuthorization_def)
  from sign_all_indices [OF this] have "distinct (List.map pg_signerIndex ss)" "length ss = length signers"
    using assms(4) by (metis, metis length_map)
  with assms ss show ?thesis
    by (auto simp: collectThresholdAuthorization_def thresholdCanExport_def isThresholdMet_def seen_signers_exact)
qed

section \<open>The chain of the log\<close>

fun chain_hash :: "(string \<Rightarrow> string) \<Rightarrow> string \<Rightarrow> LogEntry list \<Rightarrow> string" where
  "chain_hash sha running [] = running"
| "chain_hash sha running (e # es) = chain_hash sha (sha256Hex sha (entry_payload e running)) es"

fun chain_texts :: "(string \<Rightarrow> string) \<Rightarrow> string \<Rightarrow> LogEntry list \<Rightarrow> string list" where
  "chain_texts sha running [] = []"
| "chain_texts sha running (e # es) =
     utf8 (entry_payload e running) # chain_texts sha (sha256Hex sha (entry_payload e running)) es"

lemma chain_hash_snoc:
  "chain_hash sha r (es @ [e]) = sha256Hex sha (entry_payload e (chain_hash sha r es))"
  "chain_texts sha r (es @ [e]) = chain_texts sha r es @ [utf8 (entry_payload e (chain_hash sha r es))]"
  by (induction es arbitrary: r) auto

lemma integrity_loop_exact: "integrity_loop sha head es r \<longleftrightarrow> es = [] \<or> chain_hash sha r es = head"
  by (induction es arbitrary: r) (auto simp: Let_def)

lemma verifyLogIntegrity_exact:
  "verifyLogIntegrity sha log \<longleftrightarrow> il_entries log = [] \<or> chain_hash sha [] (il_entries log) = il_previousEntryHash log"
  by (simp add: verifyLogIntegrity_def integrity_loop_exact)

definition entry_ok :: "LogEntry \<Rightarrow> bool" where
  "entry_ok e \<longleftrightarrow> CHR ''|'' \<notin> set (le_snapshotDigest e) \<and> CHR ''|'' \<notin> set (le_publishedAt e)"

lemma entry_payload_inject:
  assumes "entry_ok e" "entry_ok f"
  shows "entry_payload e p = entry_payload f q \<longleftrightarrow> e = f \<and> p = q"
proof
  assume eq: "entry_payload e p = entry_payload f q"
  have sep: "x @ ''|'' @ r = y @ ''|'' @ s \<Longrightarrow> x = y \<and> r = s" if "CHR ''|'' \<notin> set x" "CHR ''|'' \<notin> set y" for x y r s
  proof -
    assume eq: "x @ ''|'' @ r = y @ ''|'' @ s"
    then have "hd (split_on (CHR ''|'') (x @ CHR ''|'' # r)) = hd (split_on (CHR ''|'') (y @ CHR ''|'' # s))" by simp
    then have "x = y" using that by (simp add: split_on_append)
    with eq show ?thesis by simp
  qed
  from eq have "show_int (le_index e) @ ''|'' @ le_snapshotDigest e @ ''|'' @ le_publishedAt e @ ''|'' @ p =
      show_int (le_index f) @ ''|'' @ le_snapshotDigest f @ ''|'' @ le_publishedAt f @ ''|'' @ q"
    by (simp add: entry_payload_def)
  from sep [OF _ _ this] have 1: "le_index e = le_index f" and
    "le_snapshotDigest e @ ''|'' @ le_publishedAt e @ ''|'' @ p = le_snapshotDigest f @ ''|'' @ le_publishedAt f @ ''|'' @ q"
    by simp_all
  from sep [OF _ _ this(2)] assms have 2: "le_snapshotDigest e = le_snapshotDigest f" and
    "le_publishedAt e @ ''|'' @ p = le_publishedAt f @ ''|'' @ q" by (simp_all add: entry_ok_def)
  from sep [OF _ _ this(2)] assms have "le_publishedAt e = le_publishedAt f \<and> p = q" by (simp add: entry_ok_def)
  with 1 2 show "e = f \<and> p = q" by (auto intro: LogEntry.equality)
qed simp

lemma chain_hash_binds:
  assumes "\<And>x. sha x \<noteq> []" and "list_all entry_ok es" and "list_all entry_ok fs"
    and "inj_on sha (set (chain_texts sha [] es) \<union> set (chain_texts sha [] fs))"
    and "chain_hash sha [] es = chain_hash sha [] fs"
  shows "es = fs"
  using assms(2-)
proof (induction es arbitrary: fs rule: rev_induct)
  case Nil
  then show ?case using assms(1) [symmetric] by (cases fs rule: rev_cases) (auto simp: chain_hash_snoc sha256Hex_def)
next
  case (snoc e es)
  note prems = snoc.prems and IH = snoc.IH
  show ?case
  proof (cases fs rule: rev_cases)
    case Nil
    then show ?thesis using snoc.prems(4) assms(1) by (auto simp: chain_hash_snoc sha256Hex_def)
  next
    case (snoc fs' f)
    note f = this
    have "sha (utf8 (entry_payload e (chain_hash sha [] es))) = sha (utf8 (entry_payload f (chain_hash sha [] fs')))"
      using prems(4) f by (simp add: chain_hash_snoc sha256Hex_def)
    then have "utf8 (entry_payload e (chain_hash sha [] es)) = utf8 (entry_payload f (chain_hash sha [] fs'))"
      by (rule inj_onD [OF prems(3)]) (simp_all add: f chain_hash_snoc)
    then have "e = f" "chain_hash sha [] es = chain_hash sha [] fs'"
      using prems(1,2) f by (simp_all add: entry_payload_inject)
    moreover have "es = fs'"
    proof (rule IH)
      show "inj_on sha (set (chain_texts sha [] es) \<union> set (chain_texts sha [] fs'))"
        by (rule inj_on_subset [OF prems(3)]) (auto simp: f chain_hash_snoc)
    qed (use prems f calculation in simp_all)
    ultimately show ?thesis using f by simp
  qed
qed

text \<open>
  C9: the log is tamper evident.  Two logs with the same head hash that both verify and are not empty have
  the same entries, provided digests and times contain no bar and no two hashed texts collide; so no entry
  can be changed, moved, dropped or inserted without changing the head.  An empty log verifies under every
  head hash.
\<close>

theorem log_tamper_evident:
  assumes "\<And>x. sha x \<noteq> []" and "verifyLogIntegrity sha log" and "verifyLogIntegrity sha log'"
    and "il_previousEntryHash log = il_previousEntryHash log'" and "il_entries log \<noteq> []" and "il_entries log' \<noteq> []"
    and "list_all entry_ok (il_entries log @ il_entries log')"
    and "inj_on sha (set (chain_texts sha [] (il_entries log)) \<union> set (chain_texts sha [] (il_entries log')))"
  shows "log = log' \<and> verifyLogIntegrity sha \<lparr>il_entries = [], il_previousEntryHash = h\<rparr>"
proof -
  have "il_entries log = il_entries log'"
    by (rule chain_hash_binds [OF assms(1) _ _ assms(8)]) (use assms in \<open>auto simp: verifyLogIntegrity_exact\<close>)
  with assms(4) show ?thesis by (simp add: verifyLogIntegrity_exact)
qed

definition sample_log_entry :: LogEntry where
  "sample_log_entry = \<lparr>le_index = 0, le_snapshotDigest = ''d'', le_publishedAt = ''t''\<rparr>"

theorem log_tamper_evident_witness:
  "verifyLogIntegrity (Cons (CHR ''h'')) \<lparr>il_entries = [sample_log_entry],
      il_previousEntryHash = sha256Hex (Cons (CHR ''h'')) (entry_payload sample_log_entry [])\<rparr> \<and>
   verifyLogIntegrity (Cons (CHR ''h'')) \<lparr>il_entries = [],
      il_previousEntryHash = sha256Hex (Cons (CHR ''h'')) (entry_payload sample_log_entry [])\<rparr>"
proof -
  let ?sha = "Cons (CHR ''h'')" and ?h = "sha256Hex (Cons (CHR ''h'')) (entry_payload sample_log_entry [])"
  have v: "verifyLogIntegrity ?sha \<lparr>il_entries = [sample_log_entry], il_previousEntryHash = ?h\<rparr>"
    by (simp add: verifyLogIntegrity_exact)
  from log_tamper_evident [OF _ v v, of ?h] v show ?thesis
    by (simp add: entry_ok_def sample_log_entry_def)
qed

text \<open>What a log made by appending holds.\<close>

fun append_all :: "(string \<Rightarrow> string) \<Rightarrow> (millis \<times> string) list \<Rightarrow> ImmutableLog \<Rightarrow> ImmutableLog" where
  "append_all sha [] log = log"
| "append_all sha ((now, d) # ds) log = append_all sha ds (appendToLog sha now log d)"

definition numbered :: "nat \<Rightarrow> (millis \<times> string) list \<Rightarrow> LogEntry list" where
  "numbered n ds = List.map (\<lambda>(i, now, d). \<lparr>le_index = int i, le_snapshotDigest = d, le_publishedAt = toISOString now\<rparr>)
     (zip [n..<n + length ds] ds)"

lemma numbered_Cons:
  "numbered n ((now, d) # ds) = \<lparr>le_index = int n, le_snapshotDigest = d, le_publishedAt = toISOString now\<rparr> # numbered (Suc n) ds"
  by (simp add: numbered_def upt_rec)

lemma append_all_entries:
  assumes "chain_hash sha [] (il_entries log) = il_previousEntryHash log"
  shows "il_entries (append_all sha ds log) = il_entries log @ numbered (length (il_entries log)) ds \<and>
    chain_hash sha [] (il_entries (append_all sha ds log)) = il_previousEntryHash (append_all sha ds log)"
  using assms
proof (induction ds arbitrary: log)
  case (Cons x ds)
  obtain now d where x: "x = (now, d)" by (cases x)
  let ?l = "appendToLog sha now log d"
  have "chain_hash sha [] (il_entries ?l) = il_previousEntryHash ?l"
    using Cons.prems by (simp add: appendToLog_def Let_def chain_hash_snoc)
  note IH = Cons.IH [OF this]
  have "il_entries ?l = il_entries log @ [\<lparr>le_index = int (length (il_entries log)), le_snapshotDigest = d,
      le_publishedAt = toISOString now\<rparr>]" by (simp add: appendToLog_def Let_def)
  with IH have "il_entries (append_all sha ds ?l) = il_entries log @ numbered (length (il_entries log)) (x # ds)"
    by (simp add: x numbered_Cons)
  then have 1: "il_entries (append_all sha (x # ds) log) = il_entries log @ numbered (length (il_entries log)) (x # ds)"
    unfolding x append_all.simps .
  have 2: "chain_hash sha [] (il_entries (append_all sha (x # ds) log)) = il_previousEntryHash (append_all sha (x # ds) log)"
    using IH unfolding x append_all.simps by (rule conjunct2)
  from 1 2 show ?case by (rule conjI)
qed (simp add: numbered_def)

lemma find_map_eq: "List.find P (List.map f xs) = map_option f (List.find (P \<circ> f) xs)"
  by (induction xs) auto

lemma find_digest_numbered:
  "find_digest (numbered n ds) d = map_option (\<lambda>i. int (n + i)) (List.find (\<lambda>i. snd (ds ! i) = d) [0..<length ds])"
proof (induction ds arbitrary: n)
  case (Cons x ds)
  obtain now e where x: "x = (now, e)" by (cases x)
  have "List.find (\<lambda>i. snd ((x # ds) ! i) = d) [0..<length (x # ds)] =
      (if e = d then Some 0 else map_option Suc (List.find (\<lambda>i. snd (ds ! i) = d) [0..<length ds]))"
    by (simp add: x upt_conv_Cons map_Suc_upt [symmetric] find_map_eq comp_def del: upt_Suc)
  then show ?case by (auto simp: x numbered_Cons Cons option.map_comp comp_def ac_simps)
qed (simp add: numbered_def)

text \<open>
  A log made by appending digests to the empty log verifies, holds the digests in their order under
  consecutive numbers from 0, and finds each digest at the number of its first occurrence.
\<close>

theorem appended_log_verifies:
  "let log = append_all sha ds createImmutableLog
   in verifyLogIntegrity sha log \<and> List.map le_snapshotDigest (il_entries log) = List.map snd ds \<and>
      List.map le_index (il_entries log) = List.map int [0..<length ds] \<and>
      findSnapshotInLog log d = map_option int (List.find (\<lambda>i. snd (ds ! i) = d) [0..<length ds])"
proof -
  let ?log = "append_all sha ds createImmutableLog"
  have e: "il_entries ?log = numbered 0 ds" "chain_hash sha [] (il_entries ?log) = il_previousEntryHash ?log"
    using append_all_entries [of sha createImmutableLog ds, THEN conjunct1] append_all_entries [of sha createImmutableLog ds, THEN conjunct2]
    by (auto simp: createImmutableLog_def)
  have "List.map le_snapshotDigest (numbered 0 ds) = List.map snd ds" "List.map le_index (numbered 0 ds) = List.map int [0..<length ds]"
    by (rule nth_equalityI; simp add: numbered_def split: prod.splits)+
  with e find_digest_numbered [of 0 ds d] show ?thesis
    by (simp add: Let_def verifyLogIntegrity_exact findSnapshotInLog_def)
qed

end
