(* ===== verification/Codex_Groups.thy ===== *)
theory Codex_Groups imports Dharma_Events Transition_Systems begin

text \<open>
  The groups of the codex (\<open>dharma/codex/mls/mls-types.ts\<close>, \<open>dharma/codex/mls/mls-group-lifecycle.ts\<close>):
  group policies, credentials, commit receipts, keys derived from an epoch, and the lifecycle of a group
  with its members and epochs.  SHA-256, HMAC, Ed25519 and AES-GCM are parameters: \<open>hmac key data\<close> is the
  digest as bytes, \<open>enc key iv data\<close> the ciphertext with its tag, \<open>dec\<close> is \<open>None\<close> where the tag does not match.
\<close>

section \<open>Group descriptors and policies\<close>

definition CODEC_MLS_PROTOCOL_VERSION :: int where
  "CODEC_MLS_PROTOCOL_VERSION = 1"

definition EPOCH_KEY_DERIVATION_LABEL :: string where
  "EPOCH_KEY_DERIVATION_LABEL = ''codex-mls-epoch-wrap-v1''"

datatype MlsDomainKind = MD_public | MD_contributor | MD_project | MD_session | MD_export_recovery

fun MlsDomainKind_str :: "MlsDomainKind \<Rightarrow> string" where
  "MlsDomainKind_str MD_public = ''public''"
| "MlsDomainKind_str MD_contributor = ''contributor''"
| "MlsDomainKind_str MD_project = ''project''"
| "MlsDomainKind_str MD_session = ''session''"
| "MlsDomainKind_str MD_export_recovery = ''export_recovery''"

record CodexMlsGroupDescriptor =
  gd_groupId :: string
  gd_domainId :: string
  gd_domainKind :: MlsDomainKind
  gd_mlsProtocolVersion :: int
  gd_ciphersuite :: string
  gd_dharmaPolicyDigest :: string
  gd_membershipRuleVersion :: string
  gd_autobaseHeadCommitment :: string
  gd_currentEpoch :: int
  gd_groupStateDigest :: string
  gd_createdBy :: string
  gd_createdAtLogicalTime :: string

datatype MlsAuthority = MA_owner | MA_maintainer | MA_policy_controller

datatype MlsRotationTrigger =
  RT_member_add | RT_member_remove | RT_member_compromise | RT_epoch_age | RT_packet_count | RT_policy_change

record CodexMlsPolicy =
  gp_policyId :: string
  gp_domainKind :: MlsDomainKind
  gp_addAuthority :: MlsAuthority
  gp_removeAuthority :: MlsAuthority
  gp_updateAuthority :: string
  gp_requireTreeKemPathOn :: "string list"
  gp_historyAccess :: string
  gp_keyRotationTriggers :: "MlsRotationTrigger list"
  gp_maxEpochAgeMs :: int
  gp_maxPacketsPerEpoch :: int
  gp_externalCommitPolicy :: string
  gp_externalProposalPolicy :: string
  gp_requiredCredentialPolicyDigest :: string

definition policy_digest :: "char \<Rightarrow> string" where
  "policy_digest d = replicate 63 (CHR ''0'') @ [d]"

definition createDefaultMlsPolicy :: "MlsDomainKind \<Rightarrow> CodexMlsPolicy" where
  "createDefaultMlsPolicy domainKind =
     (let policyId = show_int CODEC_MLS_PROTOCOL_VERSION @ ''-'' @ MlsDomainKind_str domainKind @ ''-default''
      in case domainKind of
        MD_public \<Rightarrow>
          \<lparr>gp_policyId = policyId, gp_domainKind = domainKind, gp_addAuthority = MA_maintainer,
           gp_removeAuthority = MA_owner, gp_updateAuthority = ''self_only'',
           gp_requireTreeKemPathOn = [''add'', ''update''], gp_historyAccess = ''from_join_epoch'',
           gp_keyRotationTriggers = [RT_member_add, RT_member_remove, RT_epoch_age, RT_packet_count],
           gp_maxEpochAgeMs = 86400000, gp_maxPacketsPerEpoch = 1000000,
           gp_externalCommitPolicy = ''disabled'', gp_externalProposalPolicy = ''explicitly_authorized'',
           gp_requiredCredentialPolicyDigest = policy_digest (CHR ''1'')\<rparr>
      | MD_contributor \<Rightarrow>
          \<lparr>gp_policyId = policyId, gp_domainKind = domainKind, gp_addAuthority = MA_maintainer,
           gp_removeAuthority = MA_owner, gp_updateAuthority = ''self_only'',
           gp_requireTreeKemPathOn = [''add'', ''remove'', ''update''], gp_historyAccess = ''from_join_epoch'',
           gp_keyRotationTriggers =
             [RT_member_add, RT_member_remove, RT_member_compromise, RT_epoch_age, RT_packet_count],
           gp_maxEpochAgeMs = 43200000, gp_maxPacketsPerEpoch = 100000,
           gp_externalCommitPolicy = ''disabled'', gp_externalProposalPolicy = ''disabled'',
           gp_requiredCredentialPolicyDigest = policy_digest (CHR ''2'')\<rparr>
      | MD_project \<Rightarrow>
          \<lparr>gp_policyId = policyId, gp_domainKind = domainKind, gp_addAuthority = MA_maintainer,
           gp_removeAuthority = MA_owner, gp_updateAuthority = ''self_only'',
           gp_requireTreeKemPathOn = [''add'', ''remove'', ''update''], gp_historyAccess = ''from_join_epoch'',
           gp_keyRotationTriggers =
             [RT_member_add, RT_member_remove, RT_member_compromise, RT_epoch_age, RT_packet_count],
           gp_maxEpochAgeMs = 86400000, gp_maxPacketsPerEpoch = 500000,
           gp_externalCommitPolicy = ''disabled'', gp_externalProposalPolicy = ''disabled'',
           gp_requiredCredentialPolicyDigest = policy_digest (CHR ''3'')\<rparr>
      | MD_session \<Rightarrow>
          \<lparr>gp_policyId = policyId, gp_domainKind = domainKind, gp_addAuthority = MA_owner,
           gp_removeAuthority = MA_owner, gp_updateAuthority = ''self_only'',
           gp_requireTreeKemPathOn = [''add'', ''remove'', ''update''], gp_historyAccess = ''none'',
           gp_keyRotationTriggers = [RT_member_add, RT_member_remove, RT_epoch_age, RT_packet_count],
           gp_maxEpochAgeMs = 3600000, gp_maxPacketsPerEpoch = 10000,
           gp_externalCommitPolicy = ''disabled'', gp_externalProposalPolicy = ''disabled'',
           gp_requiredCredentialPolicyDigest = policy_digest (CHR ''4'')\<rparr>
      | MD_export_recovery \<Rightarrow>
          \<lparr>gp_policyId = policyId, gp_domainKind = domainKind, gp_addAuthority = MA_policy_controller,
           gp_removeAuthority = MA_policy_controller, gp_updateAuthority = ''policy_controller'',
           gp_requireTreeKemPathOn = [''add'', ''remove''], gp_historyAccess = ''explicit_backfill_only'',
           gp_keyRotationTriggers = [RT_member_compromise, RT_policy_change],
           gp_maxEpochAgeMs = 604800000, gp_maxPacketsPerEpoch = 50000,
           gp_externalCommitPolicy = ''explicitly_authorized'', gp_externalProposalPolicy = ''disabled'',
           gp_requiredCredentialPolicyDigest = policy_digest (CHR ''5'')\<rparr>)"

definition canAddMember :: "CodexMlsPolicy \<Rightarrow> string \<Rightarrow> bool" where
  "canAddMember policy actorRole =
     (case gp_addAuthority policy of
        MA_owner \<Rightarrow> actorRole = ''owner''
      | MA_maintainer \<Rightarrow> actorRole = ''owner'' \<or> actorRole = ''maintainer''
      | MA_policy_controller \<Rightarrow> actorRole = ''policy_controller'' \<or> actorRole = ''owner'')"

text \<open>The type of the removal authority has no maintainer; the \<open>switch\<close> would return \<open>undefined\<close>.\<close>

definition canRemoveMember :: "CodexMlsPolicy \<Rightarrow> string \<Rightarrow> bool" where
  "canRemoveMember policy actorRole =
     (case gp_removeAuthority policy of
        MA_owner \<Rightarrow> actorRole = ''owner''
      | MA_policy_controller \<Rightarrow> actorRole = ''policy_controller'' \<or> actorRole = ''owner''
      | MA_maintainer \<Rightarrow> False)"

section \<open>Credentials\<close>

record CodexMlsCredential =
  cr_identityId :: string
  cr_mlsSigningPublicKey :: string
  cr_mlsEncryptionPublicKey :: string
  cr_dharmaIdentitySignature :: string
  cr_credentialPolicyDigest :: string

definition createMlsCredential ::
    "(string \<Rightarrow> string) \<Rightarrow> string \<Rightarrow> string \<Rightarrow> string \<Rightarrow> string \<Rightarrow> CodexMlsCredential" where
  "createMlsCredential sha identityId mlsSigningKey mlsEncKey dharmaSig =
     \<lparr>cr_identityId = identityId, cr_mlsSigningPublicKey = mlsSigningKey, cr_mlsEncryptionPublicKey = mlsEncKey,
      cr_dharmaIdentitySignature = dharmaSig,
      cr_credentialPolicyDigest =
        sha (utf8 (''mls-credential-policy-v1:'' @ identityId @ '':'' @ mlsSigningKey @ '':'' @ mlsEncKey))\<rparr>"

definition credential_payload :: "CodexMlsCredential \<Rightarrow> string" where
  "credential_payload cred =
     ''mls-bind-v1:'' @ cr_identityId cred @ '':'' @ cr_mlsSigningPublicKey cred @ '':'' @ cr_mlsEncryptionPublicKey cred"

definition verifyMlsCredential ::
    "(string \<Rightarrow> string \<Rightarrow> string \<Rightarrow> bool) \<Rightarrow> CodexMlsCredential \<Rightarrow> string \<Rightarrow> bool" where
  "verifyMlsCredential ver cred dharmaIdentityKey =
     ver (hex_decode dharmaIdentityKey) (utf8 (credential_payload cred)) (hex_decode (cr_dharmaIdentitySignature cred))"

section \<open>Commit receipts\<close>

text \<open>
  The operation is a text: \<open>createMlsCommitReceipt\<close> casts its argument without a check.  \<open>sort\<close> works in
  place, so the arrays of a receipt are sorted once its identifier or payload was computed.
\<close>

record DharmaMlsCommitReceipt =
  cm_receiptId :: string
  cm_groupId :: string
  cm_priorEpoch :: int
  cm_nextEpoch :: int
  cm_mlsCommitDigest :: string
  cm_postCommitTreeHash :: string
  cm_operation :: string
  cm_affectedIdentities :: "string list"
  cm_policyDigest :: string
  cm_acceptedBy :: "string list"
  cm_decisionReceiptIds :: "string list"
  cm_headCommitment :: string
  cm_logicalTime :: string
  cm_signer :: string
  cm_signature :: string

definition createMlsCommitReceipt ::
    "(string \<Rightarrow> string) \<Rightarrow> string \<Rightarrow> int \<Rightarrow> int \<Rightarrow> string \<Rightarrow> string list \<Rightarrow> DharmaMlsCommitReceipt" where
  "createMlsCommitReceipt sha groupId priorEpoch nextEpoch operation affectedIdentities =
     (let rawId = groupId @ '':'' @ show_int priorEpoch @ '':'' @ show_int nextEpoch @ '':'' @ operation @ '':'' @
                  js_join '','' (sort_strings affectedIdentities);
          receiptId = take 16 (sha (utf8 rawId))
      in \<lparr>cm_receiptId = receiptId, cm_groupId = groupId, cm_priorEpoch = priorEpoch, cm_nextEpoch = nextEpoch,
          cm_mlsCommitDigest = [], cm_postCommitTreeHash = [], cm_operation = operation,
          cm_affectedIdentities = sort_strings affectedIdentities, cm_policyDigest = [], cm_acceptedBy = [],
          cm_decisionReceiptIds = [], cm_headCommitment = [], cm_logicalTime = [], cm_signer = [],
          cm_signature = []\<rparr>)"

definition canonicalReceiptPayload :: "DharmaMlsCommitReceipt \<Rightarrow> string" where
  "canonicalReceiptPayload r =
     js_join '':''
       [cm_receiptId r, cm_groupId r, show_int (cm_priorEpoch r), show_int (cm_nextEpoch r), cm_mlsCommitDigest r,
        cm_postCommitTreeHash r, cm_operation r, js_join '','' (sort_strings (cm_affectedIdentities r)),
        cm_policyDigest r, js_join '','' (sort_strings (cm_acceptedBy r)),
        js_join '','' (sort_strings (cm_decisionReceiptIds r)), cm_headCommitment r, cm_logicalTime r, cm_signer r]"

definition sort_receipt :: "DharmaMlsCommitReceipt \<Rightarrow> DharmaMlsCommitReceipt" where
  "sort_receipt r =
     r\<lparr>cm_affectedIdentities := sort_strings (cm_affectedIdentities r), cm_acceptedBy := sort_strings (cm_acceptedBy r),
       cm_decisionReceiptIds := sort_strings (cm_decisionReceiptIds r)\<rparr>"

definition signMlsCommitReceipt ::
    "(string \<Rightarrow> string \<Rightarrow> string option) \<Rightarrow> DharmaMlsCommitReceipt \<Rightarrow> string \<Rightarrow> DharmaMlsCommitReceipt option" where
  "signMlsCommitReceipt sig receipt signingKey =
     map_option (\<lambda>s. (sort_receipt receipt)\<lparr>cm_signature := hex_encode s\<rparr>)
       (sig signingKey (utf8 (canonicalReceiptPayload receipt)))"

section \<open>Keys of an epoch\<close>

definition epoch_info :: "string \<Rightarrow> int \<Rightarrow> string \<Rightarrow> string \<Rightarrow> int \<Rightarrow> string" where
  "epoch_info groupId epoch packetId domainId schemaVersion =
     EPOCH_KEY_DERIVATION_LABEL @ '':v'' @ show_int schemaVersion @ '':'' @ groupId @ '':'' @ show_int epoch @ '':'' @
     packetId @ '':'' @ domainId"

definition derivePacketWrappingKey ::
    "(string \<Rightarrow> string \<Rightarrow> string) \<Rightarrow> string \<Rightarrow> string \<Rightarrow> int \<Rightarrow> string \<Rightarrow> string \<Rightarrow> int \<Rightarrow> string" where
  "derivePacketWrappingKey hmac epochExporterSecret groupId epoch packetId domainId schemaVersion =
     (let info = utf8 (epoch_info groupId epoch packetId domainId schemaVersion);
          salt = replicate 32 (char_of (0 :: nat));
          prk = hmac salt epochExporterSecret
      in hmac prk (info @ [char_of (1 :: nat)]))"

definition wrapDekWithEpochKey ::
    "(string \<Rightarrow> string \<Rightarrow> string \<Rightarrow> string \<times> string) \<Rightarrow> string \<Rightarrow> string \<Rightarrow> string \<Rightarrow> string \<times> string \<times> string" where
  "wrapDekWithEpochKey enc iv dek wrappingKey =
     (let (encrypted, authTag) = enc wrappingKey iv dek in (encrypted, iv, authTag))"

definition unwrapDekWithEpochKey ::
    "(string \<Rightarrow> string \<Rightarrow> string \<Rightarrow> string \<Rightarrow> string option) \<Rightarrow> string \<Rightarrow> string \<Rightarrow> string \<Rightarrow> string \<Rightarrow> string option" where
  "unwrapDekWithEpochKey dec wrappedDek wrappingKey iv authTag = dec wrappingKey iv wrappedDek authTag"

section \<open>The lifecycle of a group\<close>

datatype GroupLifecycleState = GL_creating | GL_active | GL_epoch_transition | GL_suspended | GL_dissolved

fun GroupLifecycleState_str :: "GroupLifecycleState \<Rightarrow> string" where
  "GroupLifecycleState_str GL_creating = ''creating''"
| "GroupLifecycleState_str GL_active = ''active''"
| "GroupLifecycleState_str GL_epoch_transition = ''epoch_transition''"
| "GroupLifecycleState_str GL_suspended = ''suspended''"
| "GroupLifecycleState_str GL_dissolved = ''dissolved''"

record EpochEntry =
  eh_epoch :: int
  eh_committedAt :: timestamp
  eh_operation :: string
  eh_affectedIdentities :: "string list"

record GroupLifecycle =
  gl_descriptor :: CodexMlsGroupDescriptor
  gl_policy :: CodexMlsPolicy
  gl_state :: GroupLifecycleState
  gl_currentEpoch :: int
  gl_memberCount :: int
  gl_memberIdentities :: "string list"
  gl_epochHistory :: "EpochEntry list"
  gl_createdAt :: timestamp
  gl_lastTransitionAt :: timestamp

fun VALID_GROUP_TRANSITIONS :: "GroupLifecycleState \<Rightarrow> GroupLifecycleState list" where
  "VALID_GROUP_TRANSITIONS GL_creating = [GL_active]"
| "VALID_GROUP_TRANSITIONS GL_active = [GL_epoch_transition, GL_suspended, GL_dissolved]"
| "VALID_GROUP_TRANSITIONS GL_epoch_transition = [GL_active]"
| "VALID_GROUP_TRANSITIONS GL_suspended = [GL_active, GL_dissolved]"
| "VALID_GROUP_TRANSITIONS GL_dissolved = []"

definition createGroupLifecycle :: "millis \<Rightarrow> CodexMlsGroupDescriptor \<Rightarrow> CodexMlsPolicy \<Rightarrow> GroupLifecycle" where
  "createGroupLifecycle nowMs descriptor policy =
     \<lparr>gl_descriptor = descriptor, gl_policy = policy, gl_state = GL_creating, gl_currentEpoch = 0,
      gl_memberCount = 0, gl_memberIdentities = [], gl_epochHistory = [], gl_createdAt = Iso nowMs,
      gl_lastTransitionAt = Iso nowMs\<rparr>"

definition transitionGroupState :: "millis \<Rightarrow> GroupLifecycle \<Rightarrow> GroupLifecycleState \<Rightarrow> string + GroupLifecycle" where
  "transitionGroupState nowMs g newState =
     (if newState \<notin> set (VALID_GROUP_TRANSITIONS (gl_state g))
      then Inl (''Invalid group state transition: '' @ GroupLifecycleState_str (gl_state g) @ '' '' @ right_arrow @ '' '' @
                GroupLifecycleState_str newState)
      else Inr (g\<lparr>gl_state := newState, gl_lastTransitionAt := Iso nowMs\<rparr>))"

fun push_new :: "string list \<Rightarrow> string list \<Rightarrow> string list" where
  "push_new [] members = members"
| "push_new (i # is) members = push_new is (if i \<in> set members then members else members @ [i])"

definition recordEpochTransition :: "millis \<Rightarrow> GroupLifecycle \<Rightarrow> DharmaMlsCommitReceipt \<Rightarrow> string + GroupLifecycle" where
  "recordEpochTransition nowMs g receipt =
     (if gl_state g \<noteq> GL_active \<and> gl_state g \<noteq> GL_epoch_transition
      then Inl (''Cannot record epoch transition from state: '' @ GroupLifecycleState_str (gl_state g))
      else if cm_priorEpoch receipt \<noteq> gl_currentEpoch g
      then Inl (''Epoch mismatch: receipt priorEpoch '' @ show_int (cm_priorEpoch receipt) @ '' !== currentEpoch '' @
                show_int (gl_currentEpoch g))
      else if cm_nextEpoch receipt \<le> gl_currentEpoch g
      then Inl (''Receipt nextEpoch '' @ show_int (cm_nextEpoch receipt) @ '' must be > currentEpoch '' @
                show_int (gl_currentEpoch g))
      else
        let historyEntry = \<lparr>eh_epoch = cm_nextEpoch receipt, eh_committedAt = Iso nowMs,
                eh_operation = cm_operation receipt, eh_affectedIdentities = cm_affectedIdentities receipt\<rparr>;
            memberIdentities =
              (if cm_operation receipt = ''add'' then push_new (cm_affectedIdentities receipt) (gl_memberIdentities g)
               else if cm_operation receipt = ''remove''
               then List.filter (\<lambda>i. i \<notin> set (cm_affectedIdentities receipt)) (gl_memberIdentities g)
               else gl_memberIdentities g)
        in Inr (g\<lparr>gl_currentEpoch := cm_nextEpoch receipt, gl_memberCount := int (length memberIdentities),
             gl_memberIdentities := memberIdentities, gl_epochHistory := gl_epochHistory g @ [historyEntry],
             gl_state := GL_active, gl_lastTransitionAt := Iso nowMs\<rparr>))"

definition addMember :: "GroupLifecycle \<Rightarrow> string \<Rightarrow> string + GroupLifecycle" where
  "addMember g identityId =
     (if gl_state g \<noteq> GL_active
      then Inl (''Cannot add member when group is '' @ GroupLifecycleState_str (gl_state g))
      else if identityId \<in> set (gl_memberIdentities g) then Inr g
      else Inr (g\<lparr>gl_memberCount := gl_memberCount g + 1, gl_memberIdentities := gl_memberIdentities g @ [identityId]\<rparr>))"

definition removeMember :: "GroupLifecycle \<Rightarrow> string \<Rightarrow> string + GroupLifecycle" where
  "removeMember g identityId =
     (if gl_state g \<noteq> GL_active
      then Inl (''Cannot remove member when group is '' @ GroupLifecycleState_str (gl_state g))
      else if identityId \<notin> set (gl_memberIdentities g) then Inr g
      else Inr (g\<lparr>gl_memberCount := gl_memberCount g - 1,
             gl_memberIdentities := List.filter (\<lambda>i. i \<noteq> identityId) (gl_memberIdentities g)\<rparr>))"

definition group_isMemberActive :: "GroupLifecycle \<Rightarrow> string \<Rightarrow> bool" where
  "group_isMemberActive g identityId \<longleftrightarrow> identityId \<in> set (gl_memberIdentities g)"

definition canJoinDomain :: "MlsDomainKind \<Rightarrow> string \<Rightarrow> bool" where
  "canJoinDomain domainKind grantProfile =
     (case domainKind of
        MD_public \<Rightarrow> True
      | MD_contributor \<Rightarrow> grantProfile = ''contributor'' \<or> grantProfile = ''maintainer'' \<or> grantProfile = ''owner''
      | MD_project \<Rightarrow> grantProfile = ''maintainer'' \<or> grantProfile = ''owner'' \<or> grantProfile = ''policy_controller''
      | MD_session \<Rightarrow> grantProfile = ''session_participant'' \<or> grantProfile = ''owner'' \<or> grantProfile = ''maintainer''
      | MD_export_recovery \<Rightarrow> grantProfile = ''policy_controller'' \<or> grantProfile = ''owner'')"

definition getRequiredGroupCount :: "int \<Rightarrow> int" where
  "getRequiredGroupCount entries = (if entries \<le> 0 then 1 else - ((- entries) div 100000))"

section \<open>Members and epochs of a group\<close>

datatype group_op =
  To_state GroupLifecycleState | Commit_epoch DharmaMlsCommitReceipt | Add_member string | Remove_member string

fun apply_group_op :: "GroupLifecycle \<Rightarrow> millis \<times> group_op \<Rightarrow> string + GroupLifecycle" where
  "apply_group_op g (nowMs, To_state s) = transitionGroupState nowMs g s"
| "apply_group_op g (nowMs, Commit_epoch r) = recordEpochTransition nowMs g r"
| "apply_group_op g (nowMs, Add_member i) = addMember g i"
| "apply_group_op g (nowMs, Remove_member i) = removeMember g i"

text \<open>What a group is to its users: its state, its epoch and a set of members.\<close>

type_synonym roster = "GroupLifecycleState \<times> int \<times> string set"

fun roster_step :: "roster \<Rightarrow> group_op \<Rightarrow> roster option" where
  "roster_step (s, e, M) (To_state t) = (if t \<in> set (VALID_GROUP_TRANSITIONS s) then Some (t, e, M) else None)"
| "roster_step (s, e, M) (Commit_epoch r) =
     (if s \<in> {GL_active, GL_epoch_transition} \<and> cm_priorEpoch r = e \<and> e < cm_nextEpoch r
      then Some (GL_active, cm_nextEpoch r,
             if cm_operation r = ''add'' then M \<union> set (cm_affectedIdentities r)
             else if cm_operation r = ''remove'' then M - set (cm_affectedIdentities r) else M)
      else None)"
| "roster_step (s, e, M) (Add_member i) = (if s = GL_active then Some (s, e, insert i M) else None)"
| "roster_step (s, e, M) (Remove_member i) = (if s = GL_active then Some (s, e, M - {i}) else None)"

fun roster_run :: "roster \<Rightarrow> group_op list \<Rightarrow> roster option" where
  "roster_run a [] = Some a"
| "roster_run a (x # xs) = (case roster_step a x of None \<Rightarrow> None | Some b \<Rightarrow> roster_run b xs)"

definition roster_of :: "GroupLifecycle \<Rightarrow> roster" where
  "roster_of g = (gl_state g, gl_currentEpoch g, set (gl_memberIdentities g))"

definition group_epochs :: "GroupLifecycle \<Rightarrow> int list" where
  "group_epochs g = 0 # List.map eh_epoch (gl_epochHistory g)"

definition group_ok :: "GroupLifecycle \<Rightarrow> bool" where
  "group_ok g \<longleftrightarrow>
     distinct (gl_memberIdentities g) \<and> gl_memberCount g = int (length (gl_memberIdentities g)) \<and>
     sorted_wrt (<) (group_epochs g) \<and> last (group_epochs g) = gl_currentEpoch g"

lemma set_push_new [simp]: "set (push_new is members) = set is \<union> set members"
  by (induction "is" members rule: push_new.induct) auto

lemma distinct_push_new [simp]: "distinct members \<Longrightarrow> distinct (push_new is members)"
  by (induction "is" members rule: push_new.induct) auto

lemma increasing_last: "sorted_wrt (<) (xs :: int list) \<Longrightarrow> y \<in> set xs \<Longrightarrow> y \<le> last xs"
  by (cases xs rule: rev_cases) (auto simp: sorted_wrt_append less_imp_le)

lemma length_remove_member:
  assumes "distinct xs" "i \<in> set xs"
  shows "int (length (List.filter (\<lambda>j. j \<noteq> i) xs)) = int (length xs) - 1"
proof -
  have "List.filter (\<lambda>j. j \<noteq> i) xs = remove1 i xs"
    using distinct_remove1_removeAll [OF assms(1), of i] by (simp add: removeAll_filter_not_eq eq_commute)
  moreover from assms(2) obtain ys zs where "xs = ys @ i # zs" by (auto dest: split_list)
  ultimately show ?thesis by (simp add: length_remove1)
qed

lemma commit_ok:
  assumes "group_ok g" "recordEpochTransition nowMs g r = Inr h"
  shows "group_ok h"
proof -
  have "sorted_wrt (<) (group_epochs g @ [cm_nextEpoch r])"
    if "gl_currentEpoch g < cm_nextEpoch r"
    using assms(1) that increasing_last [of "group_epochs g"]
    unfolding group_ok_def sorted_wrt_append by fastforce
  with assms show ?thesis
    by (auto simp: recordEpochTransition_def group_ok_def group_epochs_def Let_def split: if_splits)
qed

lemma group_op_ok: "group_ok g \<Longrightarrow> apply_group_op g op = Inr h \<Longrightarrow> group_ok h"
proof (cases "(g, op)" rule: apply_group_op.cases)
  case (2 g' nowMs r)
  then show "group_ok g \<Longrightarrow> apply_group_op g op = Inr h \<Longrightarrow> group_ok h" by (auto intro: commit_ok)
qed (auto simp: group_ok_def group_epochs_def transitionGroupState_def addMember_def removeMember_def
       length_remove_member split: if_splits)

lemma group_op_refines:
  "(case apply_group_op g op of Inl _ \<Rightarrow> None | Inr h \<Rightarrow> Some (roster_of h)) = roster_step (roster_of g) (snd op)"
  by (cases "(g, op)" rule: apply_group_op.cases)
    (auto simp: roster_of_def transitionGroupState_def recordEpochTransition_def addMember_def removeMember_def Let_def)

text \<open>
  C31: a group refines its roster, a state with an epoch and a set of members.  A sequence of transitions,
  commits, additions and removals succeeds on a new group exactly when it does on the empty roster, and
  leads to the state, epoch and members the roster has; then no member is listed twice, \<open>memberCount\<close> is the
  number of members, the recorded epochs increase strictly from 0 and end at the current epoch, while the
  descriptor with its own epoch and the policy never change.
\<close>

theorem group_refines_roster:
  "case run_actions apply_group_op (createGroupLifecycle t d p) ops of
     Inl _ \<Rightarrow> roster_run (GL_creating, 0, {}) (List.map snd ops) = None
   | Inr g \<Rightarrow>
       roster_run (GL_creating, 0, {}) (List.map snd ops) = Some (roster_of g) \<and>
       distinct (gl_memberIdentities g) \<and> gl_memberCount g = int (length (gl_memberIdentities g)) \<and>
       sorted_wrt (<) (0 # List.map eh_epoch (gl_epochHistory g)) \<and>
       gl_currentEpoch g = last (0 # List.map eh_epoch (gl_epochHistory g)) \<and>
       gl_descriptor g = d \<and> gl_policy g = p"
proof -
  have "case run_actions apply_group_op g ops of
      Inl _ \<Rightarrow> roster_run (roster_of g) (List.map snd ops) = None
    | Inr h \<Rightarrow> roster_run (roster_of g) (List.map snd ops) = Some (roster_of h) \<and> group_ok h \<and>
        gl_descriptor h = gl_descriptor g \<and> gl_policy h = gl_policy g" if "group_ok g" for g
    using that
  proof (induction ops arbitrary: g)
    case (Cons op ops)
    show ?case
    proof (cases "apply_group_op g op")
      case (Inl e)
      with group_op_refines [of g op] show ?thesis by simp
    next
      case (Inr h)
      have "gl_descriptor h = gl_descriptor g \<and> gl_policy h = gl_policy g"
        using Inr by (cases "(g, op)" rule: apply_group_op.cases)
          (auto simp: transitionGroupState_def recordEpochTransition_def addMember_def removeMember_def Let_def
            split: if_splits)
      with Inr Cons.IH [OF group_op_ok [OF Cons.prems Inr]] group_op_refines [of g op, symmetric] show ?thesis
        by (auto split: sum.splits)
    qed
  qed simp
  from this [of "createGroupLifecycle t d p"] show ?thesis
    by (auto simp: group_ok_def group_epochs_def roster_of_def createGroupLifecycle_def split: sum.splits)
qed

section \<open>Contexts of epoch keys\<close>

definition colon_free :: "string \<Rightarrow> bool" where
  "colon_free s \<longleftrightarrow> CHR '':'' \<notin> set s"

lemma show_int_no_colon [simp]: "CHR '':'' \<notin> set (show_int i)"
  using show_nat_digits [of "CHR '':''"] by (auto simp: show_int_def is_digit_def)

lemma epoch_info_join:
  "epoch_info g e p d v = js_join '':'' [EPOCH_KEY_DERIVATION_LABEL, CHR ''v'' # show_int v, g, show_int e, p, d]"
  by (simp add: epoch_info_def)

lemma epoch_info_inject:
  assumes "colon_free g" "colon_free p" "colon_free d" "colon_free g'" "colon_free p'" "colon_free d'"
  shows "epoch_info g e p d v = epoch_info g' e' p' d' v' \<longleftrightarrow> (g, e, p, d, v) = (g', e', p', d', v')"
  unfolding epoch_info_join
  by (subst js_join_inject) (use assms in \<open>auto simp: colon_free_def EPOCH_KEY_DERIVATION_LABEL_def\<close>)

text \<open>
  Packet keys of one epoch secret are shared exactly between equal contexts, where group, packet and
  domain identifiers hold no colon and the HMAC tells the derivation texts apart; with colons the fields run
  into each other, and two contexts that differ in group, epoch and packet derive the same key for every
  secret.
\<close>

theorem epoch_keys_separate:
  assumes "colon_free g" "colon_free p" "colon_free d" "colon_free g'" "colon_free p'" "colon_free d'"
    and "inj (hmac (hmac (replicate 32 (char_of (0 :: nat))) secret))"
  shows "(derivePacketWrappingKey hmac secret g e p d v = derivePacketWrappingKey hmac secret g' e' p' d' v' \<longleftrightarrow>
          (g, e, p, d, v) = (g', e', p', d', v')) \<and>
         derivePacketWrappingKey h s (g @ '':1'') 2 p d v = derivePacketWrappingKey h s g 1 (''2:'' @ p) d v"
proof
  show "derivePacketWrappingKey hmac secret g e p d v = derivePacketWrappingKey hmac secret g' e' p' d' v' \<longleftrightarrow>
          (g, e, p, d, v) = (g', e', p', d', v')"
    using epoch_info_inject [OF assms(1-6), of e v e' v'] assms(7)
    by (simp add: derivePacketWrappingKey_def Let_def inj_eq)
  have "show_int 1 = ''1''" "show_int 2 = ''2''" by code_simp+
  then have "epoch_info (g @ '':1'') 2 p d v = epoch_info g 1 (''2:'' @ p) d v"
    by (simp add: epoch_info_def)
  then show "derivePacketWrappingKey h s (g @ '':1'') 2 p d v = derivePacketWrappingKey h s g 1 (''2:'' @ p) d v"
    by (simp add: derivePacketWrappingKey_def)
qed

theorem epoch_keys_separate_witness:
  "derivePacketWrappingKey (\<lambda>k x. k @ x) ''s'' ''a1'' 1 ''p'' ''d'' 1 \<noteq>
   derivePacketWrappingKey (\<lambda>k x. k @ x) ''s'' ''a1'' 2 ''p'' ''d'' 1"
proof -
  have "inj (\<lambda>x :: string. k @ x)" for k by (simp add: inj_def)
  from epoch_keys_separate [where hmac = "\<lambda>k x. k @ x" and g = "''a1''" and g' = "''a1''" and p = "''p''"
      and p' = "''p''" and d = "''d''" and d' = "''d''" and e = 1 and e' = 2 and v = 1 and v' = 1
      and secret = "''s''", OF _ _ _ _ _ _ this]
  show ?thesis by (simp add: colon_free_def)
qed

section \<open>Wrapping of keys\<close>

lemma wrap_unwrap:
  assumes "\<And>k iv x. dec k iv (fst (enc k iv x)) (snd (enc k iv x)) = Some x"
  shows "(case wrapDekWithEpochKey enc iv dek key of (c, iv', authTag) \<Rightarrow> unwrapDekWithEpochKey dec c key iv' authTag)
           = Some dek"
  using assms [of key iv dek] by (auto simp: wrapDekWithEpochKey_def unwrapDekWithEpochKey_def split: prod.splits)

end
