(* ===== verification/Js_Base64.thy ===== *)
theory Js_Base64 imports Js_Json begin

text \<open>
  \<open>Buffer.toString("base64")\<close> and \<open>Buffer.from(s, "base64")\<close>.  Reading stops at the first \<open>=\<close>, accepts both
  alphabets and skips characters of neither; an incomplete last group yields the bytes it determines.
\<close>

definition base64_char :: "nat \<Rightarrow> char" where
  "base64_char d = (if d = 62 then CHR ''+'' else if d = 63 then CHR ''/'' else base64url_char d)"

fun base64_encode :: "string \<Rightarrow> string" where
  "base64_encode [] = []"
| "base64_encode [a] =
     (let a = of_char a in [base64_char (a div 4), base64_char (a mod 4 * 16), CHR ''='', CHR ''=''])"
| "base64_encode [a, b] =
     (let a = of_char a; b = of_char b
      in [base64_char (a div 4), base64_char (a mod 4 * 16 + b div 16), base64_char (b mod 16 * 4), CHR ''=''])"
| "base64_encode (a # b # c # r) =
     (let a = of_char a; b = of_char b; c = of_char c
      in [base64_char (a div 4), base64_char (a mod 4 * 16 + b div 16), base64_char (b mod 16 * 4 + c div 64),
          base64_char (c mod 64)]) @ base64_encode r"

definition base64_value :: "char \<Rightarrow> nat option" where
  "base64_value c =
     (let n = of_char c :: nat
      in if 65 \<le> n \<and> n \<le> 90 then Some (n - 65)
         else if 97 \<le> n \<and> n \<le> 122 then Some (n - 71)
         else if 48 \<le> n \<and> n \<le> 57 then Some (n + 4)
         else if c = CHR ''+'' \<or> c = CHR ''-'' then Some 62
         else if c = CHR ''/'' \<or> c = CHR ''_'' then Some 63 else None)"

fun sextets :: "nat list \<Rightarrow> string" where
  "sextets (a # b # c # d # r) =
     char_of (a * 4 + b div 16) # char_of (b mod 16 * 16 + c div 4) # char_of (c mod 4 * 64 + d) # sextets r"
| "sextets [a, b, c] = [char_of (a * 4 + b div 16), char_of (b mod 16 * 16 + c div 4)]"
| "sextets [a, b] = [char_of (a * 4 + b div 16)]"
| "sextets _ = []"

definition base64_decode :: "string \<Rightarrow> string" where
  "base64_decode s = sextets (List.map_filter base64_value (takeWhile (\<lambda>c. c \<noteq> CHR ''='') s))"

lemma all_below_64: "(\<forall>d < 64. P d) \<longleftrightarrow> list_all P [0..<64]"
  by (auto simp: list_all_iff)

lemma base64_char_value:
  assumes "d < 64"
  shows "base64_char d \<noteq> CHR ''=''" "base64_value (base64_char d) = Some d"
proof -
  have "\<forall>d < 64. base64_char d \<noteq> CHR ''='' \<and> base64_value (base64_char d) = Some d"
    unfolding all_below_64 by code_simp
  with assms show "base64_char d \<noteq> CHR ''=''" "base64_value (base64_char d) = Some d" by blast+
qed

lemma byte_bound: "(of_char c :: nat) < 256"
  by simp

lemma char_of_byte [simp]: "(char_of (of_char c :: nat) :: char) = c"
  by simp

lemma sextet_bounds:
  "(of_char c :: nat) div 4 < 64" "(of_char c :: nat) mod 4 * 16 + of_char b div 16 < 64"
  "(of_char c :: nat) mod 16 * 4 + of_char b div 64 < 64" "(of_char c :: nat) mod 4 * 16 < 64"
  "(of_char c :: nat) mod 16 * 4 < 64" "(of_char c :: nat) mod 64 < 64"
  using byte_bound [of c] byte_bound [of b] by linarith+

lemma split_byte:
  "(of_char c :: nat) div 16 div 16 = 0" "(of_char c :: nat) div 64 div 4 = 0"
  "(of_char c :: nat) div 16 mod 16 = of_char c div 16" "(of_char c :: nat) div 64 mod 4 = of_char c div 64"
  using byte_bound [of c] by (simp_all add: div_less_iff_less_mult)

lemma base64_decode_encode [simp]: "base64_decode (base64_encode s) = s"
  unfolding base64_decode_def
  by (induction s rule: base64_encode.induct)
    (simp_all add: Let_def base64_char_value sextet_bounds split_byte map_filter_simps)

end
