(* ===== verification/Codex_Leases.thy ===== *)
theory Codex_Leases imports Dharma_Events Js_Map begin

text \<open>
  Leases that gate the decryption of packets (\<open>dharma/codex/mls/mls-leases.ts\<close>).  \<open>hmac key data\<close> is the
  HMAC-SHA256 of \<open>node:crypto\<close> as bytes; random bytes and the clock are arguments.  The store is passed as
  state: \<open>issueLease\<close> changes it in place, the other operations return a new one.
\<close>

section \<open>Leases and their store\<close>

definition DEFAULT_MAX_OPERATIONS :: int where
  "DEFAULT_MAX_OPERATIONS = 100"

text \<open>Purposes are texts; \<open>createLeaseRequest\<close> of the lease authority casts them without a check.\<close>

type_synonym LeasePurpose = string

record DecryptionLease =
  de_leaseId :: string
  de_packetId :: string
  de_groupId :: string
  de_requestorIdentity :: string
  de_purpose :: LeasePurpose
  de_issuedAt :: timestamp
  de_expiresAt :: timestamp
  de_maxOperations :: int
  de_remainingOperations :: int
  de_signature :: string

record LeaseStore =
  ls_activeLeases :: "(string \<times> DecryptionLease) list"
  ls_revokedLeases :: "string list"
  ls_leaseCount :: int
  ls_signingKey :: string

definition createLeaseStore :: "string \<Rightarrow> LeaseStore" where
  "createLeaseStore random =
     \<lparr>ls_activeLeases = [], ls_revokedLeases = [], ls_leaseCount = 0, ls_signingKey = hex_encode random\<rparr>"

section \<open>Signatures of leases\<close>

definition canonicalLeasePayload :: "DecryptionLease \<Rightarrow> string" where
  "canonicalLeasePayload lease =
     js_join '':''
       [de_leaseId lease, de_packetId lease, de_groupId lease, de_requestorIdentity lease,
        de_purpose lease, timestamp_str (de_issuedAt lease), timestamp_str (de_expiresAt lease),
        show_int (de_maxOperations lease), show_int (de_remainingOperations lease)]"

definition signLease :: "(string \<Rightarrow> string \<Rightarrow> string) \<Rightarrow> DecryptionLease \<Rightarrow> string \<Rightarrow> string" where
  "signLease hmac lease signingKey = hex_encode (hmac (utf8 signingKey) (utf8 (canonicalLeasePayload lease)))"

text \<open>\<open>timingSafeEqual\<close> throws for buffers of different length, which the code turns into false.\<close>

definition verifyLeaseSignature :: "(string \<Rightarrow> string \<Rightarrow> string) \<Rightarrow> DecryptionLease \<Rightarrow> string \<Rightarrow> bool" where
  "verifyLeaseSignature hmac lease signingKey \<longleftrightarrow>
     hex_decode (signLease hmac lease signingKey) = hex_decode (de_signature lease)"

section \<open>Operations\<close>

definition issueLease ::
    "(string \<Rightarrow> string \<Rightarrow> string) \<Rightarrow> string \<Rightarrow> millis \<Rightarrow> LeaseStore \<Rightarrow> string \<Rightarrow> string \<Rightarrow> string \<Rightarrow> LeasePurpose \<Rightarrow> int \<Rightarrow>
     DecryptionLease \<times> LeaseStore" where
  "issueLease hmac random nowMs store packetId groupId requestor purpose ttlMs =
     (let leaseId = hex_encode random;
          lease = \<lparr>de_leaseId = leaseId, de_packetId = packetId, de_groupId = groupId,
            de_requestorIdentity = requestor, de_purpose = purpose, de_issuedAt = Iso nowMs,
            de_expiresAt = Iso (nowMs + ttlMs), de_maxOperations = DEFAULT_MAX_OPERATIONS,
            de_remainingOperations = DEFAULT_MAX_OPERATIONS, de_signature = []\<rparr>;
          lease = lease\<lparr>de_signature := signLease hmac lease (ls_signingKey store)\<rparr>
      in (lease, store\<lparr>ls_activeLeases := map_set leaseId lease (ls_activeLeases store),
            ls_leaseCount := ls_leaseCount store + 1\<rparr>))"

definition isLeaseExpired :: "millis \<Rightarrow> DecryptionLease \<Rightarrow> bool" where
  "isLeaseExpired nowMs lease = now_gt nowMs (de_expiresAt lease)"

definition verifyLease :: "(string \<Rightarrow> string \<Rightarrow> string) \<Rightarrow> millis \<Rightarrow> LeaseStore \<Rightarrow> DecryptionLease \<Rightarrow> bool \<times> string option" where
  "verifyLease hmac nowMs store lease =
     (if de_leaseId lease \<in> set (ls_revokedLeases store) then (False, Some ''Lease has been revoked'')
      else if \<not> verifyLeaseSignature hmac lease (ls_signingKey store) then (False, Some ''Lease signature is invalid'')
      else if isLeaseExpired nowMs lease then (False, Some ''Lease has expired'')
      else if de_remainingOperations lease \<le> 0 then (False, Some ''Lease has no remaining operations'')
      else (True, None))"

definition consumeLease :: "(string \<Rightarrow> string \<Rightarrow> string) \<Rightarrow> millis \<Rightarrow> LeaseStore \<Rightarrow> string \<Rightarrow> string + LeaseStore" where
  "consumeLease hmac nowMs store leaseId =
     (case map_get (ls_activeLeases store) leaseId of
        None \<Rightarrow> Inl (''Lease not found: '' @ leaseId)
      | Some lease \<Rightarrow>
          (case verifyLease hmac nowMs store lease of
             (False, reason) \<Rightarrow> Inl (''Cannot consume lease: '' @ (case reason of None \<Rightarrow> ''null'' | Some r \<Rightarrow> r))
           | (True, _) \<Rightarrow>
               let updated = lease\<lparr>de_remainingOperations := de_remainingOperations lease - 1\<rparr>;
                   updated = updated\<lparr>de_signature := signLease hmac updated (ls_signingKey store)\<rparr>
               in Inr (store\<lparr>ls_activeLeases := map_set leaseId updated (ls_activeLeases store)\<rparr>)))"

definition set_add :: "'a \<Rightarrow> 'a list \<Rightarrow> 'a list" where
  "set_add x xs = (if x \<in> set xs then xs else xs @ [x])"

definition revokeLease :: "LeaseStore \<Rightarrow> string \<Rightarrow> LeaseStore" where
  "revokeLease store leaseId =
     store\<lparr>ls_activeLeases := map_delete leaseId (ls_activeLeases store),
       ls_revokedLeases := set_add leaseId (ls_revokedLeases store)\<rparr>"

definition canDecryptPacket :: "(string \<Rightarrow> string \<Rightarrow> string) \<Rightarrow> millis \<Rightarrow> LeaseStore \<Rightarrow> DecryptionLease \<Rightarrow> bool" where
  "canDecryptPacket hmac nowMs store lease = fst (verifyLease hmac nowMs store lease)"

section \<open>Histories of a store\<close>

datatype lease_op =
  Issue string millis string string string LeasePurpose int | Consume millis string | Revoke string

text \<open>A call that throws leaves the store as it is; the flag tells whether a consumption succeeded.\<close>

fun apply_lease_op :: "(string \<Rightarrow> string \<Rightarrow> string) \<Rightarrow> lease_op \<Rightarrow> LeaseStore \<Rightarrow> LeaseStore \<times> bool" where
  "apply_lease_op hmac (Issue random t p g r u ttl) st = (snd (issueLease hmac random t st p g r u ttl), False)"
| "apply_lease_op hmac (Consume t leaseId) st =
     (case consumeLease hmac t st leaseId of Inl _ \<Rightarrow> (st, False) | Inr st' \<Rightarrow> (st', True))"
| "apply_lease_op hmac (Revoke leaseId) st = (revokeLease st leaseId, False)"

fun lease_run :: "(string \<Rightarrow> string \<Rightarrow> string) \<Rightarrow> lease_op list \<Rightarrow> LeaseStore \<Rightarrow> LeaseStore" where
  "lease_run hmac [] st = st"
| "lease_run hmac (x # xs) st = lease_run hmac xs (fst (apply_lease_op hmac x st))"

text \<open>How often a lease is consumed in a history, and which leases it issues and revokes.\<close>

fun lease_uses :: "(string \<Rightarrow> string \<Rightarrow> string) \<Rightarrow> string \<Rightarrow> lease_op list \<Rightarrow> LeaseStore \<Rightarrow> int" where
  "lease_uses hmac i [] st = 0"
| "lease_uses hmac i (x # xs) st =
     (case x of Consume t j \<Rightarrow> if j = i \<and> snd (apply_lease_op hmac x st) then 1 else 0 | _ \<Rightarrow> 0) +
     lease_uses hmac i xs (fst (apply_lease_op hmac x st))"

fun issued_leases :: "lease_op list \<Rightarrow> string list" where
  "issued_leases [] = []"
| "issued_leases (Issue random t p g r u ttl # xs) = hex_encode random # issued_leases xs"
| "issued_leases (x # xs) = issued_leases xs"

definition revokes :: "string \<Rightarrow> lease_op list \<Rightarrow> bool" where
  "revokes i ops \<longleftrightarrow> Revoke i \<in> set ops"

lemma signLease_ignores_signature [simp]: "signLease hmac (l\<lparr>de_signature := s\<rparr>) k = signLease hmac l k"
  by (simp add: signLease_def canonicalLeasePayload_def)

lemma verify_own_signature [simp]:
  "verifyLeaseSignature hmac (l\<lparr>de_signature := signLease hmac l k\<rparr>) k"
  by (simp add: verifyLeaseSignature_def)

lemma set_set_add [simp]: "set (set_add x xs) = insert x (set xs)"
  by (auto simp: set_add_def)

lemma lease_run_key [simp]: "ls_signingKey (lease_run hmac ops st) = ls_signingKey st"
proof (induction ops arbitrary: st)
  case (Cons x xs)
  have "ls_signingKey (fst (apply_lease_op hmac x st)) = ls_signingKey st"
    by (cases x) (auto simp: issueLease_def Let_def consumeLease_def revokeLease_def
        split: sum.splits option.splits prod.splits bool.splits)
  with Cons.IH show ?case by simp
qed simp

lemma lease_run_revoked:
  "i \<in> set (ls_revokedLeases (lease_run hmac ops st)) \<longleftrightarrow> i \<in> set (ls_revokedLeases st) \<or> revokes i ops"
proof (induction ops arbitrary: st)
  case (Cons x xs)
  have "i \<in> set (ls_revokedLeases (fst (apply_lease_op hmac x st))) \<longleftrightarrow> i \<in> set (ls_revokedLeases st) \<or> x = Revoke i"
    by (cases x) (auto simp: issueLease_def Let_def consumeLease_def revokeLease_def
        split: sum.splits option.splits prod.splits bool.splits)
  with Cons.IH show ?case by (auto simp: revokes_def)
qed (simp add: revokes_def)

section \<open>The budget of a lease\<close>

text \<open>The lease stored under an identifier, and its remaining operations as the store counts them.\<close>

definition stored_remaining :: "LeaseStore \<Rightarrow> string \<Rightarrow> int option" where
  "stored_remaining st i = map_option de_remainingOperations (map_get (ls_activeLeases st) i)"

lemma consumeLease_effect:
  assumes "consumeLease hmac t st j = Inr st'"
  shows "\<exists>r. stored_remaining st j = Some r \<and> 0 < r \<and>
     stored_remaining st' i = (if i = j then Some (r - 1) else stored_remaining st i)"
  using assms by (auto simp: consumeLease_def verifyLease_def stored_remaining_def Let_def
      split: option.splits prod.splits bool.splits if_splits)

lemma stored_issue:
  "stored_remaining (snd (issueLease hmac random t st p g r u ttl)) i =
     (if i = hex_encode random then Some DEFAULT_MAX_OPERATIONS else stored_remaining st i)"
  by (simp add: issueLease_def Let_def stored_remaining_def)

lemma stored_revoke: "stored_remaining (revokeLease st j) i = (if i = j then None else stored_remaining st i)"
  by (simp add: revokeLease_def stored_remaining_def)

text \<open>What a history that does not issue a lease again uses of it, by the operations it has left.\<close>

definition metered :: "(string \<Rightarrow> string \<Rightarrow> string) \<Rightarrow> string \<Rightarrow> lease_op list \<Rightarrow> LeaseStore \<Rightarrow> bool" where
  "metered hmac i ops st =
     (case stored_remaining st i of
        None \<Rightarrow> lease_uses hmac i ops st = 0 \<and> stored_remaining (lease_run hmac ops st) i = None
      | Some r \<Rightarrow> 0 \<le> r \<longrightarrow> lease_uses hmac i ops st \<le> r \<and>
          (\<forall>r'. stored_remaining (lease_run hmac ops st) i = Some r' \<longrightarrow> 0 \<le> r' \<and> lease_uses hmac i ops st = r - r'))"

lemma metered_step:
  assumes "metered hmac i xs (fst (apply_lease_op hmac x st))" "i \<notin> set (issued_leases [x])"
  shows "metered hmac i (x # xs) st"
proof (cases x)
  case (Issue random t p g r u ttl)
  with assms show ?thesis by (auto simp: metered_def stored_issue split: option.splits)
next
  case (Revoke j)
  with assms show ?thesis by (cases "i = j") (auto simp: metered_def stored_revoke split: option.splits)
next
  case (Consume t j)
  show ?thesis
  proof (cases "consumeLease hmac t st j")
    case Inl
    with Consume assms show ?thesis by (auto simp: metered_def split: option.splits)
  next
    case (Inr st')
    from consumeLease_effect [OF Inr, of i] obtain r where "stored_remaining st j = Some r" "0 < r"
      "stored_remaining st' i = (if i = j then Some (r - 1) else stored_remaining st i)" by blast
    with Consume Inr assms show ?thesis by (cases "i = j") (auto simp: metered_def split: option.splits)
  qed
qed

lemma metered_history: "i \<notin> set (issued_leases ops) \<Longrightarrow> metered hmac i ops st"
proof (induction ops arbitrary: st)
  case (Cons x xs st)
  then have "i \<notin> set (issued_leases xs)" "i \<notin> set (issued_leases [x])" by (cases x; simp)+
  with Cons.IH show ?case by (blast intro: metered_step)
qed (simp add: metered_def split: option.splits)

text \<open>
  The store meters a lease exactly.  In every history of issues, consumptions and revocations with
  different lease identifiers a lease is consumed successfully at most 100 times, and while it is active its
  remaining operations are 100 less the consumptions so far.
\<close>

theorem lease_budget_exact:
  assumes "distinct (issued_leases ops)"
  shows "lease_uses hmac i ops (createLeaseStore random) \<le> 100 \<and>
    (\<forall>r. stored_remaining (lease_run hmac ops (createLeaseStore random)) i = Some r \<longrightarrow>
       0 \<le> r \<and> lease_uses hmac i ops (createLeaseStore random) = 100 - r)"
proof -
  have "lease_uses hmac i ops st \<le> 100 \<and>
      (\<forall>r. stored_remaining (lease_run hmac ops st) i = Some r \<longrightarrow> 0 \<le> r \<and> lease_uses hmac i ops st = 100 - r)"
    if "stored_remaining st i = None" for st
    using that assms
  proof (induction ops arbitrary: st)
    case (Cons x xs)
    show ?case
    proof (cases "\<exists>random t p g r u ttl. x = Issue random t p g r u ttl \<and> hex_encode random = i")
      case True
      then obtain random t p g r u ttl where x: "x = Issue random t p g r u ttl" "hex_encode random = i" by blast
      with Cons.prems have "i \<notin> set (issued_leases xs)" by simp
      from metered_history [OF this, of hmac "fst (apply_lease_op hmac x st)"] x show ?thesis
        by (auto simp: metered_def stored_issue DEFAULT_MAX_OPERATIONS_def)
    next
      case False
      have "stored_remaining (fst (apply_lease_op hmac x st)) i = None \<and>
          (case x of Consume t j \<Rightarrow> j = i \<longrightarrow> \<not> snd (apply_lease_op hmac x st) | _ \<Rightarrow> True)"
        using False Cons.prems(1) consumeLease_effect [where st = st and i = i and hmac = hmac]
        by (cases x) (fastforce simp: stored_issue stored_revoke split: sum.splits)+
      with Cons.IH [of "fst (apply_lease_op hmac x st)"] Cons.prems(2) show ?thesis
        by (cases x) auto
    qed
  qed simp
  from this [of "createLeaseStore random"] show ?thesis by (simp add: createLeaseStore_def stored_remaining_def)
qed

theorem lease_budget_exact_witness:
  "lease_uses (\<lambda>k x. x) ''41'' (Issue ''A'' 0 ''p'' ''g'' ''r'' ''read'' 10 # replicate 3 (Consume 5 ''41''))
     (createLeaseStore ''k'') \<le> 100"
  using lease_budget_exact [of "Issue ''A'' 0 ''p'' ''g'' ''r'' ''read'' 10 # replicate 3 (Consume 5 ''41'')"
      "\<lambda>k x. x" "''41''" "''k''"]
  by (simp add: numeral_3_eq_3)

text \<open>
  The holder of a lease is not metered.  The lease as it was issued decrypts at a later time exactly when
  it has not been revoked since and its time has not run out, however often the store has consumed it,
  since the check reads the operations left from the lease it is given.
\<close>

theorem issued_lease_stays_valid:
  assumes "issueLease hmac random t st p g r u ttl = (lease, st1)"
    and "hex_encode random \<notin> set (ls_revokedLeases st)"
  shows "canDecryptPacket hmac nowMs (lease_run hmac ops st1) lease \<longleftrightarrow>
     \<not> revokes (de_leaseId lease) ops \<and> nowMs \<le> t + ttl"
proof -
  from assms(1) have "de_leaseId lease = hex_encode random" "de_expiresAt lease = Iso (t + ttl)"
    "de_remainingOperations lease = 100" "verifyLeaseSignature hmac lease (ls_signingKey st1)"
    "ls_revokedLeases st1 = ls_revokedLeases st"
    by (auto simp: issueLease_def Let_def verifyLeaseSignature_def signLease_def canonicalLeasePayload_def
        DEFAULT_MAX_OPERATIONS_def)
  with assms(2) show ?thesis
    by (auto simp: canDecryptPacket_def verifyLease_def isLeaseExpired_def lease_run_revoked)
qed

theorem issued_lease_stays_valid_witness:
  "canDecryptPacket (\<lambda>k x. x) 10
     (lease_run (\<lambda>k x. x) (replicate 200 (Consume 5 ''41''))
        (snd (issueLease (\<lambda>k x. x) ''A'' 0 (createLeaseStore ''k'') ''p'' ''g'' ''r'' ''read'' 10)))
     (fst (issueLease (\<lambda>k x. x) ''A'' 0 (createLeaseStore ''k'') ''p'' ''g'' ''r'' ''read'' 10))"
proof -
  have "\<not> revokes i (replicate n (Consume 5 ''41''))" for i n by (simp add: revokes_def)
  with issued_lease_stays_valid [of "\<lambda>k x. x" "''A''" 0 "createLeaseStore ''k''" "''p''" "''g''" "''r''" "''read''" 10
      _ _ 10 "replicate 200 (Consume 5 ''41'')", OF prod.collapse [symmetric]]
  show ?thesis by (simp add: createLeaseStore_def)
qed

end
