(* ===== verification/Codex_Release.thy ===== *)
theory Codex_Release imports Js_Base64 Codex_Leases Transition_Systems begin

text \<open>
  The external authority that signs decryption leases (\<open>dharma/codex/mls/lease-authority.ts\<close>) and the release
  sessions that gate an export (\<open>dharma/codex/campaign/release-session.ts\<close>).  SHA-256, Ed25519, generated key
  pairs, random bytes and the clock are arguments; \<open>None\<close> is the exception of \<open>sign\<close> for a key it rejects.
  The request over HTTP is not modelled.  \<open>checkSessionBinding\<close> is imported by \<open>release-session.ts\<close> and defined
  nowhere; it is the parameter \<open>csb\<close>.
\<close>

section \<open>The lease authority\<close>

definition AUTHORITY_SIGNING_LABEL :: string where
  "AUTHORITY_SIGNING_LABEL = ''codex-mls-lease-authority-v1''"

record LeaseAuthority =
  au_publicKey :: string
  au_privateKey :: string
  au_serial :: int

definition createLeaseAuthority :: "string \<times> string \<Rightarrow> LeaseAuthority" where
  "createLeaseAuthority kp = \<lparr>au_publicKey = fst kp, au_privateKey = snd kp, au_serial = 0\<rparr>"

definition getLeaseAuthorityPublicKey :: "LeaseAuthority \<Rightarrow> string" where
  "getLeaseAuthorityPublicKey authority = base64_encode (au_publicKey authority)"

record AuthorityLeaseRequest =
  aq_packetId :: string
  aq_groupId :: string
  aq_requestorIdentity :: string
  aq_purpose :: LeasePurpose
  aq_ttlMs :: int
  aq_maxOperations :: int
  aq_requestorSignature :: string

definition canonicalRequestPayload :: "AuthorityLeaseRequest \<Rightarrow> string" where
  "canonicalRequestPayload request =
     js_join '':''
       [AUTHORITY_SIGNING_LABEL, ''lease-request'', aq_packetId request, aq_groupId request,
        aq_requestorIdentity request, aq_purpose request, show_int (aq_ttlMs request),
        show_int (aq_maxOperations request)]"

definition createLeaseRequest ::
    "(string \<Rightarrow> string \<Rightarrow> string option) \<Rightarrow> string \<Rightarrow> string \<Rightarrow> string \<Rightarrow> string \<Rightarrow> int \<Rightarrow> string \<Rightarrow> int option \<Rightarrow>
     AuthorityLeaseRequest option" where
  "createLeaseRequest sig packetId groupId requestorIdentity purpose ttlMs signingKey maxOperations =
     (let ops = nullish maxOperations DEFAULT_MAX_OPERATIONS;
          request = \<lparr>aq_packetId = packetId, aq_groupId = groupId, aq_requestorIdentity = requestorIdentity,
            aq_purpose = purpose, aq_ttlMs = ttlMs, aq_maxOperations = ops, aq_requestorSignature = []\<rparr>
      in map_option (\<lambda>s. request\<lparr>aq_requestorSignature := base64_encode s\<rparr>)
           (sig signingKey (utf8 (canonicalRequestPayload request))))"

definition verifyLeaseRequest :: "(string \<Rightarrow> string \<Rightarrow> string \<Rightarrow> bool) \<Rightarrow> AuthorityLeaseRequest \<Rightarrow> string \<Rightarrow> bool" where
  "verifyLeaseRequest ver request requestorPublicKey =
     ver requestorPublicKey (utf8 (canonicalRequestPayload request)) (base64_decode (aq_requestorSignature request))"

record LeasePolicy =
  ap_maxTtlMs :: int
  ap_maxOperations :: int
  ap_rateLimitPerMinute :: int
  ap_allowedPurposes :: "LeasePurpose list"
  ap_requireRequestorSignature :: bool
  ap_revocationEnabled :: bool

definition createDefaultLeasePolicy :: LeasePolicy where
  "createDefaultLeasePolicy =
     \<lparr>ap_maxTtlMs = 300000, ap_maxOperations = DEFAULT_MAX_OPERATIONS, ap_rateLimitPerMinute = 60,
      ap_allowedPurposes = [''read'', ''export'', ''replication''], ap_requireRequestorSignature = True,
      ap_revocationEnabled = True\<rparr>"

definition checkLeaseRequestPolicy :: "AuthorityLeaseRequest \<Rightarrow> LeasePolicy \<Rightarrow> int \<Rightarrow> bool \<times> string option" where
  "checkLeaseRequestPolicy request policy recentRequests =
     (if aq_ttlMs request > ap_maxTtlMs policy
      then (False, Some (''Requested TTL '' @ show_int (aq_ttlMs request) @ ''ms exceeds policy maximum '' @
              show_int (ap_maxTtlMs policy) @ ''ms''))
      else if aq_maxOperations request > ap_maxOperations policy
      then (False, Some (''Requested '' @ show_int (aq_maxOperations request) @ '' operations exceeds policy maximum '' @
              show_int (ap_maxOperations policy)))
      else if aq_purpose request \<notin> set (ap_allowedPurposes policy)
      then (False, Some (''Purpose '' @ quoted (aq_purpose request) @ '' is not in allowed set''))
      else if recentRequests \<ge> ap_rateLimitPerMinute policy
      then (False, Some (''Rate limit of '' @ show_int (ap_rateLimitPerMinute policy) @ '' requests per minute exceeded''))
      else (True, None))"

definition authority_canonicalLeasePayload :: "DecryptionLease \<Rightarrow> string" where
  "authority_canonicalLeasePayload lease =
     js_join '':''
       [AUTHORITY_SIGNING_LABEL, ''decryption-lease'', de_leaseId lease, de_packetId lease, de_groupId lease,
        de_requestorIdentity lease, de_purpose lease, timestamp_str (de_issuedAt lease),
        timestamp_str (de_expiresAt lease), show_int (de_maxOperations lease), show_int (de_remainingOperations lease)]"

text \<open>\<open>toISOString\<close> throws a \<open>RangeError\<close> for an instant more than 100,000,000 days from the epoch.\<close>

definition date_in_range :: "millis \<Rightarrow> bool" where
  "date_in_range t \<longleftrightarrow> \<bar>t\<bar> \<le> 8640000000000000"

definition authority_signLease ::
    "(string \<Rightarrow> string \<Rightarrow> string option) \<Rightarrow> string \<Rightarrow> millis \<Rightarrow> LeaseAuthority \<Rightarrow> AuthorityLeaseRequest \<Rightarrow>
     (DecryptionLease \<times> LeaseAuthority) option" where
  "authority_signLease sig random nowMs authority request =
     (if \<not> date_in_range nowMs \<or> \<not> date_in_range (nowMs + aq_ttlMs request) then None
      else let lease = \<lparr>de_leaseId = hex_encode random, de_packetId = aq_packetId request,
            de_groupId = aq_groupId request, de_requestorIdentity = aq_requestorIdentity request,
            de_purpose = aq_purpose request, de_issuedAt = Iso nowMs,
            de_expiresAt = Iso (nowMs + aq_ttlMs request), de_maxOperations = aq_maxOperations request,
            de_remainingOperations = aq_maxOperations request, de_signature = []\<rparr>
      in case sig (au_privateKey authority) (utf8 (authority_canonicalLeasePayload lease)) of
           None \<Rightarrow> None
         | Some s \<Rightarrow> Some (lease\<lparr>de_signature := base64_encode s\<rparr>, authority\<lparr>au_serial := au_serial authority + 1\<rparr>))"

definition authority_verifyLeaseSignature ::
    "(string \<Rightarrow> string \<Rightarrow> string \<Rightarrow> bool) \<Rightarrow> DecryptionLease \<Rightarrow> string \<Rightarrow> bool" where
  "authority_verifyLeaseSignature ver lease authorityPublicKey =
     ver authorityPublicKey (utf8 (authority_canonicalLeasePayload (lease\<lparr>de_signature := []\<rparr>)))
       (base64_decode (de_signature lease))"

record LeaseAuthorityStore =
  at_authority :: LeaseAuthority
  at_policy :: LeasePolicy
  at_issuedLeases :: "(string \<times> DecryptionLease) list"
  at_revokedLeases :: "string list"
  at_requestLog :: "(millis \<times> string) list"

definition createLeaseAuthorityStore :: "string \<times> string \<Rightarrow> LeasePolicy option \<Rightarrow> LeaseAuthorityStore" where
  "createLeaseAuthorityStore kp policy =
     \<lparr>at_authority = createLeaseAuthority kp, at_policy = nullish policy createDefaultLeasePolicy,
      at_issuedLeases = [], at_revokedLeases = [], at_requestLog = []\<rparr>"

definition recent_requests :: "millis \<Rightarrow> string \<Rightarrow> (millis \<times> string) list \<Rightarrow> int" where
  "recent_requests oneMinuteAgo who log =
     int (length (List.filter (\<lambda>(stamp, i). i = who \<and> stamp > oneMinuteAgo) log))"

text \<open>The clock is read before the policy check, for the lease and for the log.\<close>

definition authority_issueLease ::
    "(string \<Rightarrow> string \<Rightarrow> string option) \<Rightarrow> string \<Rightarrow> millis \<times> millis \<times> millis \<Rightarrow> LeaseAuthorityStore \<Rightarrow>
     AuthorityLeaseRequest \<Rightarrow> ((DecryptionLease option \<times> string option) \<times> LeaseAuthorityStore) option" where
  "authority_issueLease sig random clock store request =
     (case clock of (t1, t2, t3) \<Rightarrow>
       if ap_requireRequestorSignature (at_policy store) \<and>
          length (base64_decode (aq_requestorSignature request)) < 64
       then Some ((None, Some ''Requestor signature is not valid''), store)
       else
         let recentRequests = recent_requests (t1 - 60000) (aq_requestorIdentity request) (at_requestLog store)
         in case checkLeaseRequestPolicy request (at_policy store) recentRequests of
              (False, reason) \<Rightarrow> Some ((None, reason), store)
            | (True, _) \<Rightarrow>
                (case authority_signLease sig random t2 (at_authority store) request of
                   None \<Rightarrow> None
                 | Some (lease, authority) \<Rightarrow>
                     Some ((Some lease, None),
                       store\<lparr>at_authority := authority,
                         at_issuedLeases := map_set (de_leaseId lease) lease (at_issuedLeases store),
                         at_requestLog := at_requestLog store @ [(t3, aq_requestorIdentity request)]\<rparr>)))"

definition authority_revokeLease :: "LeaseAuthorityStore \<Rightarrow> string \<Rightarrow> bool \<times> LeaseAuthorityStore" where
  "authority_revokeLease store leaseId =
     (if map_get (at_issuedLeases store) leaseId = None then (False, store)
      else if leaseId \<in> set (at_revokedLeases store) then (False, store)
      else (True, store\<lparr>at_revokedLeases := set_add leaseId (at_revokedLeases store)\<rparr>))"

definition isLeaseRevoked :: "LeaseAuthorityStore \<Rightarrow> string \<Rightarrow> bool" where
  "isLeaseRevoked store leaseId \<longleftrightarrow> leaseId \<in> set (at_revokedLeases store)"

definition getLeaseCount :: "LeaseAuthorityStore \<Rightarrow> nat" where
  "getLeaseCount store = length (at_issuedLeases store)"

lemma signLease_cases:
  assumes "authority_signLease sig random t a q = Some (l, a')"
  obtains s where "sig (au_privateKey a) (utf8 (authority_canonicalLeasePayload (l\<lparr>de_signature := []\<rparr>))) = Some s"
    "de_signature l = base64_encode s" "a' = a\<lparr>au_serial := au_serial a + 1\<rparr>" "de_purpose l = aq_purpose q"
    "de_issuedAt l = Iso t" "de_expiresAt l = Iso (t + aq_ttlMs q)" "de_maxOperations l = aq_maxOperations q"
    "de_remainingOperations l = aq_maxOperations q"
proof -
  let ?l = "l\<lparr>de_signature := []\<rparr>"
  obtain s where "sig (au_privateKey a) (utf8 (authority_canonicalLeasePayload ?l)) = Some s" "l = ?l\<lparr>de_signature := base64_encode s\<rparr>"
    "a' = a\<lparr>au_serial := au_serial a + 1\<rparr>" "de_purpose l = aq_purpose q" "de_issuedAt l = Iso t"
    "de_expiresAt l = Iso (t + aq_ttlMs q)" "de_maxOperations l = aq_maxOperations q" "de_remainingOperations l = aq_maxOperations q"
    using assms by (auto simp: authority_signLease_def Let_def split: option.splits if_splits)
  then show thesis by (intro that [of s]) (auto dest: arg_cong [of _ _ de_signature])
qed

section \<open>Release sessions\<close>

record SessionThresholdAuthorization =
  th_authorizationId :: string
  th_manifestDigest :: string
  th_signatures :: "(int \<times> string) list"
  th_threshold :: int
  th_totalSigners :: int
  th_authorizedAt :: timestamp
  th_expiresAt :: timestamp

record ExportSessionKey =
  xk_sessionId :: string
  xk_ephemeralPublicKey :: string
  xk_createdAt :: timestamp
  xk_expiresAt :: timestamp

definition createExportSessionKey :: "string \<times> string \<Rightarrow> string \<Rightarrow> millis \<Rightarrow> int \<Rightarrow> ExportSessionKey \<times> string" where
  "createExportSessionKey kp random nowMs ttlMs =
     (\<lparr>xk_sessionId = hex_encode random, xk_ephemeralPublicKey = hex_encode (fst kp), xk_createdAt = Iso nowMs,
       xk_expiresAt = Iso (nowMs + ttlMs)\<rparr>, snd kp)"

definition isSessionExpired :: "millis \<Rightarrow> ExportSessionKey \<Rightarrow> bool" where
  "isSessionExpired nowMs session = now_gt nowMs (xk_expiresAt session)"

record SessionBoundAuthorization =
  sb_authorizationId :: string
  sb_manifestDigest :: string
  sb_sessionKeyCommitment :: string
  sb_signatures :: "(int \<times> string) list"
  sb_threshold :: int
  sb_totalSigners :: int
  sb_authorizedAt :: timestamp
  sb_expiresAt :: timestamp

definition createSessionBoundAuthorization ::
    "(string \<Rightarrow> string) \<Rightarrow> SessionThresholdAuthorization \<Rightarrow> ExportSessionKey \<Rightarrow> SessionBoundAuthorization" where
  "createSessionBoundAuthorization sha auth sessionKey =
     \<lparr>sb_authorizationId = th_authorizationId auth, sb_manifestDigest = th_manifestDigest auth,
      sb_sessionKeyCommitment = sha (hex_decode (xk_ephemeralPublicKey sessionKey)), sb_signatures = th_signatures auth,
      sb_threshold = th_threshold auth, sb_totalSigners = th_totalSigners auth, sb_authorizedAt = th_authorizedAt auth,
      sb_expiresAt = th_expiresAt auth\<rparr>"

definition verifySessionBinding ::
    "(string \<Rightarrow> string) \<Rightarrow> millis \<Rightarrow> SessionBoundAuthorization \<Rightarrow> ExportSessionKey \<Rightarrow> bool" where
  "verifySessionBinding sha nowMs auth sessionKey =
     (if now_gt nowMs (sb_expiresAt auth) then False
      else if int (length (sb_signatures auth)) < sb_threshold auth then False
      else sb_sessionKeyCommitment auth = sha (hex_decode (xk_ephemeralPublicKey sessionKey)))"

text \<open>The type of an approval is a text: \<open>createHardwareApproval\<close> casts it without a check.\<close>

record HardwareApproval =
  hw_sessionId :: string
  hw_deviceId :: string
  hw_approvalType :: string
  hw_approvedAt :: timestamp
  hw_signature :: string

definition HARDWARE_APPROVAL_LABEL :: string where
  "HARDWARE_APPROVAL_LABEL = ''codex-hardware-approval-v1''"

definition buildHardwareApprovalPayload :: "string \<Rightarrow> string \<Rightarrow> string \<Rightarrow> string" where
  "buildHardwareApprovalPayload sessionId deviceId approvalType =
     js_join '':'' [HARDWARE_APPROVAL_LABEL, sessionId, deviceId, approvalType]"

definition createHardwareApproval ::
    "(string \<Rightarrow> string \<Rightarrow> string option) \<Rightarrow> millis \<Rightarrow> string \<Rightarrow> string \<Rightarrow> string \<Rightarrow> string \<Rightarrow> HardwareApproval option" where
  "createHardwareApproval sig nowMs sessionId deviceId approvalType signingKey =
     map_option (\<lambda>s. \<lparr>hw_sessionId = sessionId, hw_deviceId = deviceId, hw_approvalType = approvalType,
         hw_approvedAt = Iso nowMs, hw_signature = hex_encode s\<rparr>)
       (sig signingKey (utf8 (buildHardwareApprovalPayload sessionId deviceId approvalType)))"

definition verifyHardwareApproval ::
    "(string \<Rightarrow> string \<Rightarrow> string \<Rightarrow> bool) \<Rightarrow> HardwareApproval \<Rightarrow> string \<Rightarrow> string \<Rightarrow> bool" where
  "verifyHardwareApproval ver approval expectedSessionId devicePublicKey =
     (if hw_sessionId approval \<noteq> expectedSessionId then False
      else ver devicePublicKey
        (utf8 (buildHardwareApprovalPayload (hw_sessionId approval) (hw_deviceId approval) (hw_approvalType approval)))
        (hex_decode (hw_signature approval)))"

datatype ReleaseSessionState =
  RS_created | RS_authorizing | RS_approved | RS_decrypting | RS_encrypting | RS_completed | RS_failed | RS_timed_out

fun ReleaseSessionState_str :: "ReleaseSessionState \<Rightarrow> string" where
  "ReleaseSessionState_str RS_created = ''created''"
| "ReleaseSessionState_str RS_authorizing = ''authorizing''"
| "ReleaseSessionState_str RS_approved = ''approved''"
| "ReleaseSessionState_str RS_decrypting = ''decrypting''"
| "ReleaseSessionState_str RS_encrypting = ''encrypting''"
| "ReleaseSessionState_str RS_completed = ''completed''"
| "ReleaseSessionState_str RS_failed = ''failed''"
| "ReleaseSessionState_str RS_timed_out = ''timed_out''"

fun VALID_RELEASE_TRANSITIONS :: "ReleaseSessionState \<Rightarrow> ReleaseSessionState list" where
  "VALID_RELEASE_TRANSITIONS RS_created = [RS_authorizing, RS_failed, RS_timed_out]"
| "VALID_RELEASE_TRANSITIONS RS_authorizing = [RS_approved, RS_failed, RS_timed_out]"
| "VALID_RELEASE_TRANSITIONS RS_approved = [RS_decrypting, RS_failed, RS_timed_out]"
| "VALID_RELEASE_TRANSITIONS RS_decrypting = [RS_encrypting, RS_failed, RS_timed_out]"
| "VALID_RELEASE_TRANSITIONS RS_encrypting = [RS_completed, RS_failed, RS_timed_out]"
| "VALID_RELEASE_TRANSITIONS RS_completed = []"
| "VALID_RELEASE_TRANSITIONS RS_failed = []"
| "VALID_RELEASE_TRANSITIONS RS_timed_out = []"

record ReleaseSession =
  re_sessionId :: string
  re_state :: ReleaseSessionState
  re_sessionKey :: ExportSessionKey
  re_authorization :: "SessionBoundAuthorization option"
  re_hardwareApproval :: "HardwareApproval option"
  re_leaseResponses :: "string list"
  re_startedAt :: timestamp
  re_lastActivityAt :: timestamp

definition createReleaseSession :: "string \<times> string \<Rightarrow> string \<Rightarrow> millis \<Rightarrow> int \<Rightarrow> ReleaseSession" where
  "createReleaseSession kp random nowMs ttlMs =
     (let sessionKey = fst (createExportSessionKey kp random nowMs ttlMs)
      in \<lparr>re_sessionId = xk_sessionId sessionKey, re_state = RS_created, re_sessionKey = sessionKey,
          re_authorization = None, re_hardwareApproval = None, re_leaseResponses = [],
          re_startedAt = xk_createdAt sessionKey, re_lastActivityAt = xk_createdAt sessionKey\<rparr>)"

definition transitionSession :: "millis \<Rightarrow> ReleaseSession \<Rightarrow> ReleaseSessionState \<Rightarrow> string + ReleaseSession" where
  "transitionSession nowMs session newState =
     (if newState \<notin> set (VALID_RELEASE_TRANSITIONS (re_state session))
      then Inl (''Invalid session state transition: '' @ ReleaseSessionState_str (re_state session) @ '' '' @ right_arrow @
                '' '' @ ReleaseSessionState_str newState)
      else Inr (session\<lparr>re_state := newState, re_lastActivityAt := Iso nowMs\<rparr>))"

definition hasSessionTimedOut :: "millis \<Rightarrow> ReleaseSession \<Rightarrow> bool" where
  "hasSessionTimedOut nowMs session =
     (if re_state session = RS_timed_out then True
      else if re_state session = RS_completed then False
      else if re_state session = RS_failed then False
      else isSessionExpired nowMs (re_sessionKey session))"

definition completeSession :: "millis \<Rightarrow> ReleaseSession \<Rightarrow> string + ReleaseSession" where
  "completeSession nowMs session = transitionSession nowMs session RS_completed"

section \<open>Leases bound to a session\<close>

record BoundLeaseRequest =
  bq_packetId :: string
  bq_leaseId :: string
  bq_requestorIdentity :: string
  bq_purpose :: LeasePurpose
  bq_maxOperations :: int

definition LEASE_BINDING_LABEL :: string where
  "LEASE_BINDING_LABEL = ''codex-session-bound-lease-v1''"

definition bound_lease_payload :: "BoundLeaseRequest \<Rightarrow> ReleaseSession \<Rightarrow> millis \<Rightarrow> string" where
  "bound_lease_payload request session nowMs =
     js_join '':''
       [LEASE_BINDING_LABEL, bq_leaseId request, bq_packetId request, bq_requestorIdentity request, bq_purpose request,
        re_sessionId session, toISOString nowMs, toISOString (nowMs + 60000), show_int (bq_maxOperations request)]"

text \<open>The clock is read for the binding check and for the lease; \<open>Some None\<close> is the result \<open>null\<close>.\<close>

definition createLeaseWithSessionBinding ::
    "(string \<Rightarrow> string) \<Rightarrow> (string \<Rightarrow> string \<Rightarrow> string option) \<Rightarrow>
     (string \<Rightarrow> ReleaseSessionState \<Rightarrow> timestamp \<Rightarrow> timestamp option \<Rightarrow> string option) \<Rightarrow> millis \<times> millis \<Rightarrow>
     BoundLeaseRequest \<Rightarrow> ReleaseSession \<Rightarrow> LeaseAuthority \<Rightarrow> DecryptionLease option option" where
  "createLeaseWithSessionBinding sha sig csb clock request session authority =
     (if csb (re_sessionId session) (re_state session) (xk_expiresAt (re_sessionKey session))
           (map_option sb_expiresAt (re_authorization session)) \<noteq> None then Some None
      else case re_authorization session of
        None \<Rightarrow> Some None
      | Some auth \<Rightarrow>
          if \<not> verifySessionBinding sha (fst clock) auth (re_sessionKey session) then Some None
          else case re_hardwareApproval session of
            None \<Rightarrow> Some None
          | Some approval \<Rightarrow>
              if hw_sessionId approval \<noteq> re_sessionId session then Some None
              else case sig (au_privateKey authority) (utf8 (bound_lease_payload request session (snd clock))) of
                None \<Rightarrow> None
              | Some s \<Rightarrow>
                  Some (Some \<lparr>de_leaseId = bq_leaseId request, de_packetId = bq_packetId request,
                    de_groupId = ''session-bound'', de_requestorIdentity = bq_requestorIdentity request,
                    de_purpose = bq_purpose request, de_issuedAt = Iso (snd clock),
                    de_expiresAt = Iso (snd clock + 60000), de_maxOperations = bq_maxOperations request,
                    de_remainingOperations = bq_maxOperations request, de_signature = base64_encode s\<rparr>))"

section \<open>What the authority grants\<close>

record authority_call =
  ac_random :: string
  ac_clock :: "millis \<times> millis \<times> millis"
  ac_request :: AuthorityLeaseRequest

text \<open>A history of requests; \<open>None\<close> where a call throws.\<close>

fun authority_run ::
    "(string \<Rightarrow> string \<Rightarrow> string option) \<Rightarrow> authority_call list \<Rightarrow> LeaseAuthorityStore \<Rightarrow> LeaseAuthorityStore option" where
  "authority_run sig [] st = Some st"
| "authority_run sig (c # cs) st =
     (case authority_issueLease sig (ac_random c) (ac_clock c) st (ac_request c) of
        None \<Rightarrow> None
      | Some (_, st') \<Rightarrow> authority_run sig cs st')"

fun call_times :: "authority_call list \<Rightarrow> millis list" where
  "call_times [] = []"
| "call_times (c # cs) = (case ac_clock c of (t1, t2, t3) \<Rightarrow> [t1, t2, t3]) @ call_times cs"

definition window_count :: "millis \<Rightarrow> string \<Rightarrow> (millis \<times> string) list \<Rightarrow> int" where
  "window_count T who log = int (length (List.filter (\<lambda>(stamp, i). i = who \<and> T - 60000 < stamp \<and> stamp \<le> T) log))"

text \<open>A call either leaves the store alone, or its request passes the policy and one lease is added.\<close>

lemma issue_cases:
  assumes "authority_issueLease sig random (t1, t2, t3) st q = Some (res, st')"
  obtains (refused) "st' = st" "fst res = None"
  | (granted) lease au where "fst res = Some lease"
      "authority_signLease sig random t2 (at_authority st) q = Some (lease, au)"
      "st' = st\<lparr>at_authority := au, at_issuedLeases := map_set (de_leaseId lease) lease (at_issuedLeases st),
                at_requestLog := at_requestLog st @ [(t3, aq_requestorIdentity q)]\<rparr>"
      "aq_ttlMs q \<le> ap_maxTtlMs (at_policy st)" "aq_maxOperations q \<le> ap_maxOperations (at_policy st)"
      "aq_purpose q \<in> set (ap_allowedPurposes (at_policy st))"
      "recent_requests (t1 - 60000) (aq_requestorIdentity q) (at_requestLog st) < ap_rateLimitPerMinute (at_policy st)"
proof -
  let ?p = "checkLeaseRequestPolicy q (at_policy st)
      (recent_requests (t1 - 60000) (aq_requestorIdentity q) (at_requestLog st))"
  show thesis
  proof (cases "fst ?p \<and> \<not> (ap_requireRequestorSignature (at_policy st) \<and> length (base64_decode (aq_requestorSignature q)) < 64)")
    case False
    with assms refused show thesis
      by (cases ?p) (auto simp: authority_issueLease_def Let_def split: if_splits bool.splits)
  next
    case True
    then have "fst ?p" by simp
    then have "aq_ttlMs q \<le> ap_maxTtlMs (at_policy st)" "aq_maxOperations q \<le> ap_maxOperations (at_policy st)"
      "aq_purpose q \<in> set (ap_allowedPurposes (at_policy st))"
      "recent_requests (t1 - 60000) (aq_requestorIdentity q) (at_requestLog st) < ap_rateLimitPerMinute (at_policy st)"
      by (simp_all add: checkLeaseRequestPolicy_def split: if_splits)
    with assms True granted show thesis
      by (cases ?p) (auto simp: authority_issueLease_def Let_def split: if_splits bool.splits option.splits prod.splits)
  qed
qed

lemma window_count_snoc:
  "window_count T who (log @ [(t, i)]) = window_count T who log + (if i = who \<and> T - 60000 < t \<and> t \<le> T then 1 else 0)"
  by (simp add: window_count_def)

lemma window_le_recent:
  assumes "t1 \<le> T"
  shows "window_count T who log \<le> recent_requests (t1 - 60000) who log"
proof -
  have "length (List.filter (\<lambda>(stamp, i). i = who \<and> T - 60000 < stamp \<and> stamp \<le> T) log) \<le>
      length (List.filter (\<lambda>(stamp, i). i = who \<and> stamp > t1 - 60000) log)"
    using assms by (induction log) auto
  then show ?thesis by (simp add: window_count_def recent_requests_def)
qed

definition rate_ok :: "LeaseAuthorityStore \<Rightarrow> bool" where
  "rate_ok st \<longleftrightarrow> (\<forall>T who. window_count T who (at_requestLog st) \<le> max 0 (ap_rateLimitPerMinute (at_policy st)))"

lemma rate_ok_issue:
  assumes "rate_ok st" "t1 \<le> t3" "authority_issueLease sig random (t1, t2, t3) st q = Some (res, st')"
  shows "rate_ok st' \<and> at_policy st' = at_policy st"
  using assms(3)
proof (cases rule: issue_cases)
  case refused
  with assms(1) show ?thesis by simp
next
  case (granted lease au)
  have "window_count T who (at_requestLog st') \<le> max 0 (ap_rateLimitPerMinute (at_policy st))" for T who
  proof (cases "aq_requestorIdentity q = who \<and> T - 60000 < t3 \<and> t3 \<le> T")
    case True
    with assms(2) window_le_recent [of t1 T who "at_requestLog st"] granted show ?thesis
      by (simp add: window_count_snoc)
  next
    case False
    then have "window_count T who (at_requestLog st') = window_count T who (at_requestLog st)"
      using granted by (auto simp: window_count_snoc)
    with assms(1) show ?thesis by (simp add: rate_ok_def)
  qed
  with granted show ?thesis by (simp add: rate_ok_def)
qed

text \<open>
  A history of the authority: requests, revocations and calls of the exported \<open>signLease\<close> on the store's authority.  A call
  that throws changes nothing.  The number counts the leases signed by \<open>signLease\<close> directly.
\<close>

datatype authority_op = Au_issue authority_call | Au_sign authority_call | Au_revoke string

fun authority_step ::
    "(string \<Rightarrow> string \<Rightarrow> string option) \<Rightarrow> authority_op \<Rightarrow> LeaseAuthorityStore \<times> nat \<Rightarrow> LeaseAuthorityStore \<times> nat" where
  "authority_step sig (Au_issue c) (st, n) =
     (case authority_issueLease sig (ac_random c) (ac_clock c) st (ac_request c) of
        None \<Rightarrow> (st, n) | Some (_, st') \<Rightarrow> (st', n))"
| "authority_step sig (Au_sign c) (st, n) =
     (case authority_signLease sig (ac_random c) (fst (snd (ac_clock c))) (at_authority st) (ac_request c) of
        None \<Rightarrow> (st, n) | Some (_, au) \<Rightarrow> (st\<lparr>at_authority := au\<rparr>, n + 1))"
| "authority_step sig (Au_revoke leaseId) (st, n) = (snd (authority_revokeLease st leaseId), n)"

fun authority_steps ::
    "(string \<Rightarrow> string \<Rightarrow> string option) \<Rightarrow> authority_op list \<Rightarrow> LeaseAuthorityStore \<times> nat \<Rightarrow> LeaseAuthorityStore \<times> nat" where
  "authority_steps sig [] s = s"
| "authority_steps sig (x # xs) s = authority_steps sig xs (authority_step sig x s)"

fun op_times :: "authority_op list \<Rightarrow> millis list" where
  "op_times [] = []"
| "op_times (Au_issue c # xs) = call_times [c] @ op_times xs"
| "op_times (Au_sign c # xs) = call_times [c] @ op_times xs"
| "op_times (Au_revoke leaseId # xs) = op_times xs"

definition log_ok :: "LeasePolicy \<Rightarrow> LeaseAuthorityStore \<times> nat \<Rightarrow> bool" where
  "log_ok p s \<longleftrightarrow> (case s of (st, n) \<Rightarrow> rate_ok st \<and> at_policy st = p \<and>
     int (length (at_requestLog st)) + int n = au_serial (at_authority st))"

lemma log_ok_issue:
  assumes "log_ok p (st, n)" "t1 \<le> t3" "authority_issueLease sig random (t1, t2, t3) st q = Some (res, st')"
  shows "log_ok p (st', n)"
proof -
  have "rate_ok st' \<and> at_policy st' = at_policy st"
    using assms(1) by (intro rate_ok_issue [OF _ assms(2,3)]) (simp add: log_ok_def)
  moreover have "int (length (at_requestLog st')) + int n = au_serial (at_authority st')"
    using assms(3,1)
    by (cases rule: issue_cases) (auto simp: log_ok_def authority_signLease_def Let_def split: option.splits if_splits)
  ultimately show ?thesis using assms(1) by (simp add: log_ok_def)
qed

lemma log_ok_step:
  assumes "log_ok p s" "sorted (op_times [x])"
  shows "log_ok p (authority_step sig x s)"
proof -
  obtain st n where s: "s = (st, n)" by (cases s)
  show ?thesis
  proof (cases x)
    case (Au_issue c)
    obtain t1 t2 t3 where c: "ac_clock c = (t1, t2, t3)" by (cases "ac_clock c")
    with assms Au_issue s show ?thesis
      by (auto intro: log_ok_issue split: option.splits)
  next
    case (Au_sign c)
    with assms(1) s show ?thesis
      by (auto simp: log_ok_def rate_ok_def authority_signLease_def Let_def split: option.splits)
  qed (use assms(1) s in \<open>auto simp: log_ok_def rate_ok_def authority_revokeLease_def\<close>)
qed

lemma op_times_Cons: "op_times (x # xs) = op_times [x] @ op_times xs"
  by (cases x) simp_all

lemma log_ok_steps: "log_ok p s \<Longrightarrow> sorted (op_times xs) \<Longrightarrow> log_ok p (authority_steps sig xs s)"
proof (induction xs arbitrary: s)
  case (Cons x xs)
  have "sorted (op_times [x] @ op_times xs)" using Cons.prems(2) by (subst op_times_Cons [symmetric])
  then have "sorted (op_times [x])" "sorted (op_times xs)" by (simp_all only: sorted_append)
  with Cons.IH Cons.prems(1) log_ok_step show ?case by simp
qed simp

text \<open>
  C36: the rate limit of the lease authority holds over every minute, for the leases that pass its log.  Take any history of a fresh store made of requests, of
  revocations and of direct calls of the exported \<open>signLease\<close>, any of which may throw, with a clock that does not run
  backwards.  Then no identity has more entries in the log within any window of 60 seconds than the policy
  allows, and the log has exactly one entry for each lease signed but those that \<open>signLease\<close> signed directly, which are
  counted in the serial number and in no log.  Leases of \<open>createLeaseWithSessionBinding\<close>, which takes only the keys of the
  authority and changes neither the log nor the serial number, are outside these histories.
\<close>

theorem rate_limit_holds:
  assumes "sorted (op_times ops)"
    and "authority_steps sig ops (createLeaseAuthorityStore kp policy, 0) = (st, n)"
  shows "window_count T who (at_requestLog st) \<le> max 0 (ap_rateLimitPerMinute (nullish policy createDefaultLeasePolicy)) \<and>
     int (length (at_requestLog st)) + int n = au_serial (at_authority st)"
proof -
  have "log_ok (nullish policy createDefaultLeasePolicy) (createLeaseAuthorityStore kp policy, 0)"
    by (simp add: log_ok_def rate_ok_def createLeaseAuthorityStore_def createLeaseAuthority_def window_count_def)
  from log_ok_steps [OF this assms(1), of sig] show ?thesis by (simp add: assms(2) log_ok_def rate_ok_def) metis
qed

text \<open>Instances for the witnesses: a signature that is the text, and a request.\<close>

definition sample_lease_ask :: AuthorityLeaseRequest where
  "sample_lease_ask =
     \<lparr>aq_packetId = ''p'', aq_groupId = ''g'', aq_requestorIdentity = ''r'', aq_purpose = ''read'', aq_ttlMs = 10,
      aq_maxOperations = 5, aq_requestorSignature = base64_encode (replicate 64 (CHR ''s''))\<rparr>"

lemma sample_lease_ask_granted:
  "\<exists>lease st. authority_issueLease (\<lambda>k d. Some d) ''A'' (0, 1, 2) (createLeaseAuthorityStore (''pub'', ''priv'') None)
      sample_lease_ask = Some ((Some lease, None), st) \<and> at_issuedLeases st = [(de_leaseId lease, lease)]"
  by (simp add: authority_issueLease_def createLeaseAuthorityStore_def sample_lease_ask_def checkLeaseRequestPolicy_def
      createDefaultLeasePolicy_def recent_requests_def authority_signLease_def createLeaseAuthority_def Let_def
      nullish_def DEFAULT_MAX_OPERATIONS_def date_in_range_def)

theorem rate_limit_holds_witness:
  "\<exists>st. authority_steps (\<lambda>k d. Some d)
       [Au_issue \<lparr>ac_random = ''A'', ac_clock = (0, 1, 2), ac_request = sample_lease_ask\<rparr>]
       (createLeaseAuthorityStore (''pub'', ''priv'') None, 0) = (st, 0) \<and>
     window_count 2 ''r'' (at_requestLog st) \<le> 60 \<and> int (length (at_requestLog st)) = au_serial (at_authority st)"
proof -
  from sample_lease_ask_granted obtain st where
    run: "authority_steps (\<lambda>k d. Some d) [Au_issue \<lparr>ac_random = ''A'', ac_clock = (0, 1, 2), ac_request = sample_lease_ask\<rparr>]
       (createLeaseAuthorityStore (''pub'', ''priv'') None, 0) = (st, 0)" by auto
  from rate_limit_holds [OF _ run, of 2 "''r''"] run show ?thesis
    by (simp add: createDefaultLeasePolicy_def nullish_def)
qed

text \<open>
  Every lease the authority has issued is within its policy.  It is stored under its identifier, its
  purpose is allowed, its operations are those requested and at most the maximum, it expires at most the
  maximal time after it was issued, and its signature verifies under the key of the authority.
\<close>

theorem authority_leases_within_policy:
  assumes "key_pair_of sig ver (snd kp) (fst kp)"
    and "authority_run sig calls (createLeaseAuthorityStore kp policy) = Some st"
    and "map_get (at_issuedLeases st) i = Some l"
  shows "de_leaseId l = i \<and> de_purpose l \<in> set (ap_allowedPurposes (at_policy st)) \<and>
     de_remainingOperations l = de_maxOperations l \<and> de_maxOperations l \<le> ap_maxOperations (at_policy st) \<and>
     (\<exists>t ttl. de_issuedAt l = Iso t \<and> de_expiresAt l = Iso (t + ttl) \<and> ttl \<le> ap_maxTtlMs (at_policy st)) \<and>
     authority_verifyLeaseSignature ver l (fst kp)"
proof -
  define good where "good p k l \<longleftrightarrow> de_leaseId l = k \<and> de_purpose l \<in> set (ap_allowedPurposes p) \<and>
     de_remainingOperations l = de_maxOperations l \<and> de_maxOperations l \<le> ap_maxOperations p \<and>
     (\<exists>t ttl. de_issuedAt l = Iso t \<and> de_expiresAt l = Iso (t + ttl) \<and> ttl \<le> ap_maxTtlMs p) \<and>
     authority_verifyLeaseSignature ver l (fst kp)" for p :: LeasePolicy and k l
  have signed: "good (at_policy st0) (de_leaseId lease) lease \<and> au_privateKey au = snd kp"
    if "authority_signLease sig random t2 (at_authority st0) q = Some (lease, au)"
      "aq_ttlMs q \<le> ap_maxTtlMs (at_policy st0)" "aq_maxOperations q \<le> ap_maxOperations (at_policy st0)"
      "aq_purpose q \<in> set (ap_allowedPurposes (at_policy st0))" "au_privateKey (at_authority st0) = snd kp"
    for random t2 q lease au st0
    using that(1)
  proof (cases rule: signLease_cases)
    case (1 s)
    with assms(1) that(5) have "ver (fst kp) (utf8 (authority_canonicalLeasePayload (lease\<lparr>de_signature := []\<rparr>))) s"
      by (metis key_pair_of_def option.inject)
    with 1(2) have "authority_verifyLeaseSignature ver lease (fst kp)" by (simp add: authority_verifyLeaseSignature_def)
    with 1 that(2-5) show ?thesis by (auto simp: good_def)
  qed
  have "(\<forall>k l. map_get (at_issuedLeases st) k = Some l \<longrightarrow> good (at_policy st) k l)"
    if "authority_run sig calls st0 = Some st" "au_privateKey (at_authority st0) = snd kp"
      "\<forall>k l. map_get (at_issuedLeases st0) k = Some l \<longrightarrow> good (at_policy st0) k l" for st0
    using that
  proof (induction calls arbitrary: st0)
    case (Cons c cs)
    obtain t1 t2 t3 where c: "ac_clock c = (t1, t2, t3)" by (cases "ac_clock c")
    with Cons.prems(1) obtain res st1 where
      step: "authority_issueLease sig (ac_random c) (t1, t2, t3) st0 (ac_request c) = Some (res, st1)"
      and rest: "authority_run sig cs st1 = Some st"
      by (auto split: option.splits)
    from step have "au_privateKey (at_authority st1) = snd kp \<and>
        (\<forall>k l. map_get (at_issuedLeases st1) k = Some l \<longrightarrow> good (at_policy st1) k l)"
    proof (cases rule: issue_cases)
      case refused
      with Cons.prems show ?thesis by simp
    next
      case (granted lease au)
      with signed [OF granted(2,4-6) Cons.prems(2)] Cons.prems(3) show ?thesis by simp
    qed
    with rest Cons.IH show ?case by blast
  qed simp
  from this [of "createLeaseAuthorityStore kp policy"] assms(2,3) show ?thesis
    by (simp add: createLeaseAuthorityStore_def createLeaseAuthority_def good_def)
qed

theorem authority_leases_within_policy_witness:
  "\<exists>st l. authority_run (\<lambda>k d. Some d)
       [\<lparr>ac_random = ''A'', ac_clock = (0, 1, 2), ac_request = sample_lease_ask\<rparr>]
       (createLeaseAuthorityStore (''pub'', ''priv'') None) = Some st \<and>
     map_get (at_issuedLeases st) (de_leaseId l) = Some l \<and> authority_verifyLeaseSignature (\<lambda>k d s. s = d) l ''pub''"
proof -
  from sample_lease_ask_granted obtain lease st where
    run: "authority_run (\<lambda>k d. Some d) [\<lparr>ac_random = ''A'', ac_clock = (0, 1, 2), ac_request = sample_lease_ask\<rparr>]
       (createLeaseAuthorityStore (''pub'', ''priv'') None) = Some st"
    and l: "map_get (at_issuedLeases st) (de_leaseId lease) = Some lease" by (fastforce simp: map_get_def)
  have "key_pair_of (\<lambda>k d. Some d) (\<lambda>k d s. s = d) ''priv'' ''pub''" by (simp add: key_pair_of_def)
  with authority_leases_within_policy [where kp = "(''pub'', ''priv'')", OF _ run l, of "\<lambda>k d s. s = d"] run l
  show ?thesis by auto
qed

text \<open>
  The authority does not check who asks.  With the signature required by the policy, any two requests
  that differ only in a signature of at least 64 bytes are treated alike, and a request signed by nobody is
  granted as if it were genuine.
\<close>

theorem requestor_signature_unread:
  assumes "64 \<le> length (base64_decode s)" "64 \<le> length (base64_decode s')"
  shows "authority_issueLease sig random clock st (q\<lparr>aq_requestorSignature := s\<rparr>) =
     authority_issueLease sig random clock st (q\<lparr>aq_requestorSignature := s'\<rparr>)"
proof -
  have "checkLeaseRequestPolicy (q\<lparr>aq_requestorSignature := s\<rparr>) p n = checkLeaseRequestPolicy (q\<lparr>aq_requestorSignature := s'\<rparr>) p n"
    "authority_signLease sig random t a (q\<lparr>aq_requestorSignature := s\<rparr>) =
     authority_signLease sig random t a (q\<lparr>aq_requestorSignature := s'\<rparr>)" for p n t a
    by (simp_all add: checkLeaseRequestPolicy_def authority_signLease_def)
  then show ?thesis using assms by (auto simp: authority_issueLease_def Let_def split: prod.splits bool.splits option.splits)
qed

theorem requestor_signature_unread_witness:
  "authority_issueLease (\<lambda>k d. Some d) ''A'' (0, 1, 2) (createLeaseAuthorityStore (''pub'', ''priv'') None)
     (sample_lease_ask\<lparr>aq_requestorSignature := base64_encode (replicate 64 (CHR ''a''))\<rparr>) =
   authority_issueLease (\<lambda>k d. Some d) ''A'' (0, 1, 2) (createLeaseAuthorityStore (''pub'', ''priv'') None)
     (sample_lease_ask\<lparr>aq_requestorSignature := base64_encode (replicate 64 (CHR ''b''))\<rparr>)"
  by (rule requestor_signature_unread) simp_all

section \<open>Histories of a release session\<close>

fun release_rank :: "ReleaseSessionState \<Rightarrow> nat" where
  "release_rank RS_created = 5"
| "release_rank RS_authorizing = 4"
| "release_rank RS_approved = 3"
| "release_rank RS_decrypting = 2"
| "release_rank RS_encrypting = 1"
| "release_rank _ = 0"

definition release_step :: "ReleaseSessionState \<Rightarrow> ReleaseSessionState \<Rightarrow> unit + ReleaseSessionState" where
  "release_step s t = (if t \<in> set (VALID_RELEASE_TRANSITIONS s) then Inr t else Inl ())"

interpretation release_fsm: ranked_machine VALID_RELEASE_TRANSITIONS release_rank release_step
proof
  show "release_rank t < release_rank s" if "t \<in> set (VALID_RELEASE_TRANSITIONS s)" for s t
    using that by (cases s) auto
  show "t \<in> set (VALID_RELEASE_TRANSITIONS s)" if "release_step s a = Inr t" for s a t
    using that by (simp add: release_step_def split: if_splits)
qed

definition session_step :: "ReleaseSession \<Rightarrow> millis \<times> ReleaseSessionState \<Rightarrow> string + ReleaseSession" where
  "session_step session a = transitionSession (fst a) session (snd a)"

text \<open>The states on the way from a state to \<open>completed\<close>.\<close>

fun release_route :: "ReleaseSessionState \<Rightarrow> ReleaseSessionState list option" where
  "release_route RS_created = Some [RS_authorizing, RS_approved, RS_decrypting, RS_encrypting, RS_completed]"
| "release_route RS_authorizing = Some [RS_approved, RS_decrypting, RS_encrypting, RS_completed]"
| "release_route RS_approved = Some [RS_decrypting, RS_encrypting, RS_completed]"
| "release_route RS_decrypting = Some [RS_encrypting, RS_completed]"
| "release_route RS_encrypting = Some [RS_completed]"
| "release_route RS_completed = Some []"
| "release_route _ = None"

lemma route_unique:
  "path_in VALID_RELEASE_TRANSITIONS s ts \<Longrightarrow> last (s # ts) = RS_completed \<longleftrightarrow> release_route s = Some ts"
proof (induction ts arbitrary: s)
  case Nil
  then show ?case by (cases s) auto
next
  case (Cons t ts)
  then have "t \<in> set (VALID_RELEASE_TRANSITIONS s)" and "last (t # ts) = RS_completed \<longleftrightarrow> release_route t = Some ts"
    by simp_all
  then show ?case by (cases s) auto
qed

lemma session_run_project:
  assumes "run_actions session_step s acts = Inr s'"
  shows "run_actions release_step (re_state s) (List.map snd acts) = Inr (re_state s')"
  by (rule run_project [OF _ assms])
    (auto simp: session_step_def transitionSession_def release_step_def split: if_splits)

lemma release_states: "run_actions release_step s ts = Inr t \<Longrightarrow> states_of_run release_step s ts = ts"
  by (induction ts arbitrary: s) (auto simp: release_step_def split: if_splits sum.splits)

lemma session_run_frame:
  assumes "run_actions session_step s acts = Inr s'"
  shows "re_authorization s' = re_authorization s \<and> re_hardwareApproval s' = re_hardwareApproval s \<and>
    re_sessionKey s' = re_sessionKey s \<and> re_sessionId s' = re_sessionId s"
  using assms
  by (induction acts arbitrary: s) (fastforce simp: session_step_def transitionSession_def split: if_splits sum.splits)+

text \<open>
  A release session takes at most five transitions and is completed exactly by going through
  authorising, approved, decrypting and encrypting in this order.  The transitions ask for no evidence:
  a session completes with neither an authorisation nor an approval, which only the issue of a lease reads.
\<close>

theorem completed_release_history:
  assumes "run_actions session_step (createReleaseSession kp random t ttl) acts = Inr s"
  shows "(re_state s = RS_completed \<longleftrightarrow>
      List.map snd acts = [RS_authorizing, RS_approved, RS_decrypting, RS_encrypting, RS_completed]) \<and>
    length acts \<le> 5 \<and> re_authorization s = None \<and> re_hardwareApproval s = None"
proof -
  let ?ts = "List.map snd acts"
  have run: "run_actions release_step RS_created ?ts = Inr (re_state s)"
    using session_run_project [OF assms] by (simp add: createReleaseSession_def Let_def)
  have "path_in VALID_RELEASE_TRANSITIONS RS_created ?ts" "last (RS_created # ?ts) = re_state s"
    using release_fsm.run_is_path [of RS_created ?ts] last_states_of_run [OF run] release_states [OF run] by simp_all
  then have "re_state s = RS_completed \<longleftrightarrow> release_route RS_created = Some ?ts" using route_unique by metis
  moreover have "length acts \<le> 5" using release_fsm.run_bounded [OF run] by simp
  moreover have "re_authorization s = None \<and> re_hardwareApproval s = None"
    using session_run_frame [OF assms] by (simp add: createReleaseSession_def Let_def)
  ultimately show ?thesis by auto
qed

theorem completed_release_history_witness:
  "\<exists>s. run_actions session_step (createReleaseSession (''pub'', ''priv'') ''A'' 0 10)
      [(1, RS_authorizing), (2, RS_approved), (3, RS_decrypting), (4, RS_encrypting), (5, RS_completed)] = Inr s \<and>
    re_state s = RS_completed \<and> re_authorization s = None"
proof -
  let ?acts = "[(1, RS_authorizing), (2, RS_approved), (3, RS_decrypting), (4, RS_encrypting), (5, RS_completed)]"
  obtain s where s: "run_actions session_step (createReleaseSession (''pub'', ''priv'') ''A'' 0 10) ?acts = Inr s"
    by (simp add: session_step_def transitionSession_def createReleaseSession_def Let_def)
  from completed_release_history [OF s] s show ?thesis by auto
qed

section \<open>When a session obtains a lease\<close>

text \<open>What the code reads of the evidence: no signature is among it.\<close>

definition session_gates ::
    "(string \<Rightarrow> string) \<Rightarrow> (string \<Rightarrow> ReleaseSessionState \<Rightarrow> timestamp \<Rightarrow> timestamp option \<Rightarrow> string option) \<Rightarrow> millis \<Rightarrow>
     ReleaseSession \<Rightarrow> SessionBoundAuthorization \<Rightarrow> HardwareApproval \<Rightarrow> bool" where
  "session_gates sha csb nowMs session auth approval \<longleftrightarrow>
     csb (re_sessionId session) (re_state session) (xk_expiresAt (re_sessionKey session)) (Some (sb_expiresAt auth)) = None \<and>
     \<not> now_gt nowMs (sb_expiresAt auth) \<and> sb_threshold auth \<le> int (length (sb_signatures auth)) \<and>
     sb_sessionKeyCommitment auth = sha (hex_decode (xk_ephemeralPublicKey (re_sessionKey session))) \<and>
     hw_sessionId approval = re_sessionId session"

text \<open>
  A session obtains a lease exactly when the binding check passes, it carries an authorisation that has
  not expired, lists at least as many signatures as its threshold and commits to the key of the session, and
  it carries an approval for the session; the signature of the lease is then one over the text of the
  request.  The signatures of the authorisation are counted and that of the approval is ignored, so forged
  ones of the same number obtain the same lease.
\<close>

theorem session_lease_exact:
  "((\<exists>l. createLeaseWithSessionBinding sha sig csb clock q s a = Some (Some l)) \<longleftrightarrow>
     (\<exists>auth approval. re_authorization s = Some auth \<and> re_hardwareApproval s = Some approval \<and>
        session_gates sha csb (fst clock) s auth approval \<and>
        sig (au_privateKey a) (utf8 (bound_lease_payload q s (snd clock))) \<noteq> None)) \<and>
   createLeaseWithSessionBinding sha sig csb clock q
     (s\<lparr>re_authorization := Some (auth\<lparr>sb_signatures := sigs\<rparr>),
        re_hardwareApproval := Some (approval\<lparr>hw_signature := x\<rparr>)\<rparr>) a =
   createLeaseWithSessionBinding sha sig csb clock q
     (s\<lparr>re_authorization := Some (auth\<lparr>sb_signatures := replicate (length sigs) (0, [])\<rparr>),
        re_hardwareApproval := Some (approval\<lparr>hw_signature := []\<rparr>)\<rparr>) a"
  (is "?iff \<and> ?forged")
proof
  show ?iff
  proof (cases "\<exists>auth approval. re_authorization s = Some auth \<and> re_hardwareApproval s = Some approval")
    case True
    then obtain auth approval where "re_authorization s = Some auth" "re_hardwareApproval s = Some approval" by blast
    then show ?thesis
      by (auto simp: createLeaseWithSessionBinding_def verifySessionBinding_def session_gates_def split: option.splits)
  next
    case False
    then show ?thesis
      by (cases "re_authorization s"; cases "re_hardwareApproval s")
        (auto simp: createLeaseWithSessionBinding_def split: if_splits)
  qed
  show ?forged
    by (simp add: createLeaseWithSessionBinding_def verifySessionBinding_def bound_lease_payload_def
        split: option.splits)
qed

text \<open>
  A lease bound to a session is never accepted as a lease of the authority, although it is signed with
  the same key, when a signature verifies only for the text it was made for: the two sign texts that begin
  with different labels.
\<close>

theorem session_lease_not_authority_lease:
  assumes "\<And>d d' x. sig (au_privateKey a) d = Some x \<Longrightarrow> ver (au_publicKey a) d' x \<Longrightarrow> d' = d"
    and "createLeaseWithSessionBinding sha sig csb clock q s a = Some (Some l)"
  shows "\<not> authority_verifyLeaseSignature ver l (au_publicKey a)"
proof
  assume "authority_verifyLeaseSignature ver l (au_publicKey a)"
  then have v: "ver (au_publicKey a) (utf8 (authority_canonicalLeasePayload (l\<lparr>de_signature := []\<rparr>))) (base64_decode (de_signature l))"
    by (simp add: authority_verifyLeaseSignature_def)
  from assms(2) obtain x where x: "sig (au_privateKey a) (utf8 (bound_lease_payload q s (snd clock))) = Some x"
    "de_signature l = base64_encode x"
    by (auto simp: createLeaseWithSessionBinding_def split: if_splits option.splits)
  with v have "ver (au_publicKey a) (utf8 (authority_canonicalLeasePayload (l\<lparr>de_signature := []\<rparr>))) x" by simp
  from assms(1) [OF x(1) this] have "authority_canonicalLeasePayload (l\<lparr>de_signature := []\<rparr>) = bound_lease_payload q s (snd clock)"
    by simp
  then show False
    by (simp add: authority_canonicalLeasePayload_def bound_lease_payload_def AUTHORITY_SIGNING_LABEL_def
        LEASE_BINDING_LABEL_def)
qed

definition sample_bound_session :: ReleaseSession where
  "sample_bound_session =
     (createReleaseSession (''pub'', ''priv'') ''A'' 0 10)
       \<lparr>re_authorization := Some \<lparr>sb_authorizationId = ''a'', sb_manifestDigest = ''m'', sb_sessionKeyCommitment = ''pub'',
          sb_signatures = [(0, ''x''), (0, ''x'')], sb_threshold = 2, sb_totalSigners = 3, sb_authorizedAt = Iso 0,
          sb_expiresAt = Iso 10\<rparr>,
        re_hardwareApproval := Some \<lparr>hw_sessionId = hex_encode ''A'', hw_deviceId = ''d'', hw_approvalType = ''yubikey_tap'',
          hw_approvedAt = Iso 1, hw_signature = []\<rparr>\<rparr>"

theorem session_lease_not_authority_lease_witness:
  "\<exists>l. createLeaseWithSessionBinding (\<lambda>x. x) (\<lambda>k d. Some d) (\<lambda>i st e a. None) (2, 3)
        \<lparr>bq_packetId = ''p'', bq_leaseId = ''l'', bq_requestorIdentity = ''r'', bq_purpose = ''export'', bq_maxOperations = 1\<rparr>
        sample_bound_session (createLeaseAuthority (''apub'', ''apriv'')) = Some (Some l) \<and>
      \<not> authority_verifyLeaseSignature (\<lambda>k d s. s = d) l ''apub''"
proof -
  let ?q = "\<lparr>bq_packetId = ''p'', bq_leaseId = ''l'', bq_requestorIdentity = ''r'', bq_purpose = ''export'', bq_maxOperations = 1\<rparr>"
  obtain l where l: "createLeaseWithSessionBinding (\<lambda>x. x) (\<lambda>k d. Some d) (\<lambda>i st e a. None) (2, 3) ?q
        sample_bound_session (createLeaseAuthority (''apub'', ''apriv'')) = Some (Some l)"
    by (simp add: createLeaseWithSessionBinding_def sample_bound_session_def createReleaseSession_def
        createExportSessionKey_def verifySessionBinding_def Let_def)
  from session_lease_not_authority_lease [where ver = "\<lambda>k d s. s = d", OF _ l]
  have "\<not> authority_verifyLeaseSignature (\<lambda>k d s. s = d) l ''apub''" by (simp add: createLeaseAuthority_def)
  with l show ?thesis by blast
qed

end
