(* ===== verification/Work_Store.thy ===== *)
theory Work_Store imports Js_Map begin

text \<open>
  The durable store of the work queue (\<open>coordination/durable-store.ts\<close>): its records, and the store that keeps
  them in memory, \<open>FakeWorkQueueStore\<close>.  The store is passed as state; a returned record is a copy of the
  stored one.  A call that reads the clock several times takes the readings as a function, the first at \<open>0\<close>.
\<close>

section \<open>Records\<close>

datatype WorkItemStatus =
  WI_created | WI_enqueue_pending | WI_enqueued | WI_claimed | WI_running | WI_completed | WI_failed_retryable |
  WI_failed_terminal | WI_cancelled | WI_superseded | WI_dead_lettered | WI_recovered | WI_retry_scheduled

fun WorkItemStatus_str :: "WorkItemStatus \<Rightarrow> string" where
  "WorkItemStatus_str WI_created = ''created''"
| "WorkItemStatus_str WI_enqueue_pending = ''enqueue_pending''"
| "WorkItemStatus_str WI_enqueued = ''enqueued''"
| "WorkItemStatus_str WI_claimed = ''claimed''"
| "WorkItemStatus_str WI_running = ''running''"
| "WorkItemStatus_str WI_completed = ''completed''"
| "WorkItemStatus_str WI_failed_retryable = ''failed_retryable''"
| "WorkItemStatus_str WI_failed_terminal = ''failed_terminal''"
| "WorkItemStatus_str WI_cancelled = ''cancelled''"
| "WorkItemStatus_str WI_superseded = ''superseded''"
| "WorkItemStatus_str WI_dead_lettered = ''dead_lettered''"
| "WorkItemStatus_str WI_recovered = ''recovered''"
| "WorkItemStatus_str WI_retry_scheduled = ''retry_scheduled''"

datatype DeadLetterReason =
  DL_max_attempts_exceeded | DL_max_reclaims_exceeded | DL_schema_incompatible | DL_missing_context |
  DL_poison_payload | DL_repeated_failure | DL_manual_intervention_required | DL_timeout_exceeded

datatype RecoveryAction =
  RA_reclaimed | RA_recovered_after_crash | RA_reconciled_duplicate | RA_acknowledged_terminal | RA_dead_lettered |
  RA_rebuild

fun RecoveryAction_str :: "RecoveryAction \<Rightarrow> string" where
  "RecoveryAction_str RA_reclaimed = ''reclaimed''"
| "RecoveryAction_str RA_recovered_after_crash = ''recovered_after_crash''"
| "RecoveryAction_str RA_reconciled_duplicate = ''reconciled_duplicate''"
| "RecoveryAction_str RA_acknowledged_terminal = ''acknowledged_terminal''"
| "RecoveryAction_str RA_dead_lettered = ''dead_lettered''"
| "RecoveryAction_str RA_rebuild = ''rebuild''"

record WorkItemInput =
  ii_id :: string
  ii_sessionId :: string
  ii_projectId :: string
  ii_workKind :: string
  ii_schemaVersion :: string
  ii_correlationId :: string
  ii_missionId :: "string option"
  ii_parentMissionId :: "string option"
  ii_parentSessionId :: "string option"
  ii_routingTags :: "string list option"
  ii_maxAttempts :: "int option"
  ii_maxReclaims :: "int option"

record AttemptInput =
  ai_workId :: string
  ai_attemptNumber :: int
  ai_streamName :: string
  ai_streamEntryId :: string
  ai_consumerGroup :: string
  ai_consumerId :: string
  ai_workerId :: "string option"
  ai_startedAt :: int

record DeadLetterInput =
  di_workId :: string
  di_reason :: DeadLetterReason
  di_workKind :: string
  di_attemptCount :: int
  di_reclaimCount :: int
  di_lastErrorKind :: "string option"
  di_lastErrorMessage :: "string option"
  di_streamName :: "string option"
  di_streamEntryId :: "string option"
  di_consumerGroup :: "string option"
  di_lastConsumerId :: "string option"
  di_canBeRetried :: "bool option"
  di_retryAfterMs :: "int option"
  di_requiresManualIntervention :: "bool option"
  di_manualInterventionNotes :: "string option"

record RecoveryReceiptInput =
  ri_workId :: string
  ri_streamEntryId :: "string option"
  ri_action :: RecoveryAction
  ri_recoveredByConsumer :: string
  ri_originalConsumer :: "string option"
  ri_recoveredAt :: int
  ri_idleDurationMs :: "int option"
  ri_outcome :: string
  ri_outcomeReason :: "string option"
  ri_streamName :: "string option"
  ri_consumerGroup :: "string option"
  ri_wasPending :: "bool option"
  ri_wasTerminal :: "bool option"

text \<open>The context of a quarantine record is not read; it is kept as a text.\<close>

record QuarantineInput =
  qi_entryId :: string
  qi_streamName :: string
  qi_workId :: "string option"
  qi_reason :: string
  qi_context :: "string option"
  qi_createdAt :: int

record StreamStateUpdate =
  su_streamName :: string
  su_consumerGroup :: string
  su_lastEntryId :: "string option"
  su_lastProcessedEntryId :: "string option"
  su_pendingCount :: "int option"
  su_consumerCount :: "int option"
  su_lastRecoveryAt :: "int option"
  su_recoveryGeneration :: "int option"
  su_lastHeartbeatAt :: "int option"
  su_healthy :: "bool option"

record WorkItem =
  wi_id :: string
  wi_session_id :: string
  wi_project_id :: string
  wi_work_kind :: string
  wi_schema_version :: string
  wi_status :: WorkItemStatus
  wi_correlation_id :: string
  wi_parent_mission_id :: "string option"
  wi_parent_session_id :: "string option"
  wi_routing_tags :: "string list option"
  wi_attempt_count :: int
  wi_max_attempts :: int
  wi_reclaim_count :: int
  wi_max_reclaims :: int
  wi_stream_name :: "string option"
  wi_stream_entry_id :: "string option"
  wi_consumer_group :: "string option"
  wi_consumer_id :: "string option"
  wi_created_at :: int
  wi_enqueued_at :: "int option"
  wi_started_at :: "int option"
  wi_completed_at :: "int option"
  wi_result_ref :: "string option"
  wi_error_classification :: "string option"
  wi_recovered_from_crash :: bool
  wi_recovery_reason :: "string option"
  wi_time_created :: int
  wi_time_updated :: int

datatype AttemptStatus = AT_started | AT_completed | AT_failed | AT_cancelled

record WorkAttempt =
  wa_id :: string
  wa_work_id :: string
  wa_attempt_number :: int
  wa_stream_name :: "string option"
  wa_stream_entry_id :: "string option"
  wa_consumer_group :: "string option"
  wa_consumer_id :: string
  wa_worker_id :: "string option"
  wa_status :: AttemptStatus
  wa_started_at :: int
  wa_finished_at :: "int option"
  wa_result_ref :: "string option"
  wa_error_kind :: "string option"
  wa_error_message :: "string option"
  wa_produced_terminal_fact :: bool
  wa_was_reclaimed :: bool
  wa_reclaimed_from_consumer :: "string option"
  wa_reclaimed_at :: "int option"
  wa_time_created :: int
  wa_time_updated :: int

record DeadLetter =
  dl_id :: string
  dl_work_id :: string
  dl_reason :: DeadLetterReason
  dl_work_kind :: string
  dl_attempt_count :: int
  dl_reclaim_count :: int
  dl_last_error_kind :: "string option"
  dl_last_error_message :: "string option"
  dl_stream_name :: "string option"
  dl_stream_entry_id :: "string option"
  dl_consumer_group :: "string option"
  dl_last_consumer_id :: "string option"
  dl_can_be_retried :: bool
  dl_retry_after_ms :: "int option"
  dl_requires_manual_intervention :: bool
  dl_manual_intervention_notes :: "string option"
  dl_dead_lettered_at :: int
  dl_time_created :: int
  dl_time_updated :: int

record RecoveryReceipt =
  rr_id :: string
  rr_work_id :: string
  rr_stream_entry_id :: "string option"
  rr_action :: RecoveryAction
  rr_recovered_by_consumer :: string
  rr_original_consumer :: "string option"
  rr_recovered_at :: int
  rr_idle_duration_ms :: "int option"
  rr_outcome :: string
  rr_outcome_reason :: "string option"
  rr_stream_name :: "string option"
  rr_consumer_group :: "string option"
  rr_was_pending :: bool
  rr_was_terminal :: bool
  rr_time_created :: int
  rr_time_updated :: int

datatype ScheduleStatus = SW_scheduled | SW_promoted | SW_cancelled | SW_expired

record StoredSchedule =
  sw_id :: string
  sw_work_id :: string
  sw_due_at :: int
  sw_scheduled_at :: int
  sw_retry_count :: int
  sw_max_retries :: int
  sw_backoff_policy :: string
  sw_next_retry_delay_ms :: "int option"
  sw_priority :: int
  sw_status :: ScheduleStatus
  sw_promoted_at :: "int option"
  sw_promoted_to_stream :: "string option"
  sw_promoted_stream_entry_id :: "string option"
  sw_reason :: "string option"
  sw_time_created :: int
  sw_time_updated :: int

record StreamState =
  ss_id :: string
  ss_stream_name :: string
  ss_consumer_group :: string
  ss_last_entry_id :: "string option"
  ss_last_processed_entry_id :: "string option"
  ss_pending_count :: int
  ss_consumer_count :: int
  ss_last_recovery_at :: "int option"
  ss_recovery_generation :: int
  ss_last_heartbeat_at :: "int option"
  ss_healthy :: bool
  ss_time_created :: int
  ss_time_updated :: int

record QuarantineRecord =
  qr_id :: string
  qr_entry_id :: string
  qr_stream_name :: string
  qr_work_id :: "string option"
  qr_reason :: string
  qr_context :: "string option"
  qr_resolved :: bool
  qr_resolved_at :: "int option"
  qr_resolved_by :: "string option"
  qr_resolution_notes :: "string option"
  qr_created_at :: int
  qr_time_created :: int
  qr_time_updated :: int

record DeadLetterFilter =
  df_workId :: "string option"
  df_reason :: "DeadLetterReason option"
  df_requiresManualIntervention :: "bool option"
  df_limit :: "int option"

section \<open>The store\<close>

record FakeWorkQueueStore =
  ws_workItems :: "(string \<times> WorkItem) list"
  ws_workAttempts :: "(string \<times> WorkAttempt list) list"
  ws_deadLetters :: "(string \<times> DeadLetter) list"
  ws_recoveryReceipts :: "RecoveryReceipt list"
  ws_scheduledWork :: "(string \<times> StoredSchedule) list"
  ws_streamStates :: "(string \<times> StreamState) list"
  ws_quarantineRecords :: "(string \<times> QuarantineRecord) list"

definition empty_work_store :: FakeWorkQueueStore where
  "empty_work_store =
     \<lparr>ws_workItems = [], ws_workAttempts = [], ws_deadLetters = [], ws_recoveryReceipts = [], ws_scheduledWork = [],
      ws_streamStates = [], ws_quarantineRecords = []\<rparr>"

definition terminalStates :: "WorkItemStatus list" where
  "terminalStates = [WI_completed, WI_failed_terminal, WI_cancelled, WI_superseded, WI_dead_lettered]"

definition attempts_of :: "FakeWorkQueueStore \<Rightarrow> string \<Rightarrow> WorkAttempt list" where
  "attempts_of st workId = nullish (map_get (ws_workAttempts st) workId) []"

definition nextAttemptNumber :: "FakeWorkQueueStore \<Rightarrow> string \<Rightarrow> int" where
  "nextAttemptNumber st workId = int (length (attempts_of st workId)) + 1"

definition put_item :: "WorkItem \<Rightarrow> string \<Rightarrow> FakeWorkQueueStore \<Rightarrow> FakeWorkQueueStore" where
  "put_item item workId st = st\<lparr>ws_workItems := map_set workId item (ws_workItems st)\<rparr>"

definition push_attempt :: "WorkAttempt \<Rightarrow> string \<Rightarrow> FakeWorkQueueStore \<Rightarrow> FakeWorkQueueStore" where
  "push_attempt attempt workId st = st\<lparr>ws_workAttempts := push_at workId attempt (ws_workAttempts st)\<rparr>"

definition not_found :: "string \<Rightarrow> string" where
  "not_found workId = ''Work item '' @ workId @ '' not found''"

definition createWorkItem :: "millis \<Rightarrow> WorkItemInput \<Rightarrow> FakeWorkQueueStore \<Rightarrow> WorkItem \<times> FakeWorkQueueStore" where
  "createWorkItem nowMs input st =
     (let workItem =
        \<lparr>wi_id = ii_id input, wi_session_id = ii_sessionId input, wi_project_id = ii_projectId input,
         wi_work_kind = ii_workKind input, wi_schema_version = ii_schemaVersion input, wi_status = WI_created,
         wi_correlation_id = ii_correlationId input, wi_parent_mission_id = ii_missionId input,
         wi_parent_session_id = ii_parentSessionId input, wi_routing_tags = ii_routingTags input,
         wi_attempt_count = 0, wi_max_attempts = nullish (ii_maxAttempts input) 3, wi_reclaim_count = 0,
         wi_max_reclaims = nullish (ii_maxReclaims input) 5, wi_stream_name = None, wi_stream_entry_id = None,
         wi_consumer_group = None, wi_consumer_id = None, wi_created_at = nowMs, wi_enqueued_at = None,
         wi_started_at = None, wi_completed_at = None, wi_result_ref = None, wi_error_classification = None,
         wi_recovered_from_crash = False, wi_recovery_reason = None, wi_time_created = nowMs, wi_time_updated = nowMs\<rparr>
      in (workItem, put_item workItem (ii_id input) st))"

definition markEnqueuePending ::
    "millis \<Rightarrow> string \<Rightarrow> string \<Rightarrow> string \<Rightarrow> FakeWorkQueueStore \<Rightarrow> string + WorkItem \<times> FakeWorkQueueStore" where
  "markEnqueuePending nowMs workId streamName consumerGroup st =
     (case map_get (ws_workItems st) workId of
        None \<Rightarrow> Inl (not_found workId)
      | Some workItem \<Rightarrow>
          if wi_status workItem \<noteq> WI_created
          then Inl (''Work item '' @ workId @ '' not in 'created' status (current: '' @
                    WorkItemStatus_str (wi_status workItem) @ '')'')
          else let workItem = workItem\<lparr>wi_status := WI_enqueue_pending, wi_stream_name := Some streamName,
                      wi_consumer_group := Some consumerGroup, wi_time_updated := nowMs\<rparr>
               in Inr (workItem, put_item workItem workId st))"

definition markEnqueued ::
    "(nat \<Rightarrow> millis) \<Rightarrow> string \<Rightarrow> string \<Rightarrow> string \<Rightarrow> string \<Rightarrow> FakeWorkQueueStore \<Rightarrow> string + WorkItem \<times> FakeWorkQueueStore" where
  "markEnqueued clk workId entryId streamName consumerGroup st =
     (case map_get (ws_workItems st) workId of
        None \<Rightarrow> Inl (not_found workId)
      | Some workItem \<Rightarrow>
          if wi_status workItem \<notin> set [WI_created, WI_enqueue_pending]
          then Inl (''Work item '' @ workId @ '' not in enqueueable status (current: '' @
                    WorkItemStatus_str (wi_status workItem) @ '')'')
          else let workItem = workItem\<lparr>wi_status := WI_enqueued, wi_stream_name := Some streamName,
                      wi_stream_entry_id := Some entryId, wi_consumer_group := Some consumerGroup,
                      wi_enqueued_at := Some (clk 0), wi_time_updated := clk 1\<rparr>
               in Inr (workItem, put_item workItem workId st))"

definition attempt_id :: "string \<Rightarrow> int \<Rightarrow> millis \<Rightarrow> string" where
  "attempt_id workId attemptNumber nowMs =
     workId @ '':attempt:'' @ show_int attemptNumber @ '':'' @ show_int nowMs"

definition startAttempt :: "millis \<Rightarrow> AttemptInput \<Rightarrow> FakeWorkQueueStore \<Rightarrow> WorkAttempt \<times> FakeWorkQueueStore" where
  "startAttempt nowMs input st =
     (let attempt =
        \<lparr>wa_id = attempt_id (ai_workId input) (ai_attemptNumber input) nowMs, wa_work_id = ai_workId input,
         wa_attempt_number = ai_attemptNumber input, wa_stream_name = Some (ai_streamName input),
         wa_stream_entry_id = Some (ai_streamEntryId input), wa_consumer_group = Some (ai_consumerGroup input),
         wa_consumer_id = ai_consumerId input, wa_worker_id = ai_workerId input, wa_status = AT_started,
         wa_started_at = ai_startedAt input, wa_finished_at = None, wa_result_ref = None, wa_error_kind = None,
         wa_error_message = None, wa_produced_terminal_fact = False, wa_was_reclaimed = False,
         wa_reclaimed_from_consumer = None, wa_reclaimed_at = None, wa_time_created = nowMs, wa_time_updated = nowMs\<rparr>
      in (attempt, push_attempt attempt (ai_workId input) st))"

text \<open>The record of an attempt that ends a work item or a try; five readings of the clock.\<close>

definition closing_attempt ::
    "(nat \<Rightarrow> millis) \<Rightarrow> string \<Rightarrow> int \<Rightarrow> AttemptStatus \<Rightarrow> string option \<Rightarrow> string option \<Rightarrow> string option \<Rightarrow> bool \<Rightarrow> WorkAttempt" where
  "closing_attempt clk workId attemptNumber status resultRef errorKind errorMessage terminal =
     \<lparr>wa_id = attempt_id workId attemptNumber (clk 0), wa_work_id = workId, wa_attempt_number = attemptNumber,
      wa_stream_name = None, wa_stream_entry_id = None, wa_consumer_group = None, wa_consumer_id = ''fake-consumer'',
      wa_worker_id = None, wa_status = status, wa_started_at = clk 1, wa_finished_at = Some (clk 2),
      wa_result_ref = resultRef, wa_error_kind = errorKind, wa_error_message = errorMessage,
      wa_produced_terminal_fact = terminal, wa_was_reclaimed = False, wa_reclaimed_from_consumer = None,
      wa_reclaimed_at = None, wa_time_created = clk 3, wa_time_updated = clk 4\<rparr>"

definition terminal_attempt :: "FakeWorkQueueStore \<Rightarrow> string \<Rightarrow> WorkAttempt option" where
  "terminal_attempt st workId = List.find wa_produced_terminal_fact (attempts_of st workId)"

definition completeTerminal ::
    "(nat \<Rightarrow> millis) \<Rightarrow> string \<Rightarrow> string \<Rightarrow> FakeWorkQueueStore \<Rightarrow> string + (WorkItem \<times> WorkAttempt) \<times> FakeWorkQueueStore" where
  "completeTerminal clk workId resultRef st =
     (case map_get (ws_workItems st) workId of
        None \<Rightarrow> Inl (not_found workId)
      | Some workItem \<Rightarrow>
          if wi_status workItem \<in> set terminalStates
          then case terminal_attempt st workId of
                 None \<Rightarrow> Inl (''Terminal work item '' @ workId @ '' exists but no terminal attempt'')
               | Some attempt \<Rightarrow> Inr ((workItem, attempt), st)
          else
            let workItem = workItem\<lparr>wi_status := WI_completed, wi_completed_at := Some (clk 0),
                  wi_result_ref := Some resultRef, wi_attempt_count := wi_attempt_count workItem + 1,
                  wi_time_updated := clk 1\<rparr>;
                attempt = closing_attempt (\<lambda>i. clk (i + 2)) workId (nextAttemptNumber st workId) AT_completed
                  (Some resultRef) None None True
            in Inr ((workItem, attempt), push_attempt attempt workId (put_item workItem workId st)))"

definition failTerminal ::
    "(nat \<Rightarrow> millis) \<Rightarrow> string \<Rightarrow> string \<Rightarrow> string \<Rightarrow> FakeWorkQueueStore \<Rightarrow>
     string + (WorkItem \<times> WorkAttempt) \<times> FakeWorkQueueStore" where
  "failTerminal clk workId errorKind errorMessage st =
     (case map_get (ws_workItems st) workId of
        None \<Rightarrow> Inl (not_found workId)
      | Some workItem \<Rightarrow>
          if wi_status workItem \<in> set terminalStates
          then case terminal_attempt st workId of
                 None \<Rightarrow> Inl (''Terminal work item '' @ workId @ '' exists but no terminal attempt'')
               | Some attempt \<Rightarrow> Inr ((workItem, attempt), st)
          else
            let workItem = workItem\<lparr>wi_status := WI_failed_terminal, wi_error_classification := Some errorKind,
                  wi_completed_at := Some (clk 0), wi_attempt_count := wi_attempt_count workItem + 1,
                  wi_time_updated := clk 1\<rparr>;
                attempt = closing_attempt (\<lambda>i. clk (i + 2)) workId (nextAttemptNumber st workId) AT_failed
                  None (Some errorKind) (Some errorMessage) True
            in Inr ((workItem, attempt), push_attempt attempt workId (put_item workItem workId st)))"

definition schedule_id :: "string \<Rightarrow> int \<Rightarrow> millis \<Rightarrow> string" where
  "schedule_id workId attemptNumber nowMs =
     workId @ '':scheduled:'' @ show_int attemptNumber @ '':'' @ show_int nowMs"

definition failRetryableAndSchedule ::
    "millis \<Rightarrow> string \<Rightarrow> string \<Rightarrow> string \<Rightarrow> int \<Rightarrow> string option \<Rightarrow> FakeWorkQueueStore \<Rightarrow>
     string + (WorkItem \<times> WorkAttempt \<times> StoredSchedule) \<times> FakeWorkQueueStore" where
  "failRetryableAndSchedule nowMs workId errorKind errorMessage retryAfterMs reason st =
     (case map_get (ws_workItems st) workId of
        None \<Rightarrow> Inl (not_found workId)
      | Some workItem \<Rightarrow>
          if wi_status workItem \<in> set terminalStates
          then Inl (''Work item '' @ workId @ '' already terminal'')
          else
            let attemptNumber = nextAttemptNumber st workId;
                dueAt = nowMs + retryAfterMs;
                workItem = workItem\<lparr>wi_status := WI_retry_scheduled, wi_error_classification := Some errorKind,
                  wi_attempt_count := attemptNumber, wi_time_updated := nowMs\<rparr>;
                attempt = closing_attempt (\<lambda>i. nowMs) workId attemptNumber AT_failed None (Some errorKind)
                  (Some errorMessage) False;
                scheduledWorkId = schedule_id workId attemptNumber nowMs;
                scheduledWork =
                  \<lparr>sw_id = scheduledWorkId, sw_work_id = workId, sw_due_at = dueAt, sw_scheduled_at = nowMs,
                   sw_retry_count = attemptNumber, sw_max_retries = wi_max_attempts workItem,
                   sw_backoff_policy = ''exponential'', sw_next_retry_delay_ms = Some retryAfterMs, sw_priority = 50,
                   sw_status = SW_scheduled, sw_promoted_at = None, sw_promoted_to_stream = None,
                   sw_promoted_stream_entry_id = None, sw_reason = Some (nullish reason errorKind),
                   sw_time_created = nowMs, sw_time_updated = nowMs\<rparr>;
                st = push_attempt attempt workId (put_item workItem workId st)
            in Inr ((workItem, attempt, scheduledWork),
                 st\<lparr>ws_scheduledWork := map_set scheduledWorkId scheduledWork (ws_scheduledWork st)\<rparr>))"

definition dead_letter_id :: "string \<Rightarrow> millis \<Rightarrow> string" where
  "dead_letter_id workId nowMs = workId @ '':dl:'' @ show_int nowMs"

definition deadLetter ::
    "millis \<Rightarrow> DeadLetterInput \<Rightarrow> FakeWorkQueueStore \<Rightarrow>
     string + (WorkItem \<times> DeadLetter \<times> WorkAttempt) \<times> FakeWorkQueueStore" where
  "deadLetter nowMs input st =
     (let workId = di_workId input
      in case map_get (ws_workItems st) workId of
        None \<Rightarrow> Inl (not_found workId)
      | Some workItem \<Rightarrow>
          if wi_status workItem \<in> set terminalStates
          then case (map_get (ws_deadLetters st) workId, terminal_attempt st workId) of
                 (Some existingDeadLetter, Some attempt) \<Rightarrow> Inr ((workItem, existingDeadLetter, attempt), st)
               | _ \<Rightarrow> Inl (''Terminal work item '' @ workId @ '' exists but missing records'')
          else
            let attemptNumber = nextAttemptNumber st workId;
                workItem = workItem\<lparr>wi_status := WI_dead_lettered, wi_error_classification := di_lastErrorKind input,
                  wi_completed_at := Some nowMs, wi_attempt_count := attemptNumber,
                  wi_reclaim_count := di_reclaimCount input, wi_time_updated := nowMs\<rparr>;
                attempt = closing_attempt (\<lambda>i. nowMs) workId attemptNumber AT_failed None (di_lastErrorKind input)
                  (di_lastErrorMessage input) True;
                letter =
                  \<lparr>dl_id = dead_letter_id workId nowMs, dl_work_id = workId, dl_reason = di_reason input,
                   dl_work_kind = di_workKind input, dl_attempt_count = di_attemptCount input,
                   dl_reclaim_count = di_reclaimCount input, dl_last_error_kind = di_lastErrorKind input,
                   dl_last_error_message = di_lastErrorMessage input, dl_stream_name = di_streamName input,
                   dl_stream_entry_id = di_streamEntryId input, dl_consumer_group = di_consumerGroup input,
                   dl_last_consumer_id = di_lastConsumerId input,
                   dl_can_be_retried = nullish (di_canBeRetried input) False,
                   dl_retry_after_ms = (case di_retryAfterMs input of
                      Some r \<Rightarrow> if r \<noteq> 0 then Some r else None | None \<Rightarrow> None),
                   dl_requires_manual_intervention = nullish (di_requiresManualIntervention input) False,
                   dl_manual_intervention_notes = di_manualInterventionNotes input, dl_dead_lettered_at = nowMs,
                   dl_time_created = nowMs, dl_time_updated = nowMs\<rparr>;
                st = push_attempt attempt workId (put_item workItem workId st)
            in Inr ((workItem, letter, attempt),
                 st\<lparr>ws_deadLetters := map_set (dl_id letter) letter (ws_deadLetters st)\<rparr>))"

section \<open>Quarantine, receipts, promotions and stream states\<close>

definition quarantine_id :: "string \<Rightarrow> millis \<Rightarrow> string" where
  "quarantine_id entryId nowMs = entryId @ '':quarantine:'' @ show_int nowMs"

definition quarantineStreamEntry ::
    "millis \<Rightarrow> QuarantineInput \<Rightarrow> FakeWorkQueueStore \<Rightarrow> QuarantineRecord \<times> FakeWorkQueueStore" where
  "quarantineStreamEntry nowMs input st =
     (let quarantineId = quarantine_id (qi_entryId input) nowMs;
          rec =
            \<lparr>qr_id = quarantineId, qr_entry_id = qi_entryId input, qr_stream_name = qi_streamName input,
             qr_work_id = qi_workId input, qr_reason = qi_reason input, qr_context = qi_context input,
             qr_resolved = False, qr_resolved_at = None, qr_resolved_by = None, qr_resolution_notes = None,
             qr_created_at = qi_createdAt input, qr_time_created = nowMs, qr_time_updated = nowMs\<rparr>
      in (rec, st\<lparr>ws_quarantineRecords := map_set quarantineId rec (ws_quarantineRecords st)\<rparr>))"

definition getQuarantineRecord :: "FakeWorkQueueStore \<Rightarrow> string \<Rightarrow> QuarantineRecord option" where
  "getQuarantineRecord st entryId =
     List.find (\<lambda>r. qr_entry_id r = entryId) (map_values (ws_quarantineRecords st))"

definition listQuarantinedEntries :: "FakeWorkQueueStore \<Rightarrow> QuarantineRecord list" where
  "listQuarantinedEntries st = map_values (ws_quarantineRecords st)"

definition recordRecoveryReceipt ::
    "millis \<Rightarrow> RecoveryReceiptInput \<Rightarrow> FakeWorkQueueStore \<Rightarrow> RecoveryReceipt \<times> FakeWorkQueueStore" where
  "recordRecoveryReceipt nowMs input st =
     (let receipt =
        \<lparr>rr_id = ri_workId input @ '':recovery:'' @ RecoveryAction_str (ri_action input) @ '':'' @ show_int nowMs,
         rr_work_id = ri_workId input, rr_stream_entry_id = ri_streamEntryId input, rr_action = ri_action input,
         rr_recovered_by_consumer = ri_recoveredByConsumer input, rr_original_consumer = ri_originalConsumer input,
         rr_recovered_at = ri_recoveredAt input, rr_idle_duration_ms = ri_idleDurationMs input,
         rr_outcome = ri_outcome input, rr_outcome_reason = ri_outcomeReason input,
         rr_stream_name = ri_streamName input, rr_consumer_group = ri_consumerGroup input,
         rr_was_pending = nullish (ri_wasPending input) True, rr_was_terminal = nullish (ri_wasTerminal input) False,
         rr_time_created = nowMs, rr_time_updated = nowMs\<rparr>
      in (receipt, st\<lparr>ws_recoveryReceipts := ws_recoveryReceipts st @ [receipt]\<rparr>))"

definition markPromotion ::
    "(nat \<Rightarrow> millis) \<Rightarrow> string \<Rightarrow> string \<Rightarrow> string \<Rightarrow> int \<Rightarrow> FakeWorkQueueStore \<Rightarrow>
     string + StoredSchedule \<times> FakeWorkQueueStore" where
  "markPromotion clk workId scheduledWorkId entryId generation st =
     (case map_get (ws_scheduledWork st) scheduledWorkId of
        None \<Rightarrow> Inl (''Scheduled work '' @ scheduledWorkId @ '' not found'')
      | Some s \<Rightarrow>
          if sw_status s \<noteq> SW_scheduled
          then Inl (''Scheduled work '' @ scheduledWorkId @ '' not in 'scheduled' status'')
          else let s = s\<lparr>sw_status := SW_promoted, sw_promoted_at := Some (clk 0),
                      sw_promoted_to_stream := Some ''tribunus:work'', sw_promoted_stream_entry_id := Some entryId,
                      sw_time_updated := clk 1\<rparr>
               in Inr (s, st\<lparr>ws_scheduledWork := map_set scheduledWorkId s (ws_scheduledWork st)\<rparr>))"

definition updateStreamState :: "millis \<Rightarrow> StreamStateUpdate \<Rightarrow> FakeWorkQueueStore \<Rightarrow> StreamState \<times> FakeWorkQueueStore" where
  "updateStreamState nowMs update st =
     (let key = su_streamName update @ '':'' @ su_consumerGroup update;
          state =
            \<lparr>ss_id = key, ss_stream_name = su_streamName update, ss_consumer_group = su_consumerGroup update,
             ss_last_entry_id = su_lastEntryId update, ss_last_processed_entry_id = su_lastProcessedEntryId update,
             ss_pending_count = nullish (su_pendingCount update) 0,
             ss_consumer_count = nullish (su_consumerCount update) 0,
             ss_last_recovery_at = su_lastRecoveryAt update,
             ss_recovery_generation = nullish (su_recoveryGeneration update) 0,
             ss_last_heartbeat_at = su_lastHeartbeatAt update, ss_healthy = nullish (su_healthy update) True,
             ss_time_created = nowMs, ss_time_updated = nowMs\<rparr>
      in (state, st\<lparr>ws_streamStates := map_set key state (ws_streamStates st)\<rparr>))"

section \<open>Queries\<close>

definition getWorkItem :: "FakeWorkQueueStore \<Rightarrow> string \<Rightarrow> WorkItem option" where
  "getWorkItem st workId = map_get (ws_workItems st) workId"

definition getWorkStatus :: "FakeWorkQueueStore \<Rightarrow> string \<Rightarrow> WorkItemStatus option" where
  "getWorkStatus st workId = map_option wi_status (map_get (ws_workItems st) workId)"

definition isWorkTerminal :: "FakeWorkQueueStore \<Rightarrow> string \<Rightarrow> bool" where
  "isWorkTerminal st workId =
     (case getWorkStatus st workId of None \<Rightarrow> False | Some status \<Rightarrow> status \<in> set terminalStates)"

definition getLatestAttempt :: "FakeWorkQueueStore \<Rightarrow> string \<Rightarrow> WorkAttempt option" where
  "getLatestAttempt st workId =
     (let attempts = attempts_of st workId in if attempts = [] then None else Some (last attempts))"

definition listNonTerminalWorkByStream :: "FakeWorkQueueStore \<Rightarrow> string \<Rightarrow> WorkItem list" where
  "listNonTerminalWorkByStream st streamName =
     List.filter (\<lambda>w. wi_stream_name w = Some streamName \<and> wi_status w \<notin> set terminalStates) (map_values (ws_workItems st))"

definition listScheduledWork :: "FakeWorkQueueStore \<Rightarrow> int \<Rightarrow> nat option \<Rightarrow> StoredSchedule list" where
  "listScheduledWork st dueBefore limit =
     take (nullish limit 100)
       (sort_key sw_due_at
         (List.filter (\<lambda>s. sw_status s = SW_scheduled \<and> sw_due_at s \<le> dueBefore) (map_values (ws_scheduledWork st))))"

definition getStreamState :: "FakeWorkQueueStore \<Rightarrow> string \<Rightarrow> string \<Rightarrow> StreamState option" where
  "getStreamState st streamName consumerGroup = map_get (ws_streamStates st) (streamName @ '':'' @ consumerGroup)"

definition getStreamStateByEntryId :: "FakeWorkQueueStore \<Rightarrow> string \<Rightarrow> StreamState option" where
  "getStreamStateByEntryId st entryId =
     List.find (\<lambda>s. ss_last_entry_id s = Some entryId) (map_values (ws_streamStates st))"

definition getActiveStreamStateForWork :: "FakeWorkQueueStore \<Rightarrow> string \<Rightarrow> StreamState option" where
  "getActiveStreamStateForWork st workId =
     (case getWorkItem st workId of
        None \<Rightarrow> None
      | Some workItem \<Rightarrow>
          (case wi_stream_name workItem of
             None \<Rightarrow> None
           | Some s \<Rightarrow> if s = [] then None else map_get (ws_streamStates st) (s @ '':tribunus:workers'')))"

definition listDeadLetters :: "FakeWorkQueueStore \<Rightarrow> DeadLetterFilter \<Rightarrow> DeadLetter list" where
  "listDeadLetters st f =
     (let result = map_values (ws_deadLetters st);
          result = (case df_workId f of
             Some w \<Rightarrow> if w = [] then result else List.filter (\<lambda>d. dl_work_id d = w) result | None \<Rightarrow> result);
          result = (case df_reason f of Some r \<Rightarrow> List.filter (\<lambda>d. dl_reason d = r) result | None \<Rightarrow> result);
          result = (case df_requiresManualIntervention f of
             Some b \<Rightarrow> List.filter (\<lambda>d. dl_requires_manual_intervention d = b) result | None \<Rightarrow> result)
      in case df_limit f of
           Some n \<Rightarrow> if n = 0 then result
             else if n < 0 then take (length result - nat (- n)) result else take (nat n) result
         | None \<Rightarrow> result)"

definition getDeadLetter :: "FakeWorkQueueStore \<Rightarrow> string \<Rightarrow> DeadLetter option" where
  "getDeadLetter st workId = List.find (\<lambda>d. dl_work_id d = workId) (map_values (ws_deadLetters st))"

definition getRecoveryReceipts :: "FakeWorkQueueStore \<Rightarrow> string \<Rightarrow> RecoveryReceipt list" where
  "getRecoveryReceipts st workId = List.filter (\<lambda>r. rr_work_id r = workId) (ws_recoveryReceipts st)"

fun getWorkItems :: "FakeWorkQueueStore \<Rightarrow> string list \<Rightarrow> (string \<times> WorkItem) list \<Rightarrow> (string \<times> WorkItem) list" where
  "getWorkItems st [] m = m"
| "getWorkItems st (i # is) m =
     getWorkItems st is (case map_get (ws_workItems st) i of Some w \<Rightarrow> map_set i w m | None \<Rightarrow> m)"

fun checkWorkTerminal :: "FakeWorkQueueStore \<Rightarrow> string list \<Rightarrow> (string \<times> bool) list \<Rightarrow> (string \<times> bool) list" where
  "checkWorkTerminal st [] m = m"
| "checkWorkTerminal st (i # is) m = checkWorkTerminal st is (map_set i (isWorkTerminal st i) m)"

section \<open>Histories of the store\<close>

datatype store_op =
    Create_item WorkItemInput
  | Enqueue_pending string string string
  | Enqueued string string string string
  | Start_attempt AttemptInput
  | Complete string string
  | Fail_terminal string string string
  | Fail_retryable string string string int "string option"
  | Dead_letter DeadLetterInput
  | Quarantine QuarantineInput
  | Recovery_receipt RecoveryReceiptInput
  | Promotion string string string int
  | Stream_state StreamStateUpdate

text \<open>The store after a call; a call that throws does so before it changes anything.\<close>

definition stored :: "FakeWorkQueueStore \<Rightarrow> string + 'a \<times> FakeWorkQueueStore \<Rightarrow> FakeWorkQueueStore" where
  "stored st r = (case r of Inl e \<Rightarrow> st | Inr (_, st') \<Rightarrow> st')"

fun apply_store_op :: "(nat \<Rightarrow> millis) \<Rightarrow> store_op \<Rightarrow> FakeWorkQueueStore \<Rightarrow> FakeWorkQueueStore" where
  "apply_store_op clk (Create_item i) st = snd (createWorkItem (clk 0) i st)"
| "apply_store_op clk (Enqueue_pending w s g) st = stored st (markEnqueuePending (clk 0) w s g st)"
| "apply_store_op clk (Enqueued w e s g) st = stored st (markEnqueued clk w e s g st)"
| "apply_store_op clk (Start_attempt i) st = snd (startAttempt (clk 0) i st)"
| "apply_store_op clk (Complete w r) st = stored st (completeTerminal clk w r st)"
| "apply_store_op clk (Fail_terminal w k m) st = stored st (failTerminal clk w k m st)"
| "apply_store_op clk (Fail_retryable w k m d r) st = stored st (failRetryableAndSchedule (clk 0) w k m d r st)"
| "apply_store_op clk (Dead_letter i) st = stored st (deadLetter (clk 0) i st)"
| "apply_store_op clk (Quarantine i) st = snd (quarantineStreamEntry (clk 0) i st)"
| "apply_store_op clk (Recovery_receipt i) st = snd (recordRecoveryReceipt (clk 0) i st)"
| "apply_store_op clk (Promotion w s e n) st = stored st (markPromotion clk w s e n st)"
| "apply_store_op clk (Stream_state u) st = snd (updateStreamState (clk 0) u st)"

fun store_run :: "((nat \<Rightarrow> millis) \<times> store_op) list \<Rightarrow> FakeWorkQueueStore \<Rightarrow> FakeWorkQueueStore" where
  "store_run [] st = st"
| "store_run ((clk, op) # ops) st = store_run ops (apply_store_op clk op st)"

fun created_by :: "store_op \<Rightarrow> string list" where
  "created_by (Create_item i) = [ii_id i]"
| "created_by _ = []"

definition created_items :: "((nat \<Rightarrow> millis) \<times> store_op) list \<Rightarrow> string list" where
  "created_items ops = concat (List.map (\<lambda>op. created_by (snd op)) ops)"

lemma created_items_simps [simp]:
  "created_items [] = []" "created_items (c # ops) = created_by (snd c) @ created_items ops"
  "created_items (ops @ ops') = created_items ops @ created_items ops'"
  by (simp_all add: created_items_def)

lemma store_run_append: "store_run (xs @ ys) st = store_run ys (store_run xs st)"
  by (induction xs st rule: store_run.induct) simp_all

section \<open>One terminal outcome\<close>

definition terminal_attempts :: "FakeWorkQueueStore \<Rightarrow> string \<Rightarrow> WorkAttempt list" where
  "terminal_attempts st w = List.filter wa_produced_terminal_fact (attempts_of st w)"

text \<open>The item and the attempts of one work identifier.\<close>

definition item_view :: "FakeWorkQueueStore \<Rightarrow> string \<Rightarrow> WorkItem option \<times> WorkAttempt list" where
  "item_view st w = (map_get (ws_workItems st) w, attempts_of st w)"

lemma view_simps [simp]:
  "map_get (ws_workItems (put_item item v st)) w = (if w = v then Some item else map_get (ws_workItems st) w)"
  "attempts_of (put_item item v st) w = attempts_of st w"
  "ws_workItems (push_attempt a v st) = ws_workItems st"
  "attempts_of (push_attempt a v st) w = (if w = v then attempts_of st w @ [a] else attempts_of st w)"
  by (auto simp: put_item_def push_attempt_def attempts_of_def push_at_def)

lemma attempts_of_frame [simp]:
  "attempts_of (st\<lparr>ws_scheduledWork := a\<rparr>) w = attempts_of st w"
  "attempts_of (st\<lparr>ws_deadLetters := b\<rparr>) w = attempts_of st w"
  "attempts_of (st\<lparr>ws_quarantineRecords := c\<rparr>) w = attempts_of st w"
  "attempts_of (st\<lparr>ws_recoveryReceipts := d\<rparr>) w = attempts_of st w"
  "attempts_of (st\<lparr>ws_streamStates := e\<rparr>) w = attempts_of st w"
  by (simp_all add: attempts_of_def)

lemma closing_terminal [simp]: "wa_produced_terminal_fact (closing_attempt clk w n s r k m t) = t"
  by (simp add: closing_attempt_def)

definition terminal_view :: "WorkItem option \<times> WorkAttempt list \<Rightarrow> bool" where
  "terminal_view v = (case fst v of None \<Rightarrow> False | Some i \<Rightarrow> wi_status i \<in> set terminalStates)"

definition ended_once :: "WorkItem option \<times> WorkAttempt list \<Rightarrow> bool" where
  "ended_once v \<longleftrightarrow> length (List.filter wa_produced_terminal_fact (snd v)) = (if terminal_view v then 1 else 0)"

text \<open>Steps that keep the outcome: the terminal facts stay, and an item that has ended stays as it is.\<close>

definition outcome_step :: "WorkItem option \<times> WorkAttempt list \<Rightarrow> WorkItem option \<times> WorkAttempt list \<Rightarrow> bool" where
  "outcome_step v v' \<longleftrightarrow>
     (if terminal_view v
      then fst v' = fst v \<and>
        List.filter wa_produced_terminal_fact (snd v') = List.filter wa_produced_terminal_fact (snd v)
      else length (List.filter wa_produced_terminal_fact (snd v')) =
        length (List.filter wa_produced_terminal_fact (snd v)) + (if terminal_view v' then 1 else 0))"

lemma outcome_same [simp]: "outcome_step v v"
  by (simp add: outcome_step_def)

text \<open>The item an identifier stands for is moved on, or ended with an attempt.\<close>

definition open_item :: "FakeWorkQueueStore \<Rightarrow> string \<Rightarrow> bool" where
  "open_item st v \<longleftrightarrow> (\<exists>i. map_get (ws_workItems st) v = Some i \<and> wi_status i \<notin> set terminalStates)"

lemma moved_outcome:
  assumes "open_item st v" "wi_status i \<notin> set terminalStates"
  shows "outcome_step (item_view st w) (item_view (put_item i v st) w)"
    "\<not> wa_produced_terminal_fact a \<Longrightarrow> outcome_step (item_view st w) (item_view (push_attempt a v (put_item i v st)) w)"
  using assms by (auto simp: open_item_def outcome_step_def item_view_def terminal_view_def)

lemma ended_outcome:
  assumes "open_item st v" "wi_status i \<in> set terminalStates" "wa_produced_terminal_fact a"
  shows "outcome_step (item_view st w) (item_view (push_attempt a v (put_item i v st)) w)"
  using assms by (auto simp: open_item_def outcome_step_def item_view_def terminal_view_def)

lemma item_view_frame [simp]:
  "item_view (st\<lparr>ws_scheduledWork := a\<rparr>) w = item_view st w"
  "item_view (st\<lparr>ws_deadLetters := b\<rparr>) w = item_view st w"
  "item_view (st\<lparr>ws_quarantineRecords := c\<rparr>) w = item_view st w"
  "item_view (st\<lparr>ws_recoveryReceipts := d\<rparr>) w = item_view st w"
  "item_view (st\<lparr>ws_streamStates := e\<rparr>) w = item_view st w"
  by (simp_all add: item_view_def)

lemma pending_cases:
  assumes "markEnqueuePending t v s g st = Inr (i, st')"
  shows "(\<exists>i0. map_get (ws_workItems st) v = Some i0 \<and> wi_status i0 = WI_created) \<and>
    wi_status i = WI_enqueue_pending \<and> st' = put_item i v st"
  using assms by (auto simp: markEnqueuePending_def Let_def split: option.splits if_splits)

lemma enqueued_cases:
  assumes "markEnqueued clk v e s g st = Inr (i, st')"
  shows "(\<exists>i0. map_get (ws_workItems st) v = Some i0 \<and> wi_status i0 \<in> {WI_created, WI_enqueue_pending}) \<and>
    wi_status i = WI_enqueued \<and> wi_stream_entry_id i = Some e \<and> st' = put_item i v st"
  using assms by (auto simp: markEnqueued_def Let_def split: option.splits if_splits)

lemma complete_cases:
  assumes "completeTerminal clk v r st = Inr ((i, a), st')"
  obtains (repeated) "isWorkTerminal st v" "st' = st"
  | (ended) "open_item st v" "wi_status i = WI_completed" "wa_produced_terminal_fact a"
      "st' = push_attempt a v (put_item i v st)"
  using assms
  by (auto simp: completeTerminal_def Let_def isWorkTerminal_def getWorkStatus_def open_item_def
      split: option.splits if_splits)

lemma fail_cases:
  assumes "failTerminal clk v k m st = Inr ((i, a), st')"
  obtains (repeated) "isWorkTerminal st v" "st' = st"
  | (ended) "open_item st v" "wi_status i = WI_failed_terminal" "wa_produced_terminal_fact a"
      "st' = push_attempt a v (put_item i v st)"
  using assms
  by (auto simp: failTerminal_def Let_def isWorkTerminal_def getWorkStatus_def open_item_def
      split: option.splits if_splits)

lemma retry_cases:
  assumes "failRetryableAndSchedule t v k m d reason st = Inr ((i, a, s), st')"
  shows "open_item st v \<and> wi_status i = WI_retry_scheduled \<and> \<not> wa_produced_terminal_fact a \<and> sw_work_id s = v \<and>
    sw_id s = schedule_id v (nextAttemptNumber st v) t \<and>
    st' = (push_attempt a v (put_item i v st))\<lparr>ws_scheduledWork := map_set (sw_id s) s (ws_scheduledWork st)\<rparr>"
  using assms
  by (auto simp: failRetryableAndSchedule_def Let_def open_item_def push_attempt_def put_item_def
      split: option.splits if_splits)

lemma dead_letter_cases:
  assumes "deadLetter t input st = Inr ((i, l, a), st')"
  obtains (repeated) "isWorkTerminal st (di_workId input)" "map_get (ws_deadLetters st) (di_workId input) \<noteq> None" "st' = st"
  | (ended) "open_item st (di_workId input)" "wi_status i = WI_dead_lettered" "wa_produced_terminal_fact a"
      "dl_id l = dead_letter_id (di_workId input) t"
      "st' = (push_attempt a (di_workId input) (put_item i (di_workId input) st))
               \<lparr>ws_deadLetters := map_set (dl_id l) l (ws_deadLetters st)\<rparr>"
  using assms
  by (auto simp: deadLetter_def Let_def isWorkTerminal_def getWorkStatus_def open_item_def push_attempt_def put_item_def
      split: option.splits if_splits)

lemma promotion_cases:
  assumes "markPromotion clk v sid e n st = Inr (s', st')"
  shows "(\<exists>s. map_get (ws_scheduledWork st) sid = Some s \<and> sw_work_id s' = sw_work_id s \<and> sw_id s' = sw_id s) \<and>
    st' = st\<lparr>ws_scheduledWork := map_set sid s' (ws_scheduledWork st)\<rparr>"
  using assms by (auto simp: markPromotion_def Let_def split: option.splits if_splits)

lemma stored_outcome:
  assumes "\<And>x st'. r = Inr (x, st') \<Longrightarrow> outcome_step (item_view st w) (item_view st' w)"
  shows "outcome_step (item_view st w) (item_view (stored st r) w)"
  using assms by (auto simp: stored_def split: sum.splits)

lemma store_op_outcome:
  assumes "w \<notin> set (created_by op) \<or> map_get (ws_workItems st) w = None"
  shows "outcome_step (item_view st w) (item_view (apply_store_op clk op st) w)"
proof (cases op)
  case (Create_item i)
  with assms have "w \<noteq> ii_id i \<or> map_get (ws_workItems st) w = None" by simp
  moreover have "wi_status (fst (createWorkItem (clk 0) i st)) \<notin> set terminalStates"
    "snd (createWorkItem (clk 0) i st) = put_item (fst (createWorkItem (clk 0) i st)) (ii_id i) st"
    by (simp_all add: createWorkItem_def Let_def terminalStates_def)
  ultimately show ?thesis using Create_item by (auto simp: outcome_step_def item_view_def terminal_view_def)
next
  case (Enqueue_pending v s g)
  show ?thesis unfolding Enqueue_pending apply_store_op.simps
    by (rule stored_outcome)
      (auto dest!: pending_cases intro!: moved_outcome simp: open_item_def terminalStates_def)
next
  case (Enqueued v e s g)
  show ?thesis unfolding Enqueued apply_store_op.simps
    by (rule stored_outcome) (auto dest!: enqueued_cases intro!: moved_outcome simp: open_item_def terminalStates_def)
next
  case (Start_attempt i)
  then show ?thesis
    by (auto simp: startAttempt_def Let_def outcome_step_def item_view_def terminal_view_def split: option.splits)
next
  case (Complete v r)
  show ?thesis unfolding Complete apply_store_op.simps
    by (rule stored_outcome) (auto elim!: complete_cases intro!: ended_outcome simp: terminalStates_def)
next
  case (Fail_terminal v k m)
  show ?thesis unfolding Fail_terminal apply_store_op.simps
    by (rule stored_outcome) (auto elim!: fail_cases intro!: ended_outcome simp: terminalStates_def)
next
  case (Fail_retryable v k m d r)
  show ?thesis unfolding Fail_retryable apply_store_op.simps
    by (rule stored_outcome) (auto dest!: retry_cases intro!: moved_outcome simp: terminalStates_def)
next
  case (Dead_letter i)
  show ?thesis unfolding Dead_letter apply_store_op.simps
    by (rule stored_outcome) (auto elim!: dead_letter_cases intro!: ended_outcome simp: terminalStates_def)
next
  case (Promotion v s e n)
  show ?thesis unfolding Promotion apply_store_op.simps
    by (rule stored_outcome) (auto dest!: promotion_cases)
qed (simp_all add: quarantineStreamEntry_def recordRecoveryReceipt_def updateStreamState_def Let_def)

lemma outcome_step_once: "ended_once v \<Longrightarrow> outcome_step v v' \<Longrightarrow> ended_once v'"
  by (auto simp: ended_once_def outcome_step_def terminal_view_def split: if_splits)

lemma stored_known:
  assumes "\<And>x st'. r = Inr (x, st') \<Longrightarrow> map_get (ws_workItems st') w \<noteq> None \<Longrightarrow> map_get (ws_workItems st) w \<noteq> None"
  shows "map_get (ws_workItems (stored st r)) w \<noteq> None \<Longrightarrow> map_get (ws_workItems st) w \<noteq> None"
  using assms by (auto simp: stored_def split: sum.splits)

lemma store_op_known:
  assumes "map_get (ws_workItems (apply_store_op clk op st)) w \<noteq> None" "w \<notin> set (created_by op)"
  shows "map_get (ws_workItems st) w \<noteq> None"
proof (cases op)
  case (Enqueue_pending v s g)
  show ?thesis
    by (rule stored_known [OF _ assms(1) [unfolded Enqueue_pending apply_store_op.simps]])
      (auto dest!: pending_cases split: if_splits)
next
  case (Enqueued v e s g)
  show ?thesis
    by (rule stored_known [OF _ assms(1) [unfolded Enqueued apply_store_op.simps]])
      (auto dest!: enqueued_cases split: if_splits)
next
  case (Complete v r)
  show ?thesis
    by (rule stored_known [OF _ assms(1) [unfolded Complete apply_store_op.simps]])
      (auto elim!: complete_cases simp: open_item_def split: if_splits)
next
  case (Fail_terminal v k m)
  show ?thesis
    by (rule stored_known [OF _ assms(1) [unfolded Fail_terminal apply_store_op.simps]])
      (auto elim!: fail_cases simp: open_item_def split: if_splits)
next
  case (Fail_retryable v k m d r)
  show ?thesis
    by (rule stored_known [OF _ assms(1) [unfolded Fail_retryable apply_store_op.simps]])
      (auto dest!: retry_cases simp: open_item_def split: if_splits)
next
  case (Dead_letter i)
  show ?thesis
    by (rule stored_known [OF _ assms(1) [unfolded Dead_letter apply_store_op.simps]])
      (auto elim!: dead_letter_cases simp: open_item_def split: if_splits)
next
  case (Promotion v s e n)
  show ?thesis
    by (rule stored_known [OF _ assms(1) [unfolded Promotion apply_store_op.simps]]) (auto dest!: promotion_cases)
qed (use assms in \<open>simp_all add: createWorkItem_def startAttempt_def quarantineStreamEntry_def recordRecoveryReceipt_def
     updateStreamState_def Let_def\<close>)

text \<open>A history that creates each item once, from a store that does not hold the items it creates.\<close>

definition fresh_history :: "((nat \<Rightarrow> millis) \<times> store_op) list \<Rightarrow> FakeWorkQueueStore \<Rightarrow> bool" where
  "fresh_history ops st \<longleftrightarrow>
     distinct (created_items ops) \<and> (\<forall>w \<in> set (created_items ops). map_get (ws_workItems st) w = None)"

lemma fresh_history_Cons:
  assumes "fresh_history ((clk, op) # ops) st"
  shows "fresh_history ops (apply_store_op clk op st)" "w \<notin> set (created_by op) \<or> map_get (ws_workItems st) w = None"
proof -
  have "map_get (ws_workItems (apply_store_op clk op st)) v = None" if "v \<in> set (created_items ops)" for v
  proof (rule ccontr)
    assume known: "map_get (ws_workItems (apply_store_op clk op st)) v \<noteq> None"
    from assms that have "v \<notin> set (created_by op)" "map_get (ws_workItems st) v = None"
      by (auto simp: fresh_history_def)
    with store_op_known [OF known] show False by simp
  qed
  with assms show "fresh_history ops (apply_store_op clk op st)" by (auto simp: fresh_history_def)
  from assms show "w \<notin> set (created_by op) \<or> map_get (ws_workItems st) w = None" by (auto simp: fresh_history_def)
qed

lemma fresh_history_append:
  "fresh_history (xs @ ys) st \<Longrightarrow> fresh_history xs st \<and> fresh_history ys (store_run xs st)"
proof (induction xs arbitrary: st)
  case (Cons x xs)
  obtain clk op where "x = (clk, op)" by (cases x)
  with Cons fresh_history_Cons(1) [of clk op "xs @ ys" st] show ?case by (auto simp: fresh_history_def)
qed (simp add: fresh_history_def)

lemma run_ended_once:
  assumes "fresh_history ops st" "ended_once (item_view st w)"
  shows "ended_once (item_view (store_run ops st) w)"
  using assms
proof (induction ops arbitrary: st)
  case (Cons x xs)
  obtain clk op where x: "x = (clk, op)" by (cases x)
  from outcome_step_once [OF Cons.prems(2) store_op_outcome [OF fresh_history_Cons(2)]] Cons x fresh_history_Cons(1)
  show ?case by auto
qed simp

lemma run_keeps_outcome:
  assumes "fresh_history ops st" "terminal_view (item_view st w)"
  shows "fst (item_view (store_run ops st) w) = fst (item_view st w) \<and>
     List.filter wa_produced_terminal_fact (snd (item_view (store_run ops st) w)) =
     List.filter wa_produced_terminal_fact (snd (item_view st w))"
  using assms
proof (induction ops arbitrary: st)
  case (Cons x xs)
  obtain clk op where x: "x = (clk, op)" by (cases x)
  let ?st' = "apply_store_op clk op st"
  have step: "outcome_step (item_view st w) (item_view ?st' w)"
    using store_op_outcome fresh_history_Cons(2) Cons.prems(1) x by blast
  then have "fst (item_view ?st' w) = fst (item_view st w)"
    "List.filter wa_produced_terminal_fact (snd (item_view ?st' w)) =
     List.filter wa_produced_terminal_fact (snd (item_view st w))"
    using Cons.prems(2) by (simp_all add: outcome_step_def)
  moreover from this Cons.prems(2) have "terminal_view (item_view ?st' w)" by (simp add: terminal_view_def)
  ultimately show ?case using Cons.IH [of ?st'] fresh_history_Cons(1) Cons.prems(1) x by simp
qed simp

lemma isWorkTerminal_view: "isWorkTerminal st w = terminal_view (item_view st w)"
  by (simp add: isWorkTerminal_def getWorkStatus_def terminal_view_def item_view_def split: option.splits)

text \<open>
  C11: every work item has at most one terminal outcome.  In any history of calls in which no identifier is
  created twice, an item has exactly one attempt that produced a terminal fact when it is terminal and none
  before; from then on no call changes the item or that attempt, whichever outcome is reported later.
\<close>

theorem one_terminal_outcome:
  assumes "distinct (created_items (xs @ ys))"
  defines "st \<equiv> store_run xs empty_work_store"
  defines "st' \<equiv> store_run (xs @ ys) empty_work_store"
  shows "length (terminal_attempts st w) = (if isWorkTerminal st w then 1 else 0) \<and>
    (isWorkTerminal st w \<longrightarrow> getWorkItem st' w = getWorkItem st w \<and> terminal_attempts st' w = terminal_attempts st w)"
proof -
  have "fresh_history (xs @ ys) empty_work_store"
    using assms(1) by (simp add: fresh_history_def empty_work_store_def)
  then have fresh: "fresh_history xs empty_work_store" "fresh_history ys st"
    unfolding st_def using fresh_history_append by blast+
  have "ended_once (item_view empty_work_store w)"
    by (simp add: ended_once_def item_view_def terminal_view_def empty_work_store_def attempts_of_def)
  from run_ended_once [OF fresh(1) this] have "ended_once (item_view st w)" by (simp add: st_def)
  moreover have "st' = store_run ys st" by (simp add: st_def st'_def store_run_append)
  ultimately show ?thesis
    using run_keeps_outcome [OF fresh(2), of w]
    unfolding ended_once_def isWorkTerminal_view terminal_attempts_def getWorkItem_def
    by (simp add: item_view_def)
qed

theorem one_terminal_outcome_witness:
  "length (terminal_attempts (store_run
     [(\<lambda>i. 1, Create_item \<lparr>ii_id = ''w'', ii_sessionId = [], ii_projectId = [], ii_workKind = [], ii_schemaVersion = [],
         ii_correlationId = [], ii_missionId = None, ii_parentMissionId = None, ii_parentSessionId = None,
         ii_routingTags = None, ii_maxAttempts = None, ii_maxReclaims = None\<rparr>),
      (\<lambda>i. 2, Complete ''w'' ''r''), (\<lambda>i. 3, Fail_terminal ''w'' ''k'' ''m'')] empty_work_store) ''w'') \<le> 1"
  using one_terminal_outcome [of "[(\<lambda>i. 1, Create_item \<lparr>ii_id = ''w'', ii_sessionId = [], ii_projectId = [],
         ii_workKind = [], ii_schemaVersion = [],
         ii_correlationId = [], ii_missionId = None, ii_parentMissionId = None, ii_parentSessionId = None,
         ii_routingTags = None, ii_maxAttempts = None, ii_maxReclaims = None\<rparr>),
      (\<lambda>i. 2, Complete ''w'' ''r''), (\<lambda>i. 3, Fail_terminal ''w'' ''k'' ''m'')]" "[]" "''w''"]
  by (simp split: if_splits)

text \<open>Which collections an operation can change.\<close>

lemma stored_frame: "(\<And>x st'. r = Inr (x, st') \<Longrightarrow> f st' = f st) \<Longrightarrow> f (stored st r) = f st"
  by (auto simp: stored_def split: sum.splits)

lemma put_push_frame [simp]:
  "ws_deadLetters (put_item i v st) = ws_deadLetters st" "ws_deadLetters (push_attempt a v st) = ws_deadLetters st"
  "ws_scheduledWork (put_item i v st) = ws_scheduledWork st" "ws_scheduledWork (push_attempt a v st) = ws_scheduledWork st"
  "ws_quarantineRecords (put_item i v st) = ws_quarantineRecords st"
  "ws_quarantineRecords (push_attempt a v st) = ws_quarantineRecords st"
  by (simp_all add: put_item_def push_attempt_def)

lemma letters_frame: "\<not> (\<exists>i. op = Dead_letter i) \<Longrightarrow> ws_deadLetters (apply_store_op clk op st) = ws_deadLetters st"
  by (cases op)
    (auto intro!: stored_frame [where f = ws_deadLetters] dest!: pending_cases enqueued_cases retry_cases promotion_cases
      elim!: complete_cases fail_cases
      simp: createWorkItem_def startAttempt_def quarantineStreamEntry_def recordRecoveryReceipt_def updateStreamState_def
        Let_def)

text \<open>Dead letters are stored under identifiers of their own, never under that of the work item.\<close>

lemma dead_letter_keys:
  assumes "map_get (ws_deadLetters (store_run ops empty_work_store)) k = Some l"
  shows "CHR '':'' \<in> set k"
proof -
  have step: "\<forall>k l. map_get (ws_deadLetters (apply_store_op clk op st)) k = Some l \<longrightarrow> CHR '':'' \<in> set k"
    if keys: "\<forall>k l. map_get (ws_deadLetters st) k = Some l \<longrightarrow> CHR '':'' \<in> set k" for clk op st
  proof (cases "\<exists>i. op = Dead_letter i")
    case True
    then obtain i where op: "op = Dead_letter i" ..
    show ?thesis
    proof (cases "deadLetter (clk 0) i st")
      case (Inr r)
      obtain it l a st' where r: "r = ((it, l, a), st')" by (cases r) auto
      show ?thesis using Inr [unfolded r]
      proof (cases rule: dead_letter_cases)
        case repeated
        with keys op Inr r show ?thesis by (simp add: stored_def)
      next
        case ended
        with keys op Inr r show ?thesis by (simp add: stored_def dead_letter_id_def)
      qed
    qed (use keys op in \<open>simp add: stored_def\<close>)
  next
    case False
    with keys show ?thesis by (simp add: letters_frame)
  qed
  have "\<forall>k l. map_get (ws_deadLetters (store_run ops st)) k = Some l \<longrightarrow> CHR '':'' \<in> set k"
    if "\<forall>k l. map_get (ws_deadLetters st) k = Some l \<longrightarrow> CHR '':'' \<in> set k" for st
    using that
  proof (induction ops arbitrary: st)
    case (Cons x xs)
    obtain clk op where "x = (clk, op)" by (cases x)
    with Cons.IH [OF step [OF Cons.prems]] show ?case by simp
  qed simp
  from this [of empty_work_store] assms show ?thesis by (simp add: empty_work_store_def)
qed

text \<open>
  Dead-lettering is not idempotent.  In every state a history reaches, a second attempt to dead-letter
  a terminal item whose identifier holds no colon throws, although its records exist, while completing it
  again succeeds and returns the outcome that was recorded.
\<close>

theorem dead_letter_not_idempotent:
  assumes "distinct (created_items ops)" and "isWorkTerminal (store_run ops empty_work_store) (di_workId input)"
    and "CHR '':'' \<notin> set (di_workId input)"
  shows "(\<exists>e. deadLetter t input (store_run ops empty_work_store) = Inl e) \<and>
     (\<exists>item attempt. completeTerminal clk (di_workId input) r (store_run ops empty_work_store) =
        Inr ((item, attempt), store_run ops empty_work_store) \<and>
        getWorkItem (store_run ops empty_work_store) (di_workId input) = Some item)"
proof -
  let ?st = "store_run ops empty_work_store" and ?w = "di_workId input"
  have no_letter: "map_get (ws_deadLetters ?st) ?w = None" using dead_letter_keys [of ops ?w] assms(3) by fastforce
  from assms(2) obtain i where i: "map_get (ws_workItems ?st) ?w = Some i" "wi_status i \<in> set terminalStates"
    by (auto simp: isWorkTerminal_def getWorkStatus_def split: option.splits)
  have "fresh_history ops empty_work_store" using assms(1) by (simp add: fresh_history_def empty_work_store_def)
  moreover have "ended_once (item_view empty_work_store ?w)"
    by (simp add: ended_once_def item_view_def terminal_view_def empty_work_store_def attempts_of_def)
  ultimately have "ended_once (item_view ?st ?w)" by (rule run_ended_once)
  with assms(2) have "List.filter wa_produced_terminal_fact (attempts_of ?st ?w) \<noteq> []"
    unfolding isWorkTerminal_view by (auto simp: ended_once_def item_view_def)
  then obtain a where "terminal_attempt ?st ?w = Some a"
    unfolding terminal_attempt_def by (cases "List.find wa_produced_terminal_fact (attempts_of ?st ?w)")
      (auto simp: find_None_iff filter_empty_conv)
  with i no_letter show ?thesis by (simp add: deadLetter_def completeTerminal_def getWorkItem_def)
qed

end
