(* ===== verification/Work_Queue.thy ===== *)
theory Work_Queue imports Work_Store Js_Json begin

text \<open>
  The work queue (\<open>coordination/work-queue.ts\<close>) and the scheduler of delayed work (\<open>coordination/scheduler.ts\<close>)
  over the durable store, with what they use of the streams and sorted sets (\<open>coordination/stream-primitives.ts\<close>,
  \<open>coordination/sorted-set-primitives.ts\<close>).  The Valkey server is a parameter: a state \<open>'v\<close> and the commands on
  it, where \<open>None\<close> or \<open>False\<close> is a command that throws.  \<open>JSON.parse\<close> is a parameter as well.
\<close>

section \<open>Streams\<close>

datatype reply = Reply_text string | Reply_list "reply list"

record 'v valkey =
  vk_xadd :: "string \<Rightarrow> (string \<times> string) list \<Rightarrow> 'v \<Rightarrow> string option \<times> 'v"
  vk_xack :: "string \<Rightarrow> string \<Rightarrow> string list \<Rightarrow> 'v \<Rightarrow> bool \<times> 'v"
  vk_xreadgroup :: "string \<Rightarrow> string \<Rightarrow> string \<Rightarrow> int \<Rightarrow> int \<Rightarrow> 'v \<Rightarrow> reply list list option \<times> 'v"
  vk_xautoclaim :: "string \<Rightarrow> string \<Rightarrow> string \<Rightarrow> int \<Rightarrow> int \<Rightarrow> 'v \<Rightarrow> (string \<times> reply list) list \<times> 'v"
  vk_xpending :: "string \<Rightarrow> string \<Rightarrow> int \<Rightarrow> string option \<Rightarrow> 'v \<Rightarrow> (string \<times> string \<times> int \<times> int) list"
  vk_xrange :: "string \<Rightarrow> string \<Rightarrow> string \<Rightarrow> int \<Rightarrow> 'v \<Rightarrow> reply list list"
  vk_zadd :: "string \<Rightarrow> int \<Rightarrow> string \<Rightarrow> 'v \<Rightarrow> int option \<times> 'v"
  vk_zrange :: "string list \<Rightarrow> 'v \<Rightarrow> string list option"
  vk_zcard :: "string \<Rightarrow> 'v \<Rightarrow> int"
  vk_zrem :: "string \<Rightarrow> string list \<Rightarrow> 'v \<Rightarrow> int option \<times> 'v"

definition DEFAULT_STREAM_NAME :: string where
  "DEFAULT_STREAM_NAME = ''tribunus:work''"

definition DEFAULT_CONSUMER_GROUP :: string where
  "DEFAULT_CONSUMER_GROUP = ''tribunus:workers''"

definition DEFAULT_PENDING_IDLE_MS :: int where
  "DEFAULT_PENDING_IDLE_MS = 5 * 60 * 1000"

text \<open>An object with texts or \<open>undefined\<close> under its keys; \<open>String\<close> of an array joins its elements with commas.\<close>

type_synonym stream_values = "(string \<times> string option) list"

fun reply_string :: "reply \<Rightarrow> string" where
  "reply_string (Reply_text s) = s"
| "reply_string (Reply_list rs) = js_join '','' (List.map reply_string rs)"

fun field_values :: "reply list \<Rightarrow> stream_values \<Rightarrow> stream_values" where
  "field_values [] m = m"
| "field_values [k] m = map_set (reply_string k) None m"
| "field_values (k # v # rest) m = field_values rest (map_set (reply_string k) (Some (reply_string v)) m)"

definition get_value :: "stream_values \<Rightarrow> string \<Rightarrow> string option" where
  "get_value m k = nullish (map_get m k) None"

record StreamEntry =
  se_id :: string
  se_values :: stream_values

text \<open>
  \<open>readGroup\<close> and \<open>readRange\<close> take the elements of an entry after the first for keys and values in turn, whatever they
  are.  A reply is any nesting of texts; the documented one for an entry is its identifier and one list of the fields.
\<close>

definition reply_entry :: "reply list \<Rightarrow> StreamEntry" where
  "reply_entry e = \<lparr>se_id = reply_string (hd e), se_values = field_values (tl e) []\<rparr>"

definition streams_ack :: "'v valkey \<Rightarrow> string \<Rightarrow> string \<Rightarrow> string list \<Rightarrow> 'v \<Rightarrow> bool \<times> 'v" where
  "streams_ack sv streamName groupName entryIds v =
     (if entryIds = [] then (True, v) else vk_xack sv streamName groupName entryIds v)"

definition addEntry :: "'v valkey \<Rightarrow> string \<Rightarrow> (string \<times> string) list \<Rightarrow> 'v \<Rightarrow> string option \<times> 'v" where
  "addEntry sv streamName values v = vk_xadd sv streamName values v"

definition readGroup :: "'v valkey \<Rightarrow> string \<Rightarrow> string \<Rightarrow> string \<Rightarrow> int \<Rightarrow> int \<Rightarrow> 'v \<Rightarrow> StreamEntry list \<times> 'v" where
  "readGroup sv streamName groupName consumerName n blockMs v =
     (case vk_xreadgroup sv streamName groupName consumerName n blockMs v of
        (None, v') \<Rightarrow> ([], v')
      | (Some entries, v') \<Rightarrow> (List.map reply_entry entries, v'))"

definition readRange :: "'v valkey \<Rightarrow> string \<Rightarrow> string \<Rightarrow> string \<Rightarrow> int \<Rightarrow> 'v \<Rightarrow> StreamEntry list" where
  "readRange sv streamName start stop n v = List.map reply_entry (vk_xrange sv streamName start stop n v)"

definition autoClaim :: "'v valkey \<Rightarrow> string \<Rightarrow> string \<Rightarrow> string \<Rightarrow> int \<Rightarrow> int \<Rightarrow> 'v \<Rightarrow> StreamEntry list \<times> 'v" where
  "autoClaim sv streamName groupName consumerName minIdleMs n v =
     (case vk_xautoclaim sv streamName groupName consumerName minIdleMs n v of
        (entries, v') \<Rightarrow> (List.map (\<lambda>(i, data). \<lparr>se_id = i, se_values = field_values data []\<rparr>) entries, v'))"

record PendingEntry =
  pn_id :: string
  pn_consumer :: string
  pn_idleMs :: int
  pn_deliveryCount :: int

definition getPendingEntries :: "'v valkey \<Rightarrow> string \<Rightarrow> string \<Rightarrow> int option \<Rightarrow> string option \<Rightarrow> 'v \<Rightarrow> PendingEntry list" where
  "getPendingEntries sv streamName groupName n consumer v =
     List.map (\<lambda>(i, c, idle, d). \<lparr>pn_id = i, pn_consumer = c, pn_idleMs = idle, pn_deliveryCount = d\<rparr>)
       (vk_xpending sv streamName groupName (nullish n 100) consumer v)"

section \<open>Envelopes\<close>

record WorkQueueConfig =
  wq_streamName :: string
  wq_consumerGroup :: string
  wq_consumerPrefix :: string
  wq_pendingIdleMs :: int
  wq_readBatchSize :: int
  wq_readBlockMs :: int
  wq_maxAttempts :: int
  wq_maxReclaims :: int

definition WORK_QUEUE_CONFIG :: WorkQueueConfig where
  "WORK_QUEUE_CONFIG =
     \<lparr>wq_streamName = DEFAULT_STREAM_NAME, wq_consumerGroup = DEFAULT_CONSUMER_GROUP, wq_consumerPrefix = ''worker'',
      wq_pendingIdleMs = DEFAULT_PENDING_IDLE_MS, wq_readBatchSize = 10, wq_readBlockMs = 5000, wq_maxAttempts = 3,
      wq_maxReclaims = 5\<rparr>"

record WorkEnvelope =
  we_schemaVersion :: string
  we_workId :: string
  we_workKind :: string
  we_enqueuedAt :: int
  we_correlationId :: string
  we_missionId :: "string option"
  we_sessionId :: "string option"
  we_routingTags :: "string list option"
  we_attemptHint :: "int option"

definition if_truthy :: "string \<Rightarrow> string option \<Rightarrow> (string \<times> string) list" where
  "if_truthy key v = (case v of Some s \<Rightarrow> if s \<noteq> [] then [(key, s)] else [] | None \<Rightarrow> [])"

definition envelope_values :: "WorkEnvelope \<Rightarrow> (string \<times> string) list" where
  "envelope_values e =
     [(''schemaVersion'', we_schemaVersion e), (''workId'', we_workId e), (''workKind'', we_workKind e),
      (''enqueuedAt'', show_int (we_enqueuedAt e)), (''correlationId'', we_correlationId e)] @
     if_truthy ''missionId'' (we_missionId e) @ if_truthy ''sessionId'' (we_sessionId e) @
     (case we_routingTags e of Some ts \<Rightarrow> [(''routingTags'', json_stringify (J_arr (List.map J_str ts)))] | None \<Rightarrow> []) @
     (case we_attemptHint e of Some n \<Rightarrow> [(''attemptHint'', show_int n)] | None \<Rightarrow> [])"

definition publish :: "'v valkey \<Rightarrow> WorkQueueConfig \<Rightarrow> WorkEnvelope \<Rightarrow> 'v \<Rightarrow> string option \<times> 'v" where
  "publish sv cfg envelope v = addEntry sv (wq_streamName cfg) (envelope_values envelope) v"

text \<open>What \<open>parseEnvelope\<close> returns: every field may be undefined, and \<open>Number\<close> may give NaN (\<open>None\<close>).\<close>

record ParsedEnvelope =
  pe_schemaVersion :: "string option"
  pe_workId :: "string option"
  pe_workKind :: "string option"
  pe_enqueuedAt :: "int option"
  pe_correlationId :: "string option"
  pe_missionId :: "string option"
  pe_sessionId :: "string option"
  pe_routingTags :: "string list option"
  pe_attemptHint :: "int option option"

text \<open>\<open>Number\<close> of a text, on the decimal integers the sources print; other texts are taken as NaN.\<close>

definition number_text :: "string \<Rightarrow> int option" where
  "number_text s =
     (let digits = (case s of c # cs \<Rightarrow> if c = CHR ''-'' then cs else s | [] \<Rightarrow> [])
      in if digits = [] \<or> \<not> list_all is_digit digits then None
         else Some ((if hd s = CHR ''-'' then - 1 else 1) * int (read_nat digits)))"

definition parseEnvelope :: "(string \<Rightarrow> string list option) \<Rightarrow> stream_values \<Rightarrow> ParsedEnvelope option" where
  "parseEnvelope parse values =
     (let tags = (case get_value values ''routingTags'' of
                    Some s \<Rightarrow> if s \<noteq> [] then map_option Some (parse s) else Some None
                  | None \<Rightarrow> Some None)
      in map_option (\<lambda>routingTags.
           \<lparr>pe_schemaVersion = get_value values ''schemaVersion'', pe_workId = get_value values ''workId'',
            pe_workKind = get_value values ''workKind'',
            pe_enqueuedAt = Option.bind (get_value values ''enqueuedAt'') number_text,
            pe_correlationId = get_value values ''correlationId'', pe_missionId = get_value values ''missionId'',
            pe_sessionId = get_value values ''sessionId'', pe_routingTags = routingTags,
            pe_attemptHint = (case get_value values ''attemptHint'' of
                Some s \<Rightarrow> if s \<noteq> [] then Some (number_text s) else None | None \<Rightarrow> None)\<rparr>) tags)"

record QueueClaim =
  wk_envelope :: ParsedEnvelope
  wk_entryId :: string
  wk_consumer :: string
  wk_wasReclaimed :: bool

fun claims_of :: "(string \<Rightarrow> string list option) \<Rightarrow> string \<Rightarrow> bool \<Rightarrow> StreamEntry list \<Rightarrow> QueueClaim list option" where
  "claims_of parse consumer reclaimed [] = Some []"
| "claims_of parse consumer reclaimed (e # es) =
     (case parseEnvelope parse (se_values e) of
        None \<Rightarrow> None
      | Some envelope \<Rightarrow> map_option (Cons \<lparr>wk_envelope = envelope, wk_entryId = se_id e, wk_consumer = consumer,
            wk_wasReclaimed = reclaimed\<rparr>) (claims_of parse consumer reclaimed es))"

definition queue_read ::
    "'v valkey \<Rightarrow> (string \<Rightarrow> string list option) \<Rightarrow> WorkQueueConfig \<Rightarrow> string \<Rightarrow> int option \<Rightarrow> int option \<Rightarrow> 'v \<Rightarrow>
     QueueClaim list option \<times> 'v" where
  "queue_read sv parse cfg consumerId n blockMs v =
     (let (entries, v') = readGroup sv (wq_streamName cfg) (wq_consumerGroup cfg) consumerId
            (nullish n (wq_readBatchSize cfg)) (nullish blockMs (wq_readBlockMs cfg)) v
      in (claims_of parse consumerId False entries, v'))"

definition reclaimExpired ::
    "'v valkey \<Rightarrow> (string \<Rightarrow> string list option) \<Rightarrow> WorkQueueConfig \<Rightarrow> string \<Rightarrow> int \<Rightarrow> 'v \<Rightarrow>
     QueueClaim list option \<times> 'v" where
  "reclaimExpired sv parse cfg consumerId n v =
     (let (entries, v') = autoClaim sv (wq_streamName cfg) (wq_consumerGroup cfg) consumerId (wq_pendingIdleMs cfg) n v
      in (claims_of parse consumerId True entries, v'))"

section \<open>Results and acknowledgements\<close>

datatype WorkResult =
    Result_completed string
  | Result_failed_terminal string string
  | Result_failed_retryable string string "int option"
  | Result_dead_lettered

record CompletionReceipt =
  cp_workId :: string
  cp_entryId :: string
  cp_result :: WorkResult
  cp_durableWrittenAt :: int
  cp_acknowledgedAt :: int

text \<open>A call returns or throws (\<open>Inl\<close>), and leaves a store and a server.\<close>

type_synonym ('r, 'v) queue_result = "(string + 'r) \<times> FakeWorkQueueStore \<times> 'v"

definition ack_with ::
    "'v valkey \<Rightarrow> WorkQueueConfig \<Rightarrow> string \<Rightarrow> 'r \<Rightarrow> FakeWorkQueueStore \<Rightarrow> 'v \<Rightarrow> ('r, 'v) queue_result" where
  "ack_with sv cfg entryId r st v =
     (case streams_ack sv (wq_streamName cfg) (wq_consumerGroup cfg) [entryId] v of
        (False, v') \<Rightarrow> (Inl ''ack failed'', st, v')
      | (True, v') \<Rightarrow> (Inr r, st, v'))"

definition receipt_of :: "(nat \<Rightarrow> millis) \<Rightarrow> string \<Rightarrow> string \<Rightarrow> WorkResult \<Rightarrow> CompletionReceipt" where
  "receipt_of clk workId entryId result =
     \<lparr>cp_workId = workId, cp_entryId = entryId, cp_result = result, cp_durableWrittenAt = clk 0,
      cp_acknowledgedAt = clk 8\<rparr>"

definition completeAndAck ::
    "'v valkey \<Rightarrow> WorkQueueConfig \<Rightarrow> (nat \<Rightarrow> millis) \<Rightarrow> string \<Rightarrow> string \<Rightarrow> string \<Rightarrow> FakeWorkQueueStore \<Rightarrow> 'v \<Rightarrow>
     (CompletionReceipt, 'v) queue_result" where
  "completeAndAck sv cfg clk workId entryId resultRef st v =
     (case completeTerminal (\<lambda>i. clk (i + 1)) workId resultRef st of
        Inl e \<Rightarrow> (Inl e, st, v)
      | Inr (_, st') \<Rightarrow> ack_with sv cfg entryId (receipt_of clk workId entryId (Result_completed resultRef)) st' v)"

definition failTerminalAndAck ::
    "'v valkey \<Rightarrow> WorkQueueConfig \<Rightarrow> (nat \<Rightarrow> millis) \<Rightarrow> string \<Rightarrow> string \<Rightarrow> string \<Rightarrow> string \<Rightarrow> FakeWorkQueueStore \<Rightarrow> 'v \<Rightarrow>
     (CompletionReceipt, 'v) queue_result" where
  "failTerminalAndAck sv cfg clk workId entryId errorKind errorMessage st v =
     (case failTerminal (\<lambda>i. clk (i + 1)) workId errorKind errorMessage st of
        Inl e \<Rightarrow> (Inl e, st, v)
      | Inr (_, st') \<Rightarrow>
          ack_with sv cfg entryId (receipt_of clk workId entryId (Result_failed_terminal errorKind errorMessage)) st' v)"

definition failRetryableAndAck ::
    "'v valkey \<Rightarrow> WorkQueueConfig \<Rightarrow> (nat \<Rightarrow> millis) \<Rightarrow> string \<Rightarrow> string \<Rightarrow> string \<Rightarrow> string \<Rightarrow> int option \<Rightarrow>
     FakeWorkQueueStore \<Rightarrow> 'v \<Rightarrow> (CompletionReceipt, 'v) queue_result" where
  "failRetryableAndAck sv cfg clk workId entryId errorKind errorMessage retryAfterMs st v =
     (case failRetryableAndSchedule (clk 1) workId errorKind errorMessage (nullish retryAfterMs 60000) None st of
        Inl e \<Rightarrow> (Inl e, st, v)
      | Inr (_, st') \<Rightarrow>
          ack_with sv cfg entryId
            (receipt_of clk workId entryId (Result_failed_retryable errorKind errorMessage retryAfterMs)) st' v)"

definition dead_letter_input :: "WorkQueueConfig \<Rightarrow> string \<Rightarrow> string \<Rightarrow> string \<Rightarrow> DeadLetterInput" where
  "dead_letter_input cfg workId entryId reason =
     \<lparr>di_workId = workId, di_reason = DL_max_attempts_exceeded, di_workKind = ''unknown'', di_attemptCount = 0,
      di_reclaimCount = 0, di_lastErrorKind = Some reason, di_lastErrorMessage = None,
      di_streamName = Some (wq_streamName cfg), di_streamEntryId = Some entryId,
      di_consumerGroup = Some (wq_consumerGroup cfg), di_lastConsumerId = None, di_canBeRetried = None,
      di_retryAfterMs = None, di_requiresManualIntervention = None, di_manualInterventionNotes = None\<rparr>"

definition deadLetterAndAck ::
    "'v valkey \<Rightarrow> WorkQueueConfig \<Rightarrow> (nat \<Rightarrow> millis) \<Rightarrow> string \<Rightarrow> string \<Rightarrow> string \<Rightarrow> FakeWorkQueueStore \<Rightarrow> 'v \<Rightarrow>
     (CompletionReceipt, 'v) queue_result" where
  "deadLetterAndAck sv cfg clk workId entryId reason st v =
     (case deadLetter (clk 1) (dead_letter_input cfg workId entryId reason) st of
        Inl e \<Rightarrow> (Inl e, st, v)
      | Inr (_, st') \<Rightarrow> ack_with sv cfg entryId (receipt_of clk workId entryId Result_dead_lettered) st' v)"

definition reconcilePending ::
    "'v valkey \<Rightarrow> WorkQueueConfig \<Rightarrow> string \<Rightarrow> (nat \<Rightarrow> millis) \<Rightarrow> string \<Rightarrow> string \<Rightarrow> FakeWorkQueueStore \<Rightarrow> 'v \<Rightarrow>
     (bool, 'v) queue_result" where
  "reconcilePending sv cfg consumerId clk workId entryId st v =
     (if isWorkTerminal st workId then
        (case ack_with sv cfg entryId True st v of
           (Inl e, st, v') \<Rightarrow> (Inl e, st, v')
         | (Inr b, st, v') \<Rightarrow>
             (Inr True, snd (recordRecoveryReceipt (clk 1)
                \<lparr>ri_workId = workId, ri_streamEntryId = Some entryId, ri_action = RA_acknowledged_terminal,
                 ri_recoveredByConsumer = consumerId, ri_originalConsumer = None, ri_recoveredAt = clk 0,
                 ri_idleDurationMs = None, ri_outcome = ''acknowledged'', ri_outcomeReason = None,
                 ri_streamName = Some (wq_streamName cfg), ri_consumerGroup = Some (wq_consumerGroup cfg),
                 ri_wasPending = Some True, ri_wasTerminal = Some True\<rparr> st), v'))
      else if getWorkItem st workId \<noteq> None then (Inr False, st, v)
      else
        let st' = snd (quarantineStreamEntry (clk 1)
               \<lparr>qi_entryId = entryId, qi_streamName = wq_streamName cfg, qi_workId = Some workId,
                qi_reason = ''no_durable_work_record'', qi_context = None, qi_createdAt = clk 0\<rparr> st)
        in ack_with sv cfg entryId True st' v)"

section \<open>Lifecycle integrity\<close>

datatype anomaly_type = Terminal_not_acked | No_durable_record | Unknown_workId

record Anomaly =
  an_type :: anomaly_type
  an_entryId :: string
  an_workId :: "string option"
  an_consumer :: string
  an_idleMs :: int
  an_detail :: string

text \<open>The anomaly of a pending entry, if any; \<open>workId\<close> is absent when it is undefined or empty.\<close>

definition inspect_entry ::
    "'v valkey \<Rightarrow> WorkQueueConfig \<Rightarrow> FakeWorkQueueStore \<Rightarrow> 'v \<Rightarrow> PendingEntry \<Rightarrow> Anomaly option" where
  "inspect_entry sv cfg st v p =
     (case readRange sv (wq_streamName cfg) (pn_id p) (pn_id p) 1 v of
        [] \<Rightarrow> None
      | e # _ \<Rightarrow>
          (case get_value (se_values e) ''workId'' of
             None \<Rightarrow> Some \<lparr>an_type = Unknown_workId, an_entryId = pn_id p, an_workId = None, an_consumer = pn_consumer p,
                 an_idleMs = pn_idleMs p,
                 an_detail = ''Stream entry has no workId field; cannot cross-reference with PGlite''\<rparr>
           | Some workId \<Rightarrow>
               if workId = [] then Some \<lparr>an_type = Unknown_workId, an_entryId = pn_id p, an_workId = None,
                 an_consumer = pn_consumer p, an_idleMs = pn_idleMs p,
                 an_detail = ''Stream entry has no workId field; cannot cross-reference with PGlite''\<rparr>
               else if isWorkTerminal st workId then Some \<lparr>an_type = Terminal_not_acked, an_entryId = pn_id p,
                 an_workId = Some workId, an_consumer = pn_consumer p, an_idleMs = pn_idleMs p,
                 an_detail = ''PGlite reports terminal state for '' @ workId @ '', but stream entry '' @ pn_id p @
                   '' is still in the PEL''\<rparr>
               else if getWorkItem st workId = None then Some \<lparr>an_type = No_durable_record, an_entryId = pn_id p,
                 an_workId = Some workId, an_consumer = pn_consumer p, an_idleMs = pn_idleMs p,
                 an_detail = ''Stream entry '' @ pn_id p @ '' references workId '' @ workId @
                   '', but no PGlite record exists''\<rparr>
               else None))"

record IntegrityReport =
  ir_pendingCount :: int
  ir_inspectedCount :: int
  ir_anomalies :: "Anomaly list"
  ir_verified :: bool

definition verifyLifecycleIntegrity ::
    "'v valkey \<Rightarrow> WorkQueueConfig \<Rightarrow> int \<Rightarrow> FakeWorkQueueStore \<Rightarrow> 'v \<Rightarrow> IntegrityReport" where
  "verifyLifecycleIntegrity sv cfg limit st v =
     (let pending = getPendingEntries sv (wq_streamName cfg) (wq_consumerGroup cfg)
            (if limit = 0 then None else Some limit) None v;
          anomalies = List.map_filter (inspect_entry sv cfg st v) pending
      in \<lparr>ir_pendingCount = int (length pending), ir_inspectedCount = int (length pending), ir_anomalies = anomalies,
          ir_verified = (anomalies = [])\<rparr>)"

definition getConsumerPending :: "'v valkey \<Rightarrow> WorkQueueConfig \<Rightarrow> string \<Rightarrow> 'v \<Rightarrow> (string \<times> int \<times> int) list" where
  "getConsumerPending sv cfg consumerId v =
     List.map (\<lambda>p. (pn_id p, pn_idleMs p, pn_deliveryCount p))
       (getPendingEntries sv (wq_streamName cfg) (wq_consumerGroup cfg) None
          (if consumerId = [] then None else Some consumerId) v)"

section \<open>Durable facts\<close>

text \<open>What a call of the queue can do to the store and the server.\<close>

datatype 'v queue_op =
    Store_call store_op
  | Server_step "'v \<Rightarrow> 'v"
  | Complete_ack string string string
  | Fail_ack string string string string
  | Retry_ack string string string string "int option"
  | Dead_ack string string string
  | Reconcile string string string

fun apply_queue_op ::
    "'v valkey \<Rightarrow> WorkQueueConfig \<Rightarrow> (nat \<Rightarrow> millis) \<Rightarrow> 'v queue_op \<Rightarrow> FakeWorkQueueStore \<times> 'v \<Rightarrow> FakeWorkQueueStore \<times> 'v" where
  "apply_queue_op sv cfg clk (Store_call op) (st, v) = (apply_store_op clk op st, v)"
| "apply_queue_op sv cfg clk (Server_step f) (st, v) = (st, f v)"
| "apply_queue_op sv cfg clk (Complete_ack w e r) (st, v) = snd (completeAndAck sv cfg clk w e r st v)"
| "apply_queue_op sv cfg clk (Fail_ack w e k m) (st, v) = snd (failTerminalAndAck sv cfg clk w e k m st v)"
| "apply_queue_op sv cfg clk (Retry_ack w e k m d) (st, v) = snd (failRetryableAndAck sv cfg clk w e k m d st v)"
| "apply_queue_op sv cfg clk (Dead_ack w e r) (st, v) = snd (deadLetterAndAck sv cfg clk w e r st v)"
| "apply_queue_op sv cfg clk (Reconcile c w e) (st, v) = snd (reconcilePending sv cfg c clk w e st v)"

type_synonym 'v queue_history = "((nat \<Rightarrow> millis) \<times> 'v queue_op) list"

fun queue_run ::
    "'v valkey \<Rightarrow> WorkQueueConfig \<Rightarrow> 'v queue_history \<Rightarrow> FakeWorkQueueStore \<times> 'v \<Rightarrow> FakeWorkQueueStore \<times> 'v" where
  "queue_run sv cfg [] s = s"
| "queue_run sv cfg ((clk, op) # ops) s = queue_run sv cfg ops (apply_queue_op sv cfg clk op s)"

fun op_creates :: "'v queue_op \<Rightarrow> string list" where
  "op_creates (Store_call op) = created_by op"
| "op_creates _ = []"

text \<open>The work identifier and the stream entry a call is made for.\<close>

fun op_names :: "'v queue_op \<Rightarrow> (string \<times> string) list" where
  "op_names (Complete_ack w e r) = [(w, e)]"
| "op_names (Fail_ack w e k m) = [(w, e)]"
| "op_names (Retry_ack w e k m d) = [(w, e)]"
| "op_names (Dead_ack w e r) = [(w, e)]"
| "op_names (Reconcile c w e) = [(w, e)]"
| "op_names _ = []"

definition scheduled_fact :: "FakeWorkQueueStore \<Rightarrow> string \<Rightarrow> bool" where
  "scheduled_fact st w \<longleftrightarrow>
     (\<exists>n t s. map_get (ws_scheduledWork st) (schedule_id w n t) = Some s \<and> sw_work_id s = w)"

definition quarantined_fact :: "FakeWorkQueueStore \<Rightarrow> string \<Rightarrow> bool" where
  "quarantined_fact st e \<longleftrightarrow>
     (\<exists>t r. map_get (ws_quarantineRecords st) (quarantine_id e t) = Some r \<and> qr_entry_id r = e)"

definition durable_fact :: "FakeWorkQueueStore \<Rightarrow> string \<Rightarrow> string \<Rightarrow> bool" where
  "durable_fact st w e \<longleftrightarrow> isWorkTerminal st w \<or> scheduled_fact st w \<or> quarantined_fact st e"

lemma int_no_colon [simp]: "CHR '':'' \<notin> set (show_int i)"
  using show_int_chars [of "CHR '':''" i] by auto

lemma schedule_id_work: "schedule_id w n t = schedule_id w' n' t' \<Longrightarrow> w = w'"
proof -
  assume "schedule_id w n t = schedule_id w' n' t'"
  then have "(w @ '':scheduled:'' @ show_int n) @ CHR '':'' # show_int t =
      (w' @ '':scheduled:'' @ show_int n') @ CHR '':'' # show_int t'"
    by (simp add: schedule_id_def)
  from last_colon [OF this] have "(w @ '':scheduled'') @ CHR '':'' # show_int n = (w' @ '':scheduled'') @ CHR '':'' # show_int n'"
    by simp
  from last_colon [OF this] show "w = w'" by simp
qed

lemma quarantine_id_entry: "quarantine_id e t = quarantine_id e' t' \<Longrightarrow> e = e'"
proof -
  assume "quarantine_id e t = quarantine_id e' t'"
  then have "(e @ '':quarantine'') @ CHR '':'' # show_int t = (e' @ '':quarantine'') @ CHR '':'' # show_int t'"
    by (simp add: quarantine_id_def)
  from last_colon [OF this] show "e = e'" by simp
qed

lemma schedules_frame:
  "\<not> (\<exists>w k m d r. op = Fail_retryable w k m d r) \<Longrightarrow> \<not> (\<exists>w s e n. op = Promotion w s e n) \<Longrightarrow>
   ws_scheduledWork (apply_store_op clk op st) = ws_scheduledWork st"
  by (cases op)
    (auto intro!: stored_frame [where f = ws_scheduledWork] dest!: pending_cases enqueued_cases
      elim!: complete_cases fail_cases dead_letter_cases
      simp: createWorkItem_def startAttempt_def quarantineStreamEntry_def recordRecoveryReceipt_def updateStreamState_def
        Let_def)

lemma quarantine_frame:
  "\<not> (\<exists>i. op = Quarantine i) \<Longrightarrow> ws_quarantineRecords (apply_store_op clk op st) = ws_quarantineRecords st"
  by (cases op)
    (auto intro!: stored_frame [where f = ws_quarantineRecords] dest!: pending_cases enqueued_cases retry_cases
      promotion_cases elim!: complete_cases fail_cases dead_letter_cases
      simp: createWorkItem_def startAttempt_def recordRecoveryReceipt_def updateStreamState_def Let_def)

lemma scheduled_fact_put:
  assumes "scheduled_fact st w" "\<And>n t. k = schedule_id w n t \<Longrightarrow> sw_work_id s = w"
  shows "scheduled_fact (st\<lparr>ws_scheduledWork := map_set k s (ws_scheduledWork st)\<rparr>) w"
  using assms unfolding scheduled_fact_def by (auto split: if_splits) metis

lemma scheduled_fact_cong: "ws_scheduledWork st' = ws_scheduledWork st \<Longrightarrow> scheduled_fact st' w = scheduled_fact st w"
  by (simp add: scheduled_fact_def)

lemma scheduled_fact_kept:
  assumes "scheduled_fact st w"
  shows "scheduled_fact (apply_store_op clk op st) w"
proof (cases "(\<exists>w k m d r. op = Fail_retryable w k m d r) \<or> (\<exists>w s e n. op = Promotion w s e n)")
  case False
  with schedules_frame [of op clk st] assms show ?thesis by (simp add: scheduled_fact_def)
next
  case True
  then show ?thesis
  proof (elim disjE exE)
    fix v k m d r assume op: "op = Fail_retryable v k m d r"
    show ?thesis
    proof (cases "failRetryableAndSchedule (clk 0) v k m d r st")
      case (Inr res)
      obtain i a s st' where res: "res = ((i, a, s), st')" by (cases res) auto
      note c = retry_cases [OF Inr [unfolded res]]
      let ?st = "push_attempt a v (put_item i v st)"
      have "scheduled_fact ?st w" using assms by (simp add: scheduled_fact_def)
      from scheduled_fact_put [OF this, of "sw_id s" s] c schedule_id_work have
        "scheduled_fact (?st\<lparr>ws_scheduledWork := map_set (sw_id s) s (ws_scheduledWork ?st)\<rparr>) w" by metis
      with c op Inr res show ?thesis by (simp add: stored_def)
    qed (use op assms in \<open>simp add: stored_def\<close>)
  next
    fix v sid e n assume op: "op = Promotion v sid e n"
    show ?thesis
    proof (cases "markPromotion clk v sid e n st")
      case (Inr res)
      obtain s' st' where res: "res = (s', st')" by (cases res)
      note c = promotion_cases [OF Inr [unfolded res]]
      from assms obtain k t s where s: "map_get (ws_scheduledWork st) (schedule_id w k t) = Some s" "sw_work_id s = w"
        by (auto simp: scheduled_fact_def)
      have "scheduled_fact st' w" unfolding scheduled_fact_def
        by (rule exI [of _ k], rule exI [of _ t]) (use c s in auto)
      with op Inr res show ?thesis by (simp add: stored_def)
    qed (use op assms in \<open>simp add: stored_def\<close>)
  qed
qed

lemma quarantined_fact_kept:
  assumes "quarantined_fact st e"
  shows "quarantined_fact (apply_store_op clk op st) e"
proof (cases "\<exists>i. op = Quarantine i")
  case False
  with quarantine_frame [of op clk st] assms show ?thesis by (simp add: quarantined_fact_def)
next
  case True
  then obtain i where op: "op = Quarantine i" ..
  from assms obtain t r where r: "map_get (ws_quarantineRecords st) (quarantine_id e t) = Some r" "qr_entry_id r = e"
    by (auto simp: quarantined_fact_def)
  show ?thesis
  proof (cases "quarantine_id e t = quarantine_id (qi_entryId i) (clk 0)")
    case True
    with quarantine_id_entry have "e = qi_entryId i" by blast
    then show ?thesis unfolding quarantined_fact_def op
      by (intro exI [of _ "clk 0"]) (simp add: quarantineStreamEntry_def Let_def)
  next
    case False
    then show ?thesis unfolding quarantined_fact_def op
      by (intro exI [of _ t]) (simp add: quarantineStreamEntry_def Let_def r)
  qed
qed

lemma ack_with_state [simp]:
  "fst (snd (ack_with sv cfg e r st v)) = st"
  "snd (snd (ack_with sv cfg e r st v)) = snd (vk_xack sv (wq_streamName cfg) (wq_consumerGroup cfg) [e] v)"
  by (simp_all add: ack_with_def streams_ack_def split: prod.splits bool.splits)

lemma isWorkTerminal_frame [simp]:
  "isWorkTerminal (st\<lparr>ws_scheduledWork := a\<rparr>) w = isWorkTerminal st w"
  "isWorkTerminal (st\<lparr>ws_deadLetters := b\<rparr>) w = isWorkTerminal st w"
  "isWorkTerminal (st\<lparr>ws_recoveryReceipts := c\<rparr>) w = isWorkTerminal st w"
  by (simp_all add: isWorkTerminal_def getWorkStatus_def)

lemma ended_terminal: "wi_status i \<in> set terminalStates \<Longrightarrow> isWorkTerminal (push_attempt a w (put_item i w st)) w"
  by (simp add: isWorkTerminal_def getWorkStatus_def)

lemma recovery_receipt_state: "snd (recordRecoveryReceipt t i st) = st\<lparr>ws_recoveryReceipts :=
    ws_recoveryReceipts st @ [fst (recordRecoveryReceipt t i st)]\<rparr>"
  by (simp add: recordRecoveryReceipt_def Let_def)

lemma quarantine_state: "snd (quarantineStreamEntry t i st) = st\<lparr>ws_quarantineRecords :=
    map_set (quarantine_id (qi_entryId i) t) (fst (quarantineStreamEntry t i st)) (ws_quarantineRecords st)\<rparr>"
  "qr_entry_id (fst (quarantineStreamEntry t i st)) = qi_entryId i"
  by (simp_all add: quarantineStreamEntry_def Let_def)

text \<open>After a durable write that returned, there is a fact for the work.\<close>

lemma complete_fact: "completeTerminal clk w r st = Inr (x, st') \<Longrightarrow> isWorkTerminal st' w"
  by (cases x) (auto elim!: complete_cases intro!: ended_terminal simp: terminalStates_def)

lemma fail_fact: "failTerminal clk w k m st = Inr (x, st') \<Longrightarrow> isWorkTerminal st' w"
  by (cases x) (auto elim!: fail_cases intro!: ended_terminal simp: terminalStates_def)

lemma dead_letter_fact: "deadLetter t i st = Inr (x, st') \<Longrightarrow> isWorkTerminal st' (di_workId i)"
proof -
  assume a: "deadLetter t i st = Inr (x, st')"
  obtain item l at where x: "x = (item, l, at)" by (cases x) auto
  show ?thesis using a [unfolded x]
    by (cases rule: dead_letter_cases) (auto intro!: ended_terminal simp: terminalStates_def)
qed

lemma retry_fact: "failRetryableAndSchedule t w k m d r st = Inr (x, st') \<Longrightarrow> scheduled_fact st' w"
proof -
  assume a: "failRetryableAndSchedule t w k m d r st = Inr (x, st')"
  obtain i at s where x: "x = (i, at, s)" by (cases x) auto
  from retry_cases [OF a [unfolded x]] show ?thesis
    unfolding scheduled_fact_def by (intro exI [of _ "nextAttemptNumber st w"] exI [of _ t]) auto
qed

lemma queue_op_store:
  "\<exists>ops. fst (apply_queue_op sv cfg clk op (st, v)) = store_run ops st \<and> created_items ops = op_creates op"
proof (cases op)
  case (Store_call sop)
  then show ?thesis by (intro exI [of _ "[(clk, sop)]"]) simp
next
  case (Server_step f)
  then show ?thesis by (intro exI [of _ "[]"]) simp
next
  case (Complete_ack w e r)
  then show ?thesis
    by (intro exI [of _ "[(\<lambda>i. clk (i + 1), Complete w r)]"])
      (simp add: completeAndAck_def stored_def split: sum.splits prod.splits)
next
  case (Fail_ack w e k m)
  then show ?thesis
    by (intro exI [of _ "[(\<lambda>i. clk (i + 1), Fail_terminal w k m)]"])
      (simp add: failTerminalAndAck_def stored_def split: sum.splits prod.splits)
next
  case (Retry_ack w e k m d)
  then show ?thesis
    by (intro exI [of _ "[(\<lambda>i. clk 1, Fail_retryable w k m (nullish d 60000) None)]"])
      (simp add: failRetryableAndAck_def stored_def split: sum.splits prod.splits)
next
  case (Dead_ack w e r)
  then show ?thesis
    by (intro exI [of _ "[(\<lambda>i. clk 1, Dead_letter (dead_letter_input cfg w e r))]"])
      (simp add: deadLetterAndAck_def stored_def split: sum.splits prod.splits)
next
  case (Reconcile c w e)
  show ?thesis
  proof (cases "isWorkTerminal st w")
    case True
    show ?thesis
    proof (cases "fst (ack_with sv cfg e True st v)")
      case (Inl err)
      with True Reconcile show ?thesis
        by (intro exI [of _ "[]"]) (auto simp: reconcilePending_def split: prod.splits sum.splits dest: arg_cong [of _ _ "\<lambda>r. fst (snd r)"])
    next
      case (Inr b)
      with True Reconcile show ?thesis
        by (intro exI [of _ "[(\<lambda>i. clk 1, Recovery_receipt
             \<lparr>ri_workId = w, ri_streamEntryId = Some e, ri_action = RA_acknowledged_terminal,
              ri_recoveredByConsumer = c, ri_originalConsumer = None, ri_recoveredAt = clk 0,
              ri_idleDurationMs = None, ri_outcome = ''acknowledged'', ri_outcomeReason = None,
              ri_streamName = Some (wq_streamName cfg), ri_consumerGroup = Some (wq_consumerGroup cfg),
              ri_wasPending = Some True, ri_wasTerminal = Some True\<rparr>)]"])
          (auto simp: reconcilePending_def split: prod.splits sum.splits dest: arg_cong [of _ _ "\<lambda>r. fst (snd r)"])
    qed
  next
    case False
    then show ?thesis
    proof (cases "getWorkItem st w = None")
      case True
      with False Reconcile show ?thesis
        by (intro exI [of _ "[(\<lambda>i. clk 1, Quarantine
             \<lparr>qi_entryId = e, qi_streamName = wq_streamName cfg, qi_workId = Some w,
              qi_reason = ''no_durable_work_record'', qi_context = None, qi_createdAt = clk 0\<rparr>)]"])
          (simp add: reconcilePending_def Let_def)
    next
      case known: False
      with False Reconcile show ?thesis by (intro exI [of _ "[]"]) (simp add: reconcilePending_def)
    qed
  qed
qed

text \<open>XACK takes no entry from the pending set but those it is given; other server steps take none.\<close>

definition acks_only_given :: "'v valkey \<Rightarrow> ('v \<Rightarrow> string set) \<Rightarrow> bool" where
  "acks_only_given sv pel \<longleftrightarrow> (\<forall>s g ids v. pel v - pel (snd (vk_xack sv s g ids v)) \<subseteq> set ids)"

lemma ack_gone:
  "acks_only_given sv pel \<Longrightarrow> e \<in> pel v \<Longrightarrow> e \<notin> pel (snd (vk_xack sv s g [e'] v)) \<Longrightarrow> e' = e"
  unfolding acks_only_given_def by fastforce

lemma queue_op_acks:
  assumes "acks_only_given sv pel" "\<And>f. op = Server_step f \<Longrightarrow> pel v \<subseteq> pel (f v)"
    and gone: "e \<in> pel v" "e \<notin> pel (snd (apply_queue_op sv cfg clk op (st, v)))"
  shows "\<exists>w. (w, e) \<in> set (op_names op) \<and> durable_fact (fst (apply_queue_op sv cfg clk op (st, v))) w e"
proof (cases op)
  case (Store_call sop)
  with gone show ?thesis by simp
next
  case (Server_step f)
  with gone assms(2) show ?thesis by auto
next
  case (Complete_ack w e' r)
  with gone assms(1) show ?thesis
    by (auto simp: completeAndAck_def durable_fact_def dest: complete_fact ack_gone [OF assms(1)] split: sum.splits)
next
  case (Fail_ack w e' k m)
  with gone assms(1) show ?thesis
    by (auto simp: failTerminalAndAck_def durable_fact_def dest: fail_fact ack_gone [OF assms(1)] split: sum.splits)
next
  case (Retry_ack w e' k m d)
  with gone assms(1) show ?thesis
    by (auto simp: failRetryableAndAck_def durable_fact_def dest: retry_fact ack_gone [OF assms(1)] split: sum.splits)
next
  case (Dead_ack w e' r)
  with gone assms(1) show ?thesis
    by (auto simp: deadLetterAndAck_def durable_fact_def dead_letter_input_def
        dest: dead_letter_fact ack_gone [OF assms(1)] split: sum.splits)
next
  case (Reconcile c w e')
  show ?thesis
  proof (cases "isWorkTerminal st w")
    case True
    let ?ack = "ack_with sv cfg e' True st v"
    obtain r v' where ack: "?ack = (r, st, v')" by (metis ack_with_state(1) prod.collapse)
    with True Reconcile have st: "durable_fact (fst (apply_queue_op sv cfg clk op (st, v))) w e"
      and v: "snd (apply_queue_op sv cfg clk op (st, v)) = snd (snd ?ack)"
      by (auto simp: reconcilePending_def durable_fact_def recovery_receipt_state simp del: ack_with_state
          split: sum.splits)
    from gone(2) v have "e \<notin> pel (snd (vk_xack sv (wq_streamName cfg) (wq_consumerGroup cfg) [e'] v))" by simp
    from ack_gone [OF assms(1) gone(1) this] have "e = e'" ..
    with st Reconcile show ?thesis by auto
  next
    case False
    with gone Reconcile have "getWorkItem st w = None" by (auto simp: reconcilePending_def split: if_splits)
    with False gone Reconcile assms(1) show ?thesis
      by (auto simp: reconcilePending_def Let_def durable_fact_def quarantined_fact_def
          quarantine_state intro!: exI [of _ "clk 1"] dest: ack_gone)
  qed
qed

lemma store_run_facts:
  assumes "fresh_history ops st"
  shows "durable_fact st w e \<Longrightarrow> durable_fact (store_run ops st) w e"
proof -
  have "scheduled_fact st w \<Longrightarrow> scheduled_fact (store_run ops st) w"
    by (induction ops st rule: store_run.induct) (auto intro: scheduled_fact_kept)
  moreover have "quarantined_fact st e \<Longrightarrow> quarantined_fact (store_run ops st) e"
    by (induction ops st rule: store_run.induct) (auto intro: quarantined_fact_kept)
  moreover have "isWorkTerminal st w \<Longrightarrow> isWorkTerminal (store_run ops st) w"
    using run_keeps_outcome [OF assms, of w] unfolding isWorkTerminal_view by (simp add: terminal_view_def)
  ultimately show "durable_fact st w e \<Longrightarrow> durable_fact (store_run ops st) w e" by (auto simp: durable_fact_def)
qed

lemma queue_run_store:
  "\<exists>ops'. fst (queue_run sv cfg ops s) = store_run ops' (fst s) \<and>
     created_items ops' = concat (List.map (\<lambda>op. op_creates (snd op)) ops)"
proof (induction sv cfg ops s rule: queue_run.induct)
  case (1 sv cfg s)
  show ?case by (intro exI [of _ "[]"]) simp
next
  case (2 sv cfg clk op ops s)
  obtain st v where s: "s = (st, v)" by (cases s)
  from 2 queue_op_store [of sv cfg clk op st v] show ?case
    unfolding s by (auto simp flip: store_run_append)
qed

text \<open>A history of the queue whose created identifiers are new and distinct.\<close>

definition fresh_queue_history :: "'v queue_history \<Rightarrow> FakeWorkQueueStore \<Rightarrow> bool" where
  "fresh_queue_history ops st \<longleftrightarrow>
     distinct (concat (List.map (\<lambda>op. op_creates (snd op)) ops)) \<and>
     (\<forall>w \<in> set (concat (List.map (\<lambda>op. op_creates (snd op)) ops)). map_get (ws_workItems st) w = None)"

lemma fresh_queue_Cons:
  assumes "fresh_queue_history ((clk, op) # ops) st"
  shows "fresh_queue_history ops (fst (apply_queue_op sv cfg clk op (st, v)))"
proof -
  obtain ops' where ops': "fst (apply_queue_op sv cfg clk op (st, v)) = store_run ops' st"
    "created_items ops' = op_creates op" using queue_op_store [of sv cfg clk op st v] by auto
  define rest :: "((nat \<Rightarrow> millis) \<times> store_op) list" where
    "rest = List.map (\<lambda>w. ((\<lambda>i. 0), Create_item \<lparr>ii_id = w, ii_sessionId = [], ii_projectId = [], ii_workKind = [],
       ii_schemaVersion = [], ii_correlationId = [], ii_missionId = None, ii_parentMissionId = None,
       ii_parentSessionId = None, ii_routingTags = None, ii_maxAttempts = None, ii_maxReclaims = None\<rparr>))
       (concat (List.map (\<lambda>op. op_creates (snd op)) ops))"
  have rest: "created_items rest = concat (List.map (\<lambda>op. op_creates (snd op)) ops)"
    by (simp add: rest_def created_items_def comp_def)
  from assms ops' rest have "fresh_history (ops' @ rest) st" by (simp add: fresh_queue_history_def fresh_history_def)
  from fresh_history_append [OF this] ops' rest show ?thesis
    by (simp add: fresh_queue_history_def fresh_history_def)
qed

text \<open>
  C10: no stream entry is acknowledged before its outcome is durable.  In any sequence of calls of the queue, calls of its store
  and steps of the server, whether the commands throw or not, an entry that was pending and is pending no longer
  was acknowledged by a call for some work, and the store then holds, and goes on to hold, that the work ended,
  that its retry is scheduled, or that the entry is in quarantine.  The conditions: \<open>XACK\<close> removes no pending entries but those
  it is given; the other steps of the server remove none (so no administration that drops a consumer or a group, no flush, and
  no \<open>XAUTOCLAIM\<close> that meets trimmed entries); and no work identifier is created twice, since creating an item
  again resets it.
\<close>

theorem acknowledged_has_fact:
  assumes "acks_only_given sv pel" "\<forall>clk f. (clk, Server_step f) \<in> set ops \<longrightarrow> (\<forall>v. pel v \<subseteq> pel (f v))"
    and "fresh_queue_history ops st" "e \<in> pel v" "e \<notin> pel (snd (queue_run sv cfg ops (st, v)))"
  shows "\<exists>w. (\<exists>clk op. (clk, op) \<in> set ops \<and> (w, e) \<in> set (op_names op)) \<and>
    durable_fact (fst (queue_run sv cfg ops (st, v))) w e"
  using assms(2-5)
proof (induction ops arbitrary: st v)
  case (Cons x ops)
  obtain clk op where x: "x = (clk, op)" by (cases x)
  obtain st' v' where s': "apply_queue_op sv cfg clk op (st, v) = (st', v')" by fastforce
  have fresh: "fresh_queue_history ops st'" using fresh_queue_Cons [of clk op ops st sv cfg v] Cons.prems(2) x s' by simp
  show ?case
  proof (cases "e \<in> pel v'")
    case True
    from Cons.IH [OF _ fresh True] Cons.prems(1,4) x s' show ?thesis by fastforce
  next
    case False
    from queue_op_acks [OF assms(1) _ Cons.prems(3), of op cfg clk st] False Cons.prems(1) x s'
    obtain w where w: "(w, e) \<in> set (op_names op)" "durable_fact st' w e" by fastforce
    obtain ops' where ops': "fst (queue_run sv cfg ops (st', v')) = store_run ops' st'"
      "created_items ops' = concat (List.map (\<lambda>op. op_creates (snd op)) ops)" using queue_run_store [of sv cfg ops "(st', v')"] by auto
    with fresh have "fresh_history ops' st'" by (simp add: fresh_history_def fresh_queue_history_def)
    from store_run_facts [OF this w(2)] ops'(1) w(1) x s' show ?thesis by fastforce
  qed
qed simp

text \<open>A server that keeps the pending entries of one group and nothing else.\<close>

definition pending_server :: "string set valkey" where
  "pending_server =
     \<lparr>vk_xadd = (\<lambda>s kvs v. (Some ''1-0'', v)), vk_xack = (\<lambda>s g ids v. (True, v - set ids)),
      vk_xreadgroup = (\<lambda>s g c n b v. (None, v)), vk_xautoclaim = (\<lambda>s g c m n v. ([], v)),
      vk_xpending = (\<lambda>s g n c v. []), vk_xrange = (\<lambda>s a b n v. []), vk_zadd = (\<lambda>k s m v. (Some 1, v)),
      vk_zrange = (\<lambda>args v. Some []), vk_zcard = (\<lambda>k v. 0), vk_zrem = (\<lambda>k ms v. (Some 0, v))\<rparr>"

definition one_item :: FakeWorkQueueStore where
  "one_item = snd (createWorkItem 1 \<lparr>ii_id = ''w'', ii_sessionId = [], ii_projectId = [], ii_workKind = [],
     ii_schemaVersion = [], ii_correlationId = [], ii_missionId = None, ii_parentMissionId = None,
     ii_parentSessionId = None, ii_routingTags = None, ii_maxAttempts = None, ii_maxReclaims = None\<rparr> empty_work_store)"

lemma pending_server_acks: "acks_only_given pending_server (\<lambda>v. v)"
  by (auto simp: acks_only_given_def pending_server_def)

theorem acknowledged_has_fact_witness:
  "\<exists>w. durable_fact (fst (queue_run pending_server WORK_QUEUE_CONFIG [(\<lambda>i. 5, Complete_ack ''w'' ''1-0'' ''r'')]
     (one_item, {''1-0''}))) w ''1-0''"
proof -
  have "map_get (ws_workItems one_item) ''w'' \<noteq> None"
    by (simp add: one_item_def createWorkItem_def Let_def)
  then obtain i where i: "map_get (ws_workItems one_item) ''w'' = Some i" by auto
  have "wi_status i \<notin> set terminalStates"
    using i by (auto simp: one_item_def createWorkItem_def Let_def terminalStates_def)
  then have "\<exists>x. completeTerminal (\<lambda>i. 5) ''w'' ''r'' one_item = Inr x"
    using i by (simp add: completeTerminal_def Let_def)
  then obtain it a st' where "completeTerminal (\<lambda>i. 5) ''w'' ''r'' one_item = Inr ((it, a), st')" by auto
  then have "''1-0'' \<notin> snd (queue_run pending_server WORK_QUEUE_CONFIG [(\<lambda>i. 5, Complete_ack ''w'' ''1-0'' ''r'')]
     (one_item, {''1-0''}))"
    by (simp add: completeAndAck_def pending_server_def)
  then show ?thesis
    using acknowledged_has_fact [OF pending_server_acks, of "[(\<lambda>i. 5, Complete_ack ''w'' ''1-0'' ''r'')]" one_item
      "''1-0''" "{''1-0''}" WORK_QUEUE_CONFIG]
    by (auto simp: fresh_queue_history_def)
qed

section \<open>What a publisher writes, a consumer reads\<close>

lemma number_show: "number_text (show_int n) = Some n"
proof (cases "n < 0")
  case True
  then show ?thesis
    using show_nat_hd [of "nat (- n)"]
    by (auto simp: number_text_def show_int_def list_all_iff Let_def dest: show_nat_digits)
next
  case False
  obtain c cs where c: "show_nat (nat n) = c # cs" "is_digit c" using show_nat_hd by blast
  then have "c \<noteq> CHR ''-''" by auto
  moreover have "list_all is_digit (c # cs)" using show_nat_digits [of _ "nat n"] c by (auto simp: list_all_iff)
  moreover have "read_nat (c # cs) = nat n" using read_show_nat [of "nat n"] c by simp
  ultimately show ?thesis using False c by (simp add: number_text_def show_int_def)
qed

definition flat_fields :: "(string \<times> string) list \<Rightarrow> reply list" where
  "flat_fields kvs = concat (List.map (\<lambda>(k, v). [Reply_text k, Reply_text v]) kvs)"

lemma get_value_set [simp]: "get_value (map_set k v m) k' = (if k' = k then v else get_value m k')"
  by (simp add: get_value_def)

lemma get_value_Nil [simp]: "get_value [] k = None"
  by (simp add: get_value_def)

lemma flat_fields_values:
  "get_value (field_values (flat_fields kvs) m) k =
     (case map_of (rev kvs) k of Some v \<Rightarrow> Some v | None \<Rightarrow> get_value m k)"
  by (induction kvs arbitrary: m)
    (auto simp: flat_fields_def map_add_def split: option.splits)

text \<open>The entries of a stream in the documented form of \<open>XREADGROUP\<close> and \<open>XRANGE\<close>.\<close>

definition documented_entries :: "(string \<times> (string \<times> string) list) list \<Rightarrow> reply list list" where
  "documented_entries es = List.map (\<lambda>(i, kvs). [Reply_text i, Reply_list (flat_fields kvs)]) es"

definition no_envelope :: ParsedEnvelope where
  "no_envelope = \<lparr>pe_schemaVersion = None, pe_workId = None, pe_workKind = None, pe_enqueuedAt = None,
     pe_correlationId = None, pe_missionId = None, pe_sessionId = None, pe_routingTags = None, pe_attemptHint = None\<rparr>"

lemma documented_fields_lost: "get_value (se_values (reply_entry [Reply_text i, r])) k = None"
  by (simp add: reply_entry_def get_value_def map_get_def)

lemma documented_claims:
  "claims_of parse consumer b (List.map reply_entry (documented_entries es)) =
     Some (List.map (\<lambda>(i, kvs). \<lparr>wk_envelope = no_envelope, wk_entryId = i, wk_consumer = consumer, wk_wasReclaimed = b\<rparr>) es)"
proof (induction es)
  case (Cons x es)
  obtain i kvs where x: "x = (i, kvs)" by (cases x)
  have "parseEnvelope parse (se_values (reply_entry [Reply_text i, r])) = Some no_envelope" for r
    unfolding parseEnvelope_def documented_fields_lost by (simp add: no_envelope_def)
  with Cons show ?case by (simp add: x documented_entries_def) (simp add: reply_entry_def)
qed (simp add: documented_entries_def)

lemma object_values:
  "get_value (List.map (\<lambda>(k, v). (k, Some v)) kvs) k = map_of kvs k"
  by (induction kvs) (auto simp: get_value_def map_get_def split: option.splits)

text \<open>
  C35: an envelope survives its encoding and is lost in transit.  What \<open>parseEnvelope\<close> reads from the very fields
  \<open>publish\<close> writes is the envelope: times and hints are parsed from their texts, tags from their JSON (given that
  \<open>JSON.parse\<close> inverts \<open>JSON.stringify\<close> on the tags), and an empty mission or session is dropped as an absent one is.
  But \<open>read\<close> never gets to see these fields.  When the server answers \<open>XREADGROUP\<close> in its documented form, with the fields of an
  entry in a list of their own, every claim that comes back has the right entry and no envelope: work identifier,
  kind and all other fields are undefined, whatever was published.
\<close>

theorem envelope_lost_in_transit:
  assumes "\<And>ts. we_routingTags e = Some ts \<Longrightarrow> parse (json_stringify (J_arr (List.map J_str ts))) = Some ts"
    and "vk_xreadgroup sv (wq_streamName cfg) (wq_consumerGroup cfg) consumer n blockMs v = (Some (documented_entries es), v')"
  shows "parseEnvelope parse (List.map (\<lambda>(k, v). (k, Some v)) (envelope_values e)) =
     Some \<lparr>pe_schemaVersion = Some (we_schemaVersion e), pe_workId = Some (we_workId e),
       pe_workKind = Some (we_workKind e), pe_enqueuedAt = Some (we_enqueuedAt e),
       pe_correlationId = Some (we_correlationId e),
       pe_missionId = (if we_missionId e = Some [] then None else we_missionId e),
       pe_sessionId = (if we_sessionId e = Some [] then None else we_sessionId e),
       pe_routingTags = we_routingTags e, pe_attemptHint = map_option Some (we_attemptHint e)\<rparr> \<and>
    queue_read sv parse cfg consumer (Some n) (Some blockMs) v =
      (Some (List.map (\<lambda>(i, kvs). \<lparr>wk_envelope = no_envelope, wk_entryId = i, wk_consumer = consumer,
         wk_wasReclaimed = False\<rparr>) es), v')"
proof
  let ?m = "List.map (\<lambda>(k, v). (k, Some v)) (envelope_values e)"
  have shown: "show_int n \<noteq> []" for n using number_show [of n] by (auto simp: number_text_def)
  have tags: "json_stringify (J_arr ts) \<noteq> []" for ts by simp
  have "get_value ?m ''schemaVersion'' = Some (we_schemaVersion e)" "get_value ?m ''workId'' = Some (we_workId e)"
    "get_value ?m ''workKind'' = Some (we_workKind e)" "get_value ?m ''enqueuedAt'' = Some (show_int (we_enqueuedAt e))"
    "get_value ?m ''correlationId'' = Some (we_correlationId e)"
    "get_value ?m ''missionId'' = (if we_missionId e = Some [] then None else we_missionId e)"
    "get_value ?m ''sessionId'' = (if we_sessionId e = Some [] then None else we_sessionId e)"
    "get_value ?m ''routingTags'' = map_option (\<lambda>ts. json_stringify (J_arr (List.map J_str ts))) (we_routingTags e)"
    "get_value ?m ''attemptHint'' = map_option show_int (we_attemptHint e)"
    unfolding object_values by (simp_all add: envelope_values_def if_truthy_def map_add_def del: json_stringify.simps
      split: option.splits)
  then show "parseEnvelope parse ?m =
     Some \<lparr>pe_schemaVersion = Some (we_schemaVersion e), pe_workId = Some (we_workId e),
       pe_workKind = Some (we_workKind e), pe_enqueuedAt = Some (we_enqueuedAt e),
       pe_correlationId = Some (we_correlationId e),
       pe_missionId = (if we_missionId e = Some [] then None else we_missionId e),
       pe_sessionId = (if we_sessionId e = Some [] then None else we_sessionId e),
       pe_routingTags = we_routingTags e, pe_attemptHint = map_option Some (we_attemptHint e)\<rparr>"
    unfolding parseEnvelope_def
    by (simp add: Let_def number_show shown tags assms(1) del: json_stringify.simps split: option.splits)
  show "queue_read sv parse cfg consumer (Some n) (Some blockMs) v =
      (Some (List.map (\<lambda>(i, kvs). \<lparr>wk_envelope = no_envelope, wk_entryId = i, wk_consumer = consumer,
         wk_wasReclaimed = False\<rparr>) es), v')"
    by (simp add: queue_read_def readGroup_def assms(2) documented_claims)
qed

definition sample_envelope :: WorkEnvelope where
  "sample_envelope = \<lparr>we_schemaVersion = ''v1'', we_workId = ''w'', we_workKind = ''k'', we_enqueuedAt = 7,
     we_correlationId = ''c'', we_missionId = None, we_sessionId = Some [], we_routingTags = Some [''a''],
     we_attemptHint = Some 2\<rparr>"

text \<open>A server that answers with what was published, in the documented form.\<close>

theorem envelope_lost_in_transit_witness:
  "\<exists>c. fst (queue_read (pending_server\<lparr>vk_xreadgroup := (\<lambda>s g c n b v. (Some (documented_entries [(''1-0'', envelope_values sample_envelope)]), v))\<rparr>)
       (\<lambda>s. if s = ''[\"a\"]'' then Some [''a''] else None) WORK_QUEUE_CONFIG ''worker'' (Some 1) (Some 0) {}) = Some [c] \<and>
     wk_entryId c = ''1-0'' \<and> pe_workId (wk_envelope c) = None"
  using envelope_lost_in_transit [of sample_envelope "\<lambda>s. if s = ''[\"a\"]'' then Some [''a''] else None"
      "pending_server\<lparr>vk_xreadgroup := (\<lambda>s g c n b v. (Some (documented_entries [(''1-0'', envelope_values sample_envelope)]), v))\<rparr>"
      WORK_QUEUE_CONFIG "''worker''" 1 0 "{}" "[(''1-0'', envelope_values sample_envelope)]" "{}"]
  by (simp add: sample_envelope_def json_quote_def quoted_def json_escape_def no_envelope_def)

text \<open>Completing an item that has ended otherwise is reported as a completion, and changes nothing in the store.\<close>

lemma completion_of_failed:
  assumes "distinct (created_items ops)" "isWorkTerminal (store_run ops empty_work_store) w"
    and "fst (vk_xack sv (wq_streamName cfg) (wq_consumerGroup cfg) [e] v)"
  shows "\<exists>r v'. completeAndAck sv cfg clk w e ref (store_run ops empty_work_store) v =
     (Inr r, store_run ops empty_work_store, v') \<and> cp_result r = Result_completed ref"
proof -
  let ?st = "store_run ops empty_work_store"
  have "length (terminal_attempts ?st w) = 1"
  proof -
    have "fresh_history ops empty_work_store" using assms(1) by (simp add: fresh_history_def empty_work_store_def)
    moreover have "ended_once (item_view empty_work_store w)"
      by (simp add: ended_once_def item_view_def terminal_view_def empty_work_store_def attempts_of_def)
    ultimately have "ended_once (item_view ?st w)" by (rule run_ended_once)
    with assms(2) show ?thesis
      by (simp add: ended_once_def item_view_def terminal_attempts_def flip: isWorkTerminal_view)
        (simp add: isWorkTerminal_view item_view_def)
  qed
  then obtain a where "terminal_attempt ?st w = Some a"
    unfolding terminal_attempt_def terminal_attempts_def
    by (cases "List.find wa_produced_terminal_fact (attempts_of ?st w)") (auto simp: find_None_iff filter_empty_conv)
  moreover obtain i where "map_get (ws_workItems ?st) w = Some i" "wi_status i \<in> set terminalStates"
    using assms(2) by (auto simp: isWorkTerminal_def getWorkStatus_def split: option.splits)
  ultimately have "completeTerminal (\<lambda>i. clk (i + 1)) w ref ?st = Inr ((i, a), ?st)" by (simp add: completeTerminal_def)
  with assms(3) show ?thesis
    by (auto simp: completeAndAck_def ack_with_def streams_ack_def receipt_of_def split: prod.splits bool.splits)
qed

text \<open>When the check of the pending entries finds nothing, every entry that still exists is of stored, open work.\<close>

lemma integrity_verified_iff:
  "ir_verified (verifyLifecycleIntegrity sv cfg limit st v) \<longleftrightarrow>
     (\<forall>p \<in> set (getPendingEntries sv (wq_streamName cfg) (wq_consumerGroup cfg)
        (if limit = 0 then None else Some limit) None v).
        case readRange sv (wq_streamName cfg) (pn_id p) (pn_id p) 1 v of [] \<Rightarrow> True
        | e # _ \<Rightarrow> \<exists>w. get_value (se_values e) ''workId'' = Some w \<and> w \<noteq> [] \<and> getWorkItem st w \<noteq> None \<and>
            \<not> isWorkTerminal st w)"
proof -
  have "List.map_filter f xs = [] \<longleftrightarrow> (\<forall>x \<in> set xs. f x = None)" for f :: "PendingEntry \<Rightarrow> Anomaly option" and xs
    by (induction xs) (auto simp: List.map_filter_simps split: option.splits)
  moreover have "inspect_entry sv cfg st v p = None \<longleftrightarrow>
      (case readRange sv (wq_streamName cfg) (pn_id p) (pn_id p) 1 v of [] \<Rightarrow> True
       | e # _ \<Rightarrow> \<exists>w. get_value (se_values e) ''workId'' = Some w \<and> w \<noteq> [] \<and> getWorkItem st w \<noteq> None \<and>
            \<not> isWorkTerminal st w)" for p
    by (auto simp: inspect_entry_def split: list.splits option.splits)
  ultimately show ?thesis by (simp add: verifyLifecycleIntegrity_def Let_def)
qed

text \<open>A limit of \<open>0\<close> is the default of \<open>100\<close> entries, not all of them.\<close>

lemma integrity_limit_zero: "verifyLifecycleIntegrity sv cfg 0 st v = verifyLifecycleIntegrity sv cfg 100 st v"
  by (simp add: verifyLifecycleIntegrity_def getPendingEntries_def Let_def)

end
