(* ===== verification/Work_Scheduler.thy ===== *)
theory Work_Scheduler imports Work_Queue begin

text \<open>
  The scheduler of delayed work (\<open>coordination/scheduler.ts\<close>) with what it uses of the sorted sets
  (\<open>coordination/sorted-set-primitives.ts\<close>): work is put under its due time and moved to the stream by polling.
  \<open>JSON.parse\<close> is a parameter, where \<open>None\<close> is a text it throws on.
\<close>

section \<open>Sorted sets\<close>

record SortedSetEntry =
  so_value :: string
  so_score :: "int option"

record SortedSetRangeOptions =
  ro_min :: "int option"
  ro_max :: "int option"
  ro_limit :: "int option"
  ro_offset :: "int option"

definition all_scores :: SortedSetRangeOptions where
  "all_scores = \<lparr>ro_min = None, ro_max = None, ro_limit = None, ro_offset = None\<rparr>"

text \<open>The command's arguments as texts; an absent bound is an infinity.\<close>

definition range_args :: "string \<Rightarrow> SortedSetRangeOptions \<Rightarrow> string list" where
  "range_args setName options =
     [setName, (case ro_min options of None \<Rightarrow> ''-Infinity'' | Some n \<Rightarrow> show_int n),
      (case ro_max options of None \<Rightarrow> ''Infinity'' | Some n \<Rightarrow> show_int n)] @
     (case ro_limit options of None \<Rightarrow> []
      | Some limit \<Rightarrow> [''LIMIT'', show_int (nullish (ro_offset options) 0), show_int limit]) @
     [''WITHSCORES'']"

fun scored_entries :: "string list \<Rightarrow> SortedSetEntry list" where
  "scored_entries (value # score # rest) =
     \<lparr>so_value = value, so_score = number_text score\<rparr> # scored_entries rest"
| "scored_entries [value] = [\<lparr>so_value = value, so_score = None\<rparr>]"
| "scored_entries [] = []"

definition rangeByScore :: "'v valkey \<Rightarrow> string \<Rightarrow> SortedSetRangeOptions \<Rightarrow> 'v \<Rightarrow> SortedSetEntry list option" where
  "rangeByScore sv setName options v = map_option scored_entries (vk_zrange sv (range_args setName options) v)"

definition rangeByMax :: "'v valkey \<Rightarrow> string \<Rightarrow> int \<Rightarrow> int option \<Rightarrow> 'v \<Rightarrow> SortedSetEntry list option" where
  "rangeByMax sv setName maxScore limit v = rangeByScore sv setName (all_scores\<lparr>ro_max := Some maxScore, ro_limit := limit\<rparr>) v"

definition getDue :: "'v valkey \<Rightarrow> string \<Rightarrow> int \<Rightarrow> int option \<Rightarrow> 'v \<Rightarrow> SortedSetEntry list option" where
  "getDue sv setName now limit v = rangeByMax sv setName now limit v"

definition getAll :: "'v valkey \<Rightarrow> string \<Rightarrow> 'v \<Rightarrow> SortedSetEntry list option" where
  "getAll sv setName v = rangeByScore sv setName all_scores v"

definition zset_add :: "'v valkey \<Rightarrow> string \<Rightarrow> int \<Rightarrow> string \<Rightarrow> 'v \<Rightarrow> int option \<times> 'v" where
  "zset_add sv setName score value v = vk_zadd sv setName score value v"

definition zset_remove :: "'v valkey \<Rightarrow> string \<Rightarrow> string \<Rightarrow> 'v \<Rightarrow> int option \<times> 'v" where
  "zset_remove sv setName value v = vk_zrem sv setName [value] v"

definition removeMany :: "'v valkey \<Rightarrow> string \<Rightarrow> string list \<Rightarrow> 'v \<Rightarrow> int option \<times> 'v" where
  "removeMany sv setName values v = (if values = [] then (Some 0, v) else vk_zrem sv setName values v)"

definition zset_clear :: "'v valkey \<Rightarrow> string \<Rightarrow> 'v \<Rightarrow> bool \<times> 'v" where
  "zset_clear sv setName v =
     (case getAll sv setName v of
        None \<Rightarrow> (False, v)
      | Some members \<Rightarrow>
          if members = [] then (True, v)
          else map_prod (\<lambda>r. r \<noteq> None) (\<lambda>v. v) (removeMany sv setName (List.map so_value members) v))"

definition zset_getNextDueTime :: "'v valkey \<Rightarrow> string \<Rightarrow> 'v \<Rightarrow> int option option option" where
  "zset_getNextDueTime sv setName v =
     map_option (\<lambda>result. case result of [] \<Rightarrow> None | [value] \<Rightarrow> Some None | value # score # _ \<Rightarrow> Some (number_text score))
       (vk_zrange sv [setName, ''0'', ''0'', ''WITHSCORES''] v)"

section \<open>Scheduling\<close>

record SchedulerConfig =
  sf_dueSetName :: string
  sf_streamName :: string
  sf_consumerGroup :: string
  sf_pollIntervalMs :: int
  sf_batchSize :: int
  sf_maxRetries :: int

definition DEFAULT_SCHEDULER_CONFIG :: SchedulerConfig where
  "DEFAULT_SCHEDULER_CONFIG =
     \<lparr>sf_dueSetName = ''tribunus:due'', sf_streamName = DEFAULT_STREAM_NAME, sf_consumerGroup = DEFAULT_CONSUMER_GROUP,
      sf_pollIntervalMs = 1000, sf_batchSize = 10, sf_maxRetries = 5\<rparr>"

record DelayedWork =
  dw_workId :: string
  dw_dueAt :: int
  dw_retryCount :: int
  dw_maxRetries :: int
  dw_reason :: string
  dw_priority :: int

definition delayed_json :: "DelayedWork \<Rightarrow> json" where
  "delayed_json w =
     J_obj [(''workId'', J_str (dw_workId w)), (''dueAt'', J_num (dw_dueAt w)), (''retryCount'', J_num (dw_retryCount w)),
       (''maxRetries'', J_num (dw_maxRetries w)), (''reason'', J_str (dw_reason w)), (''priority'', J_num (dw_priority w))]"

record SchedulerMetrics =
  sm_promotions :: nat
  sm_duplicatePromotions :: nat
  sm_failedPromotions :: nat
  sm_dueItemsFound :: nat
  sm_lastPromotionAt :: "int option"

definition no_promotions :: SchedulerMetrics where
  "no_promotions = \<lparr>sm_promotions = 0, sm_duplicatePromotions = 0, sm_failedPromotions = 0, sm_dueItemsFound = 0,
     sm_lastPromotionAt = None\<rparr>"

definition resetMetrics :: "SchedulerMetrics \<Rightarrow> SchedulerMetrics" where
  "resetMetrics m = m\<lparr>sm_promotions := 0, sm_duplicatePromotions := 0, sm_failedPromotions := 0, sm_dueItemsFound := 0,
     sm_lastPromotionAt := None\<rparr>"

text \<open>\<open>None\<close>: the command threw.\<close>

definition schedule :: "'v valkey \<Rightarrow> SchedulerConfig \<Rightarrow> DelayedWork \<Rightarrow> 'v \<Rightarrow> bool option \<times> 'v" where
  "schedule sv cfg work v =
     map_prod (map_option (\<lambda>r. r = 1)) (\<lambda>v. v)
       (zset_add sv (sf_dueSetName cfg) (dw_dueAt work) (json_stringify (delayed_json work)) v)"

definition scheduleWithDelay ::
    "'v valkey \<Rightarrow> SchedulerConfig \<Rightarrow> millis \<Rightarrow> string \<Rightarrow> int \<Rightarrow> int option \<Rightarrow> int option \<Rightarrow> string option \<Rightarrow> int option \<Rightarrow>
     'v \<Rightarrow> bool option \<times> 'v" where
  "scheduleWithDelay sv cfg now workId delayMs retryCount maxRetries reason priority v =
     schedule sv cfg
       \<lparr>dw_workId = workId, dw_dueAt = now + delayMs, dw_retryCount = nullish retryCount 0,
        dw_maxRetries = nullish maxRetries (sf_maxRetries cfg), dw_reason = nullish reason ''retryable_failure'',
        dw_priority = nullish priority 0\<rparr> v"

text \<open>The first entry of the work; a throwing removal is caught and the search goes on.\<close>

fun cancel_entries ::
    "'v valkey \<Rightarrow> (string \<Rightarrow> DelayedWork option) \<Rightarrow> SchedulerConfig \<Rightarrow> string \<Rightarrow> SortedSetEntry list \<Rightarrow> 'v \<Rightarrow> bool \<times> 'v" where
  "cancel_entries sv parse cfg workId [] v = (False, v)"
| "cancel_entries sv parse cfg workId (e # es) v =
     (case parse (so_value e) of
        None \<Rightarrow> cancel_entries sv parse cfg workId es v
      | Some work \<Rightarrow>
          if dw_workId work = workId
          then (case zset_remove sv (sf_dueSetName cfg) (so_value e) v of
                  (None, v') \<Rightarrow> cancel_entries sv parse cfg workId es v'
                | (Some result, v') \<Rightarrow> (result = 1, v'))
          else cancel_entries sv parse cfg workId es v)"

definition cancel ::
    "'v valkey \<Rightarrow> (string \<Rightarrow> DelayedWork option) \<Rightarrow> SchedulerConfig \<Rightarrow> string \<Rightarrow> 'v \<Rightarrow> bool option \<times> 'v" where
  "cancel sv parse cfg workId v =
     (case getAll sv (sf_dueSetName cfg) v of
        None \<Rightarrow> (None, v)
      | Some entries \<Rightarrow> map_prod Some (\<lambda>v. v) (cancel_entries sv parse cfg workId entries v))"

section \<open>Promotion\<close>

definition promoted_values :: "millis \<Rightarrow> DelayedWork \<Rightarrow> (string \<times> string) list" where
  "promoted_values now work =
     [(''workId'', dw_workId work), (''workKind'', ''scheduled''), (''schemaVersion'', ''v1''),
      (''enqueueTimestamp'', show_int now), (''correlationId'', ''scheduled:'' @ dw_workId work),
      (''retryCount'', show_int (dw_retryCount work)), (''maxRetries'', show_int (dw_maxRetries work)),
      (''reason'', dw_reason work)]"

text \<open>What a round of the poll has done so far.\<close>

record 'v promotion =
  pm_promoted :: "string list"
  pm_toRemove :: "string list"
  pm_metrics :: SchedulerMetrics
  pm_store :: FakeWorkQueueStore
  pm_server :: 'v

definition promotion_failed :: "'v promotion \<Rightarrow> 'v promotion" where
  "promotion_failed p = p\<lparr>pm_metrics := (pm_metrics p)\<lparr>sm_failedPromotions := sm_failedPromotions (pm_metrics p) + 1\<rparr>\<rparr>"

text \<open>One due entry; \<open>clk\<close> are the clock readings of its two writes to the store.\<close>

definition promote_entry ::
    "'v valkey \<Rightarrow> (string \<Rightarrow> DelayedWork option) \<Rightarrow> SchedulerConfig \<Rightarrow> (nat \<Rightarrow> millis) \<Rightarrow> millis \<Rightarrow> string \<Rightarrow>
     'v promotion \<Rightarrow> 'v promotion" where
  "promote_entry sv parse cfg clk now entry p =
     (case parse entry of
        None \<Rightarrow> promotion_failed p
      | Some work \<Rightarrow>
          if dw_workId work \<in> set (pm_promoted p)
          then p\<lparr>pm_metrics := (pm_metrics p)\<lparr>sm_duplicatePromotions := sm_duplicatePromotions (pm_metrics p) + 1\<rparr>\<rparr>
          else case markEnqueuePending (clk 0) (dw_workId work) (sf_streamName cfg) (sf_consumerGroup cfg) (pm_store p) of
            Inl e \<Rightarrow> promotion_failed p
          | Inr (_, st) \<Rightarrow>
              (case addEntry sv (sf_streamName cfg) (promoted_values now work) (pm_server p) of
                 (None, v) \<Rightarrow> promotion_failed (p\<lparr>pm_store := st, pm_server := v\<rparr>)
               | (Some streamEntryId, v) \<Rightarrow>
                   let p = p\<lparr>pm_promoted := pm_promoted p @ [dw_workId work], pm_toRemove := pm_toRemove p @ [entry],
                          pm_metrics := (pm_metrics p)\<lparr>sm_promotions := sm_promotions (pm_metrics p) + 1,
                            sm_lastPromotionAt := Some now\<rparr>, pm_store := st, pm_server := v\<rparr>
                   in case markEnqueued (\<lambda>i. clk (i + 1)) (dw_workId work) streamEntryId (sf_streamName cfg)
                          (sf_consumerGroup cfg) st of
                        Inl e \<Rightarrow> promotion_failed p
                      | Inr (_, st) \<Rightarrow> p\<lparr>pm_store := st\<rparr>))"

fun promote_entries ::
    "'v valkey \<Rightarrow> (string \<Rightarrow> DelayedWork option) \<Rightarrow> SchedulerConfig \<Rightarrow> (nat \<Rightarrow> nat \<Rightarrow> millis) \<Rightarrow> millis \<Rightarrow> string list \<Rightarrow>
     'v promotion \<Rightarrow> 'v promotion" where
  "promote_entries sv parse cfg clk now [] p = p"
| "promote_entries sv parse cfg clk now (e # es) p =
     promote_entries sv parse cfg (\<lambda>i. clk (i + 1)) now es (promote_entry sv parse cfg (clk 0) now e p)"

text \<open>The flag tells whether the round returned; a throwing removal is the last thing it does.\<close>

definition promoteDueWork ::
    "'v valkey \<Rightarrow> (string \<Rightarrow> DelayedWork option) \<Rightarrow> SchedulerConfig \<Rightarrow> (nat \<Rightarrow> nat \<Rightarrow> millis) \<Rightarrow> millis \<Rightarrow>
     SchedulerMetrics \<Rightarrow> FakeWorkQueueStore \<Rightarrow> 'v \<Rightarrow> bool \<times> SchedulerMetrics \<times> FakeWorkQueueStore \<times> 'v" where
  "promoteDueWork sv parse cfg clk now metrics st v =
     (case getDue sv (sf_dueSetName cfg) now (Some (sf_batchSize cfg)) v of
        None \<Rightarrow> (False, metrics, st, v)
      | Some dueEntries \<Rightarrow>
          let metrics = metrics\<lparr>sm_dueItemsFound := sm_dueItemsFound metrics + length dueEntries\<rparr>
          in if dueEntries = [] then (True, metrics, st, v)
             else
               let p = promote_entries sv parse cfg clk now (List.map so_value dueEntries)
                         \<lparr>pm_promoted = [], pm_toRemove = [], pm_metrics = metrics, pm_store = st, pm_server = v\<rparr>
               in if pm_toRemove p = [] then (True, pm_metrics p, pm_store p, pm_server p)
                  else case removeMany sv (sf_dueSetName cfg) (pm_toRemove p) (pm_server p) of
                    (r, v) \<Rightarrow> (r \<noteq> None, pm_metrics p, pm_store p, v))"

section \<open>Inspection\<close>

definition getScheduledWork ::
    "'v valkey \<Rightarrow> (string \<Rightarrow> DelayedWork option) \<Rightarrow> SchedulerConfig \<Rightarrow> 'v \<Rightarrow> DelayedWork list option" where
  "getScheduledWork sv parse cfg v =
     map_option (\<lambda>entries. js_sort (\<lambda>a b. dw_dueAt a - dw_dueAt b) (List.map_filter (\<lambda>e. parse (so_value e)) entries))
       (getAll sv (sf_dueSetName cfg) v)"

definition getScheduledWorkById ::
    "'v valkey \<Rightarrow> (string \<Rightarrow> DelayedWork option) \<Rightarrow> SchedulerConfig \<Rightarrow> string \<Rightarrow> 'v \<Rightarrow> DelayedWork option option" where
  "getScheduledWorkById sv parse cfg workId v =
     map_option (List.find (\<lambda>w. dw_workId w = workId)) (getScheduledWork sv parse cfg v)"

definition getNextDueTime :: "'v valkey \<Rightarrow> SchedulerConfig \<Rightarrow> 'v \<Rightarrow> int option option option" where
  "getNextDueTime sv cfg v = zset_getNextDueTime sv (sf_dueSetName cfg) v"

definition getScheduledCount :: "'v valkey \<Rightarrow> SchedulerConfig \<Rightarrow> 'v \<Rightarrow> int" where
  "getScheduledCount sv cfg v = vk_zcard sv (sf_dueSetName cfg) v"

definition clearAll :: "'v valkey \<Rightarrow> SchedulerConfig \<Rightarrow> 'v \<Rightarrow> bool \<times> 'v" where
  "clearAll sv cfg v = zset_clear sv (sf_dueSetName cfg) v"

section \<open>What the scheduler never promotes\<close>

lemma status_put [simp]:
  "getWorkStatus (put_item i v st) w = (if w = v then Some (wi_status i) else getWorkStatus st w)"
  by (simp add: getWorkStatus_def)

lemma pending_needs_created:
  assumes "getWorkStatus st w \<noteq> Some WI_created"
  shows "\<exists>e. markEnqueuePending t w s g st = Inl e"
  using assms by (auto simp: markEnqueuePending_def getWorkStatus_def split: option.splits)

lemma pending_status:
  assumes "markEnqueuePending t w s g st = Inr (i, st')"
  shows "getWorkStatus st w = Some WI_created" "st' = put_item i w st" "wi_status i = WI_enqueue_pending"
  using pending_cases [OF assms] by (auto simp: getWorkStatus_def)

lemma enqueued_status:
  assumes "markEnqueued clk w e s g st = Inr (i, st')"
  shows "st' = put_item i w st" "wi_status i = WI_enqueued" "wi_stream_entry_id i = Some e"
  using enqueued_cases [OF assms] by auto

lemma enqueued_after_pending:
  "getWorkStatus st w = Some WI_enqueue_pending \<Longrightarrow> \<exists>i. markEnqueued clk w e s g st = Inr (i, put_item i w st)"
  by (auto simp: markEnqueued_def getWorkStatus_def Let_def)

lemma promotion_failed_state [simp]:
  "pm_store (promotion_failed p) = pm_store p" "pm_server (promotion_failed p) = pm_server p"
  "pm_promoted (promotion_failed p) = pm_promoted p" "pm_toRemove (promotion_failed p) = pm_toRemove p"
  by (simp_all add: promotion_failed_def)

text \<open>Polling rounds, each with its time and its clock readings; a round that throws is followed by the next.\<close>

fun poll ::
    "'v valkey \<Rightarrow> (string \<Rightarrow> DelayedWork option) \<Rightarrow> SchedulerConfig \<Rightarrow> ((nat \<Rightarrow> nat \<Rightarrow> millis) \<times> millis) list \<Rightarrow>
     SchedulerMetrics \<times> FakeWorkQueueStore \<times> 'v \<Rightarrow> SchedulerMetrics \<times> FakeWorkQueueStore \<times> 'v" where
  "poll sv parse cfg [] s = s"
| "poll sv parse cfg ((clk, now) # rounds) (m, st, v) =
     poll sv parse cfg rounds (snd (promoteDueWork sv parse cfg clk now m st v))"

text \<open>A property of the server that survives the stream appends of other work and every removal from the set.\<close>

definition unmoved_by_others :: "'v valkey \<Rightarrow> SchedulerConfig \<Rightarrow> string \<Rightarrow> ('v \<Rightarrow> bool) \<Rightarrow> bool" where
  "unmoved_by_others sv cfg w P \<longleftrightarrow>
     (\<forall>now work v. dw_workId work \<noteq> w \<longrightarrow> P v \<longrightarrow> P (snd (vk_xadd sv (sf_streamName cfg) (promoted_values now work) v))) \<and>
     (\<forall>ms v. P v \<longrightarrow> P (snd (vk_zrem sv (sf_dueSetName cfg) ms v)))"

definition out_of_reach :: "('v \<Rightarrow> bool) \<Rightarrow> string \<Rightarrow> WorkItemStatus \<Rightarrow> FakeWorkQueueStore \<Rightarrow> 'v \<Rightarrow> bool" where
  "out_of_reach P w s st v \<longleftrightarrow> P v \<and> s \<noteq> WI_created \<and> getWorkStatus st w = Some s"

definition promoted_with ::
    "DelayedWork \<Rightarrow> string \<Rightarrow> millis \<Rightarrow> FakeWorkQueueStore \<Rightarrow> 'v \<Rightarrow> 'v promotion \<Rightarrow> 'v promotion" where
  "promoted_with work entry now st v p =
     p\<lparr>pm_promoted := pm_promoted p @ [dw_workId work], pm_toRemove := pm_toRemove p @ [entry],
       pm_metrics := (pm_metrics p)\<lparr>sm_promotions := sm_promotions (pm_metrics p) + 1,
       sm_lastPromotionAt := Some now\<rparr>, pm_store := st, pm_server := v\<rparr>"

lemma promoted_with_simps [simp]:
  "pm_promoted (promoted_with work entry now st v p) = pm_promoted p @ [dw_workId work]"
  "pm_toRemove (promoted_with work entry now st v p) = pm_toRemove p @ [entry]"
  "pm_store (promoted_with work entry now st v p) = st" "pm_server (promoted_with work entry now st v p) = v"
  "pm_metrics (promoted_with work entry now st v p) = (pm_metrics p)\<lparr>sm_promotions := sm_promotions (pm_metrics p) + 1,
     sm_lastPromotionAt := Some now\<rparr>"
  by (simp_all add: promoted_with_def)

lemma promote_entry_cases:
  obtains (malformed) "parse entry = None" "promote_entry sv parse cfg clk now entry p = promotion_failed p"
  | (again) work where "parse entry = Some work" "dw_workId work \<in> set (pm_promoted p)"
      "promote_entry sv parse cfg clk now entry p =
         p\<lparr>pm_metrics := (pm_metrics p)\<lparr>sm_duplicatePromotions := sm_duplicatePromotions (pm_metrics p) + 1\<rparr>\<rparr>"
  | (refused) work where "parse entry = Some work" "dw_workId work \<notin> set (pm_promoted p)"
      "getWorkStatus (pm_store p) (dw_workId work) \<noteq> Some WI_created"
      "promote_entry sv parse cfg clk now entry p = promotion_failed p"
  | (lost) work i v where "parse entry = Some work" "dw_workId work \<notin> set (pm_promoted p)"
      "getWorkStatus (pm_store p) (dw_workId work) = Some WI_created" "wi_status i = WI_enqueue_pending"
      "vk_xadd sv (sf_streamName cfg) (promoted_values now work) (pm_server p) = (None, v)"
      "promote_entry sv parse cfg clk now entry p =
         promotion_failed (p\<lparr>pm_store := put_item i (dw_workId work) (pm_store p), pm_server := v\<rparr>)"
  | (moved) work i j e v where "parse entry = Some work" "dw_workId work \<notin> set (pm_promoted p)"
      "getWorkStatus (pm_store p) (dw_workId work) = Some WI_created"
      "wi_status j = WI_enqueued" "wi_stream_entry_id j = Some e"
      "vk_xadd sv (sf_streamName cfg) (promoted_values now work) (pm_server p) = (Some e, v)"
      "promote_entry sv parse cfg clk now entry p = promoted_with work entry now
         (put_item j (dw_workId work) (put_item i (dw_workId work) (pm_store p))) v p"
proof (cases "parse entry")
  case None
  then show ?thesis by (intro malformed) (simp_all add: promote_entry_def)
next
  case (Some work)
  let ?w = "dw_workId work"
  show ?thesis
  proof (cases "?w \<in> set (pm_promoted p)")
    case True
    with Some show ?thesis by (intro again) (simp_all add: promote_entry_def)
  next
    case new: False
    show ?thesis
    proof (cases "markEnqueuePending (clk 0) ?w (sf_streamName cfg) (sf_consumerGroup cfg) (pm_store p)")
      case (Inl err)
      have "getWorkStatus (pm_store p) ?w \<noteq> Some WI_created"
        using Inl by (auto simp: markEnqueuePending_def getWorkStatus_def Let_def split: option.splits if_splits)
      with Some new Inl show ?thesis by (intro refused) (simp_all add: promote_entry_def)
    next
      case (Inr res)
      obtain i st where res: "res = (i, st)" by (cases res)
      note pend = pending_status [OF Inr [unfolded res]]
      obtain x v where add: "vk_xadd sv (sf_streamName cfg) (promoted_values now work) (pm_server p) = (x, v)" by fastforce
      show ?thesis
      proof (cases x)
        case None
        with Some new Inr res add pend show ?thesis
          by (intro lost) (simp_all add: promote_entry_def addEntry_def)
      next
        case (Some e)
        have "getWorkStatus st ?w = Some WI_enqueue_pending" using pend by simp
        from enqueued_after_pending [OF this] obtain j where
          j: "markEnqueued (\<lambda>i. clk (i + 1)) ?w e (sf_streamName cfg) (sf_consumerGroup cfg) st = Inr (j, put_item j ?w st)"
          by blast
        have "promote_entry sv parse cfg clk now entry p = promoted_with work entry now (put_item j ?w st) v p"
          using \<open>parse entry = Some work\<close> new Inr [unfolded res] add Some j
          unfolding promote_entry_def addEntry_def Let_def by (simp add: promoted_with_def)
        with \<open>parse entry = Some work\<close> new add Some pend enqueued_status [OF j] show ?thesis
          by (intro moved [of work j e v i]) simp_all
      qed
    qed
  qed
qed

lemma promote_entry_other:
  assumes u: "unmoved_by_others sv cfg w P" and r: "out_of_reach P w s (pm_store p) (pm_server p)"
  shows "out_of_reach P w s (pm_store (promote_entry sv parse cfg clk now entry p))
    (pm_server (promote_entry sv parse cfg clk now entry p))"
proof (cases rule: promote_entry_cases [of parse entry sv cfg clk now p])
  case (lost work i v)
  then have "w \<noteq> dw_workId work" using r by (auto simp: out_of_reach_def)
  moreover from this u r have "P (snd (vk_xadd sv (sf_streamName cfg) (promoted_values now work) (pm_server p)))"
    by (auto simp: unmoved_by_others_def out_of_reach_def)
  ultimately show ?thesis using lost r by (simp add: out_of_reach_def)
next
  case (moved work i j e v)
  then have "w \<noteq> dw_workId work" using r by (auto simp: out_of_reach_def)
  moreover from this u r have "P (snd (vk_xadd sv (sf_streamName cfg) (promoted_values now work) (pm_server p)))"
    by (auto simp: unmoved_by_others_def out_of_reach_def)
  ultimately show ?thesis using moved r by (simp add: out_of_reach_def)
qed (use r in simp_all)

lemma promote_entries_other:
  assumes "unmoved_by_others sv cfg w P" "out_of_reach P w s (pm_store p) (pm_server p)"
  shows "out_of_reach P w s (pm_store (promote_entries sv parse cfg clk now es p))
    (pm_server (promote_entries sv parse cfg clk now es p))"
  using assms(2)
proof (induction es arbitrary: clk p)
  case (Cons e es)
  from Cons.IH [OF promote_entry_other [OF assms(1) Cons.prems]] show ?case by simp
qed simp

lemma promoteDueWork_other:
  assumes "unmoved_by_others sv cfg w P" "out_of_reach P w s st v"
    and "promoteDueWork sv parse cfg clk now m st v = (ok, m', st', v')"
  shows "out_of_reach P w s st' v'"
proof (cases "getDue sv (sf_dueSetName cfg) now (Some (sf_batchSize cfg)) v")
  case None
  with assms(2,3) show ?thesis by (simp add: promoteDueWork_def)
next
  case (Some es)
  show ?thesis
  proof (cases "es = []")
    case True
    with Some assms(2,3) show ?thesis by (simp add: promoteDueWork_def Let_def)
  next
    case False
    let ?p = "promote_entries sv parse cfg clk now (List.map so_value es)
      \<lparr>pm_promoted = [], pm_toRemove = [], pm_metrics = m\<lparr>sm_dueItemsFound := sm_dueItemsFound m + length es\<rparr>,
       pm_store = st, pm_server = v\<rparr>"
    have "out_of_reach P w s (pm_store ?p) (pm_server ?p)"
      by (rule promote_entries_other [OF assms(1)]) (use assms(2) in simp)
    with Some False assms(1,3) show ?thesis
      by (auto simp: promoteDueWork_def Let_def removeMany_def out_of_reach_def unmoved_by_others_def
          split: if_splits prod.splits dest!: arg_cong [of "vk_zrem _ _ _ _" _ snd])
  qed
qed

lemma poll_other:
  assumes "unmoved_by_others sv cfg w P" "out_of_reach P w s st v" "poll sv parse cfg rounds (m, st, v) = (m', st', v')"
  shows "out_of_reach P w s st' v'"
  using assms(2,3)
proof (induction rounds arbitrary: m st v)
  case (Cons r rounds)
  obtain clk now where r: "r = (clk, now)" by (cases r)
  obtain ok m1 st1 v1 where "promoteDueWork sv parse cfg clk now m st v = (ok, m1, st1, v1)" by (metis prod_cases4)
  with promoteDueWork_other [OF assms(1) Cons.prems(1) this] Cons.IH [of st1 v1 m1] Cons.prems(2) r show ?case by simp
qed simp

text \<open>
  C21: a scheduled retry is never promoted.  Once the queue has scheduled the retry of a failed work, no number
  of polling rounds, at whatever times, appends that work to the stream or changes its status, since
  \<open>markEnqueuePending\<close> accepts only work that was never enqueued: whatever holds of the server and survives the
  appends of other work and the removals from the set, such as that the stream holds no further entry of the
  work, still holds.
\<close>

theorem retries_never_promoted:
  assumes "failRetryableAndSchedule t w k msg d reason st = Inr (x, st1)"
    and "unmoved_by_others sv cfg w P" "P v"
    and "poll sv parse cfg rounds (m, st1, v) = (m', st2, v2)"
  shows "P v2 \<and> getWorkStatus st2 w = Some WI_retry_scheduled"
proof -
  obtain i a s where x: "x = (i, a, s)" by (cases x) auto
  from retry_cases [OF assms(1) [unfolded x]] have "getWorkStatus st1 w = Some WI_retry_scheduled"
    by (auto simp: getWorkStatus_def)
  with assms(3) have "out_of_reach P w WI_retry_scheduled st1 v" by (simp add: out_of_reach_def)
  from poll_other [OF assms(2) this assms(4)] show ?thesis by (simp add: out_of_reach_def)
qed

text \<open>A server that records what was appended to the stream, with a fixed sorted set.\<close>

definition stream_server :: "string list \<Rightarrow> (string \<times> string) list list valkey" where
  "stream_server due =
     \<lparr>vk_xadd = (\<lambda>s kvs v. (Some ''1-0'', v @ [kvs])), vk_xack = (\<lambda>s g ids v. (True, v)),
      vk_xreadgroup = (\<lambda>s g c n b v. (None, v)), vk_xautoclaim = (\<lambda>s g c m n v. ([], v)),
      vk_xpending = (\<lambda>s g n c v. []), vk_xrange = (\<lambda>s a b n v. []), vk_zadd = (\<lambda>k s m v. (Some 1, v)),
      vk_zrange = (\<lambda>args v. Some due), vk_zcard = (\<lambda>k v. int (length due)), vk_zrem = (\<lambda>k ms v. (Some 0, v))\<rparr>"

definition work_absent :: "string \<Rightarrow> (string \<times> string) list list \<Rightarrow> bool" where
  "work_absent w v \<longleftrightarrow> (\<forall>kvs \<in> set v. map_of kvs ''workId'' \<noteq> Some w)"

lemma stream_server_unmoved: "unmoved_by_others (stream_server due) cfg w (work_absent w)"
  by (simp add: unmoved_by_others_def stream_server_def work_absent_def promoted_values_def)

theorem retries_never_promoted_witness:
  "\<exists>i a s st1. failRetryableAndSchedule 10 ''w'' ''k'' ''m'' 5 None one_item = Inr ((i, a, s), st1) \<and>
     (let (m, st2, v) = poll (stream_server [''x'', ''15'']) (\<lambda>x. Some \<lparr>dw_workId = ''w'', dw_dueAt = 15, dw_retryCount = 1,
          dw_maxRetries = 3, dw_reason = ''k'', dw_priority = 0\<rparr>) DEFAULT_SCHEDULER_CONFIG
          [((\<lambda>i j. 20), 20), ((\<lambda>i j. 30), 30)] (no_promotions, st1, [])
      in work_absent ''w'' v \<and> getWorkStatus st2 ''w'' = Some WI_retry_scheduled)"
proof -
  have "\<exists>x. failRetryableAndSchedule 10 ''w'' ''k'' ''m'' 5 None one_item = Inr x"
    by (simp add: failRetryableAndSchedule_def one_item_def createWorkItem_def Let_def terminalStates_def)
  then obtain i a s st1 where x: "failRetryableAndSchedule 10 ''w'' ''k'' ''m'' 5 None one_item = Inr ((i, a, s), st1)"
    by auto
  obtain m st2 v where p: "poll (stream_server [''x'', ''15'']) (\<lambda>x. Some \<lparr>dw_workId = ''w'', dw_dueAt = 15,
      dw_retryCount = 1, dw_maxRetries = 3, dw_reason = ''k'', dw_priority = 0\<rparr>) DEFAULT_SCHEDULER_CONFIG
      [((\<lambda>i j. 20), 20), ((\<lambda>i j. 30), 30)] (no_promotions, st1, []) = (m, st2, v)" by (metis prod_cases3)
  have "work_absent ''w'' []" by (simp add: work_absent_def)
  from retries_never_promoted [OF x stream_server_unmoved this p] x p show ?thesis
    by (intro exI conjI) (assumption, simp only: Let_def p prod.case)
qed

section \<open>A batch that cannot move\<close>

text \<open>An entry that no promotion accepts: it does not parse, or its work is not in the state \<open>created\<close>.\<close>

definition unpromotable :: "(string \<Rightarrow> DelayedWork option) \<Rightarrow> FakeWorkQueueStore \<Rightarrow> string \<Rightarrow> bool" where
  "unpromotable parse st entry \<longleftrightarrow>
     (case parse entry of None \<Rightarrow> True | Some work \<Rightarrow> getWorkStatus st (dw_workId work) \<noteq> Some WI_created)"

lemma promote_stuck:
  assumes "unpromotable parse (pm_store p) entry" "pm_promoted p = []"
  shows "promote_entry sv parse cfg clk now entry p = promotion_failed p"
  by (cases rule: promote_entry_cases [of parse entry sv cfg clk now p]) (use assms in \<open>simp_all add: unpromotable_def\<close>)

lemma promote_all_stuck:
  assumes "\<forall>e \<in> set es. unpromotable parse (pm_store p) e" "pm_promoted p = []"
  shows "promote_entries sv parse cfg clk now es p = p\<lparr>pm_metrics := (pm_metrics p)
     \<lparr>sm_failedPromotions := sm_failedPromotions (pm_metrics p) + length es\<rparr>\<rparr>"
  using assms
proof (induction es arbitrary: clk p)
  case (Cons e es)
  then have "promote_entry sv parse cfg (clk 0) now e p = promotion_failed p" by (simp add: promote_stuck)
  with Cons.IH [of "promotion_failed p"] Cons.prems show ?case by (simp add: promotion_failed_def)
qed simp

text \<open>
  Entries that cannot be promoted hold up the schedule.  When every entry of the due batch is malformed or
  belongs to work that is no longer in the state \<open>created\<close>, a polling round removes none of them, and changes
  neither the store nor the server, so that the next round reads the same batch while due work behind it waits;
  only the counters move, one failure for each entry.
\<close>

theorem stuck_batch_starves:
  assumes "getDue sv (sf_dueSetName cfg) now (Some (sf_batchSize cfg)) v = Some es"
    and "\<forall>e \<in> set es. unpromotable parse st (so_value e)"
  shows "promoteDueWork sv parse cfg clk now m st v =
    (True, m\<lparr>sm_dueItemsFound := sm_dueItemsFound m + length es,
       sm_failedPromotions := sm_failedPromotions m + length es\<rparr>, st, v)"
proof -
  let ?p = "\<lparr>pm_promoted = [], pm_toRemove = [], pm_metrics = m\<lparr>sm_dueItemsFound := sm_dueItemsFound m + length es\<rparr>,
     pm_store = st, pm_server = v\<rparr>"
  have "promote_entries sv parse cfg clk now (List.map so_value es) ?p = ?p\<lparr>pm_metrics := (pm_metrics ?p)
     \<lparr>sm_failedPromotions := sm_failedPromotions (pm_metrics ?p) + length (List.map so_value es)\<rparr>\<rparr>"
    by (rule promote_all_stuck) (use assms(2) in auto)
  with assms(1) show ?thesis by (simp add: promoteDueWork_def Let_def)
qed

theorem stuck_batch_starves_witness:
  "promoteDueWork (stream_server [''x'', ''1'']) (\<lambda>x. None) DEFAULT_SCHEDULER_CONFIG (\<lambda>i j. 20) 20 no_promotions one_item [] =
     (True, no_promotions\<lparr>sm_dueItemsFound := 1, sm_failedPromotions := 1\<rparr>, one_item, [])"
proof -
  have "getDue (stream_server [''x'', ''1'']) (sf_dueSetName DEFAULT_SCHEDULER_CONFIG) 20
      (Some (sf_batchSize DEFAULT_SCHEDULER_CONFIG)) [] = Some [\<lparr>so_value = ''x'', so_score = number_text ''1''\<rparr>]"
    by (simp add: getDue_def rangeByMax_def rangeByScore_def stream_server_def)
  from stuck_batch_starves [OF this, of "\<lambda>x. None" one_item "\<lambda>i j. 20" no_promotions] show ?thesis
    by (simp add: unpromotable_def no_promotions_def)
qed

section \<open>Due work reaches the stream\<close>

text \<open>Of one of the entries the work is \<open>w\<close>, and the server may throw at the append of it.\<close>

definition append_threw ::
    "'v valkey \<Rightarrow> (string \<Rightarrow> DelayedWork option) \<Rightarrow> SchedulerConfig \<Rightarrow> millis \<Rightarrow> string list \<Rightarrow> string \<Rightarrow> bool" where
  "append_threw sv parse cfg now entries w \<longleftrightarrow>
     (\<exists>e \<in> set entries. \<exists>work v. parse e = Some work \<and> dw_workId work = w \<and>
        fst (vk_xadd sv (sf_streamName cfg) (promoted_values now work) v) = None)"

text \<open>A run over the entries \<open>es\<close> of a batch: what it has promoted, what it will remove, and what the counters say.\<close>

definition promotion_consistent ::
    "'v valkey \<Rightarrow> (string \<Rightarrow> DelayedWork option) \<Rightarrow> SchedulerConfig \<Rightarrow> millis \<Rightarrow> FakeWorkQueueStore \<Rightarrow> SchedulerMetrics \<Rightarrow>
     string list \<Rightarrow> 'v promotion \<Rightarrow> bool" where
  "promotion_consistent sv parse cfg now st0 m0 es p \<longleftrightarrow>
     set (pm_toRemove p) \<subseteq> set es \<and>
     List.map (map_option dw_workId \<circ> parse) (pm_toRemove p) = List.map Some (pm_promoted p) \<and> distinct (pm_promoted p) \<and>
     (\<forall>w \<in> set (pm_promoted p). getWorkStatus st0 w = Some WI_created \<and> getWorkStatus (pm_store p) w = Some WI_enqueued) \<and>
     (\<forall>w. w \<notin> set (pm_promoted p) \<longrightarrow> getWorkStatus (pm_store p) w = getWorkStatus st0 w \<or>
        getWorkStatus st0 w = Some WI_created \<and> getWorkStatus (pm_store p) w = Some WI_enqueue_pending \<and>
        append_threw sv parse cfg now es w) \<and>
     sm_promotions (pm_metrics p) = sm_promotions m0 + length (pm_promoted p) \<and>
     sm_promotions (pm_metrics p) + sm_duplicatePromotions (pm_metrics p) + sm_failedPromotions (pm_metrics p) =
       sm_promotions m0 + sm_duplicatePromotions m0 + sm_failedPromotions m0 + length es"

lemma append_threw_more: "append_threw sv parse cfg now es w \<Longrightarrow> append_threw sv parse cfg now (es @ es') w"
  by (auto simp: append_threw_def)

lemma promote_entry_consistent:
  assumes "promotion_consistent sv parse cfg now st0 m0 es p"
  shows "promotion_consistent sv parse cfg now st0 m0 (es @ [entry]) (promote_entry sv parse cfg clk now entry p)"
proof (cases rule: promote_entry_cases [of parse entry sv cfg clk now p])
  case (lost work i v)
  from assms lost(2,3) have "getWorkStatus st0 (dw_workId work) = Some WI_created"
    by (auto simp: promotion_consistent_def)
  moreover have "append_threw sv parse cfg now (es @ [entry]) (dw_workId work)"
    unfolding append_threw_def using lost(1,5) by (intro bexI [of _ entry] exI [of _ work] exI [of _ "pm_server p"]) simp_all
  ultimately show ?thesis using assms lost append_threw_more [of sv parse cfg now es]
    by (auto simp: promotion_consistent_def promotion_failed_def)
next
  case (moved work i j e v)
  from assms moved(2,3) have "getWorkStatus st0 (dw_workId work) = Some WI_created"
    by (auto simp: promotion_consistent_def)
  with assms moved append_threw_more [of sv parse cfg now es] show ?thesis by (auto simp: promotion_consistent_def)
qed (use assms append_threw_more [of sv parse cfg now es] in \<open>auto simp: promotion_consistent_def promotion_failed_def\<close>)

lemma promote_entries_consistent:
  assumes "promotion_consistent sv parse cfg now st0 m0 es0 p"
  shows "promotion_consistent sv parse cfg now st0 m0 (es0 @ es) (promote_entries sv parse cfg clk now es p)"
  using assms
proof (induction es arbitrary: clk es0 p)
  case (Cons e es)
  from Cons.IH [OF promote_entry_consistent [OF Cons.prems]] show ?case by simp
qed simp

lemma parsed_works:
  "List.map (map_option dw_workId \<circ> parse) es = List.map Some ids \<Longrightarrow>
   \<exists>works. List.map parse es = List.map Some works \<and> List.map dw_workId works = ids"
proof (induction es arbitrary: ids)
  case (Cons e es)
  then obtain i ids' where ids: "ids = i # ids'" "map_option dw_workId (parse e) = Some i"
    "List.map (map_option dw_workId \<circ> parse) es = List.map Some ids'" by (cases ids) (auto simp: o_def)
  from Cons.IH [OF ids(3)] obtain works where "List.map parse es = List.map Some works" "List.map dw_workId works = ids'"
    by blast
  moreover from ids(2) obtain w where "parse e = Some w" "dw_workId w = i" by auto
  ultimately show ?case using ids(1) by (intro exI [of _ "w # works"]) simp
qed simp

lemma promote_all_created:
  assumes "\<And>values v. fst (vk_xadd sv (sf_streamName cfg) values v) \<noteq> None"
    and "List.map parse es = List.map Some works"
    and "distinct (pm_promoted p @ List.map dw_workId works)"
    and "\<forall>w \<in> set works. getWorkStatus (pm_store p) (dw_workId w) = Some WI_created"
  shows "let q = promote_entries sv parse cfg clk now es p
    in pm_toRemove q = pm_toRemove p @ es \<and> pm_promoted q = pm_promoted p @ List.map dw_workId works \<and>
       pm_server q = foldl (\<lambda>v work. snd (vk_xadd sv (sf_streamName cfg) (promoted_values now work) v)) (pm_server p) works"
  using assms(2-4)
proof (induction es arbitrary: clk p works)
  case (Cons e es)
  then obtain work works' where works: "works = work # works'" "parse e = Some work" by (cases works) auto
  show ?case
  proof (cases rule: promote_entry_cases [of parse e sv cfg "clk 0" now p])
    case (moved work' i j a v)
    with works have eq: "work' = work" by simp
    let ?q = "promoted_with work e now (put_item j (dw_workId work) (put_item i (dw_workId work) (pm_store p))) v p"
    have "dw_workId work \<notin> dw_workId ` set works'" using Cons.prems(2) works by auto
    then have "\<forall>w \<in> set works'. dw_workId w \<noteq> dw_workId work" by (metis imageI)
    then have "\<forall>w \<in> set works'. getWorkStatus (pm_store ?q) (dw_workId w) = Some WI_created"
      using Cons.prems(3) works by simp
    with Cons.IH [of works' ?q] Cons.prems works moved eq show ?thesis by (simp add: Let_def)
  next
    case (lost work' i v)
    with assms(1) [of "promoted_values now work'" "pm_server p"] show ?thesis by simp
  qed (use Cons.prems works in auto)
qed simp

text \<open>
  The server takes the bounds of \<open>ZRANGE\<close> for scores, and has \<open>LIMIT\<close>, only with \<open>BYSCORE\<close> or \<open>BYLEX\<close>;
  it refuses the command that a polling round sends.
\<close>

definition limit_needs_byscore :: "'v valkey \<Rightarrow> bool" where
  "limit_needs_byscore sv \<longleftrightarrow>
     (\<forall>args v. ''LIMIT'' \<in> set (tl args) \<and> ''BYSCORE'' \<notin> set (tl args) \<and> ''BYLEX'' \<notin> set (tl args) \<longrightarrow> vk_zrange sv args v = None)"

lemma show_int_not_by: "show_int n \<noteq> CHR ''B'' # cs"
proof
  assume "show_int n = CHR ''B'' # cs"
  then have "CHR ''B'' \<in> set (show_int n)" by simp
  from show_int_chars [OF this] show False by (simp add: is_digit_def)
qed

lemma due_refused:
  assumes "limit_needs_byscore sv"
  shows "getDue sv (sf_dueSetName cfg) now (Some n) v = None"
  using assms by (auto simp: limit_needs_byscore_def getDue_def rangeByMax_def rangeByScore_def range_args_def all_scores_def
      nullish_def show_int_not_by show_int_not_by [symmetric])

lemma answered_round:
  assumes "getDue sv (sf_dueSetName cfg) now (Some (sf_batchSize cfg)) v = Some es"
  shows "\<exists>removed works st' v' m'.
    (let (r, v2) = removeMany sv (sf_dueSetName cfg) removed v'
     in promoteDueWork sv parse cfg clk now m st v = (r \<noteq> None, m', st', v2)) \<and>
    set removed \<subseteq> so_value ` set es \<and> List.map parse removed = List.map Some works \<and> distinct (List.map dw_workId works) \<and>
    (\<forall>w \<in> set (List.map dw_workId works).
       getWorkStatus st w = Some WI_created \<and> getWorkStatus st' w = Some WI_enqueued) \<and>
    (\<forall>w. w \<notin> set (List.map dw_workId works) \<longrightarrow> getWorkStatus st' w = getWorkStatus st w \<or>
       getWorkStatus st w = Some WI_created \<and> getWorkStatus st' w = Some WI_enqueue_pending \<and>
       append_threw sv parse cfg now (List.map so_value es) w) \<and>
    sm_promotions m' = sm_promotions m + length removed \<and>
    sm_promotions m' + sm_duplicatePromotions m' + sm_failedPromotions m' =
      sm_promotions m + sm_duplicatePromotions m + sm_failedPromotions m + length es \<and>
    ((\<forall>values v. fst (vk_xadd sv (sf_streamName cfg) values v) \<noteq> None) \<longrightarrow>
     (\<forall>due. List.map (parse \<circ> so_value) es = List.map Some due \<and> distinct (List.map dw_workId due) \<and>
        (\<forall>w \<in> set due. getWorkStatus st (dw_workId w) = Some WI_created) \<longrightarrow>
        removed = List.map so_value es \<and> works = due \<and>
        v' = foldl (\<lambda>v work. snd (vk_xadd sv (sf_streamName cfg) (promoted_values now work) v)) v due))"
proof -
  let ?m = "m\<lparr>sm_dueItemsFound := sm_dueItemsFound m + length es\<rparr>"
  define p0 :: "'a promotion" where
    "p0 = \<lparr>pm_promoted = [], pm_toRemove = [], pm_metrics = ?m, pm_store = st, pm_server = v\<rparr>"
  define q where "q = promote_entries sv parse cfg clk now (List.map so_value es) p0"
  have "promotion_consistent sv parse cfg now st m [] p0" by (simp add: promotion_consistent_def p0_def)
  from promote_entries_consistent [OF this, of "List.map so_value es" clk]
  have c: "promotion_consistent sv parse cfg now st m (List.map so_value es) q" by (simp add: q_def)
  then have "List.map (map_option dw_workId \<circ> parse) (pm_toRemove q) = List.map Some (pm_promoted q)"
    by (simp add: promotion_consistent_def)
  from parsed_works [OF this] obtain works where
    works: "List.map parse (pm_toRemove q) = List.map Some works" "List.map dw_workId works = pm_promoted q" by blast
  have round: "let (r, v2) = removeMany sv (sf_dueSetName cfg) (pm_toRemove q) (pm_server q)
     in promoteDueWork sv parse cfg clk now m st v = (r \<noteq> None, pm_metrics q, pm_store q, v2)"
    using assms by (cases "es = []") (simp_all add: promoteDueWork_def Let_def q_def p0_def removeMany_def split: prod.splits)
  have all: "pm_toRemove q = List.map so_value es \<and> works = due \<and>
      pm_server q = foldl (\<lambda>v work. snd (vk_xadd sv (sf_streamName cfg) (promoted_values now work) v)) v due"
    if "\<forall>values v. fst (vk_xadd sv (sf_streamName cfg) values v) \<noteq> None"
      "List.map (parse \<circ> so_value) es = List.map Some due" "distinct (List.map dw_workId due)"
      "\<forall>w \<in> set due. getWorkStatus st (dw_workId w) = Some WI_created" for due
  proof -
    from promote_all_created [of sv cfg parse "List.map so_value es" due p0 clk now] that
    have r: "pm_toRemove q = List.map so_value es"
      "pm_server q = foldl (\<lambda>v work. snd (vk_xadd sv (sf_streamName cfg) (promoted_values now work) v)) v due"
      by (simp_all add: q_def p0_def Let_def)
    with works(1) that(2) have "List.map Some works = List.map Some due" by simp
    then have "works = due" by (simp add: inj_map_eq_map)
    with r show ?thesis by simp
  qed
  show ?thesis
    apply (rule exI [of _ "pm_toRemove q"], rule exI [of _ works], rule exI [of _ "pm_store q"],
        rule exI [of _ "pm_server q"], rule exI [of _ "pm_metrics q"])
    unfolding works(2)
  proof (intro conjI)
    show "let (r, v2) = removeMany sv (sf_dueSetName cfg) (pm_toRemove q) (pm_server q)
       in promoteDueWork sv parse cfg clk now m st v = (r \<noteq> None, pm_metrics q, pm_store q, v2)" by (rule round)
    show "set (pm_toRemove q) \<subseteq> so_value ` set es" using c by (simp add: promotion_consistent_def)
    show "List.map parse (pm_toRemove q) = List.map Some works" by (rule works(1))
    have "length (pm_toRemove q) = length (pm_promoted q)"
      using arg_cong [OF works(1), of length] arg_cong [OF works(2), of length] by simp
    with c show "sm_promotions (pm_metrics q) = sm_promotions m + length (pm_toRemove q)"
      by (simp add: promotion_consistent_def)
    show "(\<forall>values v. fst (vk_xadd sv (sf_streamName cfg) values v) \<noteq> None) \<longrightarrow>
     (\<forall>due. List.map (parse \<circ> so_value) es = List.map Some due \<and> distinct (List.map dw_workId due) \<and>
        (\<forall>w \<in> set due. getWorkStatus st (dw_workId w) = Some WI_created) \<longrightarrow>
        pm_toRemove q = List.map so_value es \<and> works = due \<and>
        pm_server q = foldl (\<lambda>v work. snd (vk_xadd sv (sf_streamName cfg) (promoted_values now work) v)) v due)"
      using all by blast
  qed (use c in \<open>simp_all add: promotion_consistent_def\<close>)
qed

text \<open>
  C19: what a polling round does with the server's answer.  When the server refuses the range, as it does where \<open>LIMIT\<close> needs \<open>BYSCORE\<close>
  (recorded as a finding), the round throws and has changed nothing.  Otherwise the round
  accounts for every due entry and loses none: of the entries read each is counted once,
  as promoted, duplicate or failed; the entries it takes out of the sorted set were read, no two hold the same work, and that work was
  in the state \<open>created\<close> before and is \<open>enqueued\<close> after; all other work keeps its
  status, but for created work of an entry read at whose append the server throws, which is left \<open>enqueue_pending\<close> with its entry in the set.  When
  no append throws and the entries hold distinct work that was created, all of it is appended in order and all
  entries are removed.
\<close>

theorem promotion_round:
  "case getDue sv (sf_dueSetName cfg) now (Some (sf_batchSize cfg)) v of
     None \<Rightarrow> promoteDueWork sv parse cfg clk now m st v = (False, m, st, v)
   | Some es \<Rightarrow> \<exists>removed works st' v' m'.
    (let (r, v2) = removeMany sv (sf_dueSetName cfg) removed v'
     in promoteDueWork sv parse cfg clk now m st v = (r \<noteq> None, m', st', v2)) \<and>
    set removed \<subseteq> so_value ` set es \<and> List.map parse removed = List.map Some works \<and> distinct (List.map dw_workId works) \<and>
    (\<forall>w \<in> set (List.map dw_workId works).
       getWorkStatus st w = Some WI_created \<and> getWorkStatus st' w = Some WI_enqueued) \<and>
    (\<forall>w. w \<notin> set (List.map dw_workId works) \<longrightarrow> getWorkStatus st' w = getWorkStatus st w \<or>
       getWorkStatus st w = Some WI_created \<and> getWorkStatus st' w = Some WI_enqueue_pending \<and>
       append_threw sv parse cfg now (List.map so_value es) w) \<and>
    sm_promotions m' = sm_promotions m + length removed \<and>
    sm_promotions m' + sm_duplicatePromotions m' + sm_failedPromotions m' =
      sm_promotions m + sm_duplicatePromotions m + sm_failedPromotions m + length es \<and>
    ((\<forall>values v. fst (vk_xadd sv (sf_streamName cfg) values v) \<noteq> None) \<longrightarrow>
     (\<forall>due. List.map (parse \<circ> so_value) es = List.map Some due \<and> distinct (List.map dw_workId due) \<and>
        (\<forall>w \<in> set due. getWorkStatus st (dw_workId w) = Some WI_created) \<longrightarrow>
        removed = List.map so_value es \<and> works = due \<and>
        v' = foldl (\<lambda>v work. snd (vk_xadd sv (sf_streamName cfg) (promoted_values now work) v)) v due))"
proof (cases "getDue sv (sf_dueSetName cfg) now (Some (sf_batchSize cfg)) v")
  case None
  then show ?thesis by (simp add: promoteDueWork_def)
next
  case (Some es)
  show ?thesis unfolding Some option.case by (rule answered_round [OF Some])
qed

definition one_due :: DelayedWork where
  "one_due = \<lparr>dw_workId = ''w'', dw_dueAt = 15, dw_retryCount = 0, dw_maxRetries = 3, dw_reason = ''r'', dw_priority = 0\<rparr>"

theorem promotion_round_witness:
  "\<exists>st' m'. promoteDueWork (stream_server [''x'', ''15'']) (\<lambda>x. Some one_due) DEFAULT_SCHEDULER_CONFIG (\<lambda>i j. 20) 20
      no_promotions one_item [] = (True, m', st', [promoted_values 20 one_due]) \<and> sm_promotions m' = 1 \<and>
    getWorkStatus st' ''w'' = Some WI_enqueued"
proof -
  let ?sv = "stream_server [''x'', ''15'']" and ?es = "[\<lparr>so_value = ''x'', so_score = number_text ''15''\<rparr>]"
  have due: "getDue ?sv (sf_dueSetName DEFAULT_SCHEDULER_CONFIG) 20 (Some (sf_batchSize DEFAULT_SCHEDULER_CONFIG)) [] = Some ?es"
    by (simp add: getDue_def rangeByMax_def rangeByScore_def stream_server_def)
  have created: "getWorkStatus one_item ''w'' = Some WI_created"
    by (simp add: one_item_def createWorkItem_def Let_def)
  have adds: "\<forall>values v. fst (vk_xadd ?sv s values v) \<noteq> None" for s by (simp add: stream_server_def)
  from promotion_round [where sv = ?sv and cfg = DEFAULT_SCHEDULER_CONFIG and now = 20 and v = "[]" and
      parse = "\<lambda>x. Some one_due" and clk = "\<lambda>i j. 20" and m = no_promotions and st = one_item]
  show ?thesis unfolding due option.case
  proof (elim exE conjE)
    fix removed works st' v' m'
    assume r1:
    "let (r, v2) = removeMany ?sv (sf_dueSetName DEFAULT_SCHEDULER_CONFIG) removed v'
     in promoteDueWork ?sv (\<lambda>x. Some one_due) DEFAULT_SCHEDULER_CONFIG (\<lambda>i j. 20) 20 no_promotions one_item [] =
       (r \<noteq> None, m', st', v2)"
    and r2: "\<forall>w \<in> set (List.map dw_workId works). getWorkStatus one_item w = Some WI_created \<and> getWorkStatus st' w = Some WI_enqueued"
    and r3: "sm_promotions m' = sm_promotions no_promotions + length removed"
    and r4: "(\<forall>values v. fst (vk_xadd ?sv (sf_streamName DEFAULT_SCHEDULER_CONFIG) values v) \<noteq> None) \<longrightarrow>
      (\<forall>due. List.map ((\<lambda>x. Some one_due) \<circ> so_value) ?es = List.map Some due \<and> distinct (List.map dw_workId due) \<and>
        (\<forall>w \<in> set due. getWorkStatus one_item (dw_workId w) = Some WI_created) \<longrightarrow>
        removed = List.map so_value ?es \<and> works = due \<and> v' = foldl (\<lambda>v work. snd (vk_xadd ?sv
          (sf_streamName DEFAULT_SCHEDULER_CONFIG) (promoted_values 20 work) v)) [] due)"
    from r4 [rule_format, OF adds [rule_format], of "[one_due]"]
    have e: "removed = [''x'']" "works = [one_due]" "v' = [promoted_values 20 one_due]"
      by (simp_all add: one_due_def created stream_server_def)
    from r1 have "promoteDueWork ?sv (\<lambda>x. Some one_due) DEFAULT_SCHEDULER_CONFIG (\<lambda>i j. 20) 20 no_promotions one_item []
        = (True, m', st', [promoted_values 20 one_due])"
      by (simp add: e removeMany_def stream_server_def)
    moreover from r2 r3 have "sm_promotions m' = 1" "getWorkStatus st' ''w'' = Some WI_enqueued"
      by (simp_all add: e no_promotions_def one_due_def)
    ultimately show ?thesis by blast
  qed
qed

section \<open>What a consumer reads of a promoted entry\<close>

text \<open>The scheduler writes the time under \<open>enqueueTimestamp\<close>, where no consumer looks.\<close>

lemma promoted_time_lost:
  "\<exists>e. parseEnvelope parse (se_values (reply_entry (Reply_text entryId # flat_fields (promoted_values now work)))) = Some e \<and>
     pe_workId e = Some (dw_workId work) \<and> pe_enqueuedAt e = None"
  by (simp add: parseEnvelope_def Let_def reply_entry_def flat_fields_values promoted_values_def map_add_def)

text \<open>Publishing under the same identifier, then cancelling by it, finds the entry.\<close>

lemma cancel_first:
  assumes "getAll sv (sf_dueSetName cfg) v = Some (es @ e # rest)" "parse (so_value e) = Some work"
    "\<forall>x \<in> set es. \<forall>w. parse (so_value x) = Some w \<longrightarrow> dw_workId w \<noteq> dw_workId work"
    "vk_zrem sv (sf_dueSetName cfg) [so_value e] v = (Some n, v')"
  shows "cancel sv parse cfg (dw_workId work) v = (Some (n = 1), v')"
proof -
  have "cancel_entries sv parse cfg (dw_workId work) (es @ e # rest) v = (n = 1, v')"
    using assms(3) by (induction es) (auto simp: assms(2,4) zset_remove_def split: option.splits)
  with assms(1) show ?thesis by (simp add: cancel_def)
qed

end
