(* ===== verification/Work_Recovery.thy ===== *)
theory Work_Recovery imports Work_Scheduler Js_Text begin

text \<open>
  Recovery of the coordination state (\<open>coordination/recovery.ts\<close>) and the report of divergences
  (\<open>coordination/divergence-report.ts\<close>).  To the commands of the queue come those of recovery; a command that may
  throw gives \<open>None\<close> or \<open>Inl\<close> of the message.  The row of the recovery state is a cell, the store is the one in memory.
\<close>

section \<open>Commands of the server\<close>

text \<open>A client answers with a flat array of keys and values or with an object.\<close>

datatype 'a js_reply = Flat_reply "reply list" | Object_reply 'a

record stream_info =
  si_length :: int

record group_info =
  gi_name :: string

record 'v recovery_server =
  rs_valkey :: "'v valkey"
  rs_ping :: "'v \<Rightarrow> bool"
  rs_xinfo_stream :: "string \<Rightarrow> 'v \<Rightarrow> stream_info js_reply option"
  rs_xinfo_groups :: "string \<Rightarrow> 'v \<Rightarrow> group_info js_reply list option"
  rs_xgroup_create :: "string \<Rightarrow> string \<Rightarrow> string \<Rightarrow> 'v \<Rightarrow> (string + string) \<times> 'v"
  rs_xpending :: "string list \<Rightarrow> 'v \<Rightarrow> (string \<times> string \<times> int \<times> int) list option"
  rs_xrange :: "string \<Rightarrow> string \<Rightarrow> string \<Rightarrow> 'v \<Rightarrow> reply list list option"
  rs_zscore :: "string \<Rightarrow> string \<Rightarrow> 'v \<Rightarrow> string option option"

text \<open>The property \<open>length\<close> of an array is the number of its elements, and its property \<open>name\<close> is undefined.\<close>

fun reply_length :: "stream_info js_reply \<Rightarrow> int" where
  "reply_length (Flat_reply xs) = int (length xs)"
| "reply_length (Object_reply i) = si_length i"

fun reply_name :: "group_info js_reply \<Rightarrow> string option" where
  "reply_name (Flat_reply xs) = None"
| "reply_name (Object_reply i) = Some (gi_name i)"

definition getStreamLength :: "'v recovery_server \<Rightarrow> string \<Rightarrow> 'v \<Rightarrow> int option" where
  "getStreamLength sv streamName v = map_option reply_length (rs_xinfo_stream sv streamName v)"

definition streamExists :: "'v recovery_server \<Rightarrow> string \<Rightarrow> 'v \<Rightarrow> bool" where
  "streamExists sv streamName v \<longleftrightarrow> getStreamLength sv streamName v \<noteq> None"

definition listGroups :: "'v recovery_server \<Rightarrow> string \<Rightarrow> 'v \<Rightarrow> group_info js_reply list option" where
  "listGroups sv streamName v = rs_xinfo_groups sv streamName v"

definition getGroupInfo :: "'v recovery_server \<Rightarrow> string \<Rightarrow> string \<Rightarrow> 'v \<Rightarrow> group_info js_reply option option" where
  "getGroupInfo sv streamName groupName v =
     map_option (List.find (\<lambda>g. reply_name g = Some groupName)) (listGroups sv streamName v)"

definition ensureGroup :: "'v recovery_server \<Rightarrow> string \<Rightarrow> string \<Rightarrow> 'v \<Rightarrow> (string + bool) \<times> 'v" where
  "ensureGroup sv streamName groupName v =
     (case rs_xgroup_create sv streamName groupName ''$'' v of
        (Inr result, v') \<Rightarrow> (Inr (result = ''OK''), v')
      | (Inl message, v') \<Rightarrow> (if js_includes message ''BUSYGROUP'' then Inr False else Inl message, v'))"

text \<open>
  \<open>getPendingEntries\<close> without options.  \<open>rs_xpending\<close> is given the arguments of \<open>XPENDING\<close>; the idle times stand where
  the command has the first and the last identifier, and at most 100 entries are asked for.
\<close>

definition pendingOf :: "'v recovery_server \<Rightarrow> string \<Rightarrow> string \<Rightarrow> 'v \<Rightarrow> PendingEntry list option" where
  "pendingOf sv streamName groupName v =
     map_option (List.map (\<lambda>(i, c, idle, d). \<lparr>pn_id = i, pn_consumer = c, pn_idleMs = idle, pn_deliveryCount = d\<rparr>))
       (rs_xpending sv [streamName, groupName, ''0'', ''Infinity'', ''100''] v)"

definition rangeOf :: "'v recovery_server \<Rightarrow> string \<Rightarrow> string \<Rightarrow> string \<Rightarrow> 'v \<Rightarrow> StreamEntry list option" where
  "rangeOf sv streamName start stop v = map_option (List.map reply_entry) (rs_xrange sv streamName start stop v)"

section \<open>Types\<close>

datatype CoordinationRecoveryState =
  CR_ready | CR_unavailable | CR_degraded | CR_rebuilding | CR_refused

datatype RecoveryOutcome = RO_success | RO_partial | RO_failed

fun RecoveryOutcome_str :: "RecoveryOutcome \<Rightarrow> string" where
  "RecoveryOutcome_str RO_success = ''success''"
| "RecoveryOutcome_str RO_partial = ''partial''"
| "RecoveryOutcome_str RO_failed = ''failed''"

record RunReceipt =
  rn_id :: string
  rn_workId :: string
  rn_streamEntryId :: "string option"
  rn_action :: RecoveryAction
  rn_recoveredBy :: string
  rn_originalConsumer :: "string option"
  rn_recoveredAt :: int
  rn_idleDurationMs :: "int option"
  rn_outcome :: RecoveryOutcome
  rn_reason :: "string option"

record RecoveryPlan =
  rp_needsRecovery :: bool
  rp_state :: CoordinationRecoveryState
  rp_workToReEnqueue :: "string list"
  rp_workToReschedule :: "string list"
  rp_terminalWork :: "string list"
  rp_receipt :: "RunReceipt option"

record RecoveryConfig =
  rc_streamName :: string
  rc_consumerGroup :: string
  rc_dueSetName :: string
  rc_pendingIdleThresholdMs :: int
  rc_maxRecoveryBatchSize :: int

definition DEFAULT_RECOVERY_CONFIG :: RecoveryConfig where
  "DEFAULT_RECOVERY_CONFIG =
     \<lparr>rc_streamName = DEFAULT_STREAM_NAME, rc_consumerGroup = DEFAULT_CONSUMER_GROUP,
      rc_dueSetName = ''tribunus:due'', rc_pendingIdleThresholdMs = 5 * 60 * 1000, rc_maxRecoveryBatchSize = 100\<rparr>"

record RebuildReceipt =
  rb_receiptId :: string
  rb_itemsFound :: nat
  rb_itemsReenqueued :: nat
  rb_itemsSkipped :: nat
  rb_duration :: int
  rb_timestamp :: int

section \<open>The plan\<close>

definition empty_plan :: "CoordinationRecoveryState \<Rightarrow> RecoveryPlan" where
  "empty_plan state =
     \<lparr>rp_needsRecovery = True, rp_state = state, rp_workToReEnqueue = [], rp_workToReschedule = [], rp_terminalWork = [],
      rp_receipt = None\<rparr>"

definition plan_of :: "WorkItem list \<Rightarrow> RecoveryPlan" where
  "plan_of nonTerminalWork =
     (let workToReEnqueue = List.map wi_id (List.filter (\<lambda>w. wi_status w = WI_enqueue_pending \<or> wi_status w = WI_created \<or>
            wi_status w = WI_enqueued \<or> wi_status w = WI_claimed \<or> wi_status w = WI_recovered) nonTerminalWork);
          workToReschedule = List.map wi_id (List.filter (\<lambda>w. wi_status w = WI_retry_scheduled \<or>
            wi_status w = WI_failed_retryable) nonTerminalWork);
          needed = (workToReEnqueue \<noteq> [] \<or> workToReschedule \<noteq> [])
      in \<lparr>rp_needsRecovery = needed, rp_state = (if needed then CR_degraded else CR_ready),
          rp_workToReEnqueue = workToReEnqueue, rp_workToReschedule = workToReschedule, rp_terminalWork = [],
      rp_receipt = None\<rparr>)"

definition planRecovery ::
    "'v recovery_server \<Rightarrow> RecoveryConfig \<Rightarrow> FakeWorkQueueStore \<Rightarrow> 'v \<Rightarrow> RecoveryPlan option" where
  "planRecovery sv cfg st v =
     (if \<not> rs_ping sv v then Some (empty_plan CR_unavailable)
      else case getGroupInfo sv (rc_streamName cfg) (rc_consumerGroup cfg) v of
             None \<Rightarrow> None
           | Some info \<Rightarrow>
               if \<not> streamExists sv (rc_streamName cfg) v \<or> info = None then Some (empty_plan CR_rebuilding)
               else Some (plan_of (listNonTerminalWorkByStream st (rc_streamName cfg))))"

section \<open>Execution of a plan\<close>

definition run_receipt_id :: "millis \<Rightarrow> string \<Rightarrow> string" where
  "run_receipt_id now rnd = ''rec_'' @ show_int now @ ''_'' @ rnd"

definition persistRecoveryReceipt ::
    "RecoveryConfig \<Rightarrow> millis \<Rightarrow> RunReceipt \<Rightarrow> FakeWorkQueueStore \<Rightarrow> FakeWorkQueueStore" where
  "persistRecoveryReceipt cfg nowMs r st =
     snd (recordRecoveryReceipt nowMs
       \<lparr>ri_workId = rn_workId r, ri_streamEntryId = rn_streamEntryId r, ri_action = rn_action r,
        ri_recoveredByConsumer = rn_recoveredBy r, ri_originalConsumer = rn_originalConsumer r,
        ri_recoveredAt = rn_recoveredAt r, ri_idleDurationMs = rn_idleDurationMs r,
        ri_outcome = RecoveryOutcome_str (rn_outcome r), ri_outcomeReason = rn_reason r,
        ri_streamName = Some (rc_streamName cfg), ri_consumerGroup = Some (rc_consumerGroup cfg),
        ri_wasPending = None, ri_wasTerminal = None\<rparr> st)"

definition reenqueue_values :: "millis \<Rightarrow> WorkItem \<Rightarrow> (string \<times> string) list" where
  "reenqueue_values now w =
     [(''workId'', wi_id w), (''workKind'', wi_work_kind w), (''schemaVersion'', wi_schema_version w),
      (''enqueueTimestamp'', show_int now), (''correlationId'', ''recovered:'' @ wi_id w),
      (''retryCount'', show_int (wi_attempt_count w)), (''maxRetries'', show_int (wi_max_attempts w))]"

fun reenqueue_all ::
    "'v recovery_server \<Rightarrow> RecoveryConfig \<Rightarrow> millis \<Rightarrow> FakeWorkQueueStore \<Rightarrow> string list \<Rightarrow> 'v \<Rightarrow> 'v" where
  "reenqueue_all sv cfg now st [] v = v"
| "reenqueue_all sv cfg now st (workId # workIds) v =
     reenqueue_all sv cfg now st workIds
       (case getWorkItem st workId of
          None \<Rightarrow> v
        | Some w \<Rightarrow> snd (addEntry (rs_valkey sv) (rc_streamName cfg) (reenqueue_values now w) v))"

definition reschedule_at :: "WorkItem \<Rightarrow> int" where
  "reschedule_at w =
     (case wi_completed_at w of
        Some t \<Rightarrow> if t \<noteq> 0 then t + 60000 else wi_created_at w + 60000
      | None \<Rightarrow> wi_created_at w + 60000)"

fun reschedule_all ::
    "'v recovery_server \<Rightarrow> RecoveryConfig \<Rightarrow> FakeWorkQueueStore \<Rightarrow> string list \<Rightarrow> 'v \<Rightarrow> 'v" where
  "reschedule_all sv cfg st [] v = v"
| "reschedule_all sv cfg st (workId # workIds) v =
     reschedule_all sv cfg st workIds
       (case getWorkItem st workId of
          None \<Rightarrow> v
        | Some w \<Rightarrow> snd (zset_add (rs_valkey sv) (rc_dueSetName cfg) (reschedule_at w) workId v))"

definition recovery_receipt :: "millis \<Rightarrow> string \<Rightarrow> RecoveryPlan \<Rightarrow> RunReceipt" where
  "recovery_receipt now receiptId plan =
     \<lparr>rn_id = receiptId, rn_workId = ''recovery-batch'', rn_streamEntryId = None, rn_action = RA_rebuild,
      rn_recoveredBy = ''recovery-worker'', rn_originalConsumer = None, rn_recoveredAt = now, rn_idleDurationMs = None,
      rn_outcome = RO_success,
      rn_reason = Some (''rebuilt '' @ show_int (int (length (rp_workToReEnqueue plan))) @ '' work items'')\<rparr>"

definition executeRecovery ::
    "'v recovery_server \<Rightarrow> RecoveryConfig \<Rightarrow> (nat \<Rightarrow> millis) \<Rightarrow> string \<Rightarrow> RecoveryPlan \<Rightarrow> FakeWorkQueueStore \<Rightarrow> 'v \<Rightarrow>
     (RunReceipt, 'v) queue_result" where
  "executeRecovery sv cfg clk rnd plan st v =
     (let receipt = recovery_receipt (clk 1) (run_receipt_id (clk 0) rnd) plan
      in case ensureGroup sv (rc_streamName cfg) (rc_consumerGroup cfg) v of
           (Inl e, v1) \<Rightarrow> (Inl e, st, v1)
         | (Inr _, v1) \<Rightarrow>
             let v2 = reenqueue_all sv cfg (clk 1) st (rp_workToReEnqueue plan) v1;
                 v3 = reschedule_all sv cfg st (rp_workToReschedule plan) v2
             in (Inr receipt, persistRecoveryReceipt cfg (clk 2) receipt st, v3))"

definition recover ::
    "'v recovery_server \<Rightarrow> RecoveryConfig \<Rightarrow> (nat \<Rightarrow> millis) \<Rightarrow> string \<Rightarrow> FakeWorkQueueStore \<Rightarrow> 'v \<Rightarrow>
     (RunReceipt, 'v) queue_result" where
  "recover sv cfg clk rnd st v =
     (case planRecovery sv cfg st v of
        None \<Rightarrow> (Inl ''no such key'', st, v)
      | Some plan \<Rightarrow> executeRecovery sv cfg clk rnd plan st v)"

section \<open>Pending entries\<close>

text \<open>\<open>clk k\<close> are the readings of the clock for the \<open>k\<close>-th entry that is left.\<close>

definition reconciled_receipt :: "(nat \<Rightarrow> millis) \<Rightarrow> string \<Rightarrow> PendingEntry \<Rightarrow> RunReceipt" where
  "reconciled_receipt clk rnd entry =
     \<lparr>rn_id = run_receipt_id (clk 0) rnd, rn_workId = pn_id entry, rn_streamEntryId = Some (pn_id entry),
      rn_action = RA_reconciled_duplicate, rn_recoveredBy = ''recovery-worker'',
      rn_originalConsumer = Some (pn_consumer entry), rn_recoveredAt = clk 1, rn_idleDurationMs = Some (pn_idleMs entry),
      rn_outcome = RO_success, rn_reason = Some ''work_already_terminal''\<rparr>"

fun reconcile_entries ::
    "'v recovery_server \<Rightarrow> RecoveryConfig \<Rightarrow> (nat \<Rightarrow> nat \<Rightarrow> millis) \<Rightarrow> (nat \<Rightarrow> string) \<Rightarrow> PendingEntry list \<Rightarrow> nat \<Rightarrow>
     FakeWorkQueueStore \<Rightarrow> 'v \<Rightarrow> (nat, 'v) queue_result" where
  "reconcile_entries sv cfg clk rnd [] n st v = (Inr n, st, v)"
| "reconcile_entries sv cfg clk rnd (entry # entries) n st v =
     (if isWorkTerminal st (pn_id entry)
      then case streams_ack (rs_valkey sv) (rc_streamName cfg) (rc_consumerGroup cfg) [pn_id entry] v of
             (False, v') \<Rightarrow> (Inl ''ack failed'', st, v')
           | (True, v') \<Rightarrow>
               let k = length entries
               in reconcile_entries sv cfg clk rnd entries (n + 1)
                    (persistRecoveryReceipt cfg (clk k 2) (reconciled_receipt (clk k) (rnd k) entry) st) v'
      else reconcile_entries sv cfg clk rnd entries n st v)"

definition reconcilePendingEntries ::
    "'v recovery_server \<Rightarrow> RecoveryConfig \<Rightarrow> (nat \<Rightarrow> nat \<Rightarrow> millis) \<Rightarrow> (nat \<Rightarrow> string) \<Rightarrow> FakeWorkQueueStore \<Rightarrow> 'v \<Rightarrow>
     (nat, 'v) queue_result" where
  "reconcilePendingEntries sv cfg clk rnd st v =
     (case pendingOf sv (rc_streamName cfg) (rc_consumerGroup cfg) v of
        None \<Rightarrow> (Inl ''pending failed'', st, v)
      | Some pending \<Rightarrow> reconcile_entries sv cfg clk rnd pending 0 st v)"

section \<open>Rebuilding\<close>

definition scheduled_due :: "StoredSchedule list \<Rightarrow> (string \<times> int) list" where
  "scheduled_due scheduled = foldl (\<lambda>m s. map_set (sw_work_id s) (sw_due_at s) m) [] scheduled"

definition rebuild_values :: "millis \<Rightarrow> WorkItem \<Rightarrow> (string \<times> string) list" where
  "rebuild_values now w =
     [(''workId'', wi_id w), (''workKind'', wi_work_kind w), (''schemaVersion'', wi_schema_version w),
      (''enqueueTimestamp'', show_int now), (''retryCount'', show_int (wi_attempt_count w)),
      (''maxRetries'', show_int (wi_max_attempts w)), (''correlationId'', ''rebuilt:'' @ wi_id w)]"

definition delayed_until :: "millis \<Rightarrow> (string \<times> int) list \<Rightarrow> WorkItem \<Rightarrow> int option" where
  "delayed_until now due w =
     (case map_get due (wi_id w) of
        Some d \<Rightarrow> if d \<noteq> 0 \<and> d > now then Some d else None
      | None \<Rightarrow> None)"

text \<open>The counts of items enqueued again and skipped; an addition to the sorted set that throws ends the call.\<close>

fun rebuild_items ::
    "'v recovery_server \<Rightarrow> RecoveryConfig \<Rightarrow> millis \<Rightarrow> (string \<times> int) list \<Rightarrow> WorkItem list \<Rightarrow> nat \<times> nat \<Rightarrow> 'v \<Rightarrow>
     (string + nat \<times> nat) \<times> 'v" where
  "rebuild_items sv cfg now due [] counts v = (Inr counts, v)"
| "rebuild_items sv cfg now due (work # works) (enqueued, skipped) v =
     (case delayed_until now due work of
        Some d \<Rightarrow>
          (case zset_add (rs_valkey sv) (rc_dueSetName cfg) d (wi_id work) v of
             (None, v') \<Rightarrow> (Inl ''zadd failed'', v')
           | (Some _, v') \<Rightarrow> rebuild_items sv cfg now due works (enqueued + 1, skipped) v')
      | None \<Rightarrow>
          (case addEntry (rs_valkey sv) (rc_streamName cfg) (rebuild_values now work) v of
             (None, v') \<Rightarrow> rebuild_items sv cfg now due works (enqueued, skipped + 1) v'
           | (Some _, v') \<Rightarrow> rebuild_items sv cfg now due works (enqueued + 1, skipped) v'))"

definition rebuild_run_receipt :: "millis \<Rightarrow> string \<Rightarrow> RebuildReceipt \<Rightarrow> RunReceipt" where
  "rebuild_run_receipt now receiptId r =
     \<lparr>rn_id = receiptId, rn_workId = ''rebuild-batch'', rn_streamEntryId = None, rn_action = RA_rebuild,
      rn_recoveredBy = ''recovery-worker'', rn_originalConsumer = None, rn_recoveredAt = now, rn_idleDurationMs = None,
      rn_outcome = (if rb_itemsSkipped r > 0 then RO_partial else RO_success),
      rn_reason = Some (''rebuild complete: '' @ show_int (int (rb_itemsFound r)) @ '' found, '' @
        show_int (int (rb_itemsReenqueued r)) @ '' reenqueued, '' @ show_int (int (rb_itemsSkipped r)) @
        '' skipped in '' @ show_int (rb_duration r) @ ''ms'')\<rparr>"

definition rebuildFromPGlite ::
    "'v recovery_server \<Rightarrow> RecoveryConfig \<Rightarrow> (nat \<Rightarrow> millis) \<Rightarrow> string \<Rightarrow> FakeWorkQueueStore \<Rightarrow> 'v \<Rightarrow>
     (RebuildReceipt, 'v) queue_result" where
  "rebuildFromPGlite sv cfg clk rnd st v =
     (let receiptId = run_receipt_id (clk 1) rnd; now = clk 2
      in case ensureGroup sv (rc_streamName cfg) (rc_consumerGroup cfg) v of
           (Inl e, v1) \<Rightarrow> (Inl e, st, v1)
         | (Inr _, v1) \<Rightarrow>
             let nonTerminalWork = listNonTerminalWorkByStream st (rc_streamName cfg);
                 due = scheduled_due (listScheduledWork st (now + 86400000) None)
             in case rebuild_items sv cfg now due nonTerminalWork (0, 0) v1 of
                  (Inl e, v2) \<Rightarrow> (Inl e, st, v2)
                | (Inr (enqueued, skipped), v2) \<Rightarrow>
                    let receipt = \<lparr>rb_receiptId = receiptId, rb_itemsFound = length nonTerminalWork,
                          rb_itemsReenqueued = enqueued, rb_itemsSkipped = skipped, rb_duration = clk 3 - clk 0,
                          rb_timestamp = now\<rparr>
                    in (Inr receipt, persistRecoveryReceipt cfg (clk 4) (rebuild_run_receipt now receiptId receipt) st, v2))"

section \<open>Divergence of the pending entries\<close>

record PelDivergence =
  pd_lost_durability :: "string list"
  pd_orphaned_work :: "string list"
  pd_pglite_count :: nat
  pd_valkey_pel_count :: nat
  pd_detectedAt :: int

fun batches_of_50 :: "'a list \<Rightarrow> 'a list list" where
  "batches_of_50 xs = (if xs = [] then [] else take 50 xs # batches_of_50 (drop 50 xs))"

declare batches_of_50.simps [simp del]

definition work_ids_in :: "StreamEntry list \<Rightarrow> string list" where
  "work_ids_in entries =
     List.map_filter (\<lambda>e. case get_value (se_values e) ''workId'' of Some w \<Rightarrow> if w \<noteq> [] then Some w else None | None \<Rightarrow> None)
       entries"

fun pel_work_ids :: "'v recovery_server \<Rightarrow> string \<Rightarrow> 'v \<Rightarrow> string list list \<Rightarrow> string list option" where
  "pel_work_ids sv streamName v [] = Some []"
| "pel_work_ids sv streamName v (batch # batches) =
     (case rangeOf sv streamName (hd batch) (last batch) v of
        None \<Rightarrow> None
      | Some entries \<Rightarrow> map_option (\<lambda>ws. work_ids_in entries @ ws) (pel_work_ids sv streamName v batches))"

definition detectDivergence ::
    "'v recovery_server \<Rightarrow> RecoveryConfig \<Rightarrow> millis \<Rightarrow> FakeWorkQueueStore \<Rightarrow> 'v \<Rightarrow> PelDivergence" where
  "detectDivergence sv cfg detectedAt st v =
     (let pgliteWorkIds = List.map wi_id (listNonTerminalWorkByStream st (rc_streamName cfg));
          pending = pendingOf sv (rc_streamName cfg) (rc_consumerGroup cfg) v;
          pel = Option.bind pending (\<lambda>es. map_option (\<lambda>ws. (List.map pn_id es, ws))
            (pel_work_ids sv (rc_streamName cfg) v (batches_of_50 (List.map pn_id es))))
      in case pel of
           None \<Rightarrow> \<lparr>pd_lost_durability = [], pd_orphaned_work = pgliteWorkIds,
             pd_pglite_count = length pgliteWorkIds, pd_valkey_pel_count = 0, pd_detectedAt = detectedAt\<rparr>
         | Some (pelEntryIds, pelWorkIds) \<Rightarrow>
             \<lparr>pd_lost_durability = js_unique (List.filter (\<lambda>w. w \<notin> set pgliteWorkIds) pelWorkIds),
              pd_orphaned_work = js_unique (List.filter (\<lambda>w. w \<notin> set pelWorkIds) pgliteWorkIds),
              pd_pglite_count = length pgliteWorkIds, pd_valkey_pel_count = length pelEntryIds,
              pd_detectedAt = detectedAt\<rparr>)"

section \<open>Cold start\<close>

record 'v recovery =
  re_store :: FakeWorkQueueStore
  re_server :: 'v
  re_row :: "CoordinationRecoveryState option"
  re_lastDivergenceReport :: "PelDivergence option"

definition setRecoveryState ::
    "'v recovery_server \<Rightarrow> RecoveryConfig \<Rightarrow> millis \<Rightarrow> CoordinationRecoveryState \<Rightarrow> 'v recovery \<Rightarrow> 'v recovery" where
  "setRecoveryState sv cfg now state r =
     r\<lparr>re_row := Some state, re_lastDivergenceReport := Some (detectDivergence sv cfg now (re_store r) (re_server r))\<rparr>"

definition getLastDivergenceReport :: "'v recovery \<Rightarrow> PelDivergence option" where
  "getLastDivergenceReport r = re_lastDivergenceReport r"

definition getRecoveryState :: "'v recovery \<Rightarrow> CoordinationRecoveryState" where
  "getRecoveryState r = nullish (re_row r) CR_ready"

definition coldStartRebuildIfNeeded ::
    "'v recovery_server \<Rightarrow> RecoveryConfig \<Rightarrow> (nat \<Rightarrow> millis) \<Rightarrow> string \<Rightarrow> 'v recovery \<Rightarrow>
     (string + RebuildReceipt option) \<times> 'v recovery" where
  "coldStartRebuildIfNeeded sv cfg clk rnd r =
     (if \<not> rs_ping sv (re_server r) then (Inr None, r)
      else if (case getStreamLength sv (rc_streamName cfg) (re_server r) of Some n \<Rightarrow> n > 0 | None \<Rightarrow> False) then (Inr None, r)
      else
        let r1 = setRecoveryState sv cfg (clk 0) CR_rebuilding r
        in case rebuildFromPGlite sv cfg (\<lambda>i. clk (i + 1)) rnd (re_store r1) (re_server r1) of
             (Inl e, st, v) \<Rightarrow> (Inl e, r1\<lparr>re_store := st, re_server := v\<rparr>)
           | (Inr receipt, st, v) \<Rightarrow>
               (Inr (Some receipt), setRecoveryState sv cfg (clk 6) CR_ready (r1\<lparr>re_store := st, re_server := v\<rparr>)))"

section \<open>What recovery leaves alone\<close>

lemma persist_only_receipts:
  obtains x where "persistRecoveryReceipt cfg t r st = st\<lparr>ws_recoveryReceipts := x\<rparr>"
  by (simp add: persistRecoveryReceipt_def recordRecoveryReceipt_def Let_def)

lemma receipts_not_read [simp]:
  "listNonTerminalWorkByStream (st\<lparr>ws_recoveryReceipts := x\<rparr>) s = listNonTerminalWorkByStream st s"
  "listScheduledWork (st\<lparr>ws_recoveryReceipts := x\<rparr>) d n = listScheduledWork st d n"
  "isWorkTerminal (st\<lparr>ws_recoveryReceipts := x\<rparr>) w = isWorkTerminal st w"
  "getWorkStatus (st\<lparr>ws_recoveryReceipts := x\<rparr>) w = getWorkStatus st w"
  by (simp_all add: listNonTerminalWorkByStream_def listScheduledWork_def isWorkTerminal_def getWorkStatus_def)

lemma persist_not_read [simp]:
  "listNonTerminalWorkByStream (persistRecoveryReceipt cfg t r st) s = listNonTerminalWorkByStream st s"
  "listScheduledWork (persistRecoveryReceipt cfg t r st) d n = listScheduledWork st d n"
  "isWorkTerminal (persistRecoveryReceipt cfg t r st) w = isWorkTerminal st w"
  "getWorkStatus (persistRecoveryReceipt cfg t r st) w = getWorkStatus st w"
  by (rule persist_only_receipts [of cfg t r st], simp)+

section \<open>Rebuilding again\<close>

definition rebuild_step ::
    "'v recovery_server \<Rightarrow> RecoveryConfig \<Rightarrow> millis \<Rightarrow> (string \<times> int) list \<Rightarrow> WorkItem \<Rightarrow> 'v \<Rightarrow> 'v" where
  "rebuild_step sv cfg now due work v =
     (case delayed_until now due work of
        Some d \<Rightarrow> snd (zset_add (rs_valkey sv) (rc_dueSetName cfg) d (wi_id work) v)
      | None \<Rightarrow> snd (addEntry (rs_valkey sv) (rc_streamName cfg) (rebuild_values now work) v))"

lemma rebuild_items_steps:
  assumes "rebuild_items sv cfg now due works (n, k) v = (Inr (n', k'), v')"
  shows "n' + k' = n + k + length works \<and> v' = foldl (\<lambda>v w. rebuild_step sv cfg now due w v) v works"
  using assms
  by (induction works arbitrary: n k v) (fastforce simp: rebuild_step_def split: option.splits prod.splits)+

lemma rebuild_items_return:
  assumes "\<And>d w v. fst (vk_zadd (rs_valkey sv) (rc_dueSetName cfg) d w v) \<noteq> None"
  obtains n' k' v' where "rebuild_items sv cfg now due works (n, k) v = (Inr (n', k'), v')"
proof -
  have "\<exists>n' k' v'. rebuild_items sv cfg now due works (n, k) v = (Inr (n', k'), v')"
  proof (induction works arbitrary: n k v)
    case (Cons w works)
    have "vk_zadd (rs_valkey sv) (rc_dueSetName cfg) d (wi_id w) v \<noteq> (None, v')" for d v' by (metis assms fst_conv)
    with Cons.IH show ?case by (auto simp: zset_add_def split: option.splits prod.splits)
  qed simp
  then show ?thesis using that by blast
qed

text \<open>\<open>c v w\<close> counts the entries of the stream for the work \<open>w\<close>; every \<open>XADD\<close> appends, the other commands leave the stream alone, and none throws.\<close>

definition counts_appends :: "'v recovery_server \<Rightarrow> RecoveryConfig \<Rightarrow> ('v \<Rightarrow> string \<Rightarrow> nat) \<Rightarrow> bool" where
  "counts_appends sv cfg c \<longleftrightarrow>
     (\<forall>values v. c (snd (vk_xadd (rs_valkey sv) (rc_streamName cfg) values v)) =
        (\<lambda>w. c v w + (if map_of values ''workId'' = Some w then 1 else 0))) \<and>
     (\<forall>d m v. fst (vk_zadd (rs_valkey sv) (rc_dueSetName cfg) d m v) \<noteq> None \<and>
        c (snd (vk_zadd (rs_valkey sv) (rc_dueSetName cfg) d m v)) = c v) \<and>
     (\<forall>v. \<exists>b v'. ensureGroup sv (rc_streamName cfg) (rc_consumerGroup cfg) v = (Inr b, v') \<and> c v' = c v)"

definition appended_now :: "RecoveryConfig \<Rightarrow> FakeWorkQueueStore \<Rightarrow> millis \<Rightarrow> string \<Rightarrow> nat" where
  "appended_now cfg st now w =
     length (List.filter (\<lambda>i. wi_id i = w \<and>
         delayed_until now (scheduled_due (listScheduledWork st (now + 86400000) None)) i = None)
       (listNonTerminalWorkByStream st (rc_streamName cfg)))"

lemma rebuild_steps_count:
  assumes "counts_appends sv cfg c"
  shows "c (foldl (\<lambda>v i. rebuild_step sv cfg now due i v) v works) w =
    c v w + length (List.filter (\<lambda>i. wi_id i = w \<and> delayed_until now due i = None) works)"
proof (induction works arbitrary: v)
  case (Cons i works)
  have "c (rebuild_step sv cfg now due i v) w = c v w + (if wi_id i = w \<and> delayed_until now due i = None then 1 else 0)"
    using assms by (auto simp: counts_appends_def rebuild_step_def addEntry_def zset_add_def rebuild_values_def
        split: option.splits)
  then show ?case by (simp add: Cons.IH)
qed simp

lemma rebuild_exact:
  assumes "counts_appends sv cfg c"
  obtains r st' v' where "rebuildFromPGlite sv cfg clk rnd st v = (Inr r, st', v')"
    "rb_itemsFound r = length (listNonTerminalWorkByStream st (rc_streamName cfg))"
    "rb_itemsFound r = rb_itemsReenqueued r + rb_itemsSkipped r"
    "\<And>w. c v' w = c v w + appended_now cfg st (clk 2) w"
    "\<exists>x. st' = st\<lparr>ws_recoveryReceipts := x\<rparr>"
proof -
  let ?works = "listNonTerminalWorkByStream st (rc_streamName cfg)"
  let ?due = "scheduled_due (listScheduledWork st (clk 2 + 86400000) None)"
  obtain b v1 where e: "ensureGroup sv (rc_streamName cfg) (rc_consumerGroup cfg) v = (Inr b, v1)" "c v1 = c v"
    using assms by (auto simp: counts_appends_def) metis
  have "\<And>d w v. fst (vk_zadd (rs_valkey sv) (rc_dueSetName cfg) d w v) \<noteq> None"
    using assms by (simp add: counts_appends_def)
  from rebuild_items_return [OF this] obtain n k v2 where
    i: "rebuild_items sv cfg (clk 2) ?due ?works (0, 0) v1 = (Inr (n, k), v2)" by blast
  from rebuild_items_steps [OF i] have s: "n + k = length ?works"
    "v2 = foldl (\<lambda>v w. rebuild_step sv cfg (clk 2) ?due w v) v1 ?works" by simp_all
  have c: "c v2 w = c v w + appended_now cfg st (clk 2) w" for w
    by (simp add: s(2) rebuild_steps_count [OF assms] e(2) appended_now_def)
  let ?r = "\<lparr>rb_receiptId = run_receipt_id (clk 1) rnd, rb_itemsFound = length ?works, rb_itemsReenqueued = n,
    rb_itemsSkipped = k, rb_duration = clk 3 - clk 0, rb_timestamp = clk 2\<rparr>"
  let ?st = "persistRecoveryReceipt cfg (clk 4) (rebuild_run_receipt (clk 2) (run_receipt_id (clk 1) rnd) ?r) st"
  have run: "rebuildFromPGlite sv cfg clk rnd st v = (Inr ?r, ?st, v2)"
    by (simp add: rebuildFromPGlite_def e(1) i Let_def)
  have "\<exists>x. ?st = st\<lparr>ws_recoveryReceipts := x\<rparr>" by (rule persist_only_receipts) blast
  with run s(1) c show ?thesis by (intro that [of ?r ?st v2]) simp_all
qed

fun rebuild_runs ::
    "'v recovery_server \<Rightarrow> RecoveryConfig \<Rightarrow> ((nat \<Rightarrow> millis) \<times> string) list \<Rightarrow> FakeWorkQueueStore \<times> 'v \<Rightarrow>
     FakeWorkQueueStore \<times> 'v" where
  "rebuild_runs sv cfg [] s = s"
| "rebuild_runs sv cfg ((clk, rnd) # rounds) (st, v) =
     rebuild_runs sv cfg rounds (snd (rebuildFromPGlite sv cfg clk rnd st v))"

text \<open>
  C22: rebuilding is not idempotent.  Whatever the number of rebuilds and their times, with a server none of whose commands
  throws each rebuild appends once more every work item that is not terminal, has the configured stream as its
  \<open>stream_name\<close> (which is set when the enqueueing is marked, so an item just created is passed over) and is not delayed, that
  is, has no later time among the first hundred retries due within a day.  \<open>rebuildFromPGlite\<close> neither looks at what the
  stream holds nor marks what it appended, so the items it finds are the same each time.
\<close>

theorem rebuild_not_idempotent:
  assumes "counts_appends sv cfg c" "rebuild_runs sv cfg rounds (st, v) = (st', v')"
  shows "listNonTerminalWorkByStream st' (rc_streamName cfg) = listNonTerminalWorkByStream st (rc_streamName cfg) \<and>
    c v' w = c v w + (\<Sum>(clk, rnd) \<leftarrow> rounds. appended_now cfg st (clk 2) w)"
  using assms(2)
proof (induction rounds arbitrary: st v)
  case (Cons r rounds)
  obtain clk rnd where r: "r = (clk, rnd)" by (cases r)
  obtain q st1 v1 where run: "rebuildFromPGlite sv cfg clk rnd st v = (Inr q, st1, v1)"
    and c: "c v1 w = c v w + appended_now cfg st (clk 2) w" and x: "\<exists>x. st1 = st\<lparr>ws_recoveryReceipts := x\<rparr>"
    by (rule rebuild_exact [OF assms(1), where clk = clk and rnd = rnd and st = st and v = v], rule that) auto
  from Cons.prems r run have "rebuild_runs sv cfg rounds (st1, v1) = (st', v')" by simp
  from Cons.IH [OF this] have
    n: "listNonTerminalWorkByStream st' (rc_streamName cfg) = listNonTerminalWorkByStream st1 (rc_streamName cfg)"
    and m: "c v' w = c v1 w + (\<Sum>(clk, rnd) \<leftarrow> rounds. appended_now cfg st1 (clk 2) w)" by simp_all
  from x obtain y where st1: "st1 = st\<lparr>ws_recoveryReceipts := y\<rparr>" by blast
  have "appended_now cfg st1 t w = appended_now cfg st t w" for t by (simp add: appended_now_def st1)
  with n m c r show ?case by (simp add: st1)
qed simp

text \<open>A server that records the appended entries, with a stream and a group.\<close>

definition rebuild_server :: "(string \<times> string) list list recovery_server" where
  "rebuild_server =
     \<lparr>rs_valkey = stream_server [], rs_ping = (\<lambda>v. True), rs_xinfo_stream = (\<lambda>s v. None), rs_xinfo_groups = (\<lambda>s v. None),
      rs_xgroup_create = (\<lambda>s g i v. (Inl ''BUSYGROUP Consumer Group name already exists'', v)),
      rs_xpending = (\<lambda>args v. Some []), rs_xrange = (\<lambda>s a b v. Some []), rs_zscore = (\<lambda>s w v. Some None)\<rparr>"

definition appended_for :: "(string \<times> string) list list \<Rightarrow> string \<Rightarrow> nat" where
  "appended_for v w = length (List.filter (\<lambda>kvs. map_of kvs ''workId'' = Some w) v)"

lemma rebuild_server_counts: "counts_appends rebuild_server cfg appended_for"
proof -
  have "js_includes ''BUSYGROUP Consumer Group name already exists'' ''BUSYGROUP''" by code_simp
  then show ?thesis
    by (auto simp: counts_appends_def rebuild_server_def stream_server_def appended_for_def ensureGroup_def fun_eq_iff)
qed

definition queued_item :: FakeWorkQueueStore where
  "queued_item = (case markEnqueuePending 2 ''w'' DEFAULT_STREAM_NAME ''g'' one_item of Inr (i, st) \<Rightarrow> st | Inl e \<Rightarrow> one_item)"

theorem rebuild_not_idempotent_witness:
  "appended_for (snd (rebuild_runs rebuild_server DEFAULT_RECOVERY_CONFIG [(\<lambda>i. 5, ''a''), (\<lambda>i. 6, ''b'')] (queued_item, []))) ''w'' = 2"
proof -
  define rounds :: "((nat \<Rightarrow> millis) \<times> string) list" where "rounds = [(\<lambda>i. 5, ''a''), (\<lambda>i. 6, ''b'')]"
  obtain st' v' where run: "rebuild_runs rebuild_server DEFAULT_RECOVERY_CONFIG rounds (queued_item, []) = (st', v')" by fastforce
  have "appended_now DEFAULT_RECOVERY_CONFIG queued_item t ''w'' = 1" for t
    by (simp add: appended_now_def DEFAULT_RECOVERY_CONFIG_def queued_item_def one_item_def createWorkItem_def
        markEnqueuePending_def listNonTerminalWorkByStream_def listScheduledWork_def Let_def empty_work_store_def
        map_values_def map_get_def put_item_def terminalStates_def delayed_until_def scheduled_due_def)
  then have sum: "(\<Sum>(clk, rnd) \<leftarrow> rounds. appended_now DEFAULT_RECOVERY_CONFIG queued_item (clk 2) ''w'') = 2"
    unfolding rounds_def by simp
  have none: "appended_for [] ''w'' = 0" by (simp add: appended_for_def)
  have "appended_for v' ''w'' = appended_for [] ''w'' +
      (\<Sum>(clk, rnd) \<leftarrow> rounds. appended_now DEFAULT_RECOVERY_CONFIG queued_item (clk 2) ''w'')"
    using rebuild_not_idempotent [OF rebuild_server_counts run] by (rule conjunct2)
  then have "appended_for v' ''w'' = 2" unfolding sum none by simp
  then show ?thesis unfolding rounds_def [symmetric] run by (simp only: snd_conv)
qed

section \<open>Recovery without a rebuild\<close>

definition flat_replies :: "'v recovery_server \<Rightarrow> bool" where
  "flat_replies sv \<longleftrightarrow> (\<forall>s v gs g. rs_xinfo_groups sv s v = Some gs \<and> g \<in> set gs \<longrightarrow> (\<exists>xs. g = Flat_reply xs))"

lemma flat_no_group:
  assumes "flat_replies sv"
  shows "getGroupInfo sv s g v = None \<or> getGroupInfo sv s g v = Some None"
proof (cases "rs_xinfo_groups sv s v")
  case (Some gs)
  with assms have "reply_name r = None" if "r \<in> set gs" for r using that unfolding flat_replies_def by fastforce
  then have "List.find (\<lambda>r. reply_name r = Some g) gs = None" by (simp add: find_None_iff)
  with Some show ?thesis by (simp add: getGroupInfo_def listGroups_def)
qed (simp add: getGroupInfo_def listGroups_def)

lemma plan_without_groups:
  assumes "flat_replies sv"
  shows "planRecovery sv cfg st v \<in> {None, Some (empty_plan CR_unavailable), Some (empty_plan CR_rebuilding)}"
  using flat_no_group [OF assms, of "rc_streamName cfg" "rc_consumerGroup cfg" v] by (auto simp: planRecovery_def)

text \<open>
  \<open>recover\<close> recovers nothing.  When the client answers \<open>XINFO GROUPS\<close> with flat arrays, in which the group has no
  property \<open>name\<close>, the plan is empty whatever the store holds: the call throws, or it does no more than create the
  group, and then its receipt reports the success of a rebuild of 0 items and is the one thing the store gains.
\<close>

theorem recover_does_nothing:
  assumes "flat_replies sv" "recover sv cfg clk rnd st v = (res, st', v')"
  shows "(v' = v \<or> v' = snd (ensureGroup sv (rc_streamName cfg) (rc_consumerGroup cfg) v)) \<and>
    (\<exists>receipts. st' = st\<lparr>ws_recoveryReceipts := receipts\<rparr>) \<and>
    (case res of Inl e \<Rightarrow> st' = st
     | Inr r \<Rightarrow> rn_outcome r = RO_success \<and> rn_reason r = Some ''rebuilt 0 work items'' \<and>
         length (ws_recoveryReceipts st') = length (ws_recoveryReceipts st) + 1)"
proof -
  have keep: "\<exists>x. st = st\<lparr>ws_recoveryReceipts := x\<rparr>" by (rule exI [of _ "ws_recoveryReceipts st"]) simp
  have zero: "show_int 0 = ''0''" by code_simp
  have run: ?thesis if plan: "planRecovery sv cfg st v = Some (empty_plan state)" for state
    using assms(2) keep plan
    by (auto simp: recover_def executeRecovery_def empty_plan_def recovery_receipt_def Let_def
        persistRecoveryReceipt_def recordRecoveryReceipt_def zero split: prod.splits sum.splits)
  have throw: ?thesis if "planRecovery sv cfg st v = None"
    using assms(2) keep that by (auto simp: recover_def)
  from plan_without_groups [OF assms(1), of cfg st v] run throw show ?thesis by blast
qed

theorem recover_does_nothing_witness:
  "let (res, st', v') = recover (rebuild_server\<lparr>rs_xinfo_stream := \<lambda>s v. Some (Flat_reply [Reply_text ''length'', Reply_text ''0'']),
       rs_xinfo_groups := \<lambda>s v. Some [Flat_reply [Reply_text ''name'', Reply_text DEFAULT_CONSUMER_GROUP]]\<rparr>)
       DEFAULT_RECOVERY_CONFIG (\<lambda>i. 5) ''a'' queued_item []
   in v' = [] \<and> listNonTerminalWorkByStream queued_item DEFAULT_STREAM_NAME \<noteq> []"
proof -
  let ?sv = "rebuild_server\<lparr>rs_xinfo_stream := \<lambda>s v. Some (Flat_reply [Reply_text ''length'', Reply_text ''0'']),
       rs_xinfo_groups := \<lambda>s v. Some [Flat_reply [Reply_text ''name'', Reply_text DEFAULT_CONSUMER_GROUP]]\<rparr>"
  obtain res st' v' where run: "recover ?sv DEFAULT_RECOVERY_CONFIG (\<lambda>i. 5) ''a'' queued_item [] = (res, st', v')"
    by (metis prod_cases3)
  have "flat_replies ?sv" by (auto simp: flat_replies_def)
  from recover_does_nothing [OF this run]
  have "v' = [] \<or> v' = snd (ensureGroup ?sv (rc_streamName DEFAULT_RECOVERY_CONFIG) (rc_consumerGroup DEFAULT_RECOVERY_CONFIG) [])"
    by (rule conjunct1)
  then have "v' = []" by (simp add: ensureGroup_def rebuild_server_def)
  moreover have "listNonTerminalWorkByStream queued_item DEFAULT_STREAM_NAME \<noteq> []"
    by (simp add: queued_item_def one_item_def createWorkItem_def markEnqueuePending_def listNonTerminalWorkByStream_def
        Let_def empty_work_store_def map_values_def put_item_def map_get_def terminalStates_def)
  ultimately show ?thesis unfolding run Let_def by simp
qed

text \<open>When the groups are found, the plan covers all work but that which was running, whose entries wait to be claimed.\<close>

lemma plan_covers:
  assumes "w \<in> set works" "wi_status w \<notin> set terminalStates"
  shows "wi_id w \<in> set (rp_workToReEnqueue (plan_of works)) \<or> wi_id w \<in> set (rp_workToReschedule (plan_of works)) \<or>
    wi_status w = WI_running"
  using assms by (cases "wi_status w") (auto simp: plan_of_def Let_def terminalStates_def)

lemma running_not_planned:
  assumes "\<forall>w \<in> set works. wi_status w = WI_running"
  shows "rp_state (plan_of works) = CR_ready \<and> \<not> rp_needsRecovery (plan_of works)"
  using assms by (auto simp: plan_of_def Let_def filter_empty_conv)

section \<open>Which entries are reconciled\<close>

text \<open>The identifier of the stream entry is looked up in the store as if it were the identifier of the work.\<close>

lemma reconcile_entries_exact:
  assumes "\<And>s g ids v. fst (vk_xack (rs_valkey sv) s g ids v)"
  shows "\<exists>st'. reconcile_entries sv cfg clk rnd entries n st v =
    (Inr (n + length (List.filter (\<lambda>e. isWorkTerminal st (pn_id e)) entries)), st',
     foldl (\<lambda>v e. snd (vk_xack (rs_valkey sv) (rc_streamName cfg) (rc_consumerGroup cfg) [pn_id e] v)) v
       (List.filter (\<lambda>e. isWorkTerminal st (pn_id e)) entries))"
proof (induction entries arbitrary: n st v)
  case (Cons e entries)
  obtain v1 where v1: "vk_xack (rs_valkey sv) (rc_streamName cfg) (rc_consumerGroup cfg) [pn_id e] v = (True, v1)"
    using assms [of "rc_streamName cfg" "rc_consumerGroup cfg" "[pn_id e]" v]
    by (cases "vk_xack (rs_valkey sv) (rc_streamName cfg) (rc_consumerGroup cfg) [pn_id e] v") simp
  show ?case
  proof (cases "isWorkTerminal st (pn_id e)")
    case True
    with v1 Cons.IH [of "n + 1" "persistRecoveryReceipt cfg (clk (length entries) 2)
        (reconciled_receipt (clk (length entries)) (rnd (length entries)) e) st" v1]
    show ?thesis by (simp add: streams_ack_def Let_def)
  qed (use Cons.IH in simp)
qed simp

lemma no_entry_reconciled:
  assumes "pendingOf sv (rc_streamName cfg) (rc_consumerGroup cfg) v = Some pending"
    and "\<forall>e \<in> set pending. getWorkItem st (pn_id e) = None"
  shows "reconcilePendingEntries sv cfg clk rnd st v = (Inr 0, st, v)"
proof -
  have "reconcile_entries sv cfg clk rnd es n st v = (Inr n, st, v)"
    if "\<forall>e \<in> set es. getWorkItem st (pn_id e) = None" for es n
    using that by (induction es) (auto simp: isWorkTerminal_def getWorkStatus_def getWorkItem_def)
  with assms show ?thesis by (simp add: reconcilePendingEntries_def)
qed

section \<open>What a rebuilt entry says\<close>

text \<open>The time is written under another name than the queue reads, and a delayed item without the rest of its work.\<close>

lemma rebuilt_envelope:
  "parseEnvelope parse (List.map (\<lambda>(k, x). (k, Some x)) (rebuild_values now w)) =
     Some \<lparr>pe_schemaVersion = Some (wi_schema_version w), pe_workId = Some (wi_id w), pe_workKind = Some (wi_work_kind w),
       pe_enqueuedAt = None, pe_correlationId = Some (''rebuilt:'' @ wi_id w), pe_missionId = None, pe_sessionId = None,
       pe_routingTags = None, pe_attemptHint = None\<rparr>"
  by (simp add: parseEnvelope_def rebuild_values_def get_value_def map_get_def Let_def)

lemma rebuilt_delay_stuck:
  assumes "parse (wi_id w) = None" "pm_promoted p = []"
  shows "promote_entry sv parse cfg clk now (wi_id w) p = promotion_failed p"
  using promote_stuck [of parse p "wi_id w"] assms by (simp add: unpromotable_def)

lemma scheduled_due_in:
  assumes "map_get (scheduled_due ss) w = Some d"
  obtains s where "s \<in> set ss" "sw_work_id s = w" "sw_due_at s = d"
proof -
  have "\<exists>s \<in> set ss. sw_work_id s = w \<and> sw_due_at s = d"
    using assms by (induction ss rule: rev_induct) (auto simp: scheduled_due_def split: if_splits)
  then show ?thesis using that by blast
qed

text \<open>Work that is due in more than a day is appended at once.\<close>

lemma far_delay_lost:
  assumes "\<And>s. s \<in> set (map_values (ws_scheduledWork st)) \<Longrightarrow> sw_work_id s = wi_id w \<Longrightarrow> sw_due_at s > now + 86400000"
  shows "delayed_until now (scheduled_due (listScheduledWork st (now + 86400000) None)) w = None"
proof -
  have "map_get (scheduled_due (listScheduledWork st (now + 86400000) None)) (wi_id w) = None"
  proof (rule ccontr)
    assume "map_get (scheduled_due (listScheduledWork st (now + 86400000) None)) (wi_id w) \<noteq> None"
    then obtain d where "map_get (scheduled_due (listScheduledWork st (now + 86400000) None)) (wi_id w) = Some d" by auto
    then obtain s where s: "s \<in> set (listScheduledWork st (now + 86400000) None)" "sw_work_id s = wi_id w"
      by (rule scheduled_due_in)
    then have "s \<in> set (map_values (ws_scheduledWork st))" "sw_due_at s \<le> now + 86400000"
      by (auto simp: listScheduledWork_def dest!: in_set_takeD)
    with assms s(2) show False by fastforce
  qed
  then show ?thesis by (simp add: delayed_until_def)
qed

section \<open>The divergences found\<close>

lemma divergence_exact:
  fixes st :: FakeWorkQueueStore
  assumes "pendingOf sv (rc_streamName cfg) (rc_consumerGroup cfg) v = Some es"
    and "pel_work_ids sv (rc_streamName cfg) v (batches_of_50 (List.map pn_id es)) = Some ws"
  defines "open_ids \<equiv> wi_id ` set (listNonTerminalWorkByStream st (rc_streamName cfg))"
  shows "set (pd_lost_durability (detectDivergence sv cfg t st v)) = set ws - open_ids \<and>
    set (pd_orphaned_work (detectDivergence sv cfg t st v)) = open_ids - set ws \<and>
    distinct (pd_lost_durability (detectDivergence sv cfg t st v)) \<and>
    distinct (pd_orphaned_work (detectDivergence sv cfg t st v))"
  using assms(1,2) by (auto simp: detectDivergence_def Let_def open_ids_def)

lemma concat_batches: "concat (batches_of_50 xs) = xs"
proof (induction xs rule: batches_of_50.induct)
  case (1 xs)
  then show ?case by (cases "xs = []") (simp_all add: batches_of_50.simps [of xs] batches_of_50.simps [of "[]"])
qed

section \<open>A cold start\<close>

text \<open>
  With flat replies a stream that exists never counts as empty, so nothing is rebuilt; and a rebuild that throws leaves the
  state \<open>coordination_rebuilding\<close>.
\<close>

lemma cold_start_skips:
  assumes "rs_xinfo_stream sv (rc_streamName cfg) (re_server r) = Some (Flat_reply (x # xs))"
  shows "coldStartRebuildIfNeeded sv cfg clk rnd r = (Inr None, r)"
  using assms by (simp add: coldStartRebuildIfNeeded_def getStreamLength_def)

lemma cold_start_stuck:
  assumes "coldStartRebuildIfNeeded sv cfg clk rnd r = (Inl e, r')"
  shows "getRecoveryState r' = CR_rebuilding"
  using assms
  by (auto simp: coldStartRebuildIfNeeded_def setRecoveryState_def getRecoveryState_def Let_def
      split: if_splits prod.splits sum.splits)

end
