(* ===== verification/Work_Divergence.thy ===== *)
theory Work_Divergence imports Work_Recovery begin

text \<open>
  The report of divergences between the store and the server (\<open>coordination/divergence-report.ts\<close>).  The clock is read once
  for the report; the calls of the store in memory do not fail.
\<close>

section \<open>Sections of the report\<close>

record MissingStreamEntry =
  ms_workId :: string
  ms_status :: WorkItemStatus
  ms_enqueuedAt :: "int option"

record OrphanStreamEntry =
  oe_entryId :: string
  oe_workId :: string
  oe_hasPGliteRecord :: bool
  oe_pgliteStatus :: "WorkItemStatus option"

record MissingScheduledWork =
  mw_workId :: string
  mw_retryCount :: int
  mw_dueAt :: int

record PendingWithoutAttempt =
  pw_entryId :: string
  pw_workId :: string
  pw_idleMs :: int
  pw_deliveryCount :: int

record TerminalWorkInValkey =
  tw_workId :: string
  tw_pgliteStatus :: WorkItemStatus
  tw_streamEntryId :: string

record RecoveryReceiptSummary =
  rs_receiptId :: string
  rs_workId :: string
  rs_action :: RecoveryAction
  rs_recoveredAt :: int
  rs_outcome :: string

record DivergenceSummary =
  ds_totalDivergences :: nat
  ds_missingStreamCount :: nat
  ds_orphanStreamCount :: nat
  ds_missingScheduledCount :: nat
  ds_pendingWithoutAttemptCount :: nat
  ds_terminalWorkInValkeyCount :: nat
  ds_healthy :: bool

record DivergenceReport =
  dr_generatedAt :: int
  dr_streamName :: string
  dr_consumerGroup :: string
  dr_missingStreamEntries :: "MissingStreamEntry list"
  dr_orphanStreamEntries :: "OrphanStreamEntry list"
  dr_missingScheduledWork :: "MissingScheduledWork list"
  dr_pendingWithoutAttempts :: "PendingWithoutAttempt list"
  dr_terminalWorkInValkey :: "TerminalWorkInValkey list"
  dr_recoveryReceipts :: "RecoveryReceiptSummary list"
  dr_summary :: DivergenceSummary

fun TERMINAL_STATUSES :: "WorkItemStatus \<Rightarrow> bool" where
  "TERMINAL_STATUSES WI_completed = True"
| "TERMINAL_STATUSES WI_failed_terminal = True"
| "TERMINAL_STATUSES WI_cancelled = True"
| "TERMINAL_STATUSES WI_superseded = True"
| "TERMINAL_STATUSES WI_dead_lettered = True"
| "TERMINAL_STATUSES _ = False"

section \<open>What both sides hold\<close>

definition entry_work :: "StreamEntry \<Rightarrow> string option" where
  "entry_work e = (case get_value (se_values e) ''workId'' of Some w \<Rightarrow> if w \<noteq> [] then Some w else None | None \<Rightarrow> None)"

definition stream_work_ids :: "StreamEntry list \<Rightarrow> (string \<times> string) list" where
  "stream_work_ids entries =
     foldl (\<lambda>m e. case entry_work e of Some w \<Rightarrow> map_set w (se_id e) m | None \<Rightarrow> m) [] entries"

definition entry_work_ids :: "StreamEntry list \<Rightarrow> (string \<times> string) list" where
  "entry_work_ids entries =
     foldl (\<lambda>m e. case entry_work e of Some w \<Rightarrow> map_set (se_id e) w m | None \<Rightarrow> m) [] entries"

definition pglite_works :: "FakeWorkQueueStore \<Rightarrow> (string \<times> string) list \<Rightarrow> (string \<times> WorkItem) list" where
  "pglite_works st streamWorkIds = getWorkItems st (List.map fst streamWorkIds) []"

definition missing_entries :: "(string \<times> string) list \<Rightarrow> WorkItem list \<Rightarrow> MissingStreamEntry list" where
  "missing_entries streamWorkIds works =
     List.map (\<lambda>w. \<lparr>ms_workId = wi_id w, ms_status = wi_status w, ms_enqueuedAt = wi_enqueued_at w\<rparr>)
       (List.filter (\<lambda>w. wi_stream_entry_id w = None \<or> wi_stream_entry_id w = Some [] \<or> map_get streamWorkIds (wi_id w) = None)
          works)"

definition orphan_entries :: "(string \<times> WorkItem) list \<Rightarrow> (string \<times> string) list \<Rightarrow> OrphanStreamEntry list" where
  "orphan_entries pgliteWork streamWorkIds =
     List.map_filter (\<lambda>(workId, entryId).
       let item = map_get pgliteWork workId
       in if item = None \<or> (\<exists>w \<in> set_option item. TERMINAL_STATUSES (wi_status w))
          then Some \<lparr>oe_entryId = entryId, oe_workId = workId, oe_hasPGliteRecord = (item \<noteq> None),
            oe_pgliteStatus = map_option wi_status item\<rparr> else None) streamWorkIds"

definition missing_scheduled :: "'v recovery_server \<Rightarrow> string \<Rightarrow> 'v \<Rightarrow> StoredSchedule list \<Rightarrow> MissingScheduledWork list" where
  "missing_scheduled sv dueSetName v scheduled =
     List.map (\<lambda>s. \<lparr>mw_workId = sw_work_id s, mw_retryCount = sw_retry_count s, mw_dueAt = sw_due_at s\<rparr>)
       (List.filter (\<lambda>s. rs_zscore sv dueSetName (sw_work_id s) v = Some None) scheduled)"

definition pending_unattempted ::
    "FakeWorkQueueStore \<Rightarrow> (string \<times> string) list \<Rightarrow> PendingEntry list \<Rightarrow> PendingWithoutAttempt list" where
  "pending_unattempted st entryIdToWorkId pending =
     List.map_filter (\<lambda>p. case map_get entryIdToWorkId (pn_id p) of
         None \<Rightarrow> None
       | Some workId \<Rightarrow>
           if getLatestAttempt st workId = None
           then Some \<lparr>pw_entryId = pn_id p, pw_workId = workId, pw_idleMs = pn_idleMs p, pw_deliveryCount = pn_deliveryCount p\<rparr>
           else None) pending"

definition terminal_in_valkey :: "(string \<times> WorkItem) list \<Rightarrow> (string \<times> string) list \<Rightarrow> TerminalWorkInValkey list" where
  "terminal_in_valkey pgliteWork streamWorkIds =
     List.map_filter (\<lambda>(workId, entryId). case map_get pgliteWork workId of
         None \<Rightarrow> None
       | Some w \<Rightarrow>
           if TERMINAL_STATUSES (wi_status w)
           then Some \<lparr>tw_workId = workId, tw_pgliteStatus = wi_status w, tw_streamEntryId = entryId\<rparr> else None) streamWorkIds"

text \<open>The receipts of all work that is open or in the stream, the latest first; the sort is stable.\<close>

definition receipt_summaries :: "FakeWorkQueueStore \<Rightarrow> WorkItem list \<Rightarrow> (string \<times> string) list \<Rightarrow> RecoveryReceiptSummary list" where
  "receipt_summaries st works streamWorkIds =
     sort_key (\<lambda>r. - rs_recoveredAt r)
       (List.map (\<lambda>r. \<lparr>rs_receiptId = rr_id r, rs_workId = rr_work_id r, rs_action = rr_action r,
            rs_recoveredAt = rr_recovered_at r, rs_outcome = rr_outcome r\<rparr>)
         (concat (List.map (getRecoveryReceipts st) (js_unique (List.map wi_id works @ List.map fst streamWorkIds)))))"

definition generateDivergenceReport ::
    "'v recovery_server \<Rightarrow> millis \<Rightarrow> string \<Rightarrow> string \<Rightarrow> string \<Rightarrow> FakeWorkQueueStore \<Rightarrow> 'v \<Rightarrow> DivergenceReport" where
  "generateDivergenceReport sv generatedAt streamName consumerGroup dueSetName st v =
     (let streamEntries = nullish (rangeOf sv streamName ''0'' ''+'' v) [];
          streamWorkIds = stream_work_ids streamEntries; entryIdToWorkId = entry_work_ids streamEntries;
          nonTerminalWork = listNonTerminalWorkByStream st streamName; pgliteWork = pglite_works st streamWorkIds;
          missing = missing_entries streamWorkIds nonTerminalWork; orphans = orphan_entries pgliteWork streamWorkIds;
          unscheduled = missing_scheduled sv dueSetName v (listScheduledWork st (generatedAt + 86400000) None);
          unattempted = pending_unattempted st entryIdToWorkId (nullish (pendingOf sv streamName consumerGroup v) []);
          terminal = terminal_in_valkey pgliteWork streamWorkIds;
          total_n = length missing + length orphans + length unscheduled + length unattempted + length terminal
      in \<lparr>dr_generatedAt = generatedAt, dr_streamName = streamName, dr_consumerGroup = consumerGroup,
          dr_missingStreamEntries = missing, dr_orphanStreamEntries = orphans, dr_missingScheduledWork = unscheduled,
          dr_pendingWithoutAttempts = unattempted, dr_terminalWorkInValkey = terminal,
          dr_recoveryReceipts = receipt_summaries st nonTerminalWork streamWorkIds,
          dr_summary = \<lparr>ds_totalDivergences = total_n, ds_missingStreamCount = length missing,
            ds_orphanStreamCount = length orphans, ds_missingScheduledCount = length unscheduled,
            ds_pendingWithoutAttemptCount = length unattempted, ds_terminalWorkInValkeyCount = length terminal,
            ds_healthy = (total_n = 0)\<rparr>\<rparr>)"

section \<open>When the report is healthy\<close>

lemma TERMINAL_STATUSES_iff: "TERMINAL_STATUSES s \<longleftrightarrow> s \<in> set terminalStates"
  by (cases s) (simp_all add: terminalStates_def)

lemma stream_work_ids_snoc:
  "stream_work_ids (es @ [e]) =
     (case entry_work e of Some w \<Rightarrow> map_set w (se_id e) (stream_work_ids es) | None \<Rightarrow> stream_work_ids es)"
  "entry_work_ids (es @ [e]) =
     (case entry_work e of Some w \<Rightarrow> map_set (se_id e) w (entry_work_ids es) | None \<Rightarrow> entry_work_ids es)"
  unfolding stream_work_ids_def entry_work_ids_def by simp_all

lemma stream_work_ids_Nil: "stream_work_ids [] = []" "entry_work_ids [] = []"
  by (simp_all add: stream_work_ids_def entry_work_ids_def)

lemma stream_works: "fst ` set (stream_work_ids es) = {w. \<exists>e \<in> set es. entry_work e = Some w}"
  by (induction es rule: rev_induct)
    (auto simp: stream_work_ids_snoc stream_work_ids_Nil keys_map_set split: option.splits)

lemma stream_work_ids_inv: "map_inv (stream_work_ids es)"
  by (induction es rule: rev_induct) (auto simp: stream_work_ids_snoc stream_work_ids_Nil split: option.splits)


lemma work_of_entry:
  "map_get (entry_work_ids es) i = Some w \<longleftrightarrow>
     (\<exists>xs e ys. es = xs @ e # ys \<and> se_id e = i \<and> entry_work e = Some w \<and>
        (\<forall>y \<in> set ys. se_id y = i \<longrightarrow> entry_work y = None))"
proof (induction es rule: rev_induct)
  case (snoc x es)
  have "(\<exists>xs e ys. es @ [x] = xs @ e # ys \<and> se_id e = i \<and> entry_work e = Some w \<and>
        (\<forall>y \<in> set ys. se_id y = i \<longrightarrow> entry_work y = None)) \<longleftrightarrow>
     (if se_id x = i \<and> entry_work x \<noteq> None then entry_work x = Some w
      else \<exists>xs e ys. es = xs @ e # ys \<and> se_id e = i \<and> entry_work e = Some w \<and>
        (\<forall>y \<in> set ys. se_id y = i \<longrightarrow> entry_work y = None))" (is "?l \<longleftrightarrow> ?r")
  proof
    assume ?l
    then obtain xs e ys where e: "es @ [x] = xs @ e # ys" "se_id e = i" "entry_work e = Some w"
      "\<forall>y \<in> set ys. se_id y = i \<longrightarrow> entry_work y = None" by blast
    show ?r
    proof (cases ys rule: rev_cases)
      case Nil
      with e show ?thesis by auto
    next
      case (snoc zs z)
      with e(1) have z: "z = x" "es = xs @ e # zs" by auto
      with snoc e(4) have "\<not> (se_id x = i \<and> entry_work x \<noteq> None)" by auto
      moreover have "\<forall>y \<in> set zs. se_id y = i \<longrightarrow> entry_work y = None" using e(4) snoc by simp
      ultimately show ?thesis using z(2) e(2,3) by auto
    qed
  next
    assume r: ?r
    show ?l
    proof (cases "se_id x = i \<and> entry_work x \<noteq> None")
      case True
      with r show ?thesis by (intro exI [of _ es] exI [of _ x] exI [of _ "[]"]) simp
    next
      case False
      with r obtain xs e ys where e: "es = xs @ e # ys" "se_id e = i" "entry_work e = Some w"
        "\<forall>y \<in> set ys. se_id y = i \<longrightarrow> entry_work y = None" by auto
      with False show ?thesis by (intro exI [of _ xs] exI [of _ e] exI [of _ "ys @ [x]"]) auto
    qed
  qed
  with snoc.IH show ?case by (auto simp: stream_work_ids_snoc split: option.splits)
qed (simp add: stream_work_ids_Nil)

lemma getWorkItems_get:
  "map_get (getWorkItems st ws m) w =
     (if w \<in> set ws \<and> getWorkItem st w \<noteq> None then getWorkItem st w else map_get m w)"
  by (induction ws arbitrary: m) (auto simp: getWorkItem_def split: option.splits)

lemma pglite_works_get:
  assumes "(w, e) \<in> set streamWorkIds"
  shows "map_get (pglite_works st streamWorkIds) w = getWorkItem st w"
proof -
  from assms have "w \<in> fst ` set streamWorkIds" by force
  then show ?thesis by (simp add: pglite_works_def getWorkItems_get)
qed

lemma empty_map_filter: "List.map_filter f xs = [] \<longleftrightarrow> (\<forall>x \<in> set xs. f x = None)"
  by (induction xs) (auto simp: List.map_filter_simps split: option.splits)




lemma finished_never_healthy:
  assumes "rangeOf sv s ''0'' ''+'' v = Some es" "e \<in> set es" "entry_work e = Some w" "isWorkTerminal st w"
  shows "\<not> ds_healthy (dr_summary (generateDivergenceReport sv t s g d st v))"
proof -
  let ?ids = "stream_work_ids es"
  from assms(2,3) have "w \<in> fst ` set ?ids" by (auto simp: stream_works)
  then obtain i where i: "(w, i) \<in> set ?ids" by force
  with assms(4) have "terminal_in_valkey (pglite_works st ?ids) ?ids \<noteq> []"
    by (force simp: terminal_in_valkey_def empty_map_filter pglite_works_get isWorkTerminal_def getWorkStatus_def getWorkItem_def
        TERMINAL_STATUSES_iff split: option.splits)
  with assms(1) show ?thesis by (simp add: generateDivergenceReport_def Let_def)
qed

end
