(* ===== verification/Tool_Scheduler.thy ===== *)
theory Tool_Scheduler imports Js_Json begin

text \<open>
  The scheduler of tool jobs (\<open>coordination/tool-scheduler.ts\<close>, \<open>coordination/local-tool-scheduler.ts\<close>) and the
  classes of tools (\<open>coordination/tool-classification.ts\<close>).  A job is shared by the table of jobs and the queue of
  its class, so the jobs are kept in a store of their own and both hold identifiers; a promise that a caller waits
  for is a number, and its result is recorded when it is resolved.
\<close>

section \<open>Jobs\<close>

datatype ResourceClass = Read_light | Search_medium | Cpu_heavy | Io_heavy | Exclusive_repo | Network

fun ResourceClass_str :: "ResourceClass \<Rightarrow> string" where
  "ResourceClass_str Read_light = ''read_light''"
| "ResourceClass_str Search_medium = ''search_medium''"
| "ResourceClass_str Cpu_heavy = ''cpu_heavy''"
| "ResourceClass_str Io_heavy = ''io_heavy''"
| "ResourceClass_str Exclusive_repo = ''exclusive_repo''"
| "ResourceClass_str Network = ''network''"

fun RESOURCE_CLASS_CONCURRENCY :: "ResourceClass \<Rightarrow> nat" where
  "RESOURCE_CLASS_CONCURRENCY Read_light = 32"
| "RESOURCE_CLASS_CONCURRENCY Search_medium = 4"
| "RESOURCE_CLASS_CONCURRENCY Cpu_heavy = 1"
| "RESOURCE_CLASS_CONCURRENCY Io_heavy = 1"
| "RESOURCE_CLASS_CONCURRENCY Exclusive_repo = 1"
| "RESOURCE_CLASS_CONCURRENCY Network = 8"

datatype JobPriority = Low_priority | Normal_priority | High_priority | Critical_priority

record ToolJobInput =
  ti_agentId :: string
  ti_missionId :: "string option"
  ti_projectId :: string
  ti_repoRoot :: string
  ti_toolName :: string
  ti_args :: json
  ti_resourceClass :: ResourceClass
  ti_priority :: JobPriority
  ti_requiresClaim :: "string list option"
  ti_timeoutMs :: int
  ti_idempotencyKey :: "string option"

record ToolJob =
  tj_id :: string
  tj_input :: ToolJobInput
  tj_submittedAt :: int
  tj_attempt :: int

datatype ToolJobResult =
    Job_completed string json int
  | Job_failed string string string bool
  | Job_cancelled string string
  | Job_timed_out string int

datatype ToolJobStatus =
  JS_pending | JS_admitted | JS_running | JS_completed | JS_failed | JS_cancelled | JS_timed_out

fun result_status :: "ToolJobResult \<Rightarrow> ToolJobStatus" where
  "result_status (Job_completed j r d) = JS_completed"
| "result_status (Job_failed j k m r) = JS_failed"
| "result_status (Job_cancelled j r) = JS_cancelled"
| "result_status (Job_timed_out j t) = JS_timed_out"

record ToolJobState =
  ts_job :: ToolJob
  ts_status :: ToolJobStatus
  ts_submittedAt :: int
  ts_admittedAt :: "int option"
  ts_startedAt :: "int option"
  ts_completedAt :: "int option"
  ts_workerId :: "string option"
  ts_result :: "ToolJobResult option"

section \<open>Classes of tools\<close>

text \<open>Tool names that are properties of every JavaScript object are left aside.\<close>

definition TOOL_CLASSIFICATION :: "(string \<times> ResourceClass) list" where
  "TOOL_CLASSIFICATION =
     [(''read'', Read_light), (''read_file'', Read_light), (''search'', Read_light), (''find'', Read_light),
      (''lsp'', Read_light),
      (''grep'', Search_medium), (''ripgrep'', Search_medium), (''ast_grep'', Search_medium),
      (''ast_edit'', Search_medium), (''semantic_search'', Search_medium),
      (''typecheck'', Cpu_heavy), (''test'', Cpu_heavy), (''build'', Cpu_heavy), (''lint'', Cpu_heavy),
      (''format'', Cpu_heavy), (''check'', Cpu_heavy),
      (''projection_rebuild'', Io_heavy), (''code_index_build'', Io_heavy), (''artifact_ingest'', Io_heavy),
      (''debug_export'', Io_heavy),
      (''git_checkpoint'', Exclusive_repo), (''migration_execute'', Exclusive_repo), (''npm_install'', Exclusive_repo),
      (''package_install'', Exclusive_repo), (''generated_rewrite'', Exclusive_repo),
      (''provider_call'', Network), (''github_api'', Network), (''web_fetch'', Network), (''web_search'', Network)]"

definition DEFAULT_RESOURCE_CLASS :: ResourceClass where
  "DEFAULT_RESOURCE_CLASS = Search_medium"

definition classifyTool :: "string \<Rightarrow> ResourceClass" where
  "classifyTool toolName = nullish (map_of TOOL_CLASSIFICATION toolName) DEFAULT_RESOURCE_CLASS"

definition isMutator :: "string \<Rightarrow> bool" where
  "isMutator toolName \<longleftrightarrow> toolName \<in> set [''write'', ''edit'', ''bash'', ''git_checkpoint'', ''npm_install'',
     ''migration_execute'', ''generated_rewrite'', ''package_install'']"

section \<open>The scheduler in one process\<close>

record local_scheduler =
  ls_states :: "(string \<times> ToolJobState) list"
  ls_jobs :: "string list"
  ls_waiters :: "(string \<times> nat list) list"
  ls_queues :: "(string \<times> string list) list"
  ls_active :: "(string \<times> nat) list"
  ls_nextId :: nat
  ls_promises :: nat
  ls_settled :: "(nat \<times> ToolJobResult) list"

definition createLocalToolScheduler :: local_scheduler where
  "createLocalToolScheduler =
     \<lparr>ls_states = [], ls_jobs = [], ls_waiters = [], ls_queues = [], ls_active = [], ls_nextId = 1, ls_promises = 0, ls_settled = []\<rparr>"

definition queueKey :: "string \<Rightarrow> ResourceClass \<Rightarrow> string" where
  "queueKey projectId rc = projectId @ '':'' @ ResourceClass_str rc"

definition genId :: "millis \<Rightarrow> nat \<Rightarrow> string" where
  "genId now n = ''job_'' @ show_int now @ ''_'' @ show_nat n"

definition queue_of :: "local_scheduler \<Rightarrow> string \<Rightarrow> string list" where
  "queue_of s key = nullish (map_get (ls_queues s) key) []"

definition active_of :: "local_scheduler \<Rightarrow> string \<Rightarrow> nat" where
  "active_of s key = nullish (map_get (ls_active s) key) 0"

definition waiters_of :: "local_scheduler \<Rightarrow> string \<Rightarrow> nat list" where
  "waiters_of s jid = nullish (map_get (ls_waiters s) jid) []"

text \<open>An entry of the table of jobs: the shared object, if the identifier is in the table.\<close>

definition table_job :: "local_scheduler \<Rightarrow> string \<Rightarrow> ToolJobState option" where
  "table_job s jid = (if jid \<in> set (ls_jobs s) then map_get (ls_states s) jid else None)"

definition set_state :: "string \<Rightarrow> (ToolJobState \<Rightarrow> ToolJobState) \<Rightarrow> local_scheduler \<Rightarrow> local_scheduler" where
  "set_state jid f s =
     (case map_get (ls_states s) jid of None \<Rightarrow> s | Some st \<Rightarrow> s\<lparr>ls_states := map_set jid (f st) (ls_states s)\<rparr>)"

definition executeJob :: "millis \<Rightarrow> string \<Rightarrow> local_scheduler \<Rightarrow> local_scheduler" where
  "executeJob now jid s =
     (if jid \<notin> set (ls_jobs s) then s
      else set_state jid (\<lambda>st. st\<lparr>ts_status := JS_running, ts_startedAt := Some now\<rparr>) s)"

definition tryAdmit :: "millis \<Rightarrow> string \<Rightarrow> ResourceClass \<Rightarrow> local_scheduler \<Rightarrow> local_scheduler" where
  "tryAdmit now projectId rc s =
     (let key = queueKey projectId rc; current = active_of s key; limit = RESOURCE_CLASS_CONCURRENCY rc
      in if current \<ge> limit then s
         else case queue_of s key of
           [] \<Rightarrow> s
         | jid # queue \<Rightarrow>
             executeJob now jid (s\<lparr>ls_queues := map_set key queue (ls_queues s),
               ls_active := map_set key (current + 1) (ls_active s)\<rparr>))"

definition job_key :: "ToolJobState \<Rightarrow> string" where
  "job_key st = queueKey (ti_projectId (tj_input (ts_job st))) (ti_resourceClass (tj_input (ts_job st)))"

definition completeJob :: "millis \<Rightarrow> string \<Rightarrow> ToolJobResult \<Rightarrow> local_scheduler \<Rightarrow> local_scheduler" where
  "completeJob now jid result s =
     (case table_job s jid of
        None \<Rightarrow> s
      | Some st \<Rightarrow>
          let s = set_state jid (\<lambda>st. st\<lparr>ts_status := result_status result, ts_completedAt := Some now,
                     ts_result := Some result\<rparr>) s;
              s = s\<lparr>ls_settled := ls_settled s @ List.map (\<lambda>p. (p, result)) (waiters_of s jid),
                     ls_waiters := map_set jid [] (ls_waiters s),
                     ls_active := map_set (job_key st) (active_of s (job_key st) - 1) (ls_active s)\<rparr>
          in tryAdmit now (ti_projectId (tj_input (ts_job st))) (ti_resourceClass (tj_input (ts_job st))) s)"

definition submit :: "millis \<Rightarrow> ToolJobInput \<Rightarrow> local_scheduler \<Rightarrow> string \<times> local_scheduler" where
  "submit now input s =
     (let jid = genId now (ls_nextId s);
          job = \<lparr>tj_id = jid, tj_input = input, tj_submittedAt = now, tj_attempt = 1\<rparr>;
          st = \<lparr>ts_job = job, ts_status = JS_pending, ts_submittedAt = now, ts_admittedAt = None, ts_startedAt = None,
                ts_completedAt = None, ts_workerId = None, ts_result = None\<rparr>;
          key = queueKey (ti_projectId input) (ti_resourceClass input);
          s = s\<lparr>ls_nextId := ls_nextId s + 1, ls_states := map_set jid st (ls_states s),
                 ls_jobs := (if jid \<in> set (ls_jobs s) then ls_jobs s else ls_jobs s @ [jid]),
                 ls_waiters := map_set jid [] (ls_waiters s),
                 ls_queues := map_set key (queue_of s key @ [jid]) (ls_queues s)\<rparr>;
          s = tryAdmit now (ti_projectId input) (ti_resourceClass input) s
      in (jid, set_state jid (\<lambda>st. if ts_status st = JS_pending
                then st\<lparr>ts_status := JS_admitted, ts_admittedAt := Some now\<rparr> else st) s))"

text \<open>\<open>awaitResult\<close> answers at once (\<open>Inl\<close>) or gives a promise, which may be resolved by a timer as well.\<close>

definition awaitResult :: "string \<Rightarrow> local_scheduler \<Rightarrow> (ToolJobResult + nat) \<times> local_scheduler" where
  "awaitResult jid s =
     (case table_job s jid of
        None \<Rightarrow> (Inl (Job_failed jid ''NOT_FOUND'' (''Job '' @ jid @ '' not found'') False), s)
      | Some st \<Rightarrow>
          (case ts_result st of
             Some result \<Rightarrow> (Inl result, s)
           | None \<Rightarrow> (Inr (ls_promises s), s\<lparr>ls_promises := ls_promises s + 1,
               ls_waiters := map_set jid (waiters_of s jid @ [ls_promises s]) (ls_waiters s)\<rparr>)))"

definition await_timer :: "string \<Rightarrow> nat \<Rightarrow> int \<Rightarrow> local_scheduler \<Rightarrow> local_scheduler" where
  "await_timer jid promise timeoutMs s =
     (if promise \<in> set (waiters_of s jid)
      then s\<lparr>ls_waiters := map_set jid (remove1 promise (waiters_of s jid)) (ls_waiters s),
             ls_settled := ls_settled s @ [(promise, Job_timed_out jid timeoutMs)]\<rparr>
      else s)"

definition cancel_job :: "millis \<Rightarrow> string \<Rightarrow> string \<Rightarrow> local_scheduler \<Rightarrow> local_scheduler" where
  "cancel_job now jid reason s = completeJob now jid (Job_cancelled jid reason) s"

definition getState :: "local_scheduler \<Rightarrow> string \<Rightarrow> ToolJobState option" where
  "getState s jid = table_job s jid"

definition listJobs :: "local_scheduler \<Rightarrow> string option \<Rightarrow> ToolJobState list" where
  "listJobs s projectId =
     List.filter (\<lambda>st. case projectId of None \<Rightarrow> True | Some p \<Rightarrow> p = [] \<or> ti_projectId (tj_input (ts_job st)) = p)
       (List.map_filter (table_job s) (ls_jobs s))"

datatype BackpressureDecision = BP_accept | BP_slow_down | BP_reject_low_priority

record BackpressureState =
  bp_resourceClass :: ResourceClass
  bp_queued :: nat
  bp_active :: nat
  bp_limit :: nat
  bp_policy :: BackpressureDecision

definition RESOURCE_CLASSES :: "ResourceClass list" where
  "RESOURCE_CLASSES = [Read_light, Search_medium, Cpu_heavy, Io_heavy, Exclusive_repo, Network]"

definition backpressure :: "local_scheduler \<Rightarrow> string \<Rightarrow> BackpressureState list" where
  "backpressure s projectId =
     List.map (\<lambda>rc.
       let key = queueKey projectId rc; queued = length (queue_of s key); limit = RESOURCE_CLASS_CONCURRENCY rc
       in \<lparr>bp_resourceClass = rc, bp_queued = queued, bp_active = active_of s key, bp_limit = limit,
           bp_policy = (if queued > limit * 4 then BP_reject_low_priority
                        else if queued > limit * 2 then BP_slow_down else BP_accept)\<rparr>) RESOURCE_CLASSES"

definition canAdmit :: "local_scheduler \<Rightarrow> string \<Rightarrow> ResourceClass \<Rightarrow> bool" where
  "canAdmit s projectId rc \<longleftrightarrow> active_of s (queueKey projectId rc) < RESOURCE_CLASS_CONCURRENCY rc"

definition reapable :: "millis \<Rightarrow> local_scheduler \<Rightarrow> string \<Rightarrow> bool" where
  "reapable cutoff s jid \<longleftrightarrow>
     (case map_get (ls_states s) jid of
        Some st \<Rightarrow> (case ts_completedAt st of Some d \<Rightarrow> d \<noteq> 0 \<and> d \<le> cutoff | None \<Rightarrow> False)
      | None \<Rightarrow> False)"

definition reap :: "millis \<Rightarrow> int \<Rightarrow> local_scheduler \<Rightarrow> nat \<times> local_scheduler" where
  "reap now ageMs s =
     (let gone = List.filter (reapable (now - ageMs) s) (ls_jobs s)
      in (length gone, s\<lparr>ls_jobs := List.filter (\<lambda>jid. \<not> reapable (now - ageMs) s jid) (ls_jobs s)\<rparr>))"

definition dispose :: "local_scheduler \<Rightarrow> local_scheduler" where
  "dispose s = s\<lparr>ls_jobs := [], ls_queues := [], ls_active := []\<rparr>"

section \<open>Histories\<close>

datatype sched_op =
    Submit ToolJobInput
  | Await string
  | Await_timer string nat int
  | Cancel string string
  | Reap int

fun apply_sched_op :: "millis \<Rightarrow> sched_op \<Rightarrow> local_scheduler \<Rightarrow> local_scheduler" where
  "apply_sched_op now (Submit i) s = snd (submit now i s)"
| "apply_sched_op now (Await jid) s = snd (awaitResult jid s)"
| "apply_sched_op now (Await_timer jid p t) s = await_timer jid p t s"
| "apply_sched_op now (Cancel jid r) s = cancel_job now jid r s"
| "apply_sched_op now (Reap age) s = snd (reap now age s)"

fun sched_run :: "(millis \<times> sched_op) list \<Rightarrow> local_scheduler \<Rightarrow> local_scheduler" where
  "sched_run [] s = s"
| "sched_run ((now, op) # ops) s = sched_run ops (apply_sched_op now op s)"

definition running_job :: "string \<Rightarrow> string \<times> ToolJobState \<Rightarrow> bool" where
  "running_job key e \<longleftrightarrow> ts_status (snd e) = JS_running \<and> job_key (snd e) = key"

definition running :: "local_scheduler \<Rightarrow> string \<Rightarrow> nat" where
  "running s key = length (List.filter (running_job key) (ls_states s))"

text \<open>The calls cancel only jobs that are running.\<close>

definition cancels_running :: "sched_op \<Rightarrow> local_scheduler \<Rightarrow> bool" where
  "cancels_running op s \<longleftrightarrow>
     (\<forall>jid r. op = Cancel jid r \<longrightarrow> (\<exists>st. table_job s jid = Some st \<and> ts_status st = JS_running))"

fun careful :: "(millis \<times> sched_op) list \<Rightarrow> local_scheduler \<Rightarrow> bool" where
  "careful [] s \<longleftrightarrow> True"
| "careful ((now, op) # ops) s \<longleftrightarrow> cancels_running op s \<and> careful ops (apply_sched_op now op s)"

section \<open>The concurrency limit\<close>

definition known_ids :: "local_scheduler \<Rightarrow> bool" where
  "known_ids s \<longleftrightarrow> map_inv (ls_states s) \<and>
     (\<forall>jid st. map_get (ls_states s) jid = Some st \<longrightarrow> (\<exists>t n. jid = genId t n \<and> n < ls_nextId s))"

text \<open>The jobs in the queue of a class are waiting there, each once.\<close>

definition queues_ok :: "local_scheduler \<Rightarrow> bool" where
  "queues_ok s \<longleftrightarrow> (\<forall>key. distinct (queue_of s key) \<and>
     (\<forall>jid \<in> set (queue_of s key). \<exists>st. table_job s jid = Some st \<and> job_key st = key \<and>
        ts_status st \<in> {JS_pending, JS_admitted} \<and> ts_completedAt st = None))"

definition counts_ok :: "local_scheduler \<Rightarrow> bool" where
  "counts_ok s \<longleftrightarrow> (\<forall>key. active_of s key = running s key) \<and>
     (\<forall>p rc. active_of s (queueKey p rc) \<le> RESOURCE_CLASS_CONCURRENCY rc)"

definition tight :: "local_scheduler \<Rightarrow> string \<Rightarrow> ResourceClass \<Rightarrow> bool" where
  "tight s p rc \<longleftrightarrow> (queue_of s (queueKey p rc) = [] \<or> active_of s (queueKey p rc) = RESOURCE_CLASS_CONCURRENCY rc)"

definition sched_core :: "local_scheduler \<Rightarrow> bool" where
  "sched_core s \<longleftrightarrow> known_ids s \<and> queues_ok s \<and> counts_ok s"

lemma queueKey_inject: "queueKey p rc = queueKey p' rc' \<longleftrightarrow> p = p' \<and> rc = rc'"
proof -
  have no: "CHR '':'' \<notin> set (ResourceClass_str r)" for r by (cases r) simp_all
  have inj: "ResourceClass_str rc = ResourceClass_str rc' \<Longrightarrow> rc = rc'" by (cases rc; cases rc') simp_all
  have "p = p' \<and> rc = rc'" if eq: "queueKey p rc = queueKey p' rc'"
  proof -
    from eq have "p @ CHR '':'' # ResourceClass_str rc = p' @ CHR '':'' # ResourceClass_str rc'"
      by (simp add: queueKey_def)
    from last_colon [OF this no no] inj show ?thesis by blast
  qed
  then show ?thesis by blast
qed

lemma genId_inject: "genId t n = genId t' n' \<Longrightarrow> n = n'"
proof -
  have no: "CHR ''_'' \<notin> set (show_nat k)" for k using show_nat_digits [of "CHR ''_''" k] by (auto simp: is_digit_def)
  assume "genId t n = genId t' n'"
  then have "(''job_'' @ show_int t) @ CHR ''_'' # show_nat n = (''job_'' @ show_int t') @ CHR ''_'' # show_nat n'"
    by (simp add: genId_def)
  from last_occurrence [OF this no no] have "show_nat n = show_nat n'" by blast
  then show "n = n'" by (metis read_show_nat)
qed

lemma running_put:
  assumes "map_inv (ls_states s)" "map_get (ls_states s) jid = Some st"
  shows "length (List.filter P (map_set jid st' (ls_states s))) + (if P (jid, st) then 1 else 0) =
    length (List.filter P (ls_states s)) + (if P (jid, st') then 1 else 0)"
proof -
  have "length (List.filter P (map_set jid st' m)) + (if P (jid, st) then 1 else 0) =
      length (List.filter P m) + (if P (jid, st') then 1 else 0)"
    if "map_inv m" "map_get m jid = Some st" for m
    using that
  proof (induction m)
    case (Cons e m)
    show ?case
    proof (cases "fst e = jid")
      case True
      with Cons.prems have "e = (jid, st)" by (cases e) (simp add: map_get_def)
      then show ?thesis by simp
    next
      case False
      with Cons show ?thesis by (auto simp: map_get_def)
    qed
  qed simp
  with assms show ?thesis by blast
qed

lemma set_state_frame [simp]:
  "ls_jobs (set_state jid f s) = ls_jobs s" "ls_nextId (set_state jid f s) = ls_nextId s"
  "queue_of (set_state jid f s) key = queue_of s key" "active_of (set_state jid f s) key = active_of s key"
  "table_job (set_state jid f s) j = (if j = jid then map_option f (table_job s jid) else table_job s j)"
  by (simp_all add: set_state_def queue_of_def active_of_def table_job_def split: option.splits)

lemma table_job_frame [simp]:
  "table_job (s\<lparr>ls_queues := a\<rparr>) j = table_job s j" "table_job (s\<lparr>ls_active := b\<rparr>) j = table_job s j"
  "table_job (s\<lparr>ls_settled := c\<rparr>) j = table_job s j" "table_job (s\<lparr>ls_waiters := d\<rparr>) j = table_job s j"
  "table_job (s\<lparr>ls_promises := e\<rparr>) j = table_job s j"
  by (simp_all add: table_job_def)

lemma set_state_known: "known_ids s \<Longrightarrow> known_ids (set_state jid f s)"
  by (auto simp: known_ids_def set_state_def split: option.splits if_splits)

lemma set_state_running:
  assumes "known_ids s" "table_job s jid = Some st"
  shows "running (set_state jid f s) key + (if running_job key (jid, st) then 1 else 0) =
    running s key + (if running_job key (jid, f st) then 1 else 0)"
proof -
  have g: "map_get (ls_states s) jid = Some st" using assms(2) by (simp add: table_job_def split: if_splits)
  have "map_inv (ls_states s)" using assms(1) by (simp add: known_ids_def)
  from running_put [OF this g, of "running_job key" "f st"] g show ?thesis by (simp add: running_def set_state_def)
qed

text \<open>The next job of a class starts.\<close>

definition admit_next :: "millis \<Rightarrow> string \<Rightarrow> string \<Rightarrow> local_scheduler \<Rightarrow> local_scheduler" where
  "admit_next now key jid s =
     set_state jid (\<lambda>st. st\<lparr>ts_status := JS_running, ts_startedAt := Some now\<rparr>)
       (s\<lparr>ls_queues := map_set key (tl (queue_of s key)) (ls_queues s),
          ls_active := map_set key (active_of s key + 1) (ls_active s)\<rparr>)"

lemma admit_next_frame:
  "queue_of (admit_next now key jid s) k = (if k = key then tl (queue_of s key) else queue_of s k)"
  "active_of (admit_next now key jid s) k = (if k = key then active_of s key + 1 else active_of s k)"
  unfolding admit_next_def set_state_frame by (simp_all add: queue_of_def active_of_def)

lemma queued_job:
  assumes "queues_ok s" "jid \<in> set (queue_of s key)"
  obtains st where "table_job s jid = Some st" "job_key st = key" "ts_status st \<in> {JS_pending, JS_admitted}"
    "ts_completedAt st = None"
  using assms unfolding queues_ok_def by blast

lemma queue_distinct: "queues_ok s \<Longrightarrow> distinct (queue_of s key)"
  unfolding queues_ok_def by blast

lemma active_le: "counts_ok s \<Longrightarrow> active_of s (queueKey p rc) \<le> RESOURCE_CLASS_CONCURRENCY rc"
  unfolding counts_ok_def by blast

lemma tryAdmit_cases:
  assumes "queues_ok s"
  shows "tryAdmit now p rc s =
    (if RESOURCE_CLASS_CONCURRENCY rc \<le> active_of s (queueKey p rc) \<or> queue_of s (queueKey p rc) = [] then s
     else admit_next now (queueKey p rc) (hd (queue_of s (queueKey p rc))) s)"
proof (cases "queue_of s (queueKey p rc)")
  case (Cons jid q)
  then have "jid \<in> set (queue_of s (queueKey p rc))" by simp
  have "jid \<in> set (ls_jobs s)"
    by (rule queued_job [OF assms \<open>jid \<in> set (queue_of s (queueKey p rc))\<close>]) (simp add: table_job_def split: if_splits)
  with Cons show ?thesis by (simp add: tryAdmit_def Let_def executeJob_def admit_next_def)
qed (simp add: tryAdmit_def Let_def)

lemma admit_next_core:
  assumes core: "sched_core s" and q: "queue_of s (queueKey p rc) = jid # q"
    and less: "active_of s (queueKey p rc) < RESOURCE_CLASS_CONCURRENCY rc"
  shows "sched_core (admit_next now (queueKey p rc) jid s)"
proof -
  let ?key = "queueKey p rc" and ?s = "admit_next now (queueKey p rc) jid s"
  let ?s1 = "s\<lparr>ls_queues := map_set ?key q (ls_queues s), ls_active := map_set ?key (active_of s ?key + 1) (ls_active s)\<rparr>"
  have s: "?s = set_state jid (\<lambda>st. st\<lparr>ts_status := JS_running, ts_startedAt := Some now\<rparr>) ?s1"
    by (simp add: admit_next_def q)
  have known1: "known_ids ?s1" using core by (simp add: sched_core_def known_ids_def)
  from core q obtain st where st: "table_job s jid = Some st" "job_key st = ?key" "ts_status st \<in> {JS_pending, JS_admitted}"
    by (fastforce simp: sched_core_def queues_ok_def)
  have fresh: "jid \<notin> set (queue_of ?s k)" for k
  proof (cases "k = ?key")
    case True
    have "distinct (queue_of s ?key)" using core by (simp add: sched_core_def queues_ok_def)
    with True q show ?thesis by (simp add: admit_next_frame)
  next
    case False
    have "\<exists>st'. table_job s jid = Some st' \<and> job_key st' = k" if "jid \<in> set (queue_of s k)"
      using core that by (fastforce simp: sched_core_def queues_ok_def)
    with False st show ?thesis by (auto simp: admit_next_frame)
  qed
  have "queues_ok ?s"
    unfolding queues_ok_def
  proof (intro allI conjI ballI)
    fix k show "distinct (queue_of ?s k)"
      using core queue_distinct [of s] by (simp add: sched_core_def admit_next_frame distinct_tl)
    fix j assume j: "j \<in> set (queue_of ?s k)"
    with q have "j \<in> set (queue_of s k)" by (auto simp: admit_next_frame split: if_splits)
    with core obtain st' where st': "table_job s j = Some st' \<and> job_key st' = k \<and> ts_status st' \<in> {JS_pending, JS_admitted} \<and>
        ts_completedAt st' = None" by (fastforce simp: sched_core_def queues_ok_def)
    from j fresh have "j \<noteq> jid" by blast
    with st' show "\<exists>st. table_job ?s j = Some st \<and> job_key st = k \<and> ts_status st \<in> {JS_pending, JS_admitted} \<and>
        ts_completedAt st = None" unfolding s by simp
  qed
  moreover have "counts_ok ?s"
  proof -
    have "running ?s k = running s k + (if k = ?key then 1 else 0)" for k
      using set_state_running [OF known1, of jid st "\<lambda>st. st\<lparr>ts_status := JS_running, ts_startedAt := Some now\<rparr>" k] st
      unfolding s by (auto simp: running_job_def running_def job_key_def split: if_splits)
    moreover have "active_of ?s k = active_of s k + (if k = ?key then 1 else 0)" for k
      by (simp add: admit_next_frame)
    ultimately show ?thesis using core less
      by (auto simp: sched_core_def counts_ok_def queueKey_inject)
  qed
  moreover have "known_ids ?s" unfolding s by (rule set_state_known [OF known1])
  ultimately show ?thesis by (simp add: sched_core_def)
qed

text \<open>A class that is not short of more than one job becomes full, or its queue empty.\<close>

lemma tryAdmit_ok:
  assumes core: "sched_core s" and tight: "\<And>p' rc'. (p', rc') \<noteq> (p, rc) \<Longrightarrow> tight s p' rc'"
    and near: "length (queue_of s (queueKey p rc)) \<le> 1 \<or>
      RESOURCE_CLASS_CONCURRENCY rc \<le> active_of s (queueKey p rc) + 1"
  shows "sched_core (tryAdmit now p rc s) \<and> (\<forall>p' rc'. tight (tryAdmit now p rc s) p' rc')"
proof (cases "queue_of s (queueKey p rc) = [] \<or> RESOURCE_CLASS_CONCURRENCY rc \<le> active_of s (queueKey p rc)")
  case True
  have le: "active_of s (queueKey p rc) \<le> RESOURCE_CLASS_CONCURRENCY rc"
    using core active_le by (auto simp: sched_core_def)
  have "tight s p' rc'" for p' rc'
  proof (cases "(p', rc') = (p, rc)")
    case True
    with \<open>queue_of s (queueKey p rc) = [] \<or> _\<close> le show ?thesis by (auto simp: tight_def)
  next
    case False
    then show ?thesis by (rule tight)
  qed
  moreover have "tryAdmit now p rc s = s"
    using True core by (auto simp: sched_core_def tryAdmit_cases)
  ultimately show ?thesis using core by simp
next
  case False
  then obtain jid q where q: "queue_of s (queueKey p rc) = jid # q" by (cases "queue_of s (queueKey p rc)") auto
  have eq: "tryAdmit now p rc s = admit_next now (queueKey p rc) jid s"
    using False core q by (simp add: sched_core_def tryAdmit_cases)
  have "tight (admit_next now (queueKey p rc) jid s) p' rc'" for p' rc'
  proof (cases "(p', rc') = (p, rc)")
    case True
    with near q False show ?thesis by (auto simp: tight_def admit_next_frame)
  next
    case other: False
    with tight [OF other] show ?thesis by (auto simp: tight_def admit_next_frame queueKey_inject)
  qed
  moreover have "active_of s (queueKey p rc) < RESOURCE_CLASS_CONCURRENCY rc" using False by simp
  ultimately show ?thesis using admit_next_core [OF core q] eq by simp
qed

lemma known_fresh:
  assumes "known_ids s" "ls_nextId s \<le> n"
  shows "map_get (ls_states s) (genId t n) = None"
proof (rule ccontr)
  assume "map_get (ls_states s) (genId t n) \<noteq> None"
  then obtain st where "map_get (ls_states s) (genId t n) = Some st" by auto
  with assms(1) obtain t' k where "genId t n = genId t' k" "k < ls_nextId s" by (auto simp: known_ids_def)
  with genId_inject [of t n t' k] assms(2) show False by simp
qed

definition submitted :: "millis \<Rightarrow> ToolJobInput \<Rightarrow> local_scheduler \<Rightarrow> local_scheduler" where
  "submitted now input s =
     (let jid = genId now (ls_nextId s); key = queueKey (ti_projectId input) (ti_resourceClass input)
      in s\<lparr>ls_nextId := ls_nextId s + 1,
           ls_states := map_set jid \<lparr>ts_job = \<lparr>tj_id = jid, tj_input = input, tj_submittedAt = now, tj_attempt = 1\<rparr>,
             ts_status = JS_pending, ts_submittedAt = now, ts_admittedAt = None, ts_startedAt = None,
             ts_completedAt = None, ts_workerId = None, ts_result = None\<rparr> (ls_states s),
           ls_jobs := (if jid \<in> set (ls_jobs s) then ls_jobs s else ls_jobs s @ [jid]),
           ls_waiters := map_set jid [] (ls_waiters s), ls_queues := map_set key (queue_of s key @ [jid]) (ls_queues s)\<rparr>)"

lemma submit_eq:
  "submit now input s = (genId now (ls_nextId s), set_state (genId now (ls_nextId s))
     (\<lambda>st. if ts_status st = JS_pending then st\<lparr>ts_status := JS_admitted, ts_admittedAt := Some now\<rparr> else st)
     (tryAdmit now (ti_projectId input) (ti_resourceClass input) (submitted now input s)))"
  by (simp add: submit_def submitted_def Let_def)

lemma submitted_core:
  assumes core: "sched_core s"
  shows "sched_core (submitted now input s)"
    "queue_of (submitted now input s) k = queue_of s k @
       (if k = queueKey (ti_projectId input) (ti_resourceClass input) then [genId now (ls_nextId s)] else [])"
    "active_of (submitted now input s) k = active_of s k"
proof -
  let ?s = "submitted now input s" and ?jid = "genId now (ls_nextId s)"
    and ?key = "queueKey (ti_projectId input) (ti_resourceClass input)"
  have new: "map_get (ls_states s) ?jid = None" using core known_fresh by (simp add: sched_core_def)
  show q: "queue_of ?s k = queue_of s k @ (if k = ?key then [?jid] else [])" for k
    by (simp add: submitted_def Let_def queue_of_def)
  show a: "active_of ?s k = active_of s k" for k by (simp add: submitted_def Let_def active_of_def)
  have keys: "?jid \<notin> fst ` set (ls_states s)" using new by (force simp: map_get_def map_of_eq_None_iff)
  have run: "running ?s k = running s k" for k
    by (simp add: running_def submitted_def Let_def map_set_unknown [OF keys] running_job_def)
  have table: "table_job ?s j = (if j = ?jid then Some \<lparr>ts_job = \<lparr>tj_id = ?jid, tj_input = input, tj_submittedAt = now,
      tj_attempt = 1\<rparr>, ts_status = JS_pending, ts_submittedAt = now, ts_admittedAt = None, ts_startedAt = None,
      ts_completedAt = None, ts_workerId = None, ts_result = None\<rparr> else table_job s j)" for j
    by (simp add: table_job_def submitted_def Let_def)
  have "known_ids ?s"
    unfolding known_ids_def
  proof (intro conjI allI impI)
    show "map_inv (ls_states ?s)" using core by (simp add: sched_core_def known_ids_def submitted_def Let_def)
    fix j st assume j: "map_get (ls_states ?s) j = Some st"
    show "\<exists>t n. j = genId t n \<and> n < ls_nextId ?s"
    proof (cases "j = ?jid")
      case True
      then show ?thesis by (intro exI [of _ now] exI [of _ "ls_nextId s"]) (simp add: submitted_def Let_def)
    next
      case False
      with j have "map_get (ls_states s) j = Some st" by (simp add: submitted_def Let_def)
      with core obtain t n where "j = genId t n" "n < ls_nextId s" unfolding sched_core_def known_ids_def by blast
      then show ?thesis by (intro exI [of _ t] exI [of _ n]) (simp add: submitted_def Let_def)
    qed
  qed
  moreover have "queues_ok ?s"
    unfolding queues_ok_def
  proof (intro allI conjI ballI)
    fix k
    have out: "?jid \<notin> set (queue_of s k)"
    proof
      assume "?jid \<in> set (queue_of s k)"
      then show False using core new by (auto simp: sched_core_def table_job_def elim!: queued_job split: if_splits)
    qed
    show "distinct (queue_of ?s k)" using queue_distinct [of s k] core out by (auto simp: q sched_core_def)
    fix j assume j: "j \<in> set (queue_of ?s k)"
    show "\<exists>st. table_job ?s j = Some st \<and> job_key st = k \<and> ts_status st \<in> {JS_pending, JS_admitted} \<and> ts_completedAt st = None"
    proof (cases "j = ?jid")
      case True
      with j out show ?thesis by (simp add: table job_key_def q split: if_splits)
    next
      case False
      with j have "j \<in> set (queue_of s k)" by (simp add: q split: if_splits)
      moreover have "queues_ok s" using core by (simp add: sched_core_def)
      ultimately show ?thesis using False by (simp add: table) (elim queued_job, auto)
    qed
  qed
  moreover have "counts_ok ?s" using core unfolding sched_core_def counts_ok_def run a by blast
  ultimately show "sched_core ?s" by (simp add: sched_core_def)
qed

text \<open>Changing a job that is not running to another that is not, and its place and completion, keeps the rest.\<close>

lemma set_state_waiting:
  assumes core: "sched_core s" and st: "\<And>st. table_job s jid = Some st \<Longrightarrow> job_key (f st) = job_key st \<and>
     (ts_status (f st) = JS_running \<longleftrightarrow> ts_status st = JS_running) \<and> ts_completedAt (f st) = ts_completedAt st \<and>
     (ts_status st \<in> {JS_pending, JS_admitted} \<longrightarrow> ts_status (f st) \<in> {JS_pending, JS_admitted})"
    and reg: "jid \<in> set (ls_jobs s) \<or> map_get (ls_states s) jid = None"
  shows "sched_core (set_state jid f s)"
proof -
  have run: "running (set_state jid f s) k = running s k" for k
  proof (cases "table_job s jid")
    case None
    with reg have "set_state jid f s = s" by (auto simp: set_state_def table_job_def split: option.splits if_splits)
    then show ?thesis by simp
  next
    case (Some st')
    from core set_state_running [OF _ Some, of f k] st [OF Some] show ?thesis
      by (auto simp: sched_core_def running_job_def split: if_splits)
  qed
  have "counts_ok (set_state jid f s)"
    using core unfolding sched_core_def counts_ok_def set_state_frame run by blast
  moreover have "queues_ok (set_state jid f s)"
    unfolding queues_ok_def
  proof (intro allI conjI ballI)
    fix k show "distinct (queue_of (set_state jid f s) k)" using core by (simp add: sched_core_def queue_distinct)
    fix j assume "j \<in> set (queue_of (set_state jid f s) k)"
    then have "j \<in> set (queue_of s k)" by simp
    moreover have "queues_ok s" using core by (simp add: sched_core_def)
    ultimately obtain st' where st': "table_job s j = Some st'" "job_key st' = k" "ts_status st' \<in> {JS_pending, JS_admitted}"
      "ts_completedAt st' = None" by (elim queued_job)
    then show "\<exists>st. table_job (set_state jid f s) j = Some st \<and> job_key st = k \<and>
        ts_status st \<in> {JS_pending, JS_admitted} \<and> ts_completedAt st = None"
      using st by (cases "j = jid") auto
  qed
  ultimately show ?thesis using core set_state_known by (simp add: sched_core_def)
qed

lemma submit_ok:
  assumes "sched_core s" "\<forall>p rc. tight s p rc"
  shows "sched_core (snd (submit now input s)) \<and> (\<forall>p rc. tight (snd (submit now input s)) p rc)"
proof -
  let ?p = "ti_projectId input" and ?rc = "ti_resourceClass input" and ?jid = "genId now (ls_nextId s)"
  let ?s1 = "submitted now input s" let ?s2 = "tryAdmit now ?p ?rc ?s1"
  note sub = submitted_core [OF assms(1), of now input]
  have "sched_core ?s2 \<and> (\<forall>p' rc'. tight ?s2 p' rc')"
  proof (rule tryAdmit_ok [OF sub(1)])
    fix p' rc' assume "(p', rc') \<noteq> (?p, ?rc)"
    with assms(2) show "tight ?s1 p' rc'" by (auto simp: tight_def sub(2,3) queueKey_inject)
  next
    show "length (queue_of ?s1 (queueKey ?p ?rc)) \<le> 1 \<or> RESOURCE_CLASS_CONCURRENCY ?rc \<le> active_of ?s1 (queueKey ?p ?rc) + 1"
      using assms(2) [rule_format, of ?p ?rc] by (auto simp: tight_def sub(2,3))
  qed
  moreover have "?jid \<in> set (ls_jobs ?s2)"
    by (simp add: tryAdmit_def executeJob_def submitted_def Let_def split: list.splits)
  moreover have "sched_core (set_state ?jid
      (\<lambda>st. if ts_status st = JS_pending then st\<lparr>ts_status := JS_admitted, ts_admittedAt := Some now\<rparr> else st) ?s2)"
    if "sched_core ?s2" "?jid \<in> set (ls_jobs ?s2)"
    by (rule set_state_waiting [OF that(1)]) (use that(2) in \<open>simp_all add: job_key_def\<close>)
  ultimately show ?thesis unfolding submit_eq snd_conv by (simp add: tight_def)
qed

lemma completeJob_ok:
  assumes core: "sched_core s" and tight: "\<forall>p rc. tight s p rc"
    and st: "table_job s jid = Some st" "ts_status st = JS_running"
  shows "sched_core (completeJob now jid result s) \<and> (\<forall>p rc. tight (completeJob now jid result s) p rc)"
proof -
  let ?p = "ti_projectId (tj_input (ts_job st))" and ?rc = "ti_resourceClass (tj_input (ts_job st))"
  let ?f = "\<lambda>st. st\<lparr>ts_status := result_status result, ts_completedAt := Some now, ts_result := Some result\<rparr>"
  let ?s0 = "set_state jid ?f s"
  let ?s1 = "?s0\<lparr>ls_settled := ls_settled ?s0 @ List.map (\<lambda>p. (p, result)) (waiters_of ?s0 jid),
     ls_waiters := map_set jid [] (ls_waiters ?s0),
     ls_active := map_set (job_key st) (active_of ?s0 (job_key st) - 1) (ls_active ?s0)\<rparr>"
  have key: "job_key st = queueKey ?p ?rc" by (simp add: job_key_def)
  have not_running: "result_status result \<noteq> JS_running" by (cases result) simp_all
  have q: "queue_of ?s1 k = queue_of s k" for k
  proof -
    have "queue_of ?s1 k = queue_of ?s0 k" by (simp add: queue_of_def)
    then show ?thesis by simp
  qed
  have a: "active_of ?s1 k = active_of s k - (if k = job_key st then 1 else 0)" for k
  proof -
    have "active_of ?s1 k = (if k = job_key st then active_of ?s0 k - 1 else active_of ?s0 k)"
      by (simp add: active_of_def)
    then show ?thesis by simp
  qed
  have known: "known_ids s" using core by (simp add: sched_core_def)
  have run: "running ?s1 k + (if k = job_key st then 1 else 0) = running s k" for k
  proof -
    have "running ?s1 k = running ?s0 k" by (simp add: running_def)
    with set_state_running [OF known st(1), of ?f k] st(2) not_running show ?thesis
      by (auto simp: running_job_def job_key_def split: if_splits)
  qed
  have "counts_ok ?s1"
    unfolding counts_ok_def
  proof (intro conjI allI)
    fix k
    from core have "active_of s k = running s k" by (simp add: sched_core_def counts_ok_def)
    with run [of k] show "active_of ?s1 k = running ?s1 k" unfolding a by (simp split: if_splits)
  next
    fix p rc
    from core active_le have "active_of s (queueKey p rc) \<le> RESOURCE_CLASS_CONCURRENCY rc" by (simp add: sched_core_def)
    then show "active_of ?s1 (queueKey p rc) \<le> RESOURCE_CLASS_CONCURRENCY rc" unfolding a by simp
  qed
  moreover have "known_ids ?s1"
    using set_state_known [OF known, of jid ?f] by (simp add: known_ids_def)
  moreover have "queues_ok ?s1"
    unfolding queues_ok_def q
  proof (intro allI conjI ballI)
    fix k show "distinct (queue_of s k)" using core by (simp add: sched_core_def queue_distinct)
    fix j assume j: "j \<in> set (queue_of s k)"
    have "queues_ok s" using core by (simp add: sched_core_def)
    from queued_job [OF this j] obtain st' where st': "table_job s j = Some st'" "job_key st' = k"
      "ts_status st' \<in> {JS_pending, JS_admitted}" "ts_completedAt st' = None" by blast
    with st have "j \<noteq> jid" by auto
    with st' show "\<exists>st. table_job ?s1 j = Some st \<and> job_key st = k \<and> ts_status st \<in> {JS_pending, JS_admitted} \<and>
        ts_completedAt st = None" by simp
  qed
  ultimately have core1: "sched_core ?s1" by (simp add: sched_core_def)
  have "sched_core (tryAdmit now ?p ?rc ?s1) \<and> (\<forall>p' rc'. tight (tryAdmit now ?p ?rc ?s1) p' rc')"
  proof (rule tryAdmit_ok [OF core1])
    fix p' rc' assume "(p', rc') \<noteq> (?p, ?rc)"
    with tight show "tight ?s1 p' rc'" unfolding tight_def q a by (auto simp: key queueKey_inject)
  next
    show "length (queue_of ?s1 (queueKey ?p ?rc)) \<le> 1 \<or> RESOURCE_CLASS_CONCURRENCY ?rc \<le> active_of ?s1 (queueKey ?p ?rc) + 1"
      using tight [rule_format, of ?p ?rc] unfolding tight_def q a by (auto simp: key)
  qed
  moreover have "completeJob now jid result s = tryAdmit now ?p ?rc ?s1"
    using st(1) by (simp add: completeJob_def Let_def)
  ultimately show ?thesis by simp
qed

lemma core_cong:
  assumes "sched_core s" "ls_states s' = ls_states s" "ls_nextId s' = ls_nextId s" "ls_queues s' = ls_queues s"
    "ls_active s' = ls_active s"
    "\<And>jid key. jid \<in> set (queue_of s key) \<Longrightarrow> table_job s' jid = table_job s jid"
  shows "sched_core s'" and "tight s' p rc = tight s p rc"
proof -
  have q: "queue_of s' k = queue_of s k" and a: "active_of s' k = active_of s k" and r: "running s' k = running s k" for k
    using assms by (simp_all add: queue_of_def active_of_def running_def)
  show "tight s' p rc = tight s p rc" by (simp add: tight_def q a)
  have "queues_ok s'"
    using assms(1,6) unfolding sched_core_def queues_ok_def q by (metis (no_types, lifting))
  moreover have "known_ids s'" using assms by (simp add: sched_core_def known_ids_def)
  moreover have "counts_ok s'" using assms(1) unfolding sched_core_def counts_ok_def q a r by blast
  ultimately show "sched_core s'" by (simp add: sched_core_def)
qed

lemma apply_sched_op_ok:
  assumes "sched_core s" "\<forall>p rc. tight s p rc" "cancels_running op s"
  shows "sched_core (apply_sched_op now op s) \<and> (\<forall>p rc. tight (apply_sched_op now op s) p rc)"
proof (cases op)
  case (Submit i)
  with submit_ok [OF assms(1,2)] show ?thesis by simp
next
  case (Await jid)
  let ?s = "apply_sched_op now op s"
  have "ls_states ?s = ls_states s" "ls_nextId ?s = ls_nextId s" "ls_queues ?s = ls_queues s" "ls_active ?s = ls_active s"
    "\<And>j. table_job ?s j = table_job s j"
    using Await by (simp_all add: awaitResult_def split: option.splits)
  from core_cong [OF assms(1) this(1-4)] this(5) assms(2) show ?thesis by simp
next
  case (Await_timer jid pr t)
  let ?s = "apply_sched_op now op s"
  have "ls_states ?s = ls_states s" "ls_nextId ?s = ls_nextId s" "ls_queues ?s = ls_queues s" "ls_active ?s = ls_active s"
    "\<And>j. table_job ?s j = table_job s j"
    using Await_timer by (simp_all add: await_timer_def)
  from core_cong [OF assms(1) this(1-4)] this(5) assms(2) show ?thesis by simp
next
  case (Cancel jid r)
  with assms(3) obtain st where "table_job s jid = Some st" "ts_status st = JS_running" by (auto simp: cancels_running_def)
  from completeJob_ok [OF assms(1,2) this] Cancel show ?thesis by (simp add: cancel_job_def)
next
  case (Reap age)
  let ?s = "apply_sched_op now op s"
  have fields: "ls_states ?s = ls_states s" "ls_nextId ?s = ls_nextId s" "ls_queues ?s = ls_queues s"
    "ls_active ?s = ls_active s"
    using Reap by (simp_all add: reap_def Let_def)
  have waiting: "table_job ?s jid = table_job s jid" if "jid \<in> set (queue_of s key)" for jid key
  proof -
    have "queues_ok s" using assms(1) by (simp add: sched_core_def)
    from queued_job [OF this that] obtain st where st: "table_job s jid = Some st" "ts_completedAt st = None" by blast
    then have "\<not> reapable (now - age) s jid" by (simp add: reapable_def table_job_def split: if_splits)
    with st Reap show ?thesis by (simp add: reap_def Let_def table_job_def split: if_splits)
  qed
  from core_cong [OF assms(1) fields waiting] assms(2) show ?thesis by simp
qed

lemma careful_core:
  assumes "careful ops createLocalToolScheduler"
  shows "sched_core (sched_run ops createLocalToolScheduler)" "tight (sched_run ops createLocalToolScheduler) p rc"
proof -
  have run: "sched_core (sched_run ops s0) \<and> (\<forall>p rc. tight (sched_run ops s0) p rc)"
    if "sched_core s0" "\<forall>p rc. tight s0 p rc" "careful ops s0" for s0
    using that
  proof (induction ops arbitrary: s0)
    case (Cons x ops)
    obtain now op where x: "x = (now, op)" by (cases x)
    with apply_sched_op_ok [OF Cons.prems(1,2)] Cons show ?case by simp
  qed simp
  have "sched_core createLocalToolScheduler \<and> (\<forall>p rc. tight createLocalToolScheduler p rc)"
    by (simp add: createLocalToolScheduler_def sched_core_def known_ids_def queues_ok_def counts_ok_def tight_def
        queue_of_def active_of_def running_def)
  with run assms show "sched_core (sched_run ops createLocalToolScheduler)"
    "tight (sched_run ops createLocalToolScheduler) p rc" by simp_all
qed


definition build_input :: "string \<Rightarrow> ResourceClass \<Rightarrow> ToolJobInput" where
  "build_input p rc = \<lparr>ti_agentId = ''a'', ti_missionId = None, ti_projectId = p, ti_repoRoot = [], ti_toolName = ''build'',
     ti_args = J_null, ti_resourceClass = rc, ti_priority = Normal_priority, ti_requiresClaim = None, ti_timeoutMs = 300000,
     ti_idempotencyKey = None\<rparr>"


section \<open>Cancelling a job that waits\<close>

text \<open>
  Cancelling the next waiting job starts it, beyond the limit.  When a job is the first in the queue of its
  class, which is then full, \<open>cancel\<close> records the cancellation, frees a slot the job never held, and gives it to the same job: the
  job then runs, with the result that it was cancelled, and one job more than the limit runs in the class.
\<close>

theorem cancelled_job_runs:
  assumes "careful ops createLocalToolScheduler"
    and "queue_of (sched_run ops createLocalToolScheduler) (queueKey p rc) = jid # rest"
  shows "let s' = cancel_job now jid reason (sched_run ops createLocalToolScheduler)
    in (\<exists>st. getState s' jid = Some st \<and> ts_status st = JS_running \<and> ts_result st = Some (Job_cancelled jid reason)) \<and>
       running s' (queueKey p rc) = RESOURCE_CLASS_CONCURRENCY rc + 1"
proof -
  define s where "s = sched_run ops createLocalToolScheduler"
  define s' where "s' = cancel_job now jid reason s"
  have core: "sched_core s" and "tight s p rc" using careful_core [OF assms(1)] by (simp_all add: s_def)
  note q = assms(2) [folded s_def]
  have full: "active_of s (queueKey p rc) = RESOURCE_CLASS_CONCURRENCY rc" using \<open>tight s p rc\<close> q by (simp add: tight_def)
  let ?key = "queueKey p rc"
  have ok: "queues_ok s" "known_ids s" using core by (simp_all add: sched_core_def)
  from queued_job [OF ok(1), of jid ?key] q obtain st where
    st: "table_job s jid = Some st" "job_key st = ?key" "ts_status st \<in> {JS_pending, JS_admitted}" by auto
  from st(2) have pr: "ti_projectId (tj_input (ts_job st)) = p" "ti_resourceClass (tj_input (ts_job st)) = rc"
    by (simp_all add: job_key_def queueKey_inject)
  let ?f = "\<lambda>st. st\<lparr>ts_status := JS_cancelled, ts_completedAt := Some now, ts_result := Some (Job_cancelled jid reason)\<rparr>"
  let ?g = "\<lambda>st. st\<lparr>ts_status := JS_running, ts_startedAt := Some now\<rparr>"
  define s0 where "s0 = set_state jid ?f s"
  define s1 where "s1 = s0\<lparr>ls_settled := ls_settled s0 @ List.map (\<lambda>p. (p, Job_cancelled jid reason)) (waiters_of s0 jid),
     ls_waiters := map_set jid [] (ls_waiters s0), ls_active := map_set ?key (active_of s0 ?key - 1) (ls_active s0)\<rparr>"
  have c: "s' = tryAdmit now p rc s1"
    using st by (simp add: s'_def cancel_job_def completeJob_def Let_def s1_def s0_def pr)
  have a1: "active_of s1 ?key = RESOURCE_CLASS_CONCURRENCY rc - 1"
  proof -
    have "active_of s1 ?key = active_of s0 ?key - 1" by (simp add: s1_def active_of_def)
    then show ?thesis using full by (simp add: s0_def)
  qed
  have q1: "queue_of s1 ?key = jid # rest"
  proof -
    have "queue_of s1 ?key = queue_of s0 ?key" by (simp add: s1_def queue_of_def)
    then show ?thesis using q by (simp add: s0_def)
  qed
  have pos: "0 < RESOURCE_CLASS_CONCURRENCY rc" by (cases rc) simp_all
  have t1: "table_job s1 j = table_job s0 j" for j by (simp add: s1_def)
  have t0: "table_job s0 jid = Some (?f st)" using st by (simp add: s0_def)
  then have reg: "jid \<in> set (ls_jobs s1)" using t1 [of jid] by (simp add: table_job_def split: if_splits)
  define s2 where "s2 = s1\<lparr>ls_queues := map_set ?key rest (ls_queues s1), ls_active := map_set ?key
     (active_of s1 ?key + 1) (ls_active s1)\<rparr>"
  have s': "s' = set_state jid ?g s2"
    using a1 q1 pos reg unfolding c tryAdmit_def Let_def by (simp add: executeJob_def s2_def)
  have t2: "table_job s2 jid = Some (?f st)" by (simp add: s2_def t1 t0)
  then have "getState s' jid = Some (?g (?f st))" by (simp add: s' getState_def)
  moreover have "running s' ?key = RESOURCE_CLASS_CONCURRENCY rc + 1"
  proof -
    have k0: "known_ids s0" unfolding s0_def by (rule set_state_known [OF ok(2)])
    then have k2: "known_ids s2" by (simp add: known_ids_def s2_def s1_def)
    have "running s' ?key = running s2 ?key + 1"
      using set_state_running [OF k2 t2, of ?g ?key] st(2) by (simp add: s' running_job_def job_key_def)
    also have "running s2 ?key = running s0 ?key" by (simp add: running_def s2_def s1_def)
    also have "running s0 ?key = running s ?key"
      using set_state_running [OF ok(2) st(1), of ?f ?key] st(3) by (auto simp: s0_def running_job_def)
    also have "running s ?key = active_of s ?key"
      using core unfolding sched_core_def counts_ok_def by metis
    finally show ?thesis using full by simp
  qed
  ultimately show ?thesis by (simp add: s_def s'_def Let_def)
qed

theorem cancelled_job_runs_witness:
  "running (cancel_job 7 ''job_6_2'' ''r'' (sched_run [(5, Submit (build_input ''p'' Cpu_heavy)),
     (6, Submit (build_input ''p'' Cpu_heavy))] createLocalToolScheduler)) (queueKey ''p'' Cpu_heavy) = 2"
proof -
  have "careful [(5, Submit (build_input ''p'' Cpu_heavy)), (6, Submit (build_input ''p'' Cpu_heavy))]
      createLocalToolScheduler" by (simp add: cancels_running_def)
  moreover have "queue_of (sched_run [(5, Submit (build_input ''p'' Cpu_heavy)), (6, Submit (build_input ''p'' Cpu_heavy))]
      createLocalToolScheduler) (queueKey ''p'' Cpu_heavy) = [''job_6_2'']" by code_simp
  ultimately show ?thesis
    using cancelled_job_runs [of _ "''p''" Cpu_heavy "''job_6_2''" "[]" 7 "''r''"]
    by (simp add: Let_def del: sched_run.simps)
qed

end
