(* ===== verification/Tool_Capacity.thy ===== *)
theory Tool_Capacity imports Tool_Scheduler Js_Number begin

text \<open>
  Capacity profiles of a machine (\<open>coordination/capacity-profile.ts\<close>), pressure and the limits that follow it
  (\<open>coordination/pressure-monitor.ts\<close>), and the scheduler that applies them (\<open>coordination/adaptive-scheduler.ts\<close>).
  What the operating system reports is an argument.
\<close>

section \<open>Profiles\<close>

datatype MemoryClass = Mem_low | Mem_medium | Mem_high | Mem_extreme

datatype ConfidenceLevel = Conf_estimated | Conf_quick_profiled | Conf_deep_profiled

record MachineInfo =
  mi_platform :: string
  mi_arch :: string
  mi_cpuCount :: int
  mi_totalMemoryBytes :: int
  mi_freeMemoryBytes :: int
  mi_memoryClass :: MemoryClass
  mi_perfCores :: "int option"
  mi_effCores :: "int option"

record CapacityScores =
  cs_cpuSingle :: int
  cs_cpuMulti :: int
  cs_memoryHeadroom :: int
  cs_diskWriteMbSec :: int
  cs_diskReadMbSec :: int
  cs_repoScanFilesPerSec :: int
  cs_valkeyPingMs :: "rat option"
  cs_pglitePingMs :: "rat option"

record BackpressurePolicy =
  bk_warnThreshold :: int
  bk_rejectThreshold :: int
  bk_timeoutMultiplier :: rat

record SchedulerLimits =
  sl_maxAgents :: int
  sl_maxActiveSubprocesses :: int
  sl_resourceLimits :: "(ResourceClass \<times> int) list"
  sl_queueBackpressure :: "(ResourceClass \<times> BackpressurePolicy) list"

record CapacityProfile =
  cf_generatedAt :: int
  cf_machine :: MachineInfo
  cf_scores :: CapacityScores
  cf_scheduler :: SchedulerLimits
  cf_confidence :: ConfidenceLevel

text \<open>Gibibytes are an exact division, so the comparisons are on bytes.\<close>

definition classifyMemoryClass :: "int \<Rightarrow> MemoryClass" where
  "classifyMemoryClass bytes =
     (let gb = 1024 * 1024 * 1024
      in if bytes < 12 * gb then Mem_low else if bytes < 24 * gb then Mem_medium
         else if bytes < 64 * gb then Mem_high else Mem_extreme)"

definition readNavigatorCpuCount :: "int option option \<Rightarrow> int option" where
  "readNavigatorCpuCount navigator =
     (case navigator of Some (Some concurrency) \<Rightarrow> if concurrency > 0 then Some concurrency else None | _ \<Rightarrow> None)"

text \<open>\<open>os\<close> is total and free memory and the number of processors, if the module is there; \<open>sysctl\<close> is what the two
  queries print, as numbers if they are, when both return.\<close>

definition collectStaticInventory ::
    "string \<Rightarrow> string \<Rightarrow> int option option \<Rightarrow> (int \<times> int \<times> int) option \<Rightarrow> (int option \<times> int option) option \<Rightarrow> MachineInfo" where
  "collectStaticInventory platform arch navigator os sysctl =
     (let navigatorCpus = readNavigatorCpuCount navigator;
          (total_bytes, free_bytes, cpuCount) = (case os of
             Some (t, f, c) \<Rightarrow> (t, f, nullish navigatorCpus c)
           | None \<Rightarrow> (8 * 1024 * 1024 * 1024, 4 * 1024 * 1024 * 1024, nullish navigatorCpus 4));
          (perfCores, effCores) = (if platform = ''darwin'' then nullish sysctl (None, None) else (None, None))
      in \<lparr>mi_platform = platform, mi_arch = arch,
          mi_cpuCount = (case (perfCores, effCores) of (Some p, Some e) \<Rightarrow> p + e | _ \<Rightarrow> cpuCount),
          mi_totalMemoryBytes = total_bytes, mi_freeMemoryBytes = free_bytes,
          mi_memoryClass = classifyMemoryClass total_bytes, mi_perfCores = perfCores, mi_effCores = effCores\<rparr>)"

text \<open>Agents, then the limits of the heavy, i/o, search, read and network classes.\<close>

fun class_limits :: "MemoryClass \<Rightarrow> int \<times> int \<times> int \<times> int \<times> int \<times> int" where
  "class_limits Mem_low = (4, 1, 1, 2, 12, 4)"
| "class_limits Mem_medium = (8, 2, 1, 4, 24, 8)"
| "class_limits Mem_high = (18, 4, 2, 8, 48, 12)"
| "class_limits Mem_extreme = (32, 8, 3, 12, 64, 16)"

definition deriveSchedulerLimits :: "MachineInfo \<Rightarrow> CapacityScores \<Rightarrow> SchedulerLimits" where
  "deriveSchedulerLimits machine scores =
     (case class_limits (mi_memoryClass machine) of (maxAgents, cpuHeavy, ioHeavy, searchMedium, readLight, network) \<Rightarrow>
        \<lparr>sl_maxAgents = maxAgents, sl_maxActiveSubprocesses = maxAgents,
         sl_resourceLimits = [(Cpu_heavy, cpuHeavy), (Io_heavy, ioHeavy), (Search_medium, searchMedium),
           (Read_light, readLight), (Network, network), (Exclusive_repo, 1)],
         sl_queueBackpressure =
           [(Cpu_heavy, \<lparr>bk_warnThreshold = cpuHeavy * 2, bk_rejectThreshold = cpuHeavy * 4, bk_timeoutMultiplier = 2\<rparr>),
            (Io_heavy, \<lparr>bk_warnThreshold = 2, bk_rejectThreshold = 4, bk_timeoutMultiplier = 3\<rparr>),
            (Search_medium, \<lparr>bk_warnThreshold = searchMedium * 3, bk_rejectThreshold = searchMedium * 6,
               bk_timeoutMultiplier = 3 / 2\<rparr>),
            (Read_light, \<lparr>bk_warnThreshold = 64, bk_rejectThreshold = 128, bk_timeoutMultiplier = 1\<rparr>),
            (Network, \<lparr>bk_warnThreshold = network * 2, bk_rejectThreshold = network * 4, bk_timeoutMultiplier = 3 / 2\<rparr>),
            (Exclusive_repo, \<lparr>bk_warnThreshold = 2, bk_rejectThreshold = 4, bk_timeoutMultiplier = 5\<rparr>)]\<rparr>)"

definition estimateProfile :: "millis \<Rightarrow> MachineInfo \<Rightarrow> CapacityProfile" where
  "estimateProfile now machine =
     (let scores =
        \<lparr>cs_cpuSingle = (case mi_perfCores machine of
            Some p \<Rightarrow> if p \<noteq> 0 then p * 100 else mi_cpuCount machine * 50 | None \<Rightarrow> mi_cpuCount machine * 50),
         cs_cpuMulti = mi_cpuCount machine * 40, cs_memoryHeadroom = mi_freeMemoryBytes machine,
         cs_diskWriteMbSec = 500, cs_diskReadMbSec = 1000, cs_repoScanFilesPerSec = 5000,
         cs_valkeyPingMs = None, cs_pglitePingMs = None\<rparr>
      in \<lparr>cf_generatedAt = now, cf_machine = machine, cf_scores = scores,
          cf_scheduler = deriveSchedulerLimits machine scores, cf_confidence = Conf_estimated\<rparr>)"

section \<open>Pressure\<close>

datatype PressureLevel = P_idle | P_normal | P_elevated | P_high | P_critical

record PressureSnapshot =
  px_level :: PressureLevel
  px_eventLoopLagMs :: int
  px_memoryPressure :: rat
  px_queueDepth :: int
  px_queueLatencyMs :: int
  px_cpuHeavyActive :: int
  px_ioHeavyActive :: int
  px_timestamp :: int

record PressureMonitor =
  pr_cpuHeavyActive :: int
  pr_ioHeavyActive :: int
  pr_queueDepth :: int
  pr_queueLatencyMs :: int

definition createPressureMonitor :: PressureMonitor where
  "createPressureMonitor = \<lparr>pr_cpuHeavyActive = 0, pr_ioHeavyActive = 0, pr_queueDepth = 0, pr_queueLatencyMs = 0\<rparr>"

text \<open>The thresholds on the used share of memory are the nearest binary64 numbers.\<close>

definition classifyLevel :: "int \<Rightarrow> rat \<Rightarrow> int \<Rightarrow> PressureLevel" where
  "classifyLevel lag mem qDepth =
     (if lag > 200 \<or> mem > fl (95 / 100) \<or> qDepth > 100 then P_critical
      else if lag > 100 \<or> mem > fl (85 / 100) \<or> qDepth > 50 then P_high
      else if lag > 40 \<or> mem > fl (70 / 100) \<or> qDepth > 20 then P_elevated
      else if lag > 10 \<or> mem > fl (50 / 100) \<or> qDepth > 5 then P_normal
      else P_idle)"

definition measureMemoryPressure :: "(rat \<times> rat) option \<Rightarrow> rat" where
  "measureMemoryPressure os =
     (case os of Some (total_bytes, free_bytes) \<Rightarrow> num_sub 1 (num_div free_bytes total_bytes) | None \<Rightarrow> fl (1 / 2))"

text \<open>\<open>elapsed\<close> is what the clock advanced while the monitor was busy for five milliseconds.\<close>

definition measureEventLoopLag :: "int \<Rightarrow> int" where
  "measureEventLoopLag elapsed = max 0 (elapsed - 5)"

definition pressure_snapshot :: "int \<Rightarrow> (rat \<times> rat) option \<Rightarrow> millis \<Rightarrow> PressureMonitor \<Rightarrow> PressureSnapshot" where
  "pressure_snapshot elapsed os now m =
     (let lag = measureEventLoopLag elapsed; mem = measureMemoryPressure os
      in \<lparr>px_level = classifyLevel lag mem (pr_queueDepth m), px_eventLoopLagMs = lag, px_memoryPressure = mem,
          px_queueDepth = pr_queueDepth m, px_queueLatencyMs = pr_queueLatencyMs m,
          px_cpuHeavyActive = pr_cpuHeavyActive m, px_ioHeavyActive = pr_ioHeavyActive m, px_timestamp = now\<rparr>)"

definition reportActiveJobs :: "int \<Rightarrow> int \<Rightarrow> PressureMonitor \<Rightarrow> PressureMonitor" where
  "reportActiveJobs cpu io m = m\<lparr>pr_cpuHeavyActive := cpu, pr_ioHeavyActive := io\<rparr>"

definition reportQueueState :: "int \<Rightarrow> int \<Rightarrow> PressureMonitor \<Rightarrow> PressureMonitor" where
  "reportQueueState depth avgLatency m = m\<lparr>pr_queueDepth := depth, pr_queueLatencyMs := avgLatency\<rparr>"

section \<open>Adaptive limits\<close>

record AdaptiveLimits =
  al_cpuHeavy :: int
  al_ioHeavy :: int
  al_searchMedium :: int
  al_network :: int
  al_maxAgents :: int

text \<open>Limits are not negative, so \<open>div\<close> is \<open>Math.floor\<close> of the quotient.\<close>

fun computeAdaptiveLimits :: "PressureLevel \<Rightarrow> AdaptiveLimits \<Rightarrow> AdaptiveLimits \<Rightarrow> AdaptiveLimits" where
  "computeAdaptiveLimits P_critical m c =
     \<lparr>al_cpuHeavy = max 1 (al_cpuHeavy c div 4), al_ioHeavy = max 1 (al_ioHeavy c div 2),
      al_searchMedium = max 1 (al_searchMedium c div 3), al_network = max 1 (al_network c div 2),
      al_maxAgents = max 1 (al_maxAgents c div 3)\<rparr>"
| "computeAdaptiveLimits P_high m c =
     \<lparr>al_cpuHeavy = max 1 (al_cpuHeavy c div 2), al_ioHeavy = max 1 (al_ioHeavy c div 2),
      al_searchMedium = max 1 (al_searchMedium c div 2), al_network = max 2 (al_network c div 2),
      al_maxAgents = max 2 (al_maxAgents c div 2)\<rparr>"
| "computeAdaptiveLimits P_elevated m c = c"
| "computeAdaptiveLimits P_normal m c =
     \<lparr>al_cpuHeavy = min (al_cpuHeavy m) (al_cpuHeavy c + 1),
      al_ioHeavy = min (al_ioHeavy m) (al_ioHeavy c + (if al_ioHeavy c < al_ioHeavy m then 1 else 0)),
      al_searchMedium = min (al_searchMedium m) (al_searchMedium c + 2),
      al_network = min (al_network m) (al_network c + 2), al_maxAgents = min (al_maxAgents m) (al_maxAgents c + 1)\<rparr>"
| "computeAdaptiveLimits P_idle m c =
     \<lparr>al_cpuHeavy = min (al_cpuHeavy m) (al_cpuHeavy c + 2), al_ioHeavy = min (al_ioHeavy m) (al_ioHeavy c + 1),
      al_searchMedium = min (al_searchMedium m) (al_searchMedium c + 4),
      al_network = min (al_network m) (al_network c + 4), al_maxAgents = min (al_maxAgents m) (al_maxAgents c + 2)\<rparr>"

definition profile_max :: "CapacityProfile \<Rightarrow> AdaptiveLimits" where
  "profile_max profile =
     (let limits = sl_resourceLimits (cf_scheduler profile)
      in \<lparr>al_cpuHeavy = nullish (map_of limits Cpu_heavy) 2, al_ioHeavy = nullish (map_of limits Io_heavy) 1,
          al_searchMedium = nullish (map_of limits Search_medium) 4, al_network = nullish (map_of limits Network) 8,
          al_maxAgents = sl_maxAgents (cf_scheduler profile)\<rparr>)"

text \<open>A tick of the monitor: the new limits are taken when those of heavy jobs, i/o or agents differ.\<close>

definition adaptive_tick :: "AdaptiveLimits \<Rightarrow> PressureLevel \<Rightarrow> AdaptiveLimits \<Rightarrow> AdaptiveLimits" where
  "adaptive_tick profileMax level current =
     (let new = computeAdaptiveLimits level profileMax current
      in if al_cpuHeavy new \<noteq> al_cpuHeavy current \<or> al_ioHeavy new \<noteq> al_ioHeavy current \<or>
            al_maxAgents new \<noteq> al_maxAgents current
         then new else current)"

fun adaptive_run :: "AdaptiveLimits \<Rightarrow> PressureLevel list \<Rightarrow> AdaptiveLimits \<Rightarrow> AdaptiveLimits" where
  "adaptive_run m [] c = c"
| "adaptive_run m (l # ls) c = adaptive_run m ls (adaptive_tick m l c)"

definition getResourceLimit :: "AdaptiveLimits \<Rightarrow> ResourceClass \<Rightarrow> int" where
  "getResourceLimit c rc =
     (case rc of Cpu_heavy \<Rightarrow> al_cpuHeavy c | Io_heavy \<Rightarrow> al_ioHeavy c | Search_medium \<Rightarrow> al_searchMedium c
      | Network \<Rightarrow> al_network c | Exclusive_repo \<Rightarrow> 1 | Read_light \<Rightarrow> 32)"

definition active_agents :: "ToolJobState list \<Rightarrow> nat" where
  "active_agents allJobs =
     card (set (List.map (\<lambda>j. ti_agentId (tj_input (ts_job j)))
       (List.filter (\<lambda>j. ts_status j \<notin> {JS_completed, JS_failed, JS_cancelled}) allJobs)))"

text \<open>The base scheduler is the one in this process; both outcomes of the class limit submit the job.\<close>

definition adaptive_submit ::
    "millis \<Rightarrow> AdaptiveLimits \<Rightarrow> ToolJobInput \<Rightarrow> local_scheduler \<Rightarrow> (string \<times> bool \<times> string option) \<times> local_scheduler" where
  "adaptive_submit now c input s =
     (let allJobs = listJobs s (Some (ti_projectId input));
          limit = getResourceLimit c (ti_resourceClass input);
          active = length (List.filter (\<lambda>j. ts_status j = JS_running \<and>
             ti_resourceClass (tj_input (ts_job j)) = ti_resourceClass input) allJobs)
      in if int (active_agents allJobs) \<ge> al_maxAgents c
         then (([], False, Some (''Agent limit reached ('' @ show_int (al_maxAgents c) @ '')'')), s)
         else if int active \<ge> limit then (case submit now input s of (jid, s') \<Rightarrow> ((jid, True, None), s'))
         else (case submit now input s of (jid, s') \<Rightarrow> ((jid, True, None), s')))"

definition syncPressure :: "local_scheduler \<Rightarrow> PressureMonitor \<Rightarrow> PressureMonitor" where
  "syncPressure s m =
     (let allJobs = listJobs s None;
          running_of = (\<lambda>rc. int (length (List.filter (\<lambda>j. ts_status j = JS_running \<and>
             ti_resourceClass (tj_input (ts_job j)) = rc) allJobs)));
          queued = int (length (List.filter (\<lambda>j. ts_status j = JS_pending \<or> ts_status j = JS_admitted) allJobs))
      in reportQueueState queued 0 (reportActiveJobs (running_of Cpu_heavy) (running_of Io_heavy) m))"

section \<open>Bounds and recovery\<close>

text \<open>Limits between one and the profile, whose lag behind the profile the agents' lag covers.\<close>

definition limits_ok :: "AdaptiveLimits \<Rightarrow> AdaptiveLimits \<Rightarrow> bool" where
  "limits_ok m c \<longleftrightarrow>
     1 \<le> al_cpuHeavy c \<and> al_cpuHeavy c \<le> al_cpuHeavy m \<and> 1 \<le> al_ioHeavy c \<and> al_ioHeavy c \<le> al_ioHeavy m \<and>
     1 \<le> al_searchMedium c \<and> al_searchMedium c \<le> al_searchMedium m \<and> 1 \<le> al_network c \<and> al_network c \<le> al_network m \<and>
     1 \<le> al_maxAgents c \<and> al_maxAgents c \<le> al_maxAgents m"

definition agents_lag :: "AdaptiveLimits \<Rightarrow> AdaptiveLimits \<Rightarrow> bool" where
  "agents_lag m c \<longleftrightarrow>
     al_searchMedium m - al_searchMedium c \<le> 2 * (al_maxAgents m - al_maxAgents c) \<and>
     al_network m - al_network c \<le> 2 * (al_maxAgents m - al_maxAgents c)"

definition derived_max :: "MemoryClass \<Rightarrow> AdaptiveLimits" where
  "derived_max k =
     (case class_limits k of (agents, cpu, io, srch, readl, netw) \<Rightarrow>
        \<lparr>al_cpuHeavy = cpu, al_ioHeavy = io, al_searchMedium = srch, al_network = netw, al_maxAgents = agents\<rparr>)"

lemma profile_max_derived: "profile_max (estimateProfile now machine) = derived_max (mi_memoryClass machine)"
  by (cases "mi_memoryClass machine")
    (simp_all add: profile_max_def estimateProfile_def deriveSchedulerLimits_def derived_max_def Let_def)

lemma derived_simps [simp]:
  "al_cpuHeavy (derived_max k) = (case k of Mem_low \<Rightarrow> 1 | Mem_medium \<Rightarrow> 2 | Mem_high \<Rightarrow> 4 | Mem_extreme \<Rightarrow> 8)"
  "al_ioHeavy (derived_max k) = (case k of Mem_low \<Rightarrow> 1 | Mem_medium \<Rightarrow> 1 | Mem_high \<Rightarrow> 2 | Mem_extreme \<Rightarrow> 3)"
  "al_searchMedium (derived_max k) = (case k of Mem_low \<Rightarrow> 2 | Mem_medium \<Rightarrow> 4 | Mem_high \<Rightarrow> 8 | Mem_extreme \<Rightarrow> 12)"
  "al_network (derived_max k) = (case k of Mem_low \<Rightarrow> 4 | Mem_medium \<Rightarrow> 8 | Mem_high \<Rightarrow> 12 | Mem_extreme \<Rightarrow> 16)"
  "al_maxAgents (derived_max k) = (case k of Mem_low \<Rightarrow> 4 | Mem_medium \<Rightarrow> 8 | Mem_high \<Rightarrow> 18 | Mem_extreme \<Rightarrow> 32)"
  by (cases k; simp add: derived_max_def)+

text \<open>A profile with room for the smallest limits, whose agents outnumber its other limits.\<close>

definition roomy :: "AdaptiveLimits \<Rightarrow> bool" where
  "roomy m \<longleftrightarrow> 1 \<le> al_cpuHeavy m \<and> 1 \<le> al_ioHeavy m \<and> 1 \<le> al_searchMedium m \<and> 2 \<le> al_network m \<and> 2 \<le> al_maxAgents m \<and>
     al_searchMedium m - 1 \<le> 2 * (al_maxAgents m - max 2 (al_maxAgents m div 2)) \<and>
     al_network m - 1 \<le> 2 * (al_maxAgents m - max 2 (al_maxAgents m div 2))"

lemma derived_roomy: "roomy (derived_max k)"
  by (cases k) (simp_all add: roomy_def)

lemma quotient_le: "1 \<le> x \<Longrightarrow> x \<le> M \<Longrightarrow> x div numeral k \<le> (M :: int)"
  using zdiv_mono2 [of x 1 "numeral k"] by simp

lemma half_mono: "a \<le> b \<Longrightarrow> a div 2 \<le> (b :: int) div 2"
  by (rule zdiv_mono1) simp_all

lemma third_le_half: "1 \<le> a \<Longrightarrow> a div 3 \<le> (a :: int) div 2"
  by (rule zdiv_mono2) simp_all

lemma compute_in_bounds:
  assumes "roomy m" "limits_ok m c"
  shows "limits_ok m (computeAdaptiveLimits l m c)"
proof (cases l)
  case P_idle
  then show ?thesis using assms by (simp add: limits_ok_def)
next
  case P_normal
  then show ?thesis using assms by (simp add: limits_ok_def)
next
  case P_elevated
  then show ?thesis using assms by simp
next
  case P_high
  then show ?thesis using assms by (simp add: limits_ok_def roomy_def quotient_le max_def)
next
  case P_critical
  then show ?thesis using assms by (simp add: limits_ok_def roomy_def quotient_le)
qed

lemma shrunk_lag:
  assumes "roomy m" "1 \<le> x" "1 \<le> y" "a' \<le> max 2 (al_maxAgents m div 2)"
  shows "al_searchMedium m - x \<le> 2 * (al_maxAgents m - a')" "al_network m - y \<le> 2 * (al_maxAgents m - a')"
proof -
  define X where "X = max 2 (al_maxAgents m div 2)"
  have r: "al_searchMedium m - 1 \<le> 2 * (al_maxAgents m - X)" "al_network m - 1 \<le> 2 * (al_maxAgents m - X)"
    using assms(1) by (simp_all add: roomy_def X_def)
  have "a' \<le> X" using assms(4) by (simp add: X_def)
  with r assms(2,3) show "al_searchMedium m - x \<le> 2 * (al_maxAgents m - a')"
    "al_network m - y \<le> 2 * (al_maxAgents m - a')" by simp_all
qed

lemma compute_agents_lag:
  assumes "roomy m" "limits_ok m c" "agents_lag m c"
  shows "agents_lag m (computeAdaptiveLimits l m c)"
proof (cases l)
  case P_idle
  have "M - min M (x + 4) \<le> 2 * (A - min A (a + 2))" if "M - x \<le> 2 * (A - a)" "a \<le> A" for M x A a :: int
    using that by (auto simp: min_def)
  with P_idle assms show ?thesis by (simp add: agents_lag_def limits_ok_def)
next
  case P_normal
  have "M - min M (x + 2) \<le> 2 * (A - min A (a + 1))" if "M - x \<le> 2 * (A - a)" "a \<le> A" for M x A a :: int
    using that by (auto simp: min_def)
  with P_normal assms show ?thesis by (simp add: agents_lag_def limits_ok_def)
next
  case P_elevated
  with assms show ?thesis by simp
next
  case P_high
  have "max 2 (al_maxAgents c div 2) \<le> max 2 (al_maxAgents m div 2)"
    using assms(2) half_mono [of "al_maxAgents c" "al_maxAgents m"] by (simp add: limits_ok_def)
  from shrunk_lag [OF assms(1) _ _ this, of "max 1 (al_searchMedium c div 2)" "max 2 (al_network c div 2)"] P_high
  show ?thesis by (simp add: agents_lag_def)
next
  case P_critical
  have "max 1 (al_maxAgents c div 3) \<le> max 2 (al_maxAgents m div 2)"
    using assms(2) half_mono [of "al_maxAgents c" "al_maxAgents m"] third_le_half [of "al_maxAgents c"]
    by (intro max.mono) (simp_all add: limits_ok_def)
  from shrunk_lag [OF assms(1) _ _ this, of "max 1 (al_searchMedium c div 3)" "max 1 (al_network c div 2)"] P_critical
  show ?thesis by (simp add: agents_lag_def)
qed

lemma adaptive_run_ok:
  assumes "roomy m" "limits_ok m c" "agents_lag m c"
  shows "limits_ok m (adaptive_run m ls c) \<and> agents_lag m (adaptive_run m ls c)"
  using assms(2,3)
proof (induction ls arbitrary: c)
  case (Cons l ls)
  have "limits_ok m (adaptive_tick m l c) \<and> agents_lag m (adaptive_tick m l c)"
    using compute_in_bounds [OF assms(1)] compute_agents_lag [OF assms(1)] Cons.prems
    by (simp add: adaptive_tick_def Let_def)
  with Cons.IH show ?case by simp
qed simp

lemma adaptive_run_append: "adaptive_run m (ls @ ls') c = adaptive_run m ls' (adaptive_run m ls c)"
  by (induction ls arbitrary: c) simp_all

lemma idle_ticks:
  assumes "limits_ok m c"
  shows "al_cpuHeavy (adaptive_run m (replicate n P_idle) c) = min (al_cpuHeavy m) (al_cpuHeavy c + 2 * int n) \<and>
    al_ioHeavy (adaptive_run m (replicate n P_idle) c) = min (al_ioHeavy m) (al_ioHeavy c + int n) \<and>
    al_maxAgents (adaptive_run m (replicate n P_idle) c) = min (al_maxAgents m) (al_maxAgents c + 2 * int n)"
proof (induction n)
  case 0
  with assms show ?case by (simp add: limits_ok_def)
next
  case (Suc n)
  let ?c = "adaptive_run m (replicate n P_idle) c"
  have "adaptive_run m (replicate (Suc n) P_idle) c = adaptive_tick m P_idle ?c"
    by (simp add: adaptive_run_append flip: replicate_append_same)
  moreover have "al_cpuHeavy (adaptive_tick m P_idle ?c) = min (al_cpuHeavy m) (al_cpuHeavy ?c + 2)"
    "al_ioHeavy (adaptive_tick m P_idle ?c) = min (al_ioHeavy m) (al_ioHeavy ?c + 1)"
    "al_maxAgents (adaptive_tick m P_idle ?c) = min (al_maxAgents m) (al_maxAgents ?c + 2)"
    by (simp_all add: adaptive_tick_def Let_def)
  ultimately show ?case using Suc by (auto simp: min_def)
qed

text \<open>
  C20: the adaptive limits stay within the profile of the machine and return to it.  For the profile derived from
  any machine and any course of the pressure, each limit is at least one and at most the profile's; and sixteen
  ticks without pressure restore all five of them, although a tick that changes only the search or the network
  limit is not taken.
\<close>

theorem limits_recover:
  "let m = profile_max (estimateProfile now machine)
   in limits_ok m (adaptive_run m ls m) \<and> adaptive_run m (ls @ replicate 16 P_idle) m = m"
proof -
  define m where "m = profile_max (estimateProfile now machine)"
  have m: "m = derived_max (mi_memoryClass machine)" by (simp add: m_def profile_max_derived)
  have roomy: "roomy m" by (simp add: m derived_roomy)
  then have start: "limits_ok m m" "agents_lag m m" by (simp_all add: limits_ok_def agents_lag_def roomy_def)
  let ?c = "adaptive_run m ls m" let ?d = "adaptive_run m (ls @ replicate 16 P_idle) m"
  have c: "limits_ok m ?c" using adaptive_run_ok [OF roomy start] by simp
  have d: "limits_ok m ?d" "agents_lag m ?d" using adaptive_run_ok [OF roomy start, of "ls @ replicate 16 P_idle"] by simp_all
  have small: "al_cpuHeavy m \<le> 33" "al_ioHeavy m \<le> 17" "al_maxAgents m \<le> 33"
    by (cases "mi_memoryClass machine"; simp add: m)+
  have full: "al_cpuHeavy ?d = al_cpuHeavy m" "al_ioHeavy ?d = al_ioHeavy m" "al_maxAgents ?d = al_maxAgents m"
    using idle_ticks [OF c, of 16] small c by (auto simp: adaptive_run_append limits_ok_def)
  with d have "al_searchMedium ?d = al_searchMedium m" "al_network ?d = al_network m"
    by (simp_all add: limits_ok_def agents_lag_def)
  with full have "?d = m" by simp
  with c show ?thesis by (simp add: m_def Let_def)
qed

text \<open>The class limit decides nothing: with room for the agent, every job is submitted.\<close>

lemma class_limit_unused:
  "int (active_agents (listJobs s (Some (ti_projectId input)))) < al_maxAgents c \<Longrightarrow>
   adaptive_submit now c input s = ((fst (submit now input s), True, None), snd (submit now input s))"
  by (simp add: adaptive_submit_def Let_def split: prod.splits)

end
