(* ===== verification/Tool_Bridge.thy ===== *)
theory Tool_Bridge imports Tool_Scheduler begin

text \<open>
  The cache of tool results (\<open>coordination/tool-cache.ts\<close>, and the table of \<open>coordination/single-flight-cache.ts\<close>),
  the log of realtime events (\<open>coordination/realtime-event-bridge.ts\<close>), and the bridge through which agents run
  tools (\<open>coordination/tool-runtime-bridge.ts\<close>).  A call of the bridge is cut where it awaits: its lookup, its check
  for admission, its submission, and the end of the tool, whose outcome is an argument.
\<close>

section \<open>Cache keys and policy\<close>

datatype InvalidationScope =
  Scope_file_digest | Scope_working_tree_snapshot | Scope_repo_snapshot | Scope_config_digest | Scope_time_ttl |
  Scope_provider_state

record ToolCacheKey =
  ck_toolName :: string
  ck_key :: string
  ck_label :: string
  ck_scopes :: "InvalidationScope list"
  ck_digests :: "(string \<times> string) list"

definition buildCacheKey ::
    "string \<Rightarrow> string \<Rightarrow> string option \<Rightarrow> InvalidationScope list option \<Rightarrow> string option \<Rightarrow> ToolCacheKey" where
  "buildCacheKey toolName idempotencyKey repoHead scopes label =
     (let parts = [toolName, idempotencyKey] @
            (case repoHead of Some h \<Rightarrow> if h \<noteq> [] then [h] else [] | None \<Rightarrow> [])
      in \<lparr>ck_toolName = toolName, ck_key = js_join '':'' parts,
          ck_label = nullish label (toolName @ ''('' @ take 12 idempotencyKey @ '')''),
          ck_scopes = nullish scopes [Scope_working_tree_snapshot], ck_digests = []\<rparr>)"

definition ttlForResourceClass :: "string \<Rightarrow> int" where
  "ttlForResourceClass rc =
     (if rc = ''read_light'' then 30000 else if rc = ''search_medium'' then 60000 else if rc = ''cpu_heavy'' then 300000
      else if rc = ''io_heavy'' then 300000 else if rc = ''network'' then 120000 else 60000)"

definition UNCACHEABLE_TOOLS :: "string list" where
  "UNCACHEABLE_TOOLS = [''write_file'', ''edit'', ''git_checkpoint'', ''npm_install'', ''migration_execute'',
     ''secrets_get'', ''secrets_set'']"

definition isCacheable :: "string \<Rightarrow> bool" where
  "isCacheable toolName \<longleftrightarrow> toolName \<notin> set UNCACHEABLE_TOOLS"

section \<open>The table of results\<close>

record ToolCacheEntry =
  ce_key :: string
  ce_result :: json
  ce_status :: ToolJobStatus
  ce_createdAt :: int
  ce_expiresAt :: int
  ce_ttlMs :: int

record tool_cache =
  tc_cache :: "(string \<times> ToolCacheEntry) list"
  tc_hits :: nat
  tc_misses :: nat

definition empty_tool_cache :: tool_cache where
  "empty_tool_cache = \<lparr>tc_cache = [], tc_hits = 0, tc_misses = 0\<rparr>"

definition cache_set :: "millis \<Rightarrow> string \<Rightarrow> json \<Rightarrow> int \<Rightarrow> tool_cache \<Rightarrow> tool_cache" where
  "cache_set now key result ttlMs c =
     c\<lparr>tc_cache := map_set key \<lparr>ce_key = key, ce_result = result, ce_status = JS_completed, ce_createdAt = now,
         ce_expiresAt = now + ttlMs, ce_ttlMs = ttlMs\<rparr> (tc_cache c)\<rparr>"

definition cache_get :: "millis \<Rightarrow> string \<Rightarrow> tool_cache \<Rightarrow> ToolCacheEntry option \<times> tool_cache" where
  "cache_get now key c =
     (case map_get (tc_cache c) key of
        None \<Rightarrow> (None, c\<lparr>tc_misses := tc_misses c + 1\<rparr>)
      | Some entry \<Rightarrow>
          if now > ce_expiresAt entry
          then (None, c\<lparr>tc_cache := map_delete key (tc_cache c), tc_misses := tc_misses c + 1\<rparr>)
          else (Some entry, c\<lparr>tc_hits := tc_hits c + 1\<rparr>))"

definition cache_invalidate :: "InvalidationScope \<Rightarrow> string \<Rightarrow> tool_cache \<Rightarrow> nat \<times> tool_cache" where
  "cache_invalidate scope oldDigest c = (length (tc_cache c), c\<lparr>tc_cache := []\<rparr>)"

definition cache_stats :: "tool_cache \<Rightarrow> nat \<times> nat \<times> nat" where
  "cache_stats c = (length (tc_cache c), tc_hits c, tc_misses c)"

section \<open>Realtime events\<close>

datatype RealtimeEventKind =
  Ev_agent_heartbeat | Ev_agent_started | Ev_agent_completed | Ev_agent_failed | Ev_agent_blocked |
  Ev_job_submitted | Ev_job_started | Ev_job_completed | Ev_job_failed | Ev_job_cancelled |
  Ev_projection_stale | Ev_projection_current | Ev_context_invalidated | Ev_backpressure_changed

record RealtimeEvent =
  ev_kind :: RealtimeEventKind
  ev_projectId :: "string option"
  ev_agentId :: "string option"
  ev_jobId :: "string option"
  ev_payload :: "(string \<times> json) list"
  ev_timestamp :: int

definition event_log_emit :: "RealtimeEvent \<Rightarrow> RealtimeEvent list \<Rightarrow> RealtimeEvent list" where
  "event_log_emit event eventLog = (let l = eventLog @ [event] in if length l > 500 then drop (length l - 500) l else l)"

definition eventsSince :: "int \<Rightarrow> RealtimeEvent list \<Rightarrow> RealtimeEvent list" where
  "eventsSince timestamp eventLog = List.filter (\<lambda>e. ev_timestamp e > timestamp) eventLog"

text \<open>The loop runs from the newest event down to the first that is old, which goes with all before it.\<close>

fun reap_newest :: "int \<Rightarrow> RealtimeEvent list \<Rightarrow> RealtimeEvent list" where
  "reap_newest cutoff [] = []"
| "reap_newest cutoff (e # es) = (if ev_timestamp e < cutoff then [] else e # reap_newest cutoff es)"

definition event_log_reap :: "millis \<Rightarrow> int \<Rightarrow> RealtimeEvent list \<Rightarrow> nat \<times> RealtimeEvent list" where
  "event_log_reap now ageMs eventLog =
     (let rest = rev (reap_newest (now - ageMs) (rev eventLog)) in (length eventLog - length rest, rest))"

section \<open>The bridge\<close>

record ToolCallRequest =
  rq_toolName :: string
  rq_args :: json
  rq_agentId :: string
  rq_projectId :: string
  rq_repoRoot :: string
  rq_idempotencyKey :: "string option"

record tool_bridge =
  br_scheduler :: local_scheduler
  br_cache :: "tool_cache option"
  br_events :: "RealtimeEvent list"

definition createToolRuntimeBridge :: "tool_cache option \<Rightarrow> tool_bridge" where
  "createToolRuntimeBridge cache = \<lparr>br_scheduler = createLocalToolScheduler, br_cache = cache, br_events = []\<rparr>"

definition bridge_emit ::
    "millis \<Rightarrow> RealtimeEventKind \<Rightarrow> ToolCallRequest \<Rightarrow> string option \<Rightarrow> (string \<times> json) list \<Rightarrow> tool_bridge \<Rightarrow> tool_bridge" where
  "bridge_emit now kind request jobId payload b =
     b\<lparr>br_events := event_log_emit \<lparr>ev_kind = kind, ev_projectId = Some (rq_projectId request),
         ev_agentId = Some (rq_agentId request), ev_jobId = jobId,
         ev_payload = (''toolName'', J_str (rq_toolName request)) # payload, ev_timestamp = now\<rparr> (br_events b)\<rparr>"

definition request_key :: "ToolCallRequest \<Rightarrow> string option" where
  "request_key request =
     (case rq_idempotencyKey request of
        Some k \<Rightarrow> if k \<noteq> [] \<and> isCacheable (rq_toolName request)
          then Some (ck_key (buildCacheKey (rq_toolName request) k None None
                 (Some (rq_toolName request @ ''('' @ rq_agentId request @ '')'')))) else None
      | None \<Rightarrow> None)"

definition request_class :: "ToolCallRequest \<Rightarrow> ResourceClass" where
  "request_class request = classifyTool (rq_toolName request)"

definition bridge_lookup :: "millis \<Rightarrow> ToolCallRequest \<Rightarrow> tool_bridge \<Rightarrow> ToolJobResult option \<times> tool_bridge" where
  "bridge_lookup now request b =
     (case (br_cache b, request_key request) of
        (Some cache, Some key) \<Rightarrow>
          (case cache_get now key cache of
             (Some cached, cache') \<Rightarrow>
               (Some (Job_completed key (ce_result cached) 0),
                bridge_emit now Ev_job_completed request None [(''source'', J_str ''cache'')] (b\<lparr>br_cache := Some cache'\<rparr>))
           | (None, cache') \<Rightarrow> (None, b\<lparr>br_cache := Some cache'\<rparr>))
      | _ \<Rightarrow> (None, b))"

definition bridge_check :: "ToolCallRequest \<Rightarrow> tool_bridge \<Rightarrow> bool" where
  "bridge_check request b = canAdmit (br_scheduler b) (rq_projectId request) (request_class request)"

definition job_input :: "ToolCallRequest \<Rightarrow> ToolJobInput" where
  "job_input request =
     \<lparr>ti_agentId = rq_agentId request, ti_missionId = None, ti_projectId = rq_projectId request,
      ti_repoRoot = rq_repoRoot request, ti_toolName = rq_toolName request, ti_args = rq_args request,
      ti_resourceClass = request_class request, ti_priority = Normal_priority, ti_requiresClaim = None,
      ti_timeoutMs = 300000, ti_idempotencyKey = rq_idempotencyKey request\<rparr>"

text \<open>How a call goes on: it runs the tool, has its result, or waits for a promise of the scheduler.\<close>

datatype bridge_outcome =
    Runs string ToolCallRequest
  | Returns ToolJobResult
  | Waits string nat ToolCallRequest

definition bridge_submit :: "millis \<Rightarrow> bool \<Rightarrow> ToolCallRequest \<Rightarrow> tool_bridge \<Rightarrow> bridge_outcome \<times> tool_bridge" where
  "bridge_submit now canRun request b =
     (let (jobId, s) = submit now (job_input request) (br_scheduler b);
          b = b\<lparr>br_scheduler := s\<rparr>;
          class_field = (''resourceClass'', J_str (ResourceClass_str (request_class request)))
      in if canRun then (Runs jobId request, bridge_emit now Ev_job_started request (Some jobId) [class_field] b)
         else
           let b = bridge_emit now Ev_job_submitted request (Some jobId) [class_field, (''queued'', J_bool True)] b
           in case awaitResult jobId (br_scheduler b) of
                (Inl result, s) \<Rightarrow> (Returns result, b\<lparr>br_scheduler := s\<rparr>)
              | (Inr promise, s) \<Rightarrow> (Waits jobId promise request, b\<lparr>br_scheduler := s\<rparr>))"

text \<open>The end of a tool that started at \<open>start\<close>: its result, or the message of its error.\<close>

definition bridge_finish ::
    "millis \<Rightarrow> string \<Rightarrow> millis \<Rightarrow> ToolCallRequest \<Rightarrow> string + json \<Rightarrow> tool_bridge \<Rightarrow> ToolJobResult \<times> tool_bridge" where
  "bridge_finish now jobId start request outcome b =
     (case outcome of
        Inr result \<Rightarrow>
          let durationMs = now - start;
              b = (case (br_cache b, request_key request) of
                     (Some cache, Some key) \<Rightarrow> b\<lparr>br_cache := Some (cache_set now key result
                        (ttlForResourceClass (ResourceClass_str (request_class request))) cache)\<rparr>
                   | _ \<Rightarrow> b)
          in (Job_completed jobId result durationMs,
              bridge_emit now Ev_job_completed request (Some jobId) [(''durationMs'', J_num durationMs)] b)
      | Inl message \<Rightarrow>
          (Job_failed jobId ''EXECUTION_ERROR'' message False,
           bridge_emit now Ev_job_failed request (Some jobId) [(''error'', J_str message)] b))"

text \<open>A call up to where it runs its tool, when no other call comes in between.\<close>

definition bridge_begin :: "millis \<Rightarrow> ToolCallRequest \<Rightarrow> tool_bridge \<Rightarrow> bridge_outcome \<times> tool_bridge" where
  "bridge_begin now request b =
     (case bridge_lookup now request b of
        (Some result, b') \<Rightarrow> (Returns result, b')
      | (None, b') \<Rightarrow> bridge_submit now (bridge_check request b') request b')"

section \<open>Slots are never given back\<close>

text \<open>Calls, ends of tools, timers of waiting calls, and the cleaning of the scheduler's table.\<close>

datatype bridge_op =
    Begin ToolCallRequest
  | Finish string millis ToolCallRequest "string + json"
  | Timer string nat
  | Reap_jobs int

fun apply_bridge_op :: "millis \<Rightarrow> bridge_op \<Rightarrow> tool_bridge \<Rightarrow> bridge_outcome list \<times> tool_bridge" where
  "apply_bridge_op now (Begin r) b = (case bridge_begin now r b of (out, b') \<Rightarrow> ([out], b'))"
| "apply_bridge_op now (Finish j s r res) b = (case bridge_finish now j s r res b of (out, b') \<Rightarrow> ([Returns out], b'))"
| "apply_bridge_op now (Timer j p) b = ([], b\<lparr>br_scheduler := await_timer j p 300000 (br_scheduler b)\<rparr>)"
| "apply_bridge_op now (Reap_jobs age) b = ([], b\<lparr>br_scheduler := snd (reap now age (br_scheduler b))\<rparr>)"

fun bridge_run :: "(millis \<times> bridge_op) list \<Rightarrow> tool_bridge \<Rightarrow> bridge_outcome list \<times> tool_bridge" where
  "bridge_run [] b = ([], b)"
| "bridge_run ((now, op) # ops) b =
     (case apply_bridge_op now op b of (outs, b') \<Rightarrow>
        (case bridge_run ops b' of (outs', b'') \<Rightarrow> (outs @ outs', b'')))"

definition runs_in :: "string \<Rightarrow> ResourceClass \<Rightarrow> bridge_outcome \<Rightarrow> bool" where
  "runs_in p rc out \<longleftrightarrow> (case out of Runs j r \<Rightarrow> rq_projectId r = p \<and> request_class r = rc | _ \<Rightarrow> False)"

definition only_timeouts :: "local_scheduler \<Rightarrow> bool" where
  "only_timeouts s \<longleftrightarrow> (\<forall>(p, result) \<in> set (ls_settled s). \<exists>j t. result = Job_timed_out j t)"

text \<open>Promises that wait or are settled were given out.\<close>

definition promises_ok :: "local_scheduler \<Rightarrow> bool" where
  "promises_ok s \<longleftrightarrow> (\<forall>p \<in> fst ` set (ls_settled s). p < ls_promises s) \<and>
     (\<forall>jid. \<forall>p \<in> set (waiters_of s jid). p < ls_promises s)"

lemma emit_scheduler [simp]: "br_scheduler (bridge_emit now k r j pl b) = br_scheduler b"
  by (simp add: bridge_emit_def)

lemma lookup_scheduler:
  "bridge_lookup now r b = (x, b') \<Longrightarrow> br_scheduler b' = br_scheduler b"
  by (auto simp: bridge_lookup_def split: option.splits prod.splits)

lemma finish_scheduler: "br_scheduler (snd (bridge_finish now j s r res b)) = br_scheduler b"
  by (simp add: bridge_finish_def Let_def split: sum.splits option.splits)

lemma set_state_settled [simp]: "ls_settled (set_state jid f s) = ls_settled s"
  by (simp add: set_state_def split: option.splits)

lemma tryAdmit_settled [simp]: "ls_settled (tryAdmit now p rc s) = ls_settled s"
  by (simp add: tryAdmit_def executeJob_def Let_def split: list.splits)

lemma submit_settled [simp]: "ls_settled (snd (submit now i s)) = ls_settled s"
  by (simp add: submit_eq submitted_def Let_def)

lemma submit_active:
  assumes "sched_core s"
  shows "active_of (snd (submit now i s)) k = active_of s k +
    (if k = queueKey (ti_projectId i) (ti_resourceClass i) \<and> active_of s k < RESOURCE_CLASS_CONCURRENCY (ti_resourceClass i)
     then 1 else 0)"
proof -
  note sub = submitted_core [OF assms, of now i]
  have "queues_ok (submitted now i s)" using sub(1) by (simp add: sched_core_def)
  then show ?thesis unfolding submit_eq snd_conv set_state_frame
    by (simp add: tryAdmit_cases sub(2,3) admit_next_frame)
qed

text \<open>What holds of the scheduler between the operations of the bridge, where \<open>n\<close> counts the calls that ran.\<close>

definition bridge_inv :: "(string \<Rightarrow> ResourceClass \<Rightarrow> nat) \<Rightarrow> local_scheduler \<Rightarrow> bool" where
  "bridge_inv n s \<longleftrightarrow> sched_core s \<and> (\<forall>p rc. tight s p rc) \<and> (\<forall>p rc. n p rc = active_of s (queueKey p rc)) \<and>
     only_timeouts s \<and> promises_ok s"

lemma set_state_promises [simp]:
  "ls_promises (set_state jid f s) = ls_promises s" "waiters_of (set_state jid f s) j = waiters_of s j"
  by (simp_all add: set_state_def waiters_of_def split: option.splits)

lemma tryAdmit_promises [simp]:
  "ls_promises (tryAdmit now p rc s) = ls_promises s" "waiters_of (tryAdmit now p rc s) j = waiters_of s j"
  by (simp_all add: tryAdmit_def executeJob_def Let_def split: list.splits) (simp_all add: waiters_of_def)

lemma submitted_promises [simp]:
  "ls_promises (submitted now i s) = ls_promises s" "ls_settled (submitted now i s) = ls_settled s"
  "waiters_of (submitted now i s) j = (if j = genId now (ls_nextId s) then [] else waiters_of s j)"
  by (simp_all add: submitted_def Let_def waiters_of_def)

lemma submit_promises: "promises_ok s \<Longrightarrow> promises_ok (snd (submit now i s))"
  by (simp add: promises_ok_def submit_eq)

lemma await_promises: "promises_ok s \<Longrightarrow> promises_ok (snd (awaitResult j s))"
proof -
  assume ok: "promises_ok s"
  then have "p < Suc (ls_promises s)" if "p \<in> fst ` set (ls_settled s) \<or> p \<in> set (waiters_of s k)" for p k
    using that unfolding promises_ok_def by (meson less_SucI)
  then show ?thesis using ok
    by (simp add: promises_ok_def awaitResult_def split: option.splits) (auto simp: waiters_of_def)
qed

lemma timer_promises: "promises_ok s \<Longrightarrow> promises_ok (await_timer j p t s)"
  by (auto simp: promises_ok_def await_timer_def waiters_of_def dest: notin_set_remove1 set_remove1_subset [THEN subsetD] split: if_splits)

lemma passive_op:
  assumes "bridge_inv n s" "cancels_running op s" "\<And>k. active_of (apply_sched_op now op s) k = active_of s k"
    and "only_timeouts (apply_sched_op now op s)" "promises_ok (apply_sched_op now op s)"
  shows "bridge_inv n (apply_sched_op now op s)"
  using assms apply_sched_op_ok [of s op now] by (simp add: bridge_inv_def)

lemma await_inv: "bridge_inv n s \<Longrightarrow> bridge_inv n (snd (awaitResult j s))"
  using passive_op [of n s "Await j" 0] await_promises [of s j]
  by (simp add: cancels_running_def awaitResult_def active_of_def only_timeouts_def bridge_inv_def split: option.splits)

lemma timer_inv: "bridge_inv n s \<Longrightarrow> bridge_inv n (await_timer j p t s)"
  using passive_op [of n s "Await_timer j p t" 0] timer_promises [of s j p t]
  by (simp add: cancels_running_def await_timer_def active_of_def only_timeouts_def bridge_inv_def split: if_splits)

lemma reap_inv: "bridge_inv n s \<Longrightarrow> bridge_inv n (snd (reap now age s))"
  using passive_op [of n s "Reap age" now]
  by (simp add: cancels_running_def reap_def Let_def active_of_def only_timeouts_def promises_ok_def waiters_of_def bridge_inv_def)

lemma submit_inv:
  assumes "bridge_inv n s"
  shows "RESOURCE_CLASS_CONCURRENCY (ti_resourceClass i) \<le> active_of s (queueKey (ti_projectId i) (ti_resourceClass i)) \<Longrightarrow>
     bridge_inv n (snd (submit now i s))"
    "active_of s (queueKey (ti_projectId i) (ti_resourceClass i)) < RESOURCE_CLASS_CONCURRENCY (ti_resourceClass i) \<Longrightarrow>
     bridge_inv (\<lambda>p rc. n p rc + (if p = ti_projectId i \<and> rc = ti_resourceClass i then 1 else 0)) (snd (submit now i s))"
proof -
  have core: "sched_core s" and n: "\<And>p rc. n p rc = active_of s (queueKey p rc)"
    using assms by (simp_all add: bridge_inv_def)
  have ok: "sched_core (snd (submit now i s)) \<and> (\<forall>p rc. tight (snd (submit now i s)) p rc)"
    using assms submit_ok by (simp add: bridge_inv_def)
  have t: "only_timeouts (snd (submit now i s))" using assms by (simp add: bridge_inv_def only_timeouts_def)
  have pr: "promises_ok (snd (submit now i s))" using assms submit_promises by (simp add: bridge_inv_def)
  show "bridge_inv n (snd (submit now i s))"
    if "RESOURCE_CLASS_CONCURRENCY (ti_resourceClass i) \<le> active_of s (queueKey (ti_projectId i) (ti_resourceClass i))"
    unfolding bridge_inv_def
  proof (intro conjI allI)
    fix p rc show "n p rc = active_of (snd (submit now i s)) (queueKey p rc)"
      using n [of p rc] that by (auto simp: submit_active [OF core])
  qed (use ok t pr in simp_all)
  assume less: "active_of s (queueKey (ti_projectId i) (ti_resourceClass i)) < RESOURCE_CLASS_CONCURRENCY (ti_resourceClass i)"
  show "bridge_inv (\<lambda>p rc. n p rc + (if p = ti_projectId i \<and> rc = ti_resourceClass i then 1 else 0)) (snd (submit now i s))"
    unfolding bridge_inv_def
  proof (intro conjI allI)
    fix p rc
    show "n p rc + (if p = ti_projectId i \<and> rc = ti_resourceClass i then 1 else 0) =
        active_of (snd (submit now i s)) (queueKey p rc)"
      using n [of p rc] less by (auto simp: submit_active [OF core] queueKey_inject)
  qed (use ok t pr in simp_all)
qed

definition run_count :: "bridge_outcome list \<Rightarrow> string \<Rightarrow> ResourceClass \<Rightarrow> nat" where
  "run_count outs p rc = length (List.filter (runs_in p rc) outs)"

lemma run_count_simps [simp]:
  "run_count [] p rc = 0" "run_count (out # outs) p rc = (if runs_in p rc out then 1 else 0) + run_count outs p rc"
  "run_count (xs @ ys) p rc = run_count xs p rc + run_count ys p rc"
  by (simp_all add: run_count_def)

lemma begin_inv:
  assumes "bridge_inv n (br_scheduler b)" "bridge_begin now r b = (out, b')"
  shows "bridge_inv (\<lambda>p rc. n p rc + run_count [out] p rc) (br_scheduler b')"
proof (cases "bridge_lookup now r b")
  case (Pair x b1)
  then have s1: "br_scheduler b1 = br_scheduler b" by (rule lookup_scheduler)
  let ?i = "job_input r"
  have i: "ti_projectId ?i = rq_projectId r" "ti_resourceClass ?i = request_class r" by (simp_all add: job_input_def)
  show ?thesis
  proof (cases x)
    case (Some result)
    with assms(2) Pair have "out = Returns result" "b' = b1" by (simp_all add: bridge_begin_def)
    with assms(1) s1 show ?thesis by (simp add: runs_in_def)
  next
    case None
    with assms(2) Pair have sub: "bridge_submit now (bridge_check r b1) r b1 = (out, b')" by (simp add: bridge_begin_def)
    show ?thesis
    proof (cases "bridge_check r b1")
      case True
      then have "active_of (br_scheduler b) (queueKey (ti_projectId ?i) (ti_resourceClass ?i)) < RESOURCE_CLASS_CONCURRENCY (ti_resourceClass ?i)"
        by (simp add: bridge_check_def canAdmit_def s1 i)
      note inv = submit_inv(2) [OF assms(1) this, of now]
      obtain j s where js: "submit now ?i (br_scheduler b1) = (j, s)" by fastforce
      from sub True js have out: "out = Runs j r" "br_scheduler b' = s" by (auto simp: bridge_submit_def Let_def)
      have "(\<lambda>p rc. n p rc + run_count [out] p rc) = (\<lambda>p rc. n p rc + (if p = rq_projectId r \<and> rc = request_class r then 1 else 0))"
        by (auto simp: out runs_in_def fun_eq_iff)
      with inv js out s1 i show ?thesis by simp
    next
      case False
      then have "RESOURCE_CLASS_CONCURRENCY (ti_resourceClass ?i) \<le> active_of (br_scheduler b) (queueKey (ti_projectId ?i) (ti_resourceClass ?i))"
        by (simp add: bridge_check_def canAdmit_def s1 i)
      note inv = submit_inv(1) [OF assms(1) this, of now]
      obtain j s where js: "submit now ?i (br_scheduler b1) = (j, s)" by fastforce
      obtain y s' where a: "awaitResult j s = (y, s')" by fastforce
      from sub False js a have "br_scheduler b' = s'" "run_count [out] p rc = 0" for p rc
        by (auto simp: bridge_submit_def Let_def runs_in_def split: sum.splits)
      with await_inv [OF inv, of j] js a s1 show ?thesis by simp
    qed
  qed
qed

lemma apply_bridge_inv:
  assumes "bridge_inv n (br_scheduler b)" "apply_bridge_op now op b = (outs, b')"
  shows "bridge_inv (\<lambda>p rc. n p rc + run_count outs p rc) (br_scheduler b')"
proof (cases op)
  case (Begin r)
  obtain out b1 where "bridge_begin now r b = (out, b1)" by fastforce
  with begin_inv [OF assms(1) this] assms(2) Begin show ?thesis by auto
next
  case (Finish j s r res)
  obtain out b1 where f: "bridge_finish now j s r res b = (out, b1)" by fastforce
  with finish_scheduler [of now j s r res b] assms Finish show ?thesis by (auto simp: runs_in_def)
next
  case (Timer j p)
  with assms timer_inv show ?thesis by auto
next
  case (Reap_jobs age)
  with assms reap_inv show ?thesis by auto
qed

lemma bridge_run_inv:
  assumes "bridge_inv n (br_scheduler b)" "bridge_run ops b = (outs, b')"
  shows "bridge_inv (\<lambda>p rc. n p rc + run_count outs p rc) (br_scheduler b')"
  using assms
proof (induction ops arbitrary: n b outs b')
  case (Cons x ops)
  obtain now op where x: "x = (now, op)" by (cases x)
  obtain o1 b1 where 1: "apply_bridge_op now op b = (o1, b1)" by fastforce
  obtain o2 b2 where 2: "bridge_run ops b1 = (o2, b2)" by fastforce
  from Cons.IH [OF apply_bridge_inv [OF Cons.prems(1) 1] 2]
  have "bridge_inv (\<lambda>p rc. n p rc + run_count o1 p rc + run_count o2 p rc) (br_scheduler b2)" by blast
  with Cons.prems(2) x 1 2 show ?case by (auto simp: add.assoc)
qed simp

text \<open>A call that misses the cache runs while its class has room and waits for a new promise otherwise.\<close>

lemma begin_cases:
  assumes "bridge_inv n (br_scheduler b)" "bridge_lookup now r b = (None, b1)"
  shows "if n (rq_projectId r) (request_class r) < RESOURCE_CLASS_CONCURRENCY (request_class r)
    then \<exists>j b'. bridge_begin now r b = (Runs j r, b')
    else \<exists>j b'. bridge_begin now r b = (Waits j (ls_promises (br_scheduler b)) r, b') \<and>
      ls_promises (br_scheduler b) \<in> set (waiters_of (br_scheduler b') j) \<and>
      ls_promises (br_scheduler b) \<notin> fst ` set (ls_settled (br_scheduler b'))"
proof -
  let ?i = "job_input r" and ?k = "queueKey (rq_projectId r) (request_class r)"
  let ?s = "br_scheduler b" and ?j = "genId now (ls_nextId (br_scheduler b))"
  have s1: "br_scheduler b1 = ?s" using assms(2) by (rule lookup_scheduler)
  have n: "n (rq_projectId r) (request_class r) = active_of ?s ?k" using assms(1) by (simp add: bridge_inv_def)
  have beg: "bridge_begin now r b = bridge_submit now (active_of ?s ?k < RESOURCE_CLASS_CONCURRENCY (request_class r)) r b1"
    by (simp add: bridge_begin_def assms(2) bridge_check_def canAdmit_def s1)
  show ?thesis
  proof (cases "active_of ?s ?k < RESOURCE_CLASS_CONCURRENCY (request_class r)")
    case True
    with n beg show ?thesis by (auto simp: bridge_submit_def Let_def split: prod.splits)
  next
    case False
    obtain t where sub: "submit now ?i ?s = (?j, t)" by (simp add: submit_eq)
    have "active_of (submitted now ?i ?s) ?k = active_of ?s ?k" by (simp add: submitted_def Let_def active_of_def)
    with False have none: "tryAdmit now (rq_projectId r) (request_class r) (submitted now ?i ?s) = submitted now ?i ?s"
      by (simp add: tryAdmit_def Let_def)
    obtain st0 where st0: "table_job (submitted now ?i ?s) ?j = Some st0" "ts_result st0 = None"
      by (simp add: table_job_def submitted_def Let_def)
    have "t = set_state ?j (\<lambda>st. if ts_status st = JS_pending then st\<lparr>ts_status := JS_admitted, ts_admittedAt := Some now\<rparr> else st)
        (submitted now ?i ?s)" using none sub by (simp add: submit_eq) (simp add: job_input_def)
    with st0 obtain st where st: "table_job t ?j = Some st" "ts_result st = None" by simp
    have pr: "ls_promises t = ls_promises ?s" using sub by (auto simp: submit_eq)
    have fresh: "ls_promises ?s \<notin> fst ` set (ls_settled t)"
      using assms(1) submit_promises [of ?s now ?i] sub pr by (auto simp: bridge_inv_def promises_ok_def)
    have aw: "awaitResult ?j t = (Inr (ls_promises ?s), t\<lparr>ls_promises := ls_promises ?s + 1,
        ls_waiters := map_set ?j (waiters_of t ?j @ [ls_promises ?s]) (ls_waiters t)\<rparr>)"
      using st by (simp add: awaitResult_def pr)
    have "\<exists>b'. bridge_submit now False r b1 = (Waits ?j (ls_promises ?s) r, b') \<and> br_scheduler b' = snd (awaitResult ?j t)"
      by (simp add: bridge_submit_def s1 sub aw Let_def)
    with False beg have "\<exists>b'. bridge_begin now r b = (Waits ?j (ls_promises ?s) r, b') \<and> br_scheduler b' = snd (awaitResult ?j t)"
      by simp
    then show ?thesis using False n fresh by (auto simp: aw waiters_of_def)
  qed
qed

text \<open>
  C24: the bridge runs as many calls of a class as may run at once, ever.  After any history of calls
  that do not overlap between check and submission, of ends of tools, timers and cleaning, the number of calls whose
  tool ran is at most the concurrency limit for each project and class, because the end of a tool is not told to
  the scheduler.  A further call that misses the cache runs its tool exactly as long as that number is below the limit;
  from then on every such call waits for a new promise of the scheduler, unsettled when it is given out, and every promise
  that is settled is settled by its timeout.
\<close>

theorem bridge_runs_out:
  "case bridge_run ops (createToolRuntimeBridge cache) of (outs, b) \<Rightarrow>
     run_count outs p rc \<le> RESOURCE_CLASS_CONCURRENCY rc \<and> only_timeouts (br_scheduler b) \<and>
     (\<forall>now r. fst (bridge_lookup now r b) = None \<longrightarrow>
        (if run_count outs (rq_projectId r) (request_class r) < RESOURCE_CLASS_CONCURRENCY (request_class r)
         then \<exists>j b'. bridge_begin now r b = (Runs j r, b')
         else \<exists>j p b'. bridge_begin now r b = (Waits j p r, b') \<and> p \<in> set (waiters_of (br_scheduler b') j) \<and>
           p \<notin> fst ` set (ls_settled (br_scheduler b'))))"
proof -
  obtain outs b where run: "bridge_run ops (createToolRuntimeBridge cache) = (outs, b)" by fastforce
  have "bridge_inv (\<lambda>p rc. 0) (br_scheduler (createToolRuntimeBridge cache))"
    by (simp add: bridge_inv_def createToolRuntimeBridge_def createLocalToolScheduler_def sched_core_def known_ids_def
        queues_ok_def counts_ok_def tight_def queue_of_def active_of_def running_def only_timeouts_def promises_ok_def waiters_of_def)
  from bridge_run_inv [OF this run] have inv: "bridge_inv (run_count outs) (br_scheduler b)" by (simp add: fun_eq_iff)
  then have "run_count outs p rc \<le> RESOURCE_CLASS_CONCURRENCY rc"
    using active_le by (simp add: bridge_inv_def sched_core_def)
  moreover have "only_timeouts (br_scheduler b)" using inv by (simp add: bridge_inv_def)
  moreover have "if run_count outs (rq_projectId r) (request_class r) < RESOURCE_CLASS_CONCURRENCY (request_class r)
      then \<exists>j b'. bridge_begin now r b = (Runs j r, b')
      else \<exists>j p b'. bridge_begin now r b = (Waits j p r, b') \<and> p \<in> set (waiters_of (br_scheduler b') j) \<and>
        p \<notin> fst ` set (ls_settled (br_scheduler b'))"
    if "fst (bridge_lookup now r b) = None" for now r
  proof -
    from that obtain b1 where "bridge_lookup now r b = (None, b1)" by (metis prod.collapse)
    from begin_cases [OF inv this] show ?thesis by (auto split: if_splits)
  qed
  ultimately show ?thesis by (simp add: run)
qed

text \<open>A build runs and ends; the next build of the project waits.\<close>

definition one_build :: ToolCallRequest where
  "one_build = \<lparr>rq_toolName = ''build'', rq_args = J_null, rq_agentId = ''a'', rq_projectId = ''p'', rq_repoRoot = ''/'',
     rq_idempotencyKey = None\<rparr>"

theorem bridge_runs_out_witness:
  "\<exists>j p b'. bridge_begin 2 one_build (snd (bridge_run [(1, Begin one_build), (1, Finish ''job_1_1'' 1 one_build (Inr J_null))]
     (createToolRuntimeBridge None))) = (Waits j p one_build, b')"
proof -
  let ?ops = "[(1, Begin one_build), (1, Finish ''job_1_1'' 1 one_build (Inr J_null))]"
  obtain outs b where run: "bridge_run ?ops (createToolRuntimeBridge None) = (outs, b)" by fastforce
  have cls: "request_class one_build = Cpu_heavy" by (simp add: request_class_def one_build_def classifyTool_def TOOL_CLASSIFICATION_def)
  have key: "request_key one_build = None" by (simp add: request_key_def one_build_def)
  have look: "fst (bridge_lookup now one_build b) = None" for now b by (simp add: bridge_lookup_def key split: option.splits)
  have "\<exists>j b'. bridge_begin 1 one_build (createToolRuntimeBridge None) = (Runs j one_build, b')"
    using bridge_runs_out [where ops = "[]" and cache = None] look [of 1] by (simp add: cls)
  then obtain j b1 where first: "bridge_begin 1 one_build (createToolRuntimeBridge None) = (Runs j one_build, b1)" by blast
  have p: "rq_projectId one_build = ''p''" by (simp add: one_build_def)
  from run first have "run_count outs ''p'' Cpu_heavy = 1"
    by (auto simp: runs_in_def cls p split: prod.splits)
  then have full: "\<not> run_count outs (rq_projectId one_build) (request_class one_build) < RESOURCE_CLASS_CONCURRENCY (request_class one_build)"
    by (simp add: cls p)
  have "\<exists>j p b'. bridge_begin 2 one_build b = (Waits j p one_build, b') \<and> p \<in> set (waiters_of (br_scheduler b') j) \<and>
      p \<notin> fst ` set (ls_settled (br_scheduler b'))"
    using bridge_runs_out [where ops = ?ops and cache = None] look [of 2 b] full unfolding run prod.case by meson
  then show ?thesis unfolding run snd_conv by blast
qed

text \<open>Calls that overlap between check and submission all run, whatever their number.\<close>

fun submit_checked :: "millis \<Rightarrow> ToolCallRequest list \<Rightarrow> tool_bridge \<Rightarrow> bridge_outcome list \<times> tool_bridge" where
  "submit_checked now [] b = ([], b)"
| "submit_checked now (r # rs) b =
     (case bridge_submit now True r b of (out, b') \<Rightarrow>
        (case submit_checked now rs b' of (outs, b'') \<Rightarrow> (out # outs, b'')))"

lemma overlapping_calls_run:
  "(\<forall>r \<in> set rs. bridge_check r (createToolRuntimeBridge cache)) \<and>
   length (List.filter (\<lambda>out. \<exists>j r. out = Runs j r) (fst (submit_checked now rs b))) = length rs"
proof -
  have "0 < RESOURCE_CLASS_CONCURRENCY rc" for rc by (cases rc) simp_all
  moreover have "length (List.filter (\<lambda>out. \<exists>j r. out = Runs j r) (fst (submit_checked now rs b))) = length rs"
  proof (induction rs arbitrary: b)
    case (Cons r rs)
    obtain out b' where sub: "bridge_submit now True r b = (out, b')" by fastforce
    then have "\<exists>j. out = Runs j r" by (auto simp: bridge_submit_def Let_def split: prod.splits)
    with sub Cons [of b'] show ?case by (auto split: prod.splits)
  qed simp
  ultimately show ?thesis
    by (simp add: bridge_check_def canAdmit_def createToolRuntimeBridge_def createLocalToolScheduler_def active_of_def)
qed

section \<open>Cached results\<close>

text \<open>A result that was stored is returned until it expires, and not after.\<close>

lemma cache_get_set:
  "fst (cache_get now' key (cache_set now key r ttl c)) =
     (if now' \<le> now + ttl then Some \<lparr>ce_key = key, ce_result = r, ce_status = JS_completed, ce_createdAt = now,
        ce_expiresAt = now + ttl, ce_ttlMs = ttl\<rparr> else None)"
  by (simp add: cache_get_def cache_set_def)

lemma event_log_bounded: "length l \<le> 500 \<Longrightarrow> length (event_log_emit e l) \<le> 500"
  by (simp add: event_log_emit_def Let_def)

end
