(* ===== verification/Tool_Flight.thy ===== *)
theory Tool_Flight imports Tool_Bridge begin

text \<open>
  Calls that share one execution: \<open>singleFlight\<close> of \<open>coordination/single-flight-cache.ts\<close>.  A call is suspended at each
  \<open>await\<close>; what resumes it is a task in the queue of microtasks, which runs in the order of arrival.  An execution is
  outstanding until its promise settles, at any time.  The steps of a history are new calls, the next task, the settling
  of a promise, the other exported operations that change the cache (\<open>set\<close>, \<open>get\<close>, \<open>invalidate\<close>, \<open>dispose\<close>); any interleaving
  that keeps the order of the queue is a history.  What is executed returns its promise without throwing.
\<close>

section \<open>State\<close>

datatype flight_role = Leader | Waiter

record SingleFlightResult =
  fr_role :: flight_role
  fr_jobId :: string
  fr_result :: json
  fr_waiterCount :: nat

type_synonym flight_outcome = "string + json"

text \<open>
  What a task resumes: a call after \<open>get\<close>, the leader after its promise, the leader after \<open>set\<close>, a waiter after the
  promise of its leader.  Calls are numbered.
\<close>

datatype flight_task =
    Looked_up nat string "ToolCacheEntry option"
  | Executed nat string flight_outcome
  | Cached nat string json
  | Resumed nat string nat flight_outcome

text \<open>\<open>fs_waiters\<close> are the fields \<open>waiters\<close> of the flights, by their leader, which outlive the table \<open>fs_flights\<close>.\<close>

record flight_state =
  fs_cache :: tool_cache
  fs_flights :: "(string \<times> nat) list"
  fs_waiters :: "(nat \<times> nat) list"
  fs_outstanding :: "(nat \<times> string) list"
  fs_settled :: "(nat \<times> flight_outcome) list"
  fs_reactions :: "(nat \<times> nat \<times> string) list"
  fs_tasks :: "flight_task list"
  fs_results :: "(nat \<times> (string + SingleFlightResult)) list"
  fs_started :: "(nat \<times> string) list"
  fs_calls :: nat

definition createSingleFlightCache :: flight_state where
  "createSingleFlightCache =
     \<lparr>fs_cache = empty_tool_cache, fs_flights = [], fs_waiters = [], fs_outstanding = [], fs_settled = [],
      fs_reactions = [], fs_tasks = [], fs_results = [], fs_started = [], fs_calls = 0\<rparr>"

section \<open>The steps of a call\<close>

definition answer :: "nat \<Rightarrow> string + SingleFlightResult \<Rightarrow> flight_state \<Rightarrow> flight_state" where
  "answer c r s = s\<lparr>fs_results := fs_results s @ [(c, r)]\<rparr>"

definition enqueue :: "flight_task list \<Rightarrow> flight_state \<Rightarrow> flight_state" where
  "enqueue ts s = s\<lparr>fs_tasks := fs_tasks s @ ts\<rparr>"

definition flight_call :: "millis \<Rightarrow> string \<Rightarrow> flight_state \<Rightarrow> flight_state" where
  "flight_call now key s =
     (let (entry, cache) = cache_get now key (fs_cache s)
      in enqueue [Looked_up (fs_calls s) key entry] (s\<lparr>fs_cache := cache, fs_calls := fs_calls s + 1\<rparr>))"

definition flight_attach :: "nat \<Rightarrow> string \<Rightarrow> nat \<Rightarrow> flight_state \<Rightarrow> flight_state" where
  "flight_attach c key l s =
     (let s' = s\<lparr>fs_waiters := map_set l (nullish (map_get (fs_waiters s) l) 0 + 1) (fs_waiters s)\<rparr>
      in case map_get (fs_settled s) l of
           Some outcome \<Rightarrow> enqueue [Resumed c key l outcome] s'
         | None \<Rightarrow> s'\<lparr>fs_reactions := fs_reactions s @ [(l, c, key)]\<rparr>)"

definition flight_lead :: "nat \<Rightarrow> string \<Rightarrow> flight_state \<Rightarrow> flight_state" where
  "flight_lead c key s =
     s\<lparr>fs_started := fs_started s @ [(c, key)], fs_outstanding := fs_outstanding s @ [(c, key)],
       fs_flights := map_set key c (fs_flights s), fs_waiters := map_set c 0 (fs_waiters s)\<rparr>"

definition flight_waiters :: "flight_state \<Rightarrow> nat \<Rightarrow> nat" where
  "flight_waiters s l = nullish (map_get (fs_waiters s) l) 0"

definition FLIGHT_TTL :: int where
  "FLIGHT_TTL = 300000"

fun run_task :: "millis \<Rightarrow> flight_task \<Rightarrow> flight_state \<Rightarrow> flight_state" where
  "run_task now (Looked_up c key (Some entry)) s =
     answer c (Inr \<lparr>fr_role = Waiter, fr_jobId = key, fr_result = ce_result entry, fr_waiterCount = 0\<rparr>) s"
| "run_task now (Looked_up c key None) s =
     (case map_get (fs_flights s) key of
        Some l \<Rightarrow> flight_attach c key l s
      | None \<Rightarrow> flight_lead c key s)"
| "run_task now (Executed c key (Inr result)) s =
     enqueue [Cached c key result] (s\<lparr>fs_cache := cache_set now key result FLIGHT_TTL (fs_cache s)\<rparr>)"
| "run_task now (Executed c key (Inl e)) s = answer c (Inl e) (s\<lparr>fs_flights := map_delete key (fs_flights s)\<rparr>)"
| "run_task now (Cached c key result) s =
     answer c (Inr \<lparr>fr_role = Leader, fr_jobId = key, fr_result = result, fr_waiterCount = flight_waiters s c\<rparr>)
       (s\<lparr>fs_flights := map_delete key (fs_flights s)\<rparr>)"
| "run_task now (Resumed c key l (Inr result)) s =
     answer c (Inr \<lparr>fr_role = Waiter, fr_jobId = key, fr_result = result, fr_waiterCount = flight_waiters s l\<rparr>) s"
| "run_task now (Resumed c key l (Inl e)) s = answer c (Inl e) s"

definition flight_tick :: "millis \<Rightarrow> flight_state \<Rightarrow> flight_state" where
  "flight_tick now s = (case fs_tasks s of [] \<Rightarrow> s | t # ts \<Rightarrow> run_task now t (s\<lparr>fs_tasks := ts\<rparr>))"

text \<open>The leader awaits its promise before any waiter does.\<close>

definition flight_settle :: "nat \<Rightarrow> flight_outcome \<Rightarrow> flight_state \<Rightarrow> flight_state" where
  "flight_settle l outcome s =
     (case List.find (\<lambda>x. fst x = l) (fs_outstanding s) of
        None \<Rightarrow> s
      | Some (_, key) \<Rightarrow>
          enqueue (Executed l key outcome #
              List.map (\<lambda>(l', c, k). Resumed c k l outcome) (List.filter (\<lambda>x. fst x = l) (fs_reactions s)))
            (s\<lparr>fs_outstanding := List.filter (\<lambda>x. fst x \<noteq> l) (fs_outstanding s),
              fs_settled := map_set l outcome (fs_settled s),
              fs_reactions := List.filter (\<lambda>x. fst x \<noteq> l) (fs_reactions s)\<rparr>))"

definition flight_dispose :: "flight_state \<Rightarrow> flight_state" where
  "flight_dispose s = s\<lparr>fs_cache := (fs_cache s)\<lparr>tc_cache := []\<rparr>, fs_flights := []\<rparr>"

datatype flight_op =
    Call string | Run_task | Settle nat flight_outcome | Put string json int | Look string | Invalidate | Dispose

fun apply_flight_op :: "millis \<Rightarrow> flight_op \<Rightarrow> flight_state \<Rightarrow> flight_state" where
  "apply_flight_op now (Call key) s = flight_call now key s"
| "apply_flight_op now Run_task s = flight_tick now s"
| "apply_flight_op now (Settle l outcome) s = flight_settle l outcome s"
| "apply_flight_op now (Put key result ttlMs) s = s\<lparr>fs_cache := cache_set now key result ttlMs (fs_cache s)\<rparr>"
| "apply_flight_op now (Look key) s = s\<lparr>fs_cache := snd (cache_get now key (fs_cache s))\<rparr>"
| "apply_flight_op now Invalidate s = s\<lparr>fs_cache := (fs_cache s)\<lparr>tc_cache := []\<rparr>\<rparr>"
| "apply_flight_op now Dispose s = flight_dispose s"

fun flight_run :: "(millis \<times> flight_op) list \<Rightarrow> flight_state \<Rightarrow> flight_state" where
  "flight_run [] s = s"
| "flight_run ((now, op) # ops) s = flight_run ops (apply_flight_op now op s)"

section \<open>One flight per key\<close>

fun leads :: "string \<Rightarrow> flight_task \<Rightarrow> nat option" where
  "leads key (Executed c k r) = (if k = key then Some c else None)"
| "leads key (Cached c k r) = (if k = key then Some c else None)"
| "leads key _ = None"

definition active_leaders :: "flight_state \<Rightarrow> string \<Rightarrow> nat list" where
  "active_leaders s key =
     List.map_filter (leads key) (fs_tasks s) @ List.map fst (List.filter (\<lambda>x. snd x = key) (fs_outstanding s))"

definition one_flight :: "flight_state \<Rightarrow> bool" where
  "one_flight s \<longleftrightarrow> (\<forall>key. active_leaders s key = (case map_get (fs_flights s) key of None \<Rightarrow> [] | Some l \<Rightarrow> [l]))"

text \<open>A lookup that missed stays right until it runs, unless a leader that will still end behind it filled the cache,
  or the key is one of those (\<open>K\<close>) that \<open>set\<close> is called for from outside.\<close>

definition cached_later :: "string \<Rightarrow> flight_task list \<Rightarrow> bool" where
  "cached_later key ts \<longleftrightarrow> (\<exists>c r. Cached c key r \<in> set ts)"

fun misses_hold :: "string set \<Rightarrow> (string \<times> ToolCacheEntry) list \<Rightarrow> flight_task list \<Rightarrow> bool" where
  "misses_hold K m (Looked_up c key None # ts) = ((map_get m key = None \<or> key \<in> K \<or> cached_later key ts) \<and> misses_hold K m ts)"
| "misses_hold K m (t # ts) = misses_hold K m ts"
| "misses_hold K m [] = True"

lemma misses_hold_tl: "misses_hold K m (t # ts) \<Longrightarrow> misses_hold K m ts"
  by (cases "(K, m, t # ts)" rule: misses_hold.cases) auto

text \<open>The cache may change to \<open>m'\<close> and tasks be appended, if what appeared is cached by one of them.\<close>

lemma misses_hold_step:
  assumes "misses_hold K m ts" "misses_hold K m' us"
    and "\<And>key. map_get m key = None \<Longrightarrow> map_get m' key \<noteq> None \<Longrightarrow> key \<in> K \<or> cached_later key us"
  shows "misses_hold K m' (ts @ us)"
  using assms
proof (induction K m ts rule: misses_hold.induct)
  case (1 K m c key ts)
  have "map_get m' key = None \<or> key \<in> K \<or> cached_later key (ts @ us)"
    using 1(2) 1(4) [of key] by (cases "map_get m' key = None") (auto simp: cached_later_def)
  with 1 show ?case by simp
qed simp_all

definition flight_inv :: "string set \<Rightarrow> flight_state \<Rightarrow> bool" where
  "flight_inv K s \<longleftrightarrow> one_flight s \<and> misses_hold K (tc_cache (fs_cache s)) (fs_tasks s)"

lemma one_flight_key: "one_flight s \<Longrightarrow>
    active_leaders s key = (case map_get (fs_flights s) key of None \<Rightarrow> [] | Some l \<Rightarrow> [l])"
  by (simp add: one_flight_def)

lemma active_tail:
  assumes "fs_tasks s = t # ts"
  shows "active_leaders s key = (case leads key t of Some l \<Rightarrow> [l] | None \<Rightarrow> []) @ active_leaders (s\<lparr>fs_tasks := ts\<rparr>) key"
  using assms by (simp add: active_leaders_def List.map_filter_simps split: option.splits)

lemma map_filter_append: "List.map_filter f (xs @ ys) = List.map_filter f xs @ List.map_filter f ys"
  by (induction xs) (simp_all add: List.map_filter_simps split: option.splits)

lemma cache_get_shrinks:
  "map_get (tc_cache (snd (cache_get now key c))) k \<noteq> None \<Longrightarrow> map_get (tc_cache c) k \<noteq> None"
  "fst (cache_get now key c) = None \<Longrightarrow> map_get (tc_cache (snd (cache_get now key c))) key = None"
  by (auto simp: cache_get_def split: option.splits if_splits)

lemma flight_call_inv: "flight_inv K s \<Longrightarrow> flight_inv K (flight_call now key s)"
proof -
  assume inv: "flight_inv K s"
  obtain e m where get: "cache_get now key (fs_cache s) = (e, m)" by fastforce
  let ?t = "Looked_up (fs_calls s) key e"
  have "misses_hold K (tc_cache m) [?t]"
    using cache_get_shrinks(2) [of now key "fs_cache s"] get by (cases e) simp_all
  with inv misses_hold_step [of K "tc_cache (fs_cache s)" "fs_tasks s" "tc_cache m" "[?t]"]
    cache_get_shrinks(1) [of now key "fs_cache s"]
  have "misses_hold K (tc_cache m) (fs_tasks s @ [?t])" by (simp add: flight_inv_def get)
  moreover have "active_leaders (flight_call now key s) k = active_leaders s k" for k
    by (simp add: flight_call_def get enqueue_def active_leaders_def map_filter_append List.map_filter_simps)
  moreover have "fs_flights (flight_call now key s) = fs_flights s" by (simp add: flight_call_def get enqueue_def)
  ultimately show ?thesis using inv by (simp add: flight_inv_def one_flight_def) (simp add: flight_call_def get enqueue_def)
qed

text \<open>The head of the queue is run in the state \<open>s'\<close> without it.\<close>

lemma run_task_inv:
  assumes "flight_inv K s" "fs_tasks s = t # ts"
  shows "flight_inv K (run_task now t (s\<lparr>fs_tasks := ts\<rparr>))"
proof -
  let ?s = "s\<lparr>fs_tasks := ts\<rparr>"
  have act: "(case leads key t of Some l \<Rightarrow> [l] | None \<Rightarrow> []) @ active_leaders ?s key =
      (case map_get (fs_flights s) key of None \<Rightarrow> [] | Some l \<Rightarrow> [l])" for key
    using assms(1) active_tail [OF assms(2)] by (simp add: flight_inv_def one_flight_def)
  have miss: "misses_hold K (tc_cache (fs_cache s)) ts"
    using assms misses_hold_tl [of K "tc_cache (fs_cache s)" t ts] by (simp add: flight_inv_def)
  have keep: "flight_inv K s'" if "\<And>key. active_leaders s' key = active_leaders ?s key" "fs_flights s' = fs_flights s"
    "fs_cache s' = fs_cache s" "\<exists>us. fs_tasks s' = ts @ us \<and> misses_hold K (tc_cache (fs_cache s)) us"
    "\<And>key. leads key t = None" for s'
    using that act miss misses_hold_step [OF miss, of "tc_cache (fs_cache s)"]
    by (auto simp: flight_inv_def one_flight_def)
  show ?thesis
  proof (cases t)
    case t: (Looked_up c key e)
    show ?thesis
    proof (cases e)
      case (Some x)
      with t show ?thesis by (intro keep) (auto simp: answer_def active_leaders_def)
    next
      case e: None
      show ?thesis
      proof (cases "map_get (fs_flights s) key")
        case (Some l)
        with t e show ?thesis
          by (intro keep) (auto simp: flight_attach_def enqueue_def Let_def active_leaders_def map_filter_append
              List.map_filter_simps split: option.splits)
      next
        case None
        have "active_leaders (flight_lead c key ?s) k =
            (case map_get (fs_flights (flight_lead c key ?s)) k of None \<Rightarrow> [] | Some l \<Rightarrow> [l])" for k
          using act [of k] None t by (auto simp: active_leaders_def flight_lead_def)
        moreover have "run_task now t ?s = flight_lead c key ?s" using None t e by simp
        ultimately show ?thesis using miss by (simp add: flight_inv_def one_flight_def) (simp add: flight_lead_def)
      qed
    qed
  next
    case t: (Executed c key outcome)
    show ?thesis
    proof (cases outcome)
      case (Inr r)
      let ?m = "tc_cache (cache_set now key r FLIGHT_TTL (fs_cache s))"
      have "misses_hold K ?m (ts @ [Cached c key r])"
        using miss by (rule misses_hold_step) (auto simp: cache_set_def cached_later_def split: if_splits)
      moreover have "active_leaders (run_task now t ?s) k = (case map_get (fs_flights s) k of None \<Rightarrow> [] | Some l \<Rightarrow> [l])" for k
        using act [of k] t Inr by (auto simp: active_leaders_def enqueue_def map_filter_append List.map_filter_simps
            split: option.splits if_splits)
      ultimately show ?thesis using t Inr by (simp add: flight_inv_def one_flight_def enqueue_def)
    next
      case (Inl x)
      have "active_leaders (run_task now t ?s) k =
          (case map_get (map_delete key (fs_flights s)) k of None \<Rightarrow> [] | Some l \<Rightarrow> [l])" for k
        using act [of k] t Inl by (auto simp: active_leaders_def answer_def split: option.splits if_splits)
      with t Inl miss show ?thesis by (simp add: flight_inv_def one_flight_def answer_def)
    qed
  next
    case t: (Cached c key r)
    have "active_leaders (run_task now t ?s) k =
        (case map_get (map_delete key (fs_flights s)) k of None \<Rightarrow> [] | Some l \<Rightarrow> [l])" for k
      using act [of k] t by (auto simp: active_leaders_def answer_def split: option.splits if_splits)
    with t miss show ?thesis by (simp add: flight_inv_def one_flight_def answer_def)
  next
    case t: (Resumed c key l outcome)
    then show ?thesis by (intro keep) (cases outcome; auto simp: answer_def active_leaders_def)+
  qed
qed

section \<open>Every call is in one place\<close>

fun task_call :: "flight_task \<Rightarrow> nat" where
  "task_call (Looked_up c k e) = c"
| "task_call (Executed c k r) = c"
| "task_call (Cached c k r) = c"
| "task_call (Resumed c k l r) = c"

definition all_calls :: "flight_state \<Rightarrow> nat multiset" where
  "all_calls s = mset (List.map fst (fs_results s)) + mset (List.map task_call (fs_tasks s)) +
     mset (List.map fst (fs_outstanding s)) + mset (List.map (\<lambda>x. fst (snd x)) (fs_reactions s))"

definition awaited :: "flight_state \<Rightarrow> bool" where
  "awaited s \<longleftrightarrow> (\<forall>x \<in> set (fs_reactions s). fst x \<in> fst ` set (fs_outstanding s)) \<and>
     (\<forall>k l. map_get (fs_flights s) k = Some l \<longrightarrow> l \<in> fst ` set (fs_outstanding s) \<or> map_get (fs_settled s) l \<noteq> None)"

definition accounted :: "flight_state \<Rightarrow> bool" where
  "accounted s \<longleftrightarrow> all_calls s = mset [0..<fs_calls s] \<and> awaited s"

lemma run_task_accounted:
  assumes "accounted s" "fs_tasks s = t # ts"
  shows "accounted (run_task now t (s\<lparr>fs_tasks := ts\<rparr>))"
proof -
  let ?s' = "run_task now t (s\<lparr>fs_tasks := ts\<rparr>)"
  have "all_calls ?s' = all_calls s \<and> fs_calls ?s' = fs_calls s"
    using assms(2)
    by (cases "(now, t, s\<lparr>fs_tasks := ts\<rparr>)" rule: run_task.cases)
      (auto simp: all_calls_def answer_def enqueue_def flight_attach_def flight_lead_def Let_def split: option.splits)
  moreover have "map_get (fs_flights s) k = Some l \<Longrightarrow> map_get (fs_settled s) l = None \<Longrightarrow>
      \<exists>x \<in> set (fs_outstanding s). l = fst x" for k l
    using assms(1) unfolding accounted_def awaited_def by blast
  then have "awaited ?s'"
    using assms
    by (cases "(now, t, s\<lparr>fs_tasks := ts\<rparr>)" rule: run_task.cases)
      (auto simp: accounted_def awaited_def answer_def enqueue_def flight_attach_def flight_lead_def Let_def image_iff
        split: option.splits if_splits)
  ultimately show ?thesis using assms(1) by (simp add: accounted_def)
qed

lemma reactions_split:
  "mset (List.map f xs) = mset (List.map f (List.filter P xs)) + mset (List.map f (List.filter (\<lambda>x. \<not> P x) xs))"
  by (induction xs) auto

lemma one_outstanding:
  assumes "distinct (List.map fst xs)" "(l, key) \<in> set xs"
  shows "mset (List.map fst xs) = {#l#} + mset (List.map fst (List.filter (\<lambda>x. fst x \<noteq> l) xs))"
  using assms
proof (induction xs)
  case (Cons x xs)
  show ?case
  proof (cases "fst x = l")
    case True
    with Cons.prems(1) have "List.filter (\<lambda>x. fst x \<noteq> l) xs = xs" by (intro filter_True) (auto simp: image_iff)
    with True show ?thesis by simp
  next
    case False
    with Cons show ?thesis by auto
  qed
qed simp

lemma outstanding_distinct:
  assumes "accounted s" shows "distinct (List.map fst (fs_outstanding s))"
  unfolding distinct_count_atmost_1
proof
  fix a
  have "count (mset [0..<fs_calls s]) a \<le> 1"
    using distinct_count_atmost_1 [THEN iffD1, OF distinct_upt [of 0 "fs_calls s"]] by simp
  moreover have "count (mset (List.map fst (fs_outstanding s))) a \<le> count (all_calls s) a" by (simp add: all_calls_def)
  ultimately have "count (mset (List.map fst (fs_outstanding s))) a \<le> 1" using assms by (simp add: accounted_def)
  moreover have "a \<in> set (List.map fst (fs_outstanding s)) \<longleftrightarrow> count (mset (List.map fst (fs_outstanding s))) a > 0"
    by (metis count_greater_zero_iff set_mset_mset)
  ultimately show "count (mset (List.map fst (fs_outstanding s))) a = (if a \<in> set (List.map fst (fs_outstanding s)) then 1 else 0)"
    by (split if_split) linarith
qed

lemma flight_settle_cases:
  obtains (none) "flight_settle l outcome s = s"
  | (some) key where "(l, key) \<in> set (fs_outstanding s)"
      "flight_settle l outcome s = enqueue (Executed l key outcome #
          List.map (\<lambda>(l', c, k). Resumed c k l outcome) (List.filter (\<lambda>x. fst x = l) (fs_reactions s)))
        (s\<lparr>fs_outstanding := List.filter (\<lambda>x. fst x \<noteq> l) (fs_outstanding s),
          fs_settled := map_set l outcome (fs_settled s),
          fs_reactions := List.filter (\<lambda>x. fst x \<noteq> l) (fs_reactions s)\<rparr>)"
proof (cases "List.find (\<lambda>x. fst x = l) (fs_outstanding s)")
  case (Some x)
  then have "x \<in> set (fs_outstanding s)" "fst x = l" by (auto simp: find_Some_iff)
  with Some show ?thesis by (intro some [of "snd x"]) (auto simp: flight_settle_def split: prod.splits)
qed (simp add: none flight_settle_def)

lemma flight_settle_accounted:
  assumes "accounted s" shows "accounted (flight_settle l outcome s)"
proof (cases rule: flight_settle_cases [of l outcome s])
  case (some key)
  let ?R = "fs_reactions s"
  have comp: "task_call \<circ> (\<lambda>(l' :: nat, c, k). Resumed c k l outcome) = (\<lambda>x. fst (snd x))" by (auto simp: fun_eq_iff)
  from comp some(2) one_outstanding [OF outstanding_distinct [OF assms] some(1)]
    reactions_split [of "\<lambda>x. fst (snd x)" ?R "\<lambda>x. fst x = l"]
  have same: "all_calls (flight_settle l outcome s) = all_calls s \<and> fs_calls (flight_settle l outcome s) = fs_calls s"
    by (simp add: all_calls_def enqueue_def)
  have "fst ` set (List.filter (\<lambda>x. fst x \<noteq> l) xs) = fst ` set xs - {l}" for xs :: "(nat \<times> string) list"
    by force
  moreover have "x \<in> set (List.filter (\<lambda>x. fst x \<noteq> l) xs) \<longleftrightarrow> x \<in> set xs \<and> fst x \<noteq> l" for x :: "nat \<times> nat \<times> string" and xs
    by auto
  ultimately have "awaited (flight_settle l outcome s)"
    using assms unfolding some(2) by (simp add: accounted_def awaited_def enqueue_def del: set_filter)
  with same show ?thesis using assms by (simp add: accounted_def)
qed (use assms in simp)

lemma flight_op_accounted:
  assumes "accounted s" shows "accounted (apply_flight_op now op s)"
proof (cases op)
  case (Call key)
  with assms show ?thesis
    by (auto simp: accounted_def awaited_def all_calls_def flight_call_def enqueue_def simp del: mset_upt split: prod.splits)
next
  case Run_task
  with assms run_task_accounted show ?thesis by (simp add: flight_tick_def split: list.splits)
next
  case (Settle l outcome)
  with assms flight_settle_accounted show ?thesis by simp
qed (use assms in \<open>auto simp: accounted_def awaited_def all_calls_def flight_dispose_def\<close>)

lemma flight_run_accounted: "accounted s \<Longrightarrow> accounted (flight_run ops s)"
proof (induction ops arbitrary: s)
  case (Cons x ops)
  then show ?case by (cases x) (simp add: flight_op_accounted)
qed simp

lemma create_accounted: "accounted createSingleFlightCache"
  by (simp add: accounted_def awaited_def all_calls_def createSingleFlightCache_def)

text \<open>
  C14: every call is answered exactly once.  Whatever the interleaving of calls, tasks, settled promises, lookups, insertions, invalidations and
  disposals, when no task is left and no execution is outstanding, the results are those of all calls, one each.
\<close>

theorem flight_calls_answered:
  assumes "fs_tasks (flight_run ops createSingleFlightCache) = []" "fs_outstanding (flight_run ops createSingleFlightCache) = []"
  shows "mset (List.map fst (fs_results (flight_run ops createSingleFlightCache))) =
    mset [0..<fs_calls (flight_run ops createSingleFlightCache)]"
proof -
  have "accounted (flight_run ops createSingleFlightCache)" by (rule flight_run_accounted [OF create_accounted])
  with assms have "fs_reactions (flight_run ops createSingleFlightCache) = []"
    by (cases "fs_reactions (flight_run ops createSingleFlightCache)") (auto simp: accounted_def awaited_def)
  with \<open>accounted _\<close> assms show ?thesis by (simp add: accounted_def all_calls_def)
qed

section \<open>Histories without disposal\<close>

lemma flight_settle_inv:
  assumes "flight_inv K s" "accounted s" shows "flight_inv K (flight_settle l outcome s)"
proof (cases rule: flight_settle_cases [of l outcome s])
  case (some key)
  let ?s = "flight_settle l outcome s"
  let ?ws = "List.map (\<lambda>(l', c, k). Resumed c k l outcome) (List.filter (\<lambda>x. fst x = l) (fs_reactions s))"
  have none: "List.map_filter (leads k) ?ws = []" for k by (induction "fs_reactions s") (auto simp: List.map_filter_def)
  have key: "(l, k) \<in> set (fs_outstanding s) \<Longrightarrow> k = key" for k
    using some(1) outstanding_distinct [OF assms(2)] by (meson eq_key_imp_eq_value)
  have "active_leaders ?s k = active_leaders s k" for k
  proof (cases "k = key")
    case True
    have "l \<in> set (active_leaders s key)" using some(1) by (force simp: active_leaders_def)
    then have act: "active_leaders s key = [l]"
      using assms(1) by (auto simp: flight_inv_def one_flight_def split: option.splits)
    moreover have "List.map_filter (leads key) (fs_tasks s) = []"
    proof (rule ccontr)
      assume "List.map_filter (leads key) (fs_tasks s) \<noteq> []"
      moreover have "List.map fst (List.filter (\<lambda>x. snd x = key) (fs_outstanding s)) \<noteq> []"
        using some(1) by (force simp: filter_empty_conv)
      ultimately show False using act by (auto simp: active_leaders_def append_eq_Cons_conv)
    qed
    moreover from act this have "List.map fst (List.filter (\<lambda>x. snd x = key) (fs_outstanding s)) = [l]"
      by (simp add: active_leaders_def)
    then have "\<forall>x \<in> set (fs_outstanding s). snd x = key \<longrightarrow> fst x = l"
      by (metis (mono_tags, lifting) filter_set image_eqI list.set_map mem_Collect_eq set_filter singletonD list.set(1,2))
    ultimately show ?thesis
      unfolding some(2) using True none
      by (auto simp: active_leaders_def enqueue_def map_filter_append List.map_filter_simps filter_empty_conv)
  next
    case False
    with key have "List.filter (\<lambda>x. fst x \<noteq> l \<and> snd x = k) (fs_outstanding s) = List.filter (\<lambda>x. snd x = k) (fs_outstanding s)"
      by (intro filter_cong) auto
    with False show ?thesis
      unfolding some(2) by (simp add: active_leaders_def enqueue_def map_filter_append List.map_filter_simps none)
  qed
  moreover have "misses_hold K m (List.map (\<lambda>(l' :: nat, c, k). Resumed c k l outcome) xs)" for m xs
    by (induction xs) auto
  then have "misses_hold K (tc_cache (fs_cache s)) (Executed l key outcome # ?ws)" by simp
  with assms(1) have "misses_hold K (tc_cache (fs_cache s)) (fs_tasks s @ (Executed l key outcome # ?ws))"
    by (intro misses_hold_step) (auto simp: flight_inv_def)
  ultimately show ?thesis
    using assms(1) unfolding some(2) by (simp add: flight_inv_def one_flight_def) (simp add: enqueue_def)
qed (use assms in simp)

fun set_keys :: "flight_op \<Rightarrow> string set" where
  "set_keys (Put key result ttlMs) = {key}"
| "set_keys _ = {}"

lemma flight_op_inv:
  assumes "flight_inv K s" "accounted s" "op \<noteq> Dispose" "set_keys op \<subseteq> K" shows "flight_inv K (apply_flight_op now op s)"
proof (cases op)
  case (Call key)
  with assms flight_call_inv show ?thesis by simp
next
  case Run_task
  with assms run_task_inv show ?thesis by (simp add: flight_tick_def split: list.splits)
next
  case (Settle l outcome)
  with assms flight_settle_inv show ?thesis by simp
next
  case (Put key result ttlMs)
  let ?m = "tc_cache (cache_set now key result ttlMs (fs_cache s))"
  have "map_get (tc_cache (fs_cache s)) k = None \<Longrightarrow> map_get ?m k \<noteq> None \<Longrightarrow> k \<in> K \<or> cached_later k []" for k
    using assms(4) Put by (auto simp: cache_set_def split: if_splits)
  then have "misses_hold K ?m (fs_tasks s)"
    using misses_hold_step [of K "tc_cache (fs_cache s)" "fs_tasks s" ?m "[]"] assms(1)
    unfolding flight_inv_def by (simp del: map_get_set)
  with assms Put show ?thesis by (simp add: flight_inv_def one_flight_def active_leaders_def)
next
  case (Look key)
  let ?m = "tc_cache (snd (cache_get now key (fs_cache s)))"
  have "misses_hold K ?m (fs_tasks s)"
    using misses_hold_step [of K "tc_cache (fs_cache s)" "fs_tasks s" ?m "[]"] assms(1)
      cache_get_shrinks(1) [of now key "fs_cache s"] by (force simp: flight_inv_def)
  with assms Look show ?thesis by (simp add: flight_inv_def one_flight_def active_leaders_def)
next
  case Invalidate
  have "misses_hold K [] (fs_tasks s)"
    using misses_hold_step [of K "tc_cache (fs_cache s)" "fs_tasks s" "[]" "[]"] assms(1) by (simp add: flight_inv_def)
  with assms Invalidate show ?thesis by (simp add: flight_inv_def one_flight_def active_leaders_def)
qed (use assms in simp)

definition keys_put :: "(millis \<times> flight_op) list \<Rightarrow> string set" where
  "keys_put ops = \<Union> (set_keys ` snd ` set ops)"

definition undisposed :: "(millis \<times> flight_op) list \<Rightarrow> bool" where
  "undisposed ops \<longleftrightarrow> (\<forall>x \<in> set ops. snd x \<noteq> Dispose)"

lemma flight_run_inv: "flight_inv K s \<Longrightarrow> accounted s \<Longrightarrow> undisposed ops \<Longrightarrow> keys_put ops \<subseteq> K \<Longrightarrow> flight_inv K (flight_run ops s)"
proof (induction ops arbitrary: s)
  case (Cons x ops)
  then show ?case by (cases x) (simp add: undisposed_def keys_put_def flight_op_inv flight_op_accounted)
qed simp

lemma create_inv: "flight_inv K createSingleFlightCache"
  by (simp add: flight_inv_def one_flight_def active_leaders_def createSingleFlightCache_def List.map_filter_simps)

lemma outstanding_flight:
  assumes "flight_inv K s" "(l, key) \<in> set (fs_outstanding s)"
  shows "map_get (fs_flights s) key = Some l"
proof -
  have "l \<in> set (active_leaders s key)" using assms(2) by (force simp: active_leaders_def)
  with assms(1) show ?thesis by (auto simp: flight_inv_def one_flight_def split: option.splits)
qed

text \<open>
  C12: calls share one execution.  As long as the cache is not disposed of, in any interleaving of calls, tasks, settled promises,
  lookups, insertions and invalidations, no two executions of one
  key are outstanding at the same time; and a step starts an execution only when no execution of its key is outstanding and
  the cache has no result for it, unless the exported \<open>set\<close> was called for that key.  So between the miss of a call and the start of
  its execution no other call can bring a result in, although the call is suspended in between; only \<open>set\<close> from outside can.
\<close>

theorem calls_share_executions:
  assumes "undisposed ops"
  defines "s \<equiv> flight_run ops createSingleFlightCache"
  shows "inj_on snd (set (fs_outstanding s)) \<and>
    (fs_started (apply_flight_op now op s) = fs_started s \<or>
     (\<exists>c key. fs_started (apply_flight_op now op s) = fs_started s @ [(c, key)] \<and>
        (map_get (tc_cache (fs_cache s)) key = None \<or> key \<in> keys_put ops) \<and> key \<notin> snd ` set (fs_outstanding s)))"
proof
  let ?K = "keys_put ops"
  have inv: "flight_inv ?K s" unfolding s_def by (rule flight_run_inv [OF create_inv create_accounted assms(1) order_refl])
  show "inj_on snd (set (fs_outstanding s))"
  proof (rule inj_onI)
    fix x y assume "x \<in> set (fs_outstanding s)" "y \<in> set (fs_outstanding s)" "snd x = snd y"
    moreover obtain l k where "x = (l, k)" by fastforce
    moreover obtain l' k' where "y = (l', k')" by fastforce
    ultimately show "x = y" using outstanding_flight [OF inv, of l k] outstanding_flight [OF inv, of l' k'] by simp
  qed
  show "fs_started (apply_flight_op now op s) = fs_started s \<or>
     (\<exists>c key. fs_started (apply_flight_op now op s) = fs_started s @ [(c, key)] \<and>
        (map_get (tc_cache (fs_cache s)) key = None \<or> key \<in> keys_put ops) \<and> key \<notin> snd ` set (fs_outstanding s))"
  proof (cases op)
    case Run_task
    show ?thesis
    proof (cases "fs_tasks s")
      case (Cons t ts)
      let ?s = "s\<lparr>fs_tasks := ts\<rparr>"
      have "fs_started (run_task now t ?s) = fs_started s \<or>
          (\<exists>c key. t = Looked_up c key None \<and> map_get (fs_flights s) key = None \<and>
             fs_started (run_task now t ?s) = fs_started s @ [(c, key)])"
        by (cases "(now, t, ?s)" rule: run_task.cases)
          (auto simp: answer_def enqueue_def flight_attach_def flight_lead_def Let_def split: option.splits)
      moreover have "(map_get (tc_cache (fs_cache s)) key = None \<or> key \<in> keys_put ops) \<and> key \<notin> snd ` set (fs_outstanding s)"
        if t: "t = Looked_up c key None" "map_get (fs_flights s) key = None" for c key
      proof -
        have none: "active_leaders s key = []" using inv t(2) by (simp add: flight_inv_def one_flight_def)
        then have "\<forall>x \<in> set ts. leads key x = None"
          using Cons by (simp add: active_leaders_def List.map_filter_def filter_empty_conv split: if_splits)
        then have "Cached c' key r \<notin> set ts" for c' r by fastforce
        with inv Cons t(1) have "map_get (tc_cache (fs_cache s)) key = None \<or> key \<in> keys_put ops" by (auto simp: flight_inv_def cached_later_def)
        with none show ?thesis by (auto simp: active_leaders_def filter_empty_conv)
      qed
      ultimately show ?thesis using Run_task Cons by (auto simp: flight_tick_def)
    qed (simp add: Run_task flight_tick_def)
  next
    case (Settle l outcome)
    then show ?thesis by (cases rule: flight_settle_cases [of l outcome s]) (simp_all add: enqueue_def)
  qed (simp_all add: flight_call_def enqueue_def flight_dispose_def split: prod.splits)
qed

text \<open>Two calls of one key: the second waits for the first, and both are answered from one execution.\<close>

definition two_calls :: "(millis \<times> flight_op) list" where
  "two_calls = [(0, Call ''k''), (0, Call ''k''), (0, Run_task), (0, Run_task), (1, Settle 0 (Inr J_null)),
     (1, Run_task), (1, Run_task), (1, Run_task)]"

lemma two_calls_run:
  "fs_tasks (flight_run two_calls createSingleFlightCache) = []"
  "fs_outstanding (flight_run two_calls createSingleFlightCache) = []"
  "fs_started (flight_run two_calls createSingleFlightCache) = [(0, ''k'')]"
  "fs_calls (flight_run two_calls createSingleFlightCache) = 2"
  by (simp_all add: two_calls_def createSingleFlightCache_def flight_call_def cache_get_def empty_tool_cache_def enqueue_def
      flight_tick_def flight_lead_def flight_attach_def flight_settle_def answer_def Let_def map_get_def)

theorem flight_calls_answered_witness:
  "mset (List.map fst (fs_results (flight_run two_calls createSingleFlightCache))) = {#0, 1#}"
  using flight_calls_answered [OF two_calls_run(1,2)] by (simp add: two_calls_run eval_nat_numeral)

theorem calls_share_executions_witness:
  "inj_on snd (set (fs_outstanding (flight_run (take 3 two_calls) createSingleFlightCache)))"
  using calls_share_executions [of "take 3 two_calls"] by (simp add: undisposed_def two_calls_def)

text \<open>A result put from outside while a call is suspended after its miss does not stop the execution.\<close>

lemma put_comes_too_late:
  "let s = flight_run [(0, Call ''k''), (0, Put ''k'' J_null 1000)] createSingleFlightCache
   in map_get (tc_cache (fs_cache s)) ''k'' \<noteq> None \<and> fs_started (flight_tick 0 s) = [(0, ''k'')]"
  by (simp add: createSingleFlightCache_def flight_call_def cache_get_def empty_tool_cache_def enqueue_def
      flight_tick_def flight_lead_def cache_set_def Let_def map_get_def)

text \<open>After a disposal two executions of one key can be outstanding.\<close>

lemma disposal_forgets_flights:
  "fs_outstanding (flight_run [(0, Call ''k''), (0, Run_task), (0, Dispose), (0, Call ''k''), (0, Run_task)]
     createSingleFlightCache) = [(0, ''k''), (1, ''k'')]"
  by (simp add: createSingleFlightCache_def flight_call_def cache_get_def empty_tool_cache_def enqueue_def
      flight_tick_def flight_lead_def flight_dispose_def Let_def map_get_def)

end
