(* ===== verification/Fabric_Types.thy ===== *)
theory Fabric_Types imports Js_Number Js_Text begin

text \<open>
  The memory fabric of Prism (\<open>../fabric/\<close>): memory domains, transport edges, devices, the topology graph, budgets and
  policies (\<open>fabric-types.ts\<close>, \<open>memory-domain.ts\<close>, \<open>transport-edge.ts\<close>, \<open>device-registry.ts\<close>, \<open>topology-graph.ts\<close>,
  \<open>transport-capability.ts\<close>, \<open>memory-budget.ts\<close>, \<open>kv-residency.ts\<close>, \<open>residency-policy.ts\<close>,
  \<open>dharma-fabric-policy.ts\<close>).  Sizes are integers, measured rates and thresholds binary64 numbers.
\<close>

section \<open>Types\<close>

datatype PrismMemoryDomainKind =
  Mem_cpu_system_memory | Mem_apu_shared_memory | Mem_integrated_gpu_local_alias | Mem_npu_shared_memory |
  Mem_discrete_gpu_vram | Mem_accelerator_device_dram | Mem_pinned_host_memory | Mem_managed_memory |
  Mem_shared_memory_segment | Mem_durable_local_cache

fun PrismMemoryDomainKind_str :: "PrismMemoryDomainKind \<Rightarrow> string" where
  "PrismMemoryDomainKind_str Mem_cpu_system_memory = ''cpu_system_memory''"
| "PrismMemoryDomainKind_str Mem_apu_shared_memory = ''apu_shared_memory''"
| "PrismMemoryDomainKind_str Mem_integrated_gpu_local_alias = ''integrated_gpu_local_alias''"
| "PrismMemoryDomainKind_str Mem_npu_shared_memory = ''npu_shared_memory''"
| "PrismMemoryDomainKind_str Mem_discrete_gpu_vram = ''discrete_gpu_vram''"
| "PrismMemoryDomainKind_str Mem_accelerator_device_dram = ''accelerator_device_dram''"
| "PrismMemoryDomainKind_str Mem_pinned_host_memory = ''pinned_host_memory''"
| "PrismMemoryDomainKind_str Mem_managed_memory = ''managed_memory''"
| "PrismMemoryDomainKind_str Mem_shared_memory_segment = ''shared_memory_segment''"
| "PrismMemoryDomainKind_str Mem_durable_local_cache = ''durable_local_cache''"

datatype PrismMemoryTransportKind =
  Tran_direct_shared_access | Tran_zero_copy_mapped_access | Tran_managed_memory_migration | Tran_pinned_host_copy |
  Tran_backend_device_copy | Tran_peer_device_copy | Tran_dma_buf_import | Tran_local_host_shared_memory_copy |
  Tran_serialized_payload_copy | Tran_unsupported

datatype TransportAccessMode = Access_read_write | Access_read_only | Access_write_only | Access_mapped

datatype TransportCoherencyMode = Coherency_coherent | Coherency_io_coherent | Coherency_non_coherent | Coherency_managed

datatype TransportEdgeState = Edge_available | Edge_degraded | Edge_unavailable | Edge_untested

record PrismMemoryTransportEdge =
  te_edgeId :: string
  te_sourceDomainId :: string
  te_destinationDomainId :: string
  te_transportKind :: PrismMemoryTransportKind
  te_accessMode :: TransportAccessMode
  te_coherencyMode :: TransportCoherencyMode
  te_maximumBytes :: int
  te_measuredBandwidthBytesPerSecond :: "rat option"
  te_measuredLatencyMicroseconds :: "rat option"
  te_supportsAsync :: bool
  te_supportsCancellation :: bool
  te_supportsIntegrityValidation :: bool
  te_availabilityState :: TransportEdgeState

datatype PrismDeviceClass =
  Dev_cpu | Dev_integrated_gpu | Dev_discrete_gpu | Dev_npu | Dev_accelerator | Dev_tpu | Dev_fpga | Dev_virtual

fun PrismDeviceClass_str :: "PrismDeviceClass \<Rightarrow> string" where
  "PrismDeviceClass_str Dev_cpu = ''cpu''"
| "PrismDeviceClass_str Dev_integrated_gpu = ''integrated_gpu''"
| "PrismDeviceClass_str Dev_discrete_gpu = ''discrete_gpu''"
| "PrismDeviceClass_str Dev_npu = ''npu''"
| "PrismDeviceClass_str Dev_accelerator = ''accelerator''"
| "PrismDeviceClass_str Dev_tpu = ''tpu''"
| "PrismDeviceClass_str Dev_fpga = ''fpga''"
| "PrismDeviceClass_str Dev_virtual = ''virtual''"

datatype FabricBackendKind =
  Backend_cpu_native | Backend_rocm | Backend_metal | Backend_cuda | Backend_vulkan | Backend_tensix | Backend_webgpu

fun FabricBackendKind_str :: "FabricBackendKind \<Rightarrow> string" where
  "FabricBackendKind_str Backend_cpu_native = ''cpu_native''"
| "FabricBackendKind_str Backend_rocm = ''rocm''"
| "FabricBackendKind_str Backend_metal = ''metal''"
| "FabricBackendKind_str Backend_cuda = ''cuda''"
| "FabricBackendKind_str Backend_vulkan = ''vulkan''"
| "FabricBackendKind_str Backend_tensix = ''tensix''"
| "FabricBackendKind_str Backend_webgpu = ''webgpu''"

datatype WorkloadClass =
  Load_prefill | Load_decode | Load_embedding | Load_attention | Load_mlp | Load_norm | Load_classification_head |
  Load_vision_encoder | Load_audio_feature | Load_tokenization | Load_postprocessing | Load_static_subgraph

datatype DeviceHealthState = Health_healthy | Health_degraded | Health_unhealthy | Health_unreachable

record PrismComputeDevice =
  cd_deviceId :: string
  cd_deviceClass :: PrismDeviceClass
  cd_backendKind :: FabricBackendKind
  cd_targetCapabilitySignature :: string
  cd_memoryDomainIds :: "string list"
  cd_computeCapabilities :: "string list"
  cd_supportedWorkloads :: "WorkloadClass list"
  cd_availableMemoryBytes :: int
  cd_reservedMemoryBytes :: int
  cd_healthState :: DeviceHealthState

datatype InterconnectType = Link_pcie | Link_p2p | Link_fabric | Link_numa | Link_socket | Link_chiplet

record PrismInterconnect =
  ic_interconnectId :: string
  ic_sourceDeviceId :: string
  ic_destinationDeviceId :: string
  ic_interconnectType :: InterconnectType
  ic_bandwidthBytesPerSecond :: "rat option"
  ic_latencyMicroseconds :: "rat option"
  ic_hops :: "int option"

text \<open>The bounds of a class; \<open>None\<close> is \<open>Infinity\<close>.\<close>

record BandwidthClass =
  bw_className :: string
  bw_minimumBytesPerSecond :: int
  bw_maximumBytesPerSecond :: "int option"

record FabricLatencyClass =
  la_className :: string
  la_minimumMicroseconds :: rat
  la_maximumMicroseconds :: "rat option"

record PrismMemoryDomainInfo =
  mdi_domainId :: string
  mdi_domainKind :: PrismMemoryDomainKind
  mdi_deviceIds :: "string list"
  mdi_totalBytes :: int
  mdi_usedBytes :: int
  mdi_reservedBytes :: int
  mdi_allocationGranularity :: int

record PrismTopologyGraph =
  tg_hostInstanceId :: string
  tg_topologyGeneration :: int
  tg_discoveredAt :: string
  tg_devices :: "PrismComputeDevice list"
  tg_memoryDomains :: "PrismMemoryDomainInfo list"
  tg_transportEdges :: "PrismMemoryTransportEdge list"
  tg_interconnects :: "PrismInterconnect list"
  tg_capabilitySignatures :: "string list"
  tg_measuredBandwidthClasses :: "BandwidthClass list"
  tg_measuredLatencyClasses :: "FabricLatencyClass list"
  tg_policyRestrictions :: "string list"

record PrismFabricMemoryBudget =
  fb_apuSharedMemoryLimit :: int
  fb_apuCpuReserve :: int
  fb_apuIntegratedGpuReserve :: int
  fb_apuNpuReserve :: "int option"
  fb_pinnedHostStagingLimit :: int
  fb_dGpuVramLimits :: "(string \<times> int) list"
  fb_acceleratorDramLimits :: "(string \<times> int) list"
  fb_maximumInflightTransfers :: int
  fb_maximumInflightHandoffs :: int
  fb_emergencyReclaimThreshold :: rat

record PrismKvResidencyPolicy =
  kp_preferExistingLocality :: bool
  kp_allowApuSharedResidency :: bool
  kp_allowDgpuResidency :: bool
  kp_allowExportToStaging :: bool
  kp_allowLocalHostHandoff :: bool
  kp_allowBackendNativeImport :: bool
  kp_maximumStagingBytes :: int
  kp_retentionDurationMs :: int
  kp_migrationThreshold :: rat

record DharmaPrismFabricPolicy =
  fp_allowedDeviceClasses :: "string list"
  fp_forbiddenDeviceClasses :: "string list"
  fp_allowApuSharedMemory :: bool
  fp_allowDgpuOffload :: bool
  fp_allowManagedMemoryMigration :: bool
  fp_allowDmaBufImport :: bool
  fp_allowLocalHostKvTransport :: bool
  fp_allowNpuSubgraphs :: bool
  fp_maximumTransferBytes :: int
  fp_maximumTransferDurationMs :: int
  fp_requireResidencyReceipt :: bool
  fp_requireSameHostAuthorityDomain :: bool

section \<open>Memory domains\<close>

definition createMemoryDomain :: "string \<Rightarrow> PrismMemoryDomainKind \<Rightarrow> int \<Rightarrow> PrismMemoryDomainInfo" where
  "createMemoryDomain i kind totalBytes =
     \<lparr>mdi_domainId = i, mdi_domainKind = kind, mdi_deviceIds = [], mdi_totalBytes = totalBytes, mdi_usedBytes = 0,
      mdi_reservedBytes = 0, mdi_allocationGranularity = 4096\<rparr>"

definition updateMemoryUsage :: "PrismMemoryDomainInfo \<Rightarrow> int \<Rightarrow> PrismMemoryDomainInfo" where
  "updateMemoryUsage domain usedBytes = domain\<lparr>mdi_usedBytes := max 0 (min usedBytes (mdi_totalBytes domain))\<rparr>"

definition getAvailableBytes :: "PrismMemoryDomainInfo \<Rightarrow> int" where
  "getAvailableBytes domain = max 0 (mdi_totalBytes domain - mdi_usedBytes domain - mdi_reservedBytes domain)"

definition isDomainFull :: "PrismMemoryDomainInfo \<Rightarrow> bool" where
  "isDomainFull domain \<longleftrightarrow> getAvailableBytes domain \<le> 0"

datatype residency_class = Residency_host | Residency_shared | Residency_device | Residency_persistent

fun classifyMemoryDomain :: "PrismMemoryDomainKind \<Rightarrow> residency_class" where
  "classifyMemoryDomain Mem_cpu_system_memory = Residency_host"
| "classifyMemoryDomain Mem_pinned_host_memory = Residency_host"
| "classifyMemoryDomain Mem_apu_shared_memory = Residency_shared"
| "classifyMemoryDomain Mem_integrated_gpu_local_alias = Residency_shared"
| "classifyMemoryDomain Mem_npu_shared_memory = Residency_shared"
| "classifyMemoryDomain Mem_shared_memory_segment = Residency_shared"
| "classifyMemoryDomain Mem_discrete_gpu_vram = Residency_device"
| "classifyMemoryDomain Mem_accelerator_device_dram = Residency_device"
| "classifyMemoryDomain Mem_managed_memory = Residency_persistent"
| "classifyMemoryDomain Mem_durable_local_cache = Residency_persistent"

section \<open>Transport edges\<close>

definition createTransportEdge :: "string \<Rightarrow> string \<Rightarrow> string \<Rightarrow> PrismMemoryTransportKind \<Rightarrow> PrismMemoryTransportEdge" where
  "createTransportEdge i sourceDomainId destDomainId kind =
     \<lparr>te_edgeId = i, te_sourceDomainId = sourceDomainId, te_destinationDomainId = destDomainId, te_transportKind = kind,
      te_accessMode = Access_read_write, te_coherencyMode = Coherency_io_coherent, te_maximumBytes = 0,
      te_measuredBandwidthBytesPerSecond = None, te_measuredLatencyMicroseconds = None, te_supportsAsync = False,
      te_supportsCancellation = False, te_supportsIntegrityValidation = False, te_availabilityState = Edge_untested\<rparr>"

definition updateEdgeAvailability :: "PrismMemoryTransportEdge \<Rightarrow> TransportEdgeState \<Rightarrow> PrismMemoryTransportEdge" where
  "updateEdgeAvailability edge state = edge\<lparr>te_availabilityState := state\<rparr>"

definition isEdgeAvailable :: "PrismMemoryTransportEdge \<Rightarrow> bool" where
  "isEdgeAvailable edge \<longleftrightarrow> te_availabilityState edge = Edge_available \<or> te_availabilityState edge = Edge_degraded"

definition canEdgeTransportBytes :: "PrismMemoryTransportEdge \<Rightarrow> int \<Rightarrow> bool" where
  "canEdgeTransportBytes edge bytes \<longleftrightarrow>
     (if \<not> isEdgeAvailable edge then False else if te_maximumBytes edge = 0 then True else bytes \<le> te_maximumBytes edge)"

datatype transport_class = Mechanism_shared | Mechanism_copy | Mechanism_import | Mechanism_unsupported

fun classifyTransportKind :: "PrismMemoryTransportKind \<Rightarrow> transport_class" where
  "classifyTransportKind Tran_direct_shared_access = Mechanism_shared"
| "classifyTransportKind Tran_zero_copy_mapped_access = Mechanism_shared"
| "classifyTransportKind Tran_dma_buf_import = Mechanism_import"
| "classifyTransportKind Tran_unsupported = Mechanism_unsupported"
| "classifyTransportKind _ = Mechanism_copy"

section \<open>Devices\<close>

definition createDevice :: "string \<Rightarrow> PrismDeviceClass \<Rightarrow> FabricBackendKind \<Rightarrow> int \<Rightarrow> PrismComputeDevice" where
  "createDevice i cls backend memBytes =
     \<lparr>cd_deviceId = i, cd_deviceClass = cls, cd_backendKind = backend,
      cd_targetCapabilitySignature = PrismDeviceClass_str cls @ '':'' @ FabricBackendKind_str backend, cd_memoryDomainIds = [],
      cd_computeCapabilities = [], cd_supportedWorkloads = [], cd_availableMemoryBytes = memBytes,
      cd_reservedMemoryBytes = 0, cd_healthState = Health_healthy\<rparr>"

definition setDeviceHealth :: "PrismComputeDevice \<Rightarrow> DeviceHealthState \<Rightarrow> PrismComputeDevice" where
  "setDeviceHealth device health = device\<lparr>cd_healthState := health\<rparr>"

definition isDeviceHealthy :: "PrismComputeDevice \<Rightarrow> bool" where
  "isDeviceHealthy device \<longleftrightarrow> cd_healthState device = Health_healthy \<or> cd_healthState device = Health_degraded"

definition canDeviceRunWorkload :: "PrismComputeDevice \<Rightarrow> WorkloadClass \<Rightarrow> bool" where
  "canDeviceRunWorkload device workload \<longleftrightarrow>
     (if \<not> isDeviceHealthy device then False
      else if cd_supportedWorkloads device = [] then True else workload \<in> set (cd_supportedWorkloads device))"

definition getDeviceComputeCapacity :: "PrismComputeDevice \<Rightarrow> int" where
  "getDeviceComputeCapacity device = cd_availableMemoryBytes device - cd_reservedMemoryBytes device"

section \<open>The topology graph\<close>

definition DEFAULT_BANDWIDTH_CLASSES :: "BandwidthClass list" where
  "DEFAULT_BANDWIDTH_CLASSES =
     [\<lparr>bw_className = ''ultra'', bw_minimumBytesPerSecond = 200000000000, bw_maximumBytesPerSecond = None\<rparr>,
      \<lparr>bw_className = ''high'', bw_minimumBytesPerSecond = 50000000000, bw_maximumBytesPerSecond = Some 200000000000\<rparr>,
      \<lparr>bw_className = ''medium'', bw_minimumBytesPerSecond = 10000000000, bw_maximumBytesPerSecond = Some 50000000000\<rparr>,
      \<lparr>bw_className = ''low'', bw_minimumBytesPerSecond = 1000000000, bw_maximumBytesPerSecond = Some 10000000000\<rparr>,
      \<lparr>bw_className = ''slow'', bw_minimumBytesPerSecond = 0, bw_maximumBytesPerSecond = Some 1000000000\<rparr>]"

definition DEFAULT_LATENCY_CLASSES :: "FabricLatencyClass list" where
  "DEFAULT_LATENCY_CLASSES =
     [\<lparr>la_className = ''ultra_low'', la_minimumMicroseconds = 0, la_maximumMicroseconds = Some (1 / 2)\<rparr>,
      \<lparr>la_className = ''low'', la_minimumMicroseconds = 1 / 2, la_maximumMicroseconds = Some 5\<rparr>,
      \<lparr>la_className = ''medium'', la_minimumMicroseconds = 5, la_maximumMicroseconds = Some 50\<rparr>,
      \<lparr>la_className = ''high'', la_minimumMicroseconds = 50, la_maximumMicroseconds = Some 500\<rparr>,
      \<lparr>la_className = ''slow'', la_minimumMicroseconds = 500, la_maximumMicroseconds = None\<rparr>]"

definition createEmptyTopologyGraph :: "string \<Rightarrow> string \<Rightarrow> PrismTopologyGraph" where
  "createEmptyTopologyGraph now hostId =
     \<lparr>tg_hostInstanceId = hostId, tg_topologyGeneration = 0, tg_discoveredAt = now, tg_devices = [],
      tg_memoryDomains = [], tg_transportEdges = [], tg_interconnects = [], tg_capabilitySignatures = [],
      tg_measuredBandwidthClasses = DEFAULT_BANDWIDTH_CLASSES, tg_measuredLatencyClasses = DEFAULT_LATENCY_CLASSES,
      tg_policyRestrictions = []\<rparr>"

definition addDeviceToGraph :: "PrismTopologyGraph \<Rightarrow> PrismComputeDevice \<Rightarrow> PrismTopologyGraph" where
  "addDeviceToGraph graph device = graph\<lparr>tg_devices := tg_devices graph @ [device]\<rparr>"

definition addMemoryDomain :: "PrismTopologyGraph \<Rightarrow> PrismMemoryDomainInfo \<Rightarrow> PrismTopologyGraph" where
  "addMemoryDomain graph domain = graph\<lparr>tg_memoryDomains := tg_memoryDomains graph @ [domain]\<rparr>"

definition addTransportEdge :: "PrismTopologyGraph \<Rightarrow> PrismMemoryTransportEdge \<Rightarrow> PrismTopologyGraph" where
  "addTransportEdge graph edge = graph\<lparr>tg_transportEdges := tg_transportEdges graph @ [edge]\<rparr>"

definition getDeviceById :: "PrismTopologyGraph \<Rightarrow> string \<Rightarrow> PrismComputeDevice option" where
  "getDeviceById graph deviceId = List.find (\<lambda>d. cd_deviceId d = deviceId) (tg_devices graph)"

definition getDomainById :: "PrismTopologyGraph \<Rightarrow> string \<Rightarrow> PrismMemoryDomainInfo option" where
  "getDomainById graph domainId = List.find (\<lambda>d. mdi_domainId d = domainId) (tg_memoryDomains graph)"

definition getDevicesByClass :: "PrismTopologyGraph \<Rightarrow> PrismDeviceClass \<Rightarrow> PrismComputeDevice list" where
  "getDevicesByClass graph deviceClass = List.filter (\<lambda>d. cd_deviceClass d = deviceClass) (tg_devices graph)"

definition getTransportEdgesBetween :: "PrismTopologyGraph \<Rightarrow> string \<Rightarrow> string \<Rightarrow> PrismMemoryTransportEdge list" where
  "getTransportEdgesBetween graph sourceDomainId destDomainId =
     List.filter (\<lambda>e. te_sourceDomainId e = sourceDomainId \<and> te_destinationDomainId e = destDomainId)
       (tg_transportEdges graph)"

definition getAvailableTransportKinds :: "PrismTopologyGraph \<Rightarrow> string \<Rightarrow> string \<Rightarrow> PrismMemoryTransportKind list" where
  "getAvailableTransportKinds graph sourceDomainId destDomainId =
     js_unique (List.map te_transportKind
       (List.filter (\<lambda>e. te_sourceDomainId e = sourceDomainId \<and> te_destinationDomainId e = destDomainId \<and>
            (te_availabilityState e = Edge_available \<or> te_availabilityState e = Edge_degraded)) (tg_transportEdges graph)))"

definition incrementTopologyGeneration :: "PrismTopologyGraph \<Rightarrow> PrismTopologyGraph" where
  "incrementTopologyGeneration graph = graph\<lparr>tg_topologyGeneration := tg_topologyGeneration graph + 1\<rparr>"

section \<open>Transport capabilities\<close>

definition isSharedKind :: "PrismMemoryDomainKind \<Rightarrow> bool" where
  "isSharedKind kind \<longleftrightarrow> kind = Mem_apu_shared_memory \<or> kind = Mem_npu_shared_memory \<or>
     kind = Mem_integrated_gpu_local_alias \<or> kind = Mem_shared_memory_segment"

definition isDeviceKind :: "PrismMemoryDomainKind \<Rightarrow> bool" where
  "isDeviceKind kind \<longleftrightarrow> kind = Mem_discrete_gpu_vram \<or> kind = Mem_accelerator_device_dram"

definition getClosestTransportKind :: "PrismMemoryDomainKind \<Rightarrow> PrismMemoryDomainKind \<Rightarrow> PrismMemoryTransportKind" where
  "getClosestTransportKind src dst =
     (if src = dst then
        (if src = Mem_discrete_gpu_vram \<or> src = Mem_accelerator_device_dram then Tran_peer_device_copy
         else Tran_direct_shared_access)
      else if src = Mem_cpu_system_memory \<and>
          (dst = Mem_apu_shared_memory \<or> dst = Mem_npu_shared_memory \<or> dst = Mem_integrated_gpu_local_alias)
        then Tran_direct_shared_access
      else if dst = Mem_cpu_system_memory \<and>
          (src = Mem_apu_shared_memory \<or> src = Mem_npu_shared_memory \<or> src = Mem_integrated_gpu_local_alias)
        then Tran_direct_shared_access
      else if isSharedKind src \<and> isSharedKind dst then Tran_direct_shared_access
      else if src = Mem_cpu_system_memory \<and> dst = Mem_discrete_gpu_vram then Tran_pinned_host_copy
      else if src = Mem_pinned_host_memory \<and> dst = Mem_discrete_gpu_vram then Tran_backend_device_copy
      else if src = Mem_cpu_system_memory \<and> dst = Mem_accelerator_device_dram then Tran_pinned_host_copy
      else if src = Mem_pinned_host_memory \<and> dst = Mem_accelerator_device_dram then Tran_backend_device_copy
      else if (src = Mem_discrete_gpu_vram \<or> src = Mem_accelerator_device_dram) \<and>
          (dst = Mem_cpu_system_memory \<or> dst = Mem_pinned_host_memory) then Tran_backend_device_copy
      else if isDeviceKind src \<and> isDeviceKind dst then Tran_peer_device_copy
      else if (src = Mem_apu_shared_memory \<or> src = Mem_integrated_gpu_local_alias) \<and>
          (dst = Mem_discrete_gpu_vram \<or> dst = Mem_accelerator_device_dram) then Tran_pinned_host_copy
      else if (src = Mem_discrete_gpu_vram \<or> src = Mem_accelerator_device_dram) \<and>
          (dst = Mem_apu_shared_memory \<or> dst = Mem_integrated_gpu_local_alias) then Tran_backend_device_copy
      else if isSharedKind src \<and> isDeviceKind dst then Tran_backend_device_copy
      else if isDeviceKind src \<and> isSharedKind dst then Tran_backend_device_copy
      else if src = Mem_managed_memory \<or> dst = Mem_managed_memory then Tran_managed_memory_migration
      else if src = Mem_durable_local_cache \<or> dst = Mem_durable_local_cache then Tran_serialized_payload_copy
      else Tran_unsupported)"

fun class_capabilities :: "PrismDeviceClass \<Rightarrow> bool \<Rightarrow> string list" where
  "class_capabilities Dev_cpu domains = (if domains then [''host_memory_access''] else [])"
| "class_capabilities Dev_integrated_gpu domains = [''shared_memory_access'', ''zero_copy_transport'']"
| "class_capabilities Dev_discrete_gpu domains = [''device_memory_access'', ''pinned_host_transfer'', ''peer_device_transfer'']"
| "class_capabilities Dev_npu domains = [''shared_memory_access'', ''npu_shared_access'']"
| "class_capabilities Dev_accelerator domains = [''device_memory_access'', ''dma_buf_import'']"
| "class_capabilities Dev_tpu domains = [''device_memory_access'', ''dma_buf_import'']"
| "class_capabilities Dev_fpga domains = [''pinned_host_transfer'']"
| "class_capabilities Dev_virtual domains = [''host_memory_access'']"

definition getRequiredCapabilities :: "PrismComputeDevice list \<Rightarrow> string list" where
  "getRequiredCapabilities devices =
     js_unique (concat (List.map (\<lambda>d. class_capabilities (cd_deviceClass d) (cd_memoryDomainIds d \<noteq> [])) devices))"

section \<open>Budgets\<close>

definition createFabricMemoryBudget :: PrismFabricMemoryBudget where
  "createFabricMemoryBudget =
     \<lparr>fb_apuSharedMemoryLimit = 8 * 1024 * 1024 * 1024, fb_apuCpuReserve = 512 * 1024 * 1024,
      fb_apuIntegratedGpuReserve = 2 * 1024 * 1024 * 1024, fb_apuNpuReserve = Some (512 * 1024 * 1024),
      fb_pinnedHostStagingLimit = 1 * 1024 * 1024 * 1024, fb_dGpuVramLimits = [], fb_acceleratorDramLimits = [],
      fb_maximumInflightTransfers = 4, fb_maximumInflightHandoffs = 2, fb_emergencyReclaimThreshold = fl (9 / 10)\<rparr>"

definition greatest_limit :: "(string \<times> int) list \<Rightarrow> int option" where
  "greatest_limit limits = (case List.map snd limits of [] \<Rightarrow> None | v # vs \<Rightarrow> Some (foldl max v vs))"

fun domainLimit :: "PrismFabricMemoryBudget \<Rightarrow> PrismMemoryDomainKind \<Rightarrow> int option" where
  "domainLimit budget Mem_apu_shared_memory = Some (fb_apuSharedMemoryLimit budget)"
| "domainLimit budget Mem_npu_shared_memory = fb_apuNpuReserve budget"
| "domainLimit budget Mem_pinned_host_memory = Some (fb_pinnedHostStagingLimit budget)"
| "domainLimit budget Mem_discrete_gpu_vram = greatest_limit (fb_dGpuVramLimits budget)"
| "domainLimit budget Mem_accelerator_device_dram = greatest_limit (fb_acceleratorDramLimits budget)"
| "domainLimit budget _ = None"

definition checkAllocationWithinBudget ::
    "PrismFabricMemoryBudget \<Rightarrow> PrismMemoryDomainKind \<Rightarrow> int \<Rightarrow> bool \<times> string option" where
  "checkAllocationWithinBudget budget domainKind bytes =
     (if bytes \<le> 0 then (False, Some ''Allocation must be positive'')
      else case domainLimit budget domainKind of
             None \<Rightarrow> (True, None)
           | Some limit \<Rightarrow>
               if bytes > limit
               then (False, Some (''Allocation of '' @ show_int bytes @ '' bytes exceeds '' @
                 PrismMemoryDomainKind_str domainKind @ '' limit of '' @ show_int limit @ '' bytes''))
               else (True, None))"

definition checkTransferBudget :: "PrismFabricMemoryBudget \<Rightarrow> int \<Rightarrow> int \<Rightarrow> bool \<times> string option" where
  "checkTransferBudget budget inflightTransfers inflightHandoffs =
     (if inflightTransfers > fb_maximumInflightTransfers budget
      then (False, Some (''Inflight transfers ('' @ show_int inflightTransfers @ '') exceeds maximum ('' @
        show_int (fb_maximumInflightTransfers budget) @ '')''))
      else if inflightHandoffs > fb_maximumInflightHandoffs budget
      then (False, Some (''Inflight handoffs ('' @ show_int inflightHandoffs @ '') exceeds maximum ('' @
        show_int (fb_maximumInflightHandoffs budget) @ '')''))
      else (True, None))"

definition isMemoryPressureCritical :: "PrismMemoryDomainInfo \<Rightarrow> rat \<Rightarrow> bool" where
  "isMemoryPressureCritical domain threshold \<longleftrightarrow>
     (let total_n = mdi_totalBytes domain
      in if total_n \<le> 0 then True
         else num_div (of_int (mdi_usedBytes domain + mdi_reservedBytes domain)) (of_int total_n) \<ge> threshold)"

section \<open>Residency of caches\<close>

fun getPreferredResidency :: "PrismDeviceClass \<Rightarrow> PrismMemoryDomainKind" where
  "getPreferredResidency Dev_cpu = Mem_cpu_system_memory"
| "getPreferredResidency Dev_integrated_gpu = Mem_apu_shared_memory"
| "getPreferredResidency Dev_discrete_gpu = Mem_discrete_gpu_vram"
| "getPreferredResidency Dev_npu = Mem_npu_shared_memory"
| "getPreferredResidency Dev_accelerator = Mem_accelerator_device_dram"
| "getPreferredResidency Dev_tpu = Mem_accelerator_device_dram"
| "getPreferredResidency Dev_fpga = Mem_pinned_host_memory"
| "getPreferredResidency Dev_virtual = Mem_shared_memory_segment"

definition resolveKvResidencyAfterHandoff ::
    "PrismMemoryDomainKind \<Rightarrow> PrismMemoryDomainKind \<Rightarrow> PrismMemoryTransportEdge list \<Rightarrow> PrismMemoryDomainInfo list \<Rightarrow>
     PrismMemoryDomainKind" where
  "resolveKvResidencyAfterHandoff sourceKind destKind transportEdges memoryDomains =
     (let destDomainIds = List.map mdi_domainId (List.filter (\<lambda>d. mdi_domainKind d = destKind) memoryDomains);
          hasDirectPath = list_ex (\<lambda>e. te_destinationDomainId e \<in> set destDomainIds \<and>
            te_sourceDomainId e \<noteq> te_destinationDomainId e \<and> te_transportKind e \<noteq> Tran_unsupported \<and>
            te_availabilityState e \<noteq> Edge_unavailable) transportEdges
      in if hasDirectPath then destKind
         else if list_ex (\<lambda>e. te_availabilityState e \<noteq> Edge_unavailable) transportEdges then Mem_pinned_host_memory
         else sourceKind)"

definition createDefaultKvResidencyPolicy :: PrismKvResidencyPolicy where
  "createDefaultKvResidencyPolicy =
     \<lparr>kp_preferExistingLocality = True, kp_allowApuSharedResidency = True, kp_allowDgpuResidency = False,
      kp_allowExportToStaging = False, kp_allowLocalHostHandoff = True, kp_allowBackendNativeImport = False,
      kp_maximumStagingBytes = 256 * 1024 * 1024, kp_retentionDurationMs = 300000, kp_migrationThreshold = fl (7 / 10)\<rparr>"

definition createAllowAllResidencyPolicy :: PrismKvResidencyPolicy where
  "createAllowAllResidencyPolicy =
     \<lparr>kp_preferExistingLocality = True, kp_allowApuSharedResidency = True, kp_allowDgpuResidency = True,
      kp_allowExportToStaging = True, kp_allowLocalHostHandoff = True, kp_allowBackendNativeImport = True,
      kp_maximumStagingBytes = 1 * 1024 * 1024 * 1024, kp_retentionDurationMs = 900000, kp_migrationThreshold = 1 / 2\<rparr>"

fun canResideOnDevice :: "PrismKvResidencyPolicy \<Rightarrow> PrismDeviceClass \<Rightarrow> bool" where
  "canResideOnDevice policy Dev_cpu = True"
| "canResideOnDevice policy Dev_integrated_gpu = kp_allowApuSharedResidency policy"
| "canResideOnDevice policy Dev_npu = kp_allowApuSharedResidency policy"
| "canResideOnDevice policy Dev_discrete_gpu = kp_allowDgpuResidency policy"
| "canResideOnDevice policy Dev_accelerator = kp_allowExportToStaging policy"
| "canResideOnDevice policy Dev_tpu = kp_allowExportToStaging policy"
| "canResideOnDevice policy Dev_fpga = kp_allowExportToStaging policy"
| "canResideOnDevice policy Dev_virtual = kp_allowLocalHostHandoff policy"

fun domainKindToDeviceClass :: "PrismMemoryDomainKind \<Rightarrow> PrismDeviceClass option" where
  "domainKindToDeviceClass Mem_cpu_system_memory = Some Dev_cpu"
| "domainKindToDeviceClass Mem_apu_shared_memory = Some Dev_integrated_gpu"
| "domainKindToDeviceClass Mem_integrated_gpu_local_alias = Some Dev_integrated_gpu"
| "domainKindToDeviceClass Mem_npu_shared_memory = Some Dev_npu"
| "domainKindToDeviceClass Mem_discrete_gpu_vram = Some Dev_discrete_gpu"
| "domainKindToDeviceClass Mem_accelerator_device_dram = Some Dev_accelerator"
| "domainKindToDeviceClass _ = None"

definition shouldMigrateKv :: "PrismMemoryDomainKind \<Rightarrow> PrismKvResidencyPolicy \<Rightarrow> bool" where
  "shouldMigrateKv currentDomainKind policy \<longleftrightarrow>
     (if (case domainKindToDeviceClass currentDomainKind of Some c \<Rightarrow> \<not> canResideOnDevice policy c | None \<Rightarrow> False) then True
      else if currentDomainKind = Mem_apu_shared_memory then kp_migrationThreshold policy \<le> fl (6 / 10)
      else False)"

section \<open>The policy of a Dharma lease\<close>

definition createDefaultDharmaFabricPolicy :: DharmaPrismFabricPolicy where
  "createDefaultDharmaFabricPolicy =
     \<lparr>fp_allowedDeviceClasses = [''cpu'', ''integrated_gpu'', ''discrete_gpu'', ''npu'', ''accelerator'', ''tpu'', ''fpga'',
        ''virtual''], fp_forbiddenDeviceClasses = [], fp_allowApuSharedMemory = True, fp_allowDgpuOffload = True,
      fp_allowManagedMemoryMigration = True, fp_allowDmaBufImport = True, fp_allowLocalHostKvTransport = True,
      fp_allowNpuSubgraphs = True, fp_maximumTransferBytes = 1073741824, fp_maximumTransferDurationMs = 30000,
      fp_requireResidencyReceipt = True, fp_requireSameHostAuthorityDomain = False\<rparr>"

definition createRestrictiveDharmaFabricPolicy :: DharmaPrismFabricPolicy where
  "createRestrictiveDharmaFabricPolicy =
     \<lparr>fp_allowedDeviceClasses = [''cpu'', ''integrated_gpu''],
      fp_forbiddenDeviceClasses = [''discrete_gpu'', ''npu'', ''accelerator'', ''tpu'', ''fpga'', ''virtual''],
      fp_allowApuSharedMemory = True, fp_allowDgpuOffload = False, fp_allowManagedMemoryMigration = False,
      fp_allowDmaBufImport = False, fp_allowLocalHostKvTransport = True, fp_allowNpuSubgraphs = False,
      fp_maximumTransferBytes = 268435456, fp_maximumTransferDurationMs = 10000, fp_requireResidencyReceipt = True,
      fp_requireSameHostAuthorityDomain = True\<rparr>"

definition isDeviceClassAllowed :: "DharmaPrismFabricPolicy \<Rightarrow> string \<Rightarrow> bool" where
  "isDeviceClassAllowed policy deviceClass \<longleftrightarrow>
     (if deviceClass \<in> set (fp_forbiddenDeviceClasses policy) then False
      else deviceClass \<in> set (fp_allowedDeviceClasses policy))"

definition isOffloadPermitted :: "DharmaPrismFabricPolicy \<Rightarrow> string \<Rightarrow> bool" where
  "isOffloadPermitted policy deviceClass \<longleftrightarrow>
     (if \<not> isDeviceClassAllowed policy deviceClass then False
      else if deviceClass = ''discrete_gpu'' \<and> \<not> fp_allowDgpuOffload policy then False else True)"

definition isTransportWithinPolicy :: "DharmaPrismFabricPolicy \<Rightarrow> string \<Rightarrow> int \<Rightarrow> bool" where
  "isTransportWithinPolicy policy transportKind bytes \<longleftrightarrow>
     (if bytes > fp_maximumTransferBytes policy then False
      else if transportKind = ''managed_memory_migration'' then fp_allowManagedMemoryMigration policy
      else if transportKind = ''dma_buf_import'' then fp_allowDmaBufImport policy
      else if transportKind = ''local_host_shared_memory_copy'' then fp_allowLocalHostKvTransport policy
      else True)"

definition isNpuAllowed :: "DharmaPrismFabricPolicy \<Rightarrow> bool" where
  "isNpuAllowed policy \<longleftrightarrow> fp_allowNpuSubgraphs policy \<and> ''npu'' \<in> set (fp_allowedDeviceClasses policy) \<and>
     ''npu'' \<notin> set (fp_forbiddenDeviceClasses policy)"

section \<open>Facts\<close>

lemma updateMemoryUsage_bounds:
  assumes "0 \<le> mdi_totalBytes domain"
  shows "0 \<le> mdi_usedBytes (updateMemoryUsage domain n) \<and> mdi_usedBytes (updateMemoryUsage domain n) \<le> mdi_totalBytes domain"
  using assms by (simp add: updateMemoryUsage_def)

lemma getAvailableBytes_bounds:
  assumes "0 \<le> mdi_totalBytes domain" "0 \<le> mdi_usedBytes domain" "0 \<le> mdi_reservedBytes domain"
  shows "0 \<le> getAvailableBytes domain \<and> getAvailableBytes domain \<le> mdi_totalBytes domain"
  using assms by (simp add: getAvailableBytes_def)

lemma greatest_limit_bound:
  assumes "greatest_limit limits = Some m"
  shows "m \<in> snd ` set limits \<and> (\<forall>v \<in> snd ` set limits. v \<le> m)"
proof -
  have fold: "foldl max v vs \<in> insert v (set vs) \<and> (\<forall>w \<in> insert v (set vs). w \<le> foldl max v vs)" for v :: int and vs
    by (induction vs rule: rev_induct) (auto simp: max_def)
  obtain v vs where l: "List.map snd limits = v # vs" using assms by (cases "List.map snd limits") (auto simp: greatest_limit_def)
  then have "snd ` set limits = insert v (set vs)" by (metis list.set_map list.simps(15))
  with assms l fold [of v vs] show ?thesis by (simp add: greatest_limit_def)
qed

text \<open>An allocation that fits the largest card passes the check for each.\<close>

lemma allocation_allowed_iff:
  "fst (checkAllocationWithinBudget budget kind bytes) \<longleftrightarrow>
     0 < bytes \<and> (\<forall>limit. domainLimit budget kind = Some limit \<longrightarrow> bytes \<le> limit)"
  by (auto simp: checkAllocationWithinBudget_def split: option.splits)

text \<open>A transfer is refused only beyond the maximum: one more than the maximum may be in flight.\<close>

lemma transfer_budget_admits_one_more:
  assumes "inflight = fb_maximumInflightTransfers budget" "handoffs \<le> fb_maximumInflightHandoffs budget"
  shows "checkTransferBudget budget inflight handoffs = (True, None)"
  using assms by (simp add: checkTransferBudget_def)

text \<open>
  Which pairs of domains have no transport: pinned host memory with all but devices, managed and durable memory, and
  system memory with a shared segment.  The first and the last are pairs of host memory.
\<close>

lemma unsupported_iff:
  "getClosestTransportKind src dst = Tran_unsupported \<longleftrightarrow>
     (src = Mem_pinned_host_memory \<and> (isSharedKind dst \<or> dst = Mem_cpu_system_memory)) \<or>
     (dst = Mem_pinned_host_memory \<and> (isSharedKind src \<or> src = Mem_cpu_system_memory)) \<or>
     (src = Mem_cpu_system_memory \<and> dst = Mem_shared_memory_segment) \<or>
     (src = Mem_shared_memory_segment \<and> dst = Mem_cpu_system_memory)"
  by (cases src; cases dst) (simp_all add: getClosestTransportKind_def isSharedKind_def isDeviceKind_def)

lemma support_symmetric:
  "getClosestTransportKind src dst = Tran_unsupported \<longleftrightarrow> getClosestTransportKind dst src = Tran_unsupported"
  unfolding unsupported_iff by blast

text \<open>The source of a handoff does not matter for where the cache ends when some edge leads to the destination.\<close>

lemma residency_ignores_source:
  assumes "resolveKvResidencyAfterHandoff src dst es ds = dst" "dst \<noteq> src" "dst \<noteq> Mem_pinned_host_memory"
  shows "resolveKvResidencyAfterHandoff src' dst es ds = dst"
  using assms by (auto simp: resolveKvResidencyAfterHandoff_def Let_def split: if_splits)

lemma available_kinds_exact:
  "set (getAvailableTransportKinds graph a b) =
     te_transportKind ` {e \<in> set (getTransportEdgesBetween graph a b). isEdgeAvailable e} \<and>
   distinct (getAvailableTransportKinds graph a b)"
  by (auto simp: getAvailableTransportKinds_def getTransportEdgesBetween_def isEdgeAvailable_def)

text \<open>The default policy keeps what it allows where it is; the permissive one moves shared memory away.\<close>

lemma default_policies_migrate:
  "shouldMigrateKv Mem_apu_shared_memory createDefaultKvResidencyPolicy = False"
  "shouldMigrateKv Mem_discrete_gpu_vram createDefaultKvResidencyPolicy"
  "shouldMigrateKv Mem_apu_shared_memory createAllowAllResidencyPolicy"
  by code_simp+

lemma restrictive_denies:
  "isOffloadPermitted createRestrictiveDharmaFabricPolicy c \<longleftrightarrow> c = ''cpu'' \<or> c = ''integrated_gpu''"
  by (auto simp: isOffloadPermitted_def isDeviceClassAllowed_def createRestrictiveDharmaFabricPolicy_def)

end
