(* ===== verification/Fabric_Placement.thy ===== *)
theory Fabric_Placement imports Fabric_Types Js_Runtime begin

text \<open>
  Placement in the memory fabric of Prism: requests (\<open>placement-request.ts\<close>), scores (\<open>placement-scorer.ts\<close>), the planner
  (\<open>placement-planner.ts\<close>), handoffs between domains (\<open>fabric-handoff.ts\<close>) and execution receipts
  (\<open>fabric-receipts.ts\<close>).  The counters of identifiers are arguments and results.
\<close>

section \<open>Requests\<close>

datatype WorkloadPhase = Fabric_prefill | Fabric_decode | Fabric_mixed

datatype PromptLengthClass = Prompt_short | Prompt_medium | Prompt_long | Prompt_very_long

datatype GenerationLengthClass = Generation_short | Generation_medium | Generation_long

datatype LatencyPreference = Latency_lowest | Latency_low | Latency_standard | Latency_throughput

datatype EnergyPreference = Energy_balanced | Energy_low_power | Energy_performance

record PrismFabricPlacementRequest =
  fq_requestId :: string
  fq_routeId :: string
  fq_dharmaLeaseId :: "string option"
  fq_workloadClass :: WorkloadClass
  fq_modelArtifactDigest :: string
  fq_tokenizerDigest :: string
  fq_phase :: WorkloadPhase
  fq_inputTokenCount :: int
  fq_requestedOutputTokens :: int
  fq_promptLengthClass :: PromptLengthClass
  fq_generationLengthClass :: GenerationLengthClass
  fq_latencyPreference :: LatencyPreference
  fq_energyPreference :: "EnergyPreference option"
  fq_dataResidencyRequirements :: "string list"
  fq_allowedDevices :: "string list"
  fq_forbiddenDevices :: "string list"

definition classifyPromptLength :: "int \<Rightarrow> PromptLengthClass" where
  "classifyPromptLength tokens =
     (if tokens \<le> 511 then Prompt_short else if tokens \<le> 2047 then Prompt_medium
      else if tokens \<le> 8191 then Prompt_long else Prompt_very_long)"

definition classifyGenerationLength :: "int \<Rightarrow> GenerationLengthClass" where
  "classifyGenerationLength tokens =
     (if tokens \<le> 127 then Generation_short else if tokens \<le> 1023 then Generation_medium else Generation_long)"

definition createPlacementRequest ::
    "string \<Rightarrow> string \<Rightarrow> WorkloadClass \<Rightarrow> string \<Rightarrow> string \<Rightarrow> int \<Rightarrow> int \<Rightarrow> PrismFabricPlacementRequest" where
  "createPlacementRequest requestId routeId workload modelDigest tokenizerDigest inputTokens outputTokens =
     \<lparr>fq_requestId = requestId, fq_routeId = routeId, fq_dharmaLeaseId = None, fq_workloadClass = workload,
      fq_modelArtifactDigest = modelDigest, fq_tokenizerDigest = tokenizerDigest, fq_phase = Fabric_prefill,
      fq_inputTokenCount = inputTokens, fq_requestedOutputTokens = outputTokens,
      fq_promptLengthClass = classifyPromptLength inputTokens,
      fq_generationLengthClass = classifyGenerationLength outputTokens, fq_latencyPreference = Latency_standard,
      fq_energyPreference = None, fq_dataResidencyRequirements = [], fq_allowedDevices = [], fq_forbiddenDevices = []\<rparr>"

text \<open>The opaque policy of a lease: the number of its keys and the two that are read.\<close>

record lease_envelope =
  lv_keys :: nat
  lv_maxTotalTokens :: "int option"
  lv_allowedWorkloads :: "WorkloadClass list option"

definition isRequestWithinLease :: "PrismFabricPlacementRequest \<Rightarrow> lease_envelope \<Rightarrow> bool" where
  "isRequestWithinLease request leasePolicy \<longleftrightarrow>
     (if fq_dharmaLeaseId request = None then True
      else if lv_keys leasePolicy = 0 then True
      else if (case lv_maxTotalTokens leasePolicy of
                 Some m \<Rightarrow> fq_inputTokenCount request + fq_requestedOutputTokens request > m | None \<Rightarrow> False) then False
      else if (case lv_allowedWorkloads leasePolicy of
                 Some ws \<Rightarrow> fq_workloadClass request \<notin> set ws | None \<Rightarrow> False) then False
      else True)"

section \<open>Scores\<close>

fun APU_WORKLOAD_PREFERENCE :: "WorkloadClass \<Rightarrow> rat option" where
  "APU_WORKLOAD_PREFERENCE Load_prefill = Some (fl (9 / 10))"
| "APU_WORKLOAD_PREFERENCE Load_decode = Some (fl (8 / 10))"
| "APU_WORKLOAD_PREFERENCE Load_embedding = Some (fl (9 / 10))"
| "APU_WORKLOAD_PREFERENCE Load_tokenization = Some 1"
| "APU_WORKLOAD_PREFERENCE Load_postprocessing = Some 1"
| "APU_WORKLOAD_PREFERENCE Load_static_subgraph = Some (fl (7 / 10))"
| "APU_WORKLOAD_PREFERENCE _ = None"

fun DGPU_WORKLOAD_PREFERENCE :: "WorkloadClass \<Rightarrow> rat option" where
  "DGPU_WORKLOAD_PREFERENCE Load_prefill = Some (fl (8 / 10))"
| "DGPU_WORKLOAD_PREFERENCE Load_decode = Some (fl (95 / 100))"
| "DGPU_WORKLOAD_PREFERENCE Load_attention = Some (fl (95 / 100))"
| "DGPU_WORKLOAD_PREFERENCE Load_mlp = Some (fl (9 / 10))"
| "DGPU_WORKLOAD_PREFERENCE Load_classification_head = Some (fl (95 / 100))"
| "DGPU_WORKLOAD_PREFERENCE Load_vision_encoder = Some 1"
| "DGPU_WORKLOAD_PREFERENCE Load_audio_feature = Some 1"
| "DGPU_WORKLOAD_PREFERENCE _ = None"

fun CPU_WORKLOAD_PREFERENCE :: "WorkloadClass \<Rightarrow> rat option" where
  "CPU_WORKLOAD_PREFERENCE Load_tokenization = Some (fl (9 / 10))"
| "CPU_WORKLOAD_PREFERENCE Load_postprocessing = Some (fl (9 / 10))"
| "CPU_WORKLOAD_PREFERENCE Load_static_subgraph = Some (fl (6 / 10))"
| "CPU_WORKLOAD_PREFERENCE Load_embedding = Some (1 / 2)"
| "CPU_WORKLOAD_PREFERENCE _ = None"

fun NPU_WORKLOAD_PREFERENCE :: "WorkloadClass \<Rightarrow> rat option" where
  "NPU_WORKLOAD_PREFERENCE Load_prefill = Some (1 / 2)"
| "NPU_WORKLOAD_PREFERENCE Load_decode = Some (1 / 2)"
| "NPU_WORKLOAD_PREFERENCE Load_attention = Some (fl (9 / 10))"
| "NPU_WORKLOAD_PREFERENCE Load_mlp = Some (fl (8 / 10))"
| "NPU_WORKLOAD_PREFERENCE Load_norm = Some (fl (8 / 10))"
| "NPU_WORKLOAD_PREFERENCE _ = None"

fun DEVICE_CLASS_BASE_SCORES :: "PrismDeviceClass \<Rightarrow> rat" where
  "DEVICE_CLASS_BASE_SCORES Dev_cpu = fl (2 / 10)"
| "DEVICE_CLASS_BASE_SCORES Dev_integrated_gpu = fl (7 / 10)"
| "DEVICE_CLASS_BASE_SCORES Dev_discrete_gpu = fl (85 / 100)"
| "DEVICE_CLASS_BASE_SCORES Dev_npu = fl (6 / 10)"
| "DEVICE_CLASS_BASE_SCORES Dev_accelerator = fl (9 / 10)"
| "DEVICE_CLASS_BASE_SCORES Dev_tpu = fl (85 / 100)"
| "DEVICE_CLASS_BASE_SCORES Dev_fpga = 1 / 2"
| "DEVICE_CLASS_BASE_SCORES Dev_virtual = fl (1 / 10)"

fun DEVICE_CLASS_WORKLOAD_TABLE :: "PrismDeviceClass \<Rightarrow> WorkloadClass \<Rightarrow> rat option" where
  "DEVICE_CLASS_WORKLOAD_TABLE Dev_cpu w = CPU_WORKLOAD_PREFERENCE w"
| "DEVICE_CLASS_WORKLOAD_TABLE Dev_integrated_gpu w = APU_WORKLOAD_PREFERENCE w"
| "DEVICE_CLASS_WORKLOAD_TABLE Dev_discrete_gpu w = DGPU_WORKLOAD_PREFERENCE w"
| "DEVICE_CLASS_WORKLOAD_TABLE Dev_npu w = NPU_WORKLOAD_PREFERENCE w"
| "DEVICE_CLASS_WORKLOAD_TABLE Dev_accelerator w =
     (if w = Load_prefill \<or> w = Load_decode \<or> w = Load_mlp then Some (fl (9 / 10))
      else if w = Load_attention then Some (fl (95 / 100)) else if w = Load_norm then Some (fl (85 / 100)) else None)"
| "DEVICE_CLASS_WORKLOAD_TABLE Dev_tpu w =
     (if w = Load_prefill \<or> w = Load_mlp then Some (fl (9 / 10))
      else if w = Load_decode \<or> w = Load_norm then Some (fl (85 / 100)) else if w = Load_attention then Some 1 else None)"
| "DEVICE_CLASS_WORKLOAD_TABLE Dev_fpga w = (if w = Load_static_subgraph then Some (fl (8 / 10)) else None)"
| "DEVICE_CLASS_WORKLOAD_TABLE Dev_virtual w = None"

fun MEMORY_DOMAIN_BASE_SCORES :: "PrismMemoryDomainKind \<Rightarrow> rat" where
  "MEMORY_DOMAIN_BASE_SCORES Mem_cpu_system_memory = fl (3 / 10)"
| "MEMORY_DOMAIN_BASE_SCORES Mem_apu_shared_memory = fl (7 / 10)"
| "MEMORY_DOMAIN_BASE_SCORES Mem_integrated_gpu_local_alias = fl (65 / 100)"
| "MEMORY_DOMAIN_BASE_SCORES Mem_npu_shared_memory = 1 / 2"
| "MEMORY_DOMAIN_BASE_SCORES Mem_discrete_gpu_vram = fl (8 / 10)"
| "MEMORY_DOMAIN_BASE_SCORES Mem_accelerator_device_dram = fl (85 / 100)"
| "MEMORY_DOMAIN_BASE_SCORES Mem_pinned_host_memory = fl (4 / 10)"
| "MEMORY_DOMAIN_BASE_SCORES Mem_managed_memory = 1 / 2"
| "MEMORY_DOMAIN_BASE_SCORES Mem_shared_memory_segment = fl (6 / 10)"
| "MEMORY_DOMAIN_BASE_SCORES Mem_durable_local_cache = fl (55 / 100)"

fun HEALTH_MULTIPLIERS :: "DeviceHealthState \<Rightarrow> rat" where
  "HEALTH_MULTIPLIERS Health_healthy = 1"
| "HEALTH_MULTIPLIERS Health_degraded = 1 / 2"
| "HEALTH_MULTIPLIERS Health_unhealthy = 0"
| "HEALTH_MULTIPLIERS Health_unreachable = 0"

definition scoreDeviceForWorkload :: "PrismComputeDevice \<Rightarrow> PrismFabricPlacementRequest \<Rightarrow> rat" where
  "scoreDeviceForWorkload device request =
     (let baseScore = DEVICE_CLASS_BASE_SCORES (cd_deviceClass device);
          workloadPref = nullish (DEVICE_CLASS_WORKLOAD_TABLE (cd_deviceClass device) (fq_workloadClass request)) (fl (3 / 10));
          healthMult = HEALTH_MULTIPLIERS (cd_healthState device);
          freeFrac = num_div (of_int (cd_availableMemoryBytes device))
            (of_int (max (cd_availableMemoryBytes device + cd_reservedMemoryBytes device) 1));
          memoryScore = (if freeFrac \<ge> fl (1 / 10) then 1 else num_div freeFrac (fl (1 / 10)))
      in num_add (num_add (num_add (num_mul baseScore (1 / 4)) (num_mul workloadPref (fl (35 / 100))))
           (num_mul healthMult (1 / 4))) (num_mul memoryScore (fl (15 / 100))))"

definition scoreMemoryDomain :: "PrismMemoryDomainInfo \<Rightarrow> PrismFabricPlacementRequest \<Rightarrow> rat" where
  "scoreMemoryDomain domain request =
     (let baseScore = MEMORY_DOMAIN_BASE_SCORES (mdi_domainKind domain);
          freeFrac = num_div (of_int (mdi_totalBytes domain - mdi_usedBytes domain - mdi_reservedBytes domain))
            (of_int (max (mdi_totalBytes domain) 1));
          capacityScore = min (num_mul freeFrac 2) 1
      in num_add (num_mul baseScore (1 / 2)) (num_mul capacityScore (1 / 2)))"

definition scoreTransferCost :: "PrismMemoryTransportEdge \<Rightarrow> int \<Rightarrow> rat" where
  "scoreTransferCost edge bytes =
     (if te_availabilityState edge = Edge_unavailable then 0
      else if te_availabilityState edge = Edge_untested then fl (3 / 10)
      else
        let bwScore = (case te_measuredBandwidthBytesPerSecond edge of
              Some bw \<Rightarrow> min (num_div bw 100000000000) 1 | None \<Rightarrow> 1 / 2);
            latPenalty = (case te_measuredLatencyMicroseconds edge of
              Some lat \<Rightarrow> max (num_sub 1 (num_div lat 100)) 0 | None \<Rightarrow> 1 / 2);
            availMult = (if te_availabilityState edge = Edge_degraded then 1 / 2 else 1);
            base = num_add (num_mul bwScore (1 / 2)) (num_mul latPenalty (1 / 2))
        in num_mul base availMult)"

definition scoreKvLocality :: "bool \<Rightarrow> bool \<Rightarrow> rat" where
  "scoreKvLocality hasExistingKv preferLocality =
     (if hasExistingKv \<and> preferLocality then 1 else if hasExistingKv then fl (8 / 10) else 1 / 2)"

section \<open>The planner\<close>

text \<open>A cost is a number, or \<open>None\<close> for \<open>Infinity\<close>.\<close>

record PrismFabricPlacementDecision =
  fd_decisionId :: string
  fd_selectedDeviceId :: string
  fd_selectedMemoryDomainId :: string
  fd_selectedTransportPath :: "PrismMemoryTransportEdge list"
  fd_sourceResidency :: "PrismMemoryDomainKind option"
  fd_destinationResidency :: PrismMemoryDomainKind
  fd_estimatedTransferCost :: "rat option"
  fd_estimatedExecutionCost :: rat
  fd_expectedKvReuse :: bool
  fd_fallbackDecisionIds :: "string list"
  fd_policyBasis :: string
  fd_decisionReason :: string

definition findTransportPath :: "PrismMemoryTransportEdge list \<Rightarrow> string \<Rightarrow> PrismMemoryTransportEdge list" where
  "findTransportPath edges targetDomainId =
     take 1 (List.filter (\<lambda>e. (te_sourceDomainId e = targetDomainId \<or> te_destinationDomainId e = targetDomainId) \<and>
         te_availabilityState e \<noteq> Edge_unavailable) edges)"

definition estimateMovementCost :: "int \<Rightarrow> PrismMemoryTransportEdge option \<Rightarrow> rat option" where
  "estimateMovementCost transferBytes edge =
     (case edge of
        None \<Rightarrow> Some (num_div (of_int transferBytes) (1024 * 1024))
      | Some e \<Rightarrow>
          if te_availabilityState e = Edge_unavailable then None
          else
            let lat = nullish (te_measuredLatencyMicroseconds e) 0
            in case te_measuredBandwidthBytesPerSecond e of
                 Some bw \<Rightarrow>
                   if bw > 0 then Some (num_add (num_mul (num_div (of_int transferBytes) bw) 1000) (num_div lat 10))
                   else Some (num_div (of_int transferBytes) (1024 * 1024))
               | None \<Rightarrow> Some (num_div (of_int transferBytes) (1024 * 1024)))"

definition estimateExecutionCost :: "int \<Rightarrow> int \<Rightarrow> bool \<Rightarrow> rat" where
  "estimateExecutionCost inputTokens outputTokens hasKvReuse =
     (let kvReuseFactor = (if hasKvReuse then fl (6 / 10) else 1)
      in num_mul (num_add (num_mul (of_int inputTokens) (1 / 2)) (num_mul (of_int outputTokens) 1)) kvReuseFactor)"

definition isDeviceAllowed :: "PrismFabricPlacementRequest \<Rightarrow> string \<Rightarrow> PrismComputeDevice list \<Rightarrow> bool" where
  "isDeviceAllowed request deviceId devices \<longleftrightarrow>
     (if deviceId \<in> set (fq_forbiddenDevices request) then False
      else if fq_allowedDevices request \<noteq> [] then deviceId \<in> set (fq_allowedDevices request)
      else True)"

definition domain_free :: "PrismMemoryDomainInfo \<Rightarrow> int" where
  "domain_free d = mdi_totalBytes d - mdi_usedBytes d - mdi_reservedBytes d"

definition most_free :: "PrismMemoryDomainInfo \<Rightarrow> PrismMemoryDomainInfo list \<Rightarrow> PrismMemoryDomainInfo" where
  "most_free d ds = foldl (\<lambda>a b. if domain_free a \<ge> domain_free b then a else b) d ds"

definition first_edge :: "PrismMemoryTransportEdge list \<Rightarrow> PrismMemoryTransportEdge option" where
  "first_edge path = (case path of [] \<Rightarrow> None | e # es \<Rightarrow> Some e)"

definition candidate_on ::
    "PrismTopologyGraph \<Rightarrow> PrismFabricPlacementRequest \<Rightarrow> PrismComputeDevice \<Rightarrow> PrismFabricPlacementDecision option" where
  "candidate_on graph request device =
     (if \<not> isDeviceAllowed request (cd_deviceId device) (tg_devices graph) then None
      else
        case List.filter (\<lambda>d. cd_deviceId device \<in> set (mdi_deviceIds d)) (tg_memoryDomains graph) of
          [] \<Rightarrow> None
        | d # ds \<Rightarrow>
            let bestDomain = most_free d ds;
                transportPath = findTransportPath (tg_transportEdges graph) (mdi_domainId bestDomain);
                transferBytes = (fq_inputTokenCount request + fq_requestedOutputTokens request) * 512
            in Some
              \<lparr>fd_decisionId = ''decision-'' @ fq_requestId request @ ''-'' @ cd_deviceId device,
               fd_selectedDeviceId = cd_deviceId device, fd_selectedMemoryDomainId = mdi_domainId bestDomain,
               fd_selectedTransportPath = transportPath, fd_sourceResidency = None,
               fd_destinationResidency = mdi_domainKind bestDomain,
               fd_estimatedTransferCost = estimateMovementCost transferBytes (first_edge transportPath),
               fd_estimatedExecutionCost =
                 estimateExecutionCost (fq_inputTokenCount request) (fq_requestedOutputTokens request) False,
               fd_expectedKvReuse = False, fd_fallbackDecisionIds = [], fd_policyBasis = ''enumerate'',
               fd_decisionReason = ''Candidate on '' @ PrismDeviceClass_str (cd_deviceClass device) @ '' device '' @
                 cd_deviceId device\<rparr>)"

definition enumerateCandidatePlacements ::
    "PrismTopologyGraph \<Rightarrow> PrismFabricPlacementRequest \<Rightarrow> PrismFabricPlacementDecision list" where
  "enumerateCandidatePlacements graph request = List.map_filter (candidate_on graph request) (tg_devices graph)"

definition clamp01 :: "rat \<Rightarrow> rat" where
  "clamp01 v = max 0 (min 1 v)"

text \<open>One minus an infinite cost clamps to 0.\<close>

definition transfer_score :: "rat option \<Rightarrow> rat" where
  "transfer_score cost =
     (case cost of None \<Rightarrow> 0 | Some c \<Rightarrow> clamp01 (num_sub 1 (if c > 0 then num_div c 5000 else 0)))"

definition scorePlacement :: "PrismFabricPlacementDecision \<Rightarrow> PrismFabricPlacementRequest \<Rightarrow> rat" where
  "scorePlacement decision request =
     (let transferCostScore = transfer_score (fd_estimatedTransferCost decision);
          execCostScore = clamp01 (num_sub 1
            (if fd_estimatedExecutionCost decision > 0 then num_div (fd_estimatedExecutionCost decision) 10000 else 0));
          kvScore = scoreKvLocality (fd_expectedKvReuse decision) True
      in num_add (num_add (num_add (num_mul execCostScore (1 / 4)) (num_mul transferCostScore (1 / 4)))
           (num_mul transferCostScore (fl (3 / 10)))) (num_mul kvScore (fl (2 / 10))))"

definition has_capacity :: "PrismTopologyGraph \<Rightarrow> PrismFabricMemoryBudget \<Rightarrow> PrismFabricPlacementDecision \<Rightarrow> bool" where
  "has_capacity graph budget decision \<longleftrightarrow>
     (case List.find (\<lambda>m. mdi_domainId m = fd_selectedMemoryDomainId decision) (tg_memoryDomains graph) of
        None \<Rightarrow> False
      | Some domain \<Rightarrow>
          num_div (of_int (mdi_usedBytes domain + mdi_reservedBytes domain)) (of_int (max (mdi_totalBytes domain) 1)) <
            fb_emergencyReclaimThreshold budget)"

text \<open>\<open>toFixed(3)\<close> of a score, which is not negative: the nearest multiple of a thousandth, the larger of two.\<close>

definition toFixed3 :: "rat \<Rightarrow> string" where
  "toFixed3 x =
     (let n = \<lfloor>x * 1000 + 1 / 2\<rfloor>; f = n mod 1000
      in show_int (n div 1000) @ ''.'' @ replicate (3 - length (show_int f)) (CHR ''0'') @ show_int f)"

definition selectPlacement ::
    "PrismTopologyGraph \<Rightarrow> PrismFabricPlacementRequest \<Rightarrow> PrismFabricMemoryBudget \<Rightarrow> PrismFabricPlacementDecision option" where
  "selectPlacement graph request budget =
     (let candidates = enumerateCandidatePlacements graph request;
          scored = sort_key (\<lambda>(d, score). - score)
            (List.filter (\<lambda>(d, score). has_capacity graph budget d)
              (List.map (\<lambda>d. (d, scorePlacement d request)) candidates))
      in case scored of
           [] \<Rightarrow> None
         | (best, score) # rest \<Rightarrow>
             Some (best\<lparr>fd_policyBasis := ''scored'',
               fd_decisionReason := ''Selected device '' @ fd_selectedDeviceId best @ '' with score '' @ toFixed3 score\<rparr>))"

definition makeFallbackDecision :: "string \<Rightarrow> PrismFabricPlacementDecision" where
  "makeFallbackDecision reason =
     \<lparr>fd_decisionId = ''fallback-cpu'', fd_selectedDeviceId = ''cpu-fallback'',
      fd_selectedMemoryDomainId = ''cpu-system-memory-fallback'', fd_selectedTransportPath = [], fd_sourceResidency = None,
      fd_destinationResidency = Mem_cpu_system_memory, fd_estimatedTransferCost = Some 0, fd_estimatedExecutionCost = 0,
      fd_expectedKvReuse = False, fd_fallbackDecisionIds = [], fd_policyBasis = ''fallback'', fd_decisionReason = reason\<rparr>"

section \<open>Handoffs\<close>

record PrismFabricKvHandoffRequest =
  fh_handoffId :: string
  fh_sourceDeviceId :: string
  fh_sourceMemoryDomainId :: string
  fh_destinationDeviceId :: string
  fh_destinationMemoryDomainId :: string
  fh_sourceResidencyKind :: PrismMemoryDomainKind
  fh_destinationResidencyKind :: PrismMemoryDomainKind
  fh_selectedTransportPath :: "PrismMemoryTransportEdge list"
  fh_transferRepresentation :: string
  fh_sourceComputeImageDigest :: string
  fh_destinationComputeImageDigest :: string
  fh_compatibilityDescriptorDigest :: string
  fh_estimatedTransferBytes :: int
  fh_policyBasis :: string

definition nextHandoffId :: "nat \<Rightarrow> string \<times> nat" where
  "nextHandoffId counter = (''handoff_'' @ show_int (int (counter + 1)), counter + 1)"

definition transport_penalty :: "PrismMemoryTransportKind \<Rightarrow> PrismMemoryTransportEdge \<Rightarrow> nat" where
  "transport_penalty expectedKind e =
     (if te_availabilityState e = Edge_available then 0 else 1) * 100 + (if te_transportKind e = expectedKind then 0 else 1)"

definition selectTransportPath ::
    "PrismMemoryDomainKind \<Rightarrow> PrismMemoryDomainKind \<Rightarrow> PrismMemoryTransportEdge list \<Rightarrow> PrismMemoryTransportEdge option" where
  "selectTransportPath sourceDomainKind destDomainKind edges =
     (let candidates = List.filter (\<lambda>e. te_availabilityState e = Edge_available \<or> te_availabilityState e = Edge_untested) edges;
          expectedKind = getClosestTransportKind sourceDomainKind destDomainKind
      in case sort_key (transport_penalty expectedKind) candidates of [] \<Rightarrow> None | e # es \<Rightarrow> Some e)"

definition createFabricKvHandoffRequest ::
    "string \<Rightarrow> string \<Rightarrow> string \<Rightarrow> string \<Rightarrow> nat \<Rightarrow> PrismFabricKvHandoffRequest \<times> nat" where
  "createFabricKvHandoffRequest sourceDeviceId sourceDomainId destDeviceId destDomainId counter =
     (let (i, counter') = nextHandoffId counter
      in (\<lparr>fh_handoffId = i, fh_sourceDeviceId = sourceDeviceId, fh_sourceMemoryDomainId = sourceDomainId,
           fh_destinationDeviceId = destDeviceId, fh_destinationMemoryDomainId = destDomainId,
           fh_sourceResidencyKind = Mem_cpu_system_memory, fh_destinationResidencyKind = Mem_apu_shared_memory,
           fh_selectedTransportPath = [], fh_transferRepresentation = ''flat_buffer'',
           fh_sourceComputeImageDigest = ''sha256:unset'', fh_destinationComputeImageDigest = ''sha256:unset'',
           fh_compatibilityDescriptorDigest = ''sha256:unset'', fh_estimatedTransferBytes = 4194304,
           fh_policyBasis = ''default''\<rparr>, counter'))"

definition blank_text :: "string \<Rightarrow> bool" where
  "blank_text s \<longleftrightarrow> list_all (\<lambda>c. c = CHR '' '' \<or> 9 \<le> (of_char c :: nat) \<and> (of_char c :: nat) \<le> 13) s"

definition validateFabricHandoffCompatibility :: "PrismFabricKvHandoffRequest \<Rightarrow> bool \<times> string option" where
  "validateFabricHandoffCompatibility request =
     (if blank_text (fh_handoffId request) then (False, Some ''handoffId must be non-empty'')
      else if blank_text (fh_sourceDeviceId request) then (False, Some ''sourceDeviceId must be non-empty'')
      else if blank_text (fh_destinationDeviceId request) then (False, Some ''destinationDeviceId must be non-empty'')
      else if blank_text (fh_sourceMemoryDomainId request) then (False, Some ''sourceMemoryDomainId must be non-empty'')
      else if blank_text (fh_destinationMemoryDomainId request)
        then (False, Some ''destinationMemoryDomainId must be non-empty'')
      else if fh_sourceDeviceId request = fh_destinationDeviceId request
        then (False, Some ''source and destination device ids must differ'')
      else if fh_sourceMemoryDomainId request = fh_destinationMemoryDomainId request
        then (False, Some ''source and destination memory domain ids must differ'')
      else if fh_estimatedTransferBytes request \<le> 0 then (False, Some ''estimatedTransferBytes must be positive'')
      else (True, None))"

fun domain_label :: "PrismMemoryDomainKind \<Rightarrow> string" where
  "domain_label Mem_cpu_system_memory = ''CPU System Memory''"
| "domain_label Mem_apu_shared_memory = ''APU Shared Memory''"
| "domain_label Mem_integrated_gpu_local_alias = ''iGPU Local''"
| "domain_label Mem_npu_shared_memory = ''NPU Shared Memory''"
| "domain_label Mem_discrete_gpu_vram = ''dGPU VRAM''"
| "domain_label Mem_accelerator_device_dram = ''Accelerator DRAM''"
| "domain_label Mem_pinned_host_memory = ''Pinned Host''"
| "domain_label Mem_managed_memory = ''Managed Memory''"
| "domain_label Mem_shared_memory_segment = ''Shared Segment''"
| "domain_label Mem_durable_local_cache = ''Durable Cache''"

text \<open>The arrow is one character, three bytes.\<close>

definition getHandoffModeLabel :: "PrismMemoryDomainKind \<Rightarrow> PrismMemoryDomainKind \<Rightarrow> string" where
  "getHandoffModeLabel src dst = domain_label src @ [CHR '' '', CHR 0xE2, CHR 0x86, CHR 0x92, CHR '' ''] @ domain_label dst"

section \<open>Execution receipts\<close>

datatype PrismFabricPlacementMode =
  Mode_apu_cpu_only | Mode_apu_integrated_gpu | Mode_apu_npu_subgraph | Mode_apu_shared_cpu_gpu_pipeline |
  Mode_dGPU_offload | Mode_dGPU_resident_session | Mode_mixed_apu_dGPU_pipeline | Mode_accelerator_device_execution |
  Mode_fallback_cpu

record PrismFabricExecutionReceipt =
  xr_receiptId :: string
  xr_requestId :: string
  xr_routeId :: string
  xr_dharmaLeaseId :: "string option"
  xr_sessionId :: "string option"
  xr_selectedDeviceId :: string
  xr_selectedMemoryDomainId :: string
  xr_workloadPhase :: WorkloadPhase
  xr_placementMode :: PrismFabricPlacementMode
  xr_sourceMemoryDomainId :: "string option"
  xr_destinationMemoryDomainId :: "string option"
  xr_transportPath :: "PrismMemoryTransportEdge list"
  xr_transferRepresentation :: "string option"
  xr_transferredByteCount :: "int option"
  xr_transferDurationMs :: "int option"
  xr_modelArtifactDigest :: string
  xr_computeImageDigest :: string
  xr_targetCapabilitySignature :: string
  xr_kvNamespaceDigest :: "string option"
  xr_kvResidencyBefore :: "PrismMemoryDomainKind option"
  xr_kvResidencyAfter :: "PrismMemoryDomainKind option"
  xr_cacheStatus :: "string option"
  xr_executionDurationMs :: int
  xr_peakSourceMemoryBytes :: "int option"
  xr_peakDestinationMemoryBytes :: "int option"
  xr_finalState :: string
  xr_failureClass :: "string option"
  xr_emittedAt :: string
  xr_signature :: string

definition nextReceiptId :: "nat \<Rightarrow> string \<times> nat" where
  "nextReceiptId counter = (''receipt_'' @ show_int (int (counter + 1)), counter + 1)"

definition createFabricExecutionReceipt ::
    "millis \<Rightarrow> string \<Rightarrow> string \<Rightarrow> string \<Rightarrow> string \<Rightarrow> WorkloadPhase \<Rightarrow> PrismFabricPlacementMode \<Rightarrow> nat \<Rightarrow>
     PrismFabricExecutionReceipt \<times> nat" where
  "createFabricExecutionReceipt now requestId routeId deviceId domainId phase mode counter =
     (let (i, counter') = nextReceiptId counter
      in (\<lparr>xr_receiptId = i, xr_requestId = requestId, xr_routeId = routeId, xr_dharmaLeaseId = None, xr_sessionId = None,
           xr_selectedDeviceId = deviceId, xr_selectedMemoryDomainId = domainId, xr_workloadPhase = phase,
           xr_placementMode = mode, xr_sourceMemoryDomainId = None, xr_destinationMemoryDomainId = None,
           xr_transportPath = [], xr_transferRepresentation = None, xr_transferredByteCount = None,
           xr_transferDurationMs = None, xr_modelArtifactDigest = ''sha256:unset'', xr_computeImageDigest = ''sha256:unset'',
           xr_targetCapabilitySignature = ''unset'', xr_kvNamespaceDigest = None, xr_kvResidencyBefore = None,
           xr_kvResidencyAfter = None, xr_cacheStatus = None, xr_executionDurationMs = 0, xr_peakSourceMemoryBytes = None,
           xr_peakDestinationMemoryBytes = None, xr_finalState = ''pending'', xr_failureClass = None,
           xr_emittedAt = toISOString now, xr_signature = []\<rparr>, counter'))"

definition addTransportPath :: "PrismFabricExecutionReceipt \<Rightarrow> PrismMemoryTransportEdge list \<Rightarrow> PrismFabricExecutionReceipt" where
  "addTransportPath receipt edges = receipt\<lparr>xr_transportPath := edges\<rparr>"

definition addKvResidency ::
    "PrismFabricExecutionReceipt \<Rightarrow> PrismMemoryDomainKind option \<Rightarrow> PrismMemoryDomainKind option \<Rightarrow> PrismFabricExecutionReceipt" where
  "addKvResidency receipt before after = receipt\<lparr>xr_kvResidencyBefore := before, xr_kvResidencyAfter := after\<rparr>"

definition fabric_signReceipt :: "PrismFabricExecutionReceipt \<Rightarrow> string \<Rightarrow> PrismFabricExecutionReceipt" where
  "fabric_signReceipt receipt signature = receipt\<lparr>xr_signature := signature\<rparr>"

definition TERMINAL_STATES :: "string list" where
  "TERMINAL_STATES = [''pending'', ''completed'', ''failed'', ''cancelled'', ''abandoned'', ''evacuated'']"

definition isReceiptComplete :: "PrismFabricExecutionReceipt \<Rightarrow> bool" where
  "isReceiptComplete receipt \<longleftrightarrow>
     (if blank_text (xr_receiptId receipt) then False
      else if blank_text (xr_requestId receipt) then False
      else if blank_text (xr_routeId receipt) then False
      else if blank_text (xr_selectedDeviceId receipt) then False
      else if blank_text (xr_selectedMemoryDomainId receipt) then False
      else if blank_text (xr_emittedAt receipt) then False
      else if xr_executionDurationMs receipt < 0 then False
      else if xr_finalState receipt \<notin> set TERMINAL_STATES then False
      else if blank_text (xr_signature receipt) then False
      else True)"

text \<open>A receipt that was only planned counts as complete once it is signed, since \<open>pending\<close> is in the table.\<close>

lemma pending_receipt_complete:
  assumes "\<forall>s \<in> {requestId, routeId, deviceId, domainId, signature, toISOString now}. \<not> blank_text s"
  shows "isReceiptComplete (fabric_signReceipt (fst (createFabricExecutionReceipt now requestId routeId deviceId domainId
    phase mode counter)) signature)"
  using assms by (simp add: isReceiptComplete_def fabric_signReceipt_def createFabricExecutionReceipt_def nextReceiptId_def
      TERMINAL_STATES_def blank_text_def)

section \<open>The best of a list\<close>

lemma hd_sort_key:
  assumes "xs \<noteq> []"
  shows "hd (sort_key k xs) \<in> set xs \<and> (\<forall>y \<in> set xs. k (hd (sort_key k xs)) \<le> k y) \<and>
    List.find (\<lambda>x. k x = k (hd (sort_key k xs))) xs = Some (hd (sort_key k xs))"
proof -
  obtain z zs where z: "sort_key k xs = z # zs" using assms by (cases "sort_key k xs") (auto dest: arg_cong [of _ _ length])
  have "sorted (List.map k (sort_key k xs))" by simp
  with z have "\<forall>y \<in> set zs. k z \<le> k y" by simp
  moreover have "set xs = insert z (set zs)" by (metis z list.simps(15) set_sort)
  moreover have "List.filter (\<lambda>x. k x = k z) xs = z # List.filter (\<lambda>x. k x = k z) zs"
    using sort_key_stable [of k "k z" xs] by (simp add: z)
  then have "List.find (\<lambda>x. k x = k z) xs = Some z"
    by (induction xs) (auto split: if_splits)
  ultimately show ?thesis by (simp add: z)
qed

lemma most_free_best: "most_free d ds \<in> insert d (set ds) \<and> (\<forall>x \<in> insert d (set ds). domain_free x \<le> domain_free (most_free d ds))"
  by (induction ds rule: rev_induct) (auto simp: most_free_def)

text \<open>The transport chosen for a handoff is available if any is, then of the expected kind if any of these is.\<close>

lemma selectTransportPath_best:
  assumes "selectTransportPath src dst es = Some e"
  shows "e \<in> set es \<and> (\<forall>e' \<in> set es. te_availabilityState e' = Edge_available \<longrightarrow>
    te_availabilityState e = Edge_available \<and>
    (te_transportKind e' = getClosestTransportKind src dst \<longrightarrow> te_transportKind e = getClosestTransportKind src dst))"
proof -
  let ?c = "List.filter (\<lambda>e. te_availabilityState e = Edge_available \<or> te_availabilityState e = Edge_untested) es"
  let ?k = "transport_penalty (getClosestTransportKind src dst)"
  have ne: "?c \<noteq> []" and e: "e = hd (sort_key ?k ?c)"
    using assms by (auto simp: selectTransportPath_def Let_def split: list.splits)
  from hd_sort_key [OF ne, of ?k] e have c: "e \<in> set ?c" and least: "\<And>y. y \<in> set ?c \<Longrightarrow> ?k e \<le> ?k y" by auto
  from c have "e \<in> set es" by simp
  moreover have "te_availabilityState e = Edge_available \<and>
      (te_transportKind e' = getClosestTransportKind src dst \<longrightarrow> te_transportKind e = getClosestTransportKind src dst)"
    if "e' \<in> set es" "te_availabilityState e' = Edge_available" for e'
    using least [of e'] that by (simp add: transport_penalty_def split: if_splits)
  ultimately show ?thesis by blast
qed

section \<open>The score of a placement\<close>

lemma num_add_mono: "a \<le> b \<Longrightarrow> c \<le> d \<Longrightarrow> num_add a c \<le> num_add b d"
  by (simp add: num_add_def fl_mono)

lemma num_mul_mono: "a \<le> b \<Longrightarrow> 0 \<le> c \<Longrightarrow> num_mul a c \<le> num_mul b c"
  by (simp add: num_mul_def fl_mono mult_right_mono)

lemma clamp01_mono: "a \<le> b \<Longrightarrow> clamp01 a \<le> clamp01 b"
  by (auto simp: clamp01_def max_def min_def)

lemma transfer_score_anti:
  assumes "a \<le> b" shows "transfer_score (Some b) \<le> transfer_score (Some a)"
proof -
  have "(if a > 0 then num_div a 5000 else 0) \<le> (if b > 0 then num_div b 5000 else 0)"
    using assms num_div_mono [of a b 5000] num_div_mono [of 0 b 5000] by (auto simp: num_div_def)
  then show ?thesis by (simp add: transfer_score_def clamp01_mono num_sub_def fl_mono)
qed

lemma candidate_costs:
  assumes "d \<in> set (enumerateCandidatePlacements graph request)"
  shows "fd_estimatedExecutionCost d =
      estimateExecutionCost (fq_inputTokenCount request) (fq_requestedOutputTokens request) False"
    and "fd_expectedKvReuse d = False" and "\<exists>c. fd_estimatedTransferCost d = Some c"
proof -
  from assms obtain device where d: "candidate_on graph request device = Some d"
    by (force simp: enumerateCandidatePlacements_def List.map_filter_def)
  then show "fd_estimatedExecutionCost d =
      estimateExecutionCost (fq_inputTokenCount request) (fq_requestedOutputTokens request) False"
    "fd_expectedKvReuse d = False"
    by (auto simp: candidate_on_def Let_def split: if_splits list.splits)
  have "\<exists>c. estimateMovementCost n (first_edge (findTransportPath es i)) = Some c" for n es i
  proof (cases "findTransportPath es i")
    case (Cons e rest)
    then have "e \<in> set (findTransportPath es i)" by simp
    then have "te_availabilityState e \<noteq> Edge_unavailable" by (auto simp: findTransportPath_def dest: in_set_takeD)
    with Cons show ?thesis by (auto simp: estimateMovementCost_def first_edge_def Let_def split: option.splits)
  qed (simp add: estimateMovementCost_def first_edge_def)
  with d show "\<exists>c. fd_estimatedTransferCost d = Some c"
    by (auto simp: candidate_on_def Let_def split: if_splits list.splits)
qed

lemma score_by_cost:
  assumes "a \<in> set (enumerateCandidatePlacements graph request)" "b \<in> set (enumerateCandidatePlacements graph request)"
    and "the (fd_estimatedTransferCost a) \<le> the (fd_estimatedTransferCost b)"
  shows "scorePlacement b request \<le> scorePlacement a request"
proof -
  obtain x y where "fd_estimatedTransferCost a = Some x" "fd_estimatedTransferCost b = Some y"
    using candidate_costs(3) assms(1,2) by metis
  with assms(3) have "transfer_score (fd_estimatedTransferCost b) \<le> transfer_score (fd_estimatedTransferCost a)"
    by (simp add: transfer_score_anti)
  then show ?thesis
    using candidate_costs(1,2) [OF assms(1)] candidate_costs(1,2) [OF assms(2)]
    by (auto simp: scorePlacement_def Let_def intro!: num_add_mono num_mul_mono fl_nonneg)
qed

section \<open>Which placement is selected\<close>

lemma selected_cases:
  assumes "selectPlacement graph request budget = Some best"
  obtains d where "d \<in> set (enumerateCandidatePlacements graph request)" "has_capacity graph budget d"
    "best = d\<lparr>fd_policyBasis := ''scored'', fd_decisionReason := ''Selected device '' @ fd_selectedDeviceId d @
       '' with score '' @ toFixed3 (scorePlacement d request)\<rparr>"
    "\<And>d'. d' \<in> set (enumerateCandidatePlacements graph request) \<Longrightarrow> has_capacity graph budget d' \<Longrightarrow>
       scorePlacement d' request \<le> scorePlacement d request"
proof -
  let ?ds = "enumerateCandidatePlacements graph request"
  let ?xs = "List.filter (\<lambda>(d, score). has_capacity graph budget d) (List.map (\<lambda>d. (d, scorePlacement d request)) ?ds)"
  let ?k = "\<lambda>(d, score). - score"
  obtain d score rest where z: "sort_key ?k ?xs = (d, score) # rest"
    and best: "best = d\<lparr>fd_policyBasis := ''scored'', fd_decisionReason := ''Selected device '' @ fd_selectedDeviceId d @
       '' with score '' @ toFixed3 score\<rparr>"
    using assms by (auto simp: selectPlacement_def Let_def split: list.splits)
  then have "?xs \<noteq> []" by auto
  from hd_sort_key [OF this, of ?k] z have "(d, score) \<in> set ?xs" "\<forall>y \<in> set ?xs. - score \<le> ?k y" by auto
  then have "d \<in> set ?ds" "has_capacity graph budget d" "score = scorePlacement d request"
    "\<And>d'. d' \<in> set ?ds \<Longrightarrow> has_capacity graph budget d' \<Longrightarrow> scorePlacement d' request \<le> score" by auto
  with best show ?thesis by (intro that) auto
qed

lemma sort_key_empty: "sort_key k xs = [] \<longleftrightarrow> xs = []"
  by (metis set_sort set_empty)

lemma selected_none:
  "selectPlacement graph request budget = None \<longleftrightarrow>
     (\<forall>d \<in> set (enumerateCandidatePlacements graph request). \<not> has_capacity graph budget d)"
proof -
  let ?xs = "List.filter (\<lambda>(d, score). has_capacity graph budget d)
      (List.map (\<lambda>d. (d, scorePlacement d request)) (enumerateCandidatePlacements graph request))"
  have "selectPlacement graph request budget = None \<longleftrightarrow> sort_key (\<lambda>(d, score). - score) ?xs = []"
    by (cases "sort_key (\<lambda>(d, score). - score) ?xs") (simp_all add: selectPlacement_def Let_def split: prod.splits)
  also have "\<dots> \<longleftrightarrow> ?xs = []" by (rule sort_key_empty)
  also have "\<dots> \<longleftrightarrow> (\<forall>d \<in> set (enumerateCandidatePlacements graph request). \<not> has_capacity graph budget d)"
    by (auto simp: filter_empty_conv)
  finally show ?thesis .
qed

text \<open>
  C26: the placement that is selected is as cheap to reach as any.  The planner answers \<open>null\<close> exactly when no candidate has a
  memory domain below the reclaim threshold.  Otherwise the answer is such a candidate with the best score, and every candidate with
  room that is cheaper to reach has the same score: the score of a candidate depends on its transfer cost alone and
  falls with it, in binary64 arithmetic with its roundings.
\<close>

theorem placement_cheapest:
  "case selectPlacement graph request budget of
     None \<Rightarrow> \<forall>d \<in> set (enumerateCandidatePlacements graph request). \<not> has_capacity graph budget d
   | Some best \<Rightarrow> \<exists>d \<in> set (enumerateCandidatePlacements graph request).
       has_capacity graph budget d \<and> fd_selectedDeviceId best = fd_selectedDeviceId d \<and>
       fd_selectedMemoryDomainId best = fd_selectedMemoryDomainId d \<and>
       (\<forall>d' \<in> {d' \<in> set (enumerateCandidatePlacements graph request). has_capacity graph budget d'}.
          scorePlacement d' request \<le> scorePlacement d request \<and>
          (the (fd_estimatedTransferCost d) \<le> the (fd_estimatedTransferCost d') \<or>
           scorePlacement d' request = scorePlacement d request))"
proof (cases "selectPlacement graph request budget")
  case None
  show ?thesis unfolding None option.case by (rule selected_none [THEN iffD1, OF None])
next
  case (Some best)
  then obtain d where d: "d \<in> set (enumerateCandidatePlacements graph request)" "has_capacity graph budget d"
    "fd_selectedDeviceId best = fd_selectedDeviceId d" "fd_selectedMemoryDomainId best = fd_selectedMemoryDomainId d"
    and most: "\<And>d'. d' \<in> set (enumerateCandidatePlacements graph request) \<Longrightarrow> has_capacity graph budget d' \<Longrightarrow>
       scorePlacement d' request \<le> scorePlacement d request"
    by (rule selected_cases) auto
  have "the (fd_estimatedTransferCost d) \<le> the (fd_estimatedTransferCost d') \<or>
      scorePlacement d' request = scorePlacement d request"
    if "d' \<in> set (enumerateCandidatePlacements graph request)" "has_capacity graph budget d'" for d'
    using most [OF that] score_by_cost [OF that(1) d(1)] by fastforce
  with Some d most show ?thesis by auto
qed

text \<open>
  Two cards, of which the first is reached over an edge with a latency of 50 ms: the second is selected.
\<close>

definition two_cards :: PrismTopologyGraph where
  "two_cards = (createEmptyTopologyGraph [] ''h'')\<lparr>
     tg_devices := [createDevice ''far'' Dev_discrete_gpu Backend_cuda 1000, createDevice ''near'' Dev_discrete_gpu Backend_cuda 1000],
     tg_memoryDomains := [createMemoryDomain ''m1'' Mem_discrete_gpu_vram 1000\<lparr>mdi_deviceIds := [''far'']\<rparr>,
       createMemoryDomain ''m2'' Mem_discrete_gpu_vram 1000\<lparr>mdi_deviceIds := [''near'']\<rparr>],
     tg_transportEdges := [createTransportEdge ''e'' ''m1'' ''m0'' Tran_pinned_host_copy
       \<lparr>te_measuredBandwidthBytesPerSecond := Some 1, te_measuredLatencyMicroseconds := Some 50000\<rparr>]\<rparr>"

definition empty_prompt :: PrismFabricPlacementRequest where
  "empty_prompt = createPlacementRequest ''r'' ''q'' Load_prefill [] [] 0 0"

lemma fl_quarters: "fl (1 / 4) = 1 / 4" "fl (1 / 2) = 1 / 2" "fl (1 / 8) = 1 / 8" "fl (3 / 8) = 3 / 8" "fl 5000 = 5000"
  using fl_dyadic [of 1 "-2"] fl_dyadic [of 1 "-1"] fl_dyadic [of 1 "-3"] fl_dyadic [of 3 "-3"] fl_of_nat [of 5000]
  by (simp_all add: power_int_def power_divide)

lemma two_cards_scores:
  assumes "fd_estimatedExecutionCost a = 0" "fd_estimatedExecutionCost b = 0" "\<not> fd_expectedKvReuse a" "\<not> fd_expectedKvReuse b"
    and "fd_estimatedTransferCost a = Some 5000" "fd_estimatedTransferCost b = Some 0"
  shows "scorePlacement a r < scorePlacement b r"
proof -
  define k where "k = num_mul (1 / 2) (fl (2 / 10))"
  define c where "c = fl (fl (3 / 10))"
  have c: "0 \<le> c" by (simp add: c_def fl_nonneg)
  have "fl (2 / 10) \<le> 1 / 4" "0 \<le> fl (2 / 10)" using fl_mono [of "2 / 10" "1 / 4"] by (simp_all add: fl_quarters fl_nonneg)
  then have k: "0 \<le> k" "k \<le> 1 / 8"
    using fl_mono [of "1 / 2 * fl (2 / 10)" "1 / 8"] by (simp_all add: k_def num_mul_def fl_quarters fl_nonneg)
  have "scorePlacement a r = num_add (1 / 4) k"
    using assms by (simp add: scorePlacement_def scoreKvLocality_def transfer_score_def clamp01_def k_def Let_def
        num_sub_def num_div_def num_mul_def num_add_def fl_quarters)
  also have "\<dots> \<le> 3 / 8" using k fl_mono [of "1 / 4 + k" "3 / 8"] by (simp add: num_add_def fl_quarters)
  also have "\<dots> < 1 / 2" by simp
  also have "1 / 2 \<le> num_add (num_add (1 / 2) c) k"
  proof -
    have "1 / 2 \<le> num_add (1 / 2) c"
      using fl_mono [of "1 / 2" "1 / 2 + c"] c by (simp add: num_add_def fl_quarters)
    then show ?thesis using k fl_mono [of "1 / 2" "num_add (1 / 2) c + k"]
      by (simp add: num_add_def [of _ k] fl_quarters)
  qed
  also have "num_add (num_add (1 / 2) c) k = scorePlacement b r"
    using assms by (simp add: scorePlacement_def scoreKvLocality_def transfer_score_def clamp01_def k_def c_def Let_def
        num_sub_def num_div_def num_mul_def num_add_def fl_quarters)
  finally show ?thesis .
qed

lemma two_cards_candidates:
  obtains a b where "enumerateCandidatePlacements two_cards empty_prompt = [a, b]"
    "fd_estimatedExecutionCost a = 0" "fd_estimatedExecutionCost b = 0" "\<not> fd_expectedKvReuse a" "\<not> fd_expectedKvReuse b"
    "fd_estimatedTransferCost a = Some 5000" "fd_estimatedTransferCost b = Some 0" "fd_selectedDeviceId b = ''near''"
    "has_capacity two_cards createFabricMemoryBudget a" "has_capacity two_cards createFabricMemoryBudget b"
proof -
  have "0 < fl (9 / 10)" by (simp add: fl_def fl_pos_positive)
  then show ?thesis
    by (intro that [of "the (candidate_on two_cards empty_prompt (tg_devices two_cards ! 0))"
          "the (candidate_on two_cards empty_prompt (tg_devices two_cards ! 1))"])
      (simp_all add: two_cards_def empty_prompt_def enumerateCandidatePlacements_def candidate_on_def has_capacity_def Let_def
        createEmptyTopologyGraph_def createDevice_def createMemoryDomain_def createTransportEdge_def findTransportPath_def
        createPlacementRequest_def createFabricMemoryBudget_def isDeviceAllowed_def List.map_filter_simps most_free_def
        first_edge_def estimateMovementCost_def estimateExecutionCost_def nullish_def num_div_def num_mul_def num_add_def
        fl_quarters)
qed

theorem placement_cheapest_witness:
  "map_option fd_selectedDeviceId (selectPlacement two_cards empty_prompt createFabricMemoryBudget) = Some ''near''"
proof -
  obtain a b where c: "enumerateCandidatePlacements two_cards empty_prompt = [a, b]"
      "has_capacity two_cards createFabricMemoryBudget a" "has_capacity two_cards createFabricMemoryBudget b"
    and cost: "fd_estimatedTransferCost a = Some 5000" "fd_estimatedTransferCost b = Some 0" and near: "fd_selectedDeviceId b = ''near''"
    and less: "scorePlacement a empty_prompt < scorePlacement b empty_prompt"
    by (rule two_cards_candidates) (simp add: two_cards_scores)
  show ?thesis
    using placement_cheapest [of two_cards empty_prompt createFabricMemoryBudget] c cost near less
    by (auto split: option.splits)
qed

text \<open>
  The candidate's reason is the one field that reads more of a device than its identifier.
\<close>

definition without_reason :: "PrismFabricPlacementDecision \<Rightarrow> PrismFabricPlacementDecision" where
  "without_reason d = d\<lparr>fd_decisionReason := []\<rparr>"

lemma sort_key_map_same:
  assumes "\<And>x. k (f x) = k x" shows "sort_key k (List.map f xs) = List.map f (sort_key k xs)"
proof -
  have "insort_key k (f x) (List.map f ys) = List.map f (insort_key k x ys)" for x ys
    by (induction ys) (simp_all add: assms)
  then show ?thesis by (induction xs) simp_all
qed

definition pick_placement ::
    "PrismTopologyGraph \<Rightarrow> PrismFabricPlacementRequest \<Rightarrow> PrismFabricMemoryBudget \<Rightarrow> PrismFabricPlacementDecision list \<Rightarrow>
     PrismFabricPlacementDecision option" where
  "pick_placement graph request budget ds =
     (case sort_key (\<lambda>d. - scorePlacement d request) (List.filter (has_capacity graph budget) ds) of
        [] \<Rightarrow> None
      | best # rest \<Rightarrow> Some (best\<lparr>fd_policyBasis := ''scored'', fd_decisionReason := ''Selected device '' @
          fd_selectedDeviceId best @ '' with score '' @ toFixed3 (scorePlacement best request)\<rparr>))"

lemma selectPlacement_pick:
  "selectPlacement graph request budget = pick_placement graph request budget (enumerateCandidatePlacements graph request)"
proof -
  let ?p = "\<lambda>d. (d, scorePlacement d request)"
  have "insort_key (\<lambda>(d, score). - score) (?p x) (List.map ?p ys) =
      List.map ?p (insort_key (\<lambda>d. - scorePlacement d request) x ys)" for x ys
    by (induction ys) simp_all
  then have sorted: "sort_key (\<lambda>(d, score). - score) (List.map ?p xs) = List.map ?p (sort_key (\<lambda>d. - scorePlacement d request) xs)"
    for xs by (induction xs) simp_all
  have "List.filter (\<lambda>(d, score). has_capacity graph budget d) (List.map ?p xs) =
      List.map ?p (List.filter (has_capacity graph budget) xs)" for xs by (induction xs) simp_all
  then show ?thesis by (simp add: selectPlacement_def pick_placement_def Let_def sorted split: list.splits)
qed

lemma pick_without_reason:
  "pick_placement graph request budget (List.map without_reason ds) = pick_placement graph request budget ds"
proof -
  have s: "scorePlacement (without_reason d) request = scorePlacement d request" for d
    by (simp add: scorePlacement_def without_reason_def)
  have c: "has_capacity graph budget (without_reason d) = has_capacity graph budget d" for d
    by (simp add: has_capacity_def without_reason_def)
  have "List.filter (has_capacity graph budget) (List.map without_reason ds) =
      List.map without_reason (List.filter (has_capacity graph budget) ds)" by (induction ds) (simp_all add: c)
  then show ?thesis
    by (simp add: pick_placement_def sort_key_map_same s split: list.splits) (simp add: without_reason_def s)
qed

lemma candidates_by_id:
  assumes "\<And>d. cd_deviceId (f d) = cd_deviceId d"
  shows "List.map without_reason (enumerateCandidatePlacements (graph\<lparr>tg_devices := List.map f (tg_devices graph)\<rparr>) request) =
    List.map without_reason (enumerateCandidatePlacements graph request)"
proof -
  have one: "map_option without_reason (candidate_on (graph\<lparr>tg_devices := ds\<rparr>) request (f d)) =
      map_option without_reason (candidate_on graph request d)" for ds d
    by (auto simp: candidate_on_def isDeviceAllowed_def assms without_reason_def Let_def split: list.splits)
  have "List.map without_reason (List.map_filter (candidate_on (graph\<lparr>tg_devices := ds\<rparr>) request) (List.map f xs)) =
      List.map without_reason (List.map_filter (candidate_on graph request) xs)" for ds xs
  proof (induction xs)
    case (Cons x xs)
    with one [of ds x] show ?case
      by (cases "candidate_on (graph\<lparr>tg_devices := ds\<rparr>) request (f x)"; cases "candidate_on graph request x")
        (simp_all add: List.map_filter_simps)
  qed (simp add: List.map_filter_simps)
  then show ?thesis by (simp add: enumerateCandidatePlacements_def)
qed

text \<open>
  C27: the selected placement depends on the devices only through their identifiers.  Whatever else of the devices changes,
  their health, class, backend, supported workloads or memory, the same decision comes out: a workload can be placed on a
  device that is unreachable or cannot run it.
\<close>

theorem placement_ignores_devices:
  assumes "\<And>d. cd_deviceId (f d) = cd_deviceId d"
  shows "selectPlacement (graph\<lparr>tg_devices := List.map f (tg_devices graph)\<rparr>) request budget =
    selectPlacement graph request budget"
proof -
  have c: "has_capacity (graph\<lparr>tg_devices := ds\<rparr>) = has_capacity graph" for ds by (simp add: fun_eq_iff has_capacity_def)
  then have p: "pick_placement (graph\<lparr>tg_devices := ds\<rparr>) request budget xs = pick_placement graph request budget xs"
    for ds xs unfolding pick_placement_def by simp
  show ?thesis
    using candidates_by_id [OF assms, of graph request]
    by (metis selectPlacement_pick pick_without_reason p)
qed

text \<open>An unreachable graphics card is chosen for a prompt.\<close>

definition one_card :: PrismTopologyGraph where
  "one_card = addMemoryDomain (addDeviceToGraph (createEmptyTopologyGraph [] ''h'')
     (createDevice ''d'' Dev_discrete_gpu Backend_cuda 1000))
     (createMemoryDomain ''m'' Mem_discrete_gpu_vram 1000\<lparr>mdi_deviceIds := [''d'']\<rparr>)"

theorem placement_ignores_devices_witness:
  "map_option fd_selectedDeviceId (selectPlacement
     (one_card\<lparr>tg_devices := List.map (\<lambda>d. setDeviceHealth d Health_unreachable) (tg_devices one_card)\<rparr>)
     (createPlacementRequest ''r'' ''q'' Load_prefill [] [] 0 0) createFabricMemoryBudget) = Some ''d''"
proof -
  let ?r = "createPlacementRequest ''r'' ''q'' Load_prefill [] [] 0 0"
  have "cd_deviceId (setDeviceHealth d Health_unreachable) = cd_deviceId d" for d by (simp add: setDeviceHealth_def)
  then have same: "selectPlacement
      (one_card\<lparr>tg_devices := List.map (\<lambda>d. setDeviceHealth d Health_unreachable) (tg_devices one_card)\<rparr>) ?r createFabricMemoryBudget =
    selectPlacement one_card ?r createFabricMemoryBudget" by (rule placement_ignores_devices)
  have "0 < fl (9 / 10)" by (simp add: fl_def fl_pos_positive)
  then have "map_option fd_selectedDeviceId (selectPlacement one_card ?r createFabricMemoryBudget) = Some ''d''"
    by (simp add: one_card_def selectPlacement_def enumerateCandidatePlacements_def candidate_on_def has_capacity_def Let_def
        addMemoryDomain_def addDeviceToGraph_def createEmptyTopologyGraph_def createDevice_def createMemoryDomain_def
        createPlacementRequest_def createFabricMemoryBudget_def isDeviceAllowed_def List.map_filter_simps most_free_def num_div_def)
  then show ?thesis by (simp only: same)
qed

end
