(* ===== verification/Spec2Isabelle.thy ===== *)
theory Spec2Isabelle
  imports Handoff_Coordinator Transport_Segments Transport_Envelope Transport_Session Kv_Replay
    Worker_Engine Phase_Routing Dharma_Authority Dharma_Service Dharma_Compute_Service
    Dharma_Convergence_Service Agent_Patch_Tool Agent_Permission Agent_Arity Agent_Ids
    Codex_Merkle Codex_Audit Codex_Groups Codex_Release
    Work_Divergence Tool_Capacity Tool_Flight Fabric_Placement
begin

text \<open>
  \<^bold>\<open>The serving layer, the collaboration layer, the coordination of work and the tools of the agent of Tribunus.\<close>

  Prism serves language models on several workers.  A \<^emph>\<open>router\<close> keeps a registry of workers and an
  index of the prefixes each has cached, filters the workers that may take a request, scores them and
  selects one, and decides on retries and failover.  A \<^emph>\<open>worker\<close> admits a request, runs it on the
  native engine and emits KV events, receipts and metrics.  A \<^emph>\<open>KV handoff\<close> moves the cache of a
  request from one worker to another: a coordinator checks both sides, drives a transport adapter and
  a state machine, and emits a receipt.  The \<^emph>\<open>local transport\<close> is one such transport, over shared
  memory segments on one host.  The \<^emph>\<open>memory fabric\<close> describes the devices and memory domains of a host and
  places work on them.  The sources are under
  \<open>src/packages/runtime/src/tribunus/prism/serving/\<close>; the paths of the first group below are relative
  to it.

  Dharma lets peers work on one session.  A \<^emph>\<open>session\<close> has members, grants and a workspace; the
  \<^emph>\<open>controller\<close> decides whether a member may run a command, from the state of the session, the
  membership, the key epoch, the grant and its resource scope, and accepted commands are recorded as
  \<^emph>\<open>contributions\<close>, which earn profiles.  A \<^emph>\<open>ledger\<close> of signed events carries identities, federations,
  work offers, receipts and balances.  A session rents \<^emph>\<open>compute\<close> through leases with budgets, artifacts
  and usage receipts, and several peers \<^emph>\<open>converge\<close> on one outcome by claiming tasks, submitting result
  bundles, resolving conflicts and extending a chain of canonical outcomes.  The \<^emph>\<open>codex\<close> is a shared data
  set: its entries are committed to in Merkle trees, its keys belong to groups with epochs, packets are
  decrypted under leases, and an export needs a threshold of signers, a release session and an entry in a
  hash-chained log.  The sources are under
  \<open>src/packages/runtime/src/tribunus/dharma/\<close>; the paths of the second group are relative to it.

  The \<^emph>\<open>agent\<close> changes files on behalf of a language model.  The \<^emph>\<open>edit tool\<close> replaces a text the model
  quotes, searching with nine strategies of decreasing strictness; the \<^emph>\<open>patch tool\<close> parses a patch,
  checks every hunk against the files and then writes.  Both ask the \<^emph>\<open>permission service\<close>, which
  evaluates rules with wildcard patterns and otherwise lets the request wait for the user; a permanent
  approval of a shell command covers a prefix of it.  Identifiers encode time and a counter.  The sources
  are \<open>tool/\<close>, \<open>patch/\<close>, \<open>permission/\<close>, \<open>id/\<close> and \<open>util/\<close> under \<open>src/packages/runtime/src/\<close> and
  \<open>permission.ts\<close> and \<open>util/wildcard.ts\<close> under \<open>src/packages/core/src/\<close>.

  \<^bold>\<open>Coordination\<close> runs work outside the request that asked for it.  A \<^emph>\<open>work queue\<close> appends envelopes to the
  streams of a Valkey server, hands them to consumers, and records each outcome in a durable store
  before the entry is acknowledged; a \<^emph>\<open>scheduler\<close> keeps retries and delayed work in sorted sets and
  promotes what is due.  \<^emph>\<open>Recovery\<close> rebuilds the state of the server
  from the store, and a \<^emph>\<open>report\<close> compares the two.  A \<^emph>\<open>tool scheduler\<close> runs the calls of one code mode execution under a limit and
  limits of their classes, \<^emph>\<open>adaptive limits\<close> set these from the pressure of the host, and a
  \<^emph>\<open>bridge\<close> counts the calls and bounds the answers, with a cache, calls that share one execution,
  and a log of events.  The sources are
  \<open>coordination/\<close> under \<open>src/packages/runtime/src/\<close>.

  \<^bold>\<open>Theories and sources.\<close>

  \<^item> \<open>Prelude\<close>, \<open>Js_Runtime\<close>, \<open>Js_Number\<close>, \<open>Js_Map\<close>, \<open>Js_Text\<close>, \<open>Js_Json\<close>, \<open>Js_Base64\<close>: what the sources use of JavaScript: truthiness,
    printing of integers, \<open>join\<close>, dates with NaN, chains of early returns, \<open>reduce\<close>; the 32-bit string
    hash and \<open>toISOString\<close>; base64; binary64 arithmetic; \<open>Map\<close> with its insertion order and maps of
    arrays; prefixes, searches and sorting of strings; JSON values with \<open>JSON.stringify\<close> and the
    canonical form of Dharma.  \<open>keyed_store\<close> is the interface of a store, interpreted on \<open>Map\<close>.
  \<^item> \<open>Transition_Systems\<close>: the interface of the state machines, a table and an action function
    (\<open>action_machine\<close>), with a rank that decreases (\<open>ranked_table\<close>, \<open>ranked_machine\<close>); interpreted for
    the handoff, import, segment, worker, model and pin machines of Prism and for the session,
    membership, federation, receipt, lease, execution, namespace, task, claim and release session machines of
    Dharma.
  \<^item> \<open>Handoff_Types\<close>, \<open>Handoff_Machine\<close>, \<open>Handoff_Import\<close>, \<open>Handoff_Checks\<close>, \<open>Handoff_Coordinator\<close>:
    \<open>kv_handoff/\<close>.  Types as in \<open>handoff-types.ts\<close>; the state machine with cancellation and rollback;
    the import record of the destination and the disposition of the source; requests, policies,
    eligibility, manifests, payloads, descriptors and their comparison; receipts, the fixture transport
    and the coordinator.  \<open>kv_transport\<close> is what the coordinator needs of a transport, interpreted on
    the fixture.
  \<^item> \<open>Transport_Segments\<close>, \<open>Transport_Envelope\<close>, \<open>Transport_Session\<close>: \<open>local_kv_transport/\<close>.  Segments
    with their lifecycle, sealing and orphan recovery; envelopes and trailers; capabilities, handshakes,
    control messages, policies and timeouts.
  \<^item> \<open>Router_Registry\<close>, \<open>Router_Selection\<close>: \<open>multi_worker/\<close>.  The registry, drain manager, candidate
    filter and lease checks; load scores, prefix affinity, selection, failover and retries.
  \<^item> \<open>Kv_Replay\<close>: \<open>kv-events.ts\<close>, \<open>kv-event-replay.ts\<close>, \<open>multi_worker/kv-index.ts\<close> and
    \<open>kv-index-replay.ts\<close>.  Both logs are instances of \<open>bounded_log\<close>.
  \<^item> \<open>Worker_Lifecycle\<close>, \<open>Worker_Requests\<close>, \<open>Worker_Engine\<close>: \<open>worker-*.ts\<close>, \<open>dharma-correlation.ts\<close>
    and \<open>engine-adapter.ts\<close>.
  \<^item> \<open>Phase_Roles\<close>, \<open>Phase_Routing\<close>: \<open>phase_roles/\<close>.  Roles, capabilities, requirements, capacities and
    budgets; route plans, execution pins, the phase lifecycle, failures and receipts.

  \<^item> \<open>Fabric_Types\<close>, \<open>Fabric_Placement\<close>: \<open>../fabric/\<close>.  Domains, edges, devices, the topology graph, budgets and
    policies; scores, the planner, handoffs and execution receipts.

  \<^item> \<open>Dharma_Session\<close>, \<open>Dharma_Grants\<close>, \<open>Dharma_Contribution\<close>, \<open>Dharma_Authority\<close>: \<open>session/\<close> and
    \<open>contribution/\<close>.  Lifecycle, membership, revocation, command and mutation machines; glob patterns and
    resource scopes; contribution records, policies and hooks; the authority check and the session
    service, whose calls are the steps of \<open>api_step\<close>.
  \<^item> \<open>Dharma_Events\<close>, \<open>Dharma_Ledger\<close>, \<open>Dharma_Service\<close>: \<open>types.ts\<close>, \<open>event-*.ts\<close>, \<open>federation.ts\<close>,
    \<open>work.ts\<close>, \<open>receipt.ts\<close>, \<open>balance.ts\<close>, \<open>identity.ts\<close>, \<open>api.ts\<close>.  Signed events and their validator;
    the entities of the ledger; the service.
  \<^item> \<open>Dharma_Compute\<close>, \<open>Dharma_Compute_Service\<close>: \<open>compute/compute-*.ts\<close>.
  \<^item> \<open>Dharma_Convergence\<close>, \<open>Dharma_Convergence_Service\<close>: \<open>session/multi-peer/\<close>.
  \<^item> \<open>Codex_Merkle\<close>, \<open>Codex_Audit\<close>, \<open>Codex_Groups\<close>, \<open>Codex_Leases\<close>, \<open>Codex_Release\<close>: \<open>codex/crypto/codex-merkle.ts\<close>,
    \<open>codex/campaign/\<close> and \<open>codex/mls/\<close>.  Trees, proofs and snapshots; threshold authorisation and the log;
    group policies, epochs and members; the store of leases; the lease authority and release sessions.

  \<^item> \<open>Agent_Text\<close>: texts as UTF-16 code units with the string methods the tools use, and \<open>util/bom.ts\<close>.
  \<^item> \<open>Agent_Files\<close>: what the tools use of \<open>core/src/filesystem.ts\<close>, and \<open>syncFile\<close> of \<open>util/bom.ts\<close>: reads, writes and
    removals that can fail, and a formatter that may change any file.
  \<^item> \<open>Edit_Distance\<close>, \<open>Agent_Edit\<close>: \<open>tool/edit.ts\<close>.  The edit distance, the replacers, \<open>replace\<close> and the
    handler.
  \<^item> \<open>Agent_Patch\<close>, \<open>Agent_Patch_Tool\<close>: \<open>patch/index.ts\<close> and \<open>tool/apply_patch.ts\<close>.  Parsing, matching and
    replacing of lines; hunks applied to files; the handler.
  \<^item> \<open>Agent_Wildcard\<close>, \<open>Agent_Permission\<close>, \<open>Agent_Arity\<close>: \<open>wildcard.ts\<close>, \<open>permission.ts\<close>,
    \<open>permission/index.ts\<close>, \<open>permission/arity.ts\<close>.  The service is the step relation \<open>perm_step\<close> over its
    state and the fibers that wait.
  \<^item> \<open>Agent_Ids\<close>: \<open>id/id.ts\<close>.

  \<^item> \<open>Work_Store\<close>, \<open>Work_Queue\<close>, \<open>Work_Scheduler\<close>: the work queue.  The in-memory store of facts; the
    Valkey server as a state with the commands the code sends, envelopes as fields, the queue and its
    handlers; the retry and due sets, promotion and cancellation.
  \<^item> \<open>Work_Recovery\<close>, \<open>Work_Divergence\<close>: \<open>recovery.ts\<close> and \<open>divergence-report.ts\<close>.  Plans, rebuilds, reconciliation
    and cold starts; the sections of the report.
  \<^item> \<open>Tool_Scheduler\<close>, \<open>Tool_Capacity\<close>, \<open>Tool_Bridge\<close>, \<open>Tool_Flight\<close>: code mode.  The scheduler with its waiting
    jobs as steps; limits computed from pressure; the bridge, the cache and the event log; single-flight calls with the
    queue of microtasks.

  \<^bold>\<open>Correspondence.\<close>  Every interface is a \<open>record\<close> with prefixed field names, every string union a
  \<open>datatype\<close>, every exported function a definition of the same name where it is free (a prefix tells
  apart functions of the same name in different modules).  A thrown error is \<open>Inl\<close>, \<open>null\<close> is \<open>None\<close>.
  Objects that are mutated are passed as state.  A \<open>Partial\<close> update is the function that overwrites the
  given fields.  Where the code awaits, the steps follow in the order of the code.  Parameters stand for
  what the program does not define: clock readings, generated identifiers, SHA-256, the transport
  adapter, the native inference server, the signature scheme, HMAC and the encryption of keys, what \<open>JSON.parse\<close> makes of a text, the order of \<open>localeCompare\<close>, and for the agent
  the resolution of paths, the formatter, the answers of the user and random bytes; files are a map from
  paths to texts, which nothing but the tool's own accesses and the formatter changes during a call, and a parameter tells which accesses fail.  Theorems that need SHA-256 to tell two texts apart assume it
  for these texts only.

  \<^bold>\<open>Numbers and strings.\<close>  Counters, sizes and times are integers below \<open>2 ^ 53\<close>, on which JavaScript
  is exact; the string hash is arithmetic on \<open>32 word\<close>; scores are rationals rounded to 53 significant
  bits after each operation, without overflow or underflow of the exponent.  Strings are sequences of
  bytes; instants are within the range of \<open>Date\<close>, which is checked where a caller's lifetime is added (\<open>authority_signLease\<close>); \<open>charCodeAt\<close> is the byte, which is exact on ASCII; the texts of the agent are sequences of UTF-16
  code units.  A date is the instant it denotes or a text
  that does not parse; a call reads the clock as often as the code where the readings can differ in the
  result, and else once.  Objects used as dictionaries are read at their own keys only.

  \<^bold>\<open>Loops.\<close>  All loops are structural recursions or functions proved to terminate, with three exceptions,
  partial functions with \<open>None\<close> for a loop that does not end: \<open>shift_loop\<close> is proved to return for every
  bound that is not negative and not to return otherwise, and \<open>chain_loop\<close> to return when the digests of
  the outcomes differ and not to return in a state the service reaches; \<open>occurrences_from\<close> returns for a
  text that is not empty.  There is no fuel.

  \<^bold>\<open>What is shown.\<close>
  \<^item> Handoff: a commit implies eligibility, compatibility and the three transport calls in order, over
    any transport; outcomes and receipts are characterised; the state machine terminates, reaches the
    completed state along one path only, and the import record of an activated import carries its whole
    history; dispositions are resolved once.
  \<^item> Transport: a released segment was sealed, offered, mapped, verified and acknowledged; a trailer
    accepts exactly the digest, checksum and length it was built for; digests determine their fields.
  \<^item> Router: the registry refines a finite map and keeps its invariant unless an update changes an identifier; what a drain request does, and
    how it is undone or completed; the filter admits exactly the
    workers that meet every condition; the selected worker has the greatest composite score and is the
    first such; the run length of an index is that of the longest run of consecutive numbers; failover
    takes the least loaded candidate.
  \<^item> Logs: a replay buffer holds exactly the last batches under consecutive numbers and reports exactly
    the missing ones.
  \<^item> Worker: admission returns the code of the first gate that fails, and an admitted request meets a
    ready worker; histories of workers and of models; the session table of the engine adapter; counters.
  \<^item> Phases: the exact action sequences of a pin; the phase score is monotone in every component; the
    verdicts of the role checks compared; what an envelope of the factories can serve.
  \<^item> Fabric: the selected placement is the cheapest to reach among those with room, up to rounding, and does not depend on
    the health of the devices; which pairs of memory domains have a transport.
  \<^item> Sessions: the controller reports the first condition that fails and accepts exactly when all hold;
    the compiled glob patterns match what the patterns mean; summaries and earned profiles of
    contributions; reachable states of the service are well formed.
  \<^item> Ledger: an event identifier is an exact content address; signed events pass the validator, and what
    the validator accepts is characterised; the federation machine; balances; the states of the service.
  \<^item> Compute: budgets are pointwise minima; which leases and executions can be reached; what the
    signature of a usage receipt covers.
  \<^item> Convergence: a task has at most one claim in every reachable state; the chain of outcomes is found
    and verifies when the digests differ; when a result bundle is verified.
  \<^item> Codex: a proof of membership is accepted exactly for the leaf at its index; a log whose entries were
    changed no longer verifies; what the threshold check accepts; a group refines a state with an epoch and
    a set of members; a lease is consumed at most a hundred times while its copies stay valid; the rate limit
    of the requests holds over every minute, and direct signings pass it by; when a session obtains a lease.
  \<^item> Editing: the edit distance is the length of a shortest edit script; an edit replaces one region that a
    replacer proposed, and its errors are characterised; what the tool leaves when it succeeds, is refused or a file access fails, up to what the formatter does.
  \<^item> Patches: what a patch does to the lines of a file; printed patches parse back; the tool writes nothing
    unless every hunk applies, and then only to paths the patch names, up to what the formatter does; a write that fails leaves the changes before it in place.
  \<^item> Permissions: the matcher accepts what a pattern stands for; which rule decides, against what the documentation says; no waiting request is
    lost unless another is asked under its identifier, and a reply settles exactly the requests it should; an approval outlives configured rules.
  \<^item> Work: of one envelope at most one outcome becomes terminal, with an exception for the dead letter
    that is proved; an entry is acknowledged only after its outcome is stored; an envelope is
    written and parsed back, but loses its fields in the replies of a documented server; what a promotion round does with the answer of the server, and no retry is ever promoted.
  \<^item> Recovery: each rebuild appends all open work of its stream again, a recovery plans nothing when replies are flat arrays, and when
    the report of divergences is healthy.
  \<^item> Tools: no class runs more calls than its limit, and a waiting call that is cancelled still runs; the
    adaptive limits recover when pressure falls; a bridge runs at most as many calls of a class as may run
    at once, since their ends are not told to the scheduler, and lets the others wait; calls of one key share an execution and
    every call is answered once.
  \<^item> Identifiers of one prefix and direction sort by creation within a window of the clock, and lose the upper bits of the time.
  \<^item> Some theorems state behaviour that deviates from the comments of the code, for instance that
    \<open>closeSession\<close> leaves the entries of finished requests in the table.

  \<^bold>\<open>Not modelled.\<close>  HTTP, process start-up, platform probes, JSON texts of streaming frames and of
  receipt digests, constant reports and metric names; SQL stores, cryptographic primitives and the
  processes, files and sandboxes of the operating system; the probes and adapters of the memory fabric, and of
  Dharma the entries, queries, exports and social records of the codex, the replication over hypercores, the trusted LAN, the live workspace and the
  failure drills; of the coordination the SQL store, metrics, leases and fan-out over Valkey; of the agent the model providers, the other tools, the server, the storage and the user
  interfaces, diffs and diagnostics shown to the user, and matching that ignores case on Windows.
\<close>

end
